(* ===== verification/Go_Prelude.thy ===== *)
theory Go_Prelude
  imports Main "HOL-Library.Word"
begin

text \<open>
  Shared vocabulary of the development: the Go language facts the components use
  (integer wrap-around, truncating division, byte strings and the two functions of package
  \<open>strings\<close> that the settings code calls) and the generic step system in which the
  stateful components prove their invariants.

  Integers. Go's \<open>int64\<close> (and \<open>int\<close>, on the 64-bit platforms the project
  builds for) is modelled by \<^typ>\<open>int\<close>; every arithmetic result is passed through
  \<open>i64\<close>, the two's complement reading of the low 64 bits, wherever the operands are not already
  bounded by the code. \<open>i32\<close> and \<open>u64\<close> do the same for \<open>int32\<close> and \<open>uint64\<close>.
\<close>

section \<open>Machine integers\<close>

named_theorems go_arith \<open>facts about Go integer arithmetic\<close>

definition wrap_signed :: "nat \<Rightarrow> int \<Rightarrow> int" where
  "wrap_signed b x = (x + 2 ^ b) mod (2 * 2 ^ b) - 2 ^ b"

definition i64 :: "int \<Rightarrow> int" where
  "i64 x = wrap_signed 63 x"

definition i32 :: "int \<Rightarrow> int" where
  "i32 x = wrap_signed 31 x"

definition u64 :: "int \<Rightarrow> int" where
  "u64 x = x mod 18446744073709551616"

definition fits_i64 :: "int \<Rightarrow> bool" where
  "fits_i64 x \<longleftrightarrow> -9223372036854775808 \<le> x \<and> x < 9223372036854775808"

lemma i64_alt: "i64 x = (x + 9223372036854775808) mod 18446744073709551616 - 9223372036854775808"
  by (simp add: i64_def wrap_signed_def)

lemma i32_alt: "i32 x = (x + 2147483648) mod 4294967296 - 2147483648"
  by (simp add: i32_def wrap_signed_def)

lemma i64_id [go_arith]: "fits_i64 x \<Longrightarrow> i64 x = x"
  by (simp add: i64_alt fits_i64_def)

lemma i64_in_range: "fits_i64 (i64 x)"
  by (simp add: i64_alt fits_i64_def)

lemma i64_idem [simp]: "i64 (i64 x) = i64 x"
  by (rule i64_id) (rule i64_in_range)

lemma i64_bounds: "-9223372036854775808 \<le> i64 x" "i64 x < 9223372036854775808"
  using i64_in_range [of x] by (auto simp: fits_i64_def)

lemma i64_0 [simp]: "i64 0 = 0" and i64_1 [simp]: "i64 1 = 1"
  by (simp_all add: i64_id fits_i64_def)

lemma i64_offset: "i64 x = x - 18446744073709551616 * ((x + 9223372036854775808) div 18446744073709551616)"
  unfolding i64_alt by (simp add: minus_mult_div_eq_mod [symmetric])

lemma mod_diff_mult_eq_int: "(x - m * k) mod m = x mod (m :: int)"
proof -
  have "x - m * k = x + (- k) * m" by (simp add: mult.commute)
  then show ?thesis by (simp only: mod_mult_self1)
qed

lemma i64_cong: "x mod 18446744073709551616 = y mod 18446744073709551616 \<Longrightarrow> i64 x = i64 y"
proof -
  assume "x mod 18446744073709551616 = y mod 18446744073709551616"
  then have "(x + 9223372036854775808) mod 18446744073709551616 = (y + 9223372036854775808) mod 18446744073709551616"
    by (rule mod_add_cong) (rule refl)
  then show ?thesis by (simp only: i64_alt)
qed

lemma i64_mod: "i64 x mod 18446744073709551616 = x mod 18446744073709551616"
  unfolding i64_offset by (rule mod_diff_mult_eq_int)

lemma i64_add_left [simp]: "i64 (i64 x + y) = i64 (x + y)"
  by (rule i64_cong) (metis i64_mod mod_add_left_eq)

lemma i64_add_right [simp]: "i64 (x + i64 y) = i64 (x + y)"
  by (metis i64_add_left add.commute)

lemma i64_minus_left [simp]: "i64 (i64 x - y) = i64 (x - y)"
  using i64_add_left [of x "-y"] by simp

lemma i64_minus_right [simp]: "i64 (x - i64 y) = i64 (x - y)"
  by (rule i64_cong) (metis i64_mod mod_diff_right_eq)

lemma u64_bounds: "0 \<le> u64 x" "u64 x < 18446744073709551616"
  by (simp_all add: u64_def)

lemma u64_add_left [simp]: "u64 (u64 x + y) = u64 (x + y)"
  by (simp add: u64_def mod_simps)

section \<open>Division\<close>

text \<open>
  Go's \<open>/\<close> and \<open>%\<close> truncate towards zero. Both panic on a zero divisor; where the
  code does not exclude it, the model tests it before calling these.
\<close>

definition go_div :: "int \<Rightarrow> int \<Rightarrow> int" where
  "go_div a b = sgn a * sgn b * (\<bar>a\<bar> div \<bar>b\<bar>)"

definition go_mod :: "int \<Rightarrow> int \<Rightarrow> int" where
  "go_mod a b = a - b * go_div a b"

lemma go_div_pos [go_arith]: "0 \<le> a \<Longrightarrow> 0 < b \<Longrightarrow> go_div a b = a div b"
  by (cases "a = 0") (auto simp: go_div_def sgn_if)

lemma go_div_neg: "a < 0 \<Longrightarrow> 0 < b \<Longrightarrow> go_div a b = - (- a div b)"
  by (simp add: go_div_def sgn_if)

lemma go_mod_pos [go_arith]: "0 \<le> a \<Longrightarrow> 0 < b \<Longrightarrow> go_mod a b = a mod b"
  by (simp add: go_mod_def go_div_pos minus_mult_div_eq_mod)

lemma go_div_0 [simp]: "go_div 0 b = 0"
  by (simp add: go_div_def)

lemma go_div_mono:
  assumes "a \<le> a'" and "0 < b" shows "go_div a b \<le> go_div a' b"
proof (cases "0 \<le> a")
  case True
  with assms show ?thesis by (simp add: go_div_pos zdiv_mono1)
next
  case a: False
  show ?thesis
  proof (cases "0 \<le> a'")
    case True
    have "0 \<le> - a div b" and "0 \<le> a' div b"
      using a True assms by (simp_all add: pos_imp_zdiv_nonneg_iff)
    with a True assms show ?thesis by (simp add: go_div_pos go_div_neg)
  next
    case False
    with a assms show ?thesis by (simp add: go_div_neg zdiv_mono1)
  qed
qed

lemma go_div_le_self: "0 \<le> a \<Longrightarrow> 0 < b \<Longrightarrow> go_div a b \<le> a"
  by (simp add: go_div_pos) (metis div_by_1 int_one_le_iff_zero_less zdiv_mono2 zero_less_one)

lemma go_div_nonneg: "0 \<le> a \<Longrightarrow> 0 < b \<Longrightarrow> 0 \<le> go_div a b"
  by (simp add: go_div_pos pos_imp_zdiv_nonneg_iff)

section \<open>Byte strings\<close>

text \<open>
  A Go string is a sequence of bytes; it is modelled by \<^typ>\<open>string\<close> (a \<^typ>\<open>char list\<close>, one
  \<^typ>\<open>char\<close> per byte). \<open>trim_space\<close> is \<open>strings.TrimSpace\<close>: it strips the ASCII blanks and
  the UTF-8 encodings of the other code points for which \<open>unicode.IsSpace\<close> holds.
  \<open>to_lower\<close> is \<open>strings.ToLower\<close> up to bytes outside ASCII: ASCII capitals are lowered, and so
  are the two code points outside ASCII whose lower case is ASCII (U+212A to k and
  U+0130 to i). The other bytes outside ASCII are left alone, where Go writes the lower case rune,
  which is again outside ASCII. The source only compares the result with ASCII keywords,
  on which the two agree.
\<close>

definition ascii_spaces :: "char list" where
  "ascii_spaces = [CHR 0x09, CHR 0x0A, CHR 0x0B, CHR 0x0C, CHR 0x0D, CHR 0x20]"

definition wide_spaces :: "string list" where
  "wide_spaces =
     [[CHR 0xC2, CHR 0x85], [CHR 0xC2, CHR 0xA0], [CHR 0xE1, CHR 0x9A, CHR 0x80]]
     @ map (\<lambda>k. [CHR 0xE2, CHR 0x80, k])
         [CHR 0x80, CHR 0x81, CHR 0x82, CHR 0x83, CHR 0x84, CHR 0x85, CHR 0x86, CHR 0x87,
          CHR 0x88, CHR 0x89, CHR 0x8A, CHR 0xA8, CHR 0xA9, CHR 0xAF]
     @ [[CHR 0xE2, CHR 0x81, CHR 0x9F], [CHR 0xE3, CHR 0x80, CHR 0x80]]"

definition spaces :: "string list" where
  "spaces = map (\<lambda>c. [c]) ascii_spaces @ wide_spaces"

fun strip_prefix :: "string \<Rightarrow> string \<Rightarrow> string option" where
  "strip_prefix [] s = Some s"
| "strip_prefix (p # ps) [] = None"
| "strip_prefix (p # ps) (c # cs) = (if p = c then strip_prefix ps cs else None)"

definition has_prefix :: "string \<Rightarrow> string \<Rightarrow> bool" where
  "has_prefix s p \<longleftrightarrow> strip_prefix p s \<noteq> None"

definition trim_prefix :: "string \<Rightarrow> string \<Rightarrow> string" where
  "trim_prefix s p = (case strip_prefix p s of None \<Rightarrow> s | Some r \<Rightarrow> r)"

lemma strip_prefix_Some: "strip_prefix p s = Some r \<longleftrightarrow> s = p @ r"
  by (induction p s rule: strip_prefix.induct) auto

lemma strip_prefix_None: "strip_prefix p s = None \<longleftrightarrow> \<not> (\<exists>r. s = p @ r)"
  by (metis not_None_eq option.distinct(1) strip_prefix_Some)

fun trim_with :: "nat \<Rightarrow> string list \<Rightarrow> string \<Rightarrow> string" where
  "trim_with 0 sp s = s"
| "trim_with (Suc n) sp s =
     (case List.find (\<lambda>p. has_prefix s p) sp of
        None \<Rightarrow> s
      | Some p \<Rightarrow> trim_with n sp (trim_prefix s p))"

definition trim_left :: "string \<Rightarrow> string" where
  "trim_left s = trim_with (length s) spaces s"

definition trim_right :: "string \<Rightarrow> string" where
  "trim_right s = rev (trim_with (length s) (map rev spaces) (rev s))"

definition trim_space :: "string \<Rightarrow> string" where
  "trim_space s = trim_right (trim_left s)"

definition lower_table :: "(char \<times> char) list" where
  "lower_table = zip ''ABCDEFGHIJKLMNOPQRSTUVWXYZ'' ''abcdefghijklmnopqrstuvwxyz''"

definition lower_char :: "char \<Rightarrow> char" where
  "lower_char c = (case map_of lower_table c of None \<Rightarrow> c | Some d \<Rightarrow> d)"

definition kelvin_sign :: string where
  "kelvin_sign = [CHR 0xE2, CHR 0x84, CHR 0xAA]"

definition dotted_capital_I :: string where
  "dotted_capital_I = [CHR 0xC4, CHR 0xB0]"

function to_lower :: "string \<Rightarrow> string" where
  "to_lower s =
     (case s of [] \<Rightarrow> []
      | c # cs \<Rightarrow>
          (case strip_prefix kelvin_sign s of
             Some r \<Rightarrow> CHR ''k'' # to_lower r
           | None \<Rightarrow>
             (case strip_prefix dotted_capital_I s of
                Some r \<Rightarrow> CHR ''i'' # to_lower r
              | None \<Rightarrow> lower_char c # to_lower cs)))"
  by pat_completeness auto
termination
  by (relation "measure length")
    (auto simp del: strip_prefix.simps simp: strip_prefix_Some kelvin_sign_def dotted_capital_I_def
      dest!: arg_cong [where f = length])

declare to_lower.simps [simp del]

text \<open>
  \<open>strings.EqualFold\<close> against an ASCII keyword without the letters k and s, whose simple folds
  leave ASCII: a byte-wise comparison up to ASCII case.
\<close>

definition equal_fold :: "string \<Rightarrow> string \<Rightarrow> bool" where
  "equal_fold s t \<longleftrightarrow> map lower_char s = map lower_char t"

section \<open>Outcomes\<close>

text \<open>
  What a Go call does: it returns a value, or it panics (an index out of range, a nil dereference,
  a zero divisor), or it has not returned within the given number of loop rounds.
  A call that has no outcome but \<open>NoFuel\<close> for every number of rounds never returns.
\<close>

datatype 'a outcome = Done 'a | Panic | NoFuel

fun bind_outcome :: "'a outcome \<Rightarrow> ('a \<Rightarrow> 'b outcome) \<Rightarrow> 'b outcome" where
  "bind_outcome (Done x) f = f x"
| "bind_outcome Panic f = Panic"
| "bind_outcome NoFuel f = NoFuel"

lemma bind_outcome_Done: "bind_outcome r f = Done y \<longleftrightarrow> (\<exists>x. r = Done x \<and> f x = Done y)"
  by (cases r) auto

section \<open>Step systems\<close>

text \<open>
  A component whose methods run one at a time under its mutex is a total step function over
  method calls. An invariant kept by every call the component accepts holds after any sequence of
  such calls, whatever the interleaving of the callers.
\<close>

locale guarded_system =
  fixes step :: "'s \<Rightarrow> 'e \<Rightarrow> 's"
    and legal :: "'e \<Rightarrow> bool"
    and inv :: "'s \<Rightarrow> bool"
  assumes guarded_step: "legal e \<Longrightarrow> inv s \<Longrightarrow> inv (step s e)"
begin

lemma guarded_run: "\<forall>e \<in> set es. legal e \<Longrightarrow> inv s \<Longrightarrow> inv (foldl step s es)"
  by (induction es arbitrary: s) (auto intro: guarded_step)

end

text \<open>A component that accepts every call is the special case without a guard.\<close>

locale step_system =
  fixes step :: "'s \<Rightarrow> 'e \<Rightarrow> 's"
    and inv :: "'s \<Rightarrow> bool"
  assumes inv_step: "inv s \<Longrightarrow> inv (step s e)"

sublocale step_system \<subseteq> guarded_system step "\<lambda>_. True" inv
  by unfold_locales (rule inv_step)

context step_system
begin

lemma inv_run: "inv s \<Longrightarrow> inv (foldl step s es)"
  by (rule guarded_run) simp_all

lemma inv_prefix: "inv s \<Longrightarrow> inv (foldl step s (take n es))"
  by (rule inv_run)

end

section \<open>Lists\<close>

lemma foldl_inv:
  assumes "P a" and "\<And>a x. x \<in> set xs \<Longrightarrow> P a \<Longrightarrow> P (f a x)"
  shows "P (foldl f a xs)"
  using assms by (induction xs arbitrary: a) auto

lemma sum_list_map_mono_int:
  "(\<And>x. x \<in> set xs \<Longrightarrow> f x \<le> (g x :: int)) \<Longrightarrow> (\<Sum>x\<leftarrow>xs. f x) \<le> (\<Sum>x\<leftarrow>xs. g x)"
  by (induction xs) (auto intro: add_mono)

end
