(* ===== verification/Settings.thy ===== *)
theory Settings
  imports Go_Prelude
begin

text \<open>
  Package \<open>settings\<close>: the settings record \<open>BTSets\<close> (btsets.go), its typed views
  (btsets_views.go), defaults and normalisation (btsets_defaults.go), the core profile presets
  (btsets_profiles.go) and the startup preload policy (stream_preload_policy.go).

  A nil \<open>*BTSets\<close> receiver is \<^const>\<open>None\<close>. \<open>runtime.GOMAXPROCS(0)\<close> is the argument
  \<open>cpus\<close>; \<open>json.Marshal\<close> and \<open>json.Unmarshal\<close> are the arguments \<open>marshal\<close> and
  \<open>unmarshal\<close>. A run of conditional assignments, each to a field of its own, is written as one
  record update whose field values carry the conditions.
\<close>

section \<open>The settings record\<close>

record TorznabConfig =
  tz_Host :: string
  tz_Key :: string
  tz_Name :: string

record TMDBConfig =
  APIKey :: string
  APIURL :: string
  ImageURL :: string
  ImageURLRu :: string

definition zero_TMDBConfig :: TMDBConfig where
  "zero_TMDBConfig = \<lparr>APIKey = [], APIURL = [], ImageURL = [], ImageURLRu = []\<rparr>"

record BTSets =
  CacheSize :: "int"
  ReaderReadAHead :: "int"
  PreloadCache :: "int"
  UseDisk :: "bool"
  TorrentsSavePath :: "string"
  RemoveCacheOnDrop :: "bool"
  ForceEncrypt :: "bool"
  RetrackersMode :: "int"
  TorrentDisconnectTimeout :: "int"
  EnableDebug :: "bool"
  ServiceOnlyDebug :: "bool"
  DebugEstablishedConnsOverride :: "int"
  DebugTotalHalfOpenConnsOverride :: "int"
  DebugTrackerBudgetOverride :: "int"
  DebugStablePeerCap :: "int"
  DebugMaxUnverifiedBytesMB :: "int"
  EnableDLNA :: "bool"
  FriendlyName :: "string"
  EnableRutorSearch :: "bool"
  EnableTorznabSearch :: "bool"
  TorznabUrls :: "TorznabConfig list"
  TMDBSettings :: "TMDBConfig"
  EnableIPv6 :: "bool"
  DisableTCP :: "bool"
  DisableUTP :: "bool"
  DisableUPNP :: "bool"
  DisableDHT :: "bool"
  DisablePEX :: "bool"
  DisableUpload :: "bool"
  DownloadRateLimit :: "int"
  UploadRateLimit :: "int"
  ConnectionsLimit :: "int"
  PeersListenPort :: "int"
  EnableLPD :: "bool"
  LPDIPv6 :: "bool"
  SslPort :: "int"
  SslCert :: "string"
  SslKey :: "string"
  ResponsiveMode :: "bool"
  CoreProfile :: "string"
  MaxConcurrentStreams :: "int"
  StreamQueueSize :: "int"
  StreamQueueWaitSec :: "int"
  MaxUniquePlaybackTorrents :: "int"
  StartupPreloadPolicy :: "string"
  AdaptiveRAMinMB :: "int"
  AdaptiveRAMaxMB :: "int"
  WarmDiskCacheSizeMB :: "int"
  WarmDiskCacheTTLMin :: "int"
  DiskSyncPolicy :: "string"
  DiskSyncIntervalMS :: "int"
  DiskWriteBatchSize :: "int"
  MetadataWorkers :: "int"
  MetadataQueueSize :: "int"
  PreloadWorkers :: "int"
  PreloadQueueSize :: "int"
  ShowFSActiveTorr :: "bool"
  StoreSettingsInJSON :: "bool"
  StoreViewedInJSON :: "bool"
  EnableProxy :: "bool"
  ProxyHosts :: "string list"

definition zero_BTSets :: BTSets where
  "zero_BTSets = \<lparr>
     CacheSize = 0, ReaderReadAHead = 0, PreloadCache = 0, UseDisk = False,
     TorrentsSavePath = [], RemoveCacheOnDrop = False, ForceEncrypt = False,
     RetrackersMode = 0, TorrentDisconnectTimeout = 0, EnableDebug = False,
     ServiceOnlyDebug = False, DebugEstablishedConnsOverride = 0,
     DebugTotalHalfOpenConnsOverride = 0, DebugTrackerBudgetOverride = 0,
     DebugStablePeerCap = 0, DebugMaxUnverifiedBytesMB = 0, EnableDLNA = False,
     FriendlyName = [], EnableRutorSearch = False, EnableTorznabSearch = False,
     TorznabUrls = [], TMDBSettings = zero_TMDBConfig, EnableIPv6 = False, DisableTCP = False,
     DisableUTP = False, DisableUPNP = False, DisableDHT = False, DisablePEX = False,
     DisableUpload = False, DownloadRateLimit = 0, UploadRateLimit = 0, ConnectionsLimit = 0,
     PeersListenPort = 0, EnableLPD = False, LPDIPv6 = False, SslPort = 0, SslCert = [],
     SslKey = [], ResponsiveMode = False, CoreProfile = [], MaxConcurrentStreams = 0,
     StreamQueueSize = 0, StreamQueueWaitSec = 0, MaxUniquePlaybackTorrents = 0,
     StartupPreloadPolicy = [], AdaptiveRAMinMB = 0, AdaptiveRAMaxMB = 0,
     WarmDiskCacheSizeMB = 0, WarmDiskCacheTTLMin = 0, DiskSyncPolicy = [],
     DiskSyncIntervalMS = 0, DiskWriteBatchSize = 0, MetadataWorkers = 0,
     MetadataQueueSize = 0, PreloadWorkers = 0, PreloadQueueSize = 0, ShowFSActiveTorr = False,
     StoreSettingsInJSON = False, StoreViewedInJSON = False, EnableProxy = False,
     ProxyHosts = []\<rparr>"

section \<open>Typed views\<close>

definition NormalizeStartupPreloadPolicy :: "string \<Rightarrow> string" where
  "NormalizeStartupPreloadPolicy policy =
     (let p = to_lower (trim_space policy) in
      if p = [] \<or> p = ''skip-active'' then ''skip-active''
      else if p = ''legacy'' then ''legacy''
      else ''skip-active'')"

record CacheConfig =
  cc_SizeBytes :: "int"
  cc_ReadAheadPct :: "int"
  cc_PreloadPct :: "int"
  cc_UseDisk :: "bool"
  cc_SavePath :: "string"
  cc_RemoveOnDrop :: "bool"

definition zero_CacheConfig :: CacheConfig where
  "zero_CacheConfig = \<lparr>
     cc_SizeBytes = 0, cc_ReadAheadPct = 0, cc_PreloadPct = 0, cc_UseDisk = False,
     cc_SavePath = [], cc_RemoveOnDrop = False\<rparr>"

definition BTSets_CacheConfig :: "BTSets option \<Rightarrow> CacheConfig" where
  "BTSets_CacheConfig so =
     (case so of None \<Rightarrow> zero_CacheConfig
      | Some s \<Rightarrow> \<lparr>
          cc_SizeBytes = CacheSize s, cc_ReadAheadPct = ReaderReadAHead s,
          cc_PreloadPct = PreloadCache s, cc_UseDisk = UseDisk s,
          cc_SavePath = TorrentsSavePath s, cc_RemoveOnDrop = RemoveCacheOnDrop s\<rparr>)"

record NetworkConfig =
  nc_ForceEncrypt :: "bool"
  nc_RetrackersMode :: "int"
  nc_EnableIPv6 :: "bool"
  nc_DisableTCP :: "bool"
  nc_DisableUTP :: "bool"
  nc_DisableUPNP :: "bool"
  nc_DisableDHT :: "bool"
  nc_DisablePEX :: "bool"
  nc_DisableUpload :: "bool"
  nc_DownloadRateLimitKB :: "int"
  nc_UploadRateLimitKB :: "int"
  nc_ConnectionsLimit :: "int"
  nc_PeersListenPort :: "int"
  nc_EnableLPD :: "bool"
  nc_LPDIPv6 :: "bool"

definition zero_NetworkConfig :: NetworkConfig where
  "zero_NetworkConfig = \<lparr>
     nc_ForceEncrypt = False, nc_RetrackersMode = 0, nc_EnableIPv6 = False,
     nc_DisableTCP = False, nc_DisableUTP = False, nc_DisableUPNP = False,
     nc_DisableDHT = False, nc_DisablePEX = False, nc_DisableUpload = False,
     nc_DownloadRateLimitKB = 0, nc_UploadRateLimitKB = 0, nc_ConnectionsLimit = 0,
     nc_PeersListenPort = 0, nc_EnableLPD = False, nc_LPDIPv6 = False\<rparr>"

definition BTSets_NetworkConfig :: "BTSets option \<Rightarrow> NetworkConfig" where
  "BTSets_NetworkConfig so =
     (case so of None \<Rightarrow> zero_NetworkConfig
      | Some s \<Rightarrow> \<lparr>
          nc_ForceEncrypt = ForceEncrypt s, nc_RetrackersMode = RetrackersMode s,
          nc_EnableIPv6 = EnableIPv6 s, nc_DisableTCP = DisableTCP s,
          nc_DisableUTP = DisableUTP s, nc_DisableUPNP = DisableUPNP s,
          nc_DisableDHT = DisableDHT s, nc_DisablePEX = DisablePEX s,
          nc_DisableUpload = DisableUpload s, nc_DownloadRateLimitKB = DownloadRateLimit s,
          nc_UploadRateLimitKB = UploadRateLimit s, nc_ConnectionsLimit = ConnectionsLimit s,
          nc_PeersListenPort = PeersListenPort s, nc_EnableLPD = EnableLPD s,
          nc_LPDIPv6 = LPDIPv6 s\<rparr>)"

record StreamConfig =
  sc_ResponsiveMode :: "bool"
  sc_MaxConcurrentStreams :: "int"
  sc_StreamQueueSize :: "int"
  sc_StreamQueueWaitSec :: "int"
  sc_MaxUniquePlaybackTorrents :: "int"
  sc_StartupPreloadPolicy :: "string"
  sc_AdaptiveRAMinMB :: "int"
  sc_AdaptiveRAMaxMB :: "int"

definition zero_StreamConfig :: StreamConfig where
  "zero_StreamConfig = \<lparr>
     sc_ResponsiveMode = False, sc_MaxConcurrentStreams = 0, sc_StreamQueueSize = 0,
     sc_StreamQueueWaitSec = 0, sc_MaxUniquePlaybackTorrents = 0,
     sc_StartupPreloadPolicy = [], sc_AdaptiveRAMinMB = 0, sc_AdaptiveRAMaxMB = 0\<rparr>"

definition BTSets_StreamConfig :: "BTSets option \<Rightarrow> StreamConfig" where
  "BTSets_StreamConfig so =
     (case so of None \<Rightarrow> zero_StreamConfig
      | Some s \<Rightarrow> \<lparr>
          sc_ResponsiveMode = ResponsiveMode s,
          sc_MaxConcurrentStreams = MaxConcurrentStreams s,
          sc_StreamQueueSize = StreamQueueSize s, sc_StreamQueueWaitSec = StreamQueueWaitSec s,
          sc_MaxUniquePlaybackTorrents = MaxUniquePlaybackTorrents s,
          sc_StartupPreloadPolicy = NormalizeStartupPreloadPolicy (StartupPreloadPolicy s),
          sc_AdaptiveRAMinMB = AdaptiveRAMinMB s, sc_AdaptiveRAMaxMB = AdaptiveRAMaxMB s\<rparr>)"

record PlaybackConfig =
  pc_DisconnectTimeoutSec :: "int"
  pc_ReadAheadPct :: "int"
  pc_ResponsiveMode :: "bool"

definition zero_PlaybackConfig :: PlaybackConfig where
  "zero_PlaybackConfig = \<lparr>
     pc_DisconnectTimeoutSec = 0, pc_ReadAheadPct = 0, pc_ResponsiveMode = False\<rparr>"

definition BTSets_PlaybackConfig :: "BTSets option \<Rightarrow> PlaybackConfig" where
  "BTSets_PlaybackConfig so =
     (case so of None \<Rightarrow> zero_PlaybackConfig
      | Some s \<Rightarrow> \<lparr>
          pc_DisconnectTimeoutSec = TorrentDisconnectTimeout s,
          pc_ReadAheadPct = ReaderReadAHead s, pc_ResponsiveMode = ResponsiveMode s\<rparr>)"

record DebugConfig =
  dc_EnableDebug :: "bool"
  dc_ServiceOnlyDebug :: "bool"
  dc_EstablishedConnsOverride :: "int"
  dc_TotalHalfOpenConnsOverride :: "int"
  dc_TrackerBudgetOverride :: "int"
  dc_StablePeerCap :: "int"
  dc_MaxUnverifiedBytesMB :: "int"

definition zero_DebugConfig :: DebugConfig where
  "zero_DebugConfig = \<lparr>
     dc_EnableDebug = False, dc_ServiceOnlyDebug = False, dc_EstablishedConnsOverride = 0,
     dc_TotalHalfOpenConnsOverride = 0, dc_TrackerBudgetOverride = 0, dc_StablePeerCap = 0,
     dc_MaxUnverifiedBytesMB = 0\<rparr>"

definition BTSets_DebugConfig :: "BTSets option \<Rightarrow> DebugConfig" where
  "BTSets_DebugConfig so =
     (case so of None \<Rightarrow> zero_DebugConfig
      | Some s \<Rightarrow> \<lparr>
          dc_EnableDebug = EnableDebug s, dc_ServiceOnlyDebug = ServiceOnlyDebug s,
          dc_EstablishedConnsOverride = DebugEstablishedConnsOverride s,
          dc_TotalHalfOpenConnsOverride = DebugTotalHalfOpenConnsOverride s,
          dc_TrackerBudgetOverride = DebugTrackerBudgetOverride s,
          dc_StablePeerCap = DebugStablePeerCap s,
          dc_MaxUnverifiedBytesMB = DebugMaxUnverifiedBytesMB s\<rparr>)"

record TLSConfig =
  tc_Port :: "int"
  tc_Cert :: "string"
  tc_Key :: "string"

definition zero_TLSConfig :: TLSConfig where
  "zero_TLSConfig = \<lparr>
     tc_Port = 0, tc_Cert = [], tc_Key = []\<rparr>"

definition BTSets_TLSConfig :: "BTSets option \<Rightarrow> TLSConfig" where
  "BTSets_TLSConfig so =
     (case so of None \<Rightarrow> zero_TLSConfig
      | Some s \<Rightarrow> \<lparr>
          tc_Port = SslPort s, tc_Cert = SslCert s, tc_Key = SslKey s\<rparr>)"

record DLNAConfig =
  dl_Enabled :: "bool"
  dl_FriendlyName :: "string"
  dl_ShowFSActiveTorr :: "bool"

definition zero_DLNAConfig :: DLNAConfig where
  "zero_DLNAConfig = \<lparr>
     dl_Enabled = False, dl_FriendlyName = [], dl_ShowFSActiveTorr = False\<rparr>"

definition BTSets_DLNAConfig :: "BTSets option \<Rightarrow> DLNAConfig" where
  "BTSets_DLNAConfig so =
     (case so of None \<Rightarrow> zero_DLNAConfig
      | Some s \<Rightarrow> \<lparr>
          dl_Enabled = EnableDLNA s, dl_FriendlyName = FriendlyName s,
          dl_ShowFSActiveTorr = ShowFSActiveTorr s\<rparr>)"

record SearchConfig =
  se_EnableRutor :: "bool"
  se_EnableTorznab :: "bool"
  se_TorznabURLs :: "TorznabConfig list"

definition zero_SearchConfig :: SearchConfig where
  "zero_SearchConfig = \<lparr>
     se_EnableRutor = False, se_EnableTorznab = False, se_TorznabURLs = []\<rparr>"

definition BTSets_SearchConfig :: "BTSets option \<Rightarrow> SearchConfig" where
  "BTSets_SearchConfig so =
     (case so of None \<Rightarrow> zero_SearchConfig
      | Some s \<Rightarrow> \<lparr>
          se_EnableRutor = EnableRutorSearch s, se_EnableTorznab = EnableTorznabSearch s,
          se_TorznabURLs = TorznabUrls s\<rparr>)"

record ProxyConfig =
  px_Enabled :: "bool"
  px_Hosts :: "string list"

definition zero_ProxyConfig :: ProxyConfig where
  "zero_ProxyConfig = \<lparr>
     px_Enabled = False, px_Hosts = []\<rparr>"

definition BTSets_ProxyConfig :: "BTSets option \<Rightarrow> ProxyConfig" where
  "BTSets_ProxyConfig so =
     (case so of None \<Rightarrow> zero_ProxyConfig
      | Some s \<Rightarrow> \<lparr>
          px_Enabled = EnableProxy s, px_Hosts = ProxyHosts s\<rparr>)"

record PersistenceConfig =
  pe_SettingsInJSON :: "bool"
  pe_ViewedInJSON :: "bool"

definition zero_PersistenceConfig :: PersistenceConfig where
  "zero_PersistenceConfig = \<lparr>
     pe_SettingsInJSON = False, pe_ViewedInJSON = False\<rparr>"

definition BTSets_PersistenceConfig :: "BTSets option \<Rightarrow> PersistenceConfig" where
  "BTSets_PersistenceConfig so =
     (case so of None \<Rightarrow> zero_PersistenceConfig
      | Some s \<Rightarrow> \<lparr>
          pe_SettingsInJSON = StoreSettingsInJSON s, pe_ViewedInJSON = StoreViewedInJSON s\<rparr>)"

record DiskCacheConfig =
  kc_WarmSizeMB :: "int"
  kc_WarmTTLMin :: "int"
  kc_SyncPolicy :: "string"
  kc_SyncIntervalMS :: "int"
  kc_WriteBatchSize :: "int"

definition zero_DiskCacheConfig :: DiskCacheConfig where
  "zero_DiskCacheConfig = \<lparr>
     kc_WarmSizeMB = 0, kc_WarmTTLMin = 0, kc_SyncPolicy = [], kc_SyncIntervalMS = 0,
     kc_WriteBatchSize = 0\<rparr>"

definition BTSets_DiskCacheConfig :: "BTSets option \<Rightarrow> DiskCacheConfig" where
  "BTSets_DiskCacheConfig so =
     (case so of None \<Rightarrow> zero_DiskCacheConfig
      | Some s \<Rightarrow> \<lparr>
          kc_WarmSizeMB = WarmDiskCacheSizeMB s, kc_WarmTTLMin = WarmDiskCacheTTLMin s,
          kc_SyncPolicy = DiskSyncPolicy s, kc_SyncIntervalMS = DiskSyncIntervalMS s,
          kc_WriteBatchSize = DiskWriteBatchSize s\<rparr>)"

record WorkerConfig =
  wc_MetadataWorkers :: "int"
  wc_MetadataQueueSize :: "int"
  wc_PreloadWorkers :: "int"
  wc_PreloadQueueSize :: "int"

definition zero_WorkerConfig :: WorkerConfig where
  "zero_WorkerConfig = \<lparr>
     wc_MetadataWorkers = 0, wc_MetadataQueueSize = 0, wc_PreloadWorkers = 0,
     wc_PreloadQueueSize = 0\<rparr>"

definition BTSets_WorkerConfig :: "BTSets option \<Rightarrow> WorkerConfig" where
  "BTSets_WorkerConfig so =
     (case so of None \<Rightarrow> zero_WorkerConfig
      | Some s \<Rightarrow> \<lparr>
          wc_MetadataWorkers = MetadataWorkers s, wc_MetadataQueueSize = MetadataQueueSize s,
          wc_PreloadWorkers = PreloadWorkers s, wc_PreloadQueueSize = PreloadQueueSize s\<rparr>)"

section \<open>Core profile presets\<close>

definition lowEndProfile :: BTSets where
  "lowEndProfile = zero_BTSets\<lparr>
     CacheSize := 32 * 1024 * 1024, PreloadCache := 25, ConnectionsLimit := 12,
     MaxConcurrentStreams := 1, StreamQueueSize := 2, StreamQueueWaitSec := 2,
     MaxUniquePlaybackTorrents := 1, AdaptiveRAMinMB := 2, AdaptiveRAMaxMB := 16,
     WarmDiskCacheSizeMB := 256, WarmDiskCacheTTLMin := 60, MetadataWorkers := 1,
     MetadataQueueSize := 64, PreloadWorkers := 1, PreloadQueueSize := 8,
     DiskSyncPolicy := ''periodic'', DiskSyncIntervalMS := 800, DiskWriteBatchSize := 8\<rparr>"

definition lowCPUProfile :: BTSets where
  "lowCPUProfile = zero_BTSets\<lparr>
     CacheSize := 64 * 1024 * 1024, PreloadCache := 50, DisableUTP := True,
     ConnectionsLimit := 12, MaxConcurrentStreams := 2, StreamQueueSize := 2,
     StreamQueueWaitSec := 3, MaxUniquePlaybackTorrents := 2, AdaptiveRAMinMB := 4,
     AdaptiveRAMaxMB := 64, WarmDiskCacheSizeMB := 0, WarmDiskCacheTTLMin := 180,
     MetadataWorkers := 0, MetadataQueueSize := 0, PreloadWorkers := 0, PreloadQueueSize := 0,
     DiskSyncPolicy := ''periodic'', DiskSyncIntervalMS := 1000, DiskWriteBatchSize := 16\<rparr>"

definition balancedProfile :: BTSets where
  "balancedProfile = zero_BTSets\<lparr>
     CacheSize := 64 * 1024 * 1024, PreloadCache := 50, ConnectionsLimit := 25,
     MaxConcurrentStreams := 0, StreamQueueSize := 0, StreamQueueWaitSec := 3,
     MaxUniquePlaybackTorrents := 0, AdaptiveRAMinMB := 4, AdaptiveRAMaxMB := 64,
     WarmDiskCacheSizeMB := 0, WarmDiskCacheTTLMin := 180, MetadataWorkers := 0,
     MetadataQueueSize := 0, PreloadWorkers := 0, PreloadQueueSize := 0,
     DiskSyncPolicy := ''periodic'', DiskSyncIntervalMS := 1000, DiskWriteBatchSize := 16\<rparr>"

definition tcpOnlyBalancedProfile :: BTSets where
  "tcpOnlyBalancedProfile = zero_BTSets\<lparr>
     CacheSize := 64 * 1024 * 1024, PreloadCache := 50, DisableUTP := True,
     ConnectionsLimit := 25, MaxConcurrentStreams := 0, StreamQueueSize := 0,
     StreamQueueWaitSec := 3, MaxUniquePlaybackTorrents := 2, AdaptiveRAMinMB := 4,
     AdaptiveRAMaxMB := 64, WarmDiskCacheSizeMB := 0, WarmDiskCacheTTLMin := 180,
     MetadataWorkers := 0, MetadataQueueSize := 0, PreloadWorkers := 0, PreloadQueueSize := 0,
     DiskSyncPolicy := ''periodic'', DiskSyncIntervalMS := 1000, DiskWriteBatchSize := 16\<rparr>"

definition highThroughputProfile :: BTSets where
  "highThroughputProfile = zero_BTSets\<lparr>
     CacheSize := 256 * 1024 * 1024, PreloadCache := 70, ConnectionsLimit := 0,
     MaxConcurrentStreams := 0, StreamQueueSize := 0, StreamQueueWaitSec := 4,
     AdaptiveRAMinMB := 8, AdaptiveRAMaxMB := 128, WarmDiskCacheSizeMB := 4096,
     WarmDiskCacheTTLMin := 360, MetadataWorkers := 0, MetadataQueueSize := 512,
     PreloadWorkers := 0, PreloadQueueSize := 64, DiskSyncPolicy := ''periodic'',
     DiskSyncIntervalMS := 1500, DiskWriteBatchSize := 32\<rparr>"

definition nasProfile :: BTSets where
  "nasProfile = zero_BTSets\<lparr>
     CacheSize := 128 * 1024 * 1024, PreloadCache := 55, ConnectionsLimit := 0,
     MaxConcurrentStreams := 0, StreamQueueSize := 0, StreamQueueWaitSec := 4,
     AdaptiveRAMinMB := 4, AdaptiveRAMaxMB := 64, WarmDiskCacheSizeMB := 8192,
     WarmDiskCacheTTLMin := 720, MetadataWorkers := 0, MetadataQueueSize := 256,
     PreloadWorkers := 1, PreloadQueueSize := 32, DiskSyncPolicy := ''periodic'',
     DiskSyncIntervalMS := 2500, DiskWriteBatchSize := 24\<rparr>"

definition profilePresets :: "string \<rightharpoonup> BTSets" where
  "profilePresets =
     [''low-end'' \<mapsto> lowEndProfile, ''low-cpu'' \<mapsto> lowCPUProfile,
      ''balanced'' \<mapsto> balancedProfile, ''tcp-only-balanced'' \<mapsto> tcpOnlyBalancedProfile,
      ''high-throughput'' \<mapsto> highThroughputProfile, ''nas'' \<mapsto> nasProfile]"

definition computeCPUFields :: "int \<Rightarrow> BTSets \<Rightarrow> BTSets" where
  "computeCPUFields gomaxprocs preset =
     (let cpus = max gomaxprocs 1 in
      if ConnectionsLimit preset = 0 \<and> CacheSize preset = 256*1024*1024 then
        preset\<lparr>ConnectionsLimit := max (i64 (cpus * 20)) 80,
               MaxConcurrentStreams := max (i64 (cpus * 2)) 4,
               StreamQueueSize := max (i64 (cpus * 4)) 12,
               MetadataWorkers := max cpus 4,
               PreloadWorkers := max (go_div cpus 2) 2\<rparr>
      else if ConnectionsLimit preset = 0 \<and> CacheSize preset = 128*1024*1024 then
        preset\<lparr>ConnectionsLimit := max (i64 (cpus * 12)) 40,
               MaxConcurrentStreams := max cpus 2,
               StreamQueueSize := max (i64 (cpus * 3)) 8,
               MetadataWorkers := max (go_div cpus 2) 2\<rparr>
      else preset)"

definition balancedZero :: "BTSets \<Rightarrow> int \<Rightarrow> bool" where
  "balancedZero preset cacheSize \<longleftrightarrow> CacheSize preset = cacheSize"

definition applyCopyRules :: "BTSets \<Rightarrow> BTSets \<Rightarrow> BTSets" where
  "applyCopyRules dst p = dst\<lparr>
       CacheSize := (if CacheSize p > 0 then CacheSize p else CacheSize dst),
       PreloadCache := (if PreloadCache p > 0 then PreloadCache p else PreloadCache dst),
       ConnectionsLimit := (if ConnectionsLimit p > 0 then ConnectionsLimit p else ConnectionsLimit dst),
       DisableUTP := (if DisableUTP p then DisableUTP p else DisableUTP dst),
       MaxConcurrentStreams := (if MaxConcurrentStreams p > 0 \<or> MaxConcurrentStreams p = 0 \<and> balancedZero p (64*1024*1024) then MaxConcurrentStreams p else MaxConcurrentStreams dst),
       StreamQueueSize := (if StreamQueueSize p > 0 \<or> StreamQueueSize p = 0 \<and> balancedZero p (64*1024*1024) then StreamQueueSize p else StreamQueueSize dst),
       StreamQueueWaitSec := (if StreamQueueWaitSec p > 0 then StreamQueueWaitSec p else StreamQueueWaitSec dst),
       MaxUniquePlaybackTorrents := (if MaxUniquePlaybackTorrents p > 0 then MaxUniquePlaybackTorrents p else MaxUniquePlaybackTorrents dst),
       AdaptiveRAMinMB := (if AdaptiveRAMinMB p > 0 then AdaptiveRAMinMB p else AdaptiveRAMinMB dst),
       AdaptiveRAMaxMB := (if AdaptiveRAMaxMB p > 0 then AdaptiveRAMaxMB p else AdaptiveRAMaxMB dst),
       WarmDiskCacheSizeMB := (if WarmDiskCacheSizeMB p > 0 \<or> WarmDiskCacheSizeMB p = 0 \<and> balancedZero p (64*1024*1024) then WarmDiskCacheSizeMB p else WarmDiskCacheSizeMB dst),
       WarmDiskCacheTTLMin := (if WarmDiskCacheTTLMin p > 0 then WarmDiskCacheTTLMin p else WarmDiskCacheTTLMin dst),
       MetadataWorkers := (if MetadataWorkers p > 0 \<or> MetadataWorkers p = 0 \<and> balancedZero p (64*1024*1024) then MetadataWorkers p else MetadataWorkers dst),
       MetadataQueueSize := (if MetadataQueueSize p > 0 \<or> MetadataQueueSize p = 0 \<and> balancedZero p (64*1024*1024) then MetadataQueueSize p else MetadataQueueSize dst),
       PreloadWorkers := (if PreloadWorkers p > 0 \<or> PreloadWorkers p = 0 \<and> balancedZero p (64*1024*1024) then PreloadWorkers p else PreloadWorkers dst),
       PreloadQueueSize := (if PreloadQueueSize p > 0 \<or> PreloadQueueSize p = 0 \<and> balancedZero p (64*1024*1024) then PreloadQueueSize p else PreloadQueueSize dst),
       DiskSyncPolicy := (if DiskSyncPolicy p \<noteq> [] then DiskSyncPolicy p else DiskSyncPolicy dst),
       DiskSyncIntervalMS := (if DiskSyncIntervalMS p > 0 then DiskSyncIntervalMS p else DiskSyncIntervalMS dst),
       DiskWriteBatchSize := (if DiskWriteBatchSize p > 0 then DiskWriteBatchSize p else DiskWriteBatchSize dst)\<rparr>"

definition applyProfileFields :: "int \<Rightarrow> BTSets \<Rightarrow> BTSets \<Rightarrow> BTSets" where
  "applyProfileFields gomaxprocs dst preset = applyCopyRules dst (computeCPUFields gomaxprocs preset)"

definition applyCoreProfilePreset :: "int \<Rightarrow> BTSets \<Rightarrow> string \<Rightarrow> BTSets" where
  "applyCoreProfilePreset gomaxprocs sets profile =
     applyProfileFields gomaxprocs sets
       (case profilePresets profile of Some preset \<Rightarrow> preset | None \<Rightarrow> balancedProfile)"

definition normalizeCoreProfile :: "string \<Rightarrow> string" where
  "normalizeCoreProfile profile =
     (let p = to_lower (trim_space profile) in
      if p = [] \<or> p = ''custom'' then ''custom''
      else if p \<in> set [''low-end'', ''low-cpu'', ''balanced'', ''tcp-only-balanced'',
                      ''high-throughput'', ''nas''] then p
      else ''custom'')"

definition applyCoreProfileOverrides :: "BTSets \<Rightarrow> BTSets \<Rightarrow> BTSets" where
  "applyCoreProfileOverrides dst src = dst\<lparr>
       CacheSize := (if 0 < CacheSize src then CacheSize src else CacheSize dst),
       ReaderReadAHead := (if 0 < ReaderReadAHead src then ReaderReadAHead src else ReaderReadAHead dst),
       PreloadCache := (if 0 < PreloadCache src then PreloadCache src else PreloadCache dst),
       ConnectionsLimit := (if 0 < ConnectionsLimit src then ConnectionsLimit src else ConnectionsLimit dst),
       TorrentDisconnectTimeout := (if 0 < TorrentDisconnectTimeout src then TorrentDisconnectTimeout src else TorrentDisconnectTimeout dst),
       MaxConcurrentStreams := (if 0 < MaxConcurrentStreams src then MaxConcurrentStreams src else MaxConcurrentStreams dst),
       StreamQueueSize := (if 0 < StreamQueueSize src then StreamQueueSize src else StreamQueueSize dst),
       StreamQueueWaitSec := (if 0 < StreamQueueWaitSec src then StreamQueueWaitSec src else StreamQueueWaitSec dst),
       MaxUniquePlaybackTorrents := (if 0 < MaxUniquePlaybackTorrents src then MaxUniquePlaybackTorrents src else MaxUniquePlaybackTorrents dst),
       AdaptiveRAMinMB := (if 0 < AdaptiveRAMinMB src then AdaptiveRAMinMB src else AdaptiveRAMinMB dst),
       AdaptiveRAMaxMB := (if 0 < AdaptiveRAMaxMB src then AdaptiveRAMaxMB src else AdaptiveRAMaxMB dst),
       WarmDiskCacheSizeMB := (if 0 < WarmDiskCacheSizeMB src then WarmDiskCacheSizeMB src else WarmDiskCacheSizeMB dst),
       WarmDiskCacheTTLMin := (if 0 < WarmDiskCacheTTLMin src then WarmDiskCacheTTLMin src else WarmDiskCacheTTLMin dst),
       DiskSyncPolicy := (if DiskSyncPolicy src \<noteq> [] then DiskSyncPolicy src else DiskSyncPolicy dst),
       DiskSyncIntervalMS := (if 0 < DiskSyncIntervalMS src then DiskSyncIntervalMS src else DiskSyncIntervalMS dst),
       DiskWriteBatchSize := (if 0 < DiskWriteBatchSize src then DiskWriteBatchSize src else DiskWriteBatchSize dst),
       MetadataWorkers := (if 0 < MetadataWorkers src then MetadataWorkers src else MetadataWorkers dst),
       MetadataQueueSize := (if 0 < MetadataQueueSize src then MetadataQueueSize src else MetadataQueueSize dst),
       PreloadWorkers := (if 0 < PreloadWorkers src then PreloadWorkers src else PreloadWorkers dst),
       PreloadQueueSize := (if 0 < PreloadQueueSize src then PreloadQueueSize src else PreloadQueueSize dst)\<rparr>"

definition ApplyCoreProfile :: "int \<Rightarrow> BTSets \<Rightarrow> BTSets" where
  "ApplyCoreProfile gomaxprocs input =
     (let sets = input\<lparr>CoreProfile := normalizeCoreProfile (CoreProfile input)\<rparr> in
      if CoreProfile sets = ''custom'' then sets
      else applyCoreProfileOverrides (applyCoreProfilePreset gomaxprocs sets (CoreProfile sets)) input)"

section \<open>Defaults and normalisation\<close>

definition ensureNonNegative :: "int \<Rightarrow> int" where
  "ensureNonNegative v = (if v < 0 then 0 else v)"

definition ensureAdaptiveRAMDefaults :: "BTSets \<Rightarrow> BTSets" where
  "ensureAdaptiveRAMDefaults s =
     (let mn = (if AdaptiveRAMinMB s < 0 then 0 else AdaptiveRAMinMB s);
          mx = (if AdaptiveRAMaxMB s < 0 then 0 else AdaptiveRAMaxMB s);
          mn = (if mn = 0 then 4 else mn);
          mx = (if mx = 0 then 64 else mx);
          mn = (if mn > mx then mx else mn)
      in s\<lparr>AdaptiveRAMinMB := mn, AdaptiveRAMaxMB := mx\<rparr>)"

definition normalizeDiskSyncPolicy :: "BTSets \<Rightarrow> BTSets" where
  "normalizeDiskSyncPolicy s =
     (let s = (if DiskSyncPolicy s = [] then s\<lparr>DiskSyncPolicy := ''periodic''\<rparr> else s);
          policy = to_lower (DiskSyncPolicy s)
      in if policy \<in> set [''none'', ''periodic'', ''always''] then s\<lparr>DiskSyncPolicy := policy\<rparr>
         else s\<lparr>DiskSyncPolicy := ''periodic''\<rparr>)"

definition default_TMDB :: TMDBConfig where
  "default_TMDB = \<lparr>APIKey = [], APIURL = ''https://api.themoviedb.org'',
     ImageURL = ''https://image.tmdb.org'', ImageURLRu = ''https://imagetmdb.com''\<rparr>"

definition ensureTMDBDefaults :: "BTSets \<Rightarrow> BTSets" where
  "ensureTMDBDefaults s =
     (if APIURL (TMDBSettings s) = [] then s\<lparr>TMDBSettings := default_TMDB\<rparr> else s)"

definition clampReaderReadAHead :: "BTSets \<Rightarrow> BTSets" where
  "clampReaderReadAHead s =
     (let v = (if ReaderReadAHead s < 5 then 5 else ReaderReadAHead s);
          v = (if v > 100 then 100 else v)
      in s\<lparr>ReaderReadAHead := v\<rparr>)"

definition clampPreloadCache :: "BTSets \<Rightarrow> BTSets" where
  "clampPreloadCache s =
     (let v = (if PreloadCache s < 0 then 0 else PreloadCache s);
          v = (if v > 100 then 100 else v)
      in s\<lparr>PreloadCache := v\<rparr>)"

definition validateAndNormalize :: "BTSets \<Rightarrow> BTSets" where
  "validateAndNormalize s0 =
     (let s = s0\<lparr>
        CacheSize := (if CacheSize s0 = 0 then 64*1024*1024 else CacheSize s0),
        PreloadCache := (if PreloadCache s0 = 0 then 50 else PreloadCache s0),
        ResponsiveMode := True,
        ConnectionsLimit := (if ConnectionsLimit s0 = 0 then 25 else ConnectionsLimit s0),
        TorrentDisconnectTimeout :=
          (if TorrentDisconnectTimeout s0 = 0 then 30 else TorrentDisconnectTimeout s0),
        StreamQueueWaitSec := (if StreamQueueWaitSec s0 \<le> 0 then 3 else StreamQueueWaitSec s0),
        MaxConcurrentStreams := ensureNonNegative (MaxConcurrentStreams s0),
        StreamQueueSize := ensureNonNegative (StreamQueueSize s0),
        MaxUniquePlaybackTorrents := ensureNonNegative (MaxUniquePlaybackTorrents s0),
        MetadataWorkers := ensureNonNegative (MetadataWorkers s0),
        MetadataQueueSize := ensureNonNegative (MetadataQueueSize s0),
        PreloadWorkers := ensureNonNegative (PreloadWorkers s0),
        PreloadQueueSize := ensureNonNegative (PreloadQueueSize s0),
        StartupPreloadPolicy := NormalizeStartupPreloadPolicy (StartupPreloadPolicy s0)\<rparr>;
      s = ensureAdaptiveRAMDefaults s;
      s = s\<lparr>
        WarmDiskCacheSizeMB := (if WarmDiskCacheSizeMB s < 0 then 0 else WarmDiskCacheSizeMB s),
        WarmDiskCacheTTLMin := (if WarmDiskCacheTTLMin s < 0 then 0 else WarmDiskCacheTTLMin s)\<rparr>;
      s = normalizeDiskSyncPolicy s;
      s = s\<lparr>
        DiskSyncIntervalMS := (if DiskSyncIntervalMS s \<le> 0 then 1000 else DiskSyncIntervalMS s),
        DiskWriteBatchSize := (if DiskWriteBatchSize s \<le> 0 then 16 else DiskWriteBatchSize s)\<rparr>
      in clampPreloadCache (clampReaderReadAHead s))"

definition ensureDefaults :: "BTSets \<Rightarrow> BTSets" where
  "ensureDefaults s0 =
     (let s = s0\<lparr>
        ReaderReadAHead := (if ReaderReadAHead s0 < 5 then 5 else ReaderReadAHead s0),
        CacheSize := (if CacheSize s0 = 0 then 64*1024*1024 else CacheSize s0),
        ConnectionsLimit := (if ConnectionsLimit s0 = 0 then 25 else ConnectionsLimit s0),
        TorrentDisconnectTimeout :=
          (if TorrentDisconnectTimeout s0 = 0 then 30 else TorrentDisconnectTimeout s0),
        ResponsiveMode := True,
        CoreProfile := normalizeCoreProfile (CoreProfile s0),
        StreamQueueWaitSec := (if StreamQueueWaitSec s0 \<le> 0 then 3 else StreamQueueWaitSec s0),
        MaxConcurrentStreams := ensureNonNegative (MaxConcurrentStreams s0),
        StreamQueueSize := ensureNonNegative (StreamQueueSize s0),
        MaxUniquePlaybackTorrents := ensureNonNegative (MaxUniquePlaybackTorrents s0),
        MetadataWorkers := ensureNonNegative (MetadataWorkers s0),
        MetadataQueueSize := ensureNonNegative (MetadataQueueSize s0),
        PreloadWorkers := ensureNonNegative (PreloadWorkers s0),
        PreloadQueueSize := ensureNonNegative (PreloadQueueSize s0),
        StartupPreloadPolicy := NormalizeStartupPreloadPolicy (StartupPreloadPolicy s0),
        WarmDiskCacheSizeMB := (if WarmDiskCacheSizeMB s0 < 0 then 0 else WarmDiskCacheSizeMB s0)\<rparr>;
      s = ensureAdaptiveRAMDefaults s;
      s = s\<lparr>WarmDiskCacheTTLMin := (if WarmDiskCacheTTLMin s \<le> 0 then 180 else WarmDiskCacheTTLMin s)\<rparr>;
      s = normalizeDiskSyncPolicy s;
      s = s\<lparr>
        DiskSyncIntervalMS := (if DiskSyncIntervalMS s \<le> 0 then 1000 else DiskSyncIntervalMS s),
        DiskWriteBatchSize := (if DiskWriteBatchSize s \<le> 0 then 16 else DiskWriteBatchSize s)\<rparr>
      in ensureTMDBDefaults s)"

text \<open>
  \<open>SetDefaultConfig\<close> stores the pointer first, writes the marshalled value to the database, and
  only then assigns the two proxy fields through the same pointer: the result is the pair of the
  stored settings and what was written under \<open>Settings/BitTorr\<close>, if anything.
\<close>

definition defaultSets :: BTSets where
  "defaultSets = zero_BTSets\<lparr>
     CacheSize := 64*1024*1024, PreloadCache := 50, ConnectionsLimit := 25, RetrackersMode := 1,
     TorrentDisconnectTimeout := 30, ReaderReadAHead := 95, ResponsiveMode := True,
     EnableLPD := False, LPDIPv6 := False, CoreProfile := ''custom'', MaxConcurrentStreams := 0,
     StreamQueueSize := 0, StreamQueueWaitSec := 3, MaxUniquePlaybackTorrents := 0,
     StartupPreloadPolicy := ''skip-active'', AdaptiveRAMinMB := 4, AdaptiveRAMaxMB := 64,
     WarmDiskCacheSizeMB := 0, WarmDiskCacheTTLMin := 180, DiskSyncPolicy := ''periodic'',
     DiskSyncIntervalMS := 1000, DiskWriteBatchSize := 16, MetadataWorkers := 0,
     MetadataQueueSize := 0, PreloadWorkers := 0, PreloadQueueSize := 0,
     ShowFSActiveTorr := True, StoreSettingsInJSON := True, TMDBSettings := default_TMDB\<rparr>"

definition SetDefaultConfig :: "(BTSets \<Rightarrow> string option) \<Rightarrow> bool \<Rightarrow> BTSets \<times> string option" where
  "SetDefaultConfig marshal readOnly =
     (let proxied = defaultSets\<lparr>EnableProxy := False,
            ProxyHosts := [''*themoviedb.org'', ''*tmdb.org'', ''rutor.info'']\<rparr>
      in if readOnly then (proxied, None)
         else case marshal defaultSets of
                None \<Rightarrow> (defaultSets, None)
              | Some buf \<Rightarrow> (proxied, Some buf))"

definition loadBTSets ::
  "(BTSets \<Rightarrow> string option) \<Rightarrow> (string \<Rightarrow> BTSets option) \<Rightarrow> bool \<Rightarrow> string \<Rightarrow> BTSets \<times> string option" where
  "loadBTSets marshal unmarshal readOnly buf =
     (if buf = [] then SetDefaultConfig marshal readOnly
      else case unmarshal buf of
             None \<Rightarrow> SetDefaultConfig marshal readOnly
           | Some loaded \<Rightarrow> (ensureDefaults loaded, None))"

section \<open>Keyword normalisation\<close>

definition core_profiles :: "string list" where
  "core_profiles = [''custom'', ''low-end'', ''low-cpu'', ''balanced'', ''tcp-only-balanced'',
     ''high-throughput'', ''nas'']"

lemma normalizeCoreProfile_keywords:
  "map normalizeCoreProfile core_profiles = core_profiles"
  by code_simp

lemma normalizeCoreProfile_range: "normalizeCoreProfile p \<in> set core_profiles"
  by (simp add: normalizeCoreProfile_def core_profiles_def Let_def)

lemma normalizeCoreProfile_idem [simp]: "normalizeCoreProfile (normalizeCoreProfile p) = normalizeCoreProfile p"
proof -
  have "\<forall>q \<in> set core_profiles. normalizeCoreProfile q = q"
    using normalizeCoreProfile_keywords by (simp add: core_profiles_def)
  then show ?thesis using normalizeCoreProfile_range by blast
qed

lemma NormalizeStartupPreloadPolicy_range:
  "NormalizeStartupPreloadPolicy p \<in> {''skip-active'', ''legacy''}"
  by (simp add: NormalizeStartupPreloadPolicy_def Let_def)

lemma NormalizeStartupPreloadPolicy_idem [simp]:
  "NormalizeStartupPreloadPolicy (NormalizeStartupPreloadPolicy p) = NormalizeStartupPreloadPolicy p"
proof -
  have "NormalizeStartupPreloadPolicy ''skip-active'' = ''skip-active''"
    and "NormalizeStartupPreloadPolicy ''legacy'' = ''legacy''" by code_simp+
  then show ?thesis using NormalizeStartupPreloadPolicy_range [of p] by auto
qed

lemma to_lower_sync_policies:
  "map to_lower [''none'', ''periodic'', ''always''] = [''none'', ''periodic'', ''always'']"
  by code_simp

lemma normalizeDiskSyncPolicy_range:
  "DiskSyncPolicy (normalizeDiskSyncPolicy s) \<in> {''none'', ''periodic'', ''always''}"
  by (simp add: normalizeDiskSyncPolicy_def Let_def)

lemma normalizeDiskSyncPolicy_fix:
  "DiskSyncPolicy s \<in> {''none'', ''periodic'', ''always''} \<Longrightarrow> normalizeDiskSyncPolicy s = s"
  using to_lower_sync_policies by (auto simp: normalizeDiskSyncPolicy_def)

section \<open>The normal form\<close>

text \<open>
  What the consumers of the settings rely on: nothing that is divided by, waited for or used as a
  lower bound is zero or negative, and every keyword is a known one.
\<close>

definition normal_sets :: "BTSets \<Rightarrow> bool" where
  "normal_sets s \<longleftrightarrow>
     CacheSize s \<noteq> 0 \<and> 5 \<le> ReaderReadAHead s \<and> ConnectionsLimit s \<noteq> 0 \<and>
     TorrentDisconnectTimeout s \<noteq> 0 \<and> ResponsiveMode s \<and> 0 < StreamQueueWaitSec s \<and>
     0 \<le> MaxConcurrentStreams s \<and> 0 \<le> StreamQueueSize s \<and> 0 \<le> MaxUniquePlaybackTorrents s \<and>
     0 \<le> MetadataWorkers s \<and> 0 \<le> MetadataQueueSize s \<and> 0 \<le> PreloadWorkers s \<and>
     0 \<le> PreloadQueueSize s \<and> 0 < AdaptiveRAMinMB s \<and> AdaptiveRAMinMB s \<le> AdaptiveRAMaxMB s \<and>
     0 \<le> WarmDiskCacheSizeMB s \<and> 0 \<le> WarmDiskCacheTTLMin s \<and>
     0 < DiskSyncIntervalMS s \<and> 0 < DiskWriteBatchSize s \<and>
     StartupPreloadPolicy s \<in> {''skip-active'', ''legacy''} \<and>
     DiskSyncPolicy s \<in> {''none'', ''periodic'', ''always''}"

text \<open>Each normalising step as an update of the fields it owns.\<close>

definition ra_min :: "int \<Rightarrow> int \<Rightarrow> int" where
  "ra_min mn mx = min (if mn \<le> 0 then 4 else mn) (if mx \<le> 0 then 64 else mx)"

lemma ensureAdaptiveRAMDefaults_update:
  "ensureAdaptiveRAMDefaults s =
     s\<lparr>AdaptiveRAMinMB := ra_min (AdaptiveRAMinMB s) (AdaptiveRAMaxMB s),
       AdaptiveRAMaxMB := (if AdaptiveRAMaxMB s \<le> 0 then 64 else AdaptiveRAMaxMB s)\<rparr>"
  by (simp add: ensureAdaptiveRAMDefaults_def ra_min_def Let_def min_def)

lemma ra_min_pos: "0 < ra_min mn mx"
  by (simp add: ra_min_def min_def)

lemma ra_min_le: "mx \<le> 0 \<Longrightarrow> ra_min mn mx \<le> 64" "\<not> mx \<le> 0 \<Longrightarrow> ra_min mn mx \<le> mx"
  by (simp_all add: ra_min_def)

lemma ra_min_fix: "0 < mn \<Longrightarrow> mn \<le> mx \<Longrightarrow> ra_min mn mx = mn"
  by (simp add: ra_min_def)

lemma ensureTMDBDefaults_update:
  "ensureTMDBDefaults s =
     s\<lparr>TMDBSettings := (if APIURL (TMDBSettings s) = [] then default_TMDB else TMDBSettings s)\<rparr>"
  by (simp add: ensureTMDBDefaults_def)

lemma clampReaderReadAHead_update:
  "clampReaderReadAHead s = s\<lparr>ReaderReadAHead := min 100 (max 5 (ReaderReadAHead s))\<rparr>"
  by (simp add: clampReaderReadAHead_def Let_def min_def max_def)

lemma clampPreloadCache_update:
  "clampPreloadCache s = s\<lparr>PreloadCache := min 100 (max 0 (PreloadCache s))\<rparr>"
  by (simp add: clampPreloadCache_def Let_def min_def max_def)

lemma ensureNonNegative_max: "ensureNonNegative v = max 0 v"
  by (simp add: ensureNonNegative_def max_def)

lemmas ensure_simps =
  ensureAdaptiveRAMDefaults_update ensureTMDBDefaults_update clampReaderReadAHead_update
  clampPreloadCache_update ensureNonNegative_max ra_min_pos ra_min_le

lemma normalizeDiskSyncPolicy_as_update:
  "normalizeDiskSyncPolicy s = s\<lparr>DiskSyncPolicy := DiskSyncPolicy (normalizeDiskSyncPolicy s)\<rparr>"
  by (simp add: normalizeDiskSyncPolicy_def Let_def)

lemma normalizeDiskSyncPolicy_value:
  obtains p where "normalizeDiskSyncPolicy s = s\<lparr>DiskSyncPolicy := p\<rparr>"
    and "p \<in> {''none'', ''periodic'', ''always''}"
  using normalizeDiskSyncPolicy_as_update normalizeDiskSyncPolicy_range by metis

lemma normal_ensureDefaults: "normal_sets (ensureDefaults s)"
proof -
  have pol: "NormalizeStartupPreloadPolicy (StartupPreloadPolicy s) \<in> {''skip-active'', ''legacy''}"
    by (rule NormalizeStartupPreloadPolicy_range)
  show ?thesis
    unfolding ensureDefaults_def Let_def
    apply (rule normalizeDiskSyncPolicy_value)
    apply (erule ssubst)
    unfolding normal_sets_def using pol
    by (intro conjI) (simp_all add: ensure_simps)
qed

lemma normal_validateAndNormalize:
  "normal_sets (validateAndNormalize s) \<and> ReaderReadAHead (validateAndNormalize s) \<le> 100 \<and>
   0 \<le> PreloadCache (validateAndNormalize s) \<and> PreloadCache (validateAndNormalize s) \<le> 100"
proof -
  have pol: "NormalizeStartupPreloadPolicy (StartupPreloadPolicy s) \<in> {''skip-active'', ''legacy''}"
    by (rule NormalizeStartupPreloadPolicy_range)
  show ?thesis
    unfolding validateAndNormalize_def Let_def
    apply (rule normalizeDiskSyncPolicy_value)
    apply (erule ssubst)
    unfolding normal_sets_def using pol
    by (intro conjI) (simp_all add: ensure_simps)
qed


lemma ensureDefaults_fix:
  assumes "normal_sets s" and "CoreProfile s \<in> set core_profiles"
    and "0 < WarmDiskCacheTTLMin s" and "APIURL (TMDBSettings s) \<noteq> []"
  shows "ensureDefaults s = s"
proof -
  have prof: "normalizeCoreProfile (CoreProfile s) = CoreProfile s"
    using assms(2) normalizeCoreProfile_keywords by (auto simp: core_profiles_def)
  have pol: "NormalizeStartupPreloadPolicy (StartupPreloadPolicy s) = StartupPreloadPolicy s"
  proof -
    have "NormalizeStartupPreloadPolicy ''skip-active'' = ''skip-active''"
      and "NormalizeStartupPreloadPolicy ''legacy'' = ''legacy''" by code_simp+
    with assms(1) show ?thesis by (auto simp: normal_sets_def)
  qed
  have disk: "normalizeDiskSyncPolicy s = s"
    using assms(1) by (intro normalizeDiskSyncPolicy_fix) (simp add: normal_sets_def)
  have resp: "s\<lparr>ResponsiveMode := True\<rparr> = s"
  proof -
    have "ResponsiveMode s = True" using assms(1) by (simp add: normal_sets_def)
    then show ?thesis by (cases s) simp
  qed
  show ?thesis
    using assms unfolding normal_sets_def
    by (simp add: ensureDefaults_def Let_def ensure_simps prof pol disk resp ra_min_fix max_def)
qed

lemma ensureDefaults_closed:
  "CoreProfile (ensureDefaults s) \<in> set core_profiles \<and> 0 < WarmDiskCacheTTLMin (ensureDefaults s) \<and>
   APIURL (TMDBSettings (ensureDefaults s)) \<noteq> []"
  unfolding ensureDefaults_def Let_def
  apply (rule normalizeDiskSyncPolicy_value)
  apply (erule ssubst)
  by (simp add: ensure_simps normalizeCoreProfile_range default_TMDB_def)

section \<open>Properties\<close>

text \<open>
  Property C18. Whatever was stored or sent, the settings after \<open>ensureDefaults\<close> (loading) and
  after \<open>validateAndNormalize\<close> (updates) are in normal form; an update moreover clamps the two
  percentages.
\<close>

theorem settings_normal:
  "normal_sets (ensureDefaults s) \<and> CoreProfile (ensureDefaults s) \<in> set core_profiles \<and>
   normal_sets (validateAndNormalize s) \<and>
   5 \<le> ReaderReadAHead (validateAndNormalize s) \<and> ReaderReadAHead (validateAndNormalize s) \<le> 100 \<and>
   0 \<le> PreloadCache (validateAndNormalize s) \<and> PreloadCache (validateAndNormalize s) \<le> 100"
  using normal_ensureDefaults [of s] ensureDefaults_closed [of s] normal_validateAndNormalize [of s]
  by (simp add: normal_sets_def)

text \<open>
  Loading is stable: normalising loaded settings a second time changes nothing, so a
  restart with unchanged stored settings sees the same configuration.
\<close>

theorem ensureDefaults_idem: "ensureDefaults (ensureDefaults s) = ensureDefaults s"
  using normal_ensureDefaults ensureDefaults_closed by (intro ensureDefaults_fix) auto

text \<open>
  Choosing a core profile keeps every explicit value of the caller: each tuning field
  that was set to a positive value (and the sync policy, if it was named) survives, whichever the
  profile and the number of CPUs, and the fields that no profile owns are untouched.
\<close>

theorem ApplyCoreProfile_keeps_overrides:
  "(0 < CacheSize s \<longrightarrow> CacheSize (ApplyCoreProfile n s) = CacheSize s) \<and>
   (0 < ReaderReadAHead s \<longrightarrow> ReaderReadAHead (ApplyCoreProfile n s) = ReaderReadAHead s) \<and>
   (0 < PreloadCache s \<longrightarrow> PreloadCache (ApplyCoreProfile n s) = PreloadCache s) \<and>
   (0 < ConnectionsLimit s \<longrightarrow> ConnectionsLimit (ApplyCoreProfile n s) = ConnectionsLimit s) \<and>
   (0 < TorrentDisconnectTimeout s \<longrightarrow> TorrentDisconnectTimeout (ApplyCoreProfile n s) = TorrentDisconnectTimeout s) \<and>
   (0 < MaxConcurrentStreams s \<longrightarrow> MaxConcurrentStreams (ApplyCoreProfile n s) = MaxConcurrentStreams s) \<and>
   (0 < StreamQueueSize s \<longrightarrow> StreamQueueSize (ApplyCoreProfile n s) = StreamQueueSize s) \<and>
   (0 < StreamQueueWaitSec s \<longrightarrow> StreamQueueWaitSec (ApplyCoreProfile n s) = StreamQueueWaitSec s) \<and>
   (0 < MaxUniquePlaybackTorrents s \<longrightarrow> MaxUniquePlaybackTorrents (ApplyCoreProfile n s) = MaxUniquePlaybackTorrents s) \<and>
   (0 < AdaptiveRAMinMB s \<longrightarrow> AdaptiveRAMinMB (ApplyCoreProfile n s) = AdaptiveRAMinMB s) \<and>
   (0 < AdaptiveRAMaxMB s \<longrightarrow> AdaptiveRAMaxMB (ApplyCoreProfile n s) = AdaptiveRAMaxMB s) \<and>
   (0 < WarmDiskCacheSizeMB s \<longrightarrow> WarmDiskCacheSizeMB (ApplyCoreProfile n s) = WarmDiskCacheSizeMB s) \<and>
   (0 < WarmDiskCacheTTLMin s \<longrightarrow> WarmDiskCacheTTLMin (ApplyCoreProfile n s) = WarmDiskCacheTTLMin s) \<and>
   (0 < DiskSyncIntervalMS s \<longrightarrow> DiskSyncIntervalMS (ApplyCoreProfile n s) = DiskSyncIntervalMS s) \<and>
   (0 < DiskWriteBatchSize s \<longrightarrow> DiskWriteBatchSize (ApplyCoreProfile n s) = DiskWriteBatchSize s) \<and>
   (0 < MetadataWorkers s \<longrightarrow> MetadataWorkers (ApplyCoreProfile n s) = MetadataWorkers s) \<and>
   (0 < MetadataQueueSize s \<longrightarrow> MetadataQueueSize (ApplyCoreProfile n s) = MetadataQueueSize s) \<and>
   (0 < PreloadWorkers s \<longrightarrow> PreloadWorkers (ApplyCoreProfile n s) = PreloadWorkers s) \<and>
   (0 < PreloadQueueSize s \<longrightarrow> PreloadQueueSize (ApplyCoreProfile n s) = PreloadQueueSize s) \<and>
   (DiskSyncPolicy s \<noteq> [] \<longrightarrow> DiskSyncPolicy (ApplyCoreProfile n s) = DiskSyncPolicy s) \<and>
   CoreProfile (ApplyCoreProfile n s) = normalizeCoreProfile (CoreProfile s) \<and>
   UseDisk (ApplyCoreProfile n s) = UseDisk s \<and>
   TorrentsSavePath (ApplyCoreProfile n s) = TorrentsSavePath s \<and>
   RemoveCacheOnDrop (ApplyCoreProfile n s) = RemoveCacheOnDrop s \<and>
   DisableDHT (ApplyCoreProfile n s) = DisableDHT s \<and>
   EnableIPv6 (ApplyCoreProfile n s) = EnableIPv6 s \<and>
   DownloadRateLimit (ApplyCoreProfile n s) = DownloadRateLimit s \<and>
   SslPort (ApplyCoreProfile n s) = SslPort s \<and>
   EnableDebug (ApplyCoreProfile n s) = EnableDebug s"
  by (intro conjI) (simp_all add: ApplyCoreProfile_def applyCoreProfileOverrides_def
      applyCoreProfilePreset_def applyProfileFields_def applyCopyRules_def computeCPUFields_def Let_def)

theorem ApplyCoreProfile_keeps_overrides_witness:
  "ConnectionsLimit (ApplyCoreProfile 4 (zero_BTSets\<lparr>CoreProfile := ''NAS'', ConnectionsLimit := 7\<rparr>)) = 7"
  using ApplyCoreProfile_keeps_overrides [of "zero_BTSets\<lparr>CoreProfile := ''NAS'', ConnectionsLimit := 7\<rparr>" 4]
  by (simp add: zero_BTSets_def)

text \<open>
  The defaults that are written to the database are not the defaults that are used: the
  proxy host list is assigned after the record was marshalled, so a restart on the stored defaults
  comes up with an empty list. The hypotheses are the round trip of the JSON codec on the record.
\<close>

theorem default_proxy_hosts_lost_on_reload:
  assumes "marshal defaultSets = Some buf" and "buf \<noteq> []" and "unmarshal buf = Some defaultSets"
  shows "SetDefaultConfig marshal False =
           (defaultSets\<lparr>EnableProxy := False, ProxyHosts := [''*themoviedb.org'', ''*tmdb.org'', ''rutor.info'']\<rparr>, Some buf) \<and>
         loadBTSets marshal unmarshal False buf = (defaultSets, None) \<and> ProxyHosts defaultSets = []"
proof -
  have "ensureDefaults defaultSets = defaultSets"
    by (rule ensureDefaults_fix)
      (simp_all add: defaultSets_def zero_BTSets_def normal_sets_def core_profiles_def default_TMDB_def)
  with assms show ?thesis
    by (simp add: SetDefaultConfig_def loadBTSets_def Let_def) (simp add: defaultSets_def zero_BTSets_def)
qed

theorem default_proxy_hosts_lost_on_reload_witness:
  "ProxyHosts (fst (loadBTSets (\<lambda>_. Some ''{}'') (\<lambda>_. Some defaultSets) False ''{}'')) = []"
  using default_proxy_hosts_lost_on_reload [of "\<lambda>_. Some ''{}''" "''{}''" "\<lambda>_. Some defaultSets"]
  by simp


end
