(* ===== verification/Ranges.thy ===== *)
theory Ranges
  imports Go_Prelude "HOL-Library.Product_Lexorder"
begin

text \<open>
  Piece ranges (torrstor/ranges.go): the index windows that the readers of a cache retain, the
  membership test of the cleanup and of the priority code, and the merge that both rely on.

  \<open>sort.Slice\<close> is not stable; the readers whose windows are merged come from a Go map, so their
  order is arbitrary anyway, and every theorem here holds for every order of the input list.
\<close>

section \<open>Model\<close>

text \<open>The two observations of \<open>torrent.File\<close> that the cache makes.\<close>

record tfile =
  tf_Offset :: int
  tf_Length :: int

record Range =
  rStart :: int
  rEnd :: int
  rFile :: "tfile option"

fun inRanges :: "Range list \<Rightarrow> int \<Rightarrow> bool" where
  "inRanges [] ind = False"
| "inRanges (r # ranges) ind = (if rStart r \<le> ind \<and> ind \<le> rEnd r then True else inRanges ranges ind)"

text \<open>
  The loop of \<open>mergeRange\<close> over the sorted copy: \<open>j\<close> is the last merged range, \<open>i\<close> the next
  one to look at, and the slice is overwritten in place. It returns the slice up to and
  including \<open>j\<close>.
\<close>

function merge_loop :: "Range list \<Rightarrow> nat \<Rightarrow> nat \<Rightarrow> Range list" where
  "merge_loop merged j i =
     (if i < length merged then
        (if rEnd (merged ! j) \<ge> rStart (merged ! i) then
           (if rEnd (merged ! j) < rEnd (merged ! i)
            then merge_loop (merged[j := (merged ! j)\<lparr>rEnd := rEnd (merged ! i)\<rparr>]) j (Suc i)
            else merge_loop merged j (Suc i))
         else merge_loop (merged[Suc j := merged ! i]) (Suc j) (Suc i))
      else take (Suc j) merged)"
  by pat_completeness auto
termination
  by (relation "measure (\<lambda>(merged, j, i). length merged - i)") auto

declare merge_loop.simps [simp del]

definition range_key :: "Range \<Rightarrow> int \<times> int" where
  "range_key r = (rStart r, rEnd r)"

definition mergeRange :: "Range list \<Rightarrow> Range list" where
  "mergeRange ranges =
     (if length ranges \<le> 1 then ranges else merge_loop (sort_key range_key ranges) 0 1)"

section \<open>The merge as a list recursion\<close>

fun merge_sorted :: "Range \<Rightarrow> Range list \<Rightarrow> Range list" where
  "merge_sorted cur [] = [cur]"
| "merge_sorted cur (r # rs) =
     (if rEnd cur \<ge> rStart r
      then merge_sorted (if rEnd cur < rEnd r then cur\<lparr>rEnd := rEnd r\<rparr> else cur) rs
      else cur # merge_sorted r rs)"

lemma merge_loop_eq:
  "j < i \<Longrightarrow> i \<le> length xs \<Longrightarrow>
   merge_loop xs j i = take j xs @ merge_sorted (xs ! j) (drop i xs)"
proof (induction xs j i rule: merge_loop.induct)
  case (1 xs j i)
  show ?case
  proof (cases "i < length xs")
    case False
    with "1.prems" show ?thesis
      by (subst merge_loop.simps) (simp add: take_Suc_conv_app_nth)
  next
    case i: True
    then have drop: "drop i xs = xs ! i # drop (Suc i) xs" by (rule Cons_nth_drop_Suc [symmetric])
    show ?thesis
    proof (cases "rEnd (xs ! j) \<ge> rStart (xs ! i)")
      case True
      with i drop "1.prems" "1.IH"(1,2) show ?thesis
        by (subst merge_loop.simps) auto
    next
      case False
      let ?ys = "xs[Suc j := xs ! i]"
      have "merge_loop ?ys (Suc j) (Suc i) = take (Suc j) ?ys @ merge_sorted (?ys ! Suc j) (drop (Suc i) ?ys)"
        using "1.IH"(3) [OF i False] i "1.prems" by simp
      moreover have "take (Suc j) ?ys = take j xs @ [xs ! j]"
        using "1.prems" by (simp add: take_Suc_conv_app_nth)
      moreover have "?ys ! Suc j = xs ! i" and "drop (Suc i) ?ys = drop (Suc i) xs"
        using i "1.prems" by simp_all
      ultimately show ?thesis
        using i False drop by (subst merge_loop.simps) simp
    qed
  qed
qed

lemma mergeRange_eq:
  "mergeRange ranges =
     (case sort_key range_key ranges of [] \<Rightarrow> [] | r # rs \<Rightarrow> merge_sorted r rs)"
proof -
  consider "ranges = []" | r where "ranges = [r]" | "1 < length ranges"
    by (metis One_nat_def length_0_conv length_Suc_conv less_one linorder_neqE_nat)
  then show ?thesis
  proof cases
    case 3
    let ?s = "sort_key range_key ranges"
    have len: "length ?s = length ranges" by simp
    with 3 obtain r rs where s: "?s = r # rs"
      by (metis length_0_conv list.exhaust not_one_less_zero)
    have "merge_loop ?s 0 1 = merge_sorted (?s ! 0) (drop 1 ?s)"
      using merge_loop_eq [of 0 1 ?s] 3 len by simp
    with s 3 show ?thesis by (simp add: mergeRange_def)
  qed (auto simp: mergeRange_def)
qed

section \<open>Membership and separation\<close>

definition covers :: "Range \<Rightarrow> int \<Rightarrow> bool" where
  "covers r ind \<longleftrightarrow> rStart r \<le> ind \<and> ind \<le> rEnd r"

lemma inRanges_iff: "inRanges rs ind \<longleftrightarrow> (\<exists>r \<in> set rs. covers r ind)"
  by (induction rs) (auto simp: covers_def)

lemma inRanges_set: "set rs = set rs' \<Longrightarrow> inRanges rs ind = inRanges rs' ind"
  by (simp add: inRanges_iff)

definition starts_sorted :: "Range list \<Rightarrow> bool" where
  "starts_sorted rs \<longleftrightarrow> sorted_wrt (\<lambda>a b. rStart a \<le> rStart b) rs"

definition separated :: "Range list \<Rightarrow> bool" where
  "separated rs \<longleftrightarrow> sorted_wrt (\<lambda>a b. rEnd a < rStart b \<and> rStart a \<le> rStart b) rs"

lemma sort_key_starts_sorted: "starts_sorted (sort_key range_key rs)"
proof -
  have "sorted (map range_key (sort_key range_key rs))" by simp
  then have "sorted_wrt (\<lambda>a b. range_key a \<le> range_key b) (sort_key range_key rs)"
    by (simp add: sorted_wrt_map)
  then show ?thesis
    unfolding starts_sorted_def by (rule sorted_wrt_mono_rel [rotated]) (auto simp: range_key_def)
qed

lemma merge_sorted_covers:
  "starts_sorted (cur # rs) \<Longrightarrow>
   (\<exists>r \<in> set (merge_sorted cur rs). covers r ind) \<longleftrightarrow> (\<exists>r \<in> set (cur # rs). covers r ind)"
proof (induction cur rs rule: merge_sorted.induct)
  case (2 cur r rs)
  then have le: "rStart cur \<le> rStart r" by (simp add: starts_sorted_def)
  show ?case
  proof (cases "rEnd cur \<ge> rStart r")
    case True
    let ?c = "if rEnd cur < rEnd r then cur\<lparr>rEnd := rEnd r\<rparr> else cur"
    have "starts_sorted (?c # rs)" using "2.prems" by (auto simp: starts_sorted_def)
    then have "(\<exists>q \<in> set (merge_sorted ?c rs). covers q ind) \<longleftrightarrow> (\<exists>q \<in> set (?c # rs). covers q ind)"
      using "2.IH"(1) [OF True] by simp
    moreover have "covers ?c ind \<longleftrightarrow> covers cur ind \<or> covers r ind"
      using True le by (auto simp: covers_def)
    ultimately show ?thesis using True by auto
  next
    case False
    then show ?thesis using "2.IH"(2) "2.prems" by (auto simp: starts_sorted_def)
  qed
qed simp

lemma merge_sorted_starts: "r \<in> set (merge_sorted cur rs) \<Longrightarrow> rStart r \<in> rStart ` set (cur # rs)"
  by (induction cur rs rule: merge_sorted.induct) (auto split: if_splits)

lemma merge_sorted_separated: "starts_sorted (cur # rs) \<Longrightarrow> separated (merge_sorted cur rs)"
proof (induction cur rs rule: merge_sorted.induct)
  case (2 cur r rs)
  show ?case
  proof (cases "rEnd cur \<ge> rStart r")
    case True
    let ?c = "if rEnd cur < rEnd r then cur\<lparr>rEnd := rEnd r\<rparr> else cur"
    have "starts_sorted (?c # rs)" using "2.prems" by (auto simp: starts_sorted_def)
    then show ?thesis using "2.IH"(1) [OF True] True by simp
  next
    case False
    have sorted: "starts_sorted (r # rs)" using "2.prems" by (simp add: starts_sorted_def)
    then have "separated (merge_sorted r rs)" using "2.IH"(2) False by simp
    moreover have "rStart r \<le> rStart q" if "q \<in> set (merge_sorted r rs)" for q
      using merge_sorted_starts [OF that] sorted by (auto simp: starts_sorted_def)
    ultimately show ?thesis
      using False "2.prems" by (force simp: separated_def starts_sorted_def)
  qed
qed (simp add: separated_def)

section \<open>Properties\<close>

text \<open>
  Merging loses no piece and adds none: for every list of ranges, in any order and with
  overlapping, nested, touching or empty ranges, an index is in the merged ranges exactly when it
  was in one of the given ones.
\<close>

theorem mergeRange_inRanges: "inRanges (mergeRange ranges) ind = inRanges ranges ind"
proof (cases "sort_key range_key ranges")
  case Nil
  then have "ranges = []" by (metis set_sort set_empty)
  with Nil show ?thesis by (simp add: mergeRange_eq)
next
  case (Cons r rs)
  then have "starts_sorted (r # rs)" using sort_key_starts_sorted [of ranges] by simp
  then have "inRanges (mergeRange ranges) ind = inRanges (r # rs) ind"
    using Cons merge_sorted_covers [of r rs ind] by (simp only: inRanges_iff mergeRange_eq list.case)
  also have "\<dots> = inRanges ranges ind"
    by (rule inRanges_set) (metis Cons set_sort)
  finally show ?thesis .
qed

text \<open>
  The merged ranges are in ascending order and pairwise separated: each ends before the
  next one starts, so no piece index lies in two of them, and there are no more ranges than given.
\<close>

theorem mergeRange_separated:
  "separated (mergeRange ranges) \<and> length (mergeRange ranges) \<le> length ranges"
proof (cases "sort_key range_key ranges")
  case Nil
  then show ?thesis by (simp add: mergeRange_eq separated_def)
next
  case (Cons r rs)
  have len: "length (merge_sorted c qs) \<le> Suc (length qs)" for c qs
    by (induction c qs rule: merge_sorted.induct) auto
  have "starts_sorted (r # rs)" using Cons sort_key_starts_sorted [of ranges] by simp
  then have "separated (merge_sorted r rs)" by (rule merge_sorted_separated)
  moreover have "Suc (length rs) = length ranges" using Cons by (metis length_Cons length_sort)
  ultimately show ?thesis using Cons len [of r rs] by (simp add: mergeRange_eq)
qed

end
