(* ===== verification/Cache_Metrics.thy ===== *)
theory Cache_Metrics
  imports Settings Ranges
begin

text \<open>
  The state of a torrent cache (torrstor/cache.go, piece.go, reader.go: the structs) and its
  metrics (torrstor/cache_metrics.go): the counters of one cache and the process-wide aggregates.

  A \<open>world\<close> is one cache, the aggregates, the pool of reusable chunks, the goroutines that
  were started and the calls made to the torrent library, in order. Every method is a function on worlds and one atomic
  step: the code runs it under the mutex of the field group it touches, or as a compare-and-swap
  loop whose last round is the effect. A Go map that \<open>Close\<close> sets to nil is an option.
\<close>

section \<open>State\<close>

type_synonym byte = "8 word"

datatype task = RunCleanPieces | RunUpdatePriorities

text \<open>
  The torrent library is not part of the repository. What the cache reads from it is an argument
  of the definitions; what the cache tells it is a call in the log \<open>w_lib\<close>: a piece priority, a
  completion refresh, and per reader (by its identifier) readahead, seek and close. The changes of the
  file system are calls of the same log: the directory of the torrent and the files of its pieces.
  The six priorities are the constants of the library that the source names, in the library's
  ascending order; the first one is the zero value of their type.
\<close>

datatype piece_priority =
    PiecePriorityNone | PiecePriorityNormal | PiecePriorityHigh | PiecePriorityReadahead
  | PiecePriorityNext | PiecePriorityNow

datatype lib_call =
    LibSetPriority int piece_priority
  | LibUpdateCompletion int
  | LibReaderSetReadahead nat int
  | LibReaderSeekStart nat int
  | LibReaderClose nat
  | FsMkdirAll
  | FsRemovePiece int
  | FsRemoveDir

fun prio_rank :: "piece_priority \<Rightarrow> nat" where
  "prio_rank PiecePriorityNone = 0"
| "prio_rank PiecePriorityNormal = 1"
| "prio_rank PiecePriorityHigh = 2"
| "prio_rank PiecePriorityReadahead = 3"
| "prio_rank PiecePriorityNext = 4"
| "prio_rank PiecePriorityNow = 5"

lemma prio_rank_inject [simp]: "prio_rank a = prio_rank b \<longleftrightarrow> a = b"
  by (cases a; cases b) simp_all

instantiation piece_priority :: linorder
begin

definition less_eq_piece_priority :: "piece_priority \<Rightarrow> piece_priority \<Rightarrow> bool" where
  "less_eq_piece_priority a b \<longleftrightarrow> prio_rank a \<le> prio_rank b"

definition less_piece_priority :: "piece_priority \<Rightarrow> piece_priority \<Rightarrow> bool" where
  "less_piece_priority a b \<longleftrightarrow> prio_rank a < prio_rank b"

instance
  by standard (auto simp: less_eq_piece_priority_def less_piece_priority_def)

end

record reader =
  rd_offset :: int
  rd_readahead :: int
  rd_created :: int
  rd_file :: "tfile option"
  rd_isClosed :: bool
  rd_lastAccess :: int
  rd_isUse :: bool

text \<open>
  \<open>NewPiece\<close> gives a piece either a \<open>MemPiece\<close> or a \<open>DiskPiece\<close>; \<open>pc_disk\<close> records which. A memory
  piece keeps nil, or a slice whose entries are nil or a chunk. The identifier of a piece is its
  key in the map of the cache.
\<close>

record piece =
  pc_disk :: bool
  pc_Size :: int
  pc_Complete :: bool
  pc_Accessed :: int
  pc_chunks :: "byte list option list option"

record cleanup_state =
  cl_running :: bool
  cl_pending :: bool
  cl_queued :: bool
  cl_lastRunNano :: int

record priority_state =
  pr_pieces :: "(int \<rightharpoonup> piece_priority) option"
  pr_updateRunning :: bool
  pr_updateQueued :: bool
  pr_lastQueueNano :: int
  pr_clearRunning :: bool
  pr_clearTimer :: bool

record cache_metrics =
  cm_registered :: bool
  cm_hits :: int
  cm_misses :: int
  cm_inMemoryChunks :: int
  cm_residentPieces :: int
  cm_cleanupRuns :: int
  cm_cleanedBytes :: int
  cm_priorityUpdates :: int
  cm_priorityDesiredPieces :: int
  cm_priorityBudgetLimited :: int
  cm_priorityClearedPieces :: int
  cm_prioritySetPieces :: int
  cm_priorityNoopPieces :: int
  cm_priorityTrackedPieces :: int
  cm_priorityLastUpdateMS :: int
  cm_retentionExpanded :: int
  cm_retentionClamped :: int

record cache =
  c_host :: "BTSets option"
  c_capacity :: int
  c_filled :: int
  c_pieceLength :: int
  c_pieceCount :: int
  c_pieces :: "(int \<rightharpoonup> piece) option"
  c_isClosed :: bool
  c_torrent :: bool
  c_priorityAPI :: bool
  c_readers :: "(nat \<rightharpoonup> reader) option"
  c_activeReaders :: int
  c_resident :: "int set option"
  c_priorities :: priority_state
  c_cleanup :: cleanup_state
  c_metrics :: cache_metrics

record gstats =
  gs_activeCaches :: int
  gs_activeReaders :: int
  gs_logicalFilledBytes :: int
  gs_configuredCapacityBytes :: int
  gs_piecesCount :: int
  gs_residentPieces :: int
  gs_inMemoryChunks :: int
  gs_cleanupRuns :: int
  gs_cleanedBytes :: int
  gs_hits :: int
  gs_misses :: int
  gs_priorityUpdates :: int
  gs_priorityDesiredPieces :: int
  gs_priorityBudgetLimited :: int
  gs_priorityClearedPieces :: int
  gs_prioritySetPieces :: int
  gs_priorityNoopPieces :: int
  gs_priorityTrackedPieces :: int
  gs_priorityLastUpdateMS :: int
  gs_retentionExpanded :: int
  gs_retentionClamped :: int
  gs_readerIdleDemotions :: int
  gs_readerReactivations :: int
  gs_readerReactivationsAfterIdle :: int
  gs_readerDemotionIdleMSTotal :: int
  gs_readerDemotionIdleMSMax :: int
  gs_readerReactivationIdleMSTotal :: int
  gs_readerReactivationIdleMSMax :: int

record world =
  w_cache :: cache
  w_stats :: gstats
  w_pool :: "byte list list"
  w_tasks :: "task list"
  w_lib :: "lib_call list"

abbreviation upd_cache :: "(cache \<Rightarrow> cache) \<Rightarrow> world \<Rightarrow> world" where
  "upd_cache f w \<equiv> w\<lparr>w_cache := f (w_cache w)\<rparr>"

abbreviation upd_stats :: "(gstats \<Rightarrow> gstats) \<Rightarrow> world \<Rightarrow> world" where
  "upd_stats f w \<equiv> w\<lparr>w_stats := f (w_stats w)\<rparr>"

abbreviation w_metrics :: "world \<Rightarrow> cache_metrics" where
  "w_metrics w \<equiv> c_metrics (w_cache w)"

abbreviation upd_metrics :: "(cache_metrics \<Rightarrow> cache_metrics) \<Rightarrow> world \<Rightarrow> world" where
  "upd_metrics f w \<equiv> upd_cache (\<lambda>c. c\<lparr>c_metrics := f (c_metrics c)\<rparr>) w"

definition zero_metrics :: cache_metrics where
  "zero_metrics = \<lparr>cm_registered = False, cm_hits = 0, cm_misses = 0, cm_inMemoryChunks = 0,
     cm_residentPieces = 0, cm_cleanupRuns = 0, cm_cleanedBytes = 0, cm_priorityUpdates = 0,
     cm_priorityDesiredPieces = 0, cm_priorityBudgetLimited = 0, cm_priorityClearedPieces = 0,
     cm_prioritySetPieces = 0, cm_priorityNoopPieces = 0, cm_priorityTrackedPieces = 0,
     cm_priorityLastUpdateMS = 0, cm_retentionExpanded = 0, cm_retentionClamped = 0\<rparr>"

definition NewCache :: "int \<Rightarrow> BTSets option \<Rightarrow> cache" where
  "NewCache capacity host =
     \<lparr>c_host = host, c_capacity = capacity, c_filled = 0, c_pieceLength = 0, c_pieceCount = 0,
      c_pieces = Some Map.empty, c_isClosed = False, c_torrent = False, c_priorityAPI = False,
      c_readers = Some Map.empty, c_activeReaders = 0, c_resident = Some {},
      c_priorities = \<lparr>pr_pieces = Some Map.empty, pr_updateRunning = False, pr_updateQueued = False,
        pr_lastQueueNano = 0, pr_clearRunning = False, pr_clearTimer = False\<rparr>,
      c_cleanup = \<lparr>cl_running = False, cl_pending = False, cl_queued = False, cl_lastRunNano = 0\<rparr>,
      c_metrics = zero_metrics\<rparr>"

section \<open>Configuration views\<close>

definition currentCacheConfig :: "cache \<Rightarrow> CacheConfig" where
  "currentCacheConfig c = BTSets_CacheConfig (c_host c)"

definition currentPlaybackConfig :: "cache \<Rightarrow> PlaybackConfig" where
  "currentPlaybackConfig c = BTSets_PlaybackConfig (c_host c)"

definition currentNetworkConfig :: "cache \<Rightarrow> NetworkConfig" where
  "currentNetworkConfig c = BTSets_NetworkConfig (c_host c)"

definition debugMetricsEnabled :: "cache \<Rightarrow> bool" where
  "debugMetricsEnabled c =
     (case c_host c of None \<Rightarrow> False | Some sets \<Rightarrow> dc_EnableDebug (BTSets_DebugConfig (Some sets)))"

section \<open>Operations\<close>

definition registerMetrics :: "world \<Rightarrow> world" where
  "registerMetrics w =
     (if cm_registered (w_metrics w) then w
      else let w = upd_metrics (\<lambda>m. m\<lparr>cm_registered := True\<rparr>) w; c = w_cache w in
        upd_stats (\<lambda>g. g\<lparr>
          gs_activeCaches := i64 (gs_activeCaches g + 1),
          gs_configuredCapacityBytes := i64 (gs_configuredCapacityBytes g + c_capacity c),
          gs_piecesCount := i64 (gs_piecesCount g + c_pieceCount c),
          gs_residentPieces := i64 (gs_residentPieces g + cm_residentPieces (c_metrics c))\<rparr>) w)"

definition trimReusableMemPieceChunks :: "int \<Rightarrow> world \<Rightarrow> world" where
  "trimReusableMemPieceChunks maxChunks w =
     (let k = (if maxChunks < 0 then 0 else maxChunks)
      in w\<lparr>w_pool := drop (length (w_pool w) - nat k) (w_pool w)\<rparr>)"

definition unregisterMetrics :: "world \<Rightarrow> world" where
  "unregisterMetrics w =
     (if \<not> cm_registered (w_metrics w) then w
      else let c = w_cache w; m = c_metrics c;
        filled = c_filled c; chunks = cm_inMemoryChunks m; readers = c_activeReaders c;
        residentPieces = cm_residentPieces m; trackedPriorityPieces = cm_priorityTrackedPieces m;
        w = upd_cache (\<lambda>c. c\<lparr>c_filled := 0\<rparr>) w;
        w = upd_metrics (\<lambda>m. m\<lparr>cm_registered := False, cm_inMemoryChunks := 0,
              cm_residentPieces := 0, cm_priorityTrackedPieces := 0\<rparr>) w;
        w = upd_stats (\<lambda>g. g\<lparr>
          gs_activeCaches := i64 (gs_activeCaches g - 1),
          gs_activeReaders := i64 (gs_activeReaders g - readers),
          gs_configuredCapacityBytes := i64 (gs_configuredCapacityBytes g - c_capacity c),
          gs_piecesCount := i64 (gs_piecesCount g - c_pieceCount c),
          gs_residentPieces := i64 (gs_residentPieces g - residentPieces),
          gs_logicalFilledBytes := i64 (gs_logicalFilledBytes g - filled),
          gs_inMemoryChunks := i64 (gs_inMemoryChunks g - chunks),
          gs_priorityTrackedPieces := i64 (gs_priorityTrackedPieces g - trackedPriorityPieces)\<rparr>) w
      in trimReusableMemPieceChunks 0 w)"

definition recordHit :: "world \<Rightarrow> world" where
  "recordHit w = upd_stats (\<lambda>g. g\<lparr>gs_hits := u64 (gs_hits g + 1)\<rparr>)
     (upd_metrics (\<lambda>m. m\<lparr>cm_hits := u64 (cm_hits m + 1)\<rparr>) w)"

definition recordMiss :: "world \<Rightarrow> world" where
  "recordMiss w = upd_stats (\<lambda>g. g\<lparr>gs_misses := u64 (gs_misses g + 1)\<rparr>)
     (upd_metrics (\<lambda>m. m\<lparr>cm_misses := u64 (cm_misses m + 1)\<rparr>) w)"

definition addConfiguredCapacity :: "int \<Rightarrow> world \<Rightarrow> world" where
  "addConfiguredCapacity delta w =
     (if delta = 0 \<or> \<not> cm_registered (w_metrics w) then w
      else upd_stats (\<lambda>g. g\<lparr>gs_configuredCapacityBytes := i64 (gs_configuredCapacityBytes g + delta)\<rparr>) w)"

definition clamp_add :: "int \<Rightarrow> int \<Rightarrow> int" where
  "clamp_add old delta = (let nxt = i64 (old + delta) in if nxt < 0 then 0 else nxt)"

definition addFilled :: "int \<Rightarrow> world \<Rightarrow> world" where
  "addFilled delta w =
     (if delta = 0 then w
      else let old = c_filled (w_cache w); nxt = clamp_add old delta;
               w = upd_cache (\<lambda>c. c\<lparr>c_filled := nxt\<rparr>) w
           in if cm_registered (w_metrics w)
              then upd_stats (\<lambda>g. g\<lparr>gs_logicalFilledBytes := i64 (gs_logicalFilledBytes g + (nxt - old))\<rparr>) w
              else w)"

definition addInMemoryChunks :: "int \<Rightarrow> world \<Rightarrow> world" where
  "addInMemoryChunks delta w =
     (if delta = 0 then w
      else let old = cm_inMemoryChunks (w_metrics w); nxt = clamp_add old delta;
               w = upd_metrics (\<lambda>m. m\<lparr>cm_inMemoryChunks := nxt\<rparr>) w
           in if cm_registered (w_metrics w)
              then upd_stats (\<lambda>g. g\<lparr>gs_inMemoryChunks := i64 (gs_inMemoryChunks g + (nxt - old))\<rparr>) w
              else w)"

definition addResidentPieces :: "int \<Rightarrow> world \<Rightarrow> world" where
  "addResidentPieces delta w =
     (if delta = 0 then w
      else let old = cm_residentPieces (w_metrics w); nxt = clamp_add old delta;
               w = upd_metrics (\<lambda>m. m\<lparr>cm_residentPieces := nxt\<rparr>) w
           in if cm_registered (w_metrics w)
              then upd_stats (\<lambda>g. g\<lparr>gs_residentPieces := i64 (gs_residentPieces g + (nxt - old))\<rparr>) w
              else w)"

definition addActiveReaders :: "int \<Rightarrow> world \<Rightarrow> world" where
  "addActiveReaders delta w =
     (if delta = 0 then w
      else let w = upd_cache (\<lambda>c. c\<lparr>c_activeReaders := i32 (c_activeReaders c + i32 delta)\<rparr>) w
           in if cm_registered (w_metrics w)
              then upd_stats (\<lambda>g. g\<lparr>gs_activeReaders := i64 (gs_activeReaders g + delta)\<rparr>) w
              else w)"

definition recordCleanupRun :: "world \<Rightarrow> world" where
  "recordCleanupRun w = upd_stats (\<lambda>g. g\<lparr>gs_cleanupRuns := u64 (gs_cleanupRuns g + 1)\<rparr>)
     (upd_metrics (\<lambda>m. m\<lparr>cm_cleanupRuns := u64 (cm_cleanupRuns m + 1)\<rparr>) w)"

definition recordCleanedBytes :: "int \<Rightarrow> world \<Rightarrow> world" where
  "recordCleanedBytes bytes w =
     (if bytes \<le> 0 then w
      else upd_stats (\<lambda>g. g\<lparr>gs_cleanedBytes := u64 (gs_cleanedBytes g + u64 bytes)\<rparr>)
        (upd_metrics (\<lambda>m. m\<lparr>cm_cleanedBytes := u64 (cm_cleanedBytes m + u64 bytes)\<rparr>) w))"

definition recordPrioritySelection :: "int \<Rightarrow> int \<Rightarrow> bool \<Rightarrow> world \<Rightarrow> world" where
  "recordPrioritySelection nowMS desiredPieces budgetLimited w =
     (let w = upd_metrics (\<lambda>m. m\<lparr>cm_priorityUpdates := u64 (cm_priorityUpdates m + 1),
                cm_priorityLastUpdateMS := nowMS\<rparr>) w;
          w = upd_stats (\<lambda>g. g\<lparr>gs_priorityUpdates := u64 (gs_priorityUpdates g + 1),
                gs_priorityLastUpdateMS := nowMS\<rparr>) w;
          w = (if desiredPieces > 0 then
                 upd_stats (\<lambda>g. g\<lparr>gs_priorityDesiredPieces := u64 (gs_priorityDesiredPieces g + u64 desiredPieces)\<rparr>)
                   (upd_metrics (\<lambda>m. m\<lparr>cm_priorityDesiredPieces := u64 (cm_priorityDesiredPieces m + u64 desiredPieces)\<rparr>) w)
               else w)
      in if budgetLimited then
           upd_stats (\<lambda>g. g\<lparr>gs_priorityBudgetLimited := u64 (gs_priorityBudgetLimited g + 1)\<rparr>)
             (upd_metrics (\<lambda>m. m\<lparr>cm_priorityBudgetLimited := u64 (cm_priorityBudgetLimited m + 1)\<rparr>) w)
         else w)"

definition setTrackedPriorityPieces :: "int \<Rightarrow> world \<Rightarrow> world" where
  "setTrackedPriorityPieces trackedPieces w =
     (let nxt = (if trackedPieces < 0 then 0 else trackedPieces);
          old = cm_priorityTrackedPieces (w_metrics w);
          w = upd_metrics (\<lambda>m. m\<lparr>cm_priorityTrackedPieces := nxt\<rparr>) w
      in if cm_registered (w_metrics w)
         then upd_stats (\<lambda>g. g\<lparr>gs_priorityTrackedPieces := i64 (gs_priorityTrackedPieces g + (nxt - old))\<rparr>) w
         else w)"

definition recordPriorityChurn :: "int \<Rightarrow> int \<Rightarrow> int \<Rightarrow> int \<Rightarrow> world \<Rightarrow> world" where
  "recordPriorityChurn clearedPieces setPieces noopPieces trackedPieces w =
     (let w = (if clearedPieces > 0 then
                 upd_stats (\<lambda>g. g\<lparr>gs_priorityClearedPieces := u64 (gs_priorityClearedPieces g + u64 clearedPieces)\<rparr>)
                   (upd_metrics (\<lambda>m. m\<lparr>cm_priorityClearedPieces := u64 (cm_priorityClearedPieces m + u64 clearedPieces)\<rparr>) w)
               else w);
          w = (if setPieces > 0 then
                 upd_stats (\<lambda>g. g\<lparr>gs_prioritySetPieces := u64 (gs_prioritySetPieces g + u64 setPieces)\<rparr>)
                   (upd_metrics (\<lambda>m. m\<lparr>cm_prioritySetPieces := u64 (cm_prioritySetPieces m + u64 setPieces)\<rparr>) w)
               else w);
          w = (if noopPieces > 0 then
                 upd_stats (\<lambda>g. g\<lparr>gs_priorityNoopPieces := u64 (gs_priorityNoopPieces g + u64 noopPieces)\<rparr>)
                   (upd_metrics (\<lambda>m. m\<lparr>cm_priorityNoopPieces := u64 (cm_priorityNoopPieces m + u64 noopPieces)\<rparr>) w)
               else w)
      in setTrackedPriorityPieces trackedPieces w)"

definition recordRetentionWindowAdjustment :: "bool \<Rightarrow> bool \<Rightarrow> world \<Rightarrow> world" where
  "recordRetentionWindowAdjustment expanded clamped w =
     (if \<not> debugMetricsEnabled (w_cache w) then w
      else let w = (if expanded then
                 upd_stats (\<lambda>g. g\<lparr>gs_retentionExpanded := u64 (gs_retentionExpanded g + 1)\<rparr>)
                   (upd_metrics (\<lambda>m. m\<lparr>cm_retentionExpanded := u64 (cm_retentionExpanded m + 1)\<rparr>) w)
               else w)
      in if clamped then
           upd_stats (\<lambda>g. g\<lparr>gs_retentionClamped := u64 (gs_retentionClamped g + 1)\<rparr>)
             (upd_metrics (\<lambda>m. m\<lparr>cm_retentionClamped := u64 (cm_retentionClamped m + 1)\<rparr>) w)
         else w)"

text \<open>A \<open>time.Duration\<close> is a number of nanoseconds; \<open>Milliseconds\<close> truncates.\<close>

definition durationMilliseconds :: "int \<Rightarrow> int" where
  "durationMilliseconds duration = (if duration \<le> 0 then 0 else go_div duration 1000000)"

definition updateAtomicMax :: "int \<Rightarrow> int \<Rightarrow> int" where
  "updateAtomicMax old v = (if v \<le> old then old else v)"

definition readerIdleDemotionThreshold :: int where
  "readerIdleDemotionThreshold = 5 * 60 * 1000000000"

definition recordReaderIdleDemotion :: "int \<Rightarrow> world \<Rightarrow> world" where
  "recordReaderIdleDemotion idle w =
     (if \<not> debugMetricsEnabled (w_cache w) then w
      else let idleMS = durationMilliseconds idle in
        upd_stats (\<lambda>g. g\<lparr>gs_readerIdleDemotions := u64 (gs_readerIdleDemotions g + 1),
          gs_readerDemotionIdleMSTotal := u64 (gs_readerDemotionIdleMSTotal g + u64 idleMS),
          gs_readerDemotionIdleMSMax := updateAtomicMax (gs_readerDemotionIdleMSMax g) idleMS\<rparr>) w)"

definition recordReaderReactivation :: "int \<Rightarrow> world \<Rightarrow> world" where
  "recordReaderReactivation idle w =
     (if \<not> debugMetricsEnabled (w_cache w) then w
      else let idleMS = durationMilliseconds idle;
        w = upd_stats (\<lambda>g. g\<lparr>gs_readerReactivations := u64 (gs_readerReactivations g + 1),
          gs_readerReactivationIdleMSTotal := u64 (gs_readerReactivationIdleMSTotal g + u64 idleMS),
          gs_readerReactivationIdleMSMax := updateAtomicMax (gs_readerReactivationIdleMSMax g) idleMS\<rparr>) w
      in if idle \<ge> readerIdleDemotionThreshold then
           upd_stats (\<lambda>g. g\<lparr>gs_readerReactivationsAfterIdle := u64 (gs_readerReactivationsAfterIdle g + 1)\<rparr>) w
         else w)"

section \<open>Snapshots\<close>

record CacheStats =
  ActiveCaches :: int
  ActiveReaders :: int
  LogicalFilledBytes :: int
  ConfiguredCapacityBytes :: int
  LogicalOverheadBytes :: int
  PiecesCount :: int
  ResidentPieces :: int
  InMemoryChunks :: int
  ReusableChunks :: int
  ReusableBytes :: int
  CleanupRuns :: int
  CleanedBytes :: int
  Hits :: int
  Misses :: int

definition memPieceChunkSize :: int where
  "memPieceChunkSize = 16384"

definition SnapshotCacheStats :: "world \<Rightarrow> CacheStats" where
  "SnapshotCacheStats w =
     (let g = w_stats w; logicalFilled = gs_logicalFilledBytes g;
          configuredCapacity = gs_configuredCapacityBytes g;
          reusableChunks = int (length (w_pool w))
      in \<lparr>ActiveCaches = gs_activeCaches g, ActiveReaders = gs_activeReaders g,
          LogicalFilledBytes = logicalFilled, ConfiguredCapacityBytes = configuredCapacity,
          LogicalOverheadBytes = max (i64 (logicalFilled - configuredCapacity)) 0,
          PiecesCount = gs_piecesCount g, ResidentPieces = gs_residentPieces g,
          InMemoryChunks = gs_inMemoryChunks g, ReusableChunks = reusableChunks,
          ReusableBytes = i64 (reusableChunks * memPieceChunkSize),
          CleanupRuns = gs_cleanupRuns g, CleanedBytes = gs_cleanedBytes g,
          Hits = gs_hits g, Misses = gs_misses g\<rparr>)"

record CachePriorityStats =
  cps_UpdatesTotal :: int
  cps_DesiredPiecesTotal :: int
  cps_BudgetLimitedTotal :: int
  cps_ClearedPiecesTotal :: int
  cps_SetPiecesTotal :: int
  cps_NoopPiecesTotal :: int
  cps_TrackedPieces :: int
  cps_LastUpdateUnixMS :: int
  cps_RetentionExpandedTotal :: int
  cps_RetentionClampedTotal :: int

definition SnapshotCachePriorityStats :: "world \<Rightarrow> CachePriorityStats" where
  "SnapshotCachePriorityStats w = (let g = w_stats w in
     \<lparr>cps_UpdatesTotal = gs_priorityUpdates g, cps_DesiredPiecesTotal = gs_priorityDesiredPieces g,
      cps_BudgetLimitedTotal = gs_priorityBudgetLimited g,
      cps_ClearedPiecesTotal = gs_priorityClearedPieces g,
      cps_SetPiecesTotal = gs_prioritySetPieces g, cps_NoopPiecesTotal = gs_priorityNoopPieces g,
      cps_TrackedPieces = gs_priorityTrackedPieces g,
      cps_LastUpdateUnixMS = gs_priorityLastUpdateMS g,
      cps_RetentionExpandedTotal = gs_retentionExpanded g,
      cps_RetentionClampedTotal = gs_retentionClamped g\<rparr>)"

record ReaderLifecycleStats =
  rls_IdleDemotionsTotal :: int
  rls_ReactivationsTotal :: int
  rls_ReactivationsAfterIdleTotal :: int
  rls_DemotionIdleMSTotal :: int
  rls_DemotionIdleMSMax :: int
  rls_ReactivationIdleMSTotal :: int
  rls_ReactivationIdleMSMax :: int

definition SnapshotReaderLifecycleStats :: "world \<Rightarrow> ReaderLifecycleStats" where
  "SnapshotReaderLifecycleStats w = (let g = w_stats w in
     \<lparr>rls_IdleDemotionsTotal = gs_readerIdleDemotions g,
      rls_ReactivationsTotal = gs_readerReactivations g,
      rls_ReactivationsAfterIdleTotal = gs_readerReactivationsAfterIdle g,
      rls_DemotionIdleMSTotal = gs_readerDemotionIdleMSTotal g,
      rls_DemotionIdleMSMax = gs_readerDemotionIdleMSMax g,
      rls_ReactivationIdleMSTotal = gs_readerReactivationIdleMSTotal g,
      rls_ReactivationIdleMSMax = gs_readerReactivationIdleMSMax g\<rparr>)"

section \<open>Balance of the aggregates\<close>

text \<open>
  \<open>changeCapacity\<close> is the pair of steps with which \<open>AdjustRA\<close> and \<open>SetCapacity\<close> move the bound.
\<close>

definition changeCapacity :: "int \<Rightarrow> world \<Rightarrow> world" where
  "changeCapacity newCapacity w =
     (let old = c_capacity (w_cache w)
      in addConfiguredCapacity (i64 (newCapacity - old)) (upd_cache (\<lambda>c. c\<lparr>c_capacity := newCapacity\<rparr>) w))"

datatype metric_event =
    EvHit | EvMiss | EvCapacity int | EvFilled int | EvChunks int | EvResident int | EvReaders int
  | EvCleanupRun | EvCleaned int | EvSelection int int bool | EvChurn int int int int
  | EvTracked int | EvRetention bool bool | EvDemotion int | EvReactivation int

fun metric_step :: "world \<Rightarrow> metric_event \<Rightarrow> world" where
  "metric_step w EvHit = recordHit w"
| "metric_step w EvMiss = recordMiss w"
| "metric_step w (EvCapacity n) = changeCapacity n w"
| "metric_step w (EvFilled d) = addFilled d w"
| "metric_step w (EvChunks d) = addInMemoryChunks d w"
| "metric_step w (EvResident d) = addResidentPieces d w"
| "metric_step w (EvReaders d) = addActiveReaders d w"
| "metric_step w EvCleanupRun = recordCleanupRun w"
| "metric_step w (EvCleaned b) = recordCleanedBytes b w"
| "metric_step w (EvSelection t d l) = recordPrioritySelection t d l w"
| "metric_step w (EvChurn c s n t) = recordPriorityChurn c s n t w"
| "metric_step w (EvTracked t) = setTrackedPriorityPieces t w"
| "metric_step w (EvRetention e c) = recordRetentionWindowAdjustment e c w"
| "metric_step w (EvDemotion i) = recordReaderIdleDemotion i w"
| "metric_step w (EvReactivation i) = recordReaderReactivation i w"

definition balanced :: "world \<Rightarrow> world \<Rightarrow> bool" where
  "balanced b w \<longleftrightarrow>
     (let g = w_stats w; g0 = w_stats b; c = w_cache w; m = c_metrics c in
      cm_registered m \<and> c_pieceCount c = c_pieceCount (w_cache b) \<and>
      gs_activeCaches g = i64 (gs_activeCaches g0 + 1) \<and>
      gs_piecesCount g = i64 (gs_piecesCount g0 + c_pieceCount c) \<and>
      gs_configuredCapacityBytes g = i64 (gs_configuredCapacityBytes g0 + c_capacity c) \<and>
      gs_residentPieces g = i64 (gs_residentPieces g0 + cm_residentPieces m) \<and>
      gs_logicalFilledBytes g = i64 (gs_logicalFilledBytes g0 + c_filled c) \<and>
      gs_inMemoryChunks g = i64 (gs_inMemoryChunks g0 + cm_inMemoryChunks m) \<and>
      gs_priorityTrackedPieces g = i64 (gs_priorityTrackedPieces g0 + cm_priorityTrackedPieces m))"

lemmas metric_ops =
  recordHit_def recordMiss_def changeCapacity_def addConfiguredCapacity_def addFilled_def
  addInMemoryChunks_def addResidentPieces_def addActiveReaders_def recordCleanupRun_def
  recordCleanedBytes_def recordPrioritySelection_def recordPriorityChurn_def
  setTrackedPriorityPieces_def recordRetentionWindowAdjustment_def recordReaderIdleDemotion_def
  recordReaderReactivation_def

lemma i64_shift: "i64 (a + b + (c - b)) = i64 (a + c)"
  by (simp add: algebra_simps)

lemma i64_shift_zero: "i64 (a - b) = 0 \<Longrightarrow> i64 (c + a) = i64 (c + b)"
proof -
  assume "i64 (a - b) = 0"
  then have "i64 (i64 (a - b) + (b + c)) = i64 (b + c)" by simp
  then show ?thesis by (simp add: add.commute)
qed

lemma balanced_step: "balanced b w \<Longrightarrow> balanced b (metric_step w e)"
proof (cases e)
  case (EvCapacity n)
  assume "balanced b w"
  then show ?thesis unfolding EvCapacity
    using i64_shift_zero [of n "c_capacity (w_cache w)" "gs_configuredCapacityBytes (w_stats b)"]
    by (auto simp: balanced_def Let_def metric_ops i64_shift)
qed (auto simp: balanced_def Let_def metric_ops i64_shift)

interpretation metrics: step_system metric_step "balanced b" for b
  by unfold_locales (rule balanced_step)

definition gauges :: "gstats \<Rightarrow> int list" where
  "gauges g = [gs_activeCaches g, gs_piecesCount g, gs_configuredCapacityBytes g,
     gs_residentPieces g, gs_logicalFilledBytes g, gs_inMemoryChunks g, gs_priorityTrackedPieces g]"

definition balanced_start :: "world \<Rightarrow> bool" where
  "balanced_start w \<longleftrightarrow>
     \<not> cm_registered (w_metrics w) \<and> c_filled (w_cache w) = 0 \<and>
     cm_inMemoryChunks (w_metrics w) = 0 \<and> cm_priorityTrackedPieces (w_metrics w) = 0 \<and>
     (\<forall>x \<in> set (gauges (w_stats w)). fits_i64 x)"

lemma balanced_register: "balanced_start w \<Longrightarrow> balanced w (registerMetrics w)"
  by (simp add: balanced_start_def balanced_def registerMetrics_def Let_def i64_id gauges_def)

lemma balanced_unregister:
  assumes "balanced b w"
  shows "gauges (w_stats (unregisterMetrics w)) = map i64 (gauges (w_stats b))"
  using assms
  by (simp add: balanced_def unregisterMetrics_def trimReusableMemPieceChunks_def Let_def gauges_def)

text \<open>
  The process-wide gauges are balanced: a cache that registers with nothing filled, runs any
  sequence of metric operations and unregisters leaves the number of caches and pieces, the
  configured capacity, the resident pieces, the filled bytes, the chunks in memory and the
  tracked priorities exactly as they were before it registered, the clamping at zero
  and the 64-bit wrap-around of the counters included.
\<close>

theorem unregister_restores_gauges:
  assumes "balanced_start w"
  shows "gauges (w_stats (unregisterMetrics (foldl metric_step (registerMetrics w) es))) = gauges (w_stats w)"
proof -
  have "balanced w (registerMetrics w)"
    using assms by (rule balanced_register)
  then have "balanced w (foldl metric_step (registerMetrics w) es)" by (rule metrics.inv_run)
  from balanced_unregister [OF this] show ?thesis
    using assms by (simp add: balanced_start_def map_idI i64_id)
qed

definition zero_gstats :: gstats where
  "zero_gstats = \<lparr>gs_activeCaches = 0, gs_activeReaders = 0, gs_logicalFilledBytes = 0,
     gs_configuredCapacityBytes = 0, gs_piecesCount = 0, gs_residentPieces = 0,
     gs_inMemoryChunks = 0, gs_cleanupRuns = 0, gs_cleanedBytes = 0, gs_hits = 0, gs_misses = 0,
     gs_priorityUpdates = 0, gs_priorityDesiredPieces = 0, gs_priorityBudgetLimited = 0,
     gs_priorityClearedPieces = 0, gs_prioritySetPieces = 0, gs_priorityNoopPieces = 0,
     gs_priorityTrackedPieces = 0, gs_priorityLastUpdateMS = 0, gs_retentionExpanded = 0,
     gs_retentionClamped = 0, gs_readerIdleDemotions = 0, gs_readerReactivations = 0,
     gs_readerReactivationsAfterIdle = 0, gs_readerDemotionIdleMSTotal = 0,
     gs_readerDemotionIdleMSMax = 0, gs_readerReactivationIdleMSTotal = 0,
     gs_readerReactivationIdleMSMax = 0\<rparr>"

definition new_world :: "cache \<Rightarrow> world" where
  "new_world c = \<lparr>w_cache = c, w_stats = zero_gstats, w_pool = [], w_tasks = [], w_lib = []\<rparr>"

lemma new_world_simps [simp]:
  "w_cache (new_world c) = c" "w_stats (new_world c) = zero_gstats" "w_pool (new_world c) = []"
  "w_tasks (new_world c) = []" "w_lib (new_world c) = []"
  by (simp_all add: new_world_def)

theorem unregister_restores_gauges_witness:
  "let w = new_world ((NewCache 100 None)\<lparr>c_pieceCount := 3\<rparr>)
   in gauges (w_stats (unregisterMetrics (foldl metric_step (registerMetrics w)
        [EvFilled 10, EvChunks 2, EvCapacity 7, EvFilled (-20), EvResident 1, EvHit]))) = gauges (w_stats w)"
  unfolding Let_def
  by (rule unregister_restores_gauges)
    (simp add: balanced_start_def NewCache_def zero_metrics_def gauges_def zero_gstats_def fits_i64_def)

text \<open>
  A cache that registers with something filled is balanced against a process that holds less by just that.
\<close>

definition before_filled :: "world \<Rightarrow> world" where
  "before_filled w = upd_stats (\<lambda>g. g\<lparr>
     gs_logicalFilledBytes := gs_logicalFilledBytes g - c_filled (w_cache w),
     gs_inMemoryChunks := gs_inMemoryChunks g - cm_inMemoryChunks (w_metrics w),
     gs_priorityTrackedPieces := gs_priorityTrackedPieces g - cm_priorityTrackedPieces (w_metrics w)\<rparr>) w"

lemma balanced_register_filled:
  assumes "\<not> cm_registered (w_metrics w)" and "\<forall>x \<in> set (gauges (w_stats w)). fits_i64 x"
  shows "balanced (before_filled w) (registerMetrics w)"
  using assms by (simp add: balanced_def before_filled_def registerMetrics_def Let_def i64_id gauges_def)

text \<open>
  Property C10. Along the way the gauges of the metrics endpoint follow the cache. Take any cache that is not registered, whatever
  it holds already, and a process whose gauges are 64-bit numbers. After the registration and any sequence of metric operations, clamped
  ones included, the snapshot of the aggregates is the snapshot before the registration plus, for the configured
  capacity and the resident pieces, what the cache has now, and plus, for the filled bytes and the chunks in memory,
  what it has now less what it had when it registered, which the registration does not add. For a
  cache that registers empty, the gauges thus hold all that it holds; for one that finds files of an earlier run they do not.
\<close>

theorem snapshot_tracks_cache:
  assumes "\<not> cm_registered (w_metrics w)" and "\<forall>x \<in> set (gauges (w_stats w)). fits_i64 x"
    and "w' = foldl metric_step (registerMetrics w) es"
  shows "ConfiguredCapacityBytes (SnapshotCacheStats w') = i64 (ConfiguredCapacityBytes (SnapshotCacheStats w) + c_capacity (w_cache w'))
    \<and> ResidentPieces (SnapshotCacheStats w') = i64 (ResidentPieces (SnapshotCacheStats w) + cm_residentPieces (w_metrics w'))
    \<and> LogicalFilledBytes (SnapshotCacheStats w') =
        i64 (LogicalFilledBytes (SnapshotCacheStats w) + (c_filled (w_cache w') - c_filled (w_cache w)))
    \<and> InMemoryChunks (SnapshotCacheStats w') =
        i64 (InMemoryChunks (SnapshotCacheStats w) + (cm_inMemoryChunks (w_metrics w') - cm_inMemoryChunks (w_metrics w)))"
proof -
  have "balanced (before_filled w) (registerMetrics w)" using assms(1,2) by (rule balanced_register_filled)
  then have "balanced (before_filled w) w'" unfolding assms(3) by (rule metrics.inv_run)
  then show ?thesis by (simp add: balanced_def before_filled_def SnapshotCacheStats_def Let_def algebra_simps)
qed

theorem snapshot_tracks_cache_witness:
  "let w = new_world ((NewCache 100 None)\<lparr>c_filled := 5\<rparr>);
       w' = foldl metric_step (registerMetrics w) [EvFilled 10, EvChunks 2, EvCapacity 7, EvFilled (-20)]
   in LogicalFilledBytes (SnapshotCacheStats w') = -5 \<and> ConfiguredCapacityBytes (SnapshotCacheStats w') = 7"
proof -
  define w where "w = new_world ((NewCache 100 None)\<lparr>c_filled := 5\<rparr>)"
  define w' where "w' = foldl metric_step (registerMetrics w) [EvFilled 10, EvChunks 2, EvCapacity 7, EvFilled (-20)]"
  have start: "\<not> cm_registered (w_metrics w)" "\<forall>x \<in> set (gauges (w_stats w)). fits_i64 x"
    by (simp_all add: w_def NewCache_def zero_metrics_def gauges_def zero_gstats_def fits_i64_def)
  have now: "c_filled (w_cache w') = 0" "c_capacity (w_cache w') = 7"
    by (simp_all add: w'_def w_def NewCache_def zero_metrics_def registerMetrics_def metric_ops clamp_add_def i64_id fits_i64_def Let_def)
  have "LogicalFilledBytes (SnapshotCacheStats w) = 0" "ConfiguredCapacityBytes (SnapshotCacheStats w) = 0" "c_filled (w_cache w) = 5"
    by (simp_all add: w_def SnapshotCacheStats_def zero_gstats_def NewCache_def Let_def)
  then show ?thesis using snapshot_tracks_cache [OF start w'_def] now
    unfolding Let_def w_def [symmetric] w'_def [symmetric] by (simp add: i64_id fits_i64_def)
qed

end
