(* ===== verification/Cache_State.thy ===== *)
theory Cache_State
  imports Cache_Metrics
begin

text \<open>
  The parts of a torrent cache that its pieces call back into (torrstor/cache_cleanup.go: the set of
  resident pieces and the request for a cleanup; torrstor/cache_priority.go:
  \<open>untrackPriorityPiece\<close>) and its accessors (torrstor/cache_state.go).
\<close>

section \<open>Resident pieces\<close>

definition markResidentPiece :: "int \<Rightarrow> world \<Rightarrow> world" where
  "markResidentPiece pid w =
     (case c_resident (w_cache w) of
        None \<Rightarrow> w
      | Some items \<Rightarrow>
          if pid \<in> items then w
          else addResidentPieces 1 (upd_cache (\<lambda>c. c\<lparr>c_resident := Some (insert pid items)\<rparr>) w))"

definition unmarkResidentPiece :: "int \<Rightarrow> world \<Rightarrow> world" where
  "unmarkResidentPiece pid w =
     (case c_resident (w_cache w) of
        None \<Rightarrow> w
      | Some items \<Rightarrow>
          let w' = upd_cache (\<lambda>c. c\<lparr>c_resident := Some (items - {pid})\<rparr>) w
          in if pid \<in> items then addResidentPieces (-1) w' else w')"

section \<open>The request for a cleanup\<close>

text \<open>
  \<open>now\<close> is \<open>time.Now().UnixNano()\<close>. The two compare-and-swaps are one step here: with a caller
  that lost the first one the call has no effect, as when the interval has not passed.
\<close>

definition minCleanInterval :: int where
  "minCleanInterval = 250 * 1000000"

definition queueCleanPieces :: "int \<Rightarrow> world \<Rightarrow> world" where
  "queueCleanPieces now w =
     (let c = w_cache w; last = cl_lastRunNano (c_cleanup c) in
      if c_isClosed c then w
      else if last \<noteq> 0 \<and> i64 (now - last) < minCleanInterval then w
      else let queued = cl_queued (c_cleanup c);
               w = upd_cache (\<lambda>c. c\<lparr>c_cleanup := (c_cleanup c)\<lparr>cl_lastRunNano := now\<rparr>\<rparr>) w
           in if queued then w
              else (upd_cache (\<lambda>c. c\<lparr>c_cleanup := (c_cleanup c)\<lparr>cl_queued := True\<rparr>\<rparr>) w)
                     \<lparr>w_tasks := w_tasks w @ [RunCleanPieces]\<rparr>)"

section \<open>Priorities of released pieces\<close>

definition untrackPriorityPiece :: "int \<Rightarrow> world \<Rightarrow> world" where
  "untrackPriorityPiece pid w =
     (case pr_pieces (c_priorities (w_cache w)) of
        None \<Rightarrow> w
      | Some m \<Rightarrow>
          if m pid = None then w
          else let m' = m(pid := None);
                   w = upd_cache (\<lambda>c. c\<lparr>c_priorities := (c_priorities c)\<lparr>pr_pieces := Some m'\<rparr>\<rparr>) w
               in setTrackedPriorityPieces (int (card (dom m'))) w)"

section \<open>Accessors\<close>

definition GetCapacity :: "cache option \<Rightarrow> int" where
  "GetCapacity c = (case c of None \<Rightarrow> 0 | Some c \<Rightarrow> c_capacity c)"

definition requestStrategyCapacity :: "cache option \<Rightarrow> int \<times> bool" where
  "requestStrategyCapacity c =
     (case c of
        None \<Rightarrow> (0, True)
      | Some d \<Rightarrow>
          if c_isClosed d then (0, True)
          else let capacity = GetCapacity c in
            if capacity < 0 \<or> c_isClosed d then (0, True) else (capacity, True))"

definition Filled :: "cache option \<Rightarrow> int" where
  "Filled c = (case c of None \<Rightarrow> 0 | Some c \<Rightarrow> c_filled c)"

definition ResidentPieceCount :: "cache option \<Rightarrow> int" where
  "ResidentPieceCount c = (case c of None \<Rightarrow> 0 | Some c \<Rightarrow> cm_residentPieces (c_metrics c))"

definition needsCleanup :: "cache \<Rightarrow> bool" where
  "needsCleanup c \<longleftrightarrow> \<not> c_isClosed c \<and> c_filled c > GetCapacity (Some c)"

section \<open>What each operation leaves alone\<close>

lemma recordHit_frame [simp]:
  "c_host (w_cache (recordHit w)) = c_host (w_cache w)"
  "c_capacity (w_cache (recordHit w)) = c_capacity (w_cache w)"
  "c_filled (w_cache (recordHit w)) = c_filled (w_cache w)"
  "c_pieceLength (w_cache (recordHit w)) = c_pieceLength (w_cache w)"
  "c_pieceCount (w_cache (recordHit w)) = c_pieceCount (w_cache w)"
  "c_pieces (w_cache (recordHit w)) = c_pieces (w_cache w)"
  "c_isClosed (w_cache (recordHit w)) = c_isClosed (w_cache w)"
  "c_torrent (w_cache (recordHit w)) = c_torrent (w_cache w)"
  "c_priorityAPI (w_cache (recordHit w)) = c_priorityAPI (w_cache w)"
  "c_readers (w_cache (recordHit w)) = c_readers (w_cache w)"
  "c_activeReaders (w_cache (recordHit w)) = c_activeReaders (w_cache w)"
  "c_resident (w_cache (recordHit w)) = c_resident (w_cache w)"
  "c_priorities (w_cache (recordHit w)) = c_priorities (w_cache w)"
  "c_cleanup (w_cache (recordHit w)) = c_cleanup (w_cache w)"
  "cm_registered (w_metrics (recordHit w)) = cm_registered (w_metrics w)"
  "cm_residentPieces (w_metrics (recordHit w)) = cm_residentPieces (w_metrics w)"
  "cm_inMemoryChunks (w_metrics (recordHit w)) = cm_inMemoryChunks (w_metrics w)"
  "w_pool (recordHit w) = w_pool w"
  "w_tasks (recordHit w) = w_tasks w"
  "w_lib (recordHit w) = w_lib w"
  by (simp_all add: recordHit_def Let_def)

lemma recordMiss_frame [simp]:
  "c_host (w_cache (recordMiss w)) = c_host (w_cache w)"
  "c_capacity (w_cache (recordMiss w)) = c_capacity (w_cache w)"
  "c_filled (w_cache (recordMiss w)) = c_filled (w_cache w)"
  "c_pieceLength (w_cache (recordMiss w)) = c_pieceLength (w_cache w)"
  "c_pieceCount (w_cache (recordMiss w)) = c_pieceCount (w_cache w)"
  "c_pieces (w_cache (recordMiss w)) = c_pieces (w_cache w)"
  "c_isClosed (w_cache (recordMiss w)) = c_isClosed (w_cache w)"
  "c_torrent (w_cache (recordMiss w)) = c_torrent (w_cache w)"
  "c_priorityAPI (w_cache (recordMiss w)) = c_priorityAPI (w_cache w)"
  "c_readers (w_cache (recordMiss w)) = c_readers (w_cache w)"
  "c_activeReaders (w_cache (recordMiss w)) = c_activeReaders (w_cache w)"
  "c_resident (w_cache (recordMiss w)) = c_resident (w_cache w)"
  "c_priorities (w_cache (recordMiss w)) = c_priorities (w_cache w)"
  "c_cleanup (w_cache (recordMiss w)) = c_cleanup (w_cache w)"
  "cm_registered (w_metrics (recordMiss w)) = cm_registered (w_metrics w)"
  "cm_residentPieces (w_metrics (recordMiss w)) = cm_residentPieces (w_metrics w)"
  "cm_inMemoryChunks (w_metrics (recordMiss w)) = cm_inMemoryChunks (w_metrics w)"
  "w_pool (recordMiss w) = w_pool w"
  "w_tasks (recordMiss w) = w_tasks w"
  "w_lib (recordMiss w) = w_lib w"
  by (simp_all add: recordMiss_def Let_def)

lemma addConfiguredCapacity_frame [simp]:
  "c_host (w_cache (addConfiguredCapacity d w)) = c_host (w_cache w)"
  "c_capacity (w_cache (addConfiguredCapacity d w)) = c_capacity (w_cache w)"
  "c_filled (w_cache (addConfiguredCapacity d w)) = c_filled (w_cache w)"
  "c_pieceLength (w_cache (addConfiguredCapacity d w)) = c_pieceLength (w_cache w)"
  "c_pieceCount (w_cache (addConfiguredCapacity d w)) = c_pieceCount (w_cache w)"
  "c_pieces (w_cache (addConfiguredCapacity d w)) = c_pieces (w_cache w)"
  "c_isClosed (w_cache (addConfiguredCapacity d w)) = c_isClosed (w_cache w)"
  "c_torrent (w_cache (addConfiguredCapacity d w)) = c_torrent (w_cache w)"
  "c_priorityAPI (w_cache (addConfiguredCapacity d w)) = c_priorityAPI (w_cache w)"
  "c_readers (w_cache (addConfiguredCapacity d w)) = c_readers (w_cache w)"
  "c_activeReaders (w_cache (addConfiguredCapacity d w)) = c_activeReaders (w_cache w)"
  "c_resident (w_cache (addConfiguredCapacity d w)) = c_resident (w_cache w)"
  "c_priorities (w_cache (addConfiguredCapacity d w)) = c_priorities (w_cache w)"
  "c_cleanup (w_cache (addConfiguredCapacity d w)) = c_cleanup (w_cache w)"
  "cm_registered (w_metrics (addConfiguredCapacity d w)) = cm_registered (w_metrics w)"
  "cm_residentPieces (w_metrics (addConfiguredCapacity d w)) = cm_residentPieces (w_metrics w)"
  "cm_inMemoryChunks (w_metrics (addConfiguredCapacity d w)) = cm_inMemoryChunks (w_metrics w)"
  "w_pool (addConfiguredCapacity d w) = w_pool w"
  "w_tasks (addConfiguredCapacity d w) = w_tasks w"
  "w_lib (addConfiguredCapacity d w) = w_lib w"
  by (simp_all add: addConfiguredCapacity_def Let_def)

lemma addFilled_frame [simp]:
  "c_host (w_cache (addFilled d w)) = c_host (w_cache w)"
  "c_capacity (w_cache (addFilled d w)) = c_capacity (w_cache w)"
  "c_pieceLength (w_cache (addFilled d w)) = c_pieceLength (w_cache w)"
  "c_pieceCount (w_cache (addFilled d w)) = c_pieceCount (w_cache w)"
  "c_pieces (w_cache (addFilled d w)) = c_pieces (w_cache w)"
  "c_isClosed (w_cache (addFilled d w)) = c_isClosed (w_cache w)"
  "c_torrent (w_cache (addFilled d w)) = c_torrent (w_cache w)"
  "c_priorityAPI (w_cache (addFilled d w)) = c_priorityAPI (w_cache w)"
  "c_readers (w_cache (addFilled d w)) = c_readers (w_cache w)"
  "c_activeReaders (w_cache (addFilled d w)) = c_activeReaders (w_cache w)"
  "c_resident (w_cache (addFilled d w)) = c_resident (w_cache w)"
  "c_priorities (w_cache (addFilled d w)) = c_priorities (w_cache w)"
  "c_cleanup (w_cache (addFilled d w)) = c_cleanup (w_cache w)"
  "cm_registered (w_metrics (addFilled d w)) = cm_registered (w_metrics w)"
  "cm_residentPieces (w_metrics (addFilled d w)) = cm_residentPieces (w_metrics w)"
  "cm_inMemoryChunks (w_metrics (addFilled d w)) = cm_inMemoryChunks (w_metrics w)"
  "w_pool (addFilled d w) = w_pool w"
  "w_tasks (addFilled d w) = w_tasks w"
  "w_lib (addFilled d w) = w_lib w"
  by (simp_all add: addFilled_def Let_def)

lemma addInMemoryChunks_frame [simp]:
  "c_host (w_cache (addInMemoryChunks d w)) = c_host (w_cache w)"
  "c_capacity (w_cache (addInMemoryChunks d w)) = c_capacity (w_cache w)"
  "c_filled (w_cache (addInMemoryChunks d w)) = c_filled (w_cache w)"
  "c_pieceLength (w_cache (addInMemoryChunks d w)) = c_pieceLength (w_cache w)"
  "c_pieceCount (w_cache (addInMemoryChunks d w)) = c_pieceCount (w_cache w)"
  "c_pieces (w_cache (addInMemoryChunks d w)) = c_pieces (w_cache w)"
  "c_isClosed (w_cache (addInMemoryChunks d w)) = c_isClosed (w_cache w)"
  "c_torrent (w_cache (addInMemoryChunks d w)) = c_torrent (w_cache w)"
  "c_priorityAPI (w_cache (addInMemoryChunks d w)) = c_priorityAPI (w_cache w)"
  "c_readers (w_cache (addInMemoryChunks d w)) = c_readers (w_cache w)"
  "c_activeReaders (w_cache (addInMemoryChunks d w)) = c_activeReaders (w_cache w)"
  "c_resident (w_cache (addInMemoryChunks d w)) = c_resident (w_cache w)"
  "c_priorities (w_cache (addInMemoryChunks d w)) = c_priorities (w_cache w)"
  "c_cleanup (w_cache (addInMemoryChunks d w)) = c_cleanup (w_cache w)"
  "cm_registered (w_metrics (addInMemoryChunks d w)) = cm_registered (w_metrics w)"
  "cm_residentPieces (w_metrics (addInMemoryChunks d w)) = cm_residentPieces (w_metrics w)"
  "w_pool (addInMemoryChunks d w) = w_pool w"
  "w_tasks (addInMemoryChunks d w) = w_tasks w"
  "w_lib (addInMemoryChunks d w) = w_lib w"
  by (simp_all add: addInMemoryChunks_def Let_def)

lemma addResidentPieces_frame [simp]:
  "c_host (w_cache (addResidentPieces d w)) = c_host (w_cache w)"
  "c_capacity (w_cache (addResidentPieces d w)) = c_capacity (w_cache w)"
  "c_filled (w_cache (addResidentPieces d w)) = c_filled (w_cache w)"
  "c_pieceLength (w_cache (addResidentPieces d w)) = c_pieceLength (w_cache w)"
  "c_pieceCount (w_cache (addResidentPieces d w)) = c_pieceCount (w_cache w)"
  "c_pieces (w_cache (addResidentPieces d w)) = c_pieces (w_cache w)"
  "c_isClosed (w_cache (addResidentPieces d w)) = c_isClosed (w_cache w)"
  "c_torrent (w_cache (addResidentPieces d w)) = c_torrent (w_cache w)"
  "c_priorityAPI (w_cache (addResidentPieces d w)) = c_priorityAPI (w_cache w)"
  "c_readers (w_cache (addResidentPieces d w)) = c_readers (w_cache w)"
  "c_activeReaders (w_cache (addResidentPieces d w)) = c_activeReaders (w_cache w)"
  "c_resident (w_cache (addResidentPieces d w)) = c_resident (w_cache w)"
  "c_priorities (w_cache (addResidentPieces d w)) = c_priorities (w_cache w)"
  "c_cleanup (w_cache (addResidentPieces d w)) = c_cleanup (w_cache w)"
  "cm_registered (w_metrics (addResidentPieces d w)) = cm_registered (w_metrics w)"
  "cm_inMemoryChunks (w_metrics (addResidentPieces d w)) = cm_inMemoryChunks (w_metrics w)"
  "w_pool (addResidentPieces d w) = w_pool w"
  "w_tasks (addResidentPieces d w) = w_tasks w"
  "w_lib (addResidentPieces d w) = w_lib w"
  by (simp_all add: addResidentPieces_def Let_def)

lemma addActiveReaders_frame [simp]:
  "c_host (w_cache (addActiveReaders d w)) = c_host (w_cache w)"
  "c_capacity (w_cache (addActiveReaders d w)) = c_capacity (w_cache w)"
  "c_filled (w_cache (addActiveReaders d w)) = c_filled (w_cache w)"
  "c_pieceLength (w_cache (addActiveReaders d w)) = c_pieceLength (w_cache w)"
  "c_pieceCount (w_cache (addActiveReaders d w)) = c_pieceCount (w_cache w)"
  "c_pieces (w_cache (addActiveReaders d w)) = c_pieces (w_cache w)"
  "c_isClosed (w_cache (addActiveReaders d w)) = c_isClosed (w_cache w)"
  "c_torrent (w_cache (addActiveReaders d w)) = c_torrent (w_cache w)"
  "c_priorityAPI (w_cache (addActiveReaders d w)) = c_priorityAPI (w_cache w)"
  "c_readers (w_cache (addActiveReaders d w)) = c_readers (w_cache w)"
  "c_resident (w_cache (addActiveReaders d w)) = c_resident (w_cache w)"
  "c_priorities (w_cache (addActiveReaders d w)) = c_priorities (w_cache w)"
  "c_cleanup (w_cache (addActiveReaders d w)) = c_cleanup (w_cache w)"
  "cm_registered (w_metrics (addActiveReaders d w)) = cm_registered (w_metrics w)"
  "cm_residentPieces (w_metrics (addActiveReaders d w)) = cm_residentPieces (w_metrics w)"
  "cm_inMemoryChunks (w_metrics (addActiveReaders d w)) = cm_inMemoryChunks (w_metrics w)"
  "w_pool (addActiveReaders d w) = w_pool w"
  "w_tasks (addActiveReaders d w) = w_tasks w"
  "w_lib (addActiveReaders d w) = w_lib w"
  by (simp_all add: addActiveReaders_def Let_def)

lemma recordCleanupRun_frame [simp]:
  "c_host (w_cache (recordCleanupRun w)) = c_host (w_cache w)"
  "c_capacity (w_cache (recordCleanupRun w)) = c_capacity (w_cache w)"
  "c_filled (w_cache (recordCleanupRun w)) = c_filled (w_cache w)"
  "c_pieceLength (w_cache (recordCleanupRun w)) = c_pieceLength (w_cache w)"
  "c_pieceCount (w_cache (recordCleanupRun w)) = c_pieceCount (w_cache w)"
  "c_pieces (w_cache (recordCleanupRun w)) = c_pieces (w_cache w)"
  "c_isClosed (w_cache (recordCleanupRun w)) = c_isClosed (w_cache w)"
  "c_torrent (w_cache (recordCleanupRun w)) = c_torrent (w_cache w)"
  "c_priorityAPI (w_cache (recordCleanupRun w)) = c_priorityAPI (w_cache w)"
  "c_readers (w_cache (recordCleanupRun w)) = c_readers (w_cache w)"
  "c_activeReaders (w_cache (recordCleanupRun w)) = c_activeReaders (w_cache w)"
  "c_resident (w_cache (recordCleanupRun w)) = c_resident (w_cache w)"
  "c_priorities (w_cache (recordCleanupRun w)) = c_priorities (w_cache w)"
  "c_cleanup (w_cache (recordCleanupRun w)) = c_cleanup (w_cache w)"
  "cm_registered (w_metrics (recordCleanupRun w)) = cm_registered (w_metrics w)"
  "cm_residentPieces (w_metrics (recordCleanupRun w)) = cm_residentPieces (w_metrics w)"
  "cm_inMemoryChunks (w_metrics (recordCleanupRun w)) = cm_inMemoryChunks (w_metrics w)"
  "w_pool (recordCleanupRun w) = w_pool w"
  "w_tasks (recordCleanupRun w) = w_tasks w"
  "w_lib (recordCleanupRun w) = w_lib w"
  by (simp_all add: recordCleanupRun_def Let_def)

lemma recordCleanedBytes_frame [simp]:
  "c_host (w_cache (recordCleanedBytes d w)) = c_host (w_cache w)"
  "c_capacity (w_cache (recordCleanedBytes d w)) = c_capacity (w_cache w)"
  "c_filled (w_cache (recordCleanedBytes d w)) = c_filled (w_cache w)"
  "c_pieceLength (w_cache (recordCleanedBytes d w)) = c_pieceLength (w_cache w)"
  "c_pieceCount (w_cache (recordCleanedBytes d w)) = c_pieceCount (w_cache w)"
  "c_pieces (w_cache (recordCleanedBytes d w)) = c_pieces (w_cache w)"
  "c_isClosed (w_cache (recordCleanedBytes d w)) = c_isClosed (w_cache w)"
  "c_torrent (w_cache (recordCleanedBytes d w)) = c_torrent (w_cache w)"
  "c_priorityAPI (w_cache (recordCleanedBytes d w)) = c_priorityAPI (w_cache w)"
  "c_readers (w_cache (recordCleanedBytes d w)) = c_readers (w_cache w)"
  "c_activeReaders (w_cache (recordCleanedBytes d w)) = c_activeReaders (w_cache w)"
  "c_resident (w_cache (recordCleanedBytes d w)) = c_resident (w_cache w)"
  "c_priorities (w_cache (recordCleanedBytes d w)) = c_priorities (w_cache w)"
  "c_cleanup (w_cache (recordCleanedBytes d w)) = c_cleanup (w_cache w)"
  "cm_registered (w_metrics (recordCleanedBytes d w)) = cm_registered (w_metrics w)"
  "cm_residentPieces (w_metrics (recordCleanedBytes d w)) = cm_residentPieces (w_metrics w)"
  "cm_inMemoryChunks (w_metrics (recordCleanedBytes d w)) = cm_inMemoryChunks (w_metrics w)"
  "w_pool (recordCleanedBytes d w) = w_pool w"
  "w_tasks (recordCleanedBytes d w) = w_tasks w"
  "w_lib (recordCleanedBytes d w) = w_lib w"
  by (simp_all add: recordCleanedBytes_def Let_def)

lemma setTrackedPriorityPieces_frame [simp]:
  "c_host (w_cache (setTrackedPriorityPieces d w)) = c_host (w_cache w)"
  "c_capacity (w_cache (setTrackedPriorityPieces d w)) = c_capacity (w_cache w)"
  "c_filled (w_cache (setTrackedPriorityPieces d w)) = c_filled (w_cache w)"
  "c_pieceLength (w_cache (setTrackedPriorityPieces d w)) = c_pieceLength (w_cache w)"
  "c_pieceCount (w_cache (setTrackedPriorityPieces d w)) = c_pieceCount (w_cache w)"
  "c_pieces (w_cache (setTrackedPriorityPieces d w)) = c_pieces (w_cache w)"
  "c_isClosed (w_cache (setTrackedPriorityPieces d w)) = c_isClosed (w_cache w)"
  "c_torrent (w_cache (setTrackedPriorityPieces d w)) = c_torrent (w_cache w)"
  "c_priorityAPI (w_cache (setTrackedPriorityPieces d w)) = c_priorityAPI (w_cache w)"
  "c_readers (w_cache (setTrackedPriorityPieces d w)) = c_readers (w_cache w)"
  "c_activeReaders (w_cache (setTrackedPriorityPieces d w)) = c_activeReaders (w_cache w)"
  "c_resident (w_cache (setTrackedPriorityPieces d w)) = c_resident (w_cache w)"
  "c_priorities (w_cache (setTrackedPriorityPieces d w)) = c_priorities (w_cache w)"
  "c_cleanup (w_cache (setTrackedPriorityPieces d w)) = c_cleanup (w_cache w)"
  "cm_registered (w_metrics (setTrackedPriorityPieces d w)) = cm_registered (w_metrics w)"
  "cm_residentPieces (w_metrics (setTrackedPriorityPieces d w)) = cm_residentPieces (w_metrics w)"
  "cm_inMemoryChunks (w_metrics (setTrackedPriorityPieces d w)) = cm_inMemoryChunks (w_metrics w)"
  "w_pool (setTrackedPriorityPieces d w) = w_pool w"
  "w_tasks (setTrackedPriorityPieces d w) = w_tasks w"
  "w_lib (setTrackedPriorityPieces d w) = w_lib w"
  by (simp_all add: setTrackedPriorityPieces_def Let_def)

lemma recordPrioritySelection_frame [simp]:
  "c_host (w_cache (recordPrioritySelection t d l w)) = c_host (w_cache w)"
  "c_capacity (w_cache (recordPrioritySelection t d l w)) = c_capacity (w_cache w)"
  "c_filled (w_cache (recordPrioritySelection t d l w)) = c_filled (w_cache w)"
  "c_pieceLength (w_cache (recordPrioritySelection t d l w)) = c_pieceLength (w_cache w)"
  "c_pieceCount (w_cache (recordPrioritySelection t d l w)) = c_pieceCount (w_cache w)"
  "c_pieces (w_cache (recordPrioritySelection t d l w)) = c_pieces (w_cache w)"
  "c_isClosed (w_cache (recordPrioritySelection t d l w)) = c_isClosed (w_cache w)"
  "c_torrent (w_cache (recordPrioritySelection t d l w)) = c_torrent (w_cache w)"
  "c_priorityAPI (w_cache (recordPrioritySelection t d l w)) = c_priorityAPI (w_cache w)"
  "c_readers (w_cache (recordPrioritySelection t d l w)) = c_readers (w_cache w)"
  "c_activeReaders (w_cache (recordPrioritySelection t d l w)) = c_activeReaders (w_cache w)"
  "c_resident (w_cache (recordPrioritySelection t d l w)) = c_resident (w_cache w)"
  "c_priorities (w_cache (recordPrioritySelection t d l w)) = c_priorities (w_cache w)"
  "c_cleanup (w_cache (recordPrioritySelection t d l w)) = c_cleanup (w_cache w)"
  "cm_registered (w_metrics (recordPrioritySelection t d l w)) = cm_registered (w_metrics w)"
  "cm_residentPieces (w_metrics (recordPrioritySelection t d l w)) = cm_residentPieces (w_metrics w)"
  "cm_inMemoryChunks (w_metrics (recordPrioritySelection t d l w)) = cm_inMemoryChunks (w_metrics w)"
  "w_pool (recordPrioritySelection t d l w) = w_pool w"
  "w_tasks (recordPrioritySelection t d l w) = w_tasks w"
  "w_lib (recordPrioritySelection t d l w) = w_lib w"
  by (simp_all add: recordPrioritySelection_def Let_def)

lemma recordPriorityChurn_frame [simp]:
  "c_host (w_cache (recordPriorityChurn d e f t w)) = c_host (w_cache w)"
  "c_capacity (w_cache (recordPriorityChurn d e f t w)) = c_capacity (w_cache w)"
  "c_filled (w_cache (recordPriorityChurn d e f t w)) = c_filled (w_cache w)"
  "c_pieceLength (w_cache (recordPriorityChurn d e f t w)) = c_pieceLength (w_cache w)"
  "c_pieceCount (w_cache (recordPriorityChurn d e f t w)) = c_pieceCount (w_cache w)"
  "c_pieces (w_cache (recordPriorityChurn d e f t w)) = c_pieces (w_cache w)"
  "c_isClosed (w_cache (recordPriorityChurn d e f t w)) = c_isClosed (w_cache w)"
  "c_torrent (w_cache (recordPriorityChurn d e f t w)) = c_torrent (w_cache w)"
  "c_priorityAPI (w_cache (recordPriorityChurn d e f t w)) = c_priorityAPI (w_cache w)"
  "c_readers (w_cache (recordPriorityChurn d e f t w)) = c_readers (w_cache w)"
  "c_activeReaders (w_cache (recordPriorityChurn d e f t w)) = c_activeReaders (w_cache w)"
  "c_resident (w_cache (recordPriorityChurn d e f t w)) = c_resident (w_cache w)"
  "c_priorities (w_cache (recordPriorityChurn d e f t w)) = c_priorities (w_cache w)"
  "c_cleanup (w_cache (recordPriorityChurn d e f t w)) = c_cleanup (w_cache w)"
  "cm_registered (w_metrics (recordPriorityChurn d e f t w)) = cm_registered (w_metrics w)"
  "cm_residentPieces (w_metrics (recordPriorityChurn d e f t w)) = cm_residentPieces (w_metrics w)"
  "cm_inMemoryChunks (w_metrics (recordPriorityChurn d e f t w)) = cm_inMemoryChunks (w_metrics w)"
  "w_pool (recordPriorityChurn d e f t w) = w_pool w"
  "w_tasks (recordPriorityChurn d e f t w) = w_tasks w"
  "w_lib (recordPriorityChurn d e f t w) = w_lib w"
  by (simp_all add: recordPriorityChurn_def Let_def)

lemma recordRetentionWindowAdjustment_frame [simp]:
  "c_host (w_cache (recordRetentionWindowAdjustment e d w)) = c_host (w_cache w)"
  "c_capacity (w_cache (recordRetentionWindowAdjustment e d w)) = c_capacity (w_cache w)"
  "c_filled (w_cache (recordRetentionWindowAdjustment e d w)) = c_filled (w_cache w)"
  "c_pieceLength (w_cache (recordRetentionWindowAdjustment e d w)) = c_pieceLength (w_cache w)"
  "c_pieceCount (w_cache (recordRetentionWindowAdjustment e d w)) = c_pieceCount (w_cache w)"
  "c_pieces (w_cache (recordRetentionWindowAdjustment e d w)) = c_pieces (w_cache w)"
  "c_isClosed (w_cache (recordRetentionWindowAdjustment e d w)) = c_isClosed (w_cache w)"
  "c_torrent (w_cache (recordRetentionWindowAdjustment e d w)) = c_torrent (w_cache w)"
  "c_priorityAPI (w_cache (recordRetentionWindowAdjustment e d w)) = c_priorityAPI (w_cache w)"
  "c_readers (w_cache (recordRetentionWindowAdjustment e d w)) = c_readers (w_cache w)"
  "c_activeReaders (w_cache (recordRetentionWindowAdjustment e d w)) = c_activeReaders (w_cache w)"
  "c_resident (w_cache (recordRetentionWindowAdjustment e d w)) = c_resident (w_cache w)"
  "c_priorities (w_cache (recordRetentionWindowAdjustment e d w)) = c_priorities (w_cache w)"
  "c_cleanup (w_cache (recordRetentionWindowAdjustment e d w)) = c_cleanup (w_cache w)"
  "cm_registered (w_metrics (recordRetentionWindowAdjustment e d w)) = cm_registered (w_metrics w)"
  "cm_residentPieces (w_metrics (recordRetentionWindowAdjustment e d w)) = cm_residentPieces (w_metrics w)"
  "cm_inMemoryChunks (w_metrics (recordRetentionWindowAdjustment e d w)) = cm_inMemoryChunks (w_metrics w)"
  "w_pool (recordRetentionWindowAdjustment e d w) = w_pool w"
  "w_tasks (recordRetentionWindowAdjustment e d w) = w_tasks w"
  "w_lib (recordRetentionWindowAdjustment e d w) = w_lib w"
  by (simp_all add: recordRetentionWindowAdjustment_def Let_def)

lemma recordReaderIdleDemotion_frame [simp]:
  "c_host (w_cache (recordReaderIdleDemotion d w)) = c_host (w_cache w)"
  "c_capacity (w_cache (recordReaderIdleDemotion d w)) = c_capacity (w_cache w)"
  "c_filled (w_cache (recordReaderIdleDemotion d w)) = c_filled (w_cache w)"
  "c_pieceLength (w_cache (recordReaderIdleDemotion d w)) = c_pieceLength (w_cache w)"
  "c_pieceCount (w_cache (recordReaderIdleDemotion d w)) = c_pieceCount (w_cache w)"
  "c_pieces (w_cache (recordReaderIdleDemotion d w)) = c_pieces (w_cache w)"
  "c_isClosed (w_cache (recordReaderIdleDemotion d w)) = c_isClosed (w_cache w)"
  "c_torrent (w_cache (recordReaderIdleDemotion d w)) = c_torrent (w_cache w)"
  "c_priorityAPI (w_cache (recordReaderIdleDemotion d w)) = c_priorityAPI (w_cache w)"
  "c_readers (w_cache (recordReaderIdleDemotion d w)) = c_readers (w_cache w)"
  "c_activeReaders (w_cache (recordReaderIdleDemotion d w)) = c_activeReaders (w_cache w)"
  "c_resident (w_cache (recordReaderIdleDemotion d w)) = c_resident (w_cache w)"
  "c_priorities (w_cache (recordReaderIdleDemotion d w)) = c_priorities (w_cache w)"
  "c_cleanup (w_cache (recordReaderIdleDemotion d w)) = c_cleanup (w_cache w)"
  "cm_registered (w_metrics (recordReaderIdleDemotion d w)) = cm_registered (w_metrics w)"
  "cm_residentPieces (w_metrics (recordReaderIdleDemotion d w)) = cm_residentPieces (w_metrics w)"
  "cm_inMemoryChunks (w_metrics (recordReaderIdleDemotion d w)) = cm_inMemoryChunks (w_metrics w)"
  "w_pool (recordReaderIdleDemotion d w) = w_pool w"
  "w_tasks (recordReaderIdleDemotion d w) = w_tasks w"
  "w_lib (recordReaderIdleDemotion d w) = w_lib w"
  by (simp_all add: recordReaderIdleDemotion_def Let_def)

lemma recordReaderReactivation_frame [simp]:
  "c_host (w_cache (recordReaderReactivation d w)) = c_host (w_cache w)"
  "c_capacity (w_cache (recordReaderReactivation d w)) = c_capacity (w_cache w)"
  "c_filled (w_cache (recordReaderReactivation d w)) = c_filled (w_cache w)"
  "c_pieceLength (w_cache (recordReaderReactivation d w)) = c_pieceLength (w_cache w)"
  "c_pieceCount (w_cache (recordReaderReactivation d w)) = c_pieceCount (w_cache w)"
  "c_pieces (w_cache (recordReaderReactivation d w)) = c_pieces (w_cache w)"
  "c_isClosed (w_cache (recordReaderReactivation d w)) = c_isClosed (w_cache w)"
  "c_torrent (w_cache (recordReaderReactivation d w)) = c_torrent (w_cache w)"
  "c_priorityAPI (w_cache (recordReaderReactivation d w)) = c_priorityAPI (w_cache w)"
  "c_readers (w_cache (recordReaderReactivation d w)) = c_readers (w_cache w)"
  "c_activeReaders (w_cache (recordReaderReactivation d w)) = c_activeReaders (w_cache w)"
  "c_resident (w_cache (recordReaderReactivation d w)) = c_resident (w_cache w)"
  "c_priorities (w_cache (recordReaderReactivation d w)) = c_priorities (w_cache w)"
  "c_cleanup (w_cache (recordReaderReactivation d w)) = c_cleanup (w_cache w)"
  "cm_registered (w_metrics (recordReaderReactivation d w)) = cm_registered (w_metrics w)"
  "cm_residentPieces (w_metrics (recordReaderReactivation d w)) = cm_residentPieces (w_metrics w)"
  "cm_inMemoryChunks (w_metrics (recordReaderReactivation d w)) = cm_inMemoryChunks (w_metrics w)"
  "w_pool (recordReaderReactivation d w) = w_pool w"
  "w_tasks (recordReaderReactivation d w) = w_tasks w"
  "w_lib (recordReaderReactivation d w) = w_lib w"
  by (simp_all add: recordReaderReactivation_def Let_def)

lemma markResidentPiece_frame [simp]:
  "c_host (w_cache (markResidentPiece pid w)) = c_host (w_cache w)"
  "c_capacity (w_cache (markResidentPiece pid w)) = c_capacity (w_cache w)"
  "c_filled (w_cache (markResidentPiece pid w)) = c_filled (w_cache w)"
  "c_pieceLength (w_cache (markResidentPiece pid w)) = c_pieceLength (w_cache w)"
  "c_pieceCount (w_cache (markResidentPiece pid w)) = c_pieceCount (w_cache w)"
  "c_pieces (w_cache (markResidentPiece pid w)) = c_pieces (w_cache w)"
  "c_isClosed (w_cache (markResidentPiece pid w)) = c_isClosed (w_cache w)"
  "c_torrent (w_cache (markResidentPiece pid w)) = c_torrent (w_cache w)"
  "c_priorityAPI (w_cache (markResidentPiece pid w)) = c_priorityAPI (w_cache w)"
  "c_readers (w_cache (markResidentPiece pid w)) = c_readers (w_cache w)"
  "c_activeReaders (w_cache (markResidentPiece pid w)) = c_activeReaders (w_cache w)"
  "c_priorities (w_cache (markResidentPiece pid w)) = c_priorities (w_cache w)"
  "c_cleanup (w_cache (markResidentPiece pid w)) = c_cleanup (w_cache w)"
  "cm_registered (w_metrics (markResidentPiece pid w)) = cm_registered (w_metrics w)"
  "cm_inMemoryChunks (w_metrics (markResidentPiece pid w)) = cm_inMemoryChunks (w_metrics w)"
  "w_pool (markResidentPiece pid w) = w_pool w"
  "w_tasks (markResidentPiece pid w) = w_tasks w"
  "w_lib (markResidentPiece pid w) = w_lib w"
  by (simp_all add: markResidentPiece_def Let_def split: option.split)

lemma unmarkResidentPiece_frame [simp]:
  "c_host (w_cache (unmarkResidentPiece pid w)) = c_host (w_cache w)"
  "c_capacity (w_cache (unmarkResidentPiece pid w)) = c_capacity (w_cache w)"
  "c_filled (w_cache (unmarkResidentPiece pid w)) = c_filled (w_cache w)"
  "c_pieceLength (w_cache (unmarkResidentPiece pid w)) = c_pieceLength (w_cache w)"
  "c_pieceCount (w_cache (unmarkResidentPiece pid w)) = c_pieceCount (w_cache w)"
  "c_pieces (w_cache (unmarkResidentPiece pid w)) = c_pieces (w_cache w)"
  "c_isClosed (w_cache (unmarkResidentPiece pid w)) = c_isClosed (w_cache w)"
  "c_torrent (w_cache (unmarkResidentPiece pid w)) = c_torrent (w_cache w)"
  "c_priorityAPI (w_cache (unmarkResidentPiece pid w)) = c_priorityAPI (w_cache w)"
  "c_readers (w_cache (unmarkResidentPiece pid w)) = c_readers (w_cache w)"
  "c_activeReaders (w_cache (unmarkResidentPiece pid w)) = c_activeReaders (w_cache w)"
  "c_priorities (w_cache (unmarkResidentPiece pid w)) = c_priorities (w_cache w)"
  "c_cleanup (w_cache (unmarkResidentPiece pid w)) = c_cleanup (w_cache w)"
  "cm_registered (w_metrics (unmarkResidentPiece pid w)) = cm_registered (w_metrics w)"
  "cm_inMemoryChunks (w_metrics (unmarkResidentPiece pid w)) = cm_inMemoryChunks (w_metrics w)"
  "w_pool (unmarkResidentPiece pid w) = w_pool w"
  "w_tasks (unmarkResidentPiece pid w) = w_tasks w"
  "w_lib (unmarkResidentPiece pid w) = w_lib w"
  by (simp_all add: unmarkResidentPiece_def Let_def split: option.split)

lemma queueCleanPieces_frame [simp]:
  "c_host (w_cache (queueCleanPieces t w)) = c_host (w_cache w)"
  "c_capacity (w_cache (queueCleanPieces t w)) = c_capacity (w_cache w)"
  "c_filled (w_cache (queueCleanPieces t w)) = c_filled (w_cache w)"
  "c_pieceLength (w_cache (queueCleanPieces t w)) = c_pieceLength (w_cache w)"
  "c_pieceCount (w_cache (queueCleanPieces t w)) = c_pieceCount (w_cache w)"
  "c_pieces (w_cache (queueCleanPieces t w)) = c_pieces (w_cache w)"
  "c_isClosed (w_cache (queueCleanPieces t w)) = c_isClosed (w_cache w)"
  "c_torrent (w_cache (queueCleanPieces t w)) = c_torrent (w_cache w)"
  "c_priorityAPI (w_cache (queueCleanPieces t w)) = c_priorityAPI (w_cache w)"
  "c_readers (w_cache (queueCleanPieces t w)) = c_readers (w_cache w)"
  "c_activeReaders (w_cache (queueCleanPieces t w)) = c_activeReaders (w_cache w)"
  "c_resident (w_cache (queueCleanPieces t w)) = c_resident (w_cache w)"
  "c_priorities (w_cache (queueCleanPieces t w)) = c_priorities (w_cache w)"
  "cm_registered (w_metrics (queueCleanPieces t w)) = cm_registered (w_metrics w)"
  "cm_residentPieces (w_metrics (queueCleanPieces t w)) = cm_residentPieces (w_metrics w)"
  "cm_inMemoryChunks (w_metrics (queueCleanPieces t w)) = cm_inMemoryChunks (w_metrics w)"
  "w_pool (queueCleanPieces t w) = w_pool w"
  "w_lib (queueCleanPieces t w) = w_lib w"
  by (simp_all add: queueCleanPieces_def Let_def)

lemma untrackPriorityPiece_frame [simp]:
  "c_host (w_cache (untrackPriorityPiece pid w)) = c_host (w_cache w)"
  "c_capacity (w_cache (untrackPriorityPiece pid w)) = c_capacity (w_cache w)"
  "c_filled (w_cache (untrackPriorityPiece pid w)) = c_filled (w_cache w)"
  "c_pieceLength (w_cache (untrackPriorityPiece pid w)) = c_pieceLength (w_cache w)"
  "c_pieceCount (w_cache (untrackPriorityPiece pid w)) = c_pieceCount (w_cache w)"
  "c_pieces (w_cache (untrackPriorityPiece pid w)) = c_pieces (w_cache w)"
  "c_isClosed (w_cache (untrackPriorityPiece pid w)) = c_isClosed (w_cache w)"
  "c_torrent (w_cache (untrackPriorityPiece pid w)) = c_torrent (w_cache w)"
  "c_priorityAPI (w_cache (untrackPriorityPiece pid w)) = c_priorityAPI (w_cache w)"
  "c_readers (w_cache (untrackPriorityPiece pid w)) = c_readers (w_cache w)"
  "c_activeReaders (w_cache (untrackPriorityPiece pid w)) = c_activeReaders (w_cache w)"
  "c_resident (w_cache (untrackPriorityPiece pid w)) = c_resident (w_cache w)"
  "c_cleanup (w_cache (untrackPriorityPiece pid w)) = c_cleanup (w_cache w)"
  "cm_registered (w_metrics (untrackPriorityPiece pid w)) = cm_registered (w_metrics w)"
  "cm_residentPieces (w_metrics (untrackPriorityPiece pid w)) = cm_residentPieces (w_metrics w)"
  "cm_inMemoryChunks (w_metrics (untrackPriorityPiece pid w)) = cm_inMemoryChunks (w_metrics w)"
  "w_pool (untrackPriorityPiece pid w) = w_pool w"
  "w_tasks (untrackPriorityPiece pid w) = w_tasks w"
  "w_lib (untrackPriorityPiece pid w) = w_lib w"
  by (simp_all add: untrackPriorityPiece_def Let_def split: option.split)

text \<open>The part of a world that the accounting of the pieces is about.\<close>

definition core where
  "core w = (let c = w_cache w in
     ((c_host c, c_capacity c, c_pieceLength c, c_pieceCount c, c_isClosed c),
      (c_pieces c, c_filled c, c_resident c),
      (cm_residentPieces (c_metrics c), cm_inMemoryChunks (c_metrics c), w_pool w)))"

lemma core_eq:
  assumes "core w' = core w"
  shows "c_host (w_cache w') = c_host (w_cache w)" "c_capacity (w_cache w') = c_capacity (w_cache w)"
    "c_pieceLength (w_cache w') = c_pieceLength (w_cache w)"
    "c_pieceCount (w_cache w') = c_pieceCount (w_cache w)"
    "c_isClosed (w_cache w') = c_isClosed (w_cache w)" "c_pieces (w_cache w') = c_pieces (w_cache w)"
    "c_filled (w_cache w') = c_filled (w_cache w)" "c_resident (w_cache w') = c_resident (w_cache w)"
    "cm_residentPieces (w_metrics w') = cm_residentPieces (w_metrics w)"
    "cm_inMemoryChunks (w_metrics w') = cm_inMemoryChunks (w_metrics w)" "w_pool w' = w_pool w"
  using assms by (simp_all add: core_def Let_def)

lemma core_neutral [simp]:
  "core (recordHit w) = core w" "core (recordMiss w) = core w"
  "core (addActiveReaders d w) = core w" "core (recordCleanupRun w) = core w"
  "core (recordCleanedBytes d w) = core w" "core (setTrackedPriorityPieces d w) = core w"
  "core (recordPrioritySelection t d l w) = core w" "core (recordPriorityChurn d e f t w) = core w"
  "core (recordRetentionWindowAdjustment x y w) = core w" "core (recordReaderIdleDemotion d w) = core w"
  "core (recordReaderReactivation d w) = core w" "core (queueCleanPieces d w) = core w"
  "core (untrackPriorityPiece d w) = core w"
  by (simp_all add: core_def Let_def)

section \<open>The gauges without clamping\<close>

lemma clamp_add_exact: "0 \<le> x + d \<Longrightarrow> fits_i64 (x + d) \<Longrightarrow> clamp_add x d = x + d"
  by (simp add: clamp_add_def i64_id)

lemma addFilled_exact:
  "0 \<le> c_filled (w_cache w) + d \<Longrightarrow> fits_i64 (c_filled (w_cache w) + d) \<Longrightarrow>
   c_filled (w_cache (addFilled d w)) = c_filled (w_cache w) + d"
  by (simp add: addFilled_def Let_def clamp_add_exact)

lemma addInMemoryChunks_exact:
  "0 \<le> cm_inMemoryChunks (w_metrics w) + d \<Longrightarrow> fits_i64 (cm_inMemoryChunks (w_metrics w) + d) \<Longrightarrow>
   cm_inMemoryChunks (w_metrics (addInMemoryChunks d w)) = cm_inMemoryChunks (w_metrics w) + d"
  by (simp add: addInMemoryChunks_def Let_def clamp_add_exact)

lemma addResidentPieces_exact:
  "0 \<le> cm_residentPieces (w_metrics w) + d \<Longrightarrow> fits_i64 (cm_residentPieces (w_metrics w) + d) \<Longrightarrow>
   cm_residentPieces (w_metrics (addResidentPieces d w)) = cm_residentPieces (w_metrics w) + d"
  by (simp add: addResidentPieces_def Let_def clamp_add_exact)

end
