(* ===== verification/Mem_Piece.thy ===== *)
theory Mem_Piece
  imports Cache_State
begin

text \<open>
  Memory pieces (torrstor/mempiece.go): a piece buffered in 16 KiB chunks that are allocated on
  the first write into them and taken from a shared pool of reusable chunks.

  The model keeps the pool as the queue of the channel; the chunks in it have the stale bytes of
  their last use. The central theorem is that the piece behaves as one flat array of
  \<open>pieceLength\<close> bytes that starts as zeros, whatever the pool contains.
\<close>

section \<open>Model\<close>

definition memPieceChunkPoolLimit :: nat where
  "memPieceChunkPoolLimit = 4096"

definition chunkLen :: "int \<Rightarrow> int \<Rightarrow> int" where
  "chunkLen pieceLength index =
     (let chunkStart = i64 (index * memPieceChunkSize);
          remaining = i64 (pieceLength - chunkStart)
      in if remaining \<le> 0 then 0
         else if remaining < memPieceChunkSize then remaining
         else memPieceChunkSize)"

definition ensureChunks :: "int \<Rightarrow> byte list option list option \<Rightarrow> byte list option list" where
  "ensureChunks pieceLen cs =
     (case cs of
        Some chunks \<Rightarrow> chunks
      | None \<Rightarrow>
          let chunks = go_div (i64 (pieceLen + memPieceChunkSize - 1)) memPieceChunkSize;
              chunks = (if chunks < 1 then 1 else chunks)
          in replicate (nat chunks) None)"

definition getMemPieceChunk :: "world \<Rightarrow> byte list \<times> world" where
  "getMemPieceChunk w =
     (case w_pool w of
        chunk # rest \<Rightarrow> (take (nat memPieceChunkSize) chunk, w\<lparr>w_pool := rest\<rparr>)
      | [] \<Rightarrow> (replicate (nat memPieceChunkSize) 0, w))"

text \<open>The capacity of a chunk is its length: the code never reslices one beyond it.\<close>

definition putMemPieceChunk :: "byte list \<Rightarrow> world \<Rightarrow> world" where
  "putMemPieceChunk chunk w =
     (if int (length chunk) < memPieceChunkSize then w
      else if length (w_pool w) < memPieceChunkPoolLimit
           then w\<lparr>w_pool := w_pool w @ [take (nat memPieceChunkSize) chunk]\<rparr>
           else w)"

definition newChunk :: "int \<Rightarrow> int \<Rightarrow> int \<Rightarrow> byte list \<Rightarrow> world \<Rightarrow> byte list \<times> world" where
  "newChunk pieceLen chunkIdx chunkOff b w =
     (let cl = chunkLen pieceLen chunkIdx;
          (chunk, w) =
            (if cl = memPieceChunkSize then
               (let (chunk, w) = getMemPieceChunk w
                in (if chunkOff \<noteq> 0 \<or> int (length b) < cl then map (\<lambda>_. 0) chunk else chunk, w))
             else (replicate (nat cl) 0, w))
      in (take (nat cl) chunk, w))"

primrec write_chunks ::
    "nat \<Rightarrow> int \<Rightarrow> byte list option list \<Rightarrow> int \<Rightarrow> int \<Rightarrow> byte list \<Rightarrow> int \<Rightarrow> world
     \<Rightarrow> (byte list option list \<times> int \<times> int \<times> world) outcome" where
  "write_chunks 0 pieceLen chunks allocated n b off w =
     (if b = [] then Done (chunks, allocated, n, w) else NoFuel)"
| "write_chunks (Suc fuel) pieceLen chunks allocated n b off w =
     (if b = [] then Done (chunks, allocated, n, w)
      else
        let chunkIdx = go_div off memPieceChunkSize in
        if chunkIdx < 0 \<or> chunkIdx \<ge> int (length chunks) then Done (chunks, allocated, n, w)
        else
          let chunkOff = go_mod off memPieceChunkSize;
              (chunk, allocated, w) =
                (case chunks ! nat chunkIdx of
                   Some chunk \<Rightarrow> (chunk, allocated, w)
                 | None \<Rightarrow>
                     (let (chunk, w) = newChunk pieceLen chunkIdx chunkOff b w
                      in (chunk, allocated + int (length chunk), addInMemoryChunks 1 w)))
          in if chunkOff < 0 \<or> chunkOff > int (length chunk) then Panic
             else
               let at = nat chunkOff;
                   written = min (length chunk - at) (length b);
                   chunk' = take at chunk @ take written b @ drop (at + written) chunk
               in write_chunks fuel pieceLen (chunks[nat chunkIdx := Some chunk']) allocated
                    (n + int written) (drop written b) (i64 (off + int written)) w)"

declare write_chunks.simps [simp del]

definition cache_piece :: "int \<Rightarrow> world \<Rightarrow> piece option" where
  "cache_piece pid w = (case c_pieces (w_cache w) of None \<Rightarrow> None | Some m \<Rightarrow> m pid)"

definition upd_piece :: "int \<Rightarrow> (piece \<Rightarrow> piece) \<Rightarrow> world \<Rightarrow> world" where
  "upd_piece pid f w =
     upd_cache (\<lambda>c. c\<lparr>c_pieces := map_option (\<lambda>m. m(pid := map_option f (m pid))) (c_pieces c)\<rparr>) w"

definition markAccessed :: "int \<Rightarrow> int \<Rightarrow> world \<Rightarrow> world" where
  "markAccessed nowUnix pid w = upd_piece pid (\<lambda>p. p\<lparr>pc_Accessed := nowUnix\<rparr>) w"

text \<open>
  \<open>now\<close> is the clock in nanoseconds; \<open>now div 1000000000\<close> is \<open>time.Now().Unix()\<close>. The
  receiver is the piece \<open>pid\<close> of the cache, which the map of the cache holds until \<open>Close\<close>.
\<close>

definition unix :: "int \<Rightarrow> int" where
  "unix now = now div 1000000000"

definition MemPiece_WriteAt ::
    "nat \<Rightarrow> int \<Rightarrow> int \<Rightarrow> byte list \<Rightarrow> int \<Rightarrow> world \<Rightarrow> (int \<times> world) outcome" where
  "MemPiece_WriteAt fuel now pid b off w =
     (case cache_piece pid w of
        None \<Rightarrow> Panic
      | Some p \<Rightarrow>
          if b = [] then Done (0, w)
          else let pieceLen = c_pieceLength (w_cache w) in
            bind_outcome
              (write_chunks fuel pieceLen (ensureChunks pieceLen (pc_chunks p)) 0 0 b off w)
              (\<lambda>(chunks, allocated, n, w).
                let w = upd_piece pid (\<lambda>p. p\<lparr>pc_chunks := Some chunks\<rparr>) w;
                    w = (if allocated > 0 then
                           let oldSize = pc_Size p;
                               w = upd_piece pid (\<lambda>p. p\<lparr>pc_Size := i64 (oldSize + allocated)\<rparr>) w;
                               w = addFilled allocated w;
                               w = (if oldSize = 0 then markResidentPiece pid w else w)
                           in queueCleanPieces now w
                         else w)
                in Done (n, markAccessed (unix now) pid w)))"

text \<open>
  \<open>ReadAt\<close> fills a prefix of the buffer; the model returns that prefix, whose length is the
  returned \<open>n\<close>, and what is left to read.
\<close>

function read_chunks ::
    "int \<Rightarrow> byte list option list \<Rightarrow> int \<Rightarrow> int \<Rightarrow> byte list \<Rightarrow> byte list \<times> int" where
  "read_chunks pieceLen chunks off remaining acc =
     (if remaining \<le> 0 then (acc, remaining)
      else
        let chunkIdx = go_div off memPieceChunkSize in
        if chunkIdx < 0 \<or> chunkIdx \<ge> int (length chunks) then (acc, remaining)
        else
          let chunkOff = go_mod off memPieceChunkSize in
          case chunks ! nat chunkIdx of
            None \<Rightarrow>
              let cl = chunkLen pieceLen chunkIdx in
              if chunkOff \<ge> cl then (acc, remaining)
              else let toCopy = min (cl - chunkOff) remaining
                   in read_chunks pieceLen chunks (off + toCopy) (remaining - toCopy)
                        (acc @ replicate (nat toCopy) 0)
          | Some chunk \<Rightarrow>
              if chunkOff \<ge> int (length chunk) then (acc, remaining)
              else let toCopy = min (int (length chunk) - chunkOff) remaining
                   in read_chunks pieceLen chunks (off + toCopy) (remaining - toCopy)
                        (acc @ take (nat toCopy) (drop (nat chunkOff) chunk)))"
  by pat_completeness auto
termination
  by (relation "measure (\<lambda>(pl, cs, off, remaining, acc). nat remaining)") auto

declare read_chunks.simps [simp del]

text \<open>The result is the bytes read and whether the error is \<open>io.EOF\<close> (it is nil otherwise).\<close>

definition MemPiece_ReadAt ::
    "int \<Rightarrow> int \<Rightarrow> nat \<Rightarrow> int \<Rightarrow> world \<Rightarrow> ((byte list \<times> bool) \<times> world) outcome" where
  "MemPiece_ReadAt now pid len off w =
     (case cache_piece pid w of
        None \<Rightarrow> Panic
      | Some p \<Rightarrow>
          if len = 0 then Done (([], False), w)
          else case pc_chunks p of
            None \<Rightarrow> Done (([], True), w)
          | Some chunks \<Rightarrow>
              let pieceLen = c_pieceLength (w_cache w) in
              if off < 0 \<or> off \<ge> pieceLen then Done (([], True), w)
              else
                let (data, remaining) = read_chunks pieceLen chunks off (min (int len) (pieceLen - off)) [];
                    w = markAccessed (unix now) pid w;
                    w = (if off + int (length data) \<ge> pieceLen then queueCleanPieces now w else w)
                in Done ((data, remaining > 0), w))"

definition MemPiece_Release :: "int \<Rightarrow> world \<Rightarrow> world" where
  "MemPiece_Release pid w =
     (case cache_piece pid w of
        None \<Rightarrow> w
      | Some p \<Rightarrow>
          let w = (case pc_chunks p of
                     None \<Rightarrow> w
                   | Some chunks \<Rightarrow>
                       let present = List.map_filter (\<lambda>x. x) chunks;
                           w = foldl (\<lambda>w chunk. if int (length chunk) = memPieceChunkSize
                                                then putMemPieceChunk chunk w else w) w present;
                           w = upd_piece pid (\<lambda>p. p\<lparr>pc_chunks := None\<rparr>) w
                       in addInMemoryChunks (- int (length present)) w);
              prev = pc_Size p;
              w = upd_piece pid (\<lambda>p. p\<lparr>pc_Size := 0\<rparr>) w;
              w = addFilled (- prev) w;
              w = (if prev > 0 then unmarkResidentPiece pid w else w)
          in upd_piece pid (\<lambda>p. p\<lparr>pc_Complete := False\<rparr>) w)"

section \<open>The piece as a flat array\<close>

definition nchunks :: "nat \<Rightarrow> nat" where
  "nchunks P = (P + 16383) div 16384"

definition chunk_len :: "nat \<Rightarrow> nat \<Rightarrow> nat" where
  "chunk_len P q = min 16384 (P - q * 16384)"

definition wf_chunks :: "nat \<Rightarrow> byte list option list \<Rightarrow> bool" where
  "wf_chunks P cs \<longleftrightarrow> length cs = nchunks P \<and>
     (\<forall>q < length cs. \<forall>ch. cs ! q = Some ch \<longrightarrow> length ch = chunk_len P q)"

definition chunk_byte :: "byte list option \<Rightarrow> nat \<Rightarrow> byte" where
  "chunk_byte c j = (case c of None \<Rightarrow> 0 | Some ch \<Rightarrow> ch ! j)"

definition content :: "byte list option list \<Rightarrow> nat \<Rightarrow> byte" where
  "content cs i = chunk_byte (cs ! (i div 16384)) (i mod 16384)"

definition mem_content :: "byte list option list option \<Rightarrow> nat \<Rightarrow> byte" where
  "mem_content p i = (case p of None \<Rightarrow> 0 | Some cs \<Rightarrow> content cs i)"

definition opt_len :: "byte list option \<Rightarrow> nat" where
  "opt_len c = (case c of None \<Rightarrow> 0 | Some ch \<Rightarrow> length ch)"

definition chunk_bytes :: "byte list option list \<Rightarrow> nat" where
  "chunk_bytes cs = sum_list (map opt_len cs)"

definition chunk_count :: "byte list option list \<Rightarrow> nat" where
  "chunk_count cs = length (filter (\<lambda>c. c \<noteq> None) cs)"

definition pool_ok :: "byte list list \<Rightarrow> bool" where
  "pool_ok pool \<longleftrightarrow> (\<forall>ch \<in> set pool. length ch = 16384) \<and> length pool \<le> memPieceChunkPoolLimit"

definition max_piece :: nat where
  "max_piece = 2305843009213693952"

named_theorems chunk_simps \<open>the chunk arithmetic on natural numbers\<close>

lemma chunk_size_int [chunk_simps]: "memPieceChunkSize = int 16384" "nat memPieceChunkSize = 16384"
  by (simp_all add: memPieceChunkSize_def)

lemma go_div_chunk: "go_div (int k) memPieceChunkSize = int (k div 16384)"
  by (simp add: memPieceChunkSize_def go_div_pos zdiv_int)

lemma go_mod_chunk: "go_mod (int k) memPieceChunkSize = int (k mod 16384)"
  by (simp add: memPieceChunkSize_def go_mod_pos zmod_int)

lemma chunkLen_nat:
  assumes "P \<le> max_piece" "q * 16384 \<le> P"
  shows "chunkLen (int P) (int q) = int (chunk_len P q)"
proof -
  have "i64 (int q * memPieceChunkSize) = int q * 16384"
    "i64 (int P - int q * 16384) = int P - int q * 16384"
    using assms by (auto simp: memPieceChunkSize_def max_piece_def fits_i64_def intro!: i64_id)
  then show ?thesis using assms(2)
    by (simp add: chunkLen_def Let_def chunk_len_def memPieceChunkSize_def min_def) linarith
qed

lemma chunk_index:
  assumes "k < P"
  shows "k div 16384 < nchunks P" "(k div 16384) * 16384 \<le> P" "k mod 16384 < chunk_len P (k div 16384)"
proof -
  have "Suc (k div 16384) = (k + 16384) div 16384" by simp
  also have "\<dots> \<le> (P + 16383) div 16384" using assms by (intro div_le_mono) simp
  finally show "k div 16384 < nchunks P" by (simp add: nchunks_def)
  have k: "k div 16384 * 16384 + k mod 16384 = k" by (rule div_mult_mod_eq)
  then show "(k div 16384) * 16384 \<le> P" using assms by linarith
  have "k mod 16384 < 16384" by simp
  with k assms show "k mod 16384 < chunk_len P (k div 16384)"
    unfolding chunk_len_def by linarith
qed

lemma ensureChunks_None:
  assumes "0 < P" "P \<le> max_piece"
  shows "ensureChunks (int P) None = replicate (nchunks P) None"
proof -
  have "fits_i64 (int P + memPieceChunkSize - 1)"
    using assms by (simp add: memPieceChunkSize_def max_piece_def fits_i64_def)
  then have "i64 (int P + memPieceChunkSize - 1) = int (P + 16383)"
    by (simp add: i64_id memPieceChunkSize_def)
  then have d: "go_div (i64 (int P + memPieceChunkSize - 1)) memPieceChunkSize = int (nchunks P)"
    by (simp only: go_div_chunk nchunks_def)
  have "1 \<le> nchunks P" using chunk_index(1) [of 0 P] assms(1) by simp
  then show ?thesis unfolding ensureChunks_def option.case d by (simp add: Let_def)
qed

lemma wf_ensureChunks:
  assumes "0 < P" "P \<le> max_piece" "\<And>cs. c = Some cs \<Longrightarrow> wf_chunks P cs"
  shows "wf_chunks P (ensureChunks (int P) c)"
proof (cases c)
  case None
  then show ?thesis using assms by (simp add: ensureChunks_None wf_chunks_def)
qed (use assms in \<open>simp add: ensureChunks_def\<close>)

lemma content_ensureChunks:
  assumes "0 < P" "P \<le> max_piece" "i < P"
  shows "content (ensureChunks (int P) c) i = mem_content c i"
proof (cases c)
  case None
  then show ?thesis using assms chunk_index(1) [of i P]
    by (simp add: ensureChunks_None mem_content_def content_def chunk_byte_def)
qed (simp add: ensureChunks_def mem_content_def)

lemma addInMemoryChunks_pool:
  "addInMemoryChunks d (w\<lparr>w_pool := x\<rparr>) = (addInMemoryChunks d w)\<lparr>w_pool := x\<rparr>"
  by (simp add: addInMemoryChunks_def Let_def)

lemma newChunk_ok:
  assumes "P \<le> max_piece" "q * 16384 \<le> P" "pool_ok (w_pool w)"
  obtains ch pool where
    "newChunk (int P) (int q) (int r) b w = (ch, w\<lparr>w_pool := pool\<rparr>)" "length ch = chunk_len P q"
    "\<And>j. j < length ch \<Longrightarrow> \<not> (r = 0 \<and> length ch \<le> length b) \<Longrightarrow> ch ! j = 0" "pool_ok pool"
proof (cases "chunk_len P q = 16384")
  case False
  have "w = w\<lparr>w_pool := w_pool w\<rparr>" by simp
  with False assms that [of "replicate (chunk_len P q) 0" "w_pool w"] show ?thesis
    by (simp add: newChunk_def chunkLen_nat Let_def memPieceChunkSize_def)
next
  case True
  obtain ch pool where g: "getMemPieceChunk w = (ch, w\<lparr>w_pool := pool\<rparr>)" "length ch = 16384" "pool_ok pool"
  proof (cases "w_pool w")
    case Nil
    have "w = w\<lparr>w_pool := w_pool w\<rparr>" by simp
    with Nil that [of "replicate 16384 0" "w_pool w"] show thesis
      by (simp add: getMemPieceChunk_def chunk_simps pool_ok_def)
  next
    case (Cons c rest)
    with assms(3) that [of c rest] show thesis
      by (simp add: getMemPieceChunk_def chunk_simps pool_ok_def)
  qed
  show ?thesis
  proof (cases "r = 0 \<and> 16384 \<le> length b")
    case c: True
    with True g that [of ch pool] assms show ?thesis
      by (simp add: newChunk_def chunkLen_nat Let_def memPieceChunkSize_def)
  next
    case c: False
    then have "int r \<noteq> 0 \<or> int (length b) < 16384" by linarith
    with True g that [of "map (\<lambda>_. 0) ch" pool] assms show ?thesis
      by (simp add: newChunk_def chunkLen_nat Let_def memPieceChunkSize_def)
  qed
qed

lemma opt_len_simps [simp]: "opt_len None = 0" "opt_len (Some ch) = length ch"
  by (simp_all add: opt_len_def)

lemma chunk_bytes_update:
  assumes "q < length cs"
  shows "chunk_bytes (cs[q := c]) + opt_len (cs ! q) = chunk_bytes cs + opt_len c"
  using assms
proof (induction cs arbitrary: q)
  case (Cons a cs)
  then show ?case by (cases q) (auto simp: chunk_bytes_def)
qed simp

lemma chunk_count_update:
  assumes "q < length cs"
  shows "chunk_count (cs[q := Some ch]) = chunk_count cs + (if cs ! q = None then 1 else 0)"
  using assms
proof (induction cs arbitrary: q)
  case (Cons a cs)
  then show ?case by (cases q) (auto simp: chunk_count_def)
qed simp

lemma splice_nth:
  assumes "r + m \<le> length ch" "m \<le> length b" "j < length ch"
  shows "(take r ch @ take m b @ drop (r + m) ch) ! j
    = (if r \<le> j \<and> j < r + m then b ! (j - r) else ch ! j)"
  using assms by (auto simp: nth_append min_def)

lemma splice_length:
  "r + m \<le> length ch \<Longrightarrow> m \<le> length b \<Longrightarrow> length (take r ch @ take m b @ drop (r + m) ch) = length ch"
  by simp

lemma content_update:
  assumes "q < length cs"
  shows "content (cs[q := Some ch]) i
    = (if i div 16384 = q then ch ! (i mod 16384) else content cs i)"
  using assms by (auto simp: content_def chunk_byte_def)

section \<open>Writing\<close>

lemma select_chunk:
  assumes "P \<le> max_piece" "wf_chunks P cs" "pool_ok (w_pool w)" "k < P" "b \<noteq> []"
    and q: "q = k div 16384" and r: "r = k mod 16384" and m: "m = min (chunk_len P q - r) (length b)"
  obtains ch pool where
    "(case cs ! q of Some chunk \<Rightarrow> (chunk, a, w)
      | None \<Rightarrow> (let (chunk, w) = newChunk (int P) (int q) (int r) b w
                 in (chunk, a + int (length chunk), addInMemoryChunks 1 w)))
     = (ch, a + int (chunk_len P q) - int (opt_len (cs ! q)),
        ((addInMemoryChunks 1 ^^ (if cs ! q = None then 1 else 0)) w)\<lparr>w_pool := pool\<rparr>)"
    "length ch = chunk_len P q" "pool_ok pool"
    "\<forall>j < length ch. \<not> (r \<le> j \<and> j < r + m) \<longrightarrow> ch ! j = chunk_byte (cs ! q) j"
proof (cases "cs ! q")
  case (Some ch)
  have len: "length ch = chunk_len P q"
    using assms(2) Some chunk_index(1) [OF assms(4)] q by (simp add: wf_chunks_def)
  have "w = w\<lparr>w_pool := w_pool w\<rparr>" by simp
  with Some len assms that [of ch "w_pool w"] show thesis by (simp add: chunk_byte_def)
next
  case None
  obtain ch pool where new: "newChunk (int P) (int q) (int r) b w = (ch, w\<lparr>w_pool := pool\<rparr>)"
    "length ch = chunk_len P q" "pool_ok pool"
    "\<And>j. j < length ch \<Longrightarrow> \<not> (r = 0 \<and> length ch \<le> length b) \<Longrightarrow> ch ! j = 0"
    using newChunk_ok [OF assms(1) chunk_index(2) [OF assms(4)] assms(3), of r b] q by metis
  have "ch ! j = 0" if "j < length ch" "\<not> (r \<le> j \<and> j < r + m)" for j
    using new(4) [OF that(1)] that m new(2) by (cases "r = 0 \<and> length ch \<le> length b") auto
  with None new that [of ch pool] show thesis
    by (simp add: addInMemoryChunks_pool chunk_byte_def)
qed

lemma funpow_pool:
  "(addInMemoryChunks d ^^ k) (w\<lparr>w_pool := x\<rparr>) = ((addInMemoryChunks d ^^ k) w)\<lparr>w_pool := x\<rparr>"
  by (induction k) (simp_all add: addInMemoryChunks_pool)

definition written_content :: "(nat \<Rightarrow> byte) \<Rightarrow> nat \<Rightarrow> byte list \<Rightarrow> nat \<Rightarrow> byte" where
  "written_content f off b i = (if off \<le> i \<and> i < off + length b then b ! (i - off) else f i)"

lemma written_content_split:
  assumes "m \<le> length b"
  shows "written_content (written_content f off (take m b)) (off + m) (drop m b) i = written_content f off b i"
  using assms by (auto simp: written_content_def)

lemma written_content_at:
  "f i = g i \<Longrightarrow> written_content f off b i = written_content g off b i"
  by (simp add: written_content_def)

lemma written_content_Nil [simp]: "written_content f off [] = f"
  by (auto simp: written_content_def fun_eq_iff)

lemma chunk_byte_simps [simp]: "chunk_byte None j = 0" "chunk_byte (Some ch) j = ch ! j"
  by (simp_all add: chunk_byte_def)

lemma same_chunk:
  fixes i k :: nat
  assumes "i div 16384 = k div 16384"
  shows "k mod 16384 \<le> i mod 16384 \<longleftrightarrow> k \<le> i" "i mod 16384 < k mod 16384 + m \<longleftrightarrow> i < k + m"
    "i mod 16384 - k mod 16384 = i - k"
proof -
  have "i = k div 16384 * 16384 + i mod 16384" using assms by (metis div_mult_mod_eq)
  moreover have "k = k div 16384 * 16384 + k mod 16384" by simp
  ultimately show "k mod 16384 \<le> i mod 16384 \<longleftrightarrow> k \<le> i"
    "i mod 16384 < k mod 16384 + m \<longleftrightarrow> i < k + m" "i mod 16384 - k mod 16384 = i - k"
    by linarith+
qed

lemma in_chunk:
  fixes i k :: nat
  assumes "k \<le> i" "i < k + m" "k mod 16384 + m \<le> 16384"
  shows "i div 16384 = k div 16384"
proof -
  have "i = k div 16384 * 16384 + (k mod 16384 + (i - k))" using assms(1)
    by (metis add.assoc div_mult_mod_eq le_add_diff_inverse)
  moreover have "k mod 16384 + (i - k) < 16384" using assms by linarith
  ultimately have "16384 * (k div 16384) \<le> i" "i < 16384 + 16384 * (k div 16384)" by linarith+
  then show ?thesis by (intro div_nat_eqI) simp_all
qed

lemma splice_content:
  assumes "wf_chunks P cs" "k < P" "length ch = chunk_len P (k div 16384)"
    "m \<le> length b" "k mod 16384 + m \<le> length ch" "i < P"
    "\<forall>j < length ch. \<not> (k mod 16384 \<le> j \<and> j < k mod 16384 + m)
       \<longrightarrow> ch ! j = chunk_byte (cs ! (k div 16384)) j"
  shows "content (cs[k div 16384 := Some (take (k mod 16384) ch @ take m b @ drop (k mod 16384 + m) ch)]) i
    = written_content (content cs) k (take m b) i"
proof (cases "i div 16384 = k div 16384")
  case True
  have i: "i mod 16384 < length ch" using chunk_index(3) [OF assms(6)] assms(3) True by simp
  have q: "k div 16384 < length cs" using chunk_index(1) [OF assms(2)] assms(1) by (simp add: wf_chunks_def)
  have "content (cs[k div 16384 := Some (take (k mod 16384) ch @ take m b @ drop (k mod 16384 + m) ch)]) i
      = (if k \<le> i \<and> i < k + m then b ! (i - k) else ch ! (i mod 16384))"
    using q True by (simp only: content_update splice_nth [OF assms(5,4) i] same_chunk [OF True] if_True refl)
  also have "\<dots> = written_content (content cs) k (take m b) i"
  proof (cases "k \<le> i \<and> i < k + m")
    case c: True
    then have "i - k < m" by linarith
    with c assms(4) show ?thesis by (simp add: written_content_def)
  next
    case c: False
    then have "ch ! (i mod 16384) = chunk_byte (cs ! (k div 16384)) (i mod 16384)"
      using assms(7) i same_chunk [OF True] by simp
    with c assms(4) True show ?thesis by (auto simp: written_content_def content_def min_def)
  qed
  finally show ?thesis .
next
  case False
  have "k mod 16384 + m \<le> 16384" using assms(3,5) by (simp add: chunk_len_def)
  then have "\<not> (k \<le> i \<and> i < k + m)" using False in_chunk by blast
  with False assms chunk_index(1) [OF assms(2)] show ?thesis
    by (auto simp: content_update wf_chunks_def written_content_def)
qed

lemma write_chunks_ok:
  "\<lbrakk>P \<le> max_piece; wf_chunks P cs; pool_ok (w_pool w); k + length b \<le> P; length b \<le> fuel\<rbrakk> \<Longrightarrow>
   \<exists>cs' c pool. write_chunks fuel (int P) cs a n b (int k) w
       = Done (cs', a + int (chunk_bytes cs') - int (chunk_bytes cs), n + int (length b),
               ((addInMemoryChunks 1 ^^ c) w)\<lparr>w_pool := pool\<rparr>)
     \<and> wf_chunks P cs' \<and> pool_ok pool \<and> chunk_count cs' = chunk_count cs + c
     \<and> chunk_bytes cs \<le> chunk_bytes cs'
     \<and> (\<forall>i < P. content cs' i = written_content (content cs) k b i)"
proof (induction fuel arbitrary: cs a n b k w)
  case 0
  have "w = w\<lparr>w_pool := w_pool w\<rparr>" by simp
  with 0 show ?case by (intro exI [of _ cs] exI [of _ 0] exI [of _ "w_pool w"]) (simp add: write_chunks.simps)
next
  case (Suc fuel)
  show ?case
  proof (cases "b = []")
    case True
    have "w = w\<lparr>w_pool := w_pool w\<rparr>" by simp
    with True Suc.prems show ?thesis
      by (intro exI [of _ cs] exI [of _ 0] exI [of _ "w_pool w"]) (simp add: write_chunks.simps)
  next
    case False
    define q r where "q = k div 16384" and "r = k mod 16384"
    define m where "m = min (chunk_len P q - r) (length b)"
    have k: "k < P" using False Suc.prems(4) by (cases b) auto
    note idx = chunk_index [OF k, folded q_def r_def]
    obtain ch pool where sel: "(case cs ! q of Some chunk \<Rightarrow> (chunk, a, w)
        | None \<Rightarrow> (let (chunk, w) = newChunk (int P) (int q) (int r) b w
                   in (chunk, a + int (length chunk), addInMemoryChunks 1 w)))
       = (ch, a + int (chunk_len P q) - int (opt_len (cs ! q)),
          ((addInMemoryChunks 1 ^^ (if cs ! q = None then 1 else 0)) w)\<lparr>w_pool := pool\<rparr>)"
      and ch: "length ch = chunk_len P q" and pool: "pool_ok pool"
      and old: "\<forall>j < length ch. \<not> (r \<le> j \<and> j < r + m) \<longrightarrow> ch ! j = chunk_byte (cs ! q) j"
      by (rule select_chunk [OF Suc.prems(1-3) k False q_def r_def m_def, where a = a], rule that)
    define c1 where "c1 = (if cs ! q = None then 1 else 0 :: nat)"
    define ch' where "ch' = take r ch @ take m b @ drop (r + m) ch"
    define cs1 where "cs1 = cs[q := Some ch']"
    define w1 where "w1 = ((addInMemoryChunks 1 ^^ c1) w)\<lparr>w_pool := pool\<rparr>"
    have m1: "0 < m" "m \<le> length b" "r + m \<le> length ch"
      using False idx(3) ch by (auto simp: m_def)
    have ch'_len: "length ch' = chunk_len P q"
      unfolding ch'_def using splice_length [OF m1(3,2)] ch by simp
    have qlen: "q < length cs" using idx(1) Suc.prems(2) by (simp add: wf_chunks_def)
    have wf1: "wf_chunks P cs1"
      using Suc.prems(2) ch'_len qlen by (auto simp: cs1_def wf_chunks_def nth_list_update split: if_splits)
    have bytes: "int (chunk_bytes cs1) = int (chunk_bytes cs) + int (chunk_len P q) - int (opt_len (cs ! q))"
      using chunk_bytes_update [OF qlen, of "Some ch'"] ch'_len by (simp add: cs1_def)
    have "opt_len (cs ! q) \<le> chunk_len P q"
      using Suc.prems(2) qlen by (cases "cs ! q") (simp_all add: wf_chunks_def)
    then have mono: "chunk_bytes cs \<le> chunk_bytes cs1" using bytes by linarith
    have count: "chunk_count cs1 = chunk_count cs + c1"
      unfolding cs1_def c1_def by (rule chunk_count_update [OF qlen])
    have cont: "content cs1 i = written_content (content cs) k (take m b) i" if "i < P" for i
      unfolding cs1_def ch'_def q_def r_def
      by (rule splice_content [OF Suc.prems(2) k ch [unfolded q_def] m1(2) m1(3) [unfolded r_def] that])
        (use old in \<open>simp add: q_def r_def\<close>)
    have off: "i64 (int k + int m) = int (k + m)"
      using Suc.prems(1,4) m1 by (simp add: i64_id fits_i64_def max_piece_def)
    have r_le: "int r \<le> int (length ch)" and min_eq: "min (length ch - r) (length b) = m"
      using m1 by (simp_all add: m_def ch)
    have step: "write_chunks (Suc fuel) (int P) cs a n b (int k) w
      = write_chunks fuel (int P) cs1 (a + int (chunk_len P q) - int (opt_len (cs ! q)))
          (n + int m) (drop m b) (int (k + m)) w1"
      unfolding write_chunks.simps Let_def go_div_chunk go_mod_chunk q_def [symmetric] r_def [symmetric]
        nat_int sel [unfolded Let_def]
      using False qlen r_le off
      by (simp add: min_eq cs1_def ch'_def w1_def c1_def)
    have "k + m + length (drop m b) \<le> P" "length (drop m b) \<le> fuel"
      using Suc.prems(4,5) m1 by simp_all
    from Suc.IH [OF Suc.prems(1) wf1 _ this, of w1 "a + int (chunk_len P q) - int (opt_len (cs ! q))" "n + int m"]
    obtain cs' c pool' where rest: "write_chunks fuel (int P) cs1 (a + int (chunk_len P q) - int (opt_len (cs ! q)))
          (n + int m) (drop m b) (int (k + m)) w1
        = Done (cs', a + int (chunk_len P q) - int (opt_len (cs ! q)) + int (chunk_bytes cs') - int (chunk_bytes cs1),
            n + int m + int (length (drop m b)), ((addInMemoryChunks 1 ^^ c) w1)\<lparr>w_pool := pool'\<rparr>)"
      and rest': "wf_chunks P cs'" "pool_ok pool'" "chunk_count cs' = chunk_count cs1 + c"
        "chunk_bytes cs1 \<le> chunk_bytes cs'"
        "\<forall>i < P. content cs' i = written_content (content cs1) (k + m) (drop m b) i"
      using pool by (auto simp: w1_def)
    have "content cs' i = written_content (content cs) k b i" if "i < P" for i
      using rest'(5) cont [OF that] that written_content_split [OF m1(2), of "content cs" k i]
        written_content_at [of "content cs1" i "written_content (content cs) k (take m b)", OF cont [OF that]] by simp
    moreover have "((addInMemoryChunks 1 ^^ c) w1)\<lparr>w_pool := pool'\<rparr>
        = ((addInMemoryChunks 1 ^^ (c + c1)) w)\<lparr>w_pool := pool'\<rparr>"
      by (simp add: w1_def funpow_pool funpow_add)
    ultimately show ?thesis
      using step rest rest' bytes count mono m1(2)
      by (intro exI [of _ cs'] exI [of _ "c + c1"] exI [of _ pool']) simp
  qed
qed

section \<open>Reading\<close>

lemma drop_take_chunk:
  assumes "r + m \<le> length ch"
  shows "take m (drop r ch) = map (\<lambda>j. ch ! (r + j)) [0..<m]"
  using assms by (intro nth_equalityI) simp_all

lemma content_in_chunk:
  assumes "k mod 16384 + j < 16384"
  shows "content cs (k + j) = chunk_byte (cs ! (k div 16384)) (k mod 16384 + j)"
proof -
  have "(k + j) div 16384 = k div 16384"
    using in_chunk [of k "k + j" "Suc j"] assms by simp
  moreover have "(k + j) mod 16384 = k mod 16384 + j"
    using assms by (metis mod_add_left_eq mod_less)
  ultimately show ?thesis by (simp add: content_def)
qed

lemma read_piece:
  assumes "wf_chunks P cs" "k < P" "k mod 16384 + m \<le> chunk_len P (k div 16384)"
  shows "(case cs ! (k div 16384) of None \<Rightarrow> replicate m 0 | Some ch \<Rightarrow> take m (drop (k mod 16384) ch))
    = map (content cs) [k..<k + m]"
proof -
  have q: "k div 16384 < length cs" using chunk_index(1) [OF assms(2)] assms(1) by (simp add: wf_chunks_def)
  have le: "chunk_len P (k div 16384) \<le> 16384" by (simp add: chunk_len_def)
  have "map (content cs) [k..<k + m] = map (\<lambda>j. chunk_byte (cs ! (k div 16384)) (k mod 16384 + j)) [0..<m]"
    using assms(3) le by (intro nth_equalityI) (simp_all add: content_in_chunk)
  then show ?thesis
    using assms q by (auto simp: wf_chunks_def drop_take_chunk map_replicate_const split: option.split)
qed

lemma read_chunks_ok:
  "\<lbrakk>P \<le> max_piece; wf_chunks P cs; k + R \<le> P\<rbrakk> \<Longrightarrow>
   read_chunks (int P) cs (int k) (int R) acc = (acc @ map (content cs) [k..<k + R], 0)"
proof (induction R arbitrary: k acc rule: less_induct)
  case (less R)
  show ?case
  proof (cases "R = 0")
    case True
    then show ?thesis by (simp add: read_chunks.simps)
  next
    case False
    with less.prems have k: "k < P" by simp
    note idx = chunk_index [OF k]
    define cl where "cl = chunk_len P (k div 16384)"
    define m where "m = min (cl - k mod 16384) R"
    have m: "0 < m" "m \<le> R" "k mod 16384 + m \<le> cl" using idx(3) False by (auto simp: m_def cl_def)
    have q: "k div 16384 < length cs" using idx(1) less.prems(2) by (simp add: wf_chunks_def)
    have len: "length ch = cl" if "cs ! (k div 16384) = Some ch" for ch
      using that less.prems(2) q by (simp add: wf_chunks_def cl_def)
    have cl: "chunkLen (int P) (int (k div 16384)) = int cl"
      unfolding cl_def by (rule chunkLen_nat [OF less.prems(1) idx(2)])
    have copy: "min (int cl - int (k mod 16384)) (int R) = int m"
      using idx(3) unfolding cl_def [symmetric] m_def by linarith
    have lt: "\<not> int cl \<le> int (k mod 16384)" using idx(3) by (simp add: cl_def)
    have "read_chunks (int P) cs (int k) (int R) acc
        = read_chunks (int P) cs (int (k + m)) (int (R - m)) (acc @ map (content cs) [k..<k + m])"
      using False q lt m(2) copy len
      by (subst read_chunks.simps)
        (simp add: go_div_chunk go_mod_chunk Let_def cl nat_mod_distrib of_nat_diff
          read_piece [OF less.prems(2) k m(3) [unfolded cl_def], symmetric] split: option.split)
    also have "\<dots> = (acc @ map (content cs) [k..<k + m] @ map (content cs) [k + m..<k + m + (R - m)], 0)"
      using less.IH [of "R - m" "k + m"] less.prems m by simp
    also have "map (content cs) [k..<k + m] @ map (content cs) [k + m..<k + m + (R - m)] = map (content cs) [k..<k + R]"
      using m(2) upt_add_eq_append [of k "k + m" "R - m"] by simp
    finally show ?thesis .
  qed
qed

section \<open>Pieces in the cache\<close>

lemma upd_piece_frame [simp]:
  "c_host (w_cache (upd_piece pid f w)) = c_host (w_cache w)"
  "c_capacity (w_cache (upd_piece pid f w)) = c_capacity (w_cache w)"
  "c_filled (w_cache (upd_piece pid f w)) = c_filled (w_cache w)"
  "c_pieceLength (w_cache (upd_piece pid f w)) = c_pieceLength (w_cache w)"
  "c_pieceCount (w_cache (upd_piece pid f w)) = c_pieceCount (w_cache w)"
  "c_isClosed (w_cache (upd_piece pid f w)) = c_isClosed (w_cache w)"
  "c_torrent (w_cache (upd_piece pid f w)) = c_torrent (w_cache w)"
  "c_readers (w_cache (upd_piece pid f w)) = c_readers (w_cache w)"
  "c_resident (w_cache (upd_piece pid f w)) = c_resident (w_cache w)"
  "c_priorities (w_cache (upd_piece pid f w)) = c_priorities (w_cache w)"
  "c_cleanup (w_cache (upd_piece pid f w)) = c_cleanup (w_cache w)"
  "w_metrics (upd_piece pid f w) = w_metrics w"
  "w_stats (upd_piece pid f w) = w_stats w"
  "w_pool (upd_piece pid f w) = w_pool w"
  "w_tasks (upd_piece pid f w) = w_tasks w"
  "w_lib (upd_piece pid f w) = w_lib w"
  by (simp_all add: upd_piece_def)

lemma markAccessed_frame [simp]:
  "c_host (w_cache (markAccessed t pid w)) = c_host (w_cache w)"
  "c_capacity (w_cache (markAccessed t pid w)) = c_capacity (w_cache w)"
  "c_filled (w_cache (markAccessed t pid w)) = c_filled (w_cache w)"
  "c_pieceLength (w_cache (markAccessed t pid w)) = c_pieceLength (w_cache w)"
  "c_pieceCount (w_cache (markAccessed t pid w)) = c_pieceCount (w_cache w)"
  "c_isClosed (w_cache (markAccessed t pid w)) = c_isClosed (w_cache w)"
  "c_resident (w_cache (markAccessed t pid w)) = c_resident (w_cache w)"
  "w_metrics (markAccessed t pid w) = w_metrics w"
  "w_pool (markAccessed t pid w) = w_pool w"
  by (simp_all add: markAccessed_def)

lemma c_pieces_upd_piece [simp]:
  "c_pieces (w_cache (upd_piece pid f w))
   = map_option (\<lambda>m. m(pid := map_option f (m pid))) (c_pieces (w_cache w))"
  by (simp add: upd_piece_def)

lemma cache_piece_upd_piece [simp]:
  "cache_piece qid (upd_piece pid f w)
   = (if qid = pid then map_option f (cache_piece pid w) else cache_piece qid w)"
  by (simp add: cache_piece_def split: option.split)

lemma cache_piece_markAccessed [simp]:
  "cache_piece qid (markAccessed t pid w)
   = (if qid = pid then map_option (\<lambda>p. p\<lparr>pc_Accessed := t\<rparr>) (cache_piece pid w) else cache_piece qid w)"
  by (simp add: markAccessed_def)

lemma cache_piece_frame [simp]:
  "cache_piece qid (addFilled d w) = cache_piece qid w"
  "cache_piece qid (addInMemoryChunks d w) = cache_piece qid w"
  "cache_piece qid (markResidentPiece pid w) = cache_piece qid w"
  "cache_piece qid (unmarkResidentPiece pid w) = cache_piece qid w"
  "cache_piece qid (queueCleanPieces t w) = cache_piece qid w"
  "cache_piece qid (w\<lparr>w_pool := x\<rparr>) = cache_piece qid w"
  by (simp_all add: cache_piece_def)

lemma cache_piece_funpow [simp]:
  "cache_piece qid ((addInMemoryChunks d ^^ k) w) = cache_piece qid w"
  "c_pieceLength (w_cache ((addInMemoryChunks d ^^ k) w)) = c_pieceLength (w_cache w)"
  by (induction k) simp_all

definition mem_piece_ok :: "nat \<Rightarrow> int \<Rightarrow> world \<Rightarrow> bool" where
  "mem_piece_ok P pid w \<longleftrightarrow>
     0 < P \<and> P \<le> max_piece \<and> c_pieceLength (w_cache w) = int P \<and> pool_ok (w_pool w) \<and>
     (\<exists>p. cache_piece pid w = Some p \<and> (\<forall>cs. pc_chunks p = Some cs \<longrightarrow> wf_chunks P cs))"

definition piece_content :: "int \<Rightarrow> world \<Rightarrow> nat \<Rightarrow> byte" where
  "piece_content pid w = (case cache_piece pid w of None \<Rightarrow> (\<lambda>_. 0) | Some p \<Rightarrow> mem_content (pc_chunks p))"

text \<open>The world after a write that left the chunks \<open>cs'\<close>, having allocated \<open>c\<close> chunks.\<close>

definition mem_write_world ::
    "nat \<Rightarrow> int \<Rightarrow> int \<Rightarrow> byte list option list \<Rightarrow> nat \<Rightarrow> byte list list \<Rightarrow> world \<Rightarrow> world" where
  "mem_write_world P now pid cs' c pool w =
     (let p = the (cache_piece pid w);
          allocated = int (chunk_bytes cs') - int (chunk_bytes (ensureChunks (int P) (pc_chunks p)));
          w = ((addInMemoryChunks 1 ^^ c) w)\<lparr>w_pool := pool\<rparr>;
          w = upd_piece pid (\<lambda>p. p\<lparr>pc_chunks := Some cs'\<rparr>) w;
          w = (if allocated > 0 then
                 let oldSize = pc_Size p;
                     w = upd_piece pid (\<lambda>p. p\<lparr>pc_Size := i64 (oldSize + allocated)\<rparr>) w;
                     w = addFilled allocated w;
                     w = (if oldSize = 0 then markResidentPiece pid w else w)
                 in queueCleanPieces now w
               else w)
      in markAccessed (unix now) pid w)"

lemma mem_write_result:
  assumes ok: "mem_piece_ok P pid w" and p: "cache_piece pid w = Some p"
    and b: "b \<noteq> []" "k + length b \<le> P" "length b \<le> fuel"
  obtains cs' c pool where
    "wf_chunks P cs'" "pool_ok pool"
    "chunk_count cs' = chunk_count (ensureChunks (int P) (pc_chunks p)) + c"
    "chunk_bytes (ensureChunks (int P) (pc_chunks p)) \<le> chunk_bytes cs'"
    "\<forall>i < P. content cs' i = written_content (mem_content (pc_chunks p)) k b i"
    "MemPiece_WriteAt fuel now pid b (int k) w = Done (int (length b), mem_write_world P now pid cs' c pool w)"
proof -
  define cs where "cs = ensureChunks (int P) (pc_chunks p)"
  have P: "0 < P" "P \<le> max_piece" "c_pieceLength (w_cache w) = int P" "pool_ok (w_pool w)"
    and wf: "wf_chunks P cs"
    using ok p wf_ensureChunks by (auto simp: mem_piece_ok_def cs_def)
  from write_chunks_ok [OF P(2) wf P(4) b(2,3), of 0 0]
  obtain cs' c pool where r: "write_chunks fuel (int P) cs 0 0 b (int k) w
       = Done (cs', int (chunk_bytes cs') - int (chunk_bytes cs), int (length b),
               ((addInMemoryChunks 1 ^^ c) w)\<lparr>w_pool := pool\<rparr>)"
    and r': "wf_chunks P cs'" "pool_ok pool" "chunk_count cs' = chunk_count cs + c"
      "\<forall>i < P. content cs' i = written_content (content cs) k b i"
      "chunk_bytes cs \<le> chunk_bytes cs'" by auto
  have "\<forall>i < P. content cs' i = written_content (mem_content (pc_chunks p)) k b i"
    using r'(4) content_ensureChunks [OF P(1,2)] by (simp add: written_content_def cs_def)
  from that [OF r'(1,2) r'(3) [unfolded cs_def] r'(5) [unfolded cs_def] this] show thesis
    using b(1) p P(3) r by (simp add: MemPiece_WriteAt_def mem_write_world_def Let_def cs_def)
qed

lemma mem_write_array:
  assumes "mem_piece_ok P pid w" "k + length b \<le> P" "length b \<le> fuel"
  shows "\<exists>w'. MemPiece_WriteAt fuel now pid b (int k) w = Done (int (length b), w')
    \<and> mem_piece_ok P pid w'
    \<and> (\<forall>i < P. piece_content pid w' i = written_content (piece_content pid w) k b i)
    \<and> (\<forall>qid. qid \<noteq> pid \<longrightarrow> cache_piece qid w' = cache_piece qid w)"
proof (cases "b = []")
  case True
  then show ?thesis using assms(1) by (auto simp: MemPiece_WriteAt_def mem_piece_ok_def)
next
  case False
  obtain p where p: "cache_piece pid w = Some p" using assms(1) by (auto simp: mem_piece_ok_def)
  obtain cs' c pool where cs': "wf_chunks P cs'" "pool_ok pool"
    "\<forall>i < P. content cs' i = written_content (mem_content (pc_chunks p)) k b i"
    and eq: "MemPiece_WriteAt fuel now pid b (int k) w = Done (int (length b), mem_write_world P now pid cs' c pool w)"
    by (rule mem_write_result [OF assms(1) p False assms(2,3)], rule that)
  have "cache_piece qid (mem_write_world P now pid cs' c pool w) = cache_piece qid w" if "qid \<noteq> pid" for qid
    using that p by (simp add: mem_write_world_def Let_def)
  moreover have "\<exists>q. cache_piece pid (mem_write_world P now pid cs' c pool w) = Some q \<and> pc_chunks q = Some cs'"
    using p by (simp add: mem_write_world_def Let_def)
  moreover have "w_pool (mem_write_world P now pid cs' c pool w) = pool"
    "c_pieceLength (w_cache (mem_write_world P now pid cs' c pool w)) = c_pieceLength (w_cache w)"
    by (simp_all add: mem_write_world_def Let_def)
  ultimately show ?thesis using assms(1) p cs' eq
    by (auto simp: mem_piece_ok_def piece_content_def mem_content_def)
qed

section \<open>Properties\<close>

text \<open>
  Property C1. A memory piece is a flat byte array under writes: a write inside the piece returns
  the whole length without an error within as many rounds as it has bytes, leaves the array
  equal to the old one with the written bytes put in place (holes still zero, no byte of
  a recycled chunk visible), touches no other piece, and keeps the chunks and the pool well formed.
\<close>

theorem MemPiece_WriteAt_array:
  assumes "mem_piece_ok P pid w" "k + length b \<le> P" "length b \<le> fuel"
  shows "\<exists>w'. MemPiece_WriteAt fuel now pid b (int k) w = Done (int (length b), w')
    \<and> mem_piece_ok P pid w'
    \<and> (\<forall>i < P. piece_content pid w' i = written_content (piece_content pid w) k b i)
    \<and> (\<forall>qid. qid \<noteq> pid \<longrightarrow> cache_piece qid w' = cache_piece qid w)"
  by (rule mem_write_array [OF assms])

definition new_piece :: piece where
  "new_piece = \<lparr>pc_disk = False, pc_Size = 0, pc_Complete = False, pc_Accessed = 0, pc_chunks = None\<rparr>"

definition small_world :: world where
  "small_world = new_world ((NewCache 100 None)\<lparr>c_pieceLength := 5, c_pieceCount := 1,
     c_pieces := Some [0 \<mapsto> new_piece]\<rparr>)"

lemma small_world_ok: "mem_piece_ok 5 0 small_world"
  by (simp add: mem_piece_ok_def small_world_def cache_piece_def new_piece_def max_piece_def pool_ok_def)

theorem MemPiece_WriteAt_array_witness:
  "\<exists>w'. MemPiece_WriteAt 2 0 0 [7, 8] 1 small_world = Done (2, w') \<and> piece_content 0 w' 2 = 8"
  using MemPiece_WriteAt_array [OF small_world_ok, of 1 "[7, 8]" 2 0]
  by (auto simp: written_content_def)

text \<open>
  Property C2. A memory piece is a flat byte array under reads: a read at any offset, negative and past
  the end included, returns the bytes of the array from the offset to the end of the piece or of the
  buffer, zeros for what was never written; a piece into which nothing was written since its release
  reads as empty. End of file is reported exactly when the buffer is not empty and the offset is outside
  the piece or nothing was ever written. Reads change no piece data.
\<close>

theorem MemPiece_ReadAt_array:
  assumes "mem_piece_ok P pid w"
  shows "\<exists>w'. MemPiece_ReadAt now pid len off w =
      Done ((if off < 0 \<or> pc_chunks (the (cache_piece pid w)) = None then []
             else map (piece_content pid w) [nat off..<min (nat off + len) P],
             len \<noteq> 0 \<and> (off < 0 \<or> pc_chunks (the (cache_piece pid w)) = None \<or> off \<ge> int P)), w')
    \<and> (\<forall>qid. map_option pc_chunks (cache_piece qid w') = map_option pc_chunks (cache_piece qid w))"
proof -
  obtain p where p: "cache_piece pid w = Some p" and P: "P \<le> max_piece" "c_pieceLength (w_cache w) = int P"
    and wf: "\<And>cs. pc_chunks p = Some cs \<Longrightarrow> wf_chunks P cs"
    using assms by (auto simp: mem_piece_ok_def)
  consider (none) "len = 0 \<or> pc_chunks p = None \<or> off < 0 \<or> off \<ge> int P"
    | (read) cs k where "len \<noteq> 0" "pc_chunks p = Some cs" "off = int k" "k < P"
    by (metis less_le_not_le linorder_not_less nat_int not_None_eq of_nat_less_iff zero_le_imp_eq_int)
  then show ?thesis
  proof cases
    case none
    then have "MemPiece_ReadAt now pid len off w
        = Done (([], len \<noteq> 0 \<and> (off < 0 \<or> pc_chunks p = None \<or> off \<ge> int P)), w)"
      using p P by (auto simp: MemPiece_ReadAt_def Let_def split: option.split)
    moreover have "off < 0 \<or> pc_chunks p = None \<or> [nat off..<min (nat off + len) P] = []"
      using none by auto
    ultimately show ?thesis using p by auto
  next
    case read
    have "min (int len) (int P - int k) = int (min len (P - k))" using read(4) by linarith
    moreover have "k + min len (P - k) = min (k + len) P" using read(4) by linarith
    ultimately have "read_chunks (int P) cs (int k) (min (int len) (int P - int k)) []
        = (map (content cs) [k..<min (k + len) P], 0)"
      using read_chunks_ok [OF P(1) wf [OF read(2)], of k "min len (P - k)" "[]"] read(4)
      by simp
    then show ?thesis using read p P
      by (auto simp: MemPiece_ReadAt_def Let_def piece_content_def mem_content_def fun_eq_iff)
  qed
qed


theorem MemPiece_ReadAt_array_witness:
  "\<exists>w' w''. MemPiece_WriteAt 2 0 0 [7, 8] 1 small_world = Done (2, w')
     \<and> MemPiece_ReadAt 0 0 4 0 w' = Done (([0, 7, 8, 0], False), w'')"
proof -
  obtain w' where w: "MemPiece_WriteAt 2 0 0 [7, 8] 1 small_world = Done (2, w')" "mem_piece_ok 5 0 w'"
    and c: "\<forall>i < 5. piece_content 0 w' i = written_content (piece_content 0 small_world) 1 [7, 8] i"
    using mem_write_array [OF small_world_ok, of 1 "[7, 8]" 2 0] by auto
  have old: "piece_content 0 small_world i = 0" for i
    by (simp add: small_world_def piece_content_def cache_piece_def new_piece_def mem_content_def)
  have "[0..<4] = [0, 1, 2, 3 :: nat]" by (simp add: upt_rec)
  with c old have "map (piece_content 0 w') [0..<4] = [0, 7, 8, 0]"
    by (simp add: written_content_def)
  moreover have "pc_chunks (the (cache_piece 0 w')) \<noteq> None"
  proof
    assume "pc_chunks (the (cache_piece 0 w')) = None"
    then have "piece_content 0 w' 1 = 0" using w(2) by (auto simp: piece_content_def mem_content_def mem_piece_ok_def)
    with c show False by (simp add: written_content_def)
  qed
  ultimately show ?thesis
    using MemPiece_ReadAt_array [OF w(2), of 0 4 0] w(1) by auto
qed

text \<open>
  A write that runs past the end of a piece whose length is not a multiple of 16 KiB never
  returns: at the end of the last, short chunk the copy moves no bytes, and the loop goes round with
  the lock of the piece held. Here five bytes are the whole piece and six are
  written; no number of rounds is enough.
\<close>

theorem write_past_end_spins: "MemPiece_WriteAt fuel now 0 [1, 2, 3, 4, 5, 6] 0 small_world = NoFuel"
proof -
  have stuck: "write_chunks fuel 5 [Some ch] a n [6] 5 w = NoFuel" if "length ch = 5" for fuel ch a n w
    using that by (induction fuel arbitrary: a n w)
      (simp_all add: write_chunks.simps Let_def go_div_def go_mod_def memPieceChunkSize_def i64_id fits_i64_def)
  have "write_chunks fuel 5 [None] 0 0 [1, 2, 3, 4, 5, 6] 0 small_world = NoFuel"
  proof (cases fuel)
    case (Suc f)
    have "newChunk 5 0 0 [1, 2, 3, 4, 5, 6] small_world = ([0, 0, 0, 0, 0], small_world)"
      by (simp add: newChunk_def chunkLen_def memPieceChunkSize_def Let_def i64_id fits_i64_def)
        (simp add: numeral_eq_Suc)
    then show ?thesis using stuck [of "[1, 2, 3, 4, 5]" f] Suc
      by (simp add: write_chunks.simps Let_def memPieceChunkSize_def i64_id fits_i64_def go_mod_def)
  qed (simp add: write_chunks.simps)
  moreover have "ensureChunks 5 None = [None]"
    by (simp add: ensureChunks_def memPieceChunkSize_def i64_id fits_i64_def go_div_def)
  ultimately show ?thesis
    by (simp add: MemPiece_WriteAt_def small_world_def cache_piece_def new_piece_def)
qed

end
