(* ===== verification/Go_Time.thy ===== *)
theory Go_Time
  imports Complex_Main Go_Prelude
begin

text \<open>
  Times, durations and \<open>float64\<close>. A \<open>time.Duration\<close> and a \<open>UnixNano\<close> are numbers of nanoseconds. A
  finite \<open>float64\<close> is the rational it denotes; an operation on floats is the exact operation on rationals followed by
  rounding to 53 significant bits, to nearest and ties to even. The code only has magnitudes
  between a nanosecond and 2 to the 93, so overflow, subnormals and not-a-number do not occur.
\<close>

section \<open>Time\<close>

text \<open>\<open>Time.Sub\<close> saturates at the range of a duration.\<close>

definition time_sub :: "int \<Rightarrow> int \<Rightarrow> int" where
  "time_sub a b = max (-9223372036854775808) (min 9223372036854775807 (a - b))"

definition milliseconds :: "int \<Rightarrow> int" where
  "milliseconds d = go_div d 1000000"

definition microseconds :: "int \<Rightarrow> int" where
  "microseconds d = go_div d 1000"

lemma milliseconds_mono: "a \<le> b \<Longrightarrow> milliseconds a \<le> milliseconds b"
  by (simp add: milliseconds_def go_div_mono)

section \<open>Rounding\<close>

fun bit_length :: "nat \<Rightarrow> nat" where
  "bit_length n = (if n = 0 then 0 else Suc (bit_length (n div 2)))"

declare bit_length.simps [simp del]

lemma bit_length_upper: "n < 2 ^ bit_length n"
proof (induction n rule: bit_length.induct)
  case (1 n)
  show ?case
  proof (cases "n = 0")
    case False
    then have "n div 2 < 2 ^ bit_length (n div 2)" using 1 by simp
    then have "n < 2 * 2 ^ bit_length (n div 2)" by linarith
    with False show ?thesis by (subst bit_length.simps) simp
  qed (simp add: bit_length.simps)
qed

lemma bit_length_lower: "0 < n \<Longrightarrow> 2 ^ bit_length n \<le> 2 * n"
proof (induction n rule: bit_length.induct)
  case (1 n)
  show ?case
  proof (cases "n div 2 = 0")
    case True
    then have "n = 1" using 1(2) by auto
    then show ?thesis by (simp add: bit_length.simps)
  next
    case False
    then have "2 ^ bit_length (n div 2) \<le> 2 * (n div 2)" using 1 by simp
    then have "2 ^ bit_length (n div 2) \<le> n" by linarith
    with 1(2) show ?thesis by (subst bit_length.simps) simp
  qed
qed

text \<open>The binary exponent of a positive rational.\<close>

definition exponent :: "rat \<Rightarrow> int" where
  "exponent x =
     (let (p, q) = quotient_of x; k = int (bit_length (nat p)) - int (bit_length (nat q))
      in if x < 2 powi k then k - 1 else k)"

lemma exponent_bounds:
  assumes "0 < x"
  shows "2 powi exponent x \<le> x" "x < 2 powi (exponent x + 1)"
proof -
  obtain p q where pq: "quotient_of x = (p, q)" by fastforce
  have q: "0 < q" by (rule quotient_of_denom_pos [OF pq])
  have x: "x = of_int p / of_int q" by (rule quotient_of_div [OF pq])
  have p: "0 < p" using assms q unfolding x by (simp add: zero_less_divide_iff)
  let ?a = "bit_length (nat p)" and ?b = "bit_length (nat q)"
  have bp: "(of_int p :: rat) < 2 ^ ?a" "2 ^ ?a \<le> 2 * (of_int p :: rat)"
    and bq: "(of_int q :: rat) < 2 ^ ?b" "2 ^ ?b \<le> 2 * (of_int q :: rat)"
  proof -
    have "(of_nat (nat p) :: rat) < of_nat (2 ^ ?a)" "of_nat (2 ^ ?a) \<le> (of_nat (2 * nat p) :: rat)"
      "(of_nat (nat q) :: rat) < of_nat (2 ^ ?b)" "of_nat (2 ^ ?b) \<le> (of_nat (2 * nat q) :: rat)"
      using bit_length_upper bit_length_lower p q by (auto simp only: of_nat_less_iff of_nat_le_iff zero_less_nat_eq)
    then show "(of_int p :: rat) < 2 ^ ?a" "2 ^ ?a \<le> 2 * (of_int p :: rat)"
      "(of_int q :: rat) < 2 ^ ?b" "2 ^ ?b \<le> 2 * (of_int q :: rat)"
      using p q by (auto simp: of_nat_nat)
  qed
  define k where "k = int ?a - int ?b"
  have pw: "2 powi k = (2 ^ ?a / 2 ^ ?b :: rat)" by (simp add: k_def power_int_diff)
  have up: "x < 2 powi k * 2"
  proof -
    have "of_int p * 2 ^ ?b < (2 ^ ?a :: rat) * (2 * of_int q)"
      using bp(1) bq p q by (intro mult_strict_mono' [THEN order.strict_trans2 [OF _ order.refl]] order.strict_trans2
        [OF mult_strict_right_mono [OF bp(1)] mult_left_mono [OF bq(2)]]) auto
    then show ?thesis using q unfolding x pw by (simp add: field_simps)
  qed
  have low: "2 powi k / 2 \<le> x"
  proof -
    have "2 ^ ?a * of_int q \<le> 2 * of_int p * (2 ^ ?b :: rat)"
      using bp(2) bq(1) p q by (intro mult_mono) auto
    then show ?thesis using q unfolding x pw by (simp add: field_simps)
  qed
  have e: "exponent x = (if x < 2 powi k then k - 1 else k)"
    by (simp add: exponent_def pq k_def)
  show "2 powi exponent x \<le> x" using low by (auto simp: e power_int_diff)
  show "x < 2 powi (exponent x + 1)" using up by (auto simp: e power_int_add power_int_diff)
qed

lemma exponent_mono: "0 < x \<Longrightarrow> x \<le> y \<Longrightarrow> exponent x \<le> exponent y"
proof (rule ccontr)
  assume a: "0 < x" "x \<le> y" "\<not> exponent x \<le> exponent y"
  then have "2 powi (exponent y + 1) \<le> (2 :: rat) powi exponent x" by (intro power_int_increasing) auto
  then show False using exponent_bounds(1) [OF a(1)] exponent_bounds(2) [of y] a(1,2) by linarith
qed

lemma exponent_unique:
  assumes "2 powi e \<le> x" "x < 2 powi (e + 1)"
  shows "exponent x = e"
proof -
  have x: "0 < x" using assms(1) by (rule order.strict_trans2 [rotated]) (simp add: zero_less_power_int)
  have "(2 :: rat) powi exponent x < 2 powi (e + 1)" "(2 :: rat) powi e < 2 powi (exponent x + 1)"
    using exponent_bounds [OF x] assms by linarith+
  then have "\<not> e + 1 \<le> exponent x" "\<not> exponent x + 1 \<le> e"
    using power_int_increasing [of "e + 1" "exponent x" "2 :: rat"]
      power_int_increasing [of "exponent x + 1" e "2 :: rat"] by auto
  then show ?thesis by linarith
qed

definition round_even :: "rat \<Rightarrow> int" where
  "round_even y = (let f = \<lfloor>y\<rfloor>; d = y - of_int f in if d < 1 / 2 \<or> (d = 1 / 2 \<and> even f) then f else f + 1)"

lemma round_even_int [simp]: "round_even (of_int n) = n"
  by (simp add: round_even_def Let_def)

lemma round_even_mono: "x \<le> y \<Longrightarrow> round_even x \<le> round_even y"
proof -
  assume le: "x \<le> y"
  then have f: "\<lfloor>x\<rfloor> \<le> \<lfloor>y\<rfloor>" by (rule floor_mono)
  show ?thesis
  proof (cases "\<lfloor>x\<rfloor> = \<lfloor>y\<rfloor>")
    case True
    then show ?thesis using le by (auto simp: round_even_def Let_def)
  next
    case False
    then show ?thesis using f by (auto simp: round_even_def Let_def)
  qed
qed

definition float64 :: "rat \<Rightarrow> rat" where
  "float64 x =
     (if x = 0 then 0
      else let s = 2 powi (exponent \<bar>x\<bar> - 52) in sgn x * (of_int (round_even (\<bar>x\<bar> / s)) * s))"

lemma float64_0 [simp]: "float64 0 = 0"
  by (simp add: float64_def)

lemma float64_pos: "0 < x \<Longrightarrow> float64 x = of_int (round_even (x / 2 powi (exponent x - 52))) * 2 powi (exponent x - 52)"
  by (simp add: float64_def Let_def)

lemma float64_binade:
  assumes "0 < x"
  shows "2 powi exponent x \<le> float64 x" "float64 x \<le> 2 powi (exponent x + 1)"
proof -
  let ?s = "2 powi (exponent x - 52) :: rat"
  have s: "0 < ?s" by (simp add: zero_less_power_int)
  have lo: "2 powi exponent x = of_int (2 ^ 52) * ?s" and hi: "2 powi (exponent x + 1) = of_int (2 ^ 53) * ?s"
    by (simp_all add: power_int_diff power_int_add)
  have "of_int (2 ^ 52) \<le> x / ?s" "x / ?s \<le> of_int (2 ^ 53)"
    using exponent_bounds [OF assms] s lo hi by (simp_all add: field_simps)
  then have "round_even (of_int (2 ^ 52)) \<le> round_even (x / ?s)" "round_even (x / ?s) \<le> round_even (of_int (2 ^ 53))"
    by (auto intro: round_even_mono)
  then have "2 ^ 52 \<le> round_even (x / ?s)" "round_even (x / ?s) \<le> 2 ^ 53" by (simp_all only: round_even_int)
  then have "(of_int (2 ^ 52) :: rat) \<le> of_int (round_even (x / ?s))" "(of_int (round_even (x / ?s)) :: rat) \<le> of_int (2 ^ 53)"
    by (simp_all only: of_int_le_iff)
  then show "2 powi exponent x \<le> float64 x" "float64 x \<le> 2 powi (exponent x + 1)"
    unfolding float64_pos [OF assms] lo hi using s by (auto intro: mult_right_mono)
qed

lemma float64_mono: "0 \<le> x \<Longrightarrow> x \<le> y \<Longrightarrow> float64 x \<le> float64 y"
proof -
  assume xy: "0 \<le> x" "x \<le> y"
  have pos: "0 < z \<Longrightarrow> 0 < float64 z" for z
    using float64_binade(1) [of z] by (rule order.strict_trans2 [rotated]) (auto simp: zero_less_power_int)
  show ?thesis
  proof (cases "x = 0")
    case True
    then show ?thesis using xy pos [of y] by (cases "y = 0") auto
  next
    case False
    then have x: "0 < x" "0 < y" using xy by auto
    show ?thesis
    proof (cases "exponent x = exponent y")
      case True
      let ?s = "2 powi (exponent y - 52) :: rat"
      have s: "0 < ?s" by (simp add: zero_less_power_int)
      then have "round_even (x / ?s) \<le> round_even (y / ?s)"
        using xy by (intro round_even_mono divide_right_mono) auto
      then show ?thesis unfolding float64_pos [OF x(1)] float64_pos [OF x(2)] True
        using s by (intro mult_right_mono) auto
    next
      case False
      then have "exponent x + 1 \<le> exponent y" using exponent_mono [OF x(1) xy(2)] by simp
      then have "(2 :: rat) powi (exponent x + 1) \<le> 2 powi exponent y" by (intro power_int_increasing) auto
      then show ?thesis using float64_binade(2) [OF x(1)] float64_binade(1) [OF x(2)] by linarith
    qed
  qed
qed

text \<open>A number with at most 53 significant bits is its own rounding.\<close>

lemma float64_exact:
  assumes "0 \<le> n" "n < 2 ^ 53" "x = of_int n * 2 powi k"
  shows "float64 x = x"
proof (cases "n = 0")
  case False
  have two: "0 < (2 powi k :: rat)" by (simp add: zero_less_power_int)
  then have x: "0 < x" using assms False by simp
  have "x < of_int (2 ^ 53) * 2 powi k"
    unfolding assms(3) using assms(2) two by (intro mult_strict_right_mono) (auto simp only: of_int_less_iff)
  then have "x < 2 powi (53 + k)" by (simp add: power_int_add)
  then have "(2 :: rat) powi exponent x < 2 powi (53 + k)" using exponent_bounds(1) [OF x] by linarith
  then have e: "exponent x - 52 \<le> k"
    using power_int_increasing [of "53 + k" "exponent x" "2 :: rat"] by (cases "53 + k \<le> exponent x") auto
  define m where "m = n * 2 ^ nat (k - (exponent x - 52))"
  have "(2 :: rat) powi k = 2 ^ nat (k - (exponent x - 52)) * 2 powi (exponent x - 52)"
    using e by (simp flip: power_int_add add: power_int_of_nat [symmetric])
  then have "x = of_int m * 2 powi (exponent x - 52)" by (simp add: assms(3) m_def)
  then have "x / 2 powi (exponent x - 52) = of_int m" by (simp add: zero_less_power_int field_simps)
  then show ?thesis using \<open>x = of_int m * _\<close> by (simp add: float64_pos [OF x])
qed (use assms in simp)

lemma float64_int: "0 \<le> n \<Longrightarrow> n < 2 ^ 53 \<Longrightarrow> float64 (of_int n) = of_int n"
  by (rule float64_exact [of n _ 0]) simp_all

text \<open>The conversion to \<open>int64\<close> truncates; what does not fit becomes the smallest integer.\<close>

definition int64_of_float :: "rat \<Rightarrow> int" where
  "int64_of_float x = (let t = (if x < 0 then - \<lfloor>- x\<rfloor> else \<lfloor>x\<rfloor>) in if fits_i64 t then t else -9223372036854775808)"

text \<open>\<open>Duration.Seconds\<close>\<close>

definition duration_seconds :: "int \<Rightarrow> rat" where
  "duration_seconds d = float64 (float64 (of_int (go_div d 1000000000)) + float64 (of_int (go_mod d 1000000000) / 1000000000))"

end
