(* ===== verification/Readers.thy ===== *)
theory Readers
  imports Mem_Piece Go_Time
begin

text \<open>
  Readers of a torrent file (torrstor/reader.go): their position and readahead, the demotion of idle
  ones and the piece window that each active one retains in the cache.

  A reader operation runs under the mutex of the reader; it is a function on the reader \<open>r\<close>, known to the
  torrent library by the identifier \<open>rid\<close>, and the world. What the library's own reader
  returns from a seek or a read is an argument. \<open>now\<close> is the clock in nanoseconds.
\<close>

section \<open>Time\<close>

definition readerIdleDuration :: "int \<Rightarrow> int \<Rightarrow> int" where
  "readerIdleDuration now lastAccessUnix =
     (if lastAccessUnix \<le> 0 then 0
      else let idle = time_sub now (lastAccessUnix * 1000000000) in if idle \<le> 0 then 0 else idle)"

section \<open>Activation\<close>

definition lib :: "lib_call \<Rightarrow> world \<Rightarrow> world" where
  "lib call w = w\<lparr>w_lib := w_lib w @ [call]\<rparr>"

text \<open>\<open>atStart\<close>: the probing seek of the library's reader succeeded and returned position 0.\<close>

definition readerOnLocked :: "int \<Rightarrow> bool \<Rightarrow> nat \<Rightarrow> reader \<times> world \<Rightarrow> reader \<times> world" where
  "readerOnLocked now atStart rid rw =
     (let (r, w) = rw in
      if rd_isUse r then (r, w)
      else let idle = readerIdleDuration now (rd_lastAccess r);
               w = (if atStart then lib (LibReaderSeekStart rid (rd_offset r)) w else w);
               w = lib (LibReaderSetReadahead rid (rd_readahead r)) w;
               w = addActiveReaders 1 w
           in (r\<lparr>rd_isUse := True\<rparr>, recordReaderReactivation idle w))"

definition readerOffLocked :: "int \<Rightarrow> nat \<Rightarrow> reader \<times> world \<Rightarrow> reader \<times> world" where
  "readerOffLocked now rid rw =
     (let (r, w) = rw in
      if rd_isUse r
      then let idle = readerIdleDuration now (rd_lastAccess r);
               w = lib (LibReaderSetReadahead rid 0) w;
               w = addActiveReaders (-1) w;
               w = recordReaderIdleDemotion idle w;
               w = (if rd_offset r > 0 then lib (LibReaderSeekStart rid 0) w else w)
           in (r\<lparr>rd_isUse := False\<rparr>, w)
      else (r, w))"

definition checkReader :: "int \<Rightarrow> bool \<Rightarrow> int \<Rightarrow> nat \<Rightarrow> reader \<times> world \<Rightarrow> reader \<times> world" where
  "checkReader now atStart totalReaders rid rw =
     (let (r, w) = rw in
      if rd_isClosed r then (r, w)
      else if readerIdleDuration now (rd_lastAccess r) > readerIdleDemotionThreshold \<and> totalReaders > 1
           then readerOffLocked now rid (r, w)
           else readerOnLocked now atStart rid (r, w))"

section \<open>The methods of a reader\<close>

text \<open>
  The results of the library are \<open>(n, err)\<close> with \<open>err\<close> an error or not; the methods return them with
  the same error flag, and \<open>io.EOF\<close> as \<open>True\<close> on a closed reader.
\<close>

definition newReader :: "int \<Rightarrow> tfile \<Rightarrow> nat \<Rightarrow> world \<Rightarrow> world outcome" where
  "newReader now file rid w =
     (let r = \<lparr>rd_offset = 0, rd_readahead = 0, rd_created = now, rd_file = Some file, rd_isClosed = False,
               rd_lastAccess = unix now, rd_isUse = True\<rparr>;
          w = addActiveReaders 1 w
      in case c_readers (w_cache w) of
           None \<Rightarrow> Panic
         | Some m \<Rightarrow> Done (upd_cache (\<lambda>c. c\<lparr>c_readers := Some (m(rid \<mapsto> r))\<rparr>) w))"

definition Reader_Seek ::
    "int \<Rightarrow> bool \<Rightarrow> int \<times> bool \<Rightarrow> nat \<Rightarrow> reader \<times> world \<Rightarrow> (int \<times> bool) \<times> reader \<times> world" where
  "Reader_Seek now atStart libres rid rw =
     (if rd_isClosed (fst rw) then ((0, True), rw)
      else let (r, w) = readerOnLocked now atStart rid rw
           in (libres, r\<lparr>rd_offset := fst libres, rd_lastAccess := unix now\<rparr>, w))"

text \<open>\<open>attached\<close>: the file still has its torrent and the torrent its metadata.\<close>

definition Reader_Read ::
    "int \<Rightarrow> bool \<Rightarrow> bool \<Rightarrow> int \<times> bool \<Rightarrow> nat \<Rightarrow> reader \<times> world \<Rightarrow> (int \<times> bool) \<times> reader \<times> world" where
  "Reader_Read now attached atStart libres rid rw =
     (if rd_isClosed (fst rw) then ((0, True), rw)
      else if attached then
        let (r, w) = readerOnLocked now atStart rid rw
        in (libres, r\<lparr>rd_offset := i64 (rd_offset r + fst libres), rd_lastAccess := unix now\<rparr>, w)
      else ((0, True), rw))"

definition clampReadahead :: "cache \<Rightarrow> int \<Rightarrow> int" where
  "clampReadahead c len = (if len > GetCapacity (Some c) then GetCapacity (Some c) else len)"

definition Reader_SetReadahead :: "int \<Rightarrow> nat \<Rightarrow> reader \<times> world \<Rightarrow> reader \<times> world" where
  "Reader_SetReadahead len rid rw =
     (let (r, w) = rw; len = clampReadahead (w_cache w) len in
      if rd_readahead r = len then (r, w)
      else (r\<lparr>rd_readahead := len\<rparr>,
            if rd_isUse r then lib (LibReaderSetReadahead rid len) w else w))"

definition Reader_SetIdle :: "int \<Rightarrow> nat \<Rightarrow> reader \<times> world \<Rightarrow> reader \<times> world" where
  "Reader_SetIdle now rid rw = (if rd_isClosed (fst rw) then rw else readerOffLocked now rid rw)"

text \<open>\<open>hasFiles\<close>: the torrent of the file still lists files.\<close>

definition Reader_Close :: "int \<Rightarrow> bool \<Rightarrow> nat \<Rightarrow> reader \<times> world \<Rightarrow> reader \<times> world" where
  "Reader_Close now hasFiles rid rw =
     (let (r, w) = rw in
      if rd_isClosed r then (r, w)
      else let w = (if rd_isUse r then addActiveReaders (-1) w else w);
               w = (if hasFiles then lib (LibReaderClose rid) w else w)
           in (r\<lparr>rd_isClosed := True, rd_isUse := False\<rparr>, queueCleanPieces now w))"

section \<open>The retained window\<close>

definition getPieceNum :: "cache \<Rightarrow> reader \<Rightarrow> int \<Rightarrow> int" where
  "getPieceNum c r offset =
     (if c_pieceLength c \<le> 0 then 0
      else case rd_file r of
        None \<Rightarrow> go_div offset (c_pieceLength c)
      | Some f \<Rightarrow> go_div (i64 (offset + tf_Offset f)) (c_pieceLength c))"

definition getReaderPiece :: "cache \<Rightarrow> reader \<Rightarrow> int" where
  "getReaderPiece c r = getPieceNum c r (rd_offset r)"

definition getReaderRAHPiece :: "cache \<Rightarrow> reader \<Rightarrow> int" where
  "getReaderRAHPiece c r = getPieceNum c r (i64 (rd_offset r + rd_readahead r))"

definition effectiveRetentionReadahead :: "reader \<Rightarrow> int \<Rightarrow> int \<times> bool" where
  "effectiveRetentionReadahead r capacity =
     (let readahead = rd_readahead r in
      if readahead \<le> 0 then (0, False)
      else if capacity \<le> 0 \<or> readahead \<le> capacity then (readahead, False)
      else (capacity, True))"

definition getOffsetRangeForReaders :: "int \<Rightarrow> reader \<Rightarrow> world \<Rightarrow> (int \<times> int) \<times> world" where
  "getOffsetRangeForReaders activeReaders r w =
     (let c = w_cache w;
          prc = pc_ReadAheadPct (currentPlaybackConfig c);
          prc = (if prc \<le> 0 \<or> prc > 100 then 95 else prc);
          offset = rd_offset r;
          readers = (if activeReaders = 0 then 1 else activeReaders);
          capacity = GetCapacity (Some c);
          perReaderWindow = go_div capacity readers;
          backwardWindow = go_div (i64 (perReaderWindow * (100 - prc))) 100;
          forwardWindow = go_div (i64 (perReaderWindow * prc)) 100;
          (effectiveReadahead, readaheadClamped) = effectiveRetentionReadahead r capacity;
          readaheadExpanded = effectiveReadahead > forwardWindow;
          forwardWindow = (if readaheadExpanded then effectiveReadahead else forwardWindow);
          w = recordRetentionWindowAdjustment readaheadExpanded readaheadClamped w;
          beginOffset = i64 (offset - backwardWindow);
          endOffset = i64 (offset + forwardWindow);
          beginOffset = (if beginOffset < 0 then 0 else beginOffset);
          endOffset = (case rd_file r of
                         None \<Rightarrow> endOffset
                       | Some f \<Rightarrow> if endOffset > tf_Length f then tf_Length f else endOffset)
      in ((beginOffset, endOffset), w))"

definition getPiecesRangeForReaders :: "int \<Rightarrow> reader \<Rightarrow> world \<Rightarrow> Range \<times> world" where
  "getPiecesRangeForReaders activeReaders r w =
     (let ((startOff, endOff), w) = getOffsetRangeForReaders activeReaders r w; c = w_cache w
      in (\<lparr>rStart = getPieceNum c r startOff, rEnd = getPieceNum c r endOff, rFile = rd_file r\<rparr>, w))"


section \<open>Frames\<close>

lemma lib_frame [simp]:
  "w_cache (lib x w) = w_cache w" "w_stats (lib x w) = w_stats w" "w_pool (lib x w) = w_pool w"
  "w_tasks (lib x w) = w_tasks w" "w_lib (lib x w) = w_lib w @ [x]"
  by (simp_all add: lib_def)

lemma core_lib [simp]: "core (lib x w) = core w"
  by (simp add: core_def Let_def)

lemma core_readerOn: "core (snd (readerOnLocked t a rid (r, w))) = core w"
  by (simp add: readerOnLocked_def Let_def)

lemma core_readerOff: "core (snd (readerOffLocked t rid (r, w))) = core w"
  by (simp add: readerOffLocked_def Let_def)

lemma core_checkReader [simp]: "core (snd (checkReader t a n rid (r, w))) = core w"
  by (simp add: checkReader_def core_readerOn core_readerOff)

lemma checkReader_readers [simp]:
  "c_readers (w_cache (snd (checkReader t a n rid (r, w)))) = c_readers (w_cache w)"
  by (simp add: checkReader_def readerOnLocked_def readerOffLocked_def Let_def)

lemma range_world: "\<exists>x y. snd (getOffsetRangeForReaders n r w) = recordRetentionWindowAdjustment x y w"
  unfolding getOffsetRangeForReaders_def Let_def split_beta snd_conv by (intro exI) (rule refl)

lemma pieces_range_world:
  "\<exists>x y. snd (getPiecesRangeForReaders n r w) = recordRetentionWindowAdjustment x y w"
  using range_world [of n r w]
  by (cases "getOffsetRangeForReaders n r w") (simp add: getPiecesRangeForReaders_def Let_def split: prod.split)

lemma core_pieces_range [simp]: "core (snd (getPiecesRangeForReaders n r w)) = core w"
  using pieces_range_world [of n r w] by auto

lemma pieces_range_readers [simp]:
  "c_readers (w_cache (snd (getPiecesRangeForReaders n r w))) = c_readers (w_cache w)"
  using pieces_range_world [of n r w] by auto

section \<open>The window contains the position\<close>

definition reader_ok :: "cache \<Rightarrow> reader \<Rightarrow> bool" where
  "reader_ok c r \<longleftrightarrow> 0 < c_pieceLength c \<and> 0 \<le> c_capacity c \<and> c_capacity c < 2 ^ 56 \<and>
     rd_readahead r < 2 ^ 61 \<and>
     (\<exists>f. rd_file r = Some f \<and> 0 \<le> rd_offset r \<and> rd_offset r \<le> tf_Length f \<and>
          0 \<le> tf_Offset f \<and> tf_Offset f < 2 ^ 61 \<and> tf_Length f < 2 ^ 61)"

lemma offset_range:
  assumes "reader_ok (w_cache w) r" "0 \<le> n" "rd_file r = Some f"
    "((b, e), w') = getOffsetRangeForReaders n r w"
  shows "0 \<le> b" "b \<le> rd_offset r" "rd_offset r \<le> e" "e \<le> tf_Length f"
proof -
  define prc where "prc = (let p = pc_ReadAheadPct (currentPlaybackConfig (w_cache w)) in if p \<le> 0 \<or> p > 100 then 95 else p)"
  define per where "per = go_div (c_capacity (w_cache w)) (if n = 0 then 1 else n)"
  have cap: "0 \<le> c_capacity (w_cache w)" "c_capacity (w_cache w) < 2 ^ 56"
    using assms(1) by (auto simp: reader_ok_def)
  have prc: "0 < prc" "prc \<le> 100" by (auto simp: prc_def Let_def)
  have per: "0 \<le> per" "per \<le> c_capacity (w_cache w)"
    unfolding per_def using cap(1) assms(2) by (auto intro!: go_div_nonneg go_div_le_self)
  have part: "0 \<le> go_div (i64 (per * q)) 100 \<and> go_div (i64 (per * q)) 100 \<le> 2 ^ 61"
    if "0 \<le> q" "q \<le> 100" for q
  proof -
    have nonneg: "0 \<le> per * q" using per(1) that(1) by simp
    have le: "per * q \<le> 2 ^ 56 * 100"
      using per cap that by (intro mult_mono) auto
    from nonneg le have "i64 (per * q) = per * q" by (intro i64_id) (simp add: fits_i64_def)
    with nonneg le show ?thesis
      using go_div_mono [of "per * q" "2 ^ 56 * 100" 100] go_div_nonneg [of "per * q" 100]
      by (simp add: go_div_pos)
  qed
  have bwd: "0 \<le> go_div (i64 (per * (100 - prc))) 100" "go_div (i64 (per * (100 - prc))) 100 \<le> 2 ^ 61"
    and fwd: "0 \<le> go_div (i64 (per * prc)) 100" "go_div (i64 (per * prc)) 100 \<le> 2 ^ 61"
    using part [of "100 - prc"] part [of prc] prc by auto
  define eff where "eff = fst (effectiveRetentionReadahead r (c_capacity (w_cache w)))"
  define fw where "fw = (if eff > go_div (i64 (per * prc)) 100 then eff else go_div (i64 (per * prc)) 100)"
  have "eff \<le> 2 ^ 61" using assms(1) cap by (auto simp: eff_def effectiveRetentionReadahead_def Let_def reader_ok_def)
  then have fw: "0 \<le> fw" "fw \<le> 2 ^ 61" using fwd by (auto simp: fw_def)
  have pos: "0 \<le> rd_offset r" "rd_offset r \<le> tf_Length f" "tf_Length f < 2 ^ 61"
    using assms(1,3) by (auto simp: reader_ok_def)
  have "i64 (rd_offset r - go_div (i64 (per * (100 - prc))) 100) = rd_offset r - go_div (i64 (per * (100 - prc))) 100"
    using pos bwd by (intro i64_id) (simp add: fits_i64_def)
  moreover have "i64 (rd_offset r + fw) = rd_offset r + fw"
    using pos fw by (intro i64_id) (simp add: fits_i64_def)
  moreover have "b = max 0 (i64 (rd_offset r - go_div (i64 (per * (100 - prc))) 100))"
    "e = min (tf_Length f) (i64 (rd_offset r + fw))"
    using assms(3,4) by (simp_all add: getOffsetRangeForReaders_def Let_def GetCapacity_def per_def prc_def
        eff_def fw_def max_def min_def split: prod.splits)
  ultimately show "0 \<le> b" "b \<le> rd_offset r" "rd_offset r \<le> e" "e \<le> tf_Length f"
    using pos bwd fw by auto
qed

lemma getPieceNum_mono:
  assumes "a \<le> b" "0 \<le> a" "b < 2 ^ 62" "rd_file r = Some f" "0 \<le> tf_Offset f" "tf_Offset f < 2 ^ 61"
  shows "getPieceNum c r a \<le> getPieceNum c r b"
proof -
  have "i64 (a + tf_Offset f) = a + tf_Offset f" "i64 (b + tf_Offset f) = b + tf_Offset f"
    using assms by (auto intro!: i64_id simp: fits_i64_def)
  then show ?thesis using assms(1,4) by (simp add: getPieceNum_def go_div_mono)
qed

lemma getPieceNum_cong: "c_pieceLength c = c_pieceLength d \<Longrightarrow> getPieceNum c r x = getPieceNum d r x"
  by (simp add: getPieceNum_def cong: option.case_cong)

lemma window_contains_position:
  assumes "reader_ok (w_cache w) r" "0 \<le> n"
  shows "covers (fst (getPiecesRangeForReaders n r w)) (getReaderPiece (w_cache w) r)"
proof -
  obtain f where f: "rd_file r = Some f" "tf_Length f < 2 ^ 61" "0 \<le> tf_Offset f" "tf_Offset f < 2 ^ 61"
    using assms(1) by (auto simp: reader_ok_def)
  obtain b e w' where g: "getOffsetRangeForReaders n r w = ((b, e), w')" by (metis prod.exhaust)
  note range = offset_range [OF assms f(1) g [symmetric]]
  have "c_pieceLength (w_cache w') = c_pieceLength (w_cache w)"
    using range_world [of n r w] g by auto
  then have cong: "getPieceNum (w_cache w') r x = getPieceNum (w_cache w) r x" for x
    by (rule getPieceNum_cong)
  have "getPieceNum (w_cache w) r b \<le> getPieceNum (w_cache w) r (rd_offset r)"
    "getPieceNum (w_cache w) r (rd_offset r) \<le> getPieceNum (w_cache w) r e"
    using range f by (auto intro!: getPieceNum_mono)
  then show ?thesis by (simp add: covers_def getPiecesRangeForReaders_def g cong getReaderPiece_def)
qed

section \<open>Properties\<close>

text \<open>
  Property C13. The window of an active reader contains the piece it is reading, whatever the
  capacity, the number of readers, the readahead and the percentages are: with a position inside the
  file and sizes below 2 to the 56, the range that the cleanup spares and the priorities cover
  starts at or before the piece at the position and ends at or after it.
\<close>

theorem reader_window_contains_position:
  assumes "reader_ok (w_cache w) r" "0 \<le> activeReaders"
  shows "inRanges [fst (getPiecesRangeForReaders activeReaders r w)] (getReaderPiece (w_cache w) r)"
  using window_contains_position [OF assms] by (simp add: covers_def)

definition demo_reader :: reader where
  "demo_reader = \<lparr>rd_offset = 7, rd_readahead = 30, rd_created = 0,
     rd_file = Some \<lparr>tf_Offset = 3, tf_Length = 20\<rparr>, rd_isClosed = False, rd_lastAccess = 0, rd_isUse = True\<rparr>"

theorem reader_window_contains_position_witness:
  "inRanges [fst (getPiecesRangeForReaders 2 demo_reader small_world)] 2"
proof -
  have "reader_ok (w_cache small_world) demo_reader"
    by (simp add: reader_ok_def small_world_def demo_reader_def NewCache_def)
  moreover have "getReaderPiece (w_cache small_world) demo_reader = 2"
    by (simp add: getReaderPiece_def getPieceNum_def small_world_def demo_reader_def i64_id fits_i64_def go_div_pos)
  ultimately show ?thesis using reader_window_contains_position [of small_world demo_reader 2] by simp
qed

end
