(* ===== verification/Cleanup.thy ===== *)
theory Cleanup
  imports Readers
begin

text \<open>
  Releasing pieces and the cleanup of a cache (torrstor/piece.go and diskpiece.go: the release;
  torrstor/cache_priority.go: the windows of the active readers; torrstor/cache_cleanup.go).

  A Go map is iterated in an arbitrary order: the orders in which the readers and the resident
  pieces are visited are arguments, and so are the state of the torrent library (the priority
  of a piece) and the clock. \<open>sort.Slice\<close> is not stable; as the order of the pieces before
  sorting is arbitrary, a stable sort of an arbitrary order covers all its results.
\<close>

section \<open>Releasing a piece\<close>

definition useDisk :: "world \<Rightarrow> bool" where
  "useDisk w = cc_UseDisk (currentCacheConfig (w_cache w))"

definition DiskPiece_Release :: "int \<Rightarrow> world \<Rightarrow> world" where
  "DiskPiece_Release pid w =
     (case cache_piece pid w of
        None \<Rightarrow> w
      | Some p \<Rightarrow>
          let prev = pc_Size p;
              w = upd_piece pid (\<lambda>p. p\<lparr>pc_Size := 0\<rparr>) w;
              w = addFilled (- prev) w;
              w = (if prev > 0 then unmarkResidentPiece pid w else w);
              w = upd_piece pid (\<lambda>p. p\<lparr>pc_Complete := False\<rparr>) w
          in lib (FsRemovePiece pid) w)"

definition syncTorrentPieceAfterRelease :: "(int \<Rightarrow> piece_priority) \<Rightarrow> int \<Rightarrow> bool \<Rightarrow> world \<Rightarrow> world" where
  "syncTorrentPieceAfterRelease prio pid wasComplete w =
     (if \<not> c_torrent (w_cache w) then w
      else let w = untrackPriorityPiece pid w;
               w = (if prio pid \<noteq> PiecePriorityNone then lib (LibSetPriority pid PiecePriorityNone) w else w)
           in if wasComplete then lib (LibUpdateCompletion pid) w else w)"

text \<open>
  The dispatch asks the live settings, not the piece: when they no longer match the kind of piece
  that was made, the method is called on a nil pointer and the mutex of nil panics.
\<close>

definition Piece_Release :: "(int \<Rightarrow> piece_priority) \<Rightarrow> int \<Rightarrow> world \<Rightarrow> world outcome" where
  "Piece_Release prio pid w =
     (case cache_piece pid w of
        None \<Rightarrow> Panic
      | Some p \<Rightarrow>
          let wasComplete = pc_Complete p in
          if useDisk w \<noteq> pc_disk p then Panic
          else let w = (if useDisk w then DiskPiece_Release pid w else MemPiece_Release pid w)
               in Done (syncTorrentPieceAfterRelease prio pid wasComplete w))"

text \<open>
  What a cleanup pass reads from outside the cache: the clock, whether the library's readers are
  at their start, the orders of the two maps and the piece priorities. \<open>ce_held\<close> are the pieces
  whose mutex is not let go during the pass: the goroutine that runs the pass holds it already (a Go mutex is not
  reentrant), or another one that waits for the cleanup does. Releasing one of them never returns.
\<close>

record clean_env =
  ce_now :: int
  ce_atStart :: "nat \<Rightarrow> bool"
  ce_readers :: "nat list"
  ce_pieces :: "int list"
  ce_prio :: "int \<Rightarrow> piece_priority"
  ce_held :: "int set"

definition removePiece :: "clean_env \<Rightarrow> int \<Rightarrow> world \<Rightarrow> world outcome" where
  "removePiece env pid w =
     (if c_isClosed (w_cache w) then Done w
      else if pid \<in> ce_held env then NoFuel
      else Piece_Release (ce_prio env) pid w)"

section \<open>Active readers\<close>

record activeReaderSnapshot =
  ars_readerPos :: int
  ars_readerRAHPos :: int
  ars_piecesRange :: Range

definition reader_at :: "world \<Rightarrow> nat \<Rightarrow> reader option" where
  "reader_at w rid = (case c_readers (w_cache w) of None \<Rightarrow> None | Some m \<Rightarrow> m rid)"

definition set_reader :: "nat \<Rightarrow> reader \<Rightarrow> world \<Rightarrow> world" where
  "set_reader rid r w = upd_cache (\<lambda>c. c\<lparr>c_readers := map_option (\<lambda>m. m(rid \<mapsto> r)) (c_readers c)\<rparr>) w"

definition copyReaders :: "nat list \<Rightarrow> world \<Rightarrow> nat list" where
  "copyReaders ord w = filter (\<lambda>rid. reader_at w rid \<noteq> None) ord"

definition check_at :: "int \<Rightarrow> (nat \<Rightarrow> bool) \<Rightarrow> int \<Rightarrow> world \<Rightarrow> nat \<Rightarrow> world" where
  "check_at now atStart totalReaders w rid =
     (case reader_at w rid of
        None \<Rightarrow> w
      | Some r \<Rightarrow> let (r, w) = checkReader now (atStart rid) totalReaders rid (r, w) in set_reader rid r w)"

definition reader_active :: "world \<Rightarrow> nat \<Rightarrow> bool" where
  "reader_active w rid = (case reader_at w rid of None \<Rightarrow> False | Some r \<Rightarrow> rd_isUse r)"

definition snapshot_reader :: "int \<Rightarrow> activeReaderSnapshot list \<times> world \<Rightarrow> nat \<Rightarrow> activeReaderSnapshot list \<times> world" where
  "snapshot_reader activeReaders sw rid =
     (let (snapshots, w) = sw in
      case reader_at w rid of
        None \<Rightarrow> (snapshots, w)
      | Some r \<Rightarrow>
          if \<not> rd_isUse r then (snapshots, w)
          else let (rng, w') = getPiecesRangeForReaders activeReaders r w
               in (snapshots @ [\<lparr>ars_readerPos = getReaderPiece (w_cache w) r,
                                 ars_readerRAHPos = getReaderRAHPiece (w_cache w) r,
                                 ars_piecesRange = rng\<rparr>], w'))"

definition snapshotActiveReaders ::
    "int \<Rightarrow> (nat \<Rightarrow> bool) \<Rightarrow> nat list \<Rightarrow> bool \<Rightarrow> world \<Rightarrow> activeReaderSnapshot list \<times> world" where
  "snapshotActiveReaders now atStart ord refreshActivity w =
     (let readers = copyReaders ord w in
      if readers = [] then ([], w)
      else let totalReaders = int (length readers);
               w = (if refreshActivity then foldl (check_at now atStart totalReaders) w readers else w);
               activeReaders = int (length (filter (reader_active w) readers))
           in if activeReaders = 0 then ([], w)
              else foldl (snapshot_reader activeReaders) ([], w) readers)"

definition activeReaderRanges :: "activeReaderSnapshot list \<Rightarrow> Range list" where
  "activeReaderRanges readers = (if readers = [] then [] else mergeRange (map ars_piecesRange readers))"

definition getActiveReaderRanges ::
    "int \<Rightarrow> (nat \<Rightarrow> bool) \<Rightarrow> nat list \<Rightarrow> world \<Rightarrow> Range list \<times> world" where
  "getActiveReaderRanges now atStart ord w =
     (let (readers, w) = snapshotActiveReaders now atStart ord True w
      in (if readers = [] then [] else activeReaderRanges readers, w))"

section \<open>The cleanup\<close>

definition isIDInFileBEFast :: "int \<Rightarrow> Range list \<Rightarrow> int \<Rightarrow> bool" where
  "isIDInFileBEFast pieceLength ranges pid =
     (let fileRangeNotDelete = max pieceLength (8 * 1024 * 1024) in
      list_ex (\<lambda>rng. case rFile rng of
          None \<Rightarrow> False
        | Some f \<Rightarrow>
            let ss = go_div (tf_Offset f) pieceLength;
                se = go_div (i64 (tf_Offset f + fileRangeNotDelete)) pieceLength;
                es = go_div (i64 (tf_Offset f + tf_Length f - fileRangeNotDelete)) pieceLength;
                ee = go_div (i64 (tf_Offset f + tf_Length f)) pieceLength
            in pid \<ge> ss \<and> pid < se \<or> pid > es \<and> pid \<le> ee) ranges)"

definition copyResidentPieces :: "int list \<Rightarrow> world \<Rightarrow> int list" where
  "copyResidentPieces pord w =
     (case c_resident (w_cache w) of None \<Rightarrow> [] | Some items \<Rightarrow> filter (\<lambda>pid. pid \<in> items) pord)"

definition piece_size :: "world \<Rightarrow> int \<Rightarrow> int" where
  "piece_size w pid = (case cache_piece pid w of None \<Rightarrow> 0 | Some p \<Rightarrow> pc_Size p)"

definition piece_accessed :: "world \<Rightarrow> int \<Rightarrow> int" where
  "piece_accessed w pid = (case cache_piece pid w of None \<Rightarrow> 0 | Some p \<Rightarrow> pc_Accessed p)"

definition removableResidentPieces :: "world \<Rightarrow> int list \<Rightarrow> Range list \<Rightarrow> int list" where
  "removableResidentPieces w residentPieces ranges =
     filter (\<lambda>pid. piece_size w pid \<noteq> 0 \<and> \<not> inRanges ranges pid
       \<and> \<not> isIDInFileBEFast (c_pieceLength (w_cache w)) ranges pid) residentPieces"

definition getRemPieces :: "clean_env \<Rightarrow> world \<Rightarrow> int list \<times> world" where
  "getRemPieces env w =
     (let (ranges, w) = getActiveReaderRanges (ce_now env) (ce_atStart env) (ce_readers env) w;
          residentPieces = copyResidentPieces (ce_pieces env) w
      in (removableResidentPieces w residentPieces ranges, w))"

primrec remove_loop :: "clean_env \<Rightarrow> int list \<Rightarrow> int \<Rightarrow> world \<Rightarrow> world outcome" where
  "remove_loop env [] rems w = Done w"
| "remove_loop env (pid # pids) rems w =
     bind_outcome (removePiece env pid w)
       (\<lambda>w. let rems = rems - 1 in if rems \<le> 0 then Done w else remove_loop env pids rems w)"

text \<open>
  With a zero piece length the pass panics, in the division of \<open>isIDInFileBEFast\<close> or in the one of the
  pass itself; the model tests it once.
\<close>

definition cleanPiecesPass :: "clean_env \<Rightarrow> world \<Rightarrow> (bool \<times> world) outcome" where
  "cleanPiecesPass env w =
     (let curCapacity = GetCapacity (Some (w_cache w)); filledNow = c_filled (w_cache w) in
      if filledNow \<le> curCapacity then Done (False, w)
      else if c_pieceLength (w_cache w) = 0 then Panic
      else let w = recordCleanupRun w;
               (remPieces, w) = getRemPieces env w;
               rems = go_div (i64 (filledNow - curCapacity)) (c_pieceLength (w_cache w)) + 1
           in bind_outcome (remove_loop env (sort_key (piece_accessed w) remPieces) rems w)
                (\<lambda>w. let cleanedBytes = i64 (filledNow - c_filled (w_cache w))
                     in Done (cleanedBytes > 0, recordCleanedBytes cleanedBytes w)))"

definition upd_cleanup :: "(cleanup_state \<Rightarrow> cleanup_state) \<Rightarrow> world \<Rightarrow> world" where
  "upd_cleanup f w = upd_cache (\<lambda>c. c\<lparr>c_cleanup := f (c_cleanup c)\<rparr>) w"

text \<open>
  The steps of a call of \<open>CleanPieces\<close>: the test without the lock (\<open>clean_enter\<close>), the first critical section
  (\<open>clean_lock\<close>), which makes the caller the cleaner or has it wait, the second one after a pass (\<open>clean_check\<close>), and
  what a caller that waits for the condition does when it is woken up (\<open>clean_wait\<close>). \<open>Passed b\<close> is the place between a
  pass, with its result, and the critical section.
\<close>

datatype clean_pc = Entered | Waiting | Cleaning | Passed bool | Returned

definition clean_enter :: "world \<Rightarrow> clean_pc" where
  "clean_enter w = (if c_isClosed (w_cache w) \<or> \<not> needsCleanup (w_cache w) then Returned else Entered)"

definition clean_lock :: "world \<Rightarrow> clean_pc \<times> world" where
  "clean_lock w =
     (if cl_running (c_cleanup (w_cache w)) then (Waiting, upd_cleanup (\<lambda>s. s\<lparr>cl_pending := True\<rparr>) w)
      else (Cleaning, upd_cleanup (\<lambda>s. s\<lparr>cl_running := True, cl_pending := False\<rparr>) w))"

definition clean_check :: "bool \<Rightarrow> world \<Rightarrow> clean_pc \<times> world" where
  "clean_check madeProgress w =
     (if madeProgress \<and> cl_pending (c_cleanup (w_cache w)) \<and> needsCleanup (w_cache w)
      then (Cleaning, upd_cleanup (\<lambda>s. s\<lparr>cl_pending := False\<rparr>) w)
      else (Returned, upd_cleanup (\<lambda>s. s\<lparr>cl_running := False, cl_pending := False\<rparr>) w))"

definition clean_wait :: "world \<Rightarrow> clean_pc" where
  "clean_wait w = (if cl_running (c_cleanup (w_cache w)) \<and> \<not> c_isClosed (w_cache w) then Waiting else Returned)"

text \<open>
  The call of a goroutine in one piece: the loop of the cleaner, in which each round has its environment and whether
  another goroutine asked for one more pass meanwhile; the list bounds the number of rounds. A caller that finds a cleanup
  running waits; what ends the wait is a step of another goroutine, so that the call in one piece never returns. The
  interleaving of the steps of all callers is in the theory Cleanup_Runs.
\<close>

primrec clean_loop :: "(clean_env \<times> bool) list \<Rightarrow> world \<Rightarrow> world outcome" where
  "clean_loop [] w = NoFuel"
| "clean_loop (rnd # rounds) w =
     bind_outcome (cleanPiecesPass (fst rnd) w)
       (\<lambda>(madeProgress, w).
         let w = (if snd rnd then upd_cleanup (\<lambda>s. s\<lparr>cl_pending := True\<rparr>) w else w); (pc, w) = clean_check madeProgress w
         in if pc = Cleaning then clean_loop rounds w else Done w)"

definition CleanPieces :: "(clean_env \<times> bool) list \<Rightarrow> world \<Rightarrow> world outcome" where
  "CleanPieces rounds w =
     (if clean_enter w = Returned then Done w
      else let (pc, w) = clean_lock w in if pc = Cleaning then clean_loop rounds w else NoFuel)"

lemma clean_loop_Cons:
  "clean_loop (rnd # rounds) w =
     bind_outcome (cleanPiecesPass (fst rnd) w)
       (\<lambda>(madeProgress, w).
         let w = (if snd rnd then upd_cleanup (\<lambda>s. s\<lparr>cl_pending := True\<rparr>) w else w) in
         if madeProgress \<and> cl_pending (c_cleanup (w_cache w)) \<and> needsCleanup (w_cache w)
         then clean_loop rounds (upd_cleanup (\<lambda>s. s\<lparr>cl_pending := False\<rparr>) w)
         else Done (upd_cleanup (\<lambda>s. s\<lparr>cl_running := False, cl_pending := False\<rparr>) w))"
  by (cases "cleanPiecesPass (fst rnd) w") (auto simp: clean_check_def Let_def)

declare clean_loop.simps(2) [simp del] clean_loop_Cons [simp]

lemma CleanPieces_alt:
  "CleanPieces rounds w =
     (if c_isClosed (w_cache w) \<or> \<not> needsCleanup (w_cache w) then Done w
      else if cl_running (c_cleanup (w_cache w)) then NoFuel
      else clean_loop rounds (upd_cleanup (\<lambda>s. s\<lparr>cl_running := True, cl_pending := False\<rparr>) w))"
  by (simp add: CleanPieces_def clean_enter_def clean_lock_def)

lemma upd_cleanup_simps [simp]:
  "core (upd_cleanup f w) = core w" "c_cleanup (w_cache (upd_cleanup f w)) = f (c_cleanup (w_cache w))"
  "c_filled (w_cache (upd_cleanup f w)) = c_filled (w_cache w)"
  "c_capacity (w_cache (upd_cleanup f w)) = c_capacity (w_cache w)"
  "c_isClosed (w_cache (upd_cleanup f w)) = c_isClosed (w_cache w)"
  "cache_piece pid (upd_cleanup f w) = cache_piece pid w"
  "needsCleanup (w_cache (upd_cleanup f w)) = needsCleanup (w_cache w)"
  by (simp_all add: upd_cleanup_def core_def Let_def cache_piece_def needsCleanup_def GetCapacity_def)

end
