(* ===== verification/Cache_Accounting.thy ===== *)
theory Cache_Accounting
  imports Cleanup
begin

text \<open>
  The accounting of a cache: the filled bytes, the resident set and the chunk counter always equal
  what the pieces hold. Every operation on a piece and every cleanup pass keeps this.
\<close>

section \<open>The invariant\<close>

definition p_bytes :: "piece \<Rightarrow> nat" where
  "p_bytes p = (case pc_chunks p of None \<Rightarrow> 0 | Some cs \<Rightarrow> chunk_bytes cs)"

definition p_count :: "piece \<Rightarrow> nat" where
  "p_count p = (case pc_chunks p of None \<Rightarrow> 0 | Some cs \<Rightarrow> chunk_count cs)"

definition piece_wf :: "nat \<Rightarrow> piece \<Rightarrow> bool" where
  "piece_wf P p \<longleftrightarrow> 0 \<le> pc_Size p \<and> pc_Size p \<le> int P \<and>
     (if pc_disk p then pc_chunks p = None
      else (\<forall>cs. pc_chunks p = Some cs \<longrightarrow> wf_chunks P cs) \<and> pc_Size p = int (p_bytes p))"

definition piece_total :: "(piece \<Rightarrow> int) \<Rightarrow> (int \<rightharpoonup> piece) \<Rightarrow> int" where
  "piece_total f m = (\<Sum>pid \<in> dom m. f (the (m pid)))"

definition resident_of :: "(int \<rightharpoonup> piece) \<Rightarrow> int set" where
  "resident_of m = {pid. \<exists>p. m pid = Some p \<and> pc_Size p > 0}"

definition accounted :: "nat \<Rightarrow> world \<Rightarrow> bool" where
  "accounted P w \<longleftrightarrow>
     c_pieceLength (w_cache w) = int P \<and> 0 < P \<and> pool_ok (w_pool w) \<and>
     (\<exists>m. c_pieces (w_cache w) = Some m \<and> finite (dom m) \<and> card (dom m) * P \<le> max_piece \<and>
        (\<forall>pid p. m pid = Some p \<longrightarrow> piece_wf P p) \<and>
        c_resident (w_cache w) = Some (resident_of m) \<and>
        cm_residentPieces (w_metrics w) = int (card (resident_of m)) \<and>
        c_filled (w_cache w) = piece_total pc_Size m \<and>
        cm_inMemoryChunks (w_metrics w) = piece_total (\<lambda>p. int (p_count p)) m)"

lemma accounted_core: "core w' = core w \<Longrightarrow> accounted P w' = accounted P w"
  by (simp only: accounted_def core_eq [of w' w])

section \<open>Totals\<close>

lemma total_update:
  assumes "finite (dom m)" "m pid = Some p"
  shows "piece_total f (m(pid \<mapsto> q)) = piece_total f m + f q - f p"
proof -
  have mem: "pid \<in> dom m" using assms(2) by auto
  have "piece_total f m = f p + (\<Sum>i \<in> dom m - {pid}. f (the (m i)))"
    using sum.remove [OF assms(1) mem, of "\<lambda>i. f (the (m i))"] assms(2)
    unfolding piece_total_def by simp
  moreover have dom: "dom (m(pid \<mapsto> q)) = dom m" using mem by auto
  then have "piece_total f (m(pid \<mapsto> q)) = f q + (\<Sum>i \<in> dom m - {pid}. f (the ((m(pid \<mapsto> q)) i)))"
    using sum.remove [OF assms(1) mem, of "\<lambda>i. f (the ((m(pid \<mapsto> q)) i))"]
    unfolding piece_total_def by (simp only: dom) simp
  moreover have "(\<Sum>i \<in> dom m - {pid}. f (the ((m(pid \<mapsto> q)) i))) = (\<Sum>i \<in> dom m - {pid}. f (the (m i)))"
    by (rule sum.cong) auto
  ultimately show ?thesis by simp
qed

lemma total_bounds:
  assumes "finite (dom m)" "\<forall>pid p. m pid = Some p \<longrightarrow> 0 \<le> f p \<and> f p \<le> int P"
  shows "0 \<le> piece_total f m" "piece_total f m \<le> int (card (dom m) * P)"
proof -
  have "0 \<le> f (the (m i)) \<and> f (the (m i)) \<le> int P" if "i \<in> dom m" for i
    using assms(2) that by (auto simp: dom_def)
  then show "0 \<le> piece_total f m" "piece_total f m \<le> int (card (dom m) * P)"
    unfolding piece_total_def using sum_bounded_above [of "dom m" "\<lambda>i. f (the (m i))" "int P"]
    by (auto intro: sum_nonneg)
qed

lemma sum_chunk_len: "(\<Sum>q < n. chunk_len P q) = min P (n * 16384)"
  by (induction n) (auto simp: chunk_len_def)

lemma nchunks_bounds: "P \<le> nchunks P * 16384" "0 < P \<Longrightarrow> nchunks P \<le> P"
proof -
  have "(P + 16383) div 16384 * 16384 + (P + 16383) mod 16384 = P + 16383" by (rule div_mult_mod_eq)
  moreover have "(P + 16383) mod 16384 < 16384" by simp
  ultimately show "P \<le> nchunks P * 16384" unfolding nchunks_def by linarith
  assume "0 < P"
  then have "P + 16383 \<le> 16384 * P" by simp
  then show "nchunks P \<le> P" unfolding nchunks_def by (metis div_le_mono nonzero_mult_div_cancel_left zero_neq_numeral)
qed

lemma wf_chunks_bounds:
  assumes "wf_chunks P cs" "0 < P"
  shows "chunk_bytes cs \<le> P" "chunk_count cs \<le> P"
proof -
  have "chunk_bytes cs = (\<Sum>q < length cs. opt_len (cs ! q))"
    by (simp add: chunk_bytes_def sum_list_sum_nth atLeast0LessThan)
  also have "\<dots> \<le> (\<Sum>q < length cs. chunk_len P q)"
    using assms(1) by (intro sum_mono) (auto simp: wf_chunks_def opt_len_def split: option.split)
  also have "\<dots> \<le> P" by (simp add: sum_chunk_len)
  finally show "chunk_bytes cs \<le> P" .
  have "chunk_count cs \<le> length cs" by (simp add: chunk_count_def)
  also have "\<dots> \<le> P" using assms nchunks_bounds(2) by (simp add: wf_chunks_def)
  finally show "chunk_count cs \<le> P" .
qed

lemma piece_wf_count: "piece_wf P p \<Longrightarrow> 0 < P \<Longrightarrow> p_count p \<le> P"
  using wf_chunks_bounds(2) by (auto simp: piece_wf_def p_count_def split: option.splits if_splits)

lemma resident_finite: "finite (dom m) \<Longrightarrow> finite (resident_of m) \<and> card (resident_of m) \<le> card (dom m)"
proof -
  assume "finite (dom m)"
  moreover have "resident_of m \<subseteq> dom m" by (auto simp: resident_of_def)
  ultimately show ?thesis by (auto intro: finite_subset card_mono)
qed

lemma accounted_bounds:
  assumes "accounted P w"
  shows "0 \<le> c_filled (w_cache w) \<and> c_filled (w_cache w) \<le> int max_piece"
    "0 \<le> cm_inMemoryChunks (w_metrics w) \<and> cm_inMemoryChunks (w_metrics w) \<le> int max_piece"
    "0 \<le> cm_residentPieces (w_metrics w) \<and> cm_residentPieces (w_metrics w) \<le> int max_piece"
proof -
  obtain m where m: "finite (dom m)" "card (dom m) * P \<le> max_piece"
    "\<forall>pid p. m pid = Some p \<longrightarrow> piece_wf P p"
    "cm_residentPieces (w_metrics w) = int (card (resident_of m))"
    "c_filled (w_cache w) = piece_total pc_Size m"
    "cm_inMemoryChunks (w_metrics w) = piece_total (\<lambda>p. int (p_count p)) m" "0 < P"
    using assms by (auto simp: accounted_def)
  have "\<forall>pid p. m pid = Some p \<longrightarrow> 0 \<le> pc_Size p \<and> pc_Size p \<le> int P"
    using m(3) unfolding piece_wf_def by blast
  note total_bounds [OF m(1), of pc_Size P, OF this]
  with m show "0 \<le> c_filled (w_cache w) \<and> c_filled (w_cache w) \<le> int max_piece" by linarith
  have "\<forall>pid p. m pid = Some p \<longrightarrow> 0 \<le> int (p_count p) \<and> int (p_count p) \<le> int P"
    using m(3,7) piece_wf_count by auto
  note total_bounds [OF m(1), of "\<lambda>p. int (p_count p)" P, OF this]
  with m show "0 \<le> cm_inMemoryChunks (w_metrics w) \<and> cm_inMemoryChunks (w_metrics w) \<le> int max_piece" by linarith
  have "card (dom m) \<le> card (dom m) * P" using m(7) by simp
  with m resident_finite [OF m(1)]
  show "0 \<le> cm_residentPieces (w_metrics w) \<and> cm_residentPieces (w_metrics w) \<le> int max_piece" by linarith
qed

section \<open>Changing one piece\<close>

lemma resident_update:
  "resident_of (m(pid \<mapsto> q)) = (if pc_Size q > 0 then insert pid (resident_of m) else resident_of m - {pid})"
  by (auto simp: resident_of_def)

lemma accounted_update:
  assumes acc: "accounted P w" and m: "c_pieces (w_cache w) = Some m" "m pid = Some p"
    and q: "piece_wf P q" "c_pieces (w_cache w') = Some (m(pid \<mapsto> q))"
    and gauges: "c_filled (w_cache w') = c_filled (w_cache w) + pc_Size q - pc_Size p"
      "cm_inMemoryChunks (w_metrics w') = cm_inMemoryChunks (w_metrics w) + int (p_count q) - int (p_count p)"
      "c_resident (w_cache w') = Some (resident_of (m(pid \<mapsto> q)))"
      "cm_residentPieces (w_metrics w') = int (card (resident_of (m(pid \<mapsto> q))))"
    and rest: "c_pieceLength (w_cache w') = c_pieceLength (w_cache w)" "pool_ok (w_pool w')"
  shows "accounted P w'"
proof -
  have fin: "finite (dom m)" using acc m(1) by (auto simp: accounted_def)
  have dom: "dom (m(pid \<mapsto> q)) = dom m" using m(2) by auto
  show ?thesis
    using acc m q(1) gauges rest fin total_update [OF fin m(2)]
    unfolding accounted_def q(2)
    by (auto simp: dom insert_absorb [OF domI [of m pid p, OF m(2)]] split: if_splits)
qed

section \<open>The resident set\<close>

lemma mark_exact:
  assumes "c_resident (w_cache w) = Some R" "cm_residentPieces (w_metrics w) = int (card R)"
    "finite R" "card R \<le> max_piece"
  shows "c_resident (w_cache (markResidentPiece pid w)) = Some (insert pid R)"
    "cm_residentPieces (w_metrics (markResidentPiece pid w)) = int (card (insert pid R))"
proof -
  have "fits_i64 (int (card R) + 1)" using assms(4) by (simp add: fits_i64_def max_piece_def)
  then show "c_resident (w_cache (markResidentPiece pid w)) = Some (insert pid R)"
    "cm_residentPieces (w_metrics (markResidentPiece pid w)) = int (card (insert pid R))"
    using assms by (auto simp: markResidentPiece_def addResidentPieces_exact insert_absorb)
qed

lemma unmark_exact:
  assumes "c_resident (w_cache w) = Some R" "cm_residentPieces (w_metrics w) = int (card R)"
    "finite R" "card R \<le> max_piece"
  shows "c_resident (w_cache (unmarkResidentPiece pid w)) = Some (R - {pid})"
    "cm_residentPieces (w_metrics (unmarkResidentPiece pid w)) = int (card (R - {pid}))"
proof -
  have "fits_i64 (int (card R) + -1)" using assms(4) by (simp add: fits_i64_def max_piece_def)
  moreover have "0 \<le> int (card R) + -1 \<and> int (card (R - {pid})) = int (card R) + -1" if "pid \<in> R"
    using that assms(3) card_gt_0_iff [of R] by (auto simp: card_Diff_singleton of_nat_diff)
  ultimately show "c_resident (w_cache (unmarkResidentPiece pid w)) = Some (R - {pid})"
    "cm_residentPieces (w_metrics (unmarkResidentPiece pid w)) = int (card (R - {pid}))"
    using assms by (auto simp: unmarkResidentPiece_def Let_def addResidentPieces_exact)
qed

lemma accounted_resident:
  assumes "accounted P w" "c_pieces (w_cache w) = Some m"
  shows "c_resident (w_cache w) = Some (resident_of m)"
    "cm_residentPieces (w_metrics w) = int (card (resident_of m))" "finite (resident_of m)"
    "card (resident_of m) \<le> max_piece"
  using assms accounted_bounds(3) [OF assms(1)] resident_finite [of m] by (auto simp: accounted_def)

lemma in_resident: "m pid = Some p \<Longrightarrow> pid \<in> resident_of m \<longleftrightarrow> pc_Size p > 0"
  by (auto simp: resident_of_def)

lemma funpow_chunks:
  assumes "0 \<le> cm_inMemoryChunks (w_metrics w)" "cm_inMemoryChunks (w_metrics w) + int c \<le> 2 * int max_piece"
  shows "cm_inMemoryChunks (w_metrics ((addInMemoryChunks 1 ^^ c) w)) = cm_inMemoryChunks (w_metrics w) + int c"
  using assms
proof (induction c)
  case (Suc c)
  then have "fits_i64 (cm_inMemoryChunks (w_metrics w) + int c + 1)" by (simp add: fits_i64_def max_piece_def)
  with Suc show ?case by (simp add: addInMemoryChunks_exact)
qed simp

lemma funpow_frame [simp]:
  "c_pieces (w_cache ((addInMemoryChunks d ^^ c) w)) = c_pieces (w_cache w)"
  "c_filled (w_cache ((addInMemoryChunks d ^^ c) w)) = c_filled (w_cache w)"
  "c_resident (w_cache ((addInMemoryChunks d ^^ c) w)) = c_resident (w_cache w)"
  "cm_residentPieces (w_metrics ((addInMemoryChunks d ^^ c) w)) = cm_residentPieces (w_metrics w)"
  "c_isClosed (w_cache ((addInMemoryChunks d ^^ c) w)) = c_isClosed (w_cache w)"
  by (induction c) simp_all

section \<open>Writing\<close>

lemma cache_piece_Some:
  "cache_piece pid w = Some p \<longleftrightarrow> (\<exists>m. c_pieces (w_cache w) = Some m \<and> m pid = Some p)"
  by (simp add: cache_piece_def split: option.split)

lemma accounted_mem_piece_ok:
  assumes "accounted P w" "cache_piece pid w = Some p" "\<not> pc_disk p"
  shows "mem_piece_ok P pid w"
proof -
  obtain m where m: "c_pieces (w_cache w) = Some m" "m pid = Some p"
    "finite (dom m)" "card (dom m) * P \<le> max_piece" "piece_wf P p" "0 < P"
    using assms by (auto simp: accounted_def cache_piece_Some)
  have "pid \<in> dom m" using m(2) by auto
  then have "1 \<le> card (dom m)" using m(3) by (metis One_nat_def Suc_leI card_gt_0_iff empty_iff)
  then have "P \<le> card (dom m) * P" by simp
  then have "P \<le> max_piece" using m(4) by linarith
  then show ?thesis using assms m by (auto simp: mem_piece_ok_def accounted_def piece_wf_def)
qed

lemma ensureChunks_bytes:
  assumes "0 < P" "P \<le> max_piece"
  shows "chunk_bytes (ensureChunks (int P) (pc_chunks p)) = p_bytes p"
    "chunk_count (ensureChunks (int P) (pc_chunks p)) = p_count p"
proof -
  have "sum_list (map opt_len (replicate n None)) = 0" for n by (induction n) simp_all
  then show "chunk_bytes (ensureChunks (int P) (pc_chunks p)) = p_bytes p"
    "chunk_count (ensureChunks (int P) (pc_chunks p)) = p_count p"
    using assms by (cases "pc_chunks p";
      simp add: ensureChunks_None p_bytes_def p_count_def chunk_bytes_def chunk_count_def;
      simp add: ensureChunks_def)+
qed

lemma accounted_write:
  assumes acc: "accounted P w" and p: "cache_piece pid w = Some p" "\<not> pc_disk p"
    and b: "k + length b \<le> P" "length b \<le> fuel"
  shows "\<exists>w'. MemPiece_WriteAt fuel now pid b (int k) w = Done (int (length b), w') \<and> accounted P w'"
proof (cases "b = []")
  case True
  then show ?thesis using acc p by (simp add: MemPiece_WriteAt_def)
next
  case False
  note ok = accounted_mem_piece_ok [OF acc p]
  have P: "0 < P" "P \<le> max_piece" "c_pieceLength (w_cache w) = int P" using ok by (auto simp: mem_piece_ok_def)
  obtain m where m: "c_pieces (w_cache w) = Some m" "m pid = Some p" using p by (auto simp: cache_piece_Some)
  have wf: "piece_wf P p" using acc m by (auto simp: accounted_def)
  obtain cs' c pool where cs': "wf_chunks P cs'" "pool_ok pool" "chunk_count cs' = p_count p + c"
      "p_bytes p \<le> chunk_bytes cs'"
    and eq: "MemPiece_WriteAt fuel now pid b (int k) w = Done (int (length b), mem_write_world P now pid cs' c pool w)"
    by (rule mem_write_result [OF ok p(1) False b, of now, unfolded ensureChunks_bytes [OF P(1,2)]], rule that)
  define q where "q = p\<lparr>pc_chunks := Some cs', pc_Size := int (chunk_bytes cs'), pc_Accessed := unix now\<rparr>"
  have size: "pc_Size p = int (p_bytes p)" using wf p(2) by (simp add: piece_wf_def)
  have bytes: "chunk_bytes cs' \<le> P" "chunk_count cs' \<le> P" using wf_chunks_bounds [OF cs'(1) P(1)] by auto
  have q: "piece_wf P q" "p_count q = p_count p + c" using bytes cs' p(2)
    by (auto simp: piece_wf_def q_def p_bytes_def p_count_def)
  note R = accounted_resident [OF acc m(1)]
  have fits: "fits_i64 (int (chunk_bytes cs'))"
    "fits_i64 (c_filled (w_cache w) + (int (chunk_bytes cs') - int (p_bytes p)))"
    using bytes(1) P(2) accounted_bounds(1) [OF acc] size wf
    by (auto simp: fits_i64_def max_piece_def piece_wf_def)
  have chunks: "cm_inMemoryChunks (w_metrics ((addInMemoryChunks 1 ^^ c) w)) = cm_inMemoryChunks (w_metrics w) + int c"
    using accounted_bounds(2) [OF acc] bytes(2) cs'(3) P(2) by (intro funpow_chunks) (auto simp: max_piece_def)
  have res: "resident_of (m(pid \<mapsto> q)) = (if chunk_bytes cs' > 0 then insert pid (resident_of m) else resident_of m - {pid})"
    by (simp add: resident_update q_def)
  have "accounted P (mem_write_world P now pid cs' c pool w)"
  proof (rule accounted_update [OF acc m q(1)])
    let ?w = "mem_write_world P now pid cs' c pool w"
    show "c_pieces (w_cache ?w) = Some (m(pid \<mapsto> q))"
      using m p(1) size cs'(4) fits(1)
      by (auto simp: mem_write_world_def Let_def ensureChunks_bytes [OF P(1,2)] q_def markAccessed_def i64_id)
    show "c_filled (w_cache ?w) = c_filled (w_cache w) + pc_Size q - pc_Size p"
      using p(1) size cs'(4) fits(2) accounted_bounds(1) [OF acc]
      by (auto simp: mem_write_world_def Let_def ensureChunks_bytes [OF P(1,2)] q_def addFilled_exact)
    show "cm_inMemoryChunks (w_metrics ?w) = cm_inMemoryChunks (w_metrics w) + int (p_count q) - int (p_count p)"
      using p(1) chunks q(2) by (simp add: mem_write_world_def Let_def)
    show "c_pieceLength (w_cache ?w) = c_pieceLength (w_cache w)" "pool_ok (w_pool ?w)"
      using cs'(2) by (simp_all add: mem_write_world_def Let_def)
    show "c_resident (w_cache ?w) = Some (resident_of (m(pid \<mapsto> q)))"
      "cm_residentPieces (w_metrics ?w) = int (card (resident_of (m(pid \<mapsto> q))))"
      using p(1) size cs'(4) R in_resident [of m pid p, OF m(2)] mark_exact
      by (auto simp: mem_write_world_def Let_def ensureChunks_bytes [OF P(1,2)] res insert_absorb)
  qed
  with eq show ?thesis by simp
qed

section \<open>Releasing\<close>

definition put_all :: "byte list list \<Rightarrow> world \<Rightarrow> world" where
  "put_all chunks w = foldl (\<lambda>w chunk. if int (length chunk) = memPieceChunkSize
                                         then putMemPieceChunk chunk w else w) w chunks"

lemma put_all_pool: "\<exists>pool. put_all chunks w = w\<lparr>w_pool := pool\<rparr> \<and> (pool_ok (w_pool w) \<longrightarrow> pool_ok pool)"
proof (induction chunks arbitrary: w)
  case Nil
  show ?case by (rule exI [of _ "w_pool w"]) (simp add: put_all_def)
next
  case (Cons ch chunks)
  let ?w = "if int (length ch) = memPieceChunkSize then putMemPieceChunk ch w else w"
  have "\<exists>pool. ?w = w\<lparr>w_pool := pool\<rparr> \<and> (pool_ok (w_pool w) \<longrightarrow> pool_ok pool)"
    by (rule exI [of _ "if length ch = 16384 \<and> length (w_pool w) < memPieceChunkPoolLimit
                        then w_pool w @ [ch] else w_pool w"])
      (simp add: putMemPieceChunk_def chunk_simps pool_ok_def)
  then obtain pool where pool: "?w = w\<lparr>w_pool := pool\<rparr>" "pool_ok (w_pool w) \<longrightarrow> pool_ok pool" by blast
  have step: "put_all (ch # chunks) w = put_all chunks ?w" by (simp add: put_all_def)
  obtain pool' where "put_all chunks ?w = ?w\<lparr>w_pool := pool'\<rparr>" "pool_ok (w_pool ?w) \<longrightarrow> pool_ok pool'"
    using Cons.IH by blast
  then show ?case using pool step by auto
qed

lemma length_present: "length (List.map_filter (\<lambda>x. x) cs) = chunk_count cs"
  by (induction cs) (auto simp: chunk_count_def List.map_filter_simps split: option.split)

definition released :: "piece \<Rightarrow> piece" where
  "released p = p\<lparr>pc_chunks := None, pc_Size := 0, pc_Complete := False\<rparr>"

lemma piece_wf_released: "piece_wf P p \<Longrightarrow> piece_wf P (released p)" "p_count (released p) = 0" "pc_Size (released p) = 0"
  by (auto simp: piece_wf_def released_def p_bytes_def p_count_def)

lemma release_gauges:
  assumes acc: "accounted P w" and m: "c_pieces (w_cache w) = Some m" "m pid = Some p"
  shows "piece_wf P p" "0 \<le> pc_Size p" "int (p_count p) \<le> cm_inMemoryChunks (w_metrics w)"
    "pc_Size p \<le> c_filled (w_cache w)"
proof -
  show wf: "piece_wf P p" using acc m by (auto simp: accounted_def)
  then show "0 \<le> pc_Size p" by (simp add: piece_wf_def)
  have fin: "finite (dom m)" and all: "\<And>pid p. m pid = Some p \<Longrightarrow> piece_wf P p"
    and eqs: "c_filled (w_cache w) = piece_total pc_Size m"
      "cm_inMemoryChunks (w_metrics w) = piece_total (\<lambda>p. int (p_count p)) m"
    using acc m by (auto simp: accounted_def)
  have mem: "pid \<in> dom m" using m(2) by auto
  show "pc_Size p \<le> c_filled (w_cache w)"
    using member_le_sum [OF mem, of "\<lambda>i. pc_Size (the (m i))"] fin all m(2) eqs(1)
    by (force simp: piece_total_def piece_wf_def)
  show "int (p_count p) \<le> cm_inMemoryChunks (w_metrics w)"
    using member_le_sum [OF mem, of "\<lambda>i. int (p_count (the (m i)))"] fin m(2) eqs(2)
    by (simp add: piece_total_def)
qed

lemma addFilled_zero [simp]: "addFilled 0 w = w" "addInMemoryChunks 0 w = w"
  by (simp_all add: addFilled_def addInMemoryChunks_def)

lemma addFilled_minus:
  assumes "0 \<le> s" "s \<le> c_filled (w_cache w)" "c_filled (w_cache w) \<le> int max_piece"
  shows "c_filled (w_cache (addFilled (- s) w)) = c_filled (w_cache w) - s"
  using addFilled_exact [of w "- s"] assms by (simp add: fits_i64_def max_piece_def)

lemma addInMemoryChunks_minus:
  assumes "0 \<le> s" "s \<le> cm_inMemoryChunks (w_metrics w)" "cm_inMemoryChunks (w_metrics w) \<le> int max_piece"
  shows "cm_inMemoryChunks (w_metrics (addInMemoryChunks (- s) w)) = cm_inMemoryChunks (w_metrics w) - s"
  using addInMemoryChunks_exact [of w "- s"] assms by (simp add: fits_i64_def max_piece_def)

lemma resident_released:
  "m pid = Some p \<Longrightarrow> resident_of (m(pid \<mapsto> released p)) = resident_of m - {pid}"
  by (simp add: resident_update piece_wf_released)

lemma accounted_mem_release:
  assumes acc: "accounted P w" and p: "cache_piece pid w = Some p" "\<not> pc_disk p"
  shows "accounted P (MemPiece_Release pid w)"
    "\<exists>m. c_pieces (w_cache w) = Some m \<and> c_pieces (w_cache (MemPiece_Release pid w)) = Some (m(pid \<mapsto> released p))"
proof -
  obtain m where m: "c_pieces (w_cache w) = Some m" "m pid = Some p" using p by (auto simp: cache_piece_Some)
  note g = release_gauges [OF acc m] and b = accounted_bounds [OF acc] and R = accounted_resident [OF acc m(1)]
  define w1 where "w1 = (case pc_chunks p of None \<Rightarrow> w
    | Some cs \<Rightarrow> let present = List.map_filter (\<lambda>x. x) cs;
        w = put_all present w;
        w = upd_piece pid (\<lambda>p. p\<lparr>pc_chunks := None\<rparr>) w
      in addInMemoryChunks (- int (length present)) w)"
  have rel: "MemPiece_Release pid w = upd_piece pid (\<lambda>p. p\<lparr>pc_Complete := False\<rparr>)
     (let w = upd_piece pid (\<lambda>p. p\<lparr>pc_Size := 0\<rparr>) w1; w = addFilled (- pc_Size p) w
      in if pc_Size p > 0 then unmarkResidentPiece pid w else w)"
  proof (cases "pc_chunks p")
    case None
    then show ?thesis using p by (simp add: MemPiece_Release_def w1_def Let_def)
  next
    case (Some cs)
    then show ?thesis using p by (simp add: MemPiece_Release_def w1_def put_all_def Let_def)
  qed
  have w1: "c_pieces (w_cache w1) = Some (m(pid \<mapsto> p\<lparr>pc_chunks := None\<rparr>))"
    "c_filled (w_cache w1) = c_filled (w_cache w)" "c_resident (w_cache w1) = c_resident (w_cache w)"
    "cm_residentPieces (w_metrics w1) = cm_residentPieces (w_metrics w)"
    "c_pieceLength (w_cache w1) = c_pieceLength (w_cache w)" "pool_ok (w_pool w1)"
    "cm_inMemoryChunks (w_metrics w1) = cm_inMemoryChunks (w_metrics w) - int (p_count p)"
  proof -
    have ok: "pool_ok (w_pool w)" using acc by (simp add: accounted_def)
    have goals: "c_pieces (w_cache w1) = Some (m(pid \<mapsto> p\<lparr>pc_chunks := None\<rparr>)) \<and>
      c_filled (w_cache w1) = c_filled (w_cache w) \<and> c_resident (w_cache w1) = c_resident (w_cache w) \<and>
      cm_residentPieces (w_metrics w1) = cm_residentPieces (w_metrics w) \<and>
      c_pieceLength (w_cache w1) = c_pieceLength (w_cache w) \<and> pool_ok (w_pool w1) \<and>
      cm_inMemoryChunks (w_metrics w1) = cm_inMemoryChunks (w_metrics w) - int (p_count p)"
    proof (cases "pc_chunks p")
      case None
      then have "p\<lparr>pc_chunks := None\<rparr> = p" by simp
      with None m ok show ?thesis by (simp add: w1_def p_count_def fun_upd_idem)
    next
      case (Some cs)
      obtain pool where pool: "put_all (List.map_filter (\<lambda>x. x) cs) w = w\<lparr>w_pool := pool\<rparr>" "pool_ok pool"
        using put_all_pool ok by blast
      then have "w1 = addInMemoryChunks (- int (p_count p)) (upd_piece pid (\<lambda>p. p\<lparr>pc_chunks := None\<rparr>) (w\<lparr>w_pool := pool\<rparr>))"
        using Some by (simp add: w1_def Let_def length_present p_count_def)
      with m g(3) b(2) pool(2) show ?thesis by (simp add: addInMemoryChunks_minus)
    qed
    then show "c_pieces (w_cache w1) = Some (m(pid \<mapsto> p\<lparr>pc_chunks := None\<rparr>))"
      "c_filled (w_cache w1) = c_filled (w_cache w)" "c_resident (w_cache w1) = c_resident (w_cache w)"
      "cm_residentPieces (w_metrics w1) = cm_residentPieces (w_metrics w)"
      "c_pieceLength (w_cache w1) = c_pieceLength (w_cache w)" "pool_ok (w_pool w1)"
      "cm_inMemoryChunks (w_metrics w1) = cm_inMemoryChunks (w_metrics w) - int (p_count p)" by auto
  qed
  show pieces: "\<exists>m. c_pieces (w_cache w) = Some m \<and> c_pieces (w_cache (MemPiece_Release pid w)) = Some (m(pid \<mapsto> released p))"
    using m w1(1) by (simp add: rel Let_def released_def)
  show "accounted P (MemPiece_Release pid w)"
  proof (rule accounted_update [OF acc m piece_wf_released(1) [OF g(1)]])
    show "c_pieces (w_cache (MemPiece_Release pid w)) = Some (m(pid \<mapsto> released p))" using pieces m(1) by simp
    show "c_filled (w_cache (MemPiece_Release pid w)) = c_filled (w_cache w) + pc_Size (released p) - pc_Size p"
      using w1(2) g b(1) by (simp add: rel Let_def addFilled_minus piece_wf_released)
    show "cm_inMemoryChunks (w_metrics (MemPiece_Release pid w))
        = cm_inMemoryChunks (w_metrics w) + int (p_count (released p)) - int (p_count p)"
      using w1(7) by (simp add: rel Let_def piece_wf_released)
    show "c_resident (w_cache (MemPiece_Release pid w)) = Some (resident_of (m(pid \<mapsto> released p)))"
      "cm_residentPieces (w_metrics (MemPiece_Release pid w)) = int (card (resident_of (m(pid \<mapsto> released p))))"
      using w1(3,4) R unmark_exact g(2) in_resident [of m pid p, OF m(2)]
      by (auto simp: rel Let_def resident_released [of m pid p, OF m(2)])
  qed (use w1 in \<open>simp_all add: rel Let_def\<close>)
qed

lemma accounted_disk_release:
  assumes acc: "accounted P w" and p: "cache_piece pid w = Some p" "pc_disk p"
  shows "accounted P (DiskPiece_Release pid w)"
    "\<exists>m. c_pieces (w_cache w) = Some m \<and> c_pieces (w_cache (DiskPiece_Release pid w)) = Some (m(pid \<mapsto> released p))"
proof -
  obtain m where m: "c_pieces (w_cache w) = Some m" "m pid = Some p" using p by (auto simp: cache_piece_Some)
  note g = release_gauges [OF acc m] and b = accounted_bounds [OF acc] and R = accounted_resident [OF acc m(1)]
  have none: "pc_chunks p = None" using g(1) p(2) by (simp add: piece_wf_def)
  then have rel: "released p = p\<lparr>pc_Size := 0, pc_Complete := False\<rparr>" by (simp add: released_def)
  show pieces: "\<exists>m. c_pieces (w_cache w) = Some m \<and> c_pieces (w_cache (DiskPiece_Release pid w)) = Some (m(pid \<mapsto> released p))"
    using m p(1) by (simp add: DiskPiece_Release_def Let_def rel)
  show "accounted P (DiskPiece_Release pid w)"
  proof (rule accounted_update [OF acc m piece_wf_released(1) [OF g(1)]])
    show "c_pieces (w_cache (DiskPiece_Release pid w)) = Some (m(pid \<mapsto> released p))" using pieces m(1) by simp
    show "c_filled (w_cache (DiskPiece_Release pid w)) = c_filled (w_cache w) + pc_Size (released p) - pc_Size p"
      using p(1) g b(1) by (simp add: DiskPiece_Release_def Let_def addFilled_minus piece_wf_released)
    show "cm_inMemoryChunks (w_metrics (DiskPiece_Release pid w))
        = cm_inMemoryChunks (w_metrics w) + int (p_count (released p)) - int (p_count p)"
      using p(1) none piece_wf_released(2) [of p] by (simp add: DiskPiece_Release_def Let_def p_count_def [of p])
    show "c_resident (w_cache (DiskPiece_Release pid w)) = Some (resident_of (m(pid \<mapsto> released p)))"
      "cm_residentPieces (w_metrics (DiskPiece_Release pid w)) = int (card (resident_of (m(pid \<mapsto> released p))))"
      using p(1) R unmark_exact g(2) in_resident [of m pid p, OF m(2)]
      by (auto simp: DiskPiece_Release_def Let_def resident_released [of m pid p, OF m(2)])
  qed (use acc p in \<open>simp_all add: DiskPiece_Release_def Let_def accounted_def\<close>)
qed

section \<open>The cleanup keeps the accounting\<close>

lemma core_sync [simp]: "core (syncTorrentPieceAfterRelease prio pid c w) = core w"
  by (simp add: syncTorrentPieceAfterRelease_def Let_def)

definition kinds_match :: "world \<Rightarrow> bool" where
  "kinds_match w \<longleftrightarrow> (\<forall>pid p. cache_piece pid w = Some p \<longrightarrow> pc_disk p = useDisk w)"

lemma useDisk_core: "core w' = core w \<Longrightarrow> useDisk w' = useDisk w"
  by (simp add: useDisk_def currentCacheConfig_def core_eq(1) [of w' w])

lemma cache_piece_core: "core w' = core w \<Longrightarrow> cache_piece pid w' = cache_piece pid w"
  by (simp add: cache_piece_def core_eq(6) [of w' w])

text \<open>What no release changes.\<close>

definition frame where
  "frame w = (let c = w_cache w in (c_host c, c_capacity c, c_pieceLength c, c_isClosed c, c_readers c))"

lemma frame_simps:
  assumes "frame w' = frame w"
  shows "c_host (w_cache w') = c_host (w_cache w)" "c_capacity (w_cache w') = c_capacity (w_cache w)"
    "c_pieceLength (w_cache w') = c_pieceLength (w_cache w)" "c_isClosed (w_cache w') = c_isClosed (w_cache w)"
    "c_readers (w_cache w') = c_readers (w_cache w)" "useDisk w' = useDisk w"
  using assms by (simp_all add: frame_def Let_def useDisk_def currentCacheConfig_def)

lemma frame_put_all: "frame (put_all chunks w) = frame w"
proof -
  obtain pool where "put_all chunks w = w\<lparr>w_pool := pool\<rparr>" using put_all_pool by blast
  then show ?thesis by (simp add: frame_def)
qed

lemma upd_piece_readers: "frame (upd_piece pid f w) = frame w"
  by (simp add: frame_def Let_def)

lemma frame_neutral:
  "frame (addFilled d w) = frame w" "frame (addInMemoryChunks d w) = frame w"
  "frame (unmarkResidentPiece pid w) = frame w" "frame (lib x w) = frame w"
  "frame (syncTorrentPieceAfterRelease prio pid c w) = frame w"
  "frame (recordCleanupRun w) = frame w" "frame (recordCleanedBytes d w) = frame w"
  by (simp_all add: frame_def Let_def syncTorrentPieceAfterRelease_def)

lemma frame_release: "frame (MemPiece_Release pid w) = frame w" "frame (DiskPiece_Release pid w) = frame w"
  by (auto simp: MemPiece_Release_def DiskPiece_Release_def Let_def frame_neutral upd_piece_readers
      frame_put_all [unfolded put_all_def] split: option.split)

lemma accounted_release:
  assumes "accounted P w" "kinds_match w" "cache_piece pid w = Some p"
  shows "\<exists>w'. Piece_Release prio pid w = Done w' \<and> accounted P w' \<and> frame w' = frame w \<and> kinds_match w'
    \<and> (\<forall>qid. cache_piece qid w' = (if qid = pid then Some (released p) else cache_piece qid w))"
proof -
  define w1 where "w1 = (if useDisk w then DiskPiece_Release pid w else MemPiece_Release pid w)"
  define w' where "w' = syncTorrentPieceAfterRelease prio pid (pc_Complete p) w1"
  have kind: "pc_disk p = useDisk w" using assms(2,3) by (auto simp: kinds_match_def)
  then have rel: "Piece_Release prio pid w = Done w'"
    using assms(3) by (simp add: Piece_Release_def w'_def w1_def Let_def)
  have acc: "accounted P w1" and
    pieces: "\<exists>m. c_pieces (w_cache w) = Some m \<and> c_pieces (w_cache w1) = Some (m(pid \<mapsto> released p))"
    using accounted_disk_release [OF assms(1,3)] accounted_mem_release [OF assms(1,3)] kind
    by (auto simp: w1_def)
  have core: "core w' = core w1" by (simp add: w'_def)
  have frame: "frame w' = frame w" by (simp add: w'_def w1_def frame_neutral frame_release)
  have get: "cache_piece qid w' = (if qid = pid then Some (released p) else cache_piece qid w)" for qid
    using pieces cache_piece_core [OF core] by (auto simp: cache_piece_def)
  moreover have "kinds_match w'"
    using assms(2) get frame_simps(6) [OF frame] kind by (auto simp: kinds_match_def released_def split: if_splits)
  ultimately show ?thesis using rel acc frame accounted_core [OF core] by auto
qed

lemma released_idem [simp]: "released (released p) = released p"
  by (simp add: released_def)

definition release_all :: "int list \<Rightarrow> int \<Rightarrow> piece option \<Rightarrow> piece option" where
  "release_all pids qid p = (if qid \<in> set pids then map_option released p else p)"

lemma remove_loop_ok:
  assumes "accounted P w" "kinds_match w" "\<not> c_isClosed (w_cache w)"
    "\<forall>pid \<in> set pids. cache_piece pid w \<noteq> None" "1 \<le> rems" and free: "ce_held env = {}"
  shows "\<exists>w'. remove_loop env pids rems w = Done w' \<and> accounted P w' \<and> frame w' = frame w \<and> kinds_match w'
    \<and> (\<forall>qid. cache_piece qid w' = release_all (take (nat rems) pids) qid (cache_piece qid w))"
  using assms(1-5)
proof (induction pids arbitrary: w rems)
  case (Cons pid pids)
  obtain p where p: "cache_piece pid w = Some p" using Cons.prems(4) by auto
  obtain w1 where w1: "Piece_Release (ce_prio env) pid w = Done w1" "accounted P w1" "frame w1 = frame w" "kinds_match w1"
    "\<And>qid. cache_piece qid w1 = (if qid = pid then Some (released p) else cache_piece qid w)"
    using accounted_release [OF Cons.prems(1,2) p, of "ce_prio env"] by blast
  have step: "remove_loop env (pid # pids) rems w
      = (if rems - 1 \<le> 0 then Done w1 else remove_loop env pids (rems - 1) w1)"
    using w1(1) Cons.prems(3) free by (simp add: removePiece_def)
  show ?case
  proof (cases "rems - 1 \<le> 0")
    case True
    then have "take (nat rems) (pid # pids) = [pid]" using Cons.prems(5) by (cases "nat rems") auto
    with True step w1 p show ?thesis by (auto simp: release_all_def)
  next
    case False
    have "\<not> c_isClosed (w_cache w1)" using Cons.prems(3) frame_simps(4) [OF w1(3)] by simp
    moreover have "\<forall>pid \<in> set pids. cache_piece pid w1 \<noteq> None" using Cons.prems(4) w1(5) by auto
    moreover have "1 \<le> rems - 1" using False by simp
    ultimately obtain w' where w': "remove_loop env pids (rems - 1) w1 = Done w'" "accounted P w'"
      "frame w' = frame w1" "kinds_match w'"
      "\<And>qid. cache_piece qid w' = release_all (take (nat (rems - 1)) pids) qid (cache_piece qid w1)"
      using Cons.IH [OF w1(2,4)] by blast
    have "take (nat rems) (pid # pids) = pid # take (nat (rems - 1)) pids"
      using Cons.prems(5) by (simp add: take_Cons' nat_diff_distrib)
    with False step w' w1(3,5) p show ?thesis by (auto simp: release_all_def)
  qed
qed (auto simp: release_all_def)

end
