(* ===== verification/Cleanup_Props.thy ===== *)
theory Cleanup_Props
  imports Cache_Accounting
begin

text \<open>
  What a cleanup pass does (torrstor/cache_cleanup.go): it never evicts what an active reader
  retains, evicts the least recently used of the rest, and keeps the books.
\<close>

section \<open>Snapshots of the readers\<close>

lemma offset_range_cong:
  assumes "c_host (w_cache w') = c_host (w_cache w)" "c_capacity (w_cache w') = c_capacity (w_cache w)"
  shows "fst (getOffsetRangeForReaders n r w') = fst (getOffsetRangeForReaders n r w)"
  unfolding getOffsetRangeForReaders_def Let_def split_beta fst_conv currentPlaybackConfig_def
    GetCapacity_def option.case assms by (rule refl)

lemma piece_num_range_world:
  "getPieceNum (w_cache (snd (getOffsetRangeForReaders n r w))) r x = getPieceNum (w_cache w) r x"
  using range_world [of n r w] by (auto intro!: getPieceNum_cong)

lemma range_core:
  assumes "core w' = core w"
  shows "fst (getPiecesRangeForReaders n r w') = fst (getPiecesRangeForReaders n r w)"
    "getReaderPiece (w_cache w') r = getReaderPiece (w_cache w) r"
    "getReaderRAHPiece (w_cache w') r = getReaderRAHPiece (w_cache w) r"
proof -
  have num: "getPieceNum (w_cache w') r x = getPieceNum (w_cache w) r x" for x
    using core_eq(3) [OF assms] by (rule getPieceNum_cong)
  then show "getReaderPiece (w_cache w') r = getReaderPiece (w_cache w) r"
    "getReaderRAHPiece (w_cache w') r = getReaderRAHPiece (w_cache w) r"
    by (simp_all add: getReaderPiece_def getReaderRAHPiece_def)
  have "fst (getOffsetRangeForReaders n r w') = fst (getOffsetRangeForReaders n r w)"
    using core_eq(1,2) [OF assms] by (rule offset_range_cong)
  then show "fst (getPiecesRangeForReaders n r w') = fst (getPiecesRangeForReaders n r w)"
    unfolding getPiecesRangeForReaders_def Let_def split_beta fst_conv
    by (simp add: piece_num_range_world num)
qed

definition snap_of :: "int \<Rightarrow> world \<Rightarrow> nat \<Rightarrow> activeReaderSnapshot" where
  "snap_of n w rid = (let r = the (reader_at w rid) in
     \<lparr>ars_readerPos = getReaderPiece (w_cache w) r, ars_readerRAHPos = getReaderRAHPiece (w_cache w) r,
      ars_piecesRange = fst (getPiecesRangeForReaders n r w)\<rparr>)"

lemma snapshot_loop:
  "core w = core w0 \<Longrightarrow> c_readers (w_cache w) = c_readers (w_cache w0) \<Longrightarrow>
   fst (foldl (snapshot_reader n) (acc, w) rids) = acc @ map (snap_of n w0) (filter (reader_active w0) rids)
   \<and> core (snd (foldl (snapshot_reader n) (acc, w) rids)) = core w0
   \<and> c_readers (w_cache (snd (foldl (snapshot_reader n) (acc, w) rids))) = c_readers (w_cache w0)"
proof (induction rids arbitrary: acc w)
  case (Cons rid rids)
  have at: "reader_at w rid = reader_at w0 rid" using Cons.prems(2) by (simp add: reader_at_def)
  show ?case
  proof (cases "reader_active w0 rid")
    case False
    then have "snapshot_reader n (acc, w) rid = (acc, w)"
      using at by (auto simp: snapshot_reader_def reader_active_def split: option.splits)
    with Cons False show ?thesis by simp
  next
    case True
    then obtain r where r: "reader_at w0 rid = Some r" "rd_isUse r"
      by (auto simp: reader_active_def split: option.splits)
    let ?w = "snd (getPiecesRangeForReaders n r w)"
    have "snapshot_reader n (acc, w) rid = (acc @ [snap_of n w0 rid], ?w)"
      using at r range_core [OF Cons.prems(1)]
      by (simp add: snapshot_reader_def snap_of_def split_beta)
    moreover have "core ?w = core w0" "c_readers (w_cache ?w) = c_readers (w_cache w0)"
      using Cons.prems by simp_all
    ultimately show ?thesis using Cons.IH [of ?w "acc @ [snap_of n w0 rid]"] True by simp
  qed
qed simp

lemma core_set_reader [simp]: "core (set_reader rid r w) = core w"
  by (simp add: set_reader_def core_def Let_def)

lemma core_check_at [simp]: "core (check_at now a n w rid) = core w"
proof (cases "reader_at w rid")
  case (Some r)
  then show ?thesis
    using core_checkReader [of now "a rid" n rid r w]
    by (cases "checkReader now (a rid) n rid (r, w)") (simp add: check_at_def)
qed (simp add: check_at_def)

lemma core_check_all [simp]: "core (foldl (check_at now a n) w rids) = core w"
  by (induction rids arbitrary: w) simp_all

text \<open>The world after the activity of the readers was refreshed.\<close>

definition refreshed :: "int \<Rightarrow> (nat \<Rightarrow> bool) \<Rightarrow> nat list \<Rightarrow> world \<Rightarrow> world" where
  "refreshed now atStart ord w =
     foldl (check_at now atStart (int (length (copyReaders ord w)))) w (copyReaders ord w)"

lemma core_refreshed [simp]: "core (refreshed now a ord w) = core w"
  by (simp add: refreshed_def)

definition active_count :: "world \<Rightarrow> nat list \<Rightarrow> int" where
  "active_count w rids = int (length (filter (reader_active w) rids))"

lemma snapshot_result:
  obtains w' where
    "snapshotActiveReaders now a ord True w =
       (let w0 = refreshed now a ord w; rids = copyReaders ord w
        in (map (snap_of (active_count w0 rids) w0) (filter (reader_active w0) rids), w'))"
    "core w' = core w" "c_readers (w_cache w') = c_readers (w_cache (refreshed now a ord w))"
proof (cases "filter (reader_active (refreshed now a ord w)) (copyReaders ord w) = []")
  case True
  then have "snapshotActiveReaders now a ord True w = ([], refreshed now a ord w)"
    by (auto simp: snapshotActiveReaders_def Let_def refreshed_def)
  with True that [of "refreshed now a ord w"] show thesis by (simp add: Let_def)
next
  case False
  let ?w0 = "refreshed now a ord w" and ?n = "active_count (refreshed now a ord w) (copyReaders ord w)"
  have "snapshotActiveReaders now a ord True w = foldl (snapshot_reader ?n) ([], ?w0) (copyReaders ord w)"
    using False by (auto simp: snapshotActiveReaders_def Let_def refreshed_def active_count_def)
  with snapshot_loop [of ?w0 ?w0 ?n "[]" "copyReaders ord w"]
    that [of "snd (foldl (snapshot_reader ?n) ([], ?w0) (copyReaders ord w))"]
  show thesis by (simp add: Let_def prod_eq_iff)
qed

text \<open>The windows of the readers that are active after the refresh.\<close>

definition active_windows :: "int \<Rightarrow> (nat \<Rightarrow> bool) \<Rightarrow> nat list \<Rightarrow> world \<Rightarrow> Range list" where
  "active_windows now a ord w =
     (let w0 = refreshed now a ord w; rids = copyReaders ord w in
      map (\<lambda>rid. fst (getPiecesRangeForReaders (active_count w0 rids) (the (reader_at w0 rid)) w0))
        (filter (reader_active w0) rids))"

lemma active_ranges_result:
  obtains w' where
    "getActiveReaderRanges now a ord w = (mergeRange (active_windows now a ord w), w')"
    "core w' = core w" "c_readers (w_cache w') = c_readers (w_cache (refreshed now a ord w))"
proof (rule snapshot_result [of now a ord w])
  fix w'
  assume s: "snapshotActiveReaders now a ord True w =
       (let w0 = refreshed now a ord w; rids = copyReaders ord w
        in (map (snap_of (active_count w0 rids) w0) (filter (reader_active w0) rids), w'))"
    and w': "core w' = core w" "c_readers (w_cache w') = c_readers (w_cache (refreshed now a ord w))"
  have "mergeRange [] = []" by (simp add: mergeRange_def)
  moreover have "map ars_piecesRange (map (snap_of n v) xs)
      = map (\<lambda>rid. fst (getPiecesRangeForReaders n (the (reader_at v rid)) v)) xs" for n v xs
    by (simp add: snap_of_def Let_def)
  ultimately have "getActiveReaderRanges now a ord w = (mergeRange (active_windows now a ord w), w')"
    by (simp add: getActiveReaderRanges_def s Let_def activeReaderRanges_def active_windows_def
        snap_of_def o_def)
  with w' show thesis by (rule that [rotated 1]) 
qed

section \<open>One pass\<close>

definition protected :: "clean_env \<Rightarrow> world \<Rightarrow> int \<Rightarrow> bool" where
  "protected env w pid \<longleftrightarrow>
     inRanges (active_windows (ce_now env) (ce_atStart env) (ce_readers env) w) pid \<or>
     isIDInFileBEFast (c_pieceLength (w_cache w))
       (mergeRange (active_windows (ce_now env) (ce_atStart env) (ce_readers env) w)) pid"

definition candidates :: "clean_env \<Rightarrow> world \<Rightarrow> int list" where
  "candidates env w = filter (\<lambda>pid. piece_size w pid \<noteq> 0 \<and> \<not> protected env w pid)
     (copyResidentPieces (ce_pieces env) w)"

definition victims :: "clean_env \<Rightarrow> world \<Rightarrow> int list" where
  "victims env w =
     take (nat (go_div (i64 (c_filled (w_cache w) - c_capacity (w_cache w))) (c_pieceLength (w_cache w)) + 1))
       (sort_key (piece_accessed w) (candidates env w))"

lemma getRemPieces_result:
  obtains w' where "getRemPieces env w = (candidates env w, w')" "core w' = core w"
    "c_readers (w_cache w') = c_readers (w_cache (refreshed (ce_now env) (ce_atStart env) (ce_readers env) w))"
proof (rule active_ranges_result [of "ce_now env" "ce_atStart env" "ce_readers env" w])
  fix w'
  assume r: "getActiveReaderRanges (ce_now env) (ce_atStart env) (ce_readers env) w
      = (mergeRange (active_windows (ce_now env) (ce_atStart env) (ce_readers env) w), w')"
    and c: "core w' = core w"
    and rd: "c_readers (w_cache w') = c_readers (w_cache (refreshed (ce_now env) (ce_atStart env) (ce_readers env) w))"
  have "piece_size w' = piece_size w" using cache_piece_core [OF c] by (simp add: piece_size_def fun_eq_iff)
  moreover have "copyResidentPieces pord w' = copyResidentPieces pord w" for pord
    using core_eq(8) [OF c] by (simp add: copyResidentPieces_def)
  ultimately have "getRemPieces env w = (candidates env w, w')"
    using core_eq(3) [OF c]
    by (simp add: getRemPieces_def r removableResidentPieces_def candidates_def protected_def
        mergeRange_inRanges conj_assoc)
  then show thesis using c rd by (rule that)
qed

lemma checkReader_fst: "fst (checkReader t a n rid (r, w)) = fst (checkReader t a n rid (r, w'))"
  by (simp add: checkReader_def readerOnLocked_def readerOffLocked_def Let_def)

lemma check_at_readers:
  "c_readers (w_cache (check_at t a n w rid)) =
     (case reader_at w rid of None \<Rightarrow> c_readers (w_cache w)
      | Some r \<Rightarrow> map_option (\<lambda>m. m(rid \<mapsto> fst (checkReader t (a rid) n rid (r, w)))) (c_readers (w_cache w)))"
  using checkReader_readers [of t "a rid" n rid _ w]
  by (auto simp: check_at_def set_reader_def split_beta split: option.split)

lemma check_at_cong:
  assumes "c_readers (w_cache w) = c_readers (w_cache w')"
  shows "c_readers (w_cache (check_at t a n w rid)) = c_readers (w_cache (check_at t a n w' rid))"
proof -
  have at: "reader_at w rid = reader_at w' rid" using assms by (simp add: reader_at_def)
  show ?thesis
  proof (cases "reader_at w' rid")
    case (Some r)
    show ?thesis unfolding check_at_readers at Some option.case assms checkReader_fst [of t "a rid" n rid r w w']
      by (rule refl)
  next
    case None
    show ?thesis unfolding check_at_readers at None option.case assms by (rule refl)
  qed
qed

lemma refreshed_cong:
  assumes "c_readers (w_cache w) = c_readers (w_cache w')"
  shows "c_readers (w_cache (refreshed t a ord w)) = c_readers (w_cache (refreshed t a ord w'))"
    "copyReaders ord w = copyReaders ord w'"
proof -
  show rids: "copyReaders ord w = copyReaders ord w'" using assms by (simp add: copyReaders_def reader_at_def)
  have "c_readers (w_cache (foldl (check_at t a n) w rids)) = c_readers (w_cache (foldl (check_at t a n) w' rids))"
    for n rids using assms
  proof (induction rids arbitrary: w w')
    case (Cons rid rids)
    show ?case unfolding foldl_Cons by (rule Cons.IH [OF check_at_cong [OF Cons.prems]])
  qed simp
  then show "c_readers (w_cache (refreshed t a ord w)) = c_readers (w_cache (refreshed t a ord w'))"
    by (simp add: refreshed_def rids)
qed

lemma active_windows_cong:
  assumes "core w = core w'" "c_readers (w_cache w) = c_readers (w_cache w')"
  shows "active_windows t a ord w = active_windows t a ord w'"
proof -
  have at: "reader_at (refreshed t a ord w) = reader_at (refreshed t a ord w')"
    using refreshed_cong [OF assms(2)] by (simp add: reader_at_def fun_eq_iff)
  then have act: "reader_active (refreshed t a ord w) = reader_active (refreshed t a ord w')"
    by (simp add: reader_active_def fun_eq_iff)
  have "core (refreshed t a ord w) = core (refreshed t a ord w')" using assms(1) by simp
  from range_core(1) [OF this] show ?thesis
    by (simp add: active_windows_def Let_def at act active_count_def refreshed_cong(2) [OF assms(2)])
qed

lemma candidates_cong:
  assumes "core w = core w'" "c_readers (w_cache w) = c_readers (w_cache w')"
  shows "candidates env w = candidates env w'"
proof -
  have "piece_size w = piece_size w'" using cache_piece_core [OF assms(1)] by (simp add: piece_size_def fun_eq_iff)
  moreover have "copyResidentPieces pord w = copyResidentPieces pord w'" for pord
    using core_eq(8) [OF assms(1)] by (simp add: copyResidentPieces_def)
  moreover have "protected env w = protected env w'"
    using core_eq(3) [OF assms(1)] by (simp add: protected_def fun_eq_iff active_windows_cong [OF assms])
  ultimately show ?thesis by (simp add: candidates_def)
qed

lemma candidates_present: "pid \<in> set (candidates env w) \<Longrightarrow> cache_piece pid w \<noteq> None"
  by (auto simp: candidates_def piece_size_def split: option.splits)

lemma pass_result:
  assumes acc: "accounted P w" and kinds: "kinds_match w" and opened: "\<not> c_isClosed (w_cache w)"
    and over: "c_capacity (w_cache w) < c_filled (w_cache w)" "0 \<le> c_capacity (w_cache w)"
    and free: "ce_held env = {}"
  obtains w' where
    "cleanPiecesPass env w = Done (c_filled (w_cache w') < c_filled (w_cache w), w')" "accounted P w'"
    "\<And>qid. cache_piece qid w' = release_all (victims env w) qid (cache_piece qid w)"
    "kinds_match w'" "c_isClosed (w_cache w') = c_isClosed (w_cache w)"
    "c_capacity (w_cache w') = c_capacity (w_cache w)" "useDisk w' = useDisk w"
    "c_readers (w_cache w') = c_readers (w_cache (refreshed (ce_now env) (ce_atStart env) (ce_readers env) w))"
proof -
  define w0 where "w0 = recordCleanupRun w"
  have w0: "core w0 = core w" "c_readers (w_cache w0) = c_readers (w_cache w)" by (simp_all add: w0_def)
  obtain w1 where rem: "getRemPieces env w0 = (candidates env w0, w1)" and w1: "core w1 = core w0"
    and rd: "c_readers (w_cache w1) = c_readers (w_cache (refreshed (ce_now env) (ce_atStart env) (ce_readers env) w0))"
    by (rule getRemPieces_result)
  have core: "core w1 = core w" using w0 w1 by simp
  have len: "c_pieceLength (w_cache w) = int P" "0 < P" using acc by (auto simp: accounted_def)
  define rems where "rems = go_div (i64 (c_filled (w_cache w) - c_capacity (w_cache w))) (c_pieceLength (w_cache w)) + 1"
  have "i64 (c_filled (w_cache w) - c_capacity (w_cache w)) = c_filled (w_cache w) - c_capacity (w_cache w)"
    using over accounted_bounds(1) [OF acc] by (intro i64_id) (simp add: fits_i64_def max_piece_def)
  then have rems: "1 \<le> rems" using over len by (simp add: rems_def go_div_nonneg)
  define order where "order = sort_key (piece_accessed w1) (candidates env w)"
  have "\<forall>pid \<in> set order. cache_piece pid w1 \<noteq> None"
    using candidates_present cache_piece_core [OF core] by (auto simp: order_def)
  moreover have "kinds_match w1"
    using kinds cache_piece_core [OF core] useDisk_core [OF core] by (simp add: kinds_match_def)
  ultimately obtain w2 where w2: "remove_loop env order rems w1 = Done w2" "accounted P w2"
    "frame w2 = frame w1" "kinds_match w2"
    "\<And>qid. cache_piece qid w2 = release_all (take (nat rems) order) qid (cache_piece qid w1)"
    using remove_loop_ok [of P w1 order rems env] acc free accounted_core [OF core]
      opened core_eq(5) [OF core] rems by auto
  define w' where "w' = recordCleanedBytes (i64 (c_filled (w_cache w) - c_filled (w_cache w2))) w2"
  have cw': "core w' = core w2" by (simp add: w'_def)
  have fits: "i64 (c_filled (w_cache w) - c_filled (w_cache w2)) = c_filled (w_cache w) - c_filled (w_cache w2)"
    using accounted_bounds(1) [OF acc] accounted_bounds(1) [OF w2(2)]
    by (intro i64_id) (simp add: fits_i64_def max_piece_def)
  have cand: "candidates env w0 = candidates env w" using w0 by (rule candidates_cong)
  have rems1: "go_div (i64 (c_filled (w_cache w) - c_capacity (w_cache w))) (c_pieceLength (w_cache w1)) + 1 = rems"
    using core_eq(3) [OF core] by (simp add: rems_def)
  have "cleanPiecesPass env w = Done (c_filled (w_cache w') < c_filled (w_cache w), w')"
    unfolding cleanPiecesPass_def GetCapacity_def option.case Let_def w0_def [symmetric] rem split cand rems1
      order_def [symmetric] w2(1) bind_outcome.simps fits
    using over len fits by (simp add: w'_def)
  moreover have "victims env w = take (nat rems) order"
  proof -
    have "piece_accessed w1 = piece_accessed w"
      using cache_piece_core [OF core] by (simp add: piece_accessed_def fun_eq_iff)
    then show ?thesis by (simp add: victims_def rems_def order_def)
  qed
  moreover have "kinds_match w'"
    using w2(4) cache_piece_core [OF cw'] useDisk_core [OF cw'] by (simp add: kinds_match_def)
  moreover have "frame w' = frame w1" using w2(3) by (simp add: w'_def frame_neutral)
  moreover have "useDisk w1 = useDisk w" by (rule useDisk_core [OF core])
  ultimately show thesis
    using that [of w'] w2(2,5) accounted_core [OF cw'] cache_piece_core [OF cw'] cache_piece_core [OF core]
      core_eq(2,5) [OF core] frame_simps [of w' w1] rd refreshed_cong(1) [OF w0(2)] by simp
qed

text \<open>A pass that returns does what it does when no mutex is held.\<close>

lemma remove_loop_held: "remove_loop env pids rems w = Done w' \<Longrightarrow> remove_loop (env\<lparr>ce_held := {}\<rparr>) pids rems w = Done w'"
proof (induction pids arbitrary: rems w)
  case (Cons pid pids)
  from Cons.prems obtain u where u: "removePiece env pid w = Done u"
    "(if rems - 1 \<le> 0 then Done u else remove_loop env pids (rems - 1) u) = Done w'"
    by (auto simp: bind_outcome_Done Let_def)
  then have "removePiece (env\<lparr>ce_held := {}\<rparr>) pid w = Done u" by (auto simp: removePiece_def split: if_splits)
  with u(2) Cons.IH show ?case by (auto simp: Let_def split: if_splits)
qed simp

lemma pass_held:
  assumes "cleanPiecesPass env w = Done (progress, w')"
  shows "cleanPiecesPass (env\<lparr>ce_held := {}\<rparr>) w = Done (progress, w')"
proof (cases "c_filled (w_cache w) \<le> c_capacity (w_cache w) \<or> c_pieceLength (w_cache w) = 0")
  case True
  then show ?thesis using assms by (simp add: cleanPiecesPass_def GetCapacity_def Let_def split: if_splits)
next
  case False
  have "getRemPieces (env\<lparr>ce_held := {}\<rparr>) w = getRemPieces env w" for w by (simp add: getRemPieces_def)
  with False assms show ?thesis
    by (auto simp: cleanPiecesPass_def GetCapacity_def Let_def bind_outcome_Done split_beta
        intro!: remove_loop_held)
qed

lemma pass_done:
  assumes "accounted P w" "kinds_match w" "\<not> c_isClosed (w_cache w)"
    "c_capacity (w_cache w) < c_filled (w_cache w)" "0 \<le> c_capacity (w_cache w)"
    and run: "cleanPiecesPass env w = Done (progress, w')"
  shows "progress = (c_filled (w_cache w') < c_filled (w_cache w))" "accounted P w'"
    "cache_piece qid w' = release_all (victims env w) qid (cache_piece qid w)"
    "kinds_match w'" "c_isClosed (w_cache w') = c_isClosed (w_cache w)"
    "c_capacity (w_cache w') = c_capacity (w_cache w)"
    "c_readers (w_cache w') = c_readers (w_cache (refreshed (ce_now env) (ce_atStart env) (ce_readers env) w))"
proof -
  let ?free = "env\<lparr>ce_held := {}\<rparr>"
  have same: "victims ?free w = victims env w" by (simp add: victims_def candidates_def protected_def)
  obtain v where v: "cleanPiecesPass ?free w = Done (c_filled (w_cache v) < c_filled (w_cache w), v)" "accounted P v"
    "\<And>qid. cache_piece qid v = release_all (victims env w) qid (cache_piece qid w)"
    "kinds_match v" "c_isClosed (w_cache v) = c_isClosed (w_cache w)"
    "c_capacity (w_cache v) = c_capacity (w_cache w)"
    "c_readers (w_cache v) = c_readers (w_cache (refreshed (ce_now env) (ce_atStart env) (ce_readers env) w))"
    by (rule pass_result [OF assms(1-5), of ?free]) (simp_all add: same)
  note run = pass_held [OF run]
  have "v = w'" "progress = (c_filled (w_cache v) < c_filled (w_cache w))" using v(1) run by simp_all
  then show "progress = (c_filled (w_cache w') < c_filled (w_cache w))" "accounted P w'"
    "cache_piece qid w' = release_all (victims env w) qid (cache_piece qid w)"
    "kinds_match w'" "c_isClosed (w_cache w') = c_isClosed (w_cache w)"
    "c_capacity (w_cache w') = c_capacity (w_cache w)"
    "c_readers (w_cache w') = c_readers (w_cache (refreshed (ce_now env) (ce_atStart env) (ce_readers env) w))"
    using v by auto
qed

section \<open>A concrete cache\<close>

definition full_piece :: "int \<Rightarrow> piece" where
  "full_piece accessed = \<lparr>pc_disk = False, pc_Size = 5, pc_Complete = True, pc_Accessed = accessed,
     pc_chunks = Some [Some [1, 2, 3, 4, 5]]\<rparr>"

definition full_world :: "(nat \<rightharpoonup> reader) \<Rightarrow> world" where
  "full_world rs = new_world ((NewCache 6 None)\<lparr>c_pieceLength := 5, c_pieceCount := 2, c_filled := 10,
     c_pieces := Some [0 \<mapsto> full_piece 3, 1 \<mapsto> full_piece 9], c_resident := Some {0, 1},
     c_readers := Some rs,
     c_metrics := zero_metrics\<lparr>cm_residentPieces := 2, cm_inMemoryChunks := 2\<rparr>\<rparr>)"

definition demo_env :: clean_env where
  "demo_env = \<lparr>ce_now = 1000000000, ce_atStart = (\<lambda>_. False), ce_readers = [7], ce_pieces = [1, 0], ce_prio = (\<lambda>_. PiecePriorityNone), ce_held = {}\<rparr>"

lemma full_piece_wf: "piece_wf 5 (full_piece a)"
proof -
  have "nchunks 5 = 1" "chunk_len 5 0 = 5" by (simp_all add: nchunks_def chunk_len_def)
  then show ?thesis
    by (simp add: piece_wf_def full_piece_def p_bytes_def chunk_bytes_def wf_chunks_def)
qed

lemma full_world_accounted: "accounted 5 (full_world rs)" "kinds_match (full_world rs)"
proof -
  have dom: "dom [0 \<mapsto> full_piece 3, 1 \<mapsto> full_piece 9] = {0, 1 :: int}" by auto
  have res: "resident_of [0 \<mapsto> full_piece 3, 1 \<mapsto> full_piece 9] = {0, 1}"
    by (auto simp: resident_of_def full_piece_def)
  show "accounted 5 (full_world rs)"
    unfolding accounted_def
    by (auto simp: full_world_def NewCache_def zero_metrics_def pool_ok_def dom res max_piece_def
        piece_total_def full_piece_wf p_count_def chunk_count_def split: if_splits)
      (simp_all add: full_piece_def chunk_count_def)
  show "kinds_match (full_world rs)"
    by (auto simp: kinds_match_def full_world_def NewCache_def cache_piece_def full_piece_def useDisk_def
        currentCacheConfig_def BTSets_CacheConfig_def zero_CacheConfig_def split: if_splits)
qed

lemma full_world_simps [simp]:
  "c_isClosed (w_cache (full_world rs)) = False" "c_capacity (w_cache (full_world rs)) = 6"
  "c_filled (w_cache (full_world rs)) = 10" "c_readers (w_cache (full_world rs)) = Some rs"
  "c_pieceLength (w_cache (full_world rs)) = 5" "c_resident (w_cache (full_world rs)) = Some {0, 1}"
  "cache_piece pid (full_world rs) = (if pid = 0 then Some (full_piece 3) else if pid = 1 then Some (full_piece 9) else None)"
  "reader_at (full_world rs) rid = rs rid"
  by (simp_all add: full_world_def NewCache_def cache_piece_def reader_at_def)

lemma full_world_pass:
  obtains w' progress where "cleanPiecesPass demo_env (full_world rs) = Done (progress, w')"
  by (rule pass_result [OF full_world_accounted, of rs demo_env]) (auto simp: demo_env_def)

section \<open>Properties of a pass\<close>

lemma window_of_active:
  assumes "rid \<in> set (ce_readers env)" "reader_ok (w_cache w) r" "rd_isUse r"
    "reader_at (refreshed (ce_now env) (ce_atStart env) (ce_readers env) w) rid = Some r"
    "reader_at w rid \<noteq> None"
  shows "protected env w (getReaderPiece (w_cache w) r)"
proof -
  let ?w0 = "refreshed (ce_now env) (ce_atStart env) (ce_readers env) w"
  let ?n = "active_count ?w0 (copyReaders (ce_readers env) w)"
  have core: "core ?w0 = core w" by simp
  have "reader_ok (w_cache ?w0) r" using assms(2) core_eq(2,3) [OF core] by (simp add: reader_ok_def)
  then have "covers (fst (getPiecesRangeForReaders ?n r ?w0)) (getReaderPiece (w_cache w) r)"
    using window_contains_position [of ?w0 r ?n] range_core(2) [OF core] by (simp add: active_count_def)
  moreover have "fst (getPiecesRangeForReaders ?n r ?w0)
      \<in> set (active_windows (ce_now env) (ce_atStart env) (ce_readers env) w)"
    using assms by (force simp: active_windows_def Let_def reader_active_def copyReaders_def)
  ultimately show ?thesis by (auto simp: protected_def inRanges_iff)
qed

lemma check_at_dom: "reader_at w rid = None \<Longrightarrow> reader_at (check_at t a n w q) rid = None"
  by (auto simp: reader_at_def check_at_readers split: option.splits)

lemma refreshed_dom: "reader_at w rid = None \<Longrightarrow> reader_at (refreshed t a ord w) rid = None"
proof -
  assume "reader_at w rid = None"
  then have "reader_at (foldl (check_at t a n) w rids) rid = None" for n rids
    by (induction rids arbitrary: w) (simp_all add: check_at_dom)
  then show ?thesis by (simp add: refreshed_def)
qed

lemma victims_candidates: "pid \<in> set (victims env w) \<Longrightarrow> pid \<in> set (candidates env w)"
  by (auto simp: victims_def dest: in_set_takeD)

lemma spares:
  assumes "accounted P w" "kinds_match w" "\<not> c_isClosed (w_cache w)" "0 \<le> c_capacity (w_cache w)"
    "cleanPiecesPass env w = Done (progress, w')" "protected env w pid"
  shows "cache_piece pid w' = cache_piece pid w"
proof (cases "c_capacity (w_cache w) < c_filled (w_cache w)")
  case True
  have "pid \<notin> set (victims env w)" using assms(6) victims_candidates [of pid env w] by (auto simp: candidates_def)
  then show ?thesis using pass_done(3) [OF assms(1-3) True assms(4,5), of pid] by (simp add: release_all_def)
qed (use assms(5) in \<open>simp add: cleanPiecesPass_def GetCapacity_def Let_def\<close>)

text \<open>
  Property C3. A cleanup pass never evicts the piece an active reader is at: whatever the order in
  which readers and pieces are visited, for every reader that is active after the pass (idle ones are
  demoted by it) and whose position is inside its file, the piece at that position is left exactly
  as it was, and so is every piece that the readers' windows or the head and tail of their
  files protect.
\<close>

theorem cleanup_spares_readers:
  assumes "accounted P w" "kinds_match w" "\<not> c_isClosed (w_cache w)" "0 \<le> c_capacity (w_cache w)"
    "cleanPiecesPass env w = Done (progress, w')" "c_capacity (w_cache w) < c_filled (w_cache w)"
    "rid \<in> set (ce_readers env)" "reader_at w' rid = Some r" "rd_isUse r" "reader_ok (w_cache w) r"
  shows "cache_piece (getReaderPiece (w_cache w) r) w' = cache_piece (getReaderPiece (w_cache w) r) w
    \<and> (\<forall>pid. protected env w pid \<longrightarrow> cache_piece pid w' = cache_piece pid w)"
proof -
  have "c_readers (w_cache w') = c_readers (w_cache (refreshed (ce_now env) (ce_atStart env) (ce_readers env) w))"
    by (rule pass_done(7) [OF assms(1-3,6,4,5)])
  then have at: "reader_at (refreshed (ce_now env) (ce_atStart env) (ce_readers env) w) rid = Some r"
    using assms(8) by (simp add: reader_at_def)
  then have "reader_at w rid \<noteq> None"
    using refreshed_dom [of w rid "ce_now env" "ce_atStart env" "ce_readers env"] by auto
  then have "protected env w (getReaderPiece (w_cache w) r)"
    using assms(7,9,10) at by (intro window_of_active)
  with spares [OF assms(1-5)] show ?thesis by blast
qed

definition sitting_reader :: reader where
  "sitting_reader = \<lparr>rd_offset = 2, rd_readahead = 0, rd_created = 0,
     rd_file = Some \<lparr>tf_Offset = 0, tf_Length = 10\<rparr>, rd_isClosed = False, rd_lastAccess = 1, rd_isUse = True\<rparr>"

theorem cleanup_spares_readers_witness:
  "\<exists>progress w'. cleanPiecesPass demo_env (full_world [7 \<mapsto> sitting_reader]) = Done (progress, w')
     \<and> cache_piece 0 w' = Some (full_piece 3)"
proof -
  let ?w = "full_world [7 \<mapsto> sitting_reader]"
  obtain w' progress where run: "cleanPiecesPass demo_env ?w = Done (progress, w')" by (rule full_world_pass)
  have idle: "readerIdleDuration 1000000000 1 = 0" by (simp add: readerIdleDuration_def time_sub_def)
  have "copyReaders [7] ?w = [7]" by (simp add: copyReaders_def)
  then have "c_readers (w_cache (refreshed 1000000000 (\<lambda>_. False) [7] ?w)) = Some [7 \<mapsto> sitting_reader]"
    by (simp add: refreshed_def check_at_readers checkReader_def sitting_reader_def idle
        readerOnLocked_def readerIdleDemotionThreshold_def)
  then have rd: "reader_at w' 7 = Some sitting_reader"
    using pass_done(7) [OF full_world_accounted, of "[7 \<mapsto> sitting_reader]" demo_env progress w'] run
    by (simp add: demo_env_def reader_at_def)
  have "getReaderPiece (w_cache ?w) sitting_reader = 0"
    by (simp add: getReaderPiece_def getPieceNum_def sitting_reader_def i64_id fits_i64_def go_div_pos)
  moreover have "reader_ok (w_cache ?w) sitting_reader" by (simp add: reader_ok_def sitting_reader_def)
  ultimately have "cache_piece 0 w' = Some (full_piece 3)"
    using cleanup_spares_readers [OF full_world_accounted _ _ run _ _ rd]
    by (simp add: demo_env_def sitting_reader_def)
  with run show ?thesis by blast
qed

lemma sorted_take_drop:
  assumes "sorted (map f xs)" "a \<in> set (take n xs)" "b \<in> set (drop n xs)"
  shows "f a \<le> (f b :: 'b :: linorder)"
proof -
  have "sorted (map f (take n xs) @ map f (drop n xs))" using assms(1) by (simp flip: map_append)
  then show ?thesis using assms(2,3) by (auto simp: sorted_append)
qed

text \<open>
  Property C4. A pass evicts in least recently used order: when a piece is evicted and another
  resident one that nothing protects is kept, the evicted one was not accessed later, whatever
  order the map of resident pieces is visited in.
\<close>

theorem cleanup_lru:
  assumes "accounted P w" "kinds_match w" "\<not> c_isClosed (w_cache w)" "0 \<le> c_capacity (w_cache w)"
    "cleanPiecesPass env w = Done (progress, w')"
    "piece_size w a \<noteq> 0" "piece_size w' a = 0"
    "b \<in> set (copyResidentPieces (ce_pieces env) w)" "piece_size w' b \<noteq> 0" "\<not> protected env w b"
  shows "piece_accessed w a \<le> piece_accessed w b"
proof (cases "c_capacity (w_cache w) < c_filled (w_cache w)")
  case False
  then show ?thesis using assms(5-7) by (simp add: cleanPiecesPass_def GetCapacity_def Let_def)
next
  case True
  have get: "cache_piece pid w' = release_all (victims env w) pid (cache_piece pid w)" for pid
    by (rule pass_done(3) [OF assms(1-3) True assms(4,5)])
  have a: "a \<in> set (victims env w)" using assms(6,7) get [of a]
    by (auto simp: piece_size_def release_all_def split: if_splits)
  have b: "b \<notin> set (victims env w)" "piece_size w b \<noteq> 0" using assms(9) get [of b]
    by (auto simp: piece_size_def release_all_def released_def split: if_splits option.splits)
  then have "b \<in> set (candidates env w)" using assms(8,10) by (simp add: candidates_def)
  then have "b \<in> set (sort_key (piece_accessed w) (candidates env w))" by simp
  with b(1) a show ?thesis
    unfolding victims_def
    by (metis (no_types, lifting) UnE append_take_drop_id set_append sorted_sort_key sorted_take_drop)
qed


lemma no_reader_windows: "active_windows now a ord (full_world Map.empty) = []"
  by (simp add: active_windows_def refreshed_def copyReaders_def)

lemma demo_candidates: "candidates demo_env (full_world Map.empty) = [1, 0]"
  by (simp add: candidates_def protected_def no_reader_windows mergeRange_def isIDInFileBEFast_def
      copyResidentPieces_def piece_size_def demo_env_def full_piece_def)

lemma demo_victims: "victims demo_env (full_world Map.empty) = [0]"
  by (simp add: victims_def demo_candidates piece_accessed_def full_piece_def i64_id fits_i64_def go_div_pos
      sort_key_def)

theorem cleanup_lru_witness:
  "piece_accessed (full_world Map.empty) 0 \<le> piece_accessed (full_world Map.empty) 1"
proof -
  obtain w' progress where run: "cleanPiecesPass demo_env (full_world Map.empty) = Done (progress, w')"
    by (rule full_world_pass)
  have get: "cache_piece qid w' = release_all [0] qid (cache_piece qid (full_world Map.empty))" for qid
    using pass_done(3) [OF full_world_accounted, of Map.empty demo_env progress w' qid] run demo_victims by simp
  show ?thesis
    by (rule cleanup_lru [OF full_world_accounted _ _ run])
      (simp_all add: get piece_size_def release_all_def released_def full_piece_def demo_env_def
        copyResidentPieces_def protected_def no_reader_windows mergeRange_def isIDInFileBEFast_def)
qed

section \<open>How much a pass frees\<close>

lemma total_mono:
  assumes "finite (dom m)" "dom m' = dom m" "\<And>pid. pid \<in> dom m \<Longrightarrow> f (the (m' pid)) \<le> f (the (m pid))"
  shows "piece_total f m' \<le> piece_total f m"
  unfolding piece_total_def assms(2) by (rule sum_mono) (rule assms(3))

lemma total_released:
  assumes "finite (dom m)" "set vs \<subseteq> dom m" "distinct vs" "dom m' = dom m"
    "\<And>pid. m' pid = release_all vs pid (m pid)"
  shows "piece_total pc_Size m' = piece_total pc_Size m - (\<Sum>pid\<leftarrow>vs. pc_Size (the (m pid)))"
proof -
  have "piece_total pc_Size m' = (\<Sum>pid \<in> dom m. if pid \<in> set vs then 0 else pc_Size (the (m pid)))"
    unfolding piece_total_def assms(4) using assms(5)
    by (intro sum.cong) (auto simp: release_all_def released_def)
  also have "\<dots> = (\<Sum>pid \<in> dom m - set vs. pc_Size (the (m pid)))"
    using assms(1) by (simp add: sum.If_cases Diff_eq)
  also have "\<dots> = piece_total pc_Size m - (\<Sum>pid \<in> set vs. pc_Size (the (m pid)))"
    unfolding piece_total_def using assms(1,2) by (simp add: sum_diff)
  finally show ?thesis using assms(3) by (simp add: sum_list_distinct_conv_sum_set)
qed

lemma pass_freed:
  assumes "accounted P w" "kinds_match w" "\<not> c_isClosed (w_cache w)"
    "c_capacity (w_cache w) < c_filled (w_cache w)" "0 \<le> c_capacity (w_cache w)"
    "cleanPiecesPass env w = Done (progress, w')" "distinct (ce_pieces env)"
  shows "c_filled (w_cache w') = c_filled (w_cache w) - (\<Sum>pid\<leftarrow>victims env w. piece_size w pid)"
proof -
  note pd = pass_done [OF assms(1-6)]
  obtain m where m: "c_pieces (w_cache w) = Some m" "finite (dom m)" "c_filled (w_cache w) = piece_total pc_Size m"
    using assms(1) by (auto simp: accounted_def)
  obtain m' where m': "c_pieces (w_cache w') = Some m'" "c_filled (w_cache w') = piece_total pc_Size m'"
    using pd(2) by (auto simp: accounted_def)
  have get: "m' pid = release_all (victims env w) pid (m pid)" for pid
    using pd(3) [of pid] m(1) m'(1) by (simp add: cache_piece_def)
  then have "dom m' = dom m" by (auto simp: dom_def release_all_def split: if_splits)
  moreover have sub: "set (victims env w) \<subseteq> dom m"
    using candidates_present victims_candidates m(1) by (fastforce simp: cache_piece_def)
  moreover have "distinct (victims env w)"
    using assms(7) by (simp add: victims_def candidates_def copyResidentPieces_def split: option.split)
  ultimately have "piece_total pc_Size m' = piece_total pc_Size m - (\<Sum>pid\<leftarrow>victims env w. pc_Size (the (m pid)))"
    using m(2) get by (intro total_released) auto
  moreover have "map (\<lambda>pid. pc_Size (the (m pid))) (victims env w) = map (piece_size w) (victims env w)"
    using sub m(1) by (auto simp: piece_size_def cache_piece_def)
  ultimately show ?thesis using m(3) m'(2) by simp
qed

text \<open>
  Property C5. One pass is enough when enough can go: if the pieces that may be evicted are full and
  together hold more than the excess, the cache is within its capacity after the pass, whatever
  order the maps are visited in.
\<close>

theorem cleanup_reaches_capacity:
  assumes "accounted P w" "kinds_match w" "\<not> c_isClosed (w_cache w)"
    "c_capacity (w_cache w) < c_filled (w_cache w)" "0 \<le> c_capacity (w_cache w)"
    "cleanPiecesPass env w = Done (progress, w')" "distinct (ce_pieces env)"
    "\<forall>pid \<in> set (candidates env w). piece_size w pid = int P"
    "c_filled (w_cache w) - c_capacity (w_cache w) < int (length (candidates env w)) * int P"
  shows "c_filled (w_cache w') \<le> c_capacity (w_cache w)"
proof -
  let ?over = "c_filled (w_cache w) - c_capacity (w_cache w)"
  have P: "c_pieceLength (w_cache w) = int P" "0 < P" using assms(1) by (auto simp: accounted_def)
  have "i64 ?over = ?over"
    using assms(4,5) accounted_bounds(1) [OF assms(1)] by (intro i64_id) (simp add: fits_i64_def max_piece_def)
  then have rems: "go_div (i64 ?over) (c_pieceLength (w_cache w)) + 1 = ?over div int P + 1"
    using P assms(4) by (simp add: go_div_pos)
  have len: "length (victims env w) = min (length (candidates env w)) (nat (?over div int P + 1))"
    by (simp add: victims_def rems)
  have d: "?over < (?over div int P + 1) * int P"
    unfolding distrib_right mult_1
    using pos_mod_bound [of "int P" ?over] div_mult_mod_eq [of ?over "int P"] P(2) by linarith
  have "(\<Sum>pid\<leftarrow>victims env w. piece_size w pid) = (\<Sum>pid\<leftarrow>victims env w. int P)"
    using assms(8) victims_candidates by (intro arg_cong [where f = sum_list] map_cong) auto
  also have "\<dots> = int (length (victims env w)) * int P" by (simp add: sum_list_triv)
  also have "\<dots> > ?over"
  proof (cases "length (candidates env w) \<le> nat (?over div int P + 1)")
    case True
    then show ?thesis using assms(9) len by simp
  next
    case False
    then have "int (length (victims env w)) = ?over div int P + 1"
      using len assms(4) P(2) by (simp add: pos_imp_zdiv_nonneg_iff)
    then show ?thesis using d by simp
  qed
  finally show ?thesis using pass_freed [OF assms(1-7)] by simp
qed

theorem cleanup_reaches_capacity_witness:
  "\<exists>progress w'. cleanPiecesPass demo_env (full_world Map.empty) = Done (progress, w') \<and> c_filled (w_cache w') \<le> 6"
proof -
  obtain w' progress where run: "cleanPiecesPass demo_env (full_world Map.empty) = Done (progress, w')"
    by (rule full_world_pass)
  have "c_filled (w_cache w') \<le> 6"
    using cleanup_reaches_capacity [OF full_world_accounted _ _ _ run] demo_candidates
    by (simp add: demo_env_def piece_size_def full_piece_def)
  with run show ?thesis by blast
qed

section \<open>The cleanup ends\<close>

lemma pass_shrinks:
  assumes "accounted P w" "kinds_match w" "\<not> c_isClosed (w_cache w)"
    "c_capacity (w_cache w) < c_filled (w_cache w)" "0 \<le> c_capacity (w_cache w)"
    "cleanPiecesPass env w = Done (progress, w')"
  shows "c_filled (w_cache w') \<le> c_filled (w_cache w)"
proof -
  note pd = pass_done [OF assms]
  obtain m where m: "c_pieces (w_cache w) = Some m" "finite (dom m)" "c_filled (w_cache w) = piece_total pc_Size m"
    "\<forall>pid p. m pid = Some p \<longrightarrow> piece_wf P p"
    using assms(1) by (auto simp: accounted_def)
  obtain m' where m': "c_pieces (w_cache w') = Some m'" "c_filled (w_cache w') = piece_total pc_Size m'"
    using pd(2) by (auto simp: accounted_def)
  have get: "m' pid = release_all (victims env w) pid (m pid)" for pid
    using pd(3) [of pid] m(1) m'(1) by (simp add: cache_piece_def)
  then have "dom m' = dom m" by (auto simp: dom_def release_all_def split: if_splits)
  then show ?thesis unfolding m(3) m'(2)
    by (rule total_mono [OF m(2)]) (use get m(4) in \<open>auto simp: release_all_def released_def piece_wf_def\<close>)
qed

lemma clean_loop_ends:
  assumes "accounted P w" "kinds_match w" "\<not> c_isClosed (w_cache w)" "0 \<le> c_capacity (w_cache w)"
    "nat (c_filled (w_cache w)) < length rounds" "\<forall>round \<in> set rounds. ce_held (fst round) = {}"
  shows "\<exists>w'. clean_loop rounds w = Done w' \<and> accounted P w' \<and> kinds_match w'
    \<and> \<not> cl_running (c_cleanup (w_cache w')) \<and> c_filled (w_cache w') \<le> c_filled (w_cache w)"
  using assms
proof (induction rounds arbitrary: w)
  case (Cons round rounds)
  define req where "req v = (if snd round then upd_cleanup (\<lambda>s. s\<lparr>cl_pending := True\<rparr>) v else v)" for v
  have req: "core (req v) = core v" for v by (simp add: req_def)
  have kinds: "kinds_match v = kinds_match u" if "core v = core u" for u v
    using cache_piece_core [OF that] useDisk_core [OF that] by (simp add: kinds_match_def)
  have nonneg: "0 \<le> c_filled (w_cache w)" using accounted_bounds(1) [OF Cons.prems(1)] by simp
  have loop: "clean_loop (round # rounds) w = bind_outcome (cleanPiecesPass (fst round) w) (\<lambda>(madeProgress, v).
      if madeProgress \<and> cl_pending (c_cleanup (w_cache (req v))) \<and> needsCleanup (w_cache (req v))
      then clean_loop rounds (upd_cleanup (\<lambda>s. s\<lparr>cl_pending := False\<rparr>) (req v))
      else Done (upd_cleanup (\<lambda>s. s\<lparr>cl_running := False, cl_pending := False\<rparr>) (req v)))"
    unfolding clean_loop_Cons req_def Let_def by (rule refl)
  have stop: "\<exists>w'. Done (upd_cleanup (\<lambda>s. s\<lparr>cl_running := False, cl_pending := False\<rparr>) (req v)) = Done w'
      \<and> accounted P w' \<and> kinds_match w' \<and> \<not> cl_running (c_cleanup (w_cache w')) \<and> c_filled (w_cache w') \<le> c_filled (w_cache w)"
    if "accounted P v" "kinds_match v" "c_filled (w_cache v) \<le> c_filled (w_cache w)" for v
  proof -
    let ?v = "upd_cleanup (\<lambda>s. s\<lparr>cl_running := False, cl_pending := False\<rparr>) (req v)"
    have c: "core ?v = core v" by (simp add: req)
    show ?thesis using that accounted_core [OF c] kinds [OF c] core_eq(7) [OF c] by auto
  qed
  show ?case
  proof (cases "c_capacity (w_cache w) < c_filled (w_cache w)")
    case False
    then have "cleanPiecesPass (fst round) w = Done (False, w)"
      by (simp add: cleanPiecesPass_def GetCapacity_def Let_def)
    then show ?thesis unfolding loop using stop Cons.prems by simp
  next
    case True
    obtain v where v: "cleanPiecesPass (fst round) w = Done (c_filled (w_cache v) < c_filled (w_cache w), v)"
      by (rule pass_result [OF Cons.prems(1-3) True Cons.prems(4), of "fst round"])
        (use Cons.prems(6) in simp)
    note pd = pass_done [OF Cons.prems(1-3) True Cons.prems(4) v]
      and le = pass_shrinks [OF Cons.prems(1-3) True Cons.prems(4) v]
    show ?thesis
    proof (cases "c_filled (w_cache v) < c_filled (w_cache w) \<and> cl_pending (c_cleanup (w_cache (req v)))
        \<and> needsCleanup (w_cache (req v))")
      case False
      show ?thesis unfolding loop v bind_outcome.simps split if_not_P [OF False]
        by (rule stop [OF pd(2,4) le])
    next
      case again: True
      let ?u = "upd_cleanup (\<lambda>s. s\<lparr>cl_pending := False\<rparr>) (req v)"
      have c: "core ?u = core v" by (simp add: req)
      have "nat (c_filled (w_cache ?u)) < length rounds"
        using again [THEN conjunct1] Cons.prems(4,5) True core_eq(7) [OF c] by simp
      then obtain w' where "clean_loop rounds ?u = Done w'" "accounted P w'" "kinds_match w'"
        "\<not> cl_running (c_cleanup (w_cache w'))" "c_filled (w_cache w') \<le> c_filled (w_cache ?u)"
        using Cons.IH [of ?u] accounted_core [OF c] kinds [OF c] core_eq(2,5) [OF c] pd Cons.prems(3,4,6) by auto
      then show ?thesis unfolding loop v bind_outcome.simps split if_P [OF again]
        using le core_eq(7) [OF c] by auto
    qed
  qed
qed simp

text \<open>
  A call in one piece, by a goroutine that holds no piece mutex and finds no cleanup running, returns and never fails,
  however often other goroutines ask for another pass meanwhile.
\<close>

lemma CleanPieces_returns:
  assumes "accounted P w" "kinds_match w" "0 \<le> c_capacity (w_cache w)"
    "\<not> cl_running (c_cleanup (w_cache w))" "nat (c_filled (w_cache w)) < length rounds"
    "\<forall>round \<in> set rounds. ce_held (fst round) = {}"
  shows "\<exists>w'. CleanPieces rounds w = Done w' \<and> accounted P w' \<and> kinds_match w'
    \<and> \<not> cl_running (c_cleanup (w_cache w')) \<and> c_filled (w_cache w') \<le> c_filled (w_cache w)"
proof (cases "c_isClosed (w_cache w) \<or> \<not> needsCleanup (w_cache w)")
  case True
  then show ?thesis using assms by (simp add: CleanPieces_alt)
next
  case False
  let ?u = "upd_cleanup (\<lambda>s. s\<lparr>cl_running := True, cl_pending := False\<rparr>) w"
  have c: "core ?u = core w" by simp
  have "kinds_match ?u" using assms(2) cache_piece_core [OF c] useDisk_core [OF c] by (simp add: kinds_match_def)
  then have "\<exists>w'. clean_loop rounds ?u = Done w' \<and> accounted P w' \<and> kinds_match w'
    \<and> \<not> cl_running (c_cleanup (w_cache w')) \<and> c_filled (w_cache w') \<le> c_filled (w_cache ?u)"
    using assms False accounted_core [OF c] by (intro clean_loop_ends) simp_all
  then show ?thesis using assms(4) False by (simp add: CleanPieces_alt)
qed

end
