(* ===== verification/Piece_Store.thy ===== *)
theory Piece_Store
  imports Cleanup_Props
begin

text \<open>
  Pieces as the torrent library sees them (torrstor/piece.go, diskpiece.go, piecefake.go): the
  dispatch to a memory or a disk piece, the disk piece itself and the stand-in for an unknown index.

  What the operating system answers is an argument. An error of Go is an option of \<open>io_error\<close>.
\<close>

section \<open>Disk pieces\<close>

datatype io_error = EOF | OsError | FakeError

text \<open>\<open>stat\<close> is the size and the modification time in seconds of the file, if there is one.\<close>

definition NewDiskPiece :: "(int \<times> int) option \<Rightarrow> int \<Rightarrow> world \<Rightarrow> world" where
  "NewDiskPiece stat pid w =
     (case stat of
        None \<Rightarrow> w
      | Some (fsize, mtime) \<Rightarrow>
          let len = c_pieceLength (w_cache w);
              fsize = (if fsize > len then len else fsize);
              w = upd_piece pid (\<lambda>p. p\<lparr>pc_Size := fsize\<rparr>) w;
              w = addFilled fsize w;
              w = (if fsize > 0 then markResidentPiece pid w else w)
          in upd_piece pid (\<lambda>p. p\<lparr>pc_Complete := (fsize = len), pc_Accessed := mtime\<rparr>) w)"

text \<open>Whether the file opened, its size if it could be read, and the results of write and close.\<close>

record disk_write =
  dw_open :: bool
  dw_stat :: "int option"
  dw_n :: int
  dw_err :: bool
  dw_closeErr :: bool

text \<open>The cleanup runs while the mutex of this piece is held.\<close>

definition holding :: "int \<Rightarrow> (clean_env \<times> bool) list \<Rightarrow> (clean_env \<times> bool) list" where
  "holding pid rounds = map (\<lambda>(env, req). (env\<lparr>ce_held := insert pid (ce_held env)\<rparr>, req)) rounds"

definition DiskPiece_WriteAt ::
    "(clean_env \<times> bool) list \<Rightarrow> int \<Rightarrow> disk_write \<Rightarrow> int \<Rightarrow> world \<Rightarrow> ((int \<times> io_error option) \<times> world) outcome" where
  "DiskPiece_WriteAt rounds now res pid w =
     (case cache_piece pid w of
        None \<Rightarrow> Panic
      | Some p \<Rightarrow>
          if \<not> dw_open res then Done ((0, Some OsError), w)
          else
            let isFirstWrite = (dw_stat res = None \<or> dw_stat res = Some 0);
                n = dw_n res;
                w = (if n > 0 then
                       let oldSize = pc_Size p;
                           newSize = i64 (oldSize + n);
                           newSize = (if newSize > c_pieceLength (w_cache w) then c_pieceLength (w_cache w) else newSize);
                           w = upd_piece pid (\<lambda>p. p\<lparr>pc_Size := newSize\<rparr>) w;
                           w = addFilled (newSize - oldSize) w
                       in if oldSize = 0 \<and> newSize > 0 then markResidentPiece pid w else w
                     else w);
                w = markAccessed (unix now) pid w;
                err = (if dw_err res \<or> dw_closeErr res then Some OsError else None)
            in if isFirstWrite \<and> \<not> dw_err res
               then bind_outcome (CleanPieces (holding pid rounds) w) (\<lambda>w. Done ((n, err), w))
               else Done ((n, err), w))"

datatype disk_open = Opened | NotExist | OpenFailed

text \<open>The error of the read itself is dropped: \<open>ReadAt\<close> returns nil with whatever length it got.\<close>

definition DiskPiece_ReadAt ::
    "int \<Rightarrow> disk_open \<Rightarrow> byte list \<Rightarrow> int \<Rightarrow> nat \<Rightarrow> int \<Rightarrow> world \<Rightarrow> ((byte list \<times> io_error option) \<times> world) outcome" where
  "DiskPiece_ReadAt now opn got pid len off w =
     (case cache_piece pid w of
        None \<Rightarrow> Panic
      | Some p \<Rightarrow>
          (case opn of
             NotExist \<Rightarrow> Done (([], Some EOF), w)
           | OpenFailed \<Rightarrow> Done (([], Some OsError), w)
           | Opened \<Rightarrow>
               let w = markAccessed (unix now) pid w;
                   w = (if i64 (int len + off) \<ge> pc_Size p then queueCleanPieces now w else w)
               in Done ((got, None), w)))"

section \<open>The piece\<close>

text \<open>\<open>NewPiece\<close> stores the piece in the map of the cache, as its only caller does.\<close>

definition NewPiece :: "(int \<times> int) option \<Rightarrow> int \<Rightarrow> world \<Rightarrow> world" where
  "NewPiece stat pid w =
     (let p = \<lparr>pc_disk = useDisk w, pc_Size = 0, pc_Complete = False, pc_Accessed = 0, pc_chunks = None\<rparr>;
          w = upd_cache (\<lambda>c. c\<lparr>c_pieces := map_option (\<lambda>m. m(pid \<mapsto> p)) (c_pieces c)\<rparr>) w
      in if useDisk w then NewDiskPiece stat pid w else w)"

text \<open>Both kinds of write and read, by the live settings; the wrong kind is a nil pointer.\<close>

definition Piece_WriteAt ::
    "nat \<Rightarrow> (clean_env \<times> bool) list \<Rightarrow> int \<Rightarrow> disk_write \<Rightarrow> int \<Rightarrow> byte list \<Rightarrow> int \<Rightarrow> world
     \<Rightarrow> ((int \<times> io_error option) \<times> world) outcome" where
  "Piece_WriteAt fuel rounds now res pid b off w =
     (case cache_piece pid w of
        None \<Rightarrow> Panic
      | Some p \<Rightarrow>
          if useDisk w \<noteq> pc_disk p then Panic
          else if \<not> useDisk w
          then bind_outcome (MemPiece_WriteAt fuel now pid b off w) (\<lambda>(n, w). Done ((n, None), w))
          else DiskPiece_WriteAt rounds now res pid w)"

definition Piece_ReadAt ::
    "int \<Rightarrow> disk_open \<Rightarrow> byte list \<Rightarrow> int \<Rightarrow> nat \<Rightarrow> int \<Rightarrow> world \<Rightarrow> ((byte list \<times> io_error option) \<times> world) outcome" where
  "Piece_ReadAt now opn got pid len off w =
     (case cache_piece pid w of
        None \<Rightarrow> Panic
      | Some p \<Rightarrow>
          if useDisk w \<noteq> pc_disk p then Panic
          else if \<not> useDisk w
          then bind_outcome (MemPiece_ReadAt now pid len off w)
                 (\<lambda>((data, eof), w). Done ((data, if eof then Some EOF else None), w))
          else DiskPiece_ReadAt now opn got pid len off w)"

definition MarkComplete :: "int \<Rightarrow> world \<Rightarrow> world" where
  "MarkComplete pid w = upd_piece pid (\<lambda>p. p\<lparr>pc_Complete := True\<rparr>) w"

definition MarkNotComplete :: "int \<Rightarrow> world \<Rightarrow> world" where
  "MarkNotComplete pid w = upd_piece pid (\<lambda>p. p\<lparr>pc_Complete := False\<rparr>) w"

definition Completion :: "int \<Rightarrow> world \<Rightarrow> (bool \<times> bool) option" where
  "Completion pid w = map_option (\<lambda>p. (pc_Complete p, True)) (cache_piece pid w)"

section \<open>The stand-in for unknown pieces\<close>

definition PieceFake_ReadAt :: "int \<times> io_error option" where
  "PieceFake_ReadAt = (0, Some FakeError)"

definition PieceFake_WriteAt :: "int \<times> io_error option" where
  "PieceFake_WriteAt = (0, Some FakeError)"

definition PieceFake_MarkComplete :: "io_error option" where
  "PieceFake_MarkComplete = Some FakeError"

definition PieceFake_MarkNotComplete :: "io_error option" where
  "PieceFake_MarkNotComplete = Some FakeError"

definition PieceFake_Completion :: "bool \<times> bool" where
  "PieceFake_Completion = (False, True)"

section \<open>What writes and reads leave alone\<close>

definition kinds where
  "kinds w = (\<lambda>qid. map_option pc_disk (cache_piece qid w))"

lemma kinds_match_keep: "frame w' = frame w \<Longrightarrow> kinds w' = kinds w \<Longrightarrow> kinds_match w \<Longrightarrow> kinds_match w'"
proof -
  assume frame: "frame w' = frame w" and kinds: "kinds w' = kinds w" and match: "kinds_match w"
  have "pc_disk p = useDisk w'" if "cache_piece pid w' = Some p" for pid p
  proof -
    have "kinds w' pid = Some (pc_disk p)" using that by (simp add: kinds_def)
    then obtain q where "cache_piece pid w = Some q" "pc_disk q = pc_disk p"
      unfolding kinds by (auto simp: kinds_def)
    with match show ?thesis using frame_simps(6) [OF frame] by (auto simp: kinds_match_def)
  qed
  then show "kinds_match w'" by (simp add: kinds_match_def)
qed

lemma frame_more:
  "frame (markResidentPiece pid w) = frame w" "frame (queueCleanPieces t w) = frame w"
  "frame (markAccessed t pid w) = frame w" "frame (w\<lparr>w_pool := x\<rparr>) = frame w"
  "frame (upd_cleanup f w) = frame w"
  by (simp_all add: frame_def Let_def markAccessed_def upd_cleanup_def)

lemmas frames = frame_neutral frame_more upd_piece_readers frame_release

lemma kinds_pieces:
  "(\<And>p. pc_disk (f p) = pc_disk p) \<Longrightarrow> kinds (upd_piece pid f w) = kinds w"
  "kinds (markAccessed t pid w) = kinds w" "kinds (addFilled d w) = kinds w"
  "kinds (addInMemoryChunks d w) = kinds w" "kinds (markResidentPiece pid w) = kinds w"
  "kinds (queueCleanPieces t w) = kinds w" "kinds (w\<lparr>w_pool := x\<rparr>) = kinds w"
  by (auto simp: kinds_def fun_eq_iff option.map_comp o_def)

lemma newChunk_world: "\<exists>pool. snd (newChunk P i r b w) = w\<lparr>w_pool := pool\<rparr>"
proof -
  have same: "\<exists>pool. w = w\<lparr>w_pool := pool\<rparr>" by (rule exI [of _ "w_pool w"]) simp
  then have "\<exists>pool. snd (getMemPieceChunk w) = w\<lparr>w_pool := pool\<rparr>"
    by (cases "w_pool w") (auto simp: getMemPieceChunk_def)
  with same show ?thesis by (auto simp: newChunk_def Let_def split_beta)
qed

lemma write_chunks_frame:
  "write_chunks fuel P cs a n b off w = Done (cs', a', n', w') \<Longrightarrow> frame w' = frame w \<and> kinds w' = kinds w"
proof (induction fuel arbitrary: cs a n b off w)
  case (Suc fuel)
  obtain ch u where new: "newChunk P (go_div off memPieceChunkSize) (go_mod off memPieceChunkSize) b w = (ch, u)"
    by fastforce
  then obtain pool where "u = w\<lparr>w_pool := pool\<rparr>"
    using newChunk_world [of P "go_div off memPieceChunkSize" "go_mod off memPieceChunkSize" b w] by auto
  then have u: "frame (addInMemoryChunks 1 u) = frame w" "kinds (addInMemoryChunks 1 u) = kinds w"
    by (simp_all add: frames kinds_pieces)
  show ?case using Suc.prems u
    by (auto simp: write_chunks.simps Let_def new split: if_splits option.splits dest!: Suc.IH)
qed (auto simp: write_chunks.simps split: if_splits)

lemma mem_write_keeps:
  assumes "MemPiece_WriteAt fuel now pid b off w = Done (n, w')"
  shows "frame w' = frame w" "kinds w' = kinds w"
  using assms write_chunks_frame
  by (auto simp: MemPiece_WriteAt_def Let_def bind_outcome_Done frames kinds_pieces
      split: option.splits if_splits)

lemma accounted_touch:
  assumes acc: "accounted P w" and p: "cache_piece pid w = Some p"
    and f: "\<And>p. pc_Size (f p) = pc_Size p \<and> pc_chunks (f p) = pc_chunks p \<and> pc_disk (f p) = pc_disk p"
  shows "accounted P (upd_piece pid f w)"
proof -
  obtain m where m: "c_pieces (w_cache w) = Some m" "m pid = Some p" using p by (auto simp: cache_piece_Some)
  have wf: "piece_wf P p" using acc m by (auto simp: accounted_def)
  have "resident_of (m(pid \<mapsto> f p)) = resident_of m"
    using f m(2) by (auto simp: resident_of_def split: if_splits)
  then show ?thesis
    using accounted_resident [OF acc m(1)] f [of p] m wf acc
    by (intro accounted_update [OF acc m, of "f p"])
      (auto simp: piece_wf_def p_bytes_def p_count_def accounted_def)
qed

lemma accounted_queue [simp]: "accounted P (queueCleanPieces t w) = accounted P w"
  by (rule accounted_core) simp

lemma accounted_markAccessed:
  "accounted P w \<Longrightarrow> cache_piece pid w = Some p \<Longrightarrow> accounted P (markAccessed t pid w)"
  unfolding markAccessed_def by (rule accounted_touch) auto

lemma mem_read_keeps:
  assumes "MemPiece_ReadAt now pid len off w = Done (r, w')" "accounted P w"
  shows "accounted P w'" "frame w' = frame w" "kinds w' = kinds w"
  using assms
  by (auto simp: MemPiece_ReadAt_def Let_def split_beta frames kinds_pieces
      split: option.splits if_splits intro: accounted_markAccessed)

section \<open>Every operation keeps the accounting\<close>

definition books :: "nat \<Rightarrow> world \<Rightarrow> bool" where
  "books P w \<longleftrightarrow> accounted P w \<and> kinds_match w \<and> 0 \<le> c_capacity (w_cache w)"

lemma books_keep:
  "books P w \<Longrightarrow> accounted P w' \<Longrightarrow> frame w' = frame w \<Longrightarrow> kinds w' = kinds w \<Longrightarrow> books P w'"
  using frame_simps(2) [of w' w] kinds_match_keep [of w' w] by (simp add: books_def)

lemma books_core: "core w' = core w \<Longrightarrow> books P w' = books P w"
  using accounted_core [of w' w P] core_eq(2) [of w' w] cache_piece_core [of w' w] useDisk_core [of w' w]
  by (simp add: books_def kinds_match_def)

lemma books_pass:
  assumes "books P w" "\<not> c_isClosed (w_cache w)" "cleanPiecesPass env w = Done (progress, w')"
  shows "books P w' \<and> c_isClosed (w_cache w') = c_isClosed (w_cache w)"
proof (cases "c_capacity (w_cache w) < c_filled (w_cache w)")
  case True
  have "accounted P w" "kinds_match w" "0 \<le> c_capacity (w_cache w)" using assms(1) by (auto simp: books_def)
  from pass_done [OF this(1,2) assms(2) True this(3) assms(3)] \<open>0 \<le> c_capacity (w_cache w)\<close>
  show ?thesis by (simp add: books_def)
next
  case False
  then show ?thesis using assms by (simp add: cleanPiecesPass_def GetCapacity_def Let_def)
qed

lemma books_clean_loop:
  "books P w \<Longrightarrow> \<not> c_isClosed (w_cache w) \<Longrightarrow> clean_loop rounds w = Done w' \<Longrightarrow> books P w'"
proof (induction rounds arbitrary: w)
  case (Cons round rounds)
  from Cons.prems(3) obtain progress v where v: "cleanPiecesPass (fst round) w = Done (progress, v)"
    and rest: "(let u = (if snd round then upd_cleanup (\<lambda>s. s\<lparr>cl_pending := True\<rparr>) v else v) in
       if progress \<and> cl_pending (c_cleanup (w_cache u)) \<and> needsCleanup (w_cache u)
       then clean_loop rounds (upd_cleanup (\<lambda>s. s\<lparr>cl_pending := False\<rparr>) u)
       else Done (upd_cleanup (\<lambda>s. s\<lparr>cl_running := False, cl_pending := False\<rparr>) u)) = Done w'"
    by (auto simp: bind_outcome_Done)
  note pass = books_pass [OF Cons.prems(1,2) v]
  define u where "u = (if snd round then upd_cleanup (\<lambda>s. s\<lparr>cl_pending := True\<rparr>) v else v)"
  have u: "core (upd_cleanup f u) = core v" for f by (simp add: u_def)
  have bu: "books P (upd_cleanup f u)" "\<not> c_isClosed (w_cache (upd_cleanup f u))" for f
    using pass books_core [OF u] core_eq(5) [OF u] Cons.prems(2) by auto
  show ?case
    using rest bu(1) Cons.IH [OF bu(1) bu(2), of "\<lambda>s. s\<lparr>cl_pending := False\<rparr>"]
    unfolding u_def [symmetric] Let_def by (auto split: if_splits)
qed simp

lemma books_CleanPieces:
  assumes "books P w" "CleanPieces rounds w = Done w'" shows "books P w'"
proof -
  have "books P (upd_cleanup f w)" for f using assms(1) books_core [of "upd_cleanup f w" w] by simp
  then show ?thesis using assms
    by (auto simp: CleanPieces_alt split: if_splits intro: books_clean_loop [rotated 2])
qed

lemma disk_resize:
  assumes acc: "accounted P w" and p: "cache_piece pid w = Some p" "pc_disk p" and n: "0 \<le> s" "s \<le> int P"
    and w': "w' = (let w = addFilled (s - pc_Size p) (upd_piece pid (\<lambda>p. p\<lparr>pc_Size := s\<rparr>) w)
                   in if pc_Size p = 0 \<and> s > 0 then markResidentPiece pid w else w)"
    and grow: "pc_Size p \<le> s"
  shows "accounted P w'"
proof -
  obtain m where m: "c_pieces (w_cache w) = Some m" "m pid = Some p" using p by (auto simp: cache_piece_Some)
  note R = accounted_resident [OF acc m(1)] and g = release_gauges [OF acc m] and b = accounted_bounds [OF acc]
  have none: "pc_chunks p = None" using g(1) p(2) by (simp add: piece_wf_def)
  have P: "P \<le> max_piece"
  proof -
    have fin: "finite (dom m)" and c: "card (dom m) * P \<le> max_piece" using acc m(1) by (auto simp: accounted_def)
    have "pid \<in> dom m" using m(2) by auto
    then have "1 \<le> card (dom m)" using fin by (metis One_nat_def Suc_leI card_gt_0_iff empty_iff)
    then have "P \<le> card (dom m) * P" by simp
    with c show ?thesis by linarith
  qed
  let ?q = "p\<lparr>pc_Size := s\<rparr>"
  have fits: "fits_i64 (c_filled (w_cache w) + (s - pc_Size p))"
    using n b(1) g(2,4) P grow by (simp add: fits_i64_def max_piece_def)
  have filled: "c_filled (w_cache (addFilled (s - pc_Size p) (upd_piece pid (\<lambda>p. p\<lparr>pc_Size := s\<rparr>) w)))
      = c_filled (w_cache w) + (s - pc_Size p)"
    using fits b(1) grow by (simp add: addFilled_exact)
  show ?thesis
  proof (rule accounted_update [OF acc m])
    show "piece_wf P ?q" using g(1) p(2) n none by (simp add: piece_wf_def)
    show "c_pieces (w_cache w') = Some (m(pid \<mapsto> ?q))" using m by (simp add: w' Let_def)
    show "c_filled (w_cache w') = c_filled (w_cache w) + pc_Size ?q - pc_Size p"
      using filled by (auto simp: w' Let_def)
    show "cm_inMemoryChunks (w_metrics w') = cm_inMemoryChunks (w_metrics w) + int (p_count ?q) - int (p_count p)"
      by (simp add: w' Let_def p_count_def)
    show "c_resident (w_cache w') = Some (resident_of (m(pid \<mapsto> ?q)))"
      "cm_residentPieces (w_metrics w') = int (card (resident_of (m(pid \<mapsto> ?q))))"
      using R mark_exact g(2) grow in_resident [of m pid p, OF m(2)]
      by (auto simp: w' Let_def resident_update insert_absorb)
  qed (use acc in \<open>simp_all add: w' Let_def accounted_def\<close>)
qed

lemma books_disk_write:
  assumes books: "books P w" and run: "DiskPiece_WriteAt rounds now res pid w = Done (r, w')"
    and kind: "cache_piece pid w = Some p" "pc_disk p" and n: "dw_n res \<le> int P"
  shows "books P w'"
proof (cases "dw_open res")
  case False
  then show ?thesis using books run kind(1) by (simp add: DiskPiece_WriteAt_def)
next
  case True
  have acc: "accounted P w" using books by (simp add: books_def)
  have P: "c_pieceLength (w_cache w) = int P" "0 < P" using acc by (auto simp: accounted_def)
  have wf: "0 \<le> pc_Size p" "pc_Size p \<le> int P"
    using acc kind(1) by (auto simp: accounted_def cache_piece_Some piece_wf_def)
  define s where "s = (if i64 (pc_Size p + dw_n res) > int P then int P else i64 (pc_Size p + dw_n res))"
  define v where "v = (if dw_n res > 0 then
      let w = addFilled (s - pc_Size p) (upd_piece pid (\<lambda>p. p\<lparr>pc_Size := s\<rparr>) w)
      in if pc_Size p = 0 \<and> s > 0 then markResidentPiece pid w else w else w)"
  have v: "accounted P v \<and> frame v = frame w \<and> kinds v = kinds w \<and> cache_piece pid v \<noteq> None"
  proof (cases "dw_n res > 0")
    case n0: True
    have "mem_bound": "int P \<le> int max_piece"
    proof -
      obtain m where m: "c_pieces (w_cache w) = Some m" "m pid = Some p" "finite (dom m)" "card (dom m) * P \<le> max_piece"
        using acc kind(1) by (auto simp: accounted_def cache_piece_Some)
      then have "1 \<le> card (dom m)" by (metis One_nat_def Suc_leI card_gt_0_iff domI empty_iff)
      then have "P \<le> card (dom m) * P" by simp
      with m(4) show ?thesis by linarith
    qed
    then have "i64 (pc_Size p + dw_n res) = pc_Size p + dw_n res"
      using wf n n0 by (intro i64_id) (simp add: fits_i64_def max_piece_def)
    then have s: "0 \<le> s" "s \<le> int P" "pc_Size p \<le> s" using wf n0 by (auto simp: s_def)
    have "accounted P v"
      by (rule disk_resize [OF acc kind s(1,2) _ s(3)]) (use n0 in \<open>simp add: v_def\<close>)
    then show ?thesis using n0 kind(1) by (simp add: v_def Let_def frames kinds_pieces)
  qed (use acc kind(1) in \<open>simp add: v_def\<close>)
  then obtain q where q: "cache_piece pid v = Some q" by auto
  have bv: "books P (markAccessed (unix now) pid v)"
    using v accounted_markAccessed [of P v pid q, OF _ q] by (intro books_keep [OF books]) (auto simp: frames kinds_pieces)
  have run': "(if (dw_stat res = None \<or> dw_stat res = Some 0) \<and> \<not> dw_err res
      then bind_outcome (CleanPieces (holding pid rounds) (markAccessed (unix now) pid v))
        (\<lambda>w. Done ((dw_n res, if dw_err res \<or> dw_closeErr res then Some OsError else None), w))
      else Done ((dw_n res, if dw_err res \<or> dw_closeErr res then Some OsError else None),
        markAccessed (unix now) pid v)) = Done (r, w')"
    using run True kind(1) unfolding DiskPiece_WriteAt_def v_def s_def P(1) [symmetric] Let_def by simp
  then show ?thesis using bv books_CleanPieces [OF bv] by (auto simp: bind_outcome_Done split: if_splits)
qed

datatype piece_event =
    WriteEv nat "(clean_env \<times> bool) list" int disk_write int "byte list" nat
  | ReadEv int disk_open "byte list" int nat int
  | ReleaseEv "int \<Rightarrow> piece_priority" int
  | CleanEv "(clean_env \<times> bool) list"
  | CompleteEv int bool
  | QueueEv int

text \<open>A call that panics or never returns leaves no new state to the others here.\<close>

definition resulting :: "world \<Rightarrow> world outcome \<Rightarrow> world" where
  "resulting w r = (case r of Done w' \<Rightarrow> w' | _ \<Rightarrow> w)"

definition snd_outcome :: "('a \<times> world) outcome \<Rightarrow> world outcome" where
  "snd_outcome r = bind_outcome r (\<lambda>x. Done (snd x))"

fun piece_step :: "world \<Rightarrow> piece_event \<Rightarrow> world" where
  "piece_step w (WriteEv fuel rounds now res pid b off) =
     resulting w (snd_outcome (Piece_WriteAt fuel rounds now res pid b (int off) w))"
| "piece_step w (ReadEv now opn got pid len off) =
     resulting w (snd_outcome (Piece_ReadAt now opn got pid len off w))"
| "piece_step w (ReleaseEv prio pid) = resulting w (Piece_Release prio pid w)"
| "piece_step w (CleanEv rounds) = resulting w (CleanPieces rounds w)"
| "piece_step w (CompleteEv pid c) = (if c then MarkComplete pid w else MarkNotComplete pid w)"
| "piece_step w (QueueEv now) = queueCleanPieces now w"

text \<open>
  The calls of the torrent library: writes stay inside the piece and, on disk, write no more bytes
  than they were given; the bound on the rounds is the length of the data.
\<close>

fun legal_event :: "nat \<Rightarrow> piece_event \<Rightarrow> bool" where
  "legal_event P (WriteEv fuel rounds now res pid b off) =
     (off + length b \<le> P \<and> length b \<le> fuel \<and> dw_n res \<le> int (length b))"
| "legal_event P _ = True"

lemma books_write:
  assumes books: "books P w" and legal: "off + length b \<le> P" "length b \<le> fuel" "dw_n res \<le> int (length b)"
    and run: "Piece_WriteAt fuel rounds now res pid b (int off) w = Done (r, w')"
  shows "books P w'"
proof -
  obtain p where p: "cache_piece pid w = Some p" "pc_disk p = useDisk w"
    using run by (auto simp: Piece_WriteAt_def split: option.splits if_splits)
  show ?thesis
  proof (cases "pc_disk p")
    case True
    then have "DiskPiece_WriteAt rounds now res pid w = Done (r, w')" using run p by (simp add: Piece_WriteAt_def)
    from books_disk_write [OF books this p(1) True] legal show ?thesis by simp
  next
    case False
    obtain n where m: "MemPiece_WriteAt fuel now pid b (int off) w = Done (n, w')"
      using run p False by (auto simp: Piece_WriteAt_def bind_outcome_Done)
    have "accounted P w'"
      using accounted_write [OF _ p(1) False legal(1,2), of now] books m by (auto simp: books_def)
    then show ?thesis using mem_write_keeps [OF m] by (intro books_keep [OF books])
  qed
qed

lemma books_read:
  assumes books: "books P w" and run: "Piece_ReadAt now opn got pid len off w = Done (r, w')"
  shows "books P w'"
proof -
  obtain p where p: "cache_piece pid w = Some p" "pc_disk p = useDisk w"
    using run by (auto simp: Piece_ReadAt_def split: option.splits if_splits)
  have acc: "accounted P w" using books by (simp add: books_def)
  show ?thesis
  proof (cases "pc_disk p")
    case True
    then show ?thesis using run p acc accounted_markAccessed [OF acc p(1)]
      by (intro books_keep [OF books])
        (auto simp: Piece_ReadAt_def DiskPiece_ReadAt_def Let_def frames kinds_pieces split: disk_open.splits if_splits)
  next
    case False
    then obtain r' where "MemPiece_ReadAt now pid len off w = Done (r', w')"
      using run p by (auto simp: Piece_ReadAt_def bind_outcome_Done)
    from mem_read_keeps [OF this acc] show ?thesis by (intro books_keep [OF books])
  qed
qed

lemma books_release: "books P w \<Longrightarrow> Piece_Release prio pid w = Done w' \<Longrightarrow> books P w'"
proof -
  assume books: "books P w" and run: "Piece_Release prio pid w = Done w'"
  then obtain p where p: "cache_piece pid w = Some p" by (auto simp: Piece_Release_def split: option.splits)
  have acc: "accounted P w" "kinds_match w" using books by (simp_all add: books_def)
  obtain v where "Piece_Release prio pid w = Done v" "accounted P v" "frame v = frame w" "kinds_match v"
    using accounted_release [OF acc p, of prio] by blast
  with run books frame_simps(2) [of v w] show "books P w'" by (simp add: books_def)
qed

lemma books_touch:
  assumes "books P w" "\<And>p. pc_Size (f p) = pc_Size p \<and> pc_chunks (f p) = pc_chunks p \<and> pc_disk (f p) = pc_disk p"
  shows "books P (upd_piece pid f w)"
proof (cases "cache_piece pid w")
  case None
  have "c_pieces (w_cache (upd_piece pid f w)) = c_pieces (w_cache w)"
    using None by (cases "c_pieces (w_cache w)") (auto simp: cache_piece_def fun_upd_idem)
  then have "core (upd_piece pid f w) = core w" unfolding core_def Let_def by (simp only: upd_piece_frame)
  from books_core [OF this] show ?thesis using assms(1) by simp
next
  case (Some p)
  have "kinds (upd_piece pid f w) = kinds w" using assms(2) by (intro kinds_pieces(1)) simp
  then show ?thesis using accounted_touch [OF _ Some assms(2)] assms
    by (intro books_keep [OF assms(1)]) (auto simp: books_def frames)
qed

lemma books_step: "legal_event P e \<Longrightarrow> books P w \<Longrightarrow> books P (piece_step w e)"
proof (cases e)
  case (WriteEv fuel rounds now res pid b off)
  assume "legal_event P e" "books P w"
  then show ?thesis using WriteEv books_write [of P w off b fuel res rounds now pid]
    by (cases "Piece_WriteAt fuel rounds now res pid b (int off) w")
      (auto simp: resulting_def snd_outcome_def)
next
  case (ReadEv now opn got pid len off)
  assume "books P w"
  then show ?thesis using ReadEv books_read [of P w now opn got pid len off]
    by (cases "Piece_ReadAt now opn got pid len off w") (auto simp: resulting_def snd_outcome_def)
next
  case (ReleaseEv prio pid)
  assume "books P w"
  then show ?thesis using ReleaseEv books_release [of P w prio pid]
    by (cases "Piece_Release prio pid w") (auto simp: resulting_def)
next
  case (CleanEv rounds)
  assume "books P w"
  then show ?thesis using CleanEv books_CleanPieces [of P w rounds]
    by (cases "CleanPieces rounds w") (auto simp: resulting_def)
next
  case (CompleteEv pid c)
  assume "books P w"
  then show ?thesis using CompleteEv
    by (auto simp: MarkComplete_def MarkNotComplete_def intro!: books_touch)
next
  case (QueueEv now)
  assume "books P w"
  then show ?thesis using QueueEv books_core [of "queueCleanPieces now w" w] by simp
qed

interpretation pieces: guarded_system piece_step "legal_event P" "books P" for P
  by unfold_locales (rule books_step)

section \<open>Properties\<close>

text \<open>
  Property C7. The books of a cache are always right: after any sequence of reads, in-range writes, releases,
  completion marks, cleanup requests and cleanups, on memory and disk pieces, the
  filled bytes equal the sum of the piece sizes, the resident set is exactly the pieces with bytes
  and its counter its cardinality, the chunk counter equals the chunks allocated, every memory
  piece's size equals the bytes of its chunks, and no size exceeds the piece length.
\<close>

theorem cache_books_balance:
  assumes "books P w" "\<forall>e \<in> set es. legal_event P e"
  shows "accounted P (foldl piece_step w es) \<and> kinds_match (foldl piece_step w es)"
  using pieces.guarded_run [OF assms(2,1)] by (simp add: books_def)

theorem cache_books_balance_witness:
  "accounted 5 (foldl piece_step (full_world Map.empty)
     [ReleaseEv (\<lambda>_. PiecePriorityNone) 1, WriteEv 3 [] 8 \<lparr>dw_open = True, dw_stat = None, dw_n = 0, dw_err = False, dw_closeErr = False\<rparr> 1 [9, 9] 3])"
proof -
  have "books 5 (full_world Map.empty)" using full_world_accounted by (simp add: books_def)
  from cache_books_balance [OF this, of "[ReleaseEv (\<lambda>_. PiecePriorityNone) 1, WriteEv 3 []
      8 \<lparr>dw_open = True, dw_stat = None, dw_n = 0, dw_err = False, dw_closeErr = False\<rparr> 1 [9, 9] 3]"]
  show ?thesis by (simp del: foldl_Cons piece_step.simps)
qed

definition disk_world :: world where
  "disk_world = new_world ((NewCache 4 (Some (zero_BTSets\<lparr>UseDisk := True\<rparr>)))\<lparr>c_pieceLength := 5,
     c_pieceCount := 1, c_pieces := Some [0 \<mapsto> new_piece\<lparr>pc_disk := True\<rparr>]\<rparr>)"

definition first_write :: disk_write where
  "first_write = \<lparr>dw_open = True, dw_stat = None, dw_n = 5, dw_err = False, dw_closeErr = False\<rparr>"

text \<open>
  Property C19. The first write of a disk piece can deadlock with itself: it runs the cleanup while it holds the
  mutex of its piece, and a cleanup that picks this very piece waits for that mutex forever. In
  a cache of four bytes whose only piece has five and no reader, no number of rounds makes the
  write return, whatever the environment of the cleanup is.
\<close>

theorem disk_write_self_deadlock:
  "Piece_WriteAt fuel (replicate n (env\<lparr>ce_pieces := [0], ce_readers := []\<rparr>, requested)) now first_write 0
     [1, 2, 3, 4, 5] 0 disk_world = NoFuel"
proof -
  define v where "v = markAccessed (unix now) 0 (markResidentPiece 0
    (addFilled 5 (upd_piece 0 (\<lambda>p. p\<lparr>pc_Size := 5\<rparr>) disk_world)))"
  have piece: "cache_piece 0 disk_world = Some (new_piece\<lparr>pc_disk := True\<rparr>)"
    by (simp add: disk_world_def cache_piece_def)
  have disk: "useDisk disk_world"
    by (simp add: useDisk_def disk_world_def currentCacheConfig_def BTSets_CacheConfig_def NewCache_def)
  have len: "c_pieceLength (w_cache disk_world) = 5" by (simp add: disk_world_def)
  let ?rounds = "replicate n (env\<lparr>ce_pieces := [0], ce_readers := []\<rparr>, requested)"
  have run: "Piece_WriteAt fuel ?rounds now first_write 0 [1, 2, 3, 4, 5] 0 disk_world
      = bind_outcome (CleanPieces (holding 0 ?rounds) v) (\<lambda>w. Done ((5, None), w))"
    using disk len by (simp add: Piece_WriteAt_def piece DiskPiece_WriteAt_def first_write_def Let_def v_def
        new_piece_def i64_id fits_i64_def)
  define u where "u = recordCleanupRun (upd_cleanup (\<lambda>s. s\<lparr>cl_running := True, cl_pending := False\<rparr>) v)"
  have v: "c_filled (w_cache v) = 5" "c_capacity (w_cache v) = 4" "c_isClosed (w_cache v) = False"
    "c_pieceLength (w_cache v) = 5" "cl_running (c_cleanup (w_cache v)) = False"
    "c_readers (w_cache v) = Some Map.empty" "c_resident (w_cache v) = Some {0}" "piece_size v 0 = 5"
    by (simp_all add: v_def disk_world_def NewCache_def addFilled_def clamp_add_def i64_id fits_i64_def Let_def
        markResidentPiece_def zero_metrics_def piece_size_def cache_piece_def markAccessed_def upd_piece_def
        addResidentPieces_def new_piece_def)
  show ?thesis
  proof (cases n)
    case 0
    then show ?thesis unfolding run using v by (simp add: holding_def CleanPieces_alt needsCleanup_def GetCapacity_def)
  next
    case (Suc k)
    define env' where "env' = env\<lparr>ce_pieces := [0], ce_readers := [], ce_held := insert 0 (ce_held env)\<rparr>"
    obtain w' where rem: "getRemPieces env' u = (candidates env' u, w')" and core: "core w' = core u"
      by (rule getRemPieces_result)
    have cu: "core u = core v" by (simp add: u_def)
    have len': "c_pieceLength (w_cache (upd_cleanup f v)) = 5" for f using v(4) by (simp add: upd_cleanup_def)
    have windows: "active_windows now' a [] u = []" for now' a
      by (simp add: active_windows_def copyReaders_def)
    have "candidates env' u = [0]"
      using v(7,8) core_eq(8) [OF cu] cache_piece_core [OF cu, of 0]
      by (simp add: candidates_def protected_def env'_def windows mergeRange_def isIDInFileBEFast_def
          copyResidentPieces_def piece_size_def)
    moreover have "remove_loop env' [0] rems w' = NoFuel" for rems
      using v(3) core_eq(5) [OF core] core_eq(5) [OF cu] by (simp add: removePiece_def env'_def)
    ultimately have "cleanPiecesPass env' (upd_cleanup (\<lambda>s. s\<lparr>cl_running := True, cl_pending := False\<rparr>) v) = NoFuel"
      using v(1,2) rem len' by (simp add: cleanPiecesPass_def GetCapacity_def Let_def u_def [symmetric] del: remove_loop.simps)
    then show ?thesis unfolding run using v Suc
      by (simp add: holding_def CleanPieces_alt needsCleanup_def GetCapacity_def env'_def)
  qed
qed

end
