(* ===== verification/Cleanup_Runs.thy ===== *)
theory Cleanup_Runs
  imports Piece_Store
begin

text \<open>
  Cleanups of many goroutines at once (torrstor/cache_cleanup.go): each call of \<open>CleanPieces\<close> is a process that takes the steps
  of the theory Cleanup, in any interleaving with the others and with what the torrent library does to the pieces. Shown are
  the mutual exclusion by the running flag, a bound on the rounds of a cleaner, and that all who wait are let go.
\<close>

section \<open>The steps\<close>

datatype clean_event =
    EnterEv nat
  | LockEv nat
  | PassEv nat clean_env
  | CheckEv nat
  | WakeEv nat
  | PieceEv piece_event

type_synonym clean_sys = "world \<times> (nat \<Rightarrow> clean_pc option)"

text \<open>
  The number names a call. A step that the call cannot take where it is has no effect; a wake-up is the return
  of \<open>cond.Wait\<close> and the test around it, spurious wake-ups included.
\<close>

definition clean_step :: "clean_event \<Rightarrow> clean_sys \<Rightarrow> clean_sys outcome" where
  "clean_step e s =
     (let (w, pcs) = s in
      case e of
        EnterEv g \<Rightarrow> Done (if pcs g = None then (w, pcs(g \<mapsto> clean_enter w)) else s)
      | LockEv g \<Rightarrow> Done (if pcs g = Some Entered then let (pc, w) = clean_lock w in (w, pcs(g \<mapsto> pc)) else s)
      | PassEv g env \<Rightarrow>
          if pcs g = Some Cleaning
          then bind_outcome (cleanPiecesPass env w) (\<lambda>(progress, w). Done (w, pcs(g \<mapsto> Passed progress)))
          else Done s
      | CheckEv g \<Rightarrow>
          Done (case pcs g of
              Some (Passed progress) \<Rightarrow> let (pc, w) = clean_check progress w in (w, pcs(g \<mapsto> pc))
            | _ \<Rightarrow> s)
      | WakeEv g \<Rightarrow> Done (if pcs g = Some Waiting then (w, pcs(g \<mapsto> clean_wait w)) else s)
      | PieceEv ev \<Rightarrow> Done (piece_step w ev, pcs))"

fun clean_run :: "clean_event list \<Rightarrow> clean_sys \<Rightarrow> clean_sys outcome" where
  "clean_run [] s = Done s"
| "clean_run (e # es) s = bind_outcome (clean_step e s) (clean_run es)"

text \<open>How often a call makes a pass in a run, and how many bytes the pieces gain in it outside of the cleanup.\<close>

fun rounds_of :: "nat \<Rightarrow> clean_event list \<Rightarrow> clean_sys \<Rightarrow> nat" where
  "rounds_of g [] s = 0"
| "rounds_of g (e # es) s =
     (case e of PassEv h env \<Rightarrow> if h = g \<and> snd s g = Some Cleaning then 1 else 0 | _ \<Rightarrow> 0) +
     (case clean_step e s of Done s' \<Rightarrow> rounds_of g es s' | _ \<Rightarrow> 0)"

fun bytes_added :: "clean_event list \<Rightarrow> clean_sys \<Rightarrow> nat" where
  "bytes_added [] s = 0"
| "bytes_added (e # es) s =
     (case e of PieceEv ev \<Rightarrow> nat (c_filled (w_cache (piece_step (fst s) ev)) - c_filled (w_cache (fst s))) | _ \<Rightarrow> 0) +
     (case clean_step e s of Done s' \<Rightarrow> bytes_added es s' | _ \<Rightarrow> 0)"

text \<open>
  No mutex of a piece is kept during a pass, and the cleanups are those of the run itself. On a cache in memory nobody
  keeps one: only the write of a disk piece calls \<open>CleanPieces\<close> under its mutex.
\<close>

fun memory_event :: "nat \<Rightarrow> clean_event \<Rightarrow> bool" where
  "memory_event P (PassEv g env) \<longleftrightarrow> ce_held env = {}"
| "memory_event P (PieceEv ev) \<longleftrightarrow> legal_event P ev \<and> (\<forall>rounds. ev \<noteq> CleanEv rounds)"
| "memory_event P _ \<longleftrightarrow> True"

section \<open>What the other steps leave alone\<close>

definition flags :: "world \<Rightarrow> bool \<times> bool" where
  "flags w = (c_isClosed (w_cache w), cl_running (c_cleanup (w_cache w)))"

lemma flags_simps [simp]:
  "flags (queueCleanPieces t w) = flags w" "flags (upd_piece pid f w) = flags w" "flags (lib x w) = flags w"
  "flags (addFilled d w) = flags w" "flags (addInMemoryChunks d w) = flags w" "flags (addActiveReaders d w) = flags w"
  "flags (markResidentPiece pid w) = flags w" "flags (unmarkResidentPiece pid w) = flags w"
  "flags (untrackPriorityPiece pid w) = flags w" "flags (markAccessed t pid w) = flags w"
  "flags (recordCleanupRun w) = flags w" "flags (recordCleanedBytes d w) = flags w"
  "flags (recordReaderIdleDemotion d w) = flags w" "flags (recordReaderReactivation d w) = flags w"
  "flags (recordRetentionWindowAdjustment e1 e2 w) = flags w" "flags (w\<lparr>w_pool := pool\<rparr>) = flags w"
  "flags (set_reader rid r w) = flags w"
  by (simp_all add: flags_def queueCleanPieces_def lib_def markAccessed_def set_reader_def Let_def)

lemma flags_put_chunks: "flags (foldl (\<lambda>w chunk. if q chunk then putMemPieceChunk chunk w else w) w chunks) = flags w"
proof (induction chunks arbitrary: w)
  case (Cons ch chunks)
  have "flags (putMemPieceChunk ch w) = flags w" by (simp add: putMemPieceChunk_def)
  with Cons show ?case by simp
qed simp

lemma flags_release: "Piece_Release prio pid w = Done v \<Longrightarrow> flags v = flags w"
  by (auto simp: Piece_Release_def DiskPiece_Release_def MemPiece_Release_def syncTorrentPieceAfterRelease_def Let_def
      flags_put_chunks split: option.splits if_splits)

lemma flags_remove_loop: "remove_loop env pids rems w = Done v \<Longrightarrow> flags v = flags w"
proof (induction pids arbitrary: rems w)
  case (Cons pid pids)
  then obtain u where u: "removePiece env pid w = Done u"
      "(if rems - 1 \<le> 0 then Done u else remove_loop env pids (rems - 1) u) = Done v"
    by (auto simp: bind_outcome_Done Let_def)
  then have "flags u = flags w" by (auto simp: removePiece_def flags_release split: if_splits)
  with u(2) Cons.IH [of "rems - 1" u] show ?case by (auto split: if_splits)
qed simp

lemma flags_check_at: "flags (check_at now a n w rid) = flags w"
  by (simp add: check_at_def checkReader_def readerOnLocked_def readerOffLocked_def Let_def split: option.split)

lemma flags_check_all: "flags (foldl (check_at now a n) w rids) = flags w"
  by (induction rids arbitrary: w) (simp_all add: flags_check_at)

lemma flags_snapshot: "flags (snd (snapshot_reader n sw rid)) = flags (snd sw)"
  by (simp add: snapshot_reader_def getPiecesRangeForReaders_def getOffsetRangeForReaders_def Let_def split_beta split: option.split)

lemma flags_snapshots: "flags (snd (foldl (snapshot_reader n) sw rids)) = flags (snd sw)"
  by (induction rids arbitrary: sw) (simp_all add: flags_snapshot)

lemma flags_getRemPieces: "flags (snd (getRemPieces env w)) = flags w"
  by (simp add: getRemPieces_def getActiveReaderRanges_def snapshotActiveReaders_def Let_def split_beta flags_snapshots
      flags_check_all)

lemma flags_pass: "cleanPiecesPass env w = Done (progress, v) \<Longrightarrow> flags v = flags w"
  using flags_getRemPieces [of env "recordCleanupRun w"]
  by (auto simp: cleanPiecesPass_def Let_def split_beta bind_outcome_Done flags_remove_loop split: if_splits)

lemma flags_write_chunks: "write_chunks fuel P cs a n b off w = Done (cs', a', n', v) \<Longrightarrow> flags v = flags w"
proof (induction fuel arbitrary: cs a n b off w)
  case (Suc fuel)
  obtain ch u where new: "newChunk P (go_div off memPieceChunkSize) (go_mod off memPieceChunkSize) b w = (ch, u)"
    by fastforce
  then obtain pool where "u = w\<lparr>w_pool := pool\<rparr>"
    using newChunk_world [of P "go_div off memPieceChunkSize" "go_mod off memPieceChunkSize" b w] by auto
  then have u: "flags (addInMemoryChunks 1 u) = flags w" by simp
  show ?case using Suc.prems u
    by (auto simp: write_chunks.simps Let_def new split: if_splits option.splits dest!: Suc.IH)
qed (auto simp: write_chunks.simps split: if_splits)

lemma flags_mem_write: "MemPiece_WriteAt fuel now pid b off w = Done (n, v) \<Longrightarrow> flags v = flags w"
  using flags_write_chunks
  by (auto simp: MemPiece_WriteAt_def Let_def bind_outcome_Done split: option.splits if_splits)

lemma flags_mem_read: "MemPiece_ReadAt now pid len off w = Done (r, v) \<Longrightarrow> flags v = flags w"
  by (auto simp: MemPiece_ReadAt_def Let_def split_beta split: option.splits if_splits)

text \<open>A step of the library on a cache in memory, other than a cleanup in one piece.\<close>

lemma piece_step_keeps:
  assumes "books P w" and "\<not> useDisk w" and "\<forall>rounds. ev \<noteq> CleanEv rounds"
  shows "flags (piece_step w ev) = flags w \<and> useDisk (piece_step w ev) = useDisk w"
proof (cases ev)
  case (WriteEv fuel rounds now res pid b off)
  have "flags v = flags w \<and> useDisk v = useDisk w"
    if run: "Piece_WriteAt fuel rounds now res pid b (int off) w = Done (r, v)" for r v
  proof -
    obtain n where "MemPiece_WriteAt fuel now pid b (int off) w = Done (n, v)"
      using run assms(2) by (auto simp: Piece_WriteAt_def bind_outcome_Done split: option.splits if_splits)
    then show ?thesis using flags_mem_write frame_simps(6) [OF mem_write_keeps(1)] by blast
  qed
  then show ?thesis unfolding WriteEv
    by (cases "Piece_WriteAt fuel rounds now res pid b (int off) w") (auto simp: resulting_def snd_outcome_def)
next
  case (ReadEv now opn got pid len off)
  have acc: "accounted P w" using assms(1) by (simp add: books_def)
  have "flags v = flags w \<and> useDisk v = useDisk w" if run: "Piece_ReadAt now opn got pid len off w = Done (r, v)" for r v
  proof -
    obtain r' where "MemPiece_ReadAt now pid len off w = Done (r', v)"
      using run assms(2) by (auto simp: Piece_ReadAt_def bind_outcome_Done split: option.splits if_splits)
    then show ?thesis using flags_mem_read frame_simps(6) [OF mem_read_keeps(2) [OF _ acc]] by blast
  qed
  then show ?thesis unfolding ReadEv
    by (cases "Piece_ReadAt now opn got pid len off w") (auto simp: resulting_def snd_outcome_def)
next
  case (ReleaseEv prio pid)
  have "flags v = flags w \<and> useDisk v = useDisk w" if r: "Piece_Release prio pid w = Done v" for v
  proof -
    obtain p where "cache_piece pid w = Some p" using r by (auto simp: Piece_Release_def split: option.splits)
    then have "frame v = frame w"
      using accounted_release [of P w pid p prio] assms(1) r by (auto simp: books_def)
    then show ?thesis using flags_release [OF r] frame_simps(6) by blast
  qed
  then show ?thesis unfolding ReleaseEv by (cases "Piece_Release prio pid w") (auto simp: resulting_def)
next
  case (CompleteEv pid c)
  have "useDisk (upd_piece pid f w) = useDisk w" for f by (rule frame_simps(6)) (simp add: frames)
  then show ?thesis using CompleteEv by (simp add: MarkComplete_def MarkNotComplete_def)
next
  case (QueueEv now)
  have "useDisk (queueCleanPieces now w) = useDisk w" by (rule frame_simps(6)) (simp add: frames)
  then show ?thesis using QueueEv by simp
qed (use assms(3) in blast)

text \<open>A pass never adds bytes, and its result tells whether it freed some.\<close>

lemma pass_ends:
  assumes "books P w" and "\<not> c_isClosed (w_cache w)" and "ce_held env = {}"
  obtains v where "cleanPiecesPass env w = Done (c_filled (w_cache v) < c_filled (w_cache w), v)" and "books P v"
    and "flags v = flags w" and "useDisk v = useDisk w" and "c_filled (w_cache v) \<le> c_filled (w_cache w)"
proof (cases "c_capacity (w_cache w) < c_filled (w_cache w)")
  case False
  then have "cleanPiecesPass env w = Done (False, w)" by (simp add: cleanPiecesPass_def GetCapacity_def Let_def)
  then show thesis using that [of w] assms(1) by simp
next
  case True
  have b: "accounted P w" "kinds_match w" "0 \<le> c_capacity (w_cache w)" using assms(1) by (auto simp: books_def)
  obtain v where v: "cleanPiecesPass env w = Done (c_filled (w_cache v) < c_filled (w_cache w), v)" "useDisk v = useDisk w"
    by (rule pass_result [OF b(1,2) assms(2) True b(3) assms(3)]) simp
  show thesis
    using that [OF v(1)] books_pass [OF assms(1,2) v(1)] flags_pass [OF v(1)] v(2)
      pass_shrinks [OF b(1,2) assms(2) True b(3) v(1)] by blast
qed

lemma upd_cleanup_keeps:
  "books P (upd_cleanup f w) = books P w" "useDisk (upd_cleanup f w) = useDisk w"
  "c_isClosed (w_cache (upd_cleanup f w)) = c_isClosed (w_cache w)"
  using books_core [of "upd_cleanup f w" w] useDisk_core [of "upd_cleanup f w" w] by simp_all

section \<open>The invariant\<close>

definition is_cleaner :: "clean_pc option \<Rightarrow> bool" where
  "is_cleaner pc \<longleftrightarrow> pc = Some Cleaning \<or> pc = Some (Passed True) \<or> pc = Some (Passed False)"

definition clean_inv :: "nat \<Rightarrow> clean_sys \<Rightarrow> bool" where
  "clean_inv P s \<longleftrightarrow>
     books P (fst s) \<and> \<not> useDisk (fst s) \<and>
     (\<forall>g. snd s g \<noteq> None \<and> snd s g \<noteq> Some Returned \<longrightarrow> \<not> c_isClosed (w_cache (fst s))) \<and>
     (cl_running (c_cleanup (w_cache (fst s))) \<longleftrightarrow> (\<exists>g. is_cleaner (snd s g))) \<and>
     (\<forall>g h. is_cleaner (snd s g) \<and> is_cleaner (snd s h) \<longrightarrow> g = h)"

lemma clean_inv_flags:
  assumes "clean_inv P (w, pcs)" and "books P v" and "flags v = flags w" and "useDisk v = useDisk w"
  shows "clean_inv P (v, pcs)"
  using assms by (simp add: clean_inv_def flags_def Let_def)

text \<open>A call that stays what it is towards the flag can move on.\<close>

lemma clean_inv_move:
  assumes "clean_inv P (w, pcs)" and "is_cleaner (Some pc) = is_cleaner (pcs g)"
    and "pc \<noteq> Returned \<longrightarrow> \<not> c_isClosed (w_cache w)"
  shows "clean_inv P (w, pcs(g \<mapsto> pc))"
proof -
  have same: "is_cleaner ((pcs(g \<mapsto> pc)) h) = is_cleaner (pcs h)" for h using assms(2) by simp
  show ?thesis using assms(1,3) unfolding clean_inv_def by (simp add: same del: fun_upd_apply) (auto split: if_splits)
qed

lemma clean_inv_step:
  assumes inv: "clean_inv P s" and mem: "memory_event P e"
  shows "\<exists>s'. clean_step e s = Done s' \<and> clean_inv P s'"
proof -
  obtain w pcs where s: "s = (w, pcs)" by fastforce
  note inv = inv [unfolded s]
  have b: "books P w" "\<not> useDisk w" using inv by (simp_all add: clean_inv_def)
  have open_cache: "\<not> c_isClosed (w_cache w)" if "pcs g = Some pc" "pc \<noteq> Returned" for g pc
    using inv that by (auto simp: clean_inv_def)
  show ?thesis
  proof (cases e)
    case (EnterEv g)
    have "clean_inv P (w, pcs(g \<mapsto> clean_enter w))" if "pcs g = None"
      by (rule clean_inv_move [OF inv]) (use that in \<open>auto simp: is_cleaner_def clean_enter_def\<close>)
    then show ?thesis using inv unfolding EnterEv s clean_step_def by simp
  next
    case (LockEv g)
    have "clean_inv P (v, pcs(g \<mapsto> pc))" if g: "pcs g = Some Entered" and lock: "clean_lock w = (pc, v)" for pc v
    proof (cases "cl_running (c_cleanup (w_cache w))")
      case True
      then have v: "v = upd_cleanup (\<lambda>s. s\<lparr>cl_pending := True\<rparr>) w" "pc = Waiting" using lock by (simp_all add: clean_lock_def)
      have "clean_inv P (v, pcs)" unfolding v
        by (rule clean_inv_flags [OF inv]) (simp_all add: upd_cleanup_keeps b flags_def Let_def)
      then show ?thesis
        by (rule clean_inv_move) (use g v open_cache [OF g] in \<open>auto simp: is_cleaner_def upd_cleanup_keeps\<close>)
    next
      case False
      then have v: "v = upd_cleanup (\<lambda>s. s\<lparr>cl_running := True, cl_pending := False\<rparr>) w" "pc = Cleaning"
        using lock by (simp_all add: clean_lock_def)
      have none: "\<not> is_cleaner (pcs h)" for h using inv False by (auto simp: clean_inv_def)
      have only: "is_cleaner ((pcs(g \<mapsto> pc)) h) \<longleftrightarrow> h = g" for h using none [of h] v(2) by (cases "h = g") (simp_all add: is_cleaner_def)
      show ?thesis using only open_cache [OF g] b unfolding clean_inv_def by (simp add: v(1) upd_cleanup_keeps del: fun_upd_apply)
    qed
    then show ?thesis using inv unfolding LockEv s clean_step_def by (auto split: prod.split)
  next
    case (PassEv g env)
    show ?thesis
    proof (cases "pcs g = Some Cleaning")
      case True
      have held: "ce_held env = {}" using mem PassEv by simp
      obtain v where v: "cleanPiecesPass env w = Done (c_filled (w_cache v) < c_filled (w_cache w), v)" "books P v"
          "flags v = flags w" "useDisk v = useDisk w"
        by (rule pass_ends [OF b(1) open_cache [OF True] held]) simp_all
      have "clean_inv P (v, pcs)" by (rule clean_inv_flags [OF inv v(2-4)])
      moreover have "\<not> c_isClosed (w_cache v)" using v(3) open_cache [OF True] by (simp add: flags_def Let_def)
      ultimately have "clean_inv P (v, pcs(g \<mapsto> Passed progress))" for progress
        by (intro clean_inv_move) (use True in \<open>auto simp: is_cleaner_def\<close>)
      then show ?thesis using True v(1) unfolding PassEv s clean_step_def by simp
    qed (use inv PassEv s in \<open>simp add: clean_step_def\<close>)
  next
    case (CheckEv g)
    have "clean_inv P (v, pcs(g \<mapsto> pc))" if g: "pcs g = Some (Passed progress)" and check: "clean_check progress w = (pc, v)"
      for progress pc v
    proof (cases "pc = Cleaning")
      case True
      then have v: "v = upd_cleanup (\<lambda>s. s\<lparr>cl_pending := False\<rparr>) w" using check by (auto simp: clean_check_def split: if_splits)
      have "clean_inv P (v, pcs)" unfolding v
        by (rule clean_inv_flags [OF inv]) (simp_all add: upd_cleanup_keeps b flags_def Let_def)
      moreover have "is_cleaner (Some pc) = is_cleaner (pcs g)" using g True by (cases progress) (simp_all add: is_cleaner_def)
      moreover have "\<not> c_isClosed (w_cache v)" using open_cache [OF g] by (simp add: v upd_cleanup_keeps)
      ultimately show ?thesis by (intro clean_inv_move) simp_all
    next
      case False
      then have v: "v = upd_cleanup (\<lambda>s. s\<lparr>cl_running := False, cl_pending := False\<rparr>) w" "pc = Returned"
        using check by (auto simp: clean_check_def split: if_splits)
      have "is_cleaner (pcs g)" using g by (cases progress) (simp_all add: is_cleaner_def)
      then have others: "\<not> is_cleaner (pcs h)" if "h \<noteq> g" for h using inv that by (auto simp: clean_inv_def)
      have none: "\<not> is_cleaner ((pcs(g \<mapsto> pc)) h)" for h using others [of h] v(2) by (cases "h = g") (simp_all add: is_cleaner_def)
      show ?thesis using none open_cache [OF g] b unfolding clean_inv_def by (simp add: v(1) upd_cleanup_keeps del: fun_upd_apply)
    qed
    then show ?thesis using inv unfolding CheckEv s clean_step_def
      by (auto split: option.split clean_pc.split prod.split)
  next
    case (WakeEv g)
    have "clean_inv P (w, pcs(g \<mapsto> clean_wait w))" if "pcs g = Some Waiting"
      by (rule clean_inv_move [OF inv]) (use that open_cache [OF that] in \<open>auto simp: is_cleaner_def clean_wait_def\<close>)
    then show ?thesis using inv unfolding WakeEv s clean_step_def by simp
  next
    case (PieceEv ev)
    have ev: "legal_event P ev" "\<forall>rounds. ev \<noteq> CleanEv rounds" using mem PieceEv by auto
    have "clean_inv P (piece_step w ev, pcs)"
      using piece_step_keeps [OF b ev(2)] books_step [OF ev(1) b(1)] by (intro clean_inv_flags [OF inv]) auto
    then show ?thesis unfolding PieceEv s clean_step_def by simp
  qed
qed

section \<open>The bound on the rounds\<close>

text \<open>What a call may still need: a round for each byte that can be freed, and one more.\<close>

definition may_clean :: "clean_pc option \<Rightarrow> bool" where
  "may_clean pc = (case pc of Some Waiting \<Rightarrow> False | Some Returned \<Rightarrow> False | Some (Passed b) \<Rightarrow> b | _ \<Rightarrow> True)"

definition rounds_left :: "nat \<Rightarrow> clean_sys \<Rightarrow> nat" where
  "rounds_left g s = (if may_clean (snd s g) then nat (c_filled (w_cache (fst s))) + 1 else 0)"

definition round_taken :: "nat \<Rightarrow> clean_event \<Rightarrow> clean_sys \<Rightarrow> nat" where
  "round_taken g e s = (case e of PassEv h env \<Rightarrow> if h = g \<and> snd s g = Some Cleaning then 1 else 0 | _ \<Rightarrow> 0)"

definition bytes_gained :: "clean_event \<Rightarrow> clean_sys \<Rightarrow> nat" where
  "bytes_gained e s =
     (case e of PieceEv ev \<Rightarrow> nat (c_filled (w_cache (piece_step (fst s) ev)) - c_filled (w_cache (fst s))) | _ \<Rightarrow> 0)"

lemma may_clean_simps [simp]:
  "may_clean None" "may_clean (Some Entered)" "may_clean (Some Cleaning)" "may_clean (Some (Passed b)) = b"
  "\<not> may_clean (Some Waiting)" "\<not> may_clean (Some Returned)"
  by (simp_all add: may_clean_def)

lemma rounds_left_same: "h \<noteq> g \<Longrightarrow> rounds_left g (v, pcs(h \<mapsto> pc)) = rounds_left g (v, pcs)"
  by (simp add: rounds_left_def)

lemma rounds_left_own: "rounds_left g (v, pcs(g \<mapsto> pc)) = (if may_clean (Some pc) then nat (c_filled (w_cache v)) + 1 else 0)"
  by (simp add: rounds_left_def)

lemma rounds_left_le: "rounds_left g (w, pcs) \<le> nat (c_filled (w_cache w)) + 1"
  by (simp add: rounds_left_def)

lemma rounds_left_full: "may_clean (pcs g) \<Longrightarrow> rounds_left g (w, pcs) = nat (c_filled (w_cache w)) + 1"
  by (simp add: rounds_left_def)

lemma rounds_left_mono:
  "c_filled (w_cache v) \<le> c_filled (w_cache w) + int n \<Longrightarrow> rounds_left g (v, pcs) \<le> rounds_left g (w, pcs) + n"
  by (simp add: rounds_left_def nat_le_iff)

text \<open>A step that keeps the bytes, of a call that may clean if it may afterwards.\<close>

lemma rounds_left_move:
  assumes "c_filled (w_cache v) = c_filled (w_cache w)" and "may_clean (Some pc) \<longrightarrow> may_clean (pcs h)"
  shows "rounds_left g (v, pcs(h \<mapsto> pc)) \<le> rounds_left g (w, pcs)"
  using assms by (simp add: rounds_left_def)

lemma rounds_left_step:
  assumes inv: "clean_inv P s" and mem: "memory_event P e" and step: "clean_step e s = Done s'"
  shows "round_taken g e s + rounds_left g s' \<le> rounds_left g s + bytes_gained e s"
proof -
  obtain w pcs where s: "s = (w, pcs)" by fastforce
  note inv = inv [unfolded s] and step = step [unfolded s clean_step_def]
  have b: "books P w" "\<not> useDisk w" using inv by (simp_all add: clean_inv_def)
  show ?thesis
  proof (cases e)
    case (EnterEv h)
    have "rounds_left g (w, pcs(h \<mapsto> pc)) \<le> rounds_left g (w, pcs)" if "pcs h = None" for pc
      using that by (intro rounds_left_move) simp_all
    then show ?thesis using step EnterEv unfolding s by (auto simp: round_taken_def intro!: trans_le_add1)
  next
    case (LockEv h)
    have "rounds_left g (v, pcs(h \<mapsto> pc)) \<le> rounds_left g (w, pcs)" if "pcs h = Some Entered" "clean_lock w = (pc, v)" for pc v
    proof -
      have "c_filled (w_cache v) = c_filled (w_cache w)" using that(2) by (auto simp: clean_lock_def split: if_splits)
      then show ?thesis using that(1) by (intro rounds_left_move) simp_all
    qed
    then show ?thesis using step LockEv unfolding s by (auto simp: round_taken_def intro!: trans_le_add1 split: if_splits prod.splits)
  next
    case (PassEv h env)
    show ?thesis
    proof (cases "pcs h = Some Cleaning")
      case True
      have opened: "\<not> c_isClosed (w_cache w)" using inv True by (auto simp: clean_inv_def)
      have held: "ce_held env = {}" using mem PassEv by simp
      obtain v where v: "cleanPiecesPass env w = Done (c_filled (w_cache v) < c_filled (w_cache w), v)" "books P v"
          "c_filled (w_cache v) \<le> c_filled (w_cache w)"
        by (rule pass_ends [OF b(1) opened held]) simp
      define progress where "progress = (c_filled (w_cache v) < c_filled (w_cache w))"
      have s': "s' = (v, pcs(h \<mapsto> Passed progress))" using step PassEv True v(1) by (simp add: progress_def)
      have nonneg: "0 \<le> c_filled (w_cache v)" using v(2) accounted_bounds(1) by (auto simp: books_def)
      show ?thesis
      proof (cases "h = g")
        case True
        have "1 + rounds_left g s' \<le> nat (c_filled (w_cache w)) + 1"
          using nonneg v(3) True unfolding s' by (auto simp: rounds_left_own progress_def)
        moreover have "rounds_left g (w, pcs) = nat (c_filled (w_cache w)) + 1"
          using \<open>pcs h = Some Cleaning\<close> True by (intro rounds_left_full) simp
        ultimately show ?thesis using PassEv True \<open>pcs h = Some Cleaning\<close> unfolding s by (simp add: round_taken_def)
      next
        case False
        have "rounds_left g s' = rounds_left g (v, pcs)" unfolding s' using False by (rule rounds_left_same)
        also have "\<dots> \<le> rounds_left g (w, pcs)" using rounds_left_mono [of v w 0 g pcs] v(3) by simp
        finally show ?thesis using PassEv False unfolding s by (simp add: round_taken_def)
      qed
    next
      case False
      then show ?thesis using step PassEv unfolding s by (auto simp: round_taken_def intro!: trans_le_add1)
    qed
  next
    case (CheckEv h)
    have "rounds_left g (v, pcs(h \<mapsto> pc)) \<le> rounds_left g (w, pcs)"
      if "pcs h = Some (Passed progress)" "clean_check progress w = (pc, v)" for progress pc v
    proof -
      have "c_filled (w_cache v) = c_filled (w_cache w)" "may_clean (Some pc) \<longrightarrow> progress"
        using that(2) by (auto simp: clean_check_def split: if_splits)
      then show ?thesis using that(1) by (intro rounds_left_move) simp_all
    qed
    then show ?thesis using step CheckEv unfolding s
      by (auto simp: round_taken_def intro!: trans_le_add1 split: option.splits clean_pc.splits prod.splits)
  next
    case (WakeEv h)
    have "rounds_left g (w, pcs(h \<mapsto> clean_wait w)) \<le> rounds_left g (w, pcs)" if "pcs h = Some Waiting"
      by (rule rounds_left_move) (simp_all add: clean_wait_def)
    then show ?thesis using step WakeEv unfolding s by (auto simp: round_taken_def intro!: trans_le_add1 split: if_splits)
  next
    case (PieceEv ev)
    have "rounds_left g (piece_step w ev, pcs) \<le> rounds_left g (w, pcs) + bytes_gained e s"
      using PieceEv unfolding s by (intro rounds_left_mono) (simp add: bytes_gained_def)
    then show ?thesis using step PieceEv unfolding s by (simp add: round_taken_def)
  qed
qed

lemma rounds_bound:
  "clean_inv P s \<Longrightarrow> \<forall>e \<in> set es. memory_event P e \<Longrightarrow> rounds_of g es s \<le> rounds_left g s + bytes_added es s"
proof (induction es arbitrary: s)
  case (Cons e es)
  have mem: "memory_event P e" using Cons.prems(2) by simp
  obtain s' where s': "clean_step e s = Done s'" "clean_inv P s'" using clean_inv_step [OF Cons.prems(1) mem] by blast
  have "rounds_of g es s' \<le> rounds_left g s' + bytes_added es s'" using Cons.IH [OF s'(2)] Cons.prems(2) by simp
  moreover have "round_taken g e s + rounds_left g s' \<le> rounds_left g s + bytes_gained e s"
    using rounds_left_step [OF Cons.prems(1) _ s'(1)] Cons.prems(2) by simp
  ultimately show ?case using s'(1) by (simp add: round_taken_def [symmetric] bytes_gained_def [symmetric])
qed simp

lemma clean_run_inv:
  "clean_inv P s \<Longrightarrow> \<forall>e \<in> set es. memory_event P e \<Longrightarrow> \<exists>s'. clean_run es s = Done s' \<and> clean_inv P s'"
proof (induction es arbitrary: s)
  case (Cons e es)
  have mem: "memory_event P e" using Cons.prems(2) by simp
  obtain s' where "clean_step e s = Done s'" "clean_inv P s'" using clean_inv_step [OF Cons.prems(1) mem] by blast
  then show ?case using Cons.IH [of s'] Cons.prems(2) by auto
qed simp

section \<open>Properties\<close>

text \<open>
  Property C6. Cleanups of a cache in memory neither block nor go on for ever. Let any number of goroutines call
  CleanPieces, and let their steps interleave with each other and with any in-range writes, reads, releases, marks and
  requests of the library. Then no step panics or blocks, and the books stay right; at most one call cleans, and the running flag
  tells whether one does; a call makes at most one pass more than there were bytes in the cache at the start and were
  added during the run; and once no call cleans, each one that waits returns when it is woken up. Of a disk cache, where a
  caller may hold the mutex of a piece, nothing is said.
\<close>

theorem cleanups_end:
  assumes "books P w" and "\<not> useDisk w" and "\<not> cl_running (c_cleanup (w_cache w))" and "\<forall>e \<in> set es. memory_event P e"
  shows "\<exists>v pcs. clean_run es (w, Map.empty) = Done (v, pcs) \<and> books P v \<and>
    (cl_running (c_cleanup (w_cache v)) \<longleftrightarrow> (\<exists>g. is_cleaner (pcs g))) \<and>
    (\<forall>g h. is_cleaner (pcs g) \<and> is_cleaner (pcs h) \<longrightarrow> g = h) \<and>
    (\<forall>g. rounds_of g es (w, Map.empty) \<le> nat (c_filled (w_cache w)) + bytes_added es (w, Map.empty) + 1) \<and>
    ((\<forall>g. \<not> is_cleaner (pcs g)) \<longrightarrow>
       (\<forall>h. pcs h = Some Waiting \<longrightarrow> clean_step (WakeEv h) (v, pcs) = Done (v, pcs(h \<mapsto> Returned))))"
proof -
  have start: "clean_inv P (w, Map.empty)" using assms(1-3) by (simp add: clean_inv_def is_cleaner_def)
  obtain v pcs where run: "clean_run es (w, Map.empty) = Done (v, pcs)" and inv: "clean_inv P (v, pcs)"
    using clean_run_inv [OF start assms(4)] by auto
  have "rounds_of g es (w, Map.empty) \<le> nat (c_filled (w_cache w)) + bytes_added es (w, Map.empty) + 1" for g
    using rounds_bound [OF start assms(4), of g] rounds_left_le [of g w Map.empty] by simp
  moreover have "clean_step (WakeEv h) (v, pcs) = Done (v, pcs(h \<mapsto> Returned))"
    if "\<forall>g. \<not> is_cleaner (pcs g)" "pcs h = Some Waiting" for h
    using that inv by (simp add: clean_step_def clean_wait_def clean_inv_def)
  ultimately show ?thesis using run inv unfolding clean_inv_def by auto
qed

text \<open>Two calls meet on a full cache: the first one cleans, the second one waits.\<close>

definition demo_calls :: "clean_event list" where
  "demo_calls = [EnterEv 0, EnterEv 1, LockEv 0, LockEv 1, PassEv 0 demo_env, CheckEv 0, WakeEv 1, PieceEv (QueueEv 7)]"

theorem cleanups_end_witness:
  "\<exists>v pcs. clean_run demo_calls (full_world Map.empty, Map.empty) = Done (v, pcs) \<and> books 5 v \<and>
     rounds_of 0 demo_calls (full_world Map.empty, Map.empty) \<le> 11 + bytes_added demo_calls (full_world Map.empty, Map.empty)"
proof -
  let ?w = "full_world Map.empty"
  have "books 5 ?w" using full_world_accounted [of Map.empty] by (simp add: books_def)
  moreover have "\<not> useDisk ?w"
    by (simp add: useDisk_def full_world_def currentCacheConfig_def BTSets_CacheConfig_def NewCache_def zero_CacheConfig_def)
  moreover have "\<not> cl_running (c_cleanup (w_cache ?w))" by (simp add: full_world_def NewCache_def)
  moreover have "\<forall>e \<in> set demo_calls. memory_event 5 e" by (simp add: demo_calls_def demo_env_def)
  ultimately obtain v pcs where v: "clean_run demo_calls (?w, Map.empty) = Done (v, pcs)" "books 5 v"
      "\<forall>g. rounds_of g demo_calls (?w, Map.empty) \<le> nat (c_filled (w_cache ?w)) + bytes_added demo_calls (?w, Map.empty) + 1"
    using cleanups_end [of 5 ?w demo_calls] by blast
  then have "rounds_of 0 demo_calls (?w, Map.empty) \<le> 11 + bytes_added demo_calls (?w, Map.empty)" by (auto dest: spec [of _ 0])
  with v show ?thesis by blast
qed

text \<open>
  On a disk cache a caller can wait for the cleanup under the mutex of its piece. When the least recently used piece that the
  cleaner selects is such a piece, its pass never returns, and both wait for each other.
\<close>

lemma waiter_blocks_cleaner:
  assumes "\<not> c_isClosed (w_cache w)" and "c_capacity (w_cache w) < c_filled (w_cache w)" and "c_pieceLength (w_cache w) > 0"
    and "sort_key (piece_accessed w) (candidates env w) = pid # pids" and "pid \<in> ce_held env"
  shows "cleanPiecesPass env w = NoFuel"
proof -
  define u where "u = recordCleanupRun w"
  have u: "core u = core w" "c_readers (w_cache u) = c_readers (w_cache w)" by (simp_all add: u_def)
  obtain w' where rem: "getRemPieces env u = (candidates env u, w')" and core: "core w' = core u"
    by (rule getRemPieces_result)
  have c: "core w' = core w" using core u(1) by simp
  have "piece_accessed w' = piece_accessed w" using cache_piece_core [OF c] by (simp add: piece_accessed_def fun_eq_iff)
  moreover have "candidates env u = candidates env w" by (rule candidates_cong [OF u])
  ultimately show ?thesis using rem assms core_eq(3,5) [OF c] core_eq(3) [OF u(1)]
    by (simp add: cleanPiecesPass_def GetCapacity_def Let_def u_def [symmetric] removePiece_def)
qed

end
