(* ===== verification/Priority.thy ===== *)
theory Priority
  imports Piece_Store
begin

text \<open>
  Download priorities of pieces (torrstor/cache_priority.go): the pieces around the readers are
  given a priority in the torrent library, remembered, and cleared when no reader needs them.

  The priorities that the library reports are arguments (\<open>prio\<close>), as are the orders in which
  the maps of tracked and desired pieces are visited; what the cache sets is in the log \<open>w_lib\<close>.
\<close>

section \<open>The budget\<close>

definition maxPriorityPiecesPerReader :: int where
  "maxPriorityPiecesPerReader = 80"

definition priorityNextPieces :: int where
  "priorityNextPieces = 1"

definition priorityHighTailPieces :: int where
  "priorityHighTailPieces = 5"

definition minPriorityUpdateInterval :: int where
  "minPriorityUpdateInterval = 1000000000"

definition priorityPieceBudgetUpperBound :: "int \<Rightarrow> int" where
  "priorityPieceBudgetUpperBound connectionsLimit =
     (if connectionsLimit > maxPriorityPiecesPerReader then connectionsLimit else maxPriorityPiecesPerReader)"

definition priorityPieceBudget :: "int \<Rightarrow> int \<Rightarrow> int" where
  "priorityPieceBudget connectionsLimit activeReaders =
     (let connectionsLimit = (if connectionsLimit \<le> 0 then 1 else connectionsLimit);
          activeReaders = (if activeReaders \<le> 0 then 1 else activeReaders);
          budget = go_div connectionsLimit activeReaders;
          budget = (if budget < 1 then 1 else budget);
          budget = (if activeReaders \<le> 2 then i64 (budget * 2) else budget);
          upperBound = priorityPieceBudgetUpperBound connectionsLimit
      in if budget > upperBound then upperBound else budget)"

definition maxPiecePriority :: "piece_priority \<Rightarrow> piece_priority \<Rightarrow> piece_priority" where
  "maxPiecePriority current nxt = (if nxt > current then nxt else current)"

definition desiredPiecePriority :: "int \<Rightarrow> int \<Rightarrow> int \<Rightarrow> piece_priority" where
  "desiredPiecePriority pieceID readerPos readerRAHPos =
     (if pieceID = readerPos then PiecePriorityNow
      else if pieceID > readerPos \<and> pieceID \<le> i64 (readerPos + priorityNextPieces) then PiecePriorityNext
      else if pieceID > readerPos \<and> pieceID \<le> readerRAHPos then PiecePriorityReadahead
      else if pieceID > readerRAHPos \<and> pieceID \<le> i64 (readerRAHPos + priorityHighTailPieces) then PiecePriorityHigh
      else PiecePriorityNormal)"

section \<open>What the readers want\<close>

text \<open>\<open>desired[i]\<close> of an absent key is the zero value.\<close>

definition prio_at :: "(int \<rightharpoonup> piece_priority) \<Rightarrow> int \<Rightarrow> piece_priority" where
  "prio_at m i = (case m i of None \<Rightarrow> PiecePriorityNone | Some p \<Rightarrow> p)"

function desired_loop ::
    "(int \<Rightarrow> piece option) \<Rightarrow> activeReaderSnapshot \<Rightarrow> int \<Rightarrow> int \<Rightarrow> int \<Rightarrow> (int \<rightharpoonup> piece_priority) \<Rightarrow> (int \<rightharpoonup> piece_priority)" where
  "desired_loop pieces reader count i limit desired =
     (if i < rEnd (ars_piecesRange reader) \<and> limit < count then
        (case pieces i of
           None \<Rightarrow> desired_loop pieces reader count (i + 1) limit desired
         | Some piece \<Rightarrow>
             if pc_Complete piece then desired_loop pieces reader count (i + 1) limit desired
             else desired_loop pieces reader count (i + 1) (limit + 1)
                    (desired(i \<mapsto> maxPiecePriority (prio_at desired i)
                       (desiredPiecePriority i (ars_readerPos reader) (ars_readerRAHPos reader)))))
      else desired)"
  by pat_completeness auto
termination
  by (relation "measure (\<lambda>(pieces, reader, count, i, limit, desired). nat (rEnd (ars_piecesRange reader) - i))") auto

declare desired_loop.simps [simp del]

definition desiredPrioritiesForReaders ::
    "int \<Rightarrow> activeReaderSnapshot list \<Rightarrow> world \<Rightarrow> (int \<rightharpoonup> piece_priority) \<times> world" where
  "desiredPrioritiesForReaders nowMS readers w =
     (if readers = [] then (Map.empty, w)
      else let count = priorityPieceBudget (nc_ConnectionsLimit (currentNetworkConfig (w_cache w))) (int (length readers));
               desired = foldl (\<lambda>desired reader.
                   desired_loop (\<lambda>i. cache_piece i w) reader count (ars_readerPos reader) 0 desired) Map.empty readers
           in (desired, recordPrioritySelection nowMS (int (card (dom desired))) False w))"

section \<open>Applying it\<close>

definition torrentPriorityAPI :: "cache \<Rightarrow> bool" where
  "torrentPriorityAPI c = (if c_isClosed c then False else c_priorityAPI c \<or> c_torrent c)"

definition tracked_pieces :: "world \<Rightarrow> int \<rightharpoonup> piece_priority" where
  "tracked_pieces w = (case pr_pieces (c_priorities (w_cache w)) of None \<Rightarrow> Map.empty | Some m \<Rightarrow> m)"

definition set_tracked :: "(int \<rightharpoonup> piece_priority) \<Rightarrow> world \<Rightarrow> world" where
  "set_tracked m w = upd_cache (\<lambda>c. c\<lparr>c_priorities := (c_priorities c)\<lparr>pr_pieces := Some m\<rparr>\<rparr>) w"

definition clear_one :: "(int \<Rightarrow> piece_priority) \<Rightarrow> Range list \<Rightarrow> int \<times> world \<Rightarrow> int \<Rightarrow> int \<times> world" where
  "clear_one prio ranges cw pid =
     (let (cleared, w) = cw in
      if length ranges > 0 \<and> inRanges ranges pid then (cleared, w)
      else let (cleared, w) = (if prio pid \<noteq> PiecePriorityNone
                               then (cleared + 1, lib (LibSetPriority pid PiecePriorityNone) w)
                               else (cleared, w))
           in (cleared, set_tracked ((tracked_pieces w)(pid := None)) w))"

definition clearPrioritiesOutsideRanges ::
    "(int \<Rightarrow> piece_priority) \<Rightarrow> int list \<Rightarrow> Range list \<Rightarrow> world \<Rightarrow> int \<times> world" where
  "clearPrioritiesOutsideRanges prio ord ranges w =
     (if \<not> torrentPriorityAPI (w_cache w) then (0, w)
      else foldl (clear_one prio ranges) (0, w) (filter (\<lambda>pid. tracked_pieces w pid \<noteq> None) ord))"

record apply_state =
  as_desired :: "int \<rightharpoonup> piece_priority"
  as_set :: int
  as_noop :: int
  as_world :: world

definition apply_tracked :: "(int \<Rightarrow> piece_priority) \<Rightarrow> apply_state \<Rightarrow> int \<Rightarrow> apply_state" where
  "apply_tracked prio st pid =
     (let w = as_world st; actual = prio pid; m = tracked_pieces w in
      case as_desired st pid of
        None \<Rightarrow>
          let w = (if actual \<noteq> PiecePriorityNone then lib (LibSetPriority pid PiecePriorityNone) w else w)
          in st\<lparr>as_world := set_tracked (m(pid := None)) w\<rparr>
      | Some want \<Rightarrow>
          if m pid = Some want \<and> actual = want
          then st\<lparr>as_noop := as_noop st + 1, as_desired := (as_desired st)(pid := None)\<rparr>
          else let (n, w) = (if actual \<noteq> want then (as_set st + 1, lib (LibSetPriority pid want) w) else (as_set st, w))
               in st\<lparr>as_set := n, as_world := set_tracked (m(pid \<mapsto> want)) w,
                     as_desired := (as_desired st)(pid := None)\<rparr>)"

definition apply_rest :: "(int \<Rightarrow> piece_priority) \<Rightarrow> apply_state \<Rightarrow> int \<Rightarrow> apply_state" where
  "apply_rest prio st pid =
     (case as_desired st pid of
        None \<Rightarrow> st
      | Some want \<Rightarrow>
          let w = as_world st;
              (n, w) = (if prio pid \<noteq> want then (as_set st + 1, lib (LibSetPriority pid want) w) else (as_set st, w))
          in st\<lparr>as_set := n, as_world := set_tracked ((tracked_pieces w)(pid \<mapsto> want)) w\<rparr>)"

text \<open>The counts of pieces set, left alone and tracked afterwards, and the world.\<close>

definition applyDesiredPriorities ::
    "(int \<Rightarrow> piece_priority) \<Rightarrow> int list \<Rightarrow> int list \<Rightarrow> (int \<rightharpoonup> piece_priority) \<Rightarrow> world \<Rightarrow> (int \<times> int \<times> int) \<times> world" where
  "applyDesiredPriorities prio ord1 ord2 desired w =
     (if \<not> torrentPriorityAPI (w_cache w) then ((0, 0, 0), w)
      else let w = (if pr_pieces (c_priorities (w_cache w)) = None then set_tracked Map.empty w else w);
               st = \<lparr>as_desired = desired, as_set = 0, as_noop = 0, as_world = w\<rparr>;
               st = foldl (apply_tracked prio) st (filter (\<lambda>pid. tracked_pieces w pid \<noteq> None) ord1);
               st = foldl (apply_rest prio) st (filter (\<lambda>pid. as_desired st pid \<noteq> None) ord2)
           in ((as_set st, as_noop st, int (card (dom (tracked_pieces (as_world st))))), as_world st))"

text \<open>
  The environment of an update: the clock, the order of the readers, the reported priorities when
  old pieces are cleared and when the new ones are applied, and the orders of the three loops.
\<close>

record prio_env =
  pe_now :: int
  pe_atStart :: "nat \<Rightarrow> bool"
  pe_readers :: "nat list"
  pe_prioClear :: "int \<Rightarrow> piece_priority"
  pe_prioApply :: "int \<Rightarrow> piece_priority"
  pe_clear :: "int list"
  pe_tracked :: "int list"
  pe_desired :: "int list"

definition unixMilli :: "int \<Rightarrow> int" where
  "unixMilli now = now div 1000000"

definition UpdatePriorities :: "prio_env \<Rightarrow> world \<Rightarrow> world" where
  "UpdatePriorities env w =
     (if \<not> torrentPriorityAPI (w_cache w) then w
      else if pr_updateRunning (c_priorities (w_cache w)) then w
      else let (readers, w) = snapshotActiveReaders (pe_now env) (pe_atStart env) (pe_readers env) True w in
        if readers = [] then w
        else let ranges = activeReaderRanges readers;
                 (cleared, w) = clearPrioritiesOutsideRanges (pe_prioClear env) (pe_clear env) ranges w;
                 (desired, w) = desiredPrioritiesForReaders (unixMilli (pe_now env)) readers w;
                 ((setPieces, noopPieces, trackedPieces), w) =
                   applyDesiredPriorities (pe_prioApply env) (pe_tracked env) (pe_desired env) desired w
             in recordPriorityChurn cleared setPieces noopPieces trackedPieces w)"

section \<open>Requests and delayed clearing\<close>

definition queuePriorityUpdate :: "int \<Rightarrow> world \<Rightarrow> world" where
  "queuePriorityUpdate now w =
     (let p = c_priorities (w_cache w) in
      if c_isClosed (w_cache w) then w
      else if pr_lastQueueNano p \<noteq> 0 \<and> i64 (now - pr_lastQueueNano p) < minPriorityUpdateInterval then w
      else let w' = upd_cache (\<lambda>c. c\<lparr>c_priorities := (c_priorities c)\<lparr>pr_lastQueueNano := now\<rparr>\<rparr>) w
           in if pr_updateQueued p then w'
              else (upd_cache (\<lambda>c. c\<lparr>c_priorities := (c_priorities c)\<lparr>pr_updateQueued := True\<rparr>\<rparr>) w')
                     \<lparr>w_tasks := w_tasks w @ [RunUpdatePriorities]\<rparr>)"

text \<open>The timer of the delayed clearing is armed (a pending one is stopped and replaced).\<close>

definition clearPriorityAsync :: "world \<Rightarrow> world" where
  "clearPriorityAsync w =
     (if \<not> torrentPriorityAPI (w_cache w) then w
      else upd_cache (\<lambda>c. c\<lparr>c_priorities := (c_priorities c)\<lparr>pr_clearTimer := True\<rparr>\<rparr>) w)"

definition clearPriority :: "prio_env \<Rightarrow> world \<Rightarrow> world" where
  "clearPriority env w =
     (if \<not> torrentPriorityAPI (w_cache w) then w
      else let (ranges, w) = getActiveReaderRanges (pe_now env) (pe_atStart env) (pe_readers env) w
           in snd (clearPrioritiesOutsideRanges (pe_prioClear env) (pe_clear env) ranges w))"

definition runClearPriority :: "prio_env \<Rightarrow> world \<Rightarrow> world" where
  "runClearPriority env w =
     (if \<not> torrentPriorityAPI (w_cache w) then w
      else if pr_clearRunning (c_priorities (w_cache w)) then w
      else clearPriority env w)"

section \<open>Readers of the cache\<close>

definition GetUseReaders :: "cache option \<Rightarrow> int" where
  "GetUseReaders c = (case c of None \<Rightarrow> 0 | Some c \<Rightarrow> c_activeReaders c)"

definition Cache_Readers :: "cache option \<Rightarrow> int" where
  "Cache_Readers c = (case c of None \<Rightarrow> 0
     | Some c \<Rightarrow> (case c_readers c of None \<Rightarrow> 0 | Some m \<Rightarrow> int (card (dom m))))"

text \<open>
  \<open>CloseReader\<close> on a reader \<open>r\<close> of this cache. The reader stays with its holder, closed.
\<close>

definition CloseReader :: "int \<Rightarrow> bool \<Rightarrow> nat \<Rightarrow> reader \<times> world \<Rightarrow> reader \<times> world" where
  "CloseReader now hasFiles rid rw =
     (let (r, w) = rw;
          w = upd_cache (\<lambda>c. c\<lparr>c_readers := map_option (\<lambda>m. m(rid := None)) (c_readers c)\<rparr>) w;
          (r, w) = Reader_Close now hasFiles rid (r, w)
      in (r, clearPriorityAsync w))"

record ReaderActivitySnapshot =
  ras_TotalReaders :: int
  ras_ActiveReaders :: int
  ras_IdleReaders :: int
  ras_OldestReaderAgeMS :: int
  ras_NewestReaderAgeMS :: int
  ras_MaxReaderIdleMS :: int

definition readerAgeMS :: "int \<Rightarrow> int \<Rightarrow> int" where
  "readerAgeMS now createdUnixNano =
     (if createdUnixNano \<le> 0 then 0
      else let age = time_sub now createdUnixNano in if age \<le> 0 then 0 else go_div age 1000000)"

definition readerIdleMS :: "int \<Rightarrow> int \<Rightarrow> int" where
  "readerIdleMS now lastAccessUnix =
     (if lastAccessUnix \<le> 0 then 0
      else let idle = time_sub now (lastAccessUnix * 1000000000) in if idle \<le> 0 then 0 else go_div idle 1000000)"

definition activity_step :: "int \<Rightarrow> world \<Rightarrow> ReaderActivitySnapshot \<Rightarrow> nat \<Rightarrow> ReaderActivitySnapshot" where
  "activity_step now w s rid =
     (case reader_at w rid of
        None \<Rightarrow> s
      | Some r \<Rightarrow>
          if rd_isClosed r then s
          else let s = (if rd_isUse r then s\<lparr>ras_ActiveReaders := ras_ActiveReaders s + 1\<rparr>
                        else s\<lparr>ras_IdleReaders := ras_IdleReaders s + 1\<rparr>);
                   ageMS = readerAgeMS now (rd_created r);
                   s = (if ageMS > ras_OldestReaderAgeMS s then s\<lparr>ras_OldestReaderAgeMS := ageMS\<rparr> else s);
                   s = (if ras_NewestReaderAgeMS s = 0 \<or> ageMS < ras_NewestReaderAgeMS s
                        then s\<lparr>ras_NewestReaderAgeMS := ageMS\<rparr> else s);
                   idleMS = readerIdleMS now (rd_lastAccess r)
               in if idleMS > ras_MaxReaderIdleMS s then s\<lparr>ras_MaxReaderIdleMS := idleMS\<rparr> else s)"

definition zero_activity :: ReaderActivitySnapshot where
  "zero_activity = \<lparr>ras_TotalReaders = 0, ras_ActiveReaders = 0, ras_IdleReaders = 0,
     ras_OldestReaderAgeMS = 0, ras_NewestReaderAgeMS = 0, ras_MaxReaderIdleMS = 0\<rparr>"

definition Cache_ReaderActivitySnapshot :: "int \<Rightarrow> nat list \<Rightarrow> world \<Rightarrow> ReaderActivitySnapshot" where
  "Cache_ReaderActivitySnapshot now ord w =
     (let readers = copyReaders ord w in
      if readers = [] then zero_activity
      else foldl (activity_step now w) (zero_activity\<lparr>ras_TotalReaders := int (length readers)\<rparr>) readers)"

section \<open>What is applied\<close>

lemma tracked_simps [simp]:
  "tracked_pieces (set_tracked m w) = m" "tracked_pieces (lib x w) = tracked_pieces w"
  "w_lib (set_tracked m w) = w_lib w" "pr_pieces (c_priorities (w_cache (set_tracked m w))) = Some m"
  "torrentPriorityAPI (w_cache (set_tracked m w)) = torrentPriorityAPI (w_cache w)"
  by (simp_all add: tracked_pieces_def set_tracked_def torrentPriorityAPI_def)

text \<open>The calls that bring the library from what it reports to what is wanted.\<close>

definition wanted_calls :: "(int \<Rightarrow> piece_priority) \<Rightarrow> (int \<rightharpoonup> piece_priority) \<Rightarrow> int set \<Rightarrow> lib_call set" where
  "wanted_calls prio desired ids =
     {LibSetPriority pid (prio_at desired pid) | pid. pid \<in> ids \<and> prio pid \<noteq> prio_at desired pid}"

lemma wanted_calls_insert:
  "wanted_calls prio desired (insert pid ids) =
     (if prio pid \<noteq> prio_at desired pid then {LibSetPriority pid (prio_at desired pid)} else {})
     \<union> wanted_calls prio desired ids"
  by (auto simp: wanted_calls_def)

definition applied :: "(int \<Rightarrow> piece_priority) \<Rightarrow> (int \<rightharpoonup> piece_priority) \<Rightarrow> (int \<rightharpoonup> piece_priority) \<Rightarrow> lib_call list
    \<Rightarrow> int set \<Rightarrow> apply_state \<Rightarrow> bool" where
  "applied prio desired m calls ids st \<longleftrightarrow>
     tracked_pieces (as_world st) = (\<lambda>pid. if pid \<in> ids then desired pid else m pid) \<and>
     (\<exists>new. w_lib (as_world st) = calls @ new \<and> set new = wanted_calls prio desired ids)"

lemma applied_intro:
  assumes "applied prio desired m calls ids st" "pid \<notin> ids"
    "tracked_pieces (as_world st') = (tracked_pieces (as_world st))(pid := desired pid)"
    "w_lib (as_world st') = w_lib (as_world st)
       @ (if prio pid \<noteq> prio_at desired pid then [LibSetPriority pid (prio_at desired pid)] else [])"
  shows "applied prio desired m calls (insert pid ids) st'"
proof -
  obtain new where "w_lib (as_world st) = calls @ new" "set new = wanted_calls prio desired ids"
    and t: "tracked_pieces (as_world st) = (\<lambda>pid. if pid \<in> ids then desired pid else m pid)"
    using assms(1) by (auto simp: applied_def)
  then have "\<exists>new. w_lib (as_world st') = calls @ new \<and> set new = wanted_calls prio desired (insert pid ids)"
    using assms(4) by (auto simp: wanted_calls_insert)
  moreover have "tracked_pieces (as_world st') = (\<lambda>q. if q \<in> insert pid ids then desired q else m q)"
    using t assms(3) by auto
  ultimately show ?thesis unfolding applied_def by blast
qed

lemma apply_tracked_step:
  assumes "applied prio desired m calls ids st" "pid \<notin> ids" "m pid \<noteq> None"
    "as_desired st = desired |` (- ids)"
  shows "applied prio desired m calls (insert pid ids) (apply_tracked prio st pid)
    \<and> as_desired (apply_tracked prio st pid) = desired |` (- insert pid ids)"
proof -
  have here: "tracked_pieces (as_world st) pid = m pid" using assms(1,2) by (simp add: applied_def)
  have des: "as_desired st pid = desired pid" using assms(2,4) by simp
  have rest: "(desired |` (- ids))(pid := None) = desired |` (- insert pid ids)"
    by (auto simp: restrict_map_def fun_eq_iff)
  show ?thesis
  proof (cases "desired pid")
    case None
    then have "desired |` (- insert pid ids) = desired |` (- ids)"
      by (auto simp: restrict_map_def fun_eq_iff)
    moreover have "applied prio desired m calls (insert pid ids) (apply_tracked prio st pid)"
      using None des by (intro applied_intro [OF assms(1,2)]) (auto simp: apply_tracked_def prio_at_def Let_def)
    ultimately show ?thesis using None des assms(4) by (simp add: apply_tracked_def Let_def)
  next
    case (Some want)
    have "applied prio desired m calls (insert pid ids) (apply_tracked prio st pid)"
      using Some des here
      by (intro applied_intro [OF assms(1,2)]) (auto simp: apply_tracked_def prio_at_def Let_def fun_eq_iff)
    then show ?thesis using Some des assms(4) rest by (simp add: apply_tracked_def Let_def)
  qed
qed

lemma apply_tracked_all:
  assumes "distinct pids" "set pids \<inter> ids = {}" "\<forall>pid \<in> set pids. m pid \<noteq> None"
    "applied prio desired m calls ids st" "as_desired st = desired |` (- ids)"
  shows "applied prio desired m calls (set pids \<union> ids) (foldl (apply_tracked prio) st pids)
    \<and> as_desired (foldl (apply_tracked prio) st pids) = desired |` (- (set pids \<union> ids))"
  using assms
proof (induction pids arbitrary: ids st)
  case (Cons pid pids)
  have "applied prio desired m calls (insert pid ids) (apply_tracked prio st pid)"
    "as_desired (apply_tracked prio st pid) = desired |` (- insert pid ids)"
    using apply_tracked_step [of prio desired m calls ids st pid] Cons.prems by auto
  then show ?case using Cons.IH [of "insert pid ids" "apply_tracked prio st pid"] Cons.prems by simp
qed simp

lemma apply_rest_all:
  assumes "distinct pids" "set pids \<inter> ids = {}" "\<forall>pid \<in> set pids. desired pid \<noteq> None"
    "applied prio desired m calls ids st" "as_desired st = desired |` (- ids0)" "ids0 \<inter> set pids = {}"
  shows "applied prio desired m calls (set pids \<union> ids) (foldl (apply_rest prio) st pids)"
  using assms
proof (induction pids arbitrary: ids st)
  case (Cons pid pids)
  obtain want where want: "desired pid = Some want" using Cons.prems(3) by auto
  then have des: "as_desired st pid = Some want" using Cons.prems(5,6) by auto
  have "applied prio desired m calls (insert pid ids) (apply_rest prio st pid)"
    using want des Cons.prems(2)
    by (intro applied_intro [OF Cons.prems(4)]) (auto simp: apply_rest_def prio_at_def Let_def fun_eq_iff)
  moreover have "as_desired (apply_rest prio st pid) = as_desired st"
    using des by (simp add: apply_rest_def Let_def split_beta)
  ultimately show ?case using Cons.IH [of "insert pid ids" "apply_rest prio st pid"] Cons.prems by simp
qed simp

section \<open>Properties\<close>

text \<open>
  Property C11. Applying the desired priorities is exact: whatever the orders of the two loops, afterwards
  the tracked pieces are exactly the desired ones with the desired priorities, and the library
  was told precisely about those old and new pieces whose reported priority differed
  from the wanted one (none for a piece nobody wants any more), and about nothing else.
\<close>

theorem applyDesiredPriorities_exact:
  assumes "torrentPriorityAPI (w_cache w)" "distinct ord1" "distinct ord2"
    "dom (tracked_pieces w) \<subseteq> set ord1" "dom desired \<subseteq> set ord2"
    "applyDesiredPriorities prio ord1 ord2 desired w = ((setPieces, noopPieces, trackedPieces), w')"
  shows "tracked_pieces w' = desired \<and> trackedPieces = int (card (dom desired))
    \<and> (\<exists>new. w_lib w' = w_lib w @ new
         \<and> set new = wanted_calls prio desired (dom (tracked_pieces w) \<union> dom desired))"
proof -
  define v where "v = (if pr_pieces (c_priorities (w_cache w)) = None then set_tracked Map.empty w else w)"
  have v: "tracked_pieces v = tracked_pieces w" "w_lib v = w_lib w"
    by (auto simp: v_def tracked_pieces_def)
  let ?st0 = "\<lparr>as_desired = desired, as_set = 0, as_noop = 0, as_world = v\<rparr>"
  let ?m = "tracked_pieces w"
  let ?xs = "filter (\<lambda>pid. ?m pid \<noteq> None) ord1"
  define st1 where "st1 = foldl (apply_tracked prio) ?st0 ?xs"
  have xs: "set ?xs = dom ?m" using assms(4) by auto
  have start: "applied prio desired ?m (w_lib w) {} ?st0" by (simp add: applied_def v wanted_calls_def)
  have "applied prio desired ?m (w_lib w) (set ?xs \<union> {}) st1 \<and> as_desired st1 = desired |` (- (set ?xs \<union> {}))"
    unfolding st1_def using assms(2)
    by (intro apply_tracked_all start) (auto simp: restrict_map_def fun_eq_iff)
  then have st1: "applied prio desired ?m (w_lib w) (dom ?m) st1" "as_desired st1 = desired |` (- dom ?m)"
    unfolding xs Un_empty_right by auto
  let ?ys = "filter (\<lambda>pid. as_desired st1 pid \<noteq> None) ord2"
  have ys: "set ?ys = dom desired - dom ?m" using assms(5) st1(2) by (auto simp: restrict_map_def)
  have "applied prio desired ?m (w_lib w) (set ?ys \<union> dom ?m) (foldl (apply_rest prio) st1 ?ys)"
  proof (rule apply_rest_all [OF _ _ _ st1])
    show "distinct ?ys" using assms(3) by simp
    show "set ?ys \<inter> dom ?m = {}" "dom ?m \<inter> set ?ys = {}" unfolding ys by auto
    show "\<forall>pid \<in> set ?ys. desired pid \<noteq> None" unfolding ys by auto
  qed
  then have fin: "applied prio desired ?m (w_lib w) (dom ?m \<union> dom desired) (foldl (apply_rest prio) st1 ?ys)"
    unfolding ys by (simp add: Un_commute)
  have res: "w' = as_world (foldl (apply_rest prio) st1 ?ys)"
    "trackedPieces = int (card (dom (tracked_pieces w')))"
    using assms(1,6) by (auto simp: applyDesiredPriorities_def Let_def v_def [symmetric] v st1_def)
  have "tracked_pieces w' = desired"
  proof (rule ext)
    fix pid
    have "tracked_pieces w' pid = (if pid \<in> dom ?m \<union> dom desired then desired pid else ?m pid)"
      using fin by (simp add: applied_def res(1))
    then show "tracked_pieces w' pid = desired pid" by (cases "desired pid"; cases "?m pid") (simp_all add: domIff)
  qed
  with fin res show ?thesis by (auto simp: applied_def)
qed

definition api_world :: "world" where
  "api_world = (let w = full_world Map.empty in set_tracked [0 \<mapsto> PiecePriorityNow] (upd_cache (\<lambda>c. c\<lparr>c_torrent := True\<rparr>) w))"

theorem applyDesiredPriorities_exact_witness:
  "\<exists>r w'. applyDesiredPriorities (\<lambda>_. PiecePriorityNormal) [0] [1] [1 \<mapsto> PiecePriorityNow] api_world = (r, w')
     \<and> tracked_pieces w' = [1 \<mapsto> PiecePriorityNow]"
proof -
  obtain a b c w' where r: "applyDesiredPriorities (\<lambda>_. PiecePriorityNormal) [0] [1] [1 \<mapsto> PiecePriorityNow] api_world
      = ((a, b, c), w')" by (metis prod.exhaust)
  have "torrentPriorityAPI (w_cache api_world)" "tracked_pieces api_world = [0 \<mapsto> PiecePriorityNow]"
    by (simp_all add: api_world_def Let_def torrentPriorityAPI_def full_world_def NewCache_def set_tracked_def
        tracked_pieces_def)
  with applyDesiredPriorities_exact [OF _ _ _ _ _ r] r show ?thesis by auto
qed

section \<open>What is desired\<close>

lemma desired_loop_frame:
  "i0 < i \<Longrightarrow> desired_loop pieces reader count i limit desired i0 = desired i0"
proof (induction pieces reader count i limit desired rule: desired_loop.induct)
  case (1 pieces reader count i limit desired)
  show ?case using 1 by (subst desired_loop.simps) (auto split: option.split simp: fun_upd_def)
qed

text \<open>Every entry that the loop makes is about an incomplete piece ahead of the reader, and at most
  as many as the budget are new.\<close>

definition wants :: "(int \<Rightarrow> piece option) \<Rightarrow> activeReaderSnapshot \<Rightarrow> int \<Rightarrow> int set" where
  "wants pieces reader i = {j. i \<le> j \<and> j < rEnd (ars_piecesRange reader) \<and>
     (\<exists>p. pieces j = Some p \<and> \<not> pc_Complete p)}"

lemma desired_loop_dom:
  "dom (desired_loop pieces reader count i limit desired) \<subseteq> dom desired \<union> wants pieces reader i
   \<and> (\<exists>new. finite new \<and> int (card new) \<le> max 0 (count - limit)
        \<and> dom (desired_loop pieces reader count i limit desired) = dom desired \<union> new)"
proof (induction pieces reader count i limit desired rule: desired_loop.induct)
  case (1 pieces reader count i limit desired)
  show ?case
  proof (cases "i < rEnd (ars_piecesRange reader) \<and> limit < count")
    case False
    then show ?thesis by (subst (1 2) desired_loop.simps) (auto intro!: exI [of _ "{}"])
  next
    case True
    have mono: "wants pieces reader (i + 1) \<subseteq> wants pieces reader i" by (auto simp: wants_def)
    show ?thesis
    proof (cases "\<exists>p. pieces i = Some p \<and> \<not> pc_Complete p")
      case False
      then have "desired_loop pieces reader count i limit desired = desired_loop pieces reader count (i + 1) limit desired"
        using True by (subst desired_loop.simps) (auto split: option.split)
      moreover have "dom (desired_loop pieces reader count (i + 1) limit desired) \<subseteq> dom desired \<union> wants pieces reader (i + 1)
        \<and> (\<exists>new. finite new \<and> int (card new) \<le> max 0 (count - limit)
          \<and> dom (desired_loop pieces reader count (i + 1) limit desired) = dom desired \<union> new)"
        using True False 1(1,2) by (cases "pieces i") auto
      ultimately show ?thesis using mono by auto
    next
      case here: True
      then obtain p where p: "pieces i = Some p" "\<not> pc_Complete p" by blast
      let ?d = "desired(i \<mapsto> maxPiecePriority (prio_at desired i)
        (desiredPiecePriority i (ars_readerPos reader) (ars_readerRAHPos reader)))"
      have eq: "desired_loop pieces reader count i limit desired = desired_loop pieces reader count (i + 1) (limit + 1) ?d"
        using True p by (subst desired_loop.simps) simp
      obtain new where new: "finite new" "int (card new) \<le> max 0 (count - (limit + 1))"
        "dom (desired_loop pieces reader count (i + 1) (limit + 1) ?d) = dom ?d \<union> new"
        "dom (desired_loop pieces reader count (i + 1) (limit + 1) ?d) \<subseteq> dom ?d \<union> wants pieces reader (i + 1)"
        using 1(3) [OF True p, folded fun_upd_def] by blast
      have "i \<in> wants pieces reader i" using True p by (auto simp: wants_def)
      moreover have "int (card (insert i new)) \<le> max 0 (count - limit)"
        using new(1,2) True card_insert_le_m1 [of "Suc (card new)" new i] by (auto simp: card_insert_if)
      ultimately show ?thesis unfolding eq using new mono by (auto intro!: exI [of _ "insert i new"])
    qed
  qed
qed

lemma max_prio_not_none: "b \<noteq> PiecePriorityNone \<Longrightarrow> maxPiecePriority a b \<noteq> PiecePriorityNone"
  by (cases b) (auto simp: maxPiecePriority_def less_piece_priority_def)

lemma max_prio_now: "maxPiecePriority PiecePriorityNow b = PiecePriorityNow" "maxPiecePriority a PiecePriorityNow = PiecePriorityNow"
proof -
  show "maxPiecePriority PiecePriorityNow b = PiecePriorityNow"
    by (cases b) (simp_all add: maxPiecePriority_def less_piece_priority_def)
  show "maxPiecePriority a PiecePriorityNow = PiecePriorityNow"
    by (cases a) (simp_all add: maxPiecePriority_def less_piece_priority_def)
qed

lemma desired_not_none: "desiredPiecePriority i p q \<noteq> PiecePriorityNone"
  by (simp add: desiredPiecePriority_def)

lemma desired_loop_inv:
  "\<lbrakk>\<And>d i. P d \<Longrightarrow> P (d(i \<mapsto> maxPiecePriority (prio_at d i)
      (desiredPiecePriority i (ars_readerPos reader) (ars_readerRAHPos reader)))); P desired\<rbrakk>
   \<Longrightarrow> P (desired_loop pieces reader count i limit desired)"
proof (induction pieces reader count i limit desired rule: desired_loop.induct)
  case (1 pieces reader count i limit desired)
  consider (stop) "\<not> (i < rEnd (ars_piecesRange reader) \<and> limit < count)"
    | (skip) "i < rEnd (ars_piecesRange reader) \<and> limit < count" "\<forall>p. pieces i = Some p \<longrightarrow> pc_Complete p"
    | (take) p where "i < rEnd (ars_piecesRange reader) \<and> limit < count" "pieces i = Some p" "\<not> pc_Complete p"
    by blast
  then show ?case
  proof cases
    case stop
    then show ?thesis using "1.prems"(2) by (subst desired_loop.simps) (simp only: if_False)
  next
    case skip
    then show ?thesis using 1 by (subst desired_loop.simps) (auto split: option.split)
  next
    case take
    have "P (desired_loop pieces reader count (i + 1) (limit + 1)
      (desired(i \<mapsto> maxPiecePriority (prio_at desired i)
         (desiredPiecePriority i (ars_readerPos reader) (ars_readerRAHPos reader)))))"
      using "1.IH"(3) [OF take, folded fun_upd_def] "1.prems" by blast
    then show ?thesis using take by (subst desired_loop.simps) simp
  qed
qed

lemma desired_loop_values:
  assumes "\<forall>j p. desired j = Some p \<longrightarrow> p \<noteq> PiecePriorityNone"
  shows "\<forall>j p. desired_loop pieces reader count i limit desired j = Some p \<longrightarrow> p \<noteq> PiecePriorityNone"
  by (rule desired_loop_inv [where P = "\<lambda>d. \<forall>j p. d j = Some p \<longrightarrow> p \<noteq> PiecePriorityNone"])
    (use assms max_prio_not_none [OF desired_not_none] in auto)

lemma desired_loop_now:
  assumes "desired j = Some PiecePriorityNow"
  shows "desired_loop pieces reader count i limit desired j = Some PiecePriorityNow"
  by (rule desired_loop_inv [where P = "\<lambda>d. d j = Some PiecePriorityNow"])
    (use assms max_prio_now(1) in \<open>auto simp: prio_at_def\<close>)

lemma desired_loop_current:
  assumes "pieces (ars_readerPos reader) = Some p" "\<not> pc_Complete p" "0 < count"
    "ars_readerPos reader < rEnd (ars_piecesRange reader)"
  shows "desired_loop pieces reader count (ars_readerPos reader) 0 desired (ars_readerPos reader) = Some PiecePriorityNow"
  using assms max_prio_now(2)
  by (subst desired_loop.simps) (simp add: desired_loop_frame desiredPiecePriority_def)

lemma budget_bounds:
  assumes "connectionsLimit < 2 ^ 62"
  shows "1 \<le> priorityPieceBudget connectionsLimit activeReaders"
    "priorityPieceBudget connectionsLimit activeReaders \<le> max 80 connectionsLimit"
proof -
  define c where "c = (if connectionsLimit \<le> 0 then 1 else connectionsLimit)"
  define a where "a = (if activeReaders \<le> 0 then 1 else activeReaders)"
  define b where "b = (if go_div c a < 1 then 1 else go_div c a)"
  have c: "1 \<le> c" "c < 2 ^ 62" using assms by (auto simp: c_def)
  have "1 \<le> a" by (simp add: a_def)
  then have "go_div c a \<le> c" using c by (intro go_div_le_self) auto
  then have b: "1 \<le> b" "b < 2 ^ 62" using c by (auto simp: b_def)
  then have "i64 (b * 2) = b * 2" by (intro i64_id) (simp add: fits_i64_def)
  then have "1 \<le> (if a \<le> 2 then i64 (b * 2) else b)" using b by simp
  moreover have "priorityPieceBudget connectionsLimit activeReaders
      = min (if a \<le> 2 then i64 (b * 2) else b) (priorityPieceBudgetUpperBound c)"
    by (simp add: priorityPieceBudget_def Let_def b_def c_def a_def min_def)
  moreover have "1 \<le> priorityPieceBudgetUpperBound c" "priorityPieceBudgetUpperBound c \<le> max 80 connectionsLimit"
    by (auto simp: priorityPieceBudgetUpperBound_def maxPriorityPiecesPerReader_def c_def)
  ultimately show "1 \<le> priorityPieceBudget connectionsLimit activeReaders"
    "priorityPieceBudget connectionsLimit activeReaders \<le> max 80 connectionsLimit" by auto
qed

definition desired_of :: "(int \<Rightarrow> piece option) \<Rightarrow> int \<Rightarrow> (int \<rightharpoonup> piece_priority) \<Rightarrow> activeReaderSnapshot \<Rightarrow> (int \<rightharpoonup> piece_priority)" where
  "desired_of pieces count desired reader = desired_loop pieces reader count (ars_readerPos reader) 0 desired"

lemma desired_all:
  fixes readers :: "activeReaderSnapshot list"
  assumes "0 < count" "finite (dom d0)"
    and old: "\<forall>j p. d0 j = Some p \<longrightarrow> p \<noteq> PiecePriorityNone"
  shows "dom (foldl (desired_of pieces count) d0 readers)
      \<subseteq> dom d0 \<union> (\<Union>r \<in> set readers. wants pieces r (ars_readerPos r))"
    and "int (card (dom (foldl (desired_of pieces count) d0 readers))) \<le> int (card (dom d0)) + int (length readers) * count"
    and "\<forall>j p. foldl (desired_of pieces count) d0 readers j = Some p \<longrightarrow> p \<noteq> PiecePriorityNone"
    and "d0 j = Some PiecePriorityNow \<Longrightarrow> foldl (desired_of pieces count) d0 readers j = Some PiecePriorityNow"
    and "\<forall>r \<in> set readers. ars_readerPos r \<in> wants pieces r (ars_readerPos r) \<longrightarrow>
      foldl (desired_of pieces count) d0 readers (ars_readerPos r) = Some PiecePriorityNow"
proof -
  have "dom (foldl (desired_of pieces count) d0 readers)
      \<subseteq> dom d0 \<union> (\<Union>r \<in> set readers. wants pieces r (ars_readerPos r))
    \<and> int (card (dom (foldl (desired_of pieces count) d0 readers))) \<le> int (card (dom d0)) + int (length readers) * count
    \<and> (\<forall>j p. foldl (desired_of pieces count) d0 readers j = Some p \<longrightarrow> p \<noteq> PiecePriorityNone)
    \<and> (\<forall>j. d0 j = Some PiecePriorityNow \<longrightarrow> foldl (desired_of pieces count) d0 readers j = Some PiecePriorityNow)
    \<and> (\<forall>r \<in> set readers. ars_readerPos r \<in> wants pieces r (ars_readerPos r) \<longrightarrow>
        foldl (desired_of pieces count) d0 readers (ars_readerPos r) = Some PiecePriorityNow)"
    using assms(2) old
  proof (induction readers arbitrary: d0)
    case (Cons r readers)
    let ?d = "desired_of pieces count d0 r"
    obtain new where new: "finite new" "int (card new) \<le> count" "dom ?d = dom d0 \<union> new"
      and sub: "dom ?d \<subseteq> dom d0 \<union> wants pieces r (ars_readerPos r)"
      using desired_loop_dom [of pieces r count "ars_readerPos r" 0 d0] assms(1) by (auto simp: desired_of_def)
    have fin: "finite (dom ?d)" using new Cons.prems(1) by simp
    have "card (dom ?d) \<le> card (dom d0) + card new" unfolding new(3) by (rule card_Un_le)
    then have card: "int (card (dom ?d)) \<le> int (card (dom d0)) + count" using new(2) by linarith
    have vals: "\<forall>j p. ?d j = Some p \<longrightarrow> p \<noteq> PiecePriorityNone"
      unfolding desired_of_def by (rule desired_loop_values [OF Cons.prems(2)])
    have now: "d0 j = Some PiecePriorityNow \<Longrightarrow> ?d j = Some PiecePriorityNow" for j
      unfolding desired_of_def by (rule desired_loop_now)
    have cur: "ars_readerPos r \<in> wants pieces r (ars_readerPos r) \<Longrightarrow> ?d (ars_readerPos r) = Some PiecePriorityNow"
      using desired_loop_current [of pieces r _ count d0] assms(1) by (auto simp: desired_of_def wants_def)
    have mult: "int (length (r # readers)) * count = int (length readers) * count + count"
      by (simp add: algebra_simps)
    note IH = Cons.IH [OF fin vals]
    have "dom (foldl (desired_of pieces count) d0 (r # readers))
        \<subseteq> dom d0 \<union> (\<Union>r \<in> set (r # readers). wants pieces r (ars_readerPos r))"
      using IH [THEN conjunct1] sub by auto
    moreover have "int (card (dom (foldl (desired_of pieces count) d0 (r # readers))))
        \<le> int (card (dom d0)) + int (length (r # readers)) * count"
      using IH [THEN conjunct2, THEN conjunct1] card mult by simp
    ultimately show ?case using IH now cur by simp
  qed simp
  then show "dom (foldl (desired_of pieces count) d0 readers)
      \<subseteq> dom d0 \<union> (\<Union>r \<in> set readers. wants pieces r (ars_readerPos r))"
    "int (card (dom (foldl (desired_of pieces count) d0 readers))) \<le> int (card (dom d0)) + int (length readers) * count"
    "\<forall>j p. foldl (desired_of pieces count) d0 readers j = Some p \<longrightarrow> p \<noteq> PiecePriorityNone"
    "d0 j = Some PiecePriorityNow \<Longrightarrow> foldl (desired_of pieces count) d0 readers j = Some PiecePriorityNow"
    "\<forall>r \<in> set readers. ars_readerPos r \<in> wants pieces r (ars_readerPos r) \<longrightarrow>
      foldl (desired_of pieces count) d0 readers (ars_readerPos r) = Some PiecePriorityNow" by auto
qed

text \<open>
  Property C12. What is desired follows the readers: every desired piece is an incomplete piece of the cache, at or behind the
  position of some reader and before the end of its window, never with the priority none; there are at most the budget of
  pieces per reader, at most the larger of 80 and the connection limit each; and the piece a reader waits for, if it is
  incomplete and lies before the last piece of the reader's window, has the top priority, also when other readers want it less. The
  last piece of a window is not desired by its own reader (see last_piece_not_desired).
\<close>

theorem desired_priorities_sound:
  assumes "nc_ConnectionsLimit (currentNetworkConfig (w_cache w)) < 2 ^ 62"
    "desiredPrioritiesForReaders nowMS readers w = (desired, w')"
  shows "(\<forall>pid want. desired pid = Some want \<longrightarrow> want \<noteq> PiecePriorityNone \<and>
        (\<exists>r \<in> set readers. ars_readerPos r \<le> pid \<and> pid < rEnd (ars_piecesRange r)) \<and>
        (\<exists>p. cache_piece pid w = Some p \<and> \<not> pc_Complete p))
    \<and> int (card (dom desired)) \<le> int (length readers) * max 80 (nc_ConnectionsLimit (currentNetworkConfig (w_cache w)))
    \<and> (\<forall>r \<in> set readers. ars_readerPos r < rEnd (ars_piecesRange r) \<and> (\<exists>p. cache_piece (ars_readerPos r) w = Some p \<and> \<not> pc_Complete p)
        \<longrightarrow> desired (ars_readerPos r) = Some PiecePriorityNow)"
proof (cases "readers = []")
  case True
  then have "desired = Map.empty" using assms(2) by (simp add: desiredPrioritiesForReaders_def)
  with True show ?thesis by simp
next
  case False
  define limit where "limit = nc_ConnectionsLimit (currentNetworkConfig (w_cache w))"
  define count where "count = priorityPieceBudget limit (int (length readers))"
  define pieces where "pieces = (\<lambda>i. cache_piece i w)"
  have d: "desired = foldl (desired_of pieces count) Map.empty readers"
    using assms(2) False
    by (simp add: desiredPrioritiesForReaders_def Let_def count_def pieces_def limit_def desired_of_def [abs_def])
  have count: "0 < count" "count \<le> max 80 limit"
    using budget_bounds [of limit "int (length readers)"] assms(1) by (auto simp: count_def limit_def)
  have le: "int (length readers) * count \<le> int (length readers) * max 80 limit"
    using count(2) by (intro mult_left_mono) auto
  have empty: "finite (dom (Map.empty :: int \<rightharpoonup> piece_priority))"
    "\<forall>j p. (Map.empty :: int \<rightharpoonup> piece_priority) j = Some p \<longrightarrow> p \<noteq> PiecePriorityNone" by simp_all
  note all = desired_all(1-3,5) [OF count(1) empty, where pieces = pieces and readers = readers, folded d]
  have card: "int (card (dom desired)) \<le> int (length readers) * max 80 limit"
    using all(2) le by simp
  have "pid \<in> dom desired \<Longrightarrow> \<exists>r \<in> set readers. pid \<in> wants pieces r (ars_readerPos r)" for pid
    using all(1) by auto
  then have vals: "\<forall>pid want. desired pid = Some want \<longrightarrow> want \<noteq> PiecePriorityNone
      \<and> (\<exists>r \<in> set readers. ars_readerPos r \<le> pid \<and> pid < rEnd (ars_piecesRange r)) \<and> (\<exists>p. pieces pid = Some p \<and> \<not> pc_Complete p)"
    using all(3) by (fastforce simp: domIff wants_def)
  have now: "\<forall>r \<in> set readers. ars_readerPos r < rEnd (ars_piecesRange r) \<and> (\<exists>p. pieces (ars_readerPos r) = Some p \<and> \<not> pc_Complete p)
      \<longrightarrow> desired (ars_readerPos r) = Some PiecePriorityNow"
    using all(4) by (simp add: wants_def)
  show ?thesis
    by (intro conjI vals [unfolded pieces_def] card [unfolded limit_def] now [unfolded pieces_def])
qed

definition demo_snapshot :: activeReaderSnapshot where
  "demo_snapshot = \<lparr>ars_readerPos = 0, ars_readerRAHPos = 1,
     ars_piecesRange = \<lparr>rStart = 0, rEnd = 2, rFile = None\<rparr>\<rparr>"

theorem desired_priorities_sound_witness:
  "\<exists>desired w'. desiredPrioritiesForReaders 0 [demo_snapshot] small_world = (desired, w')
     \<and> desired 0 = Some PiecePriorityNow"
proof -
  obtain desired w' where r: "desiredPrioritiesForReaders 0 [demo_snapshot] small_world = (desired, w')"
    by (metis prod.exhaust)
  have "nc_ConnectionsLimit (currentNetworkConfig (w_cache small_world)) < 2 ^ 62"
    by (simp add: small_world_def currentNetworkConfig_def NewCache_def BTSets_NetworkConfig_def zero_NetworkConfig_def)
  moreover have "cache_piece 0 small_world = Some new_piece" "\<not> pc_Complete new_piece"
    by (simp_all add: small_world_def cache_piece_def new_piece_def)
  ultimately have "desired 0 = Some PiecePriorityNow"
    using desired_priorities_sound [OF _ r] by (auto simp: demo_snapshot_def)
  with r show ?thesis by blast
qed

text \<open>
  The end of a window is the piece of its last byte, which all other users take as part of it, but the loop stops before it: a
  reader in the last piece of its window, such as the last piece of a file, wants nothing.
\<close>

lemma last_piece_not_desired:
  assumes "rEnd (ars_piecesRange r) \<le> ars_readerPos r"
  shows "fst (desiredPrioritiesForReaders nowMS [r] w) = Map.empty"
  using assms by (simp add: desiredPrioritiesForReaders_def desired_loop.simps)

end
