(* ===== verification/Lifecycle.thy ===== *)
theory Lifecycle
  imports Priority
begin

text \<open>
  The life of a cache (torrstor/cache_lifecycle.go) and the snapshot of its state
  (torrstor/cache_state.go): initialisation from the metadata of the torrent, the handle for the
  torrent library, the changes of its capacity, and closing.

  The map iterations of \<open>Close\<close> take their orders as arguments. The removal of the cache from the
  registry, which \<open>Close\<close> asks its host for, is in theory \<open>Storage\<close>.
\<close>

section \<open>Opening\<close>

text \<open>\<open>stat\<close> tells for each piece the file that an earlier run left, as size and time.\<close>

definition Cache_Init :: "(int \<Rightarrow> (int \<times> int) option) \<Rightarrow> int \<Rightarrow> nat \<Rightarrow> world \<Rightarrow> world" where
  "Cache_Init stat pieceLength numPieces w =
     (let w = (if c_capacity (w_cache w) = 0
               then upd_cache (\<lambda>c. c\<lparr>c_capacity := i64 (pieceLength * 4)\<rparr>) w else w);
          w = upd_cache (\<lambda>c. c\<lparr>c_pieceLength := pieceLength, c_pieceCount := int numPieces\<rparr>) w;
          w = (if useDisk w then lib FsMkdirAll w else w);
          w = foldl (\<lambda>w i. NewPiece (stat (int i)) (int i) w) w [0..<numPieces]
      in registerMetrics w)"

definition SetTorrent :: "bool \<Rightarrow> world \<Rightarrow> world" where
  "SetTorrent present w = upd_cache (\<lambda>c. c\<lparr>c_torrent := present, c_priorityAPI := present\<rparr>) w"

text \<open>The index of the piece handed out, or none for the stand-in.\<close>

definition Cache_Piece :: "int \<Rightarrow> world \<Rightarrow> int option \<times> world" where
  "Cache_Piece pid w =
     (if cache_piece pid w \<noteq> None then (Some pid, recordHit w) else (None, recordMiss w))"

section \<open>Closing\<close>

definition releaseInMemoryPieces :: "int list \<Rightarrow> world \<Rightarrow> world" where
  "releaseInMemoryPieces ord w =
     foldl (\<lambda>w pid. case cache_piece pid w of
         None \<Rightarrow> w | Some p \<Rightarrow> if pc_disk p then w else MemPiece_Release pid w) w ord"

definition removeFiles :: "int list \<Rightarrow> world \<Rightarrow> world" where
  "removeFiles ord w =
     foldl (\<lambda>w pid. case cache_piece pid w of
         None \<Rightarrow> w | Some p \<Rightarrow> if pc_disk p then lib (FsRemovePiece pid) w else w) w ord"

definition Cache_Close :: "int list \<Rightarrow> int list \<Rightarrow> world \<Rightarrow> world" where
  "Cache_Close ord1 ord2 w =
     (if c_isClosed (w_cache w) then w
      else let w = upd_cache (\<lambda>c. c\<lparr>c_isClosed := True, c_torrent := False,
                     c_priorities := (c_priorities c)\<lparr>pr_clearTimer := False\<rparr>\<rparr>) w;
               w = releaseInMemoryPieces ord1 w;
               w = unregisterMetrics w;
               w = (if cc_RemoveOnDrop (currentCacheConfig (w_cache w))
                    then lib FsRemoveDir (removeFiles ord2 w) else w)
           in upd_cache (\<lambda>c. c\<lparr>c_readers := None, c_resident := None,
                c_priorities := (c_priorities c)\<lparr>pr_pieces := None\<rparr>, c_pieces := None\<rparr>) w)"

section \<open>Capacity\<close>

definition absInt64 :: "int \<Rightarrow> int" where
  "absInt64 v = (if v < 0 then i64 (- v) else v)"

definition adjust_reader :: "int \<Rightarrow> world \<Rightarrow> nat \<Rightarrow> world" where
  "adjust_reader readahead w rid =
     (case reader_at w rid of
        None \<Rightarrow> w
      | Some r \<Rightarrow>
          if rd_readahead r = readahead then w
          else let (r, w) = Reader_SetReadahead readahead rid (r, w) in set_reader rid r w)"

definition AdjustRA :: "nat list \<Rightarrow> int \<Rightarrow> world \<Rightarrow> world" where
  "AdjustRA ord readahead w =
     (let w = (if cc_SizeBytes (currentCacheConfig (w_cache w)) = 0
               then changeCapacity (i64 (readahead * 3)) w else w)
      in if Cache_Readers (Some (w_cache w)) > 0
         then foldl (adjust_reader readahead) w (copyReaders ord w) else w)"

definition SetCapacity :: "int \<Rightarrow> int \<Rightarrow> world \<Rightarrow> world" where
  "SetCapacity now capacity w =
     (let c = w_cache w in
      if c_isClosed c \<or> capacity \<le> 0 then w
      else let minCap = 8 * 1024 * 1024;
               minCap = (if c_pieceLength c > 0 \<and> minCap < c_pieceLength c then c_pieceLength c else minCap);
               capacity = (if capacity < minCap then minCap else capacity);
               old = c_capacity c
           in if old = capacity then w
              else if c_pieceLength c > 0 \<and> absInt64 (i64 (old - capacity)) < c_pieceLength c then w
              else let w = changeCapacity capacity w
                   in if capacity < old then queueCleanPieces now w else w)"

section \<open>The state for the clients\<close>

record ItemState =
  is_Length :: int
  is_Size :: int
  is_Completed :: bool
  is_Priority :: piece_priority

record ReaderState =
  rs_Start :: int
  rs_End :: int
  rs_Reader :: int

record CacheState =
  cs_Capacity :: int
  cs_Filled :: int
  cs_PiecesLength :: int
  cs_PiecesCount :: int
  cs_Pieces :: "int \<rightharpoonup> ItemState"
  cs_Readers :: "ReaderState list"

definition countActiveReaders :: "world \<Rightarrow> nat list \<Rightarrow> int" where
  "countActiveReaders w readers = int (length (filter (reader_active w) readers))"

definition reader_state :: "int \<Rightarrow> ReaderState list \<times> world \<Rightarrow> nat \<Rightarrow> ReaderState list \<times> world" where
  "reader_state activeReaders sw rid =
     (let (states, w) = sw in
      case reader_at w rid of
        None \<Rightarrow> (states, w)
      | Some r \<Rightarrow>
          let (rng, w') = getPiecesRangeForReaders activeReaders r w
          in (states @ [\<lparr>rs_Start = rStart rng, rs_End = rEnd rng, rs_Reader = getReaderPiece (w_cache w) r\<rparr>], w'))"

definition buildReaderStates :: "nat list \<Rightarrow> world \<Rightarrow> ReaderState list \<times> world" where
  "buildReaderStates readers w =
     (if readers = [] then ([], w)
      else foldl (reader_state (countActiveReaders w readers)) ([], w) readers)"

definition item_state :: "(int \<Rightarrow> piece_priority) \<Rightarrow> world \<Rightarrow> int \<times> (int \<rightharpoonup> ItemState) \<Rightarrow> int \<Rightarrow> int \<times> (int \<rightharpoonup> ItemState)" where
  "item_state prio w fm pid =
     (let (fill, m) = fm in
      case cache_piece pid w of
        None \<Rightarrow> (fill, m)
      | Some p \<Rightarrow>
          if pc_Size p > 0
          then (i64 (fill + pc_Size p),
                m(pid \<mapsto> \<lparr>is_Length = c_pieceLength (w_cache w), is_Size = pc_Size p,
                           is_Completed = pc_Complete p, is_Priority = prio pid\<rparr>))
          else (fill, m))"

text \<open>
  The state of a piece is asked from the torrent of the cache, which is nil before \<open>SetTorrent\<close>:
  if a piece holds bytes then, the nil torrent is dereferenced.
\<close>

definition GetState :: "(int \<Rightarrow> piece_priority) \<Rightarrow> int list \<Rightarrow> nat list \<Rightarrow> world \<Rightarrow> (CacheState \<times> world) outcome" where
  "GetState prio pord rord w =
     (if \<not> c_torrent (w_cache w) \<and> list_ex (\<lambda>pid. piece_size w pid > 0) pord then Panic
      else let (fill, pieces) = foldl (item_state prio w) (0, Map.empty) pord;
               (readers, w) = buildReaderStates (copyReaders rord w) w;
               c = w_cache w
           in Done (\<lparr>cs_Capacity = GetCapacity (Some c), cs_Filled = fill, cs_PiecesLength = c_pieceLength c,
                     cs_PiecesCount = c_pieceCount c, cs_Pieces = pieces, cs_Readers = readers\<rparr>, w))"

section \<open>The gauges over the life of a cache\<close>

named_theorems balance \<open>operations that keep the aggregates balanced and the cache open or closed\<close>

definition live :: "bool \<Rightarrow> world \<Rightarrow> world \<Rightarrow> bool" where
  "live cl b w \<longleftrightarrow> balanced b w \<and> c_isClosed (w_cache w) = cl"

lemma changeCapacity_open [simp]: "c_isClosed (w_cache (changeCapacity n w)) = c_isClosed (w_cache w)"
  by (simp add: changeCapacity_def Let_def)

lemma balanced_events [balance]:
  "live cl b w \<Longrightarrow> live cl b (recordHit w)" "live cl b w \<Longrightarrow> live cl b (recordMiss w)"
  "live cl b w \<Longrightarrow> live cl b (changeCapacity n w)" "live cl b w \<Longrightarrow> live cl b (addFilled d w)"
  "live cl b w \<Longrightarrow> live cl b (addInMemoryChunks d w)" "live cl b w \<Longrightarrow> live cl b (addResidentPieces d w)"
  "live cl b w \<Longrightarrow> live cl b (addActiveReaders d w)" "live cl b w \<Longrightarrow> live cl b (recordCleanupRun w)"
  "live cl b w \<Longrightarrow> live cl b (recordCleanedBytes d w)"
  "live cl b w \<Longrightarrow> live cl b (setTrackedPriorityPieces d w)"
  "live cl b w \<Longrightarrow> live cl b (recordRetentionWindowAdjustment x y w)"
  "live cl b w \<Longrightarrow> live cl b (recordReaderIdleDemotion d w)"
  "live cl b w \<Longrightarrow> live cl b (recordReaderReactivation d w)"
  unfolding live_def using balanced_step [of b w EvHit] balanced_step [of b w EvMiss] balanced_step [of b w "EvCapacity n"]
    balanced_step [of b w "EvFilled d"] balanced_step [of b w "EvChunks d"] balanced_step [of b w "EvResident d"]
    balanced_step [of b w "EvReaders d"] balanced_step [of b w EvCleanupRun] balanced_step [of b w "EvCleaned d"]
    balanced_step [of b w "EvTracked d"] balanced_step [of b w "EvRetention x y"]
    balanced_step [of b w "EvDemotion d"] balanced_step [of b w "EvReactivation d"]
  by simp_all

lemma balanced_neutral [simp]:
  "live cl b (lib x w) = live cl b w" "live cl b (upd_piece pid f w) = live cl b w"
  "live cl b (markAccessed t pid w) = live cl b w" "live cl b (upd_cleanup g w) = live cl b w"
  "live cl b (set_reader rid r w) = live cl b w" "live cl b (w\<lparr>w_pool := pool\<rparr>) = live cl b w"
  "live cl b (queueCleanPieces t w) = live cl b w"
  by (simp_all add: live_def balanced_def Let_def markAccessed_def upd_cleanup_def set_reader_def upd_piece_def
      queueCleanPieces_def lib_def)

lemma balanced_upd_cache [simp]:
  "live cl b (upd_cache (\<lambda>c. c\<lparr>c_resident := x\<rparr>) w) = live cl b w"
  "live cl b (upd_cache (\<lambda>c. c\<lparr>c_priorities := y\<rparr>) w) = live cl b w"
  by (simp_all add: live_def balanced_def Let_def)

lemma balanced_mark [balance]:
  "live cl b w \<Longrightarrow> live cl b (markResidentPiece pid w)"
  "live cl b w \<Longrightarrow> live cl b (unmarkResidentPiece pid w)"
  "live cl b w \<Longrightarrow> live cl b (untrackPriorityPiece pid w)"
  by (auto simp: markResidentPiece_def unmarkResidentPiece_def untrackPriorityPiece_def Let_def
      intro!: balanced_events split: option.split)

lemma balanced_sync [balance]: "live cl b w \<Longrightarrow> live cl b (syncTorrentPieceAfterRelease prio pid c w)"
  by (simp add: syncTorrentPieceAfterRelease_def Let_def balanced_mark)

lemma balanced_put_all [simp]: "live cl b (put_all chunks w) = live cl b w"
proof -
  obtain pool where "put_all chunks w = w\<lparr>w_pool := pool\<rparr>" using put_all_pool by blast
  then show ?thesis by simp
qed

lemma balanced_release [balance]:
  "live cl b w \<Longrightarrow> live cl b (MemPiece_Release pid w)"
  "live cl b w \<Longrightarrow> live cl b (DiskPiece_Release pid w)"
  by (auto simp: MemPiece_Release_def DiskPiece_Release_def Let_def put_all_def [symmetric]
      intro!: balance split: option.split)

lemma balanced_Piece_Release: "live cl b w \<Longrightarrow> Piece_Release prio pid w = Done w' \<Longrightarrow> live cl b w'"
  by (auto simp: Piece_Release_def Let_def intro!: balance split: option.splits if_splits)

lemma balanced_remove_loop:
  "live cl b w \<Longrightarrow> remove_loop env pids rems w = Done w' \<Longrightarrow> live cl b w'"
proof (induction pids arbitrary: rems w)
  case (Cons pid pids)
  from Cons.prems obtain u where u: "removePiece env pid w = Done u"
    "(if rems - 1 \<le> 0 then Done u else remove_loop env pids (rems - 1) u) = Done w'"
    by (auto simp: bind_outcome_Done Let_def)
  then have "live cl b u" using Cons.prems(1) balanced_Piece_Release [of cl b w "ce_prio env" pid u]
    by (auto simp: removePiece_def split: if_splits)
  with u Cons.IH show ?case by (auto split: if_splits)
qed simp

lemma balanced_checkReader: "live cl b w \<Longrightarrow> live cl b (snd (checkReader t a n rid (r, w)))"
  by (auto simp: checkReader_def readerOnLocked_def readerOffLocked_def Let_def intro!: balance)

lemma balanced_snapshot:
  assumes "live cl b w"
  shows "live cl b (snd (snapshotActiveReaders now a ord True w))"
proof -
  have check: "live cl b w \<Longrightarrow> live cl b (foldl (check_at now a n) w rids)" for n rids w
  proof (induction rids arbitrary: w)
    case (Cons rid rids)
    have "live cl b (check_at now a n w rid)"
      using Cons.prems balanced_checkReader [of cl b w now "a rid" n rid]
      by (auto simp: check_at_def split_beta split: option.split)
    then show ?case using Cons.IH by simp
  qed simp
  have snap: "live cl b (snd sw) \<Longrightarrow> live cl b (snd (foldl (snapshot_reader n) sw rids))" for n rids sw
  proof (induction rids arbitrary: sw)
    case (Cons rid rids)
    have "live cl b (snd (snapshot_reader n sw rid))"
    proof (cases sw)
      case (Pair acc w)
      show ?thesis
      proof (cases "reader_at w rid")
        case (Some r)
        then show ?thesis using Cons.prems Pair pieces_range_world [of n r w]
          by (auto simp: snapshot_reader_def split_beta intro: balance)
      qed (use Cons.prems Pair in \<open>simp add: snapshot_reader_def\<close>)
    qed
    then show ?case using Cons.IH by simp
  qed simp
  show ?thesis using assms check snap by (simp add: snapshotActiveReaders_def Let_def)
qed

lemma balanced_getRem: "live cl b w \<Longrightarrow> live cl b (snd (getRemPieces env w))"
  using balanced_snapshot [of cl b w "ce_now env" "ce_atStart env" "ce_readers env"]
  by (simp add: getRemPieces_def getActiveReaderRanges_def split_beta Let_def)

lemma balanced_pass: "live cl b w \<Longrightarrow> cleanPiecesPass env w = Done (p, w') \<Longrightarrow> live cl b w'"
  using balanced_getRem [of cl b "recordCleanupRun w" env] balanced_events(8) [of cl b w]
  by (auto simp: cleanPiecesPass_def GetCapacity_def Let_def split_beta bind_outcome_Done
      split: if_splits dest!: balanced_remove_loop [rotated] intro!: balance)

lemma balanced_clean_loop: "live cl b w \<Longrightarrow> clean_loop rounds w = Done w' \<Longrightarrow> live cl b w'"
proof (induction rounds arbitrary: w)
  case (Cons round rounds)
  from Cons.prems(2) obtain progress v where v: "cleanPiecesPass (fst round) w = Done (progress, v)"
    and rest: "(let u = (if snd round then upd_cleanup (\<lambda>s. s\<lparr>cl_pending := True\<rparr>) v else v) in
       if progress \<and> cl_pending (c_cleanup (w_cache u)) \<and> needsCleanup (w_cache u)
       then clean_loop rounds (upd_cleanup (\<lambda>s. s\<lparr>cl_pending := False\<rparr>) u)
       else Done (upd_cleanup (\<lambda>s. s\<lparr>cl_running := False, cl_pending := False\<rparr>) u)) = Done w'"
    by (auto simp: bind_outcome_Done)
  define u where "u = (if snd round then upd_cleanup (\<lambda>s. s\<lparr>cl_pending := True\<rparr>) v else v)"
  have "live cl b (upd_cleanup f u)" for f using balanced_pass [OF Cons.prems(1) v] by (simp add: u_def)
  then show ?case using rest Cons.IH [of "upd_cleanup (\<lambda>s. s\<lparr>cl_pending := False\<rparr>) u"]
    unfolding u_def [symmetric] Let_def by (auto split: if_splits)
qed simp

lemma balanced_CleanPieces: "live cl b w \<Longrightarrow> CleanPieces rounds w = Done w' \<Longrightarrow> live cl b w'"
  by (auto simp: CleanPieces_alt split: if_splits intro: balanced_clean_loop [rotated])

lemma balanced_write_chunks:
  "write_chunks fuel P cs a n b off w = Done (cs', a', n', w') \<Longrightarrow> live cl base w \<Longrightarrow> live cl base w'"
proof (induction fuel arbitrary: cs a n b off w)
  case (Suc fuel)
  obtain ch u where new: "newChunk P (go_div off memPieceChunkSize) (go_mod off memPieceChunkSize) b w = (ch, u)"
    by fastforce
  then obtain pool where "u = w\<lparr>w_pool := pool\<rparr>"
    using newChunk_world [of P "go_div off memPieceChunkSize" "go_mod off memPieceChunkSize" b w] by auto
  then have u: "live cl base (addInMemoryChunks 1 u)" using Suc.prems(2) by (simp add: balanced_events)
  show ?case using Suc.prems u
    by (auto simp: write_chunks.simps Let_def new split: if_splits option.splits dest!: Suc.IH)
qed (auto simp: write_chunks.simps split: if_splits)

lemma balanced_mem_write: "MemPiece_WriteAt fuel now pid b off w = Done (n, w') \<Longrightarrow> live cl base w \<Longrightarrow> live cl base w'"
  using balanced_write_chunks
  by (auto simp: MemPiece_WriteAt_def Let_def bind_outcome_Done split: option.splits if_splits intro!: balance)

lemma balanced_disk_write:
  "DiskPiece_WriteAt rounds now res pid w = Done (r, w') \<Longrightarrow> live cl base w \<Longrightarrow> live cl base w'"
  by (auto simp: DiskPiece_WriteAt_def Let_def bind_outcome_Done split: option.splits if_splits
      intro!: balance dest!: balanced_CleanPieces [rotated])

lemma balanced_write: "Piece_WriteAt fuel rounds now res pid b off w = Done (r, w') \<Longrightarrow> live cl base w \<Longrightarrow> live cl base w'"
  by (auto simp: Piece_WriteAt_def bind_outcome_Done split: option.splits if_splits
      intro: balanced_mem_write balanced_disk_write)

lemma balanced_read: "Piece_ReadAt now opn got pid len off w = Done (r, w') \<Longrightarrow> live cl base w \<Longrightarrow> live cl base w'"
  by (auto simp: Piece_ReadAt_def MemPiece_ReadAt_def DiskPiece_ReadAt_def bind_outcome_Done Let_def split_beta
      split: option.splits if_splits disk_open.splits)

lemma balanced_piece_step: "live cl base w \<Longrightarrow> live cl base (piece_step w e)"
proof (cases e)
  case (WriteEv fuel rounds now res pid b off)
  assume "live cl base w"
  then show ?thesis using WriteEv balanced_write [of fuel rounds now res pid b "int off" w]
    by (cases "Piece_WriteAt fuel rounds now res pid b (int off) w") (auto simp: resulting_def snd_outcome_def)
next
  case (ReadEv now opn got pid len off)
  assume "live cl base w"
  then show ?thesis using ReadEv balanced_read [of now opn got pid len off w]
    by (cases "Piece_ReadAt now opn got pid len off w") (auto simp: resulting_def snd_outcome_def)
next
  case (ReleaseEv prio pid)
  assume "live cl base w"
  then show ?thesis using ReleaseEv balanced_Piece_Release [of cl base w prio pid]
    by (cases "Piece_Release prio pid w") (auto simp: resulting_def)
next
  case (CleanEv rounds)
  assume "live cl base w"
  then show ?thesis using CleanEv balanced_CleanPieces [of cl base w rounds]
    by (cases "CleanPieces rounds w") (auto simp: resulting_def)
qed (auto simp: MarkComplete_def MarkNotComplete_def)

interpretation piece_gauges: step_system piece_step "live cl base" for cl base
  by unfold_locales (rule balanced_piece_step)

lemma balanced_release_all: "live cl base w \<Longrightarrow> live cl base (releaseInMemoryPieces ord w)"
  unfolding releaseInMemoryPieces_def
  by (induction ord arbitrary: w) (auto intro: balanced_release split: option.split)

lemma removeFiles_stats: "w_stats (removeFiles ord w) = w_stats w"
  unfolding removeFiles_def by (induction ord arbitrary: w) (auto split: option.split)

lemma removeFiles_pool: "w_pool (removeFiles ord w) = w_pool w"
  unfolding removeFiles_def by (induction ord arbitrary: w) (auto split: option.split)

lemma close_gauges:
  assumes "live False base w"
  shows "gauges (w_stats (Cache_Close ord1 ord2 w)) = map i64 (gauges (w_stats base))"
    "w_pool (Cache_Close ord1 ord2 w) = []"
proof -
  define v where "v = releaseInMemoryPieces ord1 (upd_cache (\<lambda>c. c\<lparr>c_isClosed := True, c_torrent := False,
      c_priorities := (c_priorities c)\<lparr>pr_clearTimer := False\<rparr>\<rparr>) w)"
  have "live True base v" unfolding v_def
    by (rule balanced_release_all) (use assms in \<open>simp add: live_def balanced_def Let_def\<close>)
  then have v: "balanced base v" by (simp add: live_def)
  then have "cm_registered (w_metrics v)" by (simp add: balanced_def Let_def)
  then have pool: "w_pool (unregisterMetrics v) = []"
    by (simp add: unregisterMetrics_def trimReusableMemPieceChunks_def Let_def)
  show "gauges (w_stats (Cache_Close ord1 ord2 w)) = map i64 (gauges (w_stats base))"
    using assms balanced_unregister [OF v]
    by (simp add: live_def Cache_Close_def Let_def v_def [symmetric] removeFiles_stats)
  show "w_pool (Cache_Close ord1 ord2 w) = []"
    using assms pool by (simp add: live_def Cache_Close_def Let_def v_def [symmetric] removeFiles_pool)
qed

section \<open>Initialisation\<close>

lemma NewPiece_plain:
  "NewPiece None pid w =
     upd_cache (\<lambda>c. c\<lparr>c_pieces := map_option (\<lambda>m. m(pid \<mapsto> \<lparr>pc_disk = useDisk w, pc_Size = 0,
       pc_Complete = False, pc_Accessed = 0, pc_chunks = None\<rparr>)) (c_pieces c)\<rparr>) w"
  by (simp add: NewPiece_def NewDiskPiece_def Let_def)

lemma new_pieces_stats:
  assumes "\<forall>i. stat i = None"
  shows "w_stats (foldl (\<lambda>w i. NewPiece (stat (int i)) (int i) w) w ks) = w_stats w"
    "w_metrics (foldl (\<lambda>w i. NewPiece (stat (int i)) (int i) w) w ks) = w_metrics w"
    "c_filled (w_cache (foldl (\<lambda>w i. NewPiece (stat (int i)) (int i) w) w ks)) = c_filled (w_cache w)"
    "c_isClosed (w_cache (foldl (\<lambda>w i. NewPiece (stat (int i)) (int i) w) w ks)) = c_isClosed (w_cache w)"
  using assms by (induction ks arbitrary: w) (simp_all add: NewPiece_plain)

lemma init_live:
  assumes "balanced_start w" "\<forall>i. stat i = None" "\<not> c_isClosed (w_cache w)"
  shows "\<exists>b. w_stats b = w_stats w \<and> live False b (Cache_Init stat pieceLength n w)"
proof -
  define v where "v = (let w = (if c_capacity (w_cache w) = 0
               then upd_cache (\<lambda>c. c\<lparr>c_capacity := i64 (pieceLength * 4)\<rparr>) w else w);
          w = upd_cache (\<lambda>c. c\<lparr>c_pieceLength := pieceLength, c_pieceCount := int n\<rparr>) w
          in if useDisk w then lib FsMkdirAll w else w)"
  have v: "w_stats v = w_stats w" "w_metrics v = w_metrics w" "c_filled (w_cache v) = c_filled (w_cache w)"
    "c_isClosed (w_cache v) = c_isClosed (w_cache w)"
    by (auto simp: v_def Let_def)
  define u where "u = foldl (\<lambda>w i. NewPiece (stat (int i)) (int i) w) v [0..<n]"
  have u: "w_stats u = w_stats w" "w_metrics u = w_metrics w" "c_filled (w_cache u) = c_filled (w_cache w)"
    "c_isClosed (w_cache u) = c_isClosed (w_cache w)"
    using new_pieces_stats [OF assms(2), where w = v and ks = "[0..<n]"] v by (auto simp: u_def)
  have init: "Cache_Init stat pieceLength n w = registerMetrics u"
    by (simp add: Cache_Init_def v_def u_def Let_def)
  have start: "balanced_start u" using assms(1) u by (simp add: balanced_start_def)
  have "balanced u (registerMetrics u)" by (rule balanced_register [OF start])
  then have "live False u (registerMetrics u)"
    using assms(3) u by (simp add: live_def registerMetrics_def Let_def)
  then show ?thesis using u init by auto
qed

text \<open>
  Property C8. The whole life of a cache leaves no trace in the process-wide gauges: when no files of
  an earlier run are found, a cache that is initialised for any number of pieces, serves any
  sequence of writes, reads, releases, clean-ups and completion marks and is then closed leaves
  the numbers of caches, pieces, resident pieces and chunks, the capacity, the filled bytes and
  the tracked priorities as they were before, and the pool of reusable chunks is empty.
\<close>

theorem cache_life_restores_gauges:
  assumes "balanced_start w" "\<forall>i. stat i = None" "\<not> c_isClosed (w_cache w)"
    "w' = Cache_Close ord1 ord2 (foldl piece_step (Cache_Init stat pieceLength n w) es)"
  shows "gauges (w_stats w') = gauges (w_stats w) \<and> w_pool w' = []"
proof -
  obtain b where b: "w_stats b = w_stats w" "live False b (Cache_Init stat pieceLength n w)"
    using init_live [OF assms(1-3)] by blast
  from b(2) have "live False b (foldl piece_step (Cache_Init stat pieceLength n w) es)"
    by (rule piece_gauges.inv_run)
  from close_gauges [OF this] show ?thesis
    using assms(1,4) b(1) by (simp add: balanced_start_def map_idI i64_id)
qed

theorem cache_life_restores_gauges_witness:
  "let w = new_world (NewCache 100 None);
       w' = Cache_Close [0, 1] [] (foldl piece_step (Cache_Init (\<lambda>_. None) 20000 2 w)
              [WriteEv 9 [] 5 \<lparr>dw_open = True, dw_stat = None, dw_n = 0, dw_err = False, dw_closeErr = False\<rparr> 0 [1, 2, 3] 0,
               ReadEv 6 NotExist [] 0 3 0])
   in gauges (w_stats w') = gauges (w_stats w) \<and> w_pool w' = []"
  unfolding Let_def
  by (rule cache_life_restores_gauges [OF _ _ _ refl])
    (simp_all add: balanced_start_def NewCache_def zero_metrics_def gauges_def zero_gstats_def fits_i64_def)

text \<open>
  Files that an earlier run left break that balance. \<open>NewDiskPiece\<close> counts the size of an
  existing file into the filled bytes of the cache before \<open>Init\<close> registers it, \<open>registerMetrics\<close>
  does not add what is filled already, and \<open>unregisterMetrics\<close> subtracts it: opening and closing a
  disk cache over a file of 5 bytes leaves the gauge of filled bytes at -5.
\<close>

theorem reopened_disk_cache_drives_gauge_negative:
  "let w = new_world (NewCache 100 (Some (zero_BTSets\<lparr>UseDisk := True\<rparr>)));
       w' = Cache_Close [0] [0] (Cache_Init (\<lambda>_. Some (5, 0)) 16384 1 w)
   in gs_logicalFilledBytes (w_stats w) = 0 \<and> gs_logicalFilledBytes (w_stats w') = -5"
  by (simp add: Let_def Cache_Init_def NewCache_def useDisk_def currentCacheConfig_def BTSets_CacheConfig_def
      zero_BTSets_def NewPiece_def NewDiskPiece_def registerMetrics_def unregisterMetrics_def Cache_Close_def
      releaseInMemoryPieces_def removeFiles_def cache_piece_def zero_metrics_def zero_gstats_def i64_id fits_i64_def
      addFilled_def clamp_add_def trimReusableMemPieceChunks_def markResidentPiece_def upd_piece_def
      addResidentPieces_def)

text \<open>
  \<open>SetCapacity\<close> on an open cache: a bound that is not positive is refused; otherwise the new
  bound is the request raised to 8 MiB and to one piece, unless the bound so far is less than a
  piece away from it, in which case nothing changes. The cache shrinks its contents only when the
  bound goes down: then, and only then, a clean-up may be queued. A closed cache keeps its bound.
\<close>

theorem SetCapacity_spec:
  assumes "fits_i64 (c_capacity (w_cache w))" "fits_i64 capacity" "fits_i64 (c_pieceLength (w_cache w))"
    "0 \<le> c_capacity (w_cache w)"
  defines "req \<equiv> max capacity (max (8 * 1024 * 1024) (c_pieceLength (w_cache w)))"
  shows "c_capacity (w_cache (SetCapacity now capacity w)) =
      (if c_isClosed (w_cache w) \<or> capacity \<le> 0 \<or> \<bar>c_capacity (w_cache w) - req\<bar> < c_pieceLength (w_cache w)
       then c_capacity (w_cache w) else req)
    \<and> (c_capacity (w_cache w) \<le> c_capacity (w_cache (SetCapacity now capacity w))
       \<longrightarrow> w_tasks (SetCapacity now capacity w) = w_tasks w)"
proof -
  let ?c = "w_cache w"
  have pos: "req > 0" and fits: "fits_i64 (c_capacity ?c - req)" "fits_i64 (req - c_capacity ?c)"
    using assms(1-4) by (auto simp: req_def fits_i64_def)
  then have abs: "absInt64 (i64 (c_capacity ?c - req)) = \<bar>c_capacity ?c - req\<bar>"
    by (auto simp: absInt64_def i64_id)
  have eff: "SetCapacity now capacity w =
     (if c_isClosed ?c \<or> capacity \<le> 0 then w
      else if c_capacity ?c = req then w
      else if c_pieceLength ?c > 0 \<and> absInt64 (i64 (c_capacity ?c - req)) < c_pieceLength ?c then w
      else if req < c_capacity ?c then queueCleanPieces now (changeCapacity req w) else changeCapacity req w)"
  proof -
    let ?m = "if c_pieceLength ?c > 0 \<and> 8 * 1024 * 1024 < c_pieceLength ?c then c_pieceLength ?c else 8 * 1024 * 1024"
    have "(if capacity < ?m then ?m else capacity) = req" by (auto simp: req_def)
    then show ?thesis unfolding SetCapacity_def Let_def by simp
  qed
  have eq: "c_capacity (w_cache (changeCapacity req w)) = req" "w_tasks (changeCapacity req w) = w_tasks w"
    by (simp_all add: changeCapacity_def addConfiguredCapacity_def Let_def)
  have queue: "c_capacity (w_cache (queueCleanPieces now v)) = c_capacity (w_cache v)" for v
    by (simp add: queueCleanPieces_def Let_def)
  consider "c_isClosed ?c \<or> capacity \<le> 0" | "\<not> (c_isClosed ?c \<or> capacity \<le> 0)" "c_capacity ?c = req"
    | "\<not> (c_isClosed ?c \<or> capacity \<le> 0)" "c_capacity ?c < req" | "\<not> (c_isClosed ?c \<or> capacity \<le> 0)" "req < c_capacity ?c"
    by linarith
  then show ?thesis
  proof cases
    case 3
    then show ?thesis unfolding eff abs using eq queue by simp
  next
    case 4
    then show ?thesis unfolding eff abs using eq queue by simp
  qed (unfold eff, auto)
qed

theorem SetCapacity_spec_witness:
  "c_capacity (w_cache (SetCapacity 0 1000 (new_world (NewCache (64 * 1024 * 1024) None)))) = 8 * 1024 * 1024"
  using SetCapacity_spec [of "new_world (NewCache (64 * 1024 * 1024) None)" 1000 0]
  by (simp add: NewCache_def fits_i64_def)

lemma release_all_frame: "frame (releaseInMemoryPieces ord w) = frame w"
  unfolding releaseInMemoryPieces_def by (induction ord arbitrary: w) (auto simp: frame_release split: option.split)

lemma removeFiles_cache: "w_cache (removeFiles ord w) = w_cache w"
  unfolding removeFiles_def by (induction ord arbitrary: w) (auto split: option.split)

lemma unregister_closed: "c_isClosed (w_cache (unregisterMetrics w)) = c_isClosed (w_cache w)"
  by (simp add: unregisterMetrics_def trimReusableMemPieceChunks_def Let_def)

text \<open>
  Closing a cache is final and idempotent: the first \<open>Close\<close> drops the pieces, the readers,
  the resident set and the tracked priorities, and a second one, by whatever iteration orders,
  changes nothing at all.
\<close>

theorem Cache_Close_final:
  "Cache_Close o3 o4 (Cache_Close o1 o2 w) = Cache_Close o1 o2 w
   \<and> c_isClosed (w_cache (Cache_Close o1 o2 w))
   \<and> (c_isClosed (w_cache w) \<or>
        c_pieces (w_cache (Cache_Close o1 o2 w)) = None \<and> c_readers (w_cache (Cache_Close o1 o2 w)) = None
      \<and> c_resident (w_cache (Cache_Close o1 o2 w)) = None
      \<and> pr_pieces (c_priorities (w_cache (Cache_Close o1 o2 w))) = None)"
proof -
  have closed: "c_isClosed (w_cache (Cache_Close o1 o2 w))"
    using frame_simps(4) [OF release_all_frame]
    by (simp add: Cache_Close_def Let_def removeFiles_cache unregister_closed)
  then have "Cache_Close o3 o4 (Cache_Close o1 o2 w) = Cache_Close o1 o2 w"
    by (simp add: Cache_Close_def [of o3])
  then show ?thesis using closed by (auto simp: Cache_Close_def Let_def)
qed

end
