(* ===== verification/Go_Strings.thy ===== *)
theory Go_Strings
  imports Go_Time
begin

text \<open>
  What the streams use of packages \<open>strings\<close> and \<open>strconv\<close>, on byte strings, beside the trimming and
  the prefixes of the prelude: searching, splitting at the first separator, and reading and
  printing decimal integers.
\<close>

fun str_contains :: "string \<Rightarrow> string \<Rightarrow> bool" where
  "str_contains [] sub = (sub = [])"
| "str_contains (c # s) sub = (has_prefix (c # s) sub \<or> str_contains s sub)"

lemma has_prefix_iff: "has_prefix s p \<longleftrightarrow> (\<exists>r. s = p @ r)"
  by (auto simp: has_prefix_def strip_prefix_Some)

lemma str_contains_iff: "str_contains s sub \<longleftrightarrow> (\<exists>u v. s = u @ sub @ v)"
proof (induction s)
  case IH: (Cons c s)
  show ?case
  proof
    assume "str_contains (c # s) sub"
    then show "\<exists>u v. c # s = u @ sub @ v"
      using IH by (auto simp: has_prefix_iff intro: exI [of _ "[]"]) (metis append_Cons)
  next
    assume "\<exists>u v. c # s = u @ sub @ v"
    then obtain u v where uv: "c # s = u @ sub @ v" by blast
    show "str_contains (c # s) sub"
    proof (cases u)
      case Nil
      then have "has_prefix (c # s) sub" using uv by (auto simp: has_prefix_iff)
      then show ?thesis by simp
    next
      case (Cons d u')
      then have "s = u' @ sub @ v" using uv by simp
      then have "str_contains s sub" using IH by blast
      then show ?thesis by simp
    qed
  qed
qed auto

text \<open>\<open>strings.SplitN(s, sep, 2)\<close> for a separator of one byte: what is before and after the first one.\<close>

fun split_first :: "char \<Rightarrow> string \<Rightarrow> string \<times> string option" where
  "split_first sep [] = ([], None)"
| "split_first sep (c # s) =
     (if c = sep then ([], Some s) else let (a, b) = split_first sep s in (c # a, b))"

lemma split_first_join: "split_first sep s = (a, Some b) \<longleftrightarrow> s = a @ sep # b \<and> sep \<notin> set a"
proof (induction s arbitrary: a)
  case (Cons c s)
  obtain u v where uv: "split_first sep s = (u, v)" by fastforce
  show ?case
  proof (cases "c = sep")
    case True
    then show ?thesis by (cases a) auto
  next
    case False
    then show ?thesis using uv Cons [of "tl a"] by (cases a) auto
  qed
qed simp

text \<open>\<open>strconv.ParseInt(s, 10, 64)\<close>: an optional sign, then digits only; no value out of range.\<close>

definition digit_value :: "char \<Rightarrow> int option" where
  "digit_value c = (let n = int (of_char c) in if 48 \<le> n \<and> n \<le> 57 then Some (n - 48) else None)"

fun parse_digits :: "int \<Rightarrow> string \<Rightarrow> int option" where
  "parse_digits acc [] = Some acc"
| "parse_digits acc (c # s) = (case digit_value c of None \<Rightarrow> None | Some d \<Rightarrow> parse_digits (acc * 10 + d) s)"

definition parse_nat :: "string \<Rightarrow> int option" where
  "parse_nat s = (if s = [] then None else parse_digits 0 s)"

definition ParseInt :: "string \<Rightarrow> int option" where
  "ParseInt s =
     (let r = (case s of [] \<Rightarrow> None
               | c # t \<Rightarrow> if c = CHR ''-'' then map_option uminus (parse_nat t)
                         else if c = CHR ''+'' then parse_nat t else parse_nat s)
      in case r of None \<Rightarrow> None | Some n \<Rightarrow> if fits_i64 n then Some n else None)"

fun digits_of :: "nat \<Rightarrow> string" where
  "digits_of n = (if n < 10 then [char_of (48 + n)] else digits_of (n div 10) @ [char_of (48 + n mod 10)])"

declare digits_of.simps [simp del]

definition FormatInt :: "int \<Rightarrow> string" where
  "FormatInt n = (if n < 0 then CHR ''-'' # digits_of (nat (- n)) else digits_of (nat n))"

lemma digit_value_char: "d < 10 \<Longrightarrow> digit_value (char_of (48 + d :: nat)) = Some (int d)"
  by (simp add: digit_value_def Let_def of_char_of)

lemma int_div_mod: "int (n div 10) * 10 + int (n mod 10) = int n"
  by (metis div_mult_mod_eq of_nat_add of_nat_mult of_nat_numeral)

lemma parse_digits_append:
  "parse_digits acc (s @ t) = (case parse_digits acc s of None \<Rightarrow> None | Some n \<Rightarrow> parse_digits n t)"
  by (induction s arbitrary: acc) (auto split: option.split)

lemma parse_digits_of: "parse_digits 0 (digits_of n) = Some (int n)"
proof (induction n rule: digits_of.induct)
  case (1 n)
  show ?case
  proof (cases "n < 10")
    case False
    then have "parse_digits 0 (digits_of (n div 10)) = Some (int (n div 10))" using 1 by simp
    then show ?thesis using False
      by (subst digits_of.simps) (simp add: parse_digits_append digit_value_char int_div_mod)
  qed (subst digits_of.simps, simp add: digit_value_char)
qed

lemma digits_of_first: "\<exists>c d t. digits_of n = c # t \<and> digit_value c = Some d"
proof (induction n rule: digits_of.induct)
  case (1 n)
  show ?case
  proof (cases "n < 10")
    case False
    then obtain c d t where "digits_of (n div 10) = c # t" "digit_value c = Some d" using 1 by blast
    then show ?thesis using False by (subst digits_of.simps) simp
  qed (subst digits_of.simps, simp add: digit_value_char)
qed

lemma ParseInt_digits_of: "fits_i64 (int n) \<Longrightarrow> ParseInt (digits_of n) = Some (int n)"
proof -
  assume fits: "fits_i64 (int n)"
  obtain c d t where d: "digits_of n = c # t" "digit_value c = Some d" using digits_of_first by blast
  have "digit_value CHR ''-'' = None" "digit_value CHR ''+'' = None"
    by (simp_all add: digit_value_def)
  then have "c \<noteq> CHR ''-''" "c \<noteq> CHR ''+''" using d(2) by auto
  then have "ParseInt (digits_of n) = (case parse_nat (digits_of n) of None \<Rightarrow> None | Some n \<Rightarrow> if fits_i64 n then Some n else None)"
    by (simp add: ParseInt_def d(1))
  moreover have "parse_nat (digits_of n) = Some (int n)" unfolding parse_nat_def parse_digits_of using d(1) by simp
  ultimately show ?thesis using fits by simp
qed

section \<open>Splitting at every separator\<close>

text \<open>\<open>strings.Split\<close> with a separator of one character.\<close>

fun str_split :: "char \<Rightarrow> string \<Rightarrow> string list" where
  "str_split sep [] = [[]]"
| "str_split sep (c # s) =
     (if c = sep then [] # str_split sep s
      else (case str_split sep s of [] \<Rightarrow> [[c]] | p # ps \<Rightarrow> (c # p) # ps))"

lemma str_split_plain: "sep \<notin> set s \<Longrightarrow> str_split sep s = [s]"
  by (induction s) auto

lemma str_split_not_Nil: "str_split sep s \<noteq> []"
  by (cases s) (auto split: list.splits)

section \<open>Plain characters\<close>

text \<open>The visible characters of ASCII: no blank begins or ends with one of them.\<close>

definition plain_chars :: string where
  "plain_chars = map char_of [33 ..< (127 :: nat)]"

lemma plain_iff: "c \<in> set plain_chars \<longleftrightarrow> 33 \<le> (of_char c :: nat) \<and> (of_char c :: nat) < 127"
proof
  assume "33 \<le> (of_char c :: nat) \<and> (of_char c :: nat) < 127"
  then have "(of_char c :: nat) \<in> set [33 ..< 127]" by (simp only: set_upt atLeastLessThan_iff)
  then have "char_of (of_char c :: nat) \<in> set plain_chars" unfolding plain_chars_def set_map by (rule imageI)
  then show "c \<in> set plain_chars" by simp
qed (auto simp: plain_chars_def of_char_of)

lemma plain_not_space:
  "\<forall>c \<in> set plain_chars. \<forall>p \<in> set spaces. p \<noteq> [] \<and> hd p \<noteq> c \<and> last p \<noteq> c"
  by code_simp

lemma trim_with_plain: "\<forall>p \<in> set sp. p \<noteq> [] \<and> hd p \<noteq> c \<Longrightarrow> trim_with n sp (c # t) = c # t"
proof -
  assume "\<forall>p \<in> set sp. p \<noteq> [] \<and> hd p \<noteq> c"
  then have "List.find (\<lambda>p. has_prefix (c # t) p) sp = None"
    by (auto simp: find_None_iff has_prefix_iff Cons_eq_append_conv)
  then show ?thesis by (cases n) simp_all
qed

lemma trim_space_plain:
  assumes "hd s \<in> set plain_chars" and "last s \<in> set plain_chars" and "s \<noteq> []"
  shows "trim_space s = s"
proof -
  have "trim_left s = s"
    using trim_with_plain [of spaces "hd s" "length s" "tl s"] plain_not_space assms(1,3) by (simp add: trim_left_def)
  moreover have "trim_right s = s"
  proof -
    have "rev s = last s # rev (butlast s)" using assms(3) by (metis append_butlast_last_id rev_eq_Cons_iff rev_rev_ident)
    moreover have "\<forall>p \<in> set (map rev spaces). p \<noteq> [] \<and> hd p \<noteq> last s"
      using plain_not_space assms(2) by (auto simp: hd_rev)
    ultimately show ?thesis using assms(3) trim_with_plain by (metis rev_rev_ident trim_right_def)
  qed
  ultimately show ?thesis by (simp add: trim_space_def)
qed

section \<open>Runes\<close>

text \<open>
  The runes that \<open>range\<close> walks through: the code points of the UTF-8 encoding, and U+FFFD for each byte that
  begins no valid encoding.
\<close>

definition tail_bits :: "nat \<Rightarrow> nat \<Rightarrow> nat \<Rightarrow> nat option" where
  "tail_bits lo hi b = (if lo \<le> b \<and> b \<le> hi then Some (b mod 64) else None)"

fun rune_at :: "nat list \<Rightarrow> nat \<times> nat" where
  "rune_at [] = (0, 0)"
| "rune_at (b # bs) =
     (let bad = (65533, 1); second = (case bs of [] \<Rightarrow> 0 | x # _ \<Rightarrow> x);
          third = (case bs of _ # x # _ \<Rightarrow> x | _ \<Rightarrow> 0); fourth = (case bs of _ # _ # x # _ \<Rightarrow> x | _ \<Rightarrow> 0)
      in if b < 128 then (b, 1)
         else if 194 \<le> b \<and> b \<le> 223
         then (case tail_bits 128 191 second of None \<Rightarrow> bad | Some x \<Rightarrow> (b mod 32 * 64 + x, 2))
         else if 224 \<le> b \<and> b \<le> 239
         then (case (tail_bits (if b = 224 then 160 else 128) (if b = 237 then 159 else 191) second,
                     tail_bits 128 191 third) of
                 (Some x, Some y) \<Rightarrow> (b mod 16 * 4096 + x * 64 + y, 3) | _ \<Rightarrow> bad)
         else if 240 \<le> b \<and> b \<le> 244
         then (case (tail_bits (if b = 240 then 144 else 128) (if b = 244 then 143 else 191) second,
                     tail_bits 128 191 third, tail_bits 128 191 fourth) of
                 (Some x, Some y, Some z) \<Rightarrow> (b mod 8 * 262144 + x * 4096 + y * 64 + z, 4) | _ \<Rightarrow> bad)
         else bad)"

function runes_of :: "nat list \<Rightarrow> nat list" where
  "runes_of [] = []"
| "runes_of (b # bs) = (let (r, n) = rune_at (b # bs) in r # runes_of (drop (n - 1) bs))"
  by pat_completeness auto
termination by (relation "measure length") auto

definition str_runes :: "string \<Rightarrow> nat list" where
  "str_runes s = runes_of (map of_char s)"

lemma runes_of_ascii: "\<forall>b \<in> set bs. b < 128 \<Longrightarrow> runes_of bs = bs"
  by (induction bs) simp_all

lemma str_runes_ascii: "\<forall>c \<in> set s. (of_char c :: nat) < 128 \<Longrightarrow> str_runes s = map of_char s"
  by (simp add: str_runes_def runes_of_ascii)

end
