(* ===== verification/Stream_Admission.thy ===== *)
theory Stream_Admission
  imports Settings
begin

text \<open>
  Admission of streams (torr/stream_admission.go): how many streams run at once, over how many
  torrents, and who waits for how long.

  The registry of the process is one record; its methods are atomic steps, because the code runs
  them under one mutex. \<open>tryAcquireStream\<close> is a loop around these methods that waits between its rounds:
  it is a state machine per request, and requests interleave at the locked steps.
\<close>

section \<open>Limits\<close>

record streamAdmission =
  sa_maxStreams :: int
  sa_maxUniqueTorrents :: int
  sa_queueSize :: int
  sa_waitDuration :: int

definition maxInt :: "int \<Rightarrow> int \<Rightarrow> int" where
  "maxInt a b = (if a > b then a else b)"

text \<open>\<open>cpus\<close> is \<open>runtime.GOMAXPROCS(0)\<close>; a duration counts nanoseconds.\<close>

definition currentAdmission :: "int \<Rightarrow> BTSets option \<Rightarrow> streamAdmission" where
  "currentAdmission cpus sets =
     (let cfg = BTSets_StreamConfig (Some (case sets of None \<Rightarrow> zero_BTSets | Some s \<Rightarrow> s));
          maxStreams = (if sc_MaxConcurrentStreams cfg \<le> 0 then maxInt 1 (i64 (cpus * 2)) else sc_MaxConcurrentStreams cfg);
          waitSec = (if sc_StreamQueueWaitSec cfg \<le> 0 then 3 else sc_StreamQueueWaitSec cfg);
          queueSize = (if sc_StreamQueueSize cfg \<le> 0 then maxInt 1 (i64 (maxStreams * 2)) else sc_StreamQueueSize cfg)
      in \<lparr>sa_maxStreams = i32 maxStreams, sa_maxUniqueTorrents = maxInt (sc_MaxUniquePlaybackTorrents cfg) 0,
          sa_queueSize = queueSize, sa_waitDuration = i64 (waitSec * 1000000000)\<rparr>)"

section \<open>The registry\<close>

record streamAdmissionActive =
  ac_readers :: int
  ac_torrentID :: int

text \<open>\<open>ar_streams\<close> and \<open>ar_lastActivity\<close> are the package variables beside the registry.\<close>

record streamAdmissionRegistry =
  ar_active :: "string \<rightharpoonup> streamAdmissionActive"
  ar_waiters :: int
  ar_uniqueWaiters :: int
  ar_waitsTotal :: int
  ar_uniqueWaitsTotal :: int
  ar_timeoutsTotal :: int
  ar_overloadRejectionsTotal :: int
  ar_streams :: int
  ar_lastActivity :: int

definition newStreamAdmissionState :: streamAdmissionRegistry where
  "newStreamAdmissionState = \<lparr>ar_active = Map.empty, ar_waiters = 0, ar_uniqueWaiters = 0, ar_waitsTotal = 0,
     ar_uniqueWaitsTotal = 0, ar_timeoutsTotal = 0, ar_overloadRejectionsTotal = 0, ar_streams = 0,
     ar_lastActivity = 0\<rparr>"

definition active_entry :: "streamAdmissionRegistry \<Rightarrow> string \<Rightarrow> streamAdmissionActive" where
  "active_entry r key = (case ar_active r key of None \<Rightarrow> \<lparr>ac_readers = 0, ac_torrentID = 0\<rparr> | Some a \<Rightarrow> a)"

lemma active_entry_streams [simp]: "active_entry (r\<lparr>ar_streams := n\<rparr>) key = active_entry r key"
  by (simp add: active_entry_def)

definition canAcquireUniqueTorrent :: "int \<Rightarrow> string \<Rightarrow> streamAdmissionRegistry \<Rightarrow> bool" where
  "canAcquireUniqueTorrent maxUnique key r \<longleftrightarrow>
     (if maxUnique \<le> 0 \<or> key = [] then True
      else if ac_readers (active_entry r key) > 0 then True
      else int (card (dom (ar_active r))) < maxUnique)"

text \<open>The results are the success and whether the limit of unique torrents was the obstacle.\<close>

definition tryAcquire ::
  "streamAdmission \<Rightarrow> string \<Rightarrow> int \<Rightarrow> streamAdmissionRegistry \<Rightarrow> bool \<times> bool \<times> streamAdmissionRegistry" where
  "tryAcquire admission key torrentID r =
     (if ar_streams r \<ge> sa_maxStreams admission then (False, False, r)
      else if \<not> canAcquireUniqueTorrent (sa_maxUniqueTorrents admission) key r then (False, True, r)
      else let r = r\<lparr>ar_streams := i32 (ar_streams r + 1)\<rparr>;
               r = (if key \<noteq> []
                    then let active = active_entry r key;
                             active = active\<lparr>ac_readers := i64 (ac_readers active + 1)\<rparr>;
                             active = (if ac_torrentID active = 0 then active\<lparr>ac_torrentID := torrentID\<rparr> else active)
                         in r\<lparr>ar_active := (ar_active r)(key \<mapsto> active)\<rparr>
                    else r)
           in (True, False, r))"

definition release_stream :: "string \<Rightarrow> streamAdmissionRegistry \<Rightarrow> streamAdmissionRegistry" where
  "release_stream key r =
     (let r = (if key \<noteq> []
               then let count = active_entry r key
                    in if ac_readers count \<le> 1 then r\<lparr>ar_active := (ar_active r)(key := None)\<rparr>
                       else r\<lparr>ar_active := (ar_active r)(key \<mapsto> count\<lparr>ac_readers := i64 (ac_readers count - 1)\<rparr>)\<rparr>
               else r);
          n = i32 (ar_streams r - 1)
      in if n < 0 then r\<lparr>ar_streams := 0\<rparr> else r\<lparr>ar_streams := n\<rparr>)"

definition tryAcquireQueueSlot :: "int \<Rightarrow> bool \<Rightarrow> bool \<Rightarrow> streamAdmissionRegistry \<Rightarrow> bool \<times> streamAdmissionRegistry" where
  "tryAcquireQueueSlot queueSize uniqueBlocked debugEnabled r =
     (if queueSize \<le> 0 then (False, r)
      else if ar_waiters r \<ge> queueSize then (False, r)
      else let r = r\<lparr>ar_waiters := i64 (ar_waiters r + 1)\<rparr>;
               r = (if debugEnabled
                    then let r = r\<lparr>ar_waitsTotal := i64 (ar_waitsTotal r + 1)\<rparr>
                         in if uniqueBlocked
                            then r\<lparr>ar_uniqueWaiters := i64 (ar_uniqueWaiters r + 1),
                                   ar_uniqueWaitsTotal := i64 (ar_uniqueWaitsTotal r + 1)\<rparr>
                            else r
                    else r)
           in (True, r))"

definition releaseQueueSlot :: "bool \<Rightarrow> bool \<Rightarrow> streamAdmissionRegistry \<Rightarrow> streamAdmissionRegistry" where
  "releaseQueueSlot uniqueWaiter debugEnabled r =
     (let r = (if ar_waiters r > 0 then r\<lparr>ar_waiters := ar_waiters r - 1\<rparr> else r)
      in if debugEnabled \<and> uniqueWaiter \<and> ar_uniqueWaiters r > 0
         then r\<lparr>ar_uniqueWaiters := ar_uniqueWaiters r - 1\<rparr> else r)"

definition recordAdmissionTimeout :: "bool \<Rightarrow> streamAdmissionRegistry \<Rightarrow> streamAdmissionRegistry" where
  "recordAdmissionTimeout debugEnabled r =
     (if debugEnabled then r\<lparr>ar_timeoutsTotal := i64 (ar_timeoutsTotal r + 1)\<rparr> else r)"

definition recordOverloadRejection :: "bool \<Rightarrow> streamAdmissionRegistry \<Rightarrow> streamAdmissionRegistry" where
  "recordOverloadRejection debugEnabled r =
     (if debugEnabled then r\<lparr>ar_overloadRejectionsTotal := i64 (ar_overloadRejectionsTotal r + 1)\<rparr> else r)"

section \<open>Checks and snapshots\<close>

record StreamAdmissionDecision =
  sd_Allowed :: bool
  sd_RetryAfter :: int
  sd_Reason :: string

definition canAcquireNow :: "streamAdmission \<Rightarrow> string \<Rightarrow> streamAdmissionRegistry \<Rightarrow> bool \<times> string" where
  "canAcquireNow admission key r =
     (if ar_streams r \<ge> sa_maxStreams admission then (False, ''max_streams'')
      else if \<not> canAcquireUniqueTorrent (sa_maxUniqueTorrents admission) key r
      then (False, ''max_unique_playback_torrents'')
      else (True, []))"

definition CheckStreamAdmission ::
  "int \<Rightarrow> BTSets option \<Rightarrow> string \<Rightarrow> bool \<Rightarrow> streamAdmissionRegistry \<Rightarrow> StreamAdmissionDecision \<times> streamAdmissionRegistry" where
  "CheckStreamAdmission cpus sets key debugEnabled r =
     (let admission = currentAdmission cpus sets; (allowed, reason) = canAcquireNow admission key r
      in if allowed
         then (\<lparr>sd_Allowed = True, sd_RetryAfter = sa_waitDuration admission, sd_Reason = []\<rparr>, r)
         else (\<lparr>sd_Allowed = False, sd_RetryAfter = sa_waitDuration admission, sd_Reason = reason\<rparr>,
               recordOverloadRejection debugEnabled r))"

definition hasActiveTorrent :: "string \<Rightarrow> streamAdmissionRegistry \<Rightarrow> bool" where
  "hasActiveTorrent key r \<longleftrightarrow> key \<noteq> [] \<and> ac_readers (active_entry r key) > 0"

record streamAdmissionSnapshot =
  ss_ActiveStreams :: int
  ss_ActiveUniquePlaybackTorrents :: int
  ss_ExtraSameTorrentStreams :: int
  ss_MaxReadersPerTorrent :: int
  ss_QueuedRequests :: int
  ss_QueuedUniqueTorrentRequests :: int
  ss_AdmissionWaitsTotal :: int
  ss_UniqueTorrentWaitsTotal :: int
  ss_AdmissionTimeoutsTotal :: int
  ss_OverloadRejectionsTotal :: int
  ss_Streams :: "streamAdmissionActive list"

text \<open>The loop stops at 64 torrents, and the maximum is over those it saw; \<open>ord\<close> is the order of the map.\<close>

definition SnapshotStreamAdmission :: "string list \<Rightarrow> streamAdmissionRegistry \<Rightarrow> streamAdmissionSnapshot" where
  "SnapshotStreamAdmission ord r =
     (let seen = take 64 (List.map_filter (ar_active r) ord)
      in \<lparr>ss_ActiveStreams = ar_streams r, ss_ActiveUniquePlaybackTorrents = int (card (dom (ar_active r))),
          ss_ExtraSameTorrentStreams = ar_streams r - int (card (dom (ar_active r))),
          ss_MaxReadersPerTorrent = fold (\<lambda>a m. if ac_readers a > m then ac_readers a else m) seen 0,
          ss_QueuedRequests = ar_waiters r, ss_QueuedUniqueTorrentRequests = ar_uniqueWaiters r,
          ss_AdmissionWaitsTotal = ar_waitsTotal r, ss_UniqueTorrentWaitsTotal = ar_uniqueWaitsTotal r,
          ss_AdmissionTimeoutsTotal = ar_timeoutsTotal r,
          ss_OverloadRejectionsTotal = ar_overloadRejectionsTotal r, ss_Streams = seen\<rparr>)"

definition markStreamActivity :: "int \<Rightarrow> streamAdmissionRegistry \<Rightarrow> streamAdmissionRegistry" where
  "markStreamActivity now r = r\<lparr>ar_lastActivity := now\<rparr>"

section \<open>A request for a stream\<close>

text \<open>
  The phases of one call of \<open>tryAcquireStream\<close> and of the stream after it. \<open>Attempt q\<close> is about to
  try; \<open>q\<close> tells whether it holds a place in the queue, and which kind. \<open>Granted\<close> got the
  stream and gives its place back; \<open>Blocked\<close> asks for a place; \<open>Parked\<close> waits in the select
  for the ticker, the timer or the end of its context. \<open>Streaming\<close> has the release function,
  and \<open>Released\<close> has called it, after which its \<open>sync.Once\<close> makes further calls do nothing.
\<close>

datatype admission_error = QueueFull | LimitExceeded | ContextEnded

datatype request_phase =
    Attempt "bool option" | Granted bool | Blocked bool | Parked bool | Streaming | Released
  | Failed admission_error

datatype wake = Tick | TimerFired | ContextDone

record request =
  rq_admission :: streamAdmission
  rq_key :: string
  rq_torrentID :: int
  rq_debug :: bool
  rq_phase :: request_phase

definition tryAcquireStream :: "int \<Rightarrow> BTSets option \<Rightarrow> string \<Rightarrow> int \<Rightarrow> bool \<Rightarrow> request" where
  "tryAcquireStream cpus sets key torrentID debugEnabled =
     \<lparr>rq_admission = currentAdmission cpus sets, rq_key = key, rq_torrentID = torrentID, rq_debug = debugEnabled,
      rq_phase = Attempt None\<rparr>"

definition request_step :: "wake \<Rightarrow> streamAdmissionRegistry \<times> request \<Rightarrow> streamAdmissionRegistry \<times> request" where
  "request_step w rq =
     (let (r, q) = rq in
      case rq_phase q of
        Attempt queued \<Rightarrow>
          (let (ok, uniqueBlocked, r) = tryAcquire (rq_admission q) (rq_key q) (rq_torrentID q) r
           in (r, q\<lparr>rq_phase := (if ok then (case queued of None \<Rightarrow> Streaming | Some u \<Rightarrow> Granted u)
                                 else (case queued of None \<Rightarrow> Blocked uniqueBlocked | Some u \<Rightarrow> Parked u))\<rparr>))
      | Granted u \<Rightarrow> (releaseQueueSlot u (rq_debug q) r, q\<lparr>rq_phase := Streaming\<rparr>)
      | Blocked uniqueBlocked \<Rightarrow>
          (let (ok, r) = tryAcquireQueueSlot (sa_queueSize (rq_admission q)) uniqueBlocked (rq_debug q) r
           in if ok then (r, q\<lparr>rq_phase := Parked uniqueBlocked\<rparr>)
              else (recordOverloadRejection (rq_debug q) r, q\<lparr>rq_phase := Failed QueueFull\<rparr>))
      | Parked u \<Rightarrow>
          (case w of
             Tick \<Rightarrow> (r, q\<lparr>rq_phase := Attempt (Some u)\<rparr>)
           | ContextDone \<Rightarrow> (releaseQueueSlot u (rq_debug q) r, q\<lparr>rq_phase := Failed ContextEnded\<rparr>)
           | TimerFired \<Rightarrow> (recordAdmissionTimeout (rq_debug q) (releaseQueueSlot u (rq_debug q) r),
                            q\<lparr>rq_phase := Failed LimitExceeded\<rparr>))
      | Streaming \<Rightarrow> (release_stream (rq_key q) r, q\<lparr>rq_phase := Released\<rparr>)
      | Released \<Rightarrow> (r, q)
      | Failed e \<Rightarrow> (r, q))"

section \<open>All requests together\<close>

text \<open>Any request may arrive at any time; the premise says that its queue size is a Go \<open>int\<close>.\<close>

inductive adm_step :: "streamAdmissionRegistry \<times> request list \<Rightarrow> streamAdmissionRegistry \<times> request list \<Rightarrow> bool" where
  arrive: "fits_i64 (sa_queueSize (currentAdmission cpus sets)) \<Longrightarrow>
    adm_step (r, qs) (r, qs @ [tryAcquireStream cpus sets key torrentID debugEnabled])"
| move: "i < length qs \<Longrightarrow> request_step w (r, qs ! i) = (r', q') \<Longrightarrow> adm_step (r, qs) (r', qs[i := q'])"

inductive_cases adm_stepE: "adm_step s s'"

inductive adm_reach :: "streamAdmissionRegistry \<times> request list \<Rightarrow> bool" where
  start: "adm_reach (newStreamAdmissionState, [])"
| further: "adm_reach s \<Longrightarrow> adm_step s s' \<Longrightarrow> adm_reach s'"

section \<open>What the counters count\<close>

fun holds_stream :: "request_phase \<Rightarrow> bool" where
  "holds_stream Streaming = True"
| "holds_stream (Granted u) = True"
| "holds_stream _ = False"

fun queued_as :: "request_phase \<Rightarrow> bool option" where
  "queued_as (Attempt q) = q"
| "queued_as (Granted u) = Some u"
| "queued_as (Parked u) = Some u"
| "queued_as _ = None"

definition settled :: "request_phase \<Rightarrow> bool" where
  "settled p \<longleftrightarrow> p = Streaming \<or> p = Released \<or> (\<exists>e. p = Failed e)"

definition count_of :: "('a \<Rightarrow> bool) \<Rightarrow> 'a list \<Rightarrow> int" where
  "count_of P xs = int (length (filter P xs))"

lemma count_of_simps [simp]:
  "count_of P [] = 0" "count_of P (x # xs) = of_bool (P x) + count_of P xs"
  "count_of P (xs @ ys) = count_of P xs + count_of P ys"
  by (simp_all add: count_of_def)

lemma count_of_nonneg [simp]: "0 \<le> count_of P xs"
  by (simp add: count_of_def)

lemma count_of_update:
  "i < length xs \<Longrightarrow> count_of P (xs[i := y]) = count_of P xs - of_bool (P (xs ! i)) + of_bool (P y)"
  by (induction xs arbitrary: i) (auto split: nat.split simp: nth_Cons')

lemma count_of_mono: "(\<And>x. P x \<Longrightarrow> Q x) \<Longrightarrow> count_of P xs \<le> count_of Q xs"
  by (induction xs) (auto simp: of_bool_def)

lemma count_of_pos: "i < length xs \<Longrightarrow> P (xs ! i) \<Longrightarrow> 0 < count_of P xs"
  by (auto simp: count_of_def filter_empty_conv)

lemma count_of_0: "count_of P xs = 0 \<longleftrightarrow> (\<forall>x \<in> set xs. \<not> P x)"
  by (auto simp: count_of_def filter_empty_conv)

definition holders :: "request list \<Rightarrow> int" where
  "holders = count_of (\<lambda>q. holds_stream (rq_phase q))"

definition key_holders :: "string \<Rightarrow> request list \<Rightarrow> int" where
  "key_holders key = count_of (\<lambda>q. holds_stream (rq_phase q) \<and> rq_key q = key)"

definition queued :: "request list \<Rightarrow> int" where
  "queued = count_of (\<lambda>q. queued_as (rq_phase q) \<noteq> None)"

definition queued_unique :: "request list \<Rightarrow> int" where
  "queued_unique = count_of (\<lambda>q. queued_as (rq_phase q) = Some True \<and> rq_debug q)"

lemmas counts = holders_def key_holders_def queued_def queued_unique_def

definition readers_agree :: "streamAdmissionRegistry \<Rightarrow> request list \<Rightarrow> bool" where
  "readers_agree r qs \<longleftrightarrow>
     (\<forall>key. if key = [] \<or> key_holders key qs = 0 then ar_active r key = None
            else \<exists>a. ar_active r key = Some a \<and> ac_readers a = key_holders key qs)"

definition adm_inv :: "streamAdmissionRegistry \<Rightarrow> request list \<Rightarrow> bool" where
  "adm_inv r qs \<longleftrightarrow>
     ar_streams r = holders qs \<and> holders qs \<le> 2147483647 \<and>
     ar_waiters r = queued qs \<and> queued qs \<le> 9223372036854775807 \<and>
     ar_uniqueWaiters r = queued_unique qs \<and> readers_agree r qs \<and>
     (\<forall>q \<in> set qs. sa_maxStreams (rq_admission q) \<le> 2147483647
        \<and> sa_queueSize (rq_admission q) \<le> 9223372036854775807)"

lemma i32_id: "-2147483648 \<le> x \<Longrightarrow> x \<le> 2147483647 \<Longrightarrow> i32 x = x"
  by (simp add: i32_alt)

lemma i32_le: "i32 x \<le> 2147483647"
  using pos_mod_bound [of 4294967296 "x + 2147483648"] by (simp add: i32_alt)

lemma key_holders_le: "key_holders key qs \<le> holders qs"
  unfolding counts by (rule count_of_mono) simp

lemma queued_unique_le: "queued_unique qs \<le> queued qs"
  unfolding counts by (rule count_of_mono) auto

lemma active_entry_readers:
  "readers_agree r qs \<Longrightarrow> key \<noteq> [] \<Longrightarrow> ac_readers (active_entry r key) = key_holders key qs"
  unfolding readers_agree_def active_entry_def by (drule spec [of _ key]) (auto split: if_splits)

text \<open>What each method does, once the counters count.\<close>

lemma tryAcquire_inv:
  assumes inv: "adm_inv r qs" and i: "i < length qs" "rq_phase (qs ! i) = Attempt qd"
    and got: "tryAcquire (rq_admission (qs ! i)) (rq_key (qs ! i)) tid r = (ok, ub, r')"
  defines "p \<equiv> (if ok then (case qd of None \<Rightarrow> Streaming | Some u \<Rightarrow> Granted u)
                 else (case qd of None \<Rightarrow> Blocked ub | Some u \<Rightarrow> Parked u))"
  shows "adm_inv r' (qs[i := (qs ! i)\<lparr>rq_phase := p\<rparr>])"
proof -
  let ?q = "qs ! i" and ?qs = "qs[i := (qs ! i)\<lparr>rq_phase := p\<rparr>]"
  have hold: "holders ?qs = holders qs + of_bool ok"
    "key_holders k ?qs = key_holders k qs + of_bool (ok \<and> rq_key ?q = k)" for k
    using i by (auto simp: counts count_of_update p_def split: option.split)
  have wait: "queued ?qs = queued qs" "queued_unique ?qs = queued_unique qs"
    using i by (auto simp: counts count_of_update p_def split: option.split)
  have adm: "\<forall>q \<in> set ?qs. sa_maxStreams (rq_admission q) \<le> 2147483647
        \<and> sa_queueSize (rq_admission q) \<le> 9223372036854775807"
    using inv i by (auto simp: adm_inv_def dest!: set_update_subset_insert [THEN subsetD])
  show ?thesis
  proof (cases ok)
    case False
    then have "r' = r" using got by (auto simp: tryAcquire_def Let_def split: if_splits)
    then show ?thesis using False inv hold wait adm by (simp add: adm_inv_def readers_agree_def)
  next
    case True
    then have lim: "ar_streams r < sa_maxStreams (rq_admission ?q)"
      using got by (auto simp: tryAcquire_def Let_def split: if_splits)
    moreover have "sa_maxStreams (rq_admission ?q) \<le> 2147483647" using inv i by (simp add: adm_inv_def)
    ultimately have bound: "holders qs + 1 \<le> 2147483647" using inv by (simp add: adm_inv_def)
    have "0 \<le> holders qs" by (simp add: counts)
    then have streams: "ar_streams r' = holders qs + 1" and r': "ar_waiters r' = ar_waiters r"
      "ar_uniqueWaiters r' = ar_uniqueWaiters r"
      using got True inv bound by (auto simp: tryAcquire_def Let_def adm_inv_def i32_id split: if_splits)
    have agree: "readers_agree r qs" using inv by (simp add: adm_inv_def)
    have kh: "key_holders (rq_key ?q) qs \<le> 2147483647" "0 \<le> key_holders k qs" for k
      using key_holders_le [of "rq_key ?q" qs] bound by (auto simp: counts)
    have act: "ar_active r' = (if rq_key ?q = [] then ar_active r
        else (ar_active r)(rq_key ?q \<mapsto> (let a = (active_entry r (rq_key ?q))
               \<lparr>ac_readers := i64 (ac_readers (active_entry r (rq_key ?q)) + 1)\<rparr>
             in if ac_torrentID a = 0 then a\<lparr>ac_torrentID := tid\<rparr> else a)))"
      using got True by (auto simp: tryAcquire_def Let_def split: if_splits)
    have "readers_agree r' ?qs"
    proof (cases "rq_key ?q = []")
      case True
      then show ?thesis using agree act hold(2) \<open>ok\<close> by (auto simp: readers_agree_def)
    next
      case False
      have "ac_readers (active_entry r (rq_key ?q)) = key_holders (rq_key ?q) qs"
        by (rule active_entry_readers [OF agree False])
      then have "i64 (ac_readers (active_entry r (rq_key ?q)) + 1) = key_holders (rq_key ?q) qs + 1"
        using kh(1) kh(2) [of "rq_key ?q"] by (simp add: i64_id fits_i64_def)
      then obtain a where a: "ar_active r' = (ar_active r)(rq_key ?q \<mapsto> a)"
        "ac_readers a = key_holders (rq_key ?q) qs + 1"
        using act False by (auto simp: Let_def)
      show ?thesis unfolding readers_agree_def
      proof
        fix k
        show "if k = [] \<or> key_holders k ?qs = 0 then ar_active r' k = None
          else \<exists>a. ar_active r' k = Some a \<and> ac_readers a = key_holders k ?qs"
          using agree [unfolded readers_agree_def, THEN spec, of k] a hold(2) [of k] True False kh(2) [of k]
          by (cases "rq_key ?q = k") auto
      qed
    qed
    then show ?thesis using inv True streams r' hold wait bound adm by (simp add: adm_inv_def)
  qed
qed

lemma release_inv:
  assumes inv: "adm_inv r qs" and i: "i < length qs" "rq_phase (qs ! i) = Streaming"
  shows "adm_inv (release_stream (rq_key (qs ! i)) r) (qs[i := (qs ! i)\<lparr>rq_phase := Released\<rparr>])"
proof -
  let ?q = "qs ! i" and ?qs = "qs[i := (qs ! i)\<lparr>rq_phase := Released\<rparr>]" and ?r = "release_stream (rq_key (qs ! i)) r"
  have hold: "holders ?qs = holders qs - 1" "key_holders k ?qs = key_holders k qs - of_bool (rq_key ?q = k)" for k
    using i by (auto simp: counts count_of_update)
  have wait: "queued ?qs = queued qs" "queued_unique ?qs = queued_unique qs"
    using i by (auto simp: counts count_of_update)
  have adm: "\<forall>q \<in> set ?qs. sa_maxStreams (rq_admission q) \<le> 2147483647
        \<and> sa_queueSize (rq_admission q) \<le> 9223372036854775807"
    using inv i by (auto simp: adm_inv_def dest!: set_update_subset_insert [THEN subsetD])
  have pos: "0 < holders qs" "0 < key_holders (rq_key ?q) qs" "key_holders (rq_key ?q) qs \<le> 2147483647"
    using i inv key_holders_le [of "rq_key ?q" qs] by (auto simp: counts adm_inv_def intro: count_of_pos [of i])
  have agree: "readers_agree r qs" using inv by (simp add: adm_inv_def)
  have r: "ar_streams ?r = holders qs - 1" "ar_waiters ?r = ar_waiters r" "ar_uniqueWaiters ?r = ar_uniqueWaiters r"
    using inv pos(1) by (auto simp: release_stream_def Let_def adm_inv_def i32_id)
  have act: "ar_active ?r = (if rq_key ?q = [] then ar_active r
      else if ac_readers (active_entry r (rq_key ?q)) \<le> 1 then (ar_active r)(rq_key ?q := None)
      else (ar_active r)(rq_key ?q \<mapsto> (active_entry r (rq_key ?q))
             \<lparr>ac_readers := i64 (ac_readers (active_entry r (rq_key ?q)) - 1)\<rparr>))"
    by (auto simp: release_stream_def Let_def)
  have "readers_agree ?r ?qs"
  proof (cases "rq_key ?q = []")
    case True
    then show ?thesis using agree act hold(2) by (auto simp: readers_agree_def)
  next
    case False
    have entry: "ac_readers (active_entry r (rq_key ?q)) = key_holders (rq_key ?q) qs"
      by (rule active_entry_readers [OF agree False])
    then have "i64 (ac_readers (active_entry r (rq_key ?q)) - 1) = key_holders (rq_key ?q) qs - 1"
      using pos by (simp add: i64_id fits_i64_def)
    then show ?thesis using agree act hold(2) False pos(2) entry unfolding readers_agree_def
      by (auto split: if_splits)
  qed
  then show ?thesis using inv r hold wait adm by (simp add: adm_inv_def)
qed

lemma queue_inv:
  assumes inv: "adm_inv r qs" and i: "i < length qs" "rq_phase (qs ! i) = Blocked ub"
    and got: "tryAcquireQueueSlot (sa_queueSize (rq_admission (qs ! i))) ub (rq_debug (qs ! i)) r = (ok, r')"
  shows "if ok then adm_inv r' (qs[i := (qs ! i)\<lparr>rq_phase := Parked ub\<rparr>])
    else adm_inv (recordOverloadRejection d r') (qs[i := (qs ! i)\<lparr>rq_phase := Failed QueueFull\<rparr>])"
proof -
  let ?qs = "qs[i := (qs ! i)\<lparr>rq_phase := p\<rparr>]"
  have hold: "holders (qs[i := (qs ! i)\<lparr>rq_phase := p\<rparr>]) = holders qs"
    "key_holders k (qs[i := (qs ! i)\<lparr>rq_phase := p\<rparr>]) = key_holders k qs"
    if "p = Parked ub \<or> p = Failed QueueFull" for p k
    using i that by (auto simp: counts count_of_update)
  have park: "queued (qs[i := (qs ! i)\<lparr>rq_phase := Parked ub\<rparr>]) = queued qs + 1"
    "queued_unique (qs[i := (qs ! i)\<lparr>rq_phase := Parked ub\<rparr>]) = queued_unique qs + of_bool (ub \<and> rq_debug (qs ! i))"
    "queued (qs[i := (qs ! i)\<lparr>rq_phase := Failed QueueFull\<rparr>]) = queued qs"
    "queued_unique (qs[i := (qs ! i)\<lparr>rq_phase := Failed QueueFull\<rparr>]) = queued_unique qs"
    using i by (auto simp: counts count_of_update)
  have adm: "\<forall>q \<in> set (qs[i := (qs ! i)\<lparr>rq_phase := p\<rparr>]). sa_maxStreams (rq_admission q) \<le> 2147483647
        \<and> sa_queueSize (rq_admission q) \<le> 9223372036854775807" for p
    using inv i by (auto simp: adm_inv_def dest!: set_update_subset_insert [THEN subsetD])
  have size: "sa_queueSize (rq_admission (qs ! i)) \<le> 9223372036854775807"
    using inv i by (simp add: adm_inv_def)
  have uniq: "0 \<le> queued_unique qs" "queued_unique qs \<le> queued qs" "0 \<le> queued qs"
    using queued_unique_le by (auto simp: counts)
  show ?thesis
  proof (cases ok)
    case True
    then have lt: "ar_waiters r < sa_queueSize (rq_admission (qs ! i))"
      using got by (auto simp: tryAcquireQueueSlot_def split: if_splits)
    then have w: "i64 (ar_waiters r + 1) = queued qs + 1" "i64 (ar_uniqueWaiters r + 1) = queued_unique qs + 1"
      using inv size uniq by (auto simp: adm_inv_def i64_id fits_i64_def)
    have "ar_streams r' = ar_streams r" "ar_active r' = ar_active r" "ar_waiters r' = i64 (ar_waiters r + 1)"
      "ar_uniqueWaiters r' = (if rq_debug (qs ! i) \<and> ub then i64 (ar_uniqueWaiters r + 1) else ar_uniqueWaiters r)"
      using got True by (auto simp: tryAcquireQueueSlot_def Let_def split: if_splits)
    then show ?thesis using True inv hold park adm w lt size by (auto simp: adm_inv_def readers_agree_def)
  next
    case False
    then have "r' = r" using got by (auto simp: tryAcquireQueueSlot_def Let_def split: if_splits)
    then show ?thesis using False inv hold park adm
      by (simp add: adm_inv_def readers_agree_def recordOverloadRejection_def)
  qed
qed

text \<open>Giving a place in the queue back, to stream or to fail.\<close>

lemma unqueue_inv:
  assumes inv: "adm_inv r qs" and i: "i < length qs" "queued_as (rq_phase (qs ! i)) = Some u"
    and p: "queued_as p = None" "holds_stream p = holds_stream (rq_phase (qs ! i))"
  shows "adm_inv (releaseQueueSlot u (rq_debug (qs ! i)) r) (qs[i := (qs ! i)\<lparr>rq_phase := p\<rparr>])"
proof -
  let ?qs = "qs[i := (qs ! i)\<lparr>rq_phase := p\<rparr>]" and ?r = "releaseQueueSlot u (rq_debug (qs ! i)) r"
  have hold: "holders ?qs = holders qs" "key_holders k ?qs = key_holders k qs" for k
    using i p by (auto simp: counts count_of_update)
  have wait: "queued ?qs = queued qs - 1"
    "queued_unique ?qs = queued_unique qs - of_bool (u \<and> rq_debug (qs ! i))"
    using i p by (auto simp: counts count_of_update)
  have adm: "\<forall>q \<in> set ?qs. sa_maxStreams (rq_admission q) \<le> 2147483647
        \<and> sa_queueSize (rq_admission q) \<le> 9223372036854775807"
    using inv i by (auto simp: adm_inv_def dest!: set_update_subset_insert [THEN subsetD])
  have "0 < queued qs" using i by (auto simp: counts intro: count_of_pos [of i])
  moreover have "u \<and> rq_debug (qs ! i) \<Longrightarrow> 0 < queued_unique qs"
    using i unfolding counts by (intro count_of_pos [of i]) auto
  ultimately have "ar_streams ?r = ar_streams r" "ar_active ?r = ar_active r" "ar_waiters ?r = queued qs - 1"
    "ar_uniqueWaiters ?r = queued_unique qs - of_bool (u \<and> rq_debug (qs ! i))"
    using inv by (auto simp: releaseQueueSlot_def Let_def adm_inv_def)
  then show ?thesis using inv hold wait adm by (auto simp: adm_inv_def readers_agree_def)
qed

lemma timeout_inv: "adm_inv (recordAdmissionTimeout d r) qs = adm_inv r qs"
  by (simp add: recordAdmissionTimeout_def adm_inv_def readers_agree_def)

lemma tick_inv:
  assumes "adm_inv r qs" "i < length qs" "rq_phase (qs ! i) = Parked u"
  shows "adm_inv r (qs[i := (qs ! i)\<lparr>rq_phase := Attempt (Some u)\<rparr>])"
proof -
  have "\<forall>q \<in> set (qs[i := (qs ! i)\<lparr>rq_phase := Attempt (Some u)\<rparr>]). sa_maxStreams (rq_admission q) \<le> 2147483647
        \<and> sa_queueSize (rq_admission q) \<le> 9223372036854775807"
    using assms by (auto simp: adm_inv_def dest!: set_update_subset_insert [THEN subsetD])
  moreover have "holders (qs[i := (qs ! i)\<lparr>rq_phase := Attempt (Some u)\<rparr>]) = holders qs"
    "key_holders k (qs[i := (qs ! i)\<lparr>rq_phase := Attempt (Some u)\<rparr>]) = key_holders k qs"
    "queued (qs[i := (qs ! i)\<lparr>rq_phase := Attempt (Some u)\<rparr>]) = queued qs"
    "queued_unique (qs[i := (qs ! i)\<lparr>rq_phase := Attempt (Some u)\<rparr>]) = queued_unique qs" for k
    using assms(2,3) by (auto simp: counts count_of_update)
  ultimately show ?thesis using assms(1) by (simp add: adm_inv_def readers_agree_def)
qed

lemma request_step_inv:
  assumes inv: "adm_inv r qs" and i: "i < length qs" and step: "request_step w (r, qs ! i) = (r', q')"
  shows "adm_inv r' (qs[i := q'])"
proof (cases "rq_phase (qs ! i)")
  case (Attempt qd)
  obtain ok ub s where got: "tryAcquire (rq_admission (qs ! i)) (rq_key (qs ! i)) (rq_torrentID (qs ! i)) r = (ok, ub, s)"
    by (metis prod_cases3)
  show ?thesis using tryAcquire_inv [OF inv i Attempt got] step Attempt got by (simp add: request_step_def)
next
  case (Granted u)
  then show ?thesis using step unqueue_inv [OF inv i, of u Streaming] by (auto simp: request_step_def)
next
  case (Blocked ub)
  obtain ok s where got: "tryAcquireQueueSlot (sa_queueSize (rq_admission (qs ! i))) ub (rq_debug (qs ! i)) r = (ok, s)"
    by fastforce
  show ?thesis using queue_inv [OF inv i Blocked got, of "rq_debug (qs ! i)"] step Blocked got
    by (auto simp: request_step_def split: if_splits)
next
  case (Parked u)
  then show ?thesis using step tick_inv [OF inv i Parked] unqueue_inv [OF inv i, of u "Failed LimitExceeded"]
      unqueue_inv [OF inv i, of u "Failed ContextEnded"]
    by (auto simp: request_step_def timeout_inv split: wake.splits)
next
  case Streaming
  then show ?thesis using step release_inv [OF inv i Streaming] by (auto simp: request_step_def)
qed (use inv step in \<open>auto simp: request_step_def\<close>)

lemma arrive_inv:
  assumes "adm_inv r qs" "fits_i64 (sa_queueSize (currentAdmission cpus sets))"
  shows "adm_inv r (qs @ [tryAcquireStream cpus sets key tid d])"
proof -
  have "sa_maxStreams (currentAdmission cpus sets) \<le> 2147483647"
    using i32_le by (simp add: currentAdmission_def Let_def)
  moreover have "holders (qs @ [tryAcquireStream cpus sets key tid d]) = holders qs"
    "key_holders k (qs @ [tryAcquireStream cpus sets key tid d]) = key_holders k qs"
    "queued (qs @ [tryAcquireStream cpus sets key tid d]) = queued qs"
    "queued_unique (qs @ [tryAcquireStream cpus sets key tid d]) = queued_unique qs" for k
    by (simp_all add: counts tryAcquireStream_def)
  ultimately show ?thesis using assms
    by (auto simp: adm_inv_def readers_agree_def tryAcquireStream_def fits_i64_def)
qed

lemma reach_inv: "adm_reach s \<Longrightarrow> adm_inv (fst s) (snd s)"
proof (induction rule: adm_reach.induct)
  case start
  show ?case by (simp add: adm_inv_def newStreamAdmissionState_def counts readers_agree_def)
next
  case (further s s')
  from further.hyps(2) show ?case
    by cases (use further.IH in \<open>auto intro: arrive_inv request_step_inv\<close>)
qed

section \<open>Properties\<close>

lemma active_dom:
  assumes "adm_inv r qs"
  shows "dom (ar_active r) = {rq_key q | q. q \<in> set qs \<and> holds_stream (rq_phase q)} - {[]}"
proof -
  have "(ar_active r key \<noteq> None) = (key \<noteq> [] \<and> key_holders key qs \<noteq> 0)" for key
    using assms unfolding adm_inv_def readers_agree_def by (auto dest!: spec [of _ key] split: if_splits)
  then show ?thesis by (auto simp: dom_def key_holders_def count_of_0)
qed

lemma active_card:
  assumes "adm_inv r qs"
  shows "finite (dom (ar_active r))" "int (card (dom (ar_active r))) \<le> ar_streams r"
proof -
  let ?hs = "filter (\<lambda>q. holds_stream (rq_phase q)) qs"
  have sub: "dom (ar_active r) \<subseteq> rq_key ` set ?hs" by (auto simp: active_dom [OF assms])
  then show "finite (dom (ar_active r))" by (rule finite_subset) simp
  have "card (dom (ar_active r)) \<le> card (rq_key ` set ?hs)" using sub by (intro card_mono) auto
  also have "\<dots> \<le> length ?hs" using card_image_le [of "set ?hs" rq_key] card_length [of ?hs] by simp
  finally show "int (card (dom (ar_active r))) \<le> ar_streams r"
    using assms by (simp add: adm_inv_def holders_def count_of_def)
qed

text \<open>
  Property C21. The admission counters are exact at every moment: however requests with whatever
  settings arrive, interleave at the locked steps, time out, are cancelled and release their streams, the number of
  active streams is the number of requests that hold one, the waiters are the requests
  that hold a place in the queue, a torrent counts as active exactly when some request holds a
  stream of it, and there are never more active torrents than streams. So nothing leaks: when every request has failed or
  has released its stream, no stream, no torrent and no place in the queue is left taken.
\<close>

theorem admission_counters_exact:
  assumes "adm_reach (r, qs)"
  shows "ar_streams r = holders qs \<and> ar_waiters r = queued qs \<and> ar_uniqueWaiters r = queued_unique qs
    \<and> (\<forall>key. hasActiveTorrent key r = (key \<noteq> [] \<and> (\<exists>q \<in> set qs. rq_key q = key \<and> holds_stream (rq_phase q))))
    \<and> 0 \<le> ss_ExtraSameTorrentStreams (SnapshotStreamAdmission ord r)
    \<and> ((\<forall>q \<in> set qs. rq_phase q = Released \<or> (\<exists>e. rq_phase q = Failed e))
        \<longrightarrow> ar_streams r = 0 \<and> ar_active r = Map.empty \<and> ar_waiters r = 0)"
proof -
  have inv: "adm_inv r qs" using reach_inv [OF assms] by simp
  have has: "hasActiveTorrent key r = (key \<noteq> [] \<and> (\<exists>q \<in> set qs. rq_key q = key \<and> holds_stream (rq_phase q)))" for key
  proof (cases "key = []")
    case False
    then have "ac_readers (active_entry r key) = key_holders key qs"
      using inv active_entry_readers by (simp add: adm_inv_def)
    moreover have "(0 < key_holders key qs) = (\<exists>q \<in> set qs. rq_key q = key \<and> holds_stream (rq_phase q))"
      using count_of_nonneg [of _ qs] by (auto simp: key_holders_def less_le count_of_0 eq_commute [of 0])
    ultimately show ?thesis using False by (simp add: hasActiveTorrent_def)
  qed (simp add: hasActiveTorrent_def)
  have "0 \<le> ss_ExtraSameTorrentStreams (SnapshotStreamAdmission ord r)"
    using active_card(2) [OF inv] by (simp add: SnapshotStreamAdmission_def Let_def)
  moreover have "ar_streams r = 0 \<and> ar_active r = Map.empty \<and> ar_waiters r = 0"
    if "\<forall>q \<in> set qs. rq_phase q = Released \<or> (\<exists>e. rq_phase q = Failed e)"
  proof -
    have none: "\<not> holds_stream (rq_phase q)" "queued_as (rq_phase q) = None" if "q \<in> set qs" for q
      using \<open>\<forall>q \<in> set qs. _\<close> that by (auto dest!: bspec)
    then have "holders qs = 0" "queued qs = 0" by (auto simp: holders_def queued_def count_of_0)
    moreover have "dom (ar_active r) = {}" using none by (auto simp: active_dom [OF inv])
    ultimately show ?thesis using inv by (simp add: adm_inv_def)
  qed
  ultimately show ?thesis using inv has by (simp add: adm_inv_def)
qed

definition demo_sets :: BTSets where
  "demo_sets = zero_BTSets\<lparr>MaxConcurrentStreams := 2, StreamQueueSize := 1, MaxUniquePlaybackTorrents := 1\<rparr>"

lemma demo_admission:
  "currentAdmission 4 (Some demo_sets) = \<lparr>sa_maxStreams = 2, sa_maxUniqueTorrents = 1, sa_queueSize = 1,
     sa_waitDuration = 3000000000\<rparr>"
  by (simp add: currentAdmission_def demo_sets_def zero_BTSets_def BTSets_StreamConfig_def Let_def maxInt_def
      i32_alt i64_alt)

definition demo_request :: "request_phase \<Rightarrow> request" where
  "demo_request p = (tryAcquireStream 4 (Some demo_sets) ''a'' 7 True)\<lparr>rq_phase := p\<rparr>"

lemma demo_reach:
  "adm_reach (newStreamAdmissionState\<lparr>ar_streams := 1, ar_active := [''a'' \<mapsto> \<lparr>ac_readers = 1, ac_torrentID = 7\<rparr>]\<rparr>,
     [demo_request Streaming])"
proof -
  have new: "demo_request (Attempt None) = tryAcquireStream 4 (Some demo_sets) ''a'' 7 True"
    by (simp add: demo_request_def tryAcquireStream_def)
  have "fits_i64 (sa_queueSize (currentAdmission 4 (Some demo_sets)))"
    by (simp add: demo_admission fits_i64_def)
  from arrive [OF this] have "adm_step (newStreamAdmissionState, []) (newStreamAdmissionState, [demo_request (Attempt None)])"
    unfolding new by (metis append_Nil)
  with start have one: "adm_reach (newStreamAdmissionState, [demo_request (Attempt None)])" by (rule further)
  have "request_step Tick (newStreamAdmissionState, [demo_request (Attempt None)] ! 0) =
    (newStreamAdmissionState\<lparr>ar_streams := 1, ar_active := [''a'' \<mapsto> \<lparr>ac_readers = 1, ac_torrentID = 7\<rparr>]\<rparr>,
     demo_request Streaming)"
    by (simp add: request_step_def demo_request_def tryAcquireStream_def demo_admission tryAcquire_def
        newStreamAdmissionState_def canAcquireUniqueTorrent_def active_entry_def i32_alt i64_alt Let_def)
  from move [OF _ this] one show ?thesis by (auto intro: further)
qed

theorem admission_counters_exact_witness:
  "hasActiveTorrent ''a'' (newStreamAdmissionState\<lparr>ar_streams := 1,
     ar_active := [''a'' \<mapsto> \<lparr>ac_readers = 1, ac_torrentID = 7\<rparr>]\<rparr>)"
  using admission_counters_exact [OF demo_reach] by (simp add: demo_request_def tryAcquireStream_def)

text \<open>Limits: the settings may differ from request to request, so the bounds are bounds of all of them.\<close>

definition within_limits :: "int \<Rightarrow> int \<Rightarrow> int \<Rightarrow> streamAdmissionRegistry \<Rightarrow> bool" where
  "within_limits M Q U r \<longleftrightarrow>
     ar_streams r \<le> max 0 M \<and> ar_waiters r \<le> max 0 Q \<and> (0 < U \<longrightarrow> int (card (dom (ar_active r))) \<le> U)"

definition limited_by :: "int \<Rightarrow> int \<Rightarrow> int \<Rightarrow> request \<Rightarrow> bool" where
  "limited_by M Q U q \<longleftrightarrow> sa_maxStreams (rq_admission q) \<le> M \<and> sa_queueSize (rq_admission q) \<le> Q
     \<and> (0 < U \<longrightarrow> 0 < sa_maxUniqueTorrents (rq_admission q) \<and> sa_maxUniqueTorrents (rq_admission q) \<le> U)"

lemma request_step_limits:
  assumes inv: "adm_inv r qs" and i: "i < length qs" and step: "request_step w (r, qs ! i) = (r', q')"
    and lim: "within_limits M Q U r" "limited_by M Q U (qs ! i)"
  shows "within_limits M Q U r'"
proof (cases "rq_phase (qs ! i)")
  case (Attempt qd)
  let ?q = "qs ! i"
  obtain ok ub s where got: "tryAcquire (rq_admission ?q) (rq_key ?q) (rq_torrentID ?q) r = (ok, ub, s)"
    by (metis prod_cases3)
  have r': "r' = s" using step Attempt got by (simp add: request_step_def)
  show ?thesis
  proof (cases ok)
    case False
    then have "s = r" using got by (auto simp: tryAcquire_def Let_def split: if_splits)
    then show ?thesis using lim r' by simp
  next
    case True
    have fin: "finite (dom (ar_active r))" by (rule active_card [OF inv])
    have free: "ar_streams r < sa_maxStreams (rq_admission ?q)"
      and uniq: "canAcquireUniqueTorrent (sa_maxUniqueTorrents (rq_admission ?q)) (rq_key ?q) r"
      using got True by (auto simp: tryAcquire_def Let_def split: if_splits)
    have s: "ar_streams s = i32 (ar_streams r + 1)" "ar_waiters s = ar_waiters r"
      using got True by (auto simp: tryAcquire_def Let_def split: if_splits)
    have dom: "dom (ar_active s) = (if rq_key ?q = [] then dom (ar_active r) else insert (rq_key ?q) (dom (ar_active r)))"
      using got True by (auto simp: tryAcquire_def Let_def split: if_splits)
    have "0 \<le> ar_streams r" "ar_streams r \<le> 2147483647" "sa_maxStreams (rq_admission ?q) \<le> 2147483647"
      using inv i by (auto simp: adm_inv_def holders_def)
    then have "ar_streams s \<le> max 0 M" using s free lim(2) by (simp add: i32_id limited_by_def)
    moreover have "int (card (dom (ar_active s))) \<le> U" if U: "0 < U"
    proof (cases "rq_key ?q = [] \<or> rq_key ?q \<in> dom (ar_active r)")
      case True
      then have "dom (ar_active s) = dom (ar_active r)" using dom by (metis insert_absorb)
      then show ?thesis using lim(1) U by (simp add: within_limits_def)
    next
      case False
      then have "int (card (dom (ar_active r))) < sa_maxUniqueTorrents (rq_admission ?q)"
        using uniq lim(2) U by (auto simp: canAcquireUniqueTorrent_def active_entry_def limited_by_def domIff split: if_splits)
      then show ?thesis using False dom fin lim(2) U by (simp add: limited_by_def)
    qed
    ultimately show ?thesis using r' s lim(1) by (simp add: within_limits_def)
  qed
next
  case (Blocked ub)
  let ?q = "qs ! i"
  obtain ok s where got: "tryAcquireQueueSlot (sa_queueSize (rq_admission ?q)) ub (rq_debug ?q) r = (ok, s)"
    by fastforce
  have "sa_queueSize (rq_admission ?q) \<le> 9223372036854775807" "0 \<le> ar_waiters r"
    using inv i by (auto simp: adm_inv_def queued_def)
  then have "ar_waiters s \<le> max 0 Q" "ar_streams s = ar_streams r" "ar_active s = ar_active r"
    using got lim by (auto simp: tryAcquireQueueSlot_def Let_def within_limits_def limited_by_def i64_id fits_i64_def
        split: if_splits)
  then show ?thesis using step Blocked got lim(1)
    by (auto simp: request_step_def within_limits_def recordOverloadRejection_def split: if_splits)
next
  case Streaming
  let ?q = "qs ! i"
  have "0 < ar_streams r" using inv i Streaming by (auto simp: adm_inv_def holders_def intro: count_of_pos [of i])
  moreover have "ar_streams r \<le> 2147483647" using inv by (simp add: adm_inv_def)
  ultimately have "ar_streams (release_stream (rq_key ?q) r) \<le> ar_streams r"
    by (simp add: release_stream_def Let_def i32_id)
  moreover have "dom (ar_active (release_stream (rq_key ?q) r)) \<subseteq> dom (ar_active r)"
  proof (cases "ar_active r (rq_key ?q)")
    case None
    then show ?thesis by (auto simp: release_stream_def Let_def active_entry_def)
  qed (auto simp: release_stream_def Let_def split: if_splits)
  then have "card (dom (ar_active (release_stream (rq_key ?q) r))) \<le> card (dom (ar_active r))"
    using active_card(1) [OF inv] by (intro card_mono)
  moreover have "ar_waiters (release_stream (rq_key ?q) r) = ar_waiters r"
    by (simp add: release_stream_def Let_def)
  ultimately show ?thesis using step Streaming lim(1) by (auto simp: request_step_def within_limits_def)
qed (use step lim(1) in \<open>auto simp: request_step_def within_limits_def releaseQueueSlot_def recordAdmissionTimeout_def
  Let_def split: wake.splits if_splits\<close>)

lemma request_step_admission: "request_step w (r, q) = (r', q') \<Longrightarrow> rq_admission q' = rq_admission q"
  by (auto simp: request_step_def Let_def split: request_phase.splits wake.splits prod.splits if_splits)

lemma reach_limits:
  "adm_reach s \<Longrightarrow> \<forall>q \<in> set (snd s). limited_by M Q U q \<Longrightarrow> within_limits M Q U (fst s)"
proof (induction rule: adm_reach.induct)
  case start
  show ?case by (simp add: within_limits_def newStreamAdmissionState_def)
next
  case (further s s')
  have inv: "adm_inv (fst s) (snd s)" by (rule reach_inv [OF further.hyps(1)])
  from further.hyps(2) show ?case
  proof cases
    case (arrive cpus sets r qs key tid d)
    then show ?thesis using further by simp
  next
    case (move i qs w r r' q')
    have "\<forall>q \<in> set qs. limited_by M Q U q"
    proof
      fix q
      assume "q \<in> set qs"
      then obtain j where j: "j < length qs" "q = qs ! j" by (auto simp: in_set_conv_nth)
      then have "qs[i := q'] ! j \<in> set (qs[i := q'])" by simp
      then have "limited_by M Q U (qs[i := q'] ! j)" using further.prems move(2) by simp
      moreover have "rq_admission (qs[i := q'] ! j) = rq_admission q"
        using j(1) move(3) request_step_admission [OF move(4)] unfolding j(2) by (cases "j = i") simp_all
      ultimately show "limited_by M Q U q" by (simp add: limited_by_def)
    qed
    moreover from this have "within_limits M Q U r" using further.IH move(1) by simp
    ultimately have "within_limits M Q U r'"
      using request_step_limits [OF _ move(3,4)] inv move(1,3) by simp
    then show ?thesis using move(2) by simp
  qed
qed

text \<open>
  Property C22. The limits hold at every moment: if no request's settings allow more than M streams, a
  queue of more than Q requests or more than U torrents, then, however the requests interleave,
  there are never more than M active streams, Q waiting requests and U torrents that are played.
\<close>

theorem admission_limits:
  assumes "adm_reach (r, qs)" "0 \<le> M" "0 \<le> Q"
    "\<forall>q \<in> set qs. sa_maxStreams (rq_admission q) \<le> M \<and> sa_queueSize (rq_admission q) \<le> Q
       \<and> (0 < U \<longrightarrow> 0 < sa_maxUniqueTorrents (rq_admission q) \<and> sa_maxUniqueTorrents (rq_admission q) \<le> U)"
  shows "ar_streams r \<le> M \<and> ar_waiters r \<le> Q \<and> (0 < U \<longrightarrow> int (card (dom (ar_active r))) \<le> U)"
  using reach_limits [OF assms(1), of M Q U] assms(2-4) by (simp add: limited_by_def within_limits_def)

theorem admission_limits_witness:
  "int (card (dom [''a'' \<mapsto> \<lparr>ac_readers = 1, ac_torrentID = (7::int)\<rparr>])) \<le> 1"
  using admission_limits [OF demo_reach, of 2 1 1] by (simp add: demo_request_def tryAcquireStream_def demo_admission)

section \<open>A request is decided\<close>

text \<open>The own steps of one request; in between the others change the registry at will.\<close>

definition run_request ::
  "((streamAdmissionRegistry \<Rightarrow> streamAdmissionRegistry) \<times> wake) list \<Rightarrow>
   streamAdmissionRegistry \<times> request \<Rightarrow> streamAdmissionRegistry \<times> request" where
  "run_request = fold (\<lambda>(env, w) rq. request_step w (env (fst rq), snd rq))"

definition rank :: "request_phase \<Rightarrow> nat" where
  "rank p = (case p of Attempt None \<Rightarrow> 3 | Blocked _ \<Rightarrow> 2 | Attempt (Some _) \<Rightarrow> 2 | Parked _ \<Rightarrow> 1 | Granted _ \<Rightarrow> 1 | _ \<Rightarrow> 0)"

lemma rank_0: "rank p = 0 \<longleftrightarrow> settled p"
  by (auto simp: rank_def settled_def split: request_phase.splits option.splits)

lemma rank_step:
  assumes "w \<noteq> Tick" "\<not> settled (rq_phase (snd rq))"
  shows "rank (rq_phase (snd (request_step w rq))) < rank (rq_phase (snd rq))"
  using assms
  by (auto simp: request_step_def rank_def settled_def Let_def split_beta
      split: request_phase.splits wake.splits option.splits)

lemma decided_from:
  "\<forall>e \<in> set es. snd e \<noteq> Tick \<Longrightarrow> rank (rq_phase (snd rq)) \<le> length es \<Longrightarrow>
   \<exists>k \<le> rank (rq_phase (snd rq)). settled (rq_phase (snd (run_request (take k es) rq)))"
proof (induction es arbitrary: rq)
  case Nil
  then have "settled (rq_phase (snd rq))" by (simp add: rank_0 [symmetric])
  then show ?case by (intro exI [of _ 0]) (simp add: run_request_def)
next
  case (Cons e es)
  show ?case
  proof (cases "settled (rq_phase (snd rq))")
    case True
    then show ?thesis by (intro exI [of _ 0]) (simp add: run_request_def)
  next
    case False
    let ?rq = "request_step (snd e) (fst e (fst rq), snd rq)"
    have less: "rank (rq_phase (snd ?rq)) < rank (rq_phase (snd rq))"
      using rank_step [of "snd e" "(fst e (fst rq), snd rq)"] Cons.prems(1) False by simp
    then obtain k where k: "k \<le> rank (rq_phase (snd ?rq))" "settled (rq_phase (snd (run_request (take k es) ?rq)))"
      using Cons.IH [of ?rq] Cons.prems by auto
    then show ?thesis using less by (intro exI [of _ "Suc k"]) (simp add: run_request_def split_beta)
  qed
qed

lemma rank_le: "rank p \<le> 3"
  by (simp add: rank_def split: request_phase.split option.split)

lemma run_request_append: "run_request (es @ fs) rq = run_request fs (run_request es rq)"
  by (simp add: run_request_def)

text \<open>
  Property C23. No request waits for ever: whatever the other requests do to the registry between its
  steps, once the timer has fired or the context has ended, so that the select no longer takes the ticker, the call
  is decided within three more steps: it has a stream, or it failed.
\<close>

theorem request_is_decided:
  assumes "\<forall>e \<in> set (drop m es). snd e \<noteq> Tick" "m + 3 \<le> length es"
  shows "\<exists>k \<le> m + 3. settled (rq_phase (snd (run_request (take k es) (r, tryAcquireStream cpus sets key tid d))))"
proof -
  let ?rq = "run_request (take m es) (r, tryAcquireStream cpus sets key tid d)"
  have "rank (rq_phase (snd ?rq)) \<le> length (drop m es)"
    using rank_le [of "rq_phase (snd ?rq)"] assms(2) by simp
  then obtain k where k: "k \<le> rank (rq_phase (snd ?rq))" "settled (rq_phase (snd (run_request (take k (drop m es)) ?rq)))"
    using decided_from [OF assms(1)] by blast
  then have "settled (rq_phase (snd (run_request (take (m + k) es) (r, tryAcquireStream cpus sets key tid d))))"
    by (simp add: take_add run_request_append)
  then show ?thesis using k(1) rank_le [of "rq_phase (snd ?rq)"] by (intro exI [of _ "m + k"]) auto
qed

theorem request_is_decided_witness:
  "\<exists>k \<le> 3. settled (rq_phase (snd (run_request (take k (replicate 3 (\<lambda>r. r\<lparr>ar_streams := 9\<rparr>, TimerFired)))
     (newStreamAdmissionState, tryAcquireStream 4 None ''a'' 7 True))))"
  using request_is_decided [of 0 "replicate 3 (\<lambda>r. r\<lparr>ar_streams := 9\<rparr>, TimerFired)"] by simp

end
