(* ===== verification/Stream_Delivery.thy ===== *)
theory Stream_Delivery
  imports Lifecycle Go_Strings
begin

text \<open>
  The instruments of a stream: the process-wide health counters (torr/stream_health.go), the
  delivery record of each stream (torr/stream_delivery.go) and the timeline of its start
  (torr/stream_startup.go).

  The delivery records are a list, in the order of their identifiers from 1 on; they outlive their registration,
  because the fairness flows point to them. \<open>now\<close> is the clock in nanoseconds.
\<close>

section \<open>Health\<close>

record streamHealthCounters =
  sh_requestsTotal :: int
  sh_slowFirstByteTotal :: int
  sh_zeroByteResponsesTotal :: int
  sh_clientDisconnectsTotal :: int
  sh_stallsTotal :: int
  sh_bytesWrittenTotal :: int
  sh_readWaitsTotal :: int
  sh_readWaitTotalMS :: int
  sh_maxReadWaitMS :: int
  sh_readWaitsOver3sTotal :: int
  sh_readWaitsOver10sTotal :: int
  sh_firstByteBuckets :: "int list"
  sh_readWaitBuckets :: "int list"

definition zero_health :: streamHealthCounters where
  "zero_health = \<lparr>sh_requestsTotal = 0, sh_slowFirstByteTotal = 0, sh_zeroByteResponsesTotal = 0,
     sh_clientDisconnectsTotal = 0, sh_stallsTotal = 0, sh_bytesWrittenTotal = 0, sh_readWaitsTotal = 0,
     sh_readWaitTotalMS = 0, sh_maxReadWaitMS = 0, sh_readWaitsOver3sTotal = 0, sh_readWaitsOver10sTotal = 0,
     sh_firstByteBuckets = replicate 6 0, sh_readWaitBuckets = replicate 6 0\<rparr>"

definition updateMaxAtomic :: "int \<Rightarrow> int \<Rightarrow> int" where
  "updateMaxAtomic current candidate = (if candidate \<le> current then current else candidate)"

definition durationBucketIndex :: "int \<Rightarrow> nat" where
  "durationBucketIndex d =
     (if d \<le> 100 * 1000000 then 0 else if d \<le> 500 * 1000000 then 1 else if d \<le> 1000000000 then 2
      else if d \<le> 3 * 1000000000 then 3 else if d \<le> 10 * 1000000000 then 4 else 5)"

definition recordDurationBucket :: "int \<Rightarrow> int list \<Rightarrow> int list" where
  "recordDurationBucket d buckets =
     (let i = durationBucketIndex d in buckets[i := i64 (buckets ! i + 1)])"

definition snapshotBuckets :: "int list \<Rightarrow> (string \<times> int) list" where
  "snapshotBuckets b = [(''le_100'', b ! 0), (''le_500'', b ! 1), (''le_1000'', b ! 2), (''le_3000'', b ! 3),
     (''le_10000'', b ! 4), (''gt_10000'', b ! 5)]"

text \<open>
  An error, as far as it is looked at: whether \<open>errors.Is\<close> finds one of the five sentinels of a closed
  connection in its chain, and its message.
\<close>

record go_error =
  ge_closed :: bool
  ge_message :: string

definition isClientDisconnect :: "go_error option \<Rightarrow> bool" where
  "isClientDisconnect err =
     (case err of
        None \<Rightarrow> False
      | Some e \<Rightarrow>
          ge_closed e \<or>
          (let msg = to_lower (ge_message e)
           in str_contains msg ''broken pipe'' \<or> str_contains msg ''connection reset by peer'' \<or>
              str_contains msg ''use of closed network connection'' \<or> str_contains msg ''client disconnected''))"

definition recordStreamCompleted :: "int \<Rightarrow> int \<Rightarrow> go_error option \<Rightarrow> streamHealthCounters \<Rightarrow> streamHealthCounters" where
  "recordStreamCompleted firstByte bytesWritten err h =
     (let h = h\<lparr>sh_requestsTotal := i64 (sh_requestsTotal h + 1)\<rparr>;
          h = (if bytesWritten = 0 then h\<lparr>sh_zeroByteResponsesTotal := i64 (sh_zeroByteResponsesTotal h + 1)\<rparr> else h);
          h = (if firstByte > 0
               then let h = h\<lparr>sh_firstByteBuckets := recordDurationBucket firstByte (sh_firstByteBuckets h)\<rparr>
                    in if firstByte \<ge> 2 * 1000000000
                       then h\<lparr>sh_slowFirstByteTotal := i64 (sh_slowFirstByteTotal h + 1),
                              sh_stallsTotal := i64 (sh_stallsTotal h + 1)\<rparr>
                       else h
               else h)
      in if isClientDisconnect err
         then h\<lparr>sh_clientDisconnectsTotal := i64 (sh_clientDisconnectsTotal h + 1)\<rparr> else h)"

definition recordStreamBytesWritten :: "int \<Rightarrow> streamHealthCounters \<Rightarrow> streamHealthCounters" where
  "recordStreamBytesWritten bytes h =
     (if bytes \<le> 0 then h else h\<lparr>sh_bytesWrittenTotal := i64 (sh_bytesWrittenTotal h + bytes)\<rparr>)"

definition streamReadWaitThreshold :: int where
  "streamReadWaitThreshold = 500 * 1000000"

definition recordStreamReadWait :: "int \<Rightarrow> streamHealthCounters \<Rightarrow> streamHealthCounters" where
  "recordStreamReadWait wait h =
     (if wait < streamReadWaitThreshold then h
      else let waitMS = milliseconds wait;
               h = h\<lparr>sh_stallsTotal := i64 (sh_stallsTotal h + 1), sh_readWaitsTotal := i64 (sh_readWaitsTotal h + 1),
                     sh_readWaitTotalMS := i64 (sh_readWaitTotalMS h + waitMS),
                     sh_maxReadWaitMS := updateMaxAtomic (sh_maxReadWaitMS h) waitMS\<rparr>;
               h = (if wait > 3 * 1000000000
                    then h\<lparr>sh_readWaitsOver3sTotal := i64 (sh_readWaitsOver3sTotal h + 1)\<rparr> else h);
               h = (if wait > 10 * 1000000000
                    then h\<lparr>sh_readWaitsOver10sTotal := i64 (sh_readWaitsOver10sTotal h + 1)\<rparr> else h)
           in h\<lparr>sh_readWaitBuckets := recordDurationBucket wait (sh_readWaitBuckets h)\<rparr>)"

record streamHealthSnapshot =
  hs_RequestsTotal :: int
  hs_SlowFirstByteTotal :: int
  hs_ZeroByteResponsesTotal :: int
  hs_ClientDisconnectsTotal :: int
  hs_StallsTotal :: int
  hs_BytesWrittenTotal :: int
  hs_ReadWaitsTotal :: int
  hs_ReadWaitTotalMS :: int
  hs_MaxReadWaitMS :: int
  hs_ReadWaitsOver3sTotal :: int
  hs_ReadWaitsOver10sTotal :: int
  hs_FirstByteMSBuckets :: "(string \<times> int) list"
  hs_ReadWaitMSBuckets :: "(string \<times> int) list"

definition SnapshotStreamHealth :: "streamHealthCounters \<Rightarrow> streamHealthSnapshot" where
  "SnapshotStreamHealth h = \<lparr>hs_RequestsTotal = sh_requestsTotal h, hs_SlowFirstByteTotal = sh_slowFirstByteTotal h,
     hs_ZeroByteResponsesTotal = sh_zeroByteResponsesTotal h,
     hs_ClientDisconnectsTotal = sh_clientDisconnectsTotal h, hs_StallsTotal = sh_stallsTotal h,
     hs_BytesWrittenTotal = sh_bytesWrittenTotal h, hs_ReadWaitsTotal = sh_readWaitsTotal h,
     hs_ReadWaitTotalMS = sh_readWaitTotalMS h, hs_MaxReadWaitMS = sh_maxReadWaitMS h,
     hs_ReadWaitsOver3sTotal = sh_readWaitsOver3sTotal h, hs_ReadWaitsOver10sTotal = sh_readWaitsOver10sTotal h,
     hs_FirstByteMSBuckets = snapshotBuckets (sh_firstByteBuckets h),
     hs_ReadWaitMSBuckets = snapshotBuckets (sh_readWaitBuckets h)\<rparr>"

section \<open>The start of a stream\<close>

record streamStartupCacheSnapshot =
  sc_CacheCapacityBytes :: int
  sc_CacheFilledBytes :: int
  sc_ResidentPieces :: int
  sc_ReaderOffset :: int
  sc_ReaderReadahead :: int

definition zero_startup_cache :: streamStartupCacheSnapshot where
  "zero_startup_cache = \<lparr>sc_CacheCapacityBytes = 0, sc_CacheFilledBytes = 0, sc_ResidentPieces = 0,
     sc_ReaderOffset = 0, sc_ReaderReadahead = 0\<rparr>"

definition streamStartupStateProviderFor :: "cache option \<Rightarrow> reader \<Rightarrow> streamStartupCacheSnapshot" where
  "streamStartupStateProviderFor c r =
     \<lparr>sc_CacheCapacityBytes = GetCapacity c, sc_CacheFilledBytes = Filled c,
      sc_ResidentPieces = ResidentPieceCount c, sc_ReaderOffset = rd_offset r, sc_ReaderReadahead = rd_readahead r\<rparr>"

record streamStartupReadWaitSnapshot =
  rw_ElapsedMS :: int
  rw_WaitMS :: int
  rw_Offset :: int
  rw_RequestedBytes :: int
  rw_State :: streamStartupCacheSnapshot

record streamStartupSnapshot =
  su_WarmupEligible :: bool
  su_SkipReason :: string
  su_TargetBytes :: int
  su_ReadBytes :: int
  su_ElapsedMS :: int
  su_CompletedMS :: int
  su_Outcome :: string
  su_OffsetRestored :: bool
  su_AtStart :: streamStartupCacheSnapshot
  su_AtCompletion :: streamStartupCacheSnapshot
  su_FirstReadWait :: "streamStartupReadWaitSnapshot option"

text \<open>
  The state provider is nil without debugging; \<open>stl_provided\<close> tells whether there is one, and
  the operations take what it returns as the argument \<open>st\<close>.
\<close>

record streamStartupTimeline =
  stl_startedUnixNano :: int
  stl_provided :: bool
  stl_snapshot :: streamStartupSnapshot
  stl_warmupFinished :: bool

definition newStreamStartupTimeline :: "int \<Rightarrow> bool \<Rightarrow> streamStartupTimeline" where
  "newStreamStartupTimeline started provided =
     \<lparr>stl_startedUnixNano = started, stl_provided = provided,
      stl_snapshot = \<lparr>su_WarmupEligible = False, su_SkipReason = [], su_TargetBytes = 0, su_ReadBytes = 0,
        su_ElapsedMS = 0, su_CompletedMS = -1, su_Outcome = ''pending'', su_OffsetRestored = False,
        su_AtStart = zero_startup_cache, su_AtCompletion = zero_startup_cache, su_FirstReadWait = None\<rparr>,
      stl_warmupFinished = False\<rparr>"

definition captureState :: "streamStartupCacheSnapshot \<Rightarrow> streamStartupTimeline \<Rightarrow> streamStartupCacheSnapshot" where
  "captureState st s = (if stl_provided s then st else zero_startup_cache)"

definition recordSkipped :: "streamStartupCacheSnapshot \<Rightarrow> string \<Rightarrow> int \<Rightarrow> streamStartupTimeline \<Rightarrow> streamStartupTimeline" where
  "recordSkipped st reason targetBytes s =
     s\<lparr>stl_snapshot := (stl_snapshot s)\<lparr>su_WarmupEligible := False, su_SkipReason := reason,
         su_TargetBytes := targetBytes, su_Outcome := ''skipped'', su_CompletedMS := 0,
         su_AtCompletion := captureState st s\<rparr>,
       stl_warmupFinished := True\<rparr>"

definition recordWarmupStarted :: "streamStartupCacheSnapshot \<Rightarrow> int \<Rightarrow> streamStartupTimeline \<Rightarrow> streamStartupTimeline" where
  "recordWarmupStarted st targetBytes s =
     s\<lparr>stl_snapshot := (stl_snapshot s)\<lparr>su_WarmupEligible := True, su_TargetBytes := targetBytes,
         su_AtStart := captureState st s, su_Outcome := ''running''\<rparr>\<rparr>"

record playbackStartupWarmupResult =
  wr_readBytes :: int
  wr_elapsed :: int
  wr_outcome :: string
  wr_offsetRestored :: bool

definition recordWarmupCompleted ::
  "int \<Rightarrow> streamStartupCacheSnapshot \<Rightarrow> playbackStartupWarmupResult \<Rightarrow> streamStartupTimeline \<Rightarrow> streamStartupTimeline" where
  "recordWarmupCompleted now st result s =
     s\<lparr>stl_snapshot := (stl_snapshot s)\<lparr>su_ReadBytes := wr_readBytes result,
         su_ElapsedMS := milliseconds (wr_elapsed result),
         su_CompletedMS := milliseconds (time_sub now (stl_startedUnixNano s)),
         su_Outcome := wr_outcome result, su_OffsetRestored := wr_offsetRestored result,
         su_AtCompletion := captureState st s\<rparr>,
       stl_warmupFinished := True\<rparr>"

definition recordFirstReadWait ::
  "int \<Rightarrow> streamStartupCacheSnapshot \<Rightarrow> int \<Rightarrow> int \<Rightarrow> int \<Rightarrow> streamStartupTimeline \<Rightarrow> streamStartupTimeline" where
  "recordFirstReadWait now st wait offset requestedBytes s =
     (if \<not> (stl_warmupFinished s \<and> su_FirstReadWait (stl_snapshot s) = None) then s
      else s\<lparr>stl_snapshot := (stl_snapshot s)\<lparr>su_FirstReadWait := Some
          \<lparr>rw_ElapsedMS = milliseconds (time_sub now (stl_startedUnixNano s)), rw_WaitMS = milliseconds wait,
           rw_Offset = offset, rw_RequestedBytes = requestedBytes, rw_State = captureState st s\<rparr>\<rparr>\<rparr>)"

section \<open>Delivery\<close>

text \<open>
  \<open>bytesPerSecond\<close> divides floats. Its result is the truncated quotient of the rounded numbers.
\<close>

definition bytesPerSecond :: "int \<Rightarrow> int \<Rightarrow> int" where
  "bytesPerSecond bytesWritten elapsed =
     (if elapsed \<le> 0 then 0
      else int64_of_float (float64 (float64 (of_int bytesWritten) / duration_seconds elapsed)))"

definition updateMinPositiveAtomic :: "int \<Rightarrow> int \<Rightarrow> int" where
  "updateMinPositiveAtomic current v = (if v \<le> 0 then current else if current > 0 \<and> current \<le> v then current else v)"

definition maxInt64 :: "int \<Rightarrow> int \<Rightarrow> int" where
  "maxInt64 left right = (if left > right then left else right)"

record streamDelivery =
  sd_id :: int
  sd_torrentID :: int
  sd_startedUnixNano :: int
  sd_initialOffset :: int
  sd_fileSize :: int
  sd_requestedRange :: bool
  sd_mediaDuration :: int
  sd_firstWriteUnixNano :: int
  sd_lastWriteUnixNano :: int
  sd_lastWriteGapMS :: int
  sd_maxWriteGapMS :: int
  sd_bytesWritten :: int
  sd_writeCalls :: int
  sd_slowWritesTotal :: int
  sd_writesOver3sTotal :: int
  sd_writesOver10sTotal :: int
  sd_writeGapsOver250MS :: int
  sd_writeGapsOver500MS :: int
  sd_writeGapsOver1000MS :: int
  sd_maxWriteMS :: int
  sd_lastSlowWriteMS :: int
  sd_lastSlowWriteNano :: int
  sd_lastSlowWriteOffset :: int
  sd_lastSlowWriteSize :: int
  sd_readWaitsTotal :: int
  sd_readWaitTotalMS :: int
  sd_readWaitsOver3s :: int
  sd_readWaitsOver10s :: int
  sd_maxReadWaitMS :: int
  sd_lastReadWaitMS :: int
  sd_lastReadWaitNano :: int
  sd_lastReadOffset :: int
  sd_lastReadSize :: int
  sd_readWaitBuckets :: "int list"
  sd_windowStartUnixNano :: int
  sd_windowBytes :: int
  sd_windowLastBytesPerSec :: int
  sd_windowMinBytesPerSec :: int
  sd_startup :: streamStartupTimeline

record streamDeliveryMetadata =
  md_initialOffset :: int
  md_fileSize :: int
  md_requestedRange :: bool
  md_mediaDuration :: int
  md_startupState :: bool

text \<open>\<open>dr_all\<close> holds every record made so far; \<open>dr_active\<close> are the positions of the registered ones.\<close>

record streamDeliveryRegistry =
  dr_all :: "streamDelivery list"
  dr_active :: "nat set"
  dr_bytesWrittenTotal :: int
  dr_writeCallsTotal :: int
  dr_slowWritesTotal :: int
  dr_writesOver3sTotal :: int
  dr_writesOver10sTotal :: int
  dr_maxWriteMS :: int

definition empty_deliveries :: streamDeliveryRegistry where
  "empty_deliveries = \<lparr>dr_all = [], dr_active = {}, dr_bytesWrittenTotal = 0, dr_writeCallsTotal = 0,
     dr_slowWritesTotal = 0, dr_writesOver3sTotal = 0, dr_writesOver10sTotal = 0, dr_maxWriteMS = 0\<rparr>"

definition new_delivery :: "int \<Rightarrow> int \<Rightarrow> int \<Rightarrow> streamDeliveryMetadata \<Rightarrow> streamDelivery" where
  "new_delivery newID started torrentID metadata =
     \<lparr>sd_id = newID, sd_torrentID = torrentID, sd_startedUnixNano = started,
      sd_initialOffset = maxInt64 (md_initialOffset metadata) 0, sd_fileSize = maxInt64 (md_fileSize metadata) 0,
      sd_requestedRange = md_requestedRange metadata, sd_mediaDuration = md_mediaDuration metadata,
      sd_firstWriteUnixNano = 0, sd_lastWriteUnixNano = 0, sd_lastWriteGapMS = 0, sd_maxWriteGapMS = 0,
      sd_bytesWritten = 0, sd_writeCalls = 0, sd_slowWritesTotal = 0, sd_writesOver3sTotal = 0,
      sd_writesOver10sTotal = 0, sd_writeGapsOver250MS = 0, sd_writeGapsOver500MS = 0,
      sd_writeGapsOver1000MS = 0, sd_maxWriteMS = 0, sd_lastSlowWriteMS = 0, sd_lastSlowWriteNano = 0,
      sd_lastSlowWriteOffset = 0, sd_lastSlowWriteSize = 0, sd_readWaitsTotal = 0, sd_readWaitTotalMS = 0,
      sd_readWaitsOver3s = 0, sd_readWaitsOver10s = 0, sd_maxReadWaitMS = 0, sd_lastReadWaitMS = 0,
      sd_lastReadWaitNano = 0, sd_lastReadOffset = 0, sd_lastReadSize = 0, sd_readWaitBuckets = replicate 6 0,
      sd_windowStartUnixNano = 0, sd_windowBytes = 0, sd_windowLastBytesPerSec = 0, sd_windowMinBytesPerSec = 0,
      sd_startup = newStreamStartupTimeline started (md_startupState metadata)\<rparr>"

definition registerStreamDeliveryWithMetadata ::
  "int \<Rightarrow> int \<Rightarrow> streamDeliveryMetadata \<Rightarrow> streamDeliveryRegistry \<Rightarrow> nat \<times> streamDeliveryRegistry" where
  "registerStreamDeliveryWithMetadata started torrentID metadata r =
     (let i = length (dr_all r); d = new_delivery (u64 (int i + 1)) started torrentID metadata
      in (i, r\<lparr>dr_all := dr_all r @ [d], dr_active := insert i (dr_active r)\<rparr>))"

definition releaseStreamDelivery :: "nat \<Rightarrow> streamDeliveryRegistry \<Rightarrow> streamDeliveryRegistry" where
  "releaseStreamDelivery i r = r\<lparr>dr_active := dr_active r - {i}\<rparr>"

definition delivery_currentOffset :: "int \<Rightarrow> streamDelivery \<Rightarrow> int" where
  "delivery_currentOffset bytesWritten d =
     (let current = i64 (sd_initialOffset d + maxInt64 bytesWritten 0)
      in if sd_fileSize d > 0 \<and> current > sd_fileSize d then sd_fileSize d else current)"

definition recordWriteGap :: "int \<Rightarrow> streamDelivery \<Rightarrow> streamDelivery" where
  "recordWriteGap now d =
     (let prev = sd_lastWriteUnixNano d; d = d\<lparr>sd_lastWriteUnixNano := now\<rparr>
      in if prev = 0 then d
         else let gap = i64 (now - prev)
              in if gap < 250 * 1000000 then d
                 else let gapMS = milliseconds gap;
                          d = d\<lparr>sd_lastWriteGapMS := gapMS,
                                sd_maxWriteGapMS := updateMaxAtomic (sd_maxWriteGapMS d) gapMS,
                                sd_writeGapsOver250MS := i64 (sd_writeGapsOver250MS d + 1)\<rparr>;
                          d = (if gap \<ge> 500 * 1000000
                               then d\<lparr>sd_writeGapsOver500MS := i64 (sd_writeGapsOver500MS d + 1)\<rparr> else d)
                      in if gap \<ge> 1000000000
                         then d\<lparr>sd_writeGapsOver1000MS := i64 (sd_writeGapsOver1000MS d + 1)\<rparr> else d)"

definition recordDeliveryWindow :: "int \<Rightarrow> int \<Rightarrow> streamDelivery \<Rightarrow> streamDelivery" where
  "recordDeliveryWindow now bytesWritten d =
     (if bytesWritten \<le> 0 then d
      else if sd_windowStartUnixNano d = 0
      then d\<lparr>sd_windowStartUnixNano := now, sd_windowBytes := bytesWritten\<rparr>
      else let d = d\<lparr>sd_windowBytes := i64 (sd_windowBytes d + bytesWritten)\<rparr>;
               elapsed = i64 (now - sd_windowStartUnixNano d)
           in if elapsed < 5 * 1000000000 then d
              else let bps = bytesPerSecond (sd_windowBytes d) elapsed
                   in d\<lparr>sd_windowLastBytesPerSec := bps,
                        sd_windowMinBytesPerSec := updateMinPositiveAtomic (sd_windowMinBytesPerSec d) bps,
                        sd_windowStartUnixNano := now, sd_windowBytes := 0\<rparr>)"

text \<open>What \<open>recordWrite\<close> does to the record of the stream, and then to the totals.\<close>

definition delivery_write :: "int \<Rightarrow> int \<Rightarrow> int \<Rightarrow> streamDelivery \<Rightarrow> streamDelivery" where
  "delivery_write now bytesWritten elapsed d =
     (let d = (if sd_firstWriteUnixNano d = 0 then d\<lparr>sd_firstWriteUnixNano := now\<rparr> else d);
          d = recordWriteGap now d;
          d = recordDeliveryWindow now bytesWritten d;
          d = d\<lparr>sd_writeCalls := i64 (sd_writeCalls d + 1)\<rparr>;
          totalWritten = i64 (sd_bytesWritten d + bytesWritten);
          d = d\<lparr>sd_bytesWritten := totalWritten\<rparr>;
          elapsedMS = milliseconds elapsed;
          d = d\<lparr>sd_maxWriteMS := updateMaxAtomic (sd_maxWriteMS d) elapsedMS\<rparr>;
          d = (if elapsed \<ge> 500 * 1000000
               then d\<lparr>sd_slowWritesTotal := i64 (sd_slowWritesTotal d + 1), sd_lastSlowWriteMS := elapsedMS,
                      sd_lastSlowWriteNano := now, sd_lastSlowWriteSize := bytesWritten,
                      sd_lastSlowWriteOffset := delivery_currentOffset (i64 (totalWritten - bytesWritten)) d\<rparr>
               else d);
          d = (if elapsed > 3 * 1000000000
               then d\<lparr>sd_writesOver3sTotal := i64 (sd_writesOver3sTotal d + 1)\<rparr> else d)
      in if elapsed > 10 * 1000000000
         then d\<lparr>sd_writesOver10sTotal := i64 (sd_writesOver10sTotal d + 1)\<rparr> else d)"

definition total_write :: "int \<Rightarrow> int \<Rightarrow> streamDeliveryRegistry \<Rightarrow> streamDeliveryRegistry" where
  "total_write bytesWritten elapsed r =
     r\<lparr>dr_writeCallsTotal := i64 (dr_writeCallsTotal r + 1),
       dr_bytesWrittenTotal := i64 (dr_bytesWrittenTotal r + bytesWritten),
       dr_maxWriteMS := updateMaxAtomic (dr_maxWriteMS r) (milliseconds elapsed),
       dr_slowWritesTotal := (if elapsed \<ge> 500 * 1000000 then i64 (dr_slowWritesTotal r + 1) else dr_slowWritesTotal r),
       dr_writesOver3sTotal := (if elapsed > 3 * 1000000000 then i64 (dr_writesOver3sTotal r + 1) else dr_writesOver3sTotal r),
       dr_writesOver10sTotal := (if elapsed > 10 * 1000000000 then i64 (dr_writesOver10sTotal r + 1) else dr_writesOver10sTotal r)\<rparr>"

definition delivery_recordWrite :: "int \<Rightarrow> nat \<Rightarrow> int \<Rightarrow> int \<Rightarrow> streamDeliveryRegistry \<Rightarrow> streamDeliveryRegistry" where
  "delivery_recordWrite now i bytesWritten elapsed r =
     (let r = r\<lparr>dr_all := (dr_all r)[i := delivery_write now bytesWritten elapsed (dr_all r ! i)]\<rparr>
      in total_write bytesWritten elapsed r)"

text \<open>\<open>st\<close> is what the state provider of the timeline returns.\<close>

definition delivery_recordReadWait ::
  "int \<Rightarrow> streamStartupCacheSnapshot \<Rightarrow> int \<Rightarrow> int \<Rightarrow> int \<Rightarrow> streamDelivery \<Rightarrow> streamDelivery" where
  "delivery_recordReadWait now st wait offset requestedBytes d =
     (if wait < streamReadWaitThreshold then d
      else let waitMS = milliseconds wait;
               d = d\<lparr>sd_readWaitsTotal := i64 (sd_readWaitsTotal d + 1),
                     sd_readWaitTotalMS := i64 (sd_readWaitTotalMS d + waitMS),
                     sd_maxReadWaitMS := updateMaxAtomic (sd_maxReadWaitMS d) waitMS,
                     sd_lastReadWaitMS := waitMS, sd_lastReadWaitNano := now\<rparr>;
               d = (if offset \<ge> 0 then d\<lparr>sd_lastReadOffset := offset\<rparr> else d);
               d = (if requestedBytes > 0 then d\<lparr>sd_lastReadSize := requestedBytes\<rparr> else d);
               d = (if wait > 3 * 1000000000 then d\<lparr>sd_readWaitsOver3s := i64 (sd_readWaitsOver3s d + 1)\<rparr> else d);
               d = (if wait > 10 * 1000000000 then d\<lparr>sd_readWaitsOver10s := i64 (sd_readWaitsOver10s d + 1)\<rparr> else d);
               d = d\<lparr>sd_readWaitBuckets := recordDurationBucket wait (sd_readWaitBuckets d)\<rparr>
           in d\<lparr>sd_startup := recordFirstReadWait now st wait offset requestedBytes (sd_startup d)\<rparr>)"

definition recordReadWaitLocation :: "int \<Rightarrow> int \<Rightarrow> int \<Rightarrow> int \<Rightarrow> streamDelivery \<Rightarrow> streamDelivery" where
  "recordReadWaitLocation now wait offset requestedBytes d =
     (if wait < streamReadWaitThreshold then d
      else d\<lparr>sd_lastReadWaitMS := milliseconds wait, sd_lastReadWaitNano := now, sd_lastReadOffset := offset,
             sd_lastReadSize := requestedBytes\<rparr>)"

section \<open>Delivery snapshots\<close>

definition durationSinceStartMS :: "int \<Rightarrow> int \<Rightarrow> int" where
  "durationSinceStartMS started event = (if event = 0 then -1 else milliseconds (i64 (event - started)))"

definition durationSinceEventMS :: "int \<Rightarrow> int \<Rightarrow> int" where
  "durationSinceEventMS now event = (if event = 0 then -1 else milliseconds (time_sub now event))"

definition remainingBytes :: "int \<Rightarrow> int \<Rightarrow> int" where
  "remainingBytes fileSize currentOffset =
     (if fileSize \<le> 0 \<or> currentOffset \<ge> fileSize then 0 else fileSize - currentOffset)"

definition roundFloat :: "rat \<Rightarrow> nat \<Rightarrow> rat" where
  "roundFloat v precision =
     (if precision = 0 then v
      else let multiplier = 10 ^ precision
           in float64 (float64 (of_int (int64_of_float (float64 (float64 (v * multiplier) + 1 / 2)))) / multiplier))"

record streamDeliveryHeadroom =
  hr_mediaDurationMS :: "int option"
  hr_requiredBytesPerSec :: "int option"
  hr_ratio :: "rat option"
  hr_status :: string

definition deliveryHeadroom :: "int \<Rightarrow> int \<Rightarrow> int \<Rightarrow> streamDeliveryHeadroom" where
  "deliveryHeadroom fileSize mediaDuration deliveryBytesPerSec =
     (let none = \<lparr>hr_mediaDurationMS = None, hr_requiredBytesPerSec = None, hr_ratio = None, hr_status = []\<rparr> in
      if fileSize \<le> 0 then none\<lparr>hr_status := ''unknown_file_size''\<rparr>
      else if mediaDuration \<le> 0 then none\<lparr>hr_status := ''unknown_duration''\<rparr>
      else let durationMS = milliseconds mediaDuration
           in if durationMS \<le> 0 then none\<lparr>hr_status := ''unknown_duration''\<rparr>
              else let required = bytesPerSecond fileSize mediaDuration;
                       result = none\<lparr>hr_mediaDurationMS := Some durationMS,
                         hr_requiredBytesPerSec := Some required, hr_status := ''unknown_delivery''\<rparr>
                   in if required \<le> 0 \<or> deliveryBytesPerSec \<le> 0 then result
                      else let ratio = float64 (float64 (of_int deliveryBytesPerSec) / float64 (of_int required))
                           in result\<lparr>hr_ratio := Some (roundFloat ratio 3),
                                hr_status := (if ratio \<ge> 1 then ''pass'' else ''fail'')\<rparr>)"

record activeDeliverySnapshot =
  as_ElapsedMS :: int
  as_CurrentOffset :: int
  as_RemainingBytes :: int
  as_FirstByteMS :: int
  as_SinceLastWriteMS :: int
  as_BytesPerSecond :: int
  as_Headroom :: streamDeliveryHeadroom
  as_LastSlowWriteAgeMS :: int
  as_LastReadWaitAgeMS :: int
  as_ReadWaitMSBuckets :: "(string \<times> int) list"
  as_Record :: streamDelivery

text \<open>The other fields of the Go snapshot are the fields of the record, copied: \<open>as_Record\<close>.\<close>

definition delivery_snapshot :: "int \<Rightarrow> streamDelivery \<Rightarrow> activeDeliverySnapshot" where
  "delivery_snapshot now d =
     (let elapsed = time_sub now (sd_startedUnixNano d); currentOffset = delivery_currentOffset (sd_bytesWritten d) d;
          bps = bytesPerSecond (sd_bytesWritten d) elapsed
      in \<lparr>as_ElapsedMS = milliseconds elapsed, as_CurrentOffset = currentOffset,
          as_RemainingBytes = remainingBytes (sd_fileSize d) currentOffset,
          as_FirstByteMS = durationSinceStartMS (sd_startedUnixNano d) (sd_firstWriteUnixNano d),
          as_SinceLastWriteMS = durationSinceEventMS now (sd_lastWriteUnixNano d), as_BytesPerSecond = bps,
          as_Headroom = deliveryHeadroom (sd_fileSize d) (sd_mediaDuration d) bps,
          as_LastSlowWriteAgeMS = durationSinceEventMS now (sd_lastSlowWriteNano d),
          as_LastReadWaitAgeMS = durationSinceEventMS now (sd_lastReadWaitNano d),
          as_ReadWaitMSBuckets = snapshotBuckets (sd_readWaitBuckets d), as_Record = d\<rparr>)"

record streamDeliverySnapshot =
  ds_ActiveStreams :: int
  ds_BytesWrittenTotal :: int
  ds_WriteCallsTotal :: int
  ds_SlowWritesTotal :: int
  ds_WritesOver3sTotal :: int
  ds_WritesOver10sTotal :: int
  ds_MaxWriteMS :: int
  ds_Streams :: "activeDeliverySnapshot list"

definition SnapshotStreamDelivery :: "int \<Rightarrow> nat list \<Rightarrow> streamDeliveryRegistry \<Rightarrow> streamDeliverySnapshot" where
  "SnapshotStreamDelivery now ord r =
     \<lparr>ds_ActiveStreams = int (card (dr_active r)), ds_BytesWrittenTotal = dr_bytesWrittenTotal r,
      ds_WriteCallsTotal = dr_writeCallsTotal r, ds_SlowWritesTotal = dr_slowWritesTotal r,
      ds_WritesOver3sTotal = dr_writesOver3sTotal r, ds_WritesOver10sTotal = dr_writesOver10sTotal r,
      ds_MaxWriteMS = dr_maxWriteMS r,
      ds_Streams = map (\<lambda>i. delivery_snapshot now (dr_all r ! i)) (take 64 (filter (\<lambda>i. i \<in> dr_active r) ord))\<rparr>"

section \<open>The accounts of the deliveries\<close>

datatype delivery_event =
    DlRegister int int streamDeliveryMetadata
  | DlRelease nat
  | DlWrite int nat int int
  | DlWait int streamStartupCacheSnapshot nat int int int
  | DlLocation int nat int int int
  | DlSkip streamStartupCacheSnapshot nat string int
  | DlStart streamStartupCacheSnapshot nat int
  | DlComplete int streamStartupCacheSnapshot nat playbackStartupWarmupResult

definition update_delivery :: "nat \<Rightarrow> (streamDelivery \<Rightarrow> streamDelivery) \<Rightarrow> streamDeliveryRegistry \<Rightarrow> streamDeliveryRegistry" where
  "update_delivery i f r = r\<lparr>dr_all := (dr_all r)[i := f (dr_all r ! i)]\<rparr>"

definition on_timeline :: "(streamStartupTimeline \<Rightarrow> streamStartupTimeline) \<Rightarrow> streamDelivery \<Rightarrow> streamDelivery" where
  "on_timeline f d = d\<lparr>sd_startup := f (sd_startup d)\<rparr>"

text \<open>A stream only ever writes to the record that its registration returned.\<close>

fun delivery_step :: "streamDeliveryRegistry \<Rightarrow> delivery_event \<Rightarrow> streamDeliveryRegistry" where
  "delivery_step r (DlRegister started tid md) = snd (registerStreamDeliveryWithMetadata started tid md r)"
| "delivery_step r (DlRelease i) = releaseStreamDelivery i r"
| "delivery_step r (DlWrite now i n elapsed) =
     (if i < length (dr_all r) then delivery_recordWrite now i n elapsed r else r)"
| "delivery_step r (DlWait now st i wait offset requested) =
     (if i < length (dr_all r) then update_delivery i (delivery_recordReadWait now st wait offset requested) r else r)"
| "delivery_step r (DlLocation now i wait offset requested) =
     (if i < length (dr_all r) then update_delivery i (recordReadWaitLocation now wait offset requested) r else r)"
| "delivery_step r (DlSkip st i reason target) =
     (if i < length (dr_all r) then update_delivery i (on_timeline (recordSkipped st reason target)) r else r)"
| "delivery_step r (DlStart st i target) =
     (if i < length (dr_all r) then update_delivery i (on_timeline (recordWarmupStarted st target)) r else r)"
| "delivery_step r (DlComplete now st i result) =
     (if i < length (dr_all r) then update_delivery i (on_timeline (recordWarmupCompleted now st result)) r else r)"

text \<open>What holds of one record after at most \<open>n\<close> events, and of the registry.\<close>

definition delivery_ok :: "int \<Rightarrow> streamDelivery \<Rightarrow> bool" where
  "delivery_ok n d \<longleftrightarrow>
     0 \<le> sd_writesOver10sTotal d \<and> sd_writesOver10sTotal d \<le> sd_writesOver3sTotal d \<and>
     sd_writesOver3sTotal d \<le> sd_slowWritesTotal d \<and> sd_slowWritesTotal d \<le> sd_writeCalls d \<and> sd_writeCalls d \<le> n \<and>
     0 \<le> sd_writeGapsOver1000MS d \<and> sd_writeGapsOver1000MS d \<le> sd_writeGapsOver500MS d \<and>
     sd_writeGapsOver500MS d \<le> sd_writeGapsOver250MS d \<and> sd_writeGapsOver250MS d \<le> sd_writeCalls d \<and>
     0 \<le> sd_readWaitsOver10s d \<and> sd_readWaitsOver10s d \<le> sd_readWaitsOver3s d \<and>
     sd_readWaitsOver3s d \<le> sd_readWaitsTotal d \<and> sd_readWaitsTotal d \<le> n \<and>
     length (sd_readWaitBuckets d) = 6 \<and> (\<forall>b \<in> set (sd_readWaitBuckets d). 0 \<le> b) \<and>
     sum_list (sd_readWaitBuckets d) = sd_readWaitsTotal d \<and>
     (su_FirstReadWait (stl_snapshot (sd_startup d)) \<noteq> None \<longrightarrow> stl_warmupFinished (sd_startup d))"

definition total_of :: "(streamDelivery \<Rightarrow> int) \<Rightarrow> streamDeliveryRegistry \<Rightarrow> int" where
  "total_of f r = sum_list (map f (dr_all r))"

definition deliveries_ok :: "int \<Rightarrow> streamDeliveryRegistry \<Rightarrow> bool" where
  "deliveries_ok n r \<longleftrightarrow>
     0 \<le> n \<and> (\<forall>d \<in> set (dr_all r). delivery_ok n d) \<and> (\<forall>i \<in> dr_active r. i < length (dr_all r)) \<and>
     dr_writeCallsTotal r = total_of sd_writeCalls r \<and> dr_writeCallsTotal r \<le> n \<and>
     dr_slowWritesTotal r = total_of sd_slowWritesTotal r \<and>
     dr_writesOver3sTotal r = total_of sd_writesOver3sTotal r \<and>
     dr_writesOver10sTotal r = total_of sd_writesOver10sTotal r \<and>
     dr_bytesWrittenTotal r = i64 (total_of sd_bytesWritten r) \<and>
     dr_maxWriteMS r = fold max (map sd_maxWriteMS (dr_all r)) 0"

lemma sum_update: "i < length xs \<Longrightarrow> sum_list (xs[i := y]) = sum_list xs - xs ! i + (y :: int)"
  by (induction xs arbitrary: i) (auto split: nat.split simp: nth_Cons')

lemma deliveries_total_update: "i < length (dr_all r) \<Longrightarrow>
  total_of f (r\<lparr>dr_all := (dr_all r)[i := d]\<rparr>) = total_of f r - f (dr_all r ! i) + f d"
  by (simp add: total_of_def map_update sum_update)

lemma bucket_index: "durationBucketIndex d < 6"
  by (simp add: durationBucketIndex_def)

lemma bucket_le: "\<forall>b \<in> set bs. 0 \<le> b \<Longrightarrow> i < length bs \<Longrightarrow> bs ! i \<le> (sum_list bs :: int)"
proof (induction bs arbitrary: i)
  case (Cons b bs)
  have "0 \<le> sum_list bs" using Cons.prems(1) by (intro sum_list_nonneg) auto
  then show ?case using Cons by (cases i) (auto simp: add_increasing)
qed simp

lemma recordDurationBucket_ok:
  assumes "length bs = 6" "\<forall>b \<in> set bs. 0 \<le> b" "sum_list bs < 9223372036854775807"
  shows "length (recordDurationBucket d bs) = 6" "\<forall>b \<in> set (recordDurationBucket d bs). 0 \<le> b"
    "sum_list (recordDurationBucket d bs) = sum_list bs + 1"
proof -
  let ?i = "durationBucketIndex d"
  have i: "?i < length bs" using assms(1) bucket_index by simp
  have b: "0 \<le> bs ! ?i" "bs ! ?i \<le> sum_list bs" using assms(2) i bucket_le nth_mem by auto
  then have "i64 (bs ! ?i + 1) = bs ! ?i + 1" using assms(3) by (simp add: i64_id fits_i64_def)
  then have eq: "recordDurationBucket d bs = bs[?i := bs ! ?i + 1]" by (simp add: recordDurationBucket_def Let_def)
  show "length (recordDurationBucket d bs) = 6" using assms(1) by (simp add: eq)
  show "\<forall>b \<in> set (recordDurationBucket d bs). 0 \<le> b"
    using assms(2) b(1) by (auto simp: eq dest!: set_update_subset_insert [THEN subsetD])
  show "sum_list (recordDurationBucket d bs) = sum_list bs + 1" using i by (simp add: eq sum_update)
qed

lemma delivery_ok_mono: "delivery_ok n d \<Longrightarrow> n \<le> m \<Longrightarrow> delivery_ok m d"
  by (auto simp: delivery_ok_def)

lemma i64_succ: "0 \<le> a \<Longrightarrow> a \<le> n \<Longrightarrow> n < 9223372036854775807 \<Longrightarrow> i64 (a + 1) = a + 1"
  by (simp add: i64_id fits_i64_def)

lemma recordWriteGap_fields:
  "sd_writeCalls (recordWriteGap now d) = sd_writeCalls d" "sd_bytesWritten (recordWriteGap now d) = sd_bytesWritten d"
  "sd_slowWritesTotal (recordWriteGap now d) = sd_slowWritesTotal d"
  "sd_writesOver3sTotal (recordWriteGap now d) = sd_writesOver3sTotal d"
  "sd_writesOver10sTotal (recordWriteGap now d) = sd_writesOver10sTotal d"
  "sd_maxWriteMS (recordWriteGap now d) = sd_maxWriteMS d"
  "sd_readWaitsTotal (recordWriteGap now d) = sd_readWaitsTotal d"
  "sd_readWaitsOver3s (recordWriteGap now d) = sd_readWaitsOver3s d"
  "sd_readWaitsOver10s (recordWriteGap now d) = sd_readWaitsOver10s d"
  "sd_readWaitBuckets (recordWriteGap now d) = sd_readWaitBuckets d" "sd_startup (recordWriteGap now d) = sd_startup d"
  by (simp_all add: recordWriteGap_def Let_def)

lemma recordWriteGap_counts:
  assumes "0 \<le> sd_writeGapsOver1000MS d" "sd_writeGapsOver1000MS d \<le> sd_writeGapsOver500MS d"
    "sd_writeGapsOver500MS d \<le> sd_writeGapsOver250MS d" "sd_writeGapsOver250MS d \<le> n" "n < 9223372036854775807"
  shows "0 \<le> sd_writeGapsOver1000MS (recordWriteGap now d)
    \<and> sd_writeGapsOver1000MS (recordWriteGap now d) \<le> sd_writeGapsOver500MS (recordWriteGap now d)
    \<and> sd_writeGapsOver500MS (recordWriteGap now d) \<le> sd_writeGapsOver250MS (recordWriteGap now d)
    \<and> sd_writeGapsOver250MS (recordWriteGap now d) \<le> sd_writeGapsOver250MS d + 1"
  using assms i64_succ [of "sd_writeGapsOver1000MS d" n] i64_succ [of "sd_writeGapsOver500MS d" n]
    i64_succ [of "sd_writeGapsOver250MS d" n]
  by (simp add: recordWriteGap_def Let_def)

lemma recordDeliveryWindow_fields:
  "sd_writeCalls (recordDeliveryWindow now k d) = sd_writeCalls d"
  "sd_bytesWritten (recordDeliveryWindow now k d) = sd_bytesWritten d"
  "sd_slowWritesTotal (recordDeliveryWindow now k d) = sd_slowWritesTotal d"
  "sd_writesOver3sTotal (recordDeliveryWindow now k d) = sd_writesOver3sTotal d"
  "sd_writesOver10sTotal (recordDeliveryWindow now k d) = sd_writesOver10sTotal d"
  "sd_writeGapsOver250MS (recordDeliveryWindow now k d) = sd_writeGapsOver250MS d"
  "sd_writeGapsOver500MS (recordDeliveryWindow now k d) = sd_writeGapsOver500MS d"
  "sd_writeGapsOver1000MS (recordDeliveryWindow now k d) = sd_writeGapsOver1000MS d"
  "sd_maxWriteMS (recordDeliveryWindow now k d) = sd_maxWriteMS d"
  "sd_readWaitsTotal (recordDeliveryWindow now k d) = sd_readWaitsTotal d"
  "sd_readWaitsOver3s (recordDeliveryWindow now k d) = sd_readWaitsOver3s d"
  "sd_readWaitsOver10s (recordDeliveryWindow now k d) = sd_readWaitsOver10s d"
  "sd_readWaitBuckets (recordDeliveryWindow now k d) = sd_readWaitBuckets d"
  "sd_startup (recordDeliveryWindow now k d) = sd_startup d"
  by (simp_all add: recordDeliveryWindow_def Let_def)

lemma delivery_write_fields:
  "sd_writeCalls (delivery_write now k e d) = i64 (sd_writeCalls d + 1)"
  "sd_bytesWritten (delivery_write now k e d) = i64 (sd_bytesWritten d + k)"
  "sd_slowWritesTotal (delivery_write now k e d) = (if e \<ge> 500 * 1000000 then i64 (sd_slowWritesTotal d + 1) else sd_slowWritesTotal d)"
  "sd_writesOver3sTotal (delivery_write now k e d) = (if e > 3 * 1000000000 then i64 (sd_writesOver3sTotal d + 1) else sd_writesOver3sTotal d)"
  "sd_writesOver10sTotal (delivery_write now k e d) = (if e > 10 * 1000000000 then i64 (sd_writesOver10sTotal d + 1) else sd_writesOver10sTotal d)"
  "sd_maxWriteMS (delivery_write now k e d) = updateMaxAtomic (sd_maxWriteMS d) (milliseconds e)"
  "sd_readWaitsTotal (delivery_write now k e d) = sd_readWaitsTotal d"
  "sd_readWaitsOver3s (delivery_write now k e d) = sd_readWaitsOver3s d"
  "sd_readWaitsOver10s (delivery_write now k e d) = sd_readWaitsOver10s d"
  "sd_readWaitBuckets (delivery_write now k e d) = sd_readWaitBuckets d"
  "sd_startup (delivery_write now k e d) = sd_startup d"
  by (simp_all add: delivery_write_def Let_def recordWriteGap_fields recordDeliveryWindow_fields)

lemma delivery_write_gaps:
  "\<exists>d'. sd_writeGapsOver250MS (delivery_write now k e d) = sd_writeGapsOver250MS (recordWriteGap now d')
     \<and> sd_writeGapsOver500MS (delivery_write now k e d) = sd_writeGapsOver500MS (recordWriteGap now d')
     \<and> sd_writeGapsOver1000MS (delivery_write now k e d) = sd_writeGapsOver1000MS (recordWriteGap now d')
     \<and> sd_writeGapsOver250MS d' = sd_writeGapsOver250MS d \<and> sd_writeGapsOver500MS d' = sd_writeGapsOver500MS d
     \<and> sd_writeGapsOver1000MS d' = sd_writeGapsOver1000MS d"
  by (rule exI [of _ "if sd_firstWriteUnixNano d = 0 then d\<lparr>sd_firstWriteUnixNano := now\<rparr> else d"])
    (simp add: delivery_write_def Let_def recordDeliveryWindow_fields)

lemma delivery_write_ok:
  assumes ok: "delivery_ok n d" and n: "n < 9223372036854775807"
  shows "delivery_ok (n + 1) (delivery_write now k e d)"
proof -
  note d = ok [unfolded delivery_ok_def]
  have s: "i64 (sd_writeCalls d + 1) = sd_writeCalls d + 1" "i64 (sd_slowWritesTotal d + 1) = sd_slowWritesTotal d + 1"
    "i64 (sd_writesOver3sTotal d + 1) = sd_writesOver3sTotal d + 1"
    "i64 (sd_writesOver10sTotal d + 1) = sd_writesOver10sTotal d + 1"
    using d n by (auto intro!: i64_succ [of _ n])
  obtain d' where d': "sd_writeGapsOver250MS (delivery_write now k e d) = sd_writeGapsOver250MS (recordWriteGap now d')"
    "sd_writeGapsOver500MS (delivery_write now k e d) = sd_writeGapsOver500MS (recordWriteGap now d')"
    "sd_writeGapsOver1000MS (delivery_write now k e d) = sd_writeGapsOver1000MS (recordWriteGap now d')"
    "sd_writeGapsOver250MS d' = sd_writeGapsOver250MS d" "sd_writeGapsOver500MS d' = sd_writeGapsOver500MS d"
    "sd_writeGapsOver1000MS d' = sd_writeGapsOver1000MS d"
    using delivery_write_gaps by blast
  have "0 \<le> sd_writeGapsOver1000MS (recordWriteGap now d')
    \<and> sd_writeGapsOver1000MS (recordWriteGap now d') \<le> sd_writeGapsOver500MS (recordWriteGap now d')
    \<and> sd_writeGapsOver500MS (recordWriteGap now d') \<le> sd_writeGapsOver250MS (recordWriteGap now d')
    \<and> sd_writeGapsOver250MS (recordWriteGap now d') \<le> sd_writeGapsOver250MS d' + 1"
    using d n d'(4-6) by (intro recordWriteGap_counts [of d' n]) auto
  then have "0 \<le> sd_writeGapsOver1000MS (delivery_write now k e d)
    \<and> sd_writeGapsOver1000MS (delivery_write now k e d) \<le> sd_writeGapsOver500MS (delivery_write now k e d)
    \<and> sd_writeGapsOver500MS (delivery_write now k e d) \<le> sd_writeGapsOver250MS (delivery_write now k e d)
    \<and> sd_writeGapsOver250MS (delivery_write now k e d) \<le> sd_writeCalls d + 1"
    using d d' by simp
  then show ?thesis using d unfolding delivery_ok_def delivery_write_fields s by simp
qed

lemma first_wait_ok:
  "(su_FirstReadWait (stl_snapshot s) \<noteq> None \<longrightarrow> stl_warmupFinished s) \<Longrightarrow>
   su_FirstReadWait (stl_snapshot (recordFirstReadWait now st w o' k s)) \<noteq> None \<Longrightarrow>
   stl_warmupFinished (recordFirstReadWait now st w o' k s)"
  by (auto simp: recordFirstReadWait_def split: if_splits)

lemma delivery_wait_fields:
  assumes "\<not> w < streamReadWaitThreshold"
  shows "sd_readWaitsTotal (delivery_recordReadWait now st w off k d) = i64 (sd_readWaitsTotal d + 1)"
    "sd_readWaitsOver3s (delivery_recordReadWait now st w off k d) = (if w > 3 * 1000000000 then i64 (sd_readWaitsOver3s d + 1) else sd_readWaitsOver3s d)"
    "sd_readWaitsOver10s (delivery_recordReadWait now st w off k d) = (if w > 10 * 1000000000 then i64 (sd_readWaitsOver10s d + 1) else sd_readWaitsOver10s d)"
    "sd_readWaitBuckets (delivery_recordReadWait now st w off k d) = recordDurationBucket w (sd_readWaitBuckets d)"
    "sd_startup (delivery_recordReadWait now st w off k d) = recordFirstReadWait now st w off k (sd_startup d)"
  using assms by (simp_all add: delivery_recordReadWait_def Let_def)

lemma delivery_wait_same:
  "sd_writeCalls (delivery_recordReadWait now st w off k d) = sd_writeCalls d"
  "sd_slowWritesTotal (delivery_recordReadWait now st w off k d) = sd_slowWritesTotal d"
  "sd_writesOver3sTotal (delivery_recordReadWait now st w off k d) = sd_writesOver3sTotal d"
  "sd_writesOver10sTotal (delivery_recordReadWait now st w off k d) = sd_writesOver10sTotal d"
  "sd_bytesWritten (delivery_recordReadWait now st w off k d) = sd_bytesWritten d"
  "sd_maxWriteMS (delivery_recordReadWait now st w off k d) = sd_maxWriteMS d"
  "sd_writeGapsOver250MS (delivery_recordReadWait now st w off k d) = sd_writeGapsOver250MS d"
  "sd_writeGapsOver500MS (delivery_recordReadWait now st w off k d) = sd_writeGapsOver500MS d"
  "sd_writeGapsOver1000MS (delivery_recordReadWait now st w off k d) = sd_writeGapsOver1000MS d"
  by (simp_all add: delivery_recordReadWait_def Let_def)

lemma delivery_wait_ok:
  assumes ok: "delivery_ok n d" and n: "n < 9223372036854775807"
  shows "delivery_ok (n + 1) (delivery_recordReadWait now st w off k d)"
proof (cases "w < streamReadWaitThreshold")
  case True
  then show ?thesis using delivery_ok_mono [OF ok, of "n + 1"] by (simp add: delivery_recordReadWait_def)
next
  case False
  note d = ok [unfolded delivery_ok_def]
  have s: "i64 (sd_readWaitsTotal d + 1) = sd_readWaitsTotal d + 1" "i64 (sd_readWaitsOver3s d + 1) = sd_readWaitsOver3s d + 1"
    "i64 (sd_readWaitsOver10s d + 1) = sd_readWaitsOver10s d + 1"
    using d n by (auto intro!: i64_succ [of _ n])
  have old: "length (sd_readWaitBuckets d) = 6" "\<forall>b \<in> set (sd_readWaitBuckets d). 0 \<le> b"
    "sum_list (sd_readWaitBuckets d) = sd_readWaitsTotal d" "sd_readWaitsTotal d \<le> n"
    using d by simp_all
  then have "sum_list (sd_readWaitBuckets d) < 9223372036854775807" using n by simp
  note b = recordDurationBucket_ok [OF old(1,2) this, of w, unfolded old(3)]
  have f: "su_FirstReadWait (stl_snapshot (recordFirstReadWait now st w off k (sd_startup d))) \<noteq> None \<longrightarrow>
      stl_warmupFinished (recordFirstReadWait now st w off k (sd_startup d))"
    using first_wait_ok [of "sd_startup d"] d by blast
  show ?thesis unfolding delivery_ok_def delivery_wait_fields [OF False] delivery_wait_same s
    using d b(1,3) by (intro conjI b(2) f) auto
qed

lemma timeline_ok:
  assumes "delivery_ok n d" "su_FirstReadWait (stl_snapshot (f (sd_startup d))) = su_FirstReadWait (stl_snapshot (sd_startup d))"
    "stl_warmupFinished (sd_startup d) \<longrightarrow> stl_warmupFinished (f (sd_startup d))"
  shows "delivery_ok n (on_timeline f d)"
  using assms by (simp add: delivery_ok_def on_timeline_def)

lemma max_update:
  assumes "i < length xs" "xs ! i \<le> (x :: int)"
  shows "fold max (xs[i := x]) a = max x (fold max xs a)"
  using assms
proof (induction xs arbitrary: i a)
  case (Cons y xs)
  have pull: "fold max xs (max u v) = max u (fold max xs v)" for u v :: int and xs
  proof (induction xs arbitrary: v)
    case (Cons z xs)
    have "max z (max u v) = max u (max z v)" by (rule max.left_commute)
    then show ?case using Cons [of "max z v"] by simp
  qed simp
  show ?case
  proof (cases i)
    case 0
    then show ?thesis using Cons.prems by (simp add: pull max.absorb1 flip: max.assoc)
  next
    case (Suc j)
    then show ?thesis using Cons by simp
  qed
qed simp

lemma update_delivery_ok:
  assumes ok: "deliveries_ok n r" and i: "i < length (dr_all r)" and d: "delivery_ok (n + 1) (f (dr_all r ! i))"
    and same: "sd_writeCalls (f (dr_all r ! i)) = sd_writeCalls (dr_all r ! i)"
      "sd_slowWritesTotal (f (dr_all r ! i)) = sd_slowWritesTotal (dr_all r ! i)"
      "sd_writesOver3sTotal (f (dr_all r ! i)) = sd_writesOver3sTotal (dr_all r ! i)"
      "sd_writesOver10sTotal (f (dr_all r ! i)) = sd_writesOver10sTotal (dr_all r ! i)"
      "sd_bytesWritten (f (dr_all r ! i)) = sd_bytesWritten (dr_all r ! i)"
      "sd_maxWriteMS (f (dr_all r ! i)) = sd_maxWriteMS (dr_all r ! i)"
  shows "deliveries_ok (n + 1) (update_delivery i f r)"
proof -
  have "map sd_maxWriteMS ((dr_all r)[i := f (dr_all r ! i)]) = map sd_maxWriteMS (dr_all r)"
    using i same(6) by (simp add: map_update) (metis list_update_id nth_map)
  moreover have "\<forall>d \<in> set ((dr_all r)[i := f (dr_all r ! i)]). delivery_ok (n + 1) d"
    using ok d delivery_ok_mono [of n _ "n + 1"]
    by (auto simp: deliveries_ok_def dest!: set_update_subset_insert [THEN subsetD])
  ultimately show ?thesis using ok i same unfolding deliveries_ok_def update_delivery_def
    by (simp add: deliveries_total_update)
qed

lemma write_deliveries_ok:
  assumes ok: "deliveries_ok n r" and i: "i < length (dr_all r)" and n: "n < 9223372036854775807"
  shows "deliveries_ok (n + 1) (delivery_recordWrite now i k e r)"
proof -
  let ?d = "dr_all r ! i" and ?r = "delivery_recordWrite now i k e r"
  let ?d' = "delivery_write now k e ?d"
  have d: "delivery_ok n ?d" using ok i by (simp add: deliveries_ok_def)
  have all: "dr_all ?r = (dr_all r)[i := ?d']"
    by (simp add: delivery_recordWrite_def total_write_def Let_def)
  have tot: "total_of f ?r = total_of f r - f ?d + f ?d'" for f
    using deliveries_total_update [OF i, of f ?d'] by (simp add: total_of_def all)
  have part: "0 \<le> total_of sd_slowWritesTotal r" "0 \<le> total_of sd_writesOver3sTotal r"
    "0 \<le> total_of sd_writesOver10sTotal r" "0 \<le> total_of sd_writeCalls r"
    "total_of sd_slowWritesTotal r \<le> total_of sd_writeCalls r"
    "total_of sd_writesOver3sTotal r \<le> total_of sd_writeCalls r"
    "total_of sd_writesOver10sTotal r \<le> total_of sd_writeCalls r"
    using ok unfolding deliveries_ok_def total_of_def delivery_ok_def
    by (force intro!: sum_list_nonneg sum_list_mono)+
  have s: "i64 (sd_writeCalls ?d + 1) = sd_writeCalls ?d + 1" "i64 (sd_slowWritesTotal ?d + 1) = sd_slowWritesTotal ?d + 1"
    "i64 (sd_writesOver3sTotal ?d + 1) = sd_writesOver3sTotal ?d + 1"
    "i64 (sd_writesOver10sTotal ?d + 1) = sd_writesOver10sTotal ?d + 1"
    using d [unfolded delivery_ok_def] n by (auto intro!: i64_succ [of _ n])
  have g: "i64 (dr_writeCallsTotal r + 1) = dr_writeCallsTotal r + 1" "i64 (dr_slowWritesTotal r + 1) = dr_slowWritesTotal r + 1"
    "i64 (dr_writesOver3sTotal r + 1) = dr_writesOver3sTotal r + 1"
    "i64 (dr_writesOver10sTotal r + 1) = dr_writesOver10sTotal r + 1"
    using ok n part unfolding deliveries_ok_def by (auto intro!: i64_succ [of _ n])
  have max: "dr_maxWriteMS ?r = fold max (map sd_maxWriteMS (dr_all ?r)) 0"
  proof -
    have "fold max (map sd_maxWriteMS (dr_all ?r)) 0
        = max (updateMaxAtomic (sd_maxWriteMS ?d) (milliseconds e)) (fold max (map sd_maxWriteMS (dr_all r)) 0)"
      using i max_update [of i "map sd_maxWriteMS (dr_all r)" "updateMaxAtomic (sd_maxWriteMS ?d) (milliseconds e)" 0]
      by (simp add: all map_update delivery_write_fields updateMaxAtomic_def)
    moreover have "sd_maxWriteMS ?d \<le> fold max (map sd_maxWriteMS (dr_all r)) 0"
      using i max_update [of i "map sd_maxWriteMS (dr_all r)" "sd_maxWriteMS ?d" 0]
      by simp (metis length_map list_update_id max.cobounded1 nth_map)
    ultimately show ?thesis using ok
      by (auto simp: deliveries_ok_def delivery_recordWrite_def total_write_def Let_def updateMaxAtomic_def max_def)
  qed
  have bytes: "dr_bytesWrittenTotal ?r = i64 (total_of sd_bytesWritten ?r)"
  proof -
    have "dr_bytesWrittenTotal ?r = i64 (total_of sd_bytesWritten r + k)"
      using ok by (simp add: deliveries_ok_def delivery_recordWrite_def total_write_def Let_def)
    also have "\<dots> = i64 (total_of sd_bytesWritten r - sd_bytesWritten ?d + (sd_bytesWritten ?d + k))"
      by (simp add: algebra_simps)
    also have "\<dots> = i64 (total_of sd_bytesWritten r - sd_bytesWritten ?d + i64 (sd_bytesWritten ?d + k))"
      by (simp only: i64_add_right)
    finally show ?thesis by (simp add: tot delivery_write_fields)
  qed
  have "\<forall>d \<in> set (dr_all ?r). delivery_ok (n + 1) d"
    using ok delivery_write_ok [OF d n] delivery_ok_mono [of n _ "n + 1"]
    by (auto simp: all deliveries_ok_def dest!: set_update_subset_insert [THEN subsetD])
  moreover have "dr_writeCallsTotal ?r = dr_writeCallsTotal r + 1" "dr_active ?r = dr_active r"
    "dr_slowWritesTotal ?r = (if e \<ge> 500 * 1000000 then dr_slowWritesTotal r + 1 else dr_slowWritesTotal r)"
    "dr_writesOver3sTotal ?r = (if e > 3 * 1000000000 then dr_writesOver3sTotal r + 1 else dr_writesOver3sTotal r)"
    "dr_writesOver10sTotal ?r = (if e > 10 * 1000000000 then dr_writesOver10sTotal r + 1 else dr_writesOver10sTotal r)"
    using g by (simp_all add: delivery_recordWrite_def total_write_def Let_def)
  ultimately show ?thesis using ok max bytes unfolding deliveries_ok_def tot delivery_write_fields s
    by (simp add: all)
qed

lemma new_delivery_ok: "0 \<le> n \<Longrightarrow> delivery_ok n (new_delivery k started tid md)"
  by (simp add: delivery_ok_def new_delivery_def newStreamStartupTimeline_def sum_list_replicate)

lemma fold_max_ge: "a \<le> fold max xs (a :: int)"
  by (induction xs arbitrary: a) (auto intro: order.trans [OF max.cobounded2])

lemma register_deliveries_ok:
  assumes "deliveries_ok n r"
  shows "deliveries_ok (n + 1) (snd (registerStreamDeliveryWithMetadata started tid md r))"
proof -
  define d where "d = new_delivery (u64 (int (length (dr_all r)) + 1)) started tid md"
  have d: "delivery_ok (n + 1) d" "sd_writeCalls d = 0" "sd_slowWritesTotal d = 0" "sd_writesOver3sTotal d = 0"
    "sd_writesOver10sTotal d = 0" "sd_bytesWritten d = 0" "sd_maxWriteMS d = 0"
    using new_delivery_ok [of "n + 1"] assms by (simp_all add: d_def deliveries_ok_def) (simp_all add: new_delivery_def)
  have "snd (registerStreamDeliveryWithMetadata started tid md r)
      = r\<lparr>dr_all := dr_all r @ [d], dr_active := insert (length (dr_all r)) (dr_active r)\<rparr>"
    by (simp add: registerStreamDeliveryWithMetadata_def d_def Let_def)
  then show ?thesis using assms d delivery_ok_mono [of n _ "n + 1"] fold_max_ge [of 0 "map sd_maxWriteMS (dr_all r)"]
    by (auto simp: deliveries_ok_def total_of_def less_Suc_eq max_def)
qed

lemma deliveries_step:
  assumes ok: "deliveries_ok n r" and n: "n < 9223372036854775807"
  shows "deliveries_ok (n + 1) (delivery_step r e)"
proof -
  have mono: "deliveries_ok (n + 1) r" using ok delivery_ok_mono [of n _ "n + 1"] by (auto simp: deliveries_ok_def)
  have d: "delivery_ok n (dr_all r ! i)" "delivery_ok (n + 1) (dr_all r ! i)" if "i < length (dr_all r)" for i
    using ok mono that by (simp_all add: deliveries_ok_def)
  show ?thesis
  proof (cases e)
    case (DlRegister started tid md)
    then show ?thesis using register_deliveries_ok [OF ok] by simp
  next
    case (DlRelease i)
    then show ?thesis using mono by (auto simp: releaseStreamDelivery_def deliveries_ok_def total_of_def)
  next
    case (DlWrite now i k el)
    then show ?thesis using mono write_deliveries_ok [OF ok _ n] by simp
  next
    case (DlWait now st i w off k)
    then show ?thesis using mono d n
      by (auto intro!: update_delivery_ok [OF ok] delivery_wait_ok simp: delivery_wait_same)
  next
    case (DlLocation now i w off k)
    have "delivery_ok (n + 1) (recordReadWaitLocation now w off k (dr_all r ! i))" if "i < length (dr_all r)"
      using d(2) [OF that] by (simp add: recordReadWaitLocation_def delivery_ok_def)
    then show ?thesis using mono DlLocation
      by (auto intro!: update_delivery_ok [OF ok] simp: recordReadWaitLocation_def)
  next
    case (DlSkip st i reason target)
    then show ?thesis using mono d(2)
      by (auto intro!: update_delivery_ok [OF ok] timeline_ok simp: on_timeline_def [where d = "dr_all r ! i"] recordSkipped_def)
  next
    case (DlStart st i target)
    then show ?thesis using mono d(2)
      by (auto intro!: update_delivery_ok [OF ok] timeline_ok simp: on_timeline_def [where d = "dr_all r ! i"] recordWarmupStarted_def)
  next
    case (DlComplete now st i result)
    then show ?thesis using mono d(2)
      by (auto intro!: update_delivery_ok [OF ok] timeline_ok simp: on_timeline_def [where d = "dr_all r ! i"] recordWarmupCompleted_def)
  qed
qed

lemma deliveries_run:
  "int (length es) < 9223372036854775807 \<Longrightarrow> deliveries_ok (int (length es)) (foldl delivery_step empty_deliveries es)"
proof (induction es rule: rev_induct)
  case Nil
  show ?case by (simp add: deliveries_ok_def empty_deliveries_def total_of_def)
next
  case (snoc e es)
  then show ?case using deliveries_step [of "int (length es)" "foldl delivery_step empty_deliveries es" e]
    by (simp add: add.commute)
qed

text \<open>
  Property C26. The delivery accounts add up: after any sequence of registrations, writes, read waits,
  warm-up records and releases, the process-wide snapshot shows the sums over all streams of the written
  bytes (up to the 64-bit wrap-around), write calls, slow writes and writes over 3 and 10 seconds, and the longest write
  of any stream; in each stream the graver counts never exceed the lighter ones, the buckets of the read waits
  sum up to their number, and a first read wait is only recorded once the warm-up is over.
\<close>

theorem delivery_accounts_add_up:
  assumes "int (length es) < 9223372036854775807" "r = foldl delivery_step empty_deliveries es"
  shows "ds_BytesWrittenTotal (SnapshotStreamDelivery now ord r) = i64 (\<Sum>d\<leftarrow>dr_all r. sd_bytesWritten d)
    \<and> ds_WriteCallsTotal (SnapshotStreamDelivery now ord r) = (\<Sum>d\<leftarrow>dr_all r. sd_writeCalls d)
    \<and> ds_SlowWritesTotal (SnapshotStreamDelivery now ord r) = (\<Sum>d\<leftarrow>dr_all r. sd_slowWritesTotal d)
    \<and> ds_WritesOver3sTotal (SnapshotStreamDelivery now ord r) = (\<Sum>d\<leftarrow>dr_all r. sd_writesOver3sTotal d)
    \<and> ds_WritesOver10sTotal (SnapshotStreamDelivery now ord r) = (\<Sum>d\<leftarrow>dr_all r. sd_writesOver10sTotal d)
    \<and> ds_MaxWriteMS (SnapshotStreamDelivery now ord r) = fold max (map sd_maxWriteMS (dr_all r)) 0
    \<and> (\<forall>d \<in> set (dr_all r). sd_writesOver10sTotal d \<le> sd_writesOver3sTotal d
        \<and> sd_writesOver3sTotal d \<le> sd_slowWritesTotal d \<and> sd_slowWritesTotal d \<le> sd_writeCalls d
        \<and> sd_writeGapsOver1000MS d \<le> sd_writeGapsOver500MS d \<and> sd_writeGapsOver500MS d \<le> sd_writeGapsOver250MS d
        \<and> sum_list (sd_readWaitBuckets d) = sd_readWaitsTotal d
        \<and> (su_FirstReadWait (stl_snapshot (sd_startup d)) \<noteq> None \<longrightarrow> stl_warmupFinished (sd_startup d)))"
proof -
  have "deliveries_ok (int (length es)) r" unfolding assms(2) by (rule deliveries_run [OF assms(1)])
  then show ?thesis by (auto simp: deliveries_ok_def delivery_ok_def total_of_def SnapshotStreamDelivery_def)
qed

definition demo_metadata :: streamDeliveryMetadata where
  "demo_metadata = \<lparr>md_initialOffset = 0, md_fileSize = 100, md_requestedRange = False, md_mediaDuration = 0,
     md_startupState = False\<rparr>"

theorem delivery_accounts_add_up_witness:
  "let r = foldl delivery_step empty_deliveries
         [DlRegister 5 7 demo_metadata, DlWrite 9 0 40 4000000000, DlWait 12 zero_startup_cache 0 600000000 40 8]
   in ds_WriteCallsTotal (SnapshotStreamDelivery 20 [0] r) = (\<Sum>d\<leftarrow>dr_all r. sd_writeCalls d)"
proof -
  have "int (length [DlRegister 5 7 demo_metadata, DlWrite 9 0 40 4000000000,
      DlWait 12 zero_startup_cache 0 600000000 40 8]) < 9223372036854775807" by simp
  from delivery_accounts_add_up [OF this refl, of 20 "[0]"] show ?thesis unfolding Let_def by (elim conjE)
qed

text \<open>
  The headroom verdict is exact although it is computed with floats: for speeds below 2 to the 53
  bytes per second, a stream whose file needs \<open>required\<close> bytes per second passes precisely when it is delivered at
  least that fast.
\<close>

theorem headroom_verdict_exact:
  assumes "0 < fileSize" "0 < milliseconds mediaDuration" "0 < mediaDuration"
    "required = bytesPerSecond fileSize mediaDuration" "0 < required" "required < 2 ^ 53"
    "0 < speed" "speed < 2 ^ 53"
  shows "hr_status (deliveryHeadroom fileSize mediaDuration speed) = (if required \<le> speed then ''pass'' else ''fail'')"
proof -
  let ?q = "of_int speed / of_int required :: rat"
  have "(1 \<le> float64 ?q) = (required \<le> speed)"
  proof
    assume "required \<le> speed"
    then have "1 \<le> ?q" using assms(5) by (simp add: le_divide_eq_1)
    then have "float64 1 \<le> float64 ?q" by (intro float64_mono) simp_all
    then show "1 \<le> float64 ?q" using float64_int [of 1] by simp
  next
    assume le: "1 \<le> float64 ?q"
    show "required \<le> speed"
    proof (rule ccontr)
      assume "\<not> required \<le> speed"
      then have "speed \<le> required - 1" by simp
      then have "(of_int speed :: rat) \<le> of_int (required - 1)" by (simp only: of_int_le_iff)
      then have "?q \<le> (of_int required - 1) / of_int required" using assms(5) by (intro divide_right_mono) auto
      also have "\<dots> = 1 - 1 / of_int required" using assms(5) by (simp add: diff_divide_distrib)
      also have "\<dots> \<le> 1 - 1 / 2 ^ 53"
      proof -
        have "(of_int required :: rat) < of_int (2 ^ 53)" using assms(6) by (simp only: of_int_less_iff)
        then show ?thesis using assms(5) by (intro diff_left_mono divide_left_mono) auto
      qed
      finally have "float64 ?q \<le> float64 (1 - 1 / 2 ^ 53)" using assms(5,7) by (intro float64_mono) auto
      also have "float64 (1 - 1 / 2 ^ 53) = 1 - 1 / 2 ^ 53"
        by (rule float64_exact [of "2 ^ 53 - 1" _ "-53"]) (simp_all add: power_int_minus field_simps)
      finally show False using le by simp
    qed
  qed
  then show ?thesis using assms by (simp add: deliveryHeadroom_def Let_def float64_int)
qed

theorem headroom_verdict_exact_witness:
  "hr_status (deliveryHeadroom 1000000 2000000000 600000) = ''pass''"
proof -
  have "duration_seconds 2000000000 = 2"
    using float64_int [of 2] by (simp add: duration_seconds_def go_div_pos go_mod_pos)
  then have "bytesPerSecond 1000000 2000000000 = 500000"
    using float64_int [of 1000000] float64_int [of 500000]
    by (simp add: bytesPerSecond_def int64_of_float_def fits_i64_def)
  then show ?thesis
    using headroom_verdict_exact [of 1000000 2000000000 500000 600000] by (simp add: milliseconds_def go_div_pos)
qed

end
