(* ===== verification/Stream_Fairness.thy ===== *)
theory Stream_Fairness
  imports Stream_Delivery
begin

text \<open>
  Fairness between the torrents that are streamed at once (torr/stream_fairness.go): a fast stream is
  held back for a fraction of a millisecond after a write when another torrent is starting or is much slower.

  The flows are a list in the order of their identifiers, like the delivery records they point to. The
  orders in which the maps of flows and of torrents are visited are arguments.
\<close>

section \<open>Flows\<close>

record streamFairnessFlow =
  sf_id :: int
  sf_torrentID :: int
  sf_startedUnixNano :: int
  sf_delivery :: "nat option"
  sf_lastDelayNano :: int
  sf_bytesWritten :: int
  sf_writeCalls :: int
  sf_delayedWrites :: int
  sf_delayTotalMicros :: int
  sf_maxDelayMicros :: int
  sf_startupProtectedWrites :: int

record streamFairnessRegistry =
  fr_all :: "streamFairnessFlow list"
  fr_active :: "nat set"
  fr_delayedWritesTotal :: int
  fr_delayTotalMicros :: int
  fr_maxDelayMicros :: int
  fr_startupProtectedWritesTotal :: int
  fr_startupProtectionDelayMicros :: int

definition empty_fairness :: streamFairnessRegistry where
  "empty_fairness = \<lparr>fr_all = [], fr_active = {}, fr_delayedWritesTotal = 0, fr_delayTotalMicros = 0,
     fr_maxDelayMicros = 0, fr_startupProtectedWritesTotal = 0, fr_startupProtectionDelayMicros = 0\<rparr>"

definition registerStreamFairness :: "int \<Rightarrow> int \<Rightarrow> streamFairnessRegistry \<Rightarrow> nat \<times> streamFairnessRegistry" where
  "registerStreamFairness started torrentID r =
     (let i = length (fr_all r);
          f = \<lparr>sf_id = u64 (int i + 1), sf_torrentID = torrentID, sf_startedUnixNano = started, sf_delivery = None,
               sf_lastDelayNano = 0, sf_bytesWritten = 0, sf_writeCalls = 0, sf_delayedWrites = 0,
               sf_delayTotalMicros = 0, sf_maxDelayMicros = 0, sf_startupProtectedWrites = 0\<rparr>
      in (i, r\<lparr>fr_all := fr_all r @ [f], fr_active := insert i (fr_active r)\<rparr>))"

definition releaseStreamFairness :: "nat \<Rightarrow> streamFairnessRegistry \<Rightarrow> streamFairnessRegistry" where
  "releaseStreamFairness i r = r\<lparr>fr_active := fr_active r - {i}\<rparr>"

definition setDelivery :: "nat \<Rightarrow> nat option \<Rightarrow> streamFairnessRegistry \<Rightarrow> streamFairnessRegistry" where
  "setDelivery i delivery r =
     (case delivery of None \<Rightarrow> r
      | Some d \<Rightarrow> r\<lparr>fr_all := (fr_all r)[i := (fr_all r ! i)\<lparr>sf_delivery := Some d\<rparr>]\<rparr>)"

definition flow_delivery :: "streamDelivery list \<Rightarrow> streamFairnessFlow \<Rightarrow> streamDelivery option" where
  "flow_delivery ds f = map_option (\<lambda>i. ds ! i) (sf_delivery f)"

definition flow_hasFirstByte :: "streamDelivery list \<Rightarrow> streamFairnessFlow \<Rightarrow> bool" where
  "flow_hasFirstByte ds f =
     (sf_bytesWritten f > 0 \<or>
      (case flow_delivery ds f of None \<Rightarrow> False | Some d \<Rightarrow> sd_firstWriteUnixNano d > 0))"

definition streamFairnessPressureWindow :: int where
  "streamFairnessPressureWindow = 10 * 1000000000"

definition flow_hasRecentReadWait :: "int \<Rightarrow> streamDelivery list \<Rightarrow> streamFairnessFlow \<Rightarrow> bool" where
  "flow_hasRecentReadWait now ds f =
     (case flow_delivery ds f of
        None \<Rightarrow> False
      | Some d \<Rightarrow> sd_readWaitsTotal d \<noteq> 0 \<and> sd_lastReadWaitNano d \<noteq> 0 \<and>
          time_sub now (sd_lastReadWaitNano d) \<le> streamFairnessPressureWindow)"

definition flow_hasRecentSevereReadWait :: "int \<Rightarrow> streamDelivery list \<Rightarrow> streamFairnessFlow \<Rightarrow> bool" where
  "flow_hasRecentSevereReadWait now ds f =
     (case flow_delivery ds f of
        None \<Rightarrow> False
      | Some d \<Rightarrow> sd_lastReadWaitMS d > 3000 \<and> sd_lastReadWaitNano d \<noteq> 0 \<and>
          time_sub now (sd_lastReadWaitNano d) \<le> streamFairnessPressureWindow)"

definition flow_hasClientBackpressure :: "streamDelivery list \<Rightarrow> streamFairnessFlow \<Rightarrow> bool" where
  "flow_hasClientBackpressure ds f =
     (case flow_delivery ds f of
        None \<Rightarrow> False
      | Some d \<Rightarrow> sd_slowWritesTotal d > 0 \<or> sd_writesOver3sTotal d > 0 \<or> sd_writesOver10sTotal d > 0)"

section \<open>Torrents\<close>

record streamFairnessTorrentState =
  ts_torrentID :: int
  ts_startedUnixNano :: int
  ts_bytesWritten :: int
  ts_activeStreams :: int
  ts_hasFirstByte :: bool
  ts_hasRecentReadWait :: bool
  ts_hasClientBackpressure :: bool
  ts_hasSevereReadWait :: bool

definition torrent_add :: "int \<Rightarrow> streamDelivery list \<Rightarrow> streamFairnessFlow \<Rightarrow> streamFairnessTorrentState \<Rightarrow> streamFairnessTorrentState" where
  "torrent_add now ds f s =
     s\<lparr>ts_activeStreams := i64 (ts_activeStreams s + 1),
       ts_bytesWritten := i64 (ts_bytesWritten s + sf_bytesWritten f),
       ts_startedUnixNano := (if sf_startedUnixNano f < ts_startedUnixNano s then sf_startedUnixNano f else ts_startedUnixNano s),
       ts_hasFirstByte := ts_hasFirstByte s \<or> flow_hasFirstByte ds f,
       ts_hasRecentReadWait := ts_hasRecentReadWait s \<or> flow_hasRecentReadWait now ds f,
       ts_hasClientBackpressure := ts_hasClientBackpressure s \<or> flow_hasClientBackpressure ds f,
       ts_hasSevereReadWait := ts_hasSevereReadWait s \<or> flow_hasRecentSevereReadWait now ds f\<rparr>"

definition new_torrent_state :: "streamFairnessFlow \<Rightarrow> streamFairnessTorrentState" where
  "new_torrent_state f = \<lparr>ts_torrentID = sf_torrentID f, ts_startedUnixNano = sf_startedUnixNano f, ts_bytesWritten = 0,
     ts_activeStreams = 0, ts_hasFirstByte = False, ts_hasRecentReadWait = False, ts_hasClientBackpressure = False,
     ts_hasSevereReadWait = False\<rparr>"

definition aggregate_flow ::
  "int \<Rightarrow> streamDelivery list \<Rightarrow> streamFairnessFlow \<Rightarrow> (int \<rightharpoonup> streamFairnessTorrentState) \<Rightarrow> (int \<rightharpoonup> streamFairnessTorrentState)" where
  "aggregate_flow now ds f m =
     (if sf_torrentID f = 0 then m
      else let a = (case m (sf_torrentID f) of None \<Rightarrow> new_torrent_state f | Some a \<Rightarrow> a)
           in m(sf_torrentID f \<mapsto> torrent_add now ds f a))"

text \<open>\<open>ord\<close> lists the active flows.\<close>

definition streamFairnessTorrentAggregates ::
  "int \<Rightarrow> nat list \<Rightarrow> streamDelivery list \<Rightarrow> streamFairnessRegistry \<Rightarrow> (int \<rightharpoonup> streamFairnessTorrentState)" where
  "streamFairnessTorrentAggregates now ord ds r = fold (\<lambda>i. aggregate_flow now ds (fr_all r ! i)) ord Map.empty"

definition matureBytesPerSecond :: "int \<Rightarrow> streamFairnessTorrentState \<Rightarrow> int \<times> bool" where
  "matureBytesPerSecond now s =
     (let elapsed = time_sub now (ts_startedUnixNano s)
      in if elapsed < 10 * 1000000000 \<or> ts_bytesWritten s < 16777216 then (0, False)
         else (bytesPerSecond (ts_bytesWritten s) elapsed, True))"

definition torrent_isMature :: "int \<Rightarrow> streamFairnessTorrentState \<Rightarrow> bool" where
  "torrent_isMature now s = snd (matureBytesPerSecond now s)"

definition torrent_bytesPerSecond :: "int \<Rightarrow> streamFairnessTorrentState \<Rightarrow> int" where
  "torrent_bytesPerSecond now s = bytesPerSecond (ts_bytesWritten s) (time_sub now (ts_startedUnixNano s))"

definition needsStartupProtection :: "int \<Rightarrow> streamFairnessTorrentState \<Rightarrow> bool" where
  "needsStartupProtection now s =
     (\<not> ts_hasClientBackpressure s \<and>
      (let elapsed = time_sub now (ts_startedUnixNano s)
       in \<not> (elapsed < 0 \<or> elapsed > 20 * 1000000000) \<and> \<not> torrent_isMature now s \<and>
          (\<not> ts_hasFirstByte s \<or> ts_hasRecentReadWait s)))"

definition needsStartupProtectionAfter ::
  "streamFairnessTorrentState \<Rightarrow> int \<Rightarrow> streamFairnessTorrentState \<Rightarrow> bool" where
  "needsStartupProtectionAfter current now s =
     (needsStartupProtection now s \<and>
      time_sub (ts_startedUnixNano s) (ts_startedUnixNano current) \<ge> 2 * 1000000000)"

text \<open>\<open>tord\<close> lists the torrents of the aggregates.\<close>

definition weaker :: "int \<Rightarrow> streamFairnessTorrentState option \<Rightarrow> streamFairnessTorrentState \<Rightarrow> streamFairnessTorrentState option" where
  "weaker now best a =
     (case best of None \<Rightarrow> Some a
      | Some b \<Rightarrow> if torrent_bytesPerSecond now a < torrent_bytesPerSecond now b then Some a else Some b)"

definition weakestMatureFairnessCandidate ::
  "int list \<Rightarrow> (int \<rightharpoonup> streamFairnessTorrentState) \<Rightarrow> int \<Rightarrow> int \<Rightarrow> streamFairnessTorrentState option" where
  "weakestMatureFairnessCandidate tord aggregates currentID now =
     fold (\<lambda>tid best. case aggregates tid of None \<Rightarrow> best
         | Some a \<Rightarrow> if tid = currentID \<or> \<not> torrent_isMature now a then best else weaker now best a) tord None"

definition younger :: "streamFairnessTorrentState option \<Rightarrow> streamFairnessTorrentState \<Rightarrow> streamFairnessTorrentState option" where
  "younger best a =
     (case best of None \<Rightarrow> Some a
      | Some b \<Rightarrow> if ts_startedUnixNano a > ts_startedUnixNano b then Some a else Some b)"

definition startupProtectionCandidate ::
  "int list \<Rightarrow> (int \<rightharpoonup> streamFairnessTorrentState) \<Rightarrow> streamFairnessTorrentState \<Rightarrow> int \<Rightarrow> int \<Rightarrow> streamFairnessTorrentState option" where
  "startupProtectionCandidate tord aggregates current currentID now =
     fold (\<lambda>tid best. case aggregates tid of None \<Rightarrow> best
         | Some a \<Rightarrow> if tid = currentID \<or> \<not> needsStartupProtectionAfter current now a then best else younger best a) tord None"

section \<open>The decision\<close>

record streamFairnessDelayDecision =
  fd_duration :: int
  fd_startupProtection :: bool

definition no_delay :: streamFairnessDelayDecision where
  "no_delay = \<lparr>fd_duration = 0, fd_startupProtection = False\<rparr>"

definition rateLimitedDelay ::
  "int \<Rightarrow> int \<Rightarrow> bool \<Rightarrow> streamFairnessFlow \<Rightarrow> streamFairnessDelayDecision \<times> streamFairnessFlow" where
  "rateLimitedDelay now delay startup f =
     (if sf_lastDelayNano f \<noteq> 0 \<and> time_sub now (sf_lastDelayNano f) < 5 * 1000000 then (no_delay, f)
      else (\<lparr>fd_duration = delay, fd_startupProtection = startup\<rparr>, f\<lparr>sf_lastDelayNano := now\<rparr>))"

text \<open>The orders of the visits: of the flows, and of the torrents in the two searches.\<close>

record visit_orders =
  vo_flows :: "nat list"
  vo_startup :: "int list"
  vo_weakest :: "int list"

definition fairnessDelay ::
  "int \<Rightarrow> visit_orders \<Rightarrow> streamDelivery list \<Rightarrow> streamFairnessRegistry \<Rightarrow> streamFairnessFlow
   \<Rightarrow> streamFairnessDelayDecision \<times> streamFairnessFlow" where
  "fairnessDelay now vo ds r f =
     (if int (card (fr_active r)) < 2 then (no_delay, f)
      else if sf_torrentID f = 0 then (no_delay, f)
      else let aggregates = streamFairnessTorrentAggregates now (vo_flows vo) ds r in
        case aggregates (sf_torrentID f) of
          None \<Rightarrow> (no_delay, f)
        | Some current \<Rightarrow>
            if int (card (dom aggregates)) < 2 then (no_delay, f)
            else let (currentBPS, ok) = matureBytesPerSecond now current in
              if \<not> ok \<or> currentBPS < 2097152 then (no_delay, f)
              else if ts_hasSevereReadWait current \<or> ts_hasClientBackpressure current then (no_delay, f)
              else if startupProtectionCandidate (vo_startup vo) aggregates current (sf_torrentID f) now \<noteq> None
              then rateLimitedDelay now 500000 True f
              else case weakestMatureFairnessCandidate (vo_weakest vo) aggregates (sf_torrentID f) now of
                  None \<Rightarrow> (no_delay, f)
                | Some weakest \<Rightarrow>
                    let (minBPS, ok) = matureBytesPerSecond now weakest in
                    if \<not> ok \<or> minBPS \<le> 0 \<or> ts_hasClientBackpressure weakest then (no_delay, f)
                    else if i64 (currentBPS * 2) \<le> i64 (minBPS * 3) then (no_delay, f)
                    else if i64 (currentBPS * 1) > i64 (minBPS * 2) then rateLimitedDelay now 750000 False f
                    else rateLimitedDelay now 250000 False f)"

definition flow_recordDelay :: "streamFairnessDelayDecision \<Rightarrow> streamFairnessFlow \<Rightarrow> streamFairnessFlow" where
  "flow_recordDelay d f =
     (let micros = microseconds (fd_duration d);
          f = f\<lparr>sf_delayedWrites := i64 (sf_delayedWrites f + 1),
                sf_delayTotalMicros := i64 (sf_delayTotalMicros f + micros),
                sf_maxDelayMicros := updateMaxAtomic (sf_maxDelayMicros f) micros\<rparr>
      in if fd_startupProtection d
         then f\<lparr>sf_startupProtectedWrites := i64 (sf_startupProtectedWrites f + 1)\<rparr> else f)"

definition total_recordDelay :: "streamFairnessDelayDecision \<Rightarrow> streamFairnessRegistry \<Rightarrow> streamFairnessRegistry" where
  "total_recordDelay d r =
     (let micros = microseconds (fd_duration d);
          r = r\<lparr>fr_delayedWritesTotal := i64 (fr_delayedWritesTotal r + 1),
                fr_delayTotalMicros := i64 (fr_delayTotalMicros r + micros),
                fr_maxDelayMicros := updateMaxAtomic (fr_maxDelayMicros r) micros\<rparr>
      in if fd_startupProtection d
         then r\<lparr>fr_startupProtectedWritesTotal := i64 (fr_startupProtectedWritesTotal r + 1),
                fr_startupProtectionDelayMicros := i64 (fr_startupProtectionDelayMicros r + micros)\<rparr>
         else r)"

text \<open>The result is the time slept, and the registry.\<close>

definition recordWriteAndMaybeDelay ::
  "int \<Rightarrow> visit_orders \<Rightarrow> streamDelivery list \<Rightarrow> nat \<Rightarrow> int \<Rightarrow> streamFairnessRegistry \<Rightarrow> int \<times> streamFairnessRegistry" where
  "recordWriteAndMaybeDelay now vo ds i bytesWritten r =
     (if bytesWritten \<le> 0 then (0, r)
      else let f = fr_all r ! i;
               f = f\<lparr>sf_writeCalls := i64 (sf_writeCalls f + 1), sf_bytesWritten := i64 (sf_bytesWritten f + bytesWritten)\<rparr>;
               r = r\<lparr>fr_all := (fr_all r)[i := f]\<rparr>;
               (d, f) = fairnessDelay now vo ds r f
           in if fd_duration d > 0
              then (fd_duration d, total_recordDelay d (r\<lparr>fr_all := (fr_all r)[i := flow_recordDelay d f]\<rparr>))
              else (0, r\<lparr>fr_all := (fr_all r)[i := f]\<rparr>))"

section \<open>Snapshot\<close>

record activeStreamFairnessRecord =
  fs_TorrentID :: int
  fs_ID :: int
  fs_ElapsedMS :: int
  fs_BytesWritten :: int
  fs_BytesPerSecond :: int
  fs_WriteCalls :: int
  fs_DelayedWritesTotal :: int
  fs_DelayTotalMicros :: int
  fs_MaxDelayMicros :: int
  fs_StartupProtected :: int

definition fairnessSnapshot :: "int \<Rightarrow> streamFairnessFlow \<Rightarrow> activeStreamFairnessRecord" where
  "fairnessSnapshot now f =
     (let elapsed = time_sub now (sf_startedUnixNano f)
      in \<lparr>fs_TorrentID = sf_torrentID f, fs_ID = sf_id f, fs_ElapsedMS = milliseconds elapsed,
          fs_BytesWritten = sf_bytesWritten f, fs_BytesPerSecond = bytesPerSecond (sf_bytesWritten f) elapsed,
          fs_WriteCalls = sf_writeCalls f, fs_DelayedWritesTotal = sf_delayedWrites f,
          fs_DelayTotalMicros = sf_delayTotalMicros f, fs_MaxDelayMicros = sf_maxDelayMicros f,
          fs_StartupProtected = sf_startupProtectedWrites f\<rparr>)"

definition countStartupProtectedTorrents :: "(int \<rightharpoonup> streamFairnessTorrentState) \<Rightarrow> int \<Rightarrow> int" where
  "countStartupProtectedTorrents aggregates now =
     int (card {tid \<in> dom aggregates. needsStartupProtection now (the (aggregates tid))})"

record streamFairnessSnapshot =
  fp_ActiveStreams :: int
  fp_ActiveUniqueTorrents :: int
  fp_ExtraSameTorrentStreams :: int
  fp_DelayedWritesTotal :: int
  fp_DelayTotalMicros :: int
  fp_MaxDelayMicros :: int
  fp_StartupProtectedWrites :: int
  fp_StartupProtectionDelay :: int
  fp_StartupProtectionActive :: int
  fp_StartupProtectionWindow :: int
  fp_Streams :: "activeStreamFairnessRecord list"

definition SnapshotStreamFairness :: "int \<Rightarrow> nat list \<Rightarrow> streamDelivery list \<Rightarrow> streamFairnessRegistry \<Rightarrow> streamFairnessSnapshot" where
  "SnapshotStreamFairness now ord ds r =
     (let aggregates = streamFairnessTorrentAggregates now ord ds r; n = int (card (fr_active r)); t = int (card (dom aggregates))
      in \<lparr>fp_ActiveStreams = n, fp_ActiveUniqueTorrents = t, fp_ExtraSameTorrentStreams = n - t,
          fp_DelayedWritesTotal = fr_delayedWritesTotal r, fp_DelayTotalMicros = fr_delayTotalMicros r,
          fp_MaxDelayMicros = fr_maxDelayMicros r, fp_StartupProtectedWrites = fr_startupProtectedWritesTotal r,
          fp_StartupProtectionDelay = fr_startupProtectionDelayMicros r,
          fp_StartupProtectionActive = countStartupProtectedTorrents aggregates now,
          fp_StartupProtectionWindow = 20000,
          fp_Streams = map (\<lambda>i. fairnessSnapshot now (fr_all r ! i)) (take 64 ord)\<rparr>)"

section \<open>Who is held back\<close>

lemma weakest_fold:
  assumes "fold (\<lambda>tid best. case aggregates tid of None \<Rightarrow> best
      | Some a \<Rightarrow> if tid = currentID \<or> \<not> torrent_isMature now a then best else weaker now best a) tord best = Some w"
  shows "(best = Some w \<or> (\<exists>tid \<in> set tord. tid \<noteq> currentID \<and> aggregates tid = Some w \<and> torrent_isMature now w))
    \<and> (\<forall>b. best = Some b \<longrightarrow> torrent_bytesPerSecond now w \<le> torrent_bytesPerSecond now b)
    \<and> (\<forall>tid \<in> set tord. \<forall>a. tid \<noteq> currentID \<and> aggregates tid = Some a \<and> torrent_isMature now a
        \<longrightarrow> torrent_bytesPerSecond now w \<le> torrent_bytesPerSecond now a)"
  using assms
proof (induction tord arbitrary: best)
  case (Cons tid tord)
  define b' where "b' = (case aggregates tid of None \<Rightarrow> best
      | Some a \<Rightarrow> if tid = currentID \<or> \<not> torrent_isMature now a then best else weaker now best a)"
  have IH: "(b' = Some w \<or> (\<exists>tid \<in> set tord. tid \<noteq> currentID \<and> aggregates tid = Some w \<and> torrent_isMature now w))
    \<and> (\<forall>b. b' = Some b \<longrightarrow> torrent_bytesPerSecond now w \<le> torrent_bytesPerSecond now b)
    \<and> (\<forall>tid \<in> set tord. \<forall>a. tid \<noteq> currentID \<and> aggregates tid = Some a \<and> torrent_isMature now a
        \<longrightarrow> torrent_bytesPerSecond now w \<le> torrent_bytesPerSecond now a)"
    using Cons.IH [of b'] Cons.prems by (simp add: b'_def)
  show ?case
  proof (cases "\<exists>a. aggregates tid = Some a \<and> tid \<noteq> currentID \<and> torrent_isMature now a")
    case True
    then obtain a where a: "aggregates tid = Some a" "tid \<noteq> currentID" "torrent_isMature now a" by blast
    then have b': "b' = weaker now best a" by (simp add: b'_def)
    show ?thesis using IH a unfolding b' weaker_def by (auto split: option.splits if_splits)
  next
    case False
    then have "b' = best" by (auto simp: b'_def split: option.split)
    then show ?thesis using IH False by auto
  qed
qed simp

lemma startup_fold:
  assumes "fold (\<lambda>tid best. case aggregates tid of None \<Rightarrow> best
      | Some a \<Rightarrow> if tid = currentID \<or> \<not> needsStartupProtectionAfter current now a then best else younger best a) tord best = b'"
  shows "b' = best \<and> (\<forall>tid \<in> set tord. \<forall>a. aggregates tid = Some a \<longrightarrow> tid = currentID \<or> \<not> needsStartupProtectionAfter current now a \<or> b' \<noteq> None)
   \<or> (\<exists>tid \<in> set tord. \<exists>a. aggregates tid = Some a \<and> tid \<noteq> currentID \<and> needsStartupProtectionAfter current now a \<and> b' = Some a)"
  using assms
proof (induction tord arbitrary: best)
  case (Cons tid tord)
  obtain m where m: "(case aggregates tid of None \<Rightarrow> best
      | Some a \<Rightarrow> if tid = currentID \<or> \<not> needsStartupProtectionAfter current now a then best else younger best a) = m" by blast
  then have "m = best \<and> (\<forall>a. aggregates tid = Some a \<longrightarrow> tid = currentID \<or> \<not> needsStartupProtectionAfter current now a \<or> m \<noteq> None)
   \<or> (\<exists>a. aggregates tid = Some a \<and> tid \<noteq> currentID \<and> needsStartupProtectionAfter current now a \<and> m = Some a)"
    by (cases "aggregates tid"; cases best) (auto simp: younger_def split: if_splits)
  then show ?case using Cons.IH [of m] Cons.prems m by auto
qed simp

lemma seconds_ge_10: "10000000000 \<le> e \<Longrightarrow> 10 \<le> duration_seconds e"
proof -
  assume e: "10000000000 \<le> e"
  have "(10 :: rat) \<le> float64 (of_int (go_div e 1000000000))"
  proof -
    have "10 \<le> go_div e 1000000000" using e by (simp add: go_div_pos)
    then have "(of_int 10 :: rat) \<le> of_int (go_div e 1000000000)" by (simp only: of_int_le_iff)
    then have "float64 10 \<le> float64 (of_int (go_div e 1000000000))" by (intro float64_mono) simp_all
    then show ?thesis using float64_int [of 10] by simp
  qed
  moreover have "0 \<le> float64 (of_int (go_mod e 1000000000) / 1000000000)"
  proof -
    have "0 \<le> go_mod e 1000000000" using e by (simp add: go_mod_pos)
    then have "float64 0 \<le> float64 (of_int (go_mod e 1000000000) / 1000000000)" by (intro float64_mono) simp_all
    then show ?thesis by simp
  qed
  ultimately have "float64 10 \<le> duration_seconds e" unfolding duration_seconds_def by (intro float64_mono) auto
  then show ?thesis using float64_int [of 10] by simp
qed

lemma bytesPerSecond_bound:
  assumes "10000000000 \<le> e" "0 \<le> b" "b \<le> 9223372036854775808"
  shows "0 \<le> bytesPerSecond b e" "bytesPerSecond b e \<le> 1152921504606846976"
proof -
  let ?q = "float64 (of_int b) / duration_seconds e" and ?top = "1152921504606846976 :: rat"
  have sec: "10 \<le> duration_seconds e" by (rule seconds_ge_10 [OF assms(1)])
  have "(of_int b :: rat) \<le> of_int 9223372036854775808" using assms(3) by (simp only: of_int_le_iff)
  then have "float64 (of_int b) \<le> float64 9223372036854775808" using assms(2) by (intro float64_mono) simp_all
  also have "float64 9223372036854775808 = 9223372036854775808" by (rule float64_exact [of 1 _ 63]) simp_all
  finally have b: "float64 (of_int b) \<le> 9223372036854775808" .
  have b0: "0 \<le> float64 (of_int b)" using float64_mono [of 0 "of_int b"] assms(2) by simp
  have q0: "0 \<le> ?q" using b0 sec by simp
  have "?q \<le> 9223372036854775808 / 10" using b b0 sec by (intro frac_le) auto
  also have "\<dots> \<le> ?top" by simp
  finally have "?q \<le> ?top" .
  then have "float64 ?q \<le> float64 ?top" using q0 by (intro float64_mono)
  also have "float64 ?top = ?top" by (rule float64_exact [of 1 _ 60]) simp_all
  finally have top: "float64 ?q \<le> ?top" .
  have low: "0 \<le> float64 ?q" using float64_mono [of 0 ?q] q0 by simp
  have f: "0 \<le> \<lfloor>float64 ?q\<rfloor>" "\<lfloor>float64 ?q\<rfloor> \<le> 1152921504606846976"
    using low top floor_mono [OF top] by simp_all
  then have "bytesPerSecond b e = \<lfloor>float64 ?q\<rfloor>"
    using assms(1) low by (simp add: bytesPerSecond_def int64_of_float_def Let_def fits_i64_def)
  then show "0 \<le> bytesPerSecond b e" "bytesPerSecond b e \<le> 1152921504606846976" using f by simp_all
qed

lemma mature_bound:
  assumes "matureBytesPerSecond now s = (bps, True)" "fits_i64 (ts_bytesWritten s)"
  shows "bps = torrent_bytesPerSecond now s" "0 \<le> bps" "bps \<le> 1152921504606846976" "torrent_isMature now s"
proof -
  have e: "10000000000 \<le> time_sub now (ts_startedUnixNano s)" "16777216 \<le> ts_bytesWritten s"
    and bps: "bps = bytesPerSecond (ts_bytesWritten s) (time_sub now (ts_startedUnixNano s))"
    using assms(1) by (auto simp: matureBytesPerSecond_def Let_def split: if_splits)
  show "bps = torrent_bytesPerSecond now s" by (simp add: bps torrent_bytesPerSecond_def)
  show "0 \<le> bps" "bps \<le> 1152921504606846976"
    using bytesPerSecond_bound [OF e(1), of "ts_bytesWritten s"] e(2) assms(2) by (auto simp: bps fits_i64_def)
  show "torrent_isMature now s" by (simp add: torrent_isMature_def assms(1))
qed

lemma aggregate_fits:
  "streamFairnessTorrentAggregates now ord ds r tid = Some a \<Longrightarrow> fits_i64 (ts_bytesWritten a)"
proof -
  have "\<forall>tid a. m tid = Some a \<longrightarrow> fits_i64 (ts_bytesWritten a) \<Longrightarrow>
     fold (\<lambda>i. aggregate_flow now ds (fr_all r ! i)) ord m tid = Some a \<Longrightarrow> fits_i64 (ts_bytesWritten a)" for m
  proof (induction ord arbitrary: m)
    case (Cons i ord)
    have "\<forall>tid a. aggregate_flow now ds (fr_all r ! i) m tid = Some a \<longrightarrow> fits_i64 (ts_bytesWritten a)"
      using Cons.prems(1) by (simp add: aggregate_flow_def Let_def torrent_add_def i64_in_range)
    then show ?case using Cons by simp
  qed simp
  then show "streamFairnessTorrentAggregates now ord ds r tid = Some a \<Longrightarrow> fits_i64 (ts_bytesWritten a)"
    unfolding streamFairnessTorrentAggregates_def by fastforce
qed

lemma rate_limited_duration:
  "rateLimitedDelay now delay st f = (d, f') \<Longrightarrow> 0 < fd_duration d \<Longrightarrow> d = \<lparr>fd_duration = delay, fd_startupProtection = st\<rparr>"
  by (auto simp: rateLimitedDelay_def no_delay_def split: if_splits)

text \<open>
  Property C24. Only a fast torrent is held back, and only for a weaker one: when a write is delayed, at least two torrents are
  streamed, the writer's torrent is mature, runs at 2 MiB per second or more and is neither short of data nor slowed
  down by its client; and either another torrent that started at least two seconds later is still
  starting, for which the delay is half a millisecond, or no visited torrent is starting and the slowest visited mature
  torrent, not slowed down by its own client, is more than a third slower: the delay is 750
  microseconds if it has less than half the speed, and 250 otherwise.
\<close>

theorem delay_is_justified:
  assumes "fairnessDelay now vo ds r f = (d, f')" "0 < fd_duration d"
    "ag = streamFairnessTorrentAggregates now (vo_flows vo) ds r"
  shows "2 \<le> card (dom ag) \<and> (\<exists>current. ag (sf_torrentID f) = Some current \<and> torrent_isMature now current
    \<and> 2097152 \<le> torrent_bytesPerSecond now current \<and> \<not> ts_hasSevereReadWait current \<and> \<not> ts_hasClientBackpressure current
    \<and> (if fd_startupProtection d
       then fd_duration d = 500000 \<and> (\<exists>tid s. tid \<noteq> sf_torrentID f \<and> ag tid = Some s \<and> needsStartupProtectionAfter current now s)
       else (\<forall>tid \<in> set (vo_startup vo). \<forall>s. tid \<noteq> sf_torrentID f \<and> ag tid = Some s \<longrightarrow> \<not> needsStartupProtectionAfter current now s)
         \<and> (\<exists>tid s. tid \<noteq> sf_torrentID f \<and> ag tid = Some s \<and> torrent_isMature now s \<and> \<not> ts_hasClientBackpressure s
             \<and> 3 * torrent_bytesPerSecond now s < 2 * torrent_bytesPerSecond now current
             \<and> fd_duration d = (if 2 * torrent_bytesPerSecond now s < torrent_bytesPerSecond now current then 750000 else 250000)
             \<and> (\<forall>tid' \<in> set (vo_weakest vo). \<forall>a. tid' \<noteq> sf_torrentID f \<and> ag tid' = Some a \<and> torrent_isMature now a
                  \<longrightarrow> torrent_bytesPerSecond now s \<le> torrent_bytesPerSecond now a))))"
proof -
  define id where "id = sf_torrentID f"
  have "fd_duration no_delay = 0" by (simp add: no_delay_def)
  then obtain current where cur: "ag id = Some current" and two: "2 \<le> int (card (dom ag))"
    using assms(1,2) unfolding fairnessDelay_def assms(3) [symmetric] Let_def id_def
    by (auto split: if_splits option.splits simp: not_less)
  obtain bps ok where m: "matureBytesPerSecond now current = (bps, ok)" by fastforce
  define rest where "rest = (if startupProtectionCandidate (vo_startup vo) ag current id now \<noteq> None
              then rateLimitedDelay now 500000 True f
              else case weakestMatureFairnessCandidate (vo_weakest vo) ag id now of
                  None \<Rightarrow> (no_delay, f)
                | Some weakest \<Rightarrow>
                    let (minBPS, ok) = matureBytesPerSecond now weakest in
                    if \<not> ok \<or> minBPS \<le> 0 \<or> ts_hasClientBackpressure weakest then (no_delay, f)
                    else if i64 (bps * 2) \<le> i64 (minBPS * 3) then (no_delay, f)
                    else if i64 (bps * 1) > i64 (minBPS * 2) then rateLimitedDelay now 750000 False f
                    else rateLimitedDelay now 250000 False f)"
  have dec: "rest = (d, f')" and ok: ok "2097152 \<le> bps" "\<not> ts_hasSevereReadWait current" "\<not> ts_hasClientBackpressure current"
    using assms(1,2) cur m \<open>fd_duration no_delay = 0\<close>
    unfolding fairnessDelay_def assms(3) [symmetric] Let_def rest_def id_def
    by (auto split: if_splits simp: not_less)
  have fits: "fits_i64 (ts_bytesWritten a)" if "ag tid = Some a" for tid a
    using aggregate_fits that unfolding assms(3) .
  note cb = mature_bound [OF m [unfolded eqTrueI [OF ok(1)]] fits [OF cur]]
  have "if fd_startupProtection d
       then fd_duration d = 500000 \<and> (\<exists>tid s. tid \<noteq> id \<and> ag tid = Some s \<and> needsStartupProtectionAfter current now s)
       else (\<forall>tid \<in> set (vo_startup vo). \<forall>s. tid \<noteq> id \<and> ag tid = Some s \<longrightarrow> \<not> needsStartupProtectionAfter current now s)
         \<and> (\<exists>tid s. tid \<noteq> id \<and> ag tid = Some s \<and> torrent_isMature now s \<and> \<not> ts_hasClientBackpressure s
             \<and> 3 * torrent_bytesPerSecond now s < 2 * torrent_bytesPerSecond now current
             \<and> fd_duration d = (if 2 * torrent_bytesPerSecond now s < torrent_bytesPerSecond now current then 750000 else 250000)
             \<and> (\<forall>tid' \<in> set (vo_weakest vo). \<forall>a. tid' \<noteq> id \<and> ag tid' = Some a \<and> torrent_isMature now a
                  \<longrightarrow> torrent_bytesPerSecond now s \<le> torrent_bytesPerSecond now a))"
  proof (cases "startupProtectionCandidate (vo_startup vo) ag current id now")
    case (Some s)
    then have "d = \<lparr>fd_duration = 500000, fd_startupProtection = True\<rparr>"
      using dec assms(2) by (simp add: rest_def) (rule rate_limited_duration)
    then show ?thesis using startup_fold [OF Some [unfolded startupProtectionCandidate_def]] by auto
  next
    case None
    then obtain w where w: "weakestMatureFairnessCandidate (vo_weakest vo) ag id now = Some w"
      using dec assms(2) \<open>fd_duration no_delay = 0\<close> by (auto simp: rest_def split: option.splits)
    obtain mb ok' where mw: "matureBytesPerSecond now w = (mb, ok')" by fastforce
    have cond: ok' "0 < mb" "\<not> ts_hasClientBackpressure w" "\<not> i64 (bps * 2) \<le> i64 (mb * 3)"
      and dec2: "(if i64 (bps * 1) > i64 (mb * 2) then rateLimitedDelay now 750000 False f
                  else rateLimitedDelay now 250000 False f) = (d, f')"
      using dec None w mw assms(2) \<open>fd_duration no_delay = 0\<close> by (auto simp: rest_def split: if_splits)
    have d: "d = \<lparr>fd_duration = (if i64 (bps * 1) > i64 (mb * 2) then 750000 else 250000), fd_startupProtection = False\<rparr>"
      using dec2 rate_limited_duration [OF _ assms(2)] by (auto split: if_splits)
    obtain tid where tid: "tid \<noteq> id" "ag tid = Some w"
      using weakest_fold [OF w [unfolded weakestMatureFairnessCandidate_def]] by auto
    note wb = mature_bound [OF mw [unfolded eqTrueI [OF cond(1)]] fits [OF tid(2)]]
    have small: "i64 (bps * 2) = bps * 2" "i64 (bps * 1) = bps" "i64 (mb * 3) = mb * 3" "i64 (mb * 2) = mb * 2"
      using cb(2,3) wb(2,3) by (auto intro!: i64_id simp: fits_i64_def)
    have "3 * torrent_bytesPerSecond now w < 2 * torrent_bytesPerSecond now current"
      using cond(4) [unfolded small] unfolding cb(1) wb(1) by linarith
    moreover have "fd_duration d = (if 2 * torrent_bytesPerSecond now w < torrent_bytesPerSecond now current then 750000 else 250000)"
    proof -
      have "fd_duration d = (if mb * 2 < bps then 750000 else 250000)" unfolding d small by simp
      then show ?thesis unfolding cb(1) wb(1) by (simp add: mult.commute)
    qed
    moreover have "\<not> fd_startupProtection d" by (simp add: d)
    ultimately show ?thesis
      using tid wb(4) cond(3) startup_fold [OF None [unfolded startupProtectionCandidate_def]]
        weakest_fold [OF w [unfolded weakestMatureFairnessCandidate_def]] by auto
  qed
  then show ?thesis using cur two ok cb unfolding id_def by auto
qed

definition demo_flow :: "int \<Rightarrow> int \<Rightarrow> int \<Rightarrow> streamFairnessFlow" where
  "demo_flow tid started bytes = \<lparr>sf_id = tid, sf_torrentID = tid, sf_startedUnixNano = started, sf_delivery = None,
     sf_lastDelayNano = 0, sf_bytesWritten = bytes, sf_writeCalls = 1, sf_delayedWrites = 0,
     sf_delayTotalMicros = 0, sf_maxDelayMicros = 0, sf_startupProtectedWrites = 0\<rparr>"

definition demo_fairness :: streamFairnessRegistry where
  "demo_fairness = empty_fairness\<lparr>fr_all := [demo_flow 1 1000000000 83886080, demo_flow 2 20000000000 0], fr_active := {0, 1}\<rparr>"

definition demo_orders :: visit_orders where
  "demo_orders = \<lparr>vo_flows = [0, 1], vo_startup = [1, 2], vo_weakest = [2, 1]\<rparr>"

lemma demo_bps: "bytesPerSecond 83886080 20000000000 = 4194304"
proof -
  have "duration_seconds 20000000000 = 20"
    using float64_int [of 20] by (simp add: duration_seconds_def go_div_pos go_mod_pos)
  then show ?thesis using float64_int [of 83886080] float64_int [of 4194304]
    by (simp add: bytesPerSecond_def int64_of_float_def fits_i64_def)
qed

lemma demo_aggregates:
  "streamFairnessTorrentAggregates 21000000000 [0, 1] [] demo_fairness =
     [1 \<mapsto> \<lparr>ts_torrentID = 1, ts_startedUnixNano = 1000000000, ts_bytesWritten = 83886080, ts_activeStreams = 1,
        ts_hasFirstByte = True, ts_hasRecentReadWait = False, ts_hasClientBackpressure = False, ts_hasSevereReadWait = False\<rparr>,
      2 \<mapsto> \<lparr>ts_torrentID = 2, ts_startedUnixNano = 20000000000, ts_bytesWritten = 0, ts_activeStreams = 1,
        ts_hasFirstByte = False, ts_hasRecentReadWait = False, ts_hasClientBackpressure = False, ts_hasSevereReadWait = False\<rparr>]"
  by (simp add: streamFairnessTorrentAggregates_def demo_fairness_def demo_flow_def aggregate_flow_def torrent_add_def
      new_torrent_state_def flow_hasFirstByte_def flow_hasRecentReadWait_def flow_hasClientBackpressure_def
      flow_hasRecentSevereReadWait_def flow_delivery_def i64_id fits_i64_def)

lemma demo_delay:
  "fairnessDelay 21000000000 demo_orders [] demo_fairness (demo_flow 1 1000000000 83886080) =
     (\<lparr>fd_duration = 500000, fd_startupProtection = True\<rparr>, (demo_flow 1 1000000000 83886080)\<lparr>sf_lastDelayNano := 21000000000\<rparr>)"
proof -
  have "card (fr_active demo_fairness) = 2" by (simp add: demo_fairness_def)
  then show ?thesis
    by (simp add: fairnessDelay_def demo_orders_def demo_aggregates [unfolded One_nat_def] Let_def matureBytesPerSecond_def time_sub_def demo_bps
        startupProtectionCandidate_def needsStartupProtectionAfter_def needsStartupProtection_def torrent_isMature_def
        younger_def rateLimitedDelay_def demo_flow_def)
qed

theorem delay_is_justified_witness:
  "2 \<le> card (dom (streamFairnessTorrentAggregates 21000000000 [0, 1] [] demo_fairness))
   \<and> (\<exists>tid s. tid \<noteq> 1 \<and> streamFairnessTorrentAggregates 21000000000 [0, 1] [] demo_fairness tid = Some s)"
proof -
  have "sf_torrentID (demo_flow 1 1000000000 83886080) = 1" "vo_flows demo_orders = [0, 1]"
    by (simp_all add: demo_flow_def demo_orders_def)
  then show ?thesis using delay_is_justified [OF demo_delay _ refl] by auto
qed

section \<open>How much is held back\<close>

text \<open>
  The writes of one stream, each with its time, the orders of the visits, the delivery records, what the other streams did to
  the registry since the last one, and its size. The result is the time slept in total.
\<close>

record flow_write =
  fw_now :: int
  fw_orders :: visit_orders
  fw_deliveries :: "streamDelivery list"
  fw_others :: "streamFairnessRegistry \<Rightarrow> streamFairnessRegistry"
  fw_bytes :: int

primrec flow_sleeps :: "nat \<Rightarrow> flow_write list \<Rightarrow> streamFairnessRegistry \<Rightarrow> int" where
  "flow_sleeps i [] r = 0"
| "flow_sleeps i (e # es) r =
     (let (t, r) = recordWriteAndMaybeDelay (fw_now e) (fw_orders e) (fw_deliveries e) i (fw_bytes e) (fw_others e r)
      in t + flow_sleeps i es r)"

lemma fairnessDelay_limit:
  assumes "fairnessDelay now vo ds r f = (d, f')"
  shows "fd_duration d = 0 \<and> f' = f
    \<or> 0 < fd_duration d \<and> fd_duration d \<le> 750000 \<and> f' = f\<lparr>sf_lastDelayNano := now\<rparr>
      \<and> (sf_lastDelayNano f = 0 \<or> 5000000 \<le> time_sub now (sf_lastDelayNano f))"
proof -
  have limited: "fd_duration d = 0 \<and> f' = f
    \<or> 0 < fd_duration d \<and> fd_duration d \<le> 750000 \<and> f' = f\<lparr>sf_lastDelayNano := now\<rparr>
      \<and> (sf_lastDelayNano f = 0 \<or> 5000000 \<le> time_sub now (sf_lastDelayNano f))"
    if "rateLimitedDelay now delay st f = (d, f')" "0 < delay" "delay \<le> 750000" for delay st
    using that by (auto simp: rateLimitedDelay_def no_delay_def split: if_splits)
  show ?thesis using assms unfolding fairnessDelay_def Let_def
    by (auto simp: no_delay_def dest!: limited split: if_splits option.splits prod.splits)
qed

lemma write_limit:
  assumes "recordWriteAndMaybeDelay now vo ds i n r = (t, r')" "i < length (fr_all r)"
  defines "prev \<equiv> sf_lastDelayNano (fr_all r ! i)"
  shows "i < length (fr_all r') \<and> (t = 0 \<and> sf_lastDelayNano (fr_all r' ! i) = prev
    \<or> 0 < t \<and> t \<le> 750000 \<and> sf_lastDelayNano (fr_all r' ! i) = now \<and> (prev = 0 \<or> 5000000 \<le> time_sub now prev))"
proof (cases "n \<le> 0")
  case True
  then show ?thesis using assms by (auto simp: recordWriteAndMaybeDelay_def)
next
  case False
  define f where "f = (fr_all r ! i)\<lparr>sf_writeCalls := i64 (sf_writeCalls (fr_all r ! i) + 1),
    sf_bytesWritten := i64 (sf_bytesWritten (fr_all r ! i) + n)\<rparr>"
  obtain d f' where d: "fairnessDelay now vo ds (r\<lparr>fr_all := (fr_all r)[i := f]\<rparr>) f = (d, f')" by fastforce
  have "sf_lastDelayNano f = prev" by (simp add: f_def prev_def)
  moreover have "sf_lastDelayNano (flow_recordDelay d f') = sf_lastDelayNano f'" "fr_all (total_recordDelay d q) = fr_all q" for q
    by (simp_all add: flow_recordDelay_def total_recordDelay_def Let_def)
  ultimately show ?thesis using assms(1,2) False d fairnessDelay_limit [OF d]
    by (auto simp: recordWriteAndMaybeDelay_def Let_def f_def split: if_splits)
qed

definition others_keep :: "nat \<Rightarrow> flow_write \<Rightarrow> bool" where
  "others_keep i e \<longleftrightarrow> (\<forall>r. i < length (fr_all r) \<longrightarrow>
     i < length (fr_all (fw_others e r)) \<and> fr_all (fw_others e r) ! i = fr_all r ! i)"

lemma sleeps_after:
  assumes "\<forall>e \<in> set es. others_keep i e \<and> 0 < fw_now e \<and> fw_now e \<le> T \<and> fw_now e < 9223372036854775808"
    "i < length (fr_all r)" "0 < sf_lastDelayNano (fr_all r ! i)" "sf_lastDelayNano (fr_all r ! i) \<le> T"
  shows "20 * flow_sleeps i es r \<le> 3 * (T - sf_lastDelayNano (fr_all r ! i))"
  using assms
proof (induction es arbitrary: r)
  case (Cons e es)
  let ?last = "sf_lastDelayNano (fr_all r ! i)"
  obtain t r' where w: "recordWriteAndMaybeDelay (fw_now e) (fw_orders e) (fw_deliveries e) i (fw_bytes e) (fw_others e r) = (t, r')"
    by fastforce
  have keep: "i < length (fr_all (fw_others e r))" "fr_all (fw_others e r) ! i = fr_all r ! i"
    using Cons.prems(1,2) by (auto simp: others_keep_def)
  have lim: "i < length (fr_all r')" "t = 0 \<and> sf_lastDelayNano (fr_all r' ! i) = ?last
    \<or> 0 < t \<and> t \<le> 750000 \<and> sf_lastDelayNano (fr_all r' ! i) = fw_now e \<and> (?last = 0 \<or> 5000000 \<le> time_sub (fw_now e) ?last)"
    using write_limit [OF w keep(1)] keep(2) by auto
  have e: "0 < fw_now e" "fw_now e \<le> T" using Cons.prems(1) by auto
  have IH: "20 * flow_sleeps i es r' \<le> 3 * (T - sf_lastDelayNano (fr_all r' ! i))"
    using Cons.prems lim e by (intro Cons.IH) auto
  have sum: "flow_sleeps i (e # es) r = t + flow_sleeps i es r'" by (simp add: w)
  show ?case
  proof (cases "t = 0")
    case True
    then show ?thesis using IH lim(2) sum by auto
  next
    case False
    then have d: "5000000 + ?last \<le> fw_now e" "t \<le> 750000" "sf_lastDelayNano (fr_all r' ! i) = fw_now e"
      using lim(2) Cons.prems(3) by (auto simp: time_sub_def)
    have "20 * flow_sleeps i es r' \<le> 3 * T - 3 * fw_now e" using IH d(3) by simp
    then show ?thesis using d(1,2) unfolding sum distrib_left right_diff_distrib by linarith
  qed
qed simp

text \<open>
  Property C25. The price of fairness is bounded: whatever the other streams do, a stream that writes between the times
  \<open>T0\<close> and \<open>T\<close> sleeps at most 15 percent of the time between them and of five milliseconds more.
\<close>

theorem delay_budget:
  assumes "\<forall>e \<in> set es. others_keep i e \<and> T0 \<le> fw_now e \<and> fw_now e \<le> T" "0 < T0" "T0 \<le> T" "T < 9223372036854775808"
    "i < length (fr_all r)" "sf_lastDelayNano (fr_all r ! i) = 0"
  shows "20 * flow_sleeps i es r \<le> 3 * (T - T0 + 5000000)"
  using assms
proof (induction es arbitrary: r)
  case (Cons e es)
  obtain t r' where w: "recordWriteAndMaybeDelay (fw_now e) (fw_orders e) (fw_deliveries e) i (fw_bytes e) (fw_others e r) = (t, r')"
    by fastforce
  have keep: "i < length (fr_all (fw_others e r))" "fr_all (fw_others e r) ! i = fr_all r ! i"
    using Cons.prems(1,5) by (auto simp: others_keep_def)
  have lim: "i < length (fr_all r')" "t = 0 \<and> sf_lastDelayNano (fr_all r' ! i) = 0
    \<or> 0 < t \<and> t \<le> 750000 \<and> sf_lastDelayNano (fr_all r' ! i) = fw_now e"
    using write_limit [OF w keep(1)] keep(2) Cons.prems(6) by auto
  have sum: "flow_sleeps i (e # es) r = t + flow_sleeps i es r'" by (simp add: w)
  show ?case
  proof (cases "t = 0")
    case True
    then have "sf_lastDelayNano (fr_all r' ! i) = 0" using lim(2) by auto
    then show ?thesis using Cons.IH [OF _ Cons.prems(2-4) lim(1)] Cons.prems(1) sum True by simp
  next
    case False
    then have last: "sf_lastDelayNano (fr_all r' ! i) = fw_now e" "t \<le> 750000" using lim(2) by auto
    have "20 * flow_sleeps i es r' \<le> 3 * (T - sf_lastDelayNano (fr_all r' ! i))"
      using Cons.prems lim(1) last by (intro sleeps_after) auto
    then have "20 * flow_sleeps i es r' \<le> 3 * T - 3 * fw_now e" using last(1) by simp
    moreover have "T0 \<le> fw_now e" using Cons.prems(1) by simp
    ultimately show ?thesis using last(2) unfolding sum distrib_left right_diff_distrib by linarith
  qed
qed simp

theorem delay_budget_witness:
  "20 * flow_sleeps 0 [\<lparr>fw_now = 21000000000, fw_orders = demo_orders, fw_deliveries = [], fw_others = (\<lambda>r. r), fw_bytes = 5\<rparr>,
      \<lparr>fw_now = 21004000000, fw_orders = demo_orders, fw_deliveries = [], fw_others = releaseStreamFairness 1, fw_bytes = 5\<rparr>]
     demo_fairness \<le> 3 * (21004000000 - 21000000000 + 5000000)"
  by (rule delay_budget)
    (simp_all add: others_keep_def releaseStreamFairness_def demo_fairness_def demo_flow_def)

end
