(* ===== verification/Stream_Policy.thy ===== *)
theory Stream_Policy
  imports Stream_Admission Stream_Fairness
begin

text \<open>
  The policies around a playback: connections and trackers (torr/connection_policy.go, btserver_config.go),
  read-ahead and time-outs (torrent.go, torrent_playback.go, stream_http.go), the start offset of a range
  request and the warm-up of a reader (stream_http.go), the boost of the peer search
  (peer_acquisition.go) and the sizes of a preload (preload.go).
\<close>

section \<open>Connections\<close>

definition effectiveEstablishedConns :: "int \<Rightarrow> int \<Rightarrow> int" where
  "effectiveEstablishedConns userLimit defaultConns =
     (let defaultConns = (if defaultConns \<le> 0 then 50 else defaultConns)
      in if userLimit \<le> 0 then defaultConns else userLimit)"

definition peerWatermarks :: "int \<Rightarrow> int \<times> int" where
  "peerWatermarks effectiveConns =
     (let effectiveConns = (if effectiveConns \<le> 0 then 25 else effectiveConns);
          low = maxInt (i64 (effectiveConns * 2)) 50; high = maxInt (i64 (effectiveConns * 10)) 500;
          high = (if high < i64 (low + 50) then i64 (low + 50) else high)
      in (low, high))"

definition isLowCPUCoreProfile :: "string \<Rightarrow> bool" where
  "isLowCPUCoreProfile profile \<longleftrightarrow> equal_fold (trim_space profile) ''low-cpu''"

definition isTCPOnlyBalancedCoreProfile :: "string \<Rightarrow> bool" where
  "isTCPOnlyBalancedCoreProfile profile \<longleftrightarrow> equal_fold (trim_space profile) ''tcp-only-balanced''"

definition boundedPositiveInt :: "int \<Rightarrow> int \<Rightarrow> int" where
  "boundedPositiveInt v maxValue = (if v \<le> 0 then 0 else if maxValue > 0 \<and> v > maxValue then maxValue else v)"

definition effectiveEstablishedConnsForProfile :: "int \<Rightarrow> int \<Rightarrow> bool \<Rightarrow> int" where
  "effectiveEstablishedConnsForProfile userLimit defaultConns lowCPU =
     (let defaultConns = (if defaultConns \<le> 0 then 50 else defaultConns) in
      if \<not> lowCPU then effectiveEstablishedConns userLimit defaultConns
      else if userLimit \<le> 0 then 24 else if userLimit < 12 then 12 else userLimit)"

definition peerWatermarksForProfile :: "int \<Rightarrow> bool \<Rightarrow> int \<times> int" where
  "peerWatermarksForProfile effectiveConns lowCPU =
     (if \<not> lowCPU then peerWatermarks effectiveConns
      else let effectiveConns = (if effectiveConns \<le> 0 then 24 else effectiveConns);
               low = maxInt (i64 (effectiveConns * 2)) 24; high = maxInt (i64 (effectiveConns * 6)) 72;
               high = (if high < i64 (low + 24) then i64 (low + 24) else high)
           in (low, high))"

definition trackerBudgetForSettings :: "BTSets option \<Rightarrow> bool \<Rightarrow> int" where
  "trackerBudgetForSettings sets lowCPU =
     (let sets = (case sets of None \<Rightarrow> zero_BTSets | Some s \<Rightarrow> s);
          maxTrackers = (if lowCPU then 8 else 16);
          maxTrackers = (if DisableDHT sets \<and> DisablePEX sets then 24 else maxTrackers)
      in if ConnectionsLimit sets > 0
         then if ConnectionsLimit sets \<ge> 80 then 24 else if ConnectionsLimit sets \<le> 16 then 8 else maxTrackers
         else maxTrackers)"

definition totalHalfOpenConnsForPolicy :: "int \<Rightarrow> int" where
  "totalHalfOpenConnsForPolicy effectiveConns = maxInt (i64 (effectiveConns * 8)) 200"

definition debugEstablishedConnsOverride :: "DebugConfig \<Rightarrow> int" where
  "debugEstablishedConnsOverride c = (if \<not> dc_EnableDebug c then 0 else maxInt (dc_EstablishedConnsOverride c) 0)"

definition debugTotalHalfOpenConnsOverride :: "DebugConfig \<Rightarrow> int" where
  "debugTotalHalfOpenConnsOverride c =
     (if \<not> dc_EnableDebug c then 0 else boundedPositiveInt (dc_TotalHalfOpenConnsOverride c) 2000)"

definition debugTrackerBudgetOverride :: "DebugConfig \<Rightarrow> int" where
  "debugTrackerBudgetOverride c =
     (if \<not> dc_EnableDebug c then 0 else boundedPositiveInt (dc_TrackerBudgetOverride c) 256)"

definition stablePeerCapForDebug :: "DebugConfig \<Rightarrow> int \<Rightarrow> int" where
  "stablePeerCapForDebug c effectiveConns =
     (if \<not> dc_EnableDebug c \<or> dc_StablePeerCap c \<le> 0 \<or> effectiveConns \<le> 0 then 0
      else min (dc_StablePeerCap c) effectiveConns)"

definition debugMaxUnverifiedBytes :: "DebugConfig \<Rightarrow> int" where
  "debugMaxUnverifiedBytes c =
     (if \<not> dc_EnableDebug c \<or> dc_MaxUnverifiedBytesMB c \<le> 0 then 0 else i64 (dc_MaxUnverifiedBytesMB c * 2 ^ 20))"

record connectionPolicy =
  cp_configuredLimit :: int
  cp_effectiveConns :: int
  cp_peerLowWater :: int
  cp_peerHighWater :: int
  cp_totalHalfOpen :: int
  cp_trackerBudget :: int
  cp_lowCPU :: bool
  cp_debugOverride :: int
  cp_debugHalfOpenOverride :: int
  cp_debugTrackerOverride :: int
  cp_debugStablePeerCap :: int

definition connectionPolicyForSettings :: "BTSets option \<Rightarrow> int \<Rightarrow> connectionPolicy" where
  "connectionPolicyForSettings sets defaultConns =
     (let sets = (case sets of None \<Rightarrow> zero_BTSets | Some s \<Rightarrow> s);
          defaultConns = (if defaultConns \<le> 0 then 50 else defaultConns);
          lowCPU = isLowCPUCoreProfile (CoreProfile sets);
          configuredLimit = nc_ConnectionsLimit (BTSets_NetworkConfig (Some sets));
          effectiveConns = effectiveEstablishedConnsForProfile configuredLimit defaultConns lowCPU;
          debugCfg = BTSets_DebugConfig (Some sets);
          debugOverride = debugEstablishedConnsOverride debugCfg;
          stableCap = stablePeerCapForDebug debugCfg effectiveConns;
          effectiveConns = (if debugOverride > 0 then debugOverride else effectiveConns);
          (lowWater, highWater) = peerWatermarksForProfile effectiveConns lowCPU;
          totalHalfOpen = totalHalfOpenConnsForPolicy effectiveConns;
          halfOpenOverride = debugTotalHalfOpenConnsOverride debugCfg;
          totalHalfOpen = (if halfOpenOverride > 0 then maxInt halfOpenOverride effectiveConns else totalHalfOpen);
          budget = trackerBudgetForSettings (Some sets) lowCPU;
          trackerOverride = debugTrackerBudgetOverride debugCfg;
          budget = (if trackerOverride > 0 then trackerOverride else budget)
      in \<lparr>cp_configuredLimit = configuredLimit, cp_effectiveConns = effectiveConns, cp_peerLowWater = lowWater,
          cp_peerHighWater = highWater, cp_totalHalfOpen = totalHalfOpen, cp_trackerBudget = budget,
          cp_lowCPU = lowCPU, cp_debugOverride = debugOverride, cp_debugHalfOpenOverride = halfOpenOverride,
          cp_debugTrackerOverride = trackerOverride, cp_debugStablePeerCap = stableCap\<rparr>)"

definition trackerBudget :: "BTSets option \<Rightarrow> int" where
  "trackerBudget sets = cp_trackerBudget (connectionPolicyForSettings sets 50)"

definition shouldApplyStablePeerRelief :: "BTSets option \<Rightarrow> connectionPolicy \<Rightarrow> int \<Rightarrow> int \<Rightarrow> int \<Rightarrow> int \<Rightarrow> bool" where
  "shouldApplyStablePeerRelief sets policy stableCap playbackTorrents localReaders oldestReaderAge \<longleftrightarrow>
     (if sets = None then False
      else if stableCap \<le> 0 \<or> cp_effectiveConns policy \<le> stableCap then False
      else if localReaders \<le> 0 then False
      else if oldestReaderAge < 20 * 1000000000 then False
      else playbackTorrents \<ge> 1)"

definition adaptiveMaxEstablishedConnsForReaderAge :: "BTSets option \<Rightarrow> int \<Rightarrow> int \<Rightarrow> int \<Rightarrow> int" where
  "adaptiveMaxEstablishedConnsForReaderAge sets playbackTorrents localReaders oldestReaderAge =
     (let policy = connectionPolicyForSettings sets 50;
          target = cp_effectiveConns policy;
          debugCfg = (case sets of None \<Rightarrow> zero_DebugConfig | Some s \<Rightarrow> BTSets_DebugConfig (Some s));
          stableCap = stablePeerCapForDebug debugCfg target
      in if \<not> shouldApplyStablePeerRelief sets policy stableCap playbackTorrents localReaders oldestReaderAge
         then target else stableCap)"

definition adaptiveMaxEstablishedConns :: "BTSets option \<Rightarrow> int \<Rightarrow> int \<Rightarrow> int" where
  "adaptiveMaxEstablishedConns sets playbackTorrents localReaders =
     adaptiveMaxEstablishedConnsForReaderAge sets playbackTorrents localReaders 0"

section \<open>Read-ahead\<close>

text \<open>\<open>activeStreams\<close> is a 32-bit integer.\<close>

definition estimatePlaybackTorrents :: "int \<Rightarrow> int \<Rightarrow> int" where
  "estimatePlaybackTorrents streams localReaders =
     (if streams \<le> 0 then 1
      else let localReaders = (if localReaders < 0 then 0 else localReaders);
               torrents = i64 (streams - localReaders + 1)
           in if torrents < 1 then 1 else torrents)"

definition adaptiveCacheCapacity :: "int \<Rightarrow> int \<Rightarrow> int" where
  "adaptiveCacheCapacity baseCap playbackTorrents = (if baseCap \<le> 0 then 0 else baseCap)"

definition readaheadBoundBytes :: "int \<Rightarrow> int \<Rightarrow> int" where
  "readaheadBoundBytes valueMB fallbackMB = i64 ((if valueMB \<le> 0 then fallbackMB else valueMB) * 2 ^ 20)"

definition adaptiveReadahead :: "int \<Rightarrow> int \<Rightarrow> StreamConfig \<Rightarrow> int" where
  "adaptiveReadahead cacheCap playbackTorrents cfg =
     (if cacheCap \<le> 0 then 0
      else let minRA = readaheadBoundBytes (sc_AdaptiveRAMinMB cfg) 4;
               maxRA = readaheadBoundBytes (sc_AdaptiveRAMaxMB cfg) 64;
               maxRA = (if maxRA < minRA then minRA else maxRA);
               target = (if playbackTorrents > 2 then go_div (i64 (maxRA * 2)) playbackTorrents else maxRA);
               target = (if target < minRA then minRA else target)
           in if target > cacheCap then cacheCap else target)"

definition adaptivePriorityInterval :: "int \<Rightarrow> int" where
  "adaptivePriorityInterval playbackTorrents = (if playbackTorrents > 1 then 2 * 1000000000 else 1000000000)"

record streamReadAheadPolicyInput =
  ri_pieceLength :: int
  ri_cacheCapacity :: int
  ri_activeReaders :: int

definition boundedStreamReaderReadahead :: "streamReadAheadPolicyInput \<Rightarrow> int" where
  "boundedStreamReaderReadahead input =
     (let pieceLength = ri_pieceLength input; cacheCap = ri_cacheCapacity input;
          readers = (if ri_activeReaders input < 1 then 1 else ri_activeReaders input);
          ra = 16777216; minRA = 4194304;
          minRA = (if pieceLength > 0 \<and> i64 (pieceLength * 2) > minRA then i64 (pieceLength * 2) else minRA);
          minRA = (if minRA > 16777216 then 16777216 else minRA);
          finish = (\<lambda>ra. if cacheCap > 0 \<and> cacheCap < ra then cacheCap else ra)
      in if readers > 1 \<and> cacheCap > 0
         then let perReaderCap = go_div cacheCap readers
              in if perReaderCap \<le> 0 then 0
                 else let concurrentRA = go_div perReaderCap 4;
                          concurrentRA = (if concurrentRA < minRA then minRA else concurrentRA);
                          ra = (if concurrentRA < ra then concurrentRA else ra);
                          ra = (if ra > perReaderCap then perReaderCap else ra)
                      in finish ra
         else finish ra)"

definition streamReaderReadahead :: "int \<Rightarrow> int \<Rightarrow> int \<Rightarrow> int" where
  "streamReaderReadahead pieceLength cacheCap readers =
     boundedStreamReaderReadahead \<lparr>ri_pieceLength = pieceLength, ri_cacheCapacity = cacheCap, ri_activeReaders = readers\<rparr>"

definition initialPlaybackReaderReadahead :: "int \<Rightarrow> int \<Rightarrow> int \<Rightarrow> int \<Rightarrow> StreamConfig \<Rightarrow> int" where
  "initialPlaybackReaderReadahead pieceLength cacheCap readers playbackTorrents cfg =
     (if cacheCap \<le> 0 then streamReaderReadahead pieceLength cacheCap readers
      else let readahead = adaptiveReadahead cacheCap playbackTorrents cfg
           in if readahead \<le> 0 then streamReaderReadahead pieceLength cacheCap readers
              else let readers = (if readers < 1 then 1 else readers); perReaderCap = go_div cacheCap readers
                   in if perReaderCap \<le> 0 then 0
                      else if readahead > perReaderCap then perReaderCap else readahead)"

section \<open>Time-outs\<close>

definition disconnectTimeout :: "BTSets option \<Rightarrow> int" where
  "disconnectTimeout sets =
     (case sets of
        None \<Rightarrow> 30 * 1000000000
      | Some s \<Rightarrow> if TorrentDisconnectTimeout s \<le> 0 then 30 * 1000000000
                  else i64 (TorrentDisconnectTimeout s * 1000000000))"

definition postPlaybackDisconnectDelay :: "BTSets option \<Rightarrow> int" where
  "postPlaybackDisconnectDelay sets =
     (let timeout = disconnectTimeout sets in
      case sets of
        None \<Rightarrow> timeout
      | Some s \<Rightarrow>
          if \<not> isTCPOnlyBalancedCoreProfile (CoreProfile s) then timeout
          else if timeout < 5 * 1000000000 then timeout else 5 * 1000000000)"

section \<open>Range requests\<close>

text \<open>
  What the code reads of a request: the method, the path, whether the query has the key \<open>play\<close>, and the
  header \<open>Range\<close>, which is empty when there is none.
\<close>

record http_request =
  rq_method :: string
  rq_path :: string
  rq_play :: bool
  rq_range :: string

definition requestedRangeStart :: "http_request option \<Rightarrow> int \<Rightarrow> int option" where
  "requestedRangeStart req sz =
     (case req of
        None \<Rightarrow> None
      | Some req \<Rightarrow>
          let rangeHeader = trim_space (rq_range req) in
          if \<not> has_prefix rangeHeader ''bytes='' then None
          else let spec = trim_space (trim_prefix rangeHeader ''bytes='') in
            if spec = [] \<or> CHR '','' \<in> set spec then None
            else case split_first (CHR ''-'') spec of
                (_, None) \<Rightarrow> None
              | (first, Some _) \<Rightarrow>
                  let startPart = trim_space first in
                  if startPart = [] then None
                  else case ParseInt startPart of
                      None \<Rightarrow> None
                    | Some start \<Rightarrow>
                        if start < 0 then None
                        else if sz > 0 \<and> start \<ge> sz then None
                        else Some start)"

definition initialStreamOffset :: "http_request option \<Rightarrow> int \<Rightarrow> int" where
  "initialStreamOffset req sz = (case requestedRangeStart req sz of Some start \<Rightarrow> start | None \<Rightarrow> 0)"

section \<open>Warm-up\<close>

definition isPlaybackStreamRequest :: "http_request option \<Rightarrow> bool" where
  "isPlaybackStreamRequest req \<longleftrightarrow>
     (case req of None \<Rightarrow> False
      | Some r \<Rightarrow> rq_play r \<or> rq_path r = ''/streams/play'' \<or> has_prefix (rq_path r) ''/play/'')"

definition playbackStartupWarmupTargetBytes :: "int \<Rightarrow> int \<Rightarrow> int \<Rightarrow> int" where
  "playbackStartupWarmupTargetBytes fileSize startOffset cacheCapacity =
     (let remaining = i64 (fileSize - startOffset) in
      if remaining \<le> 0 then 0
      else let target =
                 (if cacheCapacity > 0
                  then let (target, ratio) = (if fileSize \<ge> 85899345920 then (33554432, 2) else (8388608, 8));
                           cacheTarget = go_div cacheCapacity ratio;
                           cacheTarget = (if cacheTarget \<le> 0 then cacheCapacity else cacheTarget)
                       in if cacheTarget < target then cacheTarget else target
                  else 8388608);
               target = (if target \<le> 0 \<or> target > 33554432 then 8388608 else target)
           in if target > remaining then remaining else target)"

record playbackStartupWarmupState =
  ws_preloadTargetBytes :: int
  ws_preloadedBytes :: int
  ws_cacheCapacityBytes :: int

record playbackStartupWarmupDecision =
  wd_eligible :: bool
  wd_targetBytes :: int
  wd_skipReason :: string

definition decidePlaybackStartupWarmup ::
  "http_request option \<Rightarrow> int \<Rightarrow> int \<Rightarrow> playbackStartupWarmupState \<Rightarrow> playbackStartupWarmupDecision" where
  "decidePlaybackStartupWarmup req startOffset fileSize state =
     (let skip = (\<lambda>reason. \<lparr>wd_eligible = False, wd_targetBytes = 0, wd_skipReason = reason\<rparr>) in
      case req of
        None \<Rightarrow> skip ''invalid_request''
      | Some r \<Rightarrow>
          if rq_method r \<noteq> ''GET'' then skip ''not_get''
          else if \<not> isPlaybackStreamRequest req then skip ''not_playback''
          else if startOffset < 0 \<or> startOffset > 16777216 then skip ''outside_startup_window''
          else let targetBytes = playbackStartupWarmupTargetBytes fileSize startOffset (ws_cacheCapacityBytes state)
               in if targetBytes \<le> 0 then skip ''no_target''
                  else if ws_preloadTargetBytes state \<ge> targetBytes \<and> ws_preloadedBytes state \<ge> targetBytes
                  then (skip ''preload_satisfied'')\<lparr>wd_targetBytes := targetBytes\<rparr>
                  else \<lparr>wd_eligible = True, wd_targetBytes = targetBytes, wd_skipReason = []\<rparr>)"

definition shouldWarmupPlaybackStartup ::
  "http_request option \<Rightarrow> int \<Rightarrow> int \<Rightarrow> playbackStartupWarmupState \<Rightarrow> bool" where
  "shouldWarmupPlaybackStartup req startOffset fileSize state =
     wd_eligible (decidePlaybackStartupWarmup req startOffset fileSize state)"

definition playbackStartupWarmupState_of :: "int \<Rightarrow> int \<Rightarrow> (int \<times> int) option \<Rightarrow> playbackStartupWarmupState" where
  "playbackStartupWarmupState_of targetBytes loadedBytes capacity_filled =
     (case capacity_filled of
        None \<Rightarrow> \<lparr>ws_preloadTargetBytes = targetBytes, ws_preloadedBytes = loadedBytes, ws_cacheCapacityBytes = 0\<rparr>
      | Some (capacity, filled) \<Rightarrow>
          \<lparr>ws_preloadTargetBytes = targetBytes,
           ws_preloadedBytes = (if filled > loadedBytes then filled else loadedBytes),
           ws_cacheCapacityBytes = capacity\<rparr>)"

text \<open>
  The errors a read comes back with, as the code tells them apart. The reader is the list of its answers,
  each a number of bytes and an error; a read that does not come back ends the list, and the result is
  \<open>None\<close>. \<open>streamCopyBufferSize\<close> is the buffer of torr/stream_content.go.
\<close>

datatype read_error = DeadlineExceeded | EndOfFile | OtherReadError

definition streamCopyBufferSize :: int where
  "streamCopyBufferSize = 262144"

fun readPlaybackStartupWarmup ::
  "(int \<times> read_error option) list \<Rightarrow> int \<Rightarrow> int \<Rightarrow> (int \<times> read_error option) option" where
  "readPlaybackStartupWarmup [] targetBytes readBytes =
     (if readBytes < targetBytes then None else Some (readBytes, None))"
| "readPlaybackStartupWarmup ((n, err) # answers) targetBytes readBytes =
     (if \<not> readBytes < targetBytes then Some (readBytes, None)
      else let readBytes = (if n > 0 then i64 (readBytes + n) else readBytes)
           in if err \<noteq> None then Some (readBytes, err)
              else if n = 0 then Some (readBytes, None)
              else readPlaybackStartupWarmup answers targetBytes readBytes)"

text \<open>The size of the slice that the next read is given.\<close>

definition next_read_size :: "int \<Rightarrow> int \<Rightarrow> int" where
  "next_read_size targetBytes readBytes =
     (if targetBytes - readBytes < streamCopyBufferSize then targetBytes - readBytes else streamCopyBufferSize)"

text \<open>The second component tells whether an error is returned.\<close>

definition runPlaybackStartupWarmupReader ::
  "bool \<Rightarrow> int \<Rightarrow> (int \<times> read_error option) list \<Rightarrow> bool \<Rightarrow> bool \<Rightarrow> int \<Rightarrow> int \<Rightarrow> int
   \<Rightarrow> (playbackStartupWarmupResult \<times> bool) option" where
  "runPlaybackStartupWarmupReader present targetBytes answers seekFails canceled elapsed offset startOffset =
     (if \<not> present \<or> targetBytes \<le> 0
      then Some (\<lparr>wr_readBytes = 0, wr_elapsed = 0, wr_outcome = ''skipped'', wr_offsetRestored = False\<rparr>, False)
      else map_option (\<lambda>(readBytes, readErr).
        let result = \<lparr>wr_readBytes = readBytes, wr_elapsed = elapsed, wr_outcome = ''running'', wr_offsetRestored = False\<rparr> in
        if seekFails then (result\<lparr>wr_outcome := ''restore_failed''\<rparr>, True)
        else let result = result\<lparr>wr_offsetRestored := (offset = startOffset)\<rparr> in
          if canceled then (result\<lparr>wr_outcome := ''request_canceled''\<rparr>, True)
          else case readErr of
              Some DeadlineExceeded \<Rightarrow> (result\<lparr>wr_outcome := ''timeout''\<rparr>, False)
            | Some EndOfFile \<Rightarrow> (result\<lparr>wr_outcome := ''eof''\<rparr>, False)
            | Some OtherReadError \<Rightarrow> (result\<lparr>wr_outcome := ''read_error''\<rparr>, True)
            | None \<Rightarrow>
                if readBytes \<ge> targetBytes then (result\<lparr>wr_outcome := ''success''\<rparr>, False)
                else (result\<lparr>wr_outcome := ''short_read''\<rparr>, False))
        (readPlaybackStartupWarmup answers targetBytes 0))"

section \<open>Peer search\<close>

record peerAcquisitionBoostInput =
  bi_activePlaybackTorrents :: int
  bi_activeReaders :: int
  bi_activePeers :: int
  bi_connectedSeeders :: int

record peerAcquisitionBoostDecision =
  bd_enabled :: bool
  bd_notWeak :: bool

definition isWeakPeerAcquisitionTorrent :: "peerAcquisitionBoostInput \<Rightarrow> bool" where
  "isWeakPeerAcquisitionTorrent i \<longleftrightarrow> bi_activePeers i < 8 \<or> bi_connectedSeeders i < 8"

definition shouldBoostPeerAcquisition :: "BTSets option \<Rightarrow> peerAcquisitionBoostInput \<Rightarrow> peerAcquisitionBoostDecision" where
  "shouldBoostPeerAcquisition sets input =
     (let no = \<lparr>bd_enabled = False, bd_notWeak = False\<rparr> in
      case sets of
        None \<Rightarrow> no
      | Some s \<Rightarrow>
          if bi_activePlaybackTorrents input < 2 then no
          else if nc_DisableDHT (BTSets_NetworkConfig (Some s)) then no
          else if \<not> isTCPOnlyBalancedCoreProfile (CoreProfile s) then no
          else if bi_activeReaders input \<le> 0 then no
          else if \<not> isWeakPeerAcquisitionTorrent input then no\<lparr>bd_notWeak := True\<rparr>
          else \<lparr>bd_enabled = True, bd_notWeak = False\<rparr>)"

record peerAcquisitionBoostCounters =
  pb_eligibleTotal :: int
  pb_startedTotal :: int
  pb_cooldownSkippedTotal :: int
  pb_noDHTServersTotal :: int
  pb_announceErrorsTotal :: int
  pb_notWeakSkippedTotal :: int
  pb_completedTotal :: int
  pb_stoppedTotal :: int
  pb_activeBoosts :: int

text \<open>The claim of the cool-down. The second component is the new time of the last boost.\<close>

definition claimPeerAcquisitionBoost :: "int \<Rightarrow> int \<Rightarrow> int \<Rightarrow> bool \<times> int" where
  "claimPeerAcquisitionBoost now cooldown cur =
     (if cur > 0 \<and> time_sub now cur < cooldown then (False, cur) else (True, now))"

text \<open>
  \<open>maybeBoostPeerAcquisition\<close> on a live torrent with its runtime metrics: the counters, the time of the
  last boost, and whether the boost is started.
\<close>

definition maybeBoostPeerAcquisition ::
  "BTSets option \<Rightarrow> peerAcquisitionBoostInput \<Rightarrow> nat \<Rightarrow> int \<Rightarrow> peerAcquisitionBoostCounters \<times> int
   \<Rightarrow> bool \<times> peerAcquisitionBoostCounters \<times> int" where
  "maybeBoostPeerAcquisition sets input servers now = (\<lambda>(k, lastBoost).
     let decision = shouldBoostPeerAcquisition sets input; debug = dc_EnableDebug (BTSets_DebugConfig sets) in
     if \<not> bd_enabled decision
     then (False, if bd_notWeak decision \<and> debug then k\<lparr>pb_notWeakSkippedTotal := i64 (pb_notWeakSkippedTotal k + 1)\<rparr> else k,
           lastBoost)
     else let k = (if debug then k\<lparr>pb_eligibleTotal := i64 (pb_eligibleTotal k + 1)\<rparr> else k) in
       if servers = 0
       then (False, if debug then k\<lparr>pb_noDHTServersTotal := i64 (pb_noDHTServersTotal k + 1)\<rparr> else k, lastBoost)
       else let (claimed, lastBoost) = claimPeerAcquisitionBoost now (45 * 1000000000) lastBoost in
         if \<not> claimed
         then (False, if debug then k\<lparr>pb_cooldownSkippedTotal := i64 (pb_cooldownSkippedTotal k + 1)\<rparr> else k, lastBoost)
         else (True, k, lastBoost))"

section \<open>Preload\<close>

text \<open>\<open>float32\<close> rounds to 24 significant bits.\<close>

definition float32 :: "rat \<Rightarrow> rat" where
  "float32 x =
     (if x = 0 then 0
      else let s = 2 powi (exponent \<bar>x\<bar> - 23) in sgn x * (of_int (round_even (\<bar>x\<bar> / s)) * s))"

text \<open>The bytes to preload, or \<open>None\<close> when there is nothing to do.\<close>

definition preload_size :: "CacheConfig \<Rightarrow> int option" where
  "preload_size cfg =
     (let cache = float32 (of_int (cc_SizeBytes cfg)); preload = float32 (of_int (cc_PreloadPct cfg));
          size = int64_of_float (float32 (float32 (cache / 100) * preload))
      in if size \<le> 0 then None
         else Some (if size > cc_SizeBytes cfg then cc_SizeBytes cfg else size))"

text \<open>The end of the first range and the bounds of the last range of the file.\<close>

definition preload_ranges :: "int \<Rightarrow> int \<Rightarrow> int \<Rightarrow> int \<times> int \<times> int" where
  "preload_ranges pieceLength fileLength sz =
     (let startEnd = max pieceLength 8388608;
          startEndPos = i64 (sz - startEnd);
          startEndPos = (if startEndPos < 0 then sz else startEndPos);
          startEndPos = (if startEndPos > fileLength then fileLength else startEndPos)
      in (startEndPos, i64 (fileLength - startEnd), fileLength))"

section \<open>The start of a range\<close>

lemma digit_char_plain: "d < 10 \<Longrightarrow> char_of (48 + d :: nat) \<in> set ''0123456789''"
proof -
  have "\<forall>d < (10 :: nat). char_of (48 + d :: nat) \<in> set ''0123456789''" by code_simp
  then show "d < 10 \<Longrightarrow> ?thesis" by simp
qed

lemma digits_of_chars: "set (digits_of n) \<subseteq> set ''0123456789'' \<and> digits_of n \<noteq> []"
proof (induction n rule: digits_of.induct)
  case (1 n)
  show ?case
  proof (cases "n < 10")
    case True
    then show ?thesis using digit_char_plain [of n] by (simp add: digits_of.simps [of n])
  next
    case False
    then show ?thesis using 1 [OF False] digit_char_plain [of "n mod 10"] by (simp add: digits_of.simps [of n])
  qed
qed

lemma digits_plain: "set (digits_of n) \<subseteq> set plain_chars"
proof -
  have "set ''0123456789'' \<subseteq> set plain_chars" by (simp add: plain_iff)
  with digits_of_chars show ?thesis by blast
qed

lemma range_header_parts:
  fixes n :: nat
  assumes "tail = [] \<or> (\<exists>m. tail = digits_of m)" and spec_def: "spec = digits_of n @ ''-'' @ tail"
  shows "trim_space (''bytes='' @ spec) = ''bytes='' @ spec" and "trim_space spec = spec" and "spec \<noteq> []"
    and "CHR '','' \<notin> set spec" and "split_first (CHR ''-'') spec = (digits_of n, Some tail)"
    and "trim_space (digits_of n) = digits_of n"
proof -
  have t: "set tail \<subseteq> set ''0123456789''" using assms(1) digits_of_chars by auto
  have n: "set (digits_of n) \<subseteq> set ''0123456789''" "digits_of n \<noteq> []" using digits_of_chars by auto
  have p: "set (''bytes='' @ spec) \<subseteq> set plain_chars"
  proof -
    have "set ''0123456789'' \<subseteq> set plain_chars" "set ''bytes='' \<subseteq> set plain_chars" "set ''-'' \<subseteq> set plain_chars"
      by (simp_all add: plain_iff)
    then show ?thesis using t n(1) unfolding spec_def set_append by blast
  qed
  show ne: "spec \<noteq> []" by (simp add: spec_def)
  show "trim_space (''bytes='' @ spec) = ''bytes='' @ spec"
    by (rule trim_space_plain) (use p in \<open>auto intro!: subsetD [OF p] last_in_set simp del: append.simps(2)\<close>)
  show "trim_space spec = spec"
    by (rule trim_space_plain) (use ne p in \<open>auto intro!: subsetD [OF p]\<close>)
  show "trim_space (digits_of n) = digits_of n"
    by (rule trim_space_plain) (use n digits_plain [of n] in auto)
  have "CHR '','' \<notin> set ''0123456789''" "CHR ''-'' \<notin> set ''0123456789''" by simp_all
  then show "CHR '','' \<notin> set spec" and "split_first (CHR ''-'') spec = (digits_of n, Some tail)"
    using t n by (auto simp: spec_def split_first_join)
qed

text \<open>
  The start of a range request is read exactly: of the header \<open>bytes=n-\<close> or \<open>bytes=n-m\<close>, with the numbers
  in decimal notation, the requested start is \<open>n\<close>, and it is refused just when the size is known and \<open>n\<close> lies
  at or beyond it. This holds of every \<open>n\<close> a 64-bit integer represents, whatever \<open>m\<close>.
\<close>

theorem range_start_exact:
  fixes n :: nat
  assumes "fits_i64 (int n)" and "tail = [] \<or> (\<exists>m. tail = digits_of m)"
  shows "requestedRangeStart (Some (r\<lparr>rq_range := ''bytes='' @ digits_of n @ ''-'' @ tail\<rparr>)) sz =
         (if 0 < sz \<and> sz \<le> int n then None else Some (int n))"
proof -
  obtain spec where spec: "spec = digits_of n @ ''-'' @ tail" by simp
  note parts = range_header_parts [OF assms(2) spec]
  have "trim_prefix (''bytes='' @ spec) ''bytes='' = spec" by (simp add: trim_prefix_def)
  then have "requestedRangeStart (Some (r\<lparr>rq_range := ''bytes='' @ spec\<rparr>)) sz =
      (if 0 < sz \<and> sz \<le> int n then None else Some (int n))"
    using parts digits_of_chars [of n] ParseInt_digits_of [OF assms(1)]
    by (auto simp: requestedRangeStart_def Let_def has_prefix_iff simp del: append.simps(2))
  then show ?thesis by (simp add: spec)
qed

theorem range_start_exact_witness:
  "requestedRangeStart
     (Some (\<lparr>rq_method = ''GET'', rq_path = ''/stream'', rq_play = True, rq_range = []\<rparr>
            \<lparr>rq_range := ''bytes=100-299''\<rparr>)) 4194304 = Some 100"
proof -
  have header: "''bytes='' @ digits_of 100 @ ''-'' @ digits_of 299 = ''bytes=100-299''" by code_simp
  have start: "(if 0 < (4194304 :: int) \<and> 4194304 \<le> int 100 then None else Some (int 100)) = Some 100" by simp
  have fits: "fits_i64 (int 100)" by (simp add: fits_i64_def)
  have tail: "digits_of 299 = [] \<or> (\<exists>m. digits_of 299 = digits_of m)" by blast
  show ?thesis using range_start_exact [OF fits tail] unfolding header by (simp only: start) 
qed

lemma requestedRangeStart_bounds:
  "requestedRangeStart req sz = Some s \<Longrightarrow> 0 \<le> s \<and> (0 < sz \<longrightarrow> s < sz)"
  by (auto simp: requestedRangeStart_def Let_def split: option.splits if_splits prod.splits)

lemma equal_share:
  assumes "0 < cap" and "1 \<le> n"
  shows "go_div cap n = cap div n" and "0 \<le> cap div n" and "cap div n \<le> cap" and "n * (cap div n) \<le> cap"
proof -
  show "go_div cap n = cap div n" using assms by (simp add: go_div_pos)
  show "0 \<le> cap div n" using assms by (simp add: pos_imp_zdiv_nonneg_iff)
  show "cap div n \<le> cap" using assms go_div_le_self [of cap n] by (simp add: go_div_pos)
  have "n * (cap div n) + cap mod n = cap" and "0 \<le> cap mod n" using assms by simp_all
  then show "n * (cap div n) \<le> cap" by linarith
qed

lemma boundedStreamReaderReadahead_bounds:
  assumes "0 < cap" and "1 \<le> n"
  shows "0 \<le> streamReaderReadahead pl cap n \<and> streamReaderReadahead pl cap n \<le> cap div n"
proof -
  define q where "q = cap div n"
  have q: "go_div cap n = q" "0 \<le> q" "q \<le> cap" "n = 1 \<Longrightarrow> q = cap" using equal_share [OF assms] by (auto simp: q_def)
  have "0 \<le> go_div q 4" using q(2) by (simp add: go_div_nonneg)
  then show ?thesis using q assms unfolding q_def [symmetric] streamReaderReadahead_def boundedStreamReaderReadahead_def
    by (auto simp: Let_def)
qed

text \<open>
  Property C31. The readers of one file share its cache: whatever the settings of the adaptive read-ahead and the number
  of playing torrents, the read-ahead a new reader starts with is not negative, and as much for each of the
  readers together fits in the capacity of the cache.
\<close>

theorem readahead_shares_cache:
  assumes "0 < cap" and "1 \<le> readers"
  shows "0 \<le> initialPlaybackReaderReadahead pl cap readers torrents cfg \<and>
         readers * initialPlaybackReaderReadahead pl cap readers torrents cfg \<le> cap"
proof -
  note share = equal_share [OF assms]
  have "0 \<le> initialPlaybackReaderReadahead pl cap readers torrents cfg \<and>
      initialPlaybackReaderReadahead pl cap readers torrents cfg \<le> cap div readers"
    using boundedStreamReaderReadahead_bounds [OF assms, of pl] share assms
    by (simp add: initialPlaybackReaderReadahead_def Let_def)
  then have "0 \<le> initialPlaybackReaderReadahead pl cap readers torrents cfg"
    and "readers * initialPlaybackReaderReadahead pl cap readers torrents cfg \<le> readers * (cap div readers)"
    using assms by (auto intro!: mult_left_mono)
  then show ?thesis using share(4) by linarith
qed

theorem readahead_shares_cache_witness:
  "3 * initialPlaybackReaderReadahead 4194304 67108864 3 1 zero_StreamConfig \<le> 67108864"
  using readahead_shares_cache [of 67108864 3 4194304 1 zero_StreamConfig] by simp

end
