(* ===== verification/Stream_Content.thy ===== *)
theory Stream_Content
  imports Stream_Fairness
begin

text \<open>
  The content of a stream, from the reader of the cache to the HTTP response (torr/stream_content.go, and the
  instruments of torr/stream.go): the seeker that \<open>http.ServeContent\<close> reads from, with the interface it asks of
  its source, and the writer that counts what is delivered.

  What the library's reader delivers, what the response takes and the clock are arguments of each operation.
\<close>

section \<open>The source\<close>

text \<open>
  The interface \<open>streamContentSource\<close>: its operations work on the state \<open>'s\<close> of the source, and \<open>'e\<close> is what they
  depend on beside it. A read is given the length of the buffer and returns the bytes put there; a seek is always
  from the start. The Boolean component tells whether an error is returned.
\<close>

record ('e, 's) streamContentSource =
  src_Read :: "'e \<Rightarrow> nat \<Rightarrow> 's \<Rightarrow> (byte list \<times> bool) \<times> 's"
  src_Seek :: "'e \<Rightarrow> int \<Rightarrow> 's \<Rightarrow> (int \<times> bool) \<times> 's"
  src_Offset :: "'s \<Rightarrow> int"

section \<open>The seeker\<close>

text \<open>\<open>ss_present\<close>: the reader is not nil.  \<open>ss_readObserver\<close> is the number of the delivery record.\<close>

record serveContentReadSeeker =
  ss_present :: bool
  ss_size :: int
  ss_pos :: int
  ss_virtual :: bool
  ss_readObserver :: "nat option"

record 's serving =
  sv_seeker :: serveContentReadSeeker
  sv_source :: 's
  sv_deliveries :: streamDeliveryRegistry

definition newServeContentReadSeeker ::
  "('e, 's) streamContentSource \<Rightarrow> 's option \<Rightarrow> int \<Rightarrow> nat option \<Rightarrow> serveContentReadSeeker" where
  "newServeContentReadSeeker src reader sz readObserver =
     \<lparr>ss_present = (reader \<noteq> None), ss_size = sz,
      ss_pos = (case reader of None \<Rightarrow> 0 | Some s \<Rightarrow> src_Offset src s),
      ss_virtual = False, ss_readObserver = readObserver\<rparr>"

definition resolveOffset :: "int \<Rightarrow> int \<Rightarrow> int \<Rightarrow> int \<Rightarrow> int option" where
  "resolveOffset sz pos offset whence =
     (case (if whence = 0 then Some 0 else if whence = 1 then Some pos else if whence = 2 then Some sz else None) of
        None \<Rightarrow> None
      | Some base \<Rightarrow> let target = i64 (base + offset) in if target < 0 then None else Some target)"

definition seekReal ::
  "('e, 's) streamContentSource \<Rightarrow> 'e \<Rightarrow> int \<Rightarrow> 's serving \<Rightarrow> (int \<times> bool) \<times> 's serving" where
  "seekReal src e target sv =
     (if \<not> ss_present (sv_seeker sv) then ((0, True), sv)
      else let ((pos, err), s) = src_Seek src e target (sv_source sv); sv = sv\<lparr>sv_source := s\<rparr>
           in if err then ((0, True), sv)
              else ((pos, False), sv\<lparr>sv_seeker := (sv_seeker sv)\<lparr>ss_pos := pos, ss_virtual := False\<rparr>\<rparr>))"

definition serve_Seek ::
  "('e, 's) streamContentSource \<Rightarrow> 'e \<Rightarrow> int \<Rightarrow> int \<Rightarrow> 's serving \<Rightarrow> (int \<times> bool) \<times> 's serving" where
  "serve_Seek src e offset whence sv =
     (case resolveOffset (ss_size (sv_seeker sv)) (ss_pos (sv_seeker sv)) offset whence of
        None \<Rightarrow> ((0, True), sv)
      | Some target \<Rightarrow>
          if whence = 2 \<and> offset = 0
          then ((target, False), sv\<lparr>sv_seeker := (sv_seeker sv)\<lparr>ss_pos := target, ss_virtual := True\<rparr>\<rparr>)
          else if ss_virtual (sv_seeker sv)
          then ((target, False), sv\<lparr>sv_seeker := (sv_seeker sv)\<lparr>ss_pos := target\<rparr>\<rparr>)
          else seekReal src e target sv)"

definition recordReadWait_location :: "int \<Rightarrow> int \<Rightarrow> int \<Rightarrow> nat \<Rightarrow> 's serving \<Rightarrow> 's serving" where
  "recordReadWait_location now wait offset requestedBytes sv =
     (case ss_readObserver (sv_seeker sv) of
        None \<Rightarrow> sv
      | Some i \<Rightarrow> sv\<lparr>sv_deliveries :=
          update_delivery i (recordReadWaitLocation now wait offset (int requestedBytes)) (sv_deliveries sv)\<rparr>)"

definition serve_Offset :: "'s serving option \<Rightarrow> int" where
  "serve_Offset s = (case s of None \<Rightarrow> -1 | Some sv \<Rightarrow> ss_pos (sv_seeker sv))"

text \<open>The seek before a read and the read itself see the source at different moments.\<close>

definition serve_Read ::
  "('e, 's) streamContentSource \<Rightarrow> 'e \<Rightarrow> 'e \<Rightarrow> int \<Rightarrow> int \<Rightarrow> nat \<Rightarrow> 's serving \<Rightarrow> (byte list \<times> bool) \<times> 's serving" where
  "serve_Read src e e' now wait len sv =
     (if \<not> ss_present (sv_seeker sv) then (([], True), sv)
      else let ((_, failed), sv) =
                 (if ss_virtual (sv_seeker sv) then seekReal src e (ss_pos (sv_seeker sv)) sv else ((0, False), sv))
           in if failed then (([], True), sv)
              else let offset = ss_pos (sv_seeker sv);
                       ((bs, err), s) = src_Read src e' len (sv_source sv);
                       sv = recordReadWait_location now wait offset len (sv\<lparr>sv_source := s\<rparr>)
                   in ((bs, err),
                       sv\<lparr>sv_seeker := (sv_seeker sv)\<lparr>ss_pos := i64 (ss_pos (sv_seeker sv) + int (length bs))\<rparr>\<rparr>))"

section \<open>Runs of the seeker\<close>

text \<open>
  What happens to a seeker: the calls of its user, and what others do to its source in the meantime (\<open>Between\<close>).
\<close>

datatype ('e, 't) serve_op =
    DoSeek 'e int int
  | DoRead 'e 'e int int nat
  | Between 't

datatype serve_result = Sought int bool | Got "byte list" bool | Passed

fun serve_step ::
  "('e, 's) streamContentSource \<Rightarrow> ('t \<Rightarrow> 's \<Rightarrow> 's) \<Rightarrow> ('e, 't) serve_op \<Rightarrow> 's serving \<Rightarrow> serve_result \<times> 's serving" where
  "serve_step src tick (DoSeek e offset whence) sv =
     (let ((n, err), sv) = serve_Seek src e offset whence sv in (Sought n err, sv))"
| "serve_step src tick (DoRead e e' now wait len) sv =
     (let ((bs, err), sv) = serve_Read src e e' now wait len sv in (Got bs err, sv))"
| "serve_step src tick (Between t) sv = (Passed, sv\<lparr>sv_source := tick t (sv_source sv)\<rparr>)"

primrec serve_run ::
  "('e, 's) streamContentSource \<Rightarrow> ('t \<Rightarrow> 's \<Rightarrow> 's) \<Rightarrow> ('e, 't) serve_op list \<Rightarrow> 's serving \<Rightarrow> serve_result list" where
  "serve_run src tick [] sv = []"
| "serve_run src tick (p # ps) sv = (let (r, sv) = serve_step src tick p sv in r # serve_run src tick ps sv)"

text \<open>
  The abstract seeker is a position in a file. A seek moves it where it says, or fails and leaves it; a read returns
  bytes of the file from the position on, as many as it likes up to the length of the buffer, and moves behind them.
\<close>

fun serve_answer :: "byte list \<Rightarrow> int \<Rightarrow> ('e, 't) serve_op \<Rightarrow> serve_result \<Rightarrow> int \<Rightarrow> int \<Rightarrow> bool" where
  "serve_answer file sz (DoSeek e offset whence) (Sought n err) pos pos' \<longleftrightarrow>
     (if err then pos' = pos else resolveOffset sz pos offset whence = Some n \<and> pos' = n)"
| "serve_answer file sz (DoRead e e' now wait len) (Got bs err) pos pos' \<longleftrightarrow>
     length bs \<le> len \<and> bs = take (length bs) (drop (nat pos) file) \<and> pos' = pos + int (length bs)"
| "serve_answer file sz (Between t) Passed pos pos' \<longleftrightarrow> pos' = pos"
| "serve_answer file sz _ _ pos pos' \<longleftrightarrow> False"

text \<open>The position after an answer, which the answer determines.\<close>

fun next_pos :: "serve_result \<Rightarrow> int \<Rightarrow> int" where
  "next_pos (Sought n err) pos = (if err then pos else n)"
| "next_pos (Got bs err) pos = pos + int (length bs)"
| "next_pos Passed pos = pos"

fun serve_spec :: "byte list \<Rightarrow> int \<Rightarrow> ('e, 't) serve_op list \<Rightarrow> serve_result list \<Rightarrow> int \<Rightarrow> bool" where
  "serve_spec file sz [] [] pos = True"
| "serve_spec file sz (p # ps) (r # rs) pos =
     (serve_answer file sz p r pos (next_pos r pos) \<and> serve_spec file sz ps rs (next_pos r pos))"
| "serve_spec file sz _ _ pos = False"

section \<open>The contract of a source\<close>

text \<open>
  A source of the bytes \<open>data\<close>. \<open>ok\<close> is its invariant and \<open>tick\<close> what others may do to it. A seek to a position that a
  64-bit integer represents goes there or fails and changes nothing that can be seen; a read returns what the file
  has at the offset.
\<close>

locale content_source =
  fixes src :: "('e, 's) streamContentSource"
    and tick :: "'t \<Rightarrow> 's \<Rightarrow> 's"
    and data :: "byte list"
    and ok :: "'s \<Rightarrow> bool"
  assumes read: "ok s \<Longrightarrow> src_Read src e len s = ((bs, err), s') \<Longrightarrow>
      ok s' \<and> length bs \<le> len \<and> bs = take (length bs) (drop (nat (src_Offset src s)) data) \<and>
      src_Offset src s' = src_Offset src s + int (length bs)"
    and seek: "ok s \<Longrightarrow> 0 \<le> target \<Longrightarrow> fits_i64 target \<Longrightarrow> src_Seek src e target s = ((n, err), s') \<Longrightarrow>
      ok s' \<and> (if err then src_Offset src s' = src_Offset src s else n = target \<and> src_Offset src s' = target)"
    and tick: "ok s \<Longrightarrow> ok (tick t s) \<and> src_Offset src (tick t s) = src_Offset src s"
    and offset_range: "ok s \<Longrightarrow> 0 \<le> src_Offset src s \<and> fits_i64 (src_Offset src s)"
begin

text \<open>Unless a seek is pending, the source is where the seeker says.\<close>

definition in_step :: "int \<Rightarrow> 's serving \<Rightarrow> bool" where
  "in_step sz sv \<longleftrightarrow>
     ok (sv_source sv) \<and> ss_present (sv_seeker sv) \<and> ss_size (sv_seeker sv) = sz \<and>
     0 \<le> ss_pos (sv_seeker sv) \<and> fits_i64 (ss_pos (sv_seeker sv)) \<and>
     (\<not> ss_virtual (sv_seeker sv) \<longrightarrow> src_Offset src (sv_source sv) = ss_pos (sv_seeker sv))"

lemma resolved: "resolveOffset sz pos offset whence = Some target \<Longrightarrow> 0 \<le> target \<and> fits_i64 target"
  by (auto simp: resolveOffset_def Let_def i64_in_range split: if_splits option.splits)

lemma seekReal_step:
  assumes "in_step sz sv" and "0 \<le> target" and "fits_i64 target" and "seekReal src e target sv = ((n, err), sv')"
  shows "if err then in_step sz sv' \<and> ss_pos (sv_seeker sv') = ss_pos (sv_seeker sv)
         else in_step sz sv' \<and> n = target \<and> ss_pos (sv_seeker sv') = target \<and> \<not> ss_virtual (sv_seeker sv')"
proof -
  obtain m e' s' where call: "src_Seek src e target (sv_source sv) = ((m, e'), s')" by (metis surj_pair)
  show ?thesis
    using assms seek [OF _ assms(2,3) call]
    by (cases e') (auto simp: seekReal_def call in_step_def Let_def)
qed

lemma seek_step:
  assumes "in_step sz sv" and "serve_Seek src e offset whence sv = ((n, err), sv')"
  shows "in_step sz sv' \<and> (if err then ss_pos (sv_seeker sv') = ss_pos (sv_seeker sv)
         else resolveOffset sz (ss_pos (sv_seeker sv)) offset whence = Some n \<and> ss_pos (sv_seeker sv') = n)"
proof (cases "resolveOffset sz (ss_pos (sv_seeker sv)) offset whence")
  case None
  then show ?thesis using assms by (auto simp: serve_Seek_def in_step_def)
next
  case (Some target)
  note r = resolved [OF Some]
  show ?thesis
  proof (cases "(whence = 2 \<and> offset = 0) \<or> ss_virtual (sv_seeker sv)")
    case True
    then show ?thesis using assms Some r by (auto simp: serve_Seek_def in_step_def split: if_splits)
  next
    case False
    then have "seekReal src e target sv = ((n, err), sv')"
      using assms Some by (auto simp: serve_Seek_def in_step_def)
    from seekReal_step [OF assms(1) _ _ this] r Some show ?thesis by (auto split: if_splits)
  qed
qed

lemma location_frame:
  "sv_seeker (recordReadWait_location now wait off len sv) = sv_seeker sv"
  "sv_source (recordReadWait_location now wait off len sv) = sv_source sv"
  by (simp_all add: recordReadWait_location_def split: option.splits)

lemma read_at:
  assumes "in_step sz sv" and "\<not> ss_virtual (sv_seeker sv)"
    and "src_Read src e len (sv_source sv) = ((bs, err), s)"
  shows "length bs \<le> len \<and> bs = take (length bs) (drop (nat (ss_pos (sv_seeker sv))) data) \<and>
         i64 (ss_pos (sv_seeker sv) + int (length bs)) = ss_pos (sv_seeker sv) + int (length bs) \<and>
         ok s \<and> src_Offset src s = ss_pos (sv_seeker sv) + int (length bs)"
proof -
  have pos: "src_Offset src (sv_source sv) = ss_pos (sv_seeker sv)" and "ok (sv_source sv)"
    using assms(1,2) by (auto simp: in_step_def)
  note r = read [OF \<open>ok (sv_source sv)\<close> assms(3)]
  then have "fits_i64 (ss_pos (sv_seeker sv) + int (length bs))"
    using offset_range [of s] pos by simp
  from i64_id [OF this] r pos show ?thesis by (intro conjI) simp_all
qed

lemma read_step:
  assumes "in_step sz sv" and "serve_Read src e e' now wait len sv = ((bs, err), sv')"
  shows "in_step sz sv' \<and> length bs \<le> len \<and> bs = take (length bs) (drop (nat (ss_pos (sv_seeker sv))) data) \<and>
         ss_pos (sv_seeker sv') = ss_pos (sv_seeker sv) + int (length bs)"
proof -
  have here: "ss_present (sv_seeker sv)" using assms(1) by (simp add: in_step_def)
  obtain n failed sv1 where moved: "(if ss_virtual (sv_seeker sv) then seekReal src e (ss_pos (sv_seeker sv)) sv
      else ((0, False), sv)) = ((n, failed), sv1)" by (metis surj_pair)
  have sv1: "in_step sz sv1" "ss_pos (sv_seeker sv1) = ss_pos (sv_seeker sv)" "failed \<or> \<not> ss_virtual (sv_seeker sv1)"
    using moved assms(1) seekReal_step [OF assms(1), of "ss_pos (sv_seeker sv)" e n failed sv1]
    by (auto simp: in_step_def split: if_splits)
  show ?thesis
  proof (cases failed)
    case True
    then show ?thesis using assms(2) here moved sv1 by (auto simp: serve_Read_def)
  next
    case False
    obtain bs' err' s where call: "src_Read src e' len (sv_source sv1) = ((bs', err'), s)" by (metis surj_pair)
    show ?thesis
      using assms(2) here moved sv1 False read_at [OF sv1(1) _ call] offset_range [of s]
      by (auto simp: serve_Read_def Let_def call in_step_def location_frame)
  qed
qed

lemma step_spec:
  assumes "in_step sz sv" and "serve_step src tick p sv = (r, sv')"
  shows "in_step sz sv' \<and> serve_answer data sz p r (ss_pos (sv_seeker sv)) (ss_pos (sv_seeker sv')) \<and>
         ss_pos (sv_seeker sv') = next_pos r (ss_pos (sv_seeker sv))"
proof (cases p)
  case (DoSeek e offset whence)
  then show ?thesis using assms(2) seek_step [OF assms(1)] by (fastforce split: prod.splits if_splits)
next
  case (DoRead e e' now wait len)
  then show ?thesis using assms(2) read_step [OF assms(1)] by (fastforce split: prod.splits)
next
  case (Between t)
  then show ?thesis using assms tick [of "sv_source sv" t] by (auto simp: in_step_def)
qed

theorem run_spec: "in_step sz sv \<Longrightarrow> serve_spec data sz ps (serve_run src tick ps sv) (ss_pos (sv_seeker sv))"
proof (induction ps arbitrary: sv)
  case (Cons p ps)
  obtain r sv' where step: "serve_step src tick p sv = (r, sv')" by (metis surj_pair)
  from step_spec [OF Cons.prems step] Cons.IH [of sv'] show ?case by (metis (no_types, lifting) serve_run.simps(2) serve_spec.simps(2) split_conv step)
qed simp

lemma new_in_step:
  assumes "ok s"
  shows "in_step sz \<lparr>sv_seeker = newServeContentReadSeeker src (Some s) sz obs, sv_source = s, sv_deliveries = d\<rparr>"
  using assms offset_range [OF assms] by (simp add: in_step_def newServeContentReadSeeker_def)

lemma new_run_spec:
  assumes "ok s"
  shows "serve_spec data sz ps
    (serve_run src tick ps \<lparr>sv_seeker = newServeContentReadSeeker src (Some s) sz obs, sv_source = s, sv_deliveries = d\<rparr>)
    (src_Offset src s)"
  using run_spec [OF new_in_step [OF assms, of sz obs d], of ps] by (simp add: newServeContentReadSeeker_def)

text \<open>The probe for the size that \<open>ServeContent\<close> begins with does not reach the source.\<close>

lemma size_probe_leaves_source:
  assumes "ss_present (sv_seeker sv)" and "0 \<le> ss_size (sv_seeker sv)" and "fits_i64 (ss_size (sv_seeker sv))"
  shows "sv_source (snd (serve_Seek src e' start 0 (snd (serve_Seek src e 0 2 sv)))) = sv_source sv"
  using assms by (simp add: serve_Seek_def resolveOffset_def Let_def i64_id split: option.splits)

end

section \<open>The reader of the cache as a source\<close>

text \<open>
  A reader of the cache together with the position of the library's reader beneath it. The calls of the library
  that a reader makes on its own are in the log of the world, and \<open>reposition\<close> replays what they do to the position.
  The library delivers the bytes of the file at its position, as many as are ready.
\<close>

record reader_source =
  rs_reader :: reader
  rs_world :: world
  rs_position :: int

record reader_env =
  en_now :: int
  en_attached :: bool
  en_ready :: nat
  en_failed :: bool

definition reposition :: "nat \<Rightarrow> lib_call list \<Rightarrow> int \<Rightarrow> int" where
  "reposition rid calls p =
     foldl (\<lambda>p call. case call of LibReaderSeekStart i off \<Rightarrow> if i = rid then off else p | _ \<Rightarrow> p) p calls"

definition moved_to :: "nat \<Rightarrow> world \<Rightarrow> world \<Rightarrow> int \<Rightarrow> int" where
  "moved_to rid w w' p = reposition rid (drop (length (w_lib w)) (w_lib w')) p"

definition source_Seek :: "nat \<Rightarrow> reader_env \<Rightarrow> int \<Rightarrow> reader_source \<Rightarrow> (int \<times> bool) \<times> reader_source" where
  "source_Seek rid e target s =
     (let r = rs_reader s; w = rs_world s; p = rs_position s;
          (res, r', w') = Reader_Seek (en_now e) (p = 0) (target, False) rid (r, w)
      in (res, \<lparr>rs_reader = r', rs_world = w', rs_position = (if rd_isClosed r then p else target)\<rparr>))"

definition source_Read :: "byte list \<Rightarrow> nat \<Rightarrow> reader_env \<Rightarrow> nat \<Rightarrow> reader_source \<Rightarrow> (byte list \<times> bool) \<times> reader_source" where
  "source_Read data rid e len s =
     (let r = rs_reader s; w = rs_world s; p = rs_position s;
          p = moved_to rid w (snd (readerOnLocked (en_now e) (p = 0) rid (r, w))) p;
          bs = take (min len (en_ready e)) (drop (nat p) data);
          (res, r', w') = Reader_Read (en_now e) (en_attached e) (rs_position s = 0) (int (length bs), en_failed e) rid (r, w)
      in if rd_isClosed r \<or> \<not> en_attached e
         then (([], snd res), \<lparr>rs_reader = r', rs_world = w', rs_position = rs_position s\<rparr>)
         else ((bs, snd res), \<lparr>rs_reader = r', rs_world = w', rs_position = p + int (length bs)\<rparr>))"

definition reader_content :: "byte list \<Rightarrow> nat \<Rightarrow> (reader_env, reader_source) streamContentSource" where
  "reader_content data rid =
     \<lparr>src_Read = source_Read data rid, src_Seek = source_Seek rid, src_Offset = (\<lambda>s. rd_offset (rs_reader s))\<rparr>"

text \<open>What the cache does to a reader that is serving a stream.\<close>

datatype reader_event =
    CheckReader int int
  | SetReadahead int
  | SetIdle int
  | CloseReader int bool

definition reader_event_run :: "nat \<Rightarrow> int \<Rightarrow> reader_event \<Rightarrow> reader \<times> world \<Rightarrow> reader \<times> world" where
  "reader_event_run rid p ev rw =
     (case ev of
        CheckReader now totalReaders \<Rightarrow> checkReader now (p = 0) totalReaders rid rw
      | SetReadahead len \<Rightarrow> Reader_SetReadahead len rid rw
      | SetIdle now \<Rightarrow> Reader_SetIdle now rid rw
      | CloseReader now hasFiles \<Rightarrow> Reader_Close now hasFiles rid rw)"

definition reader_tick :: "nat \<Rightarrow> reader_event \<Rightarrow> reader_source \<Rightarrow> reader_source" where
  "reader_tick rid ev s =
     (let (r, w) = reader_event_run rid (rs_position s) ev (rs_reader s, rs_world s)
      in \<lparr>rs_reader = r, rs_world = w, rs_position = moved_to rid (rs_world s) w (rs_position s)\<rparr>)"

text \<open>A reader in use is where the library's reader is; one that rests has sent it to the start.\<close>

definition reader_placed :: "reader_source \<Rightarrow> bool" where
  "reader_placed s \<longleftrightarrow>
     0 \<le> rd_offset (rs_reader s) \<and> fits_i64 (rd_offset (rs_reader s)) \<and>
     (\<not> rd_isClosed (rs_reader s) \<longrightarrow>
       rs_position s = (if rd_isUse (rs_reader s) then rd_offset (rs_reader s) else 0))"

lemma moved_log [simp]:
  "w_lib w' = w_lib w @ calls \<Longrightarrow> moved_to rid w w' p = reposition rid calls p"
  by (simp add: moved_to_def)

lemma metric_log [simp]:
  "w_lib (addActiveReaders n w) = w_lib w" "w_lib (recordReaderReactivation i w) = w_lib w"
  "w_lib (recordReaderIdleDemotion i w) = w_lib w" "w_lib (queueCleanPieces now w) = w_lib w"
  by (simp_all add: addActiveReaders_def recordReaderReactivation_def recordReaderIdleDemotion_def queueCleanPieces_def Let_def)

lemma readerOn_placed:
  assumes "reader_placed s" and "\<not> rd_isClosed (rs_reader s)"
    and "readerOnLocked now (rs_position s = 0) rid (rs_reader s, rs_world s) = (r, w)"
  shows "rd_isUse r \<and> \<not> rd_isClosed r \<and> rd_offset r = rd_offset (rs_reader s) \<and>
         moved_to rid (rs_world s) w (rs_position s) = rd_offset (rs_reader s)"
  using assms by (auto simp: readerOnLocked_def reader_placed_def Let_def moved_to_def reposition_def split: if_splits)

lemma readerOff_placed:
  assumes "reader_placed s" and "\<not> rd_isClosed (rs_reader s)"
    and "readerOffLocked now rid (rs_reader s, rs_world s) = (r, w)"
  shows "\<not> rd_isUse r \<and> \<not> rd_isClosed r \<and> rd_offset r = rd_offset (rs_reader s) \<and>
         moved_to rid (rs_world s) w (rs_position s) = 0"
  using assms by (auto simp: readerOffLocked_def reader_placed_def Let_def moved_to_def reposition_def split: if_splits)

lemma source_Seek_eq:
  "rd_isClosed (rs_reader s) \<Longrightarrow> source_Seek rid e target s = ((0, True), s)"
  "\<not> rd_isClosed (rs_reader s) \<Longrightarrow> readerOnLocked (en_now e) (rs_position s = 0) rid (rs_reader s, rs_world s) = (r, w) \<Longrightarrow>
   source_Seek rid e target s =
     ((target, False), \<lparr>rs_reader = r\<lparr>rd_offset := target, rd_lastAccess := unix (en_now e)\<rparr>, rs_world = w, rs_position = target\<rparr>)"
  by (simp_all add: source_Seek_def Reader_Seek_def)

lemma source_Read_eq:
  "rd_isClosed (rs_reader s) \<or> \<not> en_attached e \<Longrightarrow> source_Read data rid e len s = (([], True), s)"
  "\<not> rd_isClosed (rs_reader s) \<Longrightarrow> en_attached e \<Longrightarrow>
   readerOnLocked (en_now e) (rs_position s = 0) rid (rs_reader s, rs_world s) = (r, w) \<Longrightarrow>
   moved_to rid (rs_world s) w (rs_position s) = p \<Longrightarrow>
   bs = take (min len (en_ready e)) (drop (nat p) data) \<Longrightarrow>
   source_Read data rid e len s =
     ((bs, en_failed e), \<lparr>rs_reader = r\<lparr>rd_offset := i64 (rd_offset r + int (length bs)), rd_lastAccess := unix (en_now e)\<rparr>,
      rs_world = w, rs_position = p + int (length bs)\<rparr>)"
  by (auto simp: source_Read_def Reader_Read_def Let_def)

lemma source_Seek_placed:
  assumes "reader_placed s" and "0 \<le> target" and "fits_i64 target" and "source_Seek rid e target s = ((n, err), s')"
  shows "reader_placed s' \<and> (if err then rd_offset (rs_reader s') = rd_offset (rs_reader s)
         else n = target \<and> rd_offset (rs_reader s') = target)"
proof (cases "rd_isClosed (rs_reader s)")
  case True
  then show ?thesis using assms by (auto simp: source_Seek_eq)
next
  case False
  obtain r w where on: "readerOnLocked (en_now e) (rs_position s = 0) rid (rs_reader s, rs_world s) = (r, w)"
    by (metis surj_pair)
  show ?thesis
    using assms(2-4) readerOn_placed [OF assms(1) False on] source_Seek_eq(2) [OF False on]
    by (auto simp: reader_placed_def)
qed

lemma offset_after_read:
  assumes "0 \<le> p" and "fits_i64 p" and "fits_i64 (int (length data))"
  shows "fits_i64 (p + int (length (take n (drop (nat p) data))))"
  using assms by (cases "nat p \<le> length data") (auto simp: fits_i64_def)

lemma source_Read_placed:
  assumes "fits_i64 (int (length data))" and "reader_placed s" and "source_Read data rid e len s = ((bs, err), s')"
  shows "reader_placed s' \<and> length bs \<le> len \<and> bs = take (length bs) (drop (nat (rd_offset (rs_reader s))) data) \<and>
         rd_offset (rs_reader s') = rd_offset (rs_reader s) + int (length bs)"
proof (cases "rd_isClosed (rs_reader s) \<or> \<not> en_attached e")
  case True
  then show ?thesis using assms(2,3) by (auto simp: source_Read_eq)
next
  case False
  then have opened: "\<not> rd_isClosed (rs_reader s)" and attached: "en_attached e" by simp_all
  obtain r w where on: "readerOnLocked (en_now e) (rs_position s = 0) rid (rs_reader s, rs_world s) = (r, w)"
    by (metis surj_pair)
  define p where "p = rd_offset (rs_reader s)"
  have p: "0 \<le> p" "fits_i64 p" using assms(2) by (simp_all add: reader_placed_def p_def)
  have placed: "rd_isUse r" "\<not> rd_isClosed r" "rd_offset r = p" "moved_to rid (rs_world s) w (rs_position s) = p"
    using readerOn_placed [OF assms(2) opened on] by (simp_all add: p_def)
  define got where "got = take (min len (en_ready e)) (drop (nat p) data)"
  have result: "bs = got" "rd_offset (rs_reader s') = i64 (p + int (length got))"
      "rd_isUse (rs_reader s')" "rs_position s' = p + int (length got)"
    using assms(3) source_Read_eq(2) [OF opened attached on placed(4) got_def] placed by auto
  have "fits_i64 (p + int (length got))" unfolding got_def by (rule offset_after_read [OF p assms(1)])
  moreover have "length got \<le> len \<and> got = take (length got) (drop (nat p) data)" by (simp add: got_def min_def)
  ultimately show ?thesis using result p i64_id by (simp add: reader_placed_def p_def [symmetric])
qed

lemma reader_tick_eq:
  "reader_event_run rid (rs_position s) ev (rs_reader s, rs_world s) = (r, w) \<Longrightarrow>
   reader_tick rid ev s = \<lparr>rs_reader = r, rs_world = w, rs_position = moved_to rid (rs_world s) w (rs_position s)\<rparr>"
  by (simp add: reader_tick_def)

lemma reader_tick_placed:
  assumes "reader_placed s"
  shows "reader_placed (reader_tick rid ev s) \<and> rd_offset (rs_reader (reader_tick rid ev s)) = rd_offset (rs_reader s)"
proof (cases "rd_isClosed (rs_reader s)")
  case True
  then show ?thesis using assms
    by (auto simp: reader_tick_def reader_event_run_def checkReader_def Reader_SetReadahead_def Reader_SetIdle_def
        Reader_Close_def reader_placed_def Let_def split: reader_event.splits)
next
  case False
  show ?thesis
  proof (cases ev)
    case (CheckReader now n)
    show ?thesis
    proof (cases "readerIdleDuration now (rd_lastAccess (rs_reader s)) > readerIdleDemotionThreshold \<and> n > 1")
      case True
      obtain r w where "readerOffLocked now rid (rs_reader s, rs_world s) = (r, w)" by (metis surj_pair)
      with readerOff_placed [OF assms False this] reader_tick_eq [of rid s ev r w] assms CheckReader False True
      show ?thesis by (simp add: reader_event_run_def checkReader_def) (simp add: reader_placed_def)
    next
      case idle: False
      obtain r w where "readerOnLocked now (rs_position s = 0) rid (rs_reader s, rs_world s) = (r, w)" by (metis surj_pair)
      with readerOn_placed [OF assms False this] reader_tick_eq [of rid s ev r w] assms CheckReader False idle
      show ?thesis by (simp add: reader_event_run_def checkReader_def) (simp add: reader_placed_def)
    qed
  next
    case (SetReadahead len)
    then show ?thesis using assms False
      by (auto simp: reader_tick_def reader_event_run_def Reader_SetReadahead_def reader_placed_def Let_def moved_to_def reposition_def)
  next
    case (SetIdle now)
    obtain r w where "readerOffLocked now rid (rs_reader s, rs_world s) = (r, w)" by (metis surj_pair)
    with readerOff_placed [OF assms False this] reader_tick_eq [of rid s ev r w] assms SetIdle False
    show ?thesis by (simp add: reader_event_run_def Reader_SetIdle_def) (simp add: reader_placed_def)
  next
    case (CloseReader now h)
    then show ?thesis using assms False
      by (auto simp: reader_tick_def reader_event_run_def Reader_Close_def reader_placed_def Let_def)
  qed
qed

lemma newReader_placed:
  assumes "newReader now f rid w = Done w'" and "the (c_readers (w_cache w')) rid = Some r"
  shows "reader_placed \<lparr>rs_reader = r, rs_world = w', rs_position = 0\<rparr>"
  using assms by (auto simp: newReader_def reader_placed_def fits_i64_def Let_def split: option.splits)

interpretation served: content_source "reader_content data rid" "reader_tick rid" data
    "\<lambda>s. reader_placed s \<and> fits_i64 (int (length data))"
  for data rid
proof unfold_locales
  fix s e len bs err s'
  assume ok: "reader_placed s \<and> fits_i64 (int (length data))"
    and call: "src_Read (reader_content data rid) e len s = ((bs, err), s')"
  have "source_Read data rid e len s = ((bs, err), s')" using call by (simp add: reader_content_def)
  from source_Read_placed [OF _ _ this] ok
  show "(reader_placed s' \<and> fits_i64 (int (length data))) \<and> length bs \<le> len \<and>
      bs = take (length bs) (drop (nat (src_Offset (reader_content data rid) s)) data) \<and>
      src_Offset (reader_content data rid) s' = src_Offset (reader_content data rid) s + int (length bs)"
    by (simp add: reader_content_def)
next
  fix s target e n err s'
  assume ok: "reader_placed s \<and> fits_i64 (int (length data))" and target: "0 \<le> target" "fits_i64 target"
    and call: "src_Seek (reader_content data rid) e target s = ((n, err), s')"
  have "source_Seek rid e target s = ((n, err), s')" using call by (simp add: reader_content_def)
  from source_Seek_placed [OF _ target this] ok
  show "(reader_placed s' \<and> fits_i64 (int (length data))) \<and>
      (if err then src_Offset (reader_content data rid) s' = src_Offset (reader_content data rid) s
       else n = target \<and> src_Offset (reader_content data rid) s' = target)"
    by (simp add: reader_content_def)
next
  fix s t
  assume "reader_placed s \<and> fits_i64 (int (length data))"
  then show "(reader_placed (reader_tick rid t s) \<and> fits_i64 (int (length data))) \<and>
      src_Offset (reader_content data rid) (reader_tick rid t s) = src_Offset (reader_content data rid) s"
    using reader_tick_placed by (simp add: reader_content_def)
next
  fix s
  assume "reader_placed s \<and> fits_i64 (int (length data))"
  then show "0 \<le> src_Offset (reader_content data rid) s \<and> fits_i64 (src_Offset (reader_content data rid) s)"
    by (simp add: reader_content_def reader_placed_def)
qed

text \<open>
  Property C32. What a stream delivers is the file. Over a reader of the cache, the seeker that \<open>http.ServeContent\<close> works
  with behaves like a position in the file: in any sequence of its calls, each seek that succeeds moves the position
  where it says, one that fails leaves it, and each read returns bytes that the file has from the position on
  and moves behind them. This holds although the probe for the size never reaches the reader and the move is made up
  for later, and although the cache may rest the reader, wake it up, change its readahead or close it at any moment in
  between, which sends the library's reader back to the start.
\<close>

theorem stream_serves_file:
  assumes "reader_placed s" and "fits_i64 (int (length data))"
  shows "serve_spec data sz ps
    (serve_run (reader_content data rid) (reader_tick rid) ps
      \<lparr>sv_seeker = newServeContentReadSeeker (reader_content data rid) (Some s) sz obs, sv_source = s, sv_deliveries = d\<rparr>)
    (rd_offset (rs_reader s))"
proof -
  have "src_Offset (reader_content data rid) s = rd_offset (rs_reader s)" by (simp add: reader_content_def)
  then show ?thesis using served.new_run_spec [of s data sz ps rid obs d] assms by simp
qed

definition demo_source :: reader_source where
  "demo_source = \<lparr>rs_reader = demo_reader, rs_world = small_world, rs_position = 7\<rparr>"

definition demo_env_at :: "int \<Rightarrow> reader_env" where
  "demo_env_at now = \<lparr>en_now = now, en_attached = True, en_ready = 4, en_failed = False\<rparr>"

definition demo_calls :: "(reader_env, reader_event) serve_op list" where
  "demo_calls =
     [DoSeek (demo_env_at 1) 0 2, DoSeek (demo_env_at 2) 3 0, Between (SetIdle 3),
      DoRead (demo_env_at 4) (demo_env_at 4) 0 0 8]"

theorem stream_serves_file_witness:
  "serve_spec [1, 2, 3, 4, 5, 6, 7, 8] 8 demo_calls
     (serve_run (reader_content [1, 2, 3, 4, 5, 6, 7, 8] 1) (reader_tick 1) demo_calls
       \<lparr>sv_seeker = newServeContentReadSeeker (reader_content [1, 2, 3, 4, 5, 6, 7, 8] 1) (Some demo_source) 8 None,
        sv_source = demo_source, sv_deliveries = empty_deliveries\<rparr>) 7"
proof -
  have "reader_placed demo_source" and "rd_offset (rs_reader demo_source) = 7"
    by (simp_all add: demo_source_def demo_reader_def reader_placed_def fits_i64_def)
  then show ?thesis
    using stream_serves_file [of demo_source "[1, 2, 3, 4, 5, 6, 7, 8]" 8 demo_calls 1 None empty_deliveries]
    by (simp add: fits_i64_def)
qed

text \<open>The same calls, evaluated: the read goes to position 3 of the file, which the reader did not have before.\<close>

lemma demo_calls_evaluated:
  "serve_run (reader_content [1, 2, 3, 4, 5, 6, 7, 8] 1) (reader_tick 1) demo_calls
     \<lparr>sv_seeker = newServeContentReadSeeker (reader_content [1, 2, 3, 4, 5, 6, 7, 8] 1) (Some demo_source) 8 None,
      sv_source = demo_source, sv_deliveries = empty_deliveries\<rparr> =
   [Sought 8 False, Sought 3 False, Passed, Got [4, 5, 6, 7] False]"
  by (simp add: demo_calls_def demo_env_at_def demo_source_def demo_reader_def newServeContentReadSeeker_def
      serve_Seek_def serve_Read_def seekReal_def resolveOffset_def recordReadWait_location_def reader_content_def
      source_Seek_def source_Read_def Reader_Seek_def Reader_Read_def readerOnLocked_def readerOffLocked_def
      reader_tick_def reader_event_run_def Reader_SetIdle_def moved_to_def reposition_def i64_id fits_i64_def Let_def)

end
