(* ===== verification/Stream_Writer.thy ===== *)
theory Stream_Writer
  imports Stream_Content Stream_Policy
begin

text \<open>
  The instruments of a stream on its way to the response (torr/stream_content.go, torr/stream.go): the writer that
  counts what is delivered, the reader that times the source, the copy loop between them, and what is set up and
  recorded around a stream. What the response and the source answer, and the clock, are arguments.
\<close>

section \<open>The writer\<close>

text \<open>
  An error with its dynamic type: an \<open>atomic.Value\<close> panics when a value of another type than the stored one is
  put into it.
\<close>

type_synonym typed_error = "string \<times> go_error"

record streamMetricsWriter =
  mw_firstWriteUnixNano :: int
  mw_bytesWritten :: int
  mw_lastError :: "typed_error option"
  mw_trackReadWait :: bool
  mw_delivery :: "nat option"
  mw_fairness :: "nat option"

text \<open>The writer with the process-wide instruments that it feeds. \<open>ws_slept\<close> is the time it has slept.\<close>

record writing =
  ws_writer :: streamMetricsWriter
  ws_health :: streamHealthCounters
  ws_deliveries :: streamDeliveryRegistry
  ws_fairness :: streamFairnessRegistry
  ws_slept :: int

definition markFirstWrite :: "int \<Rightarrow> writing \<Rightarrow> writing" where
  "markFirstWrite now s =
     (if mw_firstWriteUnixNano (ws_writer s) = 0
      then s\<lparr>ws_writer := (ws_writer s)\<lparr>mw_firstWriteUnixNano := now\<rparr>\<rparr> else s)"

definition recordError :: "typed_error option \<Rightarrow> writing \<Rightarrow> writing outcome" where
  "recordError err s =
     (case err of
        None \<Rightarrow> Done s
      | Some e \<Rightarrow>
          case mw_lastError (ws_writer s) of
            Some e' \<Rightarrow> if fst e' = fst e then Done (s\<lparr>ws_writer := (ws_writer s)\<lparr>mw_lastError := Some e\<rparr>\<rparr>) else Panic
          | None \<Rightarrow> Done (s\<lparr>ws_writer := (ws_writer s)\<lparr>mw_lastError := Some e\<rparr>\<rparr>))"

definition metrics_err :: "streamMetricsWriter \<Rightarrow> go_error option" where
  "metrics_err w = map_option snd (mw_lastError w)"

text \<open>The delay that the fairness flow asks for is slept at once.\<close>

definition record_fairness :: "int \<Rightarrow> visit_orders \<Rightarrow> nat option \<Rightarrow> int \<Rightarrow> writing \<Rightarrow> writing" where
  "record_fairness now orders flow n s =
     (case flow of
        None \<Rightarrow> s
      | Some i \<Rightarrow>
          let (slept, r) = recordWriteAndMaybeDelay now orders (dr_all (ws_deliveries s)) i n (ws_fairness s)
          in s\<lparr>ws_fairness := r, ws_slept := ws_slept s + slept\<rparr>)"

text \<open>
  What one write meets: the clock when it is marked, when the delivery is recorded and when the flow is, how long
  the response took, and its answer.
\<close>

record write_answer =
  wa_marked :: int
  wa_recorded :: int
  wa_elapsed :: int
  wa_fair :: int
  wa_orders :: visit_orders
  wa_n :: int
  wa_err :: "typed_error option"

definition metrics_Write :: "write_answer \<Rightarrow> nat \<Rightarrow> writing \<Rightarrow> writing outcome" where
  "metrics_Write a len s =
     (let s = (if len > 0 then markFirstWrite (wa_marked a) s else s);
          n = wa_n a;
          s = s\<lparr>ws_writer := (ws_writer s)\<lparr>mw_bytesWritten := i64 (mw_bytesWritten (ws_writer s) + n)\<rparr>\<rparr>;
          s = (if mw_trackReadWait (ws_writer s) then s\<lparr>ws_health := recordStreamBytesWritten n (ws_health s)\<rparr> else s);
          s = (case mw_delivery (ws_writer s) of
                 None \<Rightarrow> s
               | Some i \<Rightarrow> s\<lparr>ws_deliveries := delivery_recordWrite (wa_recorded a) i n (wa_elapsed a) (ws_deliveries s)\<rparr>);
          s = record_fairness (wa_fair a) (wa_orders a) (mw_fairness (ws_writer s)) n s
      in recordError (wa_err a) s)"

section \<open>The reader that times its source\<close>

text \<open>\<open>ra_offset\<close> is the offset of the source, -1 when it tells none; \<open>ra_state\<close> what the state provider of the delivery returns.\<close>

record read_answer =
  ra_wait :: int
  ra_recorded :: int
  ra_offset :: int
  ra_state :: streamStartupCacheSnapshot
  ra_marked :: int
  ra_fair :: int
  ra_orders :: visit_orders
  ra_n :: int
  ra_err :: "read_error option"

definition streamReadOffset :: "int option \<Rightarrow> int" where
  "streamReadOffset reader = (case reader of None \<Rightarrow> -1 | Some offset \<Rightarrow> offset)"

record firstByteTrackingReader =
  tr_trackReadWait :: bool
  tr_delivery :: "nat option"
  tr_fairness :: "nat option"
  tr_seen :: bool

definition tracking_Read ::
  "read_answer \<Rightarrow> nat \<Rightarrow> firstByteTrackingReader \<times> writing \<Rightarrow> firstByteTrackingReader \<times> writing" where
  "tracking_Read a len ts =
     (let (t, s) = ts;
          s = (if tr_trackReadWait t
               then let s = s\<lparr>ws_health := recordStreamReadWait (ra_wait a) (ws_health s)\<rparr>
                    in case tr_delivery t of
                         None \<Rightarrow> s
                       | Some i \<Rightarrow> s\<lparr>ws_deliveries := update_delivery i
                           (delivery_recordReadWait (ra_recorded a) (ra_state a) (ra_wait a) (ra_offset a) (int len))
                           (ws_deliveries s)\<rparr>
               else s);
          (t, s) = (if ra_n a > 0 \<and> \<not> tr_seen t then (t\<lparr>tr_seen := True\<rparr>, markFirstWrite (ra_marked a) s) else (t, s));
          s = record_fairness (ra_fair a) (ra_orders a) (tr_fairness t) (ra_n a) s
      in (t, s))"

section \<open>The copy\<close>

text \<open>
  \<open>io.CopyBuffer\<close> of the standard library between the two, which hides every other method of theirs: it reads,
  writes what it read, and stops at an error or a short write. The list holds the answers of each round; a copy
  whose list ends is still running, \<open>NoFuel\<close>. The result is the number of bytes written and the error.
\<close>

datatype copy_error = ReadError read_error | WriteError typed_error | ErrInvalidWrite | ErrShortWrite

fun copyStreamContent ::
  "(read_answer \<times> write_answer) list \<Rightarrow> int \<Rightarrow> firstByteTrackingReader \<times> writing
   \<Rightarrow> ((int \<times> copy_error option) \<times> firstByteTrackingReader \<times> writing) outcome" where
  "copyStreamContent [] written ts = NoFuel"
| "copyStreamContent ((r, w) # rounds) written ts =
     (let (t, s) = tracking_Read r (nat streamCopyBufferSize) ts; nr = ra_n r;
          ended = (case ra_err r of None \<Rightarrow> None | Some EndOfFile \<Rightarrow> Some None | Some e \<Rightarrow> Some (Some (ReadError e)))
      in if nr > 0
         then bind_outcome (metrics_Write w (nat nr) s) (\<lambda>s.
           let bad = (wa_n w < 0 \<or> nr < wa_n w); nw = (if bad then 0 else wa_n w);
               ew = (case wa_err w of Some e \<Rightarrow> Some (WriteError e) | None \<Rightarrow> if bad then Some ErrInvalidWrite else None);
               written = i64 (written + nw)
           in if ew \<noteq> None then Done ((written, ew), t, s)
              else if nr \<noteq> nw then Done ((written, Some ErrShortWrite), t, s)
              else case ended of
                  Some err \<Rightarrow> Done ((written, err), t, s)
                | None \<Rightarrow> copyStreamContent rounds written (t, s))
         else case ended of
             Some err \<Rightarrow> Done ((written, err), t, s)
           | None \<Rightarrow> copyStreamContent rounds written (t, s))"

text \<open>
  \<open>ReadFrom\<close>: \<open>direct\<close> is the answer of the response's own \<open>ReadFrom\<close>, when it has one, with the reads that it did.
\<close>

definition metrics_ReadFrom ::
  "(read_answer \<times> write_answer) list \<Rightarrow> ((read_answer \<times> nat) list \<times> int \<times> typed_error option) option \<Rightarrow> writing
   \<Rightarrow> (int \<times> writing) outcome" where
  "metrics_ReadFrom rounds direct s =
     (let w = ws_writer s;
          t = \<lparr>tr_trackReadWait = mw_trackReadWait w, tr_delivery = mw_delivery w, tr_fairness = None, tr_seen = False\<rparr>;
          copy = bind_outcome (copyStreamContent rounds 0 (t, s)) (\<lambda>((n, err), t, s). Done (n, s))
      in if mw_trackReadWait w then copy
         else case direct of
           None \<Rightarrow> copy
         | Some (reads, n, err) \<Rightarrow>
             let (t, s) = foldl (\<lambda>ts (a, len). tracking_Read a len ts) (t\<lparr>tr_fairness := mw_fairness w\<rparr>, s) reads;
                 s = s\<lparr>ws_writer := (ws_writer s)\<lparr>mw_bytesWritten := i64 (mw_bytesWritten (ws_writer s) + n)\<rparr>\<rparr>
             in bind_outcome (recordError err s) (\<lambda>s. Done (n, s)))"

section \<open>Around a stream\<close>

definition streamFirstByteDuration :: "int \<Rightarrow> streamMetricsWriter \<Rightarrow> int" where
  "streamFirstByteDuration streamStarted w =
     (if mw_firstWriteUnixNano w = 0 then 0 else time_sub (mw_firstWriteUnixNano w) streamStarted)"

definition startStreamInstrumentation ::
  "bool \<Rightarrow> int \<Rightarrow> int \<Rightarrow> streamDeliveryMetadata \<Rightarrow> streamHealthCounters \<times> streamDeliveryRegistry \<times> streamFairnessRegistry
   \<Rightarrow> writing" where
  "startStreamInstrumentation debugEnabled started torrentID metadata hdf =
     (let (h, d, f) = hdf;
          (i, f) = registerStreamFairness started torrentID f;
          w = \<lparr>mw_firstWriteUnixNano = 0, mw_bytesWritten = 0, mw_lastError = None, mw_trackReadWait = debugEnabled,
               mw_delivery = None, mw_fairness = Some i\<rparr>
      in if debugEnabled
         then let (j, d) = registerStreamDeliveryWithMetadata started torrentID metadata d
              in \<lparr>ws_writer = w\<lparr>mw_delivery := Some j\<rparr>, ws_health = h, ws_deliveries = d,
                  ws_fairness = setDelivery i (Some j) f, ws_slept = 0\<rparr>
         else \<lparr>ws_writer = w, ws_health = h, ws_deliveries = d, ws_fairness = f, ws_slept = 0\<rparr>)"

definition finishStreamInstrumentation :: "bool \<Rightarrow> int \<Rightarrow> writing \<Rightarrow> writing" where
  "finishStreamInstrumentation debugEnabled started s =
     (if debugEnabled
      then s\<lparr>ws_health := recordStreamCompleted (streamFirstByteDuration started (ws_writer s))
               (mw_bytesWritten (ws_writer s)) (metrics_err (ws_writer s)) (ws_health s)\<rparr>
      else s)"

text \<open>The function \<open>release\<close> of the instrumentation.\<close>

definition release_instrumentation :: "writing \<Rightarrow> writing" where
  "release_instrumentation s =
     (let s = (case mw_delivery (ws_writer s) of
                 None \<Rightarrow> s | Some j \<Rightarrow> s\<lparr>ws_deliveries := releaseStreamDelivery j (ws_deliveries s)\<rparr>)
      in case mw_fairness (ws_writer s) of
           None \<Rightarrow> s | Some i \<Rightarrow> s\<lparr>ws_fairness := releaseStreamFairness i (ws_fairness s)\<rparr>)"

section \<open>What is counted\<close>

lemma writer_frames [simp]:
  "ws_writer (record_fairness now orders flow n s) = ws_writer s"
  "ws_health (record_fairness now orders flow n s) = ws_health s"
  "mw_bytesWritten (ws_writer (markFirstWrite now s)) = mw_bytesWritten (ws_writer s)"
  "mw_trackReadWait (ws_writer (markFirstWrite now s)) = mw_trackReadWait (ws_writer s)"
  by (simp_all add: record_fairness_def markFirstWrite_def split: option.splits prod.splits)

lemma recordError_frame:
  "recordError err s = Done s' \<Longrightarrow> mw_bytesWritten (ws_writer s') = mw_bytesWritten (ws_writer s)"
  by (auto simp: recordError_def split: option.splits if_splits)

lemma write_counts:
  "metrics_Write a len s = Done s' \<Longrightarrow>
   mw_bytesWritten (ws_writer s') = i64 (mw_bytesWritten (ws_writer s) + wa_n a)"
  by (auto simp: metrics_Write_def Let_def dest!: recordError_frame split: if_splits option.splits)

lemma tracking_counts [simp]:
  "mw_bytesWritten (ws_writer (snd (tracking_Read a len (t, s)))) = mw_bytesWritten (ws_writer s)"
  by (simp add: tracking_Read_def Let_def split: option.splits)

text \<open>
  The copy and the writer count the same bytes, as long as the response does not claim more than it was given.
\<close>

definition honest_rounds :: "(read_answer \<times> write_answer) list \<Rightarrow> bool" where
  "honest_rounds rounds \<longleftrightarrow> (\<forall>(r, w) \<in> set rounds. 0 \<le> wa_n w \<and> wa_n w \<le> ra_n r)"

lemma copy_counts:
  "copyStreamContent rounds written (t, s) = Done ((written', err), t', s') \<Longrightarrow> honest_rounds rounds \<Longrightarrow>
   i64 (mw_bytesWritten (ws_writer s') - written') = i64 (mw_bytesWritten (ws_writer s) - written)"
proof (induction rounds arbitrary: written t s)
  case (Cons round rounds)
  obtain r w where round: "round = (r, w)" by (metis surj_pair)
  obtain t1 s1 where read: "tracking_Read r (nat streamCopyBufferSize) (t, s) = (t1, s1)" by (metis surj_pair)
  have same: "mw_bytesWritten (ws_writer s1) = mw_bytesWritten (ws_writer s)"
    using tracking_counts [of r "nat streamCopyBufferSize" t s] by (simp add: read)
  have honest: "honest_rounds rounds" "0 \<le> wa_n w" "wa_n w \<le> ra_n r"
    using Cons.prems(2) by (simp_all add: honest_rounds_def round)
  note IH = Cons.IH [OF _ honest(1)]
  define ended where "ended = (case ra_err r of None \<Rightarrow> None | Some EndOfFile \<Rightarrow> Some None | Some e \<Rightarrow> Some (Some (ReadError e)))"
  note step = Cons.prems(1) [unfolded round copyStreamContent.simps read Let_def prod.case, folded ended_def]
  show ?case
  proof (cases "ra_n r > 0")
    case True
    then obtain s2 where "metrics_Write w (nat (ra_n r)) s1 = Done s2"
      using step by (auto simp: bind_outcome_Done)
    with write_counts [OF this] same step True honest show ?thesis
      by (auto split: if_splits option.splits dest!: IH)
  next
    case False
    with step same show ?thesis by (auto split: option.splits dest!: IH)
  qed
qed simp

end
