(* ===== verification/Torrent_Lifecycle.thy ===== *)
theory Torrent_Lifecycle
  imports Stream_Admission Stream_Policy
begin

text \<open>
  The life of a torrent (torr/torrent_lifecycle.go, torrent_playback.go, torrent_metadata.go,
  preload.go, torr/state), with the registries that hold it (btserver_torrent_registry.go, btserver_registry.go) and
  its cache (storage_registry.go, storage_manager.go).

  Torrents and caches are objects that several goroutines share: they are numbered, and the state holds a function from
  the numbers. The torrent library, the number of readers of a cache, the clock and the settings are arguments.
\<close>

section \<open>A torrent\<close>

datatype TorrentStat =
    TorrentAdded
  | TorrentGettingInfo
  | TorrentPreload
  | TorrentWorking
  | TorrentClosed
  | TorrentInDB

definition TorrentStat_String :: "TorrentStat \<Rightarrow> string" where
  "TorrentStat_String t =
     (case t of
        TorrentAdded \<Rightarrow> ''Torrent added''
      | TorrentGettingInfo \<Rightarrow> ''Torrent getting info''
      | TorrentPreload \<Rightarrow> ''Torrent preload''
      | TorrentWorking \<Rightarrow> ''Torrent working''
      | TorrentClosed \<Rightarrow> ''Torrent closed''
      | TorrentInDB \<Rightarrow> ''Torrent in db'')"

text \<open>\<open>to_bt\<close>: the torrent belongs to a server. The torrent of the library, as far as it is looked at: its hash, its name once the metadata are there, and its files.\<close>

record lib_torrent =
  lt_hash :: string
  lt_name :: "string option"
  lt_files :: "(string \<times> int) list"

text \<open>
  The specification of the library (torrent.TorrentSpec): its hash, trackers and display name, which the program looks at, and
  the other fields, which it only stores, in some coding.
\<close>

record torrent_spec =
  sp_InfoHash :: string
  sp_Trackers :: "string list list"
  sp_DisplayName :: string
  sp_others :: string

definition plain_spec :: "string \<Rightarrow> torrent_spec" where
  "plain_spec h = \<lparr>sp_InfoHash = h, sp_Trackers = [], sp_DisplayName = [], sp_others = []\<rparr>"

lemma plain_spec_hash [simp]: "sp_InfoHash (plain_spec h) = h"
  by (simp add: plain_spec_def)

record torrent =
  to_Title :: string
  to_Category :: string
  to_Poster :: string
  to_Data :: string
  to_Spec :: "torrent_spec option"
  to_Stat :: TorrentStat
  to_Timestamp :: int
  to_Size :: int
  to_Torrent :: "lib_torrent option"
  to_bt :: bool
  to_cache :: "nat option"
  to_targetBytes :: int
  to_loadedBytes :: int
  to_expiredUnixNano :: int
  to_playbackQuiesced :: bool
  to_lastMaxEstablished :: int

text \<open>The first hash is that of the library's torrent; without either it is twenty zero bytes.\<close>

definition torrent_Hash :: "torrent \<Rightarrow> string" where
  "torrent_Hash t =
     (case to_Torrent t of Some l \<Rightarrow> lt_hash l
      | None \<Rightarrow> (case to_Spec t of Some spec \<Rightarrow> sp_InfoHash spec | None \<Rightarrow> replicate 40 (CHR ''0'')))"

definition torrent_Files :: "torrent \<Rightarrow> (string \<times> int) list" where
  "torrent_Files t = (case to_Torrent t of Some l \<Rightarrow> if lt_name l \<noteq> None then lt_files l else [] | None \<Rightarrow> [])"

section \<open>Metadata\<close>

record TorrentMetadata =
  tm_Title :: string
  tm_Poster :: string
  tm_Category :: string
  tm_Data :: string

definition Metadata :: "torrent option \<Rightarrow> TorrentMetadata" where
  "Metadata t =
     (case t of
        None \<Rightarrow> \<lparr>tm_Title = [], tm_Poster = [], tm_Category = [], tm_Data = []\<rparr>
      | Some t \<Rightarrow> \<lparr>tm_Title = to_Title t, tm_Poster = to_Poster t, tm_Category = to_Category t, tm_Data = to_Data t\<rparr>)"

definition SetMetadata :: "TorrentMetadata \<Rightarrow> torrent \<Rightarrow> torrent" where
  "SetMetadata m t = t\<lparr>to_Title := tm_Title m, to_Poster := tm_Poster m, to_Category := tm_Category m, to_Data := tm_Data m\<rparr>"

definition FillMissingMetadata :: "TorrentMetadata \<Rightarrow> torrent \<Rightarrow> torrent" where
  "FillMissingMetadata m t =
     (let t = (if to_Title t = [] then t\<lparr>to_Title := tm_Title m\<rparr> else t);
          t = (if to_Poster t = [] then t\<lparr>to_Poster := tm_Poster m\<rparr> else t);
          t = (if to_Category t = [] then t\<lparr>to_Category := tm_Category m\<rparr> else t)
      in if to_Data t = [] then t\<lparr>to_Data := tm_Data m\<rparr> else t)"

definition EnsureTitleFromInfo :: "torrent \<Rightarrow> torrent" where
  "EnsureTitleFromInfo t =
     (if to_Title t = []
      then (case to_Torrent t of
              Some l \<Rightarrow> (case lt_name l of Some n \<Rightarrow> t\<lparr>to_Title := n\<rparr> | None \<Rightarrow> t)
            | None \<Rightarrow> t)
      else t)"

definition mergeTorrentMetadata :: "torrent option \<Rightarrow> string \<Rightarrow> string \<Rightarrow> string \<Rightarrow> string \<Rightarrow> torrent \<Rightarrow> torrent" where
  "mergeTorrentMetadata torDB title poster category data t =
     (let t = FillMissingMetadata \<lparr>tm_Title = title, tm_Poster = poster, tm_Category = category, tm_Data = data\<rparr> t;
          t = (if torDB = None then t else FillMissingMetadata (Metadata torDB) t)
      in EnsureTitleFromInfo t)"

section \<open>Expiry\<close>

definition AddExpiredTime :: "int \<Rightarrow> int \<Rightarrow> torrent \<Rightarrow> torrent" where
  "AddExpiredTime now duration t =
     (let newExp = i64 (now + duration)
      in if to_expiredUnixNano t \<ge> newExp then t else t\<lparr>to_expiredUnixNano := newExp\<rparr>)"

definition ShortenExpiredTime :: "int \<Rightarrow> int \<Rightarrow> torrent \<Rightarrow> torrent" where
  "ShortenExpiredTime now duration t =
     (let newExp = i64 (now + duration); cur = to_expiredUnixNano t
      in if cur > now \<and> cur \<le> newExp then t else t\<lparr>to_expiredUnixNano := newExp\<rparr>)"

definition shouldExpireTorrent :: "int \<Rightarrow> bool \<Rightarrow> int \<Rightarrow> int \<Rightarrow> TorrentStat \<Rightarrow> bool" where
  "shouldExpireTorrent readers hasActiveStream expiredUnixNano nowUnixNano st \<longleftrightarrow>
     (if readers > 0 \<or> hasActiveStream \<or> expiredUnixNano = 0 then False
      else expiredUnixNano < nowUnixNano \<and> (st = TorrentWorking \<or> st = TorrentClosed))"

definition hasActivePlaybackStream :: "streamAdmissionRegistry \<Rightarrow> torrent \<Rightarrow> bool" where
  "hasActivePlaybackStream r t \<longleftrightarrow> to_Spec t \<noteq> None \<and> hasActiveTorrent (torrent_Hash t) r"

text \<open>\<open>readers\<close> is the number of readers of the cache.\<close>

definition torrent_expired :: "int \<Rightarrow> int \<Rightarrow> streamAdmissionRegistry \<Rightarrow> torrent \<Rightarrow> bool" where
  "torrent_expired now readers r t \<longleftrightarrow>
     (if to_cache t = None \<or> to_expiredUnixNano t = 0 then False
      else shouldExpireTorrent readers (hasActivePlaybackStream r t) (to_expiredUnixNano t) now (to_Stat t))"

section \<open>Playback\<close>

text \<open>The calls of the library that playback makes.\<close>

datatype torrent_call = AllowDataDownload | DisallowDataDownload | SetMaxEstablishedConns int

text \<open>\<open>playing\<close> is the number of torrents that play, and \<open>localReaders\<close> the active readers of this one.\<close>

definition resumePlaybackPeerAcquisition :: "BTSets option \<Rightarrow> int \<Rightarrow> int \<Rightarrow> torrent \<Rightarrow> torrent \<times> torrent_call list" where
  "resumePlaybackPeerAcquisition sets playing localReaders t =
     (if to_Torrent t = None then (t, [])
      else let allow = (if to_playbackQuiesced t then [AllowDataDownload] else []);
               target = adaptiveMaxEstablishedConns sets playing localReaders
           in (t\<lparr>to_playbackQuiesced := False, to_lastMaxEstablished := target\<rparr>, allow @ [SetMaxEstablishedConns target]))"

definition quiescePlaybackPeerAcquisition :: "torrent \<Rightarrow> torrent \<times> torrent_call list" where
  "quiescePlaybackPeerAcquisition t =
     (if to_Torrent t = None then (t, [])
      else (t\<lparr>to_lastMaxEstablished := 0, to_playbackQuiesced := True\<rparr>, [DisallowDataDownload, SetMaxEstablishedConns 0]))"

definition TouchPlaybackIntent :: "int \<Rightarrow> BTSets option \<Rightarrow> int \<Rightarrow> int \<Rightarrow> torrent \<Rightarrow> torrent \<times> torrent_call list" where
  "TouchPlaybackIntent now sets playing localReaders t =
     resumePlaybackPeerAcquisition sets playing localReaders (AddExpiredTime now (disconnectTimeout sets) t)"

text \<open>\<open>left\<close> is the number of active readers after the cache closed the reader.\<close>

definition torrent_CloseReader :: "int \<Rightarrow> BTSets option \<Rightarrow> int \<Rightarrow> torrent \<Rightarrow> torrent \<times> torrent_call list" where
  "torrent_CloseReader now sets left t =
     (if to_cache t = None then (t, [])
      else if left = 0
      then let (t, calls) = quiescePlaybackPeerAcquisition t
           in (ShortenExpiredTime now (postPlaybackDisconnectDelay sets) t, calls)
      else (AddExpiredTime now (disconnectTimeout sets) t, []))"

text \<open>Whether a reader is opened in the cache.\<close>

definition torrent_NewReader :: "BTSets option \<Rightarrow> int \<Rightarrow> int \<Rightarrow> torrent \<Rightarrow> bool \<times> torrent \<times> torrent_call list" where
  "torrent_NewReader sets playing localReaders t =
     (if to_Stat t = TorrentClosed \<or> to_cache t = None then (False, t, [])
      else (True, resumePlaybackPeerAcquisition sets playing localReaders t))"

definition ActiveReaders :: "int \<Rightarrow> torrent \<Rightarrow> int" where
  "ActiveReaders useReaders t = (if to_cache t = None then 0 else useReaders)"

section \<open>What keeps a torrent alive\<close>

text \<open>The events that move the expiry, each with the settings of its moment.\<close>

datatype expiry_event =
    Touched int "BTSets option"
  | ReaderClosed int "BTSets option" int
  | TimeAdded int int

fun expiry_step :: "torrent \<Rightarrow> expiry_event \<Rightarrow> torrent" where
  "expiry_step t (Touched now sets) = fst (TouchPlaybackIntent now sets 1 0 t)"
| "expiry_step t (ReaderClosed now sets left) = fst (torrent_CloseReader now sets left t)"
| "expiry_step t (TimeAdded now d) = AddExpiredTime now d t"

fun event_time :: "expiry_event \<Rightarrow> int" where
  "event_time (Touched now sets) = now"
| "event_time (ReaderClosed now sets left) = now"
| "event_time (TimeAdded now d) = now"

fun event_delay :: "expiry_event \<Rightarrow> int" where
  "event_delay (Touched now sets) = disconnectTimeout sets"
| "event_delay (ReaderClosed now sets left) =
     (if left = 0 then postPlaybackDisconnectDelay sets else disconnectTimeout sets)"
| "event_delay (TimeAdded now d) = d"

text \<open>The events that ask for more time, as opposed to the close of the last reader.\<close>

fun asks_for_time :: "expiry_event \<Rightarrow> bool" where
  "asks_for_time (ReaderClosed now sets left) = (left \<noteq> 0)"
| "asks_for_time _ = True"

definition ordered_events :: "int \<Rightarrow> expiry_event list \<Rightarrow> bool" where
  "ordered_events d es \<longleftrightarrow>
     sorted (map event_time es) \<and>
     (\<forall>e \<in> set es. d \<le> event_delay e \<and> fits_i64 (event_time e + event_delay e))"

lemma quiesce_frame [simp]:
  "to_expiredUnixNano (fst (quiescePlaybackPeerAcquisition t)) = to_expiredUnixNano t"
  "to_cache (fst (quiescePlaybackPeerAcquisition t)) = to_cache t"
  by (simp_all add: quiescePlaybackPeerAcquisition_def)

lemma resume_frame [simp]:
  "to_expiredUnixNano (fst (resumePlaybackPeerAcquisition sets p l t)) = to_expiredUnixNano t"
  "to_cache (fst (resumePlaybackPeerAcquisition sets p l t)) = to_cache t"
  by (simp_all add: resumePlaybackPeerAcquisition_def Let_def)

lemma add_expired_cache [simp]: "to_cache (AddExpiredTime now d t) = to_cache t"
  by (simp add: AddExpiredTime_def Let_def)

lemma shorten_expired_cache [simp]: "to_cache (ShortenExpiredTime now d t) = to_cache t"
  by (simp add: ShortenExpiredTime_def Let_def)

lemma expiry_step_cache [simp]: "to_cache (expiry_step t e) = to_cache t"
  by (cases e) (simp_all add: TouchPlaybackIntent_def torrent_CloseReader_def split_beta Let_def)

lemma expiry_step_lower:
  assumes "d \<le> event_delay e" and "fits_i64 (event_time e + event_delay e)" and "to_cache t \<noteq> None"
  shows "to_expiredUnixNano (expiry_step t e) \<ge> min (to_expiredUnixNano t) (event_time e + d)"
    and "asks_for_time e \<Longrightarrow> to_expiredUnixNano (expiry_step t e) \<ge> event_time e + d"
  using assms by (cases e; auto simp: TouchPlaybackIntent_def torrent_CloseReader_def AddExpiredTime_def ShortenExpiredTime_def
      split_beta Let_def i64_id)+

text \<open>No event puts the expiry further off than its delay.\<close>

lemma expiry_step_upper:
  assumes "event_delay e \<le> D" and "fits_i64 (event_time e + event_delay e)"
  shows "to_expiredUnixNano (expiry_step t e) \<le> max (to_expiredUnixNano t) (event_time e + D)"
  using assms by (cases e; auto simp: TouchPlaybackIntent_def torrent_CloseReader_def AddExpiredTime_def ShortenExpiredTime_def
      split_beta Let_def i64_id)

lemma expiry_below:
  "\<forall>e \<in> set es. event_delay e \<le> D \<and> fits_i64 (event_time e + event_delay e) \<and> event_time e + D < now \<Longrightarrow>
   to_expiredUnixNano t < now \<Longrightarrow> to_expiredUnixNano (foldl expiry_step t es) < now"
proof (induction es arbitrary: t)
  case (Cons e es)
  then have "to_expiredUnixNano (expiry_step t e) < now" using expiry_step_upper [of e D t] by fastforce
  then show ?case using Cons by simp
qed simp

lemma events_cache [simp]: "to_cache (foldl expiry_step t es) = to_cache t"
  by (induction es arbitrary: t) simp_all

lemma expiry_after_events:
  assumes "ordered_events d es" and "to_cache t \<noteq> None"
  shows "\<forall>e \<in> set es. asks_for_time e \<longrightarrow> event_time e + d \<le> to_expiredUnixNano (foldl expiry_step t es)"
  using assms(1)
proof (induction es rule: rev_induct)
  case (snoc e es)
  let ?u = "foldl expiry_step t es"
  have cache: "to_cache ?u \<noteq> None" using assms(2) by simp
  have before: "ordered_events d es" and e: "d \<le> event_delay e" "fits_i64 (event_time e + event_delay e)"
    and later: "\<forall>e' \<in> set es. event_time e' \<le> event_time e"
    using snoc.prems by (auto simp: ordered_events_def sorted_append)
  note lower = expiry_step_lower [OF e cache]
  have "event_time e' + d \<le> to_expiredUnixNano (expiry_step ?u e)" if "e' \<in> set es" "asks_for_time e'" for e'
    using snoc.IH [OF before] later that lower(1) by force
  then show ?case using lower(2) by auto
qed simp

definition demo_torrent :: torrent where
  "demo_torrent = \<lparr>to_Title = [], to_Category = [], to_Poster = [], to_Data = [], to_Spec = Some (plain_spec ''a''), to_Stat = TorrentWorking,
     to_Timestamp = 0, to_Size = 0, to_Torrent = Some \<lparr>lt_hash = ''a'', lt_name = Some ''film'', lt_files = [(''film.mkv'', 1000)]\<rparr>, to_bt = True, to_cache = Some 0,
     to_targetBytes = 0, to_loadedBytes = 0, to_expiredUnixNano = 0, to_playbackQuiesced = False, to_lastMaxEstablished = 0\<rparr>"

definition demo_history :: "expiry_event list" where
  "demo_history = [Touched 1000000000 None, ReaderClosed 2000000000 None 1, ReaderClosed 3000000000 None 0]"

text \<open>
  The close of a last reader asks for no grace of its own: an expiry that lies just ahead is kept, so that a torrent
  may be closed at once when its last reader goes, where it would have been kept for the whole delay had
  the expiry been behind already.
\<close>

lemma grace_can_be_cut:
  "torrent_expired 29002000000 0 newStreamAdmissionState
     (fst (torrent_CloseReader 28999000000 None 0 (demo_torrent\<lparr>to_expiredUnixNano := 29001000000\<rparr>))) \<and>
   \<not> torrent_expired 29002000000 0 newStreamAdmissionState
     (fst (torrent_CloseReader 28999000000 None 0 (demo_torrent\<lparr>to_expiredUnixNano := 28998000000\<rparr>)))"
  by (simp add: torrent_CloseReader_def demo_torrent_def quiescePlaybackPeerAcquisition_def ShortenExpiredTime_def
      disconnectTimeout_def postPlaybackDisconnectDelay_def torrent_expired_def shouldExpireTorrent_def
      hasActivePlaybackStream_def hasActiveTorrent_def newStreamAdmissionState_def i64_id fits_i64_def
      active_entry_def torrent_Hash_def)

section \<open>The registries\<close>

definition registry_Get :: "string \<Rightarrow> (string \<rightharpoonup> nat) \<Rightarrow> nat option" where
  "registry_Get hash r = r hash"

definition registry_Delete :: "string \<Rightarrow> (string \<rightharpoonup> nat) \<Rightarrow> nat option \<times> (string \<rightharpoonup> nat)" where
  "registry_Delete hash r = (r hash, r(hash := None))"

definition registry_LoadOrStore :: "string \<Rightarrow> nat \<Rightarrow> (string \<rightharpoonup> nat) \<Rightarrow> (nat \<times> bool) \<times> (string \<rightharpoonup> nat)" where
  "registry_LoadOrStore hash torr r = (case r hash of Some existing \<Rightarrow> ((existing, True), r) | None \<Rightarrow> ((torr, False), r(hash \<mapsto> torr)))"

definition registry_Len :: "(string \<rightharpoonup> nat) \<Rightarrow> nat" where
  "registry_Len r = card (dom r)"

definition registry_Set :: "string \<Rightarrow> nat \<Rightarrow> (string \<rightharpoonup> nat) \<Rightarrow> (string \<rightharpoonup> nat)" where
  "registry_Set hash cache r = r(hash \<mapsto> cache)"

text \<open>The server with the objects it shares. \<open>bs_caches\<close> is the registry of the storage, which holds the caches.\<close>

record bt_server =
  bs_torrents :: "nat \<Rightarrow> torrent"
  bs_nextTorrent :: nat
  bs_registry :: "string \<rightharpoonup> nat"
  bs_caches :: "string \<rightharpoonup> nat"
  bs_cacheHash :: "nat \<Rightarrow> string"
  bs_closedCaches :: "nat set"
  bs_nextCache :: nat

definition upd_torrent :: "nat \<Rightarrow> (torrent \<Rightarrow> torrent) \<Rightarrow> bt_server \<Rightarrow> bt_server" where
  "upd_torrent i f s = s\<lparr>bs_torrents := (bs_torrents s)(i := f (bs_torrents s i))\<rparr>"

section \<open>The storage\<close>

definition unregisterCache :: "string \<Rightarrow> bt_server \<Rightarrow> bt_server" where
  "unregisterCache hash s = s\<lparr>bs_caches := snd (registry_Delete hash (bs_caches s))\<rparr>"

text \<open>What the close of a cache does to the storage.\<close>

definition cache_Close :: "nat \<Rightarrow> bt_server \<Rightarrow> bt_server" where
  "cache_Close k s =
     (if k \<in> bs_closedCaches s then s
      else unregisterCache (bs_cacheHash s k) (s\<lparr>bs_closedCaches := insert k (bs_closedCaches s)\<rparr>))"

definition storage_OpenTorrent :: "string \<Rightarrow> bt_server \<Rightarrow> nat \<times> bt_server" where
  "storage_OpenTorrent hash s =
     (let k = bs_nextCache s
      in (k, s\<lparr>bs_nextCache := k + 1, bs_cacheHash := (bs_cacheHash s)(k := hash),
               bs_caches := registry_Set hash k (bs_caches s)\<rparr>))"

definition storage_CloseHash :: "string \<Rightarrow> bt_server \<Rightarrow> bt_server" where
  "storage_CloseHash hash s =
     (let (ch, caches) = registry_Delete hash (bs_caches s); s = s\<lparr>bs_caches := caches\<rparr>
      in case ch of None \<Rightarrow> s | Some k \<Rightarrow> cache_Close k s)"

definition storage_GetCache :: "string \<Rightarrow> bt_server \<Rightarrow> nat option" where
  "storage_GetCache hash s = registry_Get hash (bs_caches s)"

text \<open>\<open>order\<close> lists the caches of the registry in the order of its map.\<close>

definition storage_Close :: "nat list \<Rightarrow> bt_server \<Rightarrow> bt_server" where
  "storage_Close order s = foldl (\<lambda>s k. cache_Close k s) (s\<lparr>bs_caches := Map.empty\<rparr>) order"

section \<open>Adding, waiting and closing\<close>

text \<open>
  \<open>NewTorrent\<close> on a connected server; \<open>added\<close> is what the library makes of the specification, \<open>None\<close> for an error.
  \<open>policy\<close> is \<open>applyTrackerPolicy\<close> of Trackers under the settings.
\<close>

definition NewTorrent :: "int \<Rightarrow> BTSets \<Rightarrow> (string list list \<Rightarrow> string list list) \<Rightarrow> torrent_spec \<Rightarrow> lib_torrent option \<Rightarrow> bt_server \<Rightarrow> nat option \<times> bt_server" where
  "NewTorrent now sets policy spec added s =
     (case added of
        None \<Rightarrow> (None, s)
      | Some lt \<Rightarrow>
          case registry_Get (sp_InfoHash spec) (bs_registry s) of
            Some tor \<Rightarrow> (Some tor, s)
          | None \<Rightarrow>
              let timeout = min (i64 (TorrentDisconnectTimeout sets * 1000000000)) (60 * 1000000000);
                  i = bs_nextTorrent s;
                  torr = AddExpiredTime now timeout
                    \<lparr>to_Title = [], to_Category = [], to_Poster = [], to_Data = [], to_Spec = Some (spec\<lparr>sp_Trackers := policy (sp_Trackers spec)\<rparr>),
                     to_Stat = TorrentAdded, to_Timestamp = now div 1000000000, to_Size = 0, to_Torrent = Some lt, to_bt = True, to_cache = None, to_targetBytes = 0,
                     to_loadedBytes = 0, to_expiredUnixNano = 0, to_playbackQuiesced = False, to_lastMaxEstablished = 0\<rparr>;
                  s = s\<lparr>bs_nextTorrent := i + 1, bs_torrents := (bs_torrents s)(i := torr)\<rparr>;
                  ((j, loaded), r) = registry_LoadOrStore (sp_InfoHash spec) i (bs_registry s)
              in (Some j, s\<lparr>bs_registry := r\<rparr>))"

datatype wait_outcome = InfoArrived | ClosedFirst | TimedOut

definition WaitInfo :: "wait_outcome \<Rightarrow> nat \<Rightarrow> bt_server \<Rightarrow> bool \<times> bt_server" where
  "WaitInfo arrived i s =
     (let t = bs_torrents s i in
      if to_Torrent t = None then (False, s)
      else case arrived of
          InfoArrived \<Rightarrow>
            if to_bt t
            then let cache = storage_GetCache (torrent_Hash t) s
                 in (cache \<noteq> None, upd_torrent i (\<lambda>t. t\<lparr>to_cache := cache\<rparr>) s)
            else (True, s)
        | _ \<Rightarrow> (False, s))"

text \<open>The close in the sections that other goroutines can see between: its mark, the two registries, and the drop.\<close>

definition close_refused :: "bool \<Rightarrow> int \<Rightarrow> torrent \<Rightarrow> bool" where
  "close_refused readOnly useReaders t \<longleftrightarrow> readOnly \<and> to_cache t \<noteq> None \<and> useReaders > 0"

definition close_mark :: "nat \<Rightarrow> bt_server \<Rightarrow> bt_server" where
  "close_mark i s = upd_torrent i (\<lambda>t. t\<lparr>to_Stat := TorrentClosed\<rparr>) s"

definition close_registries :: "nat \<Rightarrow> bt_server \<Rightarrow> bt_server" where
  "close_registries i s =
     (let t = bs_torrents s i in
      if to_bt t
      then storage_CloseHash (torrent_Hash t) (s\<lparr>bs_registry := snd (registry_Delete (torrent_Hash t) (bs_registry s))\<rparr>)
      else s)"

definition torrent_drop :: "nat \<Rightarrow> bt_server \<Rightarrow> bt_server" where
  "torrent_drop i s = upd_torrent i (\<lambda>t. t\<lparr>to_Torrent := None\<rparr>) s"

definition close_drop :: "nat \<Rightarrow> bt_server \<Rightarrow> bt_server" where
  "close_drop i s = torrent_drop i (upd_torrent i (\<lambda>t. t\<lparr>to_cache := None\<rparr>) s)"

definition torrent_Close :: "bool \<Rightarrow> int \<Rightarrow> nat \<Rightarrow> bt_server \<Rightarrow> bool \<times> bt_server" where
  "torrent_Close readOnly useReaders i s =
     (if close_refused readOnly useReaders (bs_torrents s i) then (False, s)
      else (True, close_drop i (close_registries i (close_mark i s))))"

definition RemoveTorrent :: "bool \<Rightarrow> int \<Rightarrow> string \<Rightarrow> bt_server \<Rightarrow> bool \<times> bt_server" where
  "RemoveTorrent readOnly useReaders hash s =
     (let (torr, r) = registry_Delete hash (bs_registry s); s = s\<lparr>bs_registry := r\<rparr>
      in case torr of None \<Rightarrow> (False, s) | Some i \<Rightarrow> torrent_Close readOnly useReaders i s)"

text \<open>The part of the check of each second that removes an expired torrent; the transfer rates it also computes are not modelled.\<close>

definition progressEvent_expire :: "int \<Rightarrow> int \<Rightarrow> streamAdmissionRegistry \<Rightarrow> bool \<Rightarrow> int \<Rightarrow> nat \<Rightarrow> bt_server \<Rightarrow> bt_server" where
  "progressEvent_expire now readers r readOnly useReaders i s =
     (let t = bs_torrents s i in
      if torrent_expired now readers r t
      then if to_bt t then snd (RemoveTorrent readOnly useReaders (torrent_Hash t) s) else s
      else s)"

text \<open>What the close of a registered torrent leaves.\<close>

lemma storage_CloseHash_torrents [simp]:
  "bs_torrents (storage_CloseHash h s) = bs_torrents s" "bs_registry (storage_CloseHash h s) = bs_registry s"
  by (simp_all add: storage_CloseHash_def cache_Close_def unregisterCache_def Let_def split_beta split: option.split)

lemma RemoveTorrent_closes:
  assumes "bs_registry s h = Some i" and "torrent_Hash (bs_torrents s i) = h" and "RemoveTorrent False useReaders h s = (b, v)"
  shows "to_Stat (bs_torrents v i) = TorrentClosed \<and> to_Torrent (bs_torrents v i) = None \<and> bs_registry v h = None"
proof -
  have hash: "torrent_Hash (bs_torrents s i\<lparr>to_Stat := TorrentClosed\<rparr>) = h"
    using assms(2) by (simp add: torrent_Hash_def split: option.splits)
  show ?thesis using assms
    by (auto simp: RemoveTorrent_def registry_Delete_def torrent_Close_def close_refused_def close_mark_def close_registries_def
        close_drop_def torrent_drop_def upd_torrent_def hash Let_def)
qed


definition demo_server :: bt_server where
  "demo_server = \<lparr>bs_torrents = (\<lambda>_. foldl expiry_step demo_torrent demo_history), bs_nextTorrent = 1, bs_registry = [''a'' \<mapsto> 0],
     bs_caches = [''a'' \<mapsto> 0], bs_cacheHash = (\<lambda>_. ''a''), bs_closedCaches = {}, bs_nextCache = 1\<rparr>"


text \<open>\<open>GotInfo\<close>: what it returns at once, if it does, the mark it sets otherwise, and what it does after the wait.\<close>

definition got_info_begin :: "nat \<Rightarrow> bt_server \<Rightarrow> bool option \<times> bt_server" where
  "got_info_begin i s =
     (let st = to_Stat (bs_torrents s i) in
      if st = TorrentClosed then (Some False, s)
      else if st = TorrentPreload then (Some True, s)
      else (None, upd_torrent i (\<lambda>t. t\<lparr>to_Stat := TorrentGettingInfo\<rparr>) s))"

definition got_info_mark :: "nat \<Rightarrow> bt_server \<Rightarrow> bt_server" where
  "got_info_mark i s = upd_torrent i (\<lambda>t. if to_Stat t \<noteq> TorrentPreload then t\<lparr>to_Stat := TorrentWorking\<rparr> else t) s"

definition GotInfo :: "int \<Rightarrow> BTSets \<Rightarrow> wait_outcome \<Rightarrow> bool \<Rightarrow> int \<Rightarrow> nat \<Rightarrow> bt_server \<Rightarrow> bool \<times> bt_server" where
  "GotInfo now sets arrived readOnly useReaders i s =
     (case got_info_begin i s of
        (Some b, s) \<Rightarrow> (b, s)
      | (None, s) \<Rightarrow>
          let (got, s) = WaitInfo arrived i s in
          if got
          then (True, upd_torrent i (AddExpiredTime now (i64 (TorrentDisconnectTimeout sets * 1000000000))) (got_info_mark i s))
          else (False, snd (torrent_Close readOnly useReaders i s)))"

section \<open>Preload\<close>

text \<open>The check, the start, the choice of the file and the end. The status lists no file when the library's torrent is gone.\<close>

definition canPreload :: "torrent \<Rightarrow> bool" where
  "canPreload t \<longleftrightarrow> to_Stat t = TorrentWorking"

definition isPreloadComplete :: "torrent \<Rightarrow> bool" where
  "isPreloadComplete t \<longleftrightarrow> to_Stat t = TorrentPreload"

definition findFileIndex :: "int \<Rightarrow> (int \<times> string) list \<Rightarrow> torrent \<Rightarrow> (string \<times> int) option" where
  "findFileIndex index fileStats t =
     (case List.find (\<lambda>f. fst f = index) (if to_Torrent t = None then [] else fileStats) of
        None \<Rightarrow> None
      | Some (_, path) \<Rightarrow> List.find (\<lambda>f. fst f = path) (torrent_Files t))"

definition preload_begin :: "nat \<Rightarrow> bt_server \<Rightarrow> bt_server" where
  "preload_begin i s = upd_torrent i (\<lambda>t. t\<lparr>to_Stat := TorrentPreload\<rparr>) s"

definition preload_file :: "int \<Rightarrow> (int \<times> string) list \<Rightarrow> torrent \<Rightarrow> (string \<times> int) outcome" where
  "preload_file index fileStats t =
     (case findFileIndex index fileStats t of
        Some f \<Rightarrow> Done f
      | None \<Rightarrow> (case torrent_Files t of [] \<Rightarrow> Panic | f # _ \<Rightarrow> Done f))"

definition preload_end :: "nat \<Rightarrow> bt_server \<Rightarrow> bt_server" where
  "preload_end i s = upd_torrent i (\<lambda>t. if to_Stat t = TorrentPreload then t\<lparr>to_Stat := TorrentWorking\<rparr> else t) s"

end
