(* ===== verification/Torrent_Races.thy ===== *)
theory Torrent_Races
  imports Torrent_Lifecycle "HOL-Library.Multiset"
begin

text \<open>
  The operations of Torrent_Lifecycle as goroutines run them. \<open>GotInfo\<close>, \<open>Close\<close> and \<open>Preload\<close> hold the mutex of the
  torrent only for single reads and writes of its state, so that others run between their sections. A job is such an
  operation at the place it has reached; a step takes one job to its next place, or starts one.
\<close>

section \<open>Jobs and steps\<close>

datatype job =
    GotWaiting nat
  | GotArrived nat
  | Closing nat
  | Unregistering nat
  | Dropping nat
  | PreloadAllowed nat
  | PreloadMarked nat
  | PreloadRunning nat

text \<open>\<open>Crash\<close>: a panic in a goroutine without \<open>recover\<close>, which ends the process.\<close>

datatype config = Running bt_server "job multiset" | Crash

text \<open>
  The library opens the storage of a torrent it learns the info of; it returns the torrent of the hash it is given, also
  when that was added before.
\<close>

inductive race_step :: "config \<Rightarrow> config \<Rightarrow> bool" where
  library_opens: "race_step (Running s js) (Running (snd (storage_OpenTorrent h s)) js)"
| adds: "lt_hash lt = sp_InfoHash spec \<Longrightarrow>
     race_step (Running s js) (Running (snd (NewTorrent now sets policy spec (Some lt) s)) js)"
| got_starts: "got_info_begin i s = (None, s') \<Longrightarrow> race_step (Running s js) (Running s' (add_mset (GotWaiting i) js))"
| wait_succeeds: "WaitInfo out i s = (True, s') \<Longrightarrow>
     race_step (Running s (add_mset (GotWaiting i) js)) (Running s' (add_mset (GotArrived i) js))"
| wait_fails: "WaitInfo out i s = (False, s') \<Longrightarrow>
     race_step (Running s (add_mset (GotWaiting i) js)) (Running s' (add_mset (Closing i) js))"
| got_marks: "race_step (Running s (add_mset (GotArrived i) js))
     (Running (upd_torrent i (AddExpiredTime now d) (got_info_mark i s)) js)"
| removes: "registry_Delete h (bs_registry s) = (Some i, r) \<Longrightarrow>
     race_step (Running s js) (Running (s\<lparr>bs_registry := r\<rparr>) (add_mset (Closing i) js))"
| close_gives_up: "close_refused ro u (bs_torrents s i) \<Longrightarrow>
     race_step (Running s (add_mset (Closing i) js)) (Running s js)"
| close_marks: "\<not> close_refused ro u (bs_torrents s i) \<Longrightarrow>
     race_step (Running s (add_mset (Closing i) js)) (Running (close_mark i s) (add_mset (Unregistering i) js))"
| close_unregisters:
    "race_step (Running s (add_mset (Unregistering i) js)) (Running (close_registries i s) (add_mset (Dropping i) js))"
| close_drops: "race_step (Running s (add_mset (Dropping i) js)) (Running (close_drop i s) js)"
| preload_checks: "canPreload (bs_torrents s i) \<Longrightarrow>
     race_step (Running s js) (Running s (add_mset (PreloadAllowed i) js))"
| preload_marks:
    "race_step (Running s (add_mset (PreloadAllowed i) js)) (Running (preload_begin i s) (add_mset (PreloadMarked i) js))"
| preload_picks: "preload_file index fileStats (bs_torrents s i) = Done f \<Longrightarrow>
     race_step (Running s (add_mset (PreloadMarked i) js)) (Running s (add_mset (PreloadRunning i) js))"
| preload_panics: "preload_file index fileStats (bs_torrents s i) = Panic \<Longrightarrow>
     race_step (Running s (add_mset (PreloadMarked i) js)) Crash"
| preload_ends: "race_step (Running s (add_mset (PreloadRunning i) js)) (Running (preload_end i s) js)"

inductive_cases race_stepE: "race_step (Running s js) c"
inductive_simps race_step_Crash [simp]: "race_step Crash c"

text \<open>The runs from a state with no job.\<close>

inductive race_run :: "config \<Rightarrow> config \<Rightarrow> bool" where
  run_here: "race_run c c"
| run_next: "race_run a b \<Longrightarrow> race_step b c \<Longrightarrow> race_run a c"

section \<open>The registries stay sound\<close>

definition hash_ok :: "torrent \<Rightarrow> bool" where
  "hash_ok t \<longleftrightarrow> (\<forall>l. to_Torrent t = Some l \<longrightarrow> map_option sp_InfoHash (to_Spec t) = Some (lt_hash l))"

definition registries_ok :: "bt_server \<Rightarrow> bool" where
  "registries_ok s \<longleftrightarrow>
     (\<forall>i < bs_nextTorrent s. hash_ok (bs_torrents s i)) \<and>
     (\<forall>h i. bs_registry s h = Some i \<longrightarrow> i < bs_nextTorrent s \<and> map_option sp_InfoHash (to_Spec (bs_torrents s i)) = Some h) \<and>
     (\<forall>h k. bs_caches s h = Some k \<longrightarrow> k < bs_nextCache s \<and> bs_cacheHash s k = h \<and> k \<notin> bs_closedCaches s) \<and>
     bs_closedCaches s \<subseteq> {..<bs_nextCache s}"

definition empty_server :: bt_server where
  "empty_server = \<lparr>bs_torrents = (\<lambda>_. \<lparr>to_Title = [], to_Category = [], to_Poster = [], to_Data = [], to_Spec = None,
     to_Stat = TorrentAdded, to_Timestamp = 0, to_Size = 0, to_Torrent = None, to_bt = False, to_cache = None, to_targetBytes = 0, to_loadedBytes = 0,
     to_expiredUnixNano = 0, to_playbackQuiesced = False, to_lastMaxEstablished = 0\<rparr>),
     bs_nextTorrent = 0, bs_registry = Map.empty, bs_caches = Map.empty, bs_cacheHash = (\<lambda>_. []),
     bs_closedCaches = {}, bs_nextCache = 0\<rparr>"

lemma empty_server_ok: "registries_ok empty_server"
  by (simp add: registries_ok_def empty_server_def)

text \<open>Writes to a torrent that leave its specification and its torrent of the library alone, or drop the latter.\<close>

definition keeps_hash :: "(torrent \<Rightarrow> torrent) \<Rightarrow> bool" where
  "keeps_hash f \<longleftrightarrow> (\<forall>t. to_Spec (f t) = to_Spec t \<and> (to_Torrent (f t) = to_Torrent t \<or> to_Torrent (f t) = None))"

lemma upd_torrent_ok:
  assumes "keeps_hash f" and "registries_ok s"
  shows "registries_ok (upd_torrent i f s)"
proof -
  have spec: "to_Spec (f t) = to_Spec t" for t using assms(1) by (simp add: keeps_hash_def)
  have hash: "hash_ok t \<Longrightarrow> hash_ok (f t)" for t
    using assms(1) unfolding keeps_hash_def hash_ok_def by (metis option.distinct(1))
  show ?thesis using assms(2) by (simp add: registries_ok_def upd_torrent_def spec hash)
qed

lemma keeps_hash_writes [simp]:
  "keeps_hash (\<lambda>t. t\<lparr>to_Stat := st\<rparr>)" "keeps_hash (\<lambda>t. t\<lparr>to_cache := ca\<rparr>)" "keeps_hash (\<lambda>t. t\<lparr>to_Torrent := None\<rparr>)"
  "keeps_hash (\<lambda>t. if P t then t\<lparr>to_Stat := st\<rparr> else t)" "keeps_hash (AddExpiredTime now d)"
  by (simp_all add: keeps_hash_def AddExpiredTime_def Let_def)

lemma registry_delete_ok: "registries_ok s \<Longrightarrow> registries_ok (s\<lparr>bs_registry := (bs_registry s)(h := None)\<rparr>)"
  by (auto simp: registries_ok_def)

lemma open_torrent_ok: "registries_ok s \<Longrightarrow> registries_ok (snd (storage_OpenTorrent h s))"
  by (auto simp: registries_ok_def storage_OpenTorrent_def registry_Set_def Let_def less_Suc_eq split: if_splits)

lemma close_hash_ok: "registries_ok s \<Longrightarrow> registries_ok (storage_CloseHash h s)"
  by (auto simp: registries_ok_def storage_CloseHash_def registry_Delete_def cache_Close_def unregisterCache_def Let_def
      split: option.splits if_splits) metis

lemma new_torrent_ok:
  assumes "registries_ok s" and "lt_hash lt = sp_InfoHash spec"
  shows "registries_ok (snd (NewTorrent now sets policy spec (Some lt) s))"
  using assms by (auto simp: registries_ok_def NewTorrent_def registry_Get_def registry_LoadOrStore_def hash_ok_def
      AddExpiredTime_def Let_def less_Suc_eq split: option.splits if_splits)

lemma wait_info_ok: "registries_ok s \<Longrightarrow> WaitInfo out i s = (b, s') \<Longrightarrow> registries_ok s'"
  by (auto simp: WaitInfo_def Let_def upd_torrent_ok split: if_splits wait_outcome.splits)

lemmas race_ok = upd_torrent_ok registry_delete_ok open_torrent_ok close_hash_ok new_torrent_ok wait_info_ok

lemma close_sections_ok:
  assumes "registries_ok s"
  shows "registries_ok (close_mark i s)" "registries_ok (close_registries i s)" "registries_ok (close_drop i s)"
  using assms by (simp_all add: close_mark_def close_registries_def close_drop_def torrent_drop_def registry_Delete_def
      race_ok Let_def)

lemma race_step_ok:
  assumes "race_step c c'" and "c = Running s js" and "registries_ok s"
  shows "case c' of Running s' js' \<Rightarrow> registries_ok s' | Crash \<Rightarrow> True"
  using assms by (cases rule: race_step.cases)
    (auto simp: race_ok close_sections_ok got_info_begin_def got_info_mark_def preload_begin_def preload_end_def
      registry_Delete_def Let_def split: if_splits)

lemma race_run_ok:
  assumes "race_run c c'" and "case c of Running s js \<Rightarrow> registries_ok s | Crash \<Rightarrow> True"
  shows "case c' of Running s js \<Rightarrow> registries_ok s | Crash \<Rightarrow> True"
  using assms
proof (induction rule: race_run.induct)
  case (run_next a b c)
  then show ?case by (cases b) (auto dest: race_step_ok)
qed

section \<open>What a close does, and what it does not survive\<close>

text \<open>A close that nothing interrupts takes its torrent and its cache out of the registries, and nothing else.\<close>

lemma torrent_Close_effect:
  assumes "torrent_Close readOnly u i s = (True, s')" and "torrent_Hash (bs_torrents s i) = h" and "to_bt (bs_torrents s i)"
    and "registries_ok s"
  shows "bs_registry s' = (bs_registry s)(h := None)" and "bs_caches s' = (bs_caches s)(h := None)"
    and "to_Stat (bs_torrents s' i) = TorrentClosed" and "to_Torrent (bs_torrents s' i) = None"
    and "j \<noteq> i \<Longrightarrow> bs_torrents s' j = bs_torrents s j"
proof -
  have hash: "torrent_Hash (bs_torrents s i\<lparr>to_Stat := TorrentClosed\<rparr>) = h"
    using assms(2) by (simp add: torrent_Hash_def split: option.splits)
  have s': "s' = close_drop i (close_registries i (close_mark i s))"
    using assms(1) by (simp add: torrent_Close_def split: if_splits)
  show "bs_registry s' = (bs_registry s)(h := None)" and "bs_caches s' = (bs_caches s)(h := None)"
    and "to_Stat (bs_torrents s' i) = TorrentClosed" and "to_Torrent (bs_torrents s' i) = None"
    and "j \<noteq> i \<Longrightarrow> bs_torrents s' j = bs_torrents s j"
    using assms(3,4) hash
    by (auto simp: s' close_drop_def torrent_drop_def close_registries_def close_mark_def upd_torrent_def registry_Delete_def
        storage_CloseHash_def cache_Close_def unregisterCache_def registries_ok_def Let_def fun_eq_iff
        split: option.splits if_splits)
qed

section \<open>Races\<close>

definition film :: lib_torrent where
  "film = \<lparr>lt_hash = ''a'', lt_name = Some ''film'', lt_files = [(''film.mkv'', 1000)]\<rparr>"

text \<open>A server after one torrent was added, its storage opened, and a \<open>GotInfo\<close> of it begun and waiting.\<close>

definition waiting_server :: bt_server where
  "waiting_server =
     snd (got_info_begin 0 (snd (storage_OpenTorrent ''a'' (snd (NewTorrent 0 zero_BTSets id (plain_spec ''a'') (Some film) empty_server)))))"

lemmas server_simps = waiting_server_def empty_server_def NewTorrent_def registry_Get_def registry_LoadOrStore_def
  AddExpiredTime_def storage_OpenTorrent_def registry_Set_def got_info_begin_def upd_torrent_def film_def
  zero_BTSets_def i64_id fits_i64_def Let_def

lemma run_waiting: "race_run (Running empty_server {#}) (Running waiting_server {#GotWaiting 0#})"
proof -
  let ?added = "snd (NewTorrent 0 zero_BTSets id (plain_spec ''a'') (Some film) empty_server)"
  let ?opened = "snd (storage_OpenTorrent ''a'' ?added)"
  have "race_step (Running empty_server {#}) (Running ?added {#})" by (rule adds) (simp add: film_def)
  moreover have "race_step (Running ?added {#}) (Running ?opened {#})" by (rule library_opens)
  moreover have "race_step (Running ?opened {#}) (Running waiting_server {#GotWaiting 0#})"
    by (rule got_starts) (simp add: server_simps)
  ultimately show ?thesis by (meson run_here run_next)
qed

text \<open>A close that runs from its mark to its end while other jobs stand still.\<close>

lemma run_close:
  assumes "\<not> close_refused False 0 (bs_torrents s i)"
  shows "race_run (Running s (add_mset (Closing i) js)) (Running (snd (torrent_Close False 0 i s)) js)"
proof -
  have "snd (torrent_Close False 0 i s) = close_drop i (close_registries i (close_mark i s))"
    using assms by (simp add: torrent_Close_def)
  then show ?thesis using close_marks [OF assms, of js] close_unregisters [of "close_mark i s" i js]
      close_drops [of "close_registries i (close_mark i s)" i js] by (metis run_here run_next)
qed

lemma race_run_trans: "race_run b c \<Longrightarrow> race_run a b \<Longrightarrow> race_run a c"
  by (induction rule: race_run.induct) (auto intro: run_next)

lemma removes_delete:
  "bs_registry s h = Some i \<Longrightarrow>
   race_step (Running s js) (Running (s\<lparr>bs_registry := (bs_registry s)(h := None)\<rparr>) (add_mset (Closing i) js))"
  by (rule removes) (simp add: registry_Delete_def)

text \<open>The torrent is removed while \<open>GotInfo\<close> waits, and added again by another client.\<close>

definition removed_server :: bt_server where
  "removed_server = snd (torrent_Close False 0 0 (waiting_server\<lparr>bs_registry := (bs_registry waiting_server)(''a'' := None)\<rparr>))"

definition readded_server :: bt_server where
  "readded_server = snd (storage_OpenTorrent ''a'' (snd (NewTorrent 0 zero_BTSets id (plain_spec ''a'') (Some film) removed_server)))"

lemmas close_simps = torrent_Close_def close_refused_def close_mark_def close_registries_def close_drop_def torrent_drop_def
  registry_Delete_def storage_CloseHash_def cache_Close_def unregisterCache_def torrent_Hash_def

lemma run_removed: "race_run (Running empty_server {#}) (Running removed_server {#GotWaiting 0#})"
proof -
  let ?s = "waiting_server\<lparr>bs_registry := (bs_registry waiting_server)(''a'' := None)\<rparr>"
  have "bs_registry waiting_server ''a'' = Some 0" by (simp add: server_simps)
  from removes_delete [OF this] have "race_step (Running waiting_server {#GotWaiting 0#}) (Running ?s {#Closing 0, GotWaiting 0#})" .
  moreover have "race_run (Running ?s {#Closing 0, GotWaiting 0#}) (Running removed_server {#GotWaiting 0#})"
    unfolding removed_server_def by (rule run_close) (simp add: close_refused_def)
  ultimately show ?thesis using run_waiting by (meson run_next race_run_trans)
qed

lemma run_readded: "race_run (Running empty_server {#}) (Running readded_server {#GotWaiting 0#})"
proof -
  let ?added = "snd (NewTorrent 0 zero_BTSets id (plain_spec ''a'') (Some film) removed_server)"
  have "race_step (Running removed_server {#GotWaiting 0#}) (Running ?added {#GotWaiting 0#})" by (rule adds) (simp add: film_def)
  moreover have "race_step (Running ?added {#GotWaiting 0#}) (Running readded_server {#GotWaiting 0#})"
    unfolding readded_server_def by (rule library_opens)
  ultimately show ?thesis using run_removed by (meson run_next)
qed

text \<open>The wait of the removed torrent fails, and its \<open>GotInfo\<close> closes it a second time.\<close>

definition orphaned_server :: bt_server where
  "orphaned_server = snd (torrent_Close False 0 0 readded_server)"

lemma run_orphaned: "race_run (Running empty_server {#}) (Running orphaned_server {#})"
proof -
  have "WaitInfo ClosedFirst 0 readded_server = (False, readded_server)" by (simp add: WaitInfo_def Let_def)
  from wait_fails [OF this, of "{#}"]
  have "race_step (Running readded_server {#GotWaiting 0#}) (Running readded_server {#Closing 0#})" .
  moreover have "race_run (Running readded_server {#Closing 0#}) (Running orphaned_server {#})"
    unfolding orphaned_server_def by (rule run_close) (simp add: close_refused_def)
  ultimately show ?thesis using run_readded by (meson run_next race_run_trans)
qed

lemma orphaned_state:
  "bs_registry orphaned_server ''a'' = None" "bs_caches orphaned_server ''a'' = None"
  "to_Torrent (bs_torrents orphaned_server 1) = Some film" "to_Stat (bs_torrents orphaned_server 1) = TorrentAdded"
  by (simp_all add: orphaned_server_def readded_server_def removed_server_def server_simps close_simps)

text \<open>The metadata arrive, and the torrent works before it is closed.\<close>

definition arrived_server :: bt_server where
  "arrived_server = snd (WaitInfo InfoArrived 0 waiting_server)"

definition working_server :: bt_server where
  "working_server = upd_torrent 0 (AddExpiredTime 0 0) (got_info_mark 0 arrived_server)"

lemma run_arrived: "race_run (Running empty_server {#}) (Running arrived_server {#GotArrived 0#})"
proof -
  have "WaitInfo InfoArrived 0 waiting_server = (True, arrived_server)"
    by (simp add: arrived_server_def WaitInfo_def storage_GetCache_def torrent_Hash_def server_simps)
  from wait_succeeds [OF this, of "{#}"] show ?thesis using run_waiting by (meson run_next)
qed

lemma run_working: "race_run (Running empty_server {#}) (Running working_server {#})"
  unfolding working_server_def using run_arrived got_marks [of arrived_server 0 "{#}"] by (meson run_next)

text \<open>A close that starts when one job stands before its mark: the torrent is found in the registry and closed.\<close>

lemma run_remove:
  assumes "bs_registry s h = Some i"
  shows "race_run (Running s js) (Running (snd (RemoveTorrent False 0 h s)) js)"
proof -
  have "snd (RemoveTorrent False 0 h s) = snd (torrent_Close False 0 i (s\<lparr>bs_registry := (bs_registry s)(h := None)\<rparr>))"
    using assms by (simp add: RemoveTorrent_def registry_Delete_def)
  moreover have "\<not> close_refused False 0 (bs_torrents (s\<lparr>bs_registry := (bs_registry s)(h := None)\<rparr>) i)"
    by (simp add: close_refused_def)
  from run_close [OF this, of js]
  have "race_run (Running s js)
          (Running (snd (torrent_Close False 0 i (s\<lparr>bs_registry := (bs_registry s)(h := None)\<rparr>))) js)"
    by (rule race_run_trans) (rule run_next [OF run_here removes_delete [OF assms]])
  ultimately show ?thesis by simp
qed

lemma run_revived:
  "race_run (Running empty_server {#})
     (Running (upd_torrent 0 (AddExpiredTime 0 0) (got_info_mark 0 (snd (RemoveTorrent False 0 ''a'' arrived_server)))) {#})"
proof -
  let ?s = "snd (RemoveTorrent False 0 ''a'' arrived_server)"
  have "bs_registry arrived_server ''a'' = Some 0"
    by (simp add: arrived_server_def WaitInfo_def storage_GetCache_def torrent_Hash_def server_simps)
  from run_remove [OF this] have "race_run (Running empty_server {#}) (Running ?s {#GotArrived 0#})"
    using run_arrived by (rule race_run_trans)
  from this and got_marks [of ?s 0 "{#}" 0 0] show ?thesis by (rule run_next)
qed

lemma revived_state:
  defines "s \<equiv> upd_torrent 0 (AddExpiredTime 0 0) (got_info_mark 0 (snd (RemoveTorrent False 0 ''a'' arrived_server)))"
  shows "to_Stat (bs_torrents s 0) = TorrentWorking" "to_Torrent (bs_torrents s 0) = None" "bs_registry s = Map.empty"
  by (simp_all add: s_def arrived_server_def WaitInfo_def storage_GetCache_def got_info_mark_def RemoveTorrent_def
      server_simps close_simps)

lemma run_crash: "race_run (Running empty_server {#}) Crash"
proof -
  let ?p = "preload_begin 0 working_server" and ?s = "snd (RemoveTorrent False 0 ''a'' (preload_begin 0 working_server))"
  have "canPreload (bs_torrents working_server 0)"
    by (simp add: canPreload_def working_server_def got_info_mark_def arrived_server_def WaitInfo_def storage_GetCache_def
        torrent_Hash_def server_simps)
  from preload_checks [OF this, of "{#}"] have "race_run (Running empty_server {#}) (Running working_server {#PreloadAllowed 0#})"
    using run_working by (meson run_next)
  then have "race_run (Running empty_server {#}) (Running ?p {#PreloadMarked 0#})"
    using preload_marks [of working_server 0 "{#}"] by (rule run_next)
  moreover have "bs_registry ?p ''a'' = Some 0"
    by (simp add: preload_begin_def working_server_def got_info_mark_def arrived_server_def WaitInfo_def storage_GetCache_def
        torrent_Hash_def server_simps)
  from run_remove [OF this] have "race_run (Running ?p {#PreloadMarked 0#}) (Running ?s {#PreloadMarked 0#})" .
  moreover have "to_Torrent (bs_torrents ?s 0) = None"
    by (simp add: preload_begin_def working_server_def got_info_mark_def arrived_server_def WaitInfo_def storage_GetCache_def
        RemoveTorrent_def server_simps close_simps)
  then have "preload_file 1 [] (bs_torrents ?s 0) = Panic"
    by (simp add: preload_file_def findFileIndex_def torrent_Files_def)
  from preload_panics [OF this, of "{#}"] have "race_step (Running ?s {#PreloadMarked 0#}) Crash" .
  ultimately show ?thesis by (meson run_next race_run_trans)
qed

text \<open>
  Property C29. \<open>Close\<close> is not safe beside \<open>Preload\<close> and \<open>GotInfo\<close> of the same torrent. A close between the mark
  of a preload and its choice of a file makes the preload index an empty list, in a goroutine that does not recover: the
  server stops. A close while \<open>GotInfo\<close> waits is followed by a second one when the wait fails; if the torrent was added
  again in between, the second takes the new torrent out of the registry and drops its cache, while the library still holds
  it and it is not closed. A close just after the wait succeeded is undone: the torrent, dropped and out of the
  registry, is marked as working.
\<close>

theorem close_races:
  "race_run (Running empty_server {#}) Crash \<and>
   (\<exists>s. race_run (Running empty_server {#}) (Running s {#}) \<and>
        bs_registry s ''a'' = None \<and> bs_caches s ''a'' = None \<and>
        to_Torrent (bs_torrents s 1) = Some film \<and> to_Stat (bs_torrents s 1) \<noteq> TorrentClosed) \<and>
   (\<exists>s. race_run (Running empty_server {#}) (Running s {#}) \<and>
        to_Stat (bs_torrents s 0) = TorrentWorking \<and> to_Torrent (bs_torrents s 0) = None \<and> bs_registry s = Map.empty)"
proof (intro conjI exI)
  show "race_run (Running empty_server {#}) Crash" by (rule run_crash)
  show "race_run (Running empty_server {#}) (Running orphaned_server {#})" by (rule run_orphaned)
  show "to_Stat (bs_torrents orphaned_server 1) \<noteq> TorrentClosed" using orphaned_state(4) by simp
qed (rule orphaned_state run_revived revived_state)+

end
