(* ===== verification/Store_Interface.thy ===== *)
theory Store_Interface
  imports Go_Prelude
begin

text \<open>
  The interface of the settings databases (settings/torrserverdb.go): a record of operations for the Go
  interface, the contract its providers keep, as the locale \<open>torr_store\<close>, and the abstract store that a
  run of operations is compared with.
\<close>

section \<open>The interface\<close>

text \<open>
  The operations work on the state \<open>'w\<close> of the provider. A nil slice of bytes is \<open>None\<close>.
\<close>

record 'w TorrServerDB =
  db_CloseDB :: "'w \<Rightarrow> 'w"
  db_Get :: "string \<Rightarrow> string \<Rightarrow> 'w \<Rightarrow> string option \<times> 'w"
  db_Set :: "string \<Rightarrow> string \<Rightarrow> string \<Rightarrow> 'w \<Rightarrow> 'w"
  db_List :: "string \<Rightarrow> 'w \<Rightarrow> string list \<times> 'w"
  db_Rem :: "string \<Rightarrow> string \<Rightarrow> 'w \<Rightarrow> 'w"
  db_Clear :: "string \<Rightarrow> 'w \<Rightarrow> 'w"

type_synonym 'm contents = "string \<Rightarrow> string \<rightharpoonup> 'm"

text \<open>
  The paths that the program keeps its data under.
\<close>

definition known_path :: "string \<Rightarrow> bool" where
  "known_path x \<longleftrightarrow> x = ''Settings'' \<or> x = ''Viewed'' \<or> x = ''Torrents''"

section \<open>The contract\<close>

text \<open>
  \<open>view\<close> is what the store holds: for a path and a name, the meaning of the value (a store may answer with
  other bytes than it was given, if they mean the same). \<open>good\<close> is its invariant and \<open>accepts\<close> tells the
  entries that it takes. \<open>Clear\<close> may leave entries behind: only a \<open>clearing_store\<close> removes them all.
\<close>

locale torr_store =
  fixes db :: "'w TorrServerDB"
    and meaning :: "string \<Rightarrow> 'm"
    and view :: "'w \<Rightarrow> 'm contents"
    and good :: "'w \<Rightarrow> bool"
    and accepts :: "string \<Rightarrow> string \<Rightarrow> bool"
  assumes get: "good w \<Longrightarrow> known_path x \<Longrightarrow> db_Get db x n w = (res, w') \<Longrightarrow>
      map_option meaning res = view w x n \<and> view w' = view w \<and> good w'"
    and set: "good w \<Longrightarrow> known_path x \<Longrightarrow> accepts n v \<Longrightarrow> w' = db_Set db x n v w \<Longrightarrow>
      view w' = (view w)(x := (view w x)(n \<mapsto> meaning v)) \<and> good w'"
    and lst: "good w \<Longrightarrow> known_path x \<Longrightarrow> db_List db x w = (ns, w') \<Longrightarrow>
      set ns = dom (view w x) \<and> view w' = view w \<and> good w'"
    and rem: "good w \<Longrightarrow> known_path x \<Longrightarrow> w' = db_Rem db x n w \<Longrightarrow>
      view w' = (view w)(x := (view w x)(n := None)) \<and> good w'"
    and clear: "good w \<Longrightarrow> known_path x \<Longrightarrow> w' = db_Clear db x w \<Longrightarrow>
      (\<exists>m. m \<subseteq>\<^sub>m view w x \<and> view w' = (view w)(x := m)) \<and> good w'"

locale clearing_store = torr_store +
  assumes clear_all: "good w \<Longrightarrow> known_path x \<Longrightarrow> view (db_Clear db x w) x = Map.empty"

section \<open>Runs\<close>

datatype store_op =
    OpGet string string
  | OpSet string string string
  | OpList string
  | OpRem string string

datatype 'm answer = Value "'m option" | Names "string set" | Unit

fun run_op :: "(string \<Rightarrow> 'm) \<Rightarrow> 'w TorrServerDB \<Rightarrow> store_op \<Rightarrow> 'w \<Rightarrow> 'm answer \<times> 'w" where
  "run_op \<mu> db (OpGet x n) w = (let (v, w) = db_Get db x n w in (Value (map_option \<mu> v), w))"
| "run_op \<mu> db (OpSet x n v) w = (Unit, db_Set db x n v w)"
| "run_op \<mu> db (OpList x) w = (let (ns, w) = db_List db x w in (Names (set ns), w))"
| "run_op \<mu> db (OpRem x n) w = (Unit, db_Rem db x n w)"

text \<open>The abstract store: a map from names to values under every path.\<close>

fun abs_op :: "(string \<Rightarrow> 'm) \<Rightarrow> store_op \<Rightarrow> 'm contents \<Rightarrow> 'm answer \<times> 'm contents" where
  "abs_op \<mu> (OpGet x n) a = (Value (a x n), a)"
| "abs_op \<mu> (OpSet x n v) a = (Unit, a(x := (a x)(n \<mapsto> \<mu> v)))"
| "abs_op \<mu> (OpList x) a = (Names (dom (a x)), a)"
| "abs_op \<mu> (OpRem x n) a = (Unit, a(x := (a x)(n := None)))"

primrec run_ops :: "('o \<Rightarrow> 's \<Rightarrow> 'r \<times> 's) \<Rightarrow> 'o list \<Rightarrow> 's \<Rightarrow> 'r list \<times> 's" where
  "run_ops f [] s = ([], s)"
| "run_ops f (p # ps) s = (let (r, s) = f p s; (rs, s) = run_ops f ps s in (r # rs, s))"

fun op_legal :: "(string \<Rightarrow> string \<Rightarrow> bool) \<Rightarrow> store_op \<Rightarrow> bool" where
  "op_legal acc (OpGet x n) \<longleftrightarrow> known_path x"
| "op_legal acc (OpSet x n v) \<longleftrightarrow> known_path x \<and> acc n v"
| "op_legal acc (OpList x) \<longleftrightarrow> known_path x"
| "op_legal acc (OpRem x n) \<longleftrightarrow> known_path x"

text \<open>A store answers every run of operations as the abstract store does.\<close>

context torr_store begin

lemma op_refines:
  assumes "good w" and "op_legal accepts p" and "run_op meaning db p w = (r, w')"
  shows "abs_op meaning p (view w) = (r, view w') \<and> good w'"
proof (cases p)
  case (OpGet x n)
  obtain v w1 where e: "db_Get db x n w = (v, w1)" by fastforce
  show ?thesis using get [OF assms(1) _ e] assms(2,3) OpGet by (simp add: e)
next
  case (OpSet x n v)
  show ?thesis using set [OF assms(1) _ _ refl, of x n v] assms(2,3) OpSet by simp
next
  case (OpList x)
  obtain ns w1 where e: "db_List db x w = (ns, w1)" by fastforce
  show ?thesis using lst [OF assms(1) _ e] assms(2,3) OpList by (simp add: e)
next
  case (OpRem x n)
  show ?thesis using rem [OF assms(1) _ refl, of x n] assms(2,3) OpRem by simp
qed

lemma run_refines:
  "good w \<Longrightarrow> \<forall>p \<in> set ps. op_legal accepts p \<Longrightarrow> run_ops (run_op meaning db) ps w = (rs, w') \<Longrightarrow>
   run_ops (abs_op meaning) ps (view w) = (rs, view w') \<and> good w'"
proof (induction ps arbitrary: w rs)
  case (Cons p ps)
  obtain r w1 where 1: "run_op meaning db p w = (r, w1)" by fastforce
  obtain rs' where rs: "rs = r # rs'" and 2: "run_ops (run_op meaning db) ps w1 = (rs', w')"
    using Cons.prems(3) 1 by (auto split: prod.splits)
  show ?case using op_refines [OF _ _ 1] Cons.IH [OF _ _ 2] Cons.prems(1,2) rs by simp
qed simp

end

section \<open>Two stores side by side\<close>

definition on_fst :: "'a TorrServerDB \<Rightarrow> ('a \<times> 'b) TorrServerDB" where
  "on_fst db =
     \<lparr>db_CloseDB = (\<lambda>(a, b). (db_CloseDB db a, b)),
      db_Get = (\<lambda>x n (a, b). let (v, a) = db_Get db x n a in (v, (a, b))),
      db_Set = (\<lambda>x n v (a, b). (db_Set db x n v a, b)),
      db_List = (\<lambda>x (a, b). let (ns, a) = db_List db x a in (ns, (a, b))),
      db_Rem = (\<lambda>x n (a, b). (db_Rem db x n a, b)),
      db_Clear = (\<lambda>x (a, b). (db_Clear db x a, b))\<rparr>"

definition on_snd :: "'b TorrServerDB \<Rightarrow> ('a \<times> 'b) TorrServerDB" where
  "on_snd db =
     \<lparr>db_CloseDB = (\<lambda>(a, b). (a, db_CloseDB db b)),
      db_Get = (\<lambda>x n (a, b). let (v, b) = db_Get db x n b in (v, (a, b))),
      db_Set = (\<lambda>x n v (a, b). (a, db_Set db x n v b)),
      db_List = (\<lambda>x (a, b). let (ns, b) = db_List db x b in (ns, (a, b))),
      db_Rem = (\<lambda>x n (a, b). (a, db_Rem db x n b)),
      db_Clear = (\<lambda>x (a, b). (a, db_Clear db x b))\<rparr>"

end
