(* ===== verification/Store_Cache.thy ===== *)
theory Store_Cache
  imports Store_Interface
begin

text \<open>
  The read cache in front of the settings databases (settings/dbreadcache.go): the operations, their atomic
  steps under the two locks, the proof that one caller at a time does not notice the cache, and what two
  callers at a time can see.
\<close>

section \<open>The cache\<close>

record DBReadCache =
  rc_db :: bool
  rc_listCache :: "(string \<rightharpoonup> string list) option"
  rc_dataCache :: "(string \<times> string \<rightharpoonup> string option) option"

text \<open>The state of a cached database is the state of the database and the cache; \<open>rc_db\<close> tells that its pointer is not nil.\<close>

definition NewDBReadCache :: "'w \<Rightarrow> 'w \<times> DBReadCache" where
  "NewDBReadCache w = (w, \<lparr>rc_db = True, rc_listCache = Some Map.empty, rc_dataCache = Some Map.empty\<rparr>)"

definition rc_CloseDB :: "'w TorrServerDB \<Rightarrow> 'w \<times> DBReadCache \<Rightarrow> 'w \<times> DBReadCache" where
  "rc_CloseDB db = (\<lambda>(w, c).
     (if rc_db c then db_CloseDB db w else w, c\<lparr>rc_db := False, rc_listCache := None, rc_dataCache := None\<rparr>))"

text \<open>The sections under \<open>dataCacheMutex\<close> and \<open>listCacheMutex\<close>.\<close>

definition store_data :: "string \<Rightarrow> string \<Rightarrow> string option \<Rightarrow> DBReadCache \<Rightarrow> DBReadCache" where
  "store_data x n v c = c\<lparr>rc_dataCache := map_option (\<lambda>m. m((x, n) \<mapsto> v)) (rc_dataCache c)\<rparr>"

definition drop_data :: "string \<Rightarrow> string \<Rightarrow> DBReadCache \<Rightarrow> DBReadCache" where
  "drop_data x n c = c\<lparr>rc_dataCache := map_option (\<lambda>m. m((x, n) := None)) (rc_dataCache c)\<rparr>"

definition drop_path :: "string \<Rightarrow> DBReadCache \<Rightarrow> DBReadCache" where
  "drop_path x c = c\<lparr>rc_dataCache := map_option (\<lambda>m. \<lambda>k. if fst k = x then None else m k) (rc_dataCache c)\<rparr>"

definition store_list :: "string \<Rightarrow> string list \<Rightarrow> DBReadCache \<Rightarrow> DBReadCache" where
  "store_list x ns c = c\<lparr>rc_listCache := map_option (\<lambda>m. m(x \<mapsto> ns)) (rc_listCache c)\<rparr>"

definition drop_list :: "string \<Rightarrow> DBReadCache \<Rightarrow> DBReadCache" where
  "drop_list x c = c\<lparr>rc_listCache := map_option (\<lambda>m. m(x := None)) (rc_listCache c)\<rparr>"

definition rc_Get :: "'w TorrServerDB \<Rightarrow> string \<Rightarrow> string \<Rightarrow> 'w \<times> DBReadCache \<Rightarrow> string option \<times> 'w \<times> DBReadCache" where
  "rc_Get db x n = (\<lambda>(w, c).
     case rc_dataCache c of
       None \<Rightarrow> (None, w, c)
     | Some m \<Rightarrow>
         (case m (x, n) of
            Some data \<Rightarrow> (data, w, c)
          | None \<Rightarrow>
              if \<not> rc_db c then (None, w, c)
              else let (data, w) = db_Get db x n w in (data, w, store_data x n data c)))"

definition rc_Set :: "bool \<Rightarrow> 'w TorrServerDB \<Rightarrow> string \<Rightarrow> string \<Rightarrow> string \<Rightarrow> 'w \<times> DBReadCache \<Rightarrow> 'w \<times> DBReadCache" where
  "rc_Set readOnly db x n v = (\<lambda>(w, c).
     if readOnly then (w, c)
     else if rc_dataCache c = None \<or> \<not> rc_db c then (w, c)
     else let c = store_data x n (Some v) c; c = drop_list x c in (db_Set db x n v w, c))"

definition rc_List :: "'w TorrServerDB \<Rightarrow> string \<Rightarrow> 'w \<times> DBReadCache \<Rightarrow> string list \<times> 'w \<times> DBReadCache" where
  "rc_List db x = (\<lambda>(w, c).
     case rc_listCache c of
       None \<Rightarrow> ([], w, c)
     | Some m \<Rightarrow>
         (case m x of
            Some ns \<Rightarrow> (ns, w, c)
          | None \<Rightarrow>
              if \<not> rc_db c then ([], w, c)
              else let (ns, w) = db_List db x w in (ns, w, store_list x ns c)))"

definition rc_Rem :: "bool \<Rightarrow> 'w TorrServerDB \<Rightarrow> string \<Rightarrow> string \<Rightarrow> 'w \<times> DBReadCache \<Rightarrow> 'w \<times> DBReadCache" where
  "rc_Rem readOnly db x n = (\<lambda>(w, c).
     if readOnly then (w, c)
     else if rc_dataCache c = None \<or> \<not> rc_db c then (w, c)
     else let c = drop_data x n c; c = drop_list x c in (db_Rem db x n w, c))"

definition rc_Clear :: "bool \<Rightarrow> 'w TorrServerDB \<Rightarrow> string \<Rightarrow> 'w \<times> DBReadCache \<Rightarrow> 'w \<times> DBReadCache" where
  "rc_Clear readOnly db x = (\<lambda>(w, c).
     if readOnly then (w, c)
     else let w = (if rc_db c then db_Clear db x w else w);
              c = (if rc_listCache c \<noteq> None then drop_list x c else c);
              c = (if rc_dataCache c \<noteq> None then drop_path x c else c)
          in (w, c))"

definition cached :: "bool \<Rightarrow> 'w TorrServerDB \<Rightarrow> ('w \<times> DBReadCache) TorrServerDB" where
  "cached readOnly db =
     \<lparr>db_CloseDB = rc_CloseDB db, db_Get = rc_Get db, db_Set = rc_Set readOnly db, db_List = rc_List db,
      db_Rem = rc_Rem readOnly db, db_Clear = rc_Clear readOnly db\<rparr>"

section \<open>One caller at a time\<close>

text \<open>The cache agrees with what the store holds.\<close>

definition cache_agrees :: "(string \<Rightarrow> 'm) \<Rightarrow> 'm contents \<Rightarrow> DBReadCache \<Rightarrow> bool" where
  "cache_agrees \<mu> a c \<longleftrightarrow>
     rc_db c \<and>
     (\<exists>dm lm. rc_dataCache c = Some dm \<and> rc_listCache c = Some lm \<and>
        (\<forall>x n v. known_path x \<and> dm (x, n) = Some v \<longrightarrow> map_option \<mu> v = a x n) \<and>
        (\<forall>x ns. known_path x \<and> lm x = Some ns \<longrightarrow> set ns = dom (a x)))"

lemma cache_agrees_data:
  "cache_agrees \<mu> a c \<Longrightarrow> rc_db c \<and> (\<exists>dm. rc_dataCache c = Some dm \<and>
     (\<forall>x n v. known_path x \<longrightarrow> dm (x, n) = Some v \<longrightarrow> map_option \<mu> v = a x n))"
  unfolding cache_agrees_def by auto

lemma cache_agrees_list:
  "cache_agrees \<mu> a c \<Longrightarrow> rc_db c \<and> (\<exists>lm. rc_listCache c = Some lm \<and>
     (\<forall>x ns. known_path x \<longrightarrow> lm x = Some ns \<longrightarrow> set ns = dom (a x)))"
  unfolding cache_agrees_def by auto

lemma agrees_store_data:
  "cache_agrees \<mu> a c \<Longrightarrow> map_option \<mu> v = a x n \<Longrightarrow> cache_agrees \<mu> a (store_data x n v c)"
  unfolding cache_agrees_def store_data_def by (auto split: if_splits)

lemma agrees_store_list:
  "cache_agrees \<mu> a c \<Longrightarrow> set ns = dom (a x) \<Longrightarrow> cache_agrees \<mu> a (store_list x ns c)"
  unfolding cache_agrees_def store_list_def by (auto split: if_splits)

lemma agrees_set:
  "cache_agrees \<mu> a c \<Longrightarrow>
   cache_agrees \<mu> (a(x := (a x)(n \<mapsto> \<mu> v))) (drop_list x (store_data x n (Some v) c))"
  unfolding cache_agrees_def store_data_def drop_list_def by (auto split: if_splits)

lemma agrees_rem:
  "cache_agrees \<mu> a c \<Longrightarrow> cache_agrees \<mu> (a(x := (a x)(n := None))) (drop_list x (drop_data x n c))"
  unfolding cache_agrees_def drop_data_def drop_list_def by (auto split: if_splits)

lemma agrees_clear:
  "cache_agrees \<mu> a c \<Longrightarrow> cache_agrees \<mu> (a(x := m)) (drop_path x (drop_list x c))"
  unfolding cache_agrees_def drop_path_def drop_list_def by (auto split: if_splits)

definition cached_good :: "(string \<Rightarrow> 'm) \<Rightarrow> ('w \<Rightarrow> 'm contents) \<Rightarrow> ('w \<Rightarrow> bool) \<Rightarrow> 'w \<times> DBReadCache \<Rightarrow> bool" where
  "cached_good \<mu> view good = (\<lambda>(w, c). good w \<and> cache_agrees \<mu> (view w) c)"

lemma NewDBReadCache_good: "good w \<Longrightarrow> cached_good \<mu> view good (NewDBReadCache w)"
  by (simp add: cached_good_def NewDBReadCache_def cache_agrees_def)

context torr_store begin

lemma cached_get:
  assumes "cached_good meaning view good s" and "known_path x" and "rc_Get db x n s = (v, s')"
  shows "map_option meaning v = view (fst s) x n \<and> view (fst s') = view (fst s) \<and> cached_good meaning view good s'"
proof -
  obtain w c where s: "s = (w, c)" by fastforce
  with assms(1) have g: "good w" and a: "cache_agrees meaning (view w) c" by (auto simp: cached_good_def)
  obtain dm where dm: "rc_dataCache c = Some dm" and "rc_db c"
    and hit: "\<And>x n v. known_path x \<Longrightarrow> dm (x, n) = Some v \<Longrightarrow> map_option meaning v = view w x n"
    using cache_agrees_data [OF a] by blast
  show ?thesis
  proof (cases "dm (x, n)")
    case (Some d)
    then show ?thesis using assms(3) dm hit [OF assms(2) Some] g a by (auto simp: rc_Get_def s cached_good_def)
  next
    case None
    obtain d w1 where e: "db_Get db x n w = (d, w1)" by fastforce
    have l: "map_option meaning d = view w x n" "view w1 = view w" "good w1"
      using get [OF g assms(2) e] by auto
    have "v = d" and "s' = (w1, store_data x n d c)"
      using assms(3) dm None \<open>rc_db c\<close> by (auto simp: rc_Get_def s e)
    then show ?thesis using l agrees_store_data [OF a l(1)] by (simp add: s cached_good_def)
  qed
qed

lemma cached_list:
  assumes "cached_good meaning view good s" and "known_path x" and "rc_List db x s = (ns, s')"
  shows "set ns = dom (view (fst s) x) \<and> view (fst s') = view (fst s) \<and> cached_good meaning view good s'"
proof -
  obtain w c where s: "s = (w, c)" by fastforce
  with assms(1) have g: "good w" and a: "cache_agrees meaning (view w) c" by (auto simp: cached_good_def)
  obtain lm where lm: "rc_listCache c = Some lm" and "rc_db c"
    and hit: "\<And>x ns. known_path x \<Longrightarrow> lm x = Some ns \<Longrightarrow> set ns = dom (view w x)"
    using cache_agrees_list [OF a] by blast
  show ?thesis
  proof (cases "lm x")
    case (Some l)
    then show ?thesis using assms(3) lm hit [OF assms(2) Some] g a by (auto simp: rc_List_def s cached_good_def)
  next
    case None
    obtain l w1 where e: "db_List db x w = (l, w1)" by fastforce
    have r: "set l = dom (view w x)" "view w1 = view w" "good w1" using lst [OF g assms(2) e] by auto
    have "ns = l" and "s' = (w1, store_list x l c)"
      using assms(3) lm None \<open>rc_db c\<close> by (auto simp: rc_List_def s e)
    then show ?thesis using r agrees_store_list [OF a r(1)] by (simp add: s cached_good_def)
  qed
qed

text \<open>A cache over a store is a store with the same contents.\<close>

lemma cached_store: "torr_store (cached False db) meaning (view \<circ> fst) (cached_good meaning view good) accepts"
proof unfold_locales
  fix s :: "'w \<times> DBReadCache" and x n :: string and v s' assume s: "cached_good meaning view good s" and x: "known_path x"
  obtain w c where wc: "s = (w, c)" by fastforce
  have g: "good w" and a: "cache_agrees meaning (view w) c" using s wc by (auto simp: cached_good_def)
  have "rc_db c" and "rc_dataCache c \<noteq> None" and "rc_listCache c \<noteq> None"
    using cache_agrees_data [OF a] cache_agrees_list [OF a] by auto
  note ops = this
  show "db_Get (cached False db) x n s = (v, s') \<Longrightarrow>
      map_option meaning v = (view \<circ> fst) s x n \<and> (view \<circ> fst) s' = (view \<circ> fst) s \<and> cached_good meaning view good s'"
    using cached_get [OF s x] by (simp add: cached_def)
  show "s' = db_Rem (cached False db) x n s \<Longrightarrow>
      (view \<circ> fst) s' = ((view \<circ> fst) s)(x := ((view \<circ> fst) s x)(n := None)) \<and> cached_good meaning view good s'"
    using rem [OF g x refl, of n] agrees_rem [OF a, of x n] ops
    by (simp add: cached_def rc_Rem_def wc cached_good_def)
  show "s' = db_Clear (cached False db) x s \<Longrightarrow>
      (\<exists>m. m \<subseteq>\<^sub>m (view \<circ> fst) s x \<and> (view \<circ> fst) s' = ((view \<circ> fst) s)(x := m)) \<and> cached_good meaning view good s'"
    using clear [OF g x refl] agrees_clear [OF a, of x] ops
    by (auto simp: cached_def rc_Clear_def wc cached_good_def drop_list_def)
next
  fix s :: "'w \<times> DBReadCache" and x n v :: string and s'
  assume s: "cached_good meaning view good s" and x: "known_path x" and v: "accepts n v"
    and s': "s' = db_Set (cached False db) x n v s"
  obtain w c where wc: "s = (w, c)" by fastforce
  have g: "good w" and a: "cache_agrees meaning (view w) c" using s wc by (auto simp: cached_good_def)
  have "rc_db c" and "rc_dataCache c \<noteq> None" using cache_agrees_data [OF a] by auto
  then show "(view \<circ> fst) s' = ((view \<circ> fst) s)(x := ((view \<circ> fst) s x)(n \<mapsto> meaning v)) \<and> cached_good meaning view good s'"
    using set [OF g x v refl] agrees_set [OF a, of x n v] s'
    by (auto simp: cached_def rc_Set_def wc cached_good_def Let_def)
next
  fix s :: "'w \<times> DBReadCache" and x ns s'
  assume "cached_good meaning view good s" and "known_path x" and "db_List (cached False db) x s = (ns, s')"
  then show "set ns = dom ((view \<circ> fst) s x) \<and> (view \<circ> fst) s' = (view \<circ> fst) s \<and> cached_good meaning view good s'"
    using cached_list by (simp add: cached_def)
qed

end

section \<open>Two callers at a time\<close>

text \<open>
  The sections between the locks. A read that missed goes on with what it found: its register is
  \<open>Fetched\<close> between the answer of the database and the store in the cache.
\<close>

datatype get_register = Fresh | Missed | Fetched "string option" | Answered "string option"

type_synonym 'w get_step = "('w \<times> DBReadCache) \<times> get_register \<Rightarrow> ('w \<times> DBReadCache) \<times> get_register"

definition get_lookup :: "string \<Rightarrow> string \<Rightarrow> 'w get_step" where
  "get_lookup x n = (\<lambda>((w, c), q).
     ((w, c),
      case rc_dataCache c of
        None \<Rightarrow> Answered None
      | Some m \<Rightarrow> (case m (x, n) of Some data \<Rightarrow> Answered data
                 | None \<Rightarrow> if rc_db c then Missed else Answered None)))"

definition get_fetch :: "'w TorrServerDB \<Rightarrow> string \<Rightarrow> string \<Rightarrow> 'w get_step" where
  "get_fetch db x n = (\<lambda>((w, c), q).
     if q = Missed then let (data, w) = db_Get db x n w in ((w, c), Fetched data) else ((w, c), q))"

definition get_store :: "string \<Rightarrow> string \<Rightarrow> 'w get_step" where
  "get_store x n = (\<lambda>((w, c), q).
     case q of Fetched data \<Rightarrow> ((w, store_data x n data c), Answered data) | _ \<Rightarrow> ((w, c), q))"

definition get_steps :: "'w TorrServerDB \<Rightarrow> string \<Rightarrow> string \<Rightarrow> 'w get_step list" where
  "get_steps db x n = [get_lookup x n, get_fetch db x n, get_store x n]"

definition on_cache :: "(DBReadCache \<Rightarrow> DBReadCache) \<Rightarrow> 'w get_step" where
  "on_cache f = (\<lambda>((w, c), q). ((w, f c), q))"

definition on_db :: "('w \<Rightarrow> 'w) \<Rightarrow> 'w get_step" where
  "on_db f = (\<lambda>((w, c), q). ((f w, c), q))"

text \<open>The steps of a removal from an open cache that is not read-only.\<close>

definition rem_steps :: "'w TorrServerDB \<Rightarrow> string \<Rightarrow> string \<Rightarrow> 'w get_step list" where
  "rem_steps db x n = [on_cache (drop_data x n), on_cache (drop_list x), on_db (db_Rem db x n)]"

definition run_steps :: "'w get_step list \<Rightarrow> ('w \<times> DBReadCache) \<times> get_register \<Rightarrow> ('w \<times> DBReadCache) \<times> get_register" where
  "run_steps fs s = foldl (\<lambda>s f. f s) s fs"

text \<open>Without interleaving the steps are the operations.\<close>

lemma get_steps_run:
  "rc_Get db x n s = (v, s') \<Longrightarrow> run_steps (get_steps db x n) (s, Fresh) = (s', Answered v)"
  by (cases s)
    (auto simp: run_steps_def get_steps_def get_lookup_def get_fetch_def get_store_def rc_Get_def Let_def
      split: option.splits prod.splits)

lemma rem_steps_run:
  "rc_db c \<Longrightarrow> rc_dataCache c \<noteq> None \<Longrightarrow>
   run_steps (rem_steps db x n) ((w, c), q) = (rc_Rem False db x n (w, c), q)"
  by (auto simp: run_steps_def rem_steps_def on_cache_def on_db_def rc_Rem_def Let_def)

text \<open>The removal has dropped the entry of the cache when the read misses and asks the database.\<close>

definition bad_order :: "'w TorrServerDB \<Rightarrow> string \<Rightarrow> string \<Rightarrow> 'w get_step list" where
  "bad_order db x n =
     [on_cache (drop_data x n), on_cache (drop_list x), get_lookup x n, get_fetch db x n,
      on_db (db_Rem db x n), get_store x n]"

lemma bad_order_shuffle: "bad_order db x n \<in> shuffles (rem_steps db x n) (get_steps db x n)"
  by (simp add: bad_order_def rem_steps_def get_steps_def)

context torr_store begin

lemma stale_read:
  assumes "good w" and x: "known_path x" and held: "view w x n = Some m"
    and c: "rc_db c" "rc_dataCache c = Some dm"
  obtains w' c' v where "run_steps (bad_order db x n) ((w, c), Fresh) = ((w', c'), Answered (Some v))"
    and "view w' x n = None" and "good w'" and "meaning v = m"
    and "fst (rc_Get db x n (w', c')) = Some v"
proof -
  obtain d w1 where e: "db_Get db x n w = (d, w1)" by fastforce
  have 1: "map_option meaning d = view w x n" "view w1 = view w" "good w1" using get [OF assms(1) x e] by auto
  then obtain v where v: "d = Some v" "meaning v = m" using held by auto
  have 2: "view (db_Rem db x n w1) x n = None" "good (db_Rem db x n w1)" using rem [OF 1(3) x refl, of n] by auto
  let ?c = "store_data x n d (drop_list x (drop_data x n c))"
  have "run_steps (bad_order db x n) ((w, c), Fresh) = ((db_Rem db x n w1, ?c), Answered (Some v))"
    using c e v by (simp add: run_steps_def bad_order_def on_cache_def on_db_def get_lookup_def get_fetch_def
        get_store_def drop_data_def drop_list_def)
  moreover have "fst (rc_Get db x n (db_Rem db x n w1, ?c)) = Some v"
    using c v by (simp add: rc_Get_def store_data_def drop_list_def drop_data_def)
  ultimately show thesis using 2 v by (intro that [of "db_Rem db x n w1" ?c v])
qed

end

end
