(* ===== verification/Store_JSON.thy ===== *)
theory Store_JSON
  imports Store_Interface "HOL-Library.Char_ord" "HOL-Library.List_Lexorder"
begin

text \<open>
  The database of JSON files (settings/jsondb.go): one file per path, whose root object has an entry per
  name. Go's encoding/json is a parameter, a record of the four conversions that the code makes, and what
  it promises is the locale \<open>json_codec\<close>. The directory is a map from file names to their bytes; which
  files can be read and written is part of the state, as observed.
\<close>

section \<open>Decoding and encoding\<close>

text \<open>
  \<open>'v\<close> is a decoded object. \<open>js_object\<close> decodes the value of an entry, which must be an object, and
  \<open>js_marshal\<close> encodes it; \<open>js_root\<close> and \<open>js_indent\<close> do so for a whole file. \<open>js_text\<close> tells the names that
  JSON strings can carry. \<open>js_visit\<close> is the order in which a map is visited.
\<close>

record 'v json_lib =
  js_object :: "string \<Rightarrow> 'v option"
  js_marshal :: "'v \<Rightarrow> string"
  js_root :: "string \<Rightarrow> (string \<rightharpoonup> 'v) option"
  js_indent :: "(string \<rightharpoonup> 'v) \<Rightarrow> string"
  js_text :: "string \<Rightarrow> bool"
  js_visit :: "string set \<Rightarrow> string list"

record json_dir =
  jf_files :: "string \<rightharpoonup> string"
  jf_readable :: "string \<Rightarrow> bool"
  jf_writable :: "string \<Rightarrow> bool"

section \<open>The operations\<close>

text \<open>Splitting at the delimiter and joining with a dot replaces the one by the other.\<close>

definition xPathToFilename :: "string \<Rightarrow> string" where
  "xPathToFilename xPath = to_lower (map (\<lambda>c. if c = CHR ''/'' then CHR ''.'' else c) xPath @ ''.json'')"

text \<open>
  The error variables of both functions are shadowed: the error they return is always nil. A file that
  cannot be read or decoded is an empty object.
\<close>

definition readJSONFileAsMap :: "'v json_lib \<Rightarrow> string \<Rightarrow> json_dir \<Rightarrow> (string \<rightharpoonup> 'v)" where
  "readJSONFileAsMap lib filename s =
     (case jf_files s filename of
        None \<Rightarrow> Map.empty
      | Some fileData \<Rightarrow>
          if \<not> jf_readable s filename then Map.empty
          else (case js_root lib fileData of Some m \<Rightarrow> m | None \<Rightarrow> Map.empty))"

definition writeMapAsJSONFile :: "'v json_lib \<Rightarrow> string \<Rightarrow> (string \<rightharpoonup> 'v) \<Rightarrow> json_dir \<Rightarrow> json_dir" where
  "writeMapAsJSONFile lib filename m s =
     (if jf_writable s filename then s\<lparr>jf_files := (jf_files s)(filename \<mapsto> js_indent lib m)\<rparr> else s)"

definition JSONDB_Set :: "'v json_lib \<Rightarrow> string \<Rightarrow> string \<Rightarrow> string \<Rightarrow> json_dir \<Rightarrow> json_dir" where
  "JSONDB_Set lib xPath name v s =
     (case js_object lib v of
        None \<Rightarrow> s
      | Some jsonObj \<Rightarrow>
          let filename = xPathToFilename xPath; root = readJSONFileAsMap lib filename s
          in writeMapAsJSONFile lib filename (root(name \<mapsto> jsonObj)) s)"

definition JSONDB_Get :: "'v json_lib \<Rightarrow> string \<Rightarrow> string \<Rightarrow> json_dir \<Rightarrow> string option" where
  "JSONDB_Get lib xPath name s = map_option (js_marshal lib) (readJSONFileAsMap lib (xPathToFilename xPath) s name)"

definition JSONDB_List :: "'v json_lib \<Rightarrow> string \<Rightarrow> json_dir \<Rightarrow> string list" where
  "JSONDB_List lib xPath s = js_visit lib (dom (readJSONFileAsMap lib (xPathToFilename xPath) s))"

definition JSONDB_Rem :: "'v json_lib \<Rightarrow> string \<Rightarrow> string \<Rightarrow> json_dir \<Rightarrow> json_dir" where
  "JSONDB_Rem lib xPath name s =
     (let filename = xPathToFilename xPath; root = readJSONFileAsMap lib filename s
      in writeMapAsJSONFile lib filename (root(name := None)) s)"

definition JSONDB_Clear :: "string \<Rightarrow> json_dir \<Rightarrow> json_dir" where
  "JSONDB_Clear xPath s =
     (let filename = xPathToFilename xPath
      in if jf_writable s filename then s\<lparr>jf_files := (jf_files s)(filename \<mapsto> ''{}'')\<rparr> else s)"

definition JSONDB :: "'v json_lib \<Rightarrow> json_dir TorrServerDB" where
  "JSONDB lib =
     \<lparr>db_CloseDB = (\<lambda>s. s), db_Get = (\<lambda>x n s. (JSONDB_Get lib x n s, s)), db_Set = JSONDB_Set lib,
      db_List = (\<lambda>x s. (JSONDB_List lib x s, s)), db_Rem = JSONDB_Rem lib, db_Clear = JSONDB_Clear\<rparr>"

section \<open>The files are a store\<close>

definition json_view :: "'v json_lib \<Rightarrow> json_dir \<Rightarrow> 'v option contents" where
  "json_view lib s = (\<lambda>x n.
     if known_path x then map_option Some (readJSONFileAsMap lib (xPathToFilename x) s n) else None)"

definition json_good :: "'v json_lib \<Rightarrow> json_dir \<Rightarrow> bool" where
  "json_good lib s \<longleftrightarrow> (\<forall>x. known_path x \<longrightarrow> jf_readable s (xPathToFilename x) \<and> jf_writable s (xPathToFilename x))"

definition json_accepts :: "'v json_lib \<Rightarrow> string \<Rightarrow> string \<Rightarrow> bool" where
  "json_accepts lib n v \<longleftrightarrow> js_text lib n \<and> js_object lib v \<noteq> None"

lemma known_files:
  "xPathToFilename ''Settings'' = ''settings.json''" "xPathToFilename ''Viewed'' = ''viewed.json''"
  "xPathToFilename ''Torrents'' = ''torrents.json''"
  by code_simp+

lemma filename_inj: "known_path x \<Longrightarrow> known_path y \<Longrightarrow> xPathToFilename x = xPathToFilename y \<longleftrightarrow> x = y"
  by (auto simp: known_path_def known_files)

lemma read_write_same:
  "jf_readable s f \<Longrightarrow> jf_writable s f \<Longrightarrow> js_root lib (js_indent lib m) = Some m \<Longrightarrow>
   readJSONFileAsMap lib f (writeMapAsJSONFile lib f m s) = m"
  by (simp add: readJSONFileAsMap_def writeMapAsJSONFile_def)

lemma read_write_other:
  "f \<noteq> g \<Longrightarrow> readJSONFileAsMap lib g (writeMapAsJSONFile lib f m s) = readJSONFileAsMap lib g s"
  by (simp add: readJSONFileAsMap_def writeMapAsJSONFile_def split: option.splits)

lemma json_good_write: "json_good lib (writeMapAsJSONFile lib f m s) = json_good lib s"
  by (simp add: json_good_def writeMapAsJSONFile_def)

text \<open>What the code relies on of encoding/json, and of the iteration over a map.\<close>

locale json_codec =
  fixes lib :: "'v json_lib"
  assumes object_marshal: "js_object lib (js_marshal lib j) = Some j"
    and root_indent: "finite (dom m) \<Longrightarrow> \<forall>n \<in> dom m. js_text lib n \<Longrightarrow> js_root lib (js_indent lib m) = Some m"
    and root_decoded: "js_root lib d = Some m \<Longrightarrow> finite (dom m) \<and> (\<forall>n \<in> dom m. js_text lib n)"
    and root_empty: "js_root lib ''{}'' = Some Map.empty"
    and visit: "finite A \<Longrightarrow> set (js_visit lib A) = A"
begin

lemma read_decoded:
  "finite (dom (readJSONFileAsMap lib f s)) \<and> (\<forall>n \<in> dom (readJSONFileAsMap lib f s). js_text lib n)"
  using root_decoded by (auto simp: readJSONFileAsMap_def split: option.splits)

lemma write_view:
  assumes "json_good lib s" and x: "known_path x" and "finite (dom m)" and "\<forall>n \<in> dom m. js_text lib n"
  shows "json_view lib (writeMapAsJSONFile lib (xPathToFilename x) m s) = (json_view lib s)(x := map_option Some \<circ> m)"
proof -
  have rw: "jf_readable s (xPathToFilename x)" "jf_writable s (xPathToFilename x)" using assms by (auto simp: json_good_def)
  show ?thesis
    using x by (auto simp: json_view_def fun_eq_iff read_write_other filename_inj
        read_write_same [OF rw root_indent [OF assms(3,4)]])
qed

lemma base_view:
  "known_path x \<Longrightarrow> map_option Some \<circ> readJSONFileAsMap lib (xPathToFilename x) s = json_view lib s x"
  by (simp add: fun_eq_iff json_view_def)

end

sublocale json_codec \<subseteq> json: clearing_store "JSONDB lib" "js_object lib" "json_view lib" "json_good lib" "json_accepts lib"
proof unfold_locales
  fix s x n v s'
  assume "json_good lib s" and "known_path x" and "db_Get (JSONDB lib) x n s = (v, s')"
  then show "map_option (js_object lib) v = json_view lib s x n \<and> json_view lib s' = json_view lib s \<and> json_good lib s'"
    by (auto simp: JSONDB_def JSONDB_Get_def json_view_def option.map_comp o_def object_marshal)
next
  fix s x n v s'
  assume g: "json_good lib s" and x: "known_path x" and v: "json_accepts lib n v" and s': "s' = db_Set (JSONDB lib) x n v s"
  from v obtain j where j: "js_object lib v = Some j" "js_text lib n" by (auto simp: json_accepts_def)
  let ?m = "readJSONFileAsMap lib (xPathToFilename x) s"
  have "json_view lib s' = (json_view lib s)(x := map_option Some \<circ> ?m(n \<mapsto> j))"
    using read_decoded [of "xPathToFilename x" s] j write_view [OF g x, of "?m(n \<mapsto> j)"]
    by (simp add: s' JSONDB_def JSONDB_Set_def Let_def)
  then show "json_view lib s' = (json_view lib s)(x := (json_view lib s x)(n \<mapsto> js_object lib v)) \<and> json_good lib s'"
    using g j by (simp add: base_view [OF x] fun_upd_comp s' JSONDB_def JSONDB_Set_def Let_def json_good_write)
next
  fix s x ns s'
  assume "json_good lib s" and "known_path x" and "db_List (JSONDB lib) x s = (ns, s')"
  then show "set ns = dom (json_view lib s x) \<and> json_view lib s' = json_view lib s \<and> json_good lib s'"
    using visit read_decoded by (auto simp: JSONDB_def JSONDB_List_def json_view_def)
next
  fix s x n s'
  assume g: "json_good lib s" and x: "known_path x" and s': "s' = db_Rem (JSONDB lib) x n s"
  let ?m = "readJSONFileAsMap lib (xPathToFilename x) s"
  have "json_view lib s' = (json_view lib s)(x := map_option Some \<circ> ?m(n := None))"
    using read_decoded [of "xPathToFilename x" s] write_view [OF g x, of "?m(n := None)"]
    by (simp add: s' JSONDB_def JSONDB_Rem_def Let_def)
  then show "json_view lib s' = (json_view lib s)(x := (json_view lib s x)(n := None)) \<and> json_good lib s'"
    using g by (simp add: base_view [OF x] fun_upd_comp s' JSONDB_def JSONDB_Rem_def Let_def json_good_write)
next
  fix s x s'
  assume g: "json_good lib s" and x: "known_path x"
  then have e: "json_view lib (db_Clear (JSONDB lib) x s) = (json_view lib s)(x := Map.empty)"
    by (auto simp: JSONDB_def JSONDB_Clear_def json_good_def json_view_def readJSONFileAsMap_def root_empty
        fun_eq_iff filename_inj split: option.splits)
  show "json_view lib (db_Clear (JSONDB lib) x s) x = Map.empty" using e by simp
  have "json_good lib (db_Clear (JSONDB lib) x s)"
    using g by (simp add: JSONDB_def JSONDB_Clear_def json_good_def Let_def)
  then show "s' = db_Clear (JSONDB lib) x s \<Longrightarrow>
      (\<exists>m. m \<subseteq>\<^sub>m json_view lib s x \<and> json_view lib s' = (json_view lib s)(x := m)) \<and> json_good lib s'"
    using e by (auto intro!: exI [of _ Map.empty])
qed

section \<open>Files that do not decode\<close>

lemma root_round_trip:
  assumes "json_codec lib" and "jf_readable s (xPathToFilename x)" and "jf_writable s (xPathToFilename x)" and "js_text lib n"
  defines "m \<equiv> readJSONFileAsMap lib (xPathToFilename x) s"
  shows "readJSONFileAsMap lib (xPathToFilename x) (writeMapAsJSONFile lib (xPathToFilename x) (m(n \<mapsto> j)) s) = m(n \<mapsto> j)"
  using read_write_same [OF assms(2,3)] json_codec.root_indent [OF assms(1), of "m(n \<mapsto> j)"]
    json_codec.read_decoded [OF assms(1), of "xPathToFilename x" s] assms(4)
  by (simp add: m_def)

text \<open>
  Writing one entry to a file that does not decode, say after an edit by hand with a missing
  comma, replaces the whole file by an object with that single entry: the error of the decoder is
  shadowed and never reaches \<^theory_text>\<open>Set\<close>, and whatever the file held is lost. A file that decodes keeps
  its other entries.
\<close>

theorem JSONDB_Set_replaces_broken_file:
  assumes "json_codec lib" and "jf_readable s (xPathToFilename x)" and "jf_writable s (xPathToFilename x)"
    and content: "jf_files s (xPathToFilename x) = Some d" and v: "js_object lib v = Some j" and n: "js_text lib n"
  shows "JSONDB_Get lib x k (JSONDB_Set lib x n v s) =
    (if k = n then Some (js_marshal lib j)
     else (case js_root lib d of None \<Rightarrow> None | Some m \<Rightarrow> map_option (js_marshal lib) (m k)))"
  using root_round_trip [OF assms(1,2,3,6), of j] assms
  by (auto simp: JSONDB_Get_def JSONDB_Set_def Let_def readJSONFileAsMap_def split: option.splits)

section \<open>A codec\<close>

text \<open>
  An instance of the parameters: objects are raw text, a file is a sequence of names and objects whose
  characters are escaped one by one.
\<close>

fun esc :: "string \<Rightarrow> string" where
  "esc [] = ''.''"
| "esc (c # s) = CHR ''x'' # c # esc s"

fun unesc :: "string \<Rightarrow> (string \<times> string) option" where
  "unesc [] = None"
| "unesc [c] = (if c = CHR ''.'' then Some ([], []) else None)"
| "unesc (c # d # r) =
     (if c = CHR ''.'' then Some ([], d # r)
      else if c = CHR ''x'' then map_option (\<lambda>(s, r). (d # s, r)) (unesc r) else None)"

primrec entries_of :: "nat \<Rightarrow> string \<Rightarrow> (string \<times> string) list option" where
  "entries_of 0 s = None"
| "entries_of (Suc k) s =
     (if s = ''}'' then Some []
      else case unesc s of
        None \<Rightarrow> None
      | Some (n, r) \<Rightarrow>
          (case unesc r of
             None \<Rightarrow> None
           | Some (v, r) \<Rightarrow> map_option (\<lambda>es. (n, v) # es) (entries_of k r)))"

definition demo_codec :: "string json_lib" where
  "demo_codec =
     \<lparr>js_object = (\<lambda>s. case s of [] \<Rightarrow> None | c # r \<Rightarrow> if c = CHR ''{'' then Some r else None),
      js_marshal = (\<lambda>j. CHR ''{'' # j),
      js_root = (\<lambda>s. case s of [] \<Rightarrow> None
                    | c # r \<Rightarrow> if c = CHR ''{'' then map_option map_of (entries_of (length r) r) else None),
      js_indent = (\<lambda>m. ''{'' @ concat (map (\<lambda>k. esc k @ esc (the (m k))) (sorted_list_of_set (dom m))) @ ''}''),
      js_text = (\<lambda>n. True),
      js_visit = sorted_list_of_set\<rparr>"

lemma unesc_esc: "unesc (esc s @ r) = Some (s, r)"
  by (induction s) (cases r; simp)+

lemma entries_of_concat:
  "length ks < k \<Longrightarrow> entries_of k (concat (map (\<lambda>k. esc k @ esc (f k)) ks) @ ''}'') = Some (map (\<lambda>k. (k, f k)) ks)"
proof (induction ks arbitrary: k)
  case (Cons a ks)
  obtain k' where k: "k = Suc k'" and "length ks < k'" using Cons.prems by (cases k) auto
  have "esc a @ t \<noteq> ''}''" for t by (cases a) auto
  then show ?case using Cons.IH [OF \<open>length ks < k'\<close>] by (simp add: k unesc_esc)
qed (auto simp: gr0_conv_Suc)

lemma length_esc: "length ks \<le> length (concat (map (\<lambda>k. esc k @ g k) ks))"
proof (induction ks)
  case (Cons a ks)
  have "1 \<le> length (esc a)" by (cases a) auto
  then show ?case using Cons.IH by (simp only: list.size list.map(2) concat.simps(2) length_append)
qed simp

interpretation demo: json_codec demo_codec
proof unfold_locales
  fix m :: "string \<rightharpoonup> string" assume "finite (dom m)"
  let ?ks = "sorted_list_of_set (dom m)"
  define body where "body = concat (map (\<lambda>k. esc k @ esc (the (m k))) ?ks) @ ''}''"
  have "length ?ks < length body"
    using length_esc [of ?ks "\<lambda>k. esc (the (m k))"] by (simp add: body_def)
  then have "entries_of (length body) body = Some (map (\<lambda>k. (k, the (m k))) ?ks)"
    unfolding body_def by (rule entries_of_concat)
  moreover have "js_indent demo_codec m = CHR ''{'' # body" by (simp add: demo_codec_def body_def)
  moreover have "js_root demo_codec (CHR ''{'' # r) = map_option map_of (entries_of (length r) r)" for r
    by (simp add: demo_codec_def)
  ultimately have "js_root demo_codec (js_indent demo_codec m) = Some (map_of (map (\<lambda>k. (k, the (m k))) ?ks))"
    by simp
  also have "map_of (map (\<lambda>k. (k, the (m k))) ?ks) = m"
    using \<open>finite (dom m)\<close> by (auto simp: map_of_map_restrict restrict_map_def fun_eq_iff domIff)
  finally show "js_root demo_codec (js_indent demo_codec m) = Some m" .
qed (auto simp: demo_codec_def finite_dom_map_of split: list.splits if_splits)

definition broken_dir :: json_dir where
  "broken_dir = \<lparr>jf_files = [''settings.json'' \<mapsto> ''{xa.''], jf_readable = (\<lambda>f. True), jf_writable = (\<lambda>f. True)\<rparr>"

theorem JSONDB_Set_replaces_broken_file_witness:
  "JSONDB_Get demo_codec ''Settings'' ''b'' (JSONDB_Set demo_codec ''Settings'' ''a'' ''{1'' broken_dir) = None"
proof -
  have "js_root demo_codec ''{xa.'' = None" by (simp add: demo_codec_def)
  then show ?thesis
    using JSONDB_Set_replaces_broken_file [OF demo.json_codec_axioms, where s = broken_dir and x = "''Settings''"
        and d = "''{xa.''" and v = "''{1''" and n = "''a''" and k = "''b''"]
    by (simp add: broken_dir_def known_files demo_codec_def)
qed

end
