(* ===== verification/Store_Bolt.thy ===== *)
theory Store_Bolt
  imports Store_Interface Go_Strings "HOL-Library.Char_ord" "HOL-Library.List_Lexorder"
begin

text \<open>
  The database in the file config.db (settings/db.go). The library bbolt is a parameter, a record of the
  calls that the code makes, and what it promises is the locale \<open>bolt_library\<close>. A bucket handle is the path
  of the bucket.
\<close>

section \<open>The library\<close>

text \<open>
  \<open>'b\<close> is the content of the file inside a transaction; \<open>None\<close> is an error. \<open>bo_DeleteAll\<close> is a visit of a
  bucket that deletes every key it visits: the documentation of \<^verbatim>\<open>ForEach\<close> calls the effect undefined.
\<close>

record 'b bolt_lib =
  bo_Bucket :: "'b \<Rightarrow> string list \<Rightarrow> bool"
  bo_CreateBucketIfNotExists :: "string list \<Rightarrow> 'b \<Rightarrow> 'b option"
  bo_Get :: "'b \<Rightarrow> string list \<Rightarrow> string \<Rightarrow> string option"
  bo_Put :: "string list \<Rightarrow> string \<Rightarrow> string \<Rightarrow> 'b \<Rightarrow> 'b option"
  bo_Delete :: "string list \<Rightarrow> string \<Rightarrow> 'b \<Rightarrow> 'b option"
  bo_Keys :: "'b \<Rightarrow> string list \<Rightarrow> string list"
  bo_DeleteAll :: "string list \<Rightarrow> 'b \<Rightarrow> 'b option"
  bo_Commit :: "'b \<Rightarrow> 'b option"

section \<open>The operations\<close>

text \<open>The state is the open file, or \<open>None\<close> once it is closed.\<close>

fun find_bucket :: "'b bolt_lib \<Rightarrow> 'b \<Rightarrow> string list \<Rightarrow> string list \<Rightarrow> string list option" where
  "find_bucket lib b h [] = Some h"
| "find_bucket lib b h (p # ps) = (if bo_Bucket lib b (h @ [p]) then find_bucket lib b (h @ [p]) ps else None)"

fun create_buckets :: "'b bolt_lib \<Rightarrow> string list \<Rightarrow> string list \<Rightarrow> 'b \<Rightarrow> (string list \<times> 'b) option" where
  "create_buckets lib h [] b = Some (h, b)"
| "create_buckets lib h (p # ps) b =
     (case bo_CreateBucketIfNotExists lib (h @ [p]) b of
        None \<Rightarrow> None | Some b \<Rightarrow> create_buckets lib (h @ [p]) ps b)"

text \<open>A transaction that fails leaves the file as it was.\<close>

definition bolt_Update :: "'b bolt_lib \<Rightarrow> ('b \<Rightarrow> 'b option) \<Rightarrow> 'b option \<Rightarrow> 'b option" where
  "bolt_Update lib f = map_option (\<lambda>b.
     case f b of None \<Rightarrow> b | Some b' \<Rightarrow> (case bo_Commit lib b' of None \<Rightarrow> b | Some b'' \<Rightarrow> b''))"

definition TDB_Get :: "'b bolt_lib \<Rightarrow> string \<Rightarrow> string \<Rightarrow> 'b option \<Rightarrow> string option" where
  "TDB_Get lib xpath name v =
     (case v of
        None \<Rightarrow> None
      | Some b \<Rightarrow>
          (case find_bucket lib b [] (str_split (CHR ''/'') xpath) of
             None \<Rightarrow> None | Some h \<Rightarrow> bo_Get lib b h name))"

definition TDB_Set :: "'b bolt_lib \<Rightarrow> string \<Rightarrow> string \<Rightarrow> string \<Rightarrow> 'b option \<Rightarrow> 'b option" where
  "TDB_Set lib xpath name val = bolt_Update lib (\<lambda>b.
     case create_buckets lib [] (str_split (CHR ''/'') xpath) b of
       None \<Rightarrow> None | Some (h, b) \<Rightarrow> bo_Put lib h name val b)"

definition TDB_List :: "'b bolt_lib \<Rightarrow> string \<Rightarrow> 'b option \<Rightarrow> string list" where
  "TDB_List lib xpath v =
     (case v of
        None \<Rightarrow> []
      | Some b \<Rightarrow>
          (case find_bucket lib b [] (str_split (CHR ''/'') xpath) of
             None \<Rightarrow> [] | Some h \<Rightarrow> filter (\<lambda>k. k \<noteq> []) (bo_Keys lib b h)))"

definition TDB_Rem :: "'b bolt_lib \<Rightarrow> string \<Rightarrow> string \<Rightarrow> 'b option \<Rightarrow> 'b option" where
  "TDB_Rem lib xpath name = bolt_Update lib (\<lambda>b.
     case find_bucket lib b [] (str_split (CHR ''/'') xpath) of
       None \<Rightarrow> Some b | Some h \<Rightarrow> bo_Delete lib h name b)"

definition TDB_Clear :: "'b bolt_lib \<Rightarrow> string \<Rightarrow> 'b option \<Rightarrow> 'b option" where
  "TDB_Clear lib xPath = bolt_Update lib (\<lambda>b.
     case find_bucket lib b [] (str_split (CHR ''/'') xPath) of
       None \<Rightarrow> Some b | Some h \<Rightarrow> bo_DeleteAll lib h b)"

definition TDB_CloseDB :: "'b option \<Rightarrow> 'b option" where
  "TDB_CloseDB v = None"

definition TDB :: "'b bolt_lib \<Rightarrow> 'b option TorrServerDB" where
  "TDB lib =
     \<lparr>db_CloseDB = TDB_CloseDB, db_Get = (\<lambda>x n v. (TDB_Get lib x n v, v)), db_Set = TDB_Set lib,
      db_List = (\<lambda>x v. (TDB_List lib x v, v)), db_Rem = TDB_Rem lib, db_Clear = TDB_Clear lib\<rparr>"

section \<open>The file is a store\<close>

lemma known_split: "known_path x \<Longrightarrow> str_split (CHR ''/'') x = [x]"
  by (rule str_split_plain) (auto simp: known_path_def)

lemma known_not_Nil: "known_path x \<Longrightarrow> x \<noteq> []"
  by (auto simp: known_path_def)

definition bolt_view :: "(string \<Rightarrow> 'm) \<Rightarrow> ('b \<Rightarrow> string \<Rightarrow> (string \<rightharpoonup> string) option) \<Rightarrow> 'b option \<Rightarrow> 'm contents" where
  "bolt_view \<mu> content v = (\<lambda>x.
     case v of
       None \<Rightarrow> Map.empty
     | Some b \<Rightarrow> if known_path x then (case content b x of None \<Rightarrow> Map.empty | Some m \<Rightarrow> map_option \<mu> \<circ> m) else Map.empty)"

definition bolt_good :: "('b \<Rightarrow> bool) \<Rightarrow> 'b option \<Rightarrow> bool" where
  "bolt_good plain v \<longleftrightarrow> (\<exists>b. v = Some b \<and> plain b)"

definition bolt_accepts :: "string \<Rightarrow> string \<Rightarrow> bool" where
  "bolt_accepts n v \<longleftrightarrow> n \<noteq> [] \<and> length n \<le> 32768 \<and> length v < 2147483647"

text \<open>
  What the code relies on: \<open>content\<close> is what the top-level buckets hold and \<open>plain\<close> says that no bucket is
  nested in them, on a disk that takes the writes.
\<close>

locale bolt_library =
  fixes lib :: "'b bolt_lib"
    and content :: "'b \<Rightarrow> string \<Rightarrow> (string \<rightharpoonup> string) option"
    and plain :: "'b \<Rightarrow> bool"
    and \<mu> :: "string \<Rightarrow> 'm"
  assumes bucket: "plain b \<Longrightarrow> bo_Bucket lib b [x] \<longleftrightarrow> content b x \<noteq> None"
    and create: "plain b \<Longrightarrow> x \<noteq> [] \<Longrightarrow> \<exists>b'. bo_CreateBucketIfNotExists lib [x] b = Some b' \<and> plain b' \<and>
      content b' = (content b)(x \<mapsto> case content b x of None \<Rightarrow> Map.empty | Some m \<Rightarrow> m)"
    and get_key: "plain b \<Longrightarrow> content b x = Some m \<Longrightarrow> bo_Get lib b [x] n = m n"
    and put: "plain b \<Longrightarrow> content b x = Some m \<Longrightarrow> bolt_accepts n v \<Longrightarrow>
      \<exists>b'. bo_Put lib [x] n v b = Some b' \<and> plain b' \<and> content b' = (content b)(x \<mapsto> m(n \<mapsto> v))"
    and delete: "plain b \<Longrightarrow> content b x = Some m \<Longrightarrow>
      \<exists>b'. bo_Delete lib [x] n b = Some b' \<and> plain b' \<and> content b' = (content b)(x \<mapsto> m(n := None))"
    and keys: "plain b \<Longrightarrow> content b x = Some m \<Longrightarrow> set (bo_Keys lib b [x]) = dom m \<and> [] \<notin> dom m"
    and delete_all: "plain b \<Longrightarrow> content b x = Some m \<Longrightarrow> bo_DeleteAll lib [x] b = Some b' \<Longrightarrow>
      plain b' \<and> (\<exists>m'. m' \<subseteq>\<^sub>m m \<and> content b' = (content b)(x \<mapsto> m'))"
    and commit: "plain b \<Longrightarrow> \<exists>b'. bo_Commit lib b = Some b' \<and> plain b' \<and> content b' = content b"
begin

lemma find_known: "plain b \<Longrightarrow> known_path x \<Longrightarrow>
  find_bucket lib b [] (str_split (CHR ''/'') x) = (if content b x = None then None else Some [x])"
  by (simp add: known_split bucket)

lemma update_commits:
  assumes "f b = Some b'" and "plain b'"
  obtains b'' where "bolt_Update lib f (Some b) = Some b''" and "plain b''" and "content b'' = content b'"
  using assms commit [OF assms(2)] by (auto simp: bolt_Update_def)

lemma view_update:
  "known_path x \<Longrightarrow> content b' = (content b)(x \<mapsto> m) \<Longrightarrow>
   bolt_view \<mu> content (Some b') = (bolt_view \<mu> content (Some b))(x := map_option \<mu> \<circ> m)"
  by (simp add: bolt_view_def fun_eq_iff)

lemma set_known:
  assumes "plain b" and x: "known_path x" and v: "bolt_accepts n v"
  obtains b' where "TDB_Set lib x n v (Some b) = Some b'" and "plain b'"
    and "bolt_view \<mu> content (Some b') = (bolt_view \<mu> content (Some b))(x := (bolt_view \<mu> content (Some b) x)(n \<mapsto> \<mu> v))"
proof -
  let ?m = "case content b x of None \<Rightarrow> Map.empty | Some m \<Rightarrow> m"
  obtain b1 where 1: "bo_CreateBucketIfNotExists lib [x] b = Some b1" "plain b1" "content b1 = (content b)(x \<mapsto> ?m)"
    using create [OF assms(1) known_not_Nil [OF x]] by blast
  obtain b2 where 2: "bo_Put lib [x] n v b1 = Some b2" "plain b2" "content b2 = (content b1)(x \<mapsto> ?m(n \<mapsto> v))"
    using put [OF 1(2) _ v, of x ?m] 1(3) by auto
  obtain b3 where 3: "TDB_Set lib x n v (Some b) = Some b3" "plain b3" "content b3 = content b2"
    using update_commits [OF _ 2(2), of "\<lambda>b. case create_buckets lib [] (str_split (CHR ''/'') x) b of
       None \<Rightarrow> None | Some (h, b) \<Rightarrow> bo_Put lib h n v b" b]
    by (auto simp: TDB_Set_def known_split [OF x] 1(1) 2(1))
  have "content b3 = (content b)(x \<mapsto> ?m(n \<mapsto> v))" using 1(3) 2(3) 3(3) by simp
  then have "bolt_view \<mu> content (Some b3) = (bolt_view \<mu> content (Some b))(x := (bolt_view \<mu> content (Some b) x)(n \<mapsto> \<mu> v))"
    using x by (auto simp: bolt_view_def fun_eq_iff split: option.splits)
  with 3 show thesis by (intro that)
qed

lemma rem_known:
  assumes "plain b" and x: "known_path x"
  obtains b' where "TDB_Rem lib x n (Some b) = Some b'" and "plain b'"
    and "bolt_view \<mu> content (Some b') = (bolt_view \<mu> content (Some b))(x := (bolt_view \<mu> content (Some b) x)(n := None))"
proof (cases "content b x")
  case None
  obtain b' where "TDB_Rem lib x n (Some b) = Some b'" and "plain b'" and c: "content b' = content b"
    using update_commits [OF _ assms(1), of "\<lambda>b. case find_bucket lib b [] (str_split (CHR ''/'') x) of
       None \<Rightarrow> Some b | Some h \<Rightarrow> bo_Delete lib h n b" b] None
    by (auto simp: TDB_Rem_def find_known [OF assms(1) x])
  then show thesis using None by (intro that) (auto simp: bolt_view_def fun_eq_iff)
next
  case (Some m)
  obtain b1 where 1: "bo_Delete lib [x] n b = Some b1" "plain b1" "content b1 = (content b)(x \<mapsto> m(n := None))"
    using delete [OF assms(1) Some] by blast
  obtain b' where b': "TDB_Rem lib x n (Some b) = Some b'" "plain b'" "content b' = content b1"
    using update_commits [OF _ 1(2), of "\<lambda>b. case find_bucket lib b [] (str_split (CHR ''/'') x) of
       None \<Rightarrow> Some b | Some h \<Rightarrow> bo_Delete lib h n b" b] Some 1(1)
    by (auto simp: TDB_Rem_def find_known [OF assms(1) x])
  then have "bolt_view \<mu> content (Some b') = (bolt_view \<mu> content (Some b))(x := (bolt_view \<mu> content (Some b) x)(n := None))"
    using x 1(3) Some by (auto simp: bolt_view_def fun_eq_iff)
  with b' show thesis by (intro that)
qed

lemma clear_known:
  assumes "plain b" and x: "known_path x"
  obtains b' m where "TDB_Clear lib x (Some b) = Some b'" and "plain b'" and "m \<subseteq>\<^sub>m bolt_view \<mu> content (Some b) x"
    and "bolt_view \<mu> content (Some b') = (bolt_view \<mu> content (Some b))(x := m)"
proof -
  let ?f = "\<lambda>b. case find_bucket lib b [] (str_split (CHR ''/'') x) of None \<Rightarrow> Some b | Some h \<Rightarrow> bo_DeleteAll lib h b"
  show thesis
  proof (cases "?f b")
    case None
    then show thesis using assms(1)
      by (intro that [of b "bolt_view \<mu> content (Some b) x"]) (simp_all add: TDB_Clear_def bolt_Update_def)
  next
    case (Some b1)
    have 1: "plain b1 \<and> (content b1 = content b \<or>
        (\<exists>m m'. content b x = Some m \<and> m' \<subseteq>\<^sub>m m \<and> content b1 = (content b)(x \<mapsto> m')))"
      using Some delete_all [OF assms(1)] assms(1) by (auto simp: find_known [OF assms(1) x] split: if_splits)
    then obtain b' where b': "TDB_Clear lib x (Some b) = Some b'" "plain b'" "content b' = content b1"
      using update_commits [of ?f b b1] Some by (auto simp: TDB_Clear_def)
    from 1 show thesis
    proof (elim conjE disjE exE)
      assume "content b1 = content b"
      then show thesis using b' by (intro that [of b' "bolt_view \<mu> content (Some b) x"]) (auto simp: bolt_view_def)
    next
      fix m m' assume m: "content b x = Some m" "m' \<subseteq>\<^sub>m m" "content b1 = (content b)(x \<mapsto> m')"
      then have "map_option \<mu> \<circ> m' \<subseteq>\<^sub>m bolt_view \<mu> content (Some b) x"
        using x by (auto simp: bolt_view_def map_le_def dom_def)
      then show thesis using b' m x by (intro that [OF b'(1,2)]) (simp_all add: view_update)
    qed
  qed
qed

end

sublocale bolt_library \<subseteq> tdb: torr_store "TDB lib" \<mu> "bolt_view \<mu> content" "bolt_good plain" bolt_accepts
proof unfold_locales
  fix w x n v w'
  assume "bolt_good plain w" and "known_path x" and "db_Get (TDB lib) x n w = (v, w')"
  then show "map_option \<mu> v = bolt_view \<mu> content w x n \<and> bolt_view \<mu> content w' = bolt_view \<mu> content w \<and> bolt_good plain w'"
    using find_known get_key by (auto simp: TDB_def TDB_Get_def bolt_view_def bolt_good_def split: option.splits)
next
  fix w x n v w'
  assume w: "bolt_good plain w" and x: "known_path x" and v: "bolt_accepts n v" and w': "w' = db_Set (TDB lib) x n v w"
  obtain b where b: "w = Some b" "plain b" using w by (auto simp: bolt_good_def)
  show "bolt_view \<mu> content w' = (bolt_view \<mu> content w)(x := (bolt_view \<mu> content w x)(n \<mapsto> \<mu> v)) \<and> bolt_good plain w'"
    by (rule set_known [OF b(2) x v]) (simp add: w' b TDB_def bolt_good_def)
next
  fix w x ns w'
  assume "bolt_good plain w" and x: "known_path x" and "db_List (TDB lib) x w = (ns, w')"
  moreover have "filter (\<lambda>k. k \<noteq> []) (bo_Keys lib b [x]) = bo_Keys lib b [x]"
    if "plain b" and "content b x = Some m" for b m
    using keys [OF that] by (metis (mono_tags, lifting) filter_True)
  ultimately show "set ns = dom (bolt_view \<mu> content w x) \<and> bolt_view \<mu> content w' = bolt_view \<mu> content w \<and> bolt_good plain w'"
    using find_known keys by (auto simp: TDB_def TDB_List_def bolt_view_def bolt_good_def dom_map_option split: option.splits)
next
  fix w x n w'
  assume w: "bolt_good plain w" and x: "known_path x" and w': "w' = db_Rem (TDB lib) x n w"
  obtain b where b: "w = Some b" "plain b" using w by (auto simp: bolt_good_def)
  show "bolt_view \<mu> content w' = (bolt_view \<mu> content w)(x := (bolt_view \<mu> content w x)(n := None)) \<and> bolt_good plain w'"
    by (rule rem_known [OF b(2) x, where n = n]) (simp add: w' b TDB_def bolt_good_def)
next
  fix w x w'
  assume w: "bolt_good plain w" and x: "known_path x" and w': "w' = db_Clear (TDB lib) x w"
  obtain b where b: "w = Some b" "plain b" using w by (auto simp: bolt_good_def)
  show "(\<exists>m. m \<subseteq>\<^sub>m bolt_view \<mu> content w x \<and> bolt_view \<mu> content w' = (bolt_view \<mu> content w)(x := m)) \<and> bolt_good plain w'"
    by (rule clear_known [OF b(2) x]) (auto simp: w' b TDB_def bolt_good_def)
qed

section \<open>A library\<close>

text \<open>An instance of the parameters: buckets at the top level only, as maps.\<close>

type_synonym demo_file = "string \<rightharpoonup> (string \<rightharpoonup> string)"

definition demo_bolt :: "demo_file bolt_lib" where
  "demo_bolt =
     \<lparr>bo_Bucket = (\<lambda>b h. case h of [x] \<Rightarrow> b x \<noteq> None | _ \<Rightarrow> False),
      bo_CreateBucketIfNotExists = (\<lambda>h b. case h of
          [x] \<Rightarrow> if x = [] then None else Some (b(x \<mapsto> case b x of None \<Rightarrow> Map.empty | Some m \<Rightarrow> m)) | _ \<Rightarrow> None),
      bo_Get = (\<lambda>b h n. case h of [x] \<Rightarrow> (case b x of None \<Rightarrow> None | Some m \<Rightarrow> m n) | _ \<Rightarrow> None),
      bo_Put = (\<lambda>h n v b. case h of
          [x] \<Rightarrow> if bolt_accepts n v then map_option (\<lambda>m. b(x \<mapsto> m(n \<mapsto> v))) (b x) else None | _ \<Rightarrow> None),
      bo_Delete = (\<lambda>h n b. case h of [x] \<Rightarrow> map_option (\<lambda>m. b(x \<mapsto> m(n := None))) (b x) | _ \<Rightarrow> None),
      bo_Keys = (\<lambda>b h. case h of [x] \<Rightarrow> (case b x of None \<Rightarrow> [] | Some m \<Rightarrow> sorted_list_of_set (dom m)) | _ \<Rightarrow> []),
      bo_DeleteAll = (\<lambda>h b. case h of [x] \<Rightarrow> Some (b(x \<mapsto> Map.empty)) | _ \<Rightarrow> None),
      bo_Commit = Some\<rparr>"

definition demo_plain :: "demo_file \<Rightarrow> bool" where
  "demo_plain b \<longleftrightarrow> (\<forall>m \<in> ran b. finite (dom m) \<and> [] \<notin> dom m)"

lemma demo_plain_update: "demo_plain b \<Longrightarrow> finite (dom m) \<Longrightarrow> [] \<notin> dom m \<Longrightarrow> demo_plain (b(x \<mapsto> m))"
  by (auto simp: demo_plain_def ran_def)

lemma demo_plain_bucket: "demo_plain b \<Longrightarrow> b x = Some m \<Longrightarrow> finite (dom m) \<and> [] \<notin> dom m"
  by (auto simp: demo_plain_def ran_def)

interpretation demo: bolt_library demo_bolt "\<lambda>b. b" demo_plain \<mu> for \<mu>
proof unfold_locales
  fix b :: demo_file and x assume b: "demo_plain b"
  show "bo_Bucket demo_bolt b [x] \<longleftrightarrow> b x \<noteq> None" by (simp add: demo_bolt_def)
  let ?m = "case b x of None \<Rightarrow> Map.empty | Some m \<Rightarrow> m"
  have "finite (dom ?m) \<and> [] \<notin> dom ?m" using demo_plain_bucket [OF b] by (auto split: option.splits)
  then show "x \<noteq> [] \<Longrightarrow> \<exists>b'. bo_CreateBucketIfNotExists demo_bolt [x] b = Some b' \<and> demo_plain b' \<and> b' = b(x \<mapsto> ?m)"
    using demo_plain_update [OF b] by (simp add: demo_bolt_def)
  fix m assume m: "b x = Some m"
  have f: "finite (dom m)" "[] \<notin> dom m" using demo_plain_bucket [OF b m] by auto
  show "bo_Get demo_bolt b [x] n = m n" for n using m by (simp add: demo_bolt_def)
  show "\<exists>b'. bo_Put demo_bolt [x] n v b = Some b' \<and> demo_plain b' \<and> b' = b(x \<mapsto> m(n \<mapsto> v))" if "bolt_accepts n v" for n v
    using m f that by (auto simp: demo_bolt_def bolt_accepts_def intro!: demo_plain_update [OF b])
  show "\<exists>b'. bo_Delete demo_bolt [x] n b = Some b' \<and> demo_plain b' \<and> b' = b(x \<mapsto> m(n := None))" for n
    using m f by (simp add: demo_bolt_def demo_plain_update [OF b])
  show "set (bo_Keys demo_bolt b [x]) = dom m \<and> [] \<notin> dom m" using m f by (simp add: demo_bolt_def)
  show "demo_plain b' \<and> (\<exists>m'. m' \<subseteq>\<^sub>m m \<and> b' = b(x \<mapsto> m'))" if "bo_DeleteAll demo_bolt [x] b = Some b'" for b'
    using that demo_plain_update [OF b, of Map.empty] by (auto simp: demo_bolt_def intro!: exI [of _ Map.empty])
qed (simp add: demo_bolt_def)

end
