(* ===== verification/Store_Router.thy ===== *)
theory Store_Router
  imports Store_Cache Store_JSON Store_Bolt
begin

text \<open>
  The router that sends a path to the database registered for its longest prefix (settings/xpathdbrouter.go),
  and the database of the program: a read cache over a router over the two files
  (setupDatabaseRouting in settings/settings.go).
\<close>

section \<open>The router\<close>

text \<open>\<open>'i\<close> are the registered databases. Their names, which only the log shows, are left out.\<close>

record 'i XPathDBRouter =
  xr_dbs :: "'i list"
  xr_routes :: "string list"
  xr_route2db :: "string \<rightharpoonup> 'i"

definition NewXPathDBRouter :: "'i XPathDBRouter" where
  "NewXPathDBRouter = \<lparr>xr_dbs = [], xr_routes = [], xr_route2db = Map.empty\<rparr>"

definition xPathToRoute :: "string \<Rightarrow> string" where
  "xPathToRoute xPath = to_lower (trim_space xPath)"

text \<open>
  The part of \<open>RegisterRoute\<close> after its checks. Routes of the same length may end up in any order in the
  code; no two of them are prefixes of the same path.
\<close>

definition add_route :: "'i \<Rightarrow> string \<Rightarrow> 'i XPathDBRouter \<Rightarrow> 'i XPathDBRouter" where
  "add_route db newRoute r =
     (let r = (if db \<in> set (xr_dbs r) then r else r\<lparr>xr_dbs := xr_dbs r @ [db]\<rparr>)
      in r\<lparr>xr_route2db := (xr_route2db r)(newRoute \<mapsto> db),
           xr_routes := sort_key (\<lambda>t. - int (length t)) (xr_routes r @ [newRoute])\<rparr>)"

text \<open>The result tells whether the call returns no error. The inner call is the one for the default route.\<close>

definition RegisterRoute :: "'i \<Rightarrow> string \<Rightarrow> 'i XPathDBRouter \<Rightarrow> bool \<times> 'i XPathDBRouter" where
  "RegisterRoute db xPath r =
     (let newRoute = xPathToRoute xPath in
      if newRoute \<in> set (xr_routes r) then (False, r)
      else if xr_dbs r = [] \<and> newRoute \<noteq> []
      then if [] \<in> set (xr_routes r) then (False, r) else (True, add_route db newRoute (add_route db [] r))
      else (True, add_route db newRoute r))"

definition getDBForXPath :: "string \<Rightarrow> 'i XPathDBRouter \<Rightarrow> 'i option" where
  "getDBForXPath xPath r =
     (if xr_dbs r = [] then None
      else case List.find (\<lambda>routePrefix. has_prefix (xPathToRoute xPath) routePrefix) (xr_routes r) of
        None \<Rightarrow> None | Some routePrefix \<Rightarrow> xr_route2db r routePrefix)"

definition router_Get :: "('i \<Rightarrow> 'w TorrServerDB) \<Rightarrow> string \<Rightarrow> string \<Rightarrow> 'w \<times> 'i XPathDBRouter \<Rightarrow> string option \<times> 'w \<times> 'i XPathDBRouter" where
  "router_Get impl xPath name = (\<lambda>(w, r).
     case getDBForXPath xPath r of
       None \<Rightarrow> (None, w, r) | Some i \<Rightarrow> (let (v, w) = db_Get (impl i) xPath name w in (v, w, r)))"

definition router_Set :: "('i \<Rightarrow> 'w TorrServerDB) \<Rightarrow> string \<Rightarrow> string \<Rightarrow> string \<Rightarrow> 'w \<times> 'i XPathDBRouter \<Rightarrow> 'w \<times> 'i XPathDBRouter" where
  "router_Set impl xPath name v = (\<lambda>(w, r).
     case getDBForXPath xPath r of None \<Rightarrow> (w, r) | Some i \<Rightarrow> (db_Set (impl i) xPath name v w, r))"

definition router_List :: "('i \<Rightarrow> 'w TorrServerDB) \<Rightarrow> string \<Rightarrow> 'w \<times> 'i XPathDBRouter \<Rightarrow> string list \<times> 'w \<times> 'i XPathDBRouter" where
  "router_List impl xPath = (\<lambda>(w, r).
     case getDBForXPath xPath r of
       None \<Rightarrow> ([], w, r) | Some i \<Rightarrow> (let (ns, w) = db_List (impl i) xPath w in (ns, w, r)))"

definition router_Rem :: "('i \<Rightarrow> 'w TorrServerDB) \<Rightarrow> string \<Rightarrow> string \<Rightarrow> 'w \<times> 'i XPathDBRouter \<Rightarrow> 'w \<times> 'i XPathDBRouter" where
  "router_Rem impl xPath name = (\<lambda>(w, r).
     case getDBForXPath xPath r of None \<Rightarrow> (w, r) | Some i \<Rightarrow> (db_Rem (impl i) xPath name w, r))"

definition router_Clear :: "('i \<Rightarrow> 'w TorrServerDB) \<Rightarrow> string \<Rightarrow> 'w \<times> 'i XPathDBRouter \<Rightarrow> 'w \<times> 'i XPathDBRouter" where
  "router_Clear impl xPath = (\<lambda>(w, r).
     case getDBForXPath xPath r of None \<Rightarrow> (w, r) | Some i \<Rightarrow> (db_Clear (impl i) xPath w, r))"

definition router_CloseDB :: "('i \<Rightarrow> 'w TorrServerDB) \<Rightarrow> 'w \<times> 'i XPathDBRouter \<Rightarrow> 'w \<times> 'i XPathDBRouter" where
  "router_CloseDB impl = (\<lambda>(w, r). (fold (\<lambda>i. db_CloseDB (impl i)) (xr_dbs r) w, NewXPathDBRouter))"

definition router :: "('i \<Rightarrow> 'w TorrServerDB) \<Rightarrow> ('w \<times> 'i XPathDBRouter) TorrServerDB" where
  "router impl =
     \<lparr>db_CloseDB = router_CloseDB impl, db_Get = router_Get impl, db_Set = router_Set impl,
      db_List = router_List impl, db_Rem = router_Rem impl, db_Clear = router_Clear impl\<rparr>"

section \<open>The longest prefix\<close>

definition router_ok :: "'i XPathDBRouter \<Rightarrow> bool" where
  "router_ok r \<longleftrightarrow>
     sorted (map (\<lambda>t. - int (length t)) (xr_routes r)) \<and> dom (xr_route2db r) = set (xr_routes r) \<and>
     (xr_dbs r = [] \<longrightarrow> xr_routes r = []) \<and> (xr_dbs r \<noteq> [] \<longrightarrow> [] \<in> set (xr_routes r))"

lemma router_ok_new: "router_ok NewXPathDBRouter"
  by (simp add: router_ok_def NewXPathDBRouter_def)

lemma add_route_fields:
  "set (xr_routes (add_route db t r)) = insert t (set (xr_routes r))" "xr_dbs (add_route db t r) \<noteq> []"
  "sorted (map (\<lambda>t. - int (length t)) (xr_routes (add_route db t r)))"
  "xr_route2db (add_route db t r) = (xr_route2db r)(t \<mapsto> db)"
  by (auto simp: add_route_def Let_def)

lemma router_ok_add: "router_ok r \<Longrightarrow> t = [] \<or> xr_dbs r \<noteq> [] \<Longrightarrow> router_ok (add_route db t r)"
  by (auto simp: router_ok_def add_route_fields)

lemma router_ok_register: "router_ok r \<Longrightarrow> router_ok (snd (RegisterRoute db x r))"
  by (auto simp: RegisterRoute_def Let_def add_route_fields intro!: router_ok_add)

lemma find_sorted:
  fixes f :: "'a \<Rightarrow> int"
  assumes "sorted (map f xs)" and "List.find P xs = Some x"
  shows "x \<in> set xs \<and> P x \<and> (\<forall>y \<in> set xs. P y \<longrightarrow> f x \<le> f y)"
  using assms by (induction xs) (auto split: if_splits)

lemma find_is_Some: "x \<in> set xs \<Longrightarrow> P x \<Longrightarrow> \<exists>y. List.find P xs = Some y"
  by (induction xs) auto

text \<open>
  Whatever routes are registered, a path goes to the database of the longest route that is a
  prefix of it (in lower case and without surrounding space), and once a database is registered there
  always is one: the default route of the first database.
\<close>

theorem router_longest_prefix:
  assumes "r = foldl (\<lambda>r (db, x). snd (RegisterRoute db x r)) NewXPathDBRouter calls" and "xr_dbs r \<noteq> []"
  shows "\<exists>t db. t \<in> set (xr_routes r) \<and> has_prefix (xPathToRoute x) t \<and>
     (\<forall>t' \<in> set (xr_routes r). has_prefix (xPathToRoute x) t' \<longrightarrow> length t' \<le> length t) \<and>
     xr_route2db r t = Some db \<and> getDBForXPath x r = Some db"
proof -
  have ok: "router_ok r" unfolding assms(1)
    by (rule foldl_inv [where P = router_ok, OF router_ok_new]) (auto intro: router_ok_register)
  let ?P = "\<lambda>t. has_prefix (xPathToRoute x) t"
  have "[] \<in> set (xr_routes r)" and "?P []" using ok assms(2) by (auto simp: router_ok_def has_prefix_iff)
  then obtain t where t: "List.find ?P (xr_routes r) = Some t" using find_is_Some by fastforce
  then have l: "t \<in> set (xr_routes r)" "?P t" "\<forall>t' \<in> set (xr_routes r). ?P t' \<longrightarrow> length t' \<le> length t"
    using find_sorted [OF _ t, of "\<lambda>t. - int (length t)"] ok by (auto simp: router_ok_def)
  then obtain db where "xr_route2db r t = Some db" using ok by (auto simp: router_ok_def)
  with l t assms(2) show ?thesis by (auto simp: getDBForXPath_def)
qed

theorem router_longest_prefix_witness:
  "\<exists>r :: nat XPathDBRouter. \<exists>t db. r = foldl (\<lambda>r (db, x). snd (RegisterRoute db x r)) NewXPathDBRouter [(1, ''Settings''), (2, ''Viewed'')] \<and>
     t \<in> set (xr_routes r) \<and> xr_route2db r t = Some db \<and> getDBForXPath ''viewed/x'' r = Some db"
proof -
  let ?calls = "[(1, ''Settings''), (2, ''Viewed'')] :: (nat \<times> string) list"
  let ?r = "foldl (\<lambda>r (db, x). snd (RegisterRoute db x r)) NewXPathDBRouter ?calls"
  have "xr_dbs ?r \<noteq> []" by code_simp
  from router_longest_prefix [OF refl this, of "''viewed/x''"] show ?thesis by blast
qed

section \<open>The database of the program\<close>

datatype file_db = Bbolt | Json

definition file_dbs :: "'b bolt_lib \<Rightarrow> 'v json_lib \<Rightarrow> file_db \<Rightarrow> ('b option \<times> json_dir) TorrServerDB" where
  "file_dbs bl jl i = (case i of Bbolt \<Rightarrow> on_fst (TDB bl) | Json \<Rightarrow> on_snd (JSONDB jl))"

definition routes_of :: "bool \<Rightarrow> bool \<Rightarrow> file_db XPathDBRouter" where
  "routes_of settingsInJSON viewedInJSON =
     (let r = NewXPathDBRouter;
          r = snd (RegisterRoute (if settingsInJSON then Json else Bbolt) ''Settings'' r);
          r = snd (RegisterRoute (if viewedInJSON then Json else Bbolt) ''Viewed'' r)
      in snd (RegisterRoute Bbolt ''Torrents'' r))"

definition setupDatabaseRouting ::
  "bool \<Rightarrow> bool \<Rightarrow> 'b option \<times> json_dir \<Rightarrow> (('b option \<times> json_dir) \<times> file_db XPathDBRouter) \<times> DBReadCache" where
  "setupDatabaseRouting settingsInJSON viewedInJSON w = NewDBReadCache (w, routes_of settingsInJSON viewedInJSON)"

definition settings_db ::
  "bool \<Rightarrow> 'b bolt_lib \<Rightarrow> 'v json_lib \<Rightarrow> ((('b option \<times> json_dir) \<times> file_db XPathDBRouter) \<times> DBReadCache) TorrServerDB" where
  "settings_db readOnly bl jl = cached readOnly (router (file_dbs bl jl))"

definition placed :: "bool \<Rightarrow> bool \<Rightarrow> string \<Rightarrow> file_db" where
  "placed settingsInJSON viewedInJSON x =
     (if x = ''Settings'' \<and> settingsInJSON \<or> x = ''Viewed'' \<and> viewedInJSON then Json else Bbolt)"

lemma routes_placed: "known_path x \<Longrightarrow> getDBForXPath x (routes_of sj vj) = Some (placed sj vj x)"
proof -
  have "getDBForXPath ''Settings'' (routes_of sj vj) = Some (placed sj vj ''Settings'') \<and>
     getDBForXPath ''Viewed'' (routes_of sj vj) = Some (placed sj vj ''Viewed'') \<and>
     getDBForXPath ''Torrents'' (routes_of sj vj) = Some (placed sj vj ''Torrents'')"
    by (cases sj; cases vj; simp only:; code_simp)
  then show "known_path x \<Longrightarrow> ?thesis" by (auto simp: known_path_def)
qed

text \<open>The contents of the two files under the routing, and the routed store.\<close>

definition routed_view ::
  "bool \<Rightarrow> bool \<Rightarrow> ('a \<Rightarrow> 'm contents) \<Rightarrow> ('c \<Rightarrow> 'm contents) \<Rightarrow> ('a \<times> 'c) \<times> file_db XPathDBRouter \<Rightarrow> 'm contents" where
  "routed_view sj vj view1 view2 = (\<lambda>((a, c), r) x. case placed sj vj x of Bbolt \<Rightarrow> view1 a x | Json \<Rightarrow> view2 c x)"

definition routed_good ::
  "bool \<Rightarrow> bool \<Rightarrow> ('a \<Rightarrow> bool) \<Rightarrow> ('c \<Rightarrow> bool) \<Rightarrow> ('a \<times> 'c) \<times> file_db XPathDBRouter \<Rightarrow> bool" where
  "routed_good sj vj good1 good2 = (\<lambda>((a, c), r). good1 a \<and> good2 c \<and> r = routes_of sj vj)"

locale settings_files = bolt_library bl content plain "js_object jl" + json_codec jl
  for bl :: "'b bolt_lib" and content and plain and jl :: "'v json_lib"
begin

abbreviation files_view :: "bool \<Rightarrow> bool \<Rightarrow> ('b option \<times> json_dir) \<times> file_db XPathDBRouter \<Rightarrow> 'v option contents" where
  "files_view sj vj \<equiv> routed_view sj vj (bolt_view (js_object jl) content) (json_view jl)"

abbreviation files_good :: "bool \<Rightarrow> bool \<Rightarrow> ('b option \<times> json_dir) \<times> file_db XPathDBRouter \<Rightarrow> bool" where
  "files_good sj vj \<equiv> routed_good sj vj (bolt_good plain) (json_good jl)"

lemma files_store:
  "torr_store (router (file_dbs bl jl)) (js_object jl) (files_view sj vj) (files_good sj vj)
     (\<lambda>n v. bolt_accepts n v \<and> json_accepts jl n v)"
proof unfold_locales
  note defs = router_def routed_view_def routed_good_def file_dbs_def on_fst_def on_snd_def
  fix s x n v s' assume s: "files_good sj vj s" and x: "known_path x"
  obtain a c where e: "s = ((a, c), routes_of sj vj)" and a: "bolt_good plain a" and c: "json_good jl c"
    using s by (auto simp: routed_good_def)
  have p: "getDBForXPath x (routes_of sj vj) = Some (placed sj vj x)" by (rule routes_placed [OF x])
  show "db_Get (router (file_dbs bl jl)) x n s = (v, s') \<Longrightarrow>
      map_option (js_object jl) v = files_view sj vj s x n \<and> files_view sj vj s' = files_view sj vj s \<and> files_good sj vj s'"
    using tdb.get [OF a x] json.get [OF c x] p a c
    by (auto simp: defs router_Get_def e fun_eq_iff split: prod.splits file_db.splits)
  show "s' = db_Rem (router (file_dbs bl jl)) x n s \<Longrightarrow>
      files_view sj vj s' = (files_view sj vj s)(x := (files_view sj vj s x)(n := None)) \<and> files_good sj vj s'"
    using tdb.rem [OF a x refl, of n] json.rem [OF c x refl, of n] p a c
    by (auto simp: defs router_Rem_def e fun_eq_iff split: file_db.splits)
  show "(\<exists>m. m \<subseteq>\<^sub>m files_view sj vj s x \<and> files_view sj vj s' = (files_view sj vj s)(x := m)) \<and> files_good sj vj s'"
    if s': "s' = db_Clear (router (file_dbs bl jl)) x s"
  proof (cases "placed sj vj x")
    case Bbolt
    obtain m where "m \<subseteq>\<^sub>m bolt_view (js_object jl) content a x"
      and "bolt_view (js_object jl) content (db_Clear (TDB bl) x a) = (bolt_view (js_object jl) content a)(x := m)"
      and "bolt_good plain (db_Clear (TDB bl) x a)"
      using tdb.clear [OF a x refl] by blast
    then show ?thesis using Bbolt p c
      by (auto simp: s' defs router_Clear_def e fun_eq_iff split: file_db.splits intro!: exI [of _ m])
  next
    case Json
    obtain m where "m \<subseteq>\<^sub>m json_view jl c x"
      and "json_view jl (db_Clear (JSONDB jl) x c) = (json_view jl c)(x := m)"
      and "json_good jl (db_Clear (JSONDB jl) x c)"
      using json.clear [OF c x refl] by blast
    then show ?thesis using Json p a
      by (auto simp: s' defs router_Clear_def e fun_eq_iff split: file_db.splits intro!: exI [of _ m])
  qed
next
  note defs = router_def routed_view_def routed_good_def file_dbs_def on_fst_def on_snd_def
  fix s x n v s' assume s: "files_good sj vj s" and x: "known_path x" and v: "bolt_accepts n v \<and> json_accepts jl n v"
    and s': "s' = db_Set (router (file_dbs bl jl)) x n v s"
  obtain a c where e: "s = ((a, c), routes_of sj vj)" and a: "bolt_good plain a" and c: "json_good jl c"
    using s by (auto simp: routed_good_def)
  have p: "getDBForXPath x (routes_of sj vj) = Some (placed sj vj x)" by (rule routes_placed [OF x])
  show "files_view sj vj s' = (files_view sj vj s)(x := (files_view sj vj s x)(n \<mapsto> js_object jl v)) \<and> files_good sj vj s'"
    using tdb.set [OF a x conjunct1 [OF v] refl] json.set [OF c x conjunct2 [OF v] refl] p a c
    by (auto simp: s' defs router_Set_def e fun_eq_iff split: file_db.splits)
next
  note defs = router_def routed_view_def routed_good_def file_dbs_def on_fst_def on_snd_def
  fix s x ns s' assume s: "files_good sj vj s" and x: "known_path x" and l: "db_List (router (file_dbs bl jl)) x s = (ns, s')"
  obtain a c where e: "s = ((a, c), routes_of sj vj)" and a: "bolt_good plain a" and c: "json_good jl c"
    using s by (auto simp: routed_good_def)
  have p: "getDBForXPath x (routes_of sj vj) = Some (placed sj vj x)" by (rule routes_placed [OF x])
  show "set ns = dom (files_view sj vj s x) \<and> files_view sj vj s' = files_view sj vj s \<and> files_good sj vj s'"
  proof (cases "placed sj vj x")
    case Bbolt
    obtain ns1 a1 where l1: "db_List (TDB bl) x a = (ns1, a1)" by fastforce
    show ?thesis using tdb.lst [OF a x l1] Bbolt p c l l1
      by (auto simp: defs router_List_def e fun_eq_iff split: file_db.splits)
  next
    case Json
    obtain ns1 c1 where l1: "db_List (JSONDB jl) x c = (ns1, c1)" by fastforce
    show ?thesis using json.lst [OF c x l1] Json p a l l1
      by (auto simp: defs router_List_def e fun_eq_iff split: file_db.splits)
  qed
qed

lemma setup_good:
  "bolt_good plain a \<Longrightarrow> json_good jl c \<Longrightarrow>
   cached_good (js_object jl) (files_view sj vj) (files_good sj vj) (setupDatabaseRouting sj vj (a, c))"
  unfolding setupDatabaseRouting_def by (rule NewDBReadCache_good) (simp add: routed_good_def)

lemmas program_store = torr_store.cached_store [OF files_store, folded settings_db_def]

lemma program_runs:
  assumes "bolt_good plain a" and "json_good jl c"
    and "\<forall>p \<in> set ps. op_legal (\<lambda>n v. bolt_accepts n v \<and> json_accepts jl n v) p"
    and "run_ops (run_op (js_object jl) (settings_db False bl jl)) ps (setupDatabaseRouting sj vj (a, c)) = (rs, s)"
  shows "fst (run_ops (abs_op (js_object jl)) ps
           (\<lambda>x. case placed sj vj x of Bbolt \<Rightarrow> bolt_view (js_object jl) content a x | Json \<Rightarrow> json_view jl c x)) = rs"
  using torr_store.run_refines [OF program_store setup_good [OF assms(1,2)] assms(3,4)]
  by (simp add: setupDatabaseRouting_def NewDBReadCache_def routed_view_def)

end

sublocale settings_files \<subseteq> program: torr_store "settings_db False bl jl" "js_object jl" "files_view sj vj \<circ> fst"
    "cached_good (js_object jl) (files_view sj vj) (files_good sj vj)" "\<lambda>n v. bolt_accepts n v \<and> json_accepts jl n v"
  for sj vj
  by (rule program_store)

interpretation demo_files: settings_files demo_bolt "\<lambda>b. b" demo_plain demo_codec
  by unfold_locales

text \<open>
  Property C27. The database of the program, a read cache over a router over the two files, answers any
  sequence of reads, writes, listings and removals as one map from names to values under every path would
  that starts with what the files hold, whichever paths are kept in JSON, and the cache is never seen. The
  hypotheses are what bbolt and encoding/json promise, open files that can be read and written, and values
  that both formats accept; the operations come one at a time.
\<close>

theorem settings_db_refines_map:
  assumes "settings_files bl content plain jl" and "bolt_good plain a" and "json_good jl c"
    and "\<forall>p \<in> set ps. op_legal (\<lambda>n v. bolt_accepts n v \<and> json_accepts jl n v) p"
    and "run_ops (run_op (js_object jl) (settings_db False bl jl)) ps (setupDatabaseRouting sj vj (a, c)) = (rs, s)"
  shows "fst (run_ops (abs_op (js_object jl)) ps
           (\<lambda>x. case placed sj vj x of Bbolt \<Rightarrow> bolt_view (js_object jl) content a x | Json \<Rightarrow> json_view jl c x)) = rs"
  using settings_files.program_runs [OF assms(1-3) _ assms(5)] assms(4) by blast

definition empty_dir :: json_dir where
  "empty_dir = \<lparr>jf_files = Map.empty, jf_readable = (\<lambda>f. True), jf_writable = (\<lambda>f. True)\<rparr>"

definition demo_ops :: "store_op list" where
  "demo_ops = [OpSet ''Settings'' ''a'' ''{1'', OpGet ''Settings'' ''a'', OpList ''Settings'', OpRem ''Settings'' ''a'',
     OpGet ''Settings'' ''a'', OpSet ''Torrents'' ''b'' ''{2'', OpGet ''Torrents'' ''b'']"

theorem settings_db_refines_map_witness:
  "fst (run_ops (run_op (js_object demo_codec) (settings_db False demo_bolt demo_codec)) demo_ops
      (setupDatabaseRouting True False (Some Map.empty, empty_dir))) =
   [Unit, Value (Some (Some ''1'')), Names {''a''}, Unit, Value None, Unit, Value (Some (Some ''2''))]"
proof -
  have "bolt_good demo_plain (Some Map.empty)" by (simp add: bolt_good_def demo_plain_def)
  moreover have "json_good demo_codec empty_dir" by (simp add: json_good_def empty_dir_def)
  moreover have "\<forall>p \<in> set demo_ops. op_legal (\<lambda>n v. bolt_accepts n v \<and> json_accepts demo_codec n v) p"
    by (simp add: demo_ops_def known_path_def bolt_accepts_def json_accepts_def demo_codec_def)
  ultimately have "fst (run_ops (abs_op (js_object demo_codec)) demo_ops
      (\<lambda>x. case placed True False x of Bbolt \<Rightarrow> bolt_view (js_object demo_codec) (\<lambda>b. b) (Some Map.empty) x
         | Json \<Rightarrow> json_view demo_codec empty_dir x)) =
    fst (run_ops (run_op (js_object demo_codec) (settings_db False demo_bolt demo_codec)) demo_ops
      (setupDatabaseRouting True False (Some Map.empty, empty_dir)))"
    by (rule settings_db_refines_map [OF demo_files.settings_files_axioms _ _ _ surjective_pairing])
  moreover have "fst (run_ops (abs_op (js_object demo_codec)) demo_ops
      (\<lambda>x. case placed True False x of Bbolt \<Rightarrow> bolt_view (js_object demo_codec) (\<lambda>b. b) (Some Map.empty) x
         | Json \<Rightarrow> json_view demo_codec empty_dir x)) =
      [Unit, Value (Some (Some ''1'')), Names {''a''}, Unit, Value None, Unit, Value (Some (Some ''2''))]"
    by (simp add: demo_ops_def placed_def bolt_view_def json_view_def empty_dir_def readJSONFileAsMap_def
        demo_codec_def known_path_def)
  ultimately show ?thesis by (rule trans [OF sym])
qed

section \<open>A removed entry that comes back\<close>

text \<open>
  Property C28. The read cache is not safe for two callers: a removal drops the entry from the cache before it
  removes it from the database, and a read stores what it found in the cache after it has let go of the
  lock. In an interleaving of one removal and one read the database no longer holds the entry, and the
  cache serves it to every later read.
\<close>

theorem removed_entry_comes_back:
  assumes "torr_store db meaning view good accepts" and "good w" and "known_path x" and "view w x n = Some m"
    and "rc_db c" and "rc_dataCache c = Some dm"
  shows "\<exists>fs \<in> shuffles (rem_steps db x n) (get_steps db x n). \<exists>w' c' v.
    run_steps fs ((w, c), Fresh) = ((w', c'), Answered (Some v)) \<and> view w' x n = None \<and> good w' \<and>
    meaning v = m \<and> fst (rc_Get db x n (w', c')) = Some v"
proof -
  obtain w' c' v where "run_steps (bad_order db x n) ((w, c), Fresh) = ((w', c'), Answered (Some v))"
    and "view w' x n = None" and "good w'" and "meaning v = m" and "fst (rc_Get db x n (w', c')) = Some v"
    by (rule torr_store.stale_read [OF assms])
  then show ?thesis using bad_order_shuffle by blast
qed

definition viewed_dir :: json_dir where
  "viewed_dir = empty_dir\<lparr>jf_files := [''viewed.json'' \<mapsto> ''{xa.x1.}'']\<rparr>"

theorem removed_entry_comes_back_witness:
  "\<exists>w' c' v. json_view demo_codec w' ''Viewed'' ''a'' = None \<and> fst (rc_Get (JSONDB demo_codec) ''Viewed'' ''a'' (w', c')) = Some v"
proof -
  have "json_good demo_codec viewed_dir" by (simp add: json_good_def viewed_dir_def empty_dir_def)
  moreover have "json_view demo_codec viewed_dir ''Viewed'' ''a'' = Some (Some ''1'')"
    by (simp add: json_view_def viewed_dir_def empty_dir_def known_path_def known_files readJSONFileAsMap_def demo_codec_def)
  ultimately show ?thesis
    using removed_entry_comes_back [OF demo.json.torr_store_axioms, of viewed_dir "''Viewed''" "''a''" "Some ''1''"
        "snd (NewDBReadCache viewed_dir)" Map.empty]
    by (auto simp: NewDBReadCache_def known_path_def)
qed

end
