(* ===== verification/Torrent_Records.thy ===== *)
theory Torrent_Records
  imports Torrent_Lifecycle Store_Router
begin

text \<open>
  The records of torrents under the path Torrents of a settings database (settings/torrent.go): listing, replacing and
  removing one record, and the migration of the old single value. The database is any that keeps the contract of
  Store_Interface; the JSON coding of a record is an argument.
\<close>

section \<open>Records in the database\<close>

record TorrentDB =
  td_Spec :: "torrent_spec option"
  td_Title :: string
  td_Category :: string
  td_Poster :: string
  td_Data :: string
  td_Timestamp :: int
  td_Size :: int

text \<open>Coder and decoder give \<open>None\<close> for an error.\<close>

record record_codec =
  rc_marshal :: "TorrentDB \<Rightarrow> string option"
  rc_unmarshal :: "string \<Rightarrow> TorrentDB option"

text \<open>The name of a record is the hash of its specification, which every record that is added has.\<close>

definition AddTorrent :: "'w TorrServerDB \<Rightarrow> record_codec \<Rightarrow> TorrentDB \<Rightarrow> 'w \<Rightarrow> 'w outcome" where
  "AddTorrent tdb co torr w =
     (case rc_marshal co torr of
        None \<Rightarrow> Done w
      | Some buf \<Rightarrow>
          (case td_Spec torr of
             None \<Rightarrow> Panic
           | Some spec \<Rightarrow> Done (db_Set tdb ''Torrents'' (sp_InfoHash spec) buf w)))"

text \<open>A nil or empty value is no record.\<close>

definition decode_record :: "record_codec \<Rightarrow> string option \<Rightarrow> TorrentDB option" where
  "decode_record co buf = (case buf of None \<Rightarrow> None | Some b \<Rightarrow> if b = [] then None else rc_unmarshal co b)"

definition GetTorrent :: "'w TorrServerDB \<Rightarrow> record_codec \<Rightarrow> string \<Rightarrow> 'w \<Rightarrow> TorrentDB option \<times> 'w" where
  "GetTorrent tdb co hash w = (let (buf, w) = db_Get tdb ''Torrents'' hash w in (decode_record co buf, w))"

fun get_records :: "'w TorrServerDB \<Rightarrow> record_codec \<Rightarrow> string list \<Rightarrow> 'w \<Rightarrow> TorrentDB list \<times> 'w" where
  "get_records tdb co [] w = ([], w)"
| "get_records tdb co (key # keys) w =
     (let (buf, w) = db_Get tdb ''Torrents'' key w; (records, w) = get_records tdb co keys w
      in ((case decode_record co buf of None \<Rightarrow> records | Some torr \<Rightarrow> torr # records), w))"

text \<open>\<open>newest\<close> is the sort by the time stamp, the latest first; its order of equal ones is not determined.\<close>

definition ListTorrent :: "(TorrentDB list \<Rightarrow> TorrentDB list) \<Rightarrow> 'w TorrServerDB \<Rightarrow> record_codec \<Rightarrow> 'w \<Rightarrow> TorrentDB list \<times> 'w" where
  "ListTorrent newest tdb co w =
     (let (keys, w) = db_List tdb ''Torrents'' w; (records, w) = get_records tdb co keys w in (newest records, w))"

definition RemTorrent :: "'w TorrServerDB \<Rightarrow> string \<Rightarrow> 'w \<Rightarrow> 'w" where
  "RemTorrent tdb hash w = db_Rem tdb ''Torrents'' hash w"

section \<open>What the records promise\<close>

text \<open>The state of the torrents: the record that was last added under each hash.\<close>

datatype record_op = AddRecord TorrentDB | RemRecord string

fun run_record :: "'w TorrServerDB \<Rightarrow> record_codec \<Rightarrow> 'w \<Rightarrow> record_op \<Rightarrow> 'w" where
  "run_record tdb co w (AddRecord torr) = (case AddTorrent tdb co torr w of Done w' \<Rightarrow> w' | _ \<Rightarrow> w)"
| "run_record tdb co w (RemRecord hash) = RemTorrent tdb hash w"

fun record_spec :: "record_codec \<Rightarrow> (string \<rightharpoonup> TorrentDB) \<Rightarrow> record_op \<Rightarrow> (string \<rightharpoonup> TorrentDB)" where
  "record_spec co m (AddRecord torr) =
     (case (rc_marshal co torr, td_Spec torr) of (Some _, Some spec) \<Rightarrow> m(sp_InfoHash spec \<mapsto> torr) | _ \<Rightarrow> m)"
| "record_spec co m (RemRecord hash) = m(hash := None)"

text \<open>
  The records that are added have no coding, or one that the database takes, the hash of their torrent, and are among those
  that the decoder gives back: \<open>fine\<close> says which these are. JSON gives back the ones whose texts are valid UTF-8.
\<close>

fun record_legal :: "(string \<Rightarrow> string \<Rightarrow> bool) \<Rightarrow> record_codec \<Rightarrow> (TorrentDB \<Rightarrow> bool) \<Rightarrow> record_op \<Rightarrow> bool" where
  "record_legal acc co fine (AddRecord torr) =
     (case rc_marshal co torr of
        None \<Rightarrow> True
      | Some buf \<Rightarrow> fine torr \<and> (case td_Spec torr of None \<Rightarrow> False | Some spec \<Rightarrow> acc (sp_InfoHash spec) buf))"
| "record_legal acc co fine (RemRecord hash) = True"

text \<open>A codec for a database: bytes that mean what the coding of a fine record means decode to it.\<close>

definition decodes :: "(string \<Rightarrow> 'm) \<Rightarrow> record_codec \<Rightarrow> (TorrentDB \<Rightarrow> bool) \<Rightarrow> bool" where
  "decodes meaning co fine \<longleftrightarrow>
     (\<forall>t buf b. fine t \<longrightarrow> rc_marshal co t = Some buf \<longrightarrow> meaning b = meaning buf \<longrightarrow> b \<noteq> [] \<and> rc_unmarshal co b = Some t)"

definition coded_records :: "(string \<Rightarrow> 'm) \<Rightarrow> record_codec \<Rightarrow> (string \<rightharpoonup> TorrentDB) \<Rightarrow> (string \<rightharpoonup> 'm)" where
  "coded_records meaning co m = (\<lambda>h. case m h of None \<Rightarrow> None | Some t \<Rightarrow> map_option meaning (rc_marshal co t))"

definition readable :: "record_codec \<Rightarrow> (TorrentDB \<Rightarrow> bool) \<Rightarrow> (string \<rightharpoonup> TorrentDB) \<Rightarrow> bool" where
  "readable co fine m \<longleftrightarrow> (\<forall>t \<in> ran m. fine t \<and> rc_marshal co t \<noteq> None)"

lemma readable_at: "readable co fine m \<Longrightarrow> m h = Some t \<Longrightarrow> fine t \<and> (\<exists>buf. rc_marshal co t = Some buf)"
  by (auto simp: readable_def ran_def)

lemma readable_add: "readable co fine m \<Longrightarrow> fine t \<Longrightarrow> rc_marshal co t = Some buf \<Longrightarrow> readable co fine (m(h \<mapsto> t))"
  by (auto simp: readable_def ran_def)

lemma readable_rem: "readable co fine m \<Longrightarrow> readable co fine (m(h := None))"
  by (auto simp: readable_def ran_def)

locale record_store = torr_store db meaning view good accepts
  for db :: "'w TorrServerDB" and meaning :: "string \<Rightarrow> 'm" and view and good and accepts +
  fixes co :: record_codec and fine :: "TorrentDB \<Rightarrow> bool"
  assumes codec: "decodes meaning co fine"
begin

definition holds :: "'w \<Rightarrow> (string \<rightharpoonup> TorrentDB) \<Rightarrow> bool" where
  "holds w m \<longleftrightarrow> good w \<and> view w ''Torrents'' = coded_records meaning co m \<and> readable co fine m"

lemma known: "known_path ''Torrents''" by (simp add: known_path_def)

lemma run_record_holds:
  assumes "holds w m" and "record_legal accepts co fine op"
  shows "holds (run_record db co w op) (record_spec co m op)"
proof (cases op)
  case (AddRecord t)
  show ?thesis
  proof (cases "rc_marshal co t")
    case None
    then show ?thesis using assms(1) by (simp add: AddRecord AddTorrent_def)
  next
    case (Some buf)
    then obtain spec where t: "td_Spec t = Some spec" "accepts (sp_InfoHash spec) buf" "fine t"
      using assms(2) by (auto simp: AddRecord split: option.splits)
    then show ?thesis using assms(1) Some set [OF _ known _ refl, of w "sp_InfoHash spec" buf] readable_add [of co fine m t buf]
      by (auto simp: AddRecord AddTorrent_def holds_def coded_records_def fun_eq_iff)
  qed
next
  case (RemRecord hash)
  then show ?thesis using assms(1) rem [OF _ known refl, of w hash]
    by (auto simp: RemTorrent_def holds_def coded_records_def fun_eq_iff readable_rem)
qed

lemma run_records_hold:
  "holds w m \<Longrightarrow> \<forall>op \<in> set ops. record_legal accepts co fine op \<Longrightarrow>
   holds (foldl (run_record db co) w ops) (foldl (record_spec co) m ops)"
  by (induction ops arbitrary: w m) (simp_all add: run_record_holds)

lemma db_get_record:
  assumes "holds w m" and "db_Get db ''Torrents'' hash w = (buf, w')"
  shows "decode_record co buf = m hash" and "holds w' m"
proof -
  have g: "map_option meaning buf = view w ''Torrents'' hash" "view w' = view w" "good w'"
    using get [OF _ known assms(2)] assms(1) by (simp_all add: holds_def)
  then show "holds w' m" using assms(1) by (simp add: holds_def)
  show "decode_record co buf = m hash"
  proof (cases "m hash")
    case None
    then show ?thesis using g(1) assms(1) by (simp add: holds_def coded_records_def decode_record_def)
  next
    case (Some t)
    obtain v where v: "fine t" "rc_marshal co t = Some v" using assms(1) readable_at [of co fine m hash t] Some unfolding holds_def by blast
    then obtain b where "buf = Some b" "meaning b = meaning v"
      using g(1) assms(1) Some by (auto simp: holds_def coded_records_def)
    then show ?thesis using codec v Some unfolding decodes_def by (simp add: decode_record_def)
  qed
qed

lemma get_records_are:
  "holds w m \<Longrightarrow> set (fst (get_records db co keys w)) = {t. \<exists>k \<in> set keys. m k = Some t}"
proof (induction keys arbitrary: w)
  case (Cons key keys)
  obtain buf w1 where 1: "db_Get db ''Torrents'' key w = (buf, w1)" by fastforce
  obtain rs w2 where 2: "get_records db co keys w1 = (rs, w2)" by fastforce
  note get1 = db_get_record [OF Cons.prems 1]
  show ?case using Cons.IH [OF get1(2)] 1 2 get1(1) by (auto split: option.splits)
qed simp

lemma list_records:
  assumes "holds w m" and "\<And>xs. set (newest xs) = set xs"
  shows "set (fst (ListTorrent newest db co w)) = ran m"
proof -
  obtain keys w1 where l: "db_List db ''Torrents'' w = (keys, w1)" by fastforce
  obtain rs w2 where r: "get_records db co keys w1 = (rs, w2)" by fastforce
  have "dom (view w ''Torrents'') = dom m"
    using assms(1) readable_at [of co fine m] by (auto simp: holds_def coded_records_def dom_def split: option.splits)
  then have "set keys = dom m" and h: "holds w1 m" using lst [OF _ known l] assms(1) by (auto simp: holds_def dom_def)
  then have "set rs = ran m" using get_records_are [OF h, of keys] r by (auto simp: ran_def)
  then show ?thesis by (simp add: ListTorrent_def l r assms(2))
qed

lemma get_record: "holds w m \<Longrightarrow> fst (GetTorrent db co hash w) = m hash"
  using db_get_record(1) by (auto simp: GetTorrent_def split: prod.splits)

end

section \<open>The program's database\<close>

text \<open>A codec over the small JSON of Store_JSON: the fields one after the other, the numbers in unary.\<close>

definition unary :: "int \<Rightarrow> string" where
  "unary n = replicate (nat \<bar>n\<bar>) (if n < 0 then CHR ''-'' else CHR ''+'')"

definition of_unary :: "string \<Rightarrow> int" where
  "of_unary s = (if s \<noteq> [] \<and> hd s = CHR ''-'' then - int (length s) else int (length s))"

lemma of_unary_unary [simp]: "of_unary (unary n) = n"
  by (cases "n = 0") (auto simp: unary_def of_unary_def)

text \<open>A list is coded as its length and its members.\<close>

definition put_list :: "('a \<Rightarrow> string) \<Rightarrow> 'a list \<Rightarrow> string" where
  "put_list put xs = esc (unary (int (length xs))) @ concat (map put xs)"

fun get_many :: "(string \<Rightarrow> ('a \<times> string) option) \<Rightarrow> nat \<Rightarrow> string \<Rightarrow> ('a list \<times> string) option" where
  "get_many get 0 s = Some ([], s)"
| "get_many get (Suc n) s =
     (case get s of None \<Rightarrow> None | Some (a, r) \<Rightarrow> map_option (\<lambda>(as, r). (a # as, r)) (get_many get n r))"

definition get_list :: "(string \<Rightarrow> ('a \<times> string) option) \<Rightarrow> string \<Rightarrow> ('a list \<times> string) option" where
  "get_list get s = (case unesc s of None \<Rightarrow> None | Some (n, r) \<Rightarrow> get_many get (nat (of_unary n)) r)"

lemma get_put_list:
  assumes "\<And>x r. get (put x @ r) = Some (x, r)"
  shows "get_list get (put_list put xs @ r) = Some (xs, r)"
proof -
  have "get_many get (length xs) (concat (map put xs) @ r) = Some (xs, r)" for xs
    by (induction xs) (simp_all add: assms)
  then show ?thesis by (simp add: get_list_def put_list_def unesc_esc)
qed

definition put_spec :: "torrent_spec \<Rightarrow> string" where
  "put_spec sp = esc (sp_InfoHash sp) @ put_list (put_list esc) (sp_Trackers sp) @ esc (sp_DisplayName sp) @ esc (sp_others sp)"

definition get_spec :: "string \<Rightarrow> (torrent_spec \<times> string) option" where
  "get_spec s =
     (case unesc s of None \<Rightarrow> None | Some (h, r) \<Rightarrow>
      case get_list (get_list unesc) r of None \<Rightarrow> None | Some (ts, r) \<Rightarrow>
      case unesc r of None \<Rightarrow> None | Some (n, r) \<Rightarrow>
      case unesc r of None \<Rightarrow> None | Some (x, r) \<Rightarrow>
        Some (\<lparr>sp_InfoHash = h, sp_Trackers = ts, sp_DisplayName = n, sp_others = x\<rparr>, r))"

lemma get_put_spec: "get_spec (put_spec sp @ r) = Some (sp, r)"
  by (simp add: get_spec_def put_spec_def unesc_esc get_put_list)

definition put_record :: "TorrentDB \<Rightarrow> string" where
  "put_record t = put_list put_spec (case td_Spec t of None \<Rightarrow> [] | Some sp \<Rightarrow> [sp]) @
     put_list esc [td_Title t, td_Category t, td_Poster t, td_Data t, unary (td_Timestamp t), unary (td_Size t)]"

definition get_record_from :: "string \<Rightarrow> TorrentDB option" where
  "get_record_from s =
     (case get_list get_spec s of None \<Rightarrow> None | Some (sps, r) \<Rightarrow>
      case get_list unesc r of
        Some ([ti, c, p, d, ts, sz], r) \<Rightarrow>
          Some \<lparr>td_Spec = (case sps of [] \<Rightarrow> None | sp # _ \<Rightarrow> Some sp), td_Title = ti, td_Category = c, td_Poster = p, td_Data = d,
                 td_Timestamp = of_unary ts, td_Size = of_unary sz\<rparr>
      | _ \<Rightarrow> None)"

lemma get_put_record: "get_record_from (put_record t) = Some t"
proof -
  have "get_list unesc (put_list esc xs) = Some (xs, [])" for xs
    using get_put_list [of unesc esc xs "[]"] by (simp add: unesc_esc)
  then show ?thesis by (cases "td_Spec t") (simp_all add: get_record_from_def put_record_def get_put_list get_put_spec)
qed

text \<open>It does not code a record without the hash of a torrent.\<close>

definition plain_records :: record_codec where
  "plain_records = \<lparr>rc_marshal = (\<lambda>t. if td_Spec t = None then None else Some (CHR ''{'' # put_record t)),
     rc_unmarshal = (\<lambda>b. get_record_from (tl b))\<rparr>"

lemma plain_records_decode: "decodes (js_object demo_codec) plain_records (\<lambda>t. True)"
proof -
  have "b = CHR ''{'' # put_record t" if "js_object demo_codec b = js_object demo_codec (CHR ''{'' # put_record t)" for b t
    using that by (auto simp: demo_codec_def split: list.splits if_splits)
  then show ?thesis by (fastforce simp: decodes_def plain_records_def get_put_record split: if_splits)
qed

interpretation demo_records: record_store "settings_db False demo_bolt demo_codec" "js_object demo_codec"
    "routed_view False False (bolt_view (js_object demo_codec) (\<lambda>b. b)) (json_view demo_codec) \<circ> fst"
    "cached_good (js_object demo_codec) (routed_view False False (bolt_view (js_object demo_codec) (\<lambda>b. b)) (json_view demo_codec))
       (routed_good False False (bolt_good demo_plain) (json_good demo_codec))"
    "\<lambda>n v. bolt_accepts n v \<and> json_accepts demo_codec n v" plain_records "\<lambda>t. True"
  by (intro record_store.intro demo_files.program_store record_store_axioms.intro plain_records_decode)

text \<open>
  Property C30. The stored torrents are one map from hashes to records. Over the program's database, a cache over a router
  over two files, which holds some records at the start, each torrent that was added, and not removed since, is read back as the
  record that was added last, with its specification and every other field; one that is there from the start and was neither
  replaced nor removed is read back as it was; others are not found; and the list has just these records. A record that cannot be
  coded changes nothing. The hypotheses are those of the database, that the decoder gives back the records that are added or
  there (for JSON: those whose texts are valid UTF-8), and that the list is sorted without losing any.
\<close>

theorem records_kept:
  fixes bl :: "'b bolt_lib" and jl :: "'v json_lib" and ops :: "record_op list" and sj vj :: bool
  assumes "settings_files bl cont pl jl" and "bolt_good pl a" and "json_good jl c"
    and "decodes (js_object jl) co fine"
    and "\<forall>op \<in> set ops. record_legal (\<lambda>n v. bolt_accepts n v \<and> json_accepts jl n v) co fine op"
    and "bolt_view (js_object jl) cont a ''Torrents'' = coded_records (js_object jl) co m" and "readable co fine m"
    and "\<forall>xs. set (newest xs) = set xs"
  defines "w \<equiv> foldl (run_record (settings_db False bl jl) co) (setupDatabaseRouting sj vj (a, c)) ops"
  shows "fst (GetTorrent (settings_db False bl jl) co hash w) = foldl (record_spec co) m ops hash \<and>
    set (fst (ListTorrent newest (settings_db False bl jl) co w)) = ran (foldl (record_spec co) m ops)"
proof -
  let ?view = "routed_view sj vj (bolt_view (js_object jl) cont) (json_view jl) \<circ> fst"
    and ?good = "cached_good (js_object jl) (routed_view sj vj (bolt_view (js_object jl) cont) (json_view jl))
      (routed_good sj vj (bolt_good pl) (json_good jl))"
  have st: "record_store (settings_db False bl jl) (js_object jl) ?view ?good (\<lambda>n v. bolt_accepts n v \<and> json_accepts jl n v) co fine"
    by (intro record_store.intro settings_files.program_store [OF assms(1)] record_store_axioms.intro assms(4))
  have "placed sj vj ''Torrents'' = Bbolt" by (simp add: placed_def)
  then have "record_store.holds (js_object jl) ?view ?good co fine (setupDatabaseRouting sj vj (a, c)) m"
    unfolding record_store.holds_def [OF st] using settings_files.setup_good [OF assms(1-3), of sj vj] assms(6,7)
    by (simp add: setupDatabaseRouting_def NewDBReadCache_def routed_view_def)
  note run = record_store.run_records_hold [OF st this assms(5), folded w_def]
  show ?thesis using record_store.get_record [OF st run] record_store.list_records [OF st run] assms(8) by blast
qed

definition demo_record :: TorrentDB where
  "demo_record = \<lparr>td_Spec = Some \<lparr>sp_InfoHash = ''f0'', sp_Trackers = [[''udp://a'', ''udp://b''], []], sp_DisplayName = ''f'', sp_others = ''{}''\<rparr>,
     td_Title = ''film'', td_Category = ''movie'', td_Poster = [], td_Data = ''{}'', td_Timestamp = 1, td_Size = 0\<rparr>"

theorem records_kept_witness:
  "fst (GetTorrent (settings_db False demo_bolt demo_codec) plain_records ''f0''
     (foldl (run_record (settings_db False demo_bolt demo_codec) plain_records)
        (setupDatabaseRouting True False (Some Map.empty, empty_dir))
        [AddRecord (demo_record\<lparr>td_Title := []\<rparr>), RemRecord ''e1'', AddRecord demo_record, AddRecord (demo_record\<lparr>td_Spec := None\<rparr>)])) =
   Some demo_record"
proof -
  let ?ops = "[AddRecord (demo_record\<lparr>td_Title := []\<rparr>), RemRecord ''e1'', AddRecord demo_record, AddRecord (demo_record\<lparr>td_Spec := None\<rparr>)]"
  have runs: "replicate 2 x = [x, x]" "replicate 6 x = [x, x, x, x, x, x]" for x :: char by (simp_all add: eval_nat_numeral)
  have "bolt_good demo_plain (Some Map.empty)" by (simp add: bolt_good_def demo_plain_def)
  moreover have "json_good demo_codec empty_dir" by (simp add: json_good_def empty_dir_def)
  moreover have "\<forall>op \<in> set ?ops. record_legal (\<lambda>n v. bolt_accepts n v \<and> json_accepts demo_codec n v) plain_records (\<lambda>t. True) op"
    by (simp add: bolt_accepts_def json_accepts_def demo_codec_def plain_records_def demo_record_def put_record_def put_list_def put_spec_def
      unary_def runs)
  moreover have "bolt_view (js_object demo_codec) (\<lambda>b. b) (Some Map.empty) ''Torrents'' =
      coded_records (js_object demo_codec) plain_records Map.empty"
    by (simp add: bolt_view_def coded_records_def fun_eq_iff)
  moreover have "readable plain_records (\<lambda>t. True) Map.empty" by (simp add: readable_def)
  moreover have "foldl (record_spec plain_records) Map.empty ?ops ''f0'' = Some demo_record"
    by (simp add: demo_record_def plain_records_def)
  ultimately show ?thesis
    using records_kept [OF demo_files.settings_files_axioms, of "Some Map.empty" empty_dir plain_records "\<lambda>t. True" ?ops Map.empty
        "\<lambda>xs. xs" "''f0''" True False] plain_records_decode
    by simp
qed

end
