(* ===== verification/Go_Paths.thy ===== *)
theory Go_Paths
  imports Go_Strings "HOL-Library.List_Lexorder" "HOL-Library.Char_ord"
begin

text \<open>
  Paths and fields: what the code uses of the packages \<open>path\<close> and \<open>path/filepath\<close> (on a system whose separator is a
  slash), \<open>strings.Fields\<close>, and the lines of \<open>bufio.Scanner\<close>.
\<close>

section \<open>Elements of a path\<close>

text \<open>\<open>filepath.Base\<close>: the last element of a path without its trailing slashes.\<close>

definition path_base :: "string \<Rightarrow> string" where
  "path_base p =
     (if p = [] then ''.''
      else let q = rev (dropWhile (\<lambda>c. c = CHR ''/'') (rev p)) in
        if q = [] then ''/'' else last (str_split CHR ''/'' q))"

text \<open>\<open>filepath.Ext\<close>: the last part of the name from its last dot on, empty without one.\<close>

definition file_ext :: "string \<Rightarrow> string" where
  "file_ext path =
     (let tail = rev (takeWhile (\<lambda>c. c \<noteq> CHR ''.'' \<and> c \<noteq> CHR ''/'') (rev path)); n = length tail
      in if n < length path \<and> path ! (length path - n - 1) = CHR ''.'' then CHR ''.'' # tail else [])"

definition has_suffix :: "string \<Rightarrow> string \<Rightarrow> bool" where
  "has_suffix s p \<longleftrightarrow> has_prefix (rev s) (rev p)"

definition trim_suffix :: "string \<Rightarrow> string \<Rightarrow> string" where
  "trim_suffix s p = rev (trim_prefix (rev s) (rev p))"

lemma has_suffix_iff: "has_suffix s p \<longleftrightarrow> (\<exists>r. s = r @ p)"
  by (metis has_prefix_iff has_suffix_def rev_append rev_rev_ident)

lemma trim_suffix_append [simp]: "trim_suffix (s @ p) p = s"
proof -
  have "strip_prefix (rev p) (rev p @ rev s) = Some (rev s)" by (simp add: strip_prefix_Some)
  then show ?thesis by (simp add: trim_suffix_def trim_prefix_def)
qed

lemma trim_suffix_other: "\<not> has_suffix s p \<Longrightarrow> trim_suffix s p = s"
  by (auto simp: trim_suffix_def trim_prefix_def has_suffix_def has_prefix_def split: option.split)

section \<open>Clean paths\<close>

text \<open>\<open>strings.Join\<close>.\<close>

fun str_join :: "char \<Rightarrow> string list \<Rightarrow> string" where
  "str_join sep [] = []"
| "str_join sep [e] = e"
| "str_join sep (e # f # es) = e @ sep # str_join sep (f # es)"

text \<open>\<open>path.Clean\<close>, with the elements kept so far, the last one first.\<close>

fun clean_elements :: "bool \<Rightarrow> string list \<Rightarrow> string list \<Rightarrow> string list" where
  "clean_elements rooted out [] = rev out"
| "clean_elements rooted out (e # es) =
     (if e = [] \<or> e = ''.'' then clean_elements rooted out es
      else if e = ''..'' then
        (case out of
           [] \<Rightarrow> clean_elements rooted (if rooted then [] else [''..'']) es
         | up # rest \<Rightarrow> if up = ''..'' then clean_elements rooted (''..'' # out) es else clean_elements rooted rest es)
      else clean_elements rooted (e # out) es)"

definition path_clean :: "string \<Rightarrow> string" where
  "path_clean p =
     (let rooted = has_prefix p ''/''; body = str_join CHR ''/'' (clean_elements rooted [] (str_split CHR ''/'' p))
      in if rooted then CHR ''/'' # body else if body = [] then ''.'' else body)"

lemma str_split_at: "sep \<notin> set a \<Longrightarrow> str_split sep (a @ sep # b) = a # str_split sep b"
  by (induction a) auto

lemma str_split_join: "es \<noteq> [] \<Longrightarrow> \<forall>e \<in> set es. sep \<notin> set e \<Longrightarrow> str_split sep (str_join sep es) = es"
  by (induction sep es rule: str_join.induct) (simp_all add: str_split_plain str_split_at)

definition plain_element :: "string \<Rightarrow> bool" where
  "plain_element e \<longleftrightarrow> e \<noteq> [] \<and> e \<noteq> ''.'' \<and> e \<noteq> ''..'' \<and> CHR ''/'' \<notin> set e"

lemma clean_elements_plain: "\<forall>e \<in> set es. plain_element e \<Longrightarrow> clean_elements rooted out es = rev out @ es"
  by (induction es arbitrary: out) (simp_all add: plain_element_def)

lemma path_clean_plain:
  assumes "es \<noteq> []" and "\<forall>e \<in> set es. plain_element e"
  shows "path_clean (str_join CHR ''/'' es) = str_join CHR ''/'' es"
    and "\<not> has_prefix (str_join CHR ''/'' es) ''/''"
proof -
  obtain e r where es: "es = e # r" and e: "plain_element e" using assms by (cases es) auto
  then obtain c t where c: "e = c # t" "c \<noteq> CHR ''/''" by (cases e) (auto simp: plain_element_def)
  obtain u where u: "str_join CHR ''/'' es = c # u" unfolding es by (cases r) (simp_all add: c(1))
  then show no: "\<not> has_prefix (str_join CHR ''/'' es) ''/''" using c(2) by (simp add: has_prefix_iff)
  have "str_split CHR ''/'' (str_join CHR ''/'' es) = es"
    using assms by (intro str_split_join) (auto simp: plain_element_def)
  then show "path_clean (str_join CHR ''/'' es) = str_join CHR ''/'' es"
    using no u clean_elements_plain [OF assms(2)] by (simp add: path_clean_def)
qed

lemma path_clean_element: "plain_element a \<Longrightarrow> path_clean a = a \<and> \<not> has_prefix a ''/''"
  using path_clean_plain [of "[a]"] by simp

text \<open>\<open>filepath.IsLocal\<close>.\<close>

definition path_IsLocal :: "string \<Rightarrow> bool" where
  "path_IsLocal p \<longleftrightarrow>
     p \<noteq> [] \<and> \<not> has_prefix p ''/'' \<and> path_clean p \<noteq> ''..'' \<and> \<not> has_prefix (path_clean p) ''../''"

lemma plain_element_local: "plain_element a \<Longrightarrow> path_IsLocal a \<and> path_base a = a"
proof -
  assume a: "plain_element a"
  have "a = ''../'' @ r \<Longrightarrow> CHR ''/'' \<in> set a" for r by simp
  then have "\<not> has_prefix a ''../''" using a by (auto simp: has_prefix_iff plain_element_def)
  moreover have "rev (dropWhile (\<lambda>c. c = CHR ''/'') (rev a)) = a"
  proof -
    have "rev a \<noteq> []" and "hd (rev a) \<noteq> CHR ''/''"
      using a by (auto simp: plain_element_def hd_rev dest: last_in_set)
    then show ?thesis by (cases "rev a") auto
  qed
  ultimately show ?thesis using a
    using path_clean_element [OF a] by (simp add: path_IsLocal_def path_base_def plain_element_def str_split_plain Let_def)
qed

section \<open>Fields and lines\<close>

text \<open>\<open>strings.Fields\<close>: the maximal parts without a blank. The number counts the bytes left of a wide blank.\<close>

fun fields_loop :: "string \<Rightarrow> nat \<Rightarrow> string \<Rightarrow> string list" where
  "fields_loop acc k [] = (if acc = [] then [] else [rev acc])"
| "fields_loop acc (Suc k) (c # s) = fields_loop acc k s"
| "fields_loop acc 0 (c # s) =
     (case List.find (has_prefix (c # s)) spaces of
        Some p \<Rightarrow> (if acc = [] then [] else [rev acc]) @ fields_loop [] (length p - 1) s
      | None \<Rightarrow> fields_loop (c # acc) 0 s)"

definition str_Fields :: "string \<Rightarrow> string list" where
  "str_Fields s = fields_loop [] 0 s"

lemma no_blank_at: "c \<in> set plain_chars \<Longrightarrow> List.find (has_prefix (c # s)) spaces = None"
  using plain_not_space by (fastforce simp: find_None_iff has_prefix_iff Cons_eq_append_conv)

lemma blank_at: "List.find (has_prefix (CHR '' '' # s)) spaces = Some '' ''"
  by (simp add: spaces_def ascii_spaces_def has_prefix_def)

lemma fields_loop_plain: "set t \<subseteq> set plain_chars \<Longrightarrow> fields_loop acc 0 (t @ s) = fields_loop (rev t @ acc) 0 s"
  by (induction t arbitrary: acc) (simp_all add: no_blank_at)

lemma str_Fields_two:
  assumes "set a \<subseteq> set plain_chars" and "a \<noteq> []" and "set b \<subseteq> set plain_chars" and "b \<noteq> []"
  shows "str_Fields (a @ ''  '' @ b) = [a, b]"
proof -
  have "fields_loop [] 0 (a @ ''  '' @ b) = a # fields_loop [] 0 (b @ [])"
    using assms(2) unfolding fields_loop_plain [OF assms(1)] by (simp add: blank_at)
  also have "fields_loop [] 0 (b @ []) = [b]"
    using assms(4) unfolding fields_loop_plain [OF assms(3)] by simp
  finally show ?thesis by (simp add: str_Fields_def)
qed

text \<open>
  The lines that a \<open>bufio.Scanner\<close> gives with its default buffer of 65536 bytes: a line that does not fit ends the scan
  with an error.
\<close>

definition text_lines :: "string \<Rightarrow> string list" where
  "text_lines s = (let ls = str_split CHR 0x0A s in if last ls = [] then butlast ls else ls)"

definition scanned_line :: "string \<Rightarrow> string option" where
  "scanned_line l = (if length l \<ge> 65536 then None else Some (trim_suffix l [CHR 0x0D]))"

lemma text_lines_concat:
  "\<forall>l \<in> set ls. CHR 0x0A \<notin> set l \<Longrightarrow> text_lines (concat (map (\<lambda>l. l @ [CHR 0x0A]) ls)) = ls"
proof -
  assume "\<forall>l \<in> set ls. CHR 0x0A \<notin> set l"
  then have "str_split CHR 0x0A (concat (map (\<lambda>l. l @ [CHR 0x0A]) ls)) = ls @ [[]]"
    by (induction ls) (simp_all add: str_split_at)
  then show ?thesis by (simp add: text_lines_def)
qed

end
