(* ===== verification/Torrent_Service.thy ===== *)
theory Torrent_Service
  imports Torrent_Records Go_Paths
begin

text \<open>
  The service that the API calls for torrents: the conversions between torrents and records (torr/dbstore.go), the
  adapter over the server and the database (torr/service_adapter.go), the decision over a preload and the calls around it
  (internal/app/apiservices/torrent_service.go, torr/runtime_signals.go) and the import of the old database
  (settings/migrate_torrents.go).
\<close>

section \<open>Torrents and records\<close>

definition torrentFromDBRecord :: "TorrentDB option \<Rightarrow> torrent option" where
  "torrentFromDBRecord db =
     map_option (\<lambda>d. \<lparr>to_Title = td_Title d, to_Category = td_Category d, to_Poster = td_Poster d, to_Data = td_Data d,
       to_Spec = td_Spec d, to_Stat = TorrentInDB, to_Timestamp = td_Timestamp d, to_Size = td_Size d, to_Torrent = None,
       to_bt = False, to_cache = None, to_targetBytes = 0, to_loadedBytes = 0, to_expiredUnixNano = 0,
       to_playbackQuiesced = False, to_lastMaxEstablished = 0\<rparr>) db"

text \<open>
  \<open>filesJSON\<close> codes the list of files of the status, which is empty when the library's torrent is gone; \<open>imageOK\<close> asks the
  address of a poster for a picture; \<open>len\<close> is the length that the library tells. The torrent gets the coded list too.
\<close>

record service_env =
  se_filesJSON :: "(int \<times> string) list \<Rightarrow> string"
  se_fileStats :: "torrent \<Rightarrow> (int \<times> string) list"
  se_imageOK :: "string \<Rightarrow> bool"
  se_length :: "lib_torrent \<Rightarrow> int"

definition torrentDBRecordFromTorrent :: "service_env \<Rightarrow> torrent \<Rightarrow> TorrentDB \<times> torrent" where
  "torrentDBRecordFromTorrent env torr =
     (let torr = (if to_Data torr = []
                  then torr\<lparr>to_Data := se_filesJSON env (if to_Torrent torr = None then [] else se_fileStats env torr)\<rparr>
                  else torr);
          poster = (if to_Poster torr \<noteq> [] \<and> se_imageOK env (to_Poster torr) then to_Poster torr else []);
          sz = (case to_Torrent torr of Some l \<Rightarrow> if to_Size torr = 0 then se_length env l else to_Size torr | None \<Rightarrow> to_Size torr)
      in (\<lparr>td_Spec = to_Spec torr, td_Title = to_Title torr, td_Category = to_Category torr, td_Poster = poster,
           td_Data = to_Data torr, td_Timestamp = to_Timestamp torr, td_Size = sz\<rparr>, torr))"

section \<open>The adapter\<close>

text \<open>A torrent that the service hands out: one of the server, or one made from a record.\<close>

datatype handle = Live nat | Stored torrent

definition handle_torrent :: "bt_server \<Rightarrow> handle \<Rightarrow> torrent" where
  "handle_torrent s h = (case h of Live i \<Rightarrow> bs_torrents s i | Stored t \<Rightarrow> t)"

definition write_handle :: "torrent \<Rightarrow> handle \<Rightarrow> bt_server \<Rightarrow> handle \<times> bt_server" where
  "write_handle t h s = (case h of Live i \<Rightarrow> (h, upd_torrent i (\<lambda>_. t) s) | Stored _ \<Rightarrow> (Stored t, s))"

text \<open>\<open>added\<close> is what the library makes of the specification. The first result is \<open>None\<close> for an error.\<close>

definition adapter_AddTorrent ::
  "'w TorrServerDB \<Rightarrow> record_codec \<Rightarrow> int \<Rightarrow> BTSets \<Rightarrow> (string list list \<Rightarrow> string list list) \<Rightarrow> torrent_spec \<Rightarrow> lib_torrent option \<Rightarrow> string \<Rightarrow> string \<Rightarrow> string \<Rightarrow> string \<Rightarrow>
   bt_server \<times> 'w \<Rightarrow> nat option \<times> bt_server \<times> 'w" where
  "adapter_AddTorrent tdb co now sets policy spec added title poster data category = (\<lambda>(s, w).
     (case NewTorrent now sets policy spec added s of
        (None, s) \<Rightarrow> (None, s, w)
      | (Some i, s) \<Rightarrow>
          let (rec, w) = GetTorrent tdb co (sp_InfoHash spec) w
          in (Some i, upd_torrent i (mergeTorrentMetadata (torrentFromDBRecord rec) title poster category data) s, w)))"

definition adapter_GetTorrent :: "'w TorrServerDB \<Rightarrow> record_codec \<Rightarrow> string \<Rightarrow> bt_server \<times> 'w \<Rightarrow> handle option \<times> bt_server \<times> 'w" where
  "adapter_GetTorrent tdb co hash = (\<lambda>(s, w).
     (case registry_Get hash (bs_registry s) of
        Some i \<Rightarrow> (Some (Live i), s, w)
      | None \<Rightarrow> let (rec, w) = GetTorrent tdb co hash w in (map_option Stored (torrentFromDBRecord rec), s, w)))"

text \<open>\<open>GotInfo\<close> on a torrent without a server: it waits for nothing, fails and closes it.\<close>

definition stored_GotInfo :: "torrent \<Rightarrow> torrent" where
  "stored_GotInfo t =
     (if to_Stat t = TorrentClosed \<or> to_Stat t = TorrentPreload then t
      else t\<lparr>to_Stat := TorrentClosed, to_cache := None, to_Torrent := None\<rparr>)"

text \<open>The values that an edit writes; an empty data keeps what is there.\<close>

definition edit_torrent :: "string \<Rightarrow> string \<Rightarrow> string \<Rightarrow> string \<Rightarrow> torrent \<Rightarrow> torrent" where
  "edit_torrent title poster category data t =
     (let t = t\<lparr>to_Title := title, to_Poster := poster, to_Category := category\<rparr>
      in if data \<noteq> [] then t\<lparr>to_Data := data\<rparr> else t)"

definition adapter_SetTorrent ::
  "'w TorrServerDB \<Rightarrow> record_codec \<Rightarrow> service_env \<Rightarrow> string \<Rightarrow> string \<Rightarrow> string \<Rightarrow> string \<Rightarrow> string \<Rightarrow>
   bt_server \<times> 'w \<Rightarrow> handle option \<times> bt_server \<times> 'w outcome" where
  "adapter_SetTorrent tdb co env hash title poster category data = (\<lambda>(s, w).
     (let torr = map_option Live (registry_Get hash (bs_registry s));
          (rec, w) = GetTorrent tdb co hash w;
          torrDB = torrentFromDBRecord rec;
          (torr, s, w) =
            (if title = [] \<and> torr = None \<and> torrDB \<noteq> None
             then let (h, s, w) = adapter_GetTorrent tdb co hash (s, w)
                  in (map_option (\<lambda>h. case h of Live i \<Rightarrow> h | Stored t \<Rightarrow> Stored (stored_GotInfo t)) h, s, w)
             else (torr, s, w));
          (title, torr, s) =
            (case torr of
               None \<Rightarrow> (title, None, s)
             | Some h \<Rightarrow>
                 let t = handle_torrent s h;
                     t = (if title = [] then EnsureTitleFromInfo t else t);
                     title = (if title = [] then to_Title t else title);
                     (h, s) = write_handle (edit_torrent title poster category data t) h s
                 in (title, Some h, s));
          (torrDB, w) =
            (case torrDB of
               None \<Rightarrow> (None, Done w)
             | Some d \<Rightarrow> let (record, d) = torrentDBRecordFromTorrent env (edit_torrent title poster category data d)
                         in (Some d, AddTorrent tdb co record w))
      in (case torr of Some h \<Rightarrow> Some h | None \<Rightarrow> map_option Stored torrDB, s, w)))"

text \<open>The directory and the name in it that are removed with all they hold.\<close>

definition cleanupTorrentDiskCache :: "string \<Rightarrow> BTSets option \<Rightarrow> (string \<times> string) option" where
  "cleanupTorrentDiskCache hash curSets =
     (case curSets of
        None \<Rightarrow> None
      | Some sets \<Rightarrow>
          if \<not> UseDisk sets \<or> TorrentsSavePath sets = [] \<or> hash = [] \<or> hash = ''/'' then None
          else if path_base hash \<noteq> hash \<or> hash = ''.'' \<or> hash = ''..'' then None
          else Some (TorrentsSavePath sets, hash))"

text \<open>\<open>h\<close> is the text of the request and \<open>hash\<close> what it parses to. \<open>useReaders\<close>: the readers of the torrent's cache.\<close>

definition adapter_RemoveTorrent ::
  "'w TorrServerDB \<Rightarrow> bool \<Rightarrow> bool \<Rightarrow> int \<Rightarrow> BTSets option \<Rightarrow> string \<Rightarrow> string \<Rightarrow> bt_server \<times> 'w \<Rightarrow>
   (string \<times> string) option \<times> bt_server \<times> 'w" where
  "adapter_RemoveTorrent tdb readOnlyMode readOnly useReaders curSets h hash = (\<lambda>(s, w).
     (if readOnlyMode then (None, s, w)
      else let torr = registry_Get hash (bs_registry s);
               (removed, s) = RemoveTorrent readOnly useReaders hash s;
               cleaned = (if removed \<or> torr = None then cleanupTorrentDiskCache h curSets else None)
           in (cleaned, s, RemTorrent tdb hash w)))"

definition adapter_DropTorrent :: "bool \<Rightarrow> int \<Rightarrow> string \<Rightarrow> bt_server \<Rightarrow> bt_server" where
  "adapter_DropTorrent readOnly useReaders hash s = snd (RemoveTorrent readOnly useReaders hash s)"

definition adapter_SaveTorrentDB ::
  "'w TorrServerDB \<Rightarrow> record_codec \<Rightarrow> service_env \<Rightarrow> handle \<Rightarrow> bt_server \<times> 'w \<Rightarrow> handle \<times> bt_server \<times> 'w outcome" where
  "adapter_SaveTorrentDB tdb co env h = (\<lambda>(s, w).
     (let (record, t) = torrentDBRecordFromTorrent env (handle_torrent s h); (h, s) = write_handle t h s
      in (h, s, AddTorrent tdb co record w)))"

definition adapter_LoadTorrent ::
  "int \<Rightarrow> BTSets \<Rightarrow> (string list list \<Rightarrow> string list list) \<Rightarrow> lib_torrent option \<Rightarrow> wait_outcome \<Rightarrow> torrent \<Rightarrow> bt_server \<Rightarrow> nat option \<times> bt_server" where
  "adapter_LoadTorrent now sets policy added arrived tor s =
     (case to_Spec tor of
        None \<Rightarrow> (None, s)
      | Some spec \<Rightarrow>
          (case NewTorrent now sets policy spec added s of
             (None, s) \<Rightarrow> (None, s)
           | (Some i, s) \<Rightarrow>
               let (ok, s) = WaitInfo arrived i s in
               if \<not> ok then (None, s)
               else (Some i, upd_torrent i (\<lambda>t. t\<lparr>to_Title := to_Title tor, to_Poster := to_Poster tor, to_Data := to_Data tor\<rparr>) s)))"

text \<open>The torrents of the server and the stored ones it does not have; \<open>items\<close> is the order of the map.\<close>

definition adapter_ListTorrents ::
  "(TorrentDB list \<Rightarrow> TorrentDB list) \<Rightarrow> (torrent list \<Rightarrow> torrent list) \<Rightarrow> 'w TorrServerDB \<Rightarrow> record_codec \<Rightarrow> nat list \<Rightarrow>
   bt_server \<times> 'w \<Rightarrow> torrent list \<times> bt_server \<times> 'w" where
  "adapter_ListTorrents newest latest tdb co items = (\<lambda>(s, w).
     (let (records, w) = ListTorrent newest tdb co w;
          stored = List.map_filter (\<lambda>d. case td_Spec d of None \<Rightarrow> None | Some spec \<Rightarrow>
                      if registry_Get (sp_InfoHash spec) (bs_registry s) = None then torrentFromDBRecord (Some d) else None) records
      in (latest (map (bs_torrents s) items @ stored), s, w)))"

definition service_SaveToDB ::
  "'w TorrServerDB \<Rightarrow> record_codec \<Rightarrow> service_env \<Rightarrow> handle \<Rightarrow> bt_server \<times> 'w \<Rightarrow> handle \<times> bt_server \<times> 'w outcome" where
  "service_SaveToDB tdb co env h = (\<lambda>(s, w).
     (let t = handle_torrent s h;
          name = (case to_Torrent t of Some l \<Rightarrow> (case lt_name l of Some n \<Rightarrow> n | None \<Rightarrow> []) | None \<Rightarrow> []);
          (h, s) = (if to_Title t = [] \<and> name \<noteq> [] then write_handle (t\<lparr>to_Title := name\<rparr>) h s else (h, s))
      in adapter_SaveTorrentDB tdb co env h (s, w)))"

section \<open>The decision over a preload\<close>

datatype preloadDecision = preloadAllowed | preloadSkippedActivePlayback | preloadSkippedActiveStream

text \<open>\<open>readers\<close> lists the active readers of the torrents in the registry.\<close>

definition ActivePlaybackTorrents :: "int list \<Rightarrow> int" where
  "ActivePlaybackTorrents readers =
     (let count = int (length (filter (\<lambda>n. n > 0) readers)) in if count < 1 then 1 else count)"

record runtime_signals =
  sg_HasRuntimeBackend :: bool
  sg_ActivePlaybackTorrents :: int
  sg_ActiveStreams :: int

definition bt_signals :: "int list \<Rightarrow> int \<Rightarrow> runtime_signals" where
  "bt_signals readers streams =
     \<lparr>sg_HasRuntimeBackend = True, sg_ActivePlaybackTorrents = ActivePlaybackTorrents readers, sg_ActiveStreams = streams\<rparr>"

definition noop_signals :: runtime_signals where
  "noop_signals = \<lparr>sg_HasRuntimeBackend = False, sg_ActivePlaybackTorrents = 0, sg_ActiveStreams = 0\<rparr>"

definition decideStartupPreload :: "string \<Rightarrow> runtime_signals option \<Rightarrow> preloadDecision" where
  "decideStartupPreload policy signals =
     (case signals of
        None \<Rightarrow> preloadAllowed
      | Some sg \<Rightarrow>
          let activeThreshold = (if NormalizeStartupPreloadPolicy policy = ''legacy'' then 1 else 0) in
          if sg_HasRuntimeBackend sg
          then if sg_ActivePlaybackTorrents sg > activeThreshold then preloadSkippedActivePlayback else preloadAllowed
          else if sg_ActiveStreams sg > activeThreshold then preloadSkippedActiveStream
          else preloadAllowed)"

definition startupPreloadPolicy :: "BTSets option \<Rightarrow> string" where
  "startupPreloadPolicy current = (case current of None \<Rightarrow> ''skip-active'' | Some s \<Rightarrow> StartupPreloadPolicy s)"

section \<open>The import of the old database\<close>

record torrentBackupDB =
  tb_Name :: string
  tb_Magnet :: string
  tb_Hash :: string
  tb_Size :: int
  tb_Timestamp :: int
  tb_Category :: string
  tb_Data :: string

text \<open>\<open>b2i\<close> reads a number from bytes.\<close>

definition loadTorrentFromBucket :: "(string \<Rightarrow> int) \<Rightarrow> string \<Rightarrow> (string \<rightharpoonup> string) \<Rightarrow> torrentBackupDB option" where
  "loadTorrentFromBucket b2i hash hdb =
     (case (hdb ''Name'', hdb ''Link'', hdb ''Size'') of
        (Some name, Some link, Some sz) \<Rightarrow>
          Some \<lparr>tb_Name = name, tb_Magnet = link, tb_Hash = hash, tb_Size = b2i sz,
                tb_Timestamp = (case hdb ''Timestamp'' of None \<Rightarrow> 0 | Some v \<Rightarrow> b2i v),
                tb_Category = (case hdb ''Category'' of None \<Rightarrow> [] | Some v \<Rightarrow> v),
                tb_Data = (case hdb ''Data'' of None \<Rightarrow> [] | Some v \<Rightarrow> v)\<rparr>
      | _ \<Rightarrow> None)"

text \<open>The entries of the bucket in their order; \<open>None\<close> for one that is no bucket.\<close>

definition loadAllTorrents :: "(string \<Rightarrow> int) \<Rightarrow> (string \<times> (string \<rightharpoonup> string) option) list option \<Rightarrow> torrentBackupDB list" where
  "loadAllTorrents b2i bucket =
     (case bucket of
        None \<Rightarrow> []
      | Some hs \<Rightarrow> List.map_filter (\<lambda>(h, hdb). case hdb of None \<Rightarrow> None | Some m \<Rightarrow> loadTorrentFromBucket b2i h m) hs)"

text \<open>\<open>parse\<close> is the parser of links.\<close>

definition migrate_torrent ::
  "(string \<Rightarrow> torrent_spec option) \<Rightarrow> 'w TorrServerDB \<Rightarrow> record_codec \<Rightarrow> 'w outcome \<Rightarrow> torrentBackupDB \<Rightarrow> 'w outcome" where
  "migrate_torrent parse tdb co w oldTorr =
     (case parse (tb_Magnet oldTorr) of
        None \<Rightarrow> w
      | Some spec \<Rightarrow>
          bind_outcome w (AddTorrent tdb co
            \<lparr>td_Spec = Some spec, td_Title = (if length (sp_DisplayName spec) > length (tb_Name oldTorr) then sp_DisplayName spec else tb_Name oldTorr),
             td_Category = tb_Category oldTorr, td_Poster = [], td_Data = tb_Data oldTorr,
             td_Timestamp = tb_Timestamp oldTorr, td_Size = tb_Size oldTorr\<rparr>))"

definition migrateAndSave ::
  "(string \<Rightarrow> torrent_spec option) \<Rightarrow> 'w TorrServerDB \<Rightarrow> record_codec \<Rightarrow> torrentBackupDB list \<Rightarrow> 'w \<Rightarrow> 'w outcome" where
  "migrateAndSave parse tdb co torrs w = foldl (migrate_torrent parse tdb co) (Done w) torrs"

text \<open>\<open>src\<close> is the old file: \<open>None\<close> when there is none or it does not open. The first result: it is removed.\<close>

definition MigrateTorrentAtPath ::
  "(string \<Rightarrow> int) \<Rightarrow> (string \<Rightarrow> torrent_spec option) \<Rightarrow> 'w TorrServerDB \<Rightarrow> record_codec \<Rightarrow>
   (string \<times> (string \<rightharpoonup> string) option) list option option \<Rightarrow> 'w \<Rightarrow> bool \<times> 'w outcome" where
  "MigrateTorrentAtPath b2i parse tdb co src w =
     (case src of
        None \<Rightarrow> (False, Done w)
      | Some bucket \<Rightarrow>
          let torrs = loadAllTorrents b2i bucket in
          if torrs = [] then (False, Done w) else (True, migrateAndSave parse tdb co torrs w))"

section \<open>What holds of the service\<close>

text \<open>What is removed from the disk is a child of the directory of the caches, whatever the text of the request is.\<close>

lemma str_split_parts: "p \<in> set (str_split sep s) \<Longrightarrow> sep \<notin> set p"
  by (induction s arbitrary: p) (auto split: if_splits list.splits)

lemma path_base_name:
  assumes "path_base h = h" and "h \<noteq> ''/''"
  shows "CHR ''/'' \<notin> set h"
proof -
  define q where "q = rev (dropWhile (\<lambda>c. c = CHR ''/'') (rev h))"
  show ?thesis
  proof (cases "h = [] \<or> q = []")
    case True
    then have "path_base h = ''.'' \<and> h = [] \<or> path_base h = ''/''" unfolding path_base_def Let_def q_def [symmetric] by auto
    then show ?thesis using assms by force
  next
    case False
    then have "path_base h = last (str_split CHR ''/'' q)" unfolding path_base_def Let_def q_def [symmetric] by simp
    then have "h = last (str_split CHR ''/'' q)" using assms(1) by simp
    then show ?thesis using str_split_parts last_in_set [OF str_split_not_Nil] by metis
  qed
qed

lemma cleanup_removes_child:
  assumes "cleanupTorrentDiskCache hash (Some sets) = Some (dir, name)"
  shows "dir = TorrentsSavePath sets" and "CHR ''/'' \<notin> set name" and "name \<notin> {[], ''.'', ''..''}"
  using assms path_base_name [of hash] by (auto simp: cleanupTorrentDiskCache_def split: if_splits)

text \<open>A record survives the way to a torrent and back, but for a poster that is no picture and a data that is empty.\<close>

lemma record_of_torrent_of_record:
  assumes "td_Data d \<noteq> []" and "td_Poster d = [] \<or> se_imageOK env (td_Poster d)"
  shows "fst (torrentDBRecordFromTorrent env (the (torrentFromDBRecord (Some d)))) = d"
  using assms by (auto simp: torrentDBRecordFromTorrent_def torrentFromDBRecord_def Let_def)

text \<open>The edit of a stored torrent without data stores an empty list of files as its data, which no later save replaces.\<close>

lemma edit_stores_no_files:
  assumes "td_Data d = []" and "t = the (torrentFromDBRecord (Some d))"
  shows "td_Data (fst (torrentDBRecordFromTorrent env (edit_torrent title poster category [] t))) = se_filesJSON env []"
  using assms by (simp add: torrentDBRecordFromTorrent_def torrentFromDBRecord_def edit_torrent_def Let_def)

text \<open>
  With the default policy no preload ever starts: the number of playing torrents that the running server tells is never
  less than one, and the policy allows none.
\<close>

lemma preload_never_starts:
  assumes "NormalizeStartupPreloadPolicy policy = ''skip-active''"
  shows "decideStartupPreload policy (Some (bt_signals readers streams)) = preloadSkippedActivePlayback"
  using assms by (simp add: decideStartupPreload_def bt_signals_def ActivePlaybackTorrents_def Let_def)

text \<open>A torrent that is loaded from its record loses its category, and a save after it stores it without one.\<close>

lemma load_drops_category:
  assumes "to_Spec tor = Some spec" and "registry_Get (sp_InfoHash spec) (bs_registry s) = None" and "bs_caches s (lt_hash lt) = Some k"
    and "adapter_LoadTorrent now sets policy (Some lt) InfoArrived tor s = (Some i, s')"
  shows "to_Title (bs_torrents s' i) = to_Title tor" and "to_Category (bs_torrents s' i) = []"
  using assms by (auto simp: adapter_LoadTorrent_def NewTorrent_def registry_LoadOrStore_def registry_Get_def WaitInfo_def
      AddExpiredTime_def upd_torrent_def storage_GetCache_def torrent_Hash_def Let_def split: if_splits option.splits)

text \<open>
  Dropping a torrent with readers in read-only mode takes it out of the registry but does not close it; the check of each
  second then finds nothing to remove, however long it is expired.
\<close>

lemma drop_orphans_torrent:
  assumes "bs_registry s hash = Some i" and "to_cache (bs_torrents s i) \<noteq> None" and "useReaders > 0"
    and "torrent_Hash (bs_torrents s i) = hash"
  defines "s' \<equiv> adapter_DropTorrent True useReaders hash s"
  shows "bs_registry s' hash = None" and "bs_torrents s' = bs_torrents s" and "bs_caches s' = bs_caches s"
    and "progressEvent_expire now readers r ro u i s' = s'"
  using assms by (auto simp: s'_def adapter_DropTorrent_def RemoveTorrent_def registry_Delete_def torrent_Close_def
      close_refused_def progressEvent_expire_def Let_def fun_eq_iff)

text \<open>The import skips the torrents whose link does not parse, and removes the old database with them.\<close>

lemma import_loses_torrents:
  assumes "loadAllTorrents b2i bucket = torrs" and "torrs \<noteq> []" and "\<forall>t \<in> set torrs. parse (tb_Magnet t) = None"
  shows "MigrateTorrentAtPath b2i parse tdb co (Some bucket) w = (True, Done w)"
proof -
  have "foldl (migrate_torrent parse tdb co) (Done w) ts = Done w" if "set ts \<subseteq> set torrs" for ts
    using that assms(3) by (induction ts) (auto simp: migrate_torrent_def)
  then show ?thesis using assms(1,2) by (simp add: MigrateTorrentAtPath_def migrateAndSave_def)
qed

text \<open>The metadata that a torrent is added with come before those of its record, and these before none.\<close>

lemma fill_title: "to_Title (FillMissingMetadata m t) = (if to_Title t = [] then tm_Title m else to_Title t)"
  by (simp add: FillMissingMetadata_def Let_def)

lemma fill_lib: "to_Torrent (FillMissingMetadata m t) = to_Torrent t"
  by (simp add: FillMissingMetadata_def Let_def)

lemma merged_title:
  "to_Title (mergeTorrentMetadata rec title poster category data t) =
     (if to_Title t \<noteq> [] then to_Title t else if title \<noteq> [] then title
      else if rec \<noteq> None \<and> to_Title (the rec) \<noteq> [] then to_Title (the rec)
      else (case to_Torrent t of None \<Rightarrow> [] | Some l \<Rightarrow> (case lt_name l of None \<Rightarrow> [] | Some n \<Rightarrow> n)))"
  by (cases rec; cases "to_Title t = []"; cases "title = []")
    (simp_all add: mergeTorrentMetadata_def fill_title EnsureTitleFromInfo_def Metadata_def fill_lib split: option.splits)

end
