(* ===== verification/Trackers.thy ===== *)
theory Trackers
  imports Stream_Policy
begin

text \<open>
  The trackers of a torrent (torr/utils/torrent.go, \<open>applyTrackerPolicy\<close> of torr/torrent.go). Package \<open>net/url\<close>
  is an argument: what parses, and what the parts of a URL are; so is \<open>strings.ToLower\<close> where it meets letters beyond ASCII, in a
  host and in a text that is no URL.
\<close>

section \<open>Single trackers\<close>

record url =
  url_Scheme :: string
  url_Host :: string
  url_Fragment :: string
  url_rest :: string

record url_lib =
  ul_Parse :: "string \<Rightarrow> url option"
  ul_String :: "url \<Rightarrow> string"
  ul_Hostname :: "url \<Rightarrow> string"
  ul_ToLower :: "string \<Rightarrow> string"

definition isNativeTrackerScheme :: "url_lib \<Rightarrow> string \<Rightarrow> bool" where
  "isNativeTrackerScheme net tracker \<longleftrightarrow>
     (case ul_Parse net tracker of
        None \<Rightarrow> False
      | Some parsed \<Rightarrow> to_lower (url_Scheme parsed) \<in> {''udp'', ''http'', ''https''} \<and> url_Host parsed \<noteq> [])"

definition canonicalTrackerKey :: "url_lib \<Rightarrow> string \<Rightarrow> string" where
  "canonicalTrackerKey net tracker =
     (case ul_Parse net tracker of
        None \<Rightarrow> ul_ToLower net (trim_space tracker)
      | Some parsed \<Rightarrow> ul_String net (parsed\<lparr>url_Scheme := to_lower (url_Scheme parsed), url_Host := ul_ToLower net (url_Host parsed),
                                          url_Fragment := []\<rparr>))"

definition trackerUsesIPv6 :: "url_lib \<Rightarrow> string \<Rightarrow> bool" where
  "trackerUsesIPv6 net tracker \<longleftrightarrow>
     (if has_prefix (to_lower tracker) ''udp6://'' then True
      else (case ul_Parse net tracker of
          None \<Rightarrow> str_contains tracker ''://[''
        | Some parsed \<Rightarrow> str_contains (ul_Hostname net parsed) '':''))"

section \<open>Normal form of the tiers\<close>

text \<open>The inner loop, over a tier. \<open>seen\<close> are the keys so far, \<open>kept\<close> the trackers kept, \<open>clean\<close> those of this tier.\<close>

fun clean_tier ::
  "url_lib \<Rightarrow> bool \<Rightarrow> int \<Rightarrow> string list \<Rightarrow> string list \<Rightarrow> int \<Rightarrow> string list \<Rightarrow> string list \<times> string list \<times> int" where
  "clean_tier net enableIPv6 maxTotal [] seen kept clean = (clean, seen, kept)"
| "clean_tier net enableIPv6 maxTotal (tracker # tier) seen kept clean =
     (let tracker = trim_space tracker in
      if tracker = [] then clean_tier net enableIPv6 maxTotal tier seen kept clean
      else if \<not> isNativeTrackerScheme net tracker then clean_tier net enableIPv6 maxTotal tier seen kept clean
      else if \<not> enableIPv6 \<and> trackerUsesIPv6 net tracker then clean_tier net enableIPv6 maxTotal tier seen kept clean
      else let key = canonicalTrackerKey net tracker in
        if key \<in> set seen then clean_tier net enableIPv6 maxTotal tier seen kept clean
        else let seen = key # seen; clean = clean @ [tracker]; kept = kept + 1 in
          if maxTotal > 0 \<and> kept \<ge> maxTotal then (clean, seen, kept)
          else clean_tier net enableIPv6 maxTotal tier seen kept clean)"

fun clean_tiers :: "url_lib \<Rightarrow> bool \<Rightarrow> int \<Rightarrow> string list list \<Rightarrow> string list \<Rightarrow> int \<Rightarrow> string list list \<Rightarrow> string list list" where
  "clean_tiers net enableIPv6 maxTotal [] seen kept normalized = normalized"
| "clean_tiers net enableIPv6 maxTotal (tier # trackers) seen kept normalized =
     (let (cleanTier, seen, kept) = clean_tier net enableIPv6 maxTotal tier seen kept [];
          normalized = (if cleanTier \<noteq> [] then normalized @ [cleanTier] else normalized)
      in if maxTotal > 0 \<and> kept \<ge> maxTotal then normalized
         else clean_tiers net enableIPv6 maxTotal trackers seen kept normalized)"

definition NormalizeTrackers :: "url_lib \<Rightarrow> string list list \<Rightarrow> bool \<Rightarrow> int \<Rightarrow> string list list" where
  "NormalizeTrackers net trackers enableIPv6 maxTotal =
     (if trackers = [] then [] else clean_tiers net enableIPv6 maxTotal trackers [] 0 [])"

section \<open>Lists of trackers\<close>

fun parse_lines :: "url_lib \<Rightarrow> string list \<Rightarrow> string list \<Rightarrow> string list" where
  "parse_lines net allowedSchemes [] = []"
| "parse_lines net allowedSchemes (s # arr) =
     (let s = trim_space s in
      if s = [] then parse_lines net allowedSchemes arr
      else (case ul_Parse net s of
          None \<Rightarrow> parse_lines net allowedSchemes arr
        | Some parsed \<Rightarrow>
            if to_lower (url_Scheme parsed) \<in> set allowedSchemes \<and> url_Host parsed \<noteq> []
            then s # parse_lines net allowedSchemes arr
            else parse_lines net allowedSchemes arr))"

definition parseTrackerListWithSchemes :: "url_lib \<Rightarrow> string \<Rightarrow> string list \<Rightarrow> string list" where
  "parseTrackerListWithSchemes net raw allowedSchemes = parse_lines net allowedSchemes (str_split (CHR 0x0A) raw)"

definition parseTrackerList :: "url_lib \<Rightarrow> string \<Rightarrow> string list" where
  "parseTrackerList net raw = parseTrackerListWithSchemes net raw [''udp'', ''http'', ''https'', ''ws'', ''wss'']"

definition parseNativeTrackerList :: "url_lib \<Rightarrow> string \<Rightarrow> string list" where
  "parseNativeTrackerList net raw = parseTrackerListWithSchemes net raw [''udp'', ''http'', ''https'']"

text \<open>\<open>contents\<close> is the file trackers.txt, if it can be read.\<close>

definition GetTrackerFromFileAtPath :: "url_lib \<Rightarrow> string option \<Rightarrow> string list" where
  "GetTrackerFromFileAtPath net contents = (case contents of Some buf \<Rightarrow> parseNativeTrackerList net buf | None \<Rightarrow> [])"

definition mergeDefaultAndRemoteTrackers :: "url_lib \<Rightarrow> string list \<Rightarrow> string list \<Rightarrow> string list" where
  "mergeDefaultAndRemoteTrackers net defTrackers remote = concat (NormalizeTrackers net [defTrackers, remote] True 0)"

text \<open>\<open>remote\<close> is the answer of the list's server with status 200, if it came.\<close>

definition loadNewTracker :: "url_lib \<Rightarrow> string list \<Rightarrow> string option \<Rightarrow> string list \<Rightarrow> string list" where
  "loadNewTracker net defTrackers remote loadedTrackers =
     (if length loadedTrackers > 0 then loadedTrackers
      else (case remote of
          None \<Rightarrow> loadedTrackers
        | Some buf \<Rightarrow> mergeDefaultAndRemoteTrackers net defTrackers (parseTrackerList net buf)))"

text \<open>The state is the loaded list and whether loading was tried.\<close>

definition GetDefTrackers :: "url_lib \<Rightarrow> string list \<Rightarrow> string option \<Rightarrow> string list \<times> bool \<Rightarrow> string list \<times> (string list \<times> bool)" where
  "GetDefTrackers net defTrackers remote st =
     (let loaded = (if snd st then fst st else loadNewTracker net defTrackers remote (fst st))
      in (if loaded = [] then defTrackers else loaded, (loaded, True)))"

section \<open>The policy\<close>

text \<open>\<open>defs\<close> are the default trackers, asked for only in modes 1 and 3.\<close>

definition applyTrackerPolicy :: "url_lib \<Rightarrow> BTSets option \<Rightarrow> bool \<Rightarrow> string list \<Rightarrow> string list \<Rightarrow> string list list \<Rightarrow> string list list" where
  "applyTrackerPolicy net sets enableIPv6 defs fileTrackers specTrackers =
     (let s = (case sets of None \<Rightarrow> zero_BTSets | Some s \<Rightarrow> s);
          trackers = (if RetrackersMode s = 1 then specTrackers @ [defs]
                      else if RetrackersMode s = 2 then []
                      else if RetrackersMode s = 3 then [defs]
                      else specTrackers);
          trackers = (if fileTrackers \<noteq> [] then trackers @ [fileTrackers] else trackers)
      in NormalizeTrackers net trackers enableIPv6 (trackerBudget (Some s)))"

section \<open>The reference\<close>

text \<open>The trackers that may stay, and the first of each key among them.\<close>

definition eligible :: "url_lib \<Rightarrow> bool \<Rightarrow> string \<Rightarrow> bool" where
  "eligible net enableIPv6 t \<longleftrightarrow> t \<noteq> [] \<and> isNativeTrackerScheme net t \<and> (enableIPv6 \<or> \<not> trackerUsesIPv6 net t)"

fun first_by :: "('a \<Rightarrow> 'b) \<Rightarrow> 'b list \<Rightarrow> 'a list \<Rightarrow> 'a list" where
  "first_by f seen [] = []"
| "first_by f seen (x # xs) = (if f x \<in> set seen then first_by f seen xs else x # first_by f (f x # seen) xs)"

lemma first_by_append:
  "first_by f seen (xs @ ys) = first_by f seen xs @ first_by f (rev (map f (first_by f seen xs)) @ seen) ys"
  by (induction f seen xs rule: first_by.induct) (auto intro: le_SucI)

lemma first_by_props:
  "distinct (map f (first_by f seen xs))" "set (first_by f seen xs) \<subseteq> set xs" "f ` set (first_by f seen xs) = f ` set xs - set seen"
proof (induction f seen xs rule: first_by.induct)
  case (2 f seen x xs)
  { case 1 show ?case using 2 by (auto simp: image_iff) }
  { case 2 show ?case using "2.IH" by auto }
  { case 3 show ?case using "2.IH" by auto }
qed simp_all

definition wanted :: "url_lib \<Rightarrow> bool \<Rightarrow> string list \<Rightarrow> string list" where
  "wanted net enableIPv6 ts = filter (eligible net enableIPv6) (map trim_space ts)"

definition room :: "int \<Rightarrow> int \<Rightarrow> 'a list \<Rightarrow> 'a list" where
  "room maxTotal kept xs = (if maxTotal > 0 then take (nat (maxTotal - kept)) xs else xs)"

lemma clean_tier_Cons:
  "clean_tier net ip6 maxTotal (tracker # tier) seen kept clean =
    (let t = trim_space tracker; k = canonicalTrackerKey net t in
     if eligible net ip6 t \<and> k \<notin> set seen
     then if maxTotal > 0 \<and> kept + 1 \<ge> maxTotal then (clean @ [t], k # seen, kept + 1)
          else clean_tier net ip6 maxTotal tier (k # seen) (kept + 1) (clean @ [t])
     else clean_tier net ip6 maxTotal tier seen kept clean)"
  by (cases ip6) (simp_all add: eligible_def Let_def)

lemma wanted_Cons: "wanted net ip6 (tracker # tier) =
    (if eligible net ip6 (trim_space tracker) then [trim_space tracker] else []) @ wanted net ip6 tier"
  by (simp add: wanted_def)

lemma clean_tier_is:
  assumes "maxTotal > 0 \<longrightarrow> kept < maxTotal"
  shows "clean_tier net ip6 maxTotal tier seen kept clean =
    (let ts = room maxTotal kept (first_by (canonicalTrackerKey net) seen (wanted net ip6 tier))
     in (clean @ ts, rev (map (canonicalTrackerKey net) ts) @ seen, kept + int (length ts)))"
  using assms
proof (induction tier arbitrary: seen kept clean)
  case Nil
  then show ?case by (simp add: wanted_def room_def)
next
  case (Cons tracker tier)
  let ?t = "trim_space tracker" and ?key = "canonicalTrackerKey net (trim_space tracker)"
  show ?case
  proof (cases "eligible net ip6 (trim_space tracker) \<and> canonicalTrackerKey net (trim_space tracker) \<notin> set seen")
    case False
    have "clean_tier net ip6 maxTotal (tracker # tier) seen kept clean = clean_tier net ip6 maxTotal tier seen kept clean"
      unfolding clean_tier_Cons Let_def using False by (rule if_not_P)
    moreover have "first_by (canonicalTrackerKey net) seen (wanted net ip6 (tracker # tier)) =
        first_by (canonicalTrackerKey net) seen (wanted net ip6 tier)"
      using False by (simp add: wanted_Cons)
    ultimately show ?thesis using Cons.IH [OF Cons.prems] by (simp del: clean_tier.simps(2))
  next
    case True
    show ?thesis
    proof (cases "maxTotal > 0 \<and> kept + 1 \<ge> maxTotal")
      case full: True
      then have "maxTotal - kept = 1" using Cons.prems by linarith
      then have "nat (maxTotal - kept) = Suc 0" by simp
      moreover have "clean_tier net ip6 maxTotal (tracker # tier) seen kept clean = (clean @ [?t], ?key # seen, kept + 1)"
        unfolding clean_tier_Cons Let_def using True full by (simp only: if_True simp_thms)
      ultimately show ?thesis using True full by (simp add: wanted_Cons room_def del: clean_tier.simps(2))
    next
      case False
      then have "maxTotal > 0 \<longrightarrow> nat (maxTotal - kept) = Suc (nat (maxTotal - (kept + 1)))" by auto
      moreover have "clean_tier net ip6 maxTotal (tracker # tier) seen kept clean =
          clean_tier net ip6 maxTotal tier (?key # seen) (kept + 1) (clean @ [?t])"
        unfolding clean_tier_Cons Let_def using True False by (simp only: if_True if_False simp_thms)
      moreover have "maxTotal > 0 \<longrightarrow> kept + 1 < maxTotal" using False by linarith
      ultimately show ?thesis using True Cons.IH [of "kept + 1" "?key # seen" "clean @ [?t]"]
        by (simp add: wanted_Cons room_def Let_def del: clean_tier.simps(2))
    qed
  qed
qed

lemma room_append:
  "room m k (xs @ ys) = room m k xs @ (if m > 0 \<and> k + int (length (room m k xs)) \<ge> m then [] else room m (k + int (length (room m k xs))) ys)"
proof (cases "m > 0")
  case True
  show ?thesis
  proof (cases "nat (m - k) \<le> length xs")
    case True
    then show ?thesis by (auto simp: room_def)
  next
    case False
    then have "length xs < nat (m - k)" by simp
    then have "nat (m - k) - length xs = nat (m - (k + int (length xs)))" by linarith
    then show ?thesis using False \<open>m > 0\<close> by (auto simp: room_def)
  qed
qed (simp add: room_def)

lemma clean_tiers_Cons:
  assumes "maxTotal > 0 \<longrightarrow> kept < maxTotal"
  shows "clean_tiers net ip6 maxTotal (tier # trackers) seen kept normalized =
    (let ts = room maxTotal kept (first_by (canonicalTrackerKey net) seen (wanted net ip6 tier));
         new = (if ts \<noteq> [] then normalized @ [ts] else normalized)
     in if maxTotal > 0 \<and> kept + int (length ts) \<ge> maxTotal then new
        else clean_tiers net ip6 maxTotal trackers (rev (map (canonicalTrackerKey net) ts) @ seen) (kept + int (length ts)) new)"
  by (simp add: clean_tier_is [OF assms] Let_def)

lemma clean_tiers_are:
  assumes "maxTotal > 0 \<longrightarrow> kept < maxTotal" and "[] \<notin> set normalized"
  shows "concat (clean_tiers net ip6 maxTotal trackers seen kept normalized) =
      concat normalized @ room maxTotal kept (first_by (canonicalTrackerKey net) seen (wanted net ip6 (concat trackers))) \<and>
    [] \<notin> set (clean_tiers net ip6 maxTotal trackers seen kept normalized)"
  using assms
proof (induction trackers arbitrary: seen kept normalized)
  case Nil
  then show ?case by (simp add: wanted_def room_def)
next
  case (Cons tier trackers)
  let ?key = "canonicalTrackerKey net"
  define all where "all = first_by ?key seen (wanted net ip6 tier)"
  define ts where "ts = room maxTotal kept all"
  define new where "new = (if ts \<noteq> [] then normalized @ [ts] else normalized)"
  have new: "concat new = concat normalized @ ts" "[] \<notin> set new" using Cons.prems(2) by (auto simp: new_def)
  have w: "first_by ?key seen (wanted net ip6 (concat (tier # trackers))) =
      all @ first_by ?key (rev (map ?key all) @ seen) (wanted net ip6 (concat trackers))"
    by (simp add: wanted_def all_def first_by_append)
  note run = clean_tiers_Cons [OF Cons.prems(1), of net ip6 tier trackers seen normalized, folded all_def, folded ts_def,
      unfolded Let_def, folded new_def]
  show ?case
  proof (cases "maxTotal > 0 \<and> kept + int (length ts) \<ge> maxTotal")
    case True
    then show ?thesis unfolding run w room_append using new by (simp add: ts_def)
  next
    case False
    then have "ts = all" unfolding ts_def room_def by (auto simp: min_def split: if_splits)
    then show ?thesis unfolding run w room_append
      using False new Cons.IH [of "kept + int (length ts)" new "rev (map ?key ts) @ seen"] by (auto simp add: ts_def)
  qed
qed

text \<open>
  Property C20. The trackers that a torrent gets are those a plain description names. Of its own, the default and the
  listed ones, as the mode asks, taken in order and trimmed: those with a scheme and a host the client speaks, without
  IPv6 addresses unless these are enabled, the first of each canonical key only, and as many as the budget of the
  profile allows, if it sets one. No tier is empty.
\<close>

theorem trackers_are_first_eligible:
  "let s = (case sets of None \<Rightarrow> zero_BTSets | Some s \<Rightarrow> s);
       all = (case RetrackersMode s of m \<Rightarrow>
                if m = 1 then concat own @ defs else if m = 2 then [] else if m = 3 then defs else concat own) @ listed;
       ts = applyTrackerPolicy net sets ip6 defs listed own
   in concat ts = room (trackerBudget (Some s)) 0 (first_by (canonicalTrackerKey net) [] (wanted net ip6 all)) \<and>
      [] \<notin> set ts \<and> distinct (map (canonicalTrackerKey net) (concat ts)) \<and>
      length (concat ts) \<le> (if 0 < trackerBudget (Some s) then nat (trackerBudget (Some s)) else length all)"
proof -
  have norm: "concat (NormalizeTrackers net tiers ip6 b) = room b 0 (first_by (canonicalTrackerKey net) [] (wanted net ip6 (concat tiers))) \<and>
      [] \<notin> set (NormalizeTrackers net tiers ip6 b)" for tiers b
    using clean_tiers_are [of b 0 "[]" net ip6 tiers "[]"] by (auto simp: NormalizeTrackers_def wanted_def room_def)
  have keys: "distinct (map f (room b 0 (first_by f [] xs)))" for f :: "string \<Rightarrow> string" and b xs
    using first_by_props(1) [of f "[]" xs] by (simp add: room_def take_map [symmetric])
  have few: "length (room b 0 (first_by f [] (wanted net ip6 all))) \<le> (if 0 < b then nat b else length all)"
    for f :: "string \<Rightarrow> string" and b all
  proof -
    have "length (first_by f seen xs) \<le> length xs" for seen xs by (induction f seen xs rule: first_by.induct) (auto intro: le_SucI)
    moreover have "length (wanted net ip6 all) \<le> length all" by (simp add: wanted_def le_trans [OF length_filter_le])
    ultimately show ?thesis by (auto simp: room_def intro: le_trans)
  qed
  define s where "s = (case sets of None \<Rightarrow> zero_BTSets | Some s \<Rightarrow> s)"
  define all where "all = (case RetrackersMode s of m \<Rightarrow>
      if m = 1 then concat own @ defs else if m = 2 then [] else if m = 3 then defs else concat own) @ listed"
  obtain tiers where tiers: "applyTrackerPolicy net sets ip6 defs listed own = NormalizeTrackers net tiers ip6 (trackerBudget (Some s))"
    and "concat tiers = all"
    by (rule that [of "(if RetrackersMode s = 1 then own @ [defs] else if RetrackersMode s = 2 then []
          else if RetrackersMode s = 3 then [defs] else own) @ (if listed \<noteq> [] then [listed] else [])"])
      (auto simp: applyTrackerPolicy_def s_def all_def Let_def)
  then have "let ts = applyTrackerPolicy net sets ip6 defs listed own in
      concat ts = room (trackerBudget (Some s)) 0 (first_by (canonicalTrackerKey net) [] (wanted net ip6 all)) \<and>
      [] \<notin> set ts \<and> distinct (map (canonicalTrackerKey net) (concat ts)) \<and>
      length (concat ts) \<le> (if 0 < trackerBudget (Some s) then nat (trackerBudget (Some s)) else length all)"
    unfolding Let_def tiers using norm [of tiers "trackerBudget (Some s)"] keys few by metis
  then show ?thesis unfolding s_def all_def Let_def .
qed

end
