(* ===== verification/Ip_Blocker.thy ===== *)
theory Ip_Blocker
  imports Go_Strings "HOL-Library.Multiset"
begin

text \<open>
  The filter of client addresses (package web/blocker): ranges of addresses read from the files bip.txt and wip.txt,
  their lookup, and the decision on a request.
\<close>

section \<open>Addresses\<close>

text \<open>
  An address is its bytes, four or sixteen. \<open>ParseIP\<close> is that of package \<open>net\<close>: four decimal numbers, or groups of up
  to four hexadecimal digits, of which one run of zeros may be left out and the last two may be written as an
  IPv4 address. It gives sixteen bytes; \<open>None\<close> is nil.
\<close>

type_synonym ip = string

definition parse_octet :: "string \<Rightarrow> nat option" where
  "parse_octet s =
     (case parse_nat s of
        None \<Rightarrow> None
      | Some n \<Rightarrow> if n > 255 \<or> (hd s = CHR ''0'' \<and> tl s \<noteq> []) then None else Some (nat n))"

definition parse_ipv4 :: "string \<Rightarrow> ip option" where
  "parse_ipv4 s =
     (case map parse_octet (str_split CHR ''.'' s) of
        [Some a, Some b, Some c, Some d] \<Rightarrow> Some [char_of a, char_of b, char_of c, char_of d]
      | _ \<Rightarrow> None)"

definition hex_digit :: "char \<Rightarrow> int option" where
  "hex_digit c =
     (let n = of_char c :: int in
      if 48 \<le> n \<and> n \<le> 57 then Some (n - 48) else if 97 \<le> n \<and> n \<le> 102 then Some (n - 87)
      else if 65 \<le> n \<and> n \<le> 70 then Some (n - 55) else None)"

text \<open>A group: its digits, and its value, \<open>None\<close> if there are too many.\<close>

definition group_digits :: "string \<Rightarrow> string" where
  "group_digits s = takeWhile (\<lambda>c. hex_digit c \<noteq> None) s"

definition group_value :: "string \<Rightarrow> int" where
  "group_value g = foldl (\<lambda>acc c. acc * 16 + the (hex_digit c)) 0 g"

definition expand_ellipsis :: "ip \<Rightarrow> nat option \<Rightarrow> ip option" where
  "expand_ellipsis ip ellipsis =
     (case ellipsis of
        None \<Rightarrow> if length ip < 16 then None else Some ip
      | Some k \<Rightarrow> if length ip < 16 then Some (take k ip @ replicate (16 - length ip) (char_of (0 :: nat)) @ drop k ip) else None)"

text \<open>The loop over the groups; \<open>n\<close> bounds its rounds, of which there are at most eight.\<close>

fun parse_groups :: "nat \<Rightarrow> string \<Rightarrow> ip \<Rightarrow> nat option \<Rightarrow> ip option" where
  "parse_groups 0 s ip ellipsis = (if s = [] then expand_ellipsis ip ellipsis else None)"
| "parse_groups (Suc n) s ip ellipsis =
     (let g = group_digits s; acc = group_value g; rest = drop (length g) s in
      if g = [] \<or> length g > 4 then None
      else if rest \<noteq> [] \<and> hd rest = CHR ''.''
      then (if (ellipsis = None \<and> length ip \<noteq> 12) \<or> length ip + 4 > 16 then None
            else case parse_ipv4 s of None \<Rightarrow> None | Some v4 \<Rightarrow> expand_ellipsis (ip @ v4) ellipsis)
      else let ip = ip @ [char_of (acc div 256), char_of (acc mod 256)] in
        if rest = [] then expand_ellipsis ip ellipsis
        else if hd rest \<noteq> CHR '':'' \<or> tl rest = [] then None
        else let s = tl rest in
          if hd s = CHR '':''
          then (if ellipsis \<noteq> None then None
                else if tl s = [] then expand_ellipsis ip (Some (length ip))
                else parse_groups n (tl s) ip (Some (length ip)))
          else parse_groups n s ip ellipsis)"

definition parse_ipv6 :: "string \<Rightarrow> ip option" where
  "parse_ipv6 s =
     (if has_prefix s ''::''
      then if length s = 2 then Some (replicate 16 (char_of (0 :: nat))) else parse_groups 8 (drop 2 s) [] (Some 0)
      else parse_groups 8 s [] None)"

definition v4_in_v6 :: ip where
  "v4_in_v6 = replicate 10 (char_of (0 :: nat)) @ [CHR 0xFF, CHR 0xFF]"

definition ParseIP :: "string \<Rightarrow> ip option" where
  "ParseIP s =
     (if CHR ''%'' \<in> set s then None
      else case List.find (\<lambda>c. c = CHR ''.'' \<or> c = CHR '':'') s of
          None \<Rightarrow> None
        | Some c \<Rightarrow> if c = CHR ''.'' then map_option (\<lambda>v4. v4_in_v6 @ v4) (parse_ipv4 s) else parse_ipv6 s)"

text \<open>\<open>ip.To4()\<close>, and \<open>minifyIP\<close>, which keeps what is not an IPv4 address.\<close>

definition To4 :: "ip \<Rightarrow> ip option" where
  "To4 ip = (if length ip = 4 then Some ip
             else if length ip = 16 \<and> take 12 ip = v4_in_v6 then Some (drop 12 ip) else None)"

definition minifyIP :: "ip \<Rightarrow> ip" where
  "minifyIP ip = (case To4 ip of None \<Rightarrow> ip | Some v4 \<Rightarrow> v4)"

section \<open>The list\<close>

record ip_range =
  ir_First :: ip
  ir_Last :: ip
  ir_Description :: string

text \<open>\<open>bytes.Compare\<close> below 0.\<close>

fun bytes_less :: "string \<Rightarrow> string \<Rightarrow> bool" where
  "bytes_less [] b = (b \<noteq> [])"
| "bytes_less (x # a) [] = False"
| "bytes_less (x # a) (y # b) =
     ((of_char x :: nat) < of_char y \<or> (x = y \<and> bytes_less a b))"

definition ipLess :: "ip \<Rightarrow> ip \<Rightarrow> bool" where
  "ipLess a b = (if length a \<noteq> length b then length a < length b else bytes_less a b)"

text \<open>
  \<open>sort.Slice\<close> is not stable; the order it puts equal elements in is not said. It is an argument: a function that
  sorts by the comparison it is given.
\<close>

type_synonym sorter = "(ip_range \<Rightarrow> ip_range \<Rightarrow> bool) \<Rightarrow> ip_range list \<Rightarrow> ip_range list"

definition new_iplist :: "sorter \<Rightarrow> ip_range list \<Rightarrow> ip_range list" where
  "new_iplist srt initSorted =
     (if initSorted = [] then [] else srt (\<lambda>a b. ipLess (ir_First a) (ir_First b)) initSorted)"

definition NumRanges :: "ip_range list option \<Rightarrow> int" where
  "NumRanges ipl = (case ipl of None \<Rightarrow> 0 | Some rs \<Rightarrow> int (length rs))"

function lookup_loop :: "ip_range list \<Rightarrow> ip \<Rightarrow> int \<Rightarrow> int \<Rightarrow> ip_range option" where
  "lookup_loop ranges ip lo hi =
     (if lo \<le> hi
      then let mid = lo + go_div (hi - lo) 2; r = ranges ! nat mid in
        if ipLess ip (ir_First r) then lookup_loop ranges ip lo (mid - 1)
        else if ipLess (ir_Last r) ip then lookup_loop ranges ip (mid + 1) hi
        else Some r
      else None)"
  by pat_completeness auto
termination
  by (relation "measure (\<lambda>(rs, ip, lo, hi). nat (hi - lo + 1))") (auto simp: go_div_pos)

declare lookup_loop.simps [simp del]

definition lookupBinary :: "ip_range list \<Rightarrow> ip \<Rightarrow> ip_range option" where
  "lookupBinary ranges ip = lookup_loop ranges ip 0 (int (length ranges) - 1)"

definition Lookup :: "ip_range list option \<Rightarrow> ip \<Rightarrow> ip_range option" where
  "Lookup ipl ip = (case ipl of None \<Rightarrow> None | Some rs \<Rightarrow> if rs = [] then None else lookupBinary rs ip)"

section \<open>The files\<close>

text \<open>The part behind the last colon, with the part before it if there is one.\<close>

fun split_last :: "char \<Rightarrow> string \<Rightarrow> string option \<times> string" where
  "split_last sep [] = (None, [])"
| "split_last sep (c # s) =
     (case split_last sep s of
        (Some a, b) \<Rightarrow> (Some (c # a), b)
      | (None, b) \<Rightarrow> if c = sep then (Some [], s) else (None, c # s))"

datatype line_result = NoRange | BadRange | GoodRange ip_range

definition parseLine :: "string \<Rightarrow> line_result" where
  "parseLine l =
     (let l = trim_space l in
      if l = [] \<or> has_prefix l ''#'' then NoRange
      else let (description, addresses) = split_last CHR '':'' l;
               (first, last) = (case split_first CHR ''-'' addresses of
                                  (a, Some b) \<Rightarrow> (map_option minifyIP (ParseIP a), map_option minifyIP (ParseIP b))
                                | (a, None) \<Rightarrow> let ip = map_option minifyIP (ParseIP a) in (ip, ip))
           in case (first, last) of
                (Some a, Some b) \<Rightarrow>
                  if length a \<noteq> length b then BadRange
                  else GoodRange \<lparr>ir_First = a, ir_Last = b,
                                  ir_Description = (case description of None \<Rightarrow> [] | Some d \<Rightarrow> d)\<rparr>
              | _ \<Rightarrow> BadRange)"

text \<open>
  The lines that \<open>bufio.Scanner\<close> gives: without the line feed and a carriage return before it, up to the first one of 64 KiB.
\<close>

definition drop_cr :: "string \<Rightarrow> string" where
  "drop_cr l = (if l \<noteq> [] \<and> last l = CHR 0x0D then butlast l else l)"

definition scan_lines :: "string \<Rightarrow> string list" where
  "scan_lines buf = map drop_cr (takeWhile (\<lambda>l. int (length l) < 65536) (str_split CHR 0x0A buf))"

fun scan_ranges :: "string list \<Rightarrow> ip_range list \<Rightarrow> ip_range list option" where
  "scan_ranges [] ranges = Some ranges"
| "scan_ranges (l # ls) ranges =
     (case parseLine l of
        BadRange \<Rightarrow> None
      | NoRange \<Rightarrow> scan_ranges ls ranges
      | GoodRange r \<Rightarrow> scan_ranges ls (ranges @ [r]))"

definition scanBuf :: "sorter \<Rightarrow> string \<Rightarrow> ip_range list" where
  "scanBuf srt buf =
     (if buf = [] then new_iplist srt []
      else case scan_ranges (scan_lines buf) [] of
          None \<Rightarrow> new_iplist srt []
        | Some ranges \<Rightarrow> if length ranges > 0 then new_iplist srt ranges else new_iplist srt [])"

section \<open>The decision\<close>

text \<open>
  What the code asks of the request: the address that the framework tells, the host of the remote address when
  it splits, and the remote address itself.
\<close>

definition getClientIP :: "string \<Rightarrow> string option \<Rightarrow> string \<Rightarrow> ip option" where
  "getClientIP clientIP host remoteAddr =
     (case ParseIP clientIP of
        Some ip \<Rightarrow> Some ip
      | None \<Rightarrow> (case host of Some h \<Rightarrow> ParseIP h | None \<Rightarrow> ParseIP remoteAddr))"

text \<open>Whether the request goes on. The arguments are the contents of bip.txt and wip.txt, empty when they cannot be read.\<close>

definition request_allowed :: "sorter \<Rightarrow> string \<Rightarrow> string \<Rightarrow> ip option \<Rightarrow> bool" where
  "request_allowed srt bip wip ip =
     (let blackIPList = scanBuf srt bip; whiteIPList = scanBuf srt wip in
      if NumRanges (Some blackIPList) = 0 \<and> NumRanges (Some whiteIPList) = 0 then True
      else case ip of
          None \<Rightarrow> True
        | Some ip \<Rightarrow>
            let ip = minifyIP ip in
            if NumRanges (Some whiteIPList) > 0 \<and> Lookup (Some whiteIPList) ip = None then False
            else if NumRanges (Some blackIPList) > 0 \<and> Lookup (Some blackIPList) ip \<noteq> None then False
            else True)"

section \<open>The order of addresses\<close>

text \<open>An address as a number: its bytes behind a one, so that a longer address is greater.\<close>

primrec ip_value :: "ip \<Rightarrow> nat" where
  "ip_value [] = 0"
| "ip_value (c # a) = of_char c * 256 ^ length a + ip_value a"

definition ip_rank :: "ip \<Rightarrow> nat" where
  "ip_rank a = 256 ^ length a + ip_value a"

lemma of_char_bound: "(of_char c :: nat) < 256"
  by (metis nat_of_char_less_256)

lemma ip_value_bound: "ip_value a < 256 ^ length a"
proof (induction a)
  case (Cons c a)
  have "of_char c * 256 ^ length a \<le> 255 * (256 :: nat) ^ length a"
    using of_char_bound [of c] by (intro mult_right_mono) linarith+
  then have "of_char c * 256 ^ length a + ip_value a < 255 * 256 ^ length a + 256 ^ length a" using Cons by linarith
  then show ?case by simp
qed simp

lemma bytes_less_value: "length a = length b \<Longrightarrow> bytes_less a b \<longleftrightarrow> ip_value a < ip_value b"
proof (induction a b rule: list_induct2)
  case (Cons x a y b)
  have bounds: "ip_value a < 256 ^ length b" "ip_value b < 256 ^ length b"
    using ip_value_bound [of a] ip_value_bound [of b] Cons.hyps by simp_all
  consider "(of_char x :: nat) < of_char y" | "x = y" | "(of_char y :: nat) < of_char x"
    by (metis linorder_neqE_nat of_char_eq_iff)
  then show ?case
  proof cases
    case 1
    then have "(of_char x + 1) * 256 ^ length b \<le> of_char y * (256 :: nat) ^ length b" by (intro mult_right_mono) auto
    then show ?thesis using 1 bounds Cons.hyps by (simp add: algebra_simps)
  next
    case 2
    then show ?thesis using Cons by simp
  next
    case 3
    then have "(of_char y + 1) * 256 ^ length b \<le> of_char x * (256 :: nat) ^ length b" by (intro mult_right_mono) auto
    then show ?thesis using 3 bounds Cons.hyps by (auto simp: algebra_simps)
  qed
qed simp

lemma ip_rank_shorter: "length a < length b \<Longrightarrow> ip_rank a < ip_rank b"
proof -
  assume "length a < length b"
  then have "(256 :: nat) ^ Suc (length a) \<le> 256 ^ length b" by (intro power_increasing) auto
  then show "ip_rank a < ip_rank b" using ip_value_bound [of a] by (simp add: ip_rank_def)
qed

lemma ipLess_rank: "ipLess a b \<longleftrightarrow> ip_rank a < ip_rank b"
proof (cases "length a = length b")
  case True
  then show ?thesis by (simp add: ipLess_def bytes_less_value ip_rank_def)
next
  case False
  then show ?thesis using ip_rank_shorter [of a b] ip_rank_shorter [of b a]
    by (metis ipLess_def linorder_neqE_nat order_less_asym)
qed

section \<open>The lookup\<close>

definition in_range :: "ip \<Rightarrow> ip_range \<Rightarrow> bool" where
  "in_range ip r \<longleftrightarrow> \<not> ipLess ip (ir_First r) \<and> \<not> ipLess (ir_Last r) ip"

definition separate_ranges :: "ip_range list \<Rightarrow> bool" where
  "separate_ranges rs \<longleftrightarrow>
     distinct rs \<and> (\<forall>r \<in> set rs. \<not> ipLess (ir_Last r) (ir_First r)) \<and>
     (\<forall>a \<in> set rs. \<forall>b \<in> set rs. a \<noteq> b \<longrightarrow> ipLess (ir_Last a) (ir_First b) \<or> ipLess (ir_Last b) (ir_First a))"

definition sorts :: "sorter \<Rightarrow> bool" where
  "sorts srt \<longleftrightarrow>
     (\<forall>rs. let lt = (\<lambda>a b. ipLess (ir_First a) (ir_First b))
           in mset (srt lt rs) = mset rs \<and> sorted_wrt (\<lambda>a b. \<not> lt b a) (srt lt rs))"

definition in_order :: "ip_range list \<Rightarrow> bool" where
  "in_order rs \<longleftrightarrow>
     (\<forall>r \<in> set rs. ip_rank (ir_First r) \<le> ip_rank (ir_Last r)) \<and>
     (\<forall>i j. i < j \<longrightarrow> j < length rs \<longrightarrow> ip_rank (ir_Last (rs ! i)) < ip_rank (ir_First (rs ! j)))"

lemma middle: "lo \<le> hi \<Longrightarrow> lo \<le> lo + go_div (hi - lo) 2 \<and> lo + go_div (hi - lo) 2 \<le> hi"
  by (simp add: go_div_pos)

lemma lookup_sound:
  "lookup_loop rs ip lo hi = Some r \<Longrightarrow> 0 \<le> lo \<Longrightarrow> hi < int (length rs) \<Longrightarrow> r \<in> set rs \<and> in_range ip r"
proof (induction rs ip lo hi rule: lookup_loop.induct)
  case (1 rs ip lo hi)
  define mid where "mid = lo + go_div (hi - lo) 2"
  have "lo \<le> hi" using 1(3) by (subst (asm) lookup_loop.simps) (simp split: if_splits)
  note mid = middle [OF this, folded mid_def]
  note IH = 1(1) [OF \<open>lo \<le> hi\<close> refl refl, folded mid_def] 1(2) [OF \<open>lo \<le> hi\<close> refl refl, folded mid_def]
  have "nat mid < length rs" using mid 1(4,5) by linarith
  then have "rs ! nat mid \<in> set rs" by simp
  moreover have "lookup_loop rs ip lo hi =
      (if ipLess ip (ir_First (rs ! nat mid)) then lookup_loop rs ip lo (mid - 1)
       else if ipLess (ir_Last (rs ! nat mid)) ip then lookup_loop rs ip (mid + 1) hi else Some (rs ! nat mid))"
    using \<open>lo \<le> hi\<close> by (subst lookup_loop.simps) (simp add: mid_def [symmetric] Let_def)
  ultimately show ?case using 1(3-5) mid IH by (auto simp: in_range_def split: if_splits)
qed

lemma lookup_complete:
  "in_order rs \<Longrightarrow> in_range ip (rs ! k) \<Longrightarrow> lo \<le> int k \<Longrightarrow> int k \<le> hi \<Longrightarrow> 0 \<le> lo \<Longrightarrow> hi < int (length rs) \<Longrightarrow>
   lookup_loop rs ip lo hi = Some (rs ! k)"
proof (induction rs ip lo hi rule: lookup_loop.induct)
  case (1 rs ip lo hi)
  define mid where "mid = lo + go_div (hi - lo) 2"
  have "lo \<le> hi" using 1 by linarith
  note mid = middle [OF this, folded mid_def]
  note IH = 1(1) [OF \<open>lo \<le> hi\<close> refl refl, folded mid_def] 1(2) [OF \<open>lo \<le> hi\<close> refl refl, folded mid_def]
  have here: "ip_rank (ir_First (rs ! k)) \<le> ip_rank ip" "ip_rank ip \<le> ip_rank (ir_Last (rs ! k))"
    using 1(4) by (auto simp: in_range_def ipLess_rank)
  have before: "ip_rank (ir_Last (rs ! nat mid)) < ip_rank ip" if "nat mid < k"
    using 1(3,6,8) that here by (fastforce simp: in_order_def)
  have beyond: "ip_rank ip < ip_rank (ir_First (rs ! nat mid))" if "k < nat mid"
    using 1(3,7,8) that here mid by (fastforce simp: in_order_def)
  have well: "ip_rank (ir_First (rs ! nat mid)) \<le> ip_rank (ir_Last (rs ! nat mid))"
    using 1(3,7,8) mid by (auto simp: in_order_def)
  consider "nat mid < k" | "nat mid = k" | "k < nat mid" by linarith
  then show ?case
  proof cases
    case left: 1
    then show ?thesis using before well IH(2) 1 mid \<open>lo \<le> hi\<close>
      by (subst lookup_loop.simps) (auto simp: mid_def [symmetric] Let_def ipLess_rank)
  next
    case 2
    then show ?thesis using here \<open>lo \<le> hi\<close>
      by (subst lookup_loop.simps) (auto simp: mid_def [symmetric] Let_def ipLess_rank)
  next
    case 3
    then show ?thesis using beyond IH(1) 1 mid \<open>lo \<le> hi\<close>
      by (subst lookup_loop.simps) (auto simp: mid_def [symmetric] Let_def ipLess_rank)
  qed
qed

lemma sorted_ranges:
  assumes "separate_ranges rs" and "sorts srt" and "rs \<noteq> []"
  shows "in_order (new_iplist srt rs) \<and> set (new_iplist srt rs) = set rs"
proof -
  define lt :: "ip_range \<Rightarrow> ip_range \<Rightarrow> bool" where "lt = (\<lambda>a b. ipLess (ir_First a) (ir_First b))"
  define s where "s = srt lt rs"
  have perm: "mset s = mset rs" and order: "sorted_wrt (\<lambda>a b. \<not> lt b a) s"
    using assms(2) by (auto simp: sorts_def Let_def s_def lt_def)
  have members: "set s = set rs" and "distinct s"
    using perm assms(1) mset_eq_setD [OF perm] mset_eq_imp_distinct_iff [OF perm] by (simp_all add: separate_ranges_def)
  have well: "ip_rank (ir_First r) \<le> ip_rank (ir_Last r)" if "r \<in> set s" for r
    using assms(1) that members by (auto simp: separate_ranges_def ipLess_rank)
  have "ip_rank (ir_Last (s ! i)) < ip_rank (ir_First (s ! j))" if "i < j" "j < length s" for i j
  proof -
    have "s ! i \<noteq> s ! j" "s ! i \<in> set s" "s ! j \<in> set s" using that \<open>distinct s\<close> by (auto simp: nth_eq_iff_index_eq)
    moreover have "\<not> lt (s ! j) (s ! i)" using order that by (simp add: sorted_wrt_iff_nth_less)
    ultimately show ?thesis using assms(1) members well [of "s ! j"] well [of "s ! i"]
      by (fastforce simp: separate_ranges_def ipLess_rank lt_def)
  qed
  then show ?thesis using well members assms(3) by (simp add: new_iplist_def lt_def [symmetric] s_def [symmetric] in_order_def)
qed

lemma in_order_unique:
  assumes "in_order s" and "i < length s" and "j < length s" and "in_range ip (s ! i)" and "in_range ip (s ! j)"
  shows "i = j"
proof -
  have "ip_rank (ir_First (s ! i)) \<le> ip_rank ip" "ip_rank ip \<le> ip_rank (ir_Last (s ! i))"
    and "ip_rank (ir_First (s ! j)) \<le> ip_rank ip" "ip_rank ip \<le> ip_rank (ir_Last (s ! j))"
    using assms(4,5) by (simp_all add: in_range_def ipLess_rank)
  moreover have "i < j \<Longrightarrow> ip_rank (ir_Last (s ! i)) < ip_rank (ir_First (s ! j))"
    and "j < i \<Longrightarrow> ip_rank (ir_Last (s ! j)) < ip_rank (ir_First (s ! i))"
    using assms(1-3) by (simp_all add: in_order_def)
  ultimately show "i = j" by linarith
qed

lemma find_unique:
  assumes "r \<in> set rs" and "P r" and unique: "\<forall>x \<in> set rs. P x \<longrightarrow> x = r"
  shows "List.find P rs = Some r"
proof (cases "List.find P rs")
  case None
  then show ?thesis using assms(1,2) find_None_iff [of P rs] by blast
next
  case (Some x)
  then obtain i where "i < length rs" "P (rs ! i)" "x = rs ! i" unfolding find_Some_iff by blast
  then show ?thesis using unique Some nth_mem [of i rs] by metis
qed

text \<open>
  Property C15. The binary search is a search of all ranges. When the ranges of a list do not touch each other, and each ends
  no earlier than it begins, \<open>Lookup\<close> finds for any address the range of the list that it lies in, and nothing
  when it lies in none, whatever order the ranges come in.
\<close>

theorem lookup_exact:
  assumes "sorts srt" and "separate_ranges rs"
  shows "Lookup (Some (new_iplist srt rs)) ip = List.find (in_range ip) rs"
proof (cases "rs = []")
  case True
  then show ?thesis by (simp add: Lookup_def new_iplist_def)
next
  case False
  define s where "s = new_iplist srt rs"
  have s: "in_order s" "set s = set rs" using sorted_ranges [OF assms(2,1) False] by (simp_all add: s_def)
  have "s \<noteq> []" using s(2) False by auto
  then have look: "Lookup (Some s) ip = lookup_loop s ip 0 (int (length s) - 1)"
    by (simp add: Lookup_def lookupBinary_def)
  show ?thesis
  proof (cases "\<exists>k < length s. in_range ip (s ! k)")
    case True
    then obtain k where k: "k < length s" "in_range ip (s ! k)" by blast
    have "lookup_loop s ip 0 (int (length s) - 1) = Some (s ! k)"
      using lookup_complete [OF s(1) k(2)] k(1) by simp
    moreover have "List.find (in_range ip) rs = Some (s ! k)"
    proof (rule find_unique)
      show "s ! k \<in> set rs" unfolding s(2) [symmetric] using k(1) by (rule nth_mem)
      show "\<forall>x \<in> set rs. in_range ip x \<longrightarrow> x = s ! k"
      proof (intro ballI impI)
        fix x assume "x \<in> set rs" and x: "in_range ip x"
        then obtain i where i: "i < length s" "s ! i = x" unfolding s(2) [symmetric] in_set_conv_nth by blast
        have "in_range ip (s ! i)" unfolding i(2) by (rule x)
        then have "i = k" by (rule in_order_unique [OF s(1) i(1) k(1) _ k(2)])
        show "x = s ! k" unfolding i(2) [symmetric] \<open>i = k\<close> by (rule refl)
      qed
    qed (rule k(2))
    ultimately show ?thesis using look by (simp add: s_def)
  next
    case False
    then have none: "\<forall>r \<in> set rs. \<not> in_range ip r" using s(2) by (metis in_set_conv_nth)
    then have "lookup_loop s ip 0 (int (length s) - 1) = None"
      using lookup_sound [of s ip 0 "int (length s) - 1"] s(2) by (cases "lookup_loop s ip 0 (int (length s) - 1)") auto
    moreover have "List.find (in_range ip) rs = None" using none by (simp add: find_None_iff)
    ultimately show ?thesis using look by (simp add: s_def)
  qed
qed

text \<open>A sorter, for concrete runs.\<close>

fun insert_range :: "(ip_range \<Rightarrow> ip_range \<Rightarrow> bool) \<Rightarrow> ip_range \<Rightarrow> ip_range list \<Rightarrow> ip_range list" where
  "insert_range lt x [] = [x]"
| "insert_range lt x (y # ys) = (if lt y x then y # insert_range lt x ys else x # y # ys)"

definition sort_ranges :: sorter where
  "sort_ranges lt rs = foldr (insert_range lt) rs []"

lemma mset_insert_range: "mset (insert_range lt x ys) = add_mset x (mset ys)"
  by (induction ys) simp_all

lemma sorted_insert_range:
  defines "lt \<equiv> \<lambda>a b. ipLess (ir_First a) (ir_First b)"
  shows "sorted_wrt (\<lambda>a b. \<not> lt b a) ys \<Longrightarrow> sorted_wrt (\<lambda>a b. \<not> lt b a) (insert_range lt x ys)"
proof (induction ys)
  case (Cons y ys)
  have "set (insert_range lt x ys) = insert x (set ys)"
    using mset_insert_range [of lt x ys] by (metis set_mset_add_mset_insert set_mset_mset)
  then show ?case using Cons by (fastforce simp: lt_def ipLess_rank)
qed simp

lemma sorts_sort_ranges: "sorts sort_ranges"
proof -
  let ?lt = "\<lambda>a b. ipLess (ir_First a) (ir_First b)"
  have "mset (sort_ranges ?lt rs) = mset rs \<and> sorted_wrt (\<lambda>a b. \<not> ?lt b a) (sort_ranges ?lt rs)" for rs
    by (induction rs) (simp_all add: sort_ranges_def mset_insert_range sorted_insert_range)
  then show ?thesis by (simp add: sorts_def Let_def)
qed

definition demo_ranges :: "ip_range list" where
  "demo_ranges =
     [\<lparr>ir_First = [CHR 0x0A, CHR 0x00, CHR 0x01, CHR 0x00], ir_Last = [CHR 0x0A, CHR 0x00, CHR 0x01, CHR 0xFF], ir_Description = ''b''\<rparr>,
      \<lparr>ir_First = [CHR 0x0A, CHR 0x00, CHR 0x00, CHR 0x00], ir_Last = [CHR 0x0A, CHR 0x00, CHR 0x00, CHR 0xFF], ir_Description = ''a''\<rparr>]"

theorem lookup_exact_witness:
  "map_option ir_Description (Lookup (Some (new_iplist sort_ranges demo_ranges)) [CHR 0x0A, CHR 0x00, CHR 0x00, CHR 0x07]) =
   Some ''a''"
proof -
  have "separate_ranges demo_ranges" by code_simp
  moreover have "map_option ir_Description (List.find (in_range [CHR 0x0A, CHR 0x00, CHR 0x00, CHR 0x07]) demo_ranges) = Some ''a''"
    by code_simp
  ultimately show ?thesis using lookup_exact [OF sorts_sort_ranges] by simp
qed

text \<open>
  The filter lets a banned address through. The file of banned ranges below is read without an error and its first
  line bans 1.0.1.0, but the ranges of the other lines lie inside the first one, and the binary search, which takes
  an address behind the range in the middle to be behind all ranges before it, does not find it.
\<close>

theorem nested_range_missed:
  "parseLine ''1.0.0.0-1.255.255.255'' = GoodRange \<lparr>ir_First = [CHR 0x01, CHR 0x00, CHR 0x00, CHR 0x00],
       ir_Last = [CHR 0x01, CHR 0xFF, CHR 0xFF, CHR 0xFF], ir_Description = []\<rparr> \<and>
   in_range [CHR 0x01, CHR 0x00, CHR 0x01, CHR 0x00]
     \<lparr>ir_First = [CHR 0x01, CHR 0x00, CHR 0x00, CHR 0x00], ir_Last = [CHR 0x01, CHR 0xFF, CHR 0xFF, CHR 0xFF], ir_Description = []\<rparr> \<and>
   map_option minifyIP (ParseIP ''1.0.1.0'') = Some [CHR 0x01, CHR 0x00, CHR 0x01, CHR 0x00] \<and>
   request_allowed sort_ranges
     (''1.0.0.0-1.255.255.255'' @ [CHR 0x0A] @ ''1.0.0.16-1.0.0.31'' @ [CHR 0x0A] @ ''1.0.0.48-1.0.0.63'') []
     (ParseIP ''1.0.1.0'')"
  by code_simp

text \<open>One line that does not parse empties the whole list, and a range of IPv6 addresses never parses, as its last colon ends the description.\<close>

lemma ipv6_range_empties_list:
  "parseLine ''2001:db8::1-2001:db8::ff'' = BadRange \<and> ParseIP ''2001:db8::1'' \<noteq> None \<and>
   request_allowed sort_ranges (''1.0.0.0-1.255.255.255'' @ [CHR 0x0A] @ ''2001:db8::1-2001:db8::ff'') [] (ParseIP ''1.0.1.0'')"
  by code_simp

end
