(* ===== verification/Auth_Gate.thy ===== *)
theory Auth_Gate
  imports Ip_Blocker
begin

text \<open>
  Who may use the API: the store of users and its migration (auth/auth.go, auth/migrate.go), the check of the
  \<open>Authorization\<close> header (auth/middleware.go, web/auth/auth.go) and the guard of the shutdown request
  (web/api/shutdown_control.go, internal/app/runtime_server.go). bcrypt, the JSON coding of a user and the limits of
  the database are arguments; package \<open>encoding/base64\<close> is written out.
\<close>

section \<open>Base 64\<close>

definition b64_alphabet :: string where
  "b64_alphabet = ''ABCDEFGHIJKLMNOPQRSTUVWXYZabcdefghijklmnopqrstuvwxyz0123456789+/''"

definition b64_value :: "char \<Rightarrow> nat option" where
  "b64_value c = map_of (zip b64_alphabet [0 ..< 64]) c"

definition b64_char :: "nat \<Rightarrow> char" where
  "b64_char n = b64_alphabet ! n"

fun b64_quads :: "string \<Rightarrow> string option" where
  "b64_quads [] = Some []"
| "b64_quads (a # b # c # d # rest) =
     (case (b64_value a, b64_value b) of
        (Some x, Some y) \<Rightarrow>
          if c = CHR ''='' then (if d = CHR ''='' \<and> rest = [] then Some [char_of (x * 4 + y div 16)] else None)
          else (case b64_value c of
              None \<Rightarrow> None
            | Some z \<Rightarrow>
                if d = CHR ''=''
                then (if rest = [] then Some [char_of (x * 4 + y div 16), char_of (y mod 16 * 16 + z div 4)] else None)
                else (case b64_value d of
                    None \<Rightarrow> None
                  | Some w \<Rightarrow>
                      map_option (\<lambda>s. char_of (x * 4 + y div 16) # char_of (y mod 16 * 16 + z div 4) # char_of (z mod 4 * 64 + w) # s)
                        (b64_quads rest)))
      | _ \<Rightarrow> None)"
| "b64_quads _ = None"

text \<open>The decoder skips line ends.\<close>

definition b64_decode :: "string \<Rightarrow> string option" where
  "b64_decode s = b64_quads (filter (\<lambda>c. c \<noteq> CHR 0x0A \<and> c \<noteq> CHR 0x0D) s)"

text \<open>What a client sends.\<close>

fun b64_encode :: "string \<Rightarrow> string" where
  "b64_encode [] = []"
| "b64_encode [a] = (let a = of_char a in [b64_char (a div 4), b64_char (a mod 4 * 16), CHR ''='', CHR ''=''])"
| "b64_encode [a, b] =
     (let a = of_char a; b = of_char b
      in [b64_char (a div 4), b64_char (a mod 4 * 16 + b div 16), b64_char (b mod 16 * 4), CHR ''=''])"
| "b64_encode (a # b # c # s) =
     (let a = of_char a; b = of_char b; c = of_char c
      in b64_char (a div 4) # b64_char (a mod 4 * 16 + b div 16) # b64_char (b mod 16 * 4 + c div 64) #
         b64_char (c mod 64) # b64_encode s)"

lemma b64_alphabet_facts: "distinct b64_alphabet" "length b64_alphabet = 64" "CHR ''='' \<notin> set b64_alphabet"
  by (simp_all add: b64_alphabet_def)

lemma b64_alphabet_plain: "\<forall>c \<in> set b64_alphabet. 33 \<le> (of_char c :: nat) \<and> (of_char c :: nat) < 127"
  by (simp add: b64_alphabet_def)

lemma b64_char_facts [simp]:
  assumes "n < 64"
  shows "b64_value (b64_char n) = Some n" "b64_char n \<noteq> CHR ''=''" "b64_char n \<in> set plain_chars"
proof -
  have mem: "b64_char n \<in> set b64_alphabet" using assms b64_alphabet_facts(2) by (simp add: b64_char_def)
  then show "b64_char n \<noteq> CHR ''=''" using b64_alphabet_facts(3) by metis
  show "b64_char n \<in> set plain_chars" using mem b64_alphabet_plain by (simp add: plain_iff)
  have "map_of (zip b64_alphabet [0 ..< 64]) (b64_alphabet ! n) = Some ([0 ..< 64] ! n)"
    by (rule map_of_zip_nth) (use assms b64_alphabet_facts in simp_all)
  then show "b64_value (b64_char n) = Some n" using assms by (simp add: b64_value_def b64_char_def)
qed

lemma byte_shifts [simp]:
  "(of_char c :: nat) div 4 < 64" "(of_char c :: nat) div 16 < 16" "(of_char c :: nat) div 64 < 4"
  using nat_of_char_less_256 [of c] by (simp_all add: less_mult_imp_div_less)

lemma byte_shifts_all [simp]: "(of_char c :: nat) div 16 div 16 = 0" "(of_char c :: nat) div 64 div 4 = 0"
  "(of_char c :: nat) div 16 mod 16 = of_char c div 16" "(of_char c :: nat) div 64 mod 4 = of_char c div 64"
  by simp_all

lemma byte_parts [simp]:
  "(of_char a :: nat) mod 4 * 16 < 64" "(of_char a :: nat) mod 4 * 16 + of_char b div 16 < 64"
  "(of_char a :: nat) mod 16 * 4 < 64" "(of_char a :: nat) mod 16 * 4 + of_char b div 64 < 64"
proof -
  have "(of_char a :: nat) mod 4 < 4" "(of_char a :: nat) mod 16 < 16" by simp_all
  then show "(of_char a :: nat) mod 4 * 16 < 64" "(of_char a :: nat) mod 4 * 16 + of_char b div 16 < 64"
    "(of_char a :: nat) mod 16 * 4 < 64" "(of_char a :: nat) mod 16 * 4 + of_char b div 64 < 64"
    using byte_shifts [of b] by linarith+
qed

lemma b64_quads_encode: "b64_quads (b64_encode s) = Some s"
  by (induction s rule: b64_encode.induct) (simp_all add: Let_def)

lemma b64_encode_chars: "set (b64_encode s) \<subseteq> set plain_chars"
proof -
  have eq: "CHR ''='' \<in> set plain_chars" by (simp add: plain_iff)
  show ?thesis by (induction s rule: b64_encode.induct) (simp_all add: Let_def eq)
qed

lemma b64_decode_encode: "b64_decode (b64_encode s) = Some s"
proof -
  have "c \<noteq> CHR 0x0A \<and> c \<noteq> CHR 0x0D" if "c \<in> set (b64_encode s)" for c
    using that b64_encode_chars [of s] plain_iff [of c] by auto
  then show ?thesis by (simp add: b64_decode_def b64_quads_encode)
qed

section \<open>The store of users\<close>

record auth_user =
  au_Hash :: string
  au_CreatedAt :: int

text \<open>
  bcrypt with the salt it draws (it refuses passwords of more than 72 bytes), the JSON coding of a user, that of the old
  file, and whether the database takes an entry.
\<close>

record auth_lib =
  al_hash :: "nat \<Rightarrow> string \<Rightarrow> string option"
  al_compare :: "string \<Rightarrow> string \<Rightarrow> bool"
  al_marshal :: "auth_user \<Rightarrow> string"
  al_unmarshal :: "string \<Rightarrow> auth_user option"
  al_accounts :: "string \<Rightarrow> (string \<times> string) list option"
  al_puts :: "string \<Rightarrow> string \<Rightarrow> bool"

text \<open>The two buckets; \<open>None\<close> for one that was never created.\<close>

record auth_db =
  ad_users :: "(string \<rightharpoonup> string) option"
  ad_secrets :: "(string \<rightharpoonup> string) option"

datatype auth_error =
    ErrUserNotFound
  | ErrUserExists
  | ErrInvalidPassword
  | ErrEmptyPassword
  | ErrEmptyUsername
  | OtherAuthError

definition bucket_get :: "(string \<rightharpoonup> string) option \<Rightarrow> string \<Rightarrow> string option" where
  "bucket_get b key = (case b of None \<Rightarrow> None | Some m \<Rightarrow> m key)"

definition bucket_put :: "(string \<rightharpoonup> string) option \<Rightarrow> string \<Rightarrow> string \<Rightarrow> (string \<rightharpoonup> string) option" where
  "bucket_put b key v = Some ((case b of None \<Rightarrow> Map.empty | Some m \<Rightarrow> m)(key \<mapsto> v))"

text \<open>A transaction that returns an error changes nothing. The error comes first, \<open>None\<close> for nil.\<close>

definition AddUser :: "auth_lib \<Rightarrow> nat \<Rightarrow> int \<Rightarrow> string \<Rightarrow> string \<Rightarrow> auth_db \<Rightarrow> auth_error option \<times> auth_db" where
  "AddUser lib salt now username password db =
     (if username = [] then (Some ErrEmptyUsername, db)
      else if password = [] then (Some ErrEmptyPassword, db)
      else (case al_hash lib salt password of
          None \<Rightarrow> (Some OtherAuthError, db)
        | Some hash \<Rightarrow>
            if bucket_get (ad_users db) username \<noteq> None then (Some ErrUserExists, db)
            else let user_data = al_marshal lib \<lparr>au_Hash = hash, au_CreatedAt = now\<rparr> in
              if al_puts lib username user_data then (None, db\<lparr>ad_users := bucket_put (ad_users db) username user_data\<rparr>)
              else (Some OtherAuthError, db)))"

definition RemoveUser :: "string \<Rightarrow> auth_db \<Rightarrow> auth_error option \<times> auth_db" where
  "RemoveUser username db =
     (case ad_users db of
        None \<Rightarrow> (Some ErrUserNotFound, db)
      | Some m \<Rightarrow> if m username = None then (Some ErrUserNotFound, db) else (None, db\<lparr>ad_users := Some (m(username := None))\<rparr>))"

definition VerifyPassword :: "auth_lib \<Rightarrow> auth_db \<Rightarrow> string \<Rightarrow> string \<Rightarrow> auth_error option" where
  "VerifyPassword lib db username password =
     (case bucket_get (ad_users db) username of
        None \<Rightarrow> Some ErrUserNotFound
      | Some user_data \<Rightarrow>
          (case al_unmarshal lib user_data of
             None \<Rightarrow> Some OtherAuthError
           | Some user \<Rightarrow> if al_compare lib (au_Hash user) password then None else Some ErrInvalidPassword))"

text \<open>\<open>ks\<close> lists the names in the bucket, in its order. The list ends at a user that does not decode.\<close>

fun list_users :: "auth_lib \<Rightarrow> auth_db \<Rightarrow> string list \<Rightarrow> (string \<rightharpoonup> int) \<Rightarrow> (string \<rightharpoonup> int) \<times> bool" where
  "list_users lib db [] users = (users, False)"
| "list_users lib db (k # ks) users =
     (case bucket_get (ad_users db) k of
        None \<Rightarrow> list_users lib db ks users
      | Some v \<Rightarrow>
          (case al_unmarshal lib v of
             None \<Rightarrow> (users, True)
           | Some user \<Rightarrow> list_users lib db ks (users(k \<mapsto> au_CreatedAt user))))"

definition ListUsers :: "auth_lib \<Rightarrow> auth_db \<Rightarrow> string list \<Rightarrow> (string \<rightharpoonup> int) \<times> bool" where
  "ListUsers lib db ks = list_users lib db ks Map.empty"

definition UserCount :: "auth_db \<Rightarrow> int" where
  "UserCount db = (case ad_users db of None \<Rightarrow> 0 | Some m \<Rightarrow> int (card (dom m)))"

section \<open>Migration and the shutdown token\<close>

text \<open>
  \<open>accs\<close> is the old file: \<open>None\<close> when there is none, \<open>Some None\<close> when it cannot be read. \<open>removable\<close>: the file can
  be removed. The result is whether an error is returned, the store, and whether the file is gone.
\<close>

definition migrate_account :: "auth_lib \<Rightarrow> int \<Rightarrow> nat \<times> auth_db \<Rightarrow> string \<times> string \<Rightarrow> nat \<times> auth_db" where
  "migrate_account lib now = (\<lambda>(salt, db) (username, password). (salt + 1, snd (AddUser lib salt now username password db)))"

definition MigrateFromAccsDB ::
  "auth_lib \<Rightarrow> int \<Rightarrow> nat \<Rightarrow> string option option \<Rightarrow> bool \<Rightarrow> auth_db \<Rightarrow> bool \<times> auth_db \<times> bool" where
  "MigrateFromAccsDB lib now salt accs removable db =
     (case accs of
        None \<Rightarrow> (False, db, False)
      | Some buf \<Rightarrow>
          if UserCount db > 0 then (False, db, False)
          else (case buf of
              None \<Rightarrow> (True, db, False)
            | Some buf \<Rightarrow>
                (case al_accounts lib buf of
                   None \<Rightarrow> (False, db, False)
                 | Some accounts \<Rightarrow>
                     if accounts = [] then (False, db, False)
                     else (False, snd (foldl (migrate_account lib now) (salt, db) accounts), removable))))"

definition EnsureDefaultAdmin :: "auth_lib \<Rightarrow> nat \<Rightarrow> int \<Rightarrow> string \<Rightarrow> auth_db \<Rightarrow> auth_error option \<times> auth_db" where
  "EnsureDefaultAdmin lib salt now password db =
     (if UserCount db > 0 then (None, db)
      else if password = [] then (None, db)
      else AddUser lib salt now ''admin'' password db)"

definition GetShutdownToken :: "auth_db \<Rightarrow> string" where
  "GetShutdownToken db = (case bucket_get (ad_secrets db) ''shutdown_token'' of None \<Rightarrow> [] | Some token \<Rightarrow> token)"

text \<open>The first result: the database refused the entry.\<close>

definition SetShutdownToken :: "auth_lib \<Rightarrow> string \<Rightarrow> auth_db \<Rightarrow> bool \<times> auth_db" where
  "SetShutdownToken lib token db =
     (if al_puts lib ''shutdown_token'' token then (False, db\<lparr>ad_secrets := bucket_put (ad_secrets db) ''shutdown_token'' token\<rparr>)
      else (True, db))"

text \<open>\<open>rand\<close> is what the source of randomness gives for the 32 bytes.\<close>

definition GenerateSecureToken :: "string option \<Rightarrow> string option" where
  "GenerateSecureToken rand =
     (case rand of None \<Rightarrow> None
      | Some bs \<Rightarrow> Some (concat (map (\<lambda>c. [''0123456789abcdef'' ! (of_char c div 16), ''0123456789abcdef'' ! (of_char c mod 16)]) bs)))"

definition GenerateAndStoreToken :: "auth_lib \<Rightarrow> string option \<Rightarrow> auth_db \<Rightarrow> string option \<times> auth_db" where
  "GenerateAndStoreToken lib rand db =
     (case GenerateSecureToken rand of
        None \<Rightarrow> (None, db)
      | Some token \<Rightarrow> let (err, db) = SetShutdownToken lib token db in if err then (None, db) else (Some token, db))"

definition EnsureDefaultToken :: "auth_lib \<Rightarrow> string option \<Rightarrow> auth_db \<Rightarrow> bool \<times> auth_db" where
  "EnsureDefaultToken lib rand db =
     (if GetShutdownToken db \<noteq> [] then (False, db)
      else let (token, db) = GenerateAndStoreToken lib rand db in (token = None, db))"

section \<open>The check of a request\<close>

text \<open>\<open>rt_store\<close> and \<open>rt_token\<close>: there is a store of users and of tokens.\<close>

record auth_runtime =
  rt_store :: bool
  rt_token :: bool
  rt_authOn :: bool

text \<open>\<open>opened\<close>: the database could be opened. The other arguments are those of the migration and of the token.\<close>

definition NewRuntimeWithRuntimeState ::
  "auth_lib \<Rightarrow> int \<Rightarrow> nat \<Rightarrow> string option option \<Rightarrow> bool \<Rightarrow> string option \<Rightarrow> bool \<Rightarrow> bool \<Rightarrow> auth_db \<Rightarrow> auth_runtime \<times> auth_db" where
  "NewRuntimeWithRuntimeState lib now salt accs removable rand opened httpAuth db =
     (if \<not> opened then (\<lparr>rt_store = False, rt_token = False, rt_authOn = False\<rparr>, db)
      else let (_, db, _) = MigrateFromAccsDB lib now salt accs removable db;
               (_, db) = EnsureDefaultToken lib rand db
           in (\<lparr>rt_store = True, rt_token = True, rt_authOn = httpAuth\<rparr>, db))"

definition parseBasicAuth :: "string \<Rightarrow> (string \<times> string) option" where
  "parseBasicAuth header =
     (case strip_prefix ''Basic '' header of
        None \<Rightarrow> None
      | Some code \<Rightarrow>
          (case b64_decode code of
             None \<Rightarrow> None
           | Some decoded \<Rightarrow> (case split_first CHR '':'' decoded of (user, Some pass) \<Rightarrow> Some (user, pass) | _ \<Rightarrow> None)))"

text \<open>What the middlewares leave in the context of a request: that it needs a user, and the user.\<close>

record gin_ctx =
  gc_required :: bool
  gc_user :: "string option"

definition BasicAuthMiddleware :: "auth_lib \<Rightarrow> auth_db \<Rightarrow> bool \<Rightarrow> string \<Rightarrow> gin_ctx \<Rightarrow> gin_ctx" where
  "BasicAuthMiddleware lib db enabled authorization c =
     (if \<not> enabled then c
      else let c = c\<lparr>gc_required := True\<rparr>; header = trim_space authorization in
        if header = [] then c
        else (case parseBasicAuth header of
            None \<Rightarrow> c
          | Some (username, password) \<Rightarrow>
              if VerifyPassword lib db username password \<noteq> None then c else c\<lparr>gc_user := Some username\<rparr>))"

definition SetupAuthRuntime :: "auth_lib \<Rightarrow> auth_db \<Rightarrow> auth_runtime \<Rightarrow> string \<Rightarrow> gin_ctx \<Rightarrow> gin_ctx" where
  "SetupAuthRuntime lib db rt authorization c =
     (if \<not> rt_store rt then c else BasicAuthMiddleware lib db (rt_authOn rt) authorization c)"

text \<open>The guards of protected routes: whether the request goes on.\<close>

definition CheckAuth :: "auth_runtime \<Rightarrow> gin_ctx \<Rightarrow> bool" where
  "CheckAuth rt c = (if \<not> rt_authOn rt then True else gc_user c \<noteq> None)"

definition RequireAuth :: "gin_ctx \<Rightarrow> bool" where
  "RequireAuth c = (if gc_required c then gc_user c \<noteq> None else True)"

text \<open>A request to a protected route, from the empty context.\<close>

definition request_passes :: "auth_lib \<Rightarrow> auth_db \<Rightarrow> auth_runtime \<Rightarrow> string \<Rightarrow> bool" where
  "request_passes lib db rt authorization \<longleftrightarrow>
     CheckAuth rt (SetupAuthRuntime lib db rt authorization \<lparr>gc_required = False, gc_user = None\<rparr>)"

section \<open>The shutdown request\<close>

datatype shutdownMode = shutdownModeLocal | shutdownModePublic

datatype api_error = ForbiddenError | UnauthorizedError

definition normalizeShutdownMode :: "string \<Rightarrow> shutdownMode" where
  "normalizeShutdownMode m = (if to_lower (trim_space m) = ''public'' then shutdownModePublic else shutdownModeLocal)"

definition IsLoopback :: "ip \<Rightarrow> bool" where
  "IsLoopback ip =
     (case To4 ip of
        Some v4 \<Rightarrow> hd v4 = CHR 0x7F
      | None \<Rightarrow> ip = replicate 15 (CHR 0x00) @ [CHR 0x01])"

definition authorizeLocalShutdown :: "string \<Rightarrow> api_error option" where
  "authorizeLocalShutdown clientIP =
     (case ParseIP (trim_space clientIP) of
        None \<Rightarrow> Some ForbiddenError
      | Some ip \<Rightarrow> if IsLoopback ip then None else Some ForbiddenError)"

definition received_token :: "string \<Rightarrow> string \<Rightarrow> string" where
  "received_token tokenHeader authHeader =
     (let receivedToken = trim_space tokenHeader; authorization = trim_space authHeader in
      if receivedToken = [] \<and> length authorization > length ''Bearer '' \<and> has_prefix (to_lower authorization) ''bearer ''
      then trim_space (drop (length ''Bearer '') authorization)
      else receivedToken)"

definition authorizePublicShutdown :: "string \<Rightarrow> string \<Rightarrow> string \<Rightarrow> api_error option" where
  "authorizePublicShutdown token tokenHeader authHeader =
     (if token = [] then Some ForbiddenError
      else let receivedToken = received_token tokenHeader authHeader in
        if receivedToken = [] then Some UnauthorizedError
        else if receivedToken \<noteq> token then Some UnauthorizedError
        else None)"

record shutdownControl =
  sc_mode :: shutdownMode
  sc_token :: string
  sc_hook :: bool
  sc_requested :: bool

definition shutdownCtl :: shutdownControl where
  "shutdownCtl = \<lparr>sc_mode = shutdownModeLocal, sc_token = [], sc_hook = False, sc_requested = False\<rparr>"

definition ConfigureShutdown :: "string \<Rightarrow> string \<Rightarrow> shutdownControl \<Rightarrow> shutdownControl" where
  "ConfigureShutdown m token c = c\<lparr>sc_mode := normalizeShutdownMode m, sc_token := trim_space token\<rparr>"

definition SetShutdownHook :: "bool \<Rightarrow> shutdownControl \<Rightarrow> shutdownControl" where
  "SetShutdownHook fn c = c\<lparr>sc_hook := fn, sc_requested := False\<rparr>"

text \<open>The results: what it returns, and whether it calls the hook.\<close>

definition RequestShutdown :: "shutdownControl \<Rightarrow> (bool \<times> bool) \<times> shutdownControl" where
  "RequestShutdown c =
     (if \<not> sc_hook c then ((False, False), c)
      else if sc_requested c then ((True, False), c)
      else ((True, True), c\<lparr>sc_requested := True\<rparr>))"

definition authorizeShutdownRequest :: "shutdownControl \<Rightarrow> string \<Rightarrow> string \<Rightarrow> string \<Rightarrow> api_error option" where
  "authorizeShutdownRequest c clientIP tokenHeader authHeader =
     (case sc_mode c of
        shutdownModePublic \<Rightarrow> authorizePublicShutdown (sc_token c) tokenHeader authHeader
      | shutdownModeLocal \<Rightarrow> authorizeLocalShutdown clientIP)"

text \<open>
  The mode and the token of the start of the server. The last argument is the store of tokens of the package, which only
  the functions of package \<open>web/auth\<close> that the program does not call assign: it is nil.
\<close>

definition resolveShutdownConfig ::
  "string \<Rightarrow> string \<Rightarrow> string option \<Rightarrow> string \<Rightarrow> string \<Rightarrow> auth_db option \<Rightarrow> string \<times> string" where
  "resolveShutdownConfig argMode envMode cfgMode argToken envToken tokenStore =
     (let m = trim_space argMode;
          m = (if m = [] then trim_space envMode else m);
          m = (case cfgMode of Some c \<Rightarrow> if m = [] then trim_space c else m | None \<Rightarrow> m);
          token = trim_space argToken;
          token = (if token = [] then trim_space envToken else token);
          token = (if token = []
                   then (case tokenStore of None \<Rightarrow> token
                         | Some db \<Rightarrow> if GetShutdownToken db \<noteq> [] then GetShutdownToken db else token)
                   else token)
      in (m, token))"

section \<open>The store promises accounts\<close>

datatype account_op = AddAccount nat int string string | RemoveAccount string

fun run_account :: "auth_lib \<Rightarrow> auth_db \<Rightarrow> account_op \<Rightarrow> auth_db" where
  "run_account lib db (AddAccount salt now user pass) = snd (AddUser lib salt now user pass db)"
| "run_account lib db (RemoveAccount user) = snd (RemoveUser user db)"

text \<open>The specification: a map from names to the hashes that bcrypt gave for their passwords.\<close>

fun account_step :: "auth_lib \<Rightarrow> (string \<rightharpoonup> string) \<Rightarrow> account_op \<Rightarrow> (string \<rightharpoonup> string)" where
  "account_step lib m (AddAccount salt now user pass) =
     (case al_hash lib salt pass of
        Some h \<Rightarrow> if user \<noteq> [] \<and> pass \<noteq> [] \<and> m user = None \<and> al_puts lib user (al_marshal lib \<lparr>au_Hash = h, au_CreatedAt = now\<rparr>)
                  then m(user \<mapsto> h) else m
      | None \<Rightarrow> m)"
| "account_step lib m (RemoveAccount user) = m(user := None)"

locale user_codec =
  fixes lib :: auth_lib
  assumes unmarshal_marshal: "al_unmarshal lib (al_marshal lib u) = Some u"
begin

text \<open>Each user of the store is the coding of the hash that the specification has.\<close>

definition stores :: "auth_db \<Rightarrow> (string \<rightharpoonup> string) \<Rightarrow> bool" where
  "stores db m \<longleftrightarrow>
     (\<forall>u. case m u of
            None \<Rightarrow> bucket_get (ad_users db) u = None
          | Some h \<Rightarrow> \<exists>t. bucket_get (ad_users db) u = Some (al_marshal lib \<lparr>au_Hash = h, au_CreatedAt = t\<rparr>))"

lemma stores_None: "stores db m \<Longrightarrow> bucket_get (ad_users db) u = None \<longleftrightarrow> m u = None"
  unfolding stores_def by (drule spec [where x = u]) (auto split: option.splits)

lemma stores_put:
  "stores db m \<Longrightarrow>
   stores (db\<lparr>ad_users := bucket_put (ad_users db) u (al_marshal lib \<lparr>au_Hash = h, au_CreatedAt = t\<rparr>)\<rparr>) (m(u \<mapsto> h))"
  by (auto simp: stores_def bucket_get_def bucket_put_def split: option.splits) (metis option.distinct(1))+

lemma stores_remove: "stores db m \<Longrightarrow> stores (snd (RemoveUser u db)) (m(u := None))"
  by (auto simp: stores_def RemoveUser_def bucket_get_def split: option.splits) (metis option.distinct(1))+

lemma run_account_stores: "stores db m \<Longrightarrow> stores (run_account lib db op) (account_step lib m op)"
  by (cases op) (auto simp: AddUser_def stores_None stores_put stores_remove Let_def split: option.splits)

lemma run_accounts_store: "stores db m \<Longrightarrow> stores (foldl (run_account lib) db ops) (foldl (account_step lib) m ops)"
  by (induction ops arbitrary: db m) (simp_all add: run_account_stores)

lemma verify_stored:
  assumes "stores db m"
  shows "VerifyPassword lib db u p = None \<longleftrightarrow> (\<exists>h. m u = Some h \<and> al_compare lib h p)"
  using assms unfolding stores_def
  by (elim allE [where x = u]) (auto simp: VerifyPassword_def unmarshal_marshal split: option.splits if_splits)

lemma passes_stored:
  assumes "stores db m"
  shows "request_passes lib db \<lparr>rt_store = True, rt_token = tok, rt_authOn = True\<rparr> header \<longleftrightarrow>
    (\<exists>u p h. parseBasicAuth (trim_space header) = Some (u, p) \<and> m u = Some h \<and> al_compare lib h p)"
proof -
  have "parseBasicAuth [] = None" by (simp add: parseBasicAuth_def)
  then show ?thesis
    by (auto simp: request_passes_def CheckAuth_def SetupAuthRuntime_def BasicAuthMiddleware_def Let_def
        verify_stored [OF assms, unfolded not_None_eq [symmetric]] verify_stored [OF assms] split: option.splits)
qed

end

text \<open>A codec and a hash of this kind: the time in unary before a colon, and a password for its own hash.\<close>

definition plain_auth :: auth_lib where
  "plain_auth = \<lparr>al_hash = (\<lambda>salt p. if length p > 72 then None else Some p), al_compare = (=),
     al_marshal = (\<lambda>u. replicate (nat \<bar>au_CreatedAt u\<bar>) (if au_CreatedAt u < 0 then CHR ''-'' else CHR ''+'') @ CHR '':'' # au_Hash u),
     al_unmarshal = (\<lambda>s. case split_first CHR '':'' s of
        (t, Some h) \<Rightarrow> Some \<lparr>au_Hash = h, au_CreatedAt = (if t \<noteq> [] \<and> hd t = CHR ''-'' then - int (length t) else int (length t))\<rparr>
      | _ \<Rightarrow> None),
     al_accounts = (\<lambda>s. Some [(''a'', []), (''b'', ''pw'')]), al_puts = (\<lambda>k v. True)\<rparr>"

interpretation plain: user_codec plain_auth
proof
  fix u :: auth_user
  let ?t = "replicate (nat \<bar>au_CreatedAt u\<bar>) (if au_CreatedAt u < 0 then CHR ''-'' else CHR ''+'')"
  have "split_first CHR '':'' (?t @ CHR '':'' # au_Hash u) = (?t, Some (au_Hash u))"
    unfolding split_first_join by simp
  then show "al_unmarshal plain_auth (al_marshal plain_auth u) = Some u"
    by (cases "au_CreatedAt u = 0") (auto simp: plain_auth_def simp del: replicate_append_same)
qed

lemma parse_sent:
  assumes "CHR '':'' \<notin> set user"
  shows "parseBasicAuth (trim_space (''Basic '' @ b64_encode (user @ CHR '':'' # pass))) = Some (user, pass)"
proof -
  let ?code = "b64_encode (user @ CHR '':'' # pass)"
  have "?code \<noteq> []" by (cases "user @ CHR '':'' # pass" rule: b64_encode.cases) (simp_all add: Let_def)
  then have "last (''Basic '' @ ?code) \<in> set plain_chars" using b64_encode_chars [of "user @ CHR '':'' # pass"] by (auto simp del: b64_encode.simps)
  then have "trim_space (''Basic '' @ ?code) = ''Basic '' @ ?code"
    by (intro trim_space_plain) (auto simp: plain_iff)
  moreover have "split_first CHR '':'' (user @ CHR '':'' # pass) = (user, Some pass)"
    unfolding split_first_join using assms by simp
  ultimately show ?thesis by (simp add: parseBasicAuth_def b64_decode_encode del: b64_encode.simps)
qed

text \<open>
  Property C16. With authentication switched on, the accounts guard the protected routes. Whatever users were added and
  removed, in whatever order and with whatever outcome, a request passes just when its header decodes to a name that was
  added and not removed since, with a password that bcrypt accepts for the hash made when it was added; and the header
  that a client sends for a name without a colon is decoded to that name and its password.
\<close>

theorem accounts_guard_requests:
  fixes ops :: "account_op list" and sec :: "(string \<rightharpoonup> string) option"
  assumes "\<forall>u. al_unmarshal lib (al_marshal lib u) = Some u"
  defines "db \<equiv> foldl (run_account lib) \<lparr>ad_users = None, ad_secrets = sec\<rparr> ops"
    and "accounts \<equiv> foldl (account_step lib) Map.empty ops"
  shows "(\<forall>header. request_passes lib db \<lparr>rt_store = True, rt_token = tok, rt_authOn = True\<rparr> header =
            (\<exists>u p h. parseBasicAuth (trim_space header) = Some (u, p) \<and> accounts u = Some h \<and> al_compare lib h p)) \<and>
         (CHR '':'' \<notin> set user \<longrightarrow>
            request_passes lib db \<lparr>rt_store = True, rt_token = tok, rt_authOn = True\<rparr>
              (''Basic '' @ b64_encode (user @ CHR '':'' # pass)) =
            (\<exists>h. accounts user = Some h \<and> al_compare lib h pass))"
proof -
  have codec: "user_codec lib" by (rule user_codec.intro) (use assms(1) in blast)
  have "user_codec.stores lib \<lparr>ad_users = None, ad_secrets = sec\<rparr> Map.empty"
    by (simp add: user_codec.stores_def [OF codec] bucket_get_def)
  note passes = user_codec.passes_stored [OF codec user_codec.run_accounts_store [OF codec this, of ops], folded db_def accounts_def]
  show ?thesis unfolding passes by (auto simp: parse_sent simp del: b64_encode.simps append.simps)
qed

theorem accounts_guard_requests_witness:
  "\<exists>db. request_passes plain_auth db \<lparr>rt_store = True, rt_token = True, rt_authOn = True\<rparr>
          (''Basic '' @ b64_encode (''ann'' @ CHR '':'' # ''x:y'')) \<and>
        \<not> request_passes plain_auth db \<lparr>rt_store = True, rt_token = True, rt_authOn = True\<rparr>
          (''Basic '' @ b64_encode (''bob'' @ CHR '':'' # ''pw''))"
proof -
  let ?ops = "[AddAccount 0 5 ''ann'' ''x:y'', AddAccount 1 6 ''bob'' ''pw'', RemoveAccount ''bob'', AddAccount 2 7 ''ann'' ''other'']"
  have law: "\<forall>u. al_unmarshal plain_auth (al_marshal plain_auth u) = Some u" using plain.unmarshal_marshal by blast
  have "CHR '':'' \<notin> set ''ann''" and "CHR '':'' \<notin> set ''bob''" by simp_all
  moreover have "foldl (account_step plain_auth) Map.empty ?ops ''ann'' = Some ''x:y''"
    and "foldl (account_step plain_auth) Map.empty ?ops ''bob'' = None"
    and "al_compare plain_auth ''x:y'' ''x:y''" by (simp_all add: plain_auth_def)
  ultimately show ?thesis
    using accounts_guard_requests [OF law, of None ?ops True "''ann''" "''x:y''"]
      accounts_guard_requests [OF law, of None ?ops True "''bob''" "''pw''"] by (metis option.distinct(1))
qed

section \<open>Where the guards fail\<close>

text \<open>When the database cannot be opened, nobody is asked for a password although authentication is switched on.\<close>

lemma auth_lost_without_database:
  "request_passes lib db (fst (NewRuntimeWithRuntimeState lib now salt accs removable rand False True db)) header"
  by (simp add: NewRuntimeWithRuntimeState_def request_passes_def CheckAuth_def)

text \<open>
  The token that the API stores is never the one asked for: without a token among the arguments and in the
  environment, a server in public mode refuses every shutdown, whatever token it has stored or generated.
\<close>

lemma stored_token_refused:
  assumes "(m, token) = resolveShutdownConfig argMode envMode cfgMode [] [] None"
    and "sc_mode (ConfigureShutdown m token c) = shutdownModePublic"
  shows "authorizeShutdownRequest (ConfigureShutdown m token c) clientIP tokenHeader authHeader = Some ForbiddenError"
proof -
  have "trim_space [] = []" by (simp add: trim_space_def trim_left_def trim_right_def)
  then have "token = []" using assms(1) by (simp add: resolveShutdownConfig_def Let_def)
  then show ?thesis using assms(2) \<open>trim_space [] = []\<close>
    by (simp add: authorizeShutdownRequest_def authorizePublicShutdown_def ConfigureShutdown_def)
qed

text \<open>The migration drops the accounts it cannot add, and removes the file that had them.\<close>

lemma migration_drops_account:
  "let (err, db, gone) = MigrateFromAccsDB plain_auth 0 0 (Some (Some [])) True \<lparr>ad_users = None, ad_secrets = None\<rparr>
   in \<not> err \<and> gone \<and> bucket_get (ad_users db) ''a'' = None \<and> bucket_get (ad_users db) ''b'' \<noteq> None"
  by (simp add: MigrateFromAccsDB_def plain_auth_def UserCount_def migrate_account_def AddUser_def bucket_get_def bucket_put_def Let_def)

text \<open>A hook is called at most once, however often a shutdown is asked for.\<close>

fun request_shutdowns :: "nat \<Rightarrow> shutdownControl \<Rightarrow> nat \<times> shutdownControl" where
  "request_shutdowns 0 c = (0, c)"
| "request_shutdowns (Suc n) c =
     (let ((_, called), c) = RequestShutdown c; (k, c) = request_shutdowns n c in (k + (if called then 1 else 0), c))"

lemma shutdown_hook_once: "fst (request_shutdowns (Suc n) (SetShutdownHook True c)) = 1"
proof -
  have "fst (request_shutdowns k d) = 0" if "sc_requested d" for k d
    using that by (induction k) (auto simp: RequestShutdown_def split: prod.splits)
  then show ?thesis by (simp add: RequestShutdown_def SetShutdownHook_def split: prod.splits) (metis fst_conv select_convs(4) surjective update_convs(4))
qed

end
