(* ===== verification/Torrent_Token.thy ===== *)
theory Torrent_Token
  imports Go_Strings
begin

text \<open>
  The tokens of torrents (package torrshash): a hash and tagged fields, written in a binary form, compressed, and
  spelled in base 62. Bytes are characters here.
\<close>

section \<open>Base 62\<close>

definition base62Alphabet :: string where
  "base62Alphabet = ''0123456789ABCDEFGHIJKLMNOPQRSTUVWXYZabcdefghijklmnopqrstuvwxyz''"

text \<open>\<open>SetBytes\<close> and \<open>Bytes\<close> of the big integers: the number that bytes spell, the first one the highest, and back.\<close>

definition big_of_bytes :: "string \<Rightarrow> nat" where
  "big_of_bytes b = foldl (\<lambda>x c. x * 256 + of_char c) 0 b"

fun big_bytes :: "nat \<Rightarrow> string" where
  "big_bytes x = (if x = 0 then [] else big_bytes (x div 256) @ [char_of (x mod 256)])"

declare big_bytes.simps [simp del]

text \<open>The loop of the encoder, which writes the lowest digit first.\<close>

fun encode_loop :: "nat \<Rightarrow> string" where
  "encode_loop x = (if x = 0 then [] else base62Alphabet ! (x mod 62) # encode_loop (x div 62))"

declare encode_loop.simps [simp del]

definition Encode62 :: "string \<Rightarrow> string" where
  "Encode62 b = rev (encode_loop (big_of_bytes b))"

text \<open>\<open>bytes.IndexByte\<close>.\<close>

fun index_byte :: "string \<Rightarrow> char \<Rightarrow> int" where
  "index_byte [] c = -1"
| "index_byte (d # s) c = (if d = c then 0 else let i = index_byte s c in if i < 0 then -1 else i + 1)"

definition Decode62 :: "string \<Rightarrow> string" where
  "Decode62 s = big_bytes (nat \<bar>foldl (\<lambda>res r. res * 62 + index_byte base62Alphabet (char_of (r mod 256))) 0 (str_runes s)\<bar>)"

definition alphanumeric :: "char \<Rightarrow> bool" where
  "alphanumeric c \<longleftrightarrow> c \<in> set base62Alphabet"

text \<open>\<open>^[a-zA-Z0-9]+$\<close>\<close>

definition IsBase62 :: "string \<Rightarrow> bool" where
  "IsBase62 s \<longleftrightarrow> (let t = trim_space s in t \<noteq> [] \<and> (\<forall>c \<in> set t. alphanumeric c))"

section \<open>Fields\<close>

definition TagTitle :: int where "TagTitle = 0"
definition TagPoster :: int where "TagPoster = 1"
definition TagTracker :: int where "TagTracker = 2"
definition TagCategory :: int where "TagCategory = 3"
definition TagSize :: int where "TagSize = 4"

record Field =
  fl_Tag :: int
  fl_Value :: string

definition Tag_String :: "int \<Rightarrow> string" where
  "Tag_String tag =
     (if tag = TagTitle then ''Title'' else if tag = TagPoster then ''Poster'' else if tag = TagTracker then ''Tracker''
      else if tag = TagCategory then ''Category'' else if tag = TagSize then ''Size'' else ''Unknown'')"

definition isBinary :: "int \<Rightarrow> bool" where
  "isBinary t \<longleftrightarrow>
     (if t = TagTitle \<or> t = TagPoster \<or> t = TagTracker \<or> t = TagCategory then False else t = TagSize)"

text \<open>Integers in little-endian order.\<close>

primrec le_bytes :: "nat \<Rightarrow> nat \<Rightarrow> string" where
  "le_bytes 0 x = []"
| "le_bytes (Suc n) x = char_of (x mod 256) # le_bytes n (x div 256)"

primrec le_value :: "string \<Rightarrow> nat" where
  "le_value [] = 0"
| "le_value (c # s) = of_char c + 256 * le_value s"

text \<open>
  What \<open>write\<close> puts out, \<open>None\<close> for an error. The size is written in eight bytes, the length of another value in two.
\<close>

definition write_field :: "Field \<Rightarrow> string option" where
  "write_field f =
     (let value = trim_space (fl_Value f); tag = char_of (nat (fl_Tag f mod 256)) in
      if value = [] then Some []
      else if isBinary (fl_Tag f) \<and> value = ''0'' then Some []
      else if isBinary (fl_Tag f)
      then (case ParseInt value of
              None \<Rightarrow> None
            | Some ii \<Rightarrow> if ii = 0 then Some [tag] else Some (tag # le_bytes 8 (nat (u64 ii))))
      else Some (tag # le_bytes 2 (length value mod 65536) @ value))"

text \<open>
  What can still be read of a stream: its bytes, and whether it then ends or fails (\<open>in_clean\<close>). A reader may tell the
  end together with the last byte or only after it (\<open>in_eager\<close>).
\<close>

record instream =
  in_bytes :: string
  in_clean :: bool
  in_eager :: bool

text \<open>\<open>io.ReadFull\<close>: that many bytes, or an error.\<close>

definition read_full :: "nat \<Rightarrow> instream \<Rightarrow> (string \<times> instream) option" where
  "read_full n r = (if length (in_bytes r) < n then None
                    else Some (take n (in_bytes r), r\<lparr>in_bytes := drop n (in_bytes r)\<rparr>))"

datatype field_result = NoField | FieldError | GotField Field instream

text \<open>
  The read of the tag only looks at the error \<open>io.EOF\<close>: after another one the tag is taken to be 0, and the next
  read fails.
\<close>

definition ReadField :: "instream \<Rightarrow> field_result" where
  "ReadField r =
     (case in_bytes r of
        [] \<Rightarrow> if in_clean r then NoField else FieldError
      | t # rest \<Rightarrow>
          if rest = [] \<and> in_clean r \<and> in_eager r then NoField
          else let tag = of_char t; r = r\<lparr>in_bytes := rest\<rparr> in
            if isBinary tag
            then (case read_full 8 r of
                    None \<Rightarrow> FieldError
                  | Some (b, r) \<Rightarrow> GotField \<lparr>fl_Tag = tag, fl_Value = FormatInt (i64 (int (le_value b)))\<rparr> r)
            else (case read_full 2 r of
                    None \<Rightarrow> FieldError
                  | Some (b, r) \<Rightarrow>
                      (case read_full (le_value b) r of
                         None \<Rightarrow> FieldError
                       | Some (value, r) \<Rightarrow> GotField \<lparr>fl_Tag = tag, fl_Value = value\<rparr> r)))"

section \<open>Tokens\<close>

record TorrsHash =
  th_Hash :: string
  th_Fields :: "Field list"

definition new_token :: "string \<Rightarrow> TorrsHash" where
  "new_token hash = \<lparr>th_Hash = hash, th_Fields = []\<rparr>"

definition AddField :: "int \<Rightarrow> string \<Rightarrow> TorrsHash \<Rightarrow> TorrsHash" where
  "AddField tag value h = h\<lparr>th_Fields := th_Fields h @ [\<lparr>fl_Tag = tag, fl_Value = value\<rparr>]\<rparr>"

definition first_value :: "int \<Rightarrow> TorrsHash \<Rightarrow> string" where
  "first_value tag h = (case List.find (\<lambda>f. fl_Tag f = tag) (th_Fields h) of None \<Rightarrow> [] | Some f \<Rightarrow> fl_Value f)"

definition token_Title :: "TorrsHash \<Rightarrow> string" where "token_Title h = first_value TagTitle h"
definition token_Poster :: "TorrsHash \<Rightarrow> string" where "token_Poster h = first_value TagPoster h"
definition token_Category :: "TorrsHash \<Rightarrow> string" where "token_Category h = first_value TagCategory h"

definition token_Trackers :: "TorrsHash \<Rightarrow> string list" where
  "token_Trackers h = map fl_Value (filter (\<lambda>f. fl_Tag f = TagTracker) (th_Fields h))"

definition token_String :: "TorrsHash \<Rightarrow> string" where
  "token_String h =
     ''Hash: '' @ th_Hash h @ concat (map (\<lambda>f. '' '' @ Tag_String (fl_Tag f) @ '': '' @ fl_Value f) (th_Fields h))"

text \<open>Package \<open>encoding/hex\<close>.\<close>

definition hex_digits :: string where "hex_digits = ''0123456789abcdef''"

definition hex_value :: "char \<Rightarrow> nat option" where
  "hex_value c = (let i = index_byte hex_digits (lower_char c) in if i < 0 then None else Some (nat i))"

fun hex_decode :: "string \<Rightarrow> string option" where
  "hex_decode [] = Some []"
| "hex_decode [c] = None"
| "hex_decode (c # d # s) =
     (case (hex_value c, hex_value d, hex_decode s) of
        (Some a, Some b, Some r) \<Rightarrow> Some (char_of (16 * a + b) # r) | _ \<Rightarrow> None)"

definition hex_encode :: "string \<Rightarrow> string" where
  "hex_encode b = concat (map (\<lambda>c. [hex_digits ! (of_char c div 16), hex_digits ! (of_char c mod 16)]) b)"

text \<open>
  Package \<open>compress/zlib\<close> is a parameter: what it compresses bytes to, and the stream that it reads from
  bytes, \<open>None\<close> where the header is refused.
\<close>

record zlib_lib =
  zl_compress :: "string \<Rightarrow> string"
  zl_reader :: "string \<Rightarrow> instream option"

fun write_fields :: "Field list \<Rightarrow> string option" where
  "write_fields [] = Some []"
| "write_fields (f # fs) =
     (case write_field f of None \<Rightarrow> None
      | Some b \<Rightarrow> (case write_fields fs of None \<Rightarrow> None | Some bs \<Rightarrow> Some (b @ bs)))"

definition pack_token :: "zlib_lib \<Rightarrow> TorrsHash \<Rightarrow> string option" where
  "pack_token z t =
     (case hex_decode (trim_space (th_Hash t)) of
        None \<Rightarrow> None
      | Some hashBytes \<Rightarrow> map_option (\<lambda>fls. zl_compress z (hashBytes @ fls)) (write_fields (th_Fields t)))"

definition Pack :: "zlib_lib \<Rightarrow> TorrsHash \<Rightarrow> string option" where
  "Pack z hash = map_option Encode62 (pack_token z hash)"

text \<open>The loop that reads the fields, and whether it ends with an error. Each round takes at least three bytes.\<close>

function read_fields :: "instream \<Rightarrow> Field list \<Rightarrow> Field list \<times> bool" where
  "read_fields r fls =
     (case ReadField r of
        NoField \<Rightarrow> (fls, False)
      | FieldError \<Rightarrow> (fls, True)
      | GotField f r \<Rightarrow> read_fields r (fls @ [f]))"
  by pat_completeness auto
termination
  by (relation "measure (\<lambda>(r, fs). length (in_bytes r))")
    (auto simp: ReadField_def read_full_def Let_def split: list.splits if_splits option.splits)

declare read_fields.simps [simp del]

text \<open>The token, if one is returned, and whether there is an error.\<close>

definition unpack_token :: "zlib_lib \<Rightarrow> string \<Rightarrow> TorrsHash option \<times> bool" where
  "unpack_token z data =
     (case zl_reader z data of
        None \<Rightarrow> (None, True)
      | Some r \<Rightarrow>
          (case read_full 20 r of
             None \<Rightarrow> (None, True)
           | Some (hashBuf, r) \<Rightarrow>
               let (fls, err) = read_fields r [] in (Some \<lparr>th_Hash = hex_encode hashBuf, th_Fields = fls\<rparr>, err)))"

definition Unpack :: "zlib_lib \<Rightarrow> string \<Rightarrow> TorrsHash option \<times> bool" where
  "Unpack z token = unpack_token z (Decode62 (trim_space token))"

section \<open>Base 62 round trip\<close>

lemma big_of_bytes_snoc [simp]: "big_of_bytes (b @ [c]) = big_of_bytes b * 256 + of_char c"
  by (simp add: big_of_bytes_def)

lemma big_of_bytes_pos: "b \<noteq> [] \<Longrightarrow> of_char (hd b) \<noteq> (0 :: nat) \<Longrightarrow> 0 < big_of_bytes b"
proof (induction b rule: rev_induct)
  case (snoc c b)
  then show ?case by (cases b) (auto simp: big_of_bytes_def)
qed simp

lemma of_char_lt: "(of_char c :: nat) < 256"
  by (metis nat_of_char_less_256)

lemma big_bytes_inverse: "b = [] \<or> of_char (hd b) \<noteq> (0 :: nat) \<Longrightarrow> big_bytes (big_of_bytes b) = b"
proof (induction b rule: rev_induct)
  case Nil
  show ?case by (simp add: big_of_bytes_def big_bytes.simps)
next
  case (snoc c b)
  have pos: "0 < big_of_bytes (b @ [c])" using snoc.prems by (intro big_of_bytes_pos) auto
  have b: "big_bytes (big_of_bytes b) = b" using snoc by (cases b) auto
  have "big_bytes (big_of_bytes b * 256 + of_char c) = big_bytes (big_of_bytes b) @ [c]"
    using pos of_char_lt [of c] by (subst big_bytes.simps) simp
  with b show ?case by simp
qed

lemma alphabet_index: "k < 62 \<Longrightarrow> index_byte base62Alphabet (base62Alphabet ! k) = int k"
proof -
  have "\<forall>k < (62 :: nat). index_byte base62Alphabet (base62Alphabet ! k) = int k" by code_simp
  then show "k < 62 \<Longrightarrow> ?thesis" by blast
qed

lemma alphabet_plain: "set base62Alphabet \<subseteq> set plain_chars"
  by (simp add: base62Alphabet_def plain_iff)

lemma encode_loop_chars: "set (encode_loop x) \<subseteq> set base62Alphabet"
proof (induction x rule: encode_loop.induct)
  case (1 x)
  have "x mod 62 < length base62Alphabet" by (simp add: base62Alphabet_def)
  then show ?case using 1 nth_mem by (subst encode_loop.simps) auto
qed

definition decode_digits :: "string \<Rightarrow> int" where
  "decode_digits s = foldl (\<lambda>res c. res * 62 + index_byte base62Alphabet c) 0 s"

lemma decode_encode: "decode_digits (rev (encode_loop x)) = int x"
proof (induction x rule: encode_loop.induct)
  case (1 x)
  show ?case
  proof (cases "x = 0")
    case False
    have "decode_digits (rev (encode_loop x)) = decode_digits (rev (encode_loop (x div 62))) * 62 + int (x mod 62)"
      using False alphabet_index [of "x mod 62"] by (subst encode_loop.simps) (simp add: decode_digits_def)
    then show ?thesis using 1 False
      by simp (metis div_mult_mod_eq of_nat_add of_nat_mult of_nat_numeral)
  qed (simp add: encode_loop.simps decode_digits_def)
qed

lemma foldl_map_runes: "foldl (\<lambda>res r. res * 62 + index_byte base62Alphabet (char_of (r mod 256))) z (map (of_char :: char \<Rightarrow> nat) s) =
    foldl (\<lambda>res c. res * 62 + index_byte base62Alphabet c) z s"
  by (induction s arbitrary: z) (simp_all add: of_char_lt)

lemma Encode62_chars: "set (Encode62 b) \<subseteq> set plain_chars"
  using encode_loop_chars alphabet_plain by (simp add: Encode62_def) (meson subset_trans)

lemma Decode62_Encode62:
  assumes "b = [] \<or> of_char (hd b) \<noteq> (0 :: nat)"
  shows "Decode62 (Encode62 b) = b"
proof -
  have "\<forall>c \<in> set (Encode62 b). (of_char c :: nat) < 128" using Encode62_chars [of b] plain_iff by fastforce
  then have "Decode62 (Encode62 b) = big_bytes (nat \<bar>decode_digits (Encode62 b)\<bar>)"
    unfolding Decode62_def decode_digits_def by (simp only: str_runes_ascii foldl_map_runes)
  also have "\<dots> = b" using assms by (simp add: Encode62_def decode_encode big_bytes_inverse)
  finally show ?thesis .
qed

lemma trim_Encode62: "trim_space (Encode62 b) = Encode62 b"
proof (cases "Encode62 b = []")
  case False
  then show ?thesis using Encode62_chars [of b] by (intro trim_space_plain) (auto simp: subset_iff)
qed (simp add: trim_space_def trim_left_def trim_right_def)

section \<open>Field round trip\<close>

lemma length_le_bytes [simp]: "length (le_bytes n x) = n"
  by (induction n arbitrary: x) simp_all

lemma le_value_le_bytes: "x < 256 ^ n \<Longrightarrow> le_value (le_bytes n x) = x"
proof (induction n arbitrary: x)
  case (Suc n)
  then have "x div 256 < 256 ^ n" by (simp add: less_mult_imp_div_less mult.commute)
  then show ?case using Suc.IH by (simp add: of_char_of)
qed simp

lemma i64_u64: "fits_i64 i \<Longrightarrow> i64 (u64 i) = i"
proof -
  assume fits: "fits_i64 i"
  have "u64 i mod 18446744073709551616 = i mod 18446744073709551616" by (simp add: u64_def)
  then show "i64 (u64 i) = i" using i64_cong i64_id [OF fits] by metis
qed

text \<open>A field that reads back: a size is empty, spelled \<open>0\<close>, or a number that is not zero.\<close>

definition field_ok :: "Field \<Rightarrow> bool" where
  "field_ok f \<longleftrightarrow>
     0 \<le> fl_Tag f \<and> fl_Tag f < 256 \<and>
     (let value = trim_space (fl_Value f)
      in if isBinary (fl_Tag f) then value = [] \<or> value = ''0'' \<or> (\<exists>i. ParseInt value = Some i \<and> i \<noteq> 0)
         else length value < 65536)"

text \<open>What comes back of a field.\<close>

definition kept_field :: "Field \<Rightarrow> Field list" where
  "kept_field f =
     (let value = trim_space (fl_Value f)
      in if value = [] \<or> (isBinary (fl_Tag f) \<and> value = ''0'') then []
         else [f\<lparr>fl_Value := (if isBinary (fl_Tag f) then FormatInt (the (ParseInt value)) else value)\<rparr>])"

lemma ParseInt_fits: "ParseInt s = Some i \<Longrightarrow> fits_i64 i"
  by (auto simp: ParseInt_def Let_def split: option.splits if_splits list.splits)

lemma le_bytes_ne: "0 < n \<Longrightarrow> le_bytes n x \<noteq> []"
  by (cases n) simp_all

lemma read_binary:
  assumes "isBinary (of_char t)" and "fits_i64 i"
  shows "ReadField (r\<lparr>in_bytes := t # le_bytes 8 (nat (u64 i)) @ rest\<rparr>) =
         GotField \<lparr>fl_Tag = of_char t, fl_Value = FormatInt i\<rparr> (r\<lparr>in_bytes := rest\<rparr>)"
proof -
  have "0 \<le> u64 i" and "nat (u64 i) < 256 ^ 8" by (simp_all add: u64_def nat_less_iff)
  then have "le_value (le_bytes 8 (nat (u64 i))) = nat (u64 i)" by (intro le_value_le_bytes)
  moreover have "le_bytes 8 n \<noteq> []" for n by (simp add: le_bytes_ne)
  ultimately show ?thesis using assms(1) i64_u64 [OF assms(2)] \<open>0 \<le> u64 i\<close>
    by (simp add: ReadField_def read_full_def Let_def)
qed

lemma read_text:
  assumes "\<not> isBinary (of_char t)" and "length v < 65536"
  shows "ReadField (r\<lparr>in_bytes := t # le_bytes 2 (length v) @ v @ rest\<rparr>) =
         GotField \<lparr>fl_Tag = of_char t, fl_Value = v\<rparr> (r\<lparr>in_bytes := rest\<rparr>)"
proof -
  have "le_value (le_bytes 2 (length v)) = length v" using assms(2) by (intro le_value_le_bytes) simp
  moreover have "le_bytes 2 n \<noteq> []" for n by (simp add: le_bytes_ne)
  ultimately show ?thesis using assms(1) by (simp add: ReadField_def read_full_def Let_def)
qed

lemma tag_char: "0 \<le> tag \<Longrightarrow> tag < 256 \<Longrightarrow> (of_char (char_of (nat (tag mod 256))) :: int) = tag"
  using of_nat_of_char [where 'a = int, of "char_of (nat tag)"] by (simp add: of_char_of nat_mod_as_int)

lemma read_written:
  assumes "field_ok f"
  shows "\<exists>b. write_field f = Some b \<and>
    (case kept_field f of [] \<Rightarrow> b = []
     | g # _ \<Rightarrow> ReadField (r\<lparr>in_bytes := b @ rest\<rparr>) = GotField g (r\<lparr>in_bytes := rest\<rparr>))"
proof -
  define v tag where "v = trim_space (fl_Value f)" and "tag = char_of (nat (fl_Tag f mod 256))"
  have tag: "(of_char tag :: int) = fl_Tag f" unfolding tag_def using assms by (intro tag_char) (simp_all add: field_ok_def)
  consider "v = [] \<or> (isBinary (fl_Tag f) \<and> v = ''0'')"
    | i where "isBinary (fl_Tag f)" "v \<noteq> []" "v \<noteq> ''0''" "ParseInt v = Some i" "i \<noteq> 0"
    | "\<not> isBinary (fl_Tag f)" "v \<noteq> []" "length v < 65536"
    using assms by (auto simp: field_ok_def v_def [symmetric] Let_def split: if_splits)
  then show ?thesis
  proof cases
    case 1
    then show ?thesis by (auto simp: write_field_def kept_field_def v_def [symmetric] Let_def)
  next
    case 2
    then have "write_field f = Some (tag # le_bytes 8 (nat (u64 i)))"
      by (simp add: write_field_def v_def [symmetric] tag_def [symmetric] Let_def)
    moreover have "kept_field f = [\<lparr>fl_Tag = fl_Tag f, fl_Value = FormatInt i\<rparr>]"
      using 2 by (simp add: kept_field_def v_def [symmetric] Let_def)
    ultimately show ?thesis using read_binary [where t = tag and i = i and r = r and rest = rest] 2 tag ParseInt_fits by simp
  next
    case 3
    then have "write_field f = Some (tag # le_bytes 2 (length v) @ v)"
      by (simp add: write_field_def v_def [symmetric] tag_def [symmetric] Let_def)
    moreover have "kept_field f = [\<lparr>fl_Tag = fl_Tag f, fl_Value = v\<rparr>]"
      using 3 by (simp add: kept_field_def v_def [symmetric] Let_def)
    ultimately show ?thesis using read_text [where t = tag and v = v and r = r and rest = rest] 3 tag by simp
  qed
qed

lemma read_all_written:
  "\<forall>f \<in> set fs. field_ok f \<Longrightarrow> in_clean r \<Longrightarrow>
   \<exists>b. write_fields fs = Some b \<and> read_fields (r\<lparr>in_bytes := b\<rparr>) acc = (acc @ concat (map kept_field fs), False)"
proof (induction fs arbitrary: acc)
  case Nil
  then show ?case by (simp add: read_fields.simps [where r = "r\<lparr>in_bytes := []\<rparr>"] ReadField_def)
next
  case (Cons f fs)
  obtain bs where bs: "write_fields fs = Some bs" using Cons.IH Cons.prems by fastforce
  have rest: "read_fields (r\<lparr>in_bytes := bs\<rparr>) acc' = (acc' @ concat (map kept_field fs), False)" for acc'
    using Cons.IH [of acc'] Cons.prems bs by simp
  obtain b where b: "write_field f = Some b" and read: "case kept_field f of [] \<Rightarrow> b = []
     | g # _ \<Rightarrow> ReadField (r\<lparr>in_bytes := b @ bs\<rparr>) = GotField g (r\<lparr>in_bytes := bs\<rparr>)"
    using read_written [where f = f and r = r and rest = bs] Cons.prems by auto
  have "read_fields (r\<lparr>in_bytes := b @ bs\<rparr>) acc = (acc @ kept_field f @ concat (map kept_field fs), False)"
  proof (cases "kept_field f")
    case Nil
    then show ?thesis using read rest by simp
  next
    case (Cons g gs)
    have "gs = []" using Cons by (auto simp: kept_field_def Let_def split: if_splits)
    then show ?thesis using read rest Cons by (simp add: read_fields.simps [where r = "r\<lparr>in_bytes := b @ bs\<rparr>"])
  qed
  then show ?case by (simp add: b bs)
qed

section \<open>Token round trip\<close>

text \<open>What the code relies on of zlib. A stream begins with the header, whose first byte is not 0.\<close>

locale zlib_codec =
  fixes z :: zlib_lib
  assumes reader_compress: "\<exists>eager. zl_reader z (zl_compress z x) = Some \<lparr>in_bytes = x, in_clean = True, in_eager = eager\<rparr>"
    and header: "zl_compress z x \<noteq> [] \<and> of_char (hd (zl_compress z x)) \<noteq> (0 :: nat)"
begin

lemma unpack_pack:
  assumes "hex_decode (trim_space (th_Hash t)) = Some h" and "length h = 20" and "\<forall>f \<in> set (th_Fields t). field_ok f"
  shows "\<exists>token. Pack z t = Some token \<and>
    Unpack z token = (Some \<lparr>th_Hash = hex_encode h, th_Fields = concat (map kept_field (th_Fields t))\<rparr>, False)"
proof -
  obtain b where b: "write_fields (th_Fields t) = Some b"
    using read_all_written [OF assms(3), of "\<lparr>in_bytes = [], in_clean = True, in_eager = False\<rparr>"] by auto
  obtain eager where r: "zl_reader z (zl_compress z (h @ b)) = Some \<lparr>in_bytes = h @ b, in_clean = True, in_eager = eager\<rparr>"
    using reader_compress by blast
  have "read_fields \<lparr>in_bytes = b, in_clean = True, in_eager = eager\<rparr> [] = (concat (map kept_field (th_Fields t)), False)"
    using read_all_written [OF assms(3), of "\<lparr>in_bytes = [], in_clean = True, in_eager = eager\<rparr>" "[]"] b by simp
  moreover have "Decode62 (trim_space (Encode62 (zl_compress z (h @ b)))) = zl_compress z (h @ b)"
    using header by (simp add: trim_Encode62 Decode62_Encode62)
  ultimately show ?thesis using assms(1,2) r b
    by (simp add: Pack_def pack_token_def Unpack_def unpack_token_def read_full_def)
qed

end

lemma index_byte_nth: "0 \<le> index_byte s c \<Longrightarrow> nat (index_byte s c) < length s \<and> s ! nat (index_byte s c) = c"
  by (induction s) (auto simp: Let_def nat_add_distrib split: if_splits)

lemma hex_pair: "hex_value c = Some a \<Longrightarrow> a < 16 \<and> hex_digits ! a = lower_char c"
  using index_byte_nth [of hex_digits "lower_char c"]
  by (auto simp: hex_value_def Let_def hex_digits_def split: if_splits)

lemma hex_encode_decode: "hex_decode s = Some h \<Longrightarrow> hex_encode h = map lower_char s"
proof (induction s arbitrary: h rule: hex_decode.induct)
  case (3 c d s)
  then show ?case using hex_pair [of c] hex_pair [of d]
    by (auto simp: hex_encode_def of_char_of split: option.splits)
qed (simp_all add: hex_encode_def)

text \<open>
  The limits of the form: the length of a value is written modulo 64 KiB, so a longer value comes back cut and the
  rest of it is read as further fields; and a size that is 0 in another spelling leaves its tag behind.
\<close>

lemma long_value_cut:
  assumes "\<not> isBinary (fl_Tag f)" and "0 \<le> fl_Tag f" and "fl_Tag f < 256" and "65536 \<le> length (trim_space (fl_Value f))"
  shows "\<exists>b g rest. write_field f = Some b \<and> ReadField (r\<lparr>in_bytes := b\<rparr>) = GotField g rest \<and>
    length (fl_Value g) < 65536 \<and> in_bytes rest \<noteq> []"
proof -
  define v k where "v = trim_space (fl_Value f)" and "k = length v mod 65536"
  define u w where "u = take k v" and "w = drop k v"
  have uw: "v = u @ w" "length u = k" "w \<noteq> []"
    using assms(4) by (auto simp: u_def w_def k_def v_def [symmetric] min_def)
  let ?t = "char_of (nat (fl_Tag f mod 256))"
  have t: "(of_char ?t :: int) = fl_Tag f" using assms(2,3) by (rule tag_char)
  have "v \<noteq> []" using uw by auto
  then have "write_field f = Some (?t # le_bytes 2 (length u) @ u @ w)"
    using assms(1) uw by (simp add: write_field_def v_def [symmetric] k_def Let_def)
  moreover have "length u < 65536" using uw(2) by (simp add: k_def)
  then have "ReadField (r\<lparr>in_bytes := ?t # le_bytes 2 (length u) @ u @ w\<rparr>) =
      GotField \<lparr>fl_Tag = of_char ?t, fl_Value = u\<rparr> (r\<lparr>in_bytes := w\<rparr>)"
    using assms(1) t by (intro read_text) simp_all
  ultimately show ?thesis using \<open>length u < 65536\<close> uw(3) by auto
qed

lemma zero_size_leaves_tag: "write_field \<lparr>fl_Tag = TagSize, fl_Value = ''00''\<rparr> = Some [CHR 0x04]"
  by code_simp

text \<open>A codec that stores the bytes behind a header of two.\<close>

definition stored_zlib :: zlib_lib where
  "stored_zlib =
     \<lparr>zl_compress = (\<lambda>x. CHR ''x'' # CHR 0x01 # x),
      zl_reader = (\<lambda>b. case b of c # d # x \<Rightarrow>
        if c = CHR ''x'' \<and> d = CHR 0x01 then Some \<lparr>in_bytes = x, in_clean = True, in_eager = True\<rparr> else None | _ \<Rightarrow> None)\<rparr>"

interpretation stored: zlib_codec stored_zlib
  by unfold_locales (auto simp: stored_zlib_def)

text \<open>
  Property C14. A token gives back what was packed into it. For a hash of 40 hexadecimal digits and fields with tags up to 255
  whose values, trimmed, are shorter than 64 KiB and whose size is empty, spelled 0 or a number of 64 bits other than zero,
  \<open>Pack\<close> returns a token, and \<open>Unpack\<close> of it returns, without an error, the hash in lower case and the fields in their
  order, with their values trimmed, a size in its normal spelling, and without empty ones and a size of 0. Another spelling of zero, as 00,
  is left out: its token does not read back, as \<open>zero_size_leaves_tag\<close> shows. The compression is only asked to give back what
  it is given and to begin with a byte other than 0, without which the spelling in base 62 would lose it.
\<close>

theorem token_roundtrip:
  assumes "\<forall>x. \<exists>eager. zl_reader z (zl_compress z x) = Some \<lparr>in_bytes = x, in_clean = True, in_eager = eager\<rparr>"
    and "\<forall>x. zl_compress z x \<noteq> [] \<and> of_char (hd (zl_compress z x)) \<noteq> (0 :: nat)"
    and "hex_decode (trim_space (th_Hash t)) = Some h" and "length h = 20" and "\<forall>f \<in> set (th_Fields t). field_ok f"
  shows "\<exists>token. Pack z t = Some token \<and>
    Unpack z token =
      (Some \<lparr>th_Hash = map lower_char (trim_space (th_Hash t)), th_Fields = concat (map kept_field (th_Fields t))\<rparr>, False)"
proof -
  have "zlib_codec z" using assms(1,2) by unfold_locales blast+
  from zlib_codec.unpack_pack [OF this assms(3-5)] show ?thesis by (simp add: hex_encode_decode [OF assms(3)])
qed

definition demo_token :: TorrsHash where
  "demo_token = AddField TagSize ''1024'' (AddField TagTitle '' A film '' (AddField TagPoster []
     (new_token ''0123456789ABCDEF0123456789abcdef01234567'')))"

theorem token_roundtrip_witness:
  "\<exists>token. Pack stored_zlib demo_token = Some token \<and>
    Unpack stored_zlib token =
      (Some \<lparr>th_Hash = ''0123456789abcdef0123456789abcdef01234567'',
             th_Fields = [\<lparr>fl_Tag = 0, fl_Value = ''A film''\<rparr>, \<lparr>fl_Tag = 4, fl_Value = ''1024''\<rparr>]\<rparr>, False)"
proof -
  have "map_option length (hex_decode (trim_space (th_Hash demo_token))) = Some 20" by code_simp
  then obtain h where h: "hex_decode (trim_space (th_Hash demo_token)) = Some h" and "length h = 20" by auto
  have fields: "list_all (\<lambda>f. 0 \<le> fl_Tag f \<and> fl_Tag f < 256 \<and>
      (if isBinary (fl_Tag f) then trim_space (fl_Value f) = ''1024'' else length (trim_space (fl_Value f)) < 10))
      (th_Fields demo_token)" by code_simp
  have "ParseInt ''1024'' = Some 1024" by code_simp
  then have ok: "\<forall>f \<in> set (th_Fields demo_token). field_ok f"
    using fields by (auto simp: list_all_iff field_ok_def)
  have "map lower_char (trim_space (th_Hash demo_token)) = ''0123456789abcdef0123456789abcdef01234567''" by code_simp
  moreover have "concat (map kept_field (th_Fields demo_token)) =
      [\<lparr>fl_Tag = 0, fl_Value = ''A film''\<rparr>, \<lparr>fl_Tag = 4, fl_Value = ''1024''\<rparr>]" by code_simp
  ultimately show ?thesis
    using token_roundtrip [of stored_zlib demo_token h] h \<open>length h = 20\<close> ok
    by (simp add: stored.reader_compress stored.header)
qed

end
