(* ===== verification/Utilities.thy ===== *)
theory Utilities
  imports Go_Paths
begin

text \<open>
  The helpers of package utils: the order of file names (strings.go) and the kinds of files (filetypes.go), the
  circuit breaker (circuitbreaker/circuitbreaker.go) and the retries (retry/retry.go).
\<close>

section \<open>File names\<close>

fun CommonPrefix :: "string \<Rightarrow> string \<Rightarrow> string" where
  "CommonPrefix (c # a) (d # b) = (if c \<noteq> d then [] else c # CommonPrefix a b)"
| "CommonPrefix _ _ = []"

text \<open>\<open>unicode.IsDigit\<close> of a byte holds of the ten digits only; \<open>strconv.Atoi\<close> refuses the empty string.\<close>

definition NumberPrefix :: "string \<Rightarrow> int option" where
  "NumberPrefix str = ParseInt (takeWhile (\<lambda>c. digit_value c \<noteq> None) str)"

fun string_less :: "string \<Rightarrow> string \<Rightarrow> bool" where
  "string_less [] b = (b \<noteq> [])"
| "string_less (x # a) [] = False"
| "string_less (x # a) (y # b) = ((of_char x :: nat) < of_char y \<or> (x = y \<and> string_less a b))"

definition CompareStrings :: "string \<Rightarrow> string \<Rightarrow> bool" where
  "CompareStrings first second =
     (let commonPrefix = CommonPrefix first second;
          resultStr1 = trim_prefix first commonPrefix; resultStr2 = trim_prefix second commonPrefix;
          num1 = NumberPrefix resultStr1; num2 = NumberPrefix resultStr2
      in case (num1, num2) of
           (Some n1, Some n2) \<Rightarrow> n1 < n2
         | (Some _, None) \<Rightarrow> True
         | (None, Some _) \<Rightarrow> False
         | (None, None) \<Rightarrow> string_less resultStr1 resultStr2)"

definition extVideo :: "string list" where
  "extVideo = [''.3g2'', ''.3gp'', ''.aaf'', ''.asf'', ''.avchd'', ''.avi'', ''.drc'', ''.flv'', ''.m2ts'', ''.m2v'',
     ''.m4p'', ''.m4v'', ''.mkv'', ''.mng'', ''.mov'', ''.mp2'', ''.mp4'', ''.mpe'', ''.mpeg'', ''.mpg'', ''.mpv'',
     ''.mts'', ''.mxf'', ''.nsv'', ''.ogg'', ''.ogv'', ''.qt'', ''.rm'', ''.rmvb'', ''.roq'', ''.svi'', ''.ts'',
     ''.vob'', ''.webm'', ''.wmv'', ''.yuv'']"

definition extAudio :: "string list" where
  "extAudio = [''.aac'', ''.aiff'', ''.ape'', ''.au'', ''.dff'', ''.dsd'', ''.dsf'', ''.flac'', ''.gsm'', ''.it'',
     ''.m3u'', ''.m4a'', ''.mid'', ''.mod'', ''.mp3'', ''.mpa'', ''.mpga'', ''.oga'', ''.ogg'', ''.opus'', ''.pls'',
     ''.ra'', ''.s3m'', ''.sid'', ''.spx'', ''.wav'', ''.wma'', ''.xm'']"

definition GetMimeType :: "string \<Rightarrow> string" where
  "GetMimeType filename =
     (let ext = to_lower (file_ext filename)
      in if ext \<in> set extVideo then ''video/*'' else if ext \<in> set extAudio then ''audio/*'' else ''*/*'')"

record TorrentFileStat =
  ft_ID :: int
  ft_Path :: string
  ft_Length :: int

definition GetPlayableFiles :: "TorrentFileStat list \<Rightarrow> TorrentFileStat list" where
  "GetPlayableFiles fileStats = filter (\<lambda>f. GetMimeType (ft_Path f) \<noteq> ''*/*'') fileStats"

section \<open>The circuit breaker\<close>

datatype breaker_mode = StateClosed | StateOpen | StateHalfOpen

text \<open>\<open>bc_ReadyToTrip\<close> is \<open>None\<close> when the function is not given. The callbacks only report.\<close>

record breaker_config =
  bc_FailureThreshold :: int
  bc_SuccessThreshold :: int
  bc_Timeout :: int
  bc_HalfOpenMaxCalls :: int
  bc_ReadyToTrip :: "(int \<Rightarrow> int \<Rightarrow> bool) option"

record CircuitBreaker =
  cb_config :: breaker_config
  cb_state :: breaker_mode
  cb_failures :: int
  cb_successes :: int
  cb_totalCalls :: int
  cb_lastAttempt :: int
  cb_halfOpenCalls :: int
  cb_openTime :: int

definition defaultReadyToTrip :: "int \<Rightarrow> int \<Rightarrow> bool" where
  "defaultReadyToTrip failures totalCalls \<longleftrightarrow> failures \<ge> 5"

definition DefaultConfig :: breaker_config where
  "DefaultConfig = \<lparr>bc_FailureThreshold = 5, bc_SuccessThreshold = 3, bc_Timeout = 30 * 1000000000,
     bc_HalfOpenMaxCalls = 3, bc_ReadyToTrip = None\<rparr>"

definition new_breaker :: "breaker_config \<Rightarrow> CircuitBreaker" where
  "new_breaker config =
     \<lparr>cb_config = (if bc_ReadyToTrip config = None then config\<lparr>bc_ReadyToTrip := Some defaultReadyToTrip\<rparr> else config),
      cb_state = StateClosed, cb_failures = 0, cb_successes = 0, cb_totalCalls = 0, cb_lastAttempt = 0,
      cb_halfOpenCalls = 0, cb_openTime = 0\<rparr>"

definition shouldAllowHalfOpen :: "int \<Rightarrow> CircuitBreaker \<Rightarrow> bool" where
  "shouldAllowHalfOpen now cb \<longleftrightarrow>
     (if bc_Timeout (cb_config cb) \<le> 0 then True else time_sub now (cb_openTime cb) \<ge> bc_Timeout (cb_config cb))"

text \<open>The counters are 32 bits wide. The result tells whether the call is admitted.\<close>

definition Allow :: "int \<Rightarrow> CircuitBreaker \<Rightarrow> bool \<times> CircuitBreaker" where
  "Allow now cb =
     (case cb_state cb of
        StateClosed \<Rightarrow> (True, cb)
      | StateOpen \<Rightarrow>
          if shouldAllowHalfOpen now cb then (True, cb\<lparr>cb_state := StateHalfOpen, cb_halfOpenCalls := 0\<rparr>) else (False, cb)
      | StateHalfOpen \<Rightarrow>
          if cb_halfOpenCalls cb \<ge> i32 (bc_HalfOpenMaxCalls (cb_config cb)) then (False, cb)
          else (True, cb\<lparr>cb_halfOpenCalls := i32 (cb_halfOpenCalls cb + 1)\<rparr>))"

definition recordSuccess :: "CircuitBreaker \<Rightarrow> CircuitBreaker" where
  "recordSuccess cb =
     (let cb = cb\<lparr>cb_failures := 0, cb_totalCalls := i32 (cb_totalCalls cb + 1)\<rparr>
      in if cb_state cb = StateHalfOpen
         then let cb = cb\<lparr>cb_successes := i32 (cb_successes cb + 1)\<rparr>
              in if cb_successes cb \<ge> i32 (bc_SuccessThreshold (cb_config cb))
                 then cb\<lparr>cb_state := StateClosed, cb_successes := 0, cb_halfOpenCalls := 0\<rparr> else cb
         else cb)"

definition recordFailure :: "int \<Rightarrow> CircuitBreaker \<Rightarrow> CircuitBreaker" where
  "recordFailure now cb =
     (let cb = cb\<lparr>cb_failures := i32 (cb_failures cb + 1), cb_totalCalls := i32 (cb_totalCalls cb + 1),
                  cb_lastAttempt := now div 1000000000\<rparr>
      in case cb_state cb of
           StateHalfOpen \<Rightarrow> cb\<lparr>cb_state := StateOpen, cb_openTime := now, cb_successes := 0, cb_halfOpenCalls := 0\<rparr>
         | StateClosed \<Rightarrow>
             (case bc_ReadyToTrip (cb_config cb) of
                None \<Rightarrow> cb
              | Some ready \<Rightarrow> if ready (cb_failures cb) (cb_totalCalls cb)
                              then cb\<lparr>cb_state := StateOpen, cb_openTime := now\<rparr> else cb)
         | StateOpen \<Rightarrow> cb)"

text \<open>A call, and whether the function it runs fails. The result is \<open>None\<close> for a call that is blocked.\<close>

definition breaker_Execute :: "int \<Rightarrow> int \<Rightarrow> bool \<Rightarrow> CircuitBreaker \<Rightarrow> bool option \<times> CircuitBreaker" where
  "breaker_Execute now later fails cb =
     (let (ok, cb) = Allow now cb in
      if \<not> ok then (None, cb)
      else if fails then (Some True, recordFailure later cb) else (Some False, recordSuccess cb))"

primrec breaker_run :: "(int \<times> int \<times> bool) list \<Rightarrow> CircuitBreaker \<Rightarrow> bool option list \<times> CircuitBreaker" where
  "breaker_run [] cb = ([], cb)"
| "breaker_run (c # cs) cb =
     (let (now, later, fails) = c; (r, cb) = breaker_Execute now later fails cb; (rs, cb) = breaker_run cs cb in (r # rs, cb))"

text \<open>The breaker of the torznab search (torznab/torznab.go).\<close>

definition torznab_breaker :: CircuitBreaker where
  "torznab_breaker = new_breaker \<lparr>bc_FailureThreshold = 5, bc_SuccessThreshold = 2, bc_Timeout = 30 * 1000000000,
     bc_HalfOpenMaxCalls = 0, bc_ReadyToTrip = None\<rparr>"

section \<open>Retries\<close>

record retry_config =
  rt_MaxAttempts :: int
  rt_InitialDelay :: int
  rt_MaxDelay :: int
  rt_Multiplier :: rat

definition retry_DefaultConfig :: retry_config where
  "retry_DefaultConfig = \<lparr>rt_MaxAttempts = 3, rt_InitialDelay = 1000000000, rt_MaxDelay = 10 * 1000000000, rt_Multiplier = 2\<rparr>"

text \<open>
  One round: whether the context is done before it, the answer of the function, whether an error says of itself that
  it is not temporary, and whether the context is done before the delay is over.
\<close>

record 'a retry_round =
  rr_cancelled :: bool
  rr_answer :: "'a option"
  rr_permanent :: bool
  rr_cancelledWaiting :: bool

datatype 'a retry_result = RetryValue 'a | RetryCancelled | RetryError | RetryExceeded

definition next_delay :: "retry_config \<Rightarrow> int \<Rightarrow> int" where
  "next_delay cfg delay = min (int64_of_float (float64 (float64 (of_int delay) * rt_Multiplier cfg))) (rt_MaxDelay cfg)"

text \<open>
  The loop from an attempt on: the result and the delays that were waited for. Where the rounds end the function has
  not returned yet, \<open>None\<close>.
\<close>

fun retry_loop :: "retry_config \<Rightarrow> 'a retry_round list \<Rightarrow> int \<Rightarrow> int \<Rightarrow> ('a retry_result \<times> int list) option" where
  "retry_loop cfg [] attempt delay = (if attempt \<le> rt_MaxAttempts cfg then None else Some (RetryExceeded, []))"
| "retry_loop cfg (r # rs) attempt delay =
     (if \<not> attempt \<le> rt_MaxAttempts cfg then Some (RetryExceeded, [])
      else if rr_cancelled r then Some (RetryCancelled, [])
      else case rr_answer r of
          Some v \<Rightarrow> Some (RetryValue v, [])
        | None \<Rightarrow>
            if rr_permanent r then Some (RetryError, [])
            else if attempt \<ge> rt_MaxAttempts cfg then Some (RetryExceeded, [])
            else if rr_cancelledWaiting r then Some (RetryCancelled, [])
            else map_option (\<lambda>(res, waits). (res, delay # waits)) (retry_loop cfg rs (attempt + 1) (next_delay cfg delay)))"

definition retry_Do :: "retry_config \<Rightarrow> 'a retry_round list \<Rightarrow> ('a retry_result \<times> int list) option" where
  "retry_Do cfg rounds = retry_loop cfg rounds 1 (rt_InitialDelay cfg)"

section \<open>What holds of them\<close>

lemma CommonPrefix_sym: "CommonPrefix a b = CommonPrefix b a"
  by (induction a b rule: CommonPrefix.induct) auto

lemma string_less_asym: "string_less a b \<Longrightarrow> \<not> string_less b a"
proof (induction a b rule: string_less.induct)
  case (1 b)
  then show ?case by (cases b) simp_all
qed auto

lemma CompareStrings_asym: "CompareStrings a b \<Longrightarrow> \<not> CompareStrings b a"
  using string_less_asym by (auto simp: CompareStrings_def Let_def CommonPrefix_sym [of b a] split: option.splits)

lemma no_order_on_cycle:
  assumes "P a b" and "P b c" and "P c a" and "set xs = {a, b, c}" and "a \<noteq> b" "b \<noteq> c" "c \<noteq> a"
  shows "\<not> sorted_wrt (\<lambda>x y. \<not> P y x) xs"
proof (cases xs)
  case (Cons x ys)
  have "x \<in> {a, b, c}" and "{a, b, c} - {x} \<subseteq> set ys" unfolding assms(4) [symmetric] by (auto simp: Cons)
  then have "x = a \<and> c \<in> set ys \<or> x = b \<and> a \<in> set ys \<or> x = c \<and> b \<in> set ys" using assms(5-7) by auto
  then show ?thesis using assms(1-3) by (auto simp: Cons)
qed (use assms(4) in simp)

text \<open>
  The order of the file names of a torrent is no order: of the episodes 1, 2 and 10 the tenth comes before the first,
  the first before the second and the second before the tenth, so that no arrangement of the three files is sorted, and
  the numbers that the files of such a torrent get depend on the way the sorting goes.
\<close>

theorem episode_order_has_cycle:
  "CompareStrings ''show/ep10.mkv'' ''show/ep1.mkv'' \<and> CompareStrings ''show/ep1.mkv'' ''show/ep2.mkv'' \<and>
   CompareStrings ''show/ep2.mkv'' ''show/ep10.mkv'' \<and>
   \<not> (\<exists>fs. set fs = {''show/ep1.mkv'', ''show/ep2.mkv'', ''show/ep10.mkv''} \<and>
      sorted_wrt (\<lambda>a b. \<not> CompareStrings b a) fs)"
proof -
  have before: "CompareStrings ''show/ep10.mkv'' ''show/ep1.mkv''" "CompareStrings ''show/ep1.mkv'' ''show/ep2.mkv''"
    "CompareStrings ''show/ep2.mkv'' ''show/ep10.mkv''" by code_simp+
  have "\<not> sorted_wrt (\<lambda>a b. \<not> CompareStrings b a) fs" if "set fs = {''show/ep1.mkv'', ''show/ep2.mkv'', ''show/ep10.mkv''}" for fs
    by (rule no_order_on_cycle [OF before(2,3,1) that]) simp_all
  with before show ?thesis by blast
qed

text \<open>A half open breaker that has used up its calls, with successes missing.\<close>

definition breaker_stuck :: "CircuitBreaker \<Rightarrow> bool" where
  "breaker_stuck cb \<longleftrightarrow> cb_state cb = StateHalfOpen \<and> cb_halfOpenCalls cb \<ge> i32 (bc_HalfOpenMaxCalls (cb_config cb))"

lemma stuck_run:
  "breaker_stuck cb \<Longrightarrow> breaker_run calls cb = (replicate (length calls) None, cb)"
  by (induction calls) (auto simp: breaker_stuck_def breaker_Execute_def Allow_def Let_def split: prod.splits)

text \<open>
  The circuit breaker of the torznab search never recovers. When it has opened, and the first call that it admits
  after its time-out succeeds, every call from then on is blocked, however long it waits and whatever the server
  answers: it asks for two successes but, its number of half open calls being left at 0, admits no second call.
\<close>

theorem torznab_breaker_never_recovers:
  assumes "cb_state cb = StateOpen" and "cb_config cb = cb_config torznab_breaker" and "cb_successes cb = 0"
    and "time_sub now (cb_openTime cb) \<ge> 30 * 1000000000"
  shows "fst (breaker_run ((now, later, False) # calls) cb) = Some False # replicate (length calls) None"
proof -
  obtain cb' where step: "breaker_Execute now later False cb = (Some False, cb')" and "breaker_stuck cb'"
    using assms by (auto simp: breaker_Execute_def Allow_def shouldAllowHalfOpen_def recordSuccess_def torznab_breaker_def
        new_breaker_def breaker_stuck_def i32_def wrap_signed_def Let_def)
  from stuck_run [OF this(2)] step show ?thesis by simp
qed

definition tripped_breaker :: CircuitBreaker where
  "tripped_breaker = snd (breaker_run (replicate 5 (0, 0, True)) torznab_breaker)"

theorem torznab_breaker_never_recovers_witness:
  "fst (breaker_run [(40000000000, 40000000000, False), (90000000000, 90000000000, False), (900000000000, 900000000000, False)]
     tripped_breaker) = [Some False, None, None]"
proof -
  have "cb_state tripped_breaker = StateOpen" "cb_config tripped_breaker = cb_config torznab_breaker"
    "cb_successes tripped_breaker = 0" "time_sub 40000000000 (cb_openTime tripped_breaker) \<ge> 30 * 1000000000"
    by (simp_all add: tripped_breaker_def eval_nat_numeral torznab_breaker_def new_breaker_def breaker_Execute_def Allow_def
        recordFailure_def defaultReadyToTrip_def i32_def wrap_signed_def time_sub_def Let_def)
  from torznab_breaker_never_recovers [OF this, of 40000000000 "[(90000000000, 90000000000, False), (900000000000, 900000000000, False)]"]
  show ?thesis by simp
qed

lemma retry_calls_bounded:
  "retry_loop cfg rs attempt delay = Some (res, waits) \<Longrightarrow>
   int (length waits) \<le> max 0 (rt_MaxAttempts cfg - attempt) \<and>
   (\<forall>w \<in> set waits. w = delay \<or> w \<le> rt_MaxDelay cfg)"
proof (induction cfg rs attempt delay arbitrary: waits rule: retry_loop.induct)
  case (2 cfg r rs attempt delay)
  show ?case
  proof (cases "attempt \<le> rt_MaxAttempts cfg \<and> \<not> rr_cancelled r \<and> rr_answer r = None \<and> \<not> rr_permanent r \<and>
      \<not> attempt \<ge> rt_MaxAttempts cfg \<and> \<not> rr_cancelledWaiting r")
    case True
    then obtain ws where ws: "retry_loop cfg rs (attempt + 1) (next_delay cfg delay) = Some (res, ws)" "waits = delay # ws"
      using "2.prems" by auto
    have "next_delay cfg delay \<le> rt_MaxDelay cfg" by (simp add: next_delay_def)
    then show ?thesis using "2.IH" [of ws] True ws by auto
  next
    case False
    then show ?thesis using "2.prems" by (auto split: if_splits option.splits)
  qed
qed (auto split: if_splits)

text \<open>Each round of a retry returns or counts, so that as many rounds as attempts are allowed always give a result.\<close>

lemma retry_returns: "rt_MaxAttempts cfg < attempt + int (length rs) \<Longrightarrow> \<exists>r. retry_loop cfg rs attempt delay = Some r"
  by (induction cfg rs attempt delay rule: retry_loop.induct) (auto split: option.split)

end
