(* ===== verification/Release_Bundle.thy ===== *)
theory Release_Bundle
  imports Go_Paths
begin

text \<open>
  The bundles of a release (internal/releasebundle): their names (model.go), their creation (create.go) and their
  verification (verify.go).

  A release directory is a map from names to what they name; the release tool is alone in it. The formats of archives
  (archive/tar with compress/gzip, archive/zip), crypto/sha256 and the inspector of binaries are arguments, and so are the
  faults of the file system while a file is published. An error is a list of its joined parts, empty for nil.
\<close>

section \<open>Names\<close>

record target =
  tg_os :: string
  tg_arch :: string
  tg_zip :: bool

definition productName :: string where
  "productName = ''TorrServerV2''"

definition releaseTargets :: "target list" where
  "releaseTargets =
     [\<lparr>tg_os = ''darwin'', tg_arch = ''amd64'', tg_zip = False\<rparr>,
      \<lparr>tg_os = ''darwin'', tg_arch = ''arm64'', tg_zip = False\<rparr>,
      \<lparr>tg_os = ''linux'', tg_arch = ''amd64'', tg_zip = False\<rparr>,
      \<lparr>tg_os = ''linux'', tg_arch = ''arm64'', tg_zip = False\<rparr>,
      \<lparr>tg_os = ''windows'', tg_arch = ''amd64'', tg_zip = True\<rparr>]"

text \<open>The expression for versions: three numbers, and perhaps the name and the number of a preliminary release.\<close>

definition all_digits :: "string \<Rightarrow> bool" where
  "all_digits s \<longleftrightarrow> s \<noteq> [] \<and> list_all (\<lambda>c. digit_value c \<noteq> None) s"

definition versionPattern :: "string \<Rightarrow> bool" where
  "versionPattern s =
     (let (core, pre) = split_first CHR ''-'' s; parts = str_split CHR ''.'' core
      in length parts = 3 \<and> list_all all_digits parts \<and>
         (case pre of None \<Rightarrow> True
          | Some p \<Rightarrow> list_ex (\<lambda>k. has_prefix p k \<and> all_digits (trim_prefix p k)) [''alpha.'', ''beta.'', ''rc.'']))"

definition platform :: "target \<Rightarrow> string" where
  "platform item = tg_os item @ ''-'' @ tg_arch item"

definition topLevel :: "target \<Rightarrow> string \<Rightarrow> string" where
  "topLevel item version = productName @ ''-v'' @ version @ ''-'' @ platform item"

definition bundleName :: "target \<Rightarrow> string \<Rightarrow> string" where
  "bundleName item version = topLevel item version @ (if tg_zip item then ''.zip'' else ''.tar.gz'')"

definition binaryAsset :: "target \<Rightarrow> string \<Rightarrow> string \<Rightarrow> string" where
  "binaryAsset item product version =
     product @ ''-'' @ version @ ''-'' @ platform item @ (if tg_zip item then ''.exe'' else [])"

definition bundledBinary :: "target \<Rightarrow> string \<Rightarrow> string" where
  "bundledBinary item product = (if tg_zip item then product @ ''.exe'' else product)"

definition expectedAssetNames :: "string \<Rightarrow> string list" where
  "expectedAssetNames version =
     sort (concat (map (\<lambda>item. [binaryAsset item ''torrserver'' version, binaryAsset item ''torrctl'' version,
                                 bundleName item version]) releaseTargets))"

definition manifest_name :: "string \<Rightarrow> string" where
  "manifest_name version = ''torrserver-'' @ version @ ''-SHA256SUMS''"

section \<open>Files, archives and errors\<close>

datatype node = Regular string | Folder | Special

type_synonym release_dir = "string \<rightharpoonup> node"

datatype release_error =
    InvalidVersion string
  | CommitRequired
  | ReadFailed string
  | NotRegular string
  | EmptyFile string
  | BundleExists string
  | InvalidAssetName string
  | IOFailed string
  | PackFailed string
  | TooManyMembers
  | SizeExceeds int
  | SizeMismatch int int
  | UnsupportedMember string
  | UnsafePath string
  | NonCanonicalPath string
  | DuplicateMember string
  | UnexpectedMember string
  | TypeMismatch string
  | ModeMismatch string int int
  | ExtractFailed string
  | InspectFailed string
  | DebugNotDisabled
  | MissingMember
  | BadManifestLine string
  | ManifestOrder string
  | DuplicateEntry string
  | HashFailed string
  | ChecksumMismatch string
  | ManifestCount int int

datatype member_kind = DirMember | RegMember | OtherMember

record archive_header =
  ah_name :: string
  ah_mode :: int
  ah_kind :: member_kind
  ah_size :: int

text \<open>
  The formats: packing gives the bytes of an archive or fails; unpacking fails when the archive cannot be opened, and
  gives the members up to the first that cannot be read, whether there was one, and for each member its content or an
  error.
\<close>

record archive_lib =
  al_pack :: "bool \<Rightarrow> (archive_header \<times> string) list \<Rightarrow> string option"
  al_unpack :: "bool \<Rightarrow> string \<Rightarrow> ((archive_header \<times> string option) list \<times> bool) option"
  al_sha256 :: "string \<Rightarrow> string"

text \<open>The low nine bits of a mode.\<close>

definition perm :: "int \<Rightarrow> int" where
  "perm m = m mod 512"

definition directoryMode :: int where
  "directoryMode = 493"

definition binaryMode :: int where
  "binaryMode = 493"

definition configMode :: int where
  "configMode = 420"

section \<open>Publishing a file\<close>

text \<open>What fails while a file is published, and what is in the temporary file when it is left behind.\<close>

record publish_faults =
  pf_root :: bool
  pf_temp :: bool
  pf_chmod :: bool
  pf_flush :: bool
  pf_sync :: bool
  pf_close :: bool
  pf_reclose :: bool
  pf_rename :: bool
  pf_remove :: bool
  pf_rootClose :: bool
  pf_partial :: string

definition no_faults :: publish_faults where
  "no_faults = \<lparr>pf_root = False, pf_temp = False, pf_chmod = False, pf_flush = False, pf_sync = False, pf_close = False,
     pf_reclose = False, pf_rename = False, pf_remove = False, pf_rootClose = False, pf_partial = []\<rparr>"

text \<open>
  \<open>writeAtomic\<close> with the name of the temporary file and what the writer gives: its content, or errors. The deferred calls
  run after the body: the temporary file is closed unless it was, and removed after an error; the root is closed last.
\<close>

definition publish_body ::
  "publish_faults \<Rightarrow> string \<Rightarrow> string \<Rightarrow> release_error list + string \<Rightarrow> release_dir \<Rightarrow> release_error list \<times> bool \<times> release_dir" where
  "publish_body pf temporary dest content d =
     (if pf_chmod pf then ([IOFailed ''set bundle mode''], False, d)
      else case content of
        Inl es \<Rightarrow> (es, False, d)
      | Inr bytes \<Rightarrow>
          if pf_flush pf then ([IOFailed ''flush bundle''], False, d)
          else if pf_sync pf then ([IOFailed ''sync bundle''], False, d)
          else if pf_close pf then ([IOFailed ''close bundle before publish''], False, d)
          else if pf_rename pf \<or> d dest = Some Folder then ([IOFailed ''publish release bundle''], True, d)
          else ([], True, d(temporary := None, dest \<mapsto> Regular bytes)))"

definition writeAtomic ::
  "publish_faults \<Rightarrow> string \<Rightarrow> string \<Rightarrow> release_error list + string \<Rightarrow> release_dir \<Rightarrow> release_error list \<times> release_dir" where
  "writeAtomic pf temporary dest content d =
     (if \<not> path_IsLocal dest \<or> path_base dest \<noteq> dest then ([InvalidAssetName dest], d)
      else if pf_root pf then ([IOFailed ''open release directory''], d)
      else
        let (err, d) =
          (if pf_temp pf then ([IOFailed ''create temporary bundle''], d)
           else
             let (err, closed, d) = publish_body pf temporary dest content (d(temporary \<mapsto> Regular (pf_partial pf)));
                 err = (if \<not> closed \<and> pf_reclose pf then err @ [IOFailed ''close temporary bundle''] else err)
             in if err = [] then (err, d)
                else if pf_remove pf then (err @ [IOFailed ''remove temporary bundle''], d)
                else (err, d(temporary := None)))
        in (if pf_rootClose pf then err @ [IOFailed ''close release directory''] else err, d))"

section \<open>Creating the bundles\<close>

record archiveEntry =
  ae_name :: string
  ae_mode :: int
  ae_data :: string
  ae_directory :: bool

definition validateRegularFile :: "string \<Rightarrow> node option \<Rightarrow> release_error list" where
  "validateRegularFile name n =
     (case n of
        None \<Rightarrow> [ReadFailed name]
      | Some (Regular s) \<Rightarrow> if s = [] then [EmptyFile name] else []
      | Some _ \<Rightarrow> [NotRegular name])"

definition readRegularFile :: "string \<Rightarrow> node option \<Rightarrow> release_error list + string" where
  "readRegularFile name n =
     (let es = validateRegularFile name n
      in if es \<noteq> [] then Inl es else case n of Some (Regular s) \<Rightarrow> Inr s | _ \<Rightarrow> Inl [ReadFailed name])"

fun first_errors :: "('a \<Rightarrow> release_error list) \<Rightarrow> 'a list \<Rightarrow> release_error list" where
  "first_errors f [] = []"
| "first_errors f (x # xs) = (if f x \<noteq> [] then f x else first_errors f xs)"

definition validateCreateInputs :: "string \<Rightarrow> release_dir \<Rightarrow> release_error list" where
  "validateCreateInputs version d =
     first_errors (\<lambda>item.
        if d (bundleName item version) \<noteq> None then [BundleExists (bundleName item version)]
        else first_errors (\<lambda>product. let name = binaryAsset item product version in validateRegularFile name (d name))
               [''torrserver'', ''torrctl'']) releaseTargets"

definition tar_header :: "archiveEntry \<Rightarrow> archive_header" where
  "tar_header e = \<lparr>ah_name = ae_name e, ah_mode = perm (ae_mode e), ah_kind = (if ae_directory e then DirMember else RegMember),
     ah_size = (if ae_directory e then 0 else int (length (ae_data e)))\<rparr>"

definition writeTarGZ :: "archive_lib \<Rightarrow> archiveEntry list \<Rightarrow> string option" where
  "writeTarGZ lb entries = al_pack lb False (map (\<lambda>e. (tar_header e, if ae_directory e then [] else ae_data e)) entries)"

text \<open>The writer of zip archives does not take the size: the library counts it. It is 0 in the header here.\<close>

definition zip_header :: "archiveEntry \<Rightarrow> archive_header" where
  "zip_header e = \<lparr>ah_name = ae_name e, ah_mode = (if ae_directory e then directoryMode else ae_mode e),
     ah_kind = (if ae_directory e then DirMember else RegMember), ah_size = 0\<rparr>"

definition writeZIP :: "archive_lib \<Rightarrow> archiveEntry list \<Rightarrow> string option" where
  "writeZIP lb entries = al_pack lb True (map (\<lambda>e. (zip_header e, if ae_directory e then [] else ae_data e)) entries)"

definition bundle_entries :: "target \<Rightarrow> string \<Rightarrow> string \<Rightarrow> string \<Rightarrow> string \<Rightarrow> archiveEntry list" where
  "bundle_entries item version config torrctl torrserver =
     (let base = topLevel item version
      in sort_key ae_name
           [\<lparr>ae_name = base @ ''/'', ae_mode = directoryMode, ae_data = [], ae_directory = True\<rparr>,
            \<lparr>ae_name = base @ ''/config.example.yml'', ae_mode = configMode, ae_data = config, ae_directory = False\<rparr>,
            \<lparr>ae_name = base @ ''/'' @ bundledBinary item ''torrctl'', ae_mode = binaryMode, ae_data = torrctl, ae_directory = False\<rparr>,
            \<lparr>ae_name = base @ ''/'' @ bundledBinary item ''torrserver'', ae_mode = binaryMode, ae_data = torrserver,
             ae_directory = False\<rparr>])"

definition packed :: "string \<Rightarrow> string option \<Rightarrow> release_error list + string" where
  "packed name r = (case r of None \<Rightarrow> Inl [PackFailed name] | Some s \<Rightarrow> Inr s)"

definition createBundle ::
  "archive_lib \<Rightarrow> publish_faults \<Rightarrow> string \<Rightarrow> string \<Rightarrow> target \<Rightarrow> string \<Rightarrow> release_dir \<Rightarrow> release_error list \<times> release_dir" where
  "createBundle lb pf temporary version item config d =
     (let source = (\<lambda>product. let name = binaryAsset item product version in readRegularFile name (d name)); dest = bundleName item version
      in case source ''torrctl'' of Inl es \<Rightarrow> (es, d)
         | Inr torrctl \<Rightarrow>
           (case source ''torrserver'' of Inl es \<Rightarrow> (es, d)
            | Inr torrserver \<Rightarrow>
                let entries = bundle_entries item version config torrctl torrserver
                in writeAtomic pf temporary dest
                     (packed dest (if tg_zip item then writeZIP lb entries else writeTarGZ lb entries)) d))"

fun checksum_lines :: "archive_lib \<Rightarrow> release_dir \<Rightarrow> string list \<Rightarrow> release_error list + string" where
  "checksum_lines lb d [] = Inr []"
| "checksum_lines lb d (name # names) =
     (case d name of
        Some (Regular s) \<Rightarrow>
          (case checksum_lines lb d names of
             Inl es \<Rightarrow> Inl es | Inr rest \<Rightarrow> Inr (al_sha256 lb s @ ''  '' @ name @ [CHR 0x0A] @ rest))
      | _ \<Rightarrow> Inl [HashFailed name])"

text \<open>The lines are computed while the temporary file is there, which is none of the assets.\<close>

definition writeChecksumManifest ::
  "archive_lib \<Rightarrow> publish_faults \<Rightarrow> string \<Rightarrow> string \<Rightarrow> release_dir \<Rightarrow> release_error list \<times> release_dir" where
  "writeChecksumManifest lb pf temporary version d =
     writeAtomic pf temporary (manifest_name version) (checksum_lines lb d (expectedAssetNames version)) d"

fun create_bundles ::
  "archive_lib \<Rightarrow> (string \<Rightarrow> publish_faults) \<Rightarrow> (string \<Rightarrow> string) \<Rightarrow> string \<Rightarrow> string \<Rightarrow> target list \<Rightarrow> release_dir \<Rightarrow>
   release_error list \<times> release_dir" where
  "create_bundles lb pf temporary version config [] d = ([], d)"
| "create_bundles lb pf temporary version config (item # items) d =
     (let dest = bundleName item version; (err, d) = createBundle lb (pf dest) (temporary dest) version item config d
      in if err \<noteq> [] then (err, d) else create_bundles lb pf temporary version config items d)"

text \<open>The faults and the name of the temporary file may differ for each file that is published.\<close>

definition CreateAll ::
  "archive_lib \<Rightarrow> (string \<Rightarrow> publish_faults) \<Rightarrow> (string \<Rightarrow> string) \<Rightarrow> node option \<Rightarrow> string \<Rightarrow> release_dir \<Rightarrow>
   release_error list \<times> release_dir" where
  "CreateAll lb pf temporary configFile version d =
     (if \<not> versionPattern version then ([InvalidVersion version], d)
      else case readRegularFile ''config.yml'' configFile of
        Inl es \<Rightarrow> (es, d)
      | Inr config \<Rightarrow>
          let es = validateCreateInputs version d
          in if es \<noteq> [] then (es, d)
             else
               let (err, d) = create_bundles lb pf temporary version config releaseTargets d
               in if err \<noteq> [] then (err, d)
                  else let m = manifest_name version in writeChecksumManifest lb (pf m) (temporary m) version d)"

section \<open>Verifying the bundles\<close>

record archiveMember =
  am_name :: string
  am_mode :: int
  am_data :: string
  am_directory :: bool

record memberRequirement =
  mr_mode :: int
  mr_directory :: bool
  mr_config :: bool
  mr_product :: string

definition expectedMembers :: "target \<Rightarrow> string \<Rightarrow> (string \<times> memberRequirement) list" where
  "expectedMembers item version =
     (let base = topLevel item version
      in [(base @ ''/'', \<lparr>mr_mode = directoryMode, mr_directory = True, mr_config = False, mr_product = []\<rparr>),
          (base @ ''/config.example.yml'', \<lparr>mr_mode = configMode, mr_directory = False, mr_config = True, mr_product = []\<rparr>),
          (base @ ''/'' @ bundledBinary item ''torrctl'',
             \<lparr>mr_mode = binaryMode, mr_directory = False, mr_config = False, mr_product = ''torrctl''\<rparr>),
          (base @ ''/'' @ bundledBinary item ''torrserver'',
             \<lparr>mr_mode = binaryMode, mr_directory = False, mr_config = False, mr_product = ''torrserver''\<rparr>)])"

definition maxArchiveMembers :: nat where
  "maxArchiveMembers = 8"

definition maxMemberBytes :: int where
  "maxMemberBytes = 268435456"

definition readBounded :: "string option \<Rightarrow> int \<Rightarrow> release_error list + string" where
  "readBounded reader declaredSize =
     (if declaredSize < 0 \<or> declaredSize > maxMemberBytes then Inl [SizeExceeds declaredSize]
      else case reader of
        None \<Rightarrow> Inl [ReadFailed ''member'']
      | Some s \<Rightarrow>
          let data = take (nat (maxMemberBytes + 1)) s
          in if int (length data) \<noteq> declaredSize then Inl [SizeMismatch (int (length data)) declaredSize] else Inr data)"

definition read_member :: "archive_header \<times> string option \<Rightarrow> release_error list + archiveMember" where
  "read_member = (\<lambda>(h, reader).
     case ah_kind h of
       DirMember \<Rightarrow> Inr \<lparr>am_name = ah_name h, am_mode = ah_mode h, am_data = [], am_directory = True\<rparr>
     | RegMember \<Rightarrow>
         (case readBounded reader (ah_size h) of
            Inl es \<Rightarrow> Inl es
          | Inr data \<Rightarrow> Inr \<lparr>am_name = ah_name h, am_mode = ah_mode h, am_data = data, am_directory = False\<rparr>)
     | OtherMember \<Rightarrow> Inl [UnsupportedMember (ah_name h)])"

fun tar_loop :: "archiveMember list \<Rightarrow> (archive_header \<times> string option) list \<Rightarrow> bool \<Rightarrow> release_error list + archiveMember list" where
  "tar_loop members [] broken = (if broken then Inl [ReadFailed ''tar''] else Inr members)"
| "tar_loop members (m # ms) broken =
     (if length members \<ge> maxArchiveMembers then Inl [TooManyMembers]
      else case read_member m of Inl es \<Rightarrow> Inl es | Inr a \<Rightarrow> tar_loop (members @ [a]) ms broken)"

fun zip_loop :: "archiveMember list \<Rightarrow> (archive_header \<times> string option) list \<Rightarrow> release_error list + archiveMember list" where
  "zip_loop members [] = Inr members"
| "zip_loop members (m # ms) = (case read_member m of Inl es \<Rightarrow> Inl es | Inr a \<Rightarrow> zip_loop (members @ [a]) ms)"

definition readTarGZ :: "archive_lib \<Rightarrow> node option \<Rightarrow> release_error list + archiveMember list" where
  "readTarGZ lb n =
     (case n of
        Some (Regular s) \<Rightarrow>
          (case al_unpack lb False s of None \<Rightarrow> Inl [ReadFailed ''gzip''] | Some (ms, broken) \<Rightarrow> tar_loop [] ms broken)
      | _ \<Rightarrow> Inl [ReadFailed ''archive''])"

definition readZIP :: "archive_lib \<Rightarrow> node option \<Rightarrow> release_error list + archiveMember list" where
  "readZIP lb n =
     (case n of
        Some (Regular s) \<Rightarrow>
          (case al_unpack lb True s of
             None \<Rightarrow> Inl [ReadFailed ''zip'']
           | Some (ms, broken) \<Rightarrow>
               if broken then Inl [ReadFailed ''zip'']
               else if length ms > maxArchiveMembers then Inl [TooManyMembers] else zip_loop [] ms)
      | _ \<Rightarrow> Inl [ReadFailed ''archive''])"

definition readArchive :: "archive_lib \<Rightarrow> node option \<Rightarrow> bool \<Rightarrow> release_error list + archiveMember list" where
  "readArchive lb n zipped = (if zipped then readZIP lb n else readTarGZ lb n)"

definition validateArchivePath :: "string \<Rightarrow> release_error list" where
  "validateArchivePath name =
     (if name = [] \<or> str_contains name [CHR 0x5C] \<or> has_prefix name ''/'' then [UnsafePath name]
      else
        let trimmed = trim_suffix name ''/''; cleaned = path_clean trimmed
        in if cleaned = ''.'' \<or> cleaned = ''..'' \<or> has_prefix cleaned ''../'' then [UnsafePath name]
           else if cleaned \<noteq> trimmed then [NonCanonicalPath name] else [])"

text \<open>What the inspector of a binary needs: the faults of the temporary directory, and its verdict on a content.\<close>

record inspection =
  in_extractFails :: "string \<Rightarrow> bool"
  in_inspect :: "string \<Rightarrow> string \<Rightarrow> string \<Rightarrow> string \<Rightarrow> bool"

definition debug_disabled :: string where
  "debug_disabled = ''debug:'' @ [CHR 0x0A] @ ''  enabled: false''"

definition verifyArchiveMember ::
  "inspection \<Rightarrow> string \<Rightarrow> string \<Rightarrow> archiveMember \<Rightarrow> (string \<times> memberRequirement) list \<Rightarrow> string list \<Rightarrow>
   release_error list \<times> string list" where
  "verifyArchiveMember ins version commit member expected seen =
     (let name = am_name member; bad = validateArchivePath name
      in if bad \<noteq> [] then (bad, seen)
         else if name \<in> set seen then ([DuplicateMember name], seen)
         else case map_of expected name of
           None \<Rightarrow> ([UnexpectedMember name], seen)
         | Some requirement \<Rightarrow>
             (let seen = name # seen
              in if am_directory member \<noteq> mr_directory requirement then ([TypeMismatch name], seen)
                 else if perm (am_mode member) \<noteq> perm (mr_mode requirement)
                 then ([ModeMismatch name (perm (am_mode member)) (perm (mr_mode requirement))], seen)
                 else if mr_product requirement \<noteq> [] \<and> in_extractFails ins name then ([ExtractFailed name], seen)
                 else if mr_product requirement \<noteq> [] \<and> \<not> in_inspect ins (am_data member) (mr_product requirement) version commit
                 then ([InspectFailed name], seen)
                 else if mr_config requirement \<and> \<not> str_contains (am_data member) debug_disabled then ([DebugNotDisabled], seen)
                 else ([], seen)))"

definition verifyExpectedMembers :: "string list \<Rightarrow> (string \<times> memberRequirement) list \<Rightarrow> release_error list" where
  "verifyExpectedMembers seen expected =
     (if length seen = length expected then []
      else if list_ex (\<lambda>(name, r). name \<notin> set seen) expected then [MissingMember] else [])"

fun verify_members ::
  "inspection \<Rightarrow> string \<Rightarrow> string \<Rightarrow> (string \<times> memberRequirement) list \<Rightarrow> string list \<Rightarrow> archiveMember list \<Rightarrow>
   release_error list \<times> string list" where
  "verify_members ins version commit expected seen [] = ([], seen)"
| "verify_members ins version commit expected seen (m # ms) =
     (let (err, seen) = verifyArchiveMember ins version commit m expected seen
      in if err \<noteq> [] then (err, seen) else verify_members ins version commit expected seen ms)"

text \<open>\<open>mk\<close> and \<open>rm\<close> say whether making and removing the temporary directory fail.\<close>

definition verifyBundle ::
  "archive_lib \<Rightarrow> inspection \<Rightarrow> bool \<Rightarrow> bool \<Rightarrow> release_dir \<Rightarrow> string \<Rightarrow> string \<Rightarrow> target \<Rightarrow> release_error list" where
  "verifyBundle lb ins mk rm d version commit item =
     (case readArchive lb (d (bundleName item version)) (tg_zip item) of
        Inl es \<Rightarrow> es
      | Inr members \<Rightarrow>
          if mk then [IOFailed ''create verification directory'']
          else
            let expected = expectedMembers item version;
                (err, seen) = verify_members ins version commit expected [] members;
                err = (if err \<noteq> [] then err else verifyExpectedMembers seen expected)
            in if rm then err @ [IOFailed ''remove verification directory''] else err)"

definition checksumFile :: "archive_lib \<Rightarrow> node option \<Rightarrow> string option" where
  "checksumFile lb n = (case n of Some (Regular s) \<Rightarrow> Some (al_sha256 lb s) | _ \<Rightarrow> None)"

text \<open>The loop over the lines: \<open>rest\<close> are the names still expected, \<open>index\<close> how many were read.\<close>

fun manifest_loop ::
  "archive_lib \<Rightarrow> release_dir \<Rightarrow> string list \<Rightarrow> string list \<Rightarrow> nat \<Rightarrow> string list \<Rightarrow> release_error list" where
  "manifest_loop lb d expected seen index [] =
     (if index \<noteq> length expected then [ManifestCount (int index) (int (length expected))] else [])"
| "manifest_loop lb d expected seen index (l # ls) =
     (case scanned_line l of
        None \<Rightarrow> [ReadFailed ''checksum manifest'']
      | Some line \<Rightarrow>
          (case str_Fields line of
             [f0, name] \<Rightarrow>
               if length f0 \<noteq> 64 then [BadManifestLine line]
               else if index \<ge> length expected \<or> name \<noteq> expected ! index then [ManifestOrder name]
               else if name \<in> set seen then [DuplicateEntry name]
               else (case checksumFile lb (d name) of
                       None \<Rightarrow> [HashFailed name]
                     | Some digest \<Rightarrow>
                         if digest \<noteq> to_lower f0 then [ChecksumMismatch name]
                         else manifest_loop lb d expected (name # seen) (index + 1) ls)
           | _ \<Rightarrow> [BadManifestLine line]))"

definition verifyChecksumManifest :: "archive_lib \<Rightarrow> release_dir \<Rightarrow> string \<Rightarrow> release_error list" where
  "verifyChecksumManifest lb d version =
     (case d (manifest_name version) of
        Some (Regular s) \<Rightarrow> manifest_loop lb d (expectedAssetNames version) [] 0 (text_lines s)
      | _ \<Rightarrow> [ReadFailed (manifest_name version)])"

definition verifyAll ::
  "archive_lib \<Rightarrow> inspection \<Rightarrow> bool \<Rightarrow> bool \<Rightarrow> release_dir \<Rightarrow> string \<Rightarrow> string \<Rightarrow> release_error list" where
  "verifyAll lb ins mk rm d version commit =
     (if \<not> versionPattern version then [InvalidVersion version]
      else if trim_space commit = [] then [CommitRequired]
      else
        let es = verifyChecksumManifest lb d version
        in if es \<noteq> [] then es else first_errors (verifyBundle lb ins mk rm d version commit) releaseTargets)"

text \<open>The inspector of the program: the package and the linker flags that a binary's build information gives.\<close>

definition inspectBuildInfo ::
  "(string \<Rightarrow> (string \<times> (string \<times> string) list) option) \<Rightarrow> string \<Rightarrow> string \<Rightarrow> string \<Rightarrow> string \<Rightarrow> bool" where
  "inspectBuildInfo read_info data product version commit =
     (case read_info data of
        None \<Rightarrow> False
      | Some (path, settings) \<Rightarrow>
          path = ''server/cmd/'' @ product \<and>
          (let linkerFlags = (case List.find (\<lambda>(k, v). k = ''-ldflags'') settings of None \<Rightarrow> [] | Some (k, v) \<Rightarrow> v)
           in list_all (str_contains linkerFlags)
                [''-X=server/version.version=v'' @ version, ''-X=server/version.commit='' @ commit,
                 ''-X=server/version.buildTime=unknown'', ''-X=server/version.dirtyState=clean'']))"

end
