(* ===== verification/Release_Props.thy ===== *)
theory Release_Props
  imports Release_Bundle "HOL-Library.Multiset"
begin

text \<open>
  What the release tool promises: a bundle is accepted exactly when it holds the four members with their types, modes and
  contents; a release that was created is accepted; a file is published whole or not at all.
\<close>

section \<open>Names\<close>

definition name_chars :: "string \<Rightarrow> bool" where
  "name_chars s \<longleftrightarrow> (\<forall>c \<in> set s. c \<in> set plain_chars \<and> c \<noteq> CHR ''/'' \<and> c \<noteq> CHR 0x5C)"

lemma name_chars_append [simp]: "name_chars (s @ t) \<longleftrightarrow> name_chars s \<and> name_chars t"
  by (auto simp: name_chars_def)

lemma name_chars_Cons [simp]:
  "name_chars (c # s) \<longleftrightarrow> 33 \<le> (of_char c :: nat) \<and> (of_char c :: nat) < 127 \<and> c \<noteq> CHR ''/'' \<and> c \<noteq> CHR 0x5C \<and> name_chars s"
  by (auto simp: name_chars_def plain_iff)

lemma name_chars_Nil [simp]: "name_chars []"
  by (simp add: name_chars_def)

lemma name_chars_digits: "all_digits s \<Longrightarrow> name_chars s"
proof -
  assume d: "all_digits s"
  have "c \<in> set plain_chars \<and> c \<noteq> CHR ''/'' \<and> c \<noteq> CHR 0x5C" if "c \<in> set s" for c
  proof -
    have v: "digit_value c \<noteq> None" using d that by (simp add: all_digits_def list_all_iff)
    then have "48 \<le> (of_char c :: nat) \<and> (of_char c :: nat) \<le> 57"
      by (simp add: digit_value_def Let_def split: if_splits)
    moreover have "digit_value CHR ''/'' = None" and "digit_value CHR 0x5C = None" by (simp_all add: digit_value_def)
    ultimately show ?thesis using v by (auto simp: plain_iff)
  qed
  then show ?thesis by (simp add: name_chars_def)
qed

lemma set_str_split: "set s \<subseteq> insert sep (\<Union> (set ` set (str_split sep s)))"
proof (induction s)
  case (Cons c s)
  obtain p ps where "str_split sep s = p # ps" using str_split_not_Nil by (cases "str_split sep s") auto
  then show ?case using Cons by auto
qed simp

lemma version_chars: "versionPattern v \<Longrightarrow> name_chars v"
proof -
  assume v: "versionPattern v"
  obtain core pre where cp: "split_first CHR ''-'' v = (core, pre)" by fastforce
  have parts: "\<forall>p \<in> set (str_split CHR ''.'' core). all_digits p"
    using v by (simp add: versionPattern_def cp Let_def list_all_iff)
  have dot: "CHR ''.'' \<in> set plain_chars" "CHR ''-'' \<in> set plain_chars" by (simp_all add: plain_iff)
  have core: "name_chars core"
    unfolding name_chars_def
  proof
    fix c assume "c \<in> set core"
    then consider "c = CHR ''.''" | p where "p \<in> set (str_split CHR ''.'' core)" "c \<in> set p"
      using set_str_split [of core "CHR ''.''"] by blast
    then show "c \<in> set plain_chars \<and> c \<noteq> CHR ''/'' \<and> c \<noteq> CHR 0x5C"
    proof cases
      case 2
      then show ?thesis using parts name_chars_digits unfolding name_chars_def by blast
    qed (simp add: dot(1))
  qed
  show ?thesis
  proof (cases pre)
    case None
    have "split_first sep s = (a, None) \<Longrightarrow> s = a" for sep a and s :: string
      by (induction s arbitrary: a) (auto split: if_splits prod.splits)
    then show ?thesis using core cp None by blast
  next
    case (Some p)
    then obtain k where k: "k \<in> set [''alpha.'', ''beta.'', ''rc.'']" "has_prefix p k" "all_digits (trim_prefix p k)"
      using v by (auto simp: versionPattern_def cp Let_def)
    then obtain r where r: "p = k @ r" by (auto simp: has_prefix_iff)
    then have "trim_prefix p k = r" using strip_prefix_Some [of k p r] by (simp add: trim_prefix_def)
    then have "name_chars r" using k(3) name_chars_digits by simp
    moreover have "name_chars k" using k(1) by (auto simp: name_chars_def plain_iff)
    moreover have "v = core @ CHR ''-'' # p" using cp Some split_first_join by metis
    moreover have "name_chars [CHR ''-'']" using dot by (simp add: name_chars_def)
    ultimately show ?thesis using core r by (metis append_Cons append_Nil name_chars_append)
  qed
qed

lemma targets_simps:
  "item \<in> set releaseTargets \<Longrightarrow>
   item = \<lparr>tg_os = ''darwin'', tg_arch = ''amd64'', tg_zip = False\<rparr> \<or> item = \<lparr>tg_os = ''darwin'', tg_arch = ''arm64'', tg_zip = False\<rparr> \<or>
   item = \<lparr>tg_os = ''linux'', tg_arch = ''amd64'', tg_zip = False\<rparr> \<or> item = \<lparr>tg_os = ''linux'', tg_arch = ''arm64'', tg_zip = False\<rparr> \<or>
   item = \<lparr>tg_os = ''windows'', tg_arch = ''amd64'', tg_zip = True\<rparr>"
  by (auto simp: releaseTargets_def)

lemmas name_defs = productName_def topLevel_def bundleName_def platform_def binaryAsset_def bundledBinary_def manifest_name_def

lemma target_chars: "item \<in> set releaseTargets \<Longrightarrow> name_chars (tg_os item) \<and> name_chars (tg_arch item)"
  using targets_simps by fastforce

lemma topLevel_chars: "versionPattern v \<Longrightarrow> item \<in> set releaseTargets \<Longrightarrow> name_chars (topLevel item v)"
  by (simp add: topLevel_def productName_def platform_def version_chars target_chars)

lemma asset_chars:
  assumes "versionPattern v" and "item \<in> set releaseTargets"
  shows "name_chars (bundleName item v)" and "name_chars (binaryAsset item ''torrserver'' v)"
    and "name_chars (binaryAsset item ''torrctl'' v)"
  using assms by (simp_all add: bundleName_def binaryAsset_def platform_def topLevel_chars version_chars target_chars)

section \<open>What a bundle must hold\<close>

lemma topLevel_element: "versionPattern v \<Longrightarrow> item \<in> set releaseTargets \<Longrightarrow> plain_element (topLevel item v)"
  using topLevel_chars [of v item] by (auto simp: plain_element_def name_chars_def topLevel_def productName_def)

lemma bundled_element: "p \<in> {''torrctl'', ''torrserver''} \<Longrightarrow> plain_element (bundledBinary item p) \<and> name_chars (bundledBinary item p)"
  by (auto simp: bundledBinary_def plain_element_def)

lemma no_backslash: "name_chars s \<Longrightarrow> \<not> str_contains (s @ t) [CHR 0x5C] \<longleftrightarrow> \<not> str_contains t [CHR 0x5C]"
  by (induction s) (auto simp: has_prefix_iff)

lemma folder_path_valid: "plain_element a \<Longrightarrow> name_chars a \<Longrightarrow> validateArchivePath (a @ ''/'') = []"
proof -
  assume a: "plain_element a" "name_chars a"
  have "\<not> str_contains (a @ ''/'') [CHR 0x5C]" using no_backslash [OF a(2)] by (simp add: has_prefix_iff)
  moreover have "\<not> has_prefix (a @ ''/'') ''/''" using a(1) by (cases a) (auto simp: has_prefix_iff plain_element_def)
  moreover have "\<not> has_prefix a ''../''" using a(1) by (auto simp: has_prefix_iff plain_element_def)
  ultimately show ?thesis using a(1) path_clean_element [OF a(1)]
    by (simp add: validateArchivePath_def plain_element_def)
qed

lemma file_path_valid:
  assumes "plain_element a" and "name_chars a" and "plain_element b" and "name_chars b"
  shows "validateArchivePath (a @ ''/'' @ b) = []"
proof -
  let ?p = "a @ ''/'' @ b"
  have join: "?p = str_join CHR ''/'' [a, b]" by simp
  have clean: "path_clean ?p = ?p" and "\<not> has_prefix ?p ''/''"
    unfolding join using path_clean_plain [of "[a, b]"] assms by simp_all
  moreover have "\<not> has_suffix ?p ''/''"
    using assms(3) by (cases b rule: rev_cases) (auto simp: has_suffix_iff plain_element_def)
  moreover have "\<not> str_contains ?p [CHR 0x5C]" using no_backslash [OF assms(2)] no_backslash [OF assms(4), of "[]"]
    by (simp add: has_prefix_iff)
  moreover have "\<not> has_prefix ?p ''../''"
  proof
    assume "has_prefix ?p ''../''"
    then obtain r where "str_split CHR ''/'' ?p = ''..'' # r"
      using str_split_at [of "CHR ''/''" "''..''"] by (auto simp: has_prefix_iff simp del: str_split.simps)
    then show False using assms(1,3) unfolding join by (subst (asm) str_split_join) (auto simp: plain_element_def)
  qed
  moreover have "?p \<noteq> ''.''" "?p \<noteq> ''..''" by (auto simp: append_eq_Cons_conv)
  ultimately show ?thesis by (simp add: validateArchivePath_def trim_suffix_other)
qed

lemma expected_names:
  "map fst (expectedMembers item v) =
     map (\<lambda>e. topLevel item v @ ''/'' @ e) [[], ''config.example.yml'', bundledBinary item ''torrctl'', bundledBinary item ''torrserver'']"
  by (simp add: expectedMembers_def Let_def)

lemma expected_distinct: "distinct (map fst (expectedMembers item v))"
  unfolding expected_names by (simp add: bundledBinary_def)

lemma expected_valid:
  assumes "versionPattern v" and "item \<in> set releaseTargets" and "name \<in> fst ` set (expectedMembers item v)"
  shows "validateArchivePath name = []"
proof -
  note t = topLevel_element [OF assms(1,2)] topLevel_chars [OF assms(1,2)]
  have "plain_element ''config.example.yml''" "name_chars ''config.example.yml''" by (simp_all add: plain_element_def)
  then show ?thesis
    using assms(3) bundled_element [of _ item] folder_path_valid [OF t] file_path_valid [OF t]
    unfolding set_map [symmetric] expected_names by auto
qed

text \<open>A member has the type, the mode and the content that a requirement asks for.\<close>

definition member_meets :: "inspection \<Rightarrow> string \<Rightarrow> string \<Rightarrow> memberRequirement \<Rightarrow> archiveMember \<Rightarrow> bool" where
  "member_meets ins version commit r m \<longleftrightarrow>
     am_directory m = mr_directory r \<and> perm (am_mode m) = perm (mr_mode r) \<and>
     (mr_product r \<noteq> [] \<longrightarrow> \<not> in_extractFails ins (am_name m) \<and> in_inspect ins (am_data m) (mr_product r) version commit) \<and>
     (mr_config r \<longrightarrow> str_contains (am_data m) debug_disabled)"

definition member_fits :: "inspection \<Rightarrow> string \<Rightarrow> string \<Rightarrow> (string \<times> memberRequirement) list \<Rightarrow> archiveMember \<Rightarrow> bool" where
  "member_fits ins version commit expected m \<longleftrightarrow>
     (\<exists>r. map_of expected (am_name m) = Some r \<and> member_meets ins version commit r m)"

lemma verifyArchiveMember_ok:
  "verifyArchiveMember ins v c m ex seen = ([], seen') \<longleftrightarrow>
     validateArchivePath (am_name m) = [] \<and> am_name m \<notin> set seen \<and> member_fits ins v c ex m \<and> seen' = am_name m # seen"
  by (cases "map_of ex (am_name m)") (auto simp: verifyArchiveMember_def member_fits_def member_meets_def Let_def)

lemma verify_members_ok:
  "verify_members ins v c ex seen ms = ([], seen') \<longleftrightarrow>
     (\<forall>m \<in> set ms. validateArchivePath (am_name m) = [] \<and> member_fits ins v c ex m) \<and>
     distinct (map am_name ms) \<and> set (map am_name ms) \<inter> set seen = {} \<and> seen' = rev (map am_name ms) @ seen"
proof (induction ms arbitrary: seen)
  case (Cons m ms)
  obtain err s where e: "verifyArchiveMember ins v c m ex seen = (err, s)" by fastforce
  show ?case
  proof (cases "err = []")
    case True
    then show ?thesis using e verifyArchiveMember_ok [of ins v c m ex seen s] Cons by auto
  next
    case False
    then have "\<not> (validateArchivePath (am_name m) = [] \<and> am_name m \<notin> set seen \<and> member_fits ins v c ex m)"
      using e verifyArchiveMember_ok [of ins v c m ex seen "am_name m # seen"] by auto
    then show ?thesis using False e by auto
  qed
qed auto

lemma verifyExpectedMembers_ok:
  assumes "distinct seen" and "set seen \<subseteq> fst ` set ex" and "distinct (map fst ex)"
  shows "verifyExpectedMembers seen ex = [] \<longleftrightarrow> set seen = fst ` set ex"
proof -
  have "card (fst ` set ex) = length ex" using assms(3) by (metis distinct_card length_map set_map)
  moreover have "card (set seen) = length seen" using assms(1) by (simp add: distinct_card)
  ultimately have "length seen = length ex \<longrightarrow> set seen = fst ` set ex"
    using assms(2) by (metis List.finite_set card_subset_eq finite_imageI)
  then show ?thesis using assms(2)
    by (force simp: verifyExpectedMembers_def list_ex_iff split: if_splits)
qed

lemma bundle_members_ok:
  assumes "versionPattern v" and "item \<in> set releaseTargets"
  shows "(let (err, seen) = verify_members ins v c (expectedMembers item v) [] ms
          in if err \<noteq> [] then err else verifyExpectedMembers seen (expectedMembers item v)) = [] \<longleftrightarrow>
     mset (map am_name ms) = mset (map fst (expectedMembers item v)) \<and> (\<forall>m \<in> set ms. member_fits ins v c (expectedMembers item v) m)"
    (is "?l \<longleftrightarrow> ?r")
proof -
  let ?ex = "expectedMembers item v"
  obtain err seen where e: "verify_members ins v c ?ex [] ms = (err, seen)" by fastforce
  have fits: "am_name m \<in> fst ` set ?ex" if "member_fits ins v c ?ex m" for m
    using that by (auto simp: member_fits_def dest: map_of_SomeD intro: rev_image_eqI)
  have valid: "\<forall>m \<in> set ms. member_fits ins v c ?ex m \<longrightarrow> validateArchivePath (am_name m) = []"
    using fits expected_valid [OF assms] by blast
  show ?thesis
  proof (cases "err = []")
    case True
    then have ok: "\<forall>m \<in> set ms. member_fits ins v c ?ex m" "distinct (map am_name ms)" "seen = rev (map am_name ms)"
      using e verify_members_ok [of ins v c ?ex "[]" ms seen] by auto
    have "verifyExpectedMembers seen ?ex = [] \<longleftrightarrow> set seen = fst ` set ?ex"
      using ok fits expected_distinct by (intro verifyExpectedMembers_ok) auto
    also have "\<dots> \<longleftrightarrow> mset (map am_name ms) = mset (map fst ?ex)"
      using ok(2,3) set_eq_iff_mset_eq_distinct [OF ok(2) expected_distinct] by auto
    finally show ?thesis using True e ok(1) by simp
  next
    case False
    have "\<not> ?r"
    proof
      assume r: ?r
      then have "distinct (map am_name ms)" using expected_distinct mset_eq_imp_distinct_iff by blast
      then have "verify_members ins v c ?ex [] ms = ([], rev (map am_name ms))"
        using r valid verify_members_ok [of ins v c ?ex "[]" ms "rev (map am_name ms)"] by auto
      then show False using e False by simp
    qed
    then show ?thesis using False e by simp
  qed
qed

lemma read_member_Inl: "read_member m \<noteq> Inl []"
  by (cases m) (auto simp: read_member_def readBounded_def Let_def split: member_kind.splits option.splits)

lemma tar_loop_Inl: "tar_loop ms xs broken \<noteq> Inl []"
  by (induction xs arbitrary: ms) (auto split: sum.splits simp: read_member_Inl)

lemma zip_loop_Inl: "zip_loop ms xs \<noteq> Inl []"
  by (induction xs arbitrary: ms) (auto split: sum.splits simp: read_member_Inl)

lemma readArchive_Inl: "readArchive lb n z \<noteq> Inl []"
  by (auto simp: readArchive_def readZIP_def readTarGZ_def tar_loop_Inl zip_loop_Inl split: option.splits node.splits)

section \<open>Publication\<close>

lemma writeAtomic_effect:
  assumes "writeAtomic pf temporary dest content d = (err, d')" and "d temporary = None" and "temporary \<noteq> dest"
    and "content \<noteq> Inl []"
  shows "n \<noteq> dest \<Longrightarrow> n \<noteq> temporary \<Longrightarrow> d' n = d n"
    and "d' dest = d dest \<or> (\<exists>bytes. content = Inr bytes \<and> d' dest = Some (Regular bytes))"
    and "err = [] \<Longrightarrow> \<exists>bytes. content = Inr bytes \<and> d' = d(dest \<mapsto> Regular bytes)"
    and "\<not> pf_remove pf \<Longrightarrow> d' temporary = None"
proof -
  let ?d = "d(temporary \<mapsto> Regular (pf_partial pf))"
  obtain e1 cl d1 where body: "publish_body pf temporary dest content ?d = (e1, cl, d1)" by (metis prod_cases3)
  have one: "e1 = [] \<and> (\<exists>bytes. content = Inr bytes \<and> cl \<and> d1 = d(dest \<mapsto> Regular bytes)) \<or> e1 \<noteq> [] \<and> d1 = ?d"
    using body assms(2-4)
    by (cases content) (auto simp: publish_body_def split: if_splits intro!: ext)
  have idem: "d(temporary := None) = d" by (rule fun_upd_idem) (rule assms(2))
  have d': "d' = d \<or> d' = ?d \<and> pf_remove pf \<and> err \<noteq> [] \<or> (\<exists>bytes. content = Inr bytes \<and> d' = d(dest \<mapsto> Regular bytes))"
    and err: "err = [] \<longrightarrow> (\<exists>bytes. content = Inr bytes \<and> d' = d(dest \<mapsto> Regular bytes))"
    using assms(1) body one
    by (auto simp: writeAtomic_def Let_def idem split: if_splits)
  show "n \<noteq> dest \<Longrightarrow> n \<noteq> temporary \<Longrightarrow> d' n = d n" using d' by auto
  show "d' dest = d dest \<or> (\<exists>bytes. content = Inr bytes \<and> d' dest = Some (Regular bytes))" using d' assms(3) by auto
  show "err = [] \<Longrightarrow> \<exists>bytes. content = Inr bytes \<and> d' = d(dest \<mapsto> Regular bytes)" using err by simp
  show "\<not> pf_remove pf \<Longrightarrow> d' temporary = None" using d' assms(2,3) by auto
qed

section \<open>What is read is what was written\<close>

text \<open>
  What the archive packages document: the members that were written are read back in order, with their names, modes, types
  and contents, and with the sizes of the contents.
\<close>

definition archive_law :: "archive_lib \<Rightarrow> bool" where
  "archive_law lb \<longleftrightarrow>
     (\<forall>z es b. al_pack lb z es = Some b \<longrightarrow>
        (\<forall>(h, s) \<in> set es. ah_kind h \<noteq> OtherMember \<and> 0 \<le> ah_mode h \<and> ah_mode h < 512 \<and> (ah_kind h = DirMember \<longrightarrow> s = [])) \<longrightarrow>
        al_unpack lb z b = Some (map (\<lambda>(h, s). (h\<lparr>ah_size := int (length s)\<rparr>, Some s)) es, False))"

definition sha_digits :: string where
  "sha_digits = ''0123456789abcdef''"

text \<open>A digest in hexadecimal has 64 digits.\<close>

definition digest_law :: "archive_lib \<Rightarrow> bool" where
  "digest_law lb \<longleftrightarrow> (\<forall>s. length (al_sha256 lb s) = 64 \<and> set (al_sha256 lb s) \<subseteq> set sha_digits)"

definition entry_member :: "archiveEntry \<Rightarrow> archiveMember" where
  "entry_member e = \<lparr>am_name = ae_name e, am_mode = ae_mode e, am_data = ae_data e, am_directory = ae_directory e\<rparr>"

definition entry_ok :: "archiveEntry \<Rightarrow> bool" where
  "entry_ok e \<longleftrightarrow> (ae_mode e = directoryMode \<or> ae_mode e = configMode) \<and> int (length (ae_data e)) \<le> maxMemberBytes \<and>
     (ae_directory e \<longrightarrow> ae_data e = [] \<and> ae_mode e = directoryMode)"

definition read_back :: "archiveEntry \<Rightarrow> archive_header \<times> string option" where
  "read_back e = (\<lparr>ah_name = ae_name e, ah_mode = ae_mode e, ah_kind = (if ae_directory e then DirMember else RegMember),
     ah_size = int (length (ae_data e))\<rparr>, Some (ae_data e))"

lemma read_back_member: "entry_ok e \<Longrightarrow> read_member (read_back e) = Inr (entry_member e)"
  by (auto simp: entry_ok_def read_back_def read_member_def readBounded_def entry_member_def maxMemberBytes_def)

lemma tar_loop_entries:
  "\<forall>e \<in> set es. entry_ok e \<Longrightarrow> length ms + length es \<le> 8 \<Longrightarrow>
   tar_loop ms (map read_back es) False = Inr (ms @ map entry_member es)"
  by (induction es arbitrary: ms) (simp_all add: read_back_member maxArchiveMembers_def)

lemma zip_loop_entries: "\<forall>e \<in> set es. entry_ok e \<Longrightarrow> zip_loop ms (map read_back es) = Inr (ms @ map entry_member es)"
  by (induction es arbitrary: ms) (simp_all add: read_back_member)

lemma unpack_entries:
  assumes law: "archive_law lb" and ok: "\<forall>e \<in> set es. entry_ok e"
    and pack: "(if z then writeZIP lb es else writeTarGZ lb es) = Some b"
  shows "al_unpack lb z b = Some (map read_back es, False)"
proof -
  define hd' where "hd' = (\<lambda>e. (if z then zip_header e else tar_header e, if ae_directory e then [] else ae_data e))"
  have "al_pack lb z (map hd' es) = Some b"
    using pack by (cases z) (simp_all add: hd'_def writeZIP_def writeTarGZ_def)
  moreover have "\<forall>(h, s) \<in> set (map hd' es). ah_kind h \<noteq> OtherMember \<and> 0 \<le> ah_mode h \<and> ah_mode h < 512 \<and> (ah_kind h = DirMember \<longrightarrow> s = [])"
    using ok by (auto simp: hd'_def zip_header_def tar_header_def perm_def entry_ok_def directoryMode_def configMode_def)
  ultimately have "al_unpack lb z b = Some (map (\<lambda>(h, s). (h\<lparr>ah_size := int (length s)\<rparr>, Some s)) (map hd' es), False)"
    using law unfolding archive_law_def by blast
  moreover have "map (\<lambda>(h, s). (h\<lparr>ah_size := int (length s)\<rparr>, Some s)) (map hd' es) = map read_back es"
    using ok by (auto simp: hd'_def zip_header_def tar_header_def read_back_def perm_def entry_ok_def directoryMode_def configMode_def)
  ultimately show ?thesis by simp
qed

lemma read_written_archive:
  assumes "archive_law lb" and "\<forall>e \<in> set es. entry_ok e" and "length es \<le> 8"
    and "(if z then writeZIP lb es else writeTarGZ lb es) = Some b"
  shows "readArchive lb (Some (Regular b)) z = Inr (map entry_member es)"
  using unpack_entries [OF assms(1,2,4)] assms(2,3) tar_loop_entries [of es "[]"] zip_loop_entries [of es "[]"]
  by (cases z) (simp_all add: readArchive_def readZIP_def readTarGZ_def maxArchiveMembers_def)

section \<open>A created release\<close>

text \<open>The temporary files get names of their own, as \<open>os.CreateTemp\<close> documents.\<close>

definition fresh_names :: "(string \<Rightarrow> string) \<Rightarrow> release_dir \<Rightarrow> bool" where
  "fresh_names temporary d \<longleftrightarrow> (\<forall>n. has_prefix (temporary n) ''.release-bundle-'' \<and> d (temporary n) = None)"

lemma fresh_names_upd: "fresh_names temporary d \<Longrightarrow> \<not> has_prefix n ''.'' \<Longrightarrow> fresh_names temporary (d(n \<mapsto> x))"
proof -
  assume f: "fresh_names temporary d" and n: "\<not> has_prefix n ''.''"
  have "temporary m \<noteq> n" for m using f n unfolding fresh_names_def has_prefix_iff by (metis append_Cons append_Nil)
  then show ?thesis using f by (simp add: fresh_names_def)
qed

lemma bundle_name_prefix: "\<not> has_prefix (bundleName item v) ''.''"
  by (simp add: name_defs has_prefix_iff)

lemma temporary_other: "fresh_names temporary d \<Longrightarrow> \<not> has_prefix n ''.'' \<Longrightarrow> temporary m \<noteq> n"
  unfolding fresh_names_def has_prefix_iff by (metis append_Cons append_Nil)

lemma asset_not_bundle: "p \<in> {''torrserver'', ''torrctl''} \<Longrightarrow> binaryAsset item p v \<noteq> bundleName item' v'"
  by (auto simp: name_defs)

text \<open>A bundle holds the members made from the assets and the example of the configuration.\<close>

definition bundle_of :: "archive_lib \<Rightarrow> string \<Rightarrow> string \<Rightarrow> release_dir \<Rightarrow> target \<Rightarrow> string \<Rightarrow> bool" where
  "bundle_of lb v config d item b \<longleftrightarrow>
     (\<exists>torrctl torrserver. d (binaryAsset item ''torrctl'' v) = Some (Regular torrctl) \<and>
        d (binaryAsset item ''torrserver'' v) = Some (Regular torrserver) \<and>
        (let es = bundle_entries item v config torrctl torrserver
         in (if tg_zip item then writeZIP lb es else writeTarGZ lb es) = Some b))"

lemma readRegularFile_Inr: "readRegularFile name n = Inr s \<longleftrightarrow> n = Some (Regular s) \<and> s \<noteq> []"
  by (auto simp: readRegularFile_def validateRegularFile_def split: option.splits node.splits if_splits)

lemma readRegularFile_Inl: "readRegularFile name n \<noteq> Inl []"
  by (auto simp: readRegularFile_def Let_def split: option.splits node.splits)

lemma createBundle_ok:
  assumes "createBundle lb pf (temporary dest) v item config d = ([], d')" and "fresh_names temporary d"
    and "dest = bundleName item v"
  obtains b where "d' = d(dest \<mapsto> Regular b)" and "bundle_of lb v config d item b"
proof -
  let ?s = "\<lambda>product. let name = binaryAsset item product v in readRegularFile name (d name)"
  obtain c s where cs: "?s ''torrctl'' = Inr c" "?s ''torrserver'' = Inr s"
    using assms(1) readRegularFile_Inl
    by (cases "?s ''torrctl''"; cases "?s ''torrserver''") (auto simp: createBundle_def Let_def)
  let ?es = "bundle_entries item v config c s"
  let ?r = "packed dest (if tg_zip item then writeZIP lb ?es else writeTarGZ lb ?es)"
  have w: "writeAtomic pf (temporary dest) dest ?r d = ([], d')"
    using assms(1,3) cs by (simp add: createBundle_def Let_def)
  moreover have "?r \<noteq> Inl []" by (auto simp: packed_def split: option.split)
  moreover have "temporary dest \<noteq> dest" using temporary_other [OF assms(2) bundle_name_prefix] assms(3) by simp
  moreover have "d (temporary dest) = None" using assms(2) by (simp add: fresh_names_def)
  ultimately obtain b where "?r = Inr b" "d' = d(dest \<mapsto> Regular b)"
    using writeAtomic_effect(3) [OF w] by blast
  then show ?thesis
    using that cs by (auto simp: packed_def bundle_of_def Let_def readRegularFile_Inr split: option.splits)
qed

lemma create_bundles_ok:
  assumes "create_bundles lb pf temporary v config items d = ([], d')" and "fresh_names temporary d"
    and "distinct (map (\<lambda>i. bundleName i v) items)"
  shows "(\<forall>n. n \<notin> (\<lambda>i. bundleName i v) ` set items \<longrightarrow> d' n = d n) \<and>
    (\<forall>i \<in> set items. \<exists>b. d' (bundleName i v) = Some (Regular b) \<and> bundle_of lb v config d i b)"
  using assms
proof (induction items arbitrary: d)
  case (Cons i items)
  let ?n = "bundleName i v"
  obtain e d1 where c: "createBundle lb (pf ?n) (temporary ?n) v i config d = (e, d1)" by fastforce
  have e: "e = []" and rest: "create_bundles lb pf temporary v config items d1 = ([], d')"
    using Cons.prems(1) c by (auto simp: Let_def split: if_splits)
  obtain b where b: "d1 = d(?n \<mapsto> Regular b)" "bundle_of lb v config d i b"
    using createBundle_ok [OF c [unfolded e] Cons.prems(2)] by blast
  have fresh: "fresh_names temporary d1"
    unfolding b(1) by (rule fresh_names_upd [OF Cons.prems(2) bundle_name_prefix])
  have IH: "(\<forall>n. n \<notin> (\<lambda>i. bundleName i v) ` set items \<longrightarrow> d' n = d1 n) \<and>
    (\<forall>i \<in> set items. \<exists>b. d' (bundleName i v) = Some (Regular b) \<and> bundle_of lb v config d1 i b)"
    by (rule Cons.IH [OF rest fresh]) (use Cons.prems(3) in simp)
  moreover have "bundle_of lb v config d1 j b' = bundle_of lb v config d j b'" for j b'
    using asset_not_bundle [of "''torrctl''" j v i v] asset_not_bundle [of "''torrserver''" j v i v]
    by (simp add: bundle_of_def b(1))
  moreover have "d' ?n = Some (Regular b)" using IH Cons.prems(3) b(1) by auto
  ultimately show ?case using b by auto
qed simp

section \<open>A created release is accepted\<close>

lemma checksum_lines_text:
  "checksum_lines lb d names = Inr body \<Longrightarrow>
   \<exists>datas. list_all2 (\<lambda>n s. d n = Some (Regular s)) names datas \<and>
     body = concat (map (\<lambda>l. l @ [CHR 0x0A]) (map2 (\<lambda>n s. al_sha256 lb s @ ''  '' @ n) names datas))"
proof (induction names arbitrary: body)
  case (Cons n names)
  obtain s rest where s: "d n = Some (Regular s)" "checksum_lines lb d names = Inr rest"
    "body = al_sha256 lb s @ ''  '' @ n @ [CHR 0x0A] @ rest"
    using Cons.prems by (auto split: option.splits node.splits sum.splits)
  obtain datas where "list_all2 (\<lambda>n s. d n = Some (Regular s)) names datas"
    "rest = concat (map (\<lambda>l. l @ [CHR 0x0A]) (map2 (\<lambda>n s. al_sha256 lb s @ ''  '' @ n) names datas))"
    using Cons.IH [OF s(2)] by blast
  then show ?case using s by (intro exI [of _ "s # datas"]) simp
qed simp

lemma to_lower_plain: "set s \<subseteq> set sha_digits \<Longrightarrow> to_lower s = s"
proof (induction s)
  case (Cons c s)
  have "c \<in> set sha_digits" using Cons.prems by simp
  moreover have "\<forall>c \<in> set sha_digits. c \<noteq> hd kelvin_sign \<and> c \<noteq> hd dotted_capital_I \<and> lower_char c = c" by code_simp
  ultimately show ?case using Cons
    by (subst to_lower.simps) (auto simp: kelvin_sign_def dotted_capital_I_def)
qed (simp add: to_lower.simps)

lemma hex_plain: "set sha_digits \<subseteq> set plain_chars"
  by (auto simp: sha_digits_def plain_iff)

lemma manifest_line_read:
  fixes s :: string
  assumes "digest_law lb" and "set n \<subseteq> set plain_chars" and "n \<noteq> []" and "length n < 65000"
  defines "l \<equiv> al_sha256 lb s @ ''  '' @ n"
  shows "scanned_line l = Some l" and "str_Fields l = [al_sha256 lb s, n]" and "CHR 0x0A \<notin> set l"
proof -
  have sha: "length (al_sha256 lb s) = 64" "set (al_sha256 lb s) \<subseteq> set plain_chars"
    using assms(1) hex_plain by (auto simp: digest_law_def)
  have nl: "CHR 0x0A \<notin> set plain_chars" "CHR 0x0D \<notin> set plain_chars" by (simp_all add: plain_iff)
  show "CHR 0x0A \<notin> set l" using sha(2) assms(2) nl by (auto simp: l_def)
  have "\<not> has_suffix l [CHR 0x0D]"
  proof
    assume "has_suffix l [CHR 0x0D]"
    then have "last l = CHR 0x0D" by (auto simp: has_suffix_iff)
    then show False using assms(2,3) nl(2) by (auto simp: l_def last_in_set subset_iff dest: last_in_set)
  qed
  then show "scanned_line l = Some l" using sha(1) assms(4) by (simp add: scanned_line_def l_def trim_suffix_other)
  show "str_Fields l = [al_sha256 lb s, n]"
    unfolding l_def using sha assms(2,3) by (intro str_Fields_two) auto
qed

lemma manifest_loop_ok:
  assumes "digest_law lb" and "list_all2 (\<lambda>n s. d n = Some (Regular s)) names datas"
    and "\<forall>n \<in> set names. set n \<subseteq> set plain_chars \<and> n \<noteq> [] \<and> length n < 65000"
    and "distinct (names0 @ names)" and "set seen = set names0"
  shows "manifest_loop lb d (names0 @ names) seen (length names0) (map2 (\<lambda>n s. al_sha256 lb s @ ''  '' @ n) names datas) = []"
  using assms(2-5)
proof (induction names datas arbitrary: names0 seen rule: list_all2_induct)
  case (Cons n names s datas)
  have n: "set n \<subseteq> set plain_chars" "n \<noteq> []" "length n < 65000" using Cons.prems(1) by auto
  have "length (al_sha256 lb s) = 64" "to_lower (al_sha256 lb s) = al_sha256 lb s"
    using assms(1) to_lower_plain by (auto simp: digest_law_def)
  moreover have "manifest_loop lb d ((names0 @ [n]) @ names) (n # seen) (length (names0 @ [n]))
      (map2 (\<lambda>n s. al_sha256 lb s @ ''  '' @ n) names datas) = []"
    using Cons.prems by (intro Cons.IH) auto
  ultimately show ?case
    using Cons.hyps(1) Cons.prems(2,3) manifest_line_read [OF assms(1) n, of s] by (simp add: checksumFile_def nth_append)
qed simp

text \<open>The members made from assets of a size that the verification takes.\<close>

lemma bundle_entries_ok:
  assumes "int (length config) \<le> maxMemberBytes" and "int (length c) \<le> maxMemberBytes" and "int (length s) \<le> maxMemberBytes"
  shows "\<forall>e \<in> set (bundle_entries item v config c s). entry_ok e" and "length (bundle_entries item v config c s) = 4"
  using assms by (auto simp: bundle_entries_def Let_def entry_ok_def maxMemberBytes_def directoryMode_def binaryMode_def)

lemma bundle_entries_names:
  "mset (map am_name (map entry_member (bundle_entries item v config c s))) = mset (map fst (expectedMembers item v))"
  by (simp add: bundle_entries_def expectedMembers_def Let_def entry_member_def)

lemma expected_lookup:
  "map_of (expectedMembers item v) (topLevel item v @ ''/'') =
     Some \<lparr>mr_mode = directoryMode, mr_directory = True, mr_config = False, mr_product = []\<rparr>"
  "map_of (expectedMembers item v) (topLevel item v @ ''/config.example.yml'') =
     Some \<lparr>mr_mode = configMode, mr_directory = False, mr_config = True, mr_product = []\<rparr>"
  "map_of (expectedMembers item v) (topLevel item v @ ''/'' @ bundledBinary item ''torrctl'') =
     Some \<lparr>mr_mode = binaryMode, mr_directory = False, mr_config = False, mr_product = ''torrctl''\<rparr>"
  "map_of (expectedMembers item v) (topLevel item v @ ''/'' @ bundledBinary item ''torrserver'') =
     Some \<lparr>mr_mode = binaryMode, mr_directory = False, mr_config = False, mr_product = ''torrserver''\<rparr>"
  by (simp_all add: expectedMembers_def Let_def bundledBinary_def)

definition inspector_accepts :: "inspection \<Rightarrow> string \<Rightarrow> string \<Rightarrow> release_dir \<Rightarrow> target \<Rightarrow> bool" where
  "inspector_accepts ins v commit d item \<longleftrightarrow>
     (\<forall>p \<in> {''torrctl'', ''torrserver''}. \<forall>s. d (binaryAsset item p v) = Some (Regular s) \<longrightarrow> in_inspect ins s p v commit)"

lemma member_fitsI: "map_of ex (am_name m) = Some r \<Longrightarrow> member_meets ins v c r m \<Longrightarrow> member_fits ins v c ex m"
  by (auto simp: member_fits_def)

lemma bundle_entries_fit:
  assumes "\<forall>n. \<not> in_extractFails ins n" and "str_contains config debug_disabled"
    and "in_inspect ins c ''torrctl'' v commit" and "in_inspect ins s ''torrserver'' v commit"
    and "e \<in> set (bundle_entries item v config c s)"
  shows "member_fits ins v commit (expectedMembers item v) (entry_member e)"
proof -
  let ?t = "topLevel item v"
  let ?ex = "expectedMembers item v"
  consider "e = \<lparr>ae_name = ?t @ ''/'', ae_mode = directoryMode, ae_data = [], ae_directory = True\<rparr>"
    | "e = \<lparr>ae_name = ?t @ ''/config.example.yml'', ae_mode = configMode, ae_data = config, ae_directory = False\<rparr>"
    | "e = \<lparr>ae_name = ?t @ ''/'' @ bundledBinary item ''torrctl'', ae_mode = binaryMode, ae_data = c, ae_directory = False\<rparr>"
    | "e = \<lparr>ae_name = ?t @ ''/'' @ bundledBinary item ''torrserver'', ae_mode = binaryMode, ae_data = s, ae_directory = False\<rparr>"
    using assms(5) unfolding bundle_entries_def Let_def set_sort by auto
  then show ?thesis
  proof cases
    case 1
    then have n: "am_name (entry_member e) = ?t @ ''/''" by (simp add: entry_member_def)
    show ?thesis by (rule member_fitsI [OF expected_lookup(1) [of item v, folded n]]) (simp add: 1 entry_member_def member_meets_def)
  next
    case 2
    then have n: "am_name (entry_member e) = ?t @ ''/config.example.yml''" by (simp add: entry_member_def)
    show ?thesis
      by (rule member_fitsI [OF expected_lookup(2) [of item v, folded n]]) (simp add: 2 entry_member_def member_meets_def assms(2))
  next
    case 3
    then have n: "am_name (entry_member e) = ?t @ ''/'' @ bundledBinary item ''torrctl''" by (simp add: entry_member_def)
    show ?thesis
      by (rule member_fitsI [OF expected_lookup(3) [of item v, folded n]]) (simp add: 3 entry_member_def member_meets_def assms(1,3))
  next
    case 4
    then have n: "am_name (entry_member e) = ?t @ ''/'' @ bundledBinary item ''torrserver''" by (simp add: entry_member_def)
    show ?thesis
      by (rule member_fitsI [OF expected_lookup(4) [of item v, folded n]]) (simp add: 4 entry_member_def member_meets_def assms(1,4))
  qed
qed

lemma created_bundle_accepted:
  assumes "versionPattern v" and "item \<in> set releaseTargets" and "archive_law lb"
    and "bundle_of lb v config d item b" and "d' (bundleName item v) = Some (Regular b)"
    and "\<forall>n s. d n = Some (Regular s) \<longrightarrow> int (length s) \<le> maxMemberBytes" and "int (length config) \<le> maxMemberBytes"
    and "\<forall>n. \<not> in_extractFails ins n" and "str_contains config debug_disabled" and "inspector_accepts ins v commit d item"
  shows "verifyBundle lb ins False False d' v commit item = []"
proof -
  obtain c s where cs: "d (binaryAsset item ''torrctl'' v) = Some (Regular c)" "d (binaryAsset item ''torrserver'' v) = Some (Regular s)"
    and pack: "(if tg_zip item then writeZIP lb (bundle_entries item v config c s) else writeTarGZ lb (bundle_entries item v config c s)) = Some b"
    using assms(4) by (auto simp: bundle_of_def Let_def)
  let ?ms = "map entry_member (bundle_entries item v config c s)"
  have sizes: "int (length c) \<le> maxMemberBytes" "int (length s) \<le> maxMemberBytes" using assms(6) cs by blast+
  note ok = bundle_entries_ok [OF assms(7) sizes]
  have "readArchive lb (Some (Regular b)) (tg_zip item) = Inr ?ms"
    using ok(2) by (intro read_written_archive [OF assms(3) ok(1) _ pack]) simp
  moreover have "in_inspect ins c ''torrctl'' v commit" "in_inspect ins s ''torrserver'' v commit"
    using assms(10) cs by (auto simp: inspector_accepts_def)
  then have "(let (err, seen) = verify_members ins v commit (expectedMembers item v) [] ?ms
      in if err \<noteq> [] then err else verifyExpectedMembers seen (expectedMembers item v)) = []"
    unfolding bundle_members_ok [OF assms(1,2)] using bundle_entries_names bundle_entries_fit [OF assms(8,9)] by auto
  ultimately show ?thesis using assms(5) by (auto simp: verifyBundle_def Let_def split: prod.splits)
qed

text \<open>Names that tell the assets, the bundles and the manifest apart.\<close>

lemma expected_assets:
  "set (expectedAssetNames v) =
     (\<Union>item \<in> set releaseTargets. {binaryAsset item ''torrserver'' v, binaryAsset item ''torrctl'' v, bundleName item v})"
  by (auto simp: expectedAssetNames_def)

lemma expected_assets_distinct: "distinct (expectedAssetNames v)"
  unfolding expectedAssetNames_def distinct_sort by (simp add: releaseTargets_def name_defs)

lemma bundles_distinct: "distinct (map (\<lambda>i. bundleName i v) releaseTargets)"
  by (simp add: releaseTargets_def name_defs)

lemma manifest_not_asset: "manifest_name v \<notin> set (expectedAssetNames v)"
  unfolding expected_assets using targets_simps by (auto simp: name_defs dest!: targets_simps)

lemma manifest_name_prefix: "\<not> has_prefix (manifest_name v) ''.''"
  by (simp add: manifest_name_def has_prefix_iff)

lemma asset_readable:
  assumes "versionPattern v" and "length v \<le> 200" and "n \<in> set (expectedAssetNames v)"
  shows "set n \<subseteq> set plain_chars \<and> n \<noteq> [] \<and> length n < 65000"
proof -
  have "name_chars n" using assms(1,3) asset_chars unfolding expected_assets by auto
  moreover have "n \<noteq> [] \<and> length n < 65000"
    using assms(2,3) unfolding expected_assets by (auto simp: name_defs dest!: targets_simps)
  ultimately show ?thesis by (auto simp: name_chars_def)
qed

text \<open>What \<open>CreateAll\<close> leaves when it succeeds: every bundle, and the checksums of every asset.\<close>

lemma CreateAll_ok:
  assumes "CreateAll lb pf temporary (Some (Regular config)) v d = ([], d')" and "fresh_names temporary d"
  obtains d1 names where "versionPattern v"
    and "\<forall>i \<in> set releaseTargets. \<exists>b. d1 (bundleName i v) = Some (Regular b) \<and> bundle_of lb v config d i b"
    and "checksum_lines lb d1 (expectedAssetNames v) = Inr names"
    and "d' = d1(manifest_name v \<mapsto> Regular names)"
proof -
  let ?m = "manifest_name v"
  have c: "versionPattern v" "readRegularFile ''config.yml'' (Some (Regular config)) = Inr config" "validateCreateInputs v d = []"
    using assms(1) readRegularFile_Inl [of "''config.yml''" "Some (Regular config)"]
    by (auto simp: CreateAll_def Let_def readRegularFile_Inr split: if_splits sum.splits)
  obtain e d1 where cb: "create_bundles lb pf temporary v config releaseTargets d = (e, d1)" by fastforce
  have e: "e = []" and w: "writeAtomic (pf ?m) (temporary ?m) ?m (checksum_lines lb d1 (expectedAssetNames v)) d1 = ([], d')"
    using assms(1) c cb by (auto simp: CreateAll_def Let_def writeChecksumManifest_def split: if_splits)
  note made = create_bundles_ok [OF cb [unfolded e] assms(2) bundles_distinct]
  have "temporary ?m \<noteq> bundleName i v" for i using temporary_other [OF assms(2) bundle_name_prefix] by blast
  then have free: "d1 (temporary ?m) = None" using made assms(2) by (force simp: fresh_names_def)
  have inl: "checksum_lines lb d1 ns \<noteq> Inl []" for ns
    by (induction ns) (auto split: option.splits node.splits sum.splits)
  obtain names where "checksum_lines lb d1 (expectedAssetNames v) = Inr names" "d' = d1(?m \<mapsto> Regular names)"
    using writeAtomic_effect(3) [OF w free temporary_other [OF assms(2) manifest_name_prefix] inl] by blast
  then show ?thesis using that c made by (auto simp: readRegularFile_Inr)
qed

lemma first_errors_Nil: "first_errors f xs = [] \<longleftrightarrow> (\<forall>x \<in> set xs. f x = [])"
  by (induction xs) auto

lemma manifest_accepted:
  assumes "digest_law lb" and "versionPattern v" and "length v \<le> 200"
    and "checksum_lines lb d1 (expectedAssetNames v) = Inr names" and "d' = d1(manifest_name v \<mapsto> Regular names)"
  shows "verifyChecksumManifest lb d' v = []"
proof -
  let ?ns = "expectedAssetNames v"
  let ?line = "\<lambda>n s. al_sha256 lb s @ ''  '' @ n"
  obtain datas where data: "list_all2 (\<lambda>n s. d1 n = Some (Regular s)) ?ns datas"
    and names: "names = concat (map (\<lambda>l. l @ [CHR 0x0A]) (map2 ?line ?ns datas))"
    using checksum_lines_text [OF assms(4)] by blast
  have readable: "\<forall>n \<in> set ?ns. set n \<subseteq> set plain_chars \<and> n \<noteq> [] \<and> length n < 65000"
    using asset_readable [OF assms(2,3)] by blast
  have "\<forall>l \<in> set (map2 ?line ?ns datas). CHR 0x0A \<notin> set l"
    using readable manifest_line_read(3) [OF assms(1)] by (auto dest!: set_zip_leftD)
  then have lines: "text_lines names = map2 ?line ?ns datas" unfolding names by (rule text_lines_concat)
  have "list_all2 (\<lambda>n s. d' n = Some (Regular s)) ?ns datas"
    using data manifest_not_asset [of v] unfolding assms(5)
    by (smt (verit, best) fun_upd_other list_all2_conv_all_nth nth_mem)
  then have "manifest_loop lb d' ([] @ ?ns) [] (length ([] :: string list)) (map2 ?line ?ns datas) = []"
    using readable expected_assets_distinct by (intro manifest_loop_ok [OF assms(1)]) simp_all
  then show ?thesis by (simp add: verifyChecksumManifest_def assms(5) lines)
qed

text \<open>The creation succeeds when nothing fails and the inputs are there.\<close>

definition inputs_ready :: "string \<Rightarrow> target list \<Rightarrow> release_dir \<Rightarrow> bool" where
  "inputs_ready v items d \<longleftrightarrow>
     (\<forall>i \<in> set items. d (bundleName i v) = None) \<and>
     (\<forall>i \<in> set releaseTargets. \<forall>p \<in> {''torrserver'', ''torrctl''}. \<exists>s. s \<noteq> [] \<and> d (binaryAsset i p v) = Some (Regular s))"

lemma plain_name: "name_chars n \<Longrightarrow> n \<noteq> [] \<Longrightarrow> \<not> has_prefix n ''.'' \<Longrightarrow> plain_element n"
  by (auto simp: plain_element_def name_chars_def has_prefix_iff)

lemma writeAtomic_succeeds:
  assumes "plain_element dest" and "d dest \<noteq> Some Folder" and "temporary \<noteq> dest"
  shows "fst (writeAtomic no_faults temporary dest (Inr b) d) = []"
  using assms plain_element_local [OF assms(1)] by (simp add: writeAtomic_def publish_body_def no_faults_def Let_def)

lemma packed_total: "\<forall>z es. al_pack lb z es \<noteq> None \<Longrightarrow> \<exists>b. packed n (al_pack lb z es) = Inr b"
proof -
  assume "\<forall>z es. al_pack lb z es \<noteq> None"
  then have "al_pack lb z es \<noteq> None" by blast
  then show ?thesis by (auto simp: packed_def)
qed

lemma createBundle_succeeds:
  assumes "versionPattern v" and "i \<in> set releaseTargets" and "inputs_ready v (i # items) d" and "fresh_names temporary d"
    and "\<forall>z es. al_pack lb z es \<noteq> None"
  shows "fst (createBundle lb no_faults (temporary (bundleName i v)) v i config d) = []"
proof -
  obtain c s where "d (binaryAsset i ''torrctl'' v) = Some (Regular c)" "c \<noteq> []"
    and "d (binaryAsset i ''torrserver'' v) = Some (Regular s)" "s \<noteq> []"
    using assms(2,3) unfolding inputs_ready_def by (metis insertI1 insertI2)
  then have "readRegularFile (binaryAsset i ''torrctl'' v) (d (binaryAsset i ''torrctl'' v)) = Inr c"
    "readRegularFile (binaryAsset i ''torrserver'' v) (d (binaryAsset i ''torrserver'' v)) = Inr s"
    by (simp_all add: readRegularFile_Inr)
  moreover have "\<exists>b. packed n (if tg_zip i then writeZIP lb es else writeTarGZ lb es) = Inr b" for n es
    using packed_total [OF assms(5)] by (simp add: writeZIP_def writeTarGZ_def)
  moreover have "plain_element (bundleName i v)"
    using asset_chars(1) [OF assms(1,2)] bundle_name_prefix by (intro plain_name) (auto simp: name_defs)
  then have "fst (writeAtomic no_faults (temporary (bundleName i v)) (bundleName i v) (Inr b) d) = []" for b
    using assms(3) temporary_other [OF assms(4) bundle_name_prefix]
    by (intro writeAtomic_succeeds) (auto simp: inputs_ready_def)
  ultimately show ?thesis unfolding createBundle_def Let_def by (metis sum.simps(6))
qed

lemma create_bundles_succeeds:
  assumes "versionPattern v" and "set items \<subseteq> set releaseTargets" and "inputs_ready v items d" and "fresh_names temporary d"
    and "\<forall>z es. al_pack lb z es \<noteq> None" and "distinct (map (\<lambda>i. bundleName i v) items)"
  shows "fst (create_bundles lb (\<lambda>n. no_faults) temporary v config items d) = []"
  using assms
proof (induction items arbitrary: d)
  case (Cons i items)
  let ?n = "bundleName i v"
  obtain e d1 where c: "createBundle lb no_faults (temporary ?n) v i config d = (e, d1)" by fastforce
  have e: "e = []" using createBundle_succeeds [of v i items d temporary lb config] Cons.prems c by simp
  obtain b where b: "d1 = d(?n \<mapsto> Regular b)"
    using createBundle_ok [OF c [unfolded e] Cons.prems(4)] by blast
  have "fresh_names temporary d1" unfolding b by (rule fresh_names_upd [OF Cons.prems(4) bundle_name_prefix])
  moreover have "\<forall>j \<in> set items. bundleName j v \<noteq> ?n" using Cons.prems(6) by (auto dest: sym)
  then have "inputs_ready v items d1"
    using Cons.prems(3) asset_not_bundle [of _ _ v i v] by (simp add: inputs_ready_def b)
  ultimately have "fst (create_bundles lb (\<lambda>n. no_faults) temporary v config items d1) = []"
    using Cons by simp
  then show ?case by (simp add: Let_def c e)
qed simp

lemma checksum_lines_succeeds:
  "\<forall>n \<in> set ns. \<exists>s. d n = Some (Regular s) \<Longrightarrow> \<exists>b. checksum_lines lb d ns = Inr b"
  by (induction ns) auto

lemma CreateAll_succeeds:
  assumes "versionPattern v" and "inputs_ready v releaseTargets d" and "fresh_names temporary d"
    and "\<forall>z es. al_pack lb z es \<noteq> None" and "config \<noteq> []" and "d (manifest_name v) = None"
  shows "fst (CreateAll lb (\<lambda>n. no_faults) temporary (Some (Regular config)) v d) = []"
proof -
  let ?m = "manifest_name v"
  have inputs: "validateCreateInputs v d = []"
  proof -
    have "first_errors f xs = [] \<longleftrightarrow> (\<forall>x \<in> set xs. f x = [])" for f and xs :: "'c list" by (induction xs) auto
    then show ?thesis using assms(2)
      by (fastforce simp: validateCreateInputs_def inputs_ready_def validateRegularFile_def Let_def)
  qed
  obtain e d1 where c: "create_bundles lb (\<lambda>n. no_faults) temporary v config releaseTargets d = (e, d1)" by fastforce
  have e: "e = []"
    using create_bundles_succeeds [OF assms(1) order.refl assms(2-4) bundles_distinct, of config] c by simp
  note made = create_bundles_ok [OF c [unfolded e] assms(3) bundles_distinct]
  have "\<exists>s. d1 n = Some (Regular s)" if "n \<in> set (expectedAssetNames v)" for n
  proof -
    consider i where "i \<in> set releaseTargets" "n = bundleName i v"
      | i p where "i \<in> set releaseTargets" "p \<in> {''torrserver'', ''torrctl''}" "n = binaryAsset i p v"
      using \<open>n \<in> _\<close> unfolding expected_assets by auto
    then show ?thesis
    proof cases
      case 2
      have "n \<notin> (\<lambda>i. bundleName i v) ` set releaseTargets" unfolding 2(3) using asset_not_bundle [OF 2(2)] by blast
      then have "d1 n = d n" using made by blast
      then show ?thesis using 2 assms(2) unfolding inputs_ready_def by auto
    qed (use made in blast)
  qed
  then obtain b where b: "checksum_lines lb d1 (expectedAssetNames v) = Inr b" using checksum_lines_succeeds by meson
  have "?m \<notin> (\<lambda>i. bundleName i v) ` set releaseTargets" using manifest_not_asset unfolding expected_assets by auto
  then have "d1 ?m = None" using made assms(6) by simp
  moreover have "plain_element ?m"
    using version_chars [OF assms(1)] manifest_name_prefix by (intro plain_name) (auto simp: manifest_name_def)
  moreover have "temporary ?m \<noteq> ?m" by (rule temporary_other [OF assms(3) manifest_name_prefix])
  ultimately have "fst (writeAtomic no_faults (temporary ?m) ?m (Inr b) d1) = []" by (intro writeAtomic_succeeds) simp_all
  moreover have "readRegularFile ''config.yml'' (Some (Regular config)) = Inr config" using assms(5) by (simp add: readRegularFile_Inr)
  ultimately show ?thesis
    using assms(1) inputs c e b by (simp add: CreateAll_def writeChecksumManifest_def Let_def)
qed

section \<open>An archive format\<close>

text \<open>A format for the examples: every byte of a field is marked, and a dot ends a field.\<close>

definition put_field :: "string \<Rightarrow> string" where
  "put_field s = concat (map (\<lambda>c. [CHR ''x'', c]) s) @ ''.''"

fun get_field :: "string \<Rightarrow> string \<times> string" where
  "get_field (m # c # s) = (if m = CHR ''x'' then let (f, r) = get_field s in (c # f, r) else ([], c # s))"
| "get_field [m] = ([], [])"
| "get_field [] = ([], [])"

lemma get_put_field: "get_field (put_field s @ t) = (s, t)"
proof (induction s)
  case Nil
  then show ?case by (cases t) (simp_all add: put_field_def)
next
  case (Cons c s)
  then show ?case by (simp add: put_field_def)
qed

definition put_member :: "archive_header \<times> string \<Rightarrow> string" where
  "put_member = (\<lambda>(h, s). put_field (ah_name h) @ put_field (replicate (nat (ah_mode h)) CHR ''m'') @
     put_field (if ah_kind h = DirMember then ''d'' else ''f'') @ put_field s)"

fun get_members :: "nat \<Rightarrow> string \<Rightarrow> (archive_header \<times> string option) list" where
  "get_members 0 b = []"
| "get_members (Suc n) b =
     (if b = [] then []
      else let (name, r) = get_field b; (mode, r) = get_field r; (kind, r) = get_field r; (s, r) = get_field r
        in (\<lparr>ah_name = name, ah_mode = int (length mode), ah_kind = (if kind = ''d'' then DirMember else RegMember),
             ah_size = int (length s)\<rparr>, Some s) # get_members n r)"

definition marked_format :: archive_lib where
  "marked_format = \<lparr>al_pack = \<lambda>z es. Some (concat (map put_member es)),
     al_unpack = \<lambda>z b. Some (get_members (length b) b, False), al_sha256 = \<lambda>s. replicate 64 CHR ''0''\<rparr>"

lemma get_put_members:
  "\<forall>(h, s) \<in> set es. ah_kind h \<noteq> OtherMember \<and> 0 \<le> ah_mode h \<Longrightarrow> length es \<le> n \<Longrightarrow>
   get_members n (concat (map put_member es)) = map (\<lambda>(h, s). (h\<lparr>ah_size := int (length s)\<rparr>, Some s)) es"
proof (induction es arbitrary: n)
  case Nil
  then show ?case by (cases n) simp_all
next
  case (Cons e es)
  obtain h s where e: "e = (h, s)" by fastforce
  obtain m where n: "n = Suc m" using Cons.prems(2) by (cases n) simp_all
  let ?rest = "concat (map put_member es)"
  have "put_member e \<noteq> []" by (simp add: e put_member_def put_field_def)
  moreover have "get_members m ?rest = map (\<lambda>(h, s). (h\<lparr>ah_size := int (length s)\<rparr>, Some s)) es"
    using Cons n by simp
  moreover have "ah_kind h = DirMember \<or> ah_kind h = RegMember" "0 \<le> ah_mode h"
    using Cons.prems(1) e by (cases "ah_kind h"; simp)+
  ultimately show ?case by (auto simp: n e put_member_def get_put_field)
qed

lemma marked_format_laws: "archive_law marked_format \<and> digest_law marked_format"
proof -
  have len: "length es \<le> length (concat (map put_member es))" for es
  proof (induction es)
    case (Cons e es)
    moreover have "1 \<le> length (put_member e)" by (cases e) (simp add: put_member_def put_field_def)
    ultimately show ?case by simp
  qed simp
  have "archive_law marked_format"
    unfolding archive_law_def marked_format_def using get_put_members [OF _ len] by (simp add: case_prod_beta)
  then show ?thesis by (auto simp: digest_law_def marked_format_def sha_digits_def)
qed

text \<open>A release directory with the ten binaries.\<close>

definition demo_release :: release_dir where
  "demo_release = (\<lambda>n. if n \<in> set (concat (map (\<lambda>i. [binaryAsset i ''torrserver'' ''2.0.1-rc.3'', binaryAsset i ''torrctl'' ''2.0.1-rc.3''])
     releaseTargets)) then Some (Regular (''binary '' @ n)) else None)"

definition demo_config :: string where
  "demo_config = ''server:'' @ [CHR 0x0A] @ debug_disabled @ [CHR 0x0A]"

definition demo_temporary :: "string \<Rightarrow> string" where
  "demo_temporary n = ''.release-bundle-7''"

definition demo_inspection :: inspection where
  "demo_inspection = \<lparr>in_extractFails = \<lambda>n. False, in_inspect = \<lambda>data product version commit. has_prefix data (''binary '' @ product)\<rparr>"


section \<open>The properties\<close>

text \<open>
  Property C33. For a version and a target of the release, the verification of a bundle gives no error exactly when
  the archive can be read within its limits, the names of its members are the four expected ones, each once, and each
  member has the type and the mode asked for, its binaries satisfy the inspector, and its configuration keeps debugging
  disabled. The checks of the paths reject nothing else.
\<close>

theorem bundle_verified_exactly:
  assumes "versionPattern version" and "item \<in> set releaseTargets"
  shows "verifyBundle lb ins False False d version commit item = [] \<longleftrightarrow>
    (\<exists>ms. readArchive lb (d (bundleName item version)) (tg_zip item) = Inr ms \<and>
       mset (map am_name ms) = mset (map fst (expectedMembers item version)) \<and>
       (\<forall>m \<in> set ms. member_fits ins version commit (expectedMembers item version) m))"
proof (cases "readArchive lb (d (bundleName item version)) (tg_zip item)")
  case (Inl es)
  then have "es \<noteq> []" using readArchive_Inl by auto
  then show ?thesis using Inl by (simp add: verifyBundle_def)
next
  case (Inr ms)
  have "verifyBundle lb ins False False d version commit item =
    (let (err, seen) = verify_members ins version commit (expectedMembers item version) [] ms
     in if err \<noteq> [] then err else verifyExpectedMembers seen (expectedMembers item version))"
    by (simp add: verifyBundle_def Inr Let_def)
  then show ?thesis unfolding Inr by (simp only: bundle_members_ok [OF assms] sum.inject ex_simps simp_thms)
qed

theorem bundle_verified_exactly_witness:
  "verifyBundle marked_format demo_inspection False False Map.empty ''2.0.1'' ''9f2c'' (releaseTargets ! 4) = [] \<longleftrightarrow>
    (\<exists>ms. readArchive marked_format None True = Inr ms \<and>
       mset (map am_name ms) = mset (map fst (expectedMembers (releaseTargets ! 4) ''2.0.1'')) \<and>
       (\<forall>m \<in> set ms. member_fits demo_inspection ''2.0.1'' ''9f2c'' (expectedMembers (releaseTargets ! 4) ''2.0.1'') m))"
proof -
  have "versionPattern ''2.0.1''" by code_simp
  moreover have "releaseTargets ! 4 \<in> set releaseTargets" "tg_zip (releaseTargets ! 4)" by (simp_all add: releaseTargets_def)
  ultimately show ?thesis
    using bundle_verified_exactly [of "''2.0.1''" "releaseTargets ! 4" marked_format demo_inspection Map.empty "''9f2c''"] by simp
qed

text \<open>
  A file is published whole or not at all: whatever fails, no other name changes, the destination keeps
  what it named or names the whole content, it does name it when no error is reported, and the temporary file is gone unless
  its removal failed.
\<close>

theorem publication_atomic:
  assumes "writeAtomic pf temporary dest content d = (err, d')" and "d temporary = None" and "temporary \<noteq> dest"
    and "content \<noteq> Inl []"
  shows "(\<forall>n. n = dest \<or> n = temporary \<or> d' n = d n) \<and>
    (d' dest = d dest \<or> (\<exists>bytes. content = Inr bytes \<and> d' dest = Some (Regular bytes))) \<and>
    (err = [] \<longrightarrow> (\<exists>bytes. content = Inr bytes \<and> d' = d(dest \<mapsto> Regular bytes))) \<and>
    (d' temporary = None \<or> pf_remove pf)"
proof (intro conjI allI impI)
  show "n = dest \<or> n = temporary \<or> d' n = d n" for n using writeAtomic_effect(1) [OF assms, of n] by fast
  show "d' temporary = None \<or> pf_remove pf" using writeAtomic_effect(4) [OF assms] by fast
qed (fact writeAtomic_effect(2,3) [OF assms])+

theorem publication_atomic_witness:
  "snd (writeAtomic no_faults ''.release-bundle-7'' ''SUMS'' (Inr ''0  a'') demo_release) = demo_release(''SUMS'' \<mapsto> Regular ''0  a'')"
proof -
  let ?r = "writeAtomic no_faults ''.release-bundle-7'' ''SUMS'' (Inr ''0  a'') demo_release"
  have free: "demo_release ''.release-bundle-7'' = None" "demo_release ''SUMS'' = None"
    by (auto simp: demo_release_def releaseTargets_def name_defs)
  then have "fst ?r = []" by (intro writeAtomic_succeeds) (simp_all add: plain_element_def)
  then have "?r = ([], snd ?r)" by (simp add: prod_eq_iff)
  from publication_atomic [OF this free(1)] have "\<exists>bytes. Inr ''0  a'' = (Inr bytes :: release_error list + string) \<and>
      snd ?r = demo_release(''SUMS'' \<mapsto> Regular bytes)" by simp
  then show ?thesis by auto
qed

text \<open>
  Property C34. A release that was created is accepted: when \<open>CreateAll\<close> reports no error, \<open>VerifyAll\<close> reports none on
  what it left, for archive packages that read what they wrote, members of at most 256 MiB, a configuration that keeps
  debugging disabled, and binaries that satisfy the inspector.
\<close>

theorem created_release_accepted:
  assumes created: "CreateAll lb pf temporary (Some (Regular config)) v d = ([], d')" and fresh: "fresh_names temporary d"
    and laws: "archive_law lb" "digest_law lb" and short: "length v \<le> 200" and commit: "trim_space commit \<noteq> []"
    and sizes: "\<forall>n s. d n = Some (Regular s) \<longrightarrow> int (length s) \<le> maxMemberBytes" "int (length config) \<le> maxMemberBytes"
    and debug: "str_contains config debug_disabled"
    and binaries: "\<forall>n. \<not> in_extractFails ins n" "\<forall>item \<in> set releaseTargets. inspector_accepts ins v commit d item"
  shows "verifyAll lb ins False False d' v commit = []"
proof -
  obtain d1 names where v: "versionPattern v"
    and made: "\<forall>i \<in> set releaseTargets. \<exists>b. d1 (bundleName i v) = Some (Regular b) \<and> bundle_of lb v config d i b"
    and sums: "checksum_lines lb d1 (expectedAssetNames v) = Inr names" and d': "d' = d1(manifest_name v \<mapsto> Regular names)"
    by (rule CreateAll_ok [OF created fresh])
  have keep: "n \<in> set (expectedAssetNames v) \<Longrightarrow> d' n = d1 n" for n using manifest_not_asset [of v] by (auto simp: d')
  have "verifyChecksumManifest lb d' v = []" by (rule manifest_accepted [OF laws(2) v short sums d'])
  moreover have "verifyBundle lb ins False False d' v commit item = []" if item: "item \<in> set releaseTargets" for item
  proof -
    obtain b where b: "d1 (bundleName item v) = Some (Regular b)" "bundle_of lb v config d item b" using made item by blast
    have "d' (bundleName item v) = Some (Regular b)" using b(1) keep [of "bundleName item v"] item unfolding expected_assets by fastforce
    then show ?thesis
      using created_bundle_accepted [OF v item laws(1) b(2) _ sizes binaries(1) debug] binaries(2) item by blast
  qed
  then have "first_errors (verifyBundle lb ins False False d' v commit) releaseTargets = []"
    by (simp add: first_errors_Nil)
  ultimately show ?thesis using v commit by (simp add: verifyAll_def)
qed

lemma demo_ready: "inputs_ready ''2.0.1-rc.3'' releaseTargets demo_release"
  unfolding inputs_ready_def demo_release_def by (simp add: releaseTargets_def name_defs)

theorem created_release_accepted_witness:
  "verifyAll marked_format demo_inspection False False
     (snd (CreateAll marked_format (\<lambda>n. no_faults) demo_temporary (Some (Regular demo_config)) ''2.0.1-rc.3'' demo_release))
     ''2.0.1-rc.3'' ''9f2c'' = []"
proof (rule created_release_accepted)
  have version: "versionPattern ''2.0.1-rc.3''" by code_simp
  have none: "demo_release n = None" if "\<not> has_prefix n ''torrserver-'' \<and> \<not> has_prefix n ''torrctl-''" for n
    using that by (auto simp: demo_release_def releaseTargets_def name_defs has_prefix_iff)
  show fresh: "fresh_names demo_temporary demo_release"
    using none by (simp add: fresh_names_def demo_temporary_def has_prefix_iff)
  have "demo_release (manifest_name ''2.0.1-rc.3'') = None"
    by (simp add: demo_release_def releaseTargets_def name_defs)
  then have "fst (CreateAll marked_format (\<lambda>n. no_faults) demo_temporary (Some (Regular demo_config)) ''2.0.1-rc.3'' demo_release) = []"
    using CreateAll_succeeds [OF version demo_ready fresh] by (simp add: marked_format_def demo_config_def)
  then show "CreateAll marked_format (\<lambda>n. no_faults) demo_temporary (Some (Regular demo_config)) ''2.0.1-rc.3'' demo_release =
      ([], snd (CreateAll marked_format (\<lambda>n. no_faults) demo_temporary (Some (Regular demo_config)) ''2.0.1-rc.3'' demo_release))"
    by (metis prod.collapse)
  show "archive_law marked_format" "digest_law marked_format" using marked_format_laws by simp_all
  show "length ''2.0.1-rc.3'' \<le> 200" by simp
  show "trim_space ''9f2c'' \<noteq> []" by code_simp
  show "\<forall>n s. demo_release n = Some (Regular s) \<longrightarrow> int (length s) \<le> maxMemberBytes"
    by (auto simp: demo_release_def maxMemberBytes_def releaseTargets_def name_defs split: if_splits)
  show "int (length demo_config) \<le> maxMemberBytes" "str_contains demo_config debug_disabled"
    by (simp_all add: demo_config_def debug_disabled_def maxMemberBytes_def has_prefix_iff)
  show "\<forall>n. \<not> in_extractFails demo_inspection n" by (simp add: demo_inspection_def)
  show "\<forall>item \<in> set releaseTargets. inspector_accepts demo_inspection ''2.0.1-rc.3'' ''9f2c'' demo_release item"
    by (auto simp: inspector_accepts_def demo_release_def demo_inspection_def binaryAsset_def has_prefix_iff split: if_splits)
qed

end
