(* ===== verification/Config_Loading.thy ===== *)
theory Config_Loading
  imports Settings Go_Strings
begin

text \<open>
  The configuration of the daemon: its file and defaults (config/config.go), its static view (config/converter.go,
  settings/static_config.go) and its way into the settings (settings/provider.go). The files, the environment and
  the decoder of YAML are arguments; the path of the executable is not modelled.
\<close>

section \<open>The sections of the file\<close>

record ServerSection =
  sv_Port :: string
  sv_SSL :: bool
  sv_SSLPort :: string
  sv_SSLCert :: string
  sv_SSLKey :: string
  sv_HTTPAuth :: bool
  sv_SearchWA :: bool
  sv_ShutdownMode :: string

record CacheSection =
  ca_SizeMB :: int
  ca_PreloadPercent :: int
  ca_UseDisk :: bool
  ca_TorrentsSavePath :: string

record TorrentSection =
  ts_ForceEncrypt :: bool
  ts_RetrackersMode :: int
  ts_DisconnectTimeoutSec :: int
  ts_ConnectionsLimit :: int

record NetworkSection =
  ne_EnableIPv6 :: bool
  ne_DisableTCP :: bool
  ne_DisableUTP :: bool
  ne_DisableUPNP :: bool
  ne_DisableDHT :: bool
  ne_DisablePEX :: bool
  ne_DisableUpload :: bool
  ne_DownloadRateLimitKB :: int
  ne_UploadRateLimitKB :: int
  ne_PeersListenPort :: int
  ne_EnableLPD :: bool
  ne_LPDIPv6 :: bool

record SearchSection =
  se_EnableRutor :: bool
  se_EnableTorznab :: bool
  se_TorznabURLs :: "(string \<times> string \<times> string) list"

record StreamSection =
  st_ResponsiveMode :: bool
  st_CoreProfile :: string
  st_MaxConcurrentStreams :: int
  st_StreamQueueSize :: int
  st_StreamQueueWaitSec :: int
  st_MaxUniquePlaybackTorrents :: int
  st_StartupPreloadPolicy :: string
  st_AdaptiveRAMinMB :: int
  st_AdaptiveRAMaxMB :: int
  st_ReadAheadPercent :: int

record DiskCacheSection =
  di_WarmSizeMB :: int
  di_WarmTTLMin :: int
  di_SyncPolicy :: string
  di_SyncIntervalMS :: int
  di_WriteBatchSize :: int

record WorkersSection =
  wo_MetadataWorkers :: int
  wo_MetadataQueueSize :: int
  wo_PreloadWorkers :: int
  wo_PreloadQueueSize :: int

record DebugSection =
  de_Enabled :: bool
  de_ServiceOnly :: bool
  de_ShowFSActiveTorr :: bool
  de_EstablishedConnsPerTorrent :: int
  de_TotalHalfOpenConnsOverride :: int
  de_TrackerBudgetOverride :: int
  de_StablePeerCap :: int
  de_MaxUnverifiedBytesMB :: int

record Config =
  co_Server :: ServerSection
  co_DLNAEnabled :: bool
  co_DLNAFriendlyName :: string
  co_Cache :: CacheSection
  co_Torrent :: TorrentSection
  co_Network :: NetworkSection
  co_Search :: SearchSection
  co_TMDB :: TMDBConfig
  co_Stream :: StreamSection
  co_DiskCache :: DiskCacheSection
  co_Workers :: WorkersSection
  co_Debug :: DebugSection
  co_ProxyEnabled :: bool
  co_ProxyHosts :: "string list"
  co_SettingsInJSON :: bool
  co_ViewedInJSON :: bool

definition zero_Config :: Config where
  "zero_Config = \<lparr>
     co_Server = \<lparr>sv_Port = [], sv_SSL = False, sv_SSLPort = [], sv_SSLCert = [], sv_SSLKey = [], sv_HTTPAuth = False,
       sv_SearchWA = False, sv_ShutdownMode = []\<rparr>,
     co_DLNAEnabled = False, co_DLNAFriendlyName = [],
     co_Cache = \<lparr>ca_SizeMB = 0, ca_PreloadPercent = 0, ca_UseDisk = False, ca_TorrentsSavePath = []\<rparr>,
     co_Torrent = \<lparr>ts_ForceEncrypt = False, ts_RetrackersMode = 0, ts_DisconnectTimeoutSec = 0, ts_ConnectionsLimit = 0\<rparr>,
     co_Network = \<lparr>ne_EnableIPv6 = False, ne_DisableTCP = False, ne_DisableUTP = False, ne_DisableUPNP = False, ne_DisableDHT = False,
       ne_DisablePEX = False, ne_DisableUpload = False, ne_DownloadRateLimitKB = 0, ne_UploadRateLimitKB = 0,
       ne_PeersListenPort = 0, ne_EnableLPD = False, ne_LPDIPv6 = False\<rparr>,
     co_Search = \<lparr>se_EnableRutor = False, se_EnableTorznab = False, se_TorznabURLs = []\<rparr>,
     co_TMDB = zero_TMDBConfig,
     co_Stream = \<lparr>st_ResponsiveMode = False, st_CoreProfile = [], st_MaxConcurrentStreams = 0, st_StreamQueueSize = 0,
       st_StreamQueueWaitSec = 0, st_MaxUniquePlaybackTorrents = 0, st_StartupPreloadPolicy = [], st_AdaptiveRAMinMB = 0,
       st_AdaptiveRAMaxMB = 0, st_ReadAheadPercent = 0\<rparr>,
     co_DiskCache = \<lparr>di_WarmSizeMB = 0, di_WarmTTLMin = 0, di_SyncPolicy = [], di_SyncIntervalMS = 0, di_WriteBatchSize = 0\<rparr>,
     co_Workers = \<lparr>wo_MetadataWorkers = 0, wo_MetadataQueueSize = 0, wo_PreloadWorkers = 0, wo_PreloadQueueSize = 0\<rparr>,
     co_Debug = \<lparr>de_Enabled = False, de_ServiceOnly = False, de_ShowFSActiveTorr = False, de_EstablishedConnsPerTorrent = 0,
       de_TotalHalfOpenConnsOverride = 0, de_TrackerBudgetOverride = 0, de_StablePeerCap = 0, de_MaxUnverifiedBytesMB = 0\<rparr>,
     co_ProxyEnabled = False, co_ProxyHosts = [], co_SettingsInJSON = False, co_ViewedInJSON = False\<rparr>"

section \<open>Defaults\<close>

definition or_int :: "int \<Rightarrow> int \<Rightarrow> int" where
  "or_int v d = (if v = 0 then d else v)"

definition or_str :: "string \<Rightarrow> string \<Rightarrow> string" where
  "or_str v d = (if v = [] then d else v)"

definition applyDefaults :: "Config \<Rightarrow> Config" where
  "applyDefaults cfg = cfg\<lparr>
     co_Server := (co_Server cfg)\<lparr>sv_Port := or_str (sv_Port (co_Server cfg)) ''8090'',
       sv_SSLPort := or_str (sv_SSLPort (co_Server cfg)) ''8091'', sv_ShutdownMode := or_str (sv_ShutdownMode (co_Server cfg)) ''local''\<rparr>,
     co_Cache := (co_Cache cfg)\<lparr>ca_SizeMB := or_int (ca_SizeMB (co_Cache cfg)) 64,
       ca_PreloadPercent := or_int (ca_PreloadPercent (co_Cache cfg)) 50\<rparr>,
     co_Torrent := (co_Torrent cfg)\<lparr>ts_RetrackersMode := or_int (ts_RetrackersMode (co_Torrent cfg)) 1,
       ts_DisconnectTimeoutSec := or_int (ts_DisconnectTimeoutSec (co_Torrent cfg)) 30,
       ts_ConnectionsLimit := or_int (ts_ConnectionsLimit (co_Torrent cfg)) 25\<rparr>,
     co_Stream := (co_Stream cfg)\<lparr>st_CoreProfile := or_str (st_CoreProfile (co_Stream cfg)) ''custom'',
       st_StartupPreloadPolicy := NormalizeStartupPreloadPolicy (st_StartupPreloadPolicy (co_Stream cfg)),
       st_StreamQueueWaitSec := or_int (st_StreamQueueWaitSec (co_Stream cfg)) 3,
       st_AdaptiveRAMinMB := or_int (st_AdaptiveRAMinMB (co_Stream cfg)) 4,
       st_AdaptiveRAMaxMB := or_int (st_AdaptiveRAMaxMB (co_Stream cfg)) 64,
       st_ReadAheadPercent := or_int (st_ReadAheadPercent (co_Stream cfg)) 95\<rparr>,
     co_DiskCache := (co_DiskCache cfg)\<lparr>di_SyncPolicy := or_str (di_SyncPolicy (co_DiskCache cfg)) ''periodic'',
       di_SyncIntervalMS := or_int (di_SyncIntervalMS (co_DiskCache cfg)) 1000,
       di_WriteBatchSize := or_int (di_WriteBatchSize (co_DiskCache cfg)) 16,
       di_WarmTTLMin := or_int (di_WarmTTLMin (co_DiskCache cfg)) 180\<rparr>,
     co_TMDB := (co_TMDB cfg)\<lparr>APIURL := or_str (APIURL (co_TMDB cfg)) ''https://api.themoviedb.org'',
       ImageURL := or_str (ImageURL (co_TMDB cfg)) ''https://image.tmdb.org'',
       ImageURLRu := or_str (ImageURLRu (co_TMDB cfg)) ''https://imagetmdb.com''\<rparr>,
     co_DLNAFriendlyName := or_str (co_DLNAFriendlyName cfg) ''TorrServer'',
     co_ProxyHosts := (if co_ProxyHosts cfg = [] then [''*themoviedb.org'', ''*tmdb.org'', ''rutor.info''] else co_ProxyHosts cfg)\<rparr>"

section \<open>Finding and loading\<close>

text \<open>A file that is there has a content, or cannot be read.\<close>

type_synonym config_files = "string \<rightharpoonup> string option"

definition config_paths :: "string list" where
  "config_paths = [''config.yml'', ''./config.yml'', ''../config.yml'', ''server/config.yml'', ''server/config/config.yml'',
     ''../server/config.yml'', ''../server/config/config.yml'', ''/etc/torrserver/config.yml'']"

definition findConfigFile :: "config_files \<Rightarrow> string \<Rightarrow> string" where
  "findConfigFile fs env =
     (case List.find (\<lambda>path. path \<noteq> [] \<and> fs path \<noteq> None) (config_paths @ [env]) of Some path \<Rightarrow> path | None \<Rightarrow> [])"

definition config_Load :: "(string \<Rightarrow> Config option) \<Rightarrow> config_files \<Rightarrow> string \<Rightarrow> string \<Rightarrow> string + Config" where
  "config_Load unmarshal fs env configPath =
     (let path = (if configPath = [] then findConfigFile fs env else configPath)
      in case (if path = [] then None else fs path) of
           None \<Rightarrow> Inr (applyDefaults zero_Config)
         | Some None \<Rightarrow> Inl ''failed to read config file''
         | Some (Some data) \<Rightarrow>
             (case unmarshal data of None \<Rightarrow> Inl ''failed to parse config file'' | Some cfg \<Rightarrow> Inr (applyDefaults cfg)))"

section \<open>From the configuration to the settings\<close>

definition applyCacheSettings :: "Config \<Rightarrow> BTSets \<Rightarrow> BTSets" where
  "applyCacheSettings c sets = sets\<lparr>CacheSize := i64 (ca_SizeMB (co_Cache c) * 1024 * 1024), PreloadCache := ca_PreloadPercent (co_Cache c),
     UseDisk := ca_UseDisk (co_Cache c), TorrentsSavePath := ca_TorrentsSavePath (co_Cache c)\<rparr>"

definition applyTorrentSettings :: "Config \<Rightarrow> BTSets \<Rightarrow> BTSets" where
  "applyTorrentSettings c sets = sets\<lparr>ForceEncrypt := ts_ForceEncrypt (co_Torrent c), RetrackersMode := ts_RetrackersMode (co_Torrent c),
     TorrentDisconnectTimeout := ts_DisconnectTimeoutSec (co_Torrent c), ConnectionsLimit := ts_ConnectionsLimit (co_Torrent c)\<rparr>"

definition applyNetworkSettings :: "Config \<Rightarrow> BTSets \<Rightarrow> BTSets" where
  "applyNetworkSettings c sets =
     (let n = co_Network c
      in sets\<lparr>EnableIPv6 := ne_EnableIPv6 n, DisableTCP := ne_DisableTCP n, DisableUTP := ne_DisableUTP n, DisableUPNP := ne_DisableUPNP n,
           DisableDHT := ne_DisableDHT n, DisablePEX := ne_DisablePEX n, DisableUpload := ne_DisableUpload n,
           DownloadRateLimit := ne_DownloadRateLimitKB n, UploadRateLimit := ne_UploadRateLimitKB n,
           PeersListenPort := ne_PeersListenPort n, EnableLPD := ne_EnableLPD n, LPDIPv6 := ne_LPDIPv6 n\<rparr>)"

definition applyDLNASettings :: "Config \<Rightarrow> BTSets \<Rightarrow> BTSets" where
  "applyDLNASettings c sets = sets\<lparr>EnableDLNA := co_DLNAEnabled c, FriendlyName := co_DLNAFriendlyName c\<rparr>"

definition applySearchSettings :: "Config \<Rightarrow> BTSets \<Rightarrow> BTSets" where
  "applySearchSettings c sets = sets\<lparr>EnableRutorSearch := se_EnableRutor (co_Search c), EnableTorznabSearch := se_EnableTorznab (co_Search c),
     TorznabUrls := map (\<lambda>(host, key, name). \<lparr>tz_Host = host, tz_Key = key, tz_Name = name\<rparr>) (se_TorznabURLs (co_Search c))\<rparr>"

definition applyTMDBSettings :: "Config \<Rightarrow> BTSets \<Rightarrow> BTSets" where
  "applyTMDBSettings c sets = sets\<lparr>TMDBSettings := co_TMDB c\<rparr>"

definition applyStreamSettings :: "Config \<Rightarrow> BTSets \<Rightarrow> BTSets" where
  "applyStreamSettings c sets =
     (let s = co_Stream c
      in sets\<lparr>ResponsiveMode := (if st_ResponsiveMode s then True else ResponsiveMode sets), CoreProfile := st_CoreProfile s,
           MaxConcurrentStreams := st_MaxConcurrentStreams s, StreamQueueSize := st_StreamQueueSize s,
           StreamQueueWaitSec := st_StreamQueueWaitSec s, MaxUniquePlaybackTorrents := st_MaxUniquePlaybackTorrents s,
           StartupPreloadPolicy := NormalizeStartupPreloadPolicy (st_StartupPreloadPolicy s),
           AdaptiveRAMinMB := st_AdaptiveRAMinMB s, AdaptiveRAMaxMB := st_AdaptiveRAMaxMB s, ReaderReadAHead := st_ReadAheadPercent s\<rparr>)"

definition applyDiskCacheSettings :: "Config \<Rightarrow> BTSets \<Rightarrow> BTSets" where
  "applyDiskCacheSettings c sets =
     (let d = co_DiskCache c
      in sets\<lparr>WarmDiskCacheSizeMB := di_WarmSizeMB d, WarmDiskCacheTTLMin := di_WarmTTLMin d, DiskSyncPolicy := di_SyncPolicy d,
           DiskSyncIntervalMS := di_SyncIntervalMS d, DiskWriteBatchSize := di_WriteBatchSize d\<rparr>)"

definition applyWorkerSettings :: "Config \<Rightarrow> BTSets \<Rightarrow> BTSets" where
  "applyWorkerSettings c sets = sets\<lparr>MetadataWorkers := wo_MetadataWorkers (co_Workers c), MetadataQueueSize := wo_MetadataQueueSize (co_Workers c),
     PreloadWorkers := wo_PreloadWorkers (co_Workers c), PreloadQueueSize := wo_PreloadQueueSize (co_Workers c)\<rparr>"

text \<open>The level of the log, which a debug setting raises as well, is not part of the settings.\<close>

definition applyDebugSettings :: "Config \<Rightarrow> BTSets \<Rightarrow> BTSets" where
  "applyDebugSettings c sets =
     (let d = co_Debug c
      in sets\<lparr>EnableDebug := de_Enabled d, ServiceOnlyDebug := de_ServiceOnly d, ShowFSActiveTorr := de_ShowFSActiveTorr d,
           DebugEstablishedConnsOverride := de_EstablishedConnsPerTorrent d,
           DebugTotalHalfOpenConnsOverride := de_TotalHalfOpenConnsOverride d, DebugTrackerBudgetOverride := de_TrackerBudgetOverride d,
           DebugStablePeerCap := de_StablePeerCap d, DebugMaxUnverifiedBytesMB := de_MaxUnverifiedBytesMB d\<rparr>)"

definition applyProxySettings :: "Config \<Rightarrow> BTSets \<Rightarrow> BTSets" where
  "applyProxySettings c sets = sets\<lparr>EnableProxy := co_ProxyEnabled c, ProxyHosts := co_ProxyHosts c\<rparr>"

definition applyStorageSettings :: "Config \<Rightarrow> BTSets \<Rightarrow> BTSets" where
  "applyStorageSettings c sets = sets\<lparr>StoreSettingsInJSON := co_SettingsInJSON c, StoreViewedInJSON := co_ViewedInJSON c\<rparr>"

text \<open>
  \<open>fmt.Sscanf\<close> with the verb for a decimal number: blanks without a line feed, a sign, digits; what follows them is
  not looked at.
\<close>

definition parsePort :: "string \<Rightarrow> int option" where
  "parsePort s =
     (let t = trim_left s; blanks = take (length s - length t) s;
          (neg, u) = (case t of [] \<Rightarrow> (False, []) | c # r \<Rightarrow> if c = CHR ''-'' then (True, r) else if c = CHR ''+'' then (False, r) else (False, t));
          ds = takeWhile (\<lambda>c. digit_value c \<noteq> None) u
      in if CHR 0x0A \<in> set blanks then None
         else case parse_nat ds of
           None \<Rightarrow> None
         | Some n \<Rightarrow> (let v = (if neg then - n else n) in if fits_i64 v then Some v else None))"

definition applySSLSettings :: "Config \<Rightarrow> BTSets \<Rightarrow> BTSets" where
  "applySSLSettings c sets =
     (let sets = (if sv_SSLPort (co_Server c) \<noteq> []
                  then case parsePort (sv_SSLPort (co_Server c)) of Some port \<Rightarrow> sets\<lparr>SslPort := port\<rparr> | None \<Rightarrow> sets
                  else sets)
      in sets\<lparr>SslCert := sv_SSLCert (co_Server c), SslKey := sv_SSLKey (co_Server c)\<rparr>)"

definition ApplyToBTSets :: "int \<Rightarrow> Config \<Rightarrow> BTSets \<Rightarrow> BTSets" where
  "ApplyToBTSets cpus c sets =
     (let sets = applyCacheSettings c sets; sets = applyTorrentSettings c sets; sets = applyNetworkSettings c sets;
          sets = applyDLNASettings c sets; sets = applySearchSettings c sets; sets = applyTMDBSettings c sets;
          sets = applyStreamSettings c sets; sets = applyDiskCacheSettings c sets; sets = applyWorkerSettings c sets;
          sets = applyDebugSettings c sets; sets = applyProxySettings c sets; sets = applyStorageSettings c sets;
          sets = applySSLSettings c sets
      in ApplyCoreProfile cpus sets)"

section \<open>The static view\<close>

record StaticConfig =
  sc_Port :: string
  sc_SSL :: bool
  sc_SSLCert :: string
  sc_SSLKey :: string
  sc_HTTPAuth :: bool
  sc_SearchWA :: bool
  sc_DLNAEnabled :: bool
  sc_DLNAFriendlyName :: string
  sc_CacheSizeMB :: int
  sc_PreloadCache :: int
  sc_ReaderReadAHead :: int
  sc_Torrent :: TorrentSection
  sc_Network :: NetworkSection
  sc_CoreProfile :: string
  sc_StartupPreloadPolicy :: string
  sc_EnableRutorSearch :: bool
  sc_EnableTorznabSearch :: bool
  sc_TMDBAPIKey :: string
  sc_Debug :: DebugSection

text \<open>The fields of the torrent, network and debug sections are copied one by one in the source; they are kept as sections.\<close>

definition ToStaticConfig :: "Config \<Rightarrow> StaticConfig" where
  "ToStaticConfig c =
     (let s = co_Server c
      in \<lparr>sc_Port = sv_Port s, sc_SSL = sv_SSL s, sc_SSLCert = sv_SSLCert s, sc_SSLKey = sv_SSLKey s, sc_HTTPAuth = sv_HTTPAuth s,
          sc_SearchWA = sv_SearchWA s, sc_DLNAEnabled = co_DLNAEnabled c, sc_DLNAFriendlyName = co_DLNAFriendlyName c,
          sc_CacheSizeMB = ca_SizeMB (co_Cache c), sc_PreloadCache = ca_PreloadPercent (co_Cache c), sc_ReaderReadAHead = 0,
          sc_Torrent = co_Torrent c, sc_Network = co_Network c, sc_CoreProfile = st_CoreProfile (co_Stream c),
          sc_StartupPreloadPolicy = NormalizeStartupPreloadPolicy (st_StartupPreloadPolicy (co_Stream c)),
          sc_EnableRutorSearch = se_EnableRutor (co_Search c), sc_EnableTorznabSearch = se_EnableTorznab (co_Search c),
          sc_TMDBAPIKey = APIKey (co_TMDB c), sc_Debug = co_Debug c\<rparr>)"

definition staticToBTSets :: "StaticConfig \<Rightarrow> BTSets" where
  "staticToBTSets cfg =
     (let t = sc_Torrent cfg; n = sc_Network cfg; d = sc_Debug cfg
      in zero_BTSets\<lparr>CacheSize := i64 (sc_CacheSizeMB cfg * 1024 * 1024), PreloadCache := sc_PreloadCache cfg,
          ReaderReadAHead := sc_ReaderReadAHead cfg, ForceEncrypt := ts_ForceEncrypt t, RetrackersMode := ts_RetrackersMode t,
          TorrentDisconnectTimeout := ts_DisconnectTimeoutSec t, EnableDebug := de_Enabled d, EnableDLNA := sc_DLNAEnabled cfg,
          FriendlyName := sc_DLNAFriendlyName cfg, EnableRutorSearch := sc_EnableRutorSearch cfg,
          EnableTorznabSearch := sc_EnableTorznabSearch cfg, TMDBSettings := zero_TMDBConfig\<lparr>APIKey := sc_TMDBAPIKey cfg\<rparr>,
          EnableIPv6 := ne_EnableIPv6 n, DisableTCP := ne_DisableTCP n, DisableUTP := ne_DisableUTP n, DisableUPNP := ne_DisableUPNP n,
          DisableDHT := ne_DisableDHT n, DisablePEX := ne_DisablePEX n, DisableUpload := ne_DisableUpload n,
          ConnectionsLimit := ts_ConnectionsLimit t, DownloadRateLimit := ne_DownloadRateLimitKB n,
          UploadRateLimit := ne_UploadRateLimitKB n, PeersListenPort := ne_PeersListenPort n, EnableLPD := ne_EnableLPD n,
          LPDIPv6 := ne_LPDIPv6 n, CoreProfile := sc_CoreProfile cfg,
          StartupPreloadPolicy := NormalizeStartupPreloadPolicy (sc_StartupPreloadPolicy cfg), ServiceOnlyDebug := de_ServiceOnly d,
          DebugEstablishedConnsOverride := de_EstablishedConnsPerTorrent d,
          DebugTotalHalfOpenConnsOverride := de_TotalHalfOpenConnsOverride d, DebugTrackerBudgetOverride := de_TrackerBudgetOverride d,
          DebugStablePeerCap := de_StablePeerCap d, DebugMaxUnverifiedBytesMB := de_MaxUnverifiedBytesMB d\<rparr>)"

text \<open>The provider of the settings: the stored record, or the static view before there is one.\<close>

definition provider_Get :: "StaticConfig \<Rightarrow> BTSets option \<Rightarrow> BTSets" where
  "provider_Get static stored = (case stored of Some sets \<Rightarrow> sets | None \<Rightarrow> staticToBTSets static)"

section \<open>What the configuration decides\<close>

lemma or_int_idem [simp]: "or_int (or_int v d) d = or_int v d"
  by (simp add: or_int_def)

lemma or_str_idem [simp]: "or_str (or_str v d) d = or_str v d"
  by (simp add: or_str_def)

lemma applyDefaults_idem: "applyDefaults (applyDefaults c) = applyDefaults c"
  by (simp add: applyDefaults_def)

text \<open>
  A named file that is not there is no error: the defaults are taken, and the usual places are not searched.
\<close>

lemma missing_file_is_silent:
  assumes "fs path = None" and "path \<noteq> []"
  shows "config_Load unmarshal fs env path = Inr (applyDefaults zero_Config)"
  using assms by (simp add: config_Load_def)

text \<open>The settings that the configuration leaves alone, unless it asks for the responsive mode, and the port when it names none.\<close>

definition kept_settings :: "BTSets \<Rightarrow> bool \<times> bool \<times> int" where
  "kept_settings s = (RemoveCacheOnDrop s, ResponsiveMode s, SslPort s)"

text \<open>The settings before the profile.\<close>

definition configured :: "Config \<Rightarrow> BTSets \<Rightarrow> BTSets" where
  "configured c sets = applySSLSettings c (applyStorageSettings c (applyProxySettings c (applyDebugSettings c (applyWorkerSettings c
     (applyDiskCacheSettings c (applyStreamSettings c (applyTMDBSettings c (applySearchSettings c (applyDLNASettings c
     (applyNetworkSettings c (applyTorrentSettings c (applyCacheSettings c sets))))))))))))"

lemmas apply_settings_defs = applyCacheSettings_def applyTorrentSettings_def applyNetworkSettings_def applyDLNASettings_def
  applySearchSettings_def applyTMDBSettings_def applyStreamSettings_def applyDiskCacheSettings_def applyWorkerSettings_def
  applyDebugSettings_def applyProxySettings_def applyStorageSettings_def applySSLSettings_def

lemma ApplyToBTSets_configured: "ApplyToBTSets cpus c s = ApplyCoreProfile cpus (configured c s)"
  by (simp add: ApplyToBTSets_def configured_def)

lemma configured_kept: "kept_settings s = kept_settings t \<Longrightarrow> configured c s = configured c t"
  by (cases s; cases t) (simp add: kept_settings_def configured_def apply_settings_defs Let_def split: option.split)

text \<open>
  The configuration overrides what was stored: for any two records of settings that agree on the removal of
  caches, on the responsive mode and on the TLS port, applying a configuration gives the same record. So nothing else that a
  user stored is in use after a start, even when there is no configuration file and the defaults are applied.
\<close>

theorem configuration_overrides_stored:
  assumes "kept_settings s = kept_settings t"
  shows "ApplyToBTSets cpus c s = ApplyToBTSets cpus c t"
  unfolding ApplyToBTSets_configured configured_kept [OF assms] by (rule refl)

theorem configuration_overrides_stored_witness:
  "ApplyToBTSets 4 (applyDefaults zero_Config) (zero_BTSets\<lparr>CacheSize := 512 * 1024 * 1024, FriendlyName := ''living room''\<rparr>) =
     ApplyToBTSets 4 (applyDefaults zero_Config) zero_BTSets"
  by (rule configuration_overrides_stored) (simp add: kept_settings_def zero_BTSets_def)

lemma overrides_kept:
  assumes "0 < CacheSize s" and "0 < PreloadCache s" and "0 < ConnectionsLimit s" and "0 < StreamQueueWaitSec s"
    and "0 < AdaptiveRAMinMB s" and "0 < AdaptiveRAMaxMB s" and "0 < WarmDiskCacheTTLMin s" and "DiskSyncPolicy s \<noteq> []"
    and "0 < DiskSyncIntervalMS s" and "0 < DiskWriteBatchSize s"
  shows "CacheSize (ApplyCoreProfile cpus s) = CacheSize s" "PreloadCache (ApplyCoreProfile cpus s) = PreloadCache s"
    "ConnectionsLimit (ApplyCoreProfile cpus s) = ConnectionsLimit s"
    "StreamQueueWaitSec (ApplyCoreProfile cpus s) = StreamQueueWaitSec s"
    "AdaptiveRAMinMB (ApplyCoreProfile cpus s) = AdaptiveRAMinMB s" "AdaptiveRAMaxMB (ApplyCoreProfile cpus s) = AdaptiveRAMaxMB s"
    "WarmDiskCacheTTLMin (ApplyCoreProfile cpus s) = WarmDiskCacheTTLMin s"
    "DiskSyncPolicy (ApplyCoreProfile cpus s) = DiskSyncPolicy s"
    "DiskSyncIntervalMS (ApplyCoreProfile cpus s) = DiskSyncIntervalMS s"
    "DiskWriteBatchSize (ApplyCoreProfile cpus s) = DiskWriteBatchSize s"
  using assms by (simp_all add: ApplyCoreProfile_def applyCoreProfileOverrides_def Let_def)

text \<open>A configuration file that only names a profile.\<close>

definition profile_only :: "string \<Rightarrow> Config" where
  "profile_only profile = zero_Config\<lparr>co_Stream := (co_Stream zero_Config)\<lparr>st_CoreProfile := profile\<rparr>\<rparr>"

lemma profile_only_configured:
  "CacheSize (configured (applyDefaults (profile_only p)) s) = 64 * 1024 * 1024"
  "PreloadCache (configured (applyDefaults (profile_only p)) s) = 50"
  "ConnectionsLimit (configured (applyDefaults (profile_only p)) s) = 25"
  "StreamQueueWaitSec (configured (applyDefaults (profile_only p)) s) = 3"
  "AdaptiveRAMinMB (configured (applyDefaults (profile_only p)) s) = 4"
  "AdaptiveRAMaxMB (configured (applyDefaults (profile_only p)) s) = 64"
  "WarmDiskCacheTTLMin (configured (applyDefaults (profile_only p)) s) = 180"
  "DiskSyncPolicy (configured (applyDefaults (profile_only p)) s) = ''periodic''"
  "DiskSyncIntervalMS (configured (applyDefaults (profile_only p)) s) = 1000"
  "DiskWriteBatchSize (configured (applyDefaults (profile_only p)) s) = 16"
  by (simp_all add: configured_def apply_settings_defs applyDefaults_def profile_only_def zero_Config_def or_int_def or_str_def
    i64_id fits_i64_def Let_def split: option.split)

text \<open>
  A profile that the configuration names has no say over the size of the cache, the preload, the connections,
  the wait in the queue, the read-ahead bounds, the warm cache's life time and the disk writes: the defaults are filled in
  before the profile is applied, and it takes them for choices of the user. For every profile the values are the defaults,
  while the profiles themselves ask for others, as the one for small systems does.
\<close>

theorem configured_profile_is_hidden:
  "(let r = ApplyToBTSets cpus (applyDefaults (profile_only profile)) s
    in CacheSize r = 64 * 1024 * 1024 \<and> PreloadCache r = 50 \<and> ConnectionsLimit r = 25 \<and> StreamQueueWaitSec r = 3 \<and>
       AdaptiveRAMinMB r = 4 \<and> AdaptiveRAMaxMB r = 64 \<and> WarmDiskCacheTTLMin r = 180 \<and> DiskSyncPolicy r = ''periodic'' \<and>
       DiskSyncIntervalMS r = 1000 \<and> DiskWriteBatchSize r = 16) \<and>
   (let r = ApplyCoreProfile cpus (zero_BTSets\<lparr>CoreProfile := ''low-end''\<rparr>)
    in CacheSize r = 32 * 1024 * 1024 \<and> PreloadCache r = 25 \<and> ConnectionsLimit r = 12 \<and> AdaptiveRAMaxMB r = 16)"
proof -
  have "normalizeCoreProfile ''low-end'' = ''low-end''" by code_simp
  then show ?thesis
    by (simp add: ApplyToBTSets_configured overrides_kept profile_only_configured Let_def)
      (simp add: ApplyCoreProfile_def applyCoreProfileOverrides_def applyCoreProfilePreset_def profilePresets_def
        applyProfileFields_def computeCPUFields_def applyCopyRules_def lowEndProfile_def zero_BTSets_def)
qed

text \<open>The settings in use may break the normal form: the configuration is not checked on its way.\<close>

lemma configuration_not_normal:
  "\<not> normal_sets (ApplyToBTSets cpus (applyDefaults (zero_Config\<lparr>co_Stream := (co_Stream zero_Config)\<lparr>st_ReadAheadPercent := 2\<rparr>\<rparr>)) s)"
proof -
  have "ReaderReadAHead (ApplyCoreProfile cpus t) = ReaderReadAHead t" if "0 < ReaderReadAHead t" for t
    using that by (simp add: ApplyCoreProfile_def applyCoreProfileOverrides_def Let_def)
  moreover have "ReaderReadAHead (configured (applyDefaults (zero_Config\<lparr>co_Stream := (co_Stream zero_Config)\<lparr>st_ReadAheadPercent := 2\<rparr>\<rparr>)) s) = 2"
    by (simp add: configured_def apply_settings_defs applyDefaults_def zero_Config_def or_int_def or_str_def Let_def split: option.split)
  ultimately show ?thesis by (simp add: ApplyToBTSets_configured normal_sets_def)
qed

end
