(* ===== verification/Store_Migration.thy ===== *)
theory Store_Migration
  imports Store_Router Settings
begin

text \<open>
  Moving entries between the two files of the settings (settings/migrate_*.go), the start of the program and the switches of
  the storage (settings/settings.go, settings_storage_preferences.go), and the viewed marks (viewed.go).

  \<open>parse\<close> is \<open>json.Unmarshal\<close> into a value of any type; equal results stand for \<open>reflect.DeepEqual\<close>. The
  settings codec is a pair of parameters, as in the theory of the settings.
\<close>

section \<open>Comparison\<close>

text \<open>The result is \<open>None\<close> for an error.\<close>

definition isByteArraysEqualJSON :: "(string \<Rightarrow> 'j option) \<Rightarrow> string \<Rightarrow> string \<Rightarrow> bool option" where
  "isByteArraysEqualJSON parse first second =
     (if first = [] \<and> second = [] then Some True
      else if first = [] \<or> second = [] then Some False
      else if first = second then Some True
      else case parse first of
        None \<Rightarrow> None
      | Some objectA \<Rightarrow>
          (case parse second of None \<Rightarrow> None | Some objectB \<Rightarrow> Some (objectA = objectB)))"

definition isByteArraysEqualJSONOptimized :: "(string \<Rightarrow> 'j option) \<Rightarrow> string \<Rightarrow> string \<Rightarrow> bool option" where
  "isByteArraysEqualJSONOptimized parse first second =
     (if length first \<noteq> length second then Some False
      else if first = [] then Some True
      else if first = second then Some True
      else isByteArraysEqualJSON parse first second)"

section \<open>Moving entries\<close>

datatype migrate_action = Skipped | WouldMigrate | FailedAction | Migrated

datatype migrate_error = NoDataAfter | VerificationError | DataMismatch

record MigrationEntryReport =
  er_Name :: string
  er_Action :: migrate_action
  er_Error :: "migrate_error option"

definition verifyMigration ::
  "(string \<Rightarrow> 'j option) \<Rightarrow> 'w TorrServerDB \<Rightarrow> string \<Rightarrow> string \<Rightarrow> string \<Rightarrow> 'w \<Rightarrow> migrate_error option \<times> 'w" where
  "verifyMigration parse target xpath name originalData w =
     (let (migratedData, w) = db_Get target xpath name w
      in (case migratedData of
            None \<Rightarrow> Some NoDataAfter
          | Some d \<Rightarrow>
              (case isByteArraysEqualJSONOptimized parse originalData d of
                 None \<Rightarrow> Some VerificationError
               | Some equal \<Rightarrow> if equal then None else Some DataMismatch), w))"

text \<open>The second component is the error that is returned.\<close>

definition migrateSingleWithReport ::
  "(string \<Rightarrow> 'j option) \<Rightarrow> 'w TorrServerDB \<Rightarrow> 'w TorrServerDB \<Rightarrow> string \<Rightarrow> string \<Rightarrow> bool \<Rightarrow> 'w
   \<Rightarrow> MigrationEntryReport \<times> migrate_error option \<times> 'w" where
  "migrateSingleWithReport parse source target xpath name dryRun w =
     (let report = \<lparr>er_Name = name, er_Action = Skipped, er_Error = None\<rparr>;
          (sourceData, w) = db_Get source xpath name w
      in case sourceData of
           None \<Rightarrow> (report, None, w)
         | Some sourceData \<Rightarrow>
             let (targetData, w) = db_Get target xpath name w in
             if (case targetData of None \<Rightarrow> False | Some d \<Rightarrow> isByteArraysEqualJSON parse sourceData d = Some True)
             then (report, None, w)
             else if dryRun then (report\<lparr>er_Action := WouldMigrate\<rparr>, None, w)
             else let w = db_Set target xpath name sourceData w;
                      (err, w) = verifyMigration parse target xpath name sourceData w
                  in case err of
                       Some e \<Rightarrow> (report\<lparr>er_Action := FailedAction, er_Error := Some e\<rparr>, Some e, w)
                     | None \<Rightarrow> (report\<lparr>er_Action := Migrated\<rparr>, None, w))"

definition MigrateSingle ::
  "(string \<Rightarrow> 'j option) \<Rightarrow> 'w TorrServerDB \<Rightarrow> 'w TorrServerDB \<Rightarrow> string \<Rightarrow> string \<Rightarrow> 'w \<Rightarrow> bool \<times> migrate_error option \<times> 'w" where
  "MigrateSingle parse source target xpath name w =
     (let (report, err, w) = migrateSingleWithReport parse source target xpath name False w
      in if err \<noteq> None then (False, err, w) else (er_Action report = Migrated, None, w))"

definition MigrateSingleDryRun ::
  "(string \<Rightarrow> 'j option) \<Rightarrow> 'w TorrServerDB \<Rightarrow> 'w TorrServerDB \<Rightarrow> string \<Rightarrow> string \<Rightarrow> 'w
   \<Rightarrow> MigrationEntryReport \<times> migrate_error option \<times> 'w" where
  "MigrateSingleDryRun parse source target xpath name w = migrateSingleWithReport parse source target xpath name True w"

record MigrationReport =
  mr_XPath :: string
  mr_DryRun :: bool
  mr_Total :: int
  mr_MigratedCount :: int
  mr_SkippedCount :: int
  mr_FailedCount :: int
  mr_Entries :: "MigrationEntryReport list"

text \<open>One round of the loop, on the report, the first error and the databases.\<close>

definition migrate_entry ::
  "(string \<Rightarrow> 'j option) \<Rightarrow> 'w TorrServerDB \<Rightarrow> 'w TorrServerDB \<Rightarrow> string \<Rightarrow> bool \<Rightarrow> string
   \<Rightarrow> MigrationReport \<times> migrate_error option \<times> 'w \<Rightarrow> MigrationReport \<times> migrate_error option \<times> 'w" where
  "migrate_entry parse source target xpath dryRun name = (\<lambda>(report, firstError, w).
     let (entryReport, err, w) = migrateSingleWithReport parse source target xpath name dryRun w;
         report = report\<lparr>mr_Entries := mr_Entries report @ [entryReport]\<rparr>;
         report = (case er_Action entryReport of
                     Migrated \<Rightarrow> report\<lparr>mr_MigratedCount := mr_MigratedCount report + 1\<rparr>
                   | WouldMigrate \<Rightarrow> report\<lparr>mr_MigratedCount := mr_MigratedCount report + 1\<rparr>
                   | FailedAction \<Rightarrow> report\<lparr>mr_FailedCount := mr_FailedCount report + 1\<rparr>
                   | Skipped \<Rightarrow> report\<lparr>mr_SkippedCount := mr_SkippedCount report + 1\<rparr>)
     in (report, if err \<noteq> None \<and> firstError = None then err else firstError, w))"

definition MigrateAllWithReport ::
  "(string \<Rightarrow> 'j option) \<Rightarrow> 'w TorrServerDB \<Rightarrow> 'w TorrServerDB \<Rightarrow> string \<Rightarrow> bool \<Rightarrow> 'w
   \<Rightarrow> MigrationReport \<times> migrate_error option \<times> 'w" where
  "MigrateAllWithReport parse source target xpath dryRun w =
     (let report = \<lparr>mr_XPath = xpath, mr_DryRun = dryRun, mr_Total = 0, mr_MigratedCount = 0, mr_SkippedCount = 0,
            mr_FailedCount = 0, mr_Entries = []\<rparr>;
          (names, w) = db_List source xpath w
      in if names = [] then (report, None, w)
         else fold (migrate_entry parse source target xpath dryRun) names
                (report\<lparr>mr_Total := int (length names)\<rparr>, None, w))"

definition MigrateAll ::
  "(string \<Rightarrow> 'j option) \<Rightarrow> 'w TorrServerDB \<Rightarrow> 'w TorrServerDB \<Rightarrow> string \<Rightarrow> 'w \<Rightarrow> int \<times> int \<times> migrate_error option \<times> 'w" where
  "MigrateAll parse source target xpath w =
     (let (report, err, w) = MigrateAllWithReport parse source target xpath False w
      in (mr_MigratedCount report, mr_SkippedCount report, err, w))"

definition MigrateAllDryRun ::
  "(string \<Rightarrow> 'j option) \<Rightarrow> 'w TorrServerDB \<Rightarrow> 'w TorrServerDB \<Rightarrow> string \<Rightarrow> 'w \<Rightarrow> MigrationReport \<times> migrate_error option \<times> 'w" where
  "MigrateAllDryRun parse source target xpath w = MigrateAllWithReport parse source target xpath True w"

definition MigrateSettingsToJSON ::
  "(string \<Rightarrow> 'j option) \<Rightarrow> 'w TorrServerDB \<Rightarrow> 'w TorrServerDB \<Rightarrow> 'w \<Rightarrow> migrate_error option \<times> 'w" where
  "MigrateSettingsToJSON parse bboltDB jsonDB w = snd (MigrateSingle parse bboltDB jsonDB ''Settings'' ''BitTorr'' w)"

definition MigrateSettingsFromJSON ::
  "(string \<Rightarrow> 'j option) \<Rightarrow> 'w TorrServerDB \<Rightarrow> 'w TorrServerDB \<Rightarrow> 'w \<Rightarrow> migrate_error option \<times> 'w" where
  "MigrateSettingsFromJSON parse jsonDB bboltDB w = snd (MigrateSingle parse jsonDB bboltDB ''Settings'' ''BitTorr'' w)"

definition MigrateViewedToJSON ::
  "(string \<Rightarrow> 'j option) \<Rightarrow> 'w TorrServerDB \<Rightarrow> 'w TorrServerDB \<Rightarrow> 'w \<Rightarrow> migrate_error option \<times> 'w" where
  "MigrateViewedToJSON parse bboltDB jsonDB w = snd (snd (MigrateAll parse bboltDB jsonDB ''Viewed'' w))"

definition MigrateViewedFromJSON ::
  "(string \<Rightarrow> 'j option) \<Rightarrow> 'w TorrServerDB \<Rightarrow> 'w TorrServerDB \<Rightarrow> 'w \<Rightarrow> migrate_error option \<times> 'w" where
  "MigrateViewedFromJSON parse jsonDB bboltDB w = snd (snd (MigrateAll parse jsonDB bboltDB ''Viewed'' w))"

section \<open>Synchronising\<close>

definition migrateMissing :: "'w TorrServerDB \<Rightarrow> 'w TorrServerDB \<Rightarrow> string \<Rightarrow> string \<Rightarrow> 'w \<Rightarrow> 'w" where
  "migrateMissing db1 db2 xpath name w =
     (let copy = (\<lambda>source target w.
            let (t, w) = db_Get target xpath name w in
            if t = None
            then let (data, w) = db_Get source xpath name w
                 in (case data of None \<Rightarrow> w | Some d \<Rightarrow> db_Set target xpath name d w)
            else w)
      in copy db2 db1 (copy db1 db2 w))"

text \<open>\<open>unm\<close> and \<open>mar\<close> are the codec of the sets of file indexes.\<close>

definition mergeViewedDataSimple ::
  "(string \<Rightarrow> int set option) \<Rightarrow> (int set \<Rightarrow> string) \<Rightarrow> string option \<Rightarrow> string option \<Rightarrow> string option" where
  "mergeViewedDataSimple unm mar data1 data2 =
     (case (data1, data2) of
        (None, None) \<Rightarrow> None
      | (None, Some d) \<Rightarrow> Some d
      | (Some d, None) \<Rightarrow> Some d
      | (Some d1, Some d2) \<Rightarrow>
          (case unm d1 of
             None \<Rightarrow> Some d2
           | Some indices1 \<Rightarrow>
               (case unm d2 of None \<Rightarrow> Some d1 | Some indices2 \<Rightarrow> Some (mar (indices1 \<union> indices2)))))"

text \<open>\<open>visit\<close> is the order in which the map of all hashes is visited.\<close>

definition syncViewedSimple ::
  "(string \<Rightarrow> int set option) \<Rightarrow> (int set \<Rightarrow> string) \<Rightarrow> (string set \<Rightarrow> string list) \<Rightarrow> 'w TorrServerDB \<Rightarrow> 'w TorrServerDB \<Rightarrow> 'w \<Rightarrow> 'w" where
  "syncViewedSimple unm mar visit bboltDB jsonDB w =
     (let (bboltHashes, w) = db_List bboltDB ''Viewed'' w;
          (jsonHashes, w) = db_List jsonDB ''Viewed'' w
      in fold (\<lambda>hash w.
           let (bboltData, w) = db_Get bboltDB ''Viewed'' hash w;
               (jsonData, w) = db_Get jsonDB ''Viewed'' hash w
           in case mergeViewedDataSimple unm mar bboltData jsonData of
                None \<Rightarrow> w
              | Some merged \<Rightarrow> db_Set jsonDB ''Viewed'' hash merged (db_Set bboltDB ''Viewed'' hash merged w))
         (visit (set bboltHashes \<union> set jsonHashes)) w)"

text \<open>The result tells whether the direction is known and what error came back.\<close>

definition SmartMigrate ::
  "(string \<Rightarrow> 'j option) \<Rightarrow> (string \<Rightarrow> int set option) \<Rightarrow> (int set \<Rightarrow> string) \<Rightarrow> (string set \<Rightarrow> string list)
   \<Rightarrow> 'w TorrServerDB \<Rightarrow> 'w TorrServerDB \<Rightarrow> string \<Rightarrow> 'w \<Rightarrow> (bool \<times> migrate_error option) \<times> 'w" where
  "SmartMigrate parse unm mar visit bboltDB jsonDB direction w =
     (let known = (\<lambda>(err, w). ((True, err), w)) in
      if direction = ''viewed_to_json'' then known (MigrateViewedToJSON parse bboltDB jsonDB w)
      else if direction = ''viewed_to_bbolt'' then known (MigrateViewedFromJSON parse jsonDB bboltDB w)
      else if direction = ''settings_to_json'' then known (MigrateSettingsToJSON parse bboltDB jsonDB w)
      else if direction = ''settings_to_bbolt'' then known (MigrateSettingsFromJSON parse jsonDB bboltDB w)
      else if direction = ''sync_both''
      then ((True, None), syncViewedSimple unm mar visit bboltDB jsonDB
              (migrateMissing bboltDB jsonDB ''Settings'' ''BitTorr'' w))
      else ((False, None), w))"

section \<open>The start of the program\<close>

definition safeMigrate ::
  "(string \<Rightarrow> 'j option) \<Rightarrow> 'w TorrServerDB \<Rightarrow> 'w TorrServerDB \<Rightarrow> string \<Rightarrow> string \<Rightarrow> bool \<Rightarrow> 'w \<Rightarrow> 'w" where
  "safeMigrate parse source target xpath name clearSource w =
     (let (dryRun, dryErr, w) = MigrateSingleDryRun parse source target xpath name w;
          (migrated, err, w) = MigrateSingle parse source target xpath name w
      in if err \<noteq> None then w
         else if migrated \<and> clearSource then db_Rem source xpath name w else w)"

definition safeMigrateAll ::
  "(string \<Rightarrow> 'j option) \<Rightarrow> 'w TorrServerDB \<Rightarrow> 'w TorrServerDB \<Rightarrow> string \<Rightarrow> bool \<Rightarrow> 'w \<Rightarrow> 'w" where
  "safeMigrateAll parse source target xpath clearSource w =
     (let (preReport, preErr, w) = MigrateAllDryRun parse source target xpath w;
          (postReport, err, w) = MigrateAllWithReport parse source target xpath False w;
          migrated = mr_MigratedCount postReport
      in if clearSource \<and> migrated > 0
         then let (names, w) = db_List source xpath w
              in if migrated \<ge> int (length names) then db_Clear source xpath w else w
         else w)"

definition applyCleanMigrations ::
  "(string \<Rightarrow> 'j option) \<Rightarrow> 'w TorrServerDB \<Rightarrow> 'w TorrServerDB \<Rightarrow> bool \<Rightarrow> bool \<Rightarrow> 'w \<Rightarrow> 'w" where
  "applyCleanMigrations parse bboltDB jsonDB settingsInJSON viewedInJSON w =
     (let w = (if settingsInJSON then safeMigrate parse bboltDB jsonDB ''Settings'' ''BitTorr'' True w
               else safeMigrate parse jsonDB bboltDB ''Settings'' ''BitTorr'' True w)
      in if viewedInJSON then safeMigrateAll parse bboltDB jsonDB ''Viewed'' True w
         else safeMigrateAll parse jsonDB bboltDB ''Viewed'' True w)"

definition loadExistingSettings ::
  "(string \<Rightarrow> BTSets option) \<Rightarrow> 'w TorrServerDB \<Rightarrow> 'w TorrServerDB \<Rightarrow> 'w \<Rightarrow> BTSets option \<times> 'w" where
  "loadExistingSettings unmarshal bboltDB jsonDB w =
     (let (buf, w) = db_Get jsonDB ''Settings'' ''BitTorr'' w in
      case Option.bind buf unmarshal of
        Some sets \<Rightarrow> (Some sets, w)
      | None \<Rightarrow> (let (buf, w) = db_Get bboltDB ''Settings'' ''BitTorr'' w in (Option.bind buf unmarshal, w)))"

text \<open>The two environment variables are arguments, empty when they are not set.\<close>

definition determineStoragePreferences ::
  "(string \<Rightarrow> BTSets option) \<Rightarrow> string \<Rightarrow> string \<Rightarrow> 'w TorrServerDB \<Rightarrow> 'w TorrServerDB \<Rightarrow> 'w \<Rightarrow> (bool \<times> bool) \<times> 'w" where
  "determineStoragePreferences unmarshal settingsEnv viewedEnv bboltDB jsonDB w =
     (let (existing, w) = loadExistingSettings unmarshal bboltDB jsonDB w in
      case existing of
        Some sets \<Rightarrow> ((StoreSettingsInJSON sets, StoreViewedInJSON sets), w)
      | None \<Rightarrow> ((if settingsEnv \<noteq> [] then settingsEnv = ''json'' else True,
                  if viewedEnv \<noteq> [] then viewedEnv = ''json'' else False), w))"

text \<open>
  \<open>SetBTSets\<close> (settings/btsets_persistence.go): \<open>cpus\<close> is the number of processors, \<open>found\<close> the directory
  \<open>.tsc\<close> that the walk below the configured path finds, if any. The result is the stored settings.
\<close>

definition SetBTSets ::
  "(BTSets \<Rightarrow> string option) \<Rightarrow> int \<Rightarrow> string option \<Rightarrow> bool \<Rightarrow> 'w TorrServerDB \<Rightarrow> BTSets \<Rightarrow> BTSets option \<times> 'w \<Rightarrow> BTSets option \<times> 'w" where
  "SetBTSets marshal cpus found readOnly tdb sets = (\<lambda>(stored, w).
     if readOnly then (stored, w)
     else let sets = validateAndNormalize (ApplyCoreProfile cpus sets);
              cacheCfg = BTSets_CacheConfig (Some sets);
              sets = (if cc_UseDisk cacheCfg \<and> cc_SavePath cacheCfg \<noteq> []
                      then (case found of None \<Rightarrow> sets | Some path \<Rightarrow> sets\<lparr>TorrentsSavePath := path\<rparr>)
                      else if cc_SavePath cacheCfg = [] then sets\<lparr>UseDisk := False\<rparr> else sets)
          in (Some sets,
              case marshal sets of None \<Rightarrow> w | Some buf \<Rightarrow> db_Set tdb ''Settings'' ''BitTorr'' buf w))"

section \<open>Switching the storage\<close>

text \<open>
  Both databases are open. The stored settings are one record in memory: the switch assigns its field
  through the shared pointer, before it is saved.
\<close>

definition SwitchSettingsStorage ::
  "(string \<Rightarrow> 'j option) \<Rightarrow> (BTSets \<Rightarrow> string option) \<Rightarrow> int \<Rightarrow> string option \<Rightarrow> bool \<Rightarrow> 'w TorrServerDB \<Rightarrow> 'w TorrServerDB
   \<Rightarrow> 'w TorrServerDB \<Rightarrow> bool \<Rightarrow> BTSets option \<times> 'w \<Rightarrow> bool \<times> BTSets option \<times> 'w" where
  "SwitchSettingsStorage parse marshal cpus found readOnly tdb bboltDB jsonDB useJSON = (\<lambda>(stored, w).
     if readOnly then (False, stored, w)
     else let (stored, w) = (case stored of
                  None \<Rightarrow> (None, w)
                | Some curSets \<Rightarrow> SetBTSets marshal cpus found readOnly tdb (curSets\<lparr>StoreSettingsInJSON := useJSON\<rparr>)
                                    (Some (curSets\<lparr>StoreSettingsInJSON := useJSON\<rparr>), w));
              (err, w) = (if useJSON then MigrateSettingsToJSON parse bboltDB jsonDB w
                          else MigrateSettingsFromJSON parse jsonDB bboltDB w)
          in (err = None, stored, w))"

definition SwitchViewedStorage ::
  "(string \<Rightarrow> 'j option) \<Rightarrow> (BTSets \<Rightarrow> string option) \<Rightarrow> int \<Rightarrow> string option \<Rightarrow> bool \<Rightarrow> 'w TorrServerDB \<Rightarrow> 'w TorrServerDB
   \<Rightarrow> 'w TorrServerDB \<Rightarrow> bool \<Rightarrow> BTSets option \<times> 'w \<Rightarrow> bool \<times> BTSets option \<times> 'w" where
  "SwitchViewedStorage parse marshal cpus found readOnly tdb bboltDB jsonDB useJSON = (\<lambda>(stored, w).
     if readOnly then (False, stored, w)
     else let (err, w) = (if useJSON then MigrateViewedToJSON parse bboltDB jsonDB w
                          else MigrateViewedFromJSON parse jsonDB bboltDB w)
          in if err \<noteq> None then (False, stored, w)
             else let w = db_Clear (if useJSON then bboltDB else jsonDB) ''Viewed'' w
                  in (case stored of
                        None \<Rightarrow> (True, None, w)
                      | Some curSets \<Rightarrow>
                          (True, SetBTSets marshal cpus found readOnly tdb (curSets\<lparr>StoreViewedInJSON := useJSON\<rparr>)
                             (Some (curSets\<lparr>StoreViewedInJSON := useJSON\<rparr>), w))))"

text \<open>The preferences are an association of two optional strings; \<open>viewedCount\<close> is the length of the list.\<close>

definition GetStoragePreferences :: "'w TorrServerDB \<Rightarrow> BTSets option \<times> 'w \<Rightarrow> (string \<times> string \<times> int) \<times> BTSets option \<times> 'w" where
  "GetStoragePreferences tdb = (\<lambda>(stored, w).
     let (s, v) = (case stored of
            None \<Rightarrow> (''json'', ''bbolt'')
          | Some sets \<Rightarrow> let p = BTSets_PersistenceConfig (Some sets)
                        in (if pe_SettingsInJSON p then ''json'' else ''bbolt'',
                            if pe_ViewedInJSON p then ''json'' else ''bbolt''));
         (names, w) = db_List tdb ''Viewed'' w
     in ((s, v, int (length names)), stored, w))"

definition SetStoragePreferences ::
  "(string \<Rightarrow> 'j option) \<Rightarrow> (BTSets \<Rightarrow> string option) \<Rightarrow> int \<Rightarrow> string option \<Rightarrow> bool \<Rightarrow> 'w TorrServerDB \<Rightarrow> 'w TorrServerDB
   \<Rightarrow> 'w TorrServerDB \<Rightarrow> string option \<Rightarrow> string option \<Rightarrow> BTSets option \<times> 'w \<Rightarrow> bool \<times> BTSets option \<times> 'w" where
  "SetStoragePreferences parse marshal cpus found readOnly tdb bboltDB jsonDB settingsPref viewedPref = (\<lambda>(stored, w).
     if readOnly then (False, stored, w)
     else case stored of
       None \<Rightarrow> (False, stored, w)
     | Some curSets \<Rightarrow>
         let persistence = BTSets_PersistenceConfig (Some curSets);
             (ok, stored, w) = (case settingsPref of
                 None \<Rightarrow> (True, stored, w)
               | Some pref \<Rightarrow>
                   if pref \<noteq> [] \<and> pe_SettingsInJSON persistence \<noteq> (pref = ''json'')
                   then SwitchSettingsStorage parse marshal cpus found readOnly tdb bboltDB jsonDB (pref = ''json'') (stored, w)
                   else (True, stored, w))
         in if \<not> ok then (False, stored, w)
            else case viewedPref of
                None \<Rightarrow> (True, stored, w)
              | Some pref \<Rightarrow>
                  if pref \<noteq> [] \<and> pe_ViewedInJSON persistence \<noteq> (pref = ''json'')
                  then SwitchViewedStorage parse marshal cpus found readOnly tdb bboltDB jsonDB (pref = ''json'') (stored, w)
                  else (True, stored, w))"

section \<open>Viewed marks\<close>

text \<open>\<open>unm\<close> and \<open>mar\<close> are the codec of the sets of file indexes.\<close>

definition SetViewed ::
  "(string \<Rightarrow> int set option) \<Rightarrow> (int set \<Rightarrow> string) \<Rightarrow> 'w TorrServerDB \<Rightarrow> string \<Rightarrow> int \<Rightarrow> 'w \<Rightarrow> 'w" where
  "SetViewed unm mar tdb hash fileIndex w =
     (let (buf, w) = db_Get tdb ''Viewed'' hash w in
      case buf of
        None \<Rightarrow> db_Set tdb ''Viewed'' hash (mar {fileIndex}) w
      | Some b \<Rightarrow>
          if b = [] then db_Set tdb ''Viewed'' hash (mar {fileIndex}) w
          else (case unm b of
                  None \<Rightarrow> w
                | Some indexes \<Rightarrow> db_Set tdb ''Viewed'' hash (mar (insert fileIndex indexes)) w))"

definition RemViewed ::
  "(string \<Rightarrow> int set option) \<Rightarrow> (int set \<Rightarrow> string) \<Rightarrow> 'w TorrServerDB \<Rightarrow> string \<Rightarrow> int \<Rightarrow> 'w \<Rightarrow> 'w" where
  "RemViewed unm mar tdb hash fileIndex w =
     (let (buf, w) = db_Get tdb ''Viewed'' hash w in
      case unm (case buf of None \<Rightarrow> [] | Some b \<Rightarrow> b) of
        None \<Rightarrow> w
      | Some indices \<Rightarrow>
          if fileIndex \<noteq> -1 then db_Set tdb ''Viewed'' hash (mar (indices - {fileIndex})) w
          else db_Rem tdb ''Viewed'' hash w)"

text \<open>The list of the marks is in the order of the map; the set of their indexes is returned.\<close>

definition ListViewed :: "(string \<Rightarrow> int set option) \<Rightarrow> 'w TorrServerDB \<Rightarrow> string \<Rightarrow> 'w \<Rightarrow> int set \<times> 'w" where
  "ListViewed unm tdb hash w =
     (let (buf, w) = db_Get tdb ''Viewed'' hash w in
      (case buf of
         None \<Rightarrow> {}
       | Some b \<Rightarrow> if b = [] then {} else (case unm b of None \<Rightarrow> {} | Some indices \<Rightarrow> indices), w))"

section \<open>Moving an entry from JSON to bbolt\<close>

text \<open>The two files side by side; \<open>parse\<close> compares what the meanings tell apart.\<close>

definition same_views :: "('a \<Rightarrow> 'm contents) \<Rightarrow> ('c \<Rightarrow> 'm contents) \<Rightarrow> 'a \<times> 'c \<Rightarrow> 'a \<times> 'c \<Rightarrow> bool" where
  "same_views view1 view2 w w' \<longleftrightarrow> view1 (fst w') = view1 (fst w) \<and> view2 (snd w') = view2 (snd w)"

definition moved ::
  "('a \<Rightarrow> 'm contents) \<Rightarrow> ('c \<Rightarrow> 'm contents) \<Rightarrow> string \<Rightarrow> string \<Rightarrow> 'm \<Rightarrow> 'a \<times> 'c \<Rightarrow> 'a \<times> 'c \<Rightarrow> bool" where
  "moved view1 view2 x n m w w' \<longleftrightarrow>
     view1 (fst w') = (view1 (fst w))(x := (view1 (fst w) x)(n \<mapsto> m)) \<and> view2 (snd w') = view2 (snd w)"

locale file_pair =
  one: torr_store db1 meaning view1 good1 accepts1 + two: torr_store db2 meaning view2 good2 accepts2
  for db1 :: "'a TorrServerDB" and meaning :: "string \<Rightarrow> 'm" and view1 good1 accepts1
    and db2 :: "'c TorrServerDB" and view2 good2 accepts2
begin

lemma move_entry:
  assumes good: "good1 a" "good2 c" and x: "known_path x" and held: "view2 c x n = Some m"
    and acc: "\<forall>c v c'. good2 c \<longrightarrow> db_Get db2 x n c = (Some v, c') \<longrightarrow> meaning v = m \<longrightarrow> accepts1 n v"
    and eq: "\<forall>u v. meaning u = m \<longrightarrow> (isByteArraysEqualJSON parse u v = Some True \<longleftrightarrow> meaning u = meaning v)"
    and run: "migrateSingleWithReport parse (on_snd db2) (on_fst db1) x n dryRun (a, c) = (report, err, w')"
  shows "good1 (fst w') \<and> good2 (snd w') \<and>
    (if view1 a x n = Some m then er_Action report = Skipped \<and> err = None \<and> same_views view1 view2 (a, c) w'
     else if dryRun then er_Action report = WouldMigrate \<and> err = None \<and> same_views view1 view2 (a, c) w'
     else moved view1 view2 x n m (a, c) w' \<and> (err = None \<longrightarrow> er_Action report = Migrated))"
proof -
  obtain sd c1 where g1: "db_Get db2 x n c = (sd, c1)" by fastforce
  have c1: "map_option meaning sd = Some m" "view2 c1 = view2 c" "good2 c1" using two.get [OF good(2) x g1] held by auto
  then obtain u where u: "sd = Some u" "meaning u = m" by auto
  obtain td a1 where g2: "db_Get db1 x n a = (td, a1)" by fastforce
  have a1: "map_option meaning td = view1 a x n" "view1 a1 = view1 a" "good1 a1" using one.get [OF good(1) x g2] by auto
  have same: "(case td of None \<Rightarrow> False | Some d \<Rightarrow> isByteArraysEqualJSON parse u d = Some True) \<longleftrightarrow> view1 a x n = Some m"
  proof (cases td)
    case None
    with a1(1) show ?thesis by (simp flip: a1(1))
  next
    case (Some d)
    with eq [rule_format, OF u(2), of d] u(2) show ?thesis by (auto simp flip: a1(1))
  qed
  define a2 where "a2 = db_Set db1 x n u a1"
  have a2: "view1 a2 = (view1 a)(x := (view1 a x)(n \<mapsto> m))" "good1 a2"
    using one.set [OF a1(3) x acc [rule_format, OF good(2) g1 [unfolded u(1)] u(2)] refl] a1(2) u(2) by (auto simp: a2_def)
  obtain md a3 where g3: "db_Get db1 x n a2 = (md, a3)" by fastforce
  have a3: "view1 a3 = view1 a2" "good1 a3" using one.get [OF a2(2) x g3] by auto
  have src: "db_Get (on_snd db2) x n (a, c) = (Some u, (a, c1))" using g1 u(1) by (simp add: on_snd_def)
  have tgt: "db_Get (on_fst db1) x n (a, c1) = (td, (a1, c1))" using g2 by (simp add: on_fst_def)
  have put: "db_Set (on_fst db1) x n u (a1, c1) = (a2, c1)" by (simp add: on_fst_def a2_def)
  have ver: "snd (verifyMigration parse (on_fst db1) x n u (a2, c1)) = (a3, c1)"
    using g3 by (simp add: verifyMigration_def on_fst_def)
  show ?thesis
  proof (cases "view1 a x n = Some m")
    case True
    then have "er_Action report = Skipped" "err = None" "w' = (a1, c1)"
      using run same by (auto simp: migrateSingleWithReport_def src tgt Let_def)
    then show ?thesis using True a1 c1 by (simp add: same_views_def)
  next
    case miss: False
    show ?thesis
    proof (cases dryRun)
      case True
      then have "er_Action report = WouldMigrate" "err = None" "w' = (a1, c1)"
        using run same miss by (auto simp: migrateSingleWithReport_def src tgt Let_def)
      then show ?thesis using miss True a1 c1 by (simp add: same_views_def)
    next
      case False
      obtain e where v: "verifyMigration parse (on_fst db1) x n u (a2, c1) = (e, (a3, c1))"
        using ver by (cases "verifyMigration parse (on_fst db1) x n u (a2, c1)") simp
      have "w' = (a3, c1) \<and> (err = None \<longrightarrow> er_Action report = Migrated)"
        using run same miss False v put by (auto simp: migrateSingleWithReport_def src tgt put Let_def split: option.splits)
      then show ?thesis using miss False a3 a2 c1 by (simp add: moved_def)
    qed
  qed
qed

text \<open>What a start does with an entry of the JSON file, whatever bbolt holds under its name.\<close>

lemma start_moves:
  assumes good: "good1 a" "good2 c" and x: "known_path x" and held: "view2 c x n = Some m"
    and acc: "\<forall>c v c'. good2 c \<longrightarrow> db_Get db2 x n c = (Some v, c') \<longrightarrow> meaning v = m \<longrightarrow> accepts1 n v"
    and eq: "\<forall>u v. meaning u = m \<longrightarrow> (isByteArraysEqualJSON parse u v = Some True \<longleftrightarrow> meaning u = meaning v)"
    and w': "w' = safeMigrate parse (on_snd db2) (on_fst db1) x n True (a, c)"
  shows "good1 (fst w') \<and> good2 (snd w') \<and> view1 (fst w') x n = Some m \<and>
    (view1 a x n = Some m \<longrightarrow> same_views view1 view2 (a, c) w')"
proof -
  obtain r1 e1 a1 c1 where 1: "migrateSingleWithReport parse (on_snd db2) (on_fst db1) x n True (a, c) = (r1, e1, (a1, c1))"
    by (metis prod_cases3 surj_pair)
  have s1: "good1 a1" "good2 c1" "view1 a1 = view1 a" "view2 c1 = view2 c"
    using move_entry [OF good x held acc eq 1] by (auto simp: same_views_def split: if_splits)
  have held1: "view2 c1 x n = Some m" using held s1(4) by simp
  obtain r2 e2 a2 c2 where 2: "migrateSingleWithReport parse (on_snd db2) (on_fst db1) x n False (a1, c1) = (r2, e2, (a2, c2))"
    by (metis prod_cases3 surj_pair)
  note m = move_entry [OF s1(1,2) x held1 acc eq 2, unfolded fst_conv snd_conv]
  have run: "w' = (if e2 = None \<and> er_Action r2 = Migrated then db_Rem (on_snd db2) x n (a2, c2) else (a2, c2))"
    by (simp add: w' safeMigrate_def MigrateSingleDryRun_def MigrateSingle_def 1 2)
  have "good2 (db_Rem db2 x n c2)" using two.rem [OF _ x refl, of c2 n] m by auto
  then show ?thesis using m run s1 by (auto simp: on_snd_def same_views_def moved_def split: if_splits)
qed

lemma change_is_lost:
  assumes good: "good1 a" "good2 c" and x: "known_path x" and held: "view2 c x n = Some m"
    and acc: "\<forall>c v c'. good2 c \<longrightarrow> db_Get db2 x n c = (Some v, c') \<longrightarrow> meaning v = m \<longrightarrow> accepts1 n v" and acc_v: "accepts1 n v1"
    and eq: "\<forall>u v. meaning u = m \<longrightarrow> (isByteArraysEqualJSON parse u v = Some True \<longleftrightarrow> meaning u = meaning v)"
    and w1: "snd (snd (MigrateSingle parse (on_snd db2) (on_fst db1) x n (a, c))) = w1"
    and w2: "w2 = safeMigrate parse (on_snd db2) (on_fst db1) x n True w1"
    and w3: "w3 = db_Set (on_fst db1) x n v1 w2"
    and w4: "w4 = safeMigrate parse (on_snd db2) (on_fst db1) x n True w3"
  shows "view1 (fst w3) x n = Some (meaning v1) \<and> view1 (fst w4) x n = Some m"
proof -
  obtain r e a1 c1 where 1: "migrateSingleWithReport parse (on_snd db2) (on_fst db1) x n False (a, c) = (r, e, (a1, c1))"
    by (metis prod_cases3 surj_pair)
  have "w1 = (a1, c1)" using w1 1 by (auto simp: MigrateSingle_def split: if_splits)
  moreover have s1: "good1 a1 \<and> good2 c1 \<and> view1 a1 x n = Some m \<and> view2 c1 = view2 c"
    using move_entry [OF good x held acc eq 1] by (auto simp: same_views_def moved_def split: if_splits)
  ultimately have w1': "w1 = (a1, c1)" by simp
  obtain a2 c2 where w2': "w2 = (a2, c2)" by fastforce
  have s2: "good1 a2" "good2 c2" "view2 c2 x n = Some m"
    using start_moves [OF _ _ x _ acc eq w2 [unfolded w1']] s1 held by (auto simp: w2' same_views_def)
  have w3': "w3 = (db_Set db1 x n v1 a2, c2)" by (simp add: w3 w2' on_fst_def)
  have s3: "view1 (db_Set db1 x n v1 a2) x n = Some (meaning v1)" "good1 (db_Set db1 x n v1 a2)"
    using one.set [OF s2(1) x acc_v refl] by auto
  have "view1 (fst w4) x n = Some m"
    using start_moves [OF s3(2) s2(2) x s2(3) acc eq w4 [unfolded w3']] by auto
  with s3 show ?thesis by (simp add: w3')
qed

end

sublocale settings_files \<subseteq> pair: file_pair "TDB bl" "js_object jl" "bolt_view (js_object jl) content" "bolt_good plain" bolt_accepts
    "JSONDB jl" "json_view jl" "json_good jl" "json_accepts jl" ..

context settings_files begin

lemmas files_change_is_lost = pair.change_is_lost

end

text \<open>
  Settings that are changed after the storage was switched from JSON to bbolt are lost at the
  second restart. The switch copies the entry and leaves it in the JSON file; the first start finds the two
  equal and leaves it too; from then on changes go to bbolt only; and the second start takes the JSON entry
  for the newer one and writes it over the settings in bbolt. \<open>w1\<close>, \<open>w2\<close>, \<open>w3\<close> and \<open>w4\<close> are the
  files after the switch, the first start, the change and the second start.
\<close>

theorem settings_change_lost_at_restart:
  assumes files: "settings_files bl content plain jl" and "bolt_good plain a" and "json_good jl c"
    and codec: "\<forall>u v. js_object jl u = Some j \<longrightarrow>
      (isByteArraysEqualJSON parse u v = Some True \<longleftrightarrow> js_object jl u = js_object jl v)"
    and size: "bolt_accepts ''BitTorr'' (js_marshal jl j)" and size1: "bolt_accepts ''BitTorr'' v1"
    and held: "json_view jl c ''Settings'' ''BitTorr'' = Some (Some j)"
    and w1: "MigrateSettingsFromJSON parse (on_snd (JSONDB jl)) (on_fst (TDB bl)) (a, c) = (err, w1)"
    and w2: "w2 = safeMigrate parse (on_snd (JSONDB jl)) (on_fst (TDB bl)) ''Settings'' ''BitTorr'' True w1"
    and w3: "w3 = db_Set (on_fst (TDB bl)) ''Settings'' ''BitTorr'' v1 w2"
    and w4: "w4 = safeMigrate parse (on_snd (JSONDB jl)) (on_fst (TDB bl)) ''Settings'' ''BitTorr'' True w3"
  shows "bolt_view (js_object jl) content (fst w3) ''Settings'' ''BitTorr'' = Some (js_object jl v1) \<and>
         bolt_view (js_object jl) content (fst w4) ''Settings'' ''BitTorr'' = Some (Some j)"
proof -
  have "snd (snd (MigrateSingle parse (on_snd (JSONDB jl)) (on_fst (TDB bl)) ''Settings'' ''BitTorr'' (a, c))) = w1"
    using w1 by (simp add: MigrateSettingsFromJSON_def)
  moreover have "\<forall>c v c'. json_good jl c \<longrightarrow> db_Get (JSONDB jl) ''Settings'' ''BitTorr'' c = (Some v, c') \<longrightarrow>
      js_object jl v = Some j \<longrightarrow> bolt_accepts ''BitTorr'' v"
    using size json_codec.object_marshal [OF settings_files.axioms(2) [OF files]]
    by (auto simp: JSONDB_def JSONDB_Get_def)
  ultimately show ?thesis
    using settings_files.files_change_is_lost [OF files assms(2,3) _ held _ size1 codec _ w2 w3 w4]
    by (simp add: known_path_def)
qed

definition switched_dir :: json_dir where
  "switched_dir = empty_dir\<lparr>jf_files := [''settings.json'' \<mapsto> ''{xBxixtxTxoxrxr.x1.}'']\<rparr>"

theorem settings_change_lost_at_restart_witness:
  "\<exists>w3 w4. w4 = safeMigrate (js_object demo_codec) (on_snd (JSONDB demo_codec)) (on_fst (TDB demo_bolt)) ''Settings'' ''BitTorr'' True w3 \<and>
     bolt_view (js_object demo_codec) (\<lambda>b. b) (fst w3) ''Settings'' ''BitTorr'' = Some (Some ''2'') \<and>
     bolt_view (js_object demo_codec) (\<lambda>b. b) (fst w4) ''Settings'' ''BitTorr'' = Some (Some ''1'')"
proof -
  have good: "bolt_good demo_plain (Some Map.empty)" "json_good demo_codec switched_dir"
    by (simp_all add: bolt_good_def demo_plain_def json_good_def switched_dir_def empty_dir_def)
  have codec: "\<forall>u v. js_object demo_codec u = Some ''1'' \<longrightarrow>
      (isByteArraysEqualJSON (js_object demo_codec) u v = Some True \<longleftrightarrow> js_object demo_codec u = js_object demo_codec v)"
    by (auto simp: isByteArraysEqualJSON_def demo_codec_def split: option.splits list.splits if_splits)
  have held: "json_view demo_codec switched_dir ''Settings'' ''BitTorr'' = Some (Some ''1'')"
    by (simp add: json_view_def switched_dir_def empty_dir_def known_path_def known_files readJSONFileAsMap_def demo_codec_def)
  have size: "bolt_accepts ''BitTorr'' (js_marshal demo_codec ''1'')" "bolt_accepts ''BitTorr'' ''{2''"
    by (simp_all add: bolt_accepts_def demo_codec_def)
  have "js_object demo_codec ''{2'' = Some ''2''" by (simp add: demo_codec_def)
  note lost = settings_change_lost_at_restart
      [OF demo_files.settings_files_axioms good codec size held surjective_pairing refl refl refl, unfolded this]
  show ?thesis by (rule exI, rule exI, rule conjI [OF refl lost])
qed

end
