(* ===== verification/Settings_Service.thy ===== *)
theory Settings_Service
  imports Config_Loading Store_Migration Torrent_Lifecycle
begin

text \<open>
  The settings behind the API: the record of the API's contracts and its conversions (internal/app/contracts/contracts.go,
  internal/app/apiservices/settings_mapper.go), the merge of a partial record (web/api/settings_patch.go), the request
  handler (web/api/settings.go, settings_binding.go) and the service over the controller of the runtime
  (apiservices/settings_service.go, torr/runtime_controller.go). The decoding of the JSON body is an argument.
\<close>

section \<open>The record of the contracts\<close>

text \<open>The two nested records have the fields of those of the settings and are shared with them.\<close>

record ApiSettings =
  as_CacheSize :: "int"
  as_ReaderReadAHead :: "int"
  as_PreloadCache :: "int"
  as_UseDisk :: "bool"
  as_TorrentsSavePath :: "string"
  as_RemoveCacheOnDrop :: "bool"
  as_ForceEncrypt :: "bool"
  as_RetrackersMode :: "int"
  as_TorrentDisconnectTimeout :: "int"
  as_EnableDebug :: "bool"
  as_ServiceOnlyDebug :: "bool"
  as_DebugEstablishedConnsOverride :: "int"
  as_DebugTotalHalfOpenConnsOverride :: "int"
  as_DebugTrackerBudgetOverride :: "int"
  as_DebugStablePeerCap :: "int"
  as_EnableDLNA :: "bool"
  as_FriendlyName :: "string"
  as_EnableRutorSearch :: "bool"
  as_EnableTorznabSearch :: "bool"
  as_TorznabUrls :: "TorznabConfig list"
  as_TMDBSettings :: "TMDBConfig"
  as_EnableIPv6 :: "bool"
  as_DisableTCP :: "bool"
  as_DisableUTP :: "bool"
  as_DisableUPNP :: "bool"
  as_DisableDHT :: "bool"
  as_DisablePEX :: "bool"
  as_DisableUpload :: "bool"
  as_DownloadRateLimit :: "int"
  as_UploadRateLimit :: "int"
  as_ConnectionsLimit :: "int"
  as_PeersListenPort :: "int"
  as_EnableLPD :: "bool"
  as_LPDIPv6 :: "bool"
  as_SslPort :: "int"
  as_SslCert :: "string"
  as_SslKey :: "string"
  as_ResponsiveMode :: "bool"
  as_CoreProfile :: "string"
  as_MaxConcurrentStreams :: "int"
  as_StreamQueueSize :: "int"
  as_StreamQueueWaitSec :: "int"
  as_MaxUniquePlaybackTorrents :: "int"
  as_StartupPreloadPolicy :: "string"
  as_AdaptiveRAMinMB :: "int"
  as_AdaptiveRAMaxMB :: "int"
  as_WarmDiskCacheSizeMB :: "int"
  as_WarmDiskCacheTTLMin :: "int"
  as_DiskSyncPolicy :: "string"
  as_DiskSyncIntervalMS :: "int"
  as_DiskWriteBatchSize :: "int"
  as_MetadataWorkers :: "int"
  as_MetadataQueueSize :: "int"
  as_PreloadWorkers :: "int"
  as_PreloadQueueSize :: "int"
  as_ShowFSActiveTorr :: "bool"
  as_StoreSettingsInJSON :: "bool"
  as_StoreViewedInJSON :: "bool"
  as_EnableProxy :: "bool"
  as_ProxyHosts :: "string list"

definition zero_ApiSettings :: ApiSettings where
  "zero_ApiSettings = \<lparr>
     as_CacheSize = 0, as_ReaderReadAHead = 0, as_PreloadCache = 0, as_UseDisk = False, as_TorrentsSavePath = [],
     as_RemoveCacheOnDrop = False, as_ForceEncrypt = False, as_RetrackersMode = 0, as_TorrentDisconnectTimeout = 0,
     as_EnableDebug = False, as_ServiceOnlyDebug = False, as_DebugEstablishedConnsOverride = 0,
     as_DebugTotalHalfOpenConnsOverride = 0, as_DebugTrackerBudgetOverride = 0, as_DebugStablePeerCap = 0,
     as_EnableDLNA = False, as_FriendlyName = [], as_EnableRutorSearch = False, as_EnableTorznabSearch = False,
     as_TorznabUrls = [], as_TMDBSettings = zero_TMDBConfig, as_EnableIPv6 = False, as_DisableTCP = False,
     as_DisableUTP = False, as_DisableUPNP = False, as_DisableDHT = False, as_DisablePEX = False,
     as_DisableUpload = False, as_DownloadRateLimit = 0, as_UploadRateLimit = 0, as_ConnectionsLimit = 0,
     as_PeersListenPort = 0, as_EnableLPD = False, as_LPDIPv6 = False, as_SslPort = 0, as_SslCert = [],
     as_SslKey = [], as_ResponsiveMode = False, as_CoreProfile = [], as_MaxConcurrentStreams = 0,
     as_StreamQueueSize = 0, as_StreamQueueWaitSec = 0, as_MaxUniquePlaybackTorrents = 0,
     as_StartupPreloadPolicy = [], as_AdaptiveRAMinMB = 0, as_AdaptiveRAMaxMB = 0, as_WarmDiskCacheSizeMB = 0,
     as_WarmDiskCacheTTLMin = 0, as_DiskSyncPolicy = [], as_DiskSyncIntervalMS = 0, as_DiskWriteBatchSize = 0,
     as_MetadataWorkers = 0, as_MetadataQueueSize = 0, as_PreloadWorkers = 0, as_PreloadQueueSize = 0,
     as_ShowFSActiveTorr = False, as_StoreSettingsInJSON = False, as_StoreViewedInJSON = False,
     as_EnableProxy = False, as_ProxyHosts = []\<rparr>"

definition mapTMDBConfigFromSettings :: "TMDBConfig \<Rightarrow> TMDBConfig" where
  "mapTMDBConfigFromSettings src = \<lparr>APIKey = APIKey src, APIURL = APIURL src, ImageURL = ImageURL src, ImageURLRu = ImageURLRu src\<rparr>"

definition mapTMDBConfigToSettings :: "TMDBConfig \<Rightarrow> TMDBConfig" where
  "mapTMDBConfigToSettings src = \<lparr>APIKey = APIKey src, APIURL = APIURL src, ImageURL = ImageURL src, ImageURLRu = ImageURLRu src\<rparr>"

definition mapTorznabConfigFromSettings :: "TorznabConfig list \<Rightarrow> TorznabConfig list" where
  "mapTorznabConfigFromSettings src = map (\<lambda>item. \<lparr>tz_Host = tz_Host item, tz_Key = tz_Key item, tz_Name = tz_Name item\<rparr>) src"

definition mapTorznabConfigToSettings :: "TorznabConfig list \<Rightarrow> TorznabConfig list" where
  "mapTorznabConfigToSettings src = map (\<lambda>item. \<lparr>tz_Host = tz_Host item, tz_Key = tz_Key item, tz_Name = tz_Name item\<rparr>) src"

definition mapSettingsFromBTSets :: "BTSets \<Rightarrow> ApiSettings" where
  "mapSettingsFromBTSets src = \<lparr>
     as_CacheSize = CacheSize src, as_ReaderReadAHead = ReaderReadAHead src, as_PreloadCache = PreloadCache src,
     as_UseDisk = UseDisk src, as_TorrentsSavePath = TorrentsSavePath src,
     as_RemoveCacheOnDrop = RemoveCacheOnDrop src, as_ForceEncrypt = ForceEncrypt src,
     as_RetrackersMode = RetrackersMode src, as_TorrentDisconnectTimeout = TorrentDisconnectTimeout src,
     as_EnableDebug = EnableDebug src, as_ServiceOnlyDebug = ServiceOnlyDebug src,
     as_DebugEstablishedConnsOverride = DebugEstablishedConnsOverride src,
     as_DebugTotalHalfOpenConnsOverride = DebugTotalHalfOpenConnsOverride src,
     as_DebugTrackerBudgetOverride = DebugTrackerBudgetOverride src, as_DebugStablePeerCap = DebugStablePeerCap src,
     as_EnableDLNA = EnableDLNA src, as_FriendlyName = FriendlyName src,
     as_EnableRutorSearch = EnableRutorSearch src, as_EnableTorznabSearch = EnableTorznabSearch src,
     as_TorznabUrls = mapTorznabConfigFromSettings (TorznabUrls src),
     as_TMDBSettings = mapTMDBConfigFromSettings (TMDBSettings src), as_EnableIPv6 = EnableIPv6 src,
     as_DisableTCP = DisableTCP src, as_DisableUTP = DisableUTP src, as_DisableUPNP = DisableUPNP src,
     as_DisableDHT = DisableDHT src, as_DisablePEX = DisablePEX src, as_DisableUpload = DisableUpload src,
     as_DownloadRateLimit = DownloadRateLimit src, as_UploadRateLimit = UploadRateLimit src,
     as_ConnectionsLimit = ConnectionsLimit src, as_PeersListenPort = PeersListenPort src,
     as_EnableLPD = EnableLPD src, as_LPDIPv6 = LPDIPv6 src, as_SslPort = SslPort src, as_SslCert = SslCert src,
     as_SslKey = SslKey src, as_ResponsiveMode = ResponsiveMode src, as_CoreProfile = CoreProfile src,
     as_MaxConcurrentStreams = MaxConcurrentStreams src, as_StreamQueueSize = StreamQueueSize src,
     as_StreamQueueWaitSec = StreamQueueWaitSec src, as_MaxUniquePlaybackTorrents = MaxUniquePlaybackTorrents src,
     as_StartupPreloadPolicy = NormalizeStartupPreloadPolicy (StartupPreloadPolicy src),
     as_AdaptiveRAMinMB = AdaptiveRAMinMB src, as_AdaptiveRAMaxMB = AdaptiveRAMaxMB src,
     as_WarmDiskCacheSizeMB = WarmDiskCacheSizeMB src, as_WarmDiskCacheTTLMin = WarmDiskCacheTTLMin src,
     as_DiskSyncPolicy = DiskSyncPolicy src, as_DiskSyncIntervalMS = DiskSyncIntervalMS src,
     as_DiskWriteBatchSize = DiskWriteBatchSize src, as_MetadataWorkers = MetadataWorkers src,
     as_MetadataQueueSize = MetadataQueueSize src, as_PreloadWorkers = PreloadWorkers src,
     as_PreloadQueueSize = PreloadQueueSize src, as_ShowFSActiveTorr = ShowFSActiveTorr src,
     as_StoreSettingsInJSON = StoreSettingsInJSON src, as_StoreViewedInJSON = StoreViewedInJSON src,
     as_EnableProxy = EnableProxy src, as_ProxyHosts = ProxyHosts src\<rparr>"

text \<open>The bound on unverified bytes, which the contracts do not have, is left at zero.\<close>

definition mapSettingsToBTSets :: "ApiSettings \<Rightarrow> BTSets" where
  "mapSettingsToBTSets src = \<lparr>
     CacheSize = as_CacheSize src, ReaderReadAHead = as_ReaderReadAHead src, PreloadCache = as_PreloadCache src,
     UseDisk = as_UseDisk src, TorrentsSavePath = as_TorrentsSavePath src,
     RemoveCacheOnDrop = as_RemoveCacheOnDrop src, ForceEncrypt = as_ForceEncrypt src,
     RetrackersMode = as_RetrackersMode src, TorrentDisconnectTimeout = as_TorrentDisconnectTimeout src,
     EnableDebug = as_EnableDebug src, ServiceOnlyDebug = as_ServiceOnlyDebug src,
     DebugEstablishedConnsOverride = as_DebugEstablishedConnsOverride src,
     DebugTotalHalfOpenConnsOverride = as_DebugTotalHalfOpenConnsOverride src,
     DebugTrackerBudgetOverride = as_DebugTrackerBudgetOverride src, DebugStablePeerCap = as_DebugStablePeerCap src,
     DebugMaxUnverifiedBytesMB = 0, EnableDLNA = as_EnableDLNA src, FriendlyName = as_FriendlyName src,
     EnableRutorSearch = as_EnableRutorSearch src, EnableTorznabSearch = as_EnableTorznabSearch src,
     TorznabUrls = mapTorznabConfigToSettings (as_TorznabUrls src),
     TMDBSettings = mapTMDBConfigToSettings (as_TMDBSettings src), EnableIPv6 = as_EnableIPv6 src,
     DisableTCP = as_DisableTCP src, DisableUTP = as_DisableUTP src, DisableUPNP = as_DisableUPNP src,
     DisableDHT = as_DisableDHT src, DisablePEX = as_DisablePEX src, DisableUpload = as_DisableUpload src,
     DownloadRateLimit = as_DownloadRateLimit src, UploadRateLimit = as_UploadRateLimit src,
     ConnectionsLimit = as_ConnectionsLimit src, PeersListenPort = as_PeersListenPort src,
     EnableLPD = as_EnableLPD src, LPDIPv6 = as_LPDIPv6 src, SslPort = as_SslPort src, SslCert = as_SslCert src,
     SslKey = as_SslKey src, ResponsiveMode = as_ResponsiveMode src, CoreProfile = as_CoreProfile src,
     MaxConcurrentStreams = as_MaxConcurrentStreams src, StreamQueueSize = as_StreamQueueSize src,
     StreamQueueWaitSec = as_StreamQueueWaitSec src, MaxUniquePlaybackTorrents = as_MaxUniquePlaybackTorrents src,
     StartupPreloadPolicy = NormalizeStartupPreloadPolicy (as_StartupPreloadPolicy src),
     AdaptiveRAMinMB = as_AdaptiveRAMinMB src, AdaptiveRAMaxMB = as_AdaptiveRAMaxMB src,
     WarmDiskCacheSizeMB = as_WarmDiskCacheSizeMB src, WarmDiskCacheTTLMin = as_WarmDiskCacheTTLMin src,
     DiskSyncPolicy = as_DiskSyncPolicy src, DiskSyncIntervalMS = as_DiskSyncIntervalMS src,
     DiskWriteBatchSize = as_DiskWriteBatchSize src, MetadataWorkers = as_MetadataWorkers src,
     MetadataQueueSize = as_MetadataQueueSize src, PreloadWorkers = as_PreloadWorkers src,
     PreloadQueueSize = as_PreloadQueueSize src, ShowFSActiveTorr = as_ShowFSActiveTorr src,
     StoreSettingsInJSON = as_StoreSettingsInJSON src, StoreViewedInJSON = as_StoreViewedInJSON src,
     EnableProxy = as_EnableProxy src, ProxyHosts = as_ProxyHosts src\<rparr>"

section \<open>Partial records\<close>

text \<open>\<open>strings.EqualFold\<close> against a name in ASCII: two runes outside ASCII fold to letters of ASCII.\<close>

definition long_s :: string where
  "long_s = [CHR 0xC5, CHR 0xBF]"

function fold_key :: "string \<Rightarrow> string" where
  "fold_key s =
     (case s of [] \<Rightarrow> []
      | c # cs \<Rightarrow>
          (case strip_prefix kelvin_sign s of
             Some r \<Rightarrow> CHR ''k'' # fold_key r
           | None \<Rightarrow>
             (case strip_prefix long_s s of Some r \<Rightarrow> CHR ''s'' # fold_key r | None \<Rightarrow> lower_char c # fold_key cs)))"
  by pat_completeness auto
termination
  by (relation "measure length")
    (auto simp del: strip_prefix.simps simp: strip_prefix_Some kelvin_sign_def long_s_def dest!: arg_cong [where f = length])

declare fold_key.simps [simp del]

definition settingsFieldPresent :: "string \<Rightarrow> string list \<Rightarrow> bool" where
  "settingsFieldPresent name present \<longleftrightarrow> name \<in> set present \<or> (\<exists>p \<in> set present. fold_key p = fold_key name)"

text \<open>The walk over the fields of the record, each copied from the patch when its name is present.\<close>

definition applyPresentSettingsFields :: "ApiSettings \<Rightarrow> ApiSettings \<Rightarrow> string list \<Rightarrow> ApiSettings" where
  "applyPresentSettingsFields dst src present = \<lparr>
     as_CacheSize = (if settingsFieldPresent ''CacheSize'' present then as_CacheSize src else as_CacheSize dst),
     as_ReaderReadAHead = (if settingsFieldPresent ''ReaderReadAHead'' present then as_ReaderReadAHead src else as_ReaderReadAHead dst),
     as_PreloadCache = (if settingsFieldPresent ''PreloadCache'' present then as_PreloadCache src else as_PreloadCache dst),
     as_UseDisk = (if settingsFieldPresent ''UseDisk'' present then as_UseDisk src else as_UseDisk dst),
     as_TorrentsSavePath = (if settingsFieldPresent ''TorrentsSavePath'' present then as_TorrentsSavePath src else as_TorrentsSavePath dst),
     as_RemoveCacheOnDrop = (if settingsFieldPresent ''RemoveCacheOnDrop'' present then as_RemoveCacheOnDrop src else as_RemoveCacheOnDrop dst),
     as_ForceEncrypt = (if settingsFieldPresent ''ForceEncrypt'' present then as_ForceEncrypt src else as_ForceEncrypt dst),
     as_RetrackersMode = (if settingsFieldPresent ''RetrackersMode'' present then as_RetrackersMode src else as_RetrackersMode dst),
     as_TorrentDisconnectTimeout = (if settingsFieldPresent ''TorrentDisconnectTimeout'' present then as_TorrentDisconnectTimeout src else as_TorrentDisconnectTimeout dst),
     as_EnableDebug = (if settingsFieldPresent ''EnableDebug'' present then as_EnableDebug src else as_EnableDebug dst),
     as_ServiceOnlyDebug = (if settingsFieldPresent ''ServiceOnlyDebug'' present then as_ServiceOnlyDebug src else as_ServiceOnlyDebug dst),
     as_DebugEstablishedConnsOverride = (if settingsFieldPresent ''DebugEstablishedConnsOverride'' present then as_DebugEstablishedConnsOverride src else as_DebugEstablishedConnsOverride dst),
     as_DebugTotalHalfOpenConnsOverride = (if settingsFieldPresent ''DebugTotalHalfOpenConnsOverride'' present then as_DebugTotalHalfOpenConnsOverride src else as_DebugTotalHalfOpenConnsOverride dst),
     as_DebugTrackerBudgetOverride = (if settingsFieldPresent ''DebugTrackerBudgetOverride'' present then as_DebugTrackerBudgetOverride src else as_DebugTrackerBudgetOverride dst),
     as_DebugStablePeerCap = (if settingsFieldPresent ''DebugStablePeerCap'' present then as_DebugStablePeerCap src else as_DebugStablePeerCap dst),
     as_EnableDLNA = (if settingsFieldPresent ''EnableDLNA'' present then as_EnableDLNA src else as_EnableDLNA dst),
     as_FriendlyName = (if settingsFieldPresent ''FriendlyName'' present then as_FriendlyName src else as_FriendlyName dst),
     as_EnableRutorSearch = (if settingsFieldPresent ''EnableRutorSearch'' present then as_EnableRutorSearch src else as_EnableRutorSearch dst),
     as_EnableTorznabSearch = (if settingsFieldPresent ''EnableTorznabSearch'' present then as_EnableTorznabSearch src else as_EnableTorznabSearch dst),
     as_TorznabUrls = (if settingsFieldPresent ''TorznabUrls'' present then as_TorznabUrls src else as_TorznabUrls dst),
     as_TMDBSettings = (if settingsFieldPresent ''TMDBSettings'' present then as_TMDBSettings src else as_TMDBSettings dst),
     as_EnableIPv6 = (if settingsFieldPresent ''EnableIPv6'' present then as_EnableIPv6 src else as_EnableIPv6 dst),
     as_DisableTCP = (if settingsFieldPresent ''DisableTCP'' present then as_DisableTCP src else as_DisableTCP dst),
     as_DisableUTP = (if settingsFieldPresent ''DisableUTP'' present then as_DisableUTP src else as_DisableUTP dst),
     as_DisableUPNP = (if settingsFieldPresent ''DisableUPNP'' present then as_DisableUPNP src else as_DisableUPNP dst),
     as_DisableDHT = (if settingsFieldPresent ''DisableDHT'' present then as_DisableDHT src else as_DisableDHT dst),
     as_DisablePEX = (if settingsFieldPresent ''DisablePEX'' present then as_DisablePEX src else as_DisablePEX dst),
     as_DisableUpload = (if settingsFieldPresent ''DisableUpload'' present then as_DisableUpload src else as_DisableUpload dst),
     as_DownloadRateLimit = (if settingsFieldPresent ''DownloadRateLimit'' present then as_DownloadRateLimit src else as_DownloadRateLimit dst),
     as_UploadRateLimit = (if settingsFieldPresent ''UploadRateLimit'' present then as_UploadRateLimit src else as_UploadRateLimit dst),
     as_ConnectionsLimit = (if settingsFieldPresent ''ConnectionsLimit'' present then as_ConnectionsLimit src else as_ConnectionsLimit dst),
     as_PeersListenPort = (if settingsFieldPresent ''PeersListenPort'' present then as_PeersListenPort src else as_PeersListenPort dst),
     as_EnableLPD = (if settingsFieldPresent ''EnableLPD'' present then as_EnableLPD src else as_EnableLPD dst),
     as_LPDIPv6 = (if settingsFieldPresent ''LPDIPv6'' present then as_LPDIPv6 src else as_LPDIPv6 dst),
     as_SslPort = (if settingsFieldPresent ''SslPort'' present then as_SslPort src else as_SslPort dst),
     as_SslCert = (if settingsFieldPresent ''SslCert'' present then as_SslCert src else as_SslCert dst),
     as_SslKey = (if settingsFieldPresent ''SslKey'' present then as_SslKey src else as_SslKey dst),
     as_ResponsiveMode = (if settingsFieldPresent ''ResponsiveMode'' present then as_ResponsiveMode src else as_ResponsiveMode dst),
     as_CoreProfile = (if settingsFieldPresent ''CoreProfile'' present then as_CoreProfile src else as_CoreProfile dst),
     as_MaxConcurrentStreams = (if settingsFieldPresent ''MaxConcurrentStreams'' present then as_MaxConcurrentStreams src else as_MaxConcurrentStreams dst),
     as_StreamQueueSize = (if settingsFieldPresent ''StreamQueueSize'' present then as_StreamQueueSize src else as_StreamQueueSize dst),
     as_StreamQueueWaitSec = (if settingsFieldPresent ''StreamQueueWaitSec'' present then as_StreamQueueWaitSec src else as_StreamQueueWaitSec dst),
     as_MaxUniquePlaybackTorrents = (if settingsFieldPresent ''MaxUniquePlaybackTorrents'' present then as_MaxUniquePlaybackTorrents src else as_MaxUniquePlaybackTorrents dst),
     as_StartupPreloadPolicy = (if settingsFieldPresent ''StartupPreloadPolicy'' present then as_StartupPreloadPolicy src else as_StartupPreloadPolicy dst),
     as_AdaptiveRAMinMB = (if settingsFieldPresent ''AdaptiveRAMinMB'' present then as_AdaptiveRAMinMB src else as_AdaptiveRAMinMB dst),
     as_AdaptiveRAMaxMB = (if settingsFieldPresent ''AdaptiveRAMaxMB'' present then as_AdaptiveRAMaxMB src else as_AdaptiveRAMaxMB dst),
     as_WarmDiskCacheSizeMB = (if settingsFieldPresent ''WarmDiskCacheSizeMB'' present then as_WarmDiskCacheSizeMB src else as_WarmDiskCacheSizeMB dst),
     as_WarmDiskCacheTTLMin = (if settingsFieldPresent ''WarmDiskCacheTTLMin'' present then as_WarmDiskCacheTTLMin src else as_WarmDiskCacheTTLMin dst),
     as_DiskSyncPolicy = (if settingsFieldPresent ''DiskSyncPolicy'' present then as_DiskSyncPolicy src else as_DiskSyncPolicy dst),
     as_DiskSyncIntervalMS = (if settingsFieldPresent ''DiskSyncIntervalMS'' present then as_DiskSyncIntervalMS src else as_DiskSyncIntervalMS dst),
     as_DiskWriteBatchSize = (if settingsFieldPresent ''DiskWriteBatchSize'' present then as_DiskWriteBatchSize src else as_DiskWriteBatchSize dst),
     as_MetadataWorkers = (if settingsFieldPresent ''MetadataWorkers'' present then as_MetadataWorkers src else as_MetadataWorkers dst),
     as_MetadataQueueSize = (if settingsFieldPresent ''MetadataQueueSize'' present then as_MetadataQueueSize src else as_MetadataQueueSize dst),
     as_PreloadWorkers = (if settingsFieldPresent ''PreloadWorkers'' present then as_PreloadWorkers src else as_PreloadWorkers dst),
     as_PreloadQueueSize = (if settingsFieldPresent ''PreloadQueueSize'' present then as_PreloadQueueSize src else as_PreloadQueueSize dst),
     as_ShowFSActiveTorr = (if settingsFieldPresent ''ShowFSActiveTorr'' present then as_ShowFSActiveTorr src else as_ShowFSActiveTorr dst),
     as_StoreSettingsInJSON = (if settingsFieldPresent ''StoreSettingsInJSON'' present then as_StoreSettingsInJSON src else as_StoreSettingsInJSON dst),
     as_StoreViewedInJSON = (if settingsFieldPresent ''StoreViewedInJSON'' present then as_StoreViewedInJSON src else as_StoreViewedInJSON dst),
     as_EnableProxy = (if settingsFieldPresent ''EnableProxy'' present then as_EnableProxy src else as_EnableProxy dst),
     as_ProxyHosts = (if settingsFieldPresent ''ProxyHosts'' present then as_ProxyHosts src else as_ProxyHosts dst)\<rparr>"

text \<open>
  A body that was read: its action, and the record and the names of its field \<open>sets\<close>, if there is a value. A value that is
  no object of JSON fails to be read.
\<close>

record settings_request =
  sr_action :: string
  sr_sets :: "(ApiSettings \<times> string list) option"

datatype settings_answer = Invalid string | CurrentSettings ApiSettings | Applied

definition bindSettingsRequest :: "settings_request option \<Rightarrow> string + settings_request" where
  "bindSettingsRequest body =
     (case body of
        None \<Rightarrow> Inl ''request''
      | Some req \<Rightarrow>
          if sr_action req = [] then Inl ''action''
          else if sr_action req = ''set'' \<and> sr_sets req = None then Inl ''sets''
          else Inr req)"

definition mergeSettingsPatch :: "ApiSettings option \<Rightarrow> (ApiSettings \<times> string list) option \<Rightarrow> string + ApiSettings" where
  "mergeSettingsPatch current patch =
     (case patch of
        None \<Rightarrow> Inl ''sets''
      | Some (p, present) \<Rightarrow>
          Inr (applyPresentSettingsFields (case current of None \<Rightarrow> zero_ApiSettings | Some c \<Rightarrow> c) p present))"

datatype field_value = FInt int | FBool bool | FStr string | FStrs "string list" | FTorznab "TorznabConfig list" | FTMDB TMDBConfig

text \<open>The fields that the API shows, with their values.\<close>

definition fields_of :: "BTSets \<Rightarrow> (string \<times> field_value) list" where
  "fields_of s = [
     (''CacheSize'', FInt (CacheSize s)), (''ReaderReadAHead'', FInt (ReaderReadAHead s)),
     (''PreloadCache'', FInt (PreloadCache s)), (''UseDisk'', FBool (UseDisk s)),
     (''TorrentsSavePath'', FStr (TorrentsSavePath s)), (''RemoveCacheOnDrop'', FBool (RemoveCacheOnDrop s)),
     (''ForceEncrypt'', FBool (ForceEncrypt s)), (''RetrackersMode'', FInt (RetrackersMode s)),
     (''TorrentDisconnectTimeout'', FInt (TorrentDisconnectTimeout s)), (''EnableDebug'', FBool (EnableDebug s)),
     (''ServiceOnlyDebug'', FBool (ServiceOnlyDebug s)),
     (''DebugEstablishedConnsOverride'', FInt (DebugEstablishedConnsOverride s)),
     (''DebugTotalHalfOpenConnsOverride'', FInt (DebugTotalHalfOpenConnsOverride s)),
     (''DebugTrackerBudgetOverride'', FInt (DebugTrackerBudgetOverride s)),
     (''DebugStablePeerCap'', FInt (DebugStablePeerCap s)), (''EnableDLNA'', FBool (EnableDLNA s)),
     (''FriendlyName'', FStr (FriendlyName s)), (''EnableRutorSearch'', FBool (EnableRutorSearch s)),
     (''EnableTorznabSearch'', FBool (EnableTorznabSearch s)), (''TorznabUrls'', FTorznab (TorznabUrls s)),
     (''TMDBSettings'', FTMDB (TMDBSettings s)), (''EnableIPv6'', FBool (EnableIPv6 s)),
     (''DisableTCP'', FBool (DisableTCP s)), (''DisableUTP'', FBool (DisableUTP s)),
     (''DisableUPNP'', FBool (DisableUPNP s)), (''DisableDHT'', FBool (DisableDHT s)),
     (''DisablePEX'', FBool (DisablePEX s)), (''DisableUpload'', FBool (DisableUpload s)),
     (''DownloadRateLimit'', FInt (DownloadRateLimit s)), (''UploadRateLimit'', FInt (UploadRateLimit s)),
     (''ConnectionsLimit'', FInt (ConnectionsLimit s)), (''PeersListenPort'', FInt (PeersListenPort s)),
     (''EnableLPD'', FBool (EnableLPD s)), (''LPDIPv6'', FBool (LPDIPv6 s)), (''SslPort'', FInt (SslPort s)),
     (''SslCert'', FStr (SslCert s)), (''SslKey'', FStr (SslKey s)), (''ResponsiveMode'', FBool (ResponsiveMode s)),
     (''CoreProfile'', FStr (CoreProfile s)), (''MaxConcurrentStreams'', FInt (MaxConcurrentStreams s)),
     (''StreamQueueSize'', FInt (StreamQueueSize s)), (''StreamQueueWaitSec'', FInt (StreamQueueWaitSec s)),
     (''MaxUniquePlaybackTorrents'', FInt (MaxUniquePlaybackTorrents s)),
     (''StartupPreloadPolicy'', FStr (StartupPreloadPolicy s)), (''AdaptiveRAMinMB'', FInt (AdaptiveRAMinMB s)),
     (''AdaptiveRAMaxMB'', FInt (AdaptiveRAMaxMB s)), (''WarmDiskCacheSizeMB'', FInt (WarmDiskCacheSizeMB s)),
     (''WarmDiskCacheTTLMin'', FInt (WarmDiskCacheTTLMin s)), (''DiskSyncPolicy'', FStr (DiskSyncPolicy s)),
     (''DiskSyncIntervalMS'', FInt (DiskSyncIntervalMS s)), (''DiskWriteBatchSize'', FInt (DiskWriteBatchSize s)),
     (''MetadataWorkers'', FInt (MetadataWorkers s)), (''MetadataQueueSize'', FInt (MetadataQueueSize s)),
     (''PreloadWorkers'', FInt (PreloadWorkers s)), (''PreloadQueueSize'', FInt (PreloadQueueSize s)),
     (''ShowFSActiveTorr'', FBool (ShowFSActiveTorr s)), (''StoreSettingsInJSON'', FBool (StoreSettingsInJSON s)),
     (''StoreViewedInJSON'', FBool (StoreViewedInJSON s)), (''EnableProxy'', FBool (EnableProxy s)),
     (''ProxyHosts'', FStrs (ProxyHosts s))]"

text \<open>The same fields of the record of the contracts.\<close>

definition api_fields :: "ApiSettings \<Rightarrow> (string \<times> field_value) list" where
  "api_fields s = [
     (''CacheSize'', FInt (as_CacheSize s)), (''ReaderReadAHead'', FInt (as_ReaderReadAHead s)),
     (''PreloadCache'', FInt (as_PreloadCache s)), (''UseDisk'', FBool (as_UseDisk s)),
     (''TorrentsSavePath'', FStr (as_TorrentsSavePath s)), (''RemoveCacheOnDrop'', FBool (as_RemoveCacheOnDrop s)),
     (''ForceEncrypt'', FBool (as_ForceEncrypt s)), (''RetrackersMode'', FInt (as_RetrackersMode s)),
     (''TorrentDisconnectTimeout'', FInt (as_TorrentDisconnectTimeout s)), (''EnableDebug'', FBool (as_EnableDebug s)),
     (''ServiceOnlyDebug'', FBool (as_ServiceOnlyDebug s)),
     (''DebugEstablishedConnsOverride'', FInt (as_DebugEstablishedConnsOverride s)),
     (''DebugTotalHalfOpenConnsOverride'', FInt (as_DebugTotalHalfOpenConnsOverride s)),
     (''DebugTrackerBudgetOverride'', FInt (as_DebugTrackerBudgetOverride s)),
     (''DebugStablePeerCap'', FInt (as_DebugStablePeerCap s)), (''EnableDLNA'', FBool (as_EnableDLNA s)),
     (''FriendlyName'', FStr (as_FriendlyName s)), (''EnableRutorSearch'', FBool (as_EnableRutorSearch s)),
     (''EnableTorznabSearch'', FBool (as_EnableTorznabSearch s)), (''TorznabUrls'', FTorznab (as_TorznabUrls s)),
     (''TMDBSettings'', FTMDB (as_TMDBSettings s)), (''EnableIPv6'', FBool (as_EnableIPv6 s)),
     (''DisableTCP'', FBool (as_DisableTCP s)), (''DisableUTP'', FBool (as_DisableUTP s)),
     (''DisableUPNP'', FBool (as_DisableUPNP s)), (''DisableDHT'', FBool (as_DisableDHT s)),
     (''DisablePEX'', FBool (as_DisablePEX s)), (''DisableUpload'', FBool (as_DisableUpload s)),
     (''DownloadRateLimit'', FInt (as_DownloadRateLimit s)), (''UploadRateLimit'', FInt (as_UploadRateLimit s)),
     (''ConnectionsLimit'', FInt (as_ConnectionsLimit s)), (''PeersListenPort'', FInt (as_PeersListenPort s)),
     (''EnableLPD'', FBool (as_EnableLPD s)), (''LPDIPv6'', FBool (as_LPDIPv6 s)), (''SslPort'', FInt (as_SslPort s)),
     (''SslCert'', FStr (as_SslCert s)), (''SslKey'', FStr (as_SslKey s)), (''ResponsiveMode'', FBool (as_ResponsiveMode s)),
     (''CoreProfile'', FStr (as_CoreProfile s)), (''MaxConcurrentStreams'', FInt (as_MaxConcurrentStreams s)),
     (''StreamQueueSize'', FInt (as_StreamQueueSize s)), (''StreamQueueWaitSec'', FInt (as_StreamQueueWaitSec s)),
     (''MaxUniquePlaybackTorrents'', FInt (as_MaxUniquePlaybackTorrents s)),
     (''StartupPreloadPolicy'', FStr (as_StartupPreloadPolicy s)), (''AdaptiveRAMinMB'', FInt (as_AdaptiveRAMinMB s)),
     (''AdaptiveRAMaxMB'', FInt (as_AdaptiveRAMaxMB s)), (''WarmDiskCacheSizeMB'', FInt (as_WarmDiskCacheSizeMB s)),
     (''WarmDiskCacheTTLMin'', FInt (as_WarmDiskCacheTTLMin s)), (''DiskSyncPolicy'', FStr (as_DiskSyncPolicy s)),
     (''DiskSyncIntervalMS'', FInt (as_DiskSyncIntervalMS s)), (''DiskWriteBatchSize'', FInt (as_DiskWriteBatchSize s)),
     (''MetadataWorkers'', FInt (as_MetadataWorkers s)), (''MetadataQueueSize'', FInt (as_MetadataQueueSize s)),
     (''PreloadWorkers'', FInt (as_PreloadWorkers s)), (''PreloadQueueSize'', FInt (as_PreloadQueueSize s)),
     (''ShowFSActiveTorr'', FBool (as_ShowFSActiveTorr s)), (''StoreSettingsInJSON'', FBool (as_StoreSettingsInJSON s)),
     (''StoreViewedInJSON'', FBool (as_StoreViewedInJSON s)), (''EnableProxy'', FBool (as_EnableProxy s)),
     (''ProxyHosts'', FStrs (as_ProxyHosts s))]"

section \<open>The controller of the runtime\<close>

text \<open>
  The server's surroundings: the mode of the database, the number of admitted streams, the readers of a torrent's cache, the
  order in which the registry lists its torrents, and what closing the client of the torrent library does.
\<close>

record controller_env =
  ce_readOnly :: bool
  ce_activeStreams :: int
  ce_readers :: "nat \<Rightarrow> int"
  ce_order :: "nat list"
  ce_closeClient :: "bt_server \<Rightarrow> bt_server"

text \<open>What the process holds: the settings in use, the database and the server.\<close>

record 'w controller_state =
  ct_stored :: "BTSets option"
  ct_db :: 'w
  ct_bt :: bt_server

definition hasActivePlaybackBT :: "controller_env \<Rightarrow> bt_server \<Rightarrow> bool" where
  "hasActivePlaybackBT env s \<longleftrightarrow>
     ce_activeStreams env > 0 \<or> list_ex (\<lambda>i. to_cache (bs_torrents s i) \<noteq> None \<and> ce_readers env i > 0) (ce_order env)"

text \<open>The waits for the library, of at most five seconds for each torrent, change nothing.\<close>

definition dropAllTorrentBT :: "controller_env \<Rightarrow> bt_server \<Rightarrow> bt_server" where
  "dropAllTorrentBT env s = foldl (\<lambda>s i. torrent_drop i s) s (ce_order env)"

definition bt_Disconnect :: "controller_env \<Rightarrow> bt_server \<Rightarrow> bt_server" where
  "bt_Disconnect env s = ce_closeClient env s"

text \<open>A connection begins with a new storage and an empty registry, whether or not the client starts.\<close>

definition bt_Connect :: "bt_server \<Rightarrow> bt_server" where
  "bt_Connect s = s\<lparr>bs_caches := Map.empty, bs_registry := Map.empty\<rparr>"

definition setCurrentSettings :: "BTSets option \<Rightarrow> 'w controller_state \<Rightarrow> 'w controller_state" where
  "setCurrentSettings v st = (case v of None \<Rightarrow> st | Some sets \<Rightarrow> st\<lparr>ct_stored := Some sets\<rparr>)"

definition reconnect :: "controller_env \<Rightarrow> 'w controller_state \<Rightarrow> 'w controller_state" where
  "reconnect env st =
     (if hasActivePlaybackBT env (ct_bt st) then st
      else st\<lparr>ct_bt := bt_Connect (bt_Disconnect env (dropAllTorrentBT env (ct_bt st)))\<rparr>)"

definition ApplySettings :: "controller_env \<Rightarrow> BTSets option \<Rightarrow> 'w controller_state \<Rightarrow> 'w controller_state" where
  "ApplySettings env v st = (if ce_readOnly env then st else reconnect env (setCurrentSettings v st))"

definition ResetDefaultSettings ::
  "(BTSets \<Rightarrow> string option) \<Rightarrow> 'w TorrServerDB \<Rightarrow> controller_env \<Rightarrow> 'w controller_state \<Rightarrow> 'w controller_state" where
  "ResetDefaultSettings marshal tdb env st =
     (if ce_readOnly env then st
      else
        let (sets, written) = SetDefaultConfig marshal (ce_readOnly env);
            st = st\<lparr>ct_stored := Some sets,
                   ct_db := (case written of None \<Rightarrow> ct_db st | Some buf \<Rightarrow> db_Set tdb ''Settings'' ''BitTorr'' buf (ct_db st))\<rparr>
        in reconnect env st)"

definition Shutdown :: "controller_env \<Rightarrow> 'w TorrServerDB \<Rightarrow> 'w controller_state \<Rightarrow> 'w controller_state" where
  "Shutdown env tdb st = st\<lparr>ct_bt := bt_Disconnect env (ct_bt st), ct_db := db_CloseDB tdb (ct_db st)\<rparr>"

section \<open>The request\<close>

definition service_Current :: "StaticConfig \<Rightarrow> 'w controller_state \<Rightarrow> ApiSettings" where
  "service_Current static st = mapSettingsFromBTSets (provider_Get static (ct_stored st))"

definition service_Set :: "controller_env \<Rightarrow> ApiSettings \<Rightarrow> 'w controller_state \<Rightarrow> 'w controller_state" where
  "service_Set env v st = ApplySettings env (Some (mapSettingsToBTSets v)) st"

text \<open>\<open>POST /settings\<close>; starting and stopping the DLNA server afterwards, which may fail, changes nothing of this state.\<close>

definition settings_request_handler ::
  "(BTSets \<Rightarrow> string option) \<Rightarrow> 'w TorrServerDB \<Rightarrow> StaticConfig \<Rightarrow> controller_env \<Rightarrow> settings_request option \<Rightarrow> 'w controller_state \<Rightarrow>
   settings_answer \<times> 'w controller_state" where
  "settings_request_handler marshal tdb static env body st =
     (case bindSettingsRequest body of
        Inl field \<Rightarrow> (Invalid field, st)
      | Inr req \<Rightarrow>
          if sr_action req = ''get'' then (CurrentSettings (service_Current static st), st)
          else if sr_action req = ''set'' then
            (let current = service_Current static st
             in case mergeSettingsPatch (Some current) (sr_sets req) of
                  Inl field \<Rightarrow> (Invalid field, st)
                | Inr merged \<Rightarrow> (Applied, service_Set env (merged\<lparr>as_EnableDebug := as_EnableDebug current\<rparr>) st))
          else if sr_action req = ''def'' then (Applied, ResetDefaultSettings marshal tdb env st)
          else (Invalid ''action'', st))"

section \<open>What a request does to the settings\<close>

lemma mapTorznab_id [simp]: "mapTorznabConfigFromSettings ts = ts" "mapTorznabConfigToSettings ts = ts"
  by (simp_all add: mapTorznabConfigFromSettings_def mapTorznabConfigToSettings_def map_idI)

lemma mapTMDB_id [simp]: "mapTMDBConfigFromSettings t = t" "mapTMDBConfigToSettings t = t"
  by (simp_all add: mapTMDBConfigFromSettings_def mapTMDBConfigToSettings_def)

lemma settings_there_and_back:
  "mapSettingsToBTSets (mapSettingsFromBTSets s) =
     s\<lparr>DebugMaxUnverifiedBytesMB := 0, StartupPreloadPolicy := NormalizeStartupPreloadPolicy (StartupPreloadPolicy s)\<rparr>"
  by (cases s) (simp add: mapSettingsToBTSets_def mapSettingsFromBTSets_def)

text \<open>
  Every field as it is after a request: that of the patch if its name is in the body, as it was if not, and the policy of
  the start of playback in its normal form.
\<close>

definition patched_field :: "string list \<Rightarrow> string \<times> field_value \<Rightarrow> string \<times> field_value \<Rightarrow> string \<times> field_value" where
  "patched_field present current patch =
     (let name = fst current; v = (if name \<noteq> ''EnableDebug'' \<and> settingsFieldPresent name present then snd patch else snd current)
      in (name, case v of FStr x \<Rightarrow> FStr (if name = ''StartupPreloadPolicy'' then NormalizeStartupPreloadPolicy x else x) | _ \<Rightarrow> v))"

definition patched_fields :: "string list \<Rightarrow> (string \<times> field_value) list \<Rightarrow> (string \<times> field_value) list \<Rightarrow> (string \<times> field_value) list" where
  "patched_fields present current patch = map2 (patched_field present) current patch"

lemma merged_fields:
  "fields_of (mapSettingsToBTSets ((applyPresentSettingsFields (mapSettingsFromBTSets cur) patch present)
      \<lparr>as_EnableDebug := as_EnableDebug (mapSettingsFromBTSets cur)\<rparr>)) =
     patched_fields present (fields_of cur) (api_fields patch)"
  by (simp add: fields_of_def api_fields_def patched_fields_def patched_field_def mapSettingsToBTSets_def mapSettingsFromBTSets_def
    applyPresentSettingsFields_def)

lemma set_request:
  assumes "\<not> ce_readOnly env"
  shows "settings_request_handler marshal tdb static env (Some \<lparr>sr_action = ''set'', sr_sets = Some (patch, present)\<rparr>) st =
    (let current = service_Current static st; merged = applyPresentSettingsFields current patch present
     in (Applied, reconnect env (st\<lparr>ct_stored := Some (mapSettingsToBTSets (merged\<lparr>as_EnableDebug := as_EnableDebug current\<rparr>))\<rparr>)))"
  using assms
  by (simp add: settings_request_handler_def bindSettingsRequest_def mergeSettingsPatch_def service_Set_def ApplySettings_def
    setCurrentSettings_def Let_def)

lemma read_only_set:
  assumes "ce_readOnly env"
  shows "settings_request_handler marshal tdb static env (Some \<lparr>sr_action = ''set'', sr_sets = Some (patch, present)\<rparr>) st = (Applied, st)"
  using assms
  by (simp add: settings_request_handler_def bindSettingsRequest_def mergeSettingsPatch_def service_Set_def ApplySettings_def Let_def)

lemma reconnect_frame [simp]:
  "ct_stored (reconnect env st) = ct_stored st" "ct_db (reconnect env st) = ct_db st"
  "hasActivePlaybackBT env (ct_bt st) \<Longrightarrow> reconnect env st = st"
  by (simp_all add: reconnect_def)

text \<open>
  Property C35. A request with a partial record changes the fields that it names and no others. In the settings in use
  afterwards, each field that the API knows has the value of the record of the request if its name is among the names of the
  body, up to the case of letters, and the value it had in the settings in use before if not. Two exceptions: the debug mode is
  as it was in any case, and the policy of the start of playback is brought to its normal form. The bound on unverified bytes,
  which the API does not know, is lost. While something plays, the server of torrents is left alone. With a read-only database
  the answer is the same and nothing changes.
\<close>

theorem settings_patch_exact:
  assumes "settings_request_handler marshal tdb static env (Some \<lparr>sr_action = ''set'', sr_sets = Some (patch, present)\<rparr>) st = (answer, st')"
  shows "answer = Applied \<and>
    (if ce_readOnly env then st' = st
     else (\<exists>sets. ct_stored st' = Some sets \<and>
             fields_of sets = patched_fields present (fields_of (provider_Get static (ct_stored st))) (api_fields patch) \<and>
             DebugMaxUnverifiedBytesMB sets = 0) \<and>
          (hasActivePlaybackBT env (ct_bt st) \<longrightarrow> ct_bt st' = ct_bt st))"
proof (cases "ce_readOnly env")
  case True
  then show ?thesis using assms read_only_set [OF True, of marshal tdb static patch present st] by simp
next
  case False
  let ?cur = "service_Current static st"
  let ?sets = "mapSettingsToBTSets ((applyPresentSettingsFields ?cur patch present)\<lparr>as_EnableDebug := as_EnableDebug ?cur\<rparr>)"
  have st: "answer = Applied" "st' = reconnect env (st\<lparr>ct_stored := Some ?sets\<rparr>)"
    using assms unfolding set_request [OF False] by (simp_all add: Let_def)
  have "DebugMaxUnverifiedBytesMB ?sets = 0" by (simp add: mapSettingsToBTSets_def)
  then show ?thesis using st merged_fields [of "provider_Get static (ct_stored st)"] False
    by (auto simp: reconnect_def service_Current_def)
qed

section \<open>What reaches the database\<close>

text \<open>
  \<open>POST /storage/settings\<close> (web/api/storage.go, storage_binding.go): the two preferences, if they are strings, and the number
  of keys of the body. What is not in the database is the pair of the settings in use and the database for Store_Migration.
\<close>

record storage_request =
  stq_settings :: "string option"
  stq_viewed :: "string option"
  stq_keys :: nat

datatype storage_answer = StorageReadOnly | StorageInvalid string | StorageFailed | StorageUpdated

definition bad_preference :: "string option \<Rightarrow> bool" where
  "bad_preference pref = (case pref of None \<Rightarrow> False | Some p \<Rightarrow> p \<noteq> [] \<and> p \<noteq> ''json'' \<and> p \<noteq> ''bbolt'')"

definition validateStoragePreferences :: "storage_request \<Rightarrow> string option" where
  "validateStoragePreferences prefs =
     (if bad_preference (stq_settings prefs) then Some ''settings''
      else if bad_preference (stq_viewed prefs) then Some ''viewed''
      else if stq_keys prefs = 0 then Some ''request''
      else None)"

text \<open>A body in JSON that cannot be read is \<open>None\<close>.\<close>

definition bindStoragePreferencesRequest :: "storage_request option \<Rightarrow> string + storage_request" where
  "bindStoragePreferencesRequest body =
     (case body of
        None \<Rightarrow> Inl ''request''
      | Some prefs \<Rightarrow> (case validateStoragePreferences prefs of Some field \<Rightarrow> Inl field | None \<Rightarrow> Inr prefs))"

definition UpdateStorageSettings ::
  "(string \<Rightarrow> 'j option) \<Rightarrow> (BTSets \<Rightarrow> string option) \<Rightarrow> int \<Rightarrow> string option \<Rightarrow> 'w TorrServerDB \<Rightarrow> 'w TorrServerDB \<Rightarrow> 'w TorrServerDB \<Rightarrow>
   controller_env \<Rightarrow> storage_request option \<Rightarrow> 'w controller_state \<Rightarrow> storage_answer \<times> 'w controller_state" where
  "UpdateStorageSettings parse marshal cpus found tdb bboltDB jsonDB env body st =
     (if ce_readOnly env then (StorageReadOnly, st)
      else case bindStoragePreferencesRequest body of
        Inl field \<Rightarrow> (StorageInvalid field, st)
      | Inr prefs \<Rightarrow>
          let (ok, stored, w) = SetStoragePreferences parse marshal cpus found (ce_readOnly env) tdb bboltDB jsonDB
                (stq_settings prefs) (stq_viewed prefs) (ct_stored st, ct_db st)
          in (if ok then StorageUpdated else StorageFailed, st\<lparr>ct_stored := stored, ct_db := w\<rparr>))"

definition run_requests ::
  "(BTSets \<Rightarrow> string option) \<Rightarrow> 'w TorrServerDB \<Rightarrow> StaticConfig \<Rightarrow> (controller_env \<times> settings_request option) list \<Rightarrow> 'w controller_state \<Rightarrow>
   'w controller_state" where
  "run_requests marshal tdb static reqs st =
     foldl (\<lambda>st (env, body). snd (settings_request_handler marshal tdb static env body st)) st reqs"

definition no_reset :: "settings_request option \<Rightarrow> bool" where
  "no_reset body = (case body of None \<Rightarrow> True | Some req \<Rightarrow> sr_action req \<noteq> ''def'')"

lemma request_keeps_db:
  "no_reset body \<Longrightarrow> ct_db (snd (settings_request_handler marshal tdb static env body st)) = ct_db st"
  by (auto simp: settings_request_handler_def bindSettingsRequest_def mergeSettingsPatch_def no_reset_def service_Set_def
    ApplySettings_def setCurrentSettings_def Let_def split: option.splits sum.splits)

lemma requests_keep_db:
  "\<forall>(env, body) \<in> set reqs. no_reset body \<Longrightarrow> ct_db (run_requests marshal tdb static reqs st) = ct_db st"
  by (induction reqs arbitrary: st) (auto simp: run_requests_def request_keeps_db)

text \<open>Saving writes the entry of the settings, and the settings are those that were given up to what is normalised.\<close>

lemma SetBTSets_saves:
  obtains sets path disk where "SetBTSets marshal cpus found False tdb new (stored, w) =
      (Some sets, case marshal sets of None \<Rightarrow> w | Some buf \<Rightarrow> db_Set tdb ''Settings'' ''BitTorr'' buf w)"
    and "sets = (validateAndNormalize (ApplyCoreProfile cpus new))\<lparr>TorrentsSavePath := path, UseDisk := disk\<rparr>"
proof -
  let ?n = "validateAndNormalize (ApplyCoreProfile cpus new)"
  let ?c = "BTSets_CacheConfig (Some ?n)"
  let ?sets = "if cc_UseDisk ?c \<and> cc_SavePath ?c \<noteq> []
     then (case found of None \<Rightarrow> ?n | Some path \<Rightarrow> ?n\<lparr>TorrentsSavePath := path\<rparr>)
     else if cc_SavePath ?c = [] then ?n\<lparr>UseDisk := False\<rparr> else ?n"
  have "SetBTSets marshal cpus found False tdb new (stored, w) =
      (Some ?sets, case marshal ?sets of None \<Rightarrow> w | Some buf \<Rightarrow> db_Set tdb ''Settings'' ''BitTorr'' buf w)"
    by (simp add: SetBTSets_def Let_def)
  moreover have "?sets = ?n\<lparr>TorrentsSavePath := TorrentsSavePath ?sets, UseDisk := UseDisk ?sets\<rparr>"
    by (simp split: option.splits)
  ultimately show ?thesis by (rule that)
qed

definition viewed_request :: "string \<Rightarrow> storage_request" where
  "viewed_request pref = \<lparr>stq_settings = None, stq_viewed = Some pref, stq_keys = 1\<rparr>"

lemma viewed_update:
  assumes "\<not> ce_readOnly env" and "\<not> bad_preference (Some pref)"
  shows "UpdateStorageSettings parse marshal cpus found tdb bboltDB jsonDB env (Some (viewed_request pref)) st =
    (let (ok, stored, w) = SetStoragePreferences parse marshal cpus found False tdb bboltDB jsonDB None (Some pref) (ct_stored st, ct_db st)
     in (if ok then StorageUpdated else StorageFailed, st\<lparr>ct_stored := stored, ct_db := w\<rparr>))"
proof -
  have "bindStoragePreferencesRequest (Some (viewed_request pref)) = Inr (viewed_request pref)"
    using assms(2)
    by (simp add: bindStoragePreferencesRequest_def validateStoragePreferences_def viewed_request_def)
      (simp add: bad_preference_def)
  then show ?thesis using assms(1) by (simp add: UpdateStorageSettings_def) (simp add: viewed_request_def)
qed

lemma viewed_switch:
  assumes "StoreViewedInJSON cur \<noteq> (pref = ''json'')" and "pref \<noteq> []"
  shows "SetStoragePreferences parse marshal cpus found False tdb bboltDB jsonDB None (Some pref) (Some cur, w) =
    SwitchViewedStorage parse marshal cpus found False tdb bboltDB jsonDB (pref = ''json'') (Some cur, w)"
  using assms by (simp add: SetStoragePreferences_def BTSets_PersistenceConfig_def)

lemma viewed_switched:
  assumes "SwitchViewedStorage parse marshal cpus found False tdb bboltDB jsonDB useJSON (Some cur, w) = (True, stored, w')"
  obtains w1 where "(stored, w') = SetBTSets marshal cpus found False tdb (cur\<lparr>StoreViewedInJSON := useJSON\<rparr>)
    (Some (cur\<lparr>StoreViewedInJSON := useJSON\<rparr>), w1)"
proof -
  obtain err w2 where m: "(if useJSON then MigrateViewedToJSON parse bboltDB jsonDB w else MigrateViewedFromJSON parse jsonDB bboltDB w) = (err, w2)"
    by fastforce
  show ?thesis using assms that [of "db_Clear (if useJSON then bboltDB else jsonDB) ''Viewed'' w2"]
    by (cases err) (simp_all add: SwitchViewedStorage_def m)
qed

text \<open>
  Property C36. What \<open>POST /settings\<close> sets is saved only by other requests. After any run of such requests without a reset,
  whatever settings they put in use, the database is as it was before. The next request to \<open>POST /storage/settings\<close> that
  changes where the viewed marks are kept, and succeeds, saves them: the last thing it does to the database is to write, under
  the name of the settings, the coding of the settings in use, with the new preference and normalised; the directory and the use of
  the disk may change.
\<close>

theorem api_settings_saved_later:
  assumes "\<forall>(env, body) \<in> set reqs. no_reset body"
    and "st1 = run_requests marshal tdb static reqs st" and "ct_stored st1 = Some cur"
    and "StoreViewedInJSON cur \<noteq> (pref = ''json'')"
    and "UpdateStorageSettings parse marshal cpus found tdb bboltDB jsonDB env (Some (viewed_request pref)) st1 = (StorageUpdated, st2)"
    and "pref \<noteq> []"
  shows "ct_db st1 = ct_db st \<and>
    (\<exists>sets path disk. ct_stored st2 = Some sets \<and>
       sets = (validateAndNormalize (ApplyCoreProfile cpus (cur\<lparr>StoreViewedInJSON := (pref = ''json'')\<rparr>)))
                \<lparr>TorrentsSavePath := path, UseDisk := disk\<rparr> \<and>
       (\<forall>buf. marshal sets = Some buf \<longrightarrow> (\<exists>w. ct_db st2 = db_Set tdb ''Settings'' ''BitTorr'' buf w)))"
proof -
  have rw: "\<not> ce_readOnly env" using assms(5) by (auto simp: UpdateStorageSettings_def)
  have good: "\<not> bad_preference (Some pref)"
    using assms(5) rw
    by (auto simp: UpdateStorageSettings_def bindStoragePreferencesRequest_def validateStoragePreferences_def viewed_request_def
      split: if_splits)
  obtain ok stored w' where sw: "SwitchViewedStorage parse marshal cpus found False tdb bboltDB jsonDB (pref = ''json'') (Some cur, ct_db st1) =
      (ok, stored, w')" by (metis prod_cases3)
  then have "ok" "st2 = st1\<lparr>ct_stored := stored, ct_db := w'\<rparr>"
    using assms(5) assms(3) by (auto simp: viewed_update [OF rw good] viewed_switch [OF assms(4,6)] split: if_splits)
  then obtain w where "(ct_stored st2, ct_db st2) =
      SetBTSets marshal cpus found False tdb (cur\<lparr>StoreViewedInJSON := (pref = ''json'')\<rparr>)
        (Some (cur\<lparr>StoreViewedInJSON := (pref = ''json'')\<rparr>), w)"
    using sw by (auto elim: viewed_switched)
  moreover obtain sets path disk where "SetBTSets marshal cpus found False tdb (cur\<lparr>StoreViewedInJSON := (pref = ''json'')\<rparr>)
        (Some (cur\<lparr>StoreViewedInJSON := (pref = ''json'')\<rparr>), w) =
      (Some sets, case marshal sets of None \<Rightarrow> w | Some buf \<Rightarrow> db_Set tdb ''Settings'' ''BitTorr'' buf w)"
    and "sets = (validateAndNormalize (ApplyCoreProfile cpus (cur\<lparr>StoreViewedInJSON := (pref = ''json'')\<rparr>)))
                \<lparr>TorrentsSavePath := path, UseDisk := disk\<rparr>"
    by (rule SetBTSets_saves)
  ultimately have "ct_stored st2 = Some sets" "\<forall>buf. marshal sets = Some buf \<longrightarrow> ct_db st2 = db_Set tdb ''Settings'' ''BitTorr'' buf w"
    and "sets = (validateAndNormalize (ApplyCoreProfile cpus (cur\<lparr>StoreViewedInJSON := (pref = ''json'')\<rparr>)))
                \<lparr>TorrentsSavePath := path, UseDisk := disk\<rparr>"
    by auto
  moreover have "ct_db st1 = ct_db st" unfolding assms(2) by (rule requests_keep_db [OF assms(1)])
  ultimately show ?thesis by blast
qed

text \<open>A reset is saved at once: the coding of the defaults is written to the database.\<close>

lemma reset_is_saved:
  assumes "\<not> ce_readOnly env" and "settings_request_handler marshal tdb static env (Some \<lparr>sr_action = ''def'', sr_sets = ps\<rparr>) st = (answer, st')"
    and "marshal defaultSets = Some buf"
  shows "ct_stored st' = Some (fst (SetDefaultConfig marshal False)) \<and> ct_db st' = db_Set tdb ''Settings'' ''BitTorr'' buf (ct_db st)"
  using assms
  by (auto simp: settings_request_handler_def bindSettingsRequest_def ResetDefaultSettings_def SetDefaultConfig_def Let_def)

text \<open>A database for the examples: a map.\<close>

definition map_db :: "(string \<times> string \<rightharpoonup> string) TorrServerDB" where
  "map_db = \<lparr>db_CloseDB = \<lambda>w. w, db_Get = \<lambda>x n w. (w (x, n), w), db_Set = \<lambda>x n v w. w((x, n) \<mapsto> v),
     db_List = \<lambda>x w. ([], w), db_Rem = \<lambda>x n w. w((x, n) := None), db_Clear = \<lambda>x w. w\<rparr>"

definition idle_env :: controller_env where
  "idle_env = \<lparr>ce_readOnly = False, ce_activeStreams = 0, ce_readers = \<lambda>i. 0, ce_order = [], ce_closeClient = \<lambda>s. s\<rparr>"

definition fresh_process :: "bt_server \<Rightarrow> (string \<times> string \<rightharpoonup> string) controller_state" where
  "fresh_process s = \<lparr>ct_stored = Some (defaultSets\<lparr>DebugMaxUnverifiedBytesMB := 8\<rparr>), ct_db = Map.empty, ct_bt = s\<rparr>"

definition bigger_cache :: settings_request where
  "bigger_cache = \<lparr>sr_action = ''set'', sr_sets = Some (zero_ApiSettings\<lparr>as_CacheSize := 268435456\<rparr>, [''cachesize''])\<rparr>"

lemma bigger_cache_in_use:
  "\<exists>sets. ct_stored (run_requests marshal map_db static [(idle_env, Some bigger_cache)] (fresh_process s)) = Some sets \<and>
     CacheSize sets = 268435456 \<and> FriendlyName sets = [] \<and> DebugMaxUnverifiedBytesMB sets = 0"
proof -
  have "settingsFieldPresent ''CacheSize'' [''cachesize'']" "\<not> settingsFieldPresent ''FriendlyName'' [''cachesize'']" by code_simp+
  moreover have "\<not> ce_readOnly idle_env" by (simp add: idle_env_def)
  ultimately show ?thesis
    by (simp add: run_requests_def bigger_cache_def set_request Let_def service_Current_def fresh_process_def provider_Get_def
      mapSettingsToBTSets_def applyPresentSettingsFields_def mapSettingsFromBTSets_def zero_ApiSettings_def defaultSets_def zero_BTSets_def)
qed

theorem settings_patch_exact_witness:
  "\<forall>s. \<exists>st' sets. settings_request_handler (\<lambda>s. None) map_db (ToStaticConfig zero_Config) idle_env (Some bigger_cache) (fresh_process s) = (Applied, st') \<and>
     ct_stored st' = Some sets \<and> map_of (fields_of sets) ''CacheSize'' = Some (FInt 268435456) \<and>
     map_of (fields_of sets) ''ConnectionsLimit'' = Some (FInt 25) \<and> DebugMaxUnverifiedBytesMB sets = 0"
proof (rule allI)
  fix s
  let ?patch = "zero_ApiSettings\<lparr>as_CacheSize := 268435456\<rparr>"
  let ?old = "defaultSets\<lparr>DebugMaxUnverifiedBytesMB := 8\<rparr>"
  have old: "provider_Get (ToStaticConfig zero_Config) (ct_stored (fresh_process s)) = ?old"
    by (simp add: provider_Get_def fresh_process_def)
  have "map_of (patched_fields [''cachesize''] (fields_of ?old) (api_fields ?patch)) ''CacheSize'' = Some (FInt 268435456)"
    "map_of (patched_fields [''cachesize''] (fields_of ?old) (api_fields ?patch)) ''ConnectionsLimit'' = Some (FInt 25)"
    by code_simp+
  moreover obtain answer st' where st': "settings_request_handler (\<lambda>s. None) map_db (ToStaticConfig zero_Config) idle_env
      (Some bigger_cache) (fresh_process s) = (answer, st')" by fastforce
  moreover have "\<not> ce_readOnly idle_env" by (simp add: idle_env_def)
  ultimately show "\<exists>st' sets. settings_request_handler (\<lambda>s. None) map_db (ToStaticConfig zero_Config) idle_env (Some bigger_cache) (fresh_process s) = (Applied, st') \<and>
     ct_stored st' = Some sets \<and> map_of (fields_of sets) ''CacheSize'' = Some (FInt 268435456) \<and>
     map_of (fields_of sets) ''ConnectionsLimit'' = Some (FInt 25) \<and> DebugMaxUnverifiedBytesMB sets = 0"
    using settings_patch_exact [OF st' [unfolded bigger_cache_def], unfolded old] by auto
qed

text \<open>A coding that tells the size of the cache.\<close>

definition size_coding :: "BTSets \<Rightarrow> string option" where
  "size_coding sets = Some (if CacheSize sets = 268435456 then ''big'' else ''other'')"

definition bigger_sets :: BTSets where
  "bigger_sets =
     (let cur = mapSettingsFromBTSets (defaultSets\<lparr>DebugMaxUnverifiedBytesMB := 8\<rparr>)
      in mapSettingsToBTSets ((applyPresentSettingsFields cur (zero_ApiSettings\<lparr>as_CacheSize := 268435456\<rparr>) [''cachesize''])
           \<lparr>as_EnableDebug := as_EnableDebug cur\<rparr>))"

theorem api_settings_saved_later_witness:
  "\<forall>s. \<exists>st1 st2. st1 = run_requests size_coding map_db (ToStaticConfig zero_Config) [(idle_env, Some bigger_cache)] (fresh_process s) \<and>
     ct_db st1 = Map.empty \<and>
     UpdateStorageSettings (\<lambda>b. None :: nat option) size_coding 4 None map_db map_db map_db idle_env (Some (viewed_request ''json'')) st1 = (StorageUpdated, st2) \<and>
     ct_db st2 (''Settings'', ''BitTorr'') = Some ''big''"
proof (rule allI)
  fix s
  let ?upd = "UpdateStorageSettings (\<lambda>b. None :: nat option) size_coding 4 None map_db map_db map_db idle_env (Some (viewed_request ''json''))"
  let ?cur = "defaultSets\<lparr>CacheSize := 268435456\<rparr>"
  define st1 where "st1 = run_requests size_coding map_db (ToStaticConfig zero_Config) [(idle_env, Some bigger_cache)] (fresh_process s)"
  have reqs: "\<forall>(env, body) \<in> set [(idle_env, Some bigger_cache)]. no_reset body" by (simp add: no_reset_def bigger_cache_def)
  have wr: "\<not> ce_readOnly idle_env" by (simp add: idle_env_def)
  have cur: "ct_stored st1 = Some bigger_sets"
    using wr by (simp add: st1_def run_requests_def bigger_cache_def set_request Let_def service_Current_def fresh_process_def
      provider_Get_def bigger_sets_def)
  have sets: "\<not> StoreViewedInJSON bigger_sets"
    "size_coding ((validateAndNormalize (ApplyCoreProfile 4 (bigger_sets\<lparr>StoreViewedInJSON := True\<rparr>)))
      \<lparr>TorrentsSavePath := p, UseDisk := d\<rparr>) = Some ''big''" for p d
    by (code_simp, simp add: size_coding_def, code_simp)
  have old: "ct_db (fresh_process s) = Map.empty" by (simp add: fresh_process_def)
  have good: "\<not> bad_preference (Some ''json'')" "StoreViewedInJSON bigger_sets \<noteq> (''json'' = ''json'')" "''json'' \<noteq> []"
    using sets(1) by (simp_all add: bad_preference_def)
  obtain stored w where "SetBTSets size_coding 4 None False map_db (bigger_sets\<lparr>StoreViewedInJSON := True\<rparr>)
      (Some (bigger_sets\<lparr>StoreViewedInJSON := True\<rparr>), ct_db st1) = (stored, w)" by fastforce
  then obtain st2 where st2: "?upd st1 = (StorageUpdated, st2)"
    by (simp add: viewed_update [OF wr good(1)] cur viewed_switch [OF good(2,3)] SwitchViewedStorage_def MigrateViewedToJSON_def
      MigrateAll_def MigrateAllWithReport_def map_db_def Let_def split: prod.splits)
  have "ct_db st1 = Map.empty \<and> ct_db st2 (''Settings'', ''BitTorr'') = Some ''big''"
    using api_settings_saved_later [OF reqs st1_def cur good(2) st2 good(3)] sets(2) old by (auto simp: map_db_def)
  show "\<exists>st1 st2. st1 = run_requests size_coding map_db (ToStaticConfig zero_Config) [(idle_env, Some bigger_cache)] (fresh_process s) \<and>
     ct_db st1 = Map.empty \<and> ?upd st1 = (StorageUpdated, st2) \<and> ct_db st2 (''Settings'', ''BitTorr'') = Some ''big''"
    using st1_def st2 \<open>ct_db st1 = _ \<and> _\<close> by blast
qed

end
