(* ===== verification/Torrent_Files.thy ===== *)
theory Torrent_Files
  imports Go_Paths "HOL-Library.AList"
begin

text \<open>
  Torrents as a file system (package torrfs and its subpackage webdav): the root lists the categories, a category its
  torrents, and a torrent the tree of its files.

  The catalog is the list of torrents that \<open>ListTorrents\<close> gives; listing a category writes to them, so operations give it
  back. A torrent is seen at one moment: whether it \<open>GotInfo\<close>, its files, and whether a reader can be opened on one of them.
\<close>

unbundle bit_operations_syntax

section \<open>Nodes\<close>

record torrent_file =
  tf_path :: string \<comment> \<open>\<open>DisplayPath()\<close>\<close>
  tf_length :: int

record fs_torrent =
  ft_title :: string
  ft_category :: string
  ft_hash :: string
  ft_timestamp :: int
  ft_got :: bool
  ft_files :: "torrent_file list"

type_synonym torrent_list = "fs_torrent list"

datatype fs_error = ErrInvalid | ErrNotExist | ErrPermission | ErrClosed | DirEOF | NoSeek

record file_info =
  fi_name :: string
  fi_size :: int
  fi_mode :: nat
  fi_mtime :: int
  fi_dir :: bool

text \<open>The nodes with their constructors. A directory of a torrent and a file know their parents; a torrent has none.\<close>

datatype inode =
    RootDir
  | CategoryDir string
  | TorrDir "inode option" string fs_torrent
  | TorrFile inode string fs_torrent torrent_file

definition NewCategoryDir :: "string \<Rightarrow> inode" where
  "NewCategoryDir category = CategoryDir (if category = [] then ''other'' else category)"

fun node_name :: "inode \<Rightarrow> string" where
  "node_name RootDir = ''/''"
| "node_name (CategoryDir c) = c"
| "node_name (TorrDir p name t) = name"
| "node_name (TorrFile p name t f) = name"

fun node_torrent :: "inode \<Rightarrow> fs_torrent option" where
  "node_torrent (TorrDir p name t) = Some t"
| "node_torrent (TorrFile p name t f) = Some t"
| "node_torrent n = None"

fun node_info :: "inode \<Rightarrow> file_info" where
  "node_info RootDir = \<lparr>fi_name = ''/'', fi_size = 4096, fi_mode = 365, fi_mtime = 477033600, fi_dir = True\<rparr>"
| "node_info (CategoryDir c) = \<lparr>fi_name = c, fi_size = 4096, fi_mode = 365, fi_mtime = 477033666, fi_dir = True\<rparr>"
| "node_info (TorrDir p name t) =
     \<lparr>fi_name = name, fi_size = 4096, fi_mode = 365, fi_mtime = ft_timestamp t, fi_dir = True\<rparr>"
| "node_info (TorrFile p name t f) =
     \<lparr>fi_name = name, fi_size = tf_length f, fi_mode = 292, fi_mtime = ft_timestamp t, fi_dir = False\<rparr>"

text \<open>
  What the nodes ask of their surroundings: the setting \<open>ShowFSActiveTorr\<close>, the time-out, whether a reader can be opened,
  the torrent of a hash when the catalog has it with its metadata in a round of waiting, and the order of a map.
\<close>

record fs_env =
  env_active :: bool
  env_timeout :: int
  env_reader :: "fs_torrent \<Rightarrow> torrent_file \<Rightarrow> bool"
  env_poll :: "string \<Rightarrow> nat \<Rightarrow> fs_torrent option"
  env_order :: "inode list \<Rightarrow> inode list"

definition first_entries :: "int \<Rightarrow> inode list \<Rightarrow> inode list" where
  "first_entries n entries = (if 0 < n \<and> n < int (length entries) then take (nat n) entries else entries)"

section \<open>Listing\<close>

definition RootDir_ReadDir :: "fs_env \<Rightarrow> int \<Rightarrow> torrent_list \<Rightarrow> inode list" where
  "RootDir_ReadDir env n ts =
     first_entries n (env_order env (remdups (map (\<lambda>t. NewCategoryDir (ft_category t)) ts)))"

definition default_category :: "fs_torrent \<Rightarrow> fs_torrent" where
  "default_category t = (if ft_category t = [] then t\<lparr>ft_category := ''other''\<rparr> else t)"

text \<open>The number of entries that is asked for is not looked at.\<close>

fun CategoryDir_ReadDir :: "fs_env \<Rightarrow> string \<Rightarrow> int \<Rightarrow> torrent_list \<Rightarrow> inode list \<times> torrent_list" where
  "CategoryDir_ReadDir env name n [] = ([], [])"
| "CategoryDir_ReadDir env name n (t # ts) =
     (let t' = default_category t; (nodes, ts') = CategoryDir_ReadDir env name n ts
      in (if ft_category t' = name \<and> \<not> (env_active env \<and> \<not> ft_got t') then TorrDir None (ft_title t') t' # nodes else nodes,
          t' # ts'))"

text \<open>\<open>path.Join\<close>.\<close>

definition path_Join :: "string list \<Rightarrow> string" where
  "path_Join es = (let es' = filter (\<lambda>e. e \<noteq> []) es in if es' = [] then [] else path_clean (str_join CHR ''/'' es'))"

fun torr_parts :: "inode \<Rightarrow> string list" where
  "torr_parts (TorrDir None name t) = [name]"
| "torr_parts (TorrDir (Some p) name t) = (if node_torrent p = None then torr_parts p else torr_parts p @ [name])"
| "torr_parts (TorrFile p name t f) = (if node_torrent p = None then torr_parts p else torr_parts p @ [name])"
| "torr_parts n = []"

definition getTorrPath :: "inode \<Rightarrow> string" where
  "getTorrPath d = (case torr_parts d of [] \<Rightarrow> [] | title # parts \<Rightarrow> path_Join parts)"

text \<open>What is left of the path of a file below a directory, with its first element; \<open>None\<close> for a file that is skipped.\<close>

definition below_dir :: "string \<Rightarrow> torrent_file \<Rightarrow> (string \<times> string option) option" where
  "below_dir cur f =
     (let rel = (if cur = [] then Some (tf_path f) else strip_prefix (cur @ ''/'') (tf_path f))
      in case rel of None \<Rightarrow> None
         | Some r \<Rightarrow> if r = [] \<or> fst (split_first CHR ''/'' r) = [] then None else Some (split_first CHR ''/'' r))"

definition add_node :: "inode \<Rightarrow> fs_torrent \<Rightarrow> torrent_file \<Rightarrow> (string \<times> inode) list \<Rightarrow> (string \<times> inode) list" where
  "add_node d t f nodes =
     (case below_dir (getTorrPath d) f of
        None \<Rightarrow> nodes
      | Some (name, None) \<Rightarrow> AList.update name (TorrFile d name t f) nodes
      | Some (name, Some rest) \<Rightarrow>
          if map_of nodes name = None then AList.update name (TorrDir (Some d) name t) nodes else nodes)"

definition dir_nodes :: "inode \<Rightarrow> fs_torrent \<Rightarrow> (string \<times> inode) list" where
  "dir_nodes d t = fold (add_node d t) (ft_files t) []"

text \<open>The rounds of half a second in which a directory waits for the metadata of its torrent.\<close>

fun await_info :: "fs_env \<Rightarrow> string \<Rightarrow> nat \<Rightarrow> nat \<Rightarrow> fs_torrent option" where
  "await_info env hash k 0 = None"
| "await_info env hash k (Suc rounds) =
     (case env_poll env hash k of Some t \<Rightarrow> Some t | None \<Rightarrow> await_info env hash (Suc k) rounds)"

definition connected_torrent :: "fs_env \<Rightarrow> fs_torrent \<Rightarrow> fs_torrent" where
  "connected_torrent env t =
     (if ft_got t then t
      else (case await_info env (ft_hash t) 0 (nat (i64 (env_timeout env * 2))) of None \<Rightarrow> t | Some u \<Rightarrow> u))"

definition TorrDir_ReadDir :: "fs_env \<Rightarrow> inode option \<Rightarrow> string \<Rightarrow> fs_torrent \<Rightarrow> int \<Rightarrow> inode list" where
  "TorrDir_ReadDir env parent name t n =
     (let u = connected_torrent env t
      in first_entries n (env_order env (map snd (dir_nodes (TorrDir parent name u) u))))"

fun ReadDir :: "fs_env \<Rightarrow> inode \<Rightarrow> int \<Rightarrow> torrent_list \<Rightarrow> (fs_error + inode list) \<times> torrent_list" where
  "ReadDir env RootDir n ts = (Inr (RootDir_ReadDir env n ts), ts)"
| "ReadDir env (CategoryDir c) n ts = (let (nodes, ts') = CategoryDir_ReadDir env c n ts in (Inr nodes, ts'))"
| "ReadDir env (TorrDir p name t) n ts = (Inr (TorrDir_ReadDir env p name t n), ts)"
| "ReadDir env (TorrFile p name t f) n ts = (Inl ErrInvalid, ts)"

section \<open>Opening\<close>

text \<open>What is open: a node, or a file of a torrent with a reader.\<close>

datatype fs_handle = Node inode | FileHandle inode

definition TorrFile_Open :: "fs_env \<Rightarrow> inode \<Rightarrow> fs_torrent \<Rightarrow> torrent_file \<Rightarrow> fs_error + fs_handle" where
  "TorrFile_Open env n t f = (if env_reader env t f then Inr (FileHandle n) else Inl ErrInvalid)"

definition own_path :: "inode \<Rightarrow> string \<Rightarrow> string" where
  "own_path d name = trim_prefix (trim_suffix (trim_prefix name (node_name d)) ''/'') ''/''"

definition entry_named :: "string \<Rightarrow> inode list \<Rightarrow> inode option" where
  "entry_named name entries = List.find (\<lambda>e. node_name e = name) entries"

lemma trim_prefix_length: "length (trim_prefix s p) \<le> length s"
  by (auto simp: trim_prefix_def strip_prefix_Some split: option.split)

lemma trim_suffix_length: "length (trim_suffix s p) \<le> length s"
  using trim_prefix_length [of "rev s" "rev p"] by (simp add: trim_suffix_def)

lemma split_hd: "hd (str_split sep s) = takeWhile (\<lambda>c. c \<noteq> sep) s"
proof (induction s)
  case (Cons c s)
  then show ?case using str_split_not_Nil [of sep s] by (auto split: list.split)
qed simp

lemma own_path_shorter:
  assumes "s \<noteq> []" and "node_name e = hd (str_split CHR ''/'' s)"
  shows "length (own_path e s) < length s"
proof (cases "node_name e = []")
  case True
  then obtain r where s: "s = CHR ''/'' # r" using assms by (cases s) (auto simp: split_hd split: if_splits simp del: str_split.simps)
  have "trim_prefix s (node_name e) = s" unfolding True by (simp add: trim_prefix_def)
  moreover have "length (trim_prefix (trim_suffix s ''/'') ''/'') < length s"
  proof (cases "trim_suffix s ''/'' = s")
    case False
    then have "length (trim_suffix s ''/'') < length s"
      by (auto simp: trim_suffix_def trim_prefix_def strip_prefix_Some split: option.splits)
    then show ?thesis using trim_prefix_length [of "trim_suffix s ''/''" "''/''"] by simp
  qed (simp add: s trim_prefix_def)
  ultimately show ?thesis by (simp add: own_path_def)
next
  case False
  have "s = node_name e @ dropWhile (\<lambda>c. c \<noteq> CHR ''/'') s" using assms(2) by (simp add: split_hd)
  then obtain r where r: "s = node_name e @ r" by blast
  then have "trim_prefix s (node_name e) = r" by (metis option.simps(5) strip_prefix_Some trim_prefix_def)
  then have "length (trim_prefix s (node_name e)) < length s" using False arg_cong [OF r, of length] by simp
  then show ?thesis unfolding own_path_def
    using trim_suffix_length trim_prefix_length by (meson le_less_trans)
qed

text \<open>
  \<open>Open\<close> of a directory and of the nodes below it: a directory looks its first element up, and the node that it finds is
  opened with the whole rest of the path, from which it drops its own name. A file is opened whatever the rest is.
\<close>

function Node_Open :: "fs_env \<Rightarrow> inode \<Rightarrow> string \<Rightarrow> torrent_list \<Rightarrow> (fs_error + fs_handle) \<times> torrent_list" where
  "Node_Open env d name ts =
     (case d of
        TorrFile p n t f \<Rightarrow> (TorrFile_Open env d t f, ts)
      | _ \<Rightarrow>
          let rest = own_path d name
          in if rest = [] then (Inr (Node d), ts)
             else (case ReadDir env d (-1) ts of
                 (Inl e, ts') \<Rightarrow> (Inl ErrNotExist, ts')
               | (Inr entries, ts') \<Rightarrow>
                   (case entry_named (hd (str_split CHR ''/'' rest)) entries of
                      None \<Rightarrow> (Inl ErrNotExist, ts')
                    | Some e \<Rightarrow> Node_Open env e rest ts')))"
  by pat_completeness auto
termination
  by (relation "measure (\<lambda>(env, d, name, ts). length (own_path d name))")
    (auto simp: entry_named_def find_Some_iff intro: own_path_shorter)

declare Node_Open.simps [simp del]

text \<open>\<open>utf8.ValidString\<close> and \<open>fs.ValidPath\<close>.\<close>

function utf8_valid :: "nat list \<Rightarrow> bool" where
  "utf8_valid [] = True"
| "utf8_valid (b # bs) = (rune_at (b # bs) \<noteq> (65533, 1) \<and> utf8_valid (drop (snd (rune_at (b # bs)) - 1) bs))"
  by pat_completeness auto
termination by (relation "measure length") auto

definition valid_path :: "string \<Rightarrow> bool" where
  "valid_path name \<longleftrightarrow>
     utf8_valid (map of_char name) \<and>
     (name = ''.'' \<or> list_all (\<lambda>e. e \<noteq> [] \<and> e \<noteq> ''.'' \<and> e \<noteq> ''..'') (str_split CHR ''/'' name))"

definition RootDir_Open :: "fs_env \<Rightarrow> string \<Rightarrow> torrent_list \<Rightarrow> (fs_error + fs_handle) \<times> torrent_list" where
  "RootDir_Open env name ts =
     (let name = path_clean name
      in if \<not> valid_path name then (Inl ErrInvalid, ts)
         else if name = ''.'' \<or> name = ''/'' then (Inr (Node RootDir), ts)
         else Node_Open env RootDir (if has_prefix name ''/'' then name else CHR ''/'' # name) ts)"

text \<open>The file system for the library: \<open>AsFS\<close>, with \<open>fs.Stat\<close> and \<open>fs.ReadDir\<close> over it.\<close>

definition AsFS_Open :: "fs_env \<Rightarrow> string \<Rightarrow> torrent_list \<Rightarrow> (fs_error + fs_handle) \<times> torrent_list" where
  "AsFS_Open env name ts =
     (let name = path_clean name
      in if name = ''.'' \<or> name = ''/'' \<or> name = [] then RootDir_Open env ''.'' ts
         else RootDir_Open env (trim_prefix name ''/'') ts)"

fun handle_node :: "fs_handle \<Rightarrow> inode" where
  "handle_node (Node n) = n"
| "handle_node (FileHandle n) = n"

definition fs_Stat :: "fs_env \<Rightarrow> string \<Rightarrow> torrent_list \<Rightarrow> (fs_error + file_info) \<times> torrent_list" where
  "fs_Stat env name ts =
     (case AsFS_Open env name ts of
        (Inl e, ts') \<Rightarrow> (Inl e, ts')
      | (Inr h, ts') \<Rightarrow> (Inr (node_info (handle_node h)), ts'))"

definition fs_ReadDir :: "fs_env \<Rightarrow> string \<Rightarrow> torrent_list \<Rightarrow> (fs_error + inode list) \<times> torrent_list" where
  "fs_ReadDir env name ts =
     (case AsFS_Open env name ts of
        (Inl e, ts') \<Rightarrow> (Inl e, ts')
      | (Inr h, ts') \<Rightarrow>
          (case ReadDir env (handle_node h) (-1) ts' of
             (Inl e, ts'') \<Rightarrow> (Inl e, ts'')
           | (Inr entries, ts'') \<Rightarrow> (Inr (sort_key node_name entries), ts'')))"

section \<open>The nodes of a directory\<close>

text \<open>The last file with a name wins; a directory is there when no file has its name.\<close>

definition file_of_name :: "string \<Rightarrow> string \<Rightarrow> torrent_file list \<Rightarrow> torrent_file option" where
  "file_of_name cur name fs = List.find (\<lambda>f. below_dir cur f = Some (name, None)) (rev fs)"

definition has_below :: "string \<Rightarrow> string \<Rightarrow> torrent_file list \<Rightarrow> bool" where
  "has_below cur name fs \<longleftrightarrow> (\<exists>f \<in> set fs. \<exists>rest. below_dir cur f = Some (name, Some rest))"

lemma file_of_name_snoc [simp]:
  "file_of_name cur name [] = None"
  "file_of_name cur name (fs @ [f]) =
     (if below_dir cur f = Some (name, None) then Some f else file_of_name cur name fs)"
  by (simp_all add: file_of_name_def)

lemma has_below_snoc [simp]:
  "\<not> has_below cur name []"
  "has_below cur name (fs @ [f]) \<longleftrightarrow> has_below cur name fs \<or> (\<exists>rest. below_dir cur f = Some (name, Some rest))"
  by (auto simp: has_below_def)

lemma map_of_dir_nodes:
  "map_of (fold (add_node d t) fs []) name =
     (case file_of_name (getTorrPath d) name fs of
        Some f \<Rightarrow> Some (TorrFile d name t f)
      | None \<Rightarrow> if has_below (getTorrPath d) name fs then Some (TorrDir (Some d) name t) else None)"
proof (induction fs arbitrary: name rule: rev_induct)
  case (snoc f fs)
  consider "below_dir (getTorrPath d) f = None"
    | n where "below_dir (getTorrPath d) f = Some (n, None)"
    | n rest where "below_dir (getTorrPath d) f = Some (n, Some rest)"
    by (metis option.exhaust surj_pair)
  then show ?case
  proof cases
    case 1
    then show ?thesis using snoc by (simp add: add_node_def)
  next
    case 2
    then show ?thesis using snoc by (auto simp: add_node_def update_conv')
  next
    case 3
    then show ?thesis using snoc [of name] snoc [of n]
      by (auto simp: add_node_def update_conv' split: option.splits if_splits)
  qed
qed simp

definition named_nodes :: "(string \<times> inode) list \<Rightarrow> bool" where
  "named_nodes al \<longleftrightarrow> distinct (map fst al) \<and> (\<forall>p \<in> set al. node_name (snd p) = fst p)"

lemma update_entry: "p \<in> set (AList.update k y al) \<Longrightarrow> p = (k, y) \<or> p \<in> set al"
  by (induction al) (auto split: if_splits)

lemma named_nodes_update: "named_nodes al \<Longrightarrow> node_name y = k \<Longrightarrow> named_nodes (AList.update k y al)"
  unfolding named_nodes_def using update_entry by (fastforce simp: distinct_update)

lemma named_nodes_add: "named_nodes nodes \<Longrightarrow> named_nodes (add_node d t f nodes)"
  by (auto simp: add_node_def named_nodes_update split: option.split)

lemma dir_nodes_named: "named_nodes (fold (add_node d t) fs [])"
  by (induction fs rule: rev_induct) (simp_all add: named_nodes_add, simp add: named_nodes_def)

lemma entry_named_map_of:
  assumes "named_nodes al" and "set entries = snd ` set al"
  shows "entry_named name entries = map_of al name"
proof (cases "map_of al name")
  case None
  have "node_name e \<noteq> name" if "e \<in> set entries" for e
  proof -
    obtain p where p: "p \<in> set al" "e = snd p" using \<open>e \<in> set entries\<close> unfolding assms(2) by (rule imageE)
    then have "fst p \<noteq> name" using None by (auto simp: map_of_eq_None_iff)
    then show ?thesis using p assms(1) by (auto simp: named_nodes_def)
  qed
  then show ?thesis using None by (simp add: entry_named_def find_None_iff)
next
  case (Some n)
  then have mem: "(name, n) \<in> set al" by (rule map_of_SomeD)
  then have n: "n \<in> set entries" "node_name n = name"
    using assms(1) unfolding assms(2) by (auto simp: named_nodes_def intro: rev_image_eqI)
  have "m = n" if "m \<in> set entries" "node_name m = name" for m
  proof -
    obtain p where p: "p \<in> set al" "m = snd p" using \<open>m \<in> set entries\<close> unfolding assms(2) by (rule imageE)
    then have "fst p = name" using assms(1) that(2) by (auto simp: named_nodes_def)
    then have "(name, m) \<in> set al" using p by (cases p) simp
    then have "map_of al name = Some m" using assms(1) by (simp add: named_nodes_def)
    then show ?thesis using Some by simp
  qed
  moreover obtain m where m: "List.find (\<lambda>e. node_name e = name) entries = Some m"
    using n by (cases "List.find (\<lambda>e. node_name e = name) entries") (auto simp: find_None_iff)
  moreover have "m \<in> set entries \<and> node_name m = name" using m by (auto simp: find_Some_iff)
  ultimately show ?thesis using Some by (simp add: entry_named_def)
qed

section \<open>Paths as lists of names\<close>

lemma find_only: "x \<in> set xs \<Longrightarrow> P x \<Longrightarrow> (\<And>y. y \<in> set xs \<Longrightarrow> P y \<Longrightarrow> y = x) \<Longrightarrow> List.find P xs = Some x"
proof -
  assume "x \<in> set xs" "P x" and unique: "\<And>y. y \<in> set xs \<Longrightarrow> P y \<Longrightarrow> y = x"
  then have "List.find P xs \<noteq> None" by (metis find_None_iff)
  then obtain y where y: "List.find P xs = Some y" by blast
  then have "y \<in> set xs \<and> P y" unfolding find_Some_iff by (metis nth_mem)
  then show "List.find P xs = Some x" using unique y by simp
qed

lemma str_join_Cons: "str_join sep (e # es) = (if es = [] then e else e @ sep # str_join sep es)"
  by (cases es) simp_all

lemma str_join_split [simp]: "str_join sep (str_split sep s) = s"
proof (induction s)
  case (Cons c s)
  obtain p ps where "str_split sep s = p # ps" using str_split_not_Nil by (cases "str_split sep s") auto
  then show ?case using Cons by (auto simp: str_join_Cons)
qed simp

lemma str_split_join_app:
  "es \<noteq> [] \<Longrightarrow> \<forall>e \<in> set es. sep \<notin> set e \<Longrightarrow> str_split sep (str_join sep es @ sep # r) = es @ str_split sep r"
  by (induction sep es rule: str_join.induct) (simp_all add: str_split_at)

lemma str_join_inj:
  assumes "es \<noteq> []" and "fs \<noteq> []" and "\<forall>e \<in> set (es @ fs). sep \<notin> set e" and "str_join sep es = str_join sep fs"
  shows "es = fs"
proof -
  have "es = str_split sep (str_join sep es)" using assms(1,3) by (simp add: str_split_join)
  also have "\<dots> = fs" unfolding assms(4) using assms(2,3) by (simp add: str_split_join)
  finally show ?thesis .
qed

abbreviation plain_path :: "string list \<Rightarrow> bool" where
  "plain_path es \<equiv> list_all plain_element es"

lemma plain_path_slash: "plain_path es \<Longrightarrow> \<forall>e \<in> set es. CHR ''/'' \<notin> set e"
  by (auto simp: list_all_iff plain_element_def)

lemma path_Join_plain: "plain_path es \<Longrightarrow> path_Join es = str_join CHR ''/'' es"
proof -
  assume es: "plain_path es"
  then have "filter (\<lambda>e. e \<noteq> []) es = es" by (auto simp: list_all_iff plain_element_def filter_id_conv)
  then show ?thesis using es path_clean_plain(1) [of es] by (simp add: path_Join_def list_all_iff)
qed

lemma str_join_last: "es \<noteq> [] \<Longrightarrow> plain_path es \<Longrightarrow> \<exists>r c. str_join CHR ''/'' es = r @ [c] \<and> c \<noteq> CHR ''/''"
proof (induction es rule: list_nonempty_induct)
  case (single e)
  then show ?case by (cases e rule: rev_cases) (auto simp: plain_element_def)
next
  case (cons e es)
  then obtain r c where "str_join CHR ''/'' es = r @ [c] \<and> c \<noteq> CHR ''/''" by auto
  then show ?case using cons by (auto simp: str_join_Cons)
qed

lemma own_path_join:
  assumes "es \<noteq> []" and "plain_path es"
  shows "own_path d (node_name d @ CHR ''/'' # str_join CHR ''/'' es) = str_join CHR ''/'' es"
proof -
  obtain r c where r: "str_join CHR ''/'' es = r @ [c]" "c \<noteq> CHR ''/''" using str_join_last [OF assms] by blast
  have "strip_prefix (node_name d) (node_name d @ x) = Some x" for x by (simp add: strip_prefix_Some)
  then show ?thesis using r by (simp add: own_path_def trim_prefix_def trim_suffix_def)
qed

lemma own_path_self: "own_path d (node_name d) = []"
proof -
  have "strip_prefix (node_name d) (node_name d) = Some []" by (simp add: strip_prefix_Some)
  then show ?thesis by (simp add: own_path_def trim_prefix_def trim_suffix_def)
qed

lemma split_first_plain: "CHR ''/'' \<notin> set e \<Longrightarrow> split_first CHR ''/'' e = (e, None)"
  by (induction e) auto

section \<open>The directories of a torrent\<close>

definition file_elements :: "torrent_file \<Rightarrow> string list" where
  "file_elements f = str_split CHR ''/'' (tf_path f)"

text \<open>The paths of the files of a torrent are plain, and none is the path of another file or of a directory.\<close>

definition clean_files :: "torrent_file list \<Rightarrow> bool" where
  "clean_files fs \<longleftrightarrow>
     (\<forall>f \<in> set fs. plain_path (file_elements f)) \<and>
     (\<forall>f \<in> set fs. \<forall>g \<in> set fs. \<forall>r. file_elements g = file_elements f @ r \<longrightarrow> g = f)"

text \<open>The directory below the root of a torrent that is reached by the names \<open>es\<close>.\<close>

definition sub_dir :: "fs_torrent \<Rightarrow> string \<Rightarrow> string list \<Rightarrow> inode" where
  "sub_dir t name es = foldl (\<lambda>d e. TorrDir (Some d) e t) (TorrDir None name t) es"

lemma sub_dir_snoc: "sub_dir t name (es @ [e]) = TorrDir (Some (sub_dir t name es)) e t"
  by (simp add: sub_dir_def)

lemma sub_dir_torrent: "node_torrent (sub_dir t name es) = Some t"
  by (cases es rule: rev_cases) (simp_all add: sub_dir_def)

lemma sub_dir_parts: "torr_parts (sub_dir t name es) = name # es"
proof (induction es rule: rev_induct)
  case (snoc e es)
  then show ?case using sub_dir_torrent [of t name es] by (simp add: sub_dir_snoc)
qed (simp add: sub_dir_def)

lemma sub_dir_path: "plain_path es \<Longrightarrow> getTorrPath (sub_dir t name es) = str_join CHR ''/'' es"
  by (simp add: getTorrPath_def sub_dir_parts path_Join_plain)

lemma str_join_Nil: "plain_path es \<Longrightarrow> str_join CHR ''/'' es = [] \<longleftrightarrow> es = []"
  by (cases es) (auto simp: str_join_Cons plain_element_def)

lemma strip_dir:
  assumes "plain_path es" and "es \<noteq> []" and "file_elements f = gs" and "plain_path gs"
  shows "strip_prefix (str_join CHR ''/'' es @ ''/'') (tf_path f) =
         (if \<exists>r. r \<noteq> [] \<and> gs = es @ r then Some (str_join CHR ''/'' (drop (length es) gs)) else None)"
proof (cases "strip_prefix (str_join CHR ''/'' es @ ''/'') (tf_path f)")
  case None
  have "\<not> (\<exists>r. r \<noteq> [] \<and> gs = es @ r)"
  proof (rule notI, elim exE conjE)
    fix r assume r: "r \<noteq> []" "gs = es @ r"
    have "str_split CHR ''/'' (str_join CHR ''/'' es @ CHR ''/'' # str_join CHR ''/'' r) = gs"
      using r assms plain_path_slash [of es] plain_path_slash [of r] by (simp add: str_split_join_app str_split_join)
    then have "tf_path f = str_join CHR ''/'' es @ ''/'' @ str_join CHR ''/'' r"
      using assms(3) unfolding file_elements_def by (metis str_join_split append_Cons append_Nil)
    then show False using None by (simp add: strip_prefix_None)
  qed
  then show ?thesis using None by simp
next
  case (Some r)
  then have "tf_path f = str_join CHR ''/'' es @ CHR ''/'' # r" by (simp add: strip_prefix_Some)
  then have gs: "gs = es @ str_split CHR ''/'' r"
    using assms(2,3) plain_path_slash [OF assms(1)] by (simp add: file_elements_def str_split_join_app)
  then have "\<exists>r. r \<noteq> [] \<and> gs = es @ r" using str_split_not_Nil by blast
  then show ?thesis using Some gs by simp
qed

lemma rel_path:
  assumes "plain_path es" and "plain_path (file_elements f)"
  shows "(if str_join CHR ''/'' es = [] then Some (tf_path f) else strip_prefix (str_join CHR ''/'' es @ ''/'') (tf_path f)) =
         (if \<exists>r. r \<noteq> [] \<and> file_elements f = es @ r
          then Some (str_join CHR ''/'' (drop (length es) (file_elements f))) else None)"
proof (cases "es = []")
  case True
  have "tf_path f = str_join CHR ''/'' (file_elements f)" by (simp add: file_elements_def)
  then show ?thesis using True str_split_not_Nil by (simp add: file_elements_def)
next
  case False
  then show ?thesis using strip_dir [OF assms(1) False refl assms(2)] str_join_Nil [OF assms(1)] by simp
qed

lemma below_dir_at:
  assumes es: "plain_path es" and f: "plain_path (file_elements f)" and at: "file_elements f = es @ e # rest"
  shows "below_dir (str_join CHR ''/'' es) f = Some (e, if rest = [] then None else Some (str_join CHR ''/'' rest))"
proof -
  have pl: "plain_path (e # rest)" using f at by simp
  have sf: "split_first CHR ''/'' (str_join CHR ''/'' (e # rest)) = (e, if rest = [] then None else Some (str_join CHR ''/'' rest))"
    using pl split_first_join [of "CHR ''/''" "e @ CHR ''/'' # str_join CHR ''/'' rest" e "str_join CHR ''/'' rest"]
    by (auto simp: str_join_Cons split_first_plain plain_element_def)
  have "(if str_join CHR ''/'' es = [] then Some (tf_path f) else strip_prefix (str_join CHR ''/'' es @ ''/'') (tf_path f)) =
        Some (str_join CHR ''/'' (e # rest))"
    unfolding rel_path [OF es f] by (simp add: at)
  then show ?thesis
    using sf str_join_Nil [OF pl] pl unfolding below_dir_def Let_def by (simp add: plain_element_def)
qed

lemma below_dir_off:
  assumes "plain_path es" and "plain_path (file_elements f)" and "\<And>e rest. file_elements f \<noteq> es @ e # rest"
  shows "below_dir (str_join CHR ''/'' es) f = None"
proof -
  have "\<not> (\<exists>r. r \<noteq> [] \<and> file_elements f = es @ r)" using assms(3) by (metis list.exhaust)
  then have "(if str_join CHR ''/'' es = [] then Some (tf_path f)
              else strip_prefix (str_join CHR ''/'' es @ ''/'') (tf_path f)) = None"
    using rel_path [OF assms(1,2)] by simp
  then show ?thesis by (simp add: below_dir_def)
qed

lemma below_dir_cases:
  assumes "plain_path es" and "plain_path (file_elements f)"
  obtains (at) x xs where "file_elements f = es @ x # xs"
      "below_dir (str_join CHR ''/'' es) f = Some (x, if xs = [] then None else Some (str_join CHR ''/'' xs))"
    | (off) "\<And>x xs. file_elements f \<noteq> es @ x # xs" "below_dir (str_join CHR ''/'' es) f = None"
proof (cases "\<exists>x xs. file_elements f = es @ x # xs")
  case True
  then obtain x xs where "file_elements f = es @ x # xs" by blast
  then show ?thesis using at below_dir_at [OF assms] by blast
next
  case False
  then have off_path: "\<And>x xs. file_elements f \<noteq> es @ x # xs" by blast
  show ?thesis using off [OF off_path below_dir_off [OF assms off_path]] .
qed

lemma below_dir_file:
  assumes "plain_path es" and "plain_path (file_elements f)"
  shows "below_dir (str_join CHR ''/'' es) f = Some (e, None) \<longleftrightarrow> file_elements f = es @ [e]"
  using assms by (cases rule: below_dir_cases) auto

lemma below_dir_dir:
  assumes "plain_path es" and "plain_path (file_elements f)"
  shows "(\<exists>r. below_dir (str_join CHR ''/'' es) f = Some (e, Some r)) \<longleftrightarrow> (\<exists>d ds. file_elements f = es @ e # d # ds)"
  using assms
proof (cases rule: below_dir_cases)
  case (at x xs)
  then show ?thesis by (cases xs) auto
qed simp

section \<open>Looking a path up\<close>

text \<open>What the names \<open>p\<close> lead to in the tree of a torrent: the file whose path they begin with, or a directory.\<close>

definition torrent_lookup :: "fs_env \<Rightarrow> fs_torrent \<Rightarrow> string list \<Rightarrow> fs_error + fs_handle" where
  "torrent_lookup env t p =
     (case List.find (\<lambda>f. take (length (file_elements f)) p = file_elements f) (ft_files t) of
        Some f \<Rightarrow> if env_reader env t f
                  then Inr (FileHandle (TorrFile (sub_dir t (ft_title t) (butlast (file_elements f))) (last (file_elements f)) t f))
                  else Inl ErrInvalid
      | None \<Rightarrow> if p = [] \<or> (\<exists>f \<in> set (ft_files t). take (length p) (file_elements f) = p)
                then Inr (Node (sub_dir t (ft_title t) p)) else Inl ErrNotExist)"

text \<open>A file is opened by its path with any names after it, because it does not look at the rest of the path.\<close>

lemma below_file_opens_it:
  assumes "clean_files (ft_files t)" and "f \<in> set (ft_files t)" and "env_reader env t f"
  shows "torrent_lookup env t (file_elements f @ r) =
    Inr (FileHandle (TorrFile (sub_dir t (ft_title t) (butlast (file_elements f))) (last (file_elements f)) t f))"
proof -
  have "g = f" if g: "g \<in> set (ft_files t)" "take (length (file_elements g)) (file_elements f @ r) = file_elements g" for g
  proof (cases "length (file_elements g) \<le> length (file_elements f)")
    case True
    then have "file_elements f = file_elements g @ drop (length (file_elements g)) (file_elements f)"
      using g(2) by (metis append_take_drop_id diff_is_0_eq' take0 take_append append_Nil2)
    then show ?thesis using assms(1,2) g(1) by (auto simp: clean_files_def)
  next
    case False
    then have "file_elements g = file_elements f @ take (length (file_elements g) - length (file_elements f)) r"
      using g(2) by (simp add: take_append)
    then show ?thesis using assms(1,2) g(1) by (auto simp: clean_files_def)
  qed
  then have "List.find (\<lambda>g. take (length (file_elements g)) (file_elements f @ r) = file_elements g) (ft_files t) = Some f"
    using assms(2) by (intro find_only) simp_all
  then show ?thesis using assms(3) by (simp add: torrent_lookup_def)
qed

text \<open>The torrent that a category shows first under a title.\<close>

definition shown_torrent :: "fs_env \<Rightarrow> torrent_list \<Rightarrow> string \<Rightarrow> string \<Rightarrow> fs_torrent option" where
  "shown_torrent env ts category title =
     List.find (\<lambda>t. ft_category t = category \<and> ft_title t = title \<and> (env_active env \<longrightarrow> ft_got t)) (map default_category ts)"

fun fs_lookup :: "fs_env \<Rightarrow> torrent_list \<Rightarrow> string list \<Rightarrow> fs_error + fs_handle" where
  "fs_lookup env ts [] = Inr (Node RootDir)"
| "fs_lookup env ts [c] =
     (if \<exists>t \<in> set ts. ft_category (default_category t) = c then Inr (Node (CategoryDir c)) else Inl ErrNotExist)"
| "fs_lookup env ts (c # title # p) =
     (case shown_torrent env ts c title of None \<Rightarrow> Inl ErrNotExist | Some t \<Rightarrow> torrent_lookup env t p)"

abbreviation is_dir :: "inode \<Rightarrow> bool" where
  "is_dir d \<equiv> fi_dir (node_info d)"

lemma Node_Open_dir:
  "is_dir d \<Longrightarrow> Node_Open env d name ts =
     (let rest = own_path d name
      in if rest = [] then (Inr (Node d), ts)
         else (case ReadDir env d (-1) ts of
             (Inl e, ts') \<Rightarrow> (Inl ErrNotExist, ts')
           | (Inr entries, ts') \<Rightarrow>
               (case entry_named (hd (str_split CHR ''/'' rest)) entries of
                  None \<Rightarrow> (Inl ErrNotExist, ts')
                | Some e \<Rightarrow> Node_Open env e rest ts')))"
  by (subst Node_Open.simps) (cases d; simp)

lemma Node_Open_file: "Node_Open env (TorrFile p n t f) name ts = (TorrFile_Open env (TorrFile p n t f) t f, ts)"
  by (subst Node_Open.simps) simp

lemma Node_Open_self: "is_dir d \<Longrightarrow> Node_Open env d (node_name d) ts = (Inr (Node d), ts)"
  by (simp add: Node_Open_dir own_path_self)

lemma str_split_hd: "plain_path (e # es) \<Longrightarrow> hd (str_split CHR ''/'' (str_join CHR ''/'' (e # es))) = e"
  using plain_path_slash [of "e # es"] str_split_join [of "e # es" "CHR ''/''"] by simp

text \<open>A directory that is opened with names after its own looks up the first of them.\<close>

lemma Node_Open_step:
  assumes "is_dir d" and "plain_path (e # es)" and "own_path d name = str_join CHR ''/'' (e # es)"
  shows "Node_Open env d name ts =
     (case ReadDir env d (-1) ts of
        (Inl err, ts') \<Rightarrow> (Inl ErrNotExist, ts')
      | (Inr entries, ts') \<Rightarrow>
          (case entry_named e entries of
             None \<Rightarrow> (Inl ErrNotExist, ts')
           | Some n \<Rightarrow> Node_Open env n (str_join CHR ''/'' (e # es)) ts'))"
  unfolding Node_Open_dir [OF assms(1)] Let_def assms(3) str_split_hd [OF assms(2)]
  using str_join_Nil [OF assms(2)] by (simp del: str_join.simps)

text \<open>The entries of a directory of a connected torrent with clean paths.\<close>

lemma sub_dir_entries:
  assumes got: "ft_got t" and order: "\<And>xs. set (env_order env xs) = set xs"
    and clean: "clean_files (ft_files t)" and es: "plain_path es"
  shows "\<exists>entries. ReadDir env (sub_dir t title es) (-1) ts = (Inr entries, ts) \<and>
     entry_named e entries =
       (case file_of_name (str_join CHR ''/'' es) e (ft_files t) of
          Some f \<Rightarrow> Some (TorrFile (sub_dir t title es) e t f)
        | None \<Rightarrow> if has_below (str_join CHR ''/'' es) e (ft_files t) then Some (sub_dir t title (es @ [e])) else None)"
proof -
  obtain p name where d: "sub_dir t title es = TorrDir p name t" by (cases es rule: rev_cases) (auto simp: sub_dir_def)
  have path: "getTorrPath (TorrDir p name t) = str_join CHR ''/'' es" using sub_dir_path [OF es, of t title] d by simp
  have "entry_named e (env_order env (map snd (dir_nodes (TorrDir p name t) t))) = map_of (dir_nodes (TorrDir p name t) t) e"
    unfolding dir_nodes_def by (rule entry_named_map_of [OF dir_nodes_named]) (simp add: order)
  then show ?thesis unfolding sub_dir_snoc d
    by (simp add: TorrDir_ReadDir_def connected_torrent_def got first_entries_def dir_nodes_def map_of_dir_nodes path Let_def)
qed

text \<open>
  The look-up below a directory of a torrent, from which the rest \<open>q\<close> of a path remains: it ends where the tree says, provided
  that no file has been passed.
\<close>

lemma below_child: "is_dir d \<Longrightarrow> plain_path (e # q) \<Longrightarrow> node_name d = e \<Longrightarrow>
    own_path d (str_join CHR ''/'' (e # q)) = str_join CHR ''/'' q"
  by (cases "q = []") (auto simp: str_join_Cons own_path_self own_path_join)

lemma torrent_path_open:
  assumes got: "ft_got t" and order: "\<And>xs. set (env_order env xs) = set xs" and clean: "clean_files (ft_files t)"
  shows "plain_path (es @ q) \<Longrightarrow> own_path (sub_dir t (ft_title t) es) name = str_join CHR ''/'' q \<Longrightarrow>
     \<forall>f \<in> set (ft_files t). take (length (file_elements f)) es \<noteq> file_elements f \<Longrightarrow>
     es = [] \<or> (\<exists>f \<in> set (ft_files t). take (length es) (file_elements f) = es) \<Longrightarrow>
     Node_Open env (sub_dir t (ft_title t) es) name ts = (torrent_lookup env t (es @ q), ts)"
proof (induction q arbitrary: es name)
  case Nil
  have "is_dir (sub_dir t (ft_title t) es)" by (cases es rule: rev_cases) (simp_all add: sub_dir_def)
  then have "Node_Open env (sub_dir t (ft_title t) es) name ts = (Inr (Node (sub_dir t (ft_title t) es)), ts)"
    using Nil(2) by (simp add: Node_Open_dir)
  moreover have "List.find (\<lambda>f. take (length (file_elements f)) es = file_elements f) (ft_files t) = None"
    using Nil(3) by (simp add: find_None_iff)
  ultimately show ?case using Nil(4) by (auto simp: torrent_lookup_def)
next
  case (Cons e q)
  let ?d = "sub_dir t (ft_title t) es"
  have dir: "is_dir ?d" by (cases es rule: rev_cases) (simp_all add: sub_dir_def)
  have es: "plain_path es" and eq: "plain_path (e # q)" using Cons.prems(1) by simp_all
  have paths: "\<And>f. f \<in> set (ft_files t) \<Longrightarrow> plain_path (file_elements f)" using clean by (simp add: clean_files_def)
  obtain entries where rd: "ReadDir env ?d (-1) ts = (Inr entries, ts)" and en: "entry_named e entries =
       (case file_of_name (str_join CHR ''/'' es) e (ft_files t) of
          Some f \<Rightarrow> Some (TorrFile ?d e t f)
        | None \<Rightarrow> if has_below (str_join CHR ''/'' es) e (ft_files t) then Some (sub_dir t (ft_title t) (es @ [e])) else None)"
    using sub_dir_entries [OF got order clean es] by blast
  have step: "Node_Open env ?d name ts = (case entry_named e entries of
             None \<Rightarrow> (Inl ErrNotExist, ts)
           | Some n \<Rightarrow> Node_Open env n (str_join CHR ''/'' (e # q)) ts)"
    using Node_Open_step [OF dir eq Cons.prems(2)] rd by simp
  have passed: "\<exists>r. file_elements f = es @ e # r"
    if f: "f \<in> set (ft_files t)" "take (length (file_elements f)) (es @ e # r') = file_elements f" for f r'
  proof -
    have "\<not> length (file_elements f) \<le> length es" using f Cons.prems(3) by force
    then obtain k where k: "length (file_elements f) - length es = Suc k" "length es \<le> length (file_elements f)"
      by (cases "length (file_elements f) - length es") auto
    have "file_elements f = es @ e # take k r'" using f(2) k by simp
    then show ?thesis by blast
  qed
  show ?case
  proof (cases "file_of_name (str_join CHR ''/'' es) e (ft_files t)")
    case (Some f)
    then have "f \<in> set (rev (ft_files t)) \<and> below_dir (str_join CHR ''/'' es) f = Some (e, None)"
      unfolding file_of_name_def find_Some_iff by (metis nth_mem)
    then have f: "f \<in> set (ft_files t)" "below_dir (str_join CHR ''/'' es) f = Some (e, None)" by simp_all
    note f = f(1) f(2) [unfolded below_dir_file [OF es paths [OF f(1)]]]
    have unique: "g = f" if g: "g \<in> set (ft_files t)" "take (length (file_elements g)) (es @ e # q) = file_elements g" for g
    proof -
      obtain r where "file_elements g = file_elements f @ r" using passed [OF g] f(2) by auto
      then show ?thesis using clean f(1) g(1) by (simp add: clean_files_def)
    qed
    have "List.find (\<lambda>f. take (length (file_elements f)) (es @ e # q) = file_elements f) (ft_files t) = Some f"
      by (rule find_only [OF f(1) _ unique]) (simp_all add: f(2))
    then show ?thesis using step Some en f by (simp add: torrent_lookup_def Node_Open_file TorrFile_Open_def)
  next
    case None
    then have other: "file_elements f \<noteq> es @ [e]" if "f \<in> set (ft_files t)" for f
      using that below_dir_file [OF es paths [OF that]] by (auto simp: file_of_name_def find_None_iff)
    show ?thesis
    proof (cases "has_below (str_join CHR ''/'' es) e (ft_files t)")
      case True
      then obtain g d ds where g: "g \<in> set (ft_files t)" "file_elements g = es @ e # d # ds"
        using below_dir_dir [OF es paths] unfolding has_below_def by blast
      have "own_path (sub_dir t (ft_title t) (es @ [e])) (str_join CHR ''/'' (e # q)) = str_join CHR ''/'' q"
        using eq by (intro below_child) (simp_all add: sub_dir_snoc)
      moreover have "take (length (file_elements f)) (es @ [e]) \<noteq> file_elements f" if f: "f \<in> set (ft_files t)" for f
      proof
        assume t: "take (length (file_elements f)) (es @ [e]) = file_elements f"
        then obtain r where "file_elements f = es @ e # r" using passed [OF f] by blast
        then show False using t other [OF f] by simp
      qed
      moreover have "take (length (es @ [e])) (file_elements g) = es @ [e]" using g(2) by simp
      ultimately have "Node_Open env (sub_dir t (ft_title t) (es @ [e])) (str_join CHR ''/'' (e # q)) ts =
          (torrent_lookup env t ((es @ [e]) @ q), ts)"
        using Cons.prems(1) g(1) by (intro Cons.IH) auto
      then show ?thesis using step en None True by simp
    next
      case False
      then have none: "file_elements f \<noteq> es @ e # r" if "f \<in> set (ft_files t)" for f r
        using that other [OF that] below_dir_dir [OF es paths [OF that], of e] unfolding has_below_def by (cases r) auto
      then have "List.find (\<lambda>f. take (length (file_elements f)) (es @ e # q) = file_elements f) (ft_files t) = None"
        using passed unfolding find_None_iff by blast
      moreover have "take (length (es @ e # q)) (file_elements f) \<noteq> es @ e # q" if "f \<in> set (ft_files t)" for f
      proof
        assume "take (length (es @ e # q)) (file_elements f) = es @ e # q"
        then have "file_elements f = (es @ e # q) @ drop (length (es @ e # q)) (file_elements f)" by (metis append_take_drop_id)
        then show False using none [OF that] by simp
      qed
      ultimately show ?thesis using step en None False by (simp add: torrent_lookup_def)
    qed
  qed
qed

section \<open>The whole tree\<close>

lemma NewCategoryDir_default: "NewCategoryDir (ft_category t) = CategoryDir (ft_category (default_category t))"
  by (simp add: NewCategoryDir_def default_category_def)

lemma root_entry:
  assumes order: "\<And>xs. set (env_order env xs) = set xs"
  shows "entry_named c (RootDir_ReadDir env (-1) ts) =
    (if \<exists>t \<in> set ts. ft_category (default_category t) = c then Some (CategoryDir c) else None)"
proof -
  have entries: "set (RootDir_ReadDir env (-1) ts) = (\<lambda>t. CategoryDir (ft_category (default_category t))) ` set ts"
    by (simp add: RootDir_ReadDir_def first_entries_def order NewCategoryDir_default image_comp)
  show ?thesis
  proof (cases "\<exists>t \<in> set ts. ft_category (default_category t) = c")
    case True
    then have "CategoryDir c \<in> set (RootDir_ReadDir env (-1) ts)" unfolding entries by blast
    then have "entry_named c (RootDir_ReadDir env (-1) ts) = Some (CategoryDir c)"
      unfolding entry_named_def by (rule find_only) (auto simp: entries)
    then show ?thesis using True by simp
  next
    case False
    then show ?thesis by (auto simp: entry_named_def find_None_iff entries)
  qed
qed

lemma category_entries:
  "snd (CategoryDir_ReadDir env c n ts) = map default_category ts"
  "entry_named title (fst (CategoryDir_ReadDir env c n ts)) =
     map_option (\<lambda>t. TorrDir None (ft_title t) t) (shown_torrent env ts c title)"
  by (induction ts) (auto simp: entry_named_def shown_torrent_def Let_def split: prod.split)

lemma default_category_fields [simp]:
  "ft_files (default_category t) = ft_files t" "ft_got (default_category t) = ft_got t" "ft_title (default_category t) = ft_title t"
  by (simp_all add: default_category_def)

lemma shown_torrent_Some:
  "shown_torrent env ts c title = Some u \<Longrightarrow> \<exists>t \<in> set ts. u = default_category t \<and> ft_title u = title"
  by (auto simp: shown_torrent_def find_Some_iff)

lemma default_category_idem: "default_category (default_category t) = default_category t"
  by (simp add: default_category_def)

text \<open>Listing a category changes nothing that is looked up afterwards.\<close>

lemma fs_lookup_default: "fs_lookup env (map default_category ts) p = fs_lookup env ts p"
  by (cases "(env, ts, p)" rule: fs_lookup.cases)
    (simp_all add: shown_torrent_def default_category_idem comp_def)

definition connected_clean :: "torrent_list \<Rightarrow> bool" where
  "connected_clean ts \<longleftrightarrow> (\<forall>t \<in> set ts. ft_got t \<and> clean_files (ft_files t))"

lemma tree_open:
  assumes order: "\<And>xs. set (env_order env xs) = set xs" and clean: "connected_clean ts"
    and p: "plain_path p" "p \<noteq> []"
  shows "\<exists>ts'. Node_Open env RootDir (CHR ''/'' # str_join CHR ''/'' p) ts = (fs_lookup env ts p, ts') \<and>
           ts' \<in> {ts, map default_category ts}"
proof -
  obtain c q where cq: "p = c # q" using p(2) by (cases p) auto
  have pl: "plain_path (c # q)" using p(1) cq by simp
  obtain r d where "str_join CHR ''/'' (c # q) = r @ [d]" "d \<noteq> CHR ''/''" using str_join_last [of "c # q"] pl by blast
  moreover have "\<not> has_prefix (str_join CHR ''/'' (c # q)) ''/''"
    using path_clean_plain(2) [of "c # q"] pl by (simp add: list_all_iff)
  ultimately have own: "own_path RootDir (CHR ''/'' # str_join CHR ''/'' (c # q)) = str_join CHR ''/'' (c # q)"
    by (auto simp: own_path_def trim_prefix_def trim_suffix_def has_prefix_def)
  have step: "Node_Open env RootDir (CHR ''/'' # str_join CHR ''/'' (c # q)) ts =
      (case entry_named c (RootDir_ReadDir env (-1) ts) of
         None \<Rightarrow> (Inl ErrNotExist, ts) | Some n \<Rightarrow> Node_Open env n (str_join CHR ''/'' (c # q)) ts)"
    by (subst Node_Open_step [OF _ pl own]) (simp_all del: str_join.simps)
  show ?thesis
  proof (cases "\<exists>t \<in> set ts. ft_category (default_category t) = c")
    case False
    then have "shown_torrent env ts c title = None" for title by (auto simp: shown_torrent_def find_None_iff)
    then show ?thesis using False step unfolding cq by (cases q) (simp_all add: root_entry [OF order] del: str_join.simps)
  next
    case True
    then have cat: "Node_Open env RootDir (CHR ''/'' # str_join CHR ''/'' (c # q)) ts =
        Node_Open env (CategoryDir c) (str_join CHR ''/'' (c # q)) ts"
      using step by (simp add: root_entry [OF order] del: str_join.simps)
    have own_c: "own_path (CategoryDir c) (str_join CHR ''/'' (c # q)) = str_join CHR ''/'' q"
      by (rule below_child [OF _ pl]) simp_all
    show ?thesis
    proof (cases q)
      case Nil
      then show ?thesis using cat own_c True unfolding cq by (simp add: Node_Open_dir)
    next
      case (Cons title q')
      have tq: "plain_path (title # q')" using pl Cons by simp
      have title: "Node_Open env (CategoryDir c) (str_join CHR ''/'' (c # q)) ts =
          (case shown_torrent env ts c title of
             None \<Rightarrow> (Inl ErrNotExist, map default_category ts)
           | Some t \<Rightarrow> Node_Open env (TorrDir None (ft_title t) t) (str_join CHR ''/'' (title # q')) (map default_category ts))"
        using own_c unfolding Cons
        by (subst Node_Open_step [OF _ tq])
          (cases "shown_torrent env ts c title"; simp add: category_entries case_prod_beta' del: str_join.simps)+
      show ?thesis
      proof (cases "shown_torrent env ts c title")
        case None
        then show ?thesis using cat title unfolding cq Cons by simp
      next
        case (Some t)
        obtain u where u: "u \<in> set ts" "t = default_category u" "ft_title t = title" using shown_torrent_Some [OF Some] by blast
        have got: "ft_got t" and files: "clean_files (ft_files t)" using clean u by (simp_all add: connected_clean_def)
        have own_t: "own_path (sub_dir t (ft_title t) []) (str_join CHR ''/'' (title # q')) = str_join CHR ''/'' q'"
          by (rule below_child [OF _ tq]) (simp_all add: sub_dir_def u(3))
        have "take (length (file_elements f)) [] \<noteq> file_elements f" for f
          using str_split_not_Nil [of "CHR ''/''" "tf_path f"] by (simp add: file_elements_def eq_commute [of "[]"])
        then have "Node_Open env (sub_dir t (ft_title t) []) (str_join CHR ''/'' (title # q')) (map default_category ts) =
            (torrent_lookup env t q', map default_category ts)"
          using torrent_path_open [OF got order files _ own_t, of "map default_category ts"] tq by simp
        then show ?thesis using cat title Some unfolding cq Cons by (simp add: sub_dir_def)
      qed
    qed
  qed
qed

section \<open>The file system for WebDAV\<close>

text \<open>
  The read-only file system that the WebDAV library is given: writing is refused, and a name is cleaned before it is looked
  up. An open file keeps its handle, and of a directory the entries that were not read yet.
\<close>

definition write_flags :: int where
  "write_flags = 1 OR 2 OR 0x400 OR 0x40 OR 0x200" \<comment> \<open>\<open>O_WRONLY\<close>, \<open>O_RDWR\<close>, \<open>O_APPEND\<close>, \<open>O_CREATE\<close>, \<open>O_TRUNC\<close> of Linux\<close>

definition cleanWebDAVPath :: "string \<Rightarrow> string" where
  "cleanWebDAVPath name =
     (if name = [] \<or> name = ''/'' then ''.''
      else let n = tl (path_clean (''/'' @ name)) in if n = [] then ''.'' else n)"

record ro_file =
  rf_name :: string
  rf_file :: "fs_handle option"
  rf_pos :: nat
  rf_list :: "inode list option"

definition newROFile :: "string \<Rightarrow> fs_handle \<Rightarrow> ro_file" where
  "newROFile name h = \<lparr>rf_name = name, rf_file = Some h, rf_pos = 0, rf_list = None\<rparr>"

definition ro_Mkdir :: "string \<Rightarrow> fs_error option" where
  "ro_Mkdir name = Some ErrPermission"

definition ro_RemoveAll :: "string \<Rightarrow> fs_error option" where
  "ro_RemoveAll name = Some ErrPermission"

definition ro_Rename :: "string \<Rightarrow> string \<Rightarrow> fs_error option" where
  "ro_Rename old new = Some ErrPermission"

definition ro_Stat :: "fs_env \<Rightarrow> string \<Rightarrow> torrent_list \<Rightarrow> (fs_error + file_info) \<times> torrent_list" where
  "ro_Stat env name ts = fs_Stat env (cleanWebDAVPath name) ts"

definition ro_OpenFile :: "fs_env \<Rightarrow> string \<Rightarrow> int \<Rightarrow> torrent_list \<Rightarrow> (fs_error + ro_file) \<times> torrent_list" where
  "ro_OpenFile env name flag ts =
     (if flag AND write_flags \<noteq> 0 then (Inl ErrPermission, ts)
      else let name = cleanWebDAVPath name
        in case AsFS_Open env name ts of
             (Inl e, ts') \<Rightarrow> (Inl e, ts')
           | (Inr h, ts') \<Rightarrow> (Inr (newROFile name h), ts'))"

definition rf_Write :: "string \<Rightarrow> ro_file \<Rightarrow> int \<times> fs_error option" where
  "rf_Write data f = (0, Some ErrPermission)"

definition rf_Close :: "ro_file \<Rightarrow> ro_file" where
  "rf_Close f = (if rf_file f = None then f else f\<lparr>rf_file := None, rf_list := None, rf_pos := 0\<rparr>)"

text \<open>A read and a seek reach the reader of the torrent, or end in an error.\<close>

definition rf_Read :: "ro_file \<Rightarrow> fs_error + inode" where
  "rf_Read f =
     (case rf_file f of None \<Rightarrow> Inl ErrClosed | Some (Node n) \<Rightarrow> Inl ErrInvalid | Some (FileHandle n) \<Rightarrow> Inr n)"

definition rf_Seek :: "ro_file \<Rightarrow> fs_error + inode" where
  "rf_Seek f =
     (case rf_file f of None \<Rightarrow> Inl ErrClosed | Some (Node n) \<Rightarrow> Inl NoSeek | Some (FileHandle n) \<Rightarrow> Inr n)"

definition rf_Stat :: "fs_env \<Rightarrow> ro_file \<Rightarrow> torrent_list \<Rightarrow> (fs_error + file_info) \<times> torrent_list" where
  "rf_Stat env f ts = fs_Stat env (rf_name f) ts"

text \<open>The page of a directory: all that is left, or at most \<open>count\<close> entries and the error at the end.\<close>

definition next_page :: "int \<Rightarrow> inode list \<Rightarrow> ro_file \<Rightarrow> (fs_error + file_info list) \<times> ro_file" where
  "next_page count entries f =
     (let rest = drop (rf_pos f) entries; page = (if count \<le> 0 then rest else take (nat count) rest)
      in (if 0 < count \<and> page = [] then Inl DirEOF else Inr (map node_info page),
          f\<lparr>rf_pos := rf_pos f + length page, rf_list := Some entries\<rparr>))"

definition rf_Readdir ::
    "fs_env \<Rightarrow> int \<Rightarrow> ro_file \<Rightarrow> torrent_list \<Rightarrow> (fs_error + file_info list) \<times> ro_file \<times> torrent_list" where
  "rf_Readdir env count f ts =
     (if rf_file f = None then (Inl ErrClosed, f, ts)
      else case fs_Stat env (rf_name f) ts of
        (Inl e, ts') \<Rightarrow> (Inl e, f, ts')
      | (Inr fi, ts') \<Rightarrow>
          if \<not> fi_dir fi then (Inl ErrInvalid, f, ts')
          else (case rf_list f of
              Some entries \<Rightarrow> (let (r, f') = next_page count entries f in (r, f', ts'))
            | None \<Rightarrow>
                (case fs_ReadDir env (rf_name f) ts' of
                   (Inl e, ts'') \<Rightarrow> (Inl e, f, ts'')
                 | (Inr entries, ts'') \<Rightarrow> (let (r, f') = next_page count entries (f\<lparr>rf_pos := 0\<rparr>) in (r, f', ts'')))))"

subsection \<open>Names\<close>

text \<open>The names that a request for a path leads through: no path leads above the root.\<close>

definition web_elements :: "string \<Rightarrow> string list" where
  "web_elements name = clean_elements True [] (str_split CHR ''/'' name)"

lemma clean_elements_rooted:
  "plain_path out \<Longrightarrow> \<forall>e \<in> set es. CHR ''/'' \<notin> set e \<Longrightarrow> plain_path (clean_elements True out es)"
  by (induction True out es rule: clean_elements.induct) (auto simp: plain_element_def split: list.split)

lemma split_no_sep: "e \<in> set (str_split sep s) \<Longrightarrow> sep \<notin> set e"
  by (induction s arbitrary: e) (auto split: if_splits list.splits)

lemma web_elements_plain: "plain_path (web_elements name)"
  unfolding web_elements_def by (rule clean_elements_rooted) (auto dest: split_no_sep)

lemma cleanWebDAVPath_elements:
  "cleanWebDAVPath name = (if web_elements name = [] then ''.'' else str_join CHR ''/'' (web_elements name))"
proof -
  have "path_clean (''/'' @ name) = CHR ''/'' # str_join CHR ''/'' (web_elements name)"
    by (simp add: path_clean_def web_elements_def has_prefix_iff)
  moreover have "web_elements name = []" if "name = [] \<or> name = ''/''" using that by (auto simp: web_elements_def)
  moreover have "str_join CHR ''/'' (web_elements name) = [] \<longleftrightarrow> web_elements name = []"
    by (rule str_join_Nil [OF web_elements_plain])
  ultimately show ?thesis by (auto simp: cleanWebDAVPath_def)
qed

subsection \<open>What is opened\<close>

lemma AsFS_Open_root: "AsFS_Open env ''.'' ts = (Inr (Node RootDir), ts)"
proof -
  have "path_clean ''.'' = ''.''" by (simp add: path_clean_def has_prefix_def)
  moreover have "valid_path ''.''" by (simp add: valid_path_def)
  ultimately show ?thesis by (simp add: AsFS_Open_def RootDir_Open_def)
qed

lemma AsFS_Open_plain:
  assumes p: "plain_path p" "p \<noteq> []"
  shows "AsFS_Open env (str_join CHR ''/'' p) ts =
     (if utf8_valid (map of_char (str_join CHR ''/'' p)) then Node_Open env RootDir (CHR ''/'' # str_join CHR ''/'' p) ts
      else (Inl ErrInvalid, ts))"
proof -
  have clean: "path_clean (str_join CHR ''/'' p) = str_join CHR ''/'' p" "\<not> has_prefix (str_join CHR ''/'' p) ''/''"
    using path_clean_plain [of p] p by (simp_all add: list_all_iff)
  have split: "str_split CHR ''/'' (str_join CHR ''/'' p) = p" by (rule str_split_join [OF p(2) plain_path_slash [OF p(1)]])
  have "str_split CHR ''/'' ''.'' = [''.'']" by simp
  then have dot: "str_join CHR ''/'' p \<noteq> ''.''" using split p(1) by (auto simp: plain_element_def)
  moreover have "str_join CHR ''/'' p \<noteq> ''/''" using clean(2) by (auto simp: has_prefix_iff)
  moreover have "trim_prefix (str_join CHR ''/'' p) ''/'' = str_join CHR ''/'' p"
    using clean(2) by (auto simp: trim_prefix_def has_prefix_def)
  moreover have "valid_path (str_join CHR ''/'' p) \<longleftrightarrow> utf8_valid (map of_char (str_join CHR ''/'' p))"
    using p(1) dot by (auto simp: valid_path_def split list_all_iff plain_element_def)
  ultimately show ?thesis
    using clean str_join_Nil [OF p(1)] p(2) by (simp add: AsFS_Open_def RootDir_Open_def)
qed

lemma web_open:
  assumes "\<And>xs. set (env_order env xs) = set xs" and "connected_clean ts"
  shows "\<exists>ts'. AsFS_Open env (cleanWebDAVPath name) ts =
     (if utf8_valid (map of_char (cleanWebDAVPath name)) then fs_lookup env ts (web_elements name) else Inl ErrInvalid, ts') \<and>
     ts' \<in> {ts, map default_category ts}"
proof (cases "web_elements name = []")
  case True
  have "utf8_valid (map of_char ''.'')" by simp
  then show ?thesis using True by (simp add: cleanWebDAVPath_elements AsFS_Open_root)
next
  case False
  then have name: "cleanWebDAVPath name = str_join CHR ''/'' (web_elements name)" by (simp add: cleanWebDAVPath_elements)
  obtain ts' where "Node_Open env RootDir (CHR ''/'' # str_join CHR ''/'' (web_elements name)) ts =
      (fs_lookup env ts (web_elements name), ts')" "ts' \<in> {ts, map default_category ts}"
    using tree_open [OF assms web_elements_plain False] by blast
  then show ?thesis unfolding name AsFS_Open_plain [OF web_elements_plain False] by auto
qed

text \<open>
  Property C38. Every name that a WebDAV client can send is answered as the tree of categories, titles and files says. On a
  catalog whose torrents have their metadata and plain paths of files, and whatever the order of the maps, opening for
  writing is refused, a name that is not UTF-8 is invalid, and any other name, with dots, double slashes or attempts to climb
  above the root, opens what its cleaned elements lead to: the root, a category with a torrent in it, the first torrent with
  the title in its category, one of its directories, or the file whose path the elements begin with; or there is an error.
  The catalog is afterwards as it was, up to the names of empty categories.
\<close>

theorem webdav_open_exact:
  assumes "\<forall>xs. set (env_order env xs) = set xs" and "connected_clean ts"
  shows "fst (ro_OpenFile env name flag ts) =
      (if flag AND write_flags \<noteq> 0 then Inl ErrPermission
       else if \<not> utf8_valid (map of_char (cleanWebDAVPath name)) then Inl ErrInvalid
       else map_sum id (newROFile (cleanWebDAVPath name)) (fs_lookup env ts (web_elements name))) \<and>
    snd (ro_OpenFile env name flag ts) \<in> {ts, map default_category ts}"
proof -
  have order: "set (env_order env xs) = set xs" for xs using assms(1) by simp
  obtain ts' where "AsFS_Open env (cleanWebDAVPath name) ts =
      (if utf8_valid (map of_char (cleanWebDAVPath name)) then fs_lookup env ts (web_elements name) else Inl ErrInvalid, ts')"
    "ts' \<in> {ts, map default_category ts}"
    using web_open [OF order assms(2)] by blast
  then show ?thesis
    by (cases "fs_lookup env ts (web_elements name)") (simp_all add: ro_OpenFile_def Let_def)
qed

definition fs_demo_env :: fs_env where
  "fs_demo_env = \<lparr>env_active = False, env_timeout = 30, env_reader = \<lambda>t f. True, env_poll = \<lambda>h k. None, env_order = rev\<rparr>"

definition fs_demo_file :: torrent_file where
  "fs_demo_file = \<lparr>tf_path = ''S1/E1.mkv'', tf_length = 700\<rparr>"

definition fs_demo_torrent :: fs_torrent where
  "fs_demo_torrent = \<lparr>ft_title = ''Show'', ft_category = [], ft_hash = ''h'', ft_timestamp = 5, ft_got = True,
     ft_files = [fs_demo_file, \<lparr>tf_path = ''a.srt'', tf_length = 9\<rparr>]\<rparr>"

lemma fs_demo_catalog: "connected_clean [fs_demo_torrent]"
proof -
  have "file_elements fs_demo_file = [''S1'', ''E1.mkv'']" "file_elements \<lparr>tf_path = ''a.srt'', tf_length = 9\<rparr> = [''a.srt'']"
    by (simp_all add: file_elements_def fs_demo_file_def)
  then show ?thesis
    by (auto simp: connected_clean_def clean_files_def fs_demo_torrent_def plain_element_def)
qed

theorem webdav_open_exact_witness:
  "fst (ro_OpenFile fs_demo_env ''/../other//Show/./S1/E1.mkv'' 0 [fs_demo_torrent]) =
     Inr (newROFile ''other/Show/S1/E1.mkv''
       (FileHandle (TorrFile (sub_dir (default_category fs_demo_torrent) ''Show'' [''S1'']) ''E1.mkv'' (default_category fs_demo_torrent) fs_demo_file)))"
proof -
  have elements: "web_elements ''/../other//Show/./S1/E1.mkv'' = [''other'', ''Show'', ''S1'', ''E1.mkv'']"
    by (simp add: web_elements_def)
  then have name: "cleanWebDAVPath ''/../other//Show/./S1/E1.mkv'' = ''other/Show/S1/E1.mkv''"
    by (simp add: cleanWebDAVPath_elements)
  have utf8: "utf8_valid (map of_char ''other/Show/S1/E1.mkv'')" by (simp add: Let_def)
  have files: "file_elements fs_demo_file = [''S1'', ''E1.mkv'']" by (simp add: file_elements_def fs_demo_file_def)
  have order: "\<forall>xs. set (env_order fs_demo_env xs) = set xs" by (simp add: fs_demo_env_def)
  have shown: "shown_torrent fs_demo_env [fs_demo_torrent] ''other'' ''Show'' = Some (default_category fs_demo_torrent)"
    by (simp add: shown_torrent_def fs_demo_torrent_def default_category_def fs_demo_env_def)
  have found: "torrent_lookup fs_demo_env (default_category fs_demo_torrent) [''S1'', ''E1.mkv''] =
      Inr (FileHandle (TorrFile (sub_dir (default_category fs_demo_torrent) ''Show'' [''S1'']) ''E1.mkv'' (default_category fs_demo_torrent) fs_demo_file))"
    by (simp add: torrent_lookup_def fs_demo_torrent_def files fs_demo_env_def)
  from webdav_open_exact [OF order fs_demo_catalog, of "''/../other//Show/./S1/E1.mkv''" 0]
  show ?thesis unfolding elements name using utf8 by (simp add: shown found)
qed

section \<open>Reading a directory in pages\<close>

lemma fs_Stat_lookup:
  assumes "\<And>xs. set (env_order env xs) = set xs" and "connected_clean ts" and "utf8_valid (map of_char (cleanWebDAVPath name))"
    and "fs_lookup env ts (web_elements name) = Inr h" and "us \<in> {ts, map default_category ts}"
  shows "\<exists>us'. fs_Stat env (cleanWebDAVPath name) us = (Inr (node_info (handle_node h)), us') \<and> us' \<in> {ts, map default_category ts}"
proof -
  have us: "connected_clean us" "fs_lookup env us (web_elements name) = Inr h" "{us, map default_category us} \<subseteq> {ts, map default_category ts}"
    using assms(2,4,5) by (auto simp: connected_clean_def fs_lookup_default default_category_idem comp_def)
  obtain us' where us': "AsFS_Open env (cleanWebDAVPath name) us =
     (if utf8_valid (map of_char (cleanWebDAVPath name)) then fs_lookup env us (web_elements name) else Inl ErrInvalid, us')"
    "us' \<in> {us, map default_category us}"
    using web_open [OF assms(1) us(1)] by blast
  then have "AsFS_Open env (cleanWebDAVPath name) us = (Inr h, us')" using assms(3) us(2) by simp
  moreover have "us' \<in> {ts, map default_category ts}" using us'(2) us(3) by blast
  ultimately show ?thesis by (auto simp: fs_Stat_def)
qed

text \<open>Reading page after page until an error, with a bound on the number of pages.\<close>

fun read_pages :: "nat \<Rightarrow> fs_env \<Rightarrow> int \<Rightarrow> ro_file \<Rightarrow> torrent_list \<Rightarrow> file_info list \<times> fs_error option" where
  "read_pages 0 env count f ts = ([], None)"
| "read_pages (Suc k) env count f ts =
     (case rf_Readdir env count f ts of
        (Inl e, _, _) \<Rightarrow> ([], Some e)
      | (Inr page, f', ts') \<Rightarrow> (let (pages, e) = read_pages k env count f' ts' in (page @ pages, e)))"

text \<open>A directory that is open and was listed gives the entries that are left, each once, and then the end.\<close>

lemma pages_complete:
  assumes "\<And>xs. set (env_order env xs) = set xs" and "connected_clean ts" and "utf8_valid (map of_char (cleanWebDAVPath name))"
    and "fs_lookup env ts (web_elements name) = Inr (Node d)" and "is_dir d" and count: "0 < count"
  shows "us \<in> {ts, map default_category ts} \<Longrightarrow> rf_name f = cleanWebDAVPath name \<Longrightarrow> rf_file f \<noteq> None \<Longrightarrow>
    rf_list f = Some entries \<Longrightarrow> length entries - rf_pos f < k \<Longrightarrow>
    read_pages k env count f us = (map node_info (drop (rf_pos f) entries), Some DirEOF)"
proof (induction k arbitrary: f us)
  case (Suc k)
  obtain us' where us': "fs_Stat env (cleanWebDAVPath name) us = (Inr (node_info d), us')" "us' \<in> {ts, map default_category ts}"
    using fs_Stat_lookup [OF assms(1-4) Suc.prems(1)] by auto
  let ?rest = "drop (rf_pos f) entries"
  let ?page = "take (nat count) ?rest"
  let ?g = "f\<lparr>rf_pos := rf_pos f + length ?page, rf_list := Some entries\<rparr>"
  have read: "rf_Readdir env count f us = (if ?page = [] then Inl DirEOF else Inr (map node_info ?page), ?g, us')"
    using Suc.prems us'(1) assms(5) count by (simp add: rf_Readdir_def next_page_def Let_def)
  show ?case
  proof (cases "?page = []")
    case True
    then have "?rest = []" using count by simp
    then show ?thesis using read True by simp
  next
    case False
    then have pos: "rf_pos f < length entries" using count by simp
    have "length entries - rf_pos ?g < k" using Suc.prems(5) pos count by simp
    then have "read_pages k env count ?g us' = (map node_info (drop (rf_pos ?g) entries), Some DirEOF)"
      using us'(2) Suc.prems by (intro Suc.IH) simp_all
    moreover have "drop (rf_pos ?g) entries = drop (nat count) ?rest"
      by (cases "nat count \<le> length ?rest") (simp_all add: ac_simps min_def)
    moreover have "map node_info ?page @ map node_info (drop (nat count) ?rest) = map node_info ?rest"
      by (metis append_take_drop_id map_append)
    ultimately show ?thesis using read False by simp
  qed
qed simp

end
