(* ===== verification/Playback_Service.thy ===== *)
theory Playback_Service
  imports Go_Paths Utilities Torrent_Token Torrent_Lifecycle
begin

text \<open>
  From a link to a stream: the parser of links (internal/torrentparse/parse.go, apiservices/stream_service.go), the torrent
  that a stream needs (EnsureTorrent) and the playlists (apiservices/playback.go).

  The calls that have an effect, on the torrents or outside of the program, are recorded in the order they are made; what
  they answer is an argument: the package net/url, the torrent library, the network and the torrent service.
\<close>

section \<open>Escapes of package net/url\<close>

text \<open>\<open>url.QueryUnescape\<close> and \<open>url.PathEscape\<close>.\<close>

fun QueryUnescape :: "string \<Rightarrow> string option" where
  "QueryUnescape [] = Some []"
| "QueryUnescape (c # s) =
     (if c = CHR ''%''
      then (case s of
          a # b # t \<Rightarrow>
            (case (hex_value a, hex_value b) of
               (Some x, Some y) \<Rightarrow> map_option (\<lambda>u. char_of (16 * x + y) # u) (QueryUnescape t)
             | _ \<Rightarrow> None)
        | _ \<Rightarrow> None)
      else map_option (\<lambda>u. (if c = CHR ''+'' then CHR '' '' else c) # u) (QueryUnescape s))"

definition path_unreserved :: "char \<Rightarrow> bool" where
  "path_unreserved c \<longleftrightarrow> alphanumeric c \<or> c \<in> set ''-_.~$&+:=@''"

definition upper_hex :: string where "upper_hex = ''0123456789ABCDEF''"

definition PathEscape :: "string \<Rightarrow> string" where
  "PathEscape s = concat (map (\<lambda>c. if path_unreserved c then [c]
     else [CHR ''%'', upper_hex ! (of_char c div 16), upper_hex ! (of_char c mod 16)]) s)"

section \<open>Links\<close>

record link_spec =
  sp_Hash :: string
  sp_Trackers :: "string list list"
  sp_Name :: string

record stream_meta =
  sm_Title :: string
  sm_Poster :: string
  sm_Category :: string
  sm_Data :: string

text \<open>The calls with an effect.\<close>

datatype call =
    Fetch string
  | ReadFile string
  | AddTorrent string stream_meta
  | LoadFromDB string
  | SaveToDB string
  | EnqueuePreload string int
  | TouchPlaybackIntent string
  | EnsureTitle string
  | WaitInfo string
  | StreamFile string int

record url_parts =
  up_Scheme :: string
  up_String :: string
  up_Path :: string

text \<open>What a request to another server gives: an error at an URL, another error, or a status, a body, and whether closing failed.\<close>

datatype http_answer = FailedAt string | Failed | Answered int string bool

record link_env =
  le_url :: "string \<Rightarrow> url_parts option"
  le_magnet :: "string \<Rightarrow> link_spec option"
  le_request :: "string \<Rightarrow> bool"
  le_get :: "string \<Rightarrow> http_answer"
  le_load :: "string \<Rightarrow> link_spec option" \<comment> \<open>a torrent file from its bytes\<close>
  le_file :: "string \<Rightarrow> link_spec option"
  le_windows :: bool
  le_zlib :: zlib_lib

definition fromMagnet :: "link_env \<Rightarrow> string \<Rightarrow> link_spec option" where
  "fromMagnet le link = le_magnet le link"

definition fromHTTP :: "link_env \<Rightarrow> string \<Rightarrow> link_spec option \<times> call list" where
  "fromHTTP le link =
     (if \<not> le_request le link then (None, [])
      else (case le_get le link of
          FailedAt u \<Rightarrow> if has_prefix u ''magnet:'' then fromMagnet le u else None
        | Failed \<Rightarrow> None
        | Answered status body closeErr \<Rightarrow> if status \<noteq> 200 \<or> closeErr then None else le_load le body, [Fetch link]))"

definition fromFile :: "link_env \<Rightarrow> string \<Rightarrow> link_spec option \<times> call list" where
  "fromFile le path =
     (let path = if le_windows le \<and> has_prefix path ''/'' then trim_prefix path ''/'' else path
      in (le_file le path, [ReadFile path]))"

definition torrentparse_ParseLink :: "link_env \<Rightarrow> string \<Rightarrow> link_spec option \<times> call list" where
  "torrentparse_ParseLink le link =
     (case le_url le link of
        None \<Rightarrow> (None, [])
      | Some u \<Rightarrow>
          let scheme = to_lower (up_Scheme u)
          in if scheme = ''magnet'' then (fromMagnet le (up_String u), [])
             else if scheme = ''http'' \<or> scheme = ''https'' then fromHTTP le (up_String u)
             else if scheme = [] then (fromMagnet le (''magnet:?xt=urn:btih:'' @ up_Path u), [])
             else if scheme = ''file'' then fromFile le (up_Path u)
             else (None, []))"

definition ParseTorrsHash :: "link_env \<Rightarrow> string \<Rightarrow> (link_spec \<times> TorrsHash) option" where
  "ParseTorrsHash le token =
     (case Unpack (le_zlib le) (trim_prefix token ''torrs://'') of
        (Some th, False) \<Rightarrow>
          Some (\<lparr>sp_Hash = th_Hash th, sp_Trackers = (if token_Trackers th = [] then [] else [token_Trackers th]),
                 sp_Name = token_Title th\<rparr>, th)
      | _ \<Rightarrow> None)"

datatype link_error = StreamLinkEmpty | BadEscape | StreamInvalidTorrsHash | StreamInvalidLink

definition stream_ParseLink ::
    "link_env \<Rightarrow> string \<Rightarrow> string \<Rightarrow> string \<Rightarrow> string \<Rightarrow> (link_error + link_spec \<times> stream_meta) \<times> call list" where
  "stream_ParseLink le link title poster category =
     (if link = [] then (Inl StreamLinkEmpty, [])
      else case (QueryUnescape link, QueryUnescape title, QueryUnescape poster, QueryUnescape category) of
        (Some link, Some title, Some poster, Some category) \<Rightarrow>
          if has_prefix link ''torrs://'' \<or> (length link > 45 \<and> IsBase62 link)
          then (case ParseTorrsHash le link of
              None \<Rightarrow> (Inl StreamInvalidTorrsHash, [])
            | Some (spec, th) \<Rightarrow>
                (Inr (spec, \<lparr>sm_Title = (if title = [] then token_Title th else title),
                   sm_Poster = (if poster = [] then token_Poster th else poster),
                   sm_Category = (if category = [] then token_Category th else category), sm_Data = []\<rparr>), []))
          else (case torrentparse_ParseLink le link of
              (None, calls) \<Rightarrow> (Inl StreamInvalidLink, calls)
            | (Some spec, calls) \<Rightarrow>
                (Inr (spec, \<lparr>sm_Title = title, sm_Poster = poster, sm_Category = category, sm_Data = []\<rparr>), calls))
      | _ \<Rightarrow> (Inl BadEscape, []))"

section \<open>Torrents for a stream\<close>

record torrent_status =
  st_Hash :: string
  st_Title :: string
  st_Poster :: string
  st_FileStats :: "TorrentFileStat list"

record torrent_handle =
  hd_State :: TorrentStat
  hd_Hash :: string
  hd_Name :: string
  hd_Count :: int
  hd_Ready :: bool
  hd_Status :: torrent_status
  hd_Meta :: stream_meta

record torrents_env =
  te_Get :: "string \<Rightarrow> torrent_handle option"
  te_List :: "torrent_handle list"
  te_Add :: "link_spec \<Rightarrow> stream_meta \<Rightarrow> torrent_handle option" \<comment> \<open>\<open>None\<close> for an error\<close>
  te_Load :: "torrent_handle \<Rightarrow> torrent_handle option"
  te_Queue :: "torrent_handle \<Rightarrow> int \<Rightarrow> bool"
  te_Viewed :: "string \<Rightarrow> int list" \<comment> \<open>the file indices that were viewed\<close>
  te_Admit :: "string \<Rightarrow> bool"

datatype ensure_error = StreamUnauthorized | StreamConnectionTimeout | AddFailed

definition isActiveStreamTorrent :: "TorrentStat \<Rightarrow> bool" where
  "isActiveStreamTorrent s \<longleftrightarrow> s = TorrentWorking \<or> s = TorrentPreload"

definition await_torrent :: "torrent_handle \<Rightarrow> (ensure_error + torrent_handle) \<times> call list" where
  "await_torrent tor =
     (if hd_Ready tor then (Inr tor, [WaitInfo (hd_Hash tor), EnsureTitle (hd_Hash tor)])
      else (Inl StreamConnectionTimeout, [WaitInfo (hd_Hash tor)]))"

definition EnsureTorrent ::
    "torrents_env \<Rightarrow> link_spec \<Rightarrow> stream_meta \<Rightarrow> bool \<Rightarrow> (ensure_error + torrent_handle) \<times> call list" where
  "EnsureTorrent te spec meta allowCreate =
     (case te_Get te (sp_Hash spec) of
        None \<Rightarrow>
          if \<not> allowCreate then (Inl StreamUnauthorized, [])
          else (case te_Add te spec meta of
              None \<Rightarrow> (Inl AddFailed, [AddTorrent (sp_Hash spec) meta])
            | Some tor \<Rightarrow> (let (r, calls) = await_torrent tor in (r, AddTorrent (sp_Hash spec) meta # calls)))
      | Some tor \<Rightarrow>
          if isActiveStreamTorrent (hd_State tor) then (Inr tor, [EnsureTitle (hd_Hash tor)])
          else if hd_State tor = TorrentInDB
          then if \<not> allowCreate then (Inl StreamUnauthorized, [])
            else (case te_Load te tor of
                None \<Rightarrow> (Inl StreamConnectionTimeout, [LoadFromDB (hd_Hash tor)])
              | Some u \<Rightarrow>
                  if isActiveStreamTorrent (hd_State u) then (Inr u, [LoadFromDB (hd_Hash tor), EnsureTitle (hd_Hash u)])
                  else (let (r, calls) = await_torrent u in (r, LoadFromDB (hd_Hash tor) # calls)))
          else await_torrent tor)"

definition ParseFileIndex :: "string \<Rightarrow> int \<Rightarrow> int option" where
  "ParseFileIndex index fileCount =
     (if fileCount = 1 then Some 1
      else (case ParseInt index of None \<Rightarrow> None | Some ind \<Rightarrow> if ind < 0 then None else Some ind))"

definition m3u_name :: "string \<Rightarrow> bool" where
  "m3u_name name \<longleftrightarrow> has_suffix (to_lower name) ''.m3u'' \<or> has_suffix (to_lower name) ''.m3u8''"

definition stream_NormalizePlaylistName :: "string \<Rightarrow> string \<Rightarrow> string" where
  "stream_NormalizePlaylistName rawName fallback =
     (let name = filter (\<lambda>c. c \<noteq> CHR ''/'') rawName
      in if name = [] then fallback @ ''.m3u'' else if \<not> m3u_name name then name @ ''.m3u'' else name)"

section \<open>Playlists\<close>

definition normalizePlaylistName :: "string \<Rightarrow> string \<Rightarrow> string" where
  "normalizePlaylistName rawName fallback =
     (let name = trim_prefix rawName ''/''
      in if name = [] then fallback @ ''.m3u'' else if m3u_name name then name else name @ ''.m3u'')"

text \<open>The file itself is told from the others by its place in the list, as the code does by its pointer.\<close>

definition findFileNamesakes :: "TorrentFileStat list \<Rightarrow> nat \<Rightarrow> TorrentFileStat list" where
  "findFileNamesakes files k =
     (let path = ft_Path (files ! k); name = path_base (trim_suffix path (file_ext path))
      in map snd (filter (\<lambda>(i, f). i \<noteq> k \<and> str_contains (ft_Path f) name) (enumerate 0 files)))"

definition searchLastPlayed :: "(string \<Rightarrow> int list) \<Rightarrow> torrent_status \<Rightarrow> int" where
  "searchLastPlayed viewed tor =
     (if viewed (st_Hash tor) = [] then -1
      else (case List.find (\<lambda>(i, f). ft_ID f = Max (set (viewed (st_Hash tor)))) (enumerate 0 (st_FileStats tor)) of
          None \<Rightarrow> -1 | Some (i, f) \<Rightarrow> int i))"

abbreviation "nl \<equiv> [CHR 0x0A]"

definition stream_url :: "string \<Rightarrow> string \<Rightarrow> TorrentFileStat \<Rightarrow> string" where
  "stream_url host hash f =
     host @ ''/stream/'' @ PathEscape (path_base (ft_Path f)) @ ''?link='' @ hash @ ''&index='' @ FormatInt (ft_ID f) @ ''&play''"

definition m3u_entry :: "string \<Rightarrow> torrent_status \<Rightarrow> nat \<Rightarrow> string" where
  "m3u_entry host tor i =
     (let f = st_FileStats tor ! i; namesakes = findFileNamesakes (st_FileStats tor) i
      in ''#EXTINF:0,'' @ (if path_base (ft_Path f) = [] then ft_Path f else path_base (ft_Path f)) @ nl @
         (if namesakes = [] then []
          else ''#EXTVLCOPT:input-slave='' @ concat (map (\<lambda>n. stream_url host (st_Hash tor) n @ ''#'') namesakes) @ nl) @
         stream_url host (st_Hash tor) f @ nl)"

definition playable_from :: "nat \<Rightarrow> torrent_status \<Rightarrow> nat list" where
  "playable_from start tor =
     filter (\<lambda>i. start \<le> i \<and> GetMimeType (ft_Path (st_FileStats tor ! i)) \<noteq> ''*/*'') [0..<length (st_FileStats tor)]"

definition BuildM3UFromStatus :: "(string \<Rightarrow> int list) \<Rightarrow> string \<Rightarrow> bool \<Rightarrow> torrent_status \<Rightarrow> string" where
  "BuildM3UFromStatus viewed host fromLast tor =
     (let pos = (if fromLast then searchLastPlayed viewed tor else -1);
          start = (if pos \<noteq> -1 then nat pos else 0)
      in if playable_from start tor = [] then []
         else ''#EXTM3U'' @ nl @ concat (map (m3u_entry host tor) (playable_from start tor)))"

record playlist =
  pl_Name :: string
  pl_Hash :: string
  pl_Body :: string

definition all_entry :: "string \<Rightarrow> torrent_handle \<Rightarrow> string" where
  "all_entry host tr =
     (let status = hd_Status tr
      in ''#EXTINF:0'' @
         (if st_Poster status = [] then [] else '' tvg-logo='' @ [CHR 0x22] @ st_Poster status @ [CHR 0x22]) @
         '' type='' @ [CHR 0x22] @ ''playlist'' @ [CHR 0x22] @ '','' @ st_Title status @ nl @
         host @ ''/stream/'' @ PathEscape (st_Title status) @ ''.m3u?link='' @ hd_Hash tr @ ''&m3u&fn=file.m3u'' @ nl)"

definition BuildAllPlaylist :: "torrents_env \<Rightarrow> string \<Rightarrow> playlist" where
  "BuildAllPlaylist te host =
     \<lparr>pl_Name = ''all.m3u'', pl_Hash = concat (map hd_Hash (te_List te)),
      pl_Body = ''#EXTM3U'' @ nl @ concat (map (all_entry host) (te_List te))\<rparr>"

datatype playlist_error = PlaylistHashRequired | PlaylistTorrentNotFound | PlaylistLoadFailed

definition BuildPlaylistByHash ::
    "torrents_env \<Rightarrow> string \<Rightarrow> string \<Rightarrow> bool \<Rightarrow> string \<Rightarrow> (playlist_error + playlist) \<times> call list" where
  "BuildPlaylistByHash te hash requestedName fromLast host =
     (let payload = (\<lambda>tor. \<lparr>pl_Name = normalizePlaylistName requestedName (hd_Name tor), pl_Hash = hd_Hash tor,
            pl_Body = BuildM3UFromStatus (te_Viewed te) host fromLast (hd_Status tor)\<rparr>)
      in if hash = [] then (Inl PlaylistHashRequired, [])
         else (case te_Get te hash of
             None \<Rightarrow> (Inl PlaylistTorrentNotFound, [])
           | Some tor \<Rightarrow>
               if hd_State tor = TorrentInDB
               then (case te_Load te tor of
                   None \<Rightarrow> (Inl PlaylistLoadFailed, [LoadFromDB (hd_Hash tor)])
                 | Some u \<Rightarrow> (Inr (payload u), [LoadFromDB (hd_Hash tor)]))
               else (Inr (payload tor), [])))"

datatype play_error =
    PlayPathRequired | PlayHashInvalid | PlayUnauthorized | PlayTorrentNotFound | PlayLoadFailed | PlayTimeout | PlayFileIndexInvalid

definition play_index :: "torrent_handle \<Rightarrow> string \<Rightarrow> int" where
  "play_index tor index =
     (if hd_Count tor = 1 then 1 else (case ParseInt index of None \<Rightarrow> -1 | Some ind \<Rightarrow> ind))"

definition play_target :: "torrent_handle \<Rightarrow> string \<Rightarrow> (play_error + torrent_handle \<times> int) \<times> call list" where
  "play_target tor index =
     (if \<not> hd_Ready tor then Inl PlayTimeout
      else if play_index tor index = -1 then Inl PlayFileIndexInvalid else Inr (tor, play_index tor index), [WaitInfo (hd_Hash tor)])"

definition ResolvePlay ::
    "link_env \<Rightarrow> torrents_env \<Rightarrow> string \<Rightarrow> string \<Rightarrow> bool \<Rightarrow> (play_error + torrent_handle \<times> int) \<times> call list" where
  "ResolvePlay le te hash index unauthorized =
     (if hash = [] \<or> index = [] then (Inl PlayPathRequired, [])
      else (case torrentparse_ParseLink le hash of
          (None, calls) \<Rightarrow> (Inl PlayHashInvalid, calls)
        | (Some spec, calls) \<Rightarrow>
            (case te_Get te (sp_Hash spec) of
               None \<Rightarrow> (Inl (if unauthorized then PlayUnauthorized else PlayTorrentNotFound), calls)
             | Some tor \<Rightarrow>
                 if hd_State tor = TorrentInDB
                 then (case te_Add te spec (hd_Meta tor) of
                     None \<Rightarrow> (Inl PlayLoadFailed, calls @ [AddTorrent (sp_Hash spec) (hd_Meta tor)])
                   | Some u \<Rightarrow> (let (r, more) = play_target u index
                                in (r, calls @ AddTorrent (sp_Hash spec) (hd_Meta tor) # more)))
                 else (let (r, more) = play_target tor index in (r, calls @ more)))))"

end
