(* ===== verification/Stream_API.thy ===== *)
theory Stream_API
  imports Playback_Service
begin

text \<open>
  The routes of the playback API (web/api/stream_legacy.go, stream_actions.go, stream_binding.go, legacy_stream_adapter.go, play.go,
  m3u.go and their registration in route.go): what each request answers, which calls it makes, and what a client may do that
  has no account while accounts are required.
\<close>

section \<open>Requests\<close>

text \<open>
  \<open>rq_query\<close> are the names of the query that are present without looking at their values. Of the context of a request:
  \<open>rq_required\<close> is set by the middleware when accounts are required, \<open>rq_account\<close> is the name under \<open>auth.AuthUserKey\<close>, which the
  middleware sets for a client with an account, and \<open>rq_ginUser\<close> the name under \<open>gin.AuthUserKey\<close>, which the program never sets.
\<close>

record api_request =
  rq_link :: string
  rq_title :: string
  rq_poster :: string
  rq_category :: string
  rq_index :: string
  rq_fname :: string
  rq_hash :: string
  rq_id :: string
  rq_query :: "string list"
  rq_path :: string
  rq_host :: string
  rq_required :: bool
  rq_account :: "string option"
  rq_ginUser :: string
  rq_cancelled :: bool

datatype api_answer =
    Status int
  | TorrentStatusOf torrent_status
  | Saved string
  | M3U string string string
  | Streamed string int

text \<open>The test of the handlers looks at the second name, that of the guarded group (\<open>CheckAuth\<close>) at the first.\<close>

definition isNotAuthRequest :: "api_request \<Rightarrow> bool" where
  "isNotAuthRequest rq \<longleftrightarrow> rq_required rq \<and> rq_ginUser rq = []"

definition refused_by_group :: "api_request \<Rightarrow> bool" where
  "refused_by_group rq \<longleftrightarrow> rq_required rq \<and> rq_account rq = None"

abbreviation "asked rq key \<equiv> key \<in> set (rq_query rq)"

text \<open>\<open>sendM3U\<close>: the name of the file, its tag and its content.\<close>

definition sendM3U :: "string \<Rightarrow> string \<Rightarrow> string \<Rightarrow> api_answer" where
  "sendM3U name hash m3u =
     M3U (if name = [] then ''playlist.m3u'' else name) (if hash = [] then [] else hex_encode (hash @ ''/'' @ name)) m3u"

definition bindStreamLinkRequest :: "link_env \<Rightarrow> api_request \<Rightarrow> (link_spec \<times> stream_meta) option \<times> call list" where
  "bindStreamLinkRequest le rq =
     (case stream_ParseLink le (rq_link rq) (rq_title rq) (rq_poster rq) (rq_category rq) of
        (Inl e, calls) \<Rightarrow> (None, calls) | (Inr b, calls) \<Rightarrow> (Some b, calls))"

definition mapStreamEnsureError :: "ensure_error \<Rightarrow> int" where
  "mapStreamEnsureError e = (case e of StreamUnauthorized \<Rightarrow> 401 | StreamConnectionTimeout \<Rightarrow> 500 | AddFailed \<Rightarrow> 500)"

definition IsStored :: "torrent_handle option \<Rightarrow> bool" where
  "IsStored tor \<longleftrightarrow> (\<exists>t. tor = Some t \<and> hd_State t = TorrentInDB)"

lemma IsStored_code [code]: "IsStored tor = (case tor of None \<Rightarrow> False | Some t \<Rightarrow> hd_State t = TorrentInDB)"
  by (auto simp: IsStored_def split: option.split)

definition shouldTouchStatPlaybackIntent :: "string \<Rightarrow> bool" where
  "shouldTouchStatPlaybackIntent path \<longleftrightarrow> path = ''/stream'' \<or> has_prefix path ''/stream/''"

definition ensurePlaybackAdmission :: "torrents_env \<Rightarrow> string \<Rightarrow> bool" where
  "ensurePlaybackAdmission te hash \<longleftrightarrow> hash = [] \<or> te_Admit te hash"

section \<open>The explicit endpoints\<close>

definition streamStat :: "link_env \<Rightarrow> torrents_env \<Rightarrow> api_request \<Rightarrow> api_answer \<times> call list" where
  "streamStat le te rq =
     (if isNotAuthRequest rq then (Status 401, [])
      else case bindStreamLinkRequest le rq of
        (None, calls) \<Rightarrow> (Status 400, calls)
      | (Some (spec, meta), calls) \<Rightarrow>
          (case te_Get te (sp_Hash spec) of
             None \<Rightarrow> (Status 404, calls)
           | Some tor \<Rightarrow>
               if IsStored (Some tor) then (Status 409, calls)
               else (TorrentStatusOf (hd_Status tor),
                     calls @ (if shouldTouchStatPlaybackIntent (rq_path rq) then [TouchPlaybackIntent (hd_Hash tor)] else []))))"

definition streamM3U :: "link_env \<Rightarrow> torrents_env \<Rightarrow> api_request \<Rightarrow> api_answer \<times> call list" where
  "streamM3U le te rq =
     (case bindStreamLinkRequest le rq of
        (None, calls) \<Rightarrow> (Status 400, calls)
      | (Some (spec, meta), calls) \<Rightarrow>
          (case te_Get te (sp_Hash spec) of
             None \<Rightarrow> (Status (if isNotAuthRequest rq then 401 else 404), calls)
           | Some tor \<Rightarrow>
               if IsStored (Some tor) then (Status 409, calls)
               else if st_FileStats (hd_Status tor) = [] then (Status 409, calls)
               else (sendM3U (stream_NormalizePlaylistName (rq_fname rq) (hd_Name tor)) (hd_Hash tor)
                       (BuildM3UFromStatus (te_Viewed te) (rq_host rq) (asked rq ''fromlast'') (hd_Status tor)), calls)))"

definition streamTorrentFile :: "api_request \<Rightarrow> torrent_handle \<Rightarrow> int \<Rightarrow> api_answer \<times> call list" where
  "streamTorrentFile rq tor index =
     (if rq_cancelled rq then (Status 400, [])
      else (Streamed (hd_Hash tor) index, [StreamFile (hd_Hash tor) index]))"

definition streamPlay :: "link_env \<Rightarrow> torrents_env \<Rightarrow> api_request \<Rightarrow> api_answer \<times> call list" where
  "streamPlay le te rq =
     (case bindStreamLinkRequest le rq of
        (None, calls) \<Rightarrow> (Status 400, calls)
      | (Some (spec, meta), calls) \<Rightarrow>
          if \<not> ensurePlaybackAdmission te (sp_Hash spec) then (Status 503, calls)
          else (case EnsureTorrent te spec meta (\<not> isNotAuthRequest rq) of
              (Inl e, further) \<Rightarrow> (Status (mapStreamEnsureError e), calls @ further)
            | (Inr tor, further) \<Rightarrow>
                (case ParseFileIndex (rq_index rq) (hd_Count tor) of
                   None \<Rightarrow> (Status 400, calls @ further)
                 | Some index \<Rightarrow>
                     (let (a, last) = streamTorrentFile rq tor index
                      in (a, calls @ further @ [TouchPlaybackIntent (hd_Hash tor)] @
                             (if asked rq ''preload'' then [EnqueuePreload (hd_Hash tor) index] else []) @ last)))))"

definition streamSave :: "link_env \<Rightarrow> torrents_env \<Rightarrow> api_request \<Rightarrow> api_answer \<times> call list" where
  "streamSave le te rq =
     (case bindStreamLinkRequest le rq of
        (None, calls) \<Rightarrow> (Status 400, calls)
      | (Some (spec, meta), calls) \<Rightarrow>
          (let tor = te_Get te (sp_Hash spec)
           in if tor = None \<or> IsStored tor
              then (case te_Add te spec meta of
                  None \<Rightarrow> (Status 500, calls @ [AddTorrent (sp_Hash spec) meta])
                | Some u \<Rightarrow> (Saved (hd_Hash u), calls @ [AddTorrent (sp_Hash spec) meta, SaveToDB (hd_Hash u)]))
              else (Saved (hd_Hash (the tor)), calls @ [SaveToDB (hd_Hash (the tor))])))"

section \<open>The compatible endpoint\<close>

datatype legacyStreamAction =
    legacyStreamActionNone
  | legacyStreamActionPreload
  | legacyStreamActionStat
  | legacyStreamActionM3U
  | legacyStreamActionPlay
  | legacyStreamActionSave

definition explicitAction :: "api_request \<Rightarrow> legacyStreamAction" where
  "explicitAction rq =
     (if asked rq ''stat'' \<and> \<not> asked rq ''play'' \<and> \<not> asked rq ''save'' \<and> \<not> asked rq ''m3u'' then legacyStreamActionStat
      else if asked rq ''m3u'' \<and> \<not> asked rq ''play'' \<and> \<not> asked rq ''save'' \<and> \<not> asked rq ''stat'' then legacyStreamActionM3U
      else if asked rq ''save'' \<and> \<not> asked rq ''play'' \<and> \<not> asked rq ''stat'' \<and> \<not> asked rq ''m3u'' then legacyStreamActionSave
      else if asked rq ''play'' \<and> \<not> asked rq ''stat'' \<and> \<not> asked rq ''m3u'' \<and> \<not> asked rq ''save'' then legacyStreamActionPlay
      else legacyStreamActionNone)"

definition compatibilityAction :: "api_request \<Rightarrow> legacyStreamAction" where
  "compatibilityAction rq =
     (if asked rq ''preload'' \<and> \<not> asked rq ''stat'' \<and> \<not> asked rq ''m3u'' \<and> \<not> asked rq ''play'' \<and> \<not> asked rq ''save''
      then legacyStreamActionPreload
      else if asked rq ''stat'' then legacyStreamActionStat
      else if asked rq ''m3u'' then legacyStreamActionM3U
      else if asked rq ''play'' then legacyStreamActionPlay
      else if asked rq ''save'' then legacyStreamActionSave
      else legacyStreamActionNone)"

definition TestLink :: "link_env \<Rightarrow> string \<Rightarrow> bool \<Rightarrow> bool" where
  "TestLink le link auth \<longleftrightarrow>
     (case QueryUnescape link of None \<Rightarrow> False
      | Some l \<Rightarrow> (case le_url le l of None \<Rightarrow> False
          | Some u \<Rightarrow> up_Scheme u = ''magnet'' \<or> up_Scheme u = ''torrs'' \<or> up_Scheme u = [] \<or> auth))"

text \<open>The target: a torrent with an index, which is 0 when it is wrong and not needed; or the answer of a failure.\<close>

definition prepareTarget ::
    "link_env \<Rightarrow> torrents_env \<Rightarrow> api_request \<Rightarrow> bool \<Rightarrow> bool \<Rightarrow> bool \<Rightarrow> (api_answer + torrent_handle \<times> int) \<times> call list" where
  "prepareTarget le te rq allowCreate requireValidIndex requirePlaybackAdmission =
     (if rq_link rq = [] then (Inl (Status 400), [])
      else case bindStreamLinkRequest le rq of
        (None, calls) \<Rightarrow> (Inl (Status 400), calls)
      | (Some (spec, meta), calls) \<Rightarrow>
          if requirePlaybackAdmission \<and> \<not> ensurePlaybackAdmission te (sp_Hash spec) then (Inl (Status 503), calls)
          else (case EnsureTorrent te spec meta allowCreate of
              (Inl e, further) \<Rightarrow> (Inl (Status (mapStreamEnsureError e)), calls @ further)
            | (Inr tor, further) \<Rightarrow>
                (case ParseFileIndex (rq_index rq) (hd_Count tor) of
                   None \<Rightarrow> (if requireValidIndex then Inl (Status 400) else Inr (tor, 0), calls @ further)
                 | Some index \<Rightarrow> (Inr (tor, index), calls @ further))))"

definition legacy_sendM3U :: "torrents_env \<Rightarrow> api_request \<Rightarrow> torrent_handle \<Rightarrow> api_answer" where
  "legacy_sendM3U te rq tor =
     sendM3U (stream_NormalizePlaylistName (rq_fname rq) (hd_Name tor)) (hd_Hash tor)
       (BuildM3UFromStatus (te_Viewed te) (rq_host rq) (asked rq ''fromlast'') (hd_Status tor))"

definition handleAction ::
    "torrents_env \<Rightarrow> api_request \<Rightarrow> torrent_handle \<Rightarrow> int \<Rightarrow> bool \<Rightarrow> api_answer \<times> call list" where
  "handleAction te rq tor index preloadQueued =
     (case compatibilityAction rq of
        legacyStreamActionPreload \<Rightarrow> (Status (if \<not> preloadQueued then 500 else 200), [])
      | legacyStreamActionStat \<Rightarrow> (TorrentStatusOf (hd_Status tor), [])
      | legacyStreamActionM3U \<Rightarrow> (legacy_sendM3U te rq tor, [])
      | legacyStreamActionPlay \<Rightarrow> streamTorrentFile rq tor index
      | legacyStreamActionSave \<Rightarrow> (Status 200, [])
      | legacyStreamActionNone \<Rightarrow> (Status 400, []))"

definition handleNoAuth :: "link_env \<Rightarrow> torrents_env \<Rightarrow> api_request \<Rightarrow> api_answer \<times> call list" where
  "handleNoAuth le te rq =
     (case prepareTarget le te rq False (asked rq ''play'') (asked rq ''play'') of
        (Inl a, calls) \<Rightarrow> (a, calls)
      | (Inr (tor, index), calls) \<Rightarrow>
          (let calls = calls @ (if asked rq ''preload'' then [EnqueuePreload (hd_Hash tor) index] else [])
           in if asked rq ''m3u'' then (legacy_sendM3U te rq tor, calls)
              else if asked rq ''play'' then (let (a, last) = streamTorrentFile rq tor index in (a, calls @ last))
              else (Status 401, calls)))"

definition handleCompatibility :: "link_env \<Rightarrow> torrents_env \<Rightarrow> api_request \<Rightarrow> api_answer \<times> call list" where
  "handleCompatibility le te rq =
     (if isNotAuthRequest rq
      then if \<not> TestLink le (rq_link rq) (\<not> isNotAuthRequest rq) then (Status 400, [])
        else if asked rq ''play'' \<or> asked rq ''m3u'' then handleNoAuth le te rq
        else (Status 401, [])
      else (case prepareTarget le te rq True (asked rq ''play'' \<or> asked rq ''preload'') (asked rq ''play'') of
          (Inl a, calls) \<Rightarrow> (a, calls)
        | (Inr (tor, index), calls) \<Rightarrow>
            (let queued = asked rq ''preload'' \<and> te_Queue te tor index; (a, last) = handleAction te rq tor index queued
             in (a, calls @ (if asked rq ''save'' then [SaveToDB (hd_Hash tor)] else []) @
                    (if asked rq ''preload'' then [EnqueuePreload (hd_Hash tor) index] else []) @ last))))"

definition stream :: "link_env \<Rightarrow> torrents_env \<Rightarrow> api_request \<Rightarrow> api_answer \<times> call list" where
  "stream le te rq =
     (case explicitAction rq of
        legacyStreamActionStat \<Rightarrow> streamStat le te rq
      | legacyStreamActionM3U \<Rightarrow> streamM3U le te rq
      | legacyStreamActionSave \<Rightarrow> streamSave le te rq
      | legacyStreamActionPlay \<Rightarrow> streamPlay le te rq
      | _ \<Rightarrow> handleCompatibility le te rq)"

section \<open>Playing by hash, playlists, and the routes\<close>

definition play_status :: "play_error \<Rightarrow> int" where
  "play_status e = (case e of PlayPathRequired \<Rightarrow> 400 | PlayHashInvalid \<Rightarrow> 400 | PlayUnauthorized \<Rightarrow> 401
     | PlayTorrentNotFound \<Rightarrow> 404 | PlayLoadFailed \<Rightarrow> 500 | PlayTimeout \<Rightarrow> 500 | PlayFileIndexInvalid \<Rightarrow> 400)"

definition play :: "link_env \<Rightarrow> torrents_env \<Rightarrow> api_request \<Rightarrow> api_answer \<times> call list" where
  "play le te rq =
     (case ResolvePlay le te (rq_hash rq) (rq_id rq) (isNotAuthRequest rq) of
        (Inl e, calls) \<Rightarrow> (Status (play_status e), calls)
      | (Inr (tor, index), calls) \<Rightarrow> (Streamed (hd_Hash tor) index, calls @ [StreamFile (hd_Hash tor) index]))"

definition playlist_status :: "playlist_error \<Rightarrow> int" where
  "playlist_status e = (case e of PlaylistHashRequired \<Rightarrow> 400 | PlaylistTorrentNotFound \<Rightarrow> 404 | PlaylistLoadFailed \<Rightarrow> 500)"

definition playList :: "torrents_env \<Rightarrow> api_request \<Rightarrow> api_answer \<times> call list" where
  "playList te rq =
     (if rq_hash rq = [] then (Status 400, [])
      else case BuildPlaylistByHash te (rq_hash rq) (rq_fname rq) (asked rq ''fromlast'') (rq_host rq) of
        (Inl e, calls) \<Rightarrow> (Status (playlist_status e), calls)
      | (Inr p, calls) \<Rightarrow> (sendM3U (pl_Name p) (pl_Hash p) (pl_Body p), calls))"

definition allPlayList :: "torrents_env \<Rightarrow> api_request \<Rightarrow> api_answer \<times> call list" where
  "allPlayList te rq =
     (let p = BuildAllPlaylist te (rq_host rq) in (sendM3U (pl_Name p) (pl_Hash p) (pl_Body p), []))"

datatype playback_route =
    StreamsStat
  | StreamsM3U
  | StreamsPlay
  | StreamsSave
  | StreamLegacy
  | PlayHashId
  | Playlist
  | PlaylistAll

text \<open>Two routes are in the group that the accounts guard.\<close>

definition guarded_route :: "playback_route \<Rightarrow> bool" where
  "guarded_route r \<longleftrightarrow> r = StreamsSave \<or> r = PlaylistAll"

definition serve :: "link_env \<Rightarrow> torrents_env \<Rightarrow> playback_route \<Rightarrow> api_request \<Rightarrow> api_answer \<times> call list" where
  "serve le te r rq =
     (if guarded_route r \<and> refused_by_group rq then (Status 401, [])
      else (case r of
          StreamsStat \<Rightarrow> streamStat le te rq
        | StreamsM3U \<Rightarrow> streamM3U le te rq
        | StreamsPlay \<Rightarrow> streamPlay le te rq
        | StreamsSave \<Rightarrow> streamSave le te rq
        | StreamLegacy \<Rightarrow> stream le te rq
        | PlayHashId \<Rightarrow> play le te rq
        | Playlist \<Rightarrow> playList te rq
        | PlaylistAll \<Rightarrow> allPlayList te rq))"

section \<open>What a client without an account may do\<close>

definition outer_call :: "call \<Rightarrow> bool" where
  "outer_call c \<longleftrightarrow> (case c of Fetch u \<Rightarrow> True | ReadFile p \<Rightarrow> True | _ \<Rightarrow> False)"

definition changes_torrents :: "call \<Rightarrow> bool" where
  "changes_torrents c \<longleftrightarrow> (case c of AddTorrent h m \<Rightarrow> True | LoadFromDB h \<Rightarrow> True | SaveToDB h \<Rightarrow> True | _ \<Rightarrow> False)"

definition no_account :: "api_request \<Rightarrow> bool" where
  "no_account rq \<longleftrightarrow> rq_required rq \<and> rq_account rq = None \<and> rq_ginUser rq = []"

lemma no_account_refused: "no_account rq \<Longrightarrow> isNotAuthRequest rq" "no_account rq \<Longrightarrow> refused_by_group rq"
  by (simp_all add: no_account_def isNotAuthRequest_def refused_by_group_def)

lemma outer_no_change: "outer_call c \<Longrightarrow> \<not> changes_torrents c"
  by (cases c) (simp_all add: outer_call_def changes_torrents_def)

lemma parse_calls: "\<forall>c \<in> set (snd (torrentparse_ParseLink le link)). outer_call c"
  by (auto simp: torrentparse_ParseLink_def fromHTTP_def fromFile_def outer_call_def Let_def split: option.split)

lemma parse_outer: "torrentparse_ParseLink le link = (r, calls) \<Longrightarrow> c \<in> set calls \<Longrightarrow> outer_call c"
  using parse_calls [of le link] by simp

lemma stream_parse_calls: "\<forall>c \<in> set (snd (stream_ParseLink le link title poster category)). outer_call c"
  by (auto simp: stream_ParseLink_def dest: parse_outer split: option.split prod.split)

lemma bind_calls: "\<forall>c \<in> set (snd (bindStreamLinkRequest le rq)). outer_call c"
  unfolding bindStreamLinkRequest_def
  using stream_parse_calls [of le "rq_link rq" "rq_title rq" "rq_poster rq" "rq_category rq"]
  by (auto split: prod.split sum.split)

lemma ensure_calls: "\<forall>c \<in> set (snd (EnsureTorrent te spec meta False)). \<not> changes_torrents c"
  by (auto simp: EnsureTorrent_def await_torrent_def changes_torrents_def split: option.split)

lemma streamFile_calls: "\<forall>c \<in> set (snd (streamTorrentFile rq tor index)). \<not> changes_torrents c"
  by (simp add: streamTorrentFile_def changes_torrents_def)

definition no_change :: "call list \<Rightarrow> bool" where
  "no_change calls \<longleftrightarrow> (\<forall>c \<in> set calls. \<not> changes_torrents c)"

lemma no_change_simps [simp]:
  "no_change []" "no_change (c # calls) \<longleftrightarrow> \<not> changes_torrents c \<and> no_change calls"
  "no_change (calls @ calls') \<longleftrightarrow> no_change calls \<and> no_change calls'"
  by (auto simp: no_change_def)

lemma change_simps [simp]:
  "changes_torrents (AddTorrent h m)" "changes_torrents (LoadFromDB h)" "changes_torrents (SaveToDB h)"
  "\<not> changes_torrents (TouchPlaybackIntent h)" "\<not> changes_torrents (EnqueuePreload h i)" "\<not> changes_torrents (StreamFile h i)"
  "\<not> changes_torrents (WaitInfo h)" "\<not> changes_torrents (EnsureTitle h)"
  by (simp_all add: changes_torrents_def)

lemma bind_no_change: "bindStreamLinkRequest le rq = (b, calls) \<Longrightarrow> no_change calls"
  using bind_calls [of le rq] outer_no_change by (auto simp: no_change_def)

lemma ensure_no_change: "EnsureTorrent te spec meta False = (r, calls) \<Longrightarrow> no_change calls"
  using ensure_calls [of te spec meta] by (auto simp: no_change_def)

lemma streamFile_no_change: "streamTorrentFile rq tor index = (a, calls) \<Longrightarrow> no_change calls"
  using streamFile_calls [of rq tor index] by (auto simp: no_change_def)

lemma streamStat_no_change: "no_change (snd (streamStat le te rq))"
  by (auto simp: streamStat_def dest: bind_no_change split: prod.split option.split)

lemma streamM3U_no_change: "no_change (snd (streamM3U le te rq))"
  by (auto simp: streamM3U_def dest: bind_no_change split: prod.split option.split)

lemma streamPlay_no_change: "isNotAuthRequest rq \<Longrightarrow> no_change (snd (streamPlay le te rq))"
  by (auto simp: streamPlay_def dest: bind_no_change ensure_no_change streamFile_no_change split: prod.split option.split sum.split)

lemma prepare_no_change: "prepareTarget le te rq False v a = (r, calls) \<Longrightarrow> no_change calls"
  by (auto simp: prepareTarget_def dest: bind_no_change ensure_no_change split: prod.splits option.splits sum.splits if_splits)

lemma handleNoAuth_no_change: "no_change (snd (handleNoAuth le te rq))"
  by (auto simp: handleNoAuth_def Let_def dest: prepare_no_change streamFile_no_change split: prod.split sum.split)

lemma compatibility_no_change: "isNotAuthRequest rq \<Longrightarrow> no_change (snd (handleCompatibility le te rq))"
  by (simp add: handleCompatibility_def handleNoAuth_no_change)

lemma play_changes:
  assumes "c \<in> set (snd (play le te rq))" and "changes_torrents c"
  shows "\<exists>h tor. te_Get te h = Some tor \<and> hd_State tor = TorrentInDB \<and> c = AddTorrent h (hd_Meta tor)"
proof -
  have "c \<in> set (snd (ResolvePlay le te (rq_hash rq) (rq_id rq) (isNotAuthRequest rq)))"
    using assms by (auto simp: play_def split: prod.splits sum.splits)
  moreover have "c \<notin> set (snd (torrentparse_ParseLink le (rq_hash rq)))"
    using parse_calls outer_no_change assms(2) by blast
  ultimately show ?thesis using assms(2)
    by (auto simp: ResolvePlay_def play_target_def Let_def split: prod.splits option.splits if_splits)
qed

lemma playList_changes:
  assumes "c \<in> set (snd (playList te rq))"
  shows "\<exists>tor. te_Get te (rq_hash rq) = Some tor \<and> hd_State tor = TorrentInDB \<and> c = LoadFromDB (hd_Hash tor)"
  using assms
  by (auto simp: playList_def BuildPlaylistByHash_def Let_def split: prod.splits option.splits sum.splits if_splits)

text \<open>
  Property C17. What a client without an account can change, while accounts are required: whatever request it makes to a
  playback route, a torrent is added, loaded or saved only by the query save alone of /stream, which asks for no account; by
  /play of a torrent that is stored, which is added with its stored metadata; and by /playlist of a stored torrent, which is
  loaded.
\<close>

theorem unauthorized_changes:
  assumes "no_account rq" and "c \<in> set (snd (serve le te r rq))" and "changes_torrents c"
  shows "(r = StreamLegacy \<and> explicitAction rq = legacyStreamActionSave) \<or>
    (r = PlayHashId \<and> (\<exists>h tor. te_Get te h = Some tor \<and> hd_State tor = TorrentInDB \<and> c = AddTorrent h (hd_Meta tor))) \<or>
    (r = Playlist \<and> (\<exists>tor. te_Get te (rq_hash rq) = Some tor \<and> hd_State tor = TorrentInDB \<and> c = LoadFromDB (hd_Hash tor)))"
proof -
  note none = no_account_refused [OF assms(1)]
  have quiet: "\<not> no_change (snd (serve le te r rq))" using assms(2,3) by (auto simp: no_change_def)
  show ?thesis
  proof (cases r)
    case StreamLegacy
    then have "\<not> no_change (snd (stream le te rq))" using quiet by (simp add: serve_def guarded_route_def)
    then have "explicitAction rq = legacyStreamActionSave"
      using none(1) streamStat_no_change streamM3U_no_change streamPlay_no_change compatibility_no_change
      by (cases "explicitAction rq") (auto simp: stream_def)
    then show ?thesis using StreamLegacy by simp
  next
    case PlayHashId
    then show ?thesis using assms play_changes by (simp add: serve_def guarded_route_def)
  next
    case Playlist
    then show ?thesis using assms playList_changes by (simp add: serve_def guarded_route_def)
  qed (use none quiet streamStat_no_change streamM3U_no_change streamPlay_no_change in \<open>auto simp: serve_def guarded_route_def\<close>)
qed

text \<open>An environment for the examples: one stored torrent, and every link is a hash.\<close>

definition demo_meta :: stream_meta where
  "demo_meta = \<lparr>sm_Title = ''Film'', sm_Poster = [], sm_Category = [], sm_Data = []\<rparr>"

definition demo_handle :: "TorrentStat \<Rightarrow> torrent_handle" where
  "demo_handle s = \<lparr>hd_State = s, hd_Hash = ''f0'', hd_Name = ''Film'', hd_Count = 1, hd_Ready = True,
     hd_Status = \<lparr>st_Hash = ''f0'', st_Title = ''Film'', st_Poster = [], st_FileStats = []\<rparr>, hd_Meta = demo_meta\<rparr>"

definition demo_link :: link_env where
  "demo_link = \<lparr>le_url = \<lambda>l. Some \<lparr>up_Scheme = [], up_String = l, up_Path = l\<rparr>,
     le_magnet = \<lambda>l. Some \<lparr>sp_Hash = drop 20 l, sp_Trackers = [], sp_Name = []\<rparr>, le_request = \<lambda>l. True,
     le_get = \<lambda>l. Failed, le_load = \<lambda>b. None, le_file = \<lambda>p. None, le_windows = False, le_zlib = stored_zlib\<rparr>"

definition demo_torrents :: torrents_env where
  "demo_torrents = \<lparr>te_Get = \<lambda>h. if h = ''f0'' then Some (demo_handle TorrentInDB) else None, te_List = [],
     te_Add = \<lambda>s m. Some (demo_handle TorrentWorking), te_Load = \<lambda>t. None, te_Queue = \<lambda>t i. True, te_Viewed = \<lambda>h. [],
     te_Admit = \<lambda>h. True\<rparr>"

definition api_demo_request :: "string \<Rightarrow> string list \<Rightarrow> api_request" where
  "api_demo_request link query = \<lparr>rq_link = link, rq_title = [], rq_poster = [], rq_category = [], rq_index = ''1'', rq_fname = [],
     rq_hash = link, rq_id = ''1'', rq_query = query, rq_path = ''/stream'', rq_host = [], rq_required = True, rq_account = None, rq_ginUser = [], rq_cancelled = False\<rparr>"

theorem unauthorized_changes_witness:
  "\<exists>h tor. te_Get demo_torrents h = Some tor \<and> hd_State tor = TorrentInDB \<and> AddTorrent ''f0'' demo_meta = AddTorrent h (hd_Meta tor)"
proof -
  have call: "AddTorrent ''f0'' demo_meta \<in> set (snd (serve demo_link demo_torrents PlayHashId (api_demo_request ''f0'' [])))"
    by (simp add: serve_def guarded_route_def play_def ResolvePlay_def play_target_def play_index_def torrentparse_ParseLink_def
        fromMagnet_def api_demo_request_def demo_link_def demo_torrents_def demo_handle_def Let_def to_lower.simps)
  have "no_account (api_demo_request ''f0'' [])" by (simp add: no_account_def api_demo_request_def)
  from unauthorized_changes [OF this call] show ?thesis by auto
qed

text \<open>
  Saving needs no account: while accounts are required, a request without one to /stream whose query has save,
  and none of play, stat and m3u, adds the torrent of its link and saves it in the database, although the route
  /streams/save, which does the same, refuses it.
\<close>

theorem save_asks_no_account:
  assumes "no_account rq" and "rq_query rq = [''link'', ''save'']"
    and "stream_ParseLink le (rq_link rq) (rq_title rq) (rq_poster rq) (rq_category rq) = (Inr (spec, meta), calls)"
    and "te_Get te (sp_Hash spec) = None" and "te_Add te spec meta = Some tor"
  shows "serve le te StreamLegacy rq = (Saved (hd_Hash tor), calls @ [AddTorrent (sp_Hash spec) meta, SaveToDB (hd_Hash tor)]) \<and>
    serve le te StreamsSave rq = (Status 401, [])"
proof -
  have "explicitAction rq = legacyStreamActionSave" by (simp add: explicitAction_def assms(2))
  then show ?thesis
    using assms no_account_refused(2) [OF assms(1)]
    by (simp add: serve_def guarded_route_def stream_def streamSave_def bindStreamLinkRequest_def)
qed

theorem save_asks_no_account_witness:
  "serve demo_link demo_torrents StreamLegacy (api_demo_request ''a1'' [''link'', ''save'']) =
     (Saved ''f0'', [AddTorrent ''a1'' \<lparr>sm_Title = [], sm_Poster = [], sm_Category = [], sm_Data = []\<rparr>, SaveToDB ''f0''])"
proof -
  let ?rq = "api_demo_request ''a1'' [''link'', ''save'']" and ?meta = "\<lparr>sm_Title = [], sm_Poster = [], sm_Category = [], sm_Data = []\<rparr>"
  have parsed: "stream_ParseLink demo_link (rq_link ?rq) (rq_title ?rq) (rq_poster ?rq) (rq_category ?rq) =
      (Inr (\<lparr>sp_Hash = ''a1'', sp_Trackers = [], sp_Name = []\<rparr>, ?meta), [])"
    by (simp add: stream_ParseLink_def api_demo_request_def has_prefix_def torrentparse_ParseLink_def fromMagnet_def demo_link_def Let_def
        to_lower.simps)
  have "no_account ?rq" "rq_query ?rq = [''link'', ''save'']" by (simp_all add: no_account_def api_demo_request_def)
  from save_asks_no_account [OF this parsed, of demo_torrents "demo_handle TorrentWorking"]
  show ?thesis by (simp add: demo_torrents_def demo_handle_def)
qed

text \<open>
  An account changes nothing outside of the guarded group: the handlers do not look at the name that the middleware sets, so
  that a client with an account is refused what one without is refused.
\<close>

lemmas handlers = streamStat_def streamM3U_def streamPlay_def streamSave_def stream_def handleCompatibility_def handleNoAuth_def
  handleAction_def prepareTarget_def bindStreamLinkRequest_def explicitAction_def compatibilityAction_def legacy_sendM3U_def
  streamTorrentFile_def play_def playList_def allPlayList_def

lemma account_is_ignored:
  assumes "\<not> guarded_route r"
  shows "serve le te r (rq\<lparr>rq_account := a\<rparr>) = serve le te r rq"
proof -
  have "serve le te r x = (case r of StreamsStat \<Rightarrow> streamStat le te x | StreamsM3U \<Rightarrow> streamM3U le te x
      | StreamsPlay \<Rightarrow> streamPlay le te x | StreamLegacy \<Rightarrow> stream le te x | PlayHashId \<Rightarrow> play le te x | _ \<Rightarrow> playList te x)" for x
    using assms by (cases r) (simp_all add: serve_def guarded_route_def)
  then show ?thesis
    by (cases rq) (simp only: handlers isNotAuthRequest_def api_request.update_convs api_request.select_convs)
qed

section \<open>What is fetched\<close>

text \<open>
  The compatible endpoint tests a link before it is followed, so without an account it neither fetches an URL nor reads a
  file; the explicit ones, /play and save follow the link first.
\<close>

lemma schemes_lower: "to_lower ''magnet'' = ''magnet''" "to_lower ''torrs'' = ''torrs''" "to_lower [] = []" "to_lower ''http'' = ''http''"
  by (simp_all add: to_lower.simps kelvin_sign_def dotted_capital_I_def lower_char_def lower_table_def)

lemma tested_link_quiet: "TestLink le (rq_link rq) False \<Longrightarrow> snd (bindStreamLinkRequest le rq) = []"
  by (auto simp: TestLink_def bindStreamLinkRequest_def stream_ParseLink_def torrentparse_ParseLink_def schemes_lower Let_def
      split: option.splits prod.splits sum.splits)

lemma inner_simps [simp]:
  "\<not> outer_call (TouchPlaybackIntent h)" "\<not> outer_call (EnqueuePreload h i)" "\<not> outer_call (StreamFile h i)"
  "\<not> outer_call (WaitInfo h)" "\<not> outer_call (EnsureTitle h)" "outer_call (Fetch u)"
  by (simp_all add: outer_call_def)

lemma ensure_inner: "EnsureTorrent te spec meta False = (r, calls) \<Longrightarrow> c \<in> set calls \<Longrightarrow> \<not> outer_call c"
  by (auto simp: EnsureTorrent_def await_torrent_def split: option.splits if_splits)

lemma prepare_inner:
  assumes "TestLink le (rq_link rq) False" and "prepareTarget le te rq False v a = (r, calls)" and "c \<in> set calls"
  shows "\<not> outer_call c"
  using assms(2,3) tested_link_quiet [OF assms(1)]
  by (auto simp: prepareTarget_def dest: ensure_inner split: prod.splits option.splits sum.splits if_splits)

lemma compatibility_fetches_nothing:
  assumes "isNotAuthRequest rq" and "c \<in> set (snd (handleCompatibility le te rq))"
  shows "\<not> outer_call c"
proof -
  have tested: "TestLink le (rq_link rq) False" and c: "c \<in> set (snd (handleNoAuth le te rq))"
    using assms by (auto simp: handleCompatibility_def split: if_splits)
  obtain r calls where p: "prepareTarget le te rq False (asked rq ''play'') (asked rq ''play'') = (r, calls)" by fastforce
  show ?thesis using c prepare_inner [OF tested p]
    by (auto simp: handleNoAuth_def p Let_def streamTorrentFile_def split: sum.splits prod.splits if_splits)
qed

lemma explicit_play_fetches:
  assumes "QueryUnescape (rq_link rq) = Some l" and "rq_link rq \<noteq> []" and "QueryUnescape (rq_title rq) = Some t"
    and "QueryUnescape (rq_poster rq) = Some p" and "QueryUnescape (rq_category rq) = Some g"
    and "\<not> has_prefix l ''torrs://''" and "\<not> IsBase62 l" and "le_url le l = Some u" and "up_Scheme u = ''http''" and "le_request le (up_String u)"
  shows "Fetch (up_String u) \<in> set (snd (serve le te StreamsPlay rq))"
proof -
  have "snd (torrentparse_ParseLink le l) = [Fetch (up_String u)]"
    by (simp add: torrentparse_ParseLink_def assms(8,9,10) schemes_lower fromHTTP_def Let_def)
  then have "snd (bindStreamLinkRequest le rq) = [Fetch (up_String u)]"
    using assms(1-7) by (auto simp: bindStreamLinkRequest_def stream_ParseLink_def split: prod.split option.split)
  then show ?thesis
    by (auto simp: serve_def guarded_route_def streamPlay_def Let_def split: prod.split option.split sum.split)
qed

end
