(* ===== verification/Torrents_API.thy ===== *)
theory Torrents_API
  imports Stream_API
begin

text \<open>
  The administration of torrents over the API (web/api/torrents.go, torrents_binding.go, upload.go, upload_binding.go and the
  methods of apiservices/torrent_service.go that they call): what each action answers and which calls it makes.
\<close>

section \<open>Requests and calls\<close>

datatype admin_call =
    LinkCall call
  | SetTorrent string string string string string
  | RemoveTorrent string
  | DropTorrent string
  | FinalizeMetadata string bool
  | RestartDLNA

datatype admin_answer = AdminStatus int | AdminTorrent torrent_status | AdminList "torrent_status list"

record torr_req =
  tr_Action :: string
  tr_Link :: string
  tr_Hash :: string
  tr_Title :: string
  tr_Category :: string
  tr_Poster :: string
  tr_Data :: string
  tr_SaveToDB :: bool

text \<open>What the handlers read: how busy the streams are, the readers of a torrent, and whether DLNA is on.\<close>

record admin_env =
  ae_streams :: int
  ae_sinceStream :: int \<comment> \<open>nanoseconds since the last activity of a stream\<close>
  ae_readers :: "string \<Rightarrow> int"
  ae_dlna :: bool

record drop_readiness =
  dr_ActiveReaders :: int
  dr_ActiveStreams :: int
  dr_RecentStreamElapsed :: int

definition DropReadiness :: "admin_env \<Rightarrow> torrents_env \<Rightarrow> string \<Rightarrow> drop_readiness" where
  "DropReadiness ae te hash =
     \<lparr>dr_ActiveReaders = (case te_Get te hash of None \<Rightarrow> 0 | Some t \<Rightarrow> ae_readers ae hash), dr_ActiveStreams = ae_streams ae,
      dr_RecentStreamElapsed = max 0 (ae_sinceStream ae)\<rparr>"

text \<open>A request that cannot be read is \<open>None\<close>.\<close>

definition bindTorrentRequest :: "torr_req option \<Rightarrow> torr_req option" where
  "bindTorrentRequest body = (case body of None \<Rightarrow> None | Some req \<Rightarrow> if tr_Action req = [] then None else Some req)"

text \<open>\<open>strings.ReplaceAll\<close> of the entity by the sign itself.\<close>

fun unescape_ampersands :: "string \<Rightarrow> string" where
  "unescape_ampersands (c # d # e # f # g # s) =
     (if [c, d, e, f, g] = ''&amp;'' then CHR ''&'' # unescape_ampersands s else c # unescape_ampersands (d # e # f # g # s))"
| "unescape_ampersands s = s"

definition restart_dlna :: "admin_env \<Rightarrow> admin_call list" where
  "restart_dlna ae = (if ae_dlna ae then [RestartDLNA] else [])"

definition addTorrent ::
    "link_env \<Rightarrow> torrents_env \<Rightarrow> admin_env \<Rightarrow> torr_req \<Rightarrow> admin_answer \<times> admin_call list" where
  "addTorrent le te ae req =
     (if tr_Link req = [] then (AdminStatus 400, [])
      else case stream_ParseLink le (unescape_ampersands (tr_Link req)) (tr_Title req) (tr_Poster req) (tr_Category req) of
        (Inl e, calls) \<Rightarrow> (AdminStatus 400, map LinkCall calls)
      | (Inr (spec, meta), calls) \<Rightarrow>
          (let calls = map LinkCall calls; hash = sp_Hash spec; existing = te_Get te hash
           in if existing \<noteq> None \<and> \<not> IsStored existing
              then (AdminTorrent (hd_Status (the existing)),
                    calls @ (if tr_SaveToDB req then [FinalizeMetadata (hd_Hash (the existing)) True] else []))
              else if \<not> tr_SaveToDB req \<and> \<not> ensurePlaybackAdmission te hash then (AdminStatus 503, calls)
              else let meta = meta\<lparr>sm_Data := tr_Data req\<rparr>
                in case te_Add te spec meta of
                     None \<Rightarrow> (AdminStatus 500, calls @ [LinkCall (AddTorrent hash meta)])
                   | Some tor \<Rightarrow>
                       (AdminTorrent (hd_Status tor),
                        calls @ [LinkCall (AddTorrent hash meta), FinalizeMetadata (hd_Hash tor) (tr_SaveToDB req)] @ restart_dlna ae)))"

definition getTorrent :: "torrents_env \<Rightarrow> torr_req \<Rightarrow> admin_answer \<times> admin_call list" where
  "getTorrent te req =
     (if tr_Hash req = [] then (AdminStatus 400, [])
      else case te_Get te (tr_Hash req) of None \<Rightarrow> (AdminStatus 404, []) | Some t \<Rightarrow> (AdminTorrent (hd_Status t), []))"

definition setTorrent :: "torr_req \<Rightarrow> admin_answer \<times> admin_call list" where
  "setTorrent req =
     (if tr_Hash req = [] then (AdminStatus 400, [])
      else (AdminStatus 200, [SetTorrent (tr_Hash req) (tr_Title req) (tr_Poster req) (tr_Category req) (tr_Data req)]))"

definition remTorrent :: "admin_env \<Rightarrow> torr_req \<Rightarrow> admin_answer \<times> admin_call list" where
  "remTorrent ae req =
     (if tr_Hash req = [] then (AdminStatus 400, []) else (AdminStatus 200, RemoveTorrent (tr_Hash req) # restart_dlna ae))"

definition listTorrents :: "torrents_env \<Rightarrow> admin_answer \<times> admin_call list" where
  "listTorrents te = (AdminList (map hd_Status (te_List te)), [])"

definition dropTorrent :: "admin_env \<Rightarrow> torrents_env \<Rightarrow> torr_req \<Rightarrow> admin_answer \<times> admin_call list" where
  "dropTorrent ae te req =
     (if tr_Hash req = [] then (AdminStatus 400, [])
      else let readiness = DropReadiness ae te (tr_Hash req)
        in if dr_ActiveReaders readiness > 0 then (AdminStatus 409, [])
           else if dr_ActiveStreams readiness > 0 then (AdminStatus 409, [])
           else if dr_RecentStreamElapsed readiness < 5 * 1000000000 then (AdminStatus 409, [])
           else (AdminStatus 200, [DropTorrent (tr_Hash req)]))"

definition ListHashes :: "torrents_env \<Rightarrow> string list" where
  "ListHashes te = filter (\<lambda>h. h \<noteq> []) (map hd_Hash (te_List te))"

definition wipeTorrents :: "admin_env \<Rightarrow> torrents_env \<Rightarrow> admin_answer \<times> admin_call list" where
  "wipeTorrents ae te = (AdminStatus 200, map RemoveTorrent (ListHashes te) @ restart_dlna ae)"

definition torrents_handler ::
    "link_env \<Rightarrow> torrents_env \<Rightarrow> admin_env \<Rightarrow> torr_req option \<Rightarrow> admin_answer \<times> admin_call list" where
  "torrents_handler le te ae body =
     (case bindTorrentRequest body of
        None \<Rightarrow> (AdminStatus 400, [])
      | Some req \<Rightarrow>
          if tr_Action req = ''add'' then addTorrent le te ae req
          else if tr_Action req = ''get'' then getTorrent te req
          else if tr_Action req = ''set'' then setTorrent req
          else if tr_Action req = ''rem'' then remTorrent ae req
          else if tr_Action req = ''list'' then listTorrents te
          else if tr_Action req = ''drop'' then dropTorrent ae te req
          else if tr_Action req = ''wipe'' then wipeTorrents ae te
          else (AdminStatus 400, []))"

section \<open>Uploads\<close>

text \<open>
  A form has lists of values and of files by the names of its fields; a file is the specification that its bytes decode to,
  \<open>None\<close> when it cannot be opened or decoded.
\<close>

record upload_form =
  uf_Value :: "string \<rightharpoonup> string list"
  uf_File :: "(string \<times> link_spec option list) list"

record upload_fields =
  up_Save :: bool
  up_Title :: string
  up_Category :: string
  up_Poster :: string
  up_Data :: string

definition first_field :: "upload_form \<Rightarrow> string \<Rightarrow> string" where
  "first_field form key = (case uf_Value form key of Some (v # vs) \<Rightarrow> v | _ \<Rightarrow> [])"

definition parseUploadForm :: "upload_form \<Rightarrow> upload_fields" where
  "parseUploadForm form =
     \<lparr>up_Save = (case uf_Value form ''save'' of Some (v # vs) \<Rightarrow> True | _ \<Rightarrow> False), up_Title = first_field form ''title'',
      up_Category = first_field form ''category'', up_Poster = first_field form ''poster'', up_Data = first_field form ''data''\<rparr>"

text \<open>The fields of a form are a map: the order of the list is not looked at.\<close>

definition collectUploadFiles :: "upload_form \<Rightarrow> link_spec option list" where
  "collectUploadFiles form = concat (map snd (sort_key fst (uf_File form)))"

definition processUploadFile ::
    "torrents_env \<Rightarrow> upload_fields \<Rightarrow> link_spec option \<Rightarrow> torrent_status option \<times> admin_call list" where
  "processUploadFile te f file =
     (case file of None \<Rightarrow> (None, [])
      | Some spec \<Rightarrow>
          (let meta = \<lparr>sm_Title = up_Title f, sm_Poster = up_Poster f, sm_Category = up_Category f, sm_Data = up_Data f\<rparr>
           in case te_Add te spec meta of
                None \<Rightarrow> (None, [LinkCall (AddTorrent (sp_Hash spec) meta)])
              | Some tor \<Rightarrow> (Some (hd_Status tor),
                  [LinkCall (AddTorrent (sp_Hash spec) meta), FinalizeMetadata (hd_Hash tor) (up_Save f)])))"

text \<open>\<open>cancelled\<close> is how many files are come to before the request is cancelled.\<close>

fun upload_files ::
    "torrents_env \<Rightarrow> upload_fields \<Rightarrow> nat \<Rightarrow> link_spec option list \<Rightarrow> torrent_status list \<times> admin_call list" where
  "upload_files te f 0 files = ([], [])"
| "upload_files te f (Suc n) [] = ([], [])"
| "upload_files te f (Suc n) (file # files) =
     (let (status, calls) = processUploadFile te f file; (statuses, others) = upload_files te f n files
      in ((case status of None \<Rightarrow> [] | Some s \<Rightarrow> [s]) @ statuses, calls @ others))"

datatype form_answer = TooLarge | BadForm | GoodForm upload_form

definition torrentUpload :: "torrents_env \<Rightarrow> nat \<Rightarrow> form_answer \<Rightarrow> admin_answer \<times> admin_call list" where
  "torrentUpload te cancelled form =
     (case form of TooLarge \<Rightarrow> (AdminStatus 413, []) | BadForm \<Rightarrow> (AdminStatus 400, [])
      | GoodForm form \<Rightarrow>
          if uf_File form = [] then (AdminStatus 400, [])
          else (let files = collectUploadFiles form; (statuses, calls) = upload_files te (parseUploadForm form) cancelled files
                in (if statuses = [] then AdminStatus 400
                    else if length files = 1 \<and> length statuses = 1 then AdminTorrent (hd statuses) else AdminList statuses,
                    calls)))"

section \<open>What the actions do\<close>

text \<open>A torrent is dropped over the API only when nothing is streamed, nothing was for five seconds, and nothing reads it.\<close>

lemma drop_is_guarded:
  assumes "DropTorrent hash \<in> set (snd (torrents_handler le te ae body))"
  shows "(te_Get te hash \<noteq> None \<longrightarrow> ae_readers ae hash \<le> 0) \<and> ae_streams ae \<le> 0 \<and> 5000000000 \<le> ae_sinceStream ae"
proof -
  obtain req where req: "bindTorrentRequest body = Some req"
    using assms by (cases "bindTorrentRequest body") (simp_all add: torrents_handler_def)
  have no: "DropTorrent hash \<notin> set (snd (addTorrent le te ae req))" "DropTorrent hash \<notin> set (snd (getTorrent te req))"
    "DropTorrent hash \<notin> set (snd (setTorrent req))" "DropTorrent hash \<notin> set (snd (remTorrent ae req))"
    "DropTorrent hash \<notin> set (snd (listTorrents te))" "DropTorrent hash \<notin> set (snd (wipeTorrents ae te))"
    by (auto simp: addTorrent_def getTorrent_def setTorrent_def remTorrent_def listTorrents_def wipeTorrents_def restart_dlna_def Let_def
        split: prod.split sum.split option.split)
  have "DropTorrent hash \<in> set (snd (dropTorrent ae te req))"
    using assms req no by (auto simp: torrents_handler_def split: if_splits)
  then show ?thesis
    by (auto simp: dropTorrent_def DropReadiness_def Let_def max_def split: if_splits option.splits)
qed

text \<open>
  An addition that is to be saved does not ask for admission, while one that is not saved does; removing and wiping ask for
  nothing.
\<close>

lemma saved_addition_not_admitted:
  assumes "stream_ParseLink le (unescape_ampersands (tr_Link req)) (tr_Title req) (tr_Poster req) (tr_Category req) = (Inr (spec, meta), calls)"
    and "tr_Link req \<noteq> []" and "te_Get te (sp_Hash spec) = None" and "\<not> ensurePlaybackAdmission te (sp_Hash spec)"
  shows "fst (addTorrent le te ae (req\<lparr>tr_SaveToDB := False\<rparr>)) = AdminStatus 503"
    and "te_Add te spec (meta\<lparr>sm_Data := tr_Data req\<rparr>) = Some tor \<Longrightarrow>
         fst (addTorrent le te ae (req\<lparr>tr_SaveToDB := True\<rparr>)) = AdminTorrent (hd_Status tor)"
  using assms by (simp_all add: addTorrent_def Let_def)

text \<open>Each file of an upload that can be added is, in the order of the names of the fields, until the request is cancelled.\<close>

lemma upload_adds:
  "upload_files te f n files =
     (concat (map (\<lambda>file. case fst (processUploadFile te f file) of None \<Rightarrow> [] | Some s \<Rightarrow> [s]) (take n files)),
      concat (map (\<lambda>file. snd (processUploadFile te f file)) (take n files)))"
proof (induction n arbitrary: files)
  case (Suc n)
  then show ?case by (cases files) (simp_all add: Let_def case_prod_beta')
qed simp

end
