(* ===== verification/Torznab_Search.thy ===== *)
theory Torznab_Search
  imports Utilities Settings Go_Paths
begin

text \<open>
  The search for torrents (package torznab): which of the configured servers are asked, the reading of their items, the sizes,
  and the circuit breaker with the retries around each request.

  The requests, XML, net/url and the parsing of dates are arguments.
\<close>

section \<open>Items\<close>

record torznab_item =
  ti_Title :: string
  ti_Link :: string
  ti_PubDate :: string
  ti_Size :: int
  ti_Enclosure :: "(string \<times> int) list" \<comment> \<open>the URLs with the lengths\<close>
  ti_Attributes :: "(string \<times> string) list"

record TorrentDetails =
  dt_Title :: string
  dt_Name :: string
  dt_Link :: string
  dt_Magnet :: string
  dt_Hash :: string
  dt_Size :: string
  dt_Seed :: int
  dt_Peer :: int
  dt_CreateDate :: int

text \<open>What is asked of other packages: the value of xt in the query of an URL, the two layouts of dates, and the clock.\<close>

record search_env =
  sn_xt :: "string \<Rightarrow> string option" \<comment> \<open>\<open>None\<close> for an URL that does not parse\<close>
  sn_RFC1123 :: "string \<Rightarrow> int option"
  sn_RFC1123Z :: "string \<Rightarrow> int option"
  sn_now :: int

definition parseDate :: "search_env \<Rightarrow> string \<Rightarrow> int" where
  "parseDate sn dateStr =
     (case sn_RFC1123 sn dateStr of Some t \<Rightarrow> t
      | None \<Rightarrow> (case sn_RFC1123Z sn dateStr of Some t \<Rightarrow> t | None \<Rightarrow> sn_now sn))"

text \<open>The loop over the powers of 1024: the divisor and its exponent.\<close>

function size_unit :: "int \<Rightarrow> int \<Rightarrow> nat \<Rightarrow> int \<times> nat" where
  "size_unit n d e = (if n \<ge> 1024 then size_unit (n div 1024) (d * 1024) (e + 1) else (d, e))"
  by pat_completeness auto
termination by (relation "measure (\<lambda>(n, d, e). nat n)") auto

declare size_unit.simps [simp del]

text \<open>\<open>%.1f\<close> of a float: the nearest tenth, the even one of two.\<close>

definition one_decimal :: "rat \<Rightarrow> string" where
  "one_decimal x = (let t = round_even (x * 10) in FormatInt (t div 10) @ ''.'' @ FormatInt (t mod 10))"

definition formatSize :: "int \<Rightarrow> string" where
  "formatSize bytes =
     (if bytes < 1024 then FormatInt bytes @ '' B''
      else let (d, e) = size_unit (bytes div 1024) 1024 0
        in one_decimal (float64 (float64 (of_int bytes) / float64 (of_int d))) @ '' '' @ [''KMGTPE'' ! e] @ ''CiB'')"

definition extractHash :: "search_env \<Rightarrow> string \<Rightarrow> string" where
  "extractHash sn magnet =
     (if has_prefix magnet ''magnet:?''
      then (case sn_xt sn magnet of None \<Rightarrow> []
            | Some xt \<Rightarrow> (case strip_prefix ''urn:btih:'' xt of Some h \<Rightarrow> h | None \<Rightarrow> []))
      else [])"

definition read_attribute :: "search_env \<Rightarrow> string \<times> string \<Rightarrow> TorrentDetails \<Rightarrow> TorrentDetails" where
  "read_attribute sn a d =
     (if fst a = ''magneturl'' then d\<lparr>dt_Magnet := snd a, dt_Hash := extractHash sn (snd a)\<rparr>
      else if fst a = ''seeders'' then (case ParseInt (snd a) of Some v \<Rightarrow> d\<lparr>dt_Seed := v\<rparr> | None \<Rightarrow> d)
      else if fst a = ''peers'' then (case ParseInt (snd a) of Some v \<Rightarrow> d\<lparr>dt_Peer := v\<rparr> | None \<Rightarrow> d)
      else d)"

definition parseItem :: "search_env \<Rightarrow> torznab_item \<Rightarrow> TorrentDetails" where
  "parseItem sn item =
     (let d = \<lparr>dt_Title = ti_Title item, dt_Name = ti_Title item, dt_Link = ti_Link item, dt_Magnet = [], dt_Hash = [], dt_Size = [],
            dt_Seed = 0, dt_Peer = 0, dt_CreateDate = parseDate sn (ti_PubDate item)\<rparr>;
          d = (case ti_Enclosure item of
              (url, len) # es \<Rightarrow> d\<lparr>dt_Link := url, dt_Size := formatSize len\<rparr>
            | [] \<Rightarrow> d\<lparr>dt_Size := formatSize (ti_Size item)\<rparr>);
          d = fold (read_attribute sn) (ti_Attributes item) d
      in if dt_Magnet d = [] \<and> has_prefix (dt_Link d) ''magnet:''
         then d\<lparr>dt_Magnet := dt_Link d, dt_Hash := extractHash sn (dt_Link d)\<rparr> else d)"

section \<open>Servers\<close>

text \<open>The rounds of a search at one server, the clock before and after, and the answers that decode to items.\<close>

record server_answer =
  sa_before :: int
  sa_after :: int
  sa_rounds :: "torznab_item list retry_round list"

definition doSearchOne :: "search_env \<Rightarrow> server_answer \<Rightarrow> TorrentDetails list option" where
  "doSearchOne sn a =
     (case retry_Do (retry_DefaultConfig\<lparr>rt_MaxAttempts := 3\<rparr>) (sa_rounds a) of
        Some (RetryValue items, waits) \<Rightarrow> Some (map (parseItem sn) items) | _ \<Rightarrow> None)"

text \<open>The results, \<open>None\<close> for nil, and the breaker afterwards.\<close>

definition searchOne :: "search_env \<Rightarrow> server_answer \<Rightarrow> CircuitBreaker \<Rightarrow> TorrentDetails list option \<times> CircuitBreaker" where
  "searchOne sn a cb =
     (let r = doSearchOne sn a; (outcome, cb) = breaker_Execute (sa_before a) (sa_after a) (r = None) cb
      in (if outcome = Some False then r else None, cb))"

fun search_all ::
    "search_env \<Rightarrow> (TorznabConfig \<Rightarrow> server_answer) \<Rightarrow> TorznabConfig list \<Rightarrow> CircuitBreaker \<Rightarrow>
     TorrentDetails list \<times> CircuitBreaker" where
  "search_all sn ask [] cb = ([], cb)"
| "search_all sn ask (c # cs) cb =
     (if tz_Host c = [] \<or> tz_Key c = [] then search_all sn ask cs cb
      else (let (r, cb) = searchOne sn (ask c) cb; (others, cb) = search_all sn ask cs cb
            in ((case r of None \<Rightarrow> [] | Some ds \<Rightarrow> ds) @ others, cb)))"

definition torznab_Search ::
    "search_env \<Rightarrow> (TorznabConfig \<Rightarrow> server_answer) \<Rightarrow> BTSets option \<Rightarrow> int \<Rightarrow> CircuitBreaker \<Rightarrow>
     TorrentDetails list \<times> CircuitBreaker" where
  "torznab_Search sn ask sets index cb =
     (let cfg = BTSets_SearchConfig sets; urls = se_TorznabURLs cfg
      in if \<not> se_EnableTorznab cfg \<or> urls = [] then ([], cb)
         else if 0 \<le> index \<and> index < int (length urls)
         then (let c = urls ! nat index
               in if tz_Host c \<noteq> [] \<and> tz_Key c \<noteq> []
                  then (let (r, cb) = searchOne sn (ask c) cb in (case r of None \<Rightarrow> [] | Some ds \<Rightarrow> ds, cb))
                  else ([], cb))
         else search_all sn ask urls cb)"

text \<open>What a search asks for: the URL of a server before its query. The query is a map from names to values.\<close>

definition search_url :: "string \<Rightarrow> string" where
  "search_url host = (if has_suffix host ''/'' then host else host @ ''/'') @ ''api''"

definition search_query :: "string \<Rightarrow> string \<Rightarrow> (string \<times> string) list" where
  "search_query key query = [(''apikey'', key), (''t'', ''search''), (''q'', query), (''cat'', ''5000,2000'')]"

definition probe_url :: "string \<Rightarrow> string" where
  "probe_url host =
     search_url (if \<not> has_prefix host ''http://'' \<and> \<not> has_prefix host ''https://'' then ''http://'' @ host else host)"

text \<open>
  The test of a server: the message for an answer with the status, the name of the root element and its two attributes;
  \<open>None\<close> when the server has answered with its capabilities.
\<close>

definition probe_verdict :: "string \<Rightarrow> int \<Rightarrow> (string \<times> string \<times> string) option \<Rightarrow> string option" where
  "probe_verdict status_text status answer =
     (if status \<noteq> 200 then Some (''status: '' @ status_text)
      else case answer of
          None \<Rightarrow> Some ''invalid xml response''
        | Some (name, code, description) \<Rightarrow>
            if name = ''error'' then Some (''api error: '' @ (if description = [] then code else description))
            else if name \<noteq> ''caps'' then Some (''unexpected xml root: '' @ name) else None)"

definition probe_retry :: retry_config where
  "probe_retry = \<lparr>rt_MaxAttempts = 2, rt_InitialDelay = 500000000, rt_MaxDelay = 2 * 1000000000, rt_Multiplier = 2\<rparr>"

text \<open>The test runs under the breaker of the searches; \<open>None\<close> when it is open, otherwise whether the test failed.\<close>

definition torznab_Test :: "int \<Rightarrow> int \<Rightarrow> unit retry_round list \<Rightarrow> CircuitBreaker \<Rightarrow> bool option \<times> CircuitBreaker" where
  "torznab_Test before after rounds cb =
     breaker_Execute before after
       (case retry_Do probe_retry rounds of Some (RetryValue u, waits) \<Rightarrow> False | _ \<Rightarrow> True) cb"

section \<open>What holds of them\<close>

lemma size_unit_power:
  assumes "size_unit n d e = (d', e')" and "1 \<le> n"
  shows "e \<le> e' \<and> d' = d * 1024 ^ (e' - e) \<and> 1024 ^ (e' - e) \<le> n \<and> n < 1024 ^ (e' - e + 1)"
  using assms
proof (induction n d e rule: size_unit.induct)
  case (1 n d e)
  show ?case
  proof (cases "n \<ge> 1024")
    case False
    then show ?thesis using 1(2,3) by (subst (asm) size_unit.simps) auto
  next
    case True
    then have step: "size_unit (n div 1024) (d * 1024) (e + 1) = (d', e')" using 1(2) by (subst (asm) size_unit.simps) simp
    have ge: "1 \<le> n div 1024" using True by simp
    have IH: "e + 1 \<le> e'" "d' = d * 1024 * 1024 ^ (e' - (e + 1))" "1024 ^ (e' - (e + 1)) \<le> n div 1024"
        "n div 1024 < 1024 ^ (e' - (e + 1) + 1)"
      using 1(1) [OF True step ge] by simp_all
    define k where "k = e' - (e + 1)"
    have k: "e' - e = Suc k" using IH(1) by (simp add: k_def)
    have "1024 ^ k \<le> n div 1024" "n div 1024 < 1024 ^ Suc k" using IH(3,4) by (simp_all add: k_def)
    moreover have "n div 1024 * 1024 \<le> n" "n < (n div 1024 + 1) * 1024" by presburger+
    ultimately have "1024 ^ Suc k \<le> n" "n < 1024 ^ Suc (Suc k)" by simp_all
    moreover have "d' = d * 1024 ^ Suc k" using IH(2) by (simp add: k_def)
    ultimately show ?thesis using IH(1) unfolding k by simp
  qed
qed

text \<open>A size of an \<open>int64\<close> has a unit: the index into the letters never leaves them.\<close>

lemma size_letter_exists:
  assumes "1024 \<le> bytes" and "fits_i64 bytes" and "size_unit (bytes div 1024) 1024 0 = (d, e)"
  shows "e < length ''KMGTPE''"
proof -
  have "1 \<le> bytes div 1024" using assms(1) by simp
  then have "1024 ^ e \<le> bytes div 1024" using size_unit_power [OF assms(3)] by simp
  moreover have "bytes div 1024 * 1024 \<le> bytes" by presburger
  then have "bytes div 1024 < 1024 ^ 6" using assms(2) by (simp add: fits_i64_def)
  ultimately have "(1024 :: int) ^ e < 1024 ^ 6" by linarith
  then have "e < 6" by (rule power_less_imp_less_exp [rotated]) simp
  then show ?thesis by simp
qed

text \<open>The unit has a C too many.\<close>

lemma formatSize_unit: "formatSize 1536 = ''1.5 KCiB''"
proof -
  have u: "size_unit 1 1024 0 = (1024, 0)" by (simp add: size_unit.simps)
  have ints: "float64 1536 = 1536" "float64 1024 = 1024" using float64_int [of 1536] float64_int [of 1024] by simp_all
  have "float64 (3 / 2) = 3 / 2" by (rule float64_exact [of 3 _ "-1"]) (simp_all add: power_int_minus)
  then have quotient: "float64 (float64 1536 / float64 1024) = 3 / 2" unfolding ints by simp
  moreover have "one_decimal (3 / 2) = ''1.5''"
    using round_even_int [of 15] by (simp add: one_decimal_def Let_def FormatInt_def digits_of.simps char_of_def bit_0)
  ultimately show ?thesis using u by (simp only: formatSize_def Let_def of_int_numeral split: prod.split) (simp add: quotient)
qed

text \<open>The hash of a result is that of its magnet link, and there is a magnet when the link is one.\<close>

lemma attributes_hash:
  "dt_Hash d = extractHash sn (dt_Magnet d) \<Longrightarrow>
   dt_Hash (fold (read_attribute sn) as d) = extractHash sn (dt_Magnet (fold (read_attribute sn) as d))"
  by (induction as arbitrary: d) (simp_all add: read_attribute_def split: option.split)

lemma parseItem_hash: "dt_Hash (parseItem sn item) = extractHash sn (dt_Magnet (parseItem sn item))"
proof -
  have empty: "extractHash sn [] = []" by (simp add: extractHash_def has_prefix_def)
  show ?thesis
    unfolding parseItem_def Let_def
    by (auto simp: empty intro!: attributes_hash split: list.split)
qed

text \<open>A breaker that is open asks no server and changes nothing, until its time is over.\<close>

lemma blocked_search:
  assumes "cb_state cb = StateOpen" and "\<not> shouldAllowHalfOpen (sa_before a) cb"
  shows "searchOne sn a cb = (None, cb)"
  using assms by (simp add: searchOne_def breaker_Execute_def Allow_def Let_def)

lemma open_breaker_search_all:
  assumes "cb_state cb = StateOpen" and "\<forall>c \<in> set cs. \<not> shouldAllowHalfOpen (sa_before (ask c)) cb"
  shows "search_all sn ask cs cb = ([], cb)"
  using assms by (induction cs) (simp_all add: blocked_search)

end
