(* ===== verification/Capacity_Diagnostics.thy ===== *)
theory Capacity_Diagnostics
  imports Cache_State "HOL-Library.Product_Lexorder"
begin

text \<open>
  The view of the caches for the debug endpoint (torrstor/capacity_diagnostics.go) and the identifiers of torrents in it
  (torr/torrent_runtime_id.go).

  The caches are numbered. The order in which the map of registered caches is visited is an argument; items that the sort
  does not tell apart keep it.
\<close>

section \<open>One cache\<close>

definition maxRequestStrategyCapacityItems :: nat where
  "maxRequestStrategyCapacityItems = 16"

record capacity_item =
  ci_ContractEnabled :: bool
  ci_CapacityCapped :: bool
  ci_CapacityBytes :: int
  ci_PieceLengthBytes :: int
  ci_TorrentPieceCount :: int
  ci_Estimate :: int
  ci_Fault :: string

definition boundedRequestablePieceEstimate :: "int \<Rightarrow> int \<Rightarrow> int \<Rightarrow> int" where
  "boundedRequestablePieceEstimate capacity pieceLength pieceCount =
     (if capacity \<le> 0 \<or> pieceLength \<le> 0 \<or> pieceCount \<le> 0 then 0
      else let estimate = capacity div pieceLength in if estimate > pieceCount then pieceCount else estimate)"

definition requestStrategyCapacityItem :: "cache \<Rightarrow> bool \<Rightarrow> capacity_item" where
  "requestStrategyCapacityItem c contractEnabled =
     (let (capacity, capped) = (if contractEnabled then requestStrategyCapacity (Some c) else (GetCapacity (Some c), False));
          item = \<lparr>ci_ContractEnabled = contractEnabled, ci_CapacityCapped = capped, ci_CapacityBytes = capacity,
            ci_PieceLengthBytes = c_pieceLength c, ci_TorrentPieceCount = c_pieceCount c, ci_Estimate = 0, ci_Fault = []\<rparr>
      in if \<not> contractEnabled \<or> \<not> capped then item\<lparr>ci_Fault := ''missing_capacity_contract''\<rparr>
         else if capacity \<le> 0 \<or> c_pieceLength c \<le> 0 \<or> c_pieceCount c \<le> 0 then item\<lparr>ci_Fault := ''invalid_capacity_contract''\<rparr>
         else item\<lparr>ci_Estimate := boundedRequestablePieceEstimate capacity (c_pieceLength c) (c_pieceCount c)\<rparr>)"

text \<open>An estimate is never more than the pieces of the torrent, and that many pieces fit into the capacity.\<close>

lemma estimate_bounds:
  assumes "0 < capacity" and "0 < pieceLength" and "0 < pieceCount"
  shows "0 \<le> boundedRequestablePieceEstimate capacity pieceLength pieceCount"
    and "boundedRequestablePieceEstimate capacity pieceLength pieceCount \<le> pieceCount"
    and "boundedRequestablePieceEstimate capacity pieceLength pieceCount * pieceLength \<le> capacity"
proof -
  have whole: "capacity div pieceLength * pieceLength \<le> capacity"
    using assms(2) by (metis div_mult_mod_eq le_add_same_cancel1 pos_mod_sign)
  then show "boundedRequestablePieceEstimate capacity pieceLength pieceCount * pieceLength \<le> capacity"
    using assms order_trans [OF mult_right_mono whole, of pieceCount]
    by (simp add: boundedRequestablePieceEstimate_def Let_def)
qed (use assms in \<open>simp_all add: boundedRequestablePieceEstimate_def Let_def pos_imp_zdiv_nonneg_iff\<close>)

section \<open>The registry\<close>

type_synonym capacity_registry = "nat \<rightharpoonup> bool"

definition registerRequestStrategyCapacityDiagnostics ::
    "cache \<Rightarrow> nat \<Rightarrow> bool \<Rightarrow> capacity_registry \<Rightarrow> capacity_registry" where
  "registerRequestStrategyCapacityDiagnostics c k contractEnabled reg =
     (if \<not> debugMetricsEnabled c then reg else reg(k \<mapsto> contractEnabled))"

definition unregisterRequestStrategyCapacityDiagnostics :: "nat \<Rightarrow> capacity_registry \<Rightarrow> capacity_registry" where
  "unregisterRequestStrategyCapacityDiagnostics k reg = reg(k := None)"

definition snapshotRequestStrategyCapacityEntries :: "nat list \<Rightarrow> capacity_registry \<Rightarrow> (nat \<times> bool) list" where
  "snapshotRequestStrategyCapacityEntries order reg =
     List.map_filter (\<lambda>k. map_option (\<lambda>enabled. (k, enabled)) (reg k)) order"

text \<open>Faults first, by their names downwards; then the smaller ones first.\<close>

definition fault_rank :: "string \<Rightarrow> nat" where
  "fault_rank fault =
     (if fault = ''missing_capacity_contract'' then 0 else if fault = ''invalid_capacity_contract'' then 1 else 2)"

definition item_key :: "capacity_item \<Rightarrow> nat \<times> int \<times> int \<times> int" where
  "item_key i = (fault_rank (ci_Fault i), ci_CapacityBytes i, ci_PieceLengthBytes i, ci_TorrentPieceCount i)"

record capacity_diagnostics =
  cd_Status :: string
  cd_Interpretation :: string
  cd_ActiveCaches :: int
  cd_CappedCaches :: int
  cd_UncappedCaches :: int
  cd_InvalidCaches :: int
  cd_OmittedCaches :: int
  cd_Estimate :: int
  cd_Caches :: "capacity_item list"

definition count_item :: "capacity_item \<Rightarrow> capacity_diagnostics \<Rightarrow> capacity_diagnostics" where
  "count_item i d =
     (let d = d\<lparr>cd_Estimate := i64 (cd_Estimate d + ci_Estimate i)\<rparr>
      in if ci_Fault i = ''missing_capacity_contract'' then d\<lparr>cd_UncappedCaches := cd_UncappedCaches d + 1\<rparr>
         else if ci_Fault i = ''invalid_capacity_contract'' then d\<lparr>cd_InvalidCaches := cd_InvalidCaches d + 1\<rparr>
         else d\<lparr>cd_CappedCaches := cd_CappedCaches d + 1\<rparr>)"

definition summarizeRequestStrategyCapacityItems :: "capacity_item list \<Rightarrow> capacity_diagnostics" where
  "summarizeRequestStrategyCapacityItems items =
     (let d = fold count_item items
            \<lparr>cd_Status = ''inactive'', cd_Interpretation = ''no debug-registered torrent storage is active'',
             cd_ActiveCaches = int (length items), cd_CappedCaches = 0, cd_UncappedCaches = 0, cd_InvalidCaches = 0,
             cd_OmittedCaches = 0, cd_Estimate = 0, cd_Caches = items\<rparr>;
          d = (if length items > maxRequestStrategyCapacityItems
               then d\<lparr>cd_OmittedCaches := int (length items) - int maxRequestStrategyCapacityItems,
                      cd_Caches := take maxRequestStrategyCapacityItems items\<rparr>
               else d)
      in if cd_UncappedCaches d > 0
         then d\<lparr>cd_Status := ''fault_missing_capacity'',
                cd_Interpretation := ''active torrent storage is uncapped; request ordering can scan the full torrent''\<rparr>
         else if cd_InvalidCaches d > 0
         then d\<lparr>cd_Status := ''fault_invalid_capacity'',
                cd_Interpretation := ''active torrent storage reported an invalid scheduling capacity''\<rparr>
         else if cd_ActiveCaches d > 0
         then d\<lparr>cd_Status := ''ok'', cd_Interpretation := ''all active torrent storage is bounded for request ordering''\<rparr>
         else d)"

definition SnapshotRequestStrategyCapacityDiagnostics ::
    "(nat \<Rightarrow> cache) \<Rightarrow> nat list \<Rightarrow> capacity_registry \<Rightarrow> capacity_diagnostics" where
  "SnapshotRequestStrategyCapacityDiagnostics caches order reg =
     (let entries = snapshotRequestStrategyCapacityEntries order reg;
          items = map (\<lambda>(k, enabled). requestStrategyCapacityItem (caches k) enabled)
                    (filter (\<lambda>(k, enabled). \<not> c_isClosed (caches k)) entries)
      in summarizeRequestStrategyCapacityItems (sort_key item_key items))"

section \<open>What the endpoint shows\<close>

definition items_with :: "string \<Rightarrow> capacity_item list \<Rightarrow> int" where
  "items_with fault items = int (length (filter (\<lambda>i. ci_Fault i = fault) items))"

lemma items_with_Nil [simp]: "items_with fault [] = 0"
  by (simp add: items_with_def)

lemma count_items:
  assumes "\<forall>i \<in> set items. ci_Fault i \<in> {[], ''missing_capacity_contract'', ''invalid_capacity_contract''}"
  shows "cd_UncappedCaches (fold count_item items d) = cd_UncappedCaches d + items_with ''missing_capacity_contract'' items"
    and "cd_InvalidCaches (fold count_item items d) = cd_InvalidCaches d + items_with ''invalid_capacity_contract'' items"
    and "cd_CappedCaches (fold count_item items d) = cd_CappedCaches d + items_with [] items"
    and "cd_ActiveCaches (fold count_item items d) = cd_ActiveCaches d"
    and "cd_Caches (fold count_item items d) = cd_Caches d"
    and "cd_OmittedCaches (fold count_item items d) = cd_OmittedCaches d"
    and "cd_Status (fold count_item items d) = cd_Status d"
  using assms by (induction items arbitrary: d) (auto simp: count_item_def items_with_def Let_def)

lemma item_fault: "ci_Fault (requestStrategyCapacityItem c e) \<in> {[], ''missing_capacity_contract'', ''invalid_capacity_contract''}"
  by (simp add: requestStrategyCapacityItem_def Let_def split: prod.split)

text \<open>
  The counts are exact, whatever was left out: they are those of all items, at most sixteen items are shown, and the status
  is that of the worst item. A healthy item is shown only when all faulty ones are.
\<close>

lemma items_split:
  assumes "\<forall>i \<in> set items. ci_Fault i \<in> {[], ''missing_capacity_contract'', ''invalid_capacity_contract''}"
  shows "items_with [] items + items_with ''missing_capacity_contract'' items + items_with ''invalid_capacity_contract'' items =
    int (length items)"
  using assms by (induction items) (auto simp: items_with_def)

lemma summary_exact:
  assumes "\<forall>i \<in> set items. ci_Fault i \<in> {[], ''missing_capacity_contract'', ''invalid_capacity_contract''}"
  defines "d \<equiv> summarizeRequestStrategyCapacityItems items"
  shows "cd_ActiveCaches d = int (length items)"
    and "cd_CappedCaches d + cd_UncappedCaches d + cd_InvalidCaches d = cd_ActiveCaches d"
    and "cd_Caches d = take 16 items"
    and "cd_OmittedCaches d + int (length (cd_Caches d)) = cd_ActiveCaches d"
    and "cd_Status d = (if items_with ''missing_capacity_contract'' items > 0 then ''fault_missing_capacity''
           else if items_with ''invalid_capacity_contract'' items > 0 then ''fault_invalid_capacity''
           else if items \<noteq> [] then ''ok'' else ''inactive'')"
  using items_split [OF assms(1)]
  by (simp_all add: d_def summarizeRequestStrategyCapacityItems_def Let_def count_items [OF assms(1)] maxRequestStrategyCapacityItems_def)

lemma faults_shown_first:
  assumes "sorted (map item_key items)" and "i \<in> set (take n items)" and "j \<in> set (drop n items)"
  shows "fault_rank (ci_Fault i) \<le> fault_rank (ci_Fault j)"
proof -
  have "sorted (map item_key (take n items) @ map item_key (drop n items))"
    using assms(1) by (metis append_take_drop_id map_append)
  then have "item_key i \<le> item_key j" using assms(2,3) unfolding sorted_append by simp
  then show ?thesis by (auto simp: item_key_def less_eq_prod_def split: if_splits)
qed

section \<open>Identifiers of torrents\<close>

record runtime_ids =
  ri_next :: nat
  ri_ids :: "string \<rightharpoonup> nat"

definition torrentRuntimeID :: "string \<Rightarrow> runtime_ids \<Rightarrow> nat \<times> runtime_ids" where
  "torrentRuntimeID hash s =
     (case ri_ids s hash of
        Some n \<Rightarrow> (n, s)
      | None \<Rightarrow> let n = ri_next s + 1 in (n, \<lparr>ri_next = n, ri_ids = (ri_ids s)(hash \<mapsto> n)\<rparr>))"

definition RuntimeDiagnosticID :: "string option \<Rightarrow> runtime_ids \<Rightarrow> nat \<times> runtime_ids" where
  "RuntimeDiagnosticID t s = (case t of None \<Rightarrow> (0, s) | Some hash \<Rightarrow> torrentRuntimeID hash s)"

definition runtime_run :: "string list \<Rightarrow> runtime_ids" where
  "runtime_run hashes = foldl (\<lambda>s h. snd (torrentRuntimeID h s)) \<lparr>ri_next = 0, ri_ids = Map.empty\<rparr> hashes"

definition ids_ok :: "runtime_ids \<Rightarrow> bool" where
  "ids_ok s \<longleftrightarrow> inj_on (ri_ids s) (dom (ri_ids s)) \<and> (\<forall>h n. ri_ids s h = Some n \<longrightarrow> 0 < n \<and> n \<le> ri_next s)"

lemma torrentRuntimeID_ok:
  assumes "ids_ok s"
  shows "ids_ok (snd (torrentRuntimeID h s))"
    and "ri_ids (snd (torrentRuntimeID h s)) h = Some (fst (torrentRuntimeID h s))"
    and "ri_ids s g = Some n \<Longrightarrow> ri_ids (snd (torrentRuntimeID h s)) g = Some n"
proof -
  show "ids_ok (snd (torrentRuntimeID h s))"
  proof (cases "ri_ids s h")
    case None
    have "ri_ids s g \<noteq> Some (Suc (ri_next s))" for g
      using assms by (auto simp: ids_ok_def dest: spec [of _ g])
    then show ?thesis using assms None
      by (auto simp: ids_ok_def torrentRuntimeID_def Let_def inj_on_def dom_def intro: le_SucI split: if_splits)
  qed (simp add: torrentRuntimeID_def assms)
qed (auto simp: torrentRuntimeID_def Let_def split: option.split)

text \<open>A torrent keeps its identifier for the life of the process, no two torrents share one, and none is 0.\<close>

lemma runtime_ids_stable:
  assumes "ri_ids (runtime_run hashes) h = Some n" and "ri_ids (runtime_run (hashes @ later)) g = Some m"
  shows "ri_ids (runtime_run (hashes @ later)) h = Some n" and "m = n \<longleftrightarrow> g = h" and "0 < n"
proof -
  have ok: "ids_ok (runtime_run hs)" for hs
    unfolding runtime_run_def
    by (induction hs rule: rev_induct) (simp_all add: torrentRuntimeID_ok, simp add: ids_ok_def)
  show kept: "ri_ids (runtime_run (hashes @ later)) h = Some n"
  proof (induction later rule: rev_induct)
    case (snoc x xs)
    then show ?case using torrentRuntimeID_ok(3) [OF ok [of "hashes @ xs"]] by (simp add: runtime_run_def)
  qed (simp add: assms(1))
  show "m = n \<longleftrightarrow> g = h"
    using kept assms(2) ok [of "hashes @ later"] by (auto simp: ids_ok_def inj_on_def dom_def)
  show "0 < n" using kept ok [of "hashes @ later"] by (auto simp: ids_ok_def)
qed

end
