(* ===== verification/Daemon.thy ===== *)
theory Daemon
  imports Go_Paths Config_Loading
begin

text \<open>
  The process around the server: its arguments (internal/daemon/args.go), its run and supervision (internal/daemon/runner.go,
  bootstrap/bootstrap.go, internal/app/app.go, internal/app/runtime_server.go), the ports (internal/startup/checks.go), and the
  removal of unused caches after the start (bootstrap/cleanup.go).

  The parser of flags, the listeners, the file system and the order of events are arguments.
\<close>

section \<open>Arguments\<close>

record exec_args =
  ea_Port :: string
  ea_IP :: string
  ea_Ssl :: bool
  ea_SslPort :: string
  ea_SslCert :: string
  ea_SslKey :: string
  ea_Path :: string
  ea_LogPath :: string
  ea_WebLogPath :: string
  ea_RDB :: bool
  ea_HTTPAuth :: bool
  ea_SearchWA :: bool
  ea_FusePath :: string
  ea_WebDAV :: bool
  ea_ProxyURL :: string
  ea_ProxyMode :: string
  ea_ShutdownMode :: string
  ea_ShutdownToken :: string

definition managementCommands :: "(string \<times> string) list" where
  "managementCommands = map (\<lambda>c. (c, ''torrctl '' @ c))
     [''auth'', ''completion'', ''config'', ''context'', ''settings'', ''shutdown'', ''status'', ''torrents'', ''url'']"

definition managementValueFlags :: "string list" where
  "managementValueFlags = [''--context'', ''--output'', ''--pass'', ''--server'', ''--timeout'', ''--token'', ''--user'']"

definition normalizeServeArgs :: "string list \<Rightarrow> string list \<times> bool" where
  "normalizeServeArgs args = (case args of [] \<Rightarrow> (args, False) | a # rest \<Rightarrow> if a \<noteq> ''serve'' then (args, False) else (rest, True))"

definition isVersionRequest :: "string list \<Rightarrow> bool" where
  "isVersionRequest args \<longleftrightarrow> args = [''--version''] \<or> args = [''-v'']"

definition splitFlag :: "string \<Rightarrow> string \<times> bool" where
  "splitFlag value = (let (flag, rest) = split_first CHR ''='' value in (flag, rest \<noteq> None))"

fun formerManagementCommand :: "string list \<Rightarrow> (string \<times> string) option" where
  "formerManagementCommand [] = None"
| "formerManagementCommand (value # args) =
     (case map_of managementCommands value of
        Some replacement \<Rightarrow> Some (value, replacement)
      | None \<Rightarrow>
          if value = ''--insecure'' then formerManagementCommand args
          else let (flag, inlineValue) = splitFlag value
            in if flag \<notin> set managementValueFlags then None
               else formerManagementCommand (if inlineValue then args else tl args))"

datatype args_error =
    ManagementCommand string string
  | VersionRequested
  | VersionNotWritten
  | HelpRequested
  | InvalidArguments
  | ParserNotCreated

text \<open>The answer of the library: no parser, the request for help, an error, or the arguments.\<close>

datatype parser_answer = NoParser | AsksHelp | Refused string | Understood exec_args

definition parseProcessArgs :: "(string list \<Rightarrow> parser_answer) \<Rightarrow> bool \<Rightarrow> string list \<Rightarrow> args_error + exec_args" where
  "parseProcessArgs parser writable args =
     (let (args, explicitServe) = normalizeServeArgs args
      in case (if explicitServe then None else formerManagementCommand args) of
           Some (command, replacement) \<Rightarrow> Inl (ManagementCommand command replacement)
         | None \<Rightarrow>
             if isVersionRequest args then Inl (if writable then VersionRequested else VersionNotWritten)
             else (case parser args of
                 NoParser \<Rightarrow> Inl ParserNotCreated
               | AsksHelp \<Rightarrow> Inl HelpRequested
               | Refused e \<Rightarrow> Inl InvalidArguments
               | Understood a \<Rightarrow> Inr a))"

definition args_UserMessage :: "args_error \<Rightarrow> string" where
  "args_UserMessage e = (case e of
     ManagementCommand command replacement \<Rightarrow>
       ''torrserver '' @ command @ '': management commands moved to torrctl; use `'' @ replacement @ ''`''
   | InvalidArguments \<Rightarrow>
       ''torrserver: invalid daemon arguments; usage: torrserver serve [flags]; run `torrserver serve --help`''
   | VersionRequested \<Rightarrow> ''daemon version requested''
   | VersionNotWritten \<Rightarrow> ''write version''
   | HelpRequested \<Rightarrow> ''daemon help requested''
   | ParserNotCreated \<Rightarrow> ''create argument parser'')"

text \<open>
  What the process says of arguments that it does not take has no value of a flag in it: it is one of a fixed list of messages,
  whatever the arguments are.
\<close>

definition safe_messages :: "string list" where
  "safe_messages = map args_UserMessage
     ([InvalidArguments, VersionRequested, VersionNotWritten, HelpRequested, ParserNotCreated] @
      map (\<lambda>(c, r). ManagementCommand c r) managementCommands)"

lemma formerManagementCommand_known: "formerManagementCommand args = Some (c, r) \<Longrightarrow> (c, r) \<in> set managementCommands"
  by (induction args rule: formerManagementCommand.induct)
    (auto dest: map_of_SomeD split: option.splits if_splits prod.splits)

lemma args_message_safe: "parseProcessArgs parser writable args = Inl e \<Longrightarrow> args_UserMessage e \<in> set safe_messages"
  using formerManagementCommand_known
  by (fastforce simp: parseProcessArgs_def safe_messages_def Let_def
      split: prod.splits option.splits if_splits parser_answer.splits)

section \<open>Arguments, configuration and ports\<close>

definition applyArgumentOverrides :: "exec_args \<Rightarrow> Config \<Rightarrow> Config" where
  "applyArgumentOverrides a c =
     (let s = co_Server c;
          s = (if ea_Ssl a then s\<lparr>sv_SSL := True\<rparr> else s);
          s = (if ea_SslCert a \<noteq> [] then s\<lparr>sv_SSLCert := ea_SslCert a, sv_SSLKey := ea_SslKey a\<rparr> else s)
      in c\<lparr>co_Server := s\<rparr>)"

definition applyConfigToArgs :: "Config option \<Rightarrow> exec_args \<Rightarrow> exec_args" where
  "applyConfigToArgs cfg a =
     (case cfg of None \<Rightarrow> a
      | Some c \<Rightarrow> let s = co_Server c in
          a\<lparr>ea_Port := or_str (ea_Port a) (sv_Port s), ea_Ssl := ea_Ssl a \<or> sv_SSL s,
            ea_SslPort := or_str (ea_SslPort a) (sv_SSLPort s), ea_SslCert := or_str (ea_SslCert a) (sv_SSLCert s),
            ea_SslKey := or_str (ea_SslKey a) (sv_SSLKey s), ea_HTTPAuth := ea_HTTPAuth a \<or> sv_HTTPAuth s,
            ea_SearchWA := ea_SearchWA a \<or> sv_SearchWA s, ea_ShutdownMode := or_str (ea_ShutdownMode a) (sv_ShutdownMode s)\<rparr>)"

datatype port_error = PortInUse string string | ProbeFailed string string | ProbeNotClosed string string

text \<open>What a probe of an address gives: the port is free, taken, cannot be listened on, or the probe cannot be closed.\<close>

datatype probe = Free | Taken | Unusable | NotClosed

definition ensurePortFree :: "(string \<Rightarrow> string \<Rightarrow> probe) \<Rightarrow> string \<Rightarrow> string \<Rightarrow> string \<Rightarrow> port_error option" where
  "ensurePortFree listen ip port label =
     (case listen ip port of Free \<Rightarrow> None | Taken \<Rightarrow> Some (PortInUse label port)
      | Unusable \<Rightarrow> Some (ProbeFailed label port) | NotClosed \<Rightarrow> Some (ProbeNotClosed label port))"

definition prepareSSL ::
    "(string \<Rightarrow> string \<Rightarrow> probe) \<Rightarrow> exec_args \<Rightarrow> BTSets \<Rightarrow> port_error option \<times> exec_args \<times> BTSets" where
  "prepareSSL listen a sets =
     (let (a, sets) =
        (if ea_SslPort a = []
         then (let dbSSLPort = FormatInt (SslPort sets)
               in (a\<lparr>ea_SslPort := (if dbSSLPort \<noteq> ''0'' then dbSSLPort else ''8091'')\<rparr>, sets))
         else (a, case ParseInt (ea_SslPort a) of None \<Rightarrow> sets | Some p \<Rightarrow> sets\<lparr>SslPort := p\<rparr>))
      in (ensurePortFree listen (ea_IP a) (ea_SslPort a) ''ssl'', a, sets))"

definition PrepareNetwork ::
    "(string \<Rightarrow> string \<Rightarrow> probe) \<Rightarrow> exec_args \<Rightarrow> BTSets \<Rightarrow> port_error option \<times> exec_args \<times> BTSets" where
  "PrepareNetwork listen a sets =
     (let (err, a, sets) = (if ea_Ssl a then prepareSSL listen a sets else (None, a, sets))
      in if err \<noteq> None then (err, a, sets)
         else let a = a\<lparr>ea_Port := or_str (ea_Port a) ''8090''\<rparr>
           in (ensurePortFree listen (ea_IP a) (ea_Port a) ''http'', a, sets))"

record runtime_view =
  rv_Path :: string
  rv_IP :: string
  rv_Port :: string
  rv_Ssl :: bool
  rv_SslPort :: string
  rv_HTTPAuth :: bool
  rv_SearchWA :: bool

text \<open>
  The start of the runtime up to the web server: the arguments and settings in use, or the error. \<open>init\<close> is the start of the
  settings, which gives the record that was loaded.
\<close>

datatype start_error = NoArgs | SettingsFailed | PortError port_error

definition runtime_Start ::
    "int \<Rightarrow> (string \<Rightarrow> string \<Rightarrow> probe) \<Rightarrow> BTSets option \<Rightarrow> Config option \<Rightarrow> exec_args option \<Rightarrow>
     start_error + runtime_view \<times> exec_args \<times> BTSets" where
  "runtime_Start cpus listen init cfg args =
     (case args of None \<Rightarrow> Inl NoArgs
      | Some a \<Rightarrow>
          let a = applyConfigToArgs cfg a
          in case init of None \<Rightarrow> Inl SettingsFailed
             | Some sets \<Rightarrow>
                 (let (err, a, sets) = PrepareNetwork listen a sets
                  in case err of Some e \<Rightarrow> Inl (PortError e)
                     | None \<Rightarrow>
                         let sets = (if ea_Ssl a \<and> ea_SslCert a \<noteq> [] \<and> ea_SslKey a \<noteq> []
                               then sets\<lparr>SslCert := ea_SslCert a, SslKey := ea_SslKey a\<rparr> else sets);
                             sets = (case cfg of None \<Rightarrow> sets | Some c \<Rightarrow> ApplyToBTSets cpus c sets)
                         in Inr (\<lparr>rv_Path = ea_Path a, rv_IP = ea_IP a, rv_Port = ea_Port a, rv_Ssl = ea_Ssl a,
                                 rv_SslPort = ea_SslPort a, rv_HTTPAuth = ea_HTTPAuth a, rv_SearchWA = ea_SearchWA a\<rparr>, a, sets)))"

text \<open>
  The stored TLS port is never used by the daemon: its configuration always names a port, which fills the arguments before
  the stored one is looked at.
\<close>

lemma stored_ssl_port_unused:
  assumes "cfg = applyDefaults c"
  shows "ea_SslPort (fst (snd (PrepareNetwork listen (applyConfigToArgs (Some cfg) a) sets))) =
         ea_SslPort (fst (snd (PrepareNetwork listen (applyConfigToArgs (Some cfg) a) sets')))"
proof -
  have "sv_SSLPort (co_Server cfg) \<noteq> []" by (simp add: assms applyDefaults_def or_str_def)
  then have "ea_SslPort (applyConfigToArgs (Some cfg) a) \<noteq> []" by (simp add: applyConfigToArgs_def or_str_def Let_def)
  then show ?thesis by (simp add: PrepareNetwork_def prepareSSL_def Let_def split: prod.split)
qed

section \<open>The run of the process\<close>

datatype stage = StageArguments | StageConfig | StageBootstrap | StageStart | StageWait | StageStop

datatype daemon_event = RuntimeExited "string option" | SignalReceived | ContextDone

datatype daemon_step = LoggerInit | LoadConfig | SetStaticConfig | NewLifecycle | LifecycleStart | LifecycleStop | LoggerClose

record daemon_env =
  de_args :: "args_error + exec_args"
  de_config :: "Config option" \<comment> \<open>\<open>None\<close> for an error or no configuration\<close>
  de_bootstrap :: bool \<comment> \<open>whether the life cycle can be made\<close>
  de_start :: bool
  de_event :: daemon_event \<comment> \<open>the first of the events that are waited for\<close>
  de_stop :: bool

type_synonym daemon_result = "int \<times> stage list"

definition stopLifecycle :: "daemon_env \<Rightarrow> daemon_result \<times> daemon_step list" where
  "stopLifecycle e = (if de_stop e then ((0, []), [LifecycleStop]) else ((1, [StageStop]), [LifecycleStop]))"

definition stopAfterRuntimeFailure :: "daemon_env \<Rightarrow> daemon_result \<times> daemon_step list" where
  "stopAfterRuntimeFailure e =
     (let ((code, stages), steps) = stopLifecycle e in ((1, if stages \<noteq> [] then StageWait # stages else [StageWait]), steps))"

definition supervise :: "daemon_env \<Rightarrow> daemon_result \<times> daemon_step list" where
  "supervise e =
     (case de_event e of
        RuntimeExited None \<Rightarrow> ((0, []), [])
      | RuntimeExited (Some err) \<Rightarrow> stopAfterRuntimeFailure e
      | SignalReceived \<Rightarrow> stopLifecycle e
      | ContextDone \<Rightarrow> stopLifecycle e)"

definition run_initialized :: "daemon_env \<Rightarrow> daemon_result \<times> daemon_step list" where
  "run_initialized e =
     (case de_config e of
        None \<Rightarrow> ((1, [StageConfig]), [LoadConfig])
      | Some cfg \<Rightarrow>
          if \<not> de_bootstrap e then ((1, [StageBootstrap]), [LoadConfig, SetStaticConfig, NewLifecycle])
          else if \<not> de_start e then ((1, [StageStart]), [LoadConfig, SetStaticConfig, NewLifecycle, LifecycleStart])
          else (let (r, steps) = supervise e in (r, [LoadConfig, SetStaticConfig, NewLifecycle, LifecycleStart] @ steps)))"

definition daemon_Run :: "daemon_env \<Rightarrow> daemon_result \<times> daemon_step list" where
  "daemon_Run e =
     (case de_args e of
        Inl err \<Rightarrow> if err = HelpRequested \<or> err = VersionRequested then ((0, []), []) else ((2, [StageArguments]), [])
      | Inr args \<Rightarrow> (let (r, steps) = run_initialized e in (r, LoggerInit # steps @ [LoggerClose])))"

definition started :: "daemon_env \<Rightarrow> bool" where
  "started e \<longleftrightarrow> isl (de_args e) = False \<and> de_config e \<noteq> None \<and> de_bootstrap e \<and> de_start e"

lemmas daemon_defs = daemon_Run_def run_initialized_def supervise_def stopLifecycle_def stopAfterRuntimeFailure_def started_def

text \<open>
  A life cycle that was started is stopped exactly once, unless the runtime has ended by itself without an error; the logger
  is closed last; and the process ends with 0 exactly when nothing failed.
\<close>

lemma daemon_stops_once:
  "count_list (snd (daemon_Run e)) LifecycleStop = (if started e \<and> de_event e \<noteq> RuntimeExited None then 1 else 0)"
  by (auto simp: daemon_defs split: sum.split option.split daemon_event.split)

lemma daemon_closes_log: "LoggerInit \<in> set (snd (daemon_Run e)) \<Longrightarrow> last (snd (daemon_Run e)) = LoggerClose"
  by (auto simp: daemon_defs split: sum.splits prod.splits if_splits)

lemma daemon_exit_code:
  "fst (fst (daemon_Run e)) = 0 \<longleftrightarrow>
     de_args e \<in> {Inl HelpRequested, Inl VersionRequested} \<or>
     (started e \<and> (de_event e = RuntimeExited None \<or> (de_event e \<in> {SignalReceived, ContextDone} \<and> de_stop e)))"
  by (auto simp: daemon_defs split: sum.split option.split daemon_event.split)

lemma daemon_error_named: "fst (fst (daemon_Run e)) = 0 \<longleftrightarrow> snd (fst (daemon_Run e)) = []"
  by (auto simp: daemon_defs split: sum.split option.split daemon_event.split)

section \<open>The removal of unused caches\<close>

text \<open>
  A directory is the list of its entries. What the file system answers is a function of the path; a directory that is not
  empty cannot be removed.
\<close>

datatype fs_node = PlainFile | Folder "(string \<times> fs_node) list"

datatype fs_answer = Done | Missing | Fails

record cleanup_env =
  cu_readDir :: "string \<Rightarrow> fs_answer"
  cu_remove :: "string \<Rightarrow> fs_answer"
  cu_cancelled :: "string \<Rightarrow> bool" \<comment> \<open>whether the context has ended when an entry is come to\<close>

datatype cleanup_error = Cancelled | NotRead string | NotRemoved string

definition path_of :: "string \<Rightarrow> string \<Rightarrow> string" where
  "path_of dir name = path_clean (dir @ ''/'' @ name)"

text \<open>What is left of a node, and the error that ended the removal.\<close>

fun removeAllFiles :: "cleanup_env \<Rightarrow> string \<Rightarrow> fs_node \<Rightarrow> fs_node option \<times> cleanup_error option"
  and remove_entries :: "cleanup_env \<Rightarrow> string \<Rightarrow> (string \<times> fs_node) list \<Rightarrow> (string \<times> fs_node) list \<times> cleanup_error option" where
  "removeAllFiles env path PlainFile =
     (case cu_remove env path of Fails \<Rightarrow> (Some PlainFile, Some (NotRemoved path)) | _ \<Rightarrow> (None, None))"
| "removeAllFiles env path (Folder es) =
     (case cu_readDir env path of
        Missing \<Rightarrow> (Some (Folder es), None)
      | Fails \<Rightarrow> (Some (Folder es), Some (NotRead path))
      | Done \<Rightarrow>
          (case remove_entries env path es of
             (left, Some e) \<Rightarrow> (Some (Folder left), Some e)
           | (left, None) \<Rightarrow>
               if left \<noteq> [] then (Some (Folder left), Some (NotRemoved path))
               else (case cu_remove env path of Fails \<Rightarrow> (Some (Folder []), Some (NotRemoved path)) | _ \<Rightarrow> (None, None))))"
| "remove_entries env path [] = ([], None)"
| "remove_entries env path ((name, node) # es) =
     (if cu_cancelled env (path_of path name) then ((name, node) # es, Some Cancelled)
      else (case removeAllFiles env (path_of path name) node of
          (left, Some e) \<Rightarrow> ((case left of None \<Rightarrow> [] | Some n \<Rightarrow> [(name, n)]) @ es, Some e)
        | (left, None) \<Rightarrow>
            (let (others, err) = remove_entries env path es
             in ((case left of None \<Rightarrow> [] | Some n \<Rightarrow> [(name, n)]) @ others, err))))"

text \<open>A directory of a cache that is to go: its name is as long as a hash, and no stored torrent needs it.\<close>

definition unused_cache :: "bool \<Rightarrow> string list \<Rightarrow> string \<Rightarrow> fs_node \<Rightarrow> bool" where
  "unused_cache removeOnDrop active name node \<longleftrightarrow>
     length name = 40 \<and> node \<noteq> PlainFile \<and> (removeOnDrop \<or> name \<notin> set active)"

fun cleanup_dirs ::
    "cleanup_env \<Rightarrow> string \<Rightarrow> bool \<Rightarrow> string list \<Rightarrow> (string \<times> fs_node) list \<Rightarrow> (string \<times> fs_node) list" where
  "cleanup_dirs env save removeOnDrop active [] = []"
| "cleanup_dirs env save removeOnDrop active ((name, node) # es) =
     (if cu_cancelled env (path_of save name) then (name, node) # es
      else if \<not> unused_cache removeOnDrop active name node
      then (name, node) # cleanup_dirs env save removeOnDrop active es
      else (case removeAllFiles env (path_of save name) node of
          (left, Some e) \<Rightarrow> (case left of None \<Rightarrow> [] | Some n \<Rightarrow> [(name, n)]) @ es
        | (left, None) \<Rightarrow>
            (case left of None \<Rightarrow> [] | Some n \<Rightarrow> [(name, n)]) @ cleanup_dirs env save removeOnDrop active es))"

definition runCacheCleanup ::
    "cleanup_env \<Rightarrow> BTSets option \<Rightarrow> string list \<Rightarrow> (string \<times> fs_node) list \<Rightarrow> (string \<times> fs_node) list" where
  "runCacheCleanup env cfg active es =
     (case cfg of None \<Rightarrow> es
      | Some s \<Rightarrow>
          if \<not> UseDisk s \<or> TorrentsSavePath s = ''/'' \<or> TorrentsSavePath s = [] then es
          else if cu_readDir env (TorrentsSavePath s) \<noteq> Done then es
          else cleanup_dirs env (TorrentsSavePath s) (RemoveCacheOnDrop s) active es)"

text \<open>Whatever fails: what is not an unused cache stays as it is and where it is, and nothing else appears.\<close>

definition spared :: "bool \<Rightarrow> string list \<Rightarrow> (string \<times> fs_node) list \<Rightarrow> (string \<times> fs_node) list" where
  "spared removeOnDrop active es = filter (\<lambda>(name, node). \<not> unused_cache removeOnDrop active name node) es"

lemma left_of_folder: "fst (removeAllFiles env path (Folder es)) \<noteq> Some PlainFile"
  by (auto split: fs_answer.split prod.split option.split)

lemma left_is_unused:
  assumes "unused_cache r active name node" and "removeAllFiles env path node = (Some n, err)"
  shows "unused_cache r active name n"
proof -
  obtain es where "node = Folder es" using assms(1) by (cases node) (auto simp: unused_cache_def)
  then have "n \<noteq> PlainFile" using left_of_folder [of env path es] assms(2) by simp
  then show ?thesis using assms(1) by (simp add: unused_cache_def)
qed

lemma cleanup_dirs_spares: "spared r active (cleanup_dirs env save r active es) = spared r active es"
proof (induction env save r active es rule: cleanup_dirs.induct)
  case (2 env save r active name node es)
  show ?case
  proof (cases "cu_cancelled env (path_of save name) \<or> \<not> unused_cache r active name node")
    case True
    then show ?thesis using 2(1) by (auto simp: spared_def)
  next
    case False
    obtain left err where rm: "removeAllFiles env (path_of save name) node = (left, err)" by fastforce
    have "spared r active (case left of None \<Rightarrow> [] | Some n \<Rightarrow> [(name, n)]) = []"
      using False rm left_is_unused by (auto simp: spared_def split: option.split)
    then show ?thesis using False 2(2) rm by (cases err) (auto simp: spared_def)
  qed
qed (simp add: spared_def)

text \<open>When everything can be removed and nothing cancels it, exactly the unused caches are gone.\<close>

definition quiet :: "cleanup_env \<Rightarrow> bool" where
  "quiet env \<longleftrightarrow> cu_readDir env = (\<lambda>p. Done) \<and> cu_remove env = (\<lambda>p. Done) \<and> cu_cancelled env = (\<lambda>p. False)"

lemma removeAll_quiet:
  "quiet env \<Longrightarrow> removeAllFiles env path node = (None, None)"
  "quiet env \<Longrightarrow> remove_entries env path es = ([], None)"
  by (induction env path node and env path es rule: removeAllFiles_remove_entries.induct) (simp_all add: quiet_def)

lemma cleanup_dirs_quiet: "quiet env \<Longrightarrow> cleanup_dirs env save r active es = spared r active es"
  by (induction env save r active es rule: cleanup_dirs.induct) (auto simp: removeAll_quiet spared_def, simp_all add: quiet_def)

text \<open>
  Property C40. The removal of unused caches after the start touches nothing else. Whatever the file system answers and
  whenever it is cancelled, an entry of the directory for torrents stays unchanged, and in its place, unless it is a directory
  whose name has 40 bytes and, if caches are not removed on drop, is the hash of no stored torrent; when all goes well exactly those
  are gone; and without the disk cache, or with the root or nothing for a directory, nothing is touched at all.
\<close>

theorem cleanup_touches_unused_caches:
  "(\<forall>s. cfg = Some s \<longrightarrow>
      spared (RemoveCacheOnDrop s) active (runCacheCleanup env cfg active es) = spared (RemoveCacheOnDrop s) active es \<and>
      (quiet env \<and> UseDisk s \<and> TorrentsSavePath s \<notin> {[], ''/''} \<longrightarrow>
        runCacheCleanup env cfg active es = spared (RemoveCacheOnDrop s) active es) \<and>
      (\<not> UseDisk s \<or> TorrentsSavePath s \<in> {[], ''/''} \<longrightarrow> runCacheCleanup env cfg active es = es)) \<and>
   (cfg = None \<longrightarrow> runCacheCleanup env cfg active es = es)"
  by (auto simp: runCacheCleanup_def cleanup_dirs_spares cleanup_dirs_quiet) (simp_all add: quiet_def)

theorem cleanup_touches_unused_caches_witness:
  "runCacheCleanup \<lparr>cu_readDir = \<lambda>p. Done, cu_remove = \<lambda>p. Done, cu_cancelled = \<lambda>p. False\<rparr>
     (Some (zero_BTSets\<lparr>UseDisk := True, TorrentsSavePath := ''/c''\<rparr>)) [replicate 40 CHR ''a'']
     [(''notes'', PlainFile), (replicate 40 CHR ''a'', Folder []), (replicate 40 CHR ''b'', Folder [(''1'', PlainFile)])] =
   [(''notes'', PlainFile), (replicate 40 CHR ''a'', Folder [])]"
proof -
  let ?env = "\<lparr>cu_readDir = \<lambda>p. Done, cu_remove = \<lambda>p. Done, cu_cancelled = \<lambda>p. False\<rparr>"
  let ?sets = "zero_BTSets\<lparr>UseDisk := True, TorrentsSavePath := ''/c''\<rparr>"
  have "quiet ?env" "UseDisk ?sets" "TorrentsSavePath ?sets \<notin> {[], ''/''}" by (simp_all add: quiet_def)
  then have "runCacheCleanup ?env (Some ?sets) [replicate 40 CHR ''a'']
     [(''notes'', PlainFile), (replicate 40 CHR ''a'', Folder []), (replicate 40 CHR ''b'', Folder [(''1'', PlainFile)])] =
     spared (RemoveCacheOnDrop ?sets) [replicate 40 CHR ''a'']
     [(''notes'', PlainFile), (replicate 40 CHR ''a'', Folder []), (replicate 40 CHR ''b'', Folder [(''1'', PlainFile)])]"
    using cleanup_touches_unused_caches [of "Some ?sets" "[replicate 40 CHR ''a'']" ?env] by blast
  then show ?thesis by (simp add: spared_def unused_cache_def zero_BTSets_def)
qed

end
