(* ===== verification/Client_Config.thy ===== *)
theory Client_Config
  imports Stream_Policy Auth_Gate Daemon
begin

text \<open>
  The configuration of the torrent client (torr/btserver_config.go, with the table of private networks of torr/btserver.go)
  and of its proxy (package proxy).

  The defaults of the library, the parsing of URLs, the random letters of an identifier and the services that tell the public
  address are arguments.
\<close>

section \<open>Private addresses\<close>

definition bytes_of_ip :: "ip \<Rightarrow> nat list" where
  "bytes_of_ip ip = map of_char ip"

text \<open>The methods of \<open>net.IP\<close>; the bytes of an IPv4 address, or all 16.\<close>

definition ip_bytes :: "ip \<Rightarrow> nat list" where
  "ip_bytes ip = (case To4 ip of Some v4 \<Rightarrow> bytes_of_ip v4 | None \<Rightarrow> bytes_of_ip ip)"

definition IsPrivate :: "ip \<Rightarrow> bool" where
  "IsPrivate ip =
     (let b = ip_bytes ip
      in if length b = 4
         then b ! 0 = 10 \<or> (b ! 0 = 172 \<and> b ! 1 div 16 = 1) \<or> (b ! 0 = 192 \<and> b ! 1 = 168)
         else length b = 16 \<and> b ! 0 div 2 = 126)"

definition IsLinkLocalUnicast :: "ip \<Rightarrow> bool" where
  "IsLinkLocalUnicast ip =
     (let b = ip_bytes ip
      in if length b = 4 then b ! 0 = 169 \<and> b ! 1 = 254 else length b = 16 \<and> b ! 0 = 254 \<and> b ! 1 div 64 = 2)"

definition IsLinkLocalMulticast :: "ip \<Rightarrow> bool" where
  "IsLinkLocalMulticast ip =
     (let b = ip_bytes ip
      in if length b = 4 then b ! 0 = 224 \<and> b ! 1 = 0 \<and> b ! 2 = 0 else length b = 16 \<and> b ! 0 = 255 \<and> b ! 1 mod 16 = 2)"

text \<open>A network is the bytes of its number and the length of its prefix in bits.\<close>

definition initPrivateIPBlocks :: "(nat list \<times> nat) list" where
  "initPrivateIPBlocks =
     [([127, 0, 0, 0], 8), ([10, 0, 0, 0], 8), ([172, 16, 0, 0], 12), ([192, 168, 0, 0], 16), ([169, 254, 0, 0], 16),
      (replicate 15 0 @ [1], 128), (254 # 128 # replicate 14 0, 10), (252 # replicate 15 0, 7)]"

fun same_prefix :: "nat \<Rightarrow> nat list \<Rightarrow> nat list \<Rightarrow> bool" where
  "same_prefix n [] [] = True"
| "same_prefix n (a # as) (b # bs) \<longleftrightarrow> a div 2 ^ (8 - min 8 n) = b div 2 ^ (8 - min 8 n) \<and> same_prefix (n - 8) as bs"
| "same_prefix n as bs = False"

definition block_Contains :: "nat list \<times> nat \<Rightarrow> ip \<Rightarrow> bool" where
  "block_Contains block ip = same_prefix (snd block) (fst block) (ip_bytes ip)"

definition isPrivateIP :: "ip \<Rightarrow> bool" where
  "isPrivateIP ip \<longleftrightarrow>
     IsLoopback ip \<or> IsPrivate ip \<or> IsLinkLocalUnicast ip \<or> IsLinkLocalMulticast ip \<or>
     (\<exists>block \<in> set initPrivateIPBlocks. block_Contains block ip)"

section \<open>The proxy\<close>

datatype proxy_mode = ModeTracker | ModePeers | ModeFull

definition ParseMode :: "string \<Rightarrow> proxy_mode" where
  "ParseMode s = (if s = ''peers'' then ModePeers else if s = ''full'' then ModeFull else ModeTracker)"

record proxy_url =
  pu_Scheme :: string
  pu_Host :: string

record proxy_config =
  px_URL :: proxy_url
  px_Mode :: proxy_mode

definition proxy_Validate :: "proxy_config \<Rightarrow> bool" where
  "proxy_Validate c \<longleftrightarrow>
     pu_Scheme (px_URL c) \<in> set [''socks5'', ''socks5h'', ''socks4'', ''socks4a'', ''http'', ''https'']"

datatype proxy_error = InvalidProxyURL | UnsupportedScheme string

definition proxy_NewConfig :: "(string \<Rightarrow> proxy_url option) \<Rightarrow> string \<Rightarrow> string \<Rightarrow> proxy_error + proxy_config option" where
  "proxy_NewConfig parse proxyURL mode =
     (if proxyURL = [] then Inr None
      else case parse proxyURL of
          None \<Rightarrow> Inl InvalidProxyURL
        | Some u \<Rightarrow>
            (let cfg = \<lparr>px_URL = u, px_Mode = ParseMode mode\<rparr>
             in if proxy_Validate cfg then Inr (Some cfg) else Inl (UnsupportedScheme (pu_Scheme u))))"

text \<open>
  A dialer is made by the first connection, and so is its error. \<open>socks\<close> and \<open>from_url\<close> tell whether the library makes a
  dialer for the host, or for the URL; the connection itself is left to it.
\<close>

record dialer =
  di_cfg :: proxy_config
  di_made :: bool
  di_err :: "string option"

definition createProxyDialer :: "(string \<Rightarrow> string option) \<Rightarrow> (proxy_url \<Rightarrow> string option) \<Rightarrow> proxy_config \<Rightarrow> string option" where
  "createProxyDialer socks from_url c =
     (let u = px_URL c
      in if pu_Scheme u = ''socks5'' \<or> pu_Scheme u = ''socks5h'' then socks (pu_Host u)
         else if pu_Scheme u \<in> set [''socks4'', ''socks4a'', ''http'', ''https''] then from_url u
         else Some ''unsupported proxy scheme'')"

definition getProxyDialer ::
    "(string \<Rightarrow> string option) \<Rightarrow> (proxy_url \<Rightarrow> string option) \<Rightarrow> dialer \<Rightarrow> string option \<times> dialer" where
  "getProxyDialer socks from_url d =
     (if di_made d then (None, d)
      else case di_err d of
          Some e \<Rightarrow> (Some e, d)
        | None \<Rightarrow>
            (case createProxyDialer socks from_url (di_cfg d) of
               Some e \<Rightarrow> (Some e, d\<lparr>di_err := Some e\<rparr>)
             | None \<Rightarrow> (None, d\<lparr>di_made := True\<rparr>)))"

section \<open>The client\<close>

record client_config =
  cl_Debug :: bool
  cl_Silent :: bool \<comment> \<open>the log of the library is discarded\<close>
  cl_DisableWebtorrent :: bool
  cl_DisableIPv6 :: bool
  cl_DisableTCP :: bool
  cl_DisableUTP :: bool
  cl_NoDefaultPortForwarding :: bool
  cl_NoDHT :: bool
  cl_DisablePEX :: bool
  cl_NoUpload :: bool
  cl_LocalServiceDiscovery :: "bool option" \<comment> \<open>over IPv6 as well\<close>
  cl_Bep20 :: string
  cl_PeerID :: string
  cl_UpnpID :: string
  cl_HTTPUserAgent :: string
  cl_ClientVersion :: string
  cl_EstablishedConnsPerTorrent :: int
  cl_HalfOpenConnsPerTorrent :: int
  cl_TotalHalfOpenConns :: int
  cl_TorrentPeersLowWater :: int
  cl_TorrentPeersHighWater :: int
  cl_ForceEncrypt :: bool \<comment> \<open>the obfuscation of headers is preferred and required\<close>
  cl_DownloadLimit :: "(int \<times> int) option" \<comment> \<open>bytes per second and burst\<close>
  cl_Seed :: bool
  cl_UploadLimit :: "(int \<times> int) option"
  cl_MaxUnverifiedBytes :: int
  cl_ListenAddr :: "string option"
  cl_ListenPort :: int
  cl_PublicIp4 :: "ip option"
  cl_PublicIp6 :: "ip option"
  cl_HTTPProxy :: "proxy_url option"
  cl_HTTPDial :: bool \<comment> \<open>connections for HTTP are made by the dialer of the proxy\<close>

record identity_config =
  ic_PubIPv4 :: string
  ic_PubIPv6 :: string
  ic_TorAddr :: string

definition rate_Limit :: "int \<Rightarrow> (int \<times> int) option" where
  "rate_Limit i = (if i > 0 then Some (i, max i (16 * 1024)) else None)"

text \<open>\<open>letters\<close> is the text that the identifier is filled up with.\<close>

definition PeerIDRandom :: "string \<Rightarrow> string \<Rightarrow> string" where
  "PeerIDRandom letters peer = peer @ take (20 - length peer) letters"

definition localServiceDiscoveryConfig :: "NetworkConfig \<Rightarrow> bool option" where
  "localServiceDiscoveryConfig c = (if \<not> nc_EnableLPD c then None else Some (nc_LPDIPv6 c \<and> nc_EnableIPv6 c))"

definition buildClientConfig ::
    "client_config \<Rightarrow> string \<Rightarrow> string \<Rightarrow> BTSets \<Rightarrow> identity_config \<Rightarrow> client_config" where
  "buildClientConfig defaults version letters sets identity =
     (let net = BTSets_NetworkConfig (Some sets); debug = BTSets_DebugConfig (Some sets);
          userAgent = ''qBittorrent/4.3.9''; peerID = ''-qB4390-'';
          policy = connectionPolicyForSettings (Some sets) (cl_EstablishedConnsPerTorrent defaults);
          c = defaults
            \<lparr>cl_Debug := dc_EnableDebug debug \<and> \<not> dc_ServiceOnlyDebug debug,
             cl_Silent := cl_Silent defaults \<or> dc_ServiceOnlyDebug debug,
             cl_DisableWebtorrent := True, cl_DisableIPv6 := \<not> nc_EnableIPv6 net, cl_DisableTCP := nc_DisableTCP net,
             cl_DisableUTP := nc_DisableUTP net, cl_NoDefaultPortForwarding := nc_DisableUPNP net,
             cl_NoDHT := nc_DisableDHT net, cl_DisablePEX := nc_DisablePEX net, cl_NoUpload := nc_DisableUpload net,
             cl_LocalServiceDiscovery := localServiceDiscoveryConfig net, cl_Bep20 := peerID,
             cl_PeerID := PeerIDRandom letters peerID, cl_UpnpID := ''TorrServer/'' @ version,
             cl_HTTPUserAgent := userAgent, cl_ClientVersion := userAgent,
             cl_EstablishedConnsPerTorrent := cp_effectiveConns policy,
             cl_HalfOpenConnsPerTorrent := maxInt (cp_effectiveConns policy) (cl_HalfOpenConnsPerTorrent defaults),
             cl_TotalHalfOpenConns := cp_totalHalfOpen policy, cl_TorrentPeersLowWater := cp_peerLowWater policy,
             cl_TorrentPeersHighWater := cp_peerHighWater policy\<rparr>;
          c = (if nc_ForceEncrypt net then c\<lparr>cl_ForceEncrypt := True\<rparr> else c);
          c = (if nc_DownloadRateLimitKB net > 0
               then c\<lparr>cl_DownloadLimit := rate_Limit (i64 (nc_DownloadRateLimitKB net * 1024))\<rparr> else c);
          c = (if nc_UploadRateLimitKB net > 0
               then c\<lparr>cl_Seed := True, cl_UploadLimit := rate_Limit (i64 (nc_UploadRateLimitKB net * 1024))\<rparr> else c);
          c = (if debugMaxUnverifiedBytes debug > 0
               then c\<lparr>cl_MaxUnverifiedBytes := debugMaxUnverifiedBytes debug\<rparr> else c)
      in if ic_TorAddr identity \<noteq> [] then c\<lparr>cl_ListenAddr := Some (ic_TorAddr identity)\<rparr>
         else if nc_PeersListenPort net > 0 then c\<lparr>cl_ListenPort := nc_PeersListenPort net\<rparr>
         else c\<lparr>cl_ListenPort := 0\<rparr>)"

text \<open>\<open>found\<close> is the answer of the service that tells the public address.\<close>

definition detectPublicIPv4 :: "ip option \<Rightarrow> identity_config \<Rightarrow> client_config \<Rightarrow> client_config" where
  "detectPublicIPv4 found identity c =
     (let stored = (if ic_PubIPv4 identity = [] then None else ParseIP (ic_PubIPv4 identity));
          usable = (case stored of None \<Rightarrow> False | Some ip4 \<Rightarrow> To4 ip4 \<noteq> None \<and> \<not> isPrivateIP ip4)
      in if usable then c\<lparr>cl_PublicIp4 := stored\<rparr>
         else if cl_PublicIp4 c \<noteq> None then c
         else case found of None \<Rightarrow> c | Some ip \<Rightarrow> if To4 ip = None then c else c\<lparr>cl_PublicIp4 := Some ip\<rparr>)"

definition detectPublicIPv6 :: "ip option \<Rightarrow> identity_config \<Rightarrow> bool \<Rightarrow> client_config \<Rightarrow> bool \<times> client_config" where
  "detectPublicIPv6 found identity enableIPv6 c =
     (if \<not> enableIPv6 then (False, c)
      else let stored = (if ic_PubIPv6 identity = [] then None else ParseIP (ic_PubIPv6 identity));
               usable = (case stored of None \<Rightarrow> False | Some ip6 \<Rightarrow> To4 ip6 = None \<and> \<not> isPrivateIP ip6)
        in if usable then (True, c\<lparr>cl_PublicIp6 := stored\<rparr>)
           else if cl_PublicIp6 c \<noteq> None then (True, c)
           else case found of
               None \<Rightarrow> (False, c)
             | Some ip \<Rightarrow> if length ip \<noteq> 4 \<and> length ip \<noteq> 16 then (False, c) else (True, c\<lparr>cl_PublicIp6 := Some ip\<rparr>))"

definition configureProxy ::
    "(string \<Rightarrow> proxy_url option) \<Rightarrow> exec_args option \<Rightarrow> client_config \<Rightarrow> proxy_error option \<times> client_config" where
  "configureProxy parse args c =
     (case args of None \<Rightarrow> (None, c)
      | Some a \<Rightarrow>
          (case proxy_NewConfig parse (ea_ProxyURL a) (ea_ProxyMode a) of
             Inl e \<Rightarrow> (Some e, c)
           | Inr None \<Rightarrow> (None, c)
           | Inr (Some p) \<Rightarrow>
               (None, case px_Mode p of
                  ModeTracker \<Rightarrow> c\<lparr>cl_HTTPProxy := Some (px_URL p)\<rparr>
                | _ \<Rightarrow> c\<lparr>cl_HTTPDial := True, cl_HTTPProxy := Some (px_URL p)\<rparr>)))"

record client_env =
  ce_defaults :: client_config
  ce_version :: string
  ce_letters :: string
  ce_parse :: "string \<Rightarrow> proxy_url option"
  ce_found4 :: "ip option"
  ce_found6 :: "ip option"

definition bt_configure :: "client_env \<Rightarrow> exec_args option \<Rightarrow> identity_config \<Rightarrow> BTSets \<Rightarrow> client_config" where
  "bt_configure env args identity sets =
     (let c = buildClientConfig (ce_defaults env) (ce_version env) (ce_letters env) sets identity;
          c = snd (configureProxy (ce_parse env) args c);
          c = detectPublicIPv4 (ce_found4 env) identity c;
          (found, c) = detectPublicIPv6 (ce_found6 env) identity (EnableIPv6 sets) c
      in if \<not> found \<and> EnableIPv6 sets then c\<lparr>cl_DisableIPv6 := True\<rparr> else c)"

section \<open>What holds of it\<close>

text \<open>
  The methods of \<open>net.IP\<close> add nothing but the link-local multicast addresses to the table: every other address that counts as
  private lies in one of its networks.
\<close>

lemma byte_bound [simp]: "(of_char c :: nat) < 256"
  using range_nat_of_char by (metis atLeastLessThan_iff rangeI)

lemma loopback4: "To4 ip = Some v4 \<Longrightarrow> v4 \<noteq> [] \<Longrightarrow> IsLoopback ip \<longleftrightarrow> ip_bytes ip ! 0 = 127"
  using of_char_eq_iff [of "hd v4" "CHR 0x7F", where ?'a = nat]
  by (cases v4) (simp_all add: IsLoopback_def ip_bytes_def bytes_of_ip_def)

lemma loopback16: "To4 ip = None \<Longrightarrow> IsLoopback ip \<longleftrightarrow> ip_bytes ip = replicate 15 0 @ [1]"
proof -
  assume none: "To4 ip = None"
  have "ip = replicate 15 (CHR 0x00) @ [CHR 0x01] \<longleftrightarrow> bytes_of_ip ip = bytes_of_ip (replicate 15 (CHR 0x00) @ [CHR 0x01])"
    unfolding bytes_of_ip_def by (simp only: inj_map_eq_map [OF inj_of_char])
  then show ?thesis using none by (simp add: IsLoopback_def ip_bytes_def bytes_of_ip_def)
qed

lemma To4_length: "To4 ip = Some v4 \<Longrightarrow> length v4 = 4"
  by (auto simp: To4_def split: if_splits)

lemma private4:
  assumes "To4 ip = Some v4" and "length ip = 4 \<or> length ip = 16"
  shows "isPrivateIP ip \<longleftrightarrow> IsLinkLocalMulticast ip \<or> (\<exists>block \<in> set initPrivateIPBlocks. block_Contains block ip)"
proof -
  obtain p q r t where v4: "v4 = [p, q, r, t]" using To4_length [OF assms(1)] by (auto simp: numeral_eq_Suc length_Suc_conv)
  have b: "ip_bytes ip = [of_char p, of_char q, of_char r, of_char t]" using assms(1) v4 by (simp add: ip_bytes_def bytes_of_ip_def)
  have lo: "IsLoopback ip \<longleftrightarrow> of_char p = (127 :: nat)" using loopback4 [OF assms(1)] v4 b by simp
  show ?thesis
    unfolding isPrivateIP_def lo
    using byte_bound [of p] byte_bound [of q]
    by (auto simp: IsPrivate_def IsLinkLocalUnicast_def initPrivateIPBlocks_def block_Contains_def b)
qed

lemma ex16: "length xs = 16 \<Longrightarrow> \<exists>a b ys. xs = a # b # ys \<and> length ys = 14"
  by (cases xs; cases "tl xs") auto

lemma same_prefix_0: "length as = length bs \<Longrightarrow> \<forall>a \<in> set as. a < 256 \<Longrightarrow> \<forall>b \<in> set bs. b < 256 \<Longrightarrow> same_prefix 0 as bs"
  by (induction as bs rule: list_induct2) simp_all

lemma same_prefix_all: "length as = length bs \<Longrightarrow> same_prefix (8 * length as) as bs \<longleftrightarrow> as = bs"
  by (induction as bs rule: list_induct2) simp_all

lemma private16:
  assumes "To4 ip = None" and "length ip = 16"
  shows "isPrivateIP ip \<longleftrightarrow> IsLinkLocalMulticast ip \<or> (\<exists>block \<in> set initPrivateIPBlocks. block_Contains block ip)"
proof -
  have bytes: "ip_bytes ip = bytes_of_ip ip" using assms(1) by (simp add: ip_bytes_def)
  then have len: "length (ip_bytes ip) = 16" using assms(2) by (simp add: bytes_of_ip_def)
  then obtain a b ys where b: "ip_bytes ip = a # b # ys" "length ys = 14" using ex16 by blast
  have "\<forall>c \<in> set (ip_bytes ip). c < 256" unfolding bytes by (auto simp: bytes_of_ip_def)
  then have small: "a < 256" "b < 256" "\<forall>c \<in> set ys. c < 256" unfolding b by simp_all
  have r15: "replicate 15 (0 :: nat) = 0 # replicate 14 0" by (simp add: numeral_eq_Suc)
  have lo: "IsLoopback ip \<longleftrightarrow> block_Contains (replicate 15 0 @ [1], 128) ip"
    using same_prefix_all [of "replicate 15 0 @ [1]" "ip_bytes ip"] loopback16 [OF assms(1)] len by (auto simp: block_Contains_def)
  have ula: "IsPrivate ip \<longleftrightarrow> block_Contains (252 # replicate 15 0, 7) ip"
    using small same_prefix_0 [of "0 # replicate 14 0" "b # ys"] b(2)
    by (simp add: IsPrivate_def block_Contains_def b(1) r15)
  have ll: "IsLinkLocalUnicast ip \<longleftrightarrow> block_Contains (254 # 128 # replicate 14 0, 10) ip"
    using small same_prefix_0 [of "replicate 14 0" ys] b(2)
    by (simp add: IsLinkLocalUnicast_def block_Contains_def b(1))
  show ?thesis unfolding isPrivateIP_def lo ula ll by (auto simp: initPrivateIPBlocks_def)
qed

text \<open>The IP version 6 is switched off exactly when it is not wanted, or there is no public address of it.\<close>

lemma ipv6_needs_address:
  "cl_DisableIPv6 (bt_configure env args identity sets) \<longleftrightarrow>
     \<not> EnableIPv6 sets \<or> cl_PublicIp6 (bt_configure env args identity sets) = None"
proof -
  define c where "c = detectPublicIPv4 (ce_found4 env) identity (snd (configureProxy (ce_parse env) args
      (buildClientConfig (ce_defaults env) (ce_version env) (ce_letters env) sets identity)))"
  have built: "cl_DisableIPv6 (buildClientConfig d v l sets identity) \<longleftrightarrow> \<not> EnableIPv6 sets" for d v l
    by (simp add: buildClientConfig_def BTSets_NetworkConfig_def Let_def)
  have "cl_DisableIPv6 c \<longleftrightarrow> \<not> EnableIPv6 sets"
    unfolding c_def by (simp add: detectPublicIPv4_def configureProxy_def built Let_def
        split: option.split sum.split proxy_mode.split)
  then show ?thesis
    unfolding bt_configure_def Let_def c_def [symmetric]
    by (auto simp: detectPublicIPv6_def Let_def split: option.split prod.split)
qed

text \<open>
  Whatever the mode of the proxy is, only HTTP goes through it: nothing else of the configuration changes. And a proxy that
  cannot be used is no error: the client is configured as if there were none.
\<close>

lemma proxy_covers_http_only:
  "(snd (configureProxy parse args c))\<lparr>cl_HTTPProxy := proxy, cl_HTTPDial := dial\<rparr> =
   c\<lparr>cl_HTTPProxy := proxy, cl_HTTPDial := dial\<rparr>"
  by (simp add: configureProxy_def split: option.split sum.split proxy_mode.split)

lemma refused_proxy_ignored:
  assumes "proxy_NewConfig (ce_parse env) (ea_ProxyURL a) (ea_ProxyMode a) = Inl e"
  shows "bt_configure env (Some a) identity sets = bt_configure env None identity sets"
  using assms by (simp add: bt_configure_def configureProxy_def)

text \<open>An address that the operator names is published as it is, unless it is private.\<close>

lemma named_address_published:
  assumes "ic_PubIPv4 identity \<noteq> []" and "ParseIP (ic_PubIPv4 identity) = Some ip" and "To4 ip \<noteq> None"
  shows "cl_PublicIp4 (detectPublicIPv4 found identity c) =
    (if \<not> isPrivateIP ip then Some ip
     else if cl_PublicIp4 c \<noteq> None then cl_PublicIp4 c
     else case found of None \<Rightarrow> None | Some other \<Rightarrow> if To4 other = None then None else found)"
  using assms by (simp add: detectPublicIPv4_def Let_def split: option.split)

lemma peer_id_length: "12 \<le> length letters \<Longrightarrow> length (PeerIDRandom letters ''-qB4390-'') = 20"
  by (simp add: PeerIDRandom_def)

text \<open>What is seeded depends on the limit of the uploads: without one the client keeps the default of the library.\<close>

lemma seeds_with_limit_only:
  "cl_Seed (buildClientConfig d v l sets identity) \<longleftrightarrow> cl_Seed d \<or> UploadRateLimit sets > 0"
  by (simp add: buildClientConfig_def BTSets_NetworkConfig_def Let_def)

text \<open>A dialer that could not be made is not tried again.\<close>

lemma dialer_error_kept:
  assumes "getProxyDialer socks from_url d = (Some e, d')"
  shows "getProxyDialer socks' from_url' d' = (Some e, d')"
  using assms by (auto simp: getProxyDialer_def split: if_splits option.splits)

end
