(* ===== verification/Error_Text.thy ===== *)
theory Error_Text
  imports Go_Paths
begin

text \<open>
  What the management client shows of errors and of texts of a server (internal/apiclient/errors.go, and the same functions of
  internal/cliapp/output.go): credentials are blotted out, control characters replaced, the length is bounded.

  The regular expressions are written out as matchers. Their classes are of ASCII, so that they go byte by byte; without
  regard to case the letters s and k match U+017F and U+212A as well.
\<close>

section \<open>Matching without regard to case\<close>

definition s_long :: string where
  "s_long = [CHR 0xC5, CHR 0xBF]"

text \<open>One character of a pattern in lower case, at the beginning of a text: what follows it.\<close>

definition fold_letter :: "char \<Rightarrow> string \<Rightarrow> string option" where
  "fold_letter p s =
     (case s of [] \<Rightarrow> None
      | c # cs \<Rightarrow>
          if lower_char c = p then Some cs
          else if p = CHR ''s'' then strip_prefix s_long s
          else if p = CHR ''k'' then strip_prefix kelvin_sign s else None)"

fun fold_prefix :: "string \<Rightarrow> string \<Rightarrow> string option" where
  "fold_prefix [] s = Some s"
| "fold_prefix (p # ps) s = (case fold_letter p s of None \<Rightarrow> None | Some r \<Rightarrow> fold_prefix ps r)"

text \<open>The class of blanks of a regular expression.\<close>

definition re_space :: "char \<Rightarrow> bool" where
  "re_space c \<longleftrightarrow> c \<in> {CHR '' '', CHR 0x09, CHR 0x0A, CHR 0x0C, CHR 0x0D}"

fun first_some :: "('a \<Rightarrow> 'b option) \<Rightarrow> 'a list \<Rightarrow> 'b option" where
  "first_some f [] = None"
| "first_some f (x # xs) = (case f x of None \<Rightarrow> first_some f xs | Some y \<Rightarrow> Some y)"

lemma fold_letter_shorter: "fold_letter p s = Some r \<Longrightarrow> \<exists>u. u \<noteq> [] \<and> s = u @ r"
  by (auto simp: fold_letter_def s_long_def kelvin_sign_def strip_prefix_Some split: list.splits if_splits)

lemma fold_prefix_split: "fold_prefix q s = Some r \<Longrightarrow> \<exists>u. s = u @ r"
proof (induction q s rule: fold_prefix.induct)
  case (2 p ps s)
  then obtain r' where r': "fold_letter p s = Some r'" "fold_prefix ps r' = Some r" by (auto split: option.splits)
  obtain u where "s = u @ r'" using fold_letter_shorter [OF r'(1)] by blast
  moreover obtain u' where "r' = u' @ r" using 2(1) [OF r'(1) r'(2)] by blast
  ultimately show ?case by simp
qed simp

section \<open>Credentials\<close>

definition before :: "string \<Rightarrow> string \<Rightarrow> string" where
  "before s r = take (length s - length r) s"

lemma before_append [simp]: "before (u @ r) r = u"
  by (simp add: before_def)

text \<open>\<open>credentialURLPattern\<close>: the scheme that is kept, and what follows the sign.\<close>

definition credential_at :: "string \<Rightarrow> (string \<times> string) option" where
  "credential_at s =
     (case first_some (\<lambda>q. fold_prefix q s) [''https://'', ''http://''] of
        None \<Rightarrow> None
      | Some r \<Rightarrow>
          (let inside = (\<lambda>c. c \<noteq> CHR ''/'' \<and> c \<noteq> CHR ''@'' \<and> \<not> re_space c)
           in case dropWhile inside r of
                c # rest \<Rightarrow> if c = CHR ''@'' \<and> takeWhile inside r \<noteq> [] then Some (before s r, rest) else None
              | [] \<Rightarrow> None))"

lemma credential_at_shorter: "credential_at s = Some (u, r) \<Longrightarrow> length r < length s"
proof -
  assume at: "credential_at s = Some (u, r)"
  then obtain r' where r': "first_some (\<lambda>q. fold_prefix q s) [''https://'', ''http://''] = Some r'"
    by (auto simp: credential_at_def split: option.splits)
  then have "\<exists>u. s = u @ r'" by (auto split: option.splits dest: fold_prefix_split simp del: fold_prefix.simps)
  then have "length r' \<le> length s" by auto
  moreover have "length r < length r'"
  proof -
    define inside where "inside = (\<lambda>c. c \<noteq> CHR ''/'' \<and> c \<noteq> CHR ''@'' \<and> \<not> re_space c)"
    have "\<exists>c. dropWhile inside r' = c # r"
      using at r' unfolding credential_at_def Let_def inside_def [symmetric]
      by (auto simp del: fold_prefix.simps first_some.simps split: list.splits if_splits)
    then obtain c where "dropWhile inside r' = c # r" by blast
    then have "length (c # r) \<le> length r'" using length_dropWhile_le [of inside r'] by simp
    then show ?thesis by simp
  qed
  ultimately show ?thesis by simp
qed

function redact_urls :: "string \<Rightarrow> string" where
  "redact_urls [] = []"
| "redact_urls (c # s) =
     (case credential_at (c # s) of
        Some (scheme, rest) \<Rightarrow> scheme @ ''[redacted]@'' @ redact_urls rest
      | None \<Rightarrow> c # redact_urls s)"
  by pat_completeness auto
termination by (relation "measure length") (auto dest: credential_at_shorter)

text \<open>\<open>bearerTokenPattern\<close>.\<close>

definition bearer_at :: "string \<Rightarrow> string option" where
  "bearer_at s =
     (case fold_prefix ''bearer'' s of
        None \<Rightarrow> None
      | Some r \<Rightarrow>
          (let r' = dropWhile re_space r; visible = (\<lambda>c. \<not> re_space c)
           in if takeWhile re_space r = [] \<or> takeWhile visible r' = [] then None else Some (dropWhile visible r')))"

lemma bearer_at_shorter: "bearer_at s = Some r \<Longrightarrow> length r < length s"
proof -
  assume at: "bearer_at s = Some r"
  then obtain r' where r': "fold_prefix ''bearer'' s = Some r'" "takeWhile re_space r' \<noteq> []"
      "r = dropWhile (\<lambda>c. \<not> re_space c) (dropWhile re_space r')"
    by (auto simp: bearer_at_def Let_def split: option.splits if_splits simp del: fold_prefix.simps)
  obtain u where "s = u @ r'" using fold_prefix_split [OF r'(1)] by blast
  moreover have "length (dropWhile re_space r') < length r'"
    using r'(2) by (metis append_Nil length_dropWhile_le nat_less_le takeWhile_dropWhile_id append_eq_append_conv)
  ultimately show ?thesis using length_dropWhile_le [of "\<lambda>c. \<not> re_space c" "dropWhile re_space r'"] unfolding r'(3) by simp
qed

function redact_bearer :: "string \<Rightarrow> string" where
  "redact_bearer [] = []"
| "redact_bearer (c # s) =
     (case bearer_at (c # s) of
        Some rest \<Rightarrow> ''Bearer [redacted]'' @ redact_bearer rest
      | None \<Rightarrow> c # redact_bearer s)"
  by pat_completeness auto
termination by (relation "measure length") (auto dest: bearer_at_shorter)

text \<open>\<open>secretValuePattern\<close>: what follows the name of the secret and the separator.\<close>

definition secret_names :: "string list" where
  "secret_names = [''pass'', ''password'', ''token'']"

definition secret_separator :: "string \<Rightarrow> string option" where
  "secret_separator r =
     (case r of [] \<Rightarrow> None
      | c # r' \<Rightarrow> if c = CHR ''='' then Some r' else if re_space c then Some (dropWhile re_space r') else None)"

definition equals_sign :: "string \<Rightarrow> string option" where
  "equals_sign r = (case r of [] \<Rightarrow> None | c # r' \<Rightarrow> if c = CHR ''='' then Some r' else None)"

definition named_secret :: "(string \<Rightarrow> string option) \<Rightarrow> string \<Rightarrow> string option" where
  "named_secret separator s =
     first_some (\<lambda>w. case fold_prefix w s of None \<Rightarrow> None | Some r \<Rightarrow> separator r) secret_names"

definition secret_head :: "string \<Rightarrow> string option" where
  "secret_head s =
     (case (case fold_prefix ''--'' s of None \<Rightarrow> None | Some r \<Rightarrow> named_secret secret_separator r) of
        Some r \<Rightarrow> Some r | None \<Rightarrow> named_secret equals_sign s)"

definition value_char :: "char \<Rightarrow> bool" where
  "value_char c \<longleftrightarrow> \<not> re_space c \<and> c \<noteq> CHR ''&''"

definition name_char :: "char \<Rightarrow> bool" where
  "name_char c \<longleftrightarrow> c \<noteq> CHR ''='' \<and> c \<noteq> CHR '' '' \<and> c \<noteq> CHR 0x09"

definition redactSecretValue :: "string \<Rightarrow> string" where
  "redactSecretValue m =
     (case dropWhile name_char m of
        [] \<Rightarrow> ''[redacted]''
      | c # r \<Rightarrow> before m r @ ''[redacted]'')"

definition secret_at :: "string \<Rightarrow> (string \<times> string) option" where
  "secret_at s =
     (case secret_head s of
        None \<Rightarrow> None
      | Some r \<Rightarrow>
          if takeWhile value_char r = [] then None
          else Some (redactSecretValue (before s (dropWhile value_char r)), dropWhile value_char r))"

lemma first_some_Some: "first_some f xs = Some y \<Longrightarrow> \<exists>x \<in> set xs. f x = Some y"
  by (induction xs) (auto split: option.splits)

lemma secret_separator_split: "secret_separator r = Some r' \<Longrightarrow> \<exists>u. r = u @ r'"
proof -
  assume "secret_separator r = Some r'"
  then obtain c cs where "r = c # cs" "r' = cs \<or> r' = dropWhile re_space cs"
    by (auto simp: secret_separator_def split: list.splits if_splits)
  then show ?thesis by (metis append_Cons takeWhile_dropWhile_id append_Nil)
qed

lemma equals_sign_split: "equals_sign r = Some r' \<Longrightarrow> \<exists>u. r = u @ r'"
  by (auto simp: equals_sign_def split: list.splits if_splits)

lemma named_secret_split:
  assumes "\<And>r r'. separator r = Some r' \<Longrightarrow> \<exists>u. r = u @ r'" and "named_secret separator s = Some r"
  shows "\<exists>u. s = u @ r"
proof -
  obtain w r' where "fold_prefix w s = Some r'" "separator r' = Some r"
    using first_some_Some [OF assms(2) [unfolded named_secret_def]] by (auto split: option.splits)
  then show ?thesis using fold_prefix_split [of w s r'] assms(1) [of r' r] by auto
qed

lemma secret_head_split: "secret_head s = Some r \<Longrightarrow> \<exists>u. s = u @ r"
proof -
  assume head: "secret_head s = Some r"
  show ?thesis
  proof (cases "case fold_prefix ''--'' s of None \<Rightarrow> None | Some r \<Rightarrow> named_secret secret_separator r")
    case None
    then have "named_secret equals_sign s = Some r" using head by (simp add: secret_head_def del: fold_prefix.simps)
    then show ?thesis using named_secret_split [of equals_sign s r] equals_sign_split by blast
  next
    case (Some r1)
    then obtain r2 where "fold_prefix ''--'' s = Some r2" "named_secret secret_separator r2 = Some r1"
      by (auto split: option.splits simp del: fold_prefix.simps)
    moreover have "r1 = r" using Some head by (simp add: secret_head_def del: fold_prefix.simps)
    ultimately show ?thesis
      using fold_prefix_split [of "''--''" s r2] named_secret_split [of secret_separator r2 r1] secret_separator_split by auto
  qed
qed

lemma secret_at_shorter: "secret_at s = Some (u, r) \<Longrightarrow> length r < length s"
proof -
  assume at: "secret_at s = Some (u, r)"
  then obtain r' where r': "secret_head s = Some r'" "takeWhile value_char r' \<noteq> []" "r = dropWhile value_char r'"
    by (auto simp: secret_at_def split: option.splits if_splits)
  obtain v where "s = v @ r'" using secret_head_split [OF r'(1)] by blast
  then have "length s = length v + length r'" by simp
  moreover have "length (takeWhile value_char r') + length r = length r'"
    unfolding r'(3) by (metis length_append takeWhile_dropWhile_id)
  moreover have "0 < length (takeWhile value_char r')" using r'(2) unfolding length_greater_0_conv .
  ultimately show ?thesis by linarith
qed

function redact_secrets :: "string \<Rightarrow> string" where
  "redact_secrets [] = []"
| "redact_secrets (c # s) =
     (case secret_at (c # s) of
        Some (blotted, rest) \<Rightarrow> blotted @ redact_secrets rest
      | None \<Rightarrow> c # redact_secrets s)"
  by pat_completeness auto
termination by (relation "measure length") (auto dest: secret_at_shorter)

section \<open>Control characters and length\<close>

definition encode_rune :: "nat \<Rightarrow> string" where
  "encode_rune r =
     (if r < 128 then [char_of r]
      else if r < 2048 then [char_of (192 + r div 64), char_of (128 + r mod 64)]
      else if r < 65536 then [char_of (224 + r div 4096), char_of (128 + r div 64 mod 64), char_of (128 + r mod 64)]
      else [char_of (240 + r div 262144), char_of (128 + r div 4096 mod 64), char_of (128 + r div 64 mod 64),
            char_of (128 + r mod 64)])"

definition string_of_runes :: "nat list \<Rightarrow> string" where
  "string_of_runes rs = concat (map encode_rune rs)"

text \<open>\<open>unicode.IsControl\<close>.\<close>

definition IsControl :: "nat \<Rightarrow> bool" where
  "IsControl r \<longleftrightarrow> r < 32 \<or> (127 \<le> r \<and> r < 160)"

definition replace_control :: "char \<Rightarrow> string \<Rightarrow> string" where
  "replace_control sign s = string_of_runes (map (\<lambda>r. if IsControl r then of_char sign else r) (str_runes s))"

definition sanitizeTerminalText :: "string \<Rightarrow> string" where
  "sanitizeTerminalText = replace_control CHR ''?''"

definition maxErrorRunes :: nat where "maxErrorRunes = 1024"
definition maxFieldRunes :: nat where "maxFieldRunes = 128"
definition maxCodeRunes :: nat where "maxCodeRunes = 64"

definition sanitizeErrorText :: "string \<Rightarrow> string" where
  "sanitizeErrorText s =
     (let s = redact_secrets (redact_bearer (redact_urls s));
          s = str_join CHR '' '' (str_Fields (replace_control CHR '' '' s));
          runes = str_runes s;
          s = (if length runes > maxErrorRunes then string_of_runes (take maxErrorRunes runes) @ ''...'' else s)
      in if s = [] then ''unknown error'' else s)"

definition sanitizeErrorField :: "string \<Rightarrow> string" where
  "sanitizeErrorField s =
     (if trim_space s = [] then []
      else let runes = str_runes (sanitizeErrorText s) in string_of_runes (take maxFieldRunes runes))"

definition code_rune :: "nat \<Rightarrow> bool" where
  "code_rune r \<longleftrightarrow> (97 \<le> r \<and> r \<le> 122) \<or> (48 \<le> r \<and> r \<le> 57) \<or> r = 95 \<or> r = 45"

definition sanitizeErrorCode :: "string \<Rightarrow> string" where
  "sanitizeErrorCode s =
     (let runes = filter code_rune (str_runes (to_lower (trim_space s)));
          code = string_of_runes (take maxCodeRunes runes)
      in if code = [] then ''api_error'' else code)"

section \<open>What is shown does not depend on secrets\<close>

text \<open>
  How a matcher can treat a text behind the sign of equality: it fails, it stops at or before the sign, or it consumes just
  the sign, each whatever follows.
\<close>

definition stops_before :: "(string \<Rightarrow> string option) \<Rightarrow> bool" where
  "stops_before g \<longleftrightarrow> g = (\<lambda>v. None) \<or> (\<exists>u. g = (\<lambda>v. Some (u @ CHR ''='' # v)))"

definition stops_at :: "(string \<Rightarrow> string option) \<Rightarrow> bool" where
  "stops_at g \<longleftrightarrow> stops_before g \<or> g = Some"

lemma stops_before_cases:
  assumes "stops_before g"
  obtains "\<And>v. g v = None" | u where "\<And>v. g v = Some (u @ CHR ''='' # v)"
  using assms by (auto simp: stops_before_def)

lemma stops_at_cases:
  assumes "stops_at g"
  obtains "\<And>v. g v = None" | u where "\<And>v. g v = Some (u @ CHR ''='' # v)" | "\<And>v. g v = Some v"
  using assms by (auto simp: stops_at_def elim: stops_before_cases)

lemma strip_prefix_stops: "CHR ''='' \<notin> set q \<Longrightarrow> stops_before (\<lambda>v. strip_prefix q (u @ CHR ''='' # v))"
proof (induction q arbitrary: u)
  case (Cons p ps)
  then have neq: "p \<noteq> CHR ''=''" by auto
  show ?case
  proof (cases u)
    case Nil
    then show ?thesis using neq by (simp add: stops_before_def)
  next
    case (Cons c cs)
    then show ?thesis using Cons.IH [of cs] Cons.prems by (cases "p = c") (simp_all add: stops_before_def)
  qed
qed (auto simp: stops_before_def)

lemma fold_letter_stops: "p \<noteq> CHR ''='' \<Longrightarrow> stops_before (\<lambda>v. fold_letter p (u @ CHR ''='' # v))"
proof -
  assume p: "p \<noteq> CHR ''=''"
  have fold: "lower_char CHR ''='' = CHR ''=''" by (simp add: lower_char_def lower_table_def)
  have "CHR ''='' \<notin> set s_long" "CHR ''='' \<notin> set kelvin_sign" by (simp_all add: s_long_def kelvin_sign_def)
  note wide = strip_prefix_stops [OF this(1), of u] strip_prefix_stops [OF this(2), of u]
  have none: "stops_before (\<lambda>v. None)" by (simp add: stops_before_def)
  show ?thesis
  proof (cases u)
    case Nil
    then show ?thesis using p wide none fold
      by (cases "p = CHR ''s''"; cases "p = CHR ''k''") (simp_all add: fold_letter_def)
  next
    case (Cons c cs)
    have "stops_before (\<lambda>v. Some (cs @ CHR ''='' # v))" by (auto simp: stops_before_def)
    then show ?thesis using wide none Cons
      by (cases "lower_char c = p"; cases "p = CHR ''s''"; cases "p = CHR ''k''") (simp_all add: fold_letter_def)
  qed
qed

lemma fold_prefix_stops: "CHR ''='' \<notin> set q \<Longrightarrow> stops_before (\<lambda>v. fold_prefix q (u @ CHR ''='' # v))"
proof (induction q arbitrary: u)
  case (Cons p ps)
  then have "p \<noteq> CHR ''=''" by auto
  from fold_letter_stops [OF this, of u] show ?case
  proof (cases rule: stops_before_cases)
    case 1
    then show ?thesis by (simp add: stops_before_def)
  next
    case (2 u')
    then show ?thesis using Cons.IH [of u'] Cons.prems by simp
  qed
qed (auto simp: stops_before_def)

lemma dropWhile_blanks: "dropWhile re_space (u @ CHR ''='' # v) = dropWhile re_space u @ CHR ''='' # v"
  by (induction u) (simp_all add: re_space_def)

lemma separator_stops:
  "stops_at (\<lambda>v. secret_separator (u @ CHR ''='' # v))" "stops_at (\<lambda>v. equals_sign (u @ CHR ''='' # v))"
proof -
  have none: "stops_at (\<lambda>v. None)" and some: "stops_at (\<lambda>v. Some v)" and more: "stops_at (\<lambda>v. Some (u' @ CHR ''='' # v))" for u'
    by (auto simp: stops_at_def stops_before_def)
  show "stops_at (\<lambda>v. equals_sign (u @ CHR ''='' # v))"
  proof (cases u)
    case (Cons c cs)
    then show ?thesis using none more [of cs] by (cases "c = CHR ''=''") (simp_all add: equals_sign_def)
  qed (simp add: equals_sign_def some)
  show "stops_at (\<lambda>v. secret_separator (u @ CHR ''='' # v))"
  proof (cases u)
    case (Cons c cs)
    then show ?thesis using none more [of cs] more [of "dropWhile re_space cs"]
      by (cases "c = CHR ''=''"; cases "re_space c") (simp_all add: secret_separator_def dropWhile_blanks)
  qed (simp add: secret_separator_def some)
qed

lemma orelse_stops:
  assumes "stops_at f" and "stops_at g"
  shows "stops_at (\<lambda>v. case f v of Some r \<Rightarrow> Some r | None \<Rightarrow> g v)"
  using assms by (auto simp: stops_at_def stops_before_def)

lemma bind_stops:
  assumes "stops_before g" and "\<And>u. stops_at (\<lambda>v. f (u @ CHR ''='' # v))"
  shows "stops_at (\<lambda>v. case g v of None \<Rightarrow> None | Some r \<Rightarrow> f r)"
  using assms(1)
proof (cases rule: stops_before_cases)
  case 1
  then show ?thesis by (simp add: stops_at_def stops_before_def)
next
  case (2 u)
  then show ?thesis using assms(2) [of u] by simp
qed

lemma first_stops: "(\<And>w. w \<in> set ws \<Longrightarrow> stops_at (\<lambda>v. f w v)) \<Longrightarrow> stops_at (\<lambda>v. first_some (\<lambda>w. f w v) ws)"
proof (induction ws)
  case (Cons w ws)
  then have "stops_at (f w)" "stops_at (\<lambda>v. first_some (\<lambda>w. f w v) ws)" by simp_all
  then show ?case by (auto simp: stops_at_def stops_before_def)
qed (simp add: stops_at_def stops_before_def)

lemma named_secret_stops:
  assumes "\<And>u. stops_at (\<lambda>v. separator (u @ CHR ''='' # v))"
  shows "stops_at (\<lambda>v. named_secret separator (u @ CHR ''='' # v))"
  unfolding named_secret_def
proof (rule first_stops)
  fix w assume "w \<in> set secret_names"
  then have "CHR ''='' \<notin> set w" by (auto simp: secret_names_def)
  then show "stops_at (\<lambda>v. case fold_prefix w (u @ CHR ''='' # v) of None \<Rightarrow> None | Some r \<Rightarrow> separator r)"
    by (rule bind_stops [OF fold_prefix_stops assms])
qed

lemma secret_head_stops: "stops_at (\<lambda>v. secret_head (u @ CHR ''='' # v))"
proof -
  have "stops_at (\<lambda>v. case fold_prefix ''--'' (u @ CHR ''='' # v) of None \<Rightarrow> None | Some r \<Rightarrow> named_secret secret_separator r)"
    by (rule bind_stops [OF fold_prefix_stops named_secret_stops [OF separator_stops(1)]]) simp
  moreover have "stops_at (\<lambda>v. named_secret equals_sign (u @ CHR ''='' # v))" by (rule named_secret_stops [OF separator_stops(2)])
  ultimately show ?thesis unfolding secret_head_def by (rule orelse_stops)
qed

definition secret_text :: "string \<Rightarrow> bool" where
  "secret_text s \<longleftrightarrow> s \<noteq> [] \<and> (\<forall>c \<in> set s. value_char c)"

definition text_end :: "string \<Rightarrow> bool" where
  "text_end t \<longleftrightarrow> t = [] \<or> \<not> value_char (hd t)"

lemma run_of_secret:
  assumes "secret_text s" and "text_end t"
  shows "takeWhile value_char (s @ t) = s" "dropWhile value_char (s @ t) = t"
  using assms by (cases t; auto simp: secret_text_def text_end_def takeWhile_append2 dropWhile_append2)+

lemma value_char_equals: "value_char CHR ''=''"
  by (simp add: value_char_def re_space_def)

lemma redactSecretValue_alt:
  "redactSecretValue m =
     (case dropWhile name_char m of [] \<Rightarrow> ''[redacted]'' | c # r \<Rightarrow> takeWhile name_char m @ c # ''[redacted]'')"
proof (cases "dropWhile name_char m")
  case (Cons c r)
  then have "m = (takeWhile name_char m @ [c]) @ r" by (metis append.assoc append_Cons append_Nil takeWhile_dropWhile_id)
  then have "before m r = takeWhile name_char m @ [c]" by (metis before_append)
  then show ?thesis using Cons by (simp add: redactSecretValue_def)
next
  case Nil
  then show ?thesis unfolding redactSecretValue_def Nil by simp
qed

lemma blot_same: "redactSecretValue (u @ CHR ''='' # s) = redactSecretValue (u @ CHR ''='' # s')"
proof (cases "\<forall>c \<in> set u. name_char c")
  case True
  moreover have "\<not> name_char CHR ''=''" by (simp add: name_char_def)
  ultimately show ?thesis by (simp add: redactSecretValue_alt takeWhile_append2 dropWhile_append2)
next
  case False
  then obtain c where c: "c \<in> set u" "\<not> name_char c" by blast
  then obtain d r where "dropWhile name_char u = d # r" by (metis dropWhile_eq_Nil_conv neq_Nil_conv)
  then show ?thesis
    using takeWhile_append1 [of c u name_char] dropWhile_append1 [of c u name_char] c by (simp add: redactSecretValue_alt)
qed

text \<open>A secret that is met is blotted out, and one that is not met yet stays what it is for both.\<close>

lemma secret_at_same:
  assumes "secret_text s" and "secret_text s'" and "text_end t"
  obtains "secret_at (u @ CHR ''='' # s @ t) = None" and "secret_at (u @ CHR ''='' # s' @ t) = None"
  | blotted where "secret_at (u @ CHR ''='' # s @ t) = Some (blotted, t)"
      and "secret_at (u @ CHR ''='' # s' @ t) = Some (blotted, t)"
  | blotted u' where "secret_at (u @ CHR ''='' # s @ t) = Some (blotted, u' @ CHR ''='' # s @ t)"
      and "secret_at (u @ CHR ''='' # s' @ t) = Some (blotted, u' @ CHR ''='' # s' @ t)"
      and "\<exists>w. u = w @ u'" and "u' \<noteq> []" and "\<not> value_char (hd u')"
proof -
  have at: "secret_at (u @ CHR ''='' # v) =
      (case secret_head (u @ CHR ''='' # v) of None \<Rightarrow> None
       | Some r \<Rightarrow> if takeWhile value_char r = [] then None
           else Some (redactSecretValue (before (u @ CHR ''='' # v) (dropWhile value_char r)), dropWhile value_char r))" for v
    by (simp add: secret_at_def)
  have met: "before (u @ CHR ''='' # x @ t) t = u @ CHR ''='' # x" for x
    using before_append [of "u @ CHR ''='' # x" t] by simp
  from secret_head_stops [of u] show ?thesis
  proof (cases rule: stops_at_cases)
    case 1
    then show ?thesis using that(1) by (simp add: at)
  next
    case 3
    then show ?thesis using that(2) assms run_of_secret met blot_same [of u s s']
      by (simp add: at secret_text_def)
  next
    case (2 u1)
    obtain w where "u @ CHR ''='' # [] = w @ u1 @ CHR ''='' # []" using secret_head_split [OF 2 [of "[]"]] by blast
    then have "u @ [CHR ''=''] = (w @ u1) @ [CHR ''='']" by simp
    then have w: "u = w @ u1" by (simp only: append_same_eq)
    show ?thesis
    proof (cases "\<forall>c \<in> set u1. value_char c")
      case True
      have run: "takeWhile value_char (u1 @ CHR ''='' # x @ t) = u1 @ CHR ''='' # x" "dropWhile value_char (u1 @ CHR ''='' # x @ t) = t"
        if "secret_text x" for x
        using True run_of_secret [OF that assms(3)] by (simp_all add: takeWhile_append2 dropWhile_append2 value_char_equals)
      show ?thesis using that(2) assms(1,2) 2 run met blot_same [of u s s'] by (simp add: at)
    next
      case False
      then obtain c where c: "c \<in> set u1" "\<not> value_char c" by blast
      define u' where "u' = dropWhile value_char u1"
      have u': "u' \<noteq> []" "\<not> value_char (hd u')" "\<exists>w. u = w @ u'"
        using c w hd_dropWhile [of value_char u1] unfolding u'_def
        by (auto simp: dropWhile_eq_Nil_conv intro: exI [of _ "w @ takeWhile value_char u1"])
      have front: "takeWhile value_char (u1 @ v) = takeWhile value_char u1"
        and rear: "dropWhile value_char (u1 @ v) = dropWhile value_char u1 @ v" for v
        using takeWhile_append1 [of c u1 value_char] dropWhile_append1 [of c u1 value_char] c by simp_all
      obtain w' where w': "u = w' @ u'" using u'(3) by blast
      have cut: "before (u @ CHR ''='' # v) (u' @ CHR ''='' # v) = w'" for v
        using before_append [of w' "u' @ CHR ''='' # v"] by (simp add: w')
      show ?thesis
      proof (cases "takeWhile value_char u1 = []")
        case True
        then show ?thesis using that(1) 2 by (simp add: at front)
      next
        case False
        then show ?thesis using that(3) 2 u' cut
          by (simp add: at front rear u'_def [symmetric])
      qed
    qed
  qed
qed

lemma name_met:
  assumes "w \<in> set secret_names"
  shows "secret_head (w @ CHR ''='' # v) = Some v"
proof -
  note eval = secret_head_def named_secret_def secret_names_def equals_sign_def secret_separator_def fold_letter_def
    lower_char_def lower_table_def s_long_def kelvin_sign_def
  consider "w = ''pass''" | "w = ''password''" | "w = ''token''" using assms by (auto simp: secret_names_def)
  then show ?thesis by cases (simp_all add: eval)
qed

text \<open>
  The pass over named secrets: the value that follows one of the names and the sign of equality can be any other without a blank
  or an ampersand. Secret_Text has the text as a whole.
\<close>

lemma redact_secrets_same:
  assumes "w \<in> set secret_names" and "secret_text s" and "secret_text s'" and "text_end t"
  shows "redact_secrets (p @ w @ CHR ''='' # s @ t) = redact_secrets (p @ w @ CHR ''='' # s' @ t)"
proof -
  have word: "w \<noteq> []" "\<forall>c \<in> set w. value_char c"
    using assms(1) by (auto simp: secret_names_def value_char_def re_space_def)
  have "secret_at (w @ CHR ''='' # s @ t) \<noteq> None"
    using run_of_secret [OF assms(2,4)] assms(2) by (simp add: secret_at_def name_met [OF assms(1)] secret_text_def)
  note met = this
  have main: "redact_secrets (u @ CHR ''='' # s @ t) = redact_secrets (u @ CHR ''='' # s' @ t)" if "\<exists>p. u = p @ w" for u
    using that
  proof (induction u rule: length_induct)
    case (1 u)
    note IH = 1(1)
    obtain p where p: "u = p @ w" using 1(2) by blast
    then have "u \<noteq> []" using word(1) by simp
    then obtain c u0 where u: "u = c # u0" by (cases u) auto
    from assms(2-4) show ?case
    proof (cases rule: secret_at_same [of s s' t u])
      case none: 1
      then obtain d p' where "p = d # p'" using met p by (cases p) auto
      then have "length u0 < length u" "\<exists>p. u0 = p @ w" using u p by auto
      then have "redact_secrets (u0 @ CHR ''='' # s @ t) = redact_secrets (u0 @ CHR ''='' # s' @ t)" using IH by blast
      then show ?thesis using none u by simp
    next
      case (2 blotted)
      then show ?thesis using u by simp
    next
      case (3 blotted u')
      obtain p1 where "u = p1 @ u'" using 3(3) by blast
      then have "p1 @ u' = p @ w" using p by simp
      then obtain us where "u' = us @ w \<or> us @ u' = w" by (auto simp: append_eq_append_conv2)
      moreover have "us @ u' \<noteq> w" using 3(4,5) word(2) by (metis hd_in_set in_set_conv_decomp append.assoc in_set_conv_decomp_first UnCI set_append)
      ultimately have "\<exists>p. u' = p @ w" by blast
      moreover have "length u' < length u" using secret_at_shorter [OF 3(1)] by simp
      ultimately show ?thesis using IH 3 u by simp
    qed
  qed
  show ?thesis using main [of "p @ w"] by simp
qed

text \<open>
  Two gaps. Behind an option and a line break the search for the separator finds a sign of equality in the value, and what
  is before it stays. And the part of a token behind an @ stays when the token is taken for the user of a URL.
\<close>

lemma value_behind_line_break_shows:
  "redact_secrets (''--token'' @ CHR 0x0A # ''abc=def'') = ''--token'' @ CHR 0x0A # ''abc=[redacted]''"
  by code_simp

lemma token_tail_shows: "redact_secrets (redact_bearer (redact_urls ''https://box?token=ab@cd'')) = ''https://[redacted]@cd''"
  by code_simp

section \<open>The shape of what is shown\<close>

lemma rune_small: "fst (rune_at bs) < 2097152"
proof (cases bs)
  case (Cons b bs')
  have "(b mod 32) < 32" "(b mod 16) < 16" "(b mod 8) < 8" by simp_all
  then show ?thesis unfolding Cons by (auto simp: tail_bits_def Let_def split: option.split if_splits)
qed simp

lemma runes_small: "r \<in> set (runes_of bs) \<Longrightarrow> r < 2097152"
proof (induction bs rule: runes_of.induct)
  case (2 b bs)
  obtain x n where at: "rune_at (b # bs) = (x, n)" by (cases "rune_at (b # bs)")
  then have "x < 2097152" using rune_small [of "b # bs"] by simp
  then show ?case using 2 at by (auto simp del: rune_at.simps)
qed simp

lemma encode_visible:
  assumes "r < 2097152" and "\<not> IsControl r"
  shows "\<forall>c \<in> set (encode_rune r). 32 \<le> (of_char c :: nat) \<and> (of_char c :: nat) \<noteq> 127"
proof -
  have "192 + r div 64 < 256" if "r < 2048" using that by simp
  moreover have "224 + r div 4096 < 256" if "r < 65536" using that by simp
  moreover have "240 + r div 262144 < 256" using assms(1) by simp
  moreover have "128 + x mod 64 < (256 :: nat)" for x by (simp add: less_le_trans [OF add_strict_left_mono])
  ultimately show ?thesis using assms(2) by (auto simp: encode_rune_def IsControl_def of_char_of)
qed

text \<open>No control character reaches the terminal: no line break, and no escape sequence begins.\<close>

lemma terminal_text_visible:
  assumes "c \<in> set (sanitizeTerminalText s)"
  shows "32 \<le> (of_char c :: nat) \<and> (of_char c :: nat) \<noteq> 127"
proof -
  obtain r where r: "r \<in> set (str_runes s)" "c \<in> set (encode_rune (if IsControl r then of_char CHR ''?'' else r))"
    using assms by (auto simp: sanitizeTerminalText_def replace_control_def string_of_runes_def)
  show ?thesis
  proof (cases "IsControl r")
    case True
    then show ?thesis using r(2) by (simp add: encode_rune_def)
  next
    case False
    then show ?thesis using r encode_visible [of r] runes_small [of r] by (auto simp: str_runes_def)
  qed
qed

lemma encode_length: "length (encode_rune r) \<le> 4"
  by (simp add: encode_rune_def)

lemma string_of_runes_length: "length (string_of_runes rs) \<le> 4 * length rs"
proof (induction rs)
  case (Cons r rs)
  then show ?case using encode_length [of r] by (simp add: string_of_runes_def)
qed (simp add: string_of_runes_def)

lemma code_alphabet: "code_rune r \<Longrightarrow> encode_rune r = [char_of r]"
  by (auto simp: code_rune_def encode_rune_def)

text \<open>The code of an error is never empty, of at most 64 letters, digits, dashes and underscores.\<close>

lemma error_code_shape:
  "sanitizeErrorCode s \<noteq> [] \<and> length (sanitizeErrorCode s) \<le> maxCodeRunes \<and>
   (\<forall>c \<in> set (sanitizeErrorCode s). code_rune (of_char c))"
proof -
  define rs where "rs = take maxCodeRunes (filter code_rune (str_runes (to_lower (trim_space s))))"
  have all: "\<forall>r \<in> set rs. code_rune r" unfolding rs_def by (auto dest: in_set_takeD)
  then have "string_of_runes rs = map char_of rs"
    unfolding string_of_runes_def by (induction rs) (simp_all add: code_alphabet)
  moreover have "\<forall>r \<in> set rs. of_char (char_of r :: char) = r" using all by (auto simp: of_char_of code_rune_def)
  moreover have "length rs \<le> maxCodeRunes" by (simp add: rs_def)
  moreover have "\<forall>c \<in> set ''api_error''. code_rune (of_char c)" "length ''api_error'' \<le> maxCodeRunes"
    by (simp_all add: code_rune_def maxCodeRunes_def)
  ultimately show ?thesis using all unfolding sanitizeErrorCode_def Let_def rs_def [symmetric] by auto
qed

lemma error_field_bounded: "length (sanitizeErrorField s) \<le> 4 * maxFieldRunes"
  using string_of_runes_length [of "take maxFieldRunes (str_runes (sanitizeErrorText s))"]
  by (auto simp: sanitizeErrorField_def Let_def)

end
