(* ===== verification/Management_Client.thy ===== *)
theory Management_Client
  imports Error_Text Playback_Service
begin

text \<open>
  The client of the management API (internal/apiclient): the address of the server, the requests and where they go, the
  answers within their bounds, and which servers it takes for compatible; with the document of the server that it reads
  (web/api/versioning.go) and the codes of errors for the user (internal/cliapp/output.go).

  The parsing of URLs and of JSON, and the transport are arguments.
\<close>

section \<open>The address of the server\<close>

record server_url =
  su_Scheme :: string
  su_Host :: string
  su_Hostname :: string
  su_HasUser :: bool
  su_RawQuery :: string
  su_Fragment :: string
  su_Path :: string

datatype address_error = NotAURL | OtherScheme string | NoHost | CredentialsInURL | QueryOrFragment

definition DefaultBaseURL :: string where
  "DefaultBaseURL = ''http://127.0.0.1:8090''"

definition trim_slashes :: "string \<Rightarrow> string" where
  "trim_slashes s = rev (dropWhile (\<lambda>c. c = CHR ''/'') (rev s))"

definition base_path :: "string \<Rightarrow> string" where
  "base_path p =
     (let cleanPath = path_clean (CHR ''/'' # trim_prefix p ''/'')
      in if cleanPath = ''.'' \<or> cleanPath = ''/'' then ''/'' else trim_slashes cleanPath @ ''/'')"

definition normalizeBaseURL :: "(string \<Rightarrow> server_url option) \<Rightarrow> string \<Rightarrow> address_error + server_url" where
  "normalizeBaseURL parse v =
     (let raw = trim_space v; raw = (if raw = [] then DefaultBaseURL else raw);
          raw = (if \<not> str_contains raw ''://'' then ''http://'' @ raw else raw)
      in case parse raw of
           None \<Rightarrow> Inl NotAURL
         | Some u \<Rightarrow>
             (let u = u\<lparr>su_Scheme := to_lower (su_Scheme u)\<rparr>
              in if su_Scheme u \<noteq> ''http'' \<and> su_Scheme u \<noteq> ''https'' then Inl (OtherScheme (su_Scheme u))
                 else if su_Hostname u = [] then Inl NoHost
                 else if su_HasUser u then Inl CredentialsInURL
                 else if su_RawQuery u \<noteq> [] \<or> su_Fragment u \<noteq> [] then Inl QueryOrFragment
                 else Inr (u\<lparr>su_Path := base_path (su_Path u)\<rparr>)))"

text \<open>
  A clean path has no empty element and no dots in it, so that the normal form of a path is one of \<open>/\<close> and
  \<open>/a/b/\<close>, and stays what it is.
\<close>

lemma str_split_elements: "e \<in> set (str_split sep s) \<Longrightarrow> sep \<notin> set e"
  by (induction s arbitrary: e) (auto split: if_splits list.splits)

lemma clean_rooted_plain:
  assumes "\<forall>e \<in> set out. plain_element e" and "\<forall>e \<in> set es. CHR ''/'' \<notin> set e"
  shows "\<forall>e \<in> set (clean_elements True out es). plain_element e"
  using assms
proof (induction es arbitrary: out)
  case (Cons e es)
  consider "e = [] \<or> e = ''.''" | "e = ''..''" | "plain_element e" using Cons.prems(2) by (auto simp: plain_element_def)
  then show ?case
  proof cases
    case 1
    then show ?thesis using Cons by simp
  next
    case 2
    show ?thesis
    proof (cases out)
      case Nil
      then show ?thesis using 2 Cons.IH [of "[]"] Cons.prems(2) by simp
    next
      case out: (Cons up rest)
      then have "up \<noteq> ''..''" using Cons.prems(1) by (auto simp: plain_element_def)
      then show ?thesis using 2 out Cons.IH [of rest] Cons.prems by simp
    qed
  next
    case 3
    then have "e \<noteq> []" "e \<noteq> ''.''" "e \<noteq> ''..''" by (auto simp: plain_element_def)
    then have "clean_elements True out (e # es) = clean_elements True (e # out) es" by simp
    moreover have "\<forall>e \<in> set (e # out). plain_element e" "\<forall>e \<in> set es. CHR ''/'' \<notin> set e"
      using 3 Cons.prems by simp_all
    ultimately show ?thesis using Cons.IH by metis
  qed
qed simp

definition path_of_elements :: "string list \<Rightarrow> string" where
  "path_of_elements es = CHR ''/'' # concat (map (\<lambda>e. e @ ''/'') es)"

lemma join_slash: "es \<noteq> [] \<Longrightarrow> str_join CHR ''/'' es @ ''/'' = concat (map (\<lambda>e. e @ ''/'') es)"
  by (induction "CHR ''/''" es rule: str_join.induct) simp_all

lemma join_last: "e \<noteq> [] \<Longrightarrow> \<exists>u. str_join sep (es @ [e]) = u @ e"
proof (induction es)
  case (Cons d es)
  then obtain u where "str_join sep (es @ [e]) = u @ e" by blast
  then have "str_join sep ((d # es) @ [e]) = (d @ sep # u) @ e" by (cases es) simp_all
  then show ?case by blast
qed simp

lemma path_clean_rooted:
  "\<exists>es. (\<forall>e \<in> set es. plain_element e) \<and> path_clean (CHR ''/'' # p) = CHR ''/'' # str_join CHR ''/'' es"
  using clean_rooted_plain [of "[]" "str_split CHR ''/'' (CHR ''/'' # p)"] str_split_elements
  by (intro exI [of _ "clean_elements True [] (str_split CHR ''/'' (CHR ''/'' # p))"])
    (simp add: path_clean_def has_prefix_def Let_def del: str_split.simps)

lemma trim_slashes_plain: "s \<noteq> [] \<Longrightarrow> last s \<noteq> CHR ''/'' \<Longrightarrow> trim_slashes s = s"
  by (cases s rule: rev_cases) (simp_all add: trim_slashes_def)

lemma base_path_shape: "\<exists>es. (\<forall>e \<in> set es. plain_element e) \<and> base_path p = path_of_elements es"
proof -
  obtain es where es: "\<forall>e \<in> set es. plain_element e"
    "path_clean (CHR ''/'' # trim_prefix p ''/'') = CHR ''/'' # str_join CHR ''/'' es"
    using path_clean_rooted by blast
  show ?thesis
  proof (cases "es = []")
    case True
    then show ?thesis using es by (intro exI [of _ "[]"]) (simp add: base_path_def path_of_elements_def)
  next
    case False
    then have "plain_element (last es)" using es(1) last_in_set by blast
    then have last: "last es \<noteq> []" "last (last es) \<noteq> CHR ''/''"
      unfolding plain_element_def by (blast, metis last_in_set)
    moreover obtain u where "str_join CHR ''/'' es = u @ last es"
      using join_last [OF last(1), of "CHR ''/''" "butlast es"] False by auto
    ultimately have join: "str_join CHR ''/'' es \<noteq> []" "last (str_join CHR ''/'' es) \<noteq> CHR ''/''" by simp_all
    then have "trim_slashes (CHR ''/'' # str_join CHR ''/'' es) = CHR ''/'' # str_join CHR ''/'' es"
      by (intro trim_slashes_plain) simp_all
    then have "base_path p = path_of_elements es"
      using join es(2) join_slash [OF False] by (simp add: base_path_def path_of_elements_def Let_def)
    then show ?thesis using es(1) by blast
  qed
qed

section \<open>Requests\<close>

text \<open>
  \<open>ResolveReference\<close> for a relative path behind a base that ends with a slash: what was written so far, and whether nothing
  stands between it and the next element.
\<close>

definition up_one :: "string \<Rightarrow> string \<times> bool" where
  "up_one dst =
     (let s = tl dst; cut = dropWhile (\<lambda>c. c \<noteq> CHR ''/'') (rev s)
      in if cut = [] then (''/'', True) else (''/'' @ rev (tl cut), False))"

fun resolve_elements :: "string \<Rightarrow> bool \<Rightarrow> string list \<Rightarrow> string" where
  "resolve_elements dst start [] = dst"
| "resolve_elements dst start (e # es) =
     (if e = ''.'' then resolve_elements dst False es
      else if e = ''..'' then (let (dst, b) = up_one dst in resolve_elements dst (if b then True else start) es)
      else resolve_elements ((if start then dst else dst @ ''/'') @ e) False es)"

definition resolve_path :: "string \<Rightarrow> string \<Rightarrow> string" where
  "resolve_path base ref =
     (let full = (if ref = [] then base
                  else if hd ref \<noteq> CHR ''/'' then rev (dropWhile (\<lambda>c. c \<noteq> CHR ''/'') (rev base)) @ ref else ref);
          es = str_split CHR ''/'' full; r = resolve_elements ''/'' True es;
          r = (if last es = ''.'' \<or> last es = ''..'' then r @ ''/'' else r)
      in if full = [] then [] else if length r > 1 \<and> r ! 1 = CHR ''/'' then tl r else r)"

record endpoint_url =
  eu_IsAbs :: bool
  eu_Host :: string
  eu_Path :: string
  eu_EscapedPath :: string

datatype endpoint_error = NotAnEndpoint | NotRelative | NoPath | EscapesBase

text \<open>
  The path of the base is taken as it is parsed where the code takes it escaped. Neither slashes nor dots are escaped, so that
  both resolve alike, unless the base itself is configured with an escaped slash or dot.
\<close>

definition resolveEndpoint :: "(string \<Rightarrow> endpoint_url option) \<Rightarrow> server_url \<Rightarrow> string \<Rightarrow> endpoint_error + string" where
  "resolveEndpoint parse base endpoint =
     (case parse (dropWhile (\<lambda>c. c = CHR ''/'') (trim_space endpoint)) of
        None \<Rightarrow> Inl NotAnEndpoint
      | Some u \<Rightarrow>
          if eu_IsAbs u \<or> eu_Host u \<noteq> [] then Inl NotRelative
          else if eu_Path u = [] then Inl NoPath
          else if eu_Path u = ''..'' \<or> has_prefix (eu_Path u) ''../'' then Inl EscapesBase
          else Inr (resolve_path (su_Path base) (eu_EscapedPath u)))"

datatype api_operation =
    GetVersion
  | GetReadiness
  | TorrentAction string
  | UploadTorrent
  | SettingsAction string
  | ListUsers
  | AddUserOp
  | RemoveUserOp string
  | TokenStatus
  | GenerateToken
  | SetToken
  | RequestShutdown string

definition operation_method :: "api_operation \<Rightarrow> string" where
  "operation_method op = (case op of
     GetVersion \<Rightarrow> ''GET'' | GetReadiness \<Rightarrow> ''GET'' | ListUsers \<Rightarrow> ''GET'' | TokenStatus \<Rightarrow> ''GET''
   | RemoveUserOp u \<Rightarrow> ''DELETE'' | _ \<Rightarrow> ''POST'')"

definition operation_endpoint :: "api_operation \<Rightarrow> string" where
  "operation_endpoint op = (case op of
     GetVersion \<Rightarrow> ''/api/v1/version''
   | GetReadiness \<Rightarrow> ''/readyz''
   | TorrentAction a \<Rightarrow> ''/api/v1/torrents''
   | UploadTorrent \<Rightarrow> ''/api/v1/torrent/upload''
   | SettingsAction a \<Rightarrow> ''/api/v1/settings''
   | ListUsers \<Rightarrow> ''/api/v1/auth/users''
   | AddUserOp \<Rightarrow> ''/api/v1/auth/users''
   | RemoveUserOp u \<Rightarrow> ''/api/v1/auth/users/'' @ PathEscape u
   | TokenStatus \<Rightarrow> ''/api/v1/config/shutdown-token''
   | GenerateToken \<Rightarrow> ''/api/v1/config/shutdown-token/generate''
   | SetToken \<Rightarrow> ''/api/v1/config/shutdown-token''
   | RequestShutdown reason \<Rightarrow>
       ''/api/v1/shutdown'' @ (if trim_space reason \<noteq> [] then ''/'' @ PathEscape (trim_space reason) else []))"

text \<open>The token goes out only with a shutdown in public mode.\<close>

definition shutdown_header :: "string \<Rightarrow> string \<Rightarrow> string option" where
  "shutdown_header mode token =
     (if equal_fold (trim_space mode) ''public'' \<and> trim_space token \<noteq> [] then Some (trim_space token) else None)"

text \<open>Elements without dots stay below the base.\<close>

lemma resolve_elements_plain:
  "\<forall>e \<in> set es. e \<noteq> ''.'' \<and> e \<noteq> ''..'' \<Longrightarrow> resolve_elements dst False es = dst @ concat (map (\<lambda>e. ''/'' @ e) es)"
  by (induction es arbitrary: dst) simp_all

lemma resolve_below:
  assumes "\<forall>e \<in> set es. plain_element e" and "\<forall>e \<in> set (str_split CHR ''/'' ref). e \<noteq> ''.'' \<and> e \<noteq> ''..''"
    and "ref \<noteq> []" and "hd ref \<noteq> CHR ''/''"
  shows "resolve_path (path_of_elements es) ref = path_of_elements es @ ref"
proof -
  have ends: "\<exists>u. path_of_elements es = u @ ''/''"
  proof (cases es rule: rev_cases)
    case (snoc fs f)
    then show ?thesis by (simp add: path_of_elements_def)
  qed (simp add: path_of_elements_def)
  then obtain u where u: "path_of_elements es = u @ ''/''" by blast
  then have base: "rev (dropWhile (\<lambda>c. c \<noteq> CHR ''/'') (rev (path_of_elements es))) = path_of_elements es" by simp
  have joined: "str_split CHR ''/'' (concat (map (\<lambda>e. e @ ''/'') fs) @ ref) = fs @ str_split CHR ''/'' ref"
    if "\<forall>e \<in> set fs. CHR ''/'' \<notin> set e" for fs
    using that by (induction fs) (simp_all add: str_split_at)
  have split: "str_split CHR ''/'' (path_of_elements es @ ref) = [] # es @ str_split CHR ''/'' ref"
    using joined [of es] assms(1) by (simp add: path_of_elements_def plain_element_def)
  have plain: "\<forall>e \<in> set (es @ str_split CHR ''/'' ref). e \<noteq> ''.'' \<and> e \<noteq> ''..''"
    using assms(1,2) by (auto simp: plain_element_def)
  have parts: "concat (map (\<lambda>e. ''/'' @ e) (str_split CHR ''/'' s)) = ''/'' @ s" for s
    by (induction s) (auto split: list.split simp: str_split_not_Nil)
  have slashes: "concat (map (\<lambda>e. ''/'' @ e) fs) @ ''/'' = ''/'' @ concat (map (\<lambda>e. e @ ''/'') fs)" for fs
    by (induction fs) simp_all
  have "resolve_elements ''/'' True ([] # es @ str_split CHR ''/'' ref) = ''/'' @ path_of_elements es @ ref"
    using resolve_elements_plain [OF plain, of "''/''"] parts [of ref] slashes [of es]
    by (simp add: path_of_elements_def append.assoc [symmetric] del: append.assoc append_assoc)
  moreover have "last ([] # es @ str_split CHR ''/'' ref) \<noteq> ''.''" "last ([] # es @ str_split CHR ''/'' ref) \<noteq> ''..''"
    using plain last_in_set [of "es @ str_split CHR ''/'' ref"] str_split_not_Nil [of "CHR ''/''" ref] by auto
  moreover obtain x where "path_of_elements es = CHR ''/'' # x" by (simp add: path_of_elements_def)
  ultimately show ?thesis
    using assms(3,4) base split
    by (simp add: resolve_path_def Let_def del: resolve_elements.simps last.simps str_split.simps)
qed

lemma escaped_char:
  assumes "\<not> path_unreserved c" shows "CHR ''%'' \<in> set (PathEscape (u @ c # v))"
  using assms by (simp add: PathEscape_def)

lemma PathEscape_plain: "CHR ''%'' \<notin> set (PathEscape u) \<Longrightarrow> PathEscape u = u"
  by (induction u) (auto simp: PathEscape_def split: if_splits)

lemma PathEscape_no_slash: "CHR ''/'' \<notin> set (PathEscape u)"
proof -
  have hex: "CHR ''/'' \<noteq> upper_hex ! n" if "n < 16" for n
  proof -
    have "n < length upper_hex" "CHR ''/'' \<notin> set upper_hex" using that by (simp_all add: upper_hex_def)
    then show ?thesis using nth_mem by metis
  qed
  have "(of_char c :: nat) div 16 < 16" "(of_char c :: nat) mod 16 < 16" for c :: char
    by (simp_all add: less_mult_imp_div_less)
  then have "CHR ''/'' \<noteq> upper_hex ! (of_char c div 16)" "CHR ''/'' \<noteq> upper_hex ! (of_char c mod 16)" for c :: char
    using hex by blast+
  moreover have "\<not> path_unreserved CHR ''/''" by (simp add: path_unreserved_def alphanumeric_def base62Alphabet_def)
  ultimately show ?thesis by (auto simp: PathEscape_def split: if_splits)
qed

lemma PathEscape_not_dots: "u \<notin> {''.'', ''..''} \<Longrightarrow> PathEscape u \<notin> {''.'', ''..''}"
  using PathEscape_plain [of u] by auto

definition operation_text :: "api_operation \<Rightarrow> string" where
  "operation_text op = (case op of RemoveUserOp u \<Rightarrow> u | RequestShutdown reason \<Rightarrow> trim_space reason | _ \<Rightarrow> [])"

text \<open>
  Property C39. Every request of the client goes to its endpoint below the path of the configured server, with one exception: a user to
  remove, or the reason of a shutdown, that is a dot or two.
\<close>

lemma requests_below_base:
  assumes "operation_text op \<notin> {''.'', ''..''}"
  shows "resolve_path (base_path p) (tl (operation_endpoint op)) = base_path p @ tl (operation_endpoint op)"
proof -
  obtain es where es: "\<forall>e \<in> set es. plain_element e" "base_path p = path_of_elements es" using base_path_shape by blast
  have last: "str_split CHR ''/'' (PathEscape u) = [PathEscape u]" for u
    by (rule str_split_plain) (rule PathEscape_no_slash)
  have dots: "PathEscape u \<noteq> ''.'' \<and> PathEscape u \<noteq> ''..''" if "u \<notin> {''.'', ''..''}" for u
    using PathEscape_not_dots [OF that] by simp
  have "\<forall>e \<in> set (str_split CHR ''/'' (tl (operation_endpoint op))). e \<noteq> ''.'' \<and> e \<noteq> ''..''"
    using assms dots by (cases op) (auto simp: operation_endpoint_def operation_text_def last)
  moreover have "tl (operation_endpoint op) \<noteq> []" "hd (tl (operation_endpoint op)) \<noteq> CHR ''/''"
    by (cases op; simp add: operation_endpoint_def)+
  ultimately show ?thesis unfolding es(2) by (rule resolve_below [OF es(1)])
qed

lemma requests_below_base_witness:
  "resolve_path (base_path ''/proxy'') (tl (operation_endpoint (RemoveUserOp ''bob''))) =
   base_path ''/proxy'' @ tl (operation_endpoint (RemoveUserOp ''bob''))"
proof -
  have "operation_text (RemoveUserOp ''bob'') \<notin> {''.'', ''..''}" by (simp add: operation_text_def)
  then show ?thesis by (rule requests_below_base)
qed

lemma dots_leave_endpoint:
  "resolve_path ''/'' (tl (operation_endpoint (RemoveUserOp ''..''))) = ''/api/v1/auth/''"
  "resolve_path ''/'' (tl (operation_endpoint (RequestShutdown ''..''))) = ''/api/v1/''"
  by code_simp+

section \<open>Answers\<close>

record response_error =
  re_Status :: int
  re_Type :: string
  re_Message :: string
  re_Field :: string
  re_RequestID :: string

datatype client_error =
    RequestFailed string
  | NoEndpoint endpoint_error
  | ResponseTooLong int
  | ApiError response_error
  | NotDecoded string

definition newResponseError :: "int \<Rightarrow> string \<Rightarrow> string \<Rightarrow> string \<Rightarrow> string \<Rightarrow> response_error" where
  "newResponseError status errType message field requestID =
     \<lparr>re_Status = status, re_Type = sanitizeErrorCode errType, re_Message = sanitizeErrorText message,
      re_Field = sanitizeErrorField field, re_RequestID = sanitizeErrorField requestID\<rparr>"

text \<open>The member error of an answer: absent or null, an object of texts, a text, or something else.\<close>

datatype error_member = NoError | ErrorDetail string string string | ErrorMessage string | OtherError

record error_envelope =
  ee_Error :: error_member
  ee_RequestID :: string

definition or_default :: "string \<Rightarrow> string \<Rightarrow> string" where
  "or_default s d = (if trim_space s = [] then d else s)"

text \<open>\<open>decode\<close> is \<open>None\<close> for what is not a JSON object; \<open>statusText\<close> is the text of the status.\<close>

definition parseResponseError ::
    "(string \<Rightarrow> error_envelope option) \<Rightarrow> string \<Rightarrow> int \<Rightarrow> string \<Rightarrow> response_error" where
  "parseResponseError decode statusText status data =
     (if data = [] then newResponseError status ''api_error'' statusText [] []
      else case decode data of
          None \<Rightarrow> newResponseError status ''api_error'' ''server returned a non-JSON error response'' [] []
        | Some e \<Rightarrow>
            (case ee_Error e of
               NoError \<Rightarrow> newResponseError status ''api_error'' ''server returned an error without a message'' [] (ee_RequestID e)
             | ErrorDetail errType message field \<Rightarrow>
                 newResponseError status (or_default errType ''api_error'')
                   (or_default message ''server returned an error without a message'') field (ee_RequestID e)
             | ErrorMessage message \<Rightarrow>
                 if trim_space message \<noteq> [] then newResponseError status ''api_error'' message [] (ee_RequestID e)
                 else newResponseError status ''api_error'' ''server returned an invalid error response'' [] (ee_RequestID e)
             | OtherError \<Rightarrow>
                 newResponseError status ''api_error'' ''server returned an invalid error response'' [] (ee_RequestID e)))"

definition responseLimit :: "int \<Rightarrow> int" where
  "responseLimit status = (if status \<ge> 400 then 64 * 1024 else 16 * 1024 * 1024)"

definition read_bounded :: "int \<Rightarrow> string \<Rightarrow> client_error + string" where
  "read_bounded limit body =
     (let data = take (nat (limit + 1)) body in if int (length data) > limit then Inl (ResponseTooLong limit) else Inr data)"

text \<open>An answer of the transport is an error, or a status with the text of it and a body.\<close>

definition doJSON ::
    "(string \<Rightarrow> error_envelope option) \<Rightarrow> (string \<Rightarrow> string + 'a) \<Rightarrow> 'a \<Rightarrow> string + int \<times> string \<times> string \<Rightarrow> client_error + 'a" where
  "doJSON decode_error decode zero reply =
     (case reply of
        Inl e \<Rightarrow> Inl (RequestFailed e)
      | Inr (status, statusText, body) \<Rightarrow>
          (case read_bounded (responseLimit status) body of
             Inl e \<Rightarrow> Inl e
           | Inr data \<Rightarrow>
               if status \<ge> 400 then Inl (ApiError (parseResponseError decode_error statusText status data))
               else if data = [] then Inr zero
               else (case decode data of Inl e \<Rightarrow> Inl (NotDecoded e) | Inr x \<Rightarrow> Inr x)))"

section \<open>Compatible servers\<close>

record version_doc =
  vd_Product :: string
  vd_ApplicationVersion :: string
  vd_Current :: string
  vd_Capabilities :: "string list"
  vd_Deprecated :: "string list"
  vd_Deprecation :: string
  vd_Sunset :: string
  vd_LegacyContract :: bool

datatype compatibility_error =
    EndpointMissing
  | AuthenticationFailed
  | Malformed
  | WrongProduct string
  | UnsupportedAPI string
  | TransportError
  | ServerError

definition isRecognizedLegacyVersion :: "version_doc \<Rightarrow> bool" where
  "isRecognizedLegacyVersion v \<longleftrightarrow>
     trim_space (vd_Product v) = [] \<and> trim_space (vd_ApplicationVersion v) = [] \<and> vd_Capabilities v = [] \<and>
     trim_space (vd_Current v) = ''v1'' \<and> ''legacy-root'' \<in> set (vd_Deprecated v) \<and>
     trim_space (vd_Deprecation v) \<noteq> [] \<and> trim_space (vd_Sunset v) \<noteq> []"

definition normalizeAndValidateVersion :: "version_doc \<Rightarrow> compatibility_error + version_doc" where
  "normalizeAndValidateVersion v =
     (if isRecognizedLegacyVersion v
      then Inr (v\<lparr>vd_Product := ''torrserver'', vd_ApplicationVersion := ''unknown'', vd_LegacyContract := True\<rparr>)
      else if trim_space (vd_Product v) \<noteq> ''torrserver'' then Inl (WrongProduct (trim_space (vd_Product v)))
      else if trim_space (vd_Current v) = [] then Inl Malformed
      else if trim_space (vd_Current v) \<noteq> ''v1'' then Inl (UnsupportedAPI (trim_space (vd_Current v)))
      else if trim_space (vd_ApplicationVersion v) = [] then Inl Malformed
      else if ''management-api-v1'' \<notin> set (vd_Capabilities v) then Inl Malformed
      else Inr v)"

definition classifyCompatibilityError :: "client_error \<Rightarrow> compatibility_error" where
  "classifyCompatibilityError e =
     (case e of
        ApiError r \<Rightarrow>
          if re_Status r = 404 \<or> re_Status r = 405 then EndpointMissing
          else if re_Status r = 401 \<or> re_Status r = 403 then AuthenticationFailed
          else ServerError
      | NotDecoded d \<Rightarrow> Malformed
      | ResponseTooLong l \<Rightarrow> Malformed
      | _ \<Rightarrow> TransportError)"

definition client_Version ::
    "(string \<Rightarrow> error_envelope option) \<Rightarrow> (string \<Rightarrow> string + version_doc) \<Rightarrow> version_doc \<Rightarrow>
     string + int \<times> string \<times> string \<Rightarrow> compatibility_error + version_doc" where
  "client_Version decode_error decode zero reply =
     (case doJSON decode_error decode zero reply of
        Inl e \<Rightarrow> Inl (classifyCompatibilityError e)
      | Inr v \<Rightarrow> normalizeAndValidateVersion v)"

text \<open>The document of the server.\<close>

definition apiVersion :: "string \<Rightarrow> version_doc" where
  "apiVersion applicationVersion =
     \<lparr>vd_Product = ''torrserver'', vd_ApplicationVersion = applicationVersion, vd_Current = ''v1'',
      vd_Capabilities = [''management-api-v1''], vd_Deprecated = [''legacy-root''], vd_Deprecation = ''2025-06-01T00:00:00Z'',
      vd_Sunset = ''Tue, 30 Jun 2026 23:59:59 GMT'', vd_LegacyContract = False\<rparr>"

text \<open>The codes that the command line gives to errors.\<close>

definition compatibility_code :: "compatibility_error \<Rightarrow> string" where
  "compatibility_code e = (case e of
     EndpointMissing \<Rightarrow> ''compatibility_endpoint_missing'' | AuthenticationFailed \<Rightarrow> ''compatibility_authentication_failed''
   | Malformed \<Rightarrow> ''compatibility_document_malformed'' | WrongProduct p \<Rightarrow> ''not_torrserver''
   | UnsupportedAPI v \<Rightarrow> ''unsupported_api_version'' | TransportError \<Rightarrow> ''compatibility_transport_error''
   | ServerError \<Rightarrow> ''compatibility_server_error'')"

section \<open>What holds of them\<close>

lemma version_accepted:
  "normalizeAndValidateVersion v = Inr v' \<longleftrightarrow>
     (if isRecognizedLegacyVersion v
      then v' = v\<lparr>vd_Product := ''torrserver'', vd_ApplicationVersion := ''unknown'', vd_LegacyContract := True\<rparr>
      else v' = v \<and> trim_space (vd_Product v) = ''torrserver'' \<and> trim_space (vd_Current v) = ''v1'' \<and>
        trim_space (vd_ApplicationVersion v) \<noteq> [] \<and> ''management-api-v1'' \<in> set (vd_Capabilities v))"
  by (auto simp: normalizeAndValidateVersion_def)

lemma own_server_accepted:
  "trim_space applicationVersion \<noteq> [] \<Longrightarrow>
   normalizeAndValidateVersion (apiVersion applicationVersion) = Inr (apiVersion applicationVersion)"
proof -
  assume "trim_space applicationVersion \<noteq> []"
  moreover have "trim_space ''torrserver'' = ''torrserver''" "trim_space ''v1'' = ''v1''" by code_simp+
  ultimately show ?thesis by (simp add: normalizeAndValidateVersion_def isRecognizedLegacyVersion_def apiVersion_def)
qed

text \<open>An answer that is taken is within its bound, and an error of a server never is a success.\<close>

lemma reply_bounded:
  assumes "doJSON decode_error decode zero (Inr (status, statusText, body)) = Inr x"
  shows "status < 400 \<and> int (length body) \<le> 16 * 1024 * 1024 \<and> (if body = [] then x = zero else decode body = Inr x)"
proof -
  obtain data where data: "read_bounded (responseLimit status) body = Inr data" "\<not> status \<ge> 400"
    "if data = [] then x = zero else decode data = Inr x"
    using assms by (auto simp: doJSON_def split: sum.splits if_splits)
  then have limit: "responseLimit status = 16 * 1024 * 1024" by (simp add: responseLimit_def)
  have "length (take (nat (16 * 1024 * 1024 + 1)) body) \<le> nat (16 * 1024 * 1024)" "data = take (nat (16 * 1024 * 1024 + 1)) body"
    using data(1) unfolding limit read_bounded_def Let_def by (auto split: if_splits)
  then have "length body \<le> nat (16 * 1024 * 1024)" "data = body" by auto
  then show ?thesis using data(2,3) by auto
qed

end
