(* ===== verification/Command_Line.thy ===== *)
theory Command_Line
  imports Management_Client Torznab_Search "HOL-Library.AList"
begin

text \<open>
  The command line (internal/cliapp): which values of which settings it sends (settings.go, settings_commands.go), the contexts
  of servers (context_store.go, context_commands.go), how a torrent and a file are named (torrent_commands.go,
  url_commands.go), and what has to be confirmed (confirmation.go, shutdown_commands.go, auth_commands.go).

  The parsing of floats, durations and JSON, the files and the answers of the server are arguments. Flags, tables and help
  are not modelled.
\<close>

section \<open>Settings\<close>

datatype setting_kind =
    KBool | KInt | KInt64 | KString | KBytes | KSeconds | KMinutes | KMillis | KStringList | KObject | KObjectList

record settings_field =
  sf_Key :: string
  sf_Kind :: setting_kind
  sf_Unit :: string
  sf_ReadOnly :: bool
  sf_Guidance :: string
  sf_Min :: int
  sf_Max :: int
  sf_Allowed :: "string list"

definition field :: "string \<Rightarrow> setting_kind \<Rightarrow> string \<Rightarrow> int \<Rightarrow> int \<Rightarrow> string list \<Rightarrow> settings_field" where
  "field key kind unit least most allowed =
     \<lparr>sf_Key = key, sf_Kind = kind, sf_Unit = unit, sf_ReadOnly = False, sf_Guidance = [], sf_Min = least, sf_Max = most,
      sf_Allowed = allowed\<rparr>"

definition read_only :: "string \<Rightarrow> setting_kind \<Rightarrow> string \<Rightarrow> settings_field" where
  "read_only key kind guidance = field key kind [] 0 0 []\<lparr>sf_ReadOnly := True, sf_Guidance := guidance\<rparr>"

definition settingsConfigGuidance :: string where
  "settingsConfigGuidance = ''change it in config.yml and restart the server''"

definition settingsStorageGuidance :: string where
  "settingsStorageGuidance = ''use the storage settings API instead''"

definition knownSettingsFields :: "settings_field list" where
  "knownSettingsFields =
     [field ''CacheSize'' KBytes ''bytes'' 1 0 [],
      field ''ReaderReadAHead'' KInt ''%'' 5 100 [],
      field ''PreloadCache'' KInt ''%'' 0 100 [],
      field ''UseDisk'' KBool [] 0 0 [],
      field ''TorrentsSavePath'' KString [] 0 0 [],
      field ''RemoveCacheOnDrop'' KBool [] 0 0 [],
      field ''ForceEncrypt'' KBool [] 0 0 [],
      field ''RetrackersMode'' KInt [] 0 3 [],
      field ''TorrentDisconnectTimeout'' KSeconds ''seconds'' 1 0 [],
      read_only ''EnableDebug'' KBool settingsConfigGuidance,
      read_only ''ServiceOnlyDebug'' KBool settingsConfigGuidance,
      read_only ''DebugEstablishedConnsOverride'' KInt settingsConfigGuidance,
      read_only ''DebugTotalHalfOpenConnsOverride'' KInt settingsConfigGuidance,
      read_only ''DebugTrackerBudgetOverride'' KInt settingsConfigGuidance,
      read_only ''DebugStablePeerCap'' KInt settingsConfigGuidance,
      field ''EnableDLNA'' KBool [] 0 0 [],
      field ''FriendlyName'' KString [] 0 0 [],
      field ''EnableRutorSearch'' KBool [] 0 0 [],
      field ''EnableTorznabSearch'' KBool [] 0 0 [],
      field ''TorznabUrls'' KObjectList [] 0 0 [],
      field ''TMDBSettings'' KObject [] 0 0 [],
      field ''EnableIPv6'' KBool [] 0 0 [],
      field ''DisableTCP'' KBool [] 0 0 [],
      field ''DisableUTP'' KBool [] 0 0 [],
      field ''DisableUPNP'' KBool [] 0 0 [],
      field ''DisableDHT'' KBool [] 0 0 [],
      field ''DisablePEX'' KBool [] 0 0 [],
      field ''DisableUpload'' KBool [] 0 0 [],
      field ''DownloadRateLimit'' KInt ''KB/s'' 0 0 [],
      field ''UploadRateLimit'' KInt ''KB/s'' 0 0 [],
      field ''ConnectionsLimit'' KInt [] 1 0 [],
      field ''PeersListenPort'' KInt [] 0 65535 [],
      field ''EnableLPD'' KBool [] 0 0 [],
      field ''LPDIPv6'' KBool [] 0 0 [],
      field ''SslPort'' KInt [] 0 65535 [],
      field ''SslCert'' KString [] 0 0 [],
      field ''SslKey'' KString [] 0 0 [],
      field ''ResponsiveMode'' KBool [] 0 0 [],
      field ''CoreProfile'' KString [] 0 0 
        [''custom'', ''low-end'', ''low-cpu'', ''balanced'', ''tcp-only-balanced'', ''high-throughput'', ''nas''],
      field ''MaxConcurrentStreams'' KInt [] 0 0 [],
      field ''StreamQueueSize'' KInt [] 0 0 [],
      field ''StreamQueueWaitSec'' KSeconds ''seconds'' 1 0 [],
      field ''MaxUniquePlaybackTorrents'' KInt [] 0 0 [],
      field ''StartupPreloadPolicy'' KString [] 0 0 [''skip-active'', ''legacy''],
      field ''AdaptiveRAMinMB'' KInt ''MB'' 0 0 [],
      field ''AdaptiveRAMaxMB'' KInt ''MB'' 0 0 [],
      field ''WarmDiskCacheSizeMB'' KInt64 ''MB'' 0 0 [],
      field ''WarmDiskCacheTTLMin'' KMinutes ''minutes'' 0 0 [],
      field ''DiskSyncPolicy'' KString [] 0 0 [''none'', ''periodic'', ''always''],
      field ''DiskSyncIntervalMS'' KMillis ''milliseconds'' 1 0 [],
      field ''DiskWriteBatchSize'' KInt [] 1 0 [],
      field ''MetadataWorkers'' KInt [] 0 0 [],
      field ''MetadataQueueSize'' KInt [] 0 0 [],
      field ''PreloadWorkers'' KInt [] 0 0 [],
      field ''PreloadQueueSize'' KInt [] 0 0 [],
      read_only ''ShowFSActiveTorr'' KBool settingsConfigGuidance,
      read_only ''StoreSettingsInJSON'' KBool settingsStorageGuidance,
      read_only ''StoreViewedInJSON'' KBool settingsStorageGuidance,
      field ''EnableProxy'' KBool [] 0 0 [],
      field ''ProxyHosts'' KStringList [] 0 0 []]"

text \<open>\<open>strings.EqualFold\<close> against a text of ASCII.\<close>

definition fold_equal :: "string \<Rightarrow> string \<Rightarrow> bool" where
  "fold_equal keyword s \<longleftrightarrow> fold_prefix (map lower_char keyword) s = Some []"

definition findFieldByKey :: "string \<Rightarrow> settings_field option" where
  "findFieldByKey key = List.find (\<lambda>f. fold_equal (sf_Key f) key) knownSettingsFields"

datatype json = JNull | JBool bool | JNumber string | JString string | JList "json list" | JObject "(string \<times> json) list"

datatype setting_value = BoolV bool | IntV int | StringV string | JsonV json

datatype setting_error =
    Expected string
  | NotAllowed "string list"
  | TooSmall int
  | TooLarge int
  | UnknownSetting string
  | ReadOnlySetting string string
  | NotAPatch
  | EmptyPatch

record value_lib =
  vl_ParseFloat :: "string \<Rightarrow> rat option" \<comment> \<open>\<open>None\<close> also for what is not finite\<close>
  vl_ParseDuration :: "string \<Rightarrow> int option"
  vl_json :: "string \<Rightarrow> json option"

definition parseBoolSetting :: "string \<Rightarrow> bool option" where
  "parseBoolSetting s =
     (let s = to_lower s
      in if s \<in> {''true'', ''1'', ''yes'', ''on''} then Some True
         else if s \<in> {''false'', ''0'', ''no'', ''off''} then Some False else None)"

text \<open>Capital letters of ASCII, which is all that the suffixes look at.\<close>

definition upper_char :: "char \<Rightarrow> char" where
  "upper_char c = (case map_of (map (\<lambda>(a, b). (b, a)) lower_table) c of None \<Rightarrow> c | Some d \<Rightarrow> d)"

definition size_suffixes :: "(string \<times> int) list" where
  "size_suffixes = [(''GB'', 1024 * 1024 * 1024), (''MB'', 1024 * 1024), (''KB'', 1024)]"

definition parseByteSize :: "value_lib \<Rightarrow> string \<Rightarrow> int option" where
  "parseByteSize vl s =
     (let upper = map upper_char (trim_space s);
          (number, multiplier) =
            (case List.find (\<lambda>(suffix, f). has_suffix upper suffix) size_suffixes of
               None \<Rightarrow> (upper, 1) | Some (suffix, f) \<Rightarrow> (trim_space (trim_suffix upper suffix), f))
      in case vl_ParseFloat vl number of
           None \<Rightarrow> None
         | Some parsed \<Rightarrow>
             if parsed < 0 then None
             else let bytes = float64 (parsed * of_int multiplier)
               in if bytes > 9223372036854775808 \<or> of_int \<lfloor>bytes\<rfloor> \<noteq> bytes then None else Some (int64_of_float bytes))"

definition parseDurationUnit :: "value_lib \<Rightarrow> string \<Rightarrow> int \<Rightarrow> int option" where
  "parseDurationUnit vl s unit =
     (case ParseInt s of Some n \<Rightarrow> Some n
      | None \<Rightarrow>
          (case vl_ParseDuration vl s of None \<Rightarrow> None
           | Some d \<Rightarrow> if go_mod d unit \<noteq> 0 then None else Some (go_div d unit)))"

definition is_string :: "json \<Rightarrow> bool" where "is_string j = (case j of JString s \<Rightarrow> True | _ \<Rightarrow> False)"
definition is_object :: "json \<Rightarrow> bool" where "is_object j = (case j of JObject m \<Rightarrow> True | _ \<Rightarrow> False)"

definition validateStructuredSetting :: "setting_kind \<Rightarrow> json \<Rightarrow> setting_error option" where
  "validateStructuredSetting kind j =
     (case kind of
        KStringList \<Rightarrow>
          (case j of JList items \<Rightarrow> if list_all is_string items then None else Some (Expected ''JSON array of strings'')
           | _ \<Rightarrow> Some (Expected ''JSON array of strings''))
      | KObject \<Rightarrow> if is_object j then None else Some (Expected ''JSON object'')
      | KObjectList \<Rightarrow>
          (case j of JList items \<Rightarrow> if list_all is_object items then None else Some (Expected ''JSON array of objects'')
           | _ \<Rightarrow> Some (Expected ''JSON array of objects''))
      | _ \<Rightarrow> None)"

definition integerSettingValue :: "setting_value \<Rightarrow> int option" where
  "integerSettingValue v = (case v of IntV n \<Rightarrow> Some n | JsonV (JNumber s) \<Rightarrow> ParseInt s | _ \<Rightarrow> None)"

definition field_validate :: "settings_field \<Rightarrow> setting_value \<Rightarrow> setting_error option" where
  "field_validate f v =
     (if sf_Allowed f \<noteq> [] \<and> (case v of StringV s \<Rightarrow> \<not> list_ex (\<lambda>a. fold_equal a s) (sf_Allowed f) | _ \<Rightarrow> True)
      then Some (NotAllowed (sf_Allowed f))
      else case integerSettingValue v of
          None \<Rightarrow> None
        | Some n \<Rightarrow> if n < sf_Min f then Some (TooSmall (sf_Min f))
            else if sf_Max f > 0 \<and> n > sf_Max f then Some (TooLarge (sf_Max f)) else None)"

definition typeLabel :: "settings_field \<Rightarrow> string" where
  "typeLabel f = (case sf_Kind f of
     KBytes \<Rightarrow> ''bytes'' | KSeconds \<Rightarrow> ''duration'' | KMinutes \<Rightarrow> ''duration'' | KMillis \<Rightarrow> ''duration''
   | KStringList \<Rightarrow> ''string[]'' | KObject \<Rightarrow> ''object'' | KObjectList \<Rightarrow> ''object[]''
   | KBool \<Rightarrow> ''bool'' | KInt \<Rightarrow> ''int'' | KInt64 \<Rightarrow> ''int64'' | KString \<Rightarrow> ''string'')"

definition checked :: "string \<Rightarrow> settings_field \<Rightarrow> setting_value option \<Rightarrow> setting_error + setting_value" where
  "checked expected f parsed =
     (case parsed of None \<Rightarrow> Inl (Expected expected)
      | Some v \<Rightarrow> (case field_validate f v of None \<Rightarrow> Inr v | Some e \<Rightarrow> Inl e))"

definition parseStructuredSetting :: "value_lib \<Rightarrow> setting_kind \<Rightarrow> string \<Rightarrow> json option" where
  "parseStructuredSetting vl kind s =
     (case vl_json vl s of None \<Rightarrow> None | Some j \<Rightarrow> if validateStructuredSetting kind j = None then Some j else None)"

definition parseSettingValue :: "value_lib \<Rightarrow> settings_field \<Rightarrow> string \<Rightarrow> setting_error + setting_value" where
  "parseSettingValue vl f s =
     (let s = trim_space s in checked (typeLabel f) f
       (case sf_Kind f of
          KBool \<Rightarrow> map_option BoolV (parseBoolSetting s)
        | KInt \<Rightarrow> map_option IntV (ParseInt s)
        | KInt64 \<Rightarrow> map_option IntV (ParseInt s)
        | KBytes \<Rightarrow> map_option IntV (parseByteSize vl s)
        | KSeconds \<Rightarrow> map_option IntV (parseDurationUnit vl s 1000000000)
        | KMinutes \<Rightarrow> map_option IntV (parseDurationUnit vl s (60 * 1000000000))
        | KMillis \<Rightarrow> map_option IntV (parseDurationUnit vl s 1000000)
        | KString \<Rightarrow> Some (StringV s)
        | k \<Rightarrow> map_option JsonV (parseStructuredSetting vl k s)))"

definition json_label :: "setting_kind \<Rightarrow> string" where
  "json_label kind = (case kind of
     KBool \<Rightarrow> ''JSON boolean'' | KString \<Rightarrow> ''JSON string'' | KStringList \<Rightarrow> ''JSON array of strings''
   | KObject \<Rightarrow> ''JSON object'' | KObjectList \<Rightarrow> ''JSON array of objects'' | _ \<Rightarrow> ''JSON integer'')"

definition normalizeJSONSettingValue :: "settings_field \<Rightarrow> json \<Rightarrow> setting_error + setting_value" where
  "normalizeJSONSettingValue f j =
     checked (json_label (sf_Kind f)) f
       (case sf_Kind f of
          KBool \<Rightarrow> (case j of JBool b \<Rightarrow> Some (BoolV b) | _ \<Rightarrow> None)
        | KString \<Rightarrow> (case j of JString s \<Rightarrow> Some (StringV s) | _ \<Rightarrow> None)
        | KStringList \<Rightarrow> if validateStructuredSetting KStringList j = None then Some (JsonV j) else None
        | KObject \<Rightarrow> if validateStructuredSetting KObject j = None then Some (JsonV j) else None
        | KObjectList \<Rightarrow> if validateStructuredSetting KObjectList j = None then Some (JsonV j) else None
        | _ \<Rightarrow> map_option IntV (integerSettingValue (JsonV j)))"

text \<open>A patch in the order in which the map is visited; a later entry of the same field replaces an earlier one.\<close>

fun normalize_entries :: "(string \<times> json) list \<Rightarrow> (string \<times> setting_value) list \<Rightarrow> setting_error + (string \<times> setting_value) list" where
  "normalize_entries [] kept = Inr kept"
| "normalize_entries ((key, j) # patch) kept =
     (case findFieldByKey key of
        None \<Rightarrow> Inl (UnknownSetting key)
      | Some f \<Rightarrow>
          if sf_ReadOnly f then Inl (ReadOnlySetting (sf_Key f) (sf_Guidance f))
          else (case normalizeJSONSettingValue f j of
              Inl e \<Rightarrow> Inl e
            | Inr v \<Rightarrow> normalize_entries patch (AList.update (sf_Key f) v kept)))"

definition normalizeSettingsPatch :: "(string \<times> json) list option \<Rightarrow> setting_error + (string \<times> setting_value) list" where
  "normalizeSettingsPatch patch =
     (case patch of None \<Rightarrow> Inl NotAPatch | Some [] \<Rightarrow> Inl EmptyPatch | Some p \<Rightarrow> normalize_entries p [])"

definition cmdSettingsSetKeyValue :: "value_lib \<Rightarrow> string \<Rightarrow> string \<Rightarrow> setting_error + (string \<times> setting_value) list" where
  "cmdSettingsSetKeyValue vl key s =
     (case findFieldByKey key of
        None \<Rightarrow> Inl (UnknownSetting key)
      | Some f \<Rightarrow>
          if sf_ReadOnly f then Inl (ReadOnlySetting (sf_Key f) (sf_Guidance f))
          else (case parseSettingValue vl f s of Inl e \<Rightarrow> Inl e | Inr v \<Rightarrow> Inr [(sf_Key f, v)]))"

definition formatByteSize :: "int \<Rightarrow> string" where
  "formatByteSize n =
     (case List.find (\<lambda>(suffix, f). n \<ge> f \<and> go_mod n f = 0) size_suffixes of
        Some (suffix, f) \<Rightarrow> FormatInt (go_div n f) @ '' '' @ suffix | None \<Rightarrow> FormatInt n)"

section \<open>Contexts\<close>

record context_entry =
  ctx_Server :: string
  ctx_User :: string
  ctx_Pass :: string
  ctx_Token :: string
  ctx_Insecure :: bool

record context_config =
  cc_Current :: string
  cc_Contexts :: "string \<rightharpoonup> context_entry"

definition local_context :: context_entry where
  "local_context = \<lparr>ctx_Server = DefaultBaseURL, ctx_User = [], ctx_Pass = [], ctx_Token = [], ctx_Insecure = False\<rparr>"

definition defaultContextConfig :: context_config where
  "defaultContextConfig = \<lparr>cc_Current = ''local'', cc_Contexts = [''local'' \<mapsto> local_context]\<rparr>"

definition normalizeContextConfig :: "context_config \<Rightarrow> context_config" where
  "normalizeContextConfig c =
     (let c = (if cc_Contexts c ''local'' = None then c\<lparr>cc_Contexts := (cc_Contexts c)(''local'' \<mapsto> local_context)\<rparr> else c);
          c = (if trim_space (cc_Current c) = [] then c\<lparr>cc_Current := ''local''\<rparr> else c)
      in if cc_Contexts c (cc_Current c) = None then c\<lparr>cc_Current := ''local''\<rparr> else c)"

text \<open>The file of the contexts: it is missing, cannot be read, does not decode, or holds a configuration.\<close>

datatype context_file = NoFile | Unreadable | Undecodable | ContextFile context_config

datatype context_error =
    NotLoaded
  | NotSaved
  | NameRequired
  | ServerRequired
  | UnknownContext string
  | LocalContextStays

definition context_Load :: "context_file \<Rightarrow> context_error + context_config" where
  "context_Load file =
     (case file of NoFile \<Rightarrow> Inr defaultContextConfig | ContextFile c \<Rightarrow> Inr (normalizeContextConfig c) | _ \<Rightarrow> Inl NotLoaded)"

text \<open>\<open>writable\<close> tells whether the file can be written; a write that fails leaves it.\<close>

definition context_Save :: "bool \<Rightarrow> context_config \<Rightarrow> context_file \<Rightarrow> context_error option \<times> context_file" where
  "context_Save writable c file = (if writable then (None, ContextFile (normalizeContextConfig c)) else (Some NotSaved, file))"

definition normalizeContextName :: "string \<Rightarrow> string" where
  "normalizeContextName name = to_lower (trim_space name)"

definition contextAdd :: "string \<Rightarrow> context_entry \<Rightarrow> context_config \<Rightarrow> context_error + context_config" where
  "contextAdd name e c =
     (let n = normalizeContextName name; server = trim_space (ctx_Server e)
      in if n = [] then Inl NameRequired
         else if server = [] then Inl ServerRequired
         else (let c = c\<lparr>cc_Contexts := (cc_Contexts c)(n \<mapsto>
                   \<lparr>ctx_Server = server, ctx_User = trim_space (ctx_User e), ctx_Pass = trim_space (ctx_Pass e),
                    ctx_Token = trim_space (ctx_Token e), ctx_Insecure = ctx_Insecure e\<rparr>)\<rparr>
               in Inr (if trim_space (cc_Current c) = [] then c\<lparr>cc_Current := n\<rparr> else c)))"

definition contextUse :: "string \<Rightarrow> context_config \<Rightarrow> context_error + context_config" where
  "contextUse name c =
     (let n = normalizeContextName name
      in if n = [] then Inl NameRequired
         else if cc_Contexts c n = None then Inl (UnknownContext n) else Inr (c\<lparr>cc_Current := n\<rparr>))"

definition contextRemove :: "string \<Rightarrow> context_config \<Rightarrow> context_error + context_config" where
  "contextRemove name c =
     (let n = normalizeContextName name
      in if n = [] then Inl NameRequired
         else if n = ''local'' then Inl LocalContextStays
         else if cc_Contexts c n = None then Inl (UnknownContext n)
         else (let c = c\<lparr>cc_Contexts := (cc_Contexts c)(n := None)\<rparr>
               in Inr (if cc_Current c = n then c\<lparr>cc_Current := ''local''\<rparr> else c)))"

datatype context_command = AddContext string context_entry | UseContext string | RemoveContext string

definition context_change :: "context_command \<Rightarrow> context_config \<Rightarrow> context_error + context_config" where
  "context_change cmd c = (case cmd of
     AddContext name e \<Rightarrow> contextAdd name e c | UseContext name \<Rightarrow> contextUse name c | RemoveContext name \<Rightarrow> contextRemove name c)"

text \<open>A command loads the file, changes what it read, and saves it.\<close>

definition context_command_run :: "bool \<Rightarrow> context_command \<Rightarrow> context_file \<Rightarrow> context_error option \<times> context_file" where
  "context_command_run writable cmd file =
     (case context_Load file of Inl e \<Rightarrow> (Some e, file)
      | Inr c \<Rightarrow> (case context_change cmd c of Inl e \<Rightarrow> (Some e, file) | Inr c \<Rightarrow> context_Save writable c file))"

record cli_options =
  op_Context :: string
  op_Server :: string
  op_User :: string
  op_Pass :: string
  op_Token :: string
  op_Insecure :: bool
  op_InsecureExplicit :: bool

definition firstNonEmpty :: "string \<Rightarrow> string \<Rightarrow> string" where
  "firstNonEmpty a b = (if trim_space a \<noteq> [] then a else b)"

definition applyContextToOptions :: "context_file \<Rightarrow> cli_options \<Rightarrow> context_error + cli_options" where
  "applyContextToOptions file opts =
     (case context_Load file of Inl e \<Rightarrow> Inl e
      | Inr c \<Rightarrow>
          (let name = (if trim_space (op_Context opts) = [] then cc_Current c else trim_space (op_Context opts))
           in case cc_Contexts c name of
                None \<Rightarrow> Inl (UnknownContext name)
              | Some e \<Rightarrow>
                  Inr (opts\<lparr>op_Context := name,
                    op_Server := firstNonEmpty (firstNonEmpty (op_Server opts) (ctx_Server e)) DefaultBaseURL,
                    op_User := firstNonEmpty (op_User opts) (ctx_User e), op_Pass := firstNonEmpty (op_Pass opts) (ctx_Pass e),
                    op_Token := firstNonEmpty (op_Token opts) (ctx_Token e),
                    op_Insecure := (if op_InsecureExplicit opts then op_Insecure opts else ctx_Insecure e)\<rparr>)))"

section \<open>Torrents and files\<close>

record torrent_view =
  tv_Hash :: string
  tv_Title :: string
  tv_Name :: string

datatype target_error = NoIdentifier | ListNotFetched | OutOfRange int | BadHash | NoTorrentFound | Ambiguous "torrent_view list"

definition canonicalTorrentHash :: "string \<Rightarrow> target_error + string" where
  "canonicalTorrentHash s =
     (if length s \<noteq> 40 then Inl BadHash else case hex_decode s of None \<Rightarrow> Inl BadHash | Some b \<Rightarrow> Inr (hex_encode b))"

definition title_matches :: "string \<Rightarrow> torrent_view \<Rightarrow> bool" where
  "title_matches identifier t \<longleftrightarrow> str_contains (to_lower (firstNonEmpty (tv_Title t) (tv_Name t))) (to_lower identifier)"

text \<open>
  \<open>list\<close> is the answer of the server, \<open>same_hash\<close> is \<open>strings.EqualFold\<close>.
\<close>

definition resolveTorrentID ::
    "(string \<Rightarrow> string \<Rightarrow> bool) \<Rightarrow> torrent_view list option \<Rightarrow> string \<Rightarrow> target_error + string" where
  "resolveTorrentID same_hash list identifier =
     (let identifier = trim_space identifier
      in if identifier = [] then Inl NoIdentifier
         else case list of None \<Rightarrow> Inl ListNotFetched
           | Some torrents \<Rightarrow>
               (case ParseInt identifier of
                  Some idx \<Rightarrow>
                    if idx < 1 \<or> idx > int (length torrents) then Inl (OutOfRange idx)
                    else canonicalTorrentHash (tv_Hash (torrents ! nat (idx - 1)))
                | None \<Rightarrow>
                    (case (if length identifier = 40 then List.find (\<lambda>t. same_hash (tv_Hash t) identifier) torrents else None) of
                       Some t \<Rightarrow> canonicalTorrentHash (tv_Hash t)
                     | None \<Rightarrow>
                         (case filter (title_matches identifier) torrents of
                            [] \<Rightarrow> Inl NoTorrentFound
                          | [t] \<Rightarrow> canonicalTorrentHash (tv_Hash t)
                          | ts \<Rightarrow> Inl (Ambiguous ts)))))"

record torrent_file_view =
  tf_ID :: int
  tf_Path :: string
  tf_Length :: int

datatype file_error = NoFiles | NoFileWithID int | NoFileMatching string

fun largest_file :: "torrent_file_view option \<Rightarrow> int \<Rightarrow> torrent_file_view list \<Rightarrow> torrent_file_view option" where
  "largest_file best most [] = best"
| "largest_file best most (f # fs) =
     (if tf_Length f > most then largest_file (Some f) (tf_Length f) fs else largest_file best most fs)"

definition selectFileFromTorrent :: "torrent_file_view list \<Rightarrow> string \<Rightarrow> file_error + torrent_file_view" where
  "selectFileFromTorrent files query =
     (if query = [] then (case largest_file None 0 files of None \<Rightarrow> Inl NoFiles | Some f \<Rightarrow> Inr f)
      else case ParseInt query of
          Some i \<Rightarrow> (case List.find (\<lambda>f. tf_ID f = i) files of None \<Rightarrow> Inl (NoFileWithID i) | Some f \<Rightarrow> Inr f)
        | None \<Rightarrow>
            (case List.find (\<lambda>f. str_contains (to_lower (tf_Path f)) (to_lower query)) files of
               None \<Rightarrow> Inl (NoFileMatching query) | Some f \<Rightarrow> Inr f))"

text \<open>The size of a file in the list; there are four units, and an index beyond them panics.\<close>

definition formatFileSize :: "int \<Rightarrow> string outcome" where
  "formatFileSize bytes =
     (if bytes < 1024 then Done (FormatInt bytes @ '' B'')
      else let (d, e) = size_unit (bytes div 1024) 1024 0; units = [''KB'', ''MB'', ''GB'', ''TB'']
        in if e < length units then Done (one_decimal (float64 (float64 (of_int bytes) / float64 (of_int d))) @ '' '' @ units ! e) else Panic)"

text \<open>The address of a stream: its path and its query, of which the encoding is in the order of the names.\<close>

definition buildStreamURL :: "server_url \<Rightarrow> string \<Rightarrow> int \<Rightarrow> server_url \<times> (string \<times> string) list" where
  "buildStreamURL base hash fileID = (base\<lparr>su_Path := ''/streams/play''\<rparr>, [(''index'', FormatInt fileID), (''link'', hash)])"

definition shortHash :: "string \<Rightarrow> string" where
  "shortHash hash = (if length hash \<le> 12 then hash else take 12 hash)"

section \<open>Sources of torrents\<close>

datatype source_error =
    NoSource
  | SeveralSources
  | HostNotLocal string
  | BadFileURI
  | SourceNotInspected
  | FileMissing string
  | NotRegular string
  | EmptyFile string
  | FileTooLarge string int

datatype stat_answer = StatMissing | StatFails | StatFile bool int \<comment> \<open>a regular file, and its size\<close>

record source_env =
  se_parse :: "string \<Rightarrow> (string \<times> string \<times> string) option" \<comment> \<open>scheme, host and path of a URL\<close>
  se_unescape :: "string \<Rightarrow> string option"
  se_stat :: "string \<Rightarrow> stat_answer"

definition maxTorrentUploadFileBytes :: int where
  "maxTorrentUploadFileBytes = 4 * 1024 * 1024 - 64 * 1024"

definition validateTorrentUploadFile :: "source_env \<Rightarrow> string \<Rightarrow> source_error + string" where
  "validateTorrentUploadFile env path =
     (if path = [] then Inr path
      else case se_stat env path of
          StatMissing \<Rightarrow> Inl SourceNotInspected
        | StatFails \<Rightarrow> Inl SourceNotInspected
        | StatFile regular bytes \<Rightarrow>
            if \<not> regular then Inl (NotRegular path)
            else if bytes \<le> 0 then Inl (EmptyFile path)
            else if bytes \<ge> maxTorrentUploadFileBytes then Inl (FileTooLarge path bytes) else Inr path)"

definition local_path :: "source_env \<Rightarrow> string \<Rightarrow> source_error + string option" where
  "local_path env source =
     (case se_stat env source of
        StatFile regular bytes \<Rightarrow> Inr (Some source)
      | StatFails \<Rightarrow> Inl SourceNotInspected
      | StatMissing \<Rightarrow>
          if fold_equal ''.torrent'' (file_ext source) \<or> CHR ''/'' \<in> set source then Inl (FileMissing source) else Inr None)"

text \<open>The path of a local file, or \<open>None\<close> for something that the server is to resolve.\<close>

definition resolveLocalTorrentPath :: "source_env \<Rightarrow> string \<Rightarrow> source_error + string option" where
  "resolveLocalTorrentPath env source =
     (case se_parse env source of
        Some (scheme, host, path) \<Rightarrow>
          if scheme = ''file'' then
            (if host \<noteq> [] \<and> host \<noteq> ''localhost'' then Inl (HostNotLocal host)
             else case se_unescape env path of None \<Rightarrow> Inl BadFileURI | Some p \<Rightarrow> Inr (Some p))
          else if scheme \<noteq> [] then Inr None else local_path env source
      | None \<Rightarrow> local_path env source)"

text \<open>What is sent: a link for the server, or a local file to upload.\<close>

datatype torrent_source = SourceLink string | SourceFile string

definition resolveTorrentAddOptions :: "source_env \<Rightarrow> string list \<Rightarrow> string \<Rightarrow> string \<Rightarrow> source_error + torrent_source" where
  "resolveTorrentAddOptions env args link file =
     (let positional = (case args of [] \<Rightarrow> [] | a # _ \<Rightarrow> trim_space a); link = trim_space link; file = trim_space file;
          given = filter (\<lambda>s. s \<noteq> []) [positional, link, file]
      in if given = [] then Inl NoSource
         else if length given > 1 then Inl SeveralSources
         else if file \<noteq> [] then (case validateTorrentUploadFile env file of Inl e \<Rightarrow> Inl e | Inr f \<Rightarrow> Inr (SourceFile f))
         else (case resolveLocalTorrentPath env (hd given) of
             Inl e \<Rightarrow> Inl e
           | Inr (Some p) \<Rightarrow>
               (case validateTorrentUploadFile env p of
                  Inl e \<Rightarrow> Inl e | Inr f \<Rightarrow> Inr (if f = [] then SourceLink (hd given) else SourceFile f))
           | Inr None \<Rightarrow> Inr (SourceLink (hd given))))"

section \<open>Confirmations and secrets\<close>

datatype confirm_error = ConfirmationRequired | ConfirmationCancelled | PromptNotWritten | AnswerNotRead | NotConfirmed

text \<open>\<open>answer\<close> is the line that was read, or whether reading it failed.\<close>

definition confirmDestructiveAction :: "bool \<Rightarrow> bool \<Rightarrow> bool \<Rightarrow> bool \<Rightarrow> bool + string \<Rightarrow> confirm_error option" where
  "confirmDestructiveAction yes interactive cancelled written answer =
     (if yes then None
      else if \<not> interactive then Some ConfirmationRequired
      else if cancelled then Some ConfirmationCancelled
      else if \<not> written then Some PromptNotWritten
      else case answer of
          Inl failed \<Rightarrow> Some (if failed then AnswerNotRead else NotConfirmed)
        | Inr line \<Rightarrow> if fold_equal ''yes'' (trim_space line) then None else Some NotConfirmed)"

definition cmdShutdown :: "string \<Rightarrow> string \<Rightarrow> bool" where
  "cmdShutdown mode token \<longleftrightarrow> \<not> (fold_equal ''public'' (trim_space mode) \<and> trim_space token = [])"

text \<open>The token that is sent, \<open>None\<close> when it is too short.\<close>

definition cmdSetShutdownToken :: "string \<Rightarrow> string option" where
  "cmdSetShutdownToken token = (if length (trim_space token) < 16 then None else Some (trim_space token))"

definition cmdAuthAdd :: "string \<Rightarrow> string \<Rightarrow> string option \<Rightarrow> (string \<times> string) option" where
  "cmdAuthAdd username password prompted =
     (if username = [] then None
      else case (if password = [] then prompted else Some password) of
          None \<Rightarrow> None | Some p \<Rightarrow> if length p < 8 then None else Some (username, p))"

text \<open>\<open>None\<close> for a prompt that fails: the input is no terminal, or the two entries differ.\<close>

definition readPasswordInteractively :: "bool \<Rightarrow> string option \<Rightarrow> string option \<Rightarrow> string option" where
  "readPasswordInteractively terminal pass confirm =
     (if \<not> terminal then None
      else case (pass, confirm) of (Some p, Some q) \<Rightarrow> if p = q then Some p else None | _ \<Rightarrow> None)"

fun requestedJSONOutput :: "string list \<Rightarrow> bool" where
  "requestedJSONOutput [] = False"
| "requestedJSONOutput (a # args) =
     (case strip_prefix ''--output='' a of
        Some v \<Rightarrow> fold_equal ''json'' (trim_space v) \<or> requestedJSONOutput args
      | None \<Rightarrow>
          if a = ''--output'' \<and> args \<noteq> [] then fold_equal ''json'' (trim_space (hd args)) else requestedJSONOutput args)"

definition normalizeProgramName :: "string \<Rightarrow> string" where
  "normalizeProgramName name =
     (let n = to_lower (trim_space name)
      in if list_all (\<lambda>c. c \<in> set ''abcdefghijklmnopqrstuvwxyz0123456789-'') n then n else [])"

section \<open>What holds of the settings\<close>

lemma find_is_known: "findFieldByKey key = Some f \<Longrightarrow> f \<in> set knownSettingsFields"
  by (auto simp: findFieldByKey_def find_Some_iff)

lemma checked_valid: "checked expected f parsed = Inr v \<Longrightarrow> field_validate f v = None"
  by (auto simp: checked_def split: option.splits)

lemma parsed_valid: "parseSettingValue vl f s = Inr v \<Longrightarrow> field_validate f v = None"
  unfolding parseSettingValue_def Let_def by (rule checked_valid)

text \<open>A number that is sent lies in the range of its field, and a text is one of those that are allowed.\<close>

lemma valid_in_range:
  assumes "field_validate f v = None"
  shows "\<And>n. integerSettingValue v = Some n \<Longrightarrow> sf_Min f \<le> n \<and> (0 < sf_Max f \<longrightarrow> n \<le> sf_Max f)"
    and "sf_Allowed f \<noteq> [] \<Longrightarrow> \<exists>s. v = StringV s \<and> (\<exists>a \<in> set (sf_Allowed f). fold_equal a s)"
  using assms by (auto simp: field_validate_def list_ex_iff split: if_splits setting_value.splits)

definition sendable :: "string \<times> setting_value \<Rightarrow> bool" where
  "sendable e \<longleftrightarrow> (\<exists>f \<in> set knownSettingsFields. fst e = sf_Key f \<and> \<not> sf_ReadOnly f \<and> field_validate f (snd e) = None)"

lemma normalize_entries_sendable:
  assumes "\<forall>e \<in> set kept. sendable e" and "normalize_entries patch kept = Inr q"
  shows "\<forall>e \<in> set q. sendable e"
  using assms
proof (induction patch kept rule: normalize_entries.induct)
  case (2 key j patch kept)
  then obtain f v where f: "findFieldByKey key = Some f" "\<not> sf_ReadOnly f" "normalizeJSONSettingValue f j = Inr v"
      "normalize_entries patch (AList.update (sf_Key f) v kept) = Inr q"
    by (auto split: option.splits if_splits sum.splits)
  have "field_validate f v = None" using f(3) unfolding normalizeJSONSettingValue_def by (rule checked_valid)
  then have "sendable (sf_Key f, v)" using find_is_known [OF f(1)] f(2) by (auto simp: sendable_def)
  moreover have "set (AList.update k w xs) \<subseteq> insert (k, w) (set xs)" for k w and xs :: "(string \<times> setting_value) list"
    by (induction xs) auto
  ultimately have "\<forall>e \<in> set (AList.update (sf_Key f) v kept). sendable e" using 2(2) by blast
  then show ?case using 2(1) f by blast
qed simp

text \<open>
  Whatever is sent to change settings, key by key or as a patch, names fields that can be changed at run time, each with a
  value in its range.
\<close>

lemma sent_settings_sendable:
  "normalizeSettingsPatch patch = Inr q \<Longrightarrow> q \<noteq> [] \<longrightarrow> (\<forall>e \<in> set q. sendable e)"
  "cmdSettingsSetKeyValue vl key s = Inr q \<Longrightarrow> \<forall>e \<in> set q. sendable e"
proof -
  show "normalizeSettingsPatch patch = Inr q \<Longrightarrow> q \<noteq> [] \<longrightarrow> (\<forall>e \<in> set q. sendable e)"
    using normalize_entries_sendable [of "[]"] by (auto simp: normalizeSettingsPatch_def split: option.splits list.splits)
  show "cmdSettingsSetKeyValue vl key s = Inr q \<Longrightarrow> \<forall>e \<in> set q. sendable e"
    using parsed_valid find_is_known by (fastforce simp: cmdSettingsSetKeyValue_def sendable_def split: option.splits if_splits sum.splits)
qed

section \<open>What holds of contexts and targets\<close>

text \<open>There always is a context named local, and the current one exists.\<close>

definition config_ok :: "context_config \<Rightarrow> bool" where
  "config_ok c \<longleftrightarrow> cc_Contexts c ''local'' \<noteq> None \<and> cc_Contexts c (cc_Current c) \<noteq> None"

lemma normalized_ok: "config_ok (normalizeContextConfig c)"
  by (auto simp: config_ok_def normalizeContextConfig_def Let_def)

lemma loaded_ok: "context_Load file = Inr c \<Longrightarrow> config_ok c"
  by (auto simp: context_Load_def defaultContextConfig_def normalized_ok split: context_file.splits) (simp add: config_ok_def)

lemma changed_ok: "config_ok c \<Longrightarrow> context_change cmd c = Inr c' \<Longrightarrow> config_ok c'"
  by (cases cmd) (auto simp: context_change_def contextAdd_def contextUse_def contextRemove_def config_ok_def Let_def split: if_splits)

lemma normalized_again: "normalizeContextConfig (normalizeContextConfig c) = normalizeContextConfig c"
proof -
  have local: "trim_space ''local'' = ''local''" by code_simp
  show ?thesis by (auto simp: normalizeContextConfig_def Let_def local)
qed

text \<open>
  A command that succeeds has saved what it made of the configuration, so that the next one loads just that; a command that
  fails leaves the file.
\<close>

lemma context_command_saved:
  assumes "context_command_run writable cmd file = (None, file')"
  shows "\<exists>c c'. context_Load file = Inr c \<and> context_change cmd c = Inr c' \<and> context_Load file' = Inr (normalizeContextConfig c') \<and>
    (trim_space (cc_Current c') \<noteq> [] \<longrightarrow> context_Load file' = Inr c')"
proof -
  obtain c c' where c: "context_Load file = Inr c" "context_change cmd c = Inr c'" "file' = ContextFile (normalizeContextConfig c')"
    using assms by (auto simp: context_command_run_def context_Save_def split: sum.splits if_splits)
  moreover have "config_ok c'" using changed_ok [OF loaded_ok [OF c(1)] c(2)] .
  then have "normalizeContextConfig c' = c'" if "trim_space (cc_Current c') \<noteq> []"
    using that by (auto simp: normalizeContextConfig_def config_ok_def Let_def)
  ultimately show ?thesis by (auto simp: context_Load_def normalized_again)
qed

lemma failed_command_changes_nothing: "context_command_run writable cmd file = (Some e, file') \<Longrightarrow> file' = file"
  by (auto simp: context_command_run_def context_Save_def split: sum.splits if_splits)

text \<open>The names of contexts are kept in lower case, but looked up as they are given.\<close>

lemma context_name_case:
  assumes "contextAdd ''Home'' e defaultContextConfig = Inr c"
  shows "applyContextToOptions (ContextFile c) (opts\<lparr>op_Context := ''Home''\<rparr>) = Inl (UnknownContext ''Home'')"
proof -
  have names: "normalizeContextName ''Home'' = ''home''" "trim_space ''Home'' = ''Home''" "trim_space ''local'' = ''local''"
    by code_simp+
  show ?thesis using assms
    by (auto simp: contextAdd_def names defaultContextConfig_def applyContextToOptions_def context_Load_def
        normalizeContextConfig_def Let_def split: if_splits)
qed

text \<open>
  A torrent that is acted on was listed by the server, and is named beyond doubt: by its number, its hash, or as the only
  one of which the title fits.
\<close>

lemma target_is_unique:
  assumes "resolveTorrentID same_hash list identifier = Inr h"
  shows "\<exists>ts t. list = Some ts \<and> t \<in> set ts \<and> canonicalTorrentHash (tv_Hash t) = Inr h \<and>
    ((\<exists>n. ParseInt (trim_space identifier) = Some (int n) \<and> 0 < n \<and> n \<le> length ts \<and> t = ts ! (n - 1)) \<or>
     same_hash (tv_Hash t) (trim_space identifier) \<or> filter (title_matches (trim_space identifier)) ts = [t])"
proof -
  obtain ts where ts: "list = Some ts" "trim_space identifier \<noteq> []"
    using assms by (cases list) (auto simp: resolveTorrentID_def Let_def split: if_splits)
  show ?thesis
  proof (cases "ParseInt (trim_space identifier)")
    case (Some idx)
    then have idx: "1 \<le> idx" "idx \<le> int (length ts)" "canonicalTorrentHash (tv_Hash (ts ! nat (idx - 1))) = Inr h"
      using assms ts by (auto simp: resolveTorrentID_def Let_def split: if_splits)
    define n where "n = nat idx"
    have n: "idx = int n" "0 < n" "n \<le> length ts" using idx(1,2) by (simp_all add: n_def)
    then have "ts ! nat (idx - 1) = ts ! (n - 1)" by (simp add: nat_diff_distrib)
    then show ?thesis using Some ts(1) n idx(3) by (intro exI [of _ ts] exI [of _ "ts ! (n - 1)"]) auto
  next
    case None
    show ?thesis
    proof (cases "if length (trim_space identifier) = 40 then List.find (\<lambda>t. same_hash (tv_Hash t) (trim_space identifier)) ts else None")
      case (Some t)
      then have "t \<in> set ts \<and> same_hash (tv_Hash t) (trim_space identifier)" by (auto simp: find_Some_iff split: if_splits)
      moreover have "canonicalTorrentHash (tv_Hash t) = Inr h"
        using assms ts None Some by (simp add: resolveTorrentID_def Let_def split: if_splits)
      ultimately show ?thesis using ts(1) by blast
    next
      case none: None
      then obtain t where t: "filter (title_matches (trim_space identifier)) ts = [t]" "canonicalTorrentHash (tv_Hash t) = Inr h"
        using assms ts None by (auto simp: resolveTorrentID_def Let_def split: if_splits list.splits)
      have "t \<in> set (filter (title_matches (trim_space identifier)) ts)" unfolding t(1) by simp
      then have "t \<in> set ts" by simp
      then show ?thesis using t ts(1) by blast
    qed
  qed
qed

lemma file_size_panics:
  assumes "0 \<le> bytes"
  shows "formatFileSize bytes = Panic \<longleftrightarrow> 2 ^ 50 \<le> bytes"
proof (cases "bytes < 1024")
  case False
  obtain d e where de: "size_unit (bytes div 1024) 1024 0 = (d, e)" by fastforce
  have "1 \<le> bytes div 1024" using False by simp
  then have power: "1024 ^ e \<le> bytes div 1024" "bytes div 1024 < 1024 ^ (e + 1)" using size_unit_power [OF de] by simp_all
  have "4 \<le> e \<longleftrightarrow> (1024 :: int) ^ 4 \<le> bytes div 1024"
  proof
    assume "4 \<le> e"
    then have "(1024 :: int) ^ 4 \<le> 1024 ^ e" by (rule power_increasing) simp
    then show "(1024 :: int) ^ 4 \<le> bytes div 1024" using power(1) by linarith
  next
    assume "(1024 :: int) ^ 4 \<le> bytes div 1024"
    then have "(1024 :: int) ^ 4 < 1024 ^ (e + 1)" using power(2) by linarith
    then have "4 < e + 1" by (rule power_less_imp_less_exp [rotated]) simp
    then show "4 \<le> e" by simp
  qed
  moreover have "bytes div 1024 * 1024 \<le> bytes" "bytes < bytes div 1024 * 1024 + 1024" by presburger+
  moreover have "1099511627776 \<le> q \<longleftrightarrow> 1125899906842624 \<le> bytes" if "q * 1024 \<le> bytes" "bytes < q * 1024 + 1024" for q
    using that by presburger
  ultimately have "4 \<le> e \<longleftrightarrow> 2 ^ 50 \<le> bytes" by simp
  then have "e < length [''KB'', ''MB'', ''GB'', ''TB''] \<longleftrightarrow> \<not> 2 ^ 50 \<le> bytes" by auto
  then show ?thesis using False de unfolding formatFileSize_def by auto
qed (simp add: formatFileSize_def)

text \<open>Nothing is destroyed without a yes.\<close>

lemma destroys_after_yes:
  "confirmDestructiveAction yes interactive cancelled written answer = None \<longleftrightarrow>
     yes \<or> (interactive \<and> \<not> cancelled \<and> written \<and> (\<exists>line. answer = Inr line \<and> fold_equal ''yes'' (trim_space line)))"
  by (auto simp: confirmDestructiveAction_def split: sum.splits)

section \<open>Sizes\<close>

lemma trim_trailing_blank:
  assumes "hd s \<in> set plain_chars" and "last s \<in> set plain_chars" and "s \<noteq> []"
  shows "trim_space (s @ '' '') = s"
proof -
  obtain c t where s: "s = c # t" using assms(3) by (cases s) auto
  have "trim_left (s @ '' '') = s @ '' ''"
    using trim_with_plain [of spaces c "length (s @ '' '')" "t @ '' ''"] plain_not_space assms(1)
    unfolding trim_left_def s append_Cons by auto
  moreover have "trim_right (s @ '' '') = s"
  proof -
    have blank: "List.find (has_prefix (CHR '' '' # rev s)) (map rev spaces) = Some '' ''"
      by (simp add: spaces_def ascii_spaces_def has_prefix_def)
    have "rev s = last s # rev (butlast s)" using assms(3) by (metis append_butlast_last_id rev_eq_Cons_iff rev_rev_ident)
    moreover have "\<forall>p \<in> set (map rev spaces). p \<noteq> [] \<and> hd p \<noteq> last s"
      using plain_not_space assms(2) by (auto simp: hd_rev)
    ultimately have "trim_with (length s) (map rev spaces) (rev s) = rev s" using trim_with_plain by metis
    then show ?thesis using blank by (simp add: trim_right_def trim_prefix_def)
  qed
  ultimately show ?thesis by (simp add: trim_space_def)
qed

lemma number_text:
  assumes "0 \<le> n"
  shows "FormatInt n \<noteq> []" "set (FormatInt n) \<subseteq> set ''0123456789''" "set (FormatInt n) \<subseteq> set plain_chars"
  using assms digits_of_chars [of "nat n"] digits_plain [of "nat n"] by (simp_all add: FormatInt_def)

lemma upper_digits: "c \<in> set ''0123456789'' \<Longrightarrow> upper_char c = c"
proof -
  have "\<forall>c \<in> set ''0123456789''. upper_char c = c" by code_simp
  then show "c \<in> set ''0123456789'' \<Longrightarrow> ?thesis" by blast
qed

lemma upper_number: "0 \<le> n \<Longrightarrow> map upper_char (FormatInt n) = FormatInt n"
  using number_text(2) [of n] upper_digits by (intro map_idI) blast

lemma number_ends:
  assumes "0 \<le> n"
  shows "hd (FormatInt n) \<in> set plain_chars" "last (FormatInt n) \<in> set plain_chars"
  by (rule subsetD [OF number_text(3) [OF assms] hd_in_set [OF number_text(1) [OF assms]]])
    (rule subsetD [OF number_text(3) [OF assms] last_in_set [OF number_text(1) [OF assms]]])

text \<open>A number and a suffix are taken apart as they were put together.\<close>

lemma sized_text:
  assumes "0 \<le> k" and "suffix \<in> {''GB'', ''MB'', ''KB''}"
  shows "trim_space (FormatInt k @ '' '' @ suffix) = FormatInt k @ '' '' @ suffix"
    and "map upper_char (FormatInt k @ '' '' @ suffix) = FormatInt k @ '' '' @ suffix"
    and "trim_space (trim_suffix (FormatInt k @ '' '' @ suffix) suffix) = FormatInt k"
proof -
  have B: "CHR ''B'' \<in> set plain_chars" "map upper_char '' GB'' = '' GB''" "map upper_char '' MB'' = '' MB''" "map upper_char '' KB'' = '' KB''"
    by code_simp+
  show "trim_space (FormatInt k @ '' '' @ suffix) = FormatInt k @ '' '' @ suffix"
    using number_ends(1) [OF assms(1)] number_text(1) [OF assms(1)] assms(2) B by (intro trim_space_plain) auto
  show "map upper_char (FormatInt k @ '' '' @ suffix) = FormatInt k @ '' '' @ suffix"
    using upper_number [OF assms(1)] assms(2) B by auto
  have "trim_suffix ((FormatInt k @ '' '') @ suffix) suffix = FormatInt k @ '' ''" by (rule trim_suffix_append)
  then show "trim_space (trim_suffix (FormatInt k @ '' '' @ suffix) suffix) = FormatInt k"
    using trim_trailing_blank [OF number_ends [OF assms(1)] number_text(1) [OF assms(1)]] by simp
qed

lemma plain_number:
  assumes "0 \<le> n"
  shows "trim_space (FormatInt n) = FormatInt n" and "\<not> has_suffix (FormatInt n) (p @ ''B'')"
proof -
  show "trim_space (FormatInt n) = FormatInt n"
    by (rule trim_space_plain [OF number_ends [OF assms] number_text(1) [OF assms]])
  have "CHR ''B'' \<notin> set (FormatInt n)" using number_text(2) [OF assms] by auto
  then show "\<not> has_suffix (FormatInt n) (p @ ''B'')" by (auto simp: has_suffix_iff)
qed

text \<open>What is shown as a size reads back as the same number, given that decimal integers are read as what they are.\<close>

lemma byte_size_roundtrip:
  assumes "0 \<le> n" and "n < 2 ^ 53" and float: "\<And>k. 0 \<le> k \<Longrightarrow> k < 2 ^ 53 \<Longrightarrow> vl_ParseFloat vl (FormatInt k) = Some (of_int k)"
  shows "parseByteSize vl (formatByteSize n) = Some n"
proof -
  have fits: "int64_of_float (of_int n) = n" using assms(1,2) by (simp add: int64_of_float_def fits_i64_def)
  have small: "(of_int n :: rat) \<le> 9223372036854775808"
  proof -
    have "(of_int n :: rat) \<le> of_int 9223372036854775808" using assms(2) by (simp only: of_int_le_iff) simp
    then show ?thesis by simp
  qed
  have result: "parseByteSize vl s = Some n"
    if "(case List.find (\<lambda>(suffix, f). has_suffix (map upper_char (trim_space s)) suffix) size_suffixes of
         None \<Rightarrow> (map upper_char (trim_space s), 1)
       | Some (suffix, f) \<Rightarrow> (trim_space (trim_suffix (map upper_char (trim_space s)) suffix), f)) = (FormatInt k, f)"
      and "0 \<le> k" and "0 < f" and "n = k * f" for s k f
  proof -
    have "k \<le> n" using that(2-4) by (simp add: mult_le_cancel_left1)
    then have "vl_ParseFloat vl (FormatInt k) = Some (of_int k)" using that(2) assms(2) float [of k] by simp
    moreover have "float64 (of_int k * of_int f) = of_int n" using that(4) float64_int [OF assms(1,2)] by simp
    moreover have "\<not> (of_int k :: rat) < 0" using that(2) by simp
    ultimately show ?thesis unfolding parseByteSize_def Let_def that(1) using fits small by simp
  qed
  have sized: "parseByteSize vl (FormatInt k @ '' '' @ suffix) = Some n"
    if "(suffix, f) \<in> set size_suffixes" and "0 \<le> k" and "n = k * f" for suffix f k
  proof (rule result [OF _ that(2) _ that(3)])
    have suffix: "suffix \<in> {''GB'', ''MB'', ''KB''}" and "0 < f" using that(1) by (auto simp: size_suffixes_def)
    then show "0 < f" by simp
    have "List.find (\<lambda>(suffix', f). has_suffix (FormatInt k @ '' '' @ suffix) suffix') size_suffixes = Some (suffix, f)"
      using that(1) by (auto simp: size_suffixes_def has_suffix_def has_prefix_def)
    then show "(case List.find (\<lambda>(suffix', f). has_suffix (map upper_char (trim_space (FormatInt k @ '' '' @ suffix))) suffix') size_suffixes of
         None \<Rightarrow> (map upper_char (trim_space (FormatInt k @ '' '' @ suffix)), 1)
       | Some (suffix', f) \<Rightarrow> (trim_space (trim_suffix (map upper_char (trim_space (FormatInt k @ '' '' @ suffix))) suffix'), f)) = (FormatInt k, f)"
      unfolding sized_text(1,2) [OF that(2) suffix] using sized_text(3) [OF that(2) suffix] by simp
  qed
  show ?thesis
  proof (cases "List.find (\<lambda>(suffix, f). n \<ge> f \<and> go_mod n f = 0) size_suffixes")
    case None
    have "List.find (\<lambda>(suffix, f). has_suffix (FormatInt n) suffix) size_suffixes = None"
      using plain_number(2) [OF assms(1), of "''G''"] plain_number(2) [OF assms(1), of "''M''"] plain_number(2) [OF assms(1), of "''K''"]
      by (simp add: size_suffixes_def)
    then have "parseByteSize vl (FormatInt n) = Some n"
      using plain_number(1) [OF assms(1)] upper_number [OF assms(1)] assms(1) by (intro result [of _ n 1]) simp_all
    then show ?thesis unfolding formatByteSize_def None by simp
  next
    case (Some e)
    obtain suffix f where e: "e = (suffix, f)" by fastforce
    obtain i where i: "i < length size_suffixes" "size_suffixes ! i = (suffix, f)" "f \<le> n" "go_mod n f = 0"
      using Some e by (auto simp: find_Some_iff)
    then have f: "(suffix, f) \<in> set size_suffixes" "f \<le> n" "go_mod n f = 0" using nth_mem [OF i(1)] by auto
    then have "0 < f" by (auto simp: size_suffixes_def)
    then have "0 \<le> go_div n f" "n = go_div n f * f" using f(3) assms(1) by (simp_all add: go_arith go_mod_def pos_imp_zdiv_nonneg_iff mult.commute)
    then have "parseByteSize vl (FormatInt (go_div n f) @ '' '' @ suffix) = Some n" using sized [OF f(1)] by blast
    then show ?thesis unfolding formatByteSize_def Some e by simp
  qed
qed

end
