(* ===== verification/Spec2Isabelle.thy ===== *)
theory Spec2Isabelle
  imports Go_Prelude Settings Ranges Cache_Metrics Cache_State Mem_Piece Readers Cleanup
    Cache_Accounting Cleanup_Props Piece_Store Cleanup_Runs Priority Lifecycle Go_Time Go_Strings
    Stream_Admission Stream_Delivery Stream_Fairness Stream_Policy Stream_Content
    Stream_Writer Torrent_Lifecycle Torrent_Races Torrent_Records Torrent_Service Trackers Auth_Gate Torrent_Token Ip_Blocker Utilities
    Go_Paths Release_Bundle Release_Props Config_Loading Settings_Service Torrent_Files Playback_Service Stream_API
    Torrents_API Torznab_Search Capacity_Diagnostics Daemon Client_Config Error_Text Secret_Text Management_Client Command_Line
    Store_Interface Store_Cache Store_JSON Store_Bolt Store_Router Store_Migration
begin

text \<open>
  A verification library for the core of a streaming torrent server (src/server, in Go).

  The server downloads torrents through the library anacrolix/torrent and streams their files over HTTP while they arrive.
  Pieces pass through a bounded cache per torrent; readers move a window over it; priorities tell the library what to fetch
  next; admission and fairness share the machine between streams. Settings, torrents and viewed marks are kept in a database
  of two files. A configuration file, an API with accounts, a WebDAV tree, and a tool for releases are around it.

  \<^bold>\<open>How the parts interact.\<close> A request reaches a handler of the API (Stream_API), which finds or adds the torrent
  (Playback_Service, Torrent_Service, Torrent_Lifecycle), is admitted (Stream_Admission), is warmed up by policy
  (Stream_Policy), and is served by a seeker over a reader of the cache (Stream_Content, Readers) through a writer that
  measures and delays (Stream_Writer, Stream_Delivery, Stream_Fairness). A read of a reader changes its window, which the
  cleanup of the cache (Cleanup) and the priorities (Priority) look at; a piece that the library writes (Mem_Piece,
  Piece_Store) changes the accounts of the cache (Cache_Metrics, Cache_State) and asks for a cleanup. The settings that all of
  them use are a record (Settings) that is loaded from the database (Store_Router over Store_Bolt and Store_JSON, behind
  Store_Cache), overlaid by the configuration (Config_Loading) and changed over the API (Settings_Service).

  \<^bold>\<open>Shared theories.\<close>
  \<^item> Go_Prelude: 32 and 64 bit integers with their wrap-around, truncating division, byte strings with trimming, prefixes and
    lower case, and the locales \<open>guarded_system\<close> and \<open>step_system\<close>, in which invariants of runs are proved once.
  \<^item> Go_Time (durations, \<open>float64\<close> as a rounding of rationals), Go_Strings (searching, splitting, decimal integers, runes),
    Go_Paths (path and path/filepath, fields, lines).

  \<^bold>\<open>The piece cache\<close> (torr/storage/torrstor).
  \<^item> Ranges: ranges.go. Merging the windows of readers keeps the set of pieces that they cover.
  \<^item> Cache_Metrics: the structs of cache.go, piece.go, reader.go and cache_metrics.go as one record \<open>world\<close> (the cache, the
    aggregates of the process, the chunk pool, the goroutines asked for). Cache_State: cache_state.go and the resident set.
  \<^item> Mem_Piece: mempiece.go. A piece in 16 KiB chunks from a pool of used ones behaves as one flat array of bytes, for reads
    and writes at every offset. Piece_Store: piece.go, diskpiece.go, piecefake.go.
  \<^item> Readers: reader.go. Position, read-ahead, idling, the window of pieces; the window contains the piece that is read.
  \<^item> Cleanup, Cleanup_Props: cache_cleanup.go, the release of pieces and the protected windows. A pass spares the readers,
    evicts in least recently used order and reaches the capacity when it can. Cleanup_Runs: the same loop as goroutines run it,
    with those that wait for it and with writes between its rounds; every call over pieces in memory comes to its end.
  \<^item> Cache_Accounting: filled bytes, resident set and chunk counter are what the pieces hold after every operation.
  \<^item> Priority: cache_priority.go. Lifecycle: cache_lifecycle.go with the snapshot for the API; from Init to Close a cache
    leaves the gauges of the process as they were.
  \<^item> Capacity_Diagnostics: capacity_diagnostics.go, the view of the caches for the debug endpoint.

  \<^bold>\<open>Streams\<close> (torr).
  \<^item> Stream_Admission: stream_admission.go. The registry is one record, its methods are the atomic steps of any number of
    requests; counters, limits, and that a request whose time is over is decided.
  \<^item> Stream_Delivery, Stream_Fairness: stream_delivery.go, stream_health.go, stream_startup.go, stream_fairness.go.
  \<^item> Stream_Policy: connection_policy.go, parts of torrent.go, torrent_playback.go, stream_http.go, peer_acquisition.go and
    preload.go. Stream_Content, Stream_Writer: stream_content.go and stream.go; what a stream delivers is the file.

  \<^bold>\<open>Torrents.\<close>
  \<^item> Torrent_Lifecycle: torrent_lifecycle.go, torrent_metadata.go, torrent_playback.go, preload.go, the registries of torrents
    and caches; an unused torrent is closed when its time is over, and one in use is not. Torrent_Races: the same operations in
    the steps that their locks leave.
  \<^item> Torrent_Records: settings/torrent.go over any database with the contract; the specification of a torrent is a record of the
    fields that the program looks at and a text for the others. Torrent_Service: dbstore.go, service_adapter.go
    and apiservices/torrent_service.go. Torrent_Token: package torrshash. Trackers: torr/utils/torrent.go.
  \<^item> Torrent_Files: package torrfs and its WebDAV adapter, as a tree of names; any name a client sends is answered as the tree
    says.

  \<^bold>\<open>Settings and their database\<close> (settings, config).
  \<^item> Settings: btsets.go, its defaults, profiles and views; normal form after loading and after an update.
  \<^item> Store_Interface: the interface of torrserverdb.go as a record of operations, the contract of its providers as the locale
    \<open>torr_store\<close>. Store_Cache (dbreadcache.go), Store_JSON (jsondb.go), Store_Bolt (db.go), Store_Router (xpathdbrouter.go)
    provide it; the database of the program refines one map. Store_Migration: migrate_*.go, switches, viewed marks.
  \<^item> Config_Loading: config.go, converter.go, static_config.go, provider.go. Settings_Service: the record of the API, its
    conversions and patches, the controller that applies them, and which requests save what they set.

  \<^bold>\<open>The API and its guards.\<close>
  \<^item> Playback_Service: torrentparse/parse.go, apiservices/stream_service.go and playback.go. Stream_API: the handlers of the
    stream, play and playlist routes; an execution is its answer and the list of calls it makes, so that what a client without
    an account can change is a statement about that list.
  \<^item> Torrents_API: torrents.go and upload.go of web/api in the same way. Torznab_Search: torznab.go, the search over a breaker.
  \<^item> Auth_Gate: packages auth and web/auth and the guard of the shutdown. Ip_Blocker: package web/blocker. Utilities: package
    utils.
  \<^item> Daemon: internal/daemon, the start of internal/app/runtime_server.go, internal/startup and bootstrap/cleanup.go: arguments,
    ports, how the process ends, and which directories the removal of unused caches deletes.
  \<^item> Client_Config: torr/btserver_config.go, package proxy and the private networks of btserver.go: what the torrent library
    is configured with, which addresses are published, and what the proxy covers.
  \<^item> Release_Bundle, Release_Props: internal/releasebundle.

  \<^bold>\<open>The management client\<close> (internal/apiclient, internal/cliapp).
  \<^item> Error_Text: the redaction of errors.go. Secret_Text: what is shown of a text is the same for all values of a secret that
    it names, with the values for which this fails set apart.
  \<^item> Management_Client: client.go, operations.go, compatibility.go, types.go. Requests stay below the configured address,
    answers are bounded, the server of this repository is accepted.
  \<^item> Command_Line: settings and the values they take, contexts, how torrents and files are named, sources of torrents,
    confirmations; what is sent is in range, sizes read back as they were shown.

  \<^bold>\<open>How the model is made.\<close> A struct is a record, an enumeration or an interface with fixed implementers is a datatype. State
  is passed explicitly; what a mutex protects is one step. Goroutines are sequences of such steps in any order: inductive or
  \<open>foldl\<close> runs with an invariant. An error is a value of a sum or an option, and a panic is an outcome of its own where the
  code can reach one. Integers are \<open>int\<close> with the wrap-around written out (\<open>i64\<close>, \<open>i32\<close>); where an operation has no wrap,
  its values are lengths or counts that cannot reach the bound. The order in which a Go map is visited is an argument, and so
  are the clock, what the file system and the network answer, and what an unstable sort does with equal elements where it
  matters. Log lines are left out.

  \<^bold>\<open>Parameters.\<close> Code outside of the repository is an argument with the laws that the code relies on: bbolt
  (\<open>bolt_library\<close>), encoding/json (\<open>json_codec\<close>, and the codecs of single records), compress/zlib (\<open>zlib_codec\<close>), bcrypt and the
  coding of users (\<open>user_codec\<close>), net/url, the lower case of letters beyond
  ASCII in host names, the decoder of YAML, archive/tar, archive/zip and crypto/sha256, http.ServeContent as
  the caller of a seeker, and the torrent library: its priorities, its completion of pieces, its torrents. Every locale is
  interpreted, on the model where it is a contract between parts of the program, and on a small concrete library where it
  describes code from outside; each property that needs such laws has a witness on that instance.

  \<^bold>\<open>Bounds and fuel.\<close> The loops of a piece carry fuel: as many rounds as there are bytes are enough (MemPiece_WriteAt_array),
  and a write beyond the end of a short piece is shown to need more than any (write_past_end_spins). The loop of the cleanup
  carries as fuel the rounds that others ask for while it runs; a call that finds a cleanup running does not end alone, but over
  interleavings the rounds are at most the bytes held and written, plus one (cleanups_end). All other loops are recursive
  functions that are proved to terminate, with a measure where the recursion is not structural (base 62, fields of a token,
  look-up of a path, binary search, runes).

  \<^bold>\<open>What the theorems do not say.\<close> A method that runs under a mutex is taken to be atomic, the memory model of Go and the
  scheduling of goroutines are not modelled, and liveness is stated per request, given that its timer fires.

  \<^bold>\<open>Not modelled.\<close> The glue to third-party code, where there is nothing to state but the calls: starting and
  stopping the client of the torrent library (btserver_runtime.go), the HTTP server and its middleware (web/server.go,
  webinfra, sslcerts, the routes that only bind a request and call one service), the tree of commands with its flags, tables
  and help (cobra_root.go), the transport below the management client, the construction of the services (app, bootstrap),
  DLNA and FUSE, the registration of metrics, logging, ffprobe; and generated code (docs/docs.go, mocks).
\<close>

end
